(* ===== verification/NebPrelude.thy ===== *)
theory NebPrelude
  imports Main "HOL-Library.Word" "HOL-Library.AList"
begin

section \<open>Shared vocabulary of the development\<close>

text \<open>
  What every component uses: JavaScript errors as values, \<^verbatim>\<open>Map\<close> objects as association
  lists in insertion order, \<^verbatim>\<open>bigint\<close> division, byte strings with their hexadecimal form,
  decimal numerals, and the generic notion of an invariant of a transition system.
  \<^item> \<^verbatim>\<open>bigint\<close> is \<open>int\<close>. A JavaScript \<^verbatim>\<open>number\<close> that counts ledgers or seconds is
    \<open>int\<close> too: all such values of the program are integers far below \<open>2 ^ 53\<close>, where
    double arithmetic is exact.
  \<^item> A \<^verbatim>\<open>Map\<close> keeps its entries in insertion order and \<^verbatim>\<open>set\<close> on a present key keeps its
    place, which is what \<open>AList.update\<close> does.
  \<^item> An operation that may throw after it has already written returns the error
    \<^emph>\<open>together with the state at the throw\<close>: there is no roll-back in the program.
\<close>

named_theorems op_defs \<open>definitions of the state changing operations\<close>
named_theorems js_map_simps \<open>lookup laws of maps\<close>

type_synonym address = string
type_synonym byte = "8 word"
type_synonym bytes = "byte list"

subsection \<open>Errors and outcomes\<close>

text \<open>
  \<^verbatim>\<open>MockContractError\<close> carries a numeric code (its message never leaves the executor: the
  server reports the code only, see \<^verbatim>\<open>toSorobanErrorString\<close>); a plain \<^verbatim>\<open>Error\<close> is reported by
  its message.
\<close>

datatype js_error = MockContractError int | JsError string

type_synonym ('a, 's) outcome = "(js_error + 'a) \<times> 's"

abbreviation throws :: "js_error \<Rightarrow> 's \<Rightarrow> ('a, 's) outcome" where
  "throws e s \<equiv> (Inl e, s)"

abbreviation returns :: "'a \<Rightarrow> 's \<Rightarrow> ('a, 's) outcome" where
  "returns v s \<equiv> (Inr v, s)"

abbreviation succeeds :: "('a, 's) outcome \<Rightarrow> bool" where
  "succeeds r \<equiv> (\<exists>v. fst r = Inr v)"

lemma outcome_eqI: "fst r = v \<Longrightarrow> r = (v, snd r)"
  by (cases r) simp

subsection \<open>JavaScript maps\<close>

type_synonym ('k, 'v) js_map = "('k \<times> 'v) list"

definition js_get :: "('k, 'v) js_map \<Rightarrow> 'k \<Rightarrow> 'v option" where
  "js_get m k = map_of m k"

definition js_has :: "('k, 'v) js_map \<Rightarrow> 'k \<Rightarrow> bool" where
  "js_has m k = (case js_get m k of None \<Rightarrow> False | Some _ \<Rightarrow> True)"

text \<open>\<^verbatim>\<open>m.get(k) ?? d\<close>\<close>

definition js_getd :: "'v \<Rightarrow> ('k, 'v) js_map \<Rightarrow> 'k \<Rightarrow> 'v" where
  "js_getd d m k = (case js_get m k of None \<Rightarrow> d | Some v \<Rightarrow> v)"

definition js_set :: "('k, 'v) js_map \<Rightarrow> 'k \<Rightarrow> 'v \<Rightarrow> ('k, 'v) js_map" where
  "js_set m k v = AList.update k v m"

definition js_delete :: "('k, 'v) js_map \<Rightarrow> 'k \<Rightarrow> ('k, 'v) js_map" where
  "js_delete m k = AList.delete k m"

definition js_keys :: "('k, 'v) js_map \<Rightarrow> 'k list" where
  "js_keys m = map fst m"

definition js_values :: "('k, 'v) js_map \<Rightarrow> 'v list" where
  "js_values m = map snd m"

definition js_map_wf :: "('k, 'v) js_map \<Rightarrow> bool" where
  "js_map_wf m = distinct (map fst m)"

text \<open>
  The interface of a mutable dictionary: what a client may rely on. The laws are discharged
  for the association lists above; clients use the derived facts.
\<close>

locale keyed_map =
  fixes get :: "'m \<Rightarrow> 'k \<Rightarrow> 'v option"
    and set :: "'m \<Rightarrow> 'k \<Rightarrow> 'v \<Rightarrow> 'm"
    and del :: "'m \<Rightarrow> 'k \<Rightarrow> 'm"
    and wf :: "'m \<Rightarrow> bool"
  assumes get_set: "get (set m k v) j = (if j = k then Some v else get m j)"
    and get_del: "get (del m k) j = (if j = k then None else get m j)"
    and wf_set: "wf m \<Longrightarrow> wf (set m k v)"
    and wf_del: "wf m \<Longrightarrow> wf (del m k)"
begin

lemma get_set_same: "get (set m k v) k = Some v"
  by (simp add: get_set)

lemma get_set_other: "j \<noteq> k \<Longrightarrow> get (set m k v) j = get m j"
  by (simp add: get_set)

lemma get_set_set: "get (set (set m k v) k w) = get (set m k w)"
  by (rule ext) (simp add: get_set)

lemma get_set_swap: "k \<noteq> k' \<Longrightarrow> get (set (set m k v) k' w) = get (set (set m k' w) k v)"
  by (rule ext) (simp add: get_set)

lemma get_del_set: "get (del (set m k v) k) = get (del m k)"
  by (rule ext) (simp add: get_set get_del)

lemma wf_fold_set: "wf m \<Longrightarrow> wf (fold (\<lambda>(k, v) m. set m k v) kvs m)"
  by (induction kvs arbitrary: m) (auto simp: wf_set split: prod.splits)

end

lemma js_get_set [simp, js_map_simps]:
  "js_get (js_set m k v) j = (if j = k then Some v else js_get m j)"
  by (simp add: js_get_def js_set_def update_conv')

lemma js_get_delete [simp, js_map_simps]:
  "js_get (js_delete m k) j = (if j = k then None else js_get m j)"
  by (simp add: js_get_def js_delete_def delete_conv')

lemma js_map_wf_set [simp]: "js_map_wf m \<Longrightarrow> js_map_wf (js_set m k v)"
  by (simp add: js_map_wf_def js_set_def distinct_update)

lemma js_map_wf_delete [simp]: "js_map_wf m \<Longrightarrow> js_map_wf (js_delete m k)"
  by (simp add: js_map_wf_def js_delete_def distinct_delete)

interpretation jsm: keyed_map js_get js_set js_delete js_map_wf
  by unfold_locales simp_all

lemma js_get_Nil [simp]: "js_get [] k = None"
  by (simp add: js_get_def)

lemma js_map_wf_Nil [simp]: "js_map_wf []"
  by (simp add: js_map_wf_def)

lemma js_has_iff: "js_has m k \<longleftrightarrow> js_get m k \<noteq> None"
  by (auto simp: js_has_def split: option.splits)

lemma js_has_set [simp]: "js_has (js_set m k v) j \<longleftrightarrow> j = k \<or> js_has m j"
  by (simp add: js_has_iff)

lemma js_getd_set [simp]: "js_getd d (js_set m k v) j = (if j = k then v else js_getd d m j)"
  by (simp add: js_getd_def)

lemma js_getd_Nil [simp]: "js_getd d [] k = d"
  by (simp add: js_getd_def)

lemma js_getd_Some: "js_get m k = Some v \<Longrightarrow> js_getd d m k = v"
  by (simp add: js_getd_def)

lemma js_get_in_keys: "js_get m k \<noteq> None \<longleftrightarrow> k \<in> set (js_keys m)"
  by (simp add: js_get_def js_keys_def map_of_eq_None_iff)

lemma js_keys_set:
  "js_keys (js_set m k v) = (if js_has m k then js_keys m else js_keys m @ [k])"
  by (simp add: js_keys_def js_set_def js_has_iff js_get_def update_keys map_of_eq_None_iff)

lemma js_get_in_set: "js_get m k = Some v \<Longrightarrow> (k, v) \<in> set m"
  by (simp add: js_get_def map_of_SomeD)

lemma js_get_wf: "js_map_wf m \<Longrightarrow> js_get m k = Some v \<longleftrightarrow> (k, v) \<in> set m"
  by (simp add: js_get_def js_map_wf_def)

text \<open>A sum over the entries of a map, and how \<^verbatim>\<open>set\<close> and \<^verbatim>\<open>delete\<close> move it.\<close>

definition js_wsum :: "('k \<Rightarrow> 'v \<Rightarrow> int) \<Rightarrow> ('k, 'v) js_map \<Rightarrow> int" where
  "js_wsum w m = sum_list (map (\<lambda>(k, v). w k v) m)"

definition js_sum :: "('k, int) js_map \<Rightarrow> int" where
  "js_sum m = js_wsum (\<lambda>_ v. v) m"

lemma js_wsum_Nil [simp]: "js_wsum w [] = 0"
  by (simp add: js_wsum_def)

lemma js_sum_Nil [simp]: "js_sum [] = 0"
  by (simp add: js_sum_def)

lemma js_wsum_set:
  "js_wsum w (js_set m k v) =
     js_wsum w m - (case js_get m k of None \<Rightarrow> 0 | Some u \<Rightarrow> w k u) + w k v"
proof (induction m)
  case Nil
  then show ?case by (simp add: js_wsum_def js_set_def)
next
  case (Cons p m)
  then show ?case
    by (cases p) (auto simp: js_wsum_def js_set_def js_get_def)
qed

lemma js_delete_absent: "js_get m k = None \<Longrightarrow> js_delete m k = m"
  by (induction m) (auto simp: js_get_def js_delete_def split: if_splits)

lemma js_wsum_delete:
  assumes "js_map_wf m"
  shows "js_wsum w (js_delete m k) =
     js_wsum w m - (case js_get m k of None \<Rightarrow> 0 | Some u \<Rightarrow> w k u)"
  using assms
proof (induction m)
  case Nil
  then show ?case by (simp add: js_wsum_def js_delete_def)
next
  case (Cons p m)
  obtain a b where p: "p = (a, b)" by (cases p)
  show ?case
  proof (cases "k = a")
    case True
    then have "js_get m k = None"
      using Cons.prems p by (simp add: js_map_wf_def js_get_def map_of_eq_None_iff)
    then have "js_delete m k = m" by (rule js_delete_absent)
    then show ?thesis using True p by (simp add: js_wsum_def js_delete_def js_get_def)
  next
    case False
    then show ?thesis
      using Cons p by (simp add: js_wsum_def js_delete_def js_get_def js_map_wf_def)
  qed
qed

lemma js_wsum_cong:
  "(\<And>k v. (k, v) \<in> set m \<Longrightarrow> w k v = w' k v) \<Longrightarrow> js_wsum w m = js_wsum w' m"
  unfolding js_wsum_def by (intro arg_cong [where f = sum_list] map_cong) auto

lemma js_wsum_nonneg: "(\<And>k v. (k, v) \<in> set m \<Longrightarrow> 0 \<le> w k v) \<Longrightarrow> 0 \<le> js_wsum w m"
  unfolding js_wsum_def by (intro sum_list_nonneg) auto

lemma js_wsum_member_le:
  "(k, v) \<in> set m \<Longrightarrow> (\<And>k v. (k, v) \<in> set m \<Longrightarrow> 0 \<le> w k v) \<Longrightarrow> w k v \<le> js_wsum w m"
proof (induction m)
  case Nil
  then show ?case by simp
next
  case (Cons p m)
  obtain a b where p: "p = (a, b)" by (cases p)
  have "0 \<le> js_wsum w m" using Cons.prems(2) by (intro js_wsum_nonneg) auto
  moreover have "0 \<le> w a b" using Cons.prems(2) [of a b] p by simp
  moreover have "(k, v) \<in> set m \<Longrightarrow> w k v \<le> js_wsum w m"
    using Cons.IH Cons.prems(2) by simp
  ultimately show ?case using Cons.prems(1) p by (auto simp: js_wsum_def)
qed

lemma js_sum_set: "js_sum (js_set m k v) = js_sum m - js_getd 0 m k + v"
  by (simp add: js_sum_def js_wsum_set js_getd_def split: option.splits)

lemma js_sum_delete: "js_map_wf m \<Longrightarrow> js_sum (js_delete m k) = js_sum m - js_getd 0 m k"
  by (simp add: js_sum_def js_wsum_delete js_getd_def split: option.splits)

subsection \<open>Division of bigints\<close>

text \<open>\<^verbatim>\<open>a / b\<close> on \<^verbatim>\<open>bigint\<close> truncates towards zero. (It throws on a zero divisor; the program
  divides by a value it has tested, or by a constant.)\<close>

definition bdiv :: "int \<Rightarrow> int \<Rightarrow> int" where
  "bdiv a b = sgn a * sgn b * (\<bar>a\<bar> div \<bar>b\<bar>)"

lemma bdiv_nonneg: "0 \<le> a \<Longrightarrow> 0 \<le> b \<Longrightarrow> bdiv a b = a div b"
  by (cases "a = 0"; cases "b = 0") (auto simp: bdiv_def)

lemma bdiv_le_iff:
  assumes "0 \<le> a" "0 < b"
  shows "c \<le> bdiv a b \<longleftrightarrow> c * b \<le> a"
proof -
  have d: "bdiv a b = a div b" using assms by (simp add: bdiv_nonneg)
  have low: "a div b * b \<le> a"
    using assms by (simp add: minus_mod_eq_div_mult [symmetric])
  show ?thesis
  proof
    assume "c \<le> bdiv a b"
    then have "c * b \<le> a div b * b" using d assms by simp
    then show "c * b \<le> a" using low by linarith
  next
    assume "c * b \<le> a"
    then have "(c * b) div b \<le> a div b" using assms by (intro zdiv_mono1)
    then show "c \<le> bdiv a b" using d assms by simp
  qed
qed

lemma bdiv_ge_0: "0 \<le> a \<Longrightarrow> 0 \<le> b \<Longrightarrow> 0 \<le> bdiv a b"
  by (cases "b = 0") (auto simp: bdiv_nonneg pos_imp_zdiv_nonneg_iff)

lemma bdiv_mult_le: "0 \<le> a \<Longrightarrow> 0 < b \<Longrightarrow> bdiv a b * b \<le> a"
  using bdiv_le_iff [of a b "bdiv a b"] by simp

lemma bdiv_less_iff: "0 \<le> a \<Longrightarrow> 0 < b \<Longrightarrow> bdiv a b < c \<longleftrightarrow> a < c * b"
  using bdiv_le_iff [of a b c] by auto

lemma bdiv_mono: "0 \<le> a \<Longrightarrow> a \<le> a' \<Longrightarrow> 0 < b \<Longrightarrow> bdiv a b \<le> bdiv a' b"
  by (simp add: bdiv_nonneg zdiv_mono1)

end
