(* ===== verification/NebText.thy ===== *)
theory NebText
  imports NebPrelude
begin

section \<open>Hexadecimal and decimal text\<close>

text \<open>
  The pieces of the JavaScript standard library the program uses on text:
  \<^verbatim>\<open>Buffer.toString("hex")\<close>, \<^verbatim>\<open>Buffer.from(s, "hex")\<close>, \<^verbatim>\<open>String(n)\<close> and \<^verbatim>\<open>parseInt(s, 10)\<close>,
  \<^verbatim>\<open>toLowerCase\<close>, and matching a literal prefix of a regular expression. Text is ASCII; a
  character is its byte, so \<open>str_bytes\<close> is the UTF-8 encoding.
\<close>

definition str_bytes :: "string \<Rightarrow> bytes" where
  "str_bytes s = map (\<lambda>c. of_nat (of_char c)) s"

subsection \<open>Hexadecimal\<close>

definition hex_digit :: "nat \<Rightarrow> char" where
  "hex_digit n = (if n < 10 then char_of (48 + n) else char_of (87 + n))"

definition hex_value :: "char \<Rightarrow> nat option" where
  "hex_value c = (let n = of_char c :: nat in
     if 48 \<le> n \<and> n \<le> 57 then Some (n - 48)
     else if 97 \<le> n \<and> n \<le> 102 then Some (n - 87)
     else if 65 \<le> n \<and> n \<le> 70 then Some (n - 55)
     else None)"

fun to_hex :: "bytes \<Rightarrow> string" where
  "to_hex [] = []"
| "to_hex (b # bs) = hex_digit (unat b div 16) # hex_digit (unat b mod 16) # to_hex bs"

text \<open>\<^verbatim>\<open>Buffer.from(s, "hex")\<close> decodes pairs of digits and stops at the first pair that is not one.\<close>

fun from_hex :: "string \<Rightarrow> bytes" where
  "from_hex (a # b # s) =
     (case (hex_value a, hex_value b) of
        (Some x, Some y) \<Rightarrow> of_nat (16 * x + y) # from_hex s
      | _ \<Rightarrow> [])"
| "from_hex _ = []"

lemma hex_digit_code: "n < 16 \<Longrightarrow> (of_char (hex_digit n) :: nat) = (if n < 10 then 48 + n else 87 + n)"
  by (auto simp: hex_digit_def)

lemma hex_value_digit: "n < 16 \<Longrightarrow> hex_value (hex_digit n) = Some n"
  by (auto simp: hex_value_def hex_digit_code Let_def)

lemma unat_byte_div: "unat (b :: byte) div 16 < 16"
  using unsigned_less [of b, where ?'a = nat] by (simp add: less_mult_imp_div_less)

lemma from_to_hex: "from_hex (to_hex bs) = bs"
proof (induction bs)
  case Nil
  then show ?case by simp
next
  case (Cons b bs)
  have "of_nat (16 * (unat b div 16) + unat b mod 16) = b"
    by (metis mult_div_mod_eq of_nat_unat ucast_id)
  then show ?case
    using Cons by (simp add: hex_value_digit unat_byte_div)
qed

lemma to_hex_inject: "to_hex a = to_hex b \<longleftrightarrow> a = b"
  by (metis from_to_hex)

lemma length_to_hex [simp]: "length (to_hex bs) = 2 * length bs"
  by (induction bs) auto

subsection \<open>Lower case\<close>

definition lower_char :: "char \<Rightarrow> char" where
  "lower_char c = (let n = of_char c :: nat in if 65 \<le> n \<and> n \<le> 90 then char_of (n + 32) else c)"

definition toLowerCase :: "string \<Rightarrow> string" where
  "toLowerCase s = map lower_char s"

lemma lower_hex_digit: "n < 16 \<Longrightarrow> lower_char (hex_digit n) = hex_digit n"
  by (auto simp: lower_char_def hex_digit_code Let_def)

lemma toLowerCase_to_hex: "toLowerCase (to_hex bs) = to_hex bs"
  by (induction bs) (auto simp: toLowerCase_def lower_hex_digit unat_byte_div)

subsection \<open>Decimal\<close>

definition is_digit :: "char \<Rightarrow> bool" where
  "is_digit c = (let n = of_char c :: nat in 48 \<le> n \<and> n \<le> 57)"

definition digit_char :: "nat \<Rightarrow> char" where
  "digit_char n = char_of (48 + n)"

fun dec_nat :: "nat \<Rightarrow> string" where
  "dec_nat n = (if n < 10 then [digit_char n] else dec_nat (n div 10) @ [digit_char (n mod 10)])"

declare dec_nat.simps [simp del]

definition dec_int :: "int \<Rightarrow> string" where
  "dec_int i = (if i < 0 then CHR ''-'' # dec_nat (nat (- i)) else dec_nat (nat i))"

definition parse_nat :: "string \<Rightarrow> nat" where
  "parse_nat s = foldl (\<lambda>acc c. 10 * acc + (of_char c - 48)) 0 s"

lemma digit_char_code: "n < 10 \<Longrightarrow> (of_char (digit_char n) :: nat) = 48 + n"
  by (simp add: digit_char_def)

lemma is_digit_digit_char: "n < 10 \<Longrightarrow> is_digit (digit_char n)"
  by (simp add: is_digit_def digit_char_code Let_def)

lemma parse_dec_nat: "parse_nat (dec_nat n) = n"
proof (induction n rule: dec_nat.induct)
  case (1 n)
  then show ?case
    by (cases "n < 10") (simp_all add: dec_nat.simps [of n] parse_nat_def digit_char_code)
qed

lemma dec_nat_digits: "c \<in> set (dec_nat n) \<Longrightarrow> is_digit c"
proof (induction n arbitrary: c rule: dec_nat.induct)
  case (1 n)
  then show ?case
    by (cases "n < 10") (auto simp: dec_nat.simps [of n] is_digit_digit_char)
qed

lemma dec_nat_nonempty: "dec_nat n \<noteq> []"
  by (subst dec_nat.simps) simp

lemma dec_nat_inject: "dec_nat a = dec_nat b \<longleftrightarrow> a = b"
  by (metis parse_dec_nat)

subsection \<open>Matching\<close>

text \<open>\<open>strip_prefix p s\<close> is what follows the literal \<open>p\<close> at the start of \<open>s\<close>.\<close>

fun strip_prefix :: "string \<Rightarrow> string \<Rightarrow> string option" where
  "strip_prefix [] s = Some s"
| "strip_prefix (p # ps) [] = None"
| "strip_prefix (p # ps) (c # cs) = (if p = c then strip_prefix ps cs else None)"

definition is_space :: "char \<Rightarrow> bool" where
  "is_space c = (let n = of_char c :: nat in n = 32 \<or> (9 \<le> n \<and> n \<le> 13))"

text \<open>\<^verbatim>\<open>str.match(re)\<close>: the result at the first position where the pattern matches.\<close>

fun first_match :: "(string \<Rightarrow> 'a option) \<Rightarrow> string \<Rightarrow> 'a option" where
  "first_match m [] = m []"
| "first_match m (c # cs) = (case m (c # cs) of Some r \<Rightarrow> Some r | None \<Rightarrow> first_match m cs)"

lemma strip_prefix_append [simp]: "strip_prefix p (p @ s) = Some s"
  by (induction p) auto

lemma first_match_hit: "m s = Some r \<Longrightarrow> first_match m s = Some r"
  by (cases s) auto

lemma takeWhile_digits: "takeWhile is_digit (dec_nat n @ r) = dec_nat n @ takeWhile is_digit r"
  by (rule takeWhile_append2) (rule dec_nat_digits)

lemma dropWhile_digits: "dropWhile is_digit (dec_nat n @ r) = dropWhile is_digit r"
  by (rule dropWhile_append2) (rule dec_nat_digits)

end
