(* ===== verification/MockStore.thy ===== *)
theory MockStore
  imports NebText
begin

section \<open>The in-memory ledger store and its clock\<close>

text \<open>
  The state of the simulated ledger, \<^verbatim>\<open>tools/simulation/src/mock/store.ts\<close>, one record per
  interface, and \<^verbatim>\<open>LedgerClock\<close> of \<^verbatim>\<open>tools/simulation/src/ledger.ts\<close>. A field
  \<^verbatim>\<open>f\<close> of the interface is the field \<open>x_f\<close> of the record, with a prefix \<open>x\<close> per record
  (\<open>pr\<close> for \<^verbatim>\<open>ProposalRecord\<close>, \<open>gs\<close> for \<^verbatim>\<open>GovernorSettingsState\<close> and so on).
  The two composite string keys of the program, \<^verbatim>\<open>proposer:period\<close> and
  \<^verbatim>\<open>proposalId:objector\<close>, are pairs: the part that is a number contains no colon, so the
  concatenation determines both parts.
\<close>

subsection \<open>The clock\<close>

record LedgerClock =
  ck_current :: int
  ck_genesisTimestamp :: int

definition SECONDS_PER_LEDGER :: int where
  "SECONDS_PER_LEDGER = 5"

definition clock_sequence :: "LedgerClock \<Rightarrow> int" where
  "clock_sequence c = ck_current c"

text \<open>\<^verbatim>\<open>new Date((genesis + current * 5) * 1000)\<close> read back as seconds: an exact integer.\<close>

definition toWallTime :: "LedgerClock \<Rightarrow> int \<Rightarrow> int" where
  "toWallTime c genesisTimestamp = (genesisTimestamp + ck_current c * SECONDS_PER_LEDGER) * 1000"

definition clock_timestamp :: "LedgerClock \<Rightarrow> int" where
  "clock_timestamp c = toWallTime c (ck_genesisTimestamp c) div 1000"

definition clock_advance :: "LedgerClock \<Rightarrow> int \<Rightarrow> (unit, LedgerClock) outcome" where
  "clock_advance c ledgers =
     (if ledgers < 0 then throws (JsError (''LedgerClock.advance: ledgers must be >= 0, got '' @ dec_int ledgers)) c
      else returns () (c\<lparr>ck_current := ck_current c + ledgers\<rparr>))"

definition clock_advanceTo :: "LedgerClock \<Rightarrow> int \<Rightarrow> LedgerClock" where
  "clock_advanceTo c targetLedger =
     (if targetLedger > ck_current c then c\<lparr>ck_current := targetLedger\<rparr> else c)"

text \<open>\<^verbatim>\<open>Math.ceil(seconds / 5)\<close>\<close>

definition secondsToLedgers :: "int \<Rightarrow> int" where
  "secondsToLedgers seconds = - ((- seconds) div SECONDS_PER_LEDGER)"

definition ledgersToSeconds :: "int \<Rightarrow> int" where
  "ledgersToSeconds ledgers = ledgers * SECONDS_PER_LEDGER"

definition clock_snapshot :: "LedgerClock \<Rightarrow> int \<times> int" where
  "clock_snapshot c = (ck_current c, ck_genesisTimestamp c)"

definition clock_restore :: "LedgerClock \<Rightarrow> int \<times> int \<Rightarrow> LedgerClock" where
  "clock_restore c snap = c\<lparr>ck_current := fst snap\<rparr>"

subsection \<open>Governor\<close>

datatype vote_type = Simple | Extended | Quadratic

record ProposalRecord =
  pr_id :: int
  pr_proposer :: address
  pr_description :: string
  pr_descriptionHash :: string
  pr_metadataUri :: string
  pr_targets :: "address list"
  pr_fnNames :: "string list"
  pr_calldatas :: "bytes list"
  pr_startLedger :: int
  pr_endLedger :: int
  pr_votesFor :: int
  pr_votesAgainst :: int
  pr_votesAbstain :: int
  pr_executed :: bool
  pr_cancelled :: bool
  pr_queued :: bool
  pr_opIds :: "string list"
  pr_hasVoted :: "(address, bool) js_map"

record GovernorSettingsState =
  gs_votingDelay :: int
  gs_votingPeriod :: int
  gs_quorumNumerator :: int
  gs_proposalThreshold :: int
  gs_guardian :: address
  gs_voteType :: vote_type
  gs_proposalGracePeriod :: int
  gs_useDynamicQuorum :: bool
  gs_reflectorOracle :: "address option"
  gs_minQuorumUsd :: int
  gs_proposalCooldown :: int
  gs_maxProposalsPerPeriod :: int
  gs_proposalPeriodDuration :: int
  gs_maxCalldataSize :: int
  gs_isPaused :: bool
  gs_pauser :: address

text \<open>
  \<^verbatim>\<open>Math.floor(current / duration)\<close>: a floor quotient, or one of the special numbers when the
  duration is zero.
\<close>

datatype js_quotient = Quot int | PosInf | NegInf | NaN

definition floor_quotient :: "int \<Rightarrow> int \<Rightarrow> js_quotient" where
  "floor_quotient a b =
     (if b \<noteq> 0 then Quot (a div b) else if a > 0 then PosInf else if a < 0 then NegInf else NaN)"

record GovernorState =
  gv_settings :: GovernorSettingsState
  gv_proposals :: "(int, ProposalRecord) js_map"
  gv_proposalCount :: int
  gv_queueTime :: "(int, int) js_map"
  gv_lastProposalLedger :: "(address, int) js_map"
  gv_proposalsInPeriod :: "(address \<times> js_quotient, int) js_map"

subsection \<open>Timelock\<close>

record TimelockOperationRecord =
  op_target :: address
  op_fnName :: string
  op_data :: bytes
  op_readyAt :: int
  op_expiresAt :: int
  op_executed :: bool
  op_cancelled :: bool
  op_predecessors :: "string list option"

record TimelockState =
  tl_minDelay :: int
  tl_executionWindow :: int
  tl_operations :: "(string, TimelockOperationRecord) js_map"
  tl_dependencies :: "(string, string list) js_map"

subsection \<open>Token votes\<close>

record Checkpoint =
  cp_ledger :: int
  cp_votes :: int

record TokenVotesState =
  tv_balances :: "(address, int) js_map"
  tv_delegates :: "(address, address) js_map"
  tv_checkpoints :: "(address, Checkpoint list) js_map"
  tv_totalSupplyCheckpoints :: "Checkpoint list"

subsection \<open>Addresses\<close>

record ContractAddresses =
  ad_governor :: address
  ad_timelock :: address
  ad_votes :: address
  ad_coSponsorship :: address
  ad_optimisticGovernor :: address
  ad_treasury :: address
  ad_convictionVoting :: address
  ad_proposalBonds :: address

subsection \<open>Optimistic governor\<close>

datatype OptimisticProposalLifecycle =
  OptChallengeWindow | OptObjected | OptPassed | OptExecuted | OptCancelled

record OptimisticProposalRecord =
  oq_id :: int
  oq_proposer :: address
  oq_target :: address
  oq_fnName :: string
  oq_calldata :: bytes
  oq_descriptionHash :: bytes
  oq_createdLedger :: int
  oq_challengeEndLedger :: int
  oq_objectionVotes :: int
  oq_state :: OptimisticProposalLifecycle

record OptimisticGovernorState =
  og_admin :: address
  og_votesToken :: address
  og_challengeWindowLedgers :: int
  og_objectionThresholdBps :: int
  og_proposerBondAmount :: int
  og_proposerBondToken :: address
  og_proposals :: "(int, OptimisticProposalRecord) js_map"
  og_proposalCount :: int
  og_objectorVoted :: "(int \<times> address) list"

subsection \<open>Co-sponsorship\<close>

record CoSponsorshipDraftRecord =
  dr_id :: int
  dr_creator :: address
  dr_description :: string
  dr_descriptionHash :: bytes
  dr_metadataUri :: string
  dr_targets :: "address list"
  dr_fnNames :: "string list"
  dr_calldatas :: "bytes list"
  dr_createdLedger :: int
  dr_expiryLedger :: int
  dr_coSponsors :: "address list"
  dr_coSponsorPower :: "int list"
  dr_totalPower :: int
  dr_finalized :: bool
  dr_cancelled :: bool

record CoSponsorshipState =
  cs_drafts :: "(int, CoSponsorshipDraftRecord) js_map"
  cs_draftCount :: int

subsection \<open>Treasury\<close>

record BudgetStreamRecord =
  bs_id :: int
  bs_name :: string
  bs_owner :: address
  bs_token :: address
  bs_totalAllocated :: int
  bs_totalSpent :: int
  bs_startLedger :: int
  bs_endLedger :: int
  bs_isActive :: bool
  bs_isRevoked :: bool
  bs_revokedAtLedger :: "int option"
  bs_maxSingleSpend :: int
  bs_cooldownLedgers :: int
  bs_lastSpendLedger :: int
  bs_spendCount :: int
  bs_createdByProposalId :: int

record StreamSpendRecord =
  sp_streamId :: int
  sp_spendIndex :: int
  sp_recipient :: address
  sp_amount :: int
  sp_memo :: string
  sp_executedAtLedger :: int
  sp_executedBy :: address

record TreasuryState =
  tr_governor :: address
  tr_streams :: "(int, BudgetStreamRecord) js_map"
  tr_streamCount :: int
  tr_spends :: "(int, StreamSpendRecord list) js_map"
  tr_tokenList :: "address list"
  tr_totalStreamedByToken :: "(address, int) js_map"
  tr_totalSpentByToken :: "(address, int) js_map"

subsection \<open>Conviction voting\<close>

record ConvictionProposalRecord =
  cq_id :: int
  cq_proposer :: address
  cq_target :: address
  cq_fnName :: string
  cq_calldata :: bytes
  cq_requestedAmount :: int
  cq_createdLedger :: int
  cq_conviction :: int
  cq_lastUpdatedLedger :: int
  cq_executed :: bool
  cq_cancelled :: bool

record ConvictionStakeRecord =
  sk_staker :: address
  sk_proposalId :: int
  sk_amount :: int

record ConvictionExecutionRecord =
  ex_proposalId :: int
  ex_target :: address
  ex_fnName :: string
  ex_calldata :: bytes
  ex_ledger :: int

record ConvictionVotingState =
  cv_admin :: address
  cv_votesToken :: address
  cv_decayBps :: int
  cv_maxRatioBps :: int
  cv_minThresholdConviction :: int
  cv_weightBps :: int
  cv_nextProposalId :: int
  cv_proposals :: "(int, ConvictionProposalRecord) js_map"
  cv_stakes :: "(int, (address, int) js_map) js_map"
  cv_totalStaked :: "(int, int) js_map"
  cv_stakeByStaker :: "(address, int) js_map"
  cv_executions :: "ConvictionExecutionRecord list"

subsection \<open>Proposal bonds\<close>

datatype ProposalBondLifecycle = BondLocked | BondRefunded | BondSlashed

record ProposalBondRecord =
  bd_proposer :: address
  bd_descriptionHash :: string
  bd_amount :: int
  bd_lockedLedger :: int
  bd_state :: ProposalBondLifecycle

record ProposalBondsState =
  pb_admin :: address
  pb_bondToken :: address
  pb_bondAmount :: int
  pb_governor :: address
  pb_refundGraceLedgers :: int
  pb_maxLockLedgers :: int
  pb_bonds :: "(string, ProposalBondRecord) js_map"

subsection \<open>The store\<close>

record MockLedgerStore =
  st_addresses :: ContractAddresses
  st_governor :: GovernorState
  st_timelock :: TimelockState
  st_votes :: TokenVotesState
  st_coSponsorship :: CoSponsorshipState
  st_optimisticGovernor :: OptimisticGovernorState
  st_treasury :: TreasuryState
  st_convictionVoting :: ConvictionVotingState
  st_proposalBonds :: ProposalBondsState

text \<open>\<^verbatim>\<open>structuredClone\<close>: values of HOL are immutable, so the clone is the value itself.\<close>

definition cloneStore :: "MockLedgerStore \<Rightarrow> MockLedgerStore" where
  "cloneStore store = store"

subsection \<open>Facts about the clock\<close>

lemma clock_timestamp_eq: "clock_timestamp c = ck_genesisTimestamp c + 5 * ck_current c"
  by (simp add: clock_timestamp_def toWallTime_def SECONDS_PER_LEDGER_def)

lemma clock_advance_monotone:
  "clock_advance c n = (Inr u, c') \<Longrightarrow>
     clock_sequence c \<le> clock_sequence c' \<and> ck_genesisTimestamp c' = ck_genesisTimestamp c"
  by (auto simp: clock_advance_def clock_sequence_def split: if_splits)

lemma clock_advanceTo_reaches: "targetLedger \<le> clock_sequence (clock_advanceTo c targetLedger)"
  by (simp add: clock_advanceTo_def clock_sequence_def)

lemma clock_restore_snapshot: "clock_restore c' (clock_snapshot c) = c'\<lparr>ck_current := ck_current c\<rparr>"
  by (simp add: clock_restore_def clock_snapshot_def)

lemma seconds_ledgers_roundtrip: "secondsToLedgers (ledgersToSeconds n) = n"
  by (simp add: secondsToLedgers_def ledgersToSeconds_def SECONDS_PER_LEDGER_def)

lemma secondsToLedgers_covers:
  "seconds \<le> ledgersToSeconds (secondsToLedgers seconds)"
  "ledgersToSeconds (secondsToLedgers seconds) < seconds + SECONDS_PER_LEDGER"
  by (simp_all add: secondsToLedgers_def ledgersToSeconds_def SECONDS_PER_LEDGER_def)

end
