(* ===== verification/TokenVotes.thy ===== *)
theory TokenVotes
  imports MockStore
begin

section \<open>Delegation and checkpoints\<close>

text \<open>
  \<^verbatim>\<open>tools/simulation/src/mock/token-votes-executor.ts\<close>: delegation of voting power, the
  checkpoint history it appends to, and the reads at a past ledger. The lemmas show that the
  history below the current ledger never changes, that the scan is the lookup of the last
  entry at or before a ledger, that the latest checkpoints are the abstract delegated power,
  and that a successful \<^verbatim>\<open>delegate\<close> keeps the delegation graph acyclic.
\<close>

subsection \<open>Model\<close>

definition MAX_CHAIN_WALK :: nat where
  "MAX_CHAIN_WALK = 64"

definition lastCheckpointVotes :: "Checkpoint list option \<Rightarrow> int" where
  "lastCheckpointVotes cps =
     (case cps of None \<Rightarrow> 0 | Some l \<Rightarrow> if l = [] then 0 else cp_votes (last l))"

text \<open>The loop of \<^verbatim>\<open>resolveChain\<close>, with the hops that are left.\<close>

fun resolveChain_loop :: "nat \<Rightarrow> (address, address) js_map \<Rightarrow> address \<Rightarrow> address list" where
  "resolveChain_loop 0 delegates current = []"
| "resolveChain_loop (Suc hops) delegates current =
     (case js_get delegates current of
        None \<Rightarrow> []
      | Some next \<Rightarrow>
          if next = '''' \<or> next = current then []
          else next # resolveChain_loop hops delegates next)"

definition resolveChain :: "TokenVotesState \<Rightarrow> address \<Rightarrow> address list" where
  "resolveChain state start =
     start # resolveChain_loop MAX_CHAIN_WALK (tv_delegates state) start"

definition wouldCreateCycle :: "TokenVotesState \<Rightarrow> address \<Rightarrow> address \<Rightarrow> bool" where
  "wouldCreateCycle state delegator delegatee = (delegator \<in> set (resolveChain state delegatee))"

definition pushCheckpoint ::
  "(address, Checkpoint list) js_map \<Rightarrow> address \<Rightarrow> int \<Rightarrow> int \<Rightarrow> (address, Checkpoint list) js_map"
where
  "pushCheckpoint m account ledger votes =
     js_set m account (js_getd [] m account @ [\<lparr>cp_ledger = ledger, cp_votes = votes\<rparr>])"

fun checkpoint_scan :: "Checkpoint list \<Rightarrow> int \<Rightarrow> int" where
  "checkpoint_scan [] ledger = 0"
| "checkpoint_scan (c # cs) ledger =
     (if cp_ledger c \<le> ledger then cp_votes c else checkpoint_scan cs ledger)"

definition checkpointAt :: "Checkpoint list option \<Rightarrow> int \<Rightarrow> int" where
  "checkpointAt cps ledger =
     (case cps of None \<Rightarrow> 0 | Some l \<Rightarrow> checkpoint_scan (rev l) ledger)"

definition seedBalances :: "TokenVotesState \<Rightarrow> (address \<times> int) list \<Rightarrow> TokenVotesState" where
  "seedBalances state balances =
     state\<lparr>tv_balances := fold (\<lambda>(account, amount) m. js_set m account amount) balances
                              (tv_balances state)\<rparr>"

definition applyDelegation ::
  "TokenVotesState \<Rightarrow> LedgerClock \<Rightarrow> address \<Rightarrow> address \<Rightarrow> TokenVotesState" where
  "applyDelegation state clock delegator delegatee =
     (let amount = js_getd 0 (tv_balances state) delegator;
          isFirstDelegation = (\<not> js_has (tv_delegates state) delegator);
          oldDelegatee = js_getd delegator (tv_delegates state) delegator;
          cps0 = tv_checkpoints state;
          cps1 = (if isFirstDelegation then cps0
                  else pushCheckpoint cps0 oldDelegatee (clock_sequence clock)
                         (lastCheckpointVotes (js_get cps0 oldDelegatee) - amount));
          cps2 = pushCheckpoint cps1 delegatee (clock_sequence clock)
                   (lastCheckpointVotes (js_get cps1 delegatee) + amount);
          state1 = (if isFirstDelegation \<or> oldDelegatee \<noteq> delegatee
                    then state\<lparr>tv_checkpoints := cps2\<rparr> else state);
          state2 = state1\<lparr>tv_delegates := js_set (tv_delegates state1) delegator delegatee\<rparr>
      in if isFirstDelegation \<and> amount > 0
         then state2\<lparr>tv_totalSupplyCheckpoints := tv_totalSupplyCheckpoints state2 @
                [\<lparr>cp_ledger = clock_sequence clock,
                  cp_votes = lastCheckpointVotes (Some (tv_totalSupplyCheckpoints state2)) + amount\<rparr>]\<rparr>
         else state2)"

text \<open>The executor's entries: \<^verbatim>\<open>delegate\<close> and the reads.\<close>

definition tv_delegate ::
  "TokenVotesState \<Rightarrow> LedgerClock \<Rightarrow> address \<Rightarrow> address \<Rightarrow> address \<Rightarrow> (unit, TokenVotesState) outcome"
where
  "tv_delegate state clock caller delegator delegatee =
     (if caller \<noteq> delegator then throws (MockContractError 1) state
      else if wouldCreateCycle state delegator delegatee then throws (MockContractError 1) state
      else if length (resolveChain state delegatee) > MAX_CHAIN_WALK
        then throws (MockContractError 1) state
      else returns () (applyDelegation state clock delegator delegatee))"

definition get_votes :: "TokenVotesState \<Rightarrow> address \<Rightarrow> int" where
  "get_votes state account = lastCheckpointVotes (js_get (tv_checkpoints state) account)"

definition get_base_votes :: "TokenVotesState \<Rightarrow> address \<Rightarrow> int" where
  "get_base_votes state account = js_getd 0 (tv_balances state) account"

definition get_past_votes ::
  "TokenVotesState \<Rightarrow> LedgerClock \<Rightarrow> address \<Rightarrow> int \<Rightarrow> js_error + int" where
  "get_past_votes state clock account ledger =
     (if ledger > clock_sequence clock then Inl (MockContractError 100)
      else Inr (checkpointAt (js_get (tv_checkpoints state) account) ledger))"

definition get_past_total_supply ::
  "TokenVotesState \<Rightarrow> LedgerClock \<Rightarrow> int \<Rightarrow> js_error + int" where
  "get_past_total_supply state clock ledger =
     (if ledger > clock_sequence clock then Inl (MockContractError 100)
      else Inr (checkpointAt (Some (tv_totalSupplyCheckpoints state)) ledger))"

definition tv_delegates_of :: "TokenVotesState \<Rightarrow> address \<Rightarrow> address option" where
  "tv_delegates_of state account = js_get (tv_delegates state) account"

subsection \<open>Checkpoints\<close>

lemma js_get_pushCheckpoint:
  "js_get (pushCheckpoint m a l v) b =
     (if b = a then Some (js_getd [] m a @ [\<lparr>cp_ledger = l, cp_votes = v\<rparr>]) else js_get m b)"
  by (simp add: pushCheckpoint_def)

lemma lastCheckpointVotes_push [simp]:
  "lastCheckpointVotes (js_get (pushCheckpoint m a l v) b) =
     (if b = a then v else lastCheckpointVotes (js_get m b))"
  by (simp add: js_get_pushCheckpoint lastCheckpointVotes_def)

lemma lastCheckpointVotes_snoc [simp]:
  "lastCheckpointVotes (Some (l @ [c])) = cp_votes c"
  by (simp add: lastCheckpointVotes_def)

lemma checkpointAt_push:
  "ledger < l \<Longrightarrow> checkpointAt (js_get (pushCheckpoint m a l v) b) ledger =
     checkpointAt (js_get m b) ledger"
  by (auto simp: js_get_pushCheckpoint checkpointAt_def js_getd_def split: option.splits)

lemma checkpointAt_snoc:
  "ledger < cp_ledger c \<Longrightarrow> checkpointAt (Some (l @ [c])) ledger = checkpointAt (Some l) ledger"
  by (simp add: checkpointAt_def)

lemma checkpointAt_None [simp]: "checkpointAt None ledger = 0"
  by (simp add: checkpointAt_def)

lemma checkpoint_scan_filter:
  "checkpoint_scan cs ledger =
     (case filter (\<lambda>c. cp_ledger c \<le> ledger) cs of [] \<Rightarrow> 0 | c # _ \<Rightarrow> cp_votes c)"
  by (induction cs) auto

text \<open>
  On a history in ledger order the entries up to a ledger are a prefix, so what the backward
  scan returns is the latest checkpoint of that prefix.
\<close>

definition checkpoints_sorted :: "Checkpoint list \<Rightarrow> bool" where
  "checkpoints_sorted l = sorted (map cp_ledger l)"

lemma sorted_filter_takeWhile:
  "sorted (map f l) \<Longrightarrow> filter (\<lambda>c. f c \<le> (x :: int)) l = takeWhile (\<lambda>c. f c \<le> x) l"
proof (induction l)
  case Nil
  then show ?case by simp
next
  case (Cons a l)
  have "\<not> f a \<le> x \<Longrightarrow> filter (\<lambda>c. f c \<le> x) l = []"
    using Cons.prems by (auto simp: filter_empty_conv)
  then show ?case using Cons by simp
qed

lemma checkpointAt_prefix:
  assumes "checkpoints_sorted l"
  shows "checkpointAt (Some l) ledger =
     lastCheckpointVotes (Some (takeWhile (\<lambda>c. cp_ledger c \<le> ledger) l))"
proof -
  have "filter (\<lambda>c. cp_ledger c \<le> ledger) l = takeWhile (\<lambda>c. cp_ledger c \<le> ledger) l"
    using assms by (intro sorted_filter_takeWhile) (simp add: checkpoints_sorted_def)
  then show ?thesis
    by (simp add: checkpointAt_def checkpoint_scan_filter rev_filter [symmetric]
        lastCheckpointVotes_def hd_rev [symmetric] split: list.splits)
qed

subsection \<open>The history below the current ledger\<close>

lemma applyDelegation_past_checkpoints:
  assumes "ledger < clock_sequence clock"
  shows "checkpointAt (js_get (tv_checkpoints (applyDelegation state clock d e)) account) ledger =
     checkpointAt (js_get (tv_checkpoints state) account) ledger"
  using assms by (simp add: applyDelegation_def Let_def checkpointAt_push)

lemma applyDelegation_past_supply:
  assumes "ledger < clock_sequence clock"
  shows "checkpointAt (Some (tv_totalSupplyCheckpoints (applyDelegation state clock d e))) ledger =
     checkpointAt (Some (tv_totalSupplyCheckpoints state)) ledger"
  using assms by (simp add: applyDelegation_def Let_def checkpointAt_snoc)

lemma tv_delegate_cases:
  "tv_delegate state clock caller d e = (r, state') \<Longrightarrow>
     (\<exists>err. r = Inl err \<and> state' = state) \<or>
     (r = Inr () \<and> caller = d \<and> \<not> wouldCreateCycle state d e \<and>
      length (resolveChain state e) \<le> MAX_CHAIN_WALK \<and> state' = applyDelegation state clock d e)"
  by (auto simp: tv_delegate_def split: if_splits)

subsection \<open>Delegated power\<close>

text \<open>
  The abstract specification: the power of an account is the sum of the balances of those who
  delegate to it, and the supply is the sum of the balances of all who have delegated.
\<close>

definition delegated_power :: "TokenVotesState \<Rightarrow> address \<Rightarrow> int" where
  "delegated_power state a =
     js_wsum (\<lambda>d e. if e = a then js_getd 0 (tv_balances state) d else 0) (tv_delegates state)"

definition delegated_supply :: "TokenVotesState \<Rightarrow> int" where
  "delegated_supply state = js_wsum (\<lambda>d e. js_getd 0 (tv_balances state) d) (tv_delegates state)"

definition power_consistent :: "TokenVotesState \<Rightarrow> bool" where
  "power_consistent state \<longleftrightarrow>
     (\<forall>a. get_votes state a = delegated_power state a) \<and>
     lastCheckpointVotes (Some (tv_totalSupplyCheckpoints state)) = delegated_supply state"

definition balances_nonneg :: "TokenVotesState \<Rightarrow> bool" where
  "balances_nonneg state \<longleftrightarrow> (\<forall>a. 0 \<le> js_getd 0 (tv_balances state) a)"

lemma applyDelegation_frame [simp]:
  "tv_balances (applyDelegation state clock d e) = tv_balances state"
  "tv_delegates (applyDelegation state clock d e) = js_set (tv_delegates state) d e"
  by (simp_all add: applyDelegation_def Let_def)

lemma applyDelegation_delegated_power:
  "delegated_power (applyDelegation state clock d e) a =
     delegated_power state a
     - (if js_get (tv_delegates state) d = Some a then js_getd 0 (tv_balances state) d else 0)
     + (if e = a then js_getd 0 (tv_balances state) d else 0)"
  by (simp add: delegated_power_def js_wsum_set split: option.splits cong: if_cong)

lemma applyDelegation_get_votes:
  "get_votes (applyDelegation state clock d e) a =
     get_votes state a
     - (if js_get (tv_delegates state) d = Some a then js_getd 0 (tv_balances state) d else 0)
     + (if e = a then js_getd 0 (tv_balances state) d else 0)"
  by (auto simp: applyDelegation_def Let_def get_votes_def js_has_iff js_getd_def
      split: option.splits)

lemma applyDelegation_supply:
  assumes "balances_nonneg state"
  shows "lastCheckpointVotes (Some (tv_totalSupplyCheckpoints (applyDelegation state clock d e))) -
      delegated_supply (applyDelegation state clock d e) =
    lastCheckpointVotes (Some (tv_totalSupplyCheckpoints state)) - delegated_supply state"
proof -
  have "delegated_supply (applyDelegation state clock d e) = delegated_supply state +
      (if js_has (tv_delegates state) d then 0 else js_getd 0 (tv_balances state) d)"
    by (auto simp: delegated_supply_def js_wsum_set js_has_iff split: option.splits)
  moreover have "0 \<le> js_getd 0 (tv_balances state) d"
    using assms by (simp add: balances_nonneg_def)
  ultimately show ?thesis by (simp add: applyDelegation_def Let_def)
qed

subsection \<open>The delegation graph\<close>

definition delegation_edges :: "(address, address) js_map \<Rightarrow> (address \<times> address) set" where
  "delegation_edges m = {(a, b). js_get m a = Some b \<and> b \<noteq> '''' \<and> b \<noteq> a}"

definition delegation_acyclic :: "TokenVotesState \<Rightarrow> bool" where
  "delegation_acyclic state = acyclic (delegation_edges (tv_delegates state))"

text \<open>A walk that stopped before it ran out of hops has seen everything reachable.\<close>

lemma resolveChain_loop_complete:
  assumes "length (resolveChain_loop n m x) < n" and "(x, y) \<in> (delegation_edges m)\<^sup>*"
  shows "y = x \<or> y \<in> set (resolveChain_loop n m x)"
  using assms
proof (induction n arbitrary: x)
  case 0
  then show ?case by simp
next
  case (Suc n)
  show ?case
  proof (cases "y = x")
    case False
    then obtain z where z: "(x, z) \<in> delegation_edges m" "(z, y) \<in> (delegation_edges m)\<^sup>*"
      using Suc.prems(2) by (auto elim: converse_rtranclE)
    then have loop: "resolveChain_loop (Suc n) m x = z # resolveChain_loop n m z"
      by (simp add: delegation_edges_def)
    then have "y = z \<or> y \<in> set (resolveChain_loop n m z)"
      using Suc.IH [of z] Suc.prems(1) z(2) by simp
    then show ?thesis using loop by simp
  qed simp
qed

lemma resolveChain_complete:
  assumes "length (resolveChain state x) \<le> MAX_CHAIN_WALK"
    and "(x, y) \<in> (delegation_edges (tv_delegates state))\<^sup>*"
  shows "y \<in> set (resolveChain state x)"
  using assms resolveChain_loop_complete [of MAX_CHAIN_WALK "tv_delegates state" x y]
  by (simp add: resolveChain_def)

lemma delegation_edges_set:
  "delegation_edges (js_set m d e) \<subseteq> insert (d, e) (delegation_edges m)"
  by (auto simp: delegation_edges_def split: if_splits)

subsection \<open>Properties\<close>

text \<open>C5: A \<^verbatim>\<open>delegate\<close> call keeps the delegation graph acyclic: the bounded walk of the cycle check
  and the depth check together are a complete cycle test.\<close>

theorem delegate_keeps_acyclic:
  assumes "tv_delegate state clock caller d e = (r, state')"
    and "delegation_acyclic state"
  shows "delegation_acyclic state'"
proof (cases r)
  case (Inl err)
  then show ?thesis using tv_delegate_cases [OF assms(1)] assms(2) by auto
next
  case (Inr u)
  then have state': "state' = applyDelegation state clock d e"
    and nocycle: "d \<notin> set (resolveChain state e)"
    and short: "length (resolveChain state e) \<le> MAX_CHAIN_WALK"
    using tv_delegate_cases [OF assms(1)] by (auto simp: wouldCreateCycle_def)
  let ?E = "delegation_edges (tv_delegates state)"
  have "(e, d) \<notin> ?E\<^sup>*" using resolveChain_complete [OF short, of d] nocycle by blast
  then have "acyclic (insert (d, e) ?E)"
    using assms(2) by (simp add: acyclic_insert delegation_acyclic_def)
  then show ?thesis
    using acyclic_subset [OF _ delegation_edges_set] state' by (simp add: delegation_acyclic_def)
qed

text \<open>C9: What a past ledger reads, for the votes of any account and for the total supply, is not
  changed by any \<^verbatim>\<open>delegate\<close> call at a later ledger, whatever its outcome: vote weights taken at
  a snapshot are fixed once the snapshot ledger has closed.\<close>

theorem past_votes_immutable:
  assumes "tv_delegate state clock caller d e = (r, state')"
    and "ledger < clock_sequence clock"
  shows "get_past_votes state' clock account ledger = get_past_votes state clock account ledger \<and>
     get_past_total_supply state' clock ledger = get_past_total_supply state clock ledger"
  using tv_delegate_cases [OF assms(1)] assms(2)
  by (auto simp: get_past_votes_def get_past_total_supply_def applyDelegation_past_checkpoints
      applyDelegation_past_supply)

text \<open>C6: The bookkeeping implements the specification: whatever the sequence of delegations,
  the latest checkpoint of every account is the sum of the balances delegated to it and the
  latest supply checkpoint is the sum of all delegated balances.\<close>

theorem delegate_refines_power:
  assumes "tv_delegate state clock caller d e = (r, state')"
    and "power_consistent state" and "balances_nonneg state"
  shows "power_consistent state' \<and> balances_nonneg state'"
proof -
  have "power_consistent (applyDelegation state clock d e)"
    using assms(2) applyDelegation_supply [OF assms(3), of clock d e]
    by (simp add: power_consistent_def applyDelegation_get_votes applyDelegation_delegated_power)
  moreover have "balances_nonneg (applyDelegation state clock d e)"
    using assms(3) by (simp add: balances_nonneg_def)
  ultimately show ?thesis using tv_delegate_cases [OF assms(1)] assms(2,3) by auto
qed

text \<open>Delegating to oneself is always refused: the chain of the delegatee starts with the
  delegatee, so the cycle check sees the delegator in it. (The contract the executor replicates
  exempts this case.)\<close>

theorem self_delegation_refused:
  "tv_delegate state clock caller d d = (Inl (MockContractError 1), state)"
  by (simp add: tv_delegate_def wouldCreateCycle_def resolveChain_def)

subsection \<open>Examples\<close>

definition demo_votes :: TokenVotesState where
  "demo_votes = \<lparr>tv_balances = [(''a'', 30), (''b'', 20)], tv_delegates = [(''a'', ''b'')],
     tv_checkpoints = [(''b'', [\<lparr>cp_ledger = 5, cp_votes = 30\<rparr>])],
     tv_totalSupplyCheckpoints = [\<lparr>cp_ledger = 5, cp_votes = 30\<rparr>]\<rparr>"

definition demo_after :: TokenVotesState where
  "demo_after = snd (tv_delegate demo_votes \<lparr>ck_current = 9, ck_genesisTimestamp = 0\<rparr> ''b'' ''b'' ''c'')"

lemma demo_delegated:
  "tv_delegate demo_votes \<lparr>ck_current = 9, ck_genesisTimestamp = 0\<rparr> ''b'' ''b'' ''c'' = (Inr (), demo_after)"
  unfolding demo_after_def by (rule outcome_eqI) code_simp

lemma demo_edges: "delegation_edges [(''a'', ''b'')] = {(''a'', ''b'')}"
  by (auto simp: delegation_edges_def js_get_def split: if_splits)

theorem delegate_keeps_acyclic_witness:
  "delegation_acyclic demo_after \<and> js_get (tv_delegates demo_after) ''b'' = Some ''c''"
proof
  have "delegation_acyclic demo_votes"
    by (simp add: delegation_acyclic_def demo_votes_def demo_edges acyclic_insert acyclic_def [of "{}"])
  then show "delegation_acyclic demo_after" using delegate_keeps_acyclic [OF demo_delegated] by simp
  show "js_get (tv_delegates demo_after) ''b'' = Some ''c''" by code_simp
qed

theorem past_votes_immutable_witness:
  "get_past_votes demo_after \<lparr>ck_current = 9, ck_genesisTimestamp = 0\<rparr> ''b'' 6 = Inr 30"
proof -
  have "6 < clock_sequence \<lparr>ck_current = 9, ck_genesisTimestamp = 0\<rparr>" by (simp add: clock_sequence_def)
  moreover have "get_past_votes demo_votes \<lparr>ck_current = 9, ck_genesisTimestamp = 0\<rparr> ''b'' 6 = Inr 30"
    by code_simp
  ultimately show ?thesis using past_votes_immutable [OF demo_delegated] by simp
qed

theorem delegate_refines_power_witness:
  "power_consistent demo_after \<and> get_votes demo_after ''c'' = 20"
proof
  have "power_consistent demo_votes"
    by (simp add: power_consistent_def demo_votes_def get_votes_def delegated_power_def delegated_supply_def
        lastCheckpointVotes_def js_wsum_def js_getd_def js_get_def)
  moreover have "balances_nonneg demo_votes"
    by (simp add: balances_nonneg_def demo_votes_def js_getd_def js_get_def)
  ultimately show "power_consistent demo_after" using delegate_refines_power [OF demo_delegated] by simp
  show "get_votes demo_after ''c'' = 20" by code_simp
qed

end
