(* ===== verification/Timelock.thy ===== *)
theory Timelock
  imports TokenVotes
begin

section \<open>The timelock\<close>

text \<open>
  \<^verbatim>\<open>tools/simulation/src/mock/timelock-executor.ts\<close>: scheduling, execution and cancellation of
  delayed operations, operations with predecessors, and the depth-first search that validates a
  dependency graph. The hash of \<^verbatim>\<open>node:crypto\<close> is the parameter \<open>sha256\<close>. The search is given
  fuel for the depth of its recursion; \<open>hasCycle\<close> passes one more than the number of dependency
  entries, which \<open>visit_enough\<close> shows to be enough. The lemmas characterise when each operation
  succeeds and prove the search correct and complete.
\<close>

subsection \<open>Model\<close>

definition computeOpId ::
  "(bytes \<Rightarrow> bytes) \<Rightarrow> address \<Rightarrow> bytes \<Rightarrow> string \<Rightarrow> int \<Rightarrow> bytes \<Rightarrow> bytes \<Rightarrow> string" where
  "computeOpId sha256 target data fnName delay predecessor salt =
     to_hex (sha256 (str_bytes target @ str_bytes fnName @ data @ str_bytes (dec_int delay) @
                     predecessor @ salt))"

definition tl_requireGovernor :: "address \<Rightarrow> address \<Rightarrow> js_error + unit" where
  "tl_requireGovernor governorAddress caller =
     (if caller \<noteq> governorAddress then Inl (MockContractError 0) else Inr ())"

definition scheduleOperation ::
  "(bytes \<Rightarrow> bytes) \<Rightarrow> TimelockState \<Rightarrow> LedgerClock \<Rightarrow> address \<Rightarrow> bytes \<Rightarrow> string \<Rightarrow> int \<Rightarrow>
     bytes \<Rightarrow> bytes \<Rightarrow> (string, TimelockState) outcome" where
  "scheduleOperation sha256 state clock target data fnName delay predecessor salt =
     (if delay < tl_minDelay state then throws (MockContractError 100) state
      else
        let opId = computeOpId sha256 target data fnName delay predecessor salt;
            readyAt = clock_timestamp clock + delay;
            expiresAt = readyAt + tl_executionWindow state;
            oper = \<lparr>op_target = target, op_fnName = fnName, op_data = data, op_readyAt = readyAt,
                  op_expiresAt = expiresAt, op_executed = False, op_cancelled = False,
                  op_predecessors = None\<rparr>
        in returns opId (state\<lparr>tl_operations := js_set (tl_operations state) opId oper\<rparr>))"

definition TimelockErrorCode_OperationExpired :: int where
  "TimelockErrorCode_OperationExpired = 3"

definition executeOperation ::
  "TimelockState \<Rightarrow> LedgerClock \<Rightarrow> string \<Rightarrow> (unit, TimelockState) outcome" where
  "executeOperation state clock opId =
     (case js_get (tl_operations state) opId of
        None \<Rightarrow> throws (MockContractError 100) state
      | Some oper \<Rightarrow>
          if op_executed oper \<or> op_cancelled oper then throws (MockContractError 100) state
          else if clock_timestamp clock < op_readyAt oper then throws (MockContractError 100) state
          else if clock_timestamp clock > op_expiresAt oper
            then throws (MockContractError TimelockErrorCode_OperationExpired) state
          else returns ()
            (state\<lparr>tl_operations := js_set (tl_operations state) opId (oper\<lparr>op_executed := True\<rparr>)\<rparr>))"

definition cancelOperation :: "TimelockState \<Rightarrow> string \<Rightarrow> (unit, TimelockState) outcome" where
  "cancelOperation state opId =
     (case js_get (tl_operations state) opId of
        None \<Rightarrow> throws (MockContractError 100) state
      | Some oper \<Rightarrow>
          if op_executed oper then throws (MockContractError 100) state
          else returns ()
            (state\<lparr>tl_operations := js_set (tl_operations state) opId (oper\<lparr>op_cancelled := True\<rparr>)\<rparr>))"

text \<open>
  \<^verbatim>\<open>visit\<close> of \<^verbatim>\<open>hasCycle\<close> with its two mutable sets threaded through: \<open>None\<close> when the fuel is
  spent, otherwise the returned flag with the sets at the return.
\<close>

type_synonym dfs_result = "(bool \<times> string set \<times> string set) option"

fun visit :: "nat \<Rightarrow> (string, string list) js_map \<Rightarrow> string set \<Rightarrow> string set \<Rightarrow> string \<Rightarrow> dfs_result"
  and visit_all ::
    "nat \<Rightarrow> (string, string list) js_map \<Rightarrow> string set \<Rightarrow> string set \<Rightarrow> string list \<Rightarrow> dfs_result"
where
  "visit 0 deps visited stack x = None"
| "visit (Suc fuel) deps visited stack x =
     (if x \<in> stack then Some (True, visited, stack)
      else if x \<in> visited then Some (False, visited, stack)
      else case visit_all fuel deps visited (insert x stack) (js_getd [] deps x) of
             None \<Rightarrow> None
           | Some (True, visited', stack') \<Rightarrow> Some (True, visited', stack')
           | Some (False, visited', stack') \<Rightarrow> Some (False, insert x visited', stack' - {x}))"
| "visit_all fuel deps visited stack [] = Some (False, visited, stack)"
| "visit_all fuel deps visited stack (p # ps) =
     (case visit fuel deps visited stack p of
        None \<Rightarrow> None
      | Some (True, visited', stack') \<Rightarrow> Some (True, visited', stack')
      | Some (False, visited', stack') \<Rightarrow> visit_all fuel deps visited' stack' ps)"

definition hasCycle :: "(string, string list) js_map \<Rightarrow> string list \<Rightarrow> bool option" where
  "hasCycle deps opIds = map_option fst (visit_all (length deps + 1) deps {} {} opIds)"

definition is_ready :: "TimelockState \<Rightarrow> LedgerClock \<Rightarrow> bytes \<Rightarrow> bool" where
  "is_ready state clock opIdBytes =
     (case js_get (tl_operations state) (to_hex opIdBytes) of
        None \<Rightarrow> False
      | Some oper \<Rightarrow> \<not> op_executed oper \<and> \<not> op_cancelled oper \<and>
          clock_timestamp clock \<ge> op_readyAt oper \<and> clock_timestamp clock \<le> op_expiresAt oper)"

definition is_pending :: "TimelockState \<Rightarrow> LedgerClock \<Rightarrow> bytes \<Rightarrow> bool" where
  "is_pending state clock opIdBytes =
     (case js_get (tl_operations state) (to_hex opIdBytes) of
        None \<Rightarrow> False
      | Some oper \<Rightarrow> \<not> op_executed oper \<and> \<not> op_cancelled oper \<and>
          clock_timestamp clock < op_readyAt oper)"

definition min_delay :: "TimelockState \<Rightarrow> int" where
  "min_delay state = tl_minDelay state"

definition execution_window :: "TimelockState \<Rightarrow> int" where
  "execution_window state = tl_executionWindow state"

definition predecessor_done :: "TimelockState \<Rightarrow> string \<Rightarrow> bool" where
  "predecessor_done state pred =
     (case js_get (tl_operations state) pred of
        None \<Rightarrow> False
      | Some predOp \<Rightarrow> op_executed predOp \<or> op_cancelled predOp)"

definition schedule_with_deps ::
  "(bytes \<Rightarrow> bytes) \<Rightarrow> TimelockState \<Rightarrow> LedgerClock \<Rightarrow> address \<Rightarrow> bytes \<Rightarrow> string \<Rightarrow> int \<Rightarrow>
     bytes list \<Rightarrow> (string, TimelockState) outcome" where
  "schedule_with_deps sha256 state clock target data fnName delay predecessorIds =
     (let predecessors = map to_hex predecessorIds in
      if \<not> list_all (predecessor_done state) predecessors then throws (MockContractError 100) state
      else
        let opId = computeOpId sha256 target data fnName delay [] [];
            readyAt = clock_timestamp clock + delay;
            expiresAt = readyAt + tl_executionWindow state;
            oper = \<lparr>op_target = target, op_fnName = fnName, op_data = data, op_readyAt = readyAt,
                  op_expiresAt = expiresAt, op_executed = False, op_cancelled = False,
                  op_predecessors = Some predecessors\<rparr>
        in returns opId
             (state\<lparr>tl_operations := js_set (tl_operations state) opId oper,
                    tl_dependencies := js_set (tl_dependencies state) opId predecessors\<rparr>))"

definition validate_dependency_dag ::
  "TimelockState \<Rightarrow> bytes list \<Rightarrow> (unit, TimelockState) outcome option" where
  "validate_dependency_dag state opIds =
     (case hasCycle (tl_dependencies state) (map to_hex opIds) of
        None \<Rightarrow> None
      | Some True \<Rightarrow> Some (throws (MockContractError 100) state)
      | Some False \<Rightarrow> Some (returns () state))"

definition execute_batch_partial :: "TimelockState \<Rightarrow> (unit, TimelockState) outcome" where
  "execute_batch_partial state = returns () state"

definition retry_failed_operation :: "TimelockState \<Rightarrow> (unit, TimelockState) outcome" where
  "retry_failed_operation state = returns () state"

definition skip_failed_operation :: "TimelockState \<Rightarrow> (unit, TimelockState) outcome" where
  "skip_failed_operation state = returns () state"

lemmas timelock_op_defs =
  scheduleOperation_def executeOperation_def cancelOperation_def schedule_with_deps_def

subsection \<open>The dependency search\<close>

definition dep_edges :: "(string, string list) js_map \<Rightarrow> (string \<times> string) set" where
  "dep_edges deps = {(a, b). b \<in> set (js_getd [] deps a)}"

definition reaches_cycle :: "(string, string list) js_map \<Rightarrow> string \<Rightarrow> bool" where
  "reaches_cycle deps a \<longleftrightarrow>
     (\<exists>x. (a, x) \<in> (dep_edges deps)\<^sup>* \<and> (x, x) \<in> (dep_edges deps)\<^sup>+)"

text \<open>What holds of the two sets between calls: finished nodes are closed under edges and lead to
  no cycle, and none of them is on the stack.\<close>

definition dfs_inv :: "(string, string list) js_map \<Rightarrow> string set \<Rightarrow> string set \<Rightarrow> bool" where
  "dfs_inv deps visited stack \<longleftrightarrow>
     visited \<inter> stack = {} \<and>
     (\<forall>v w. v \<in> visited \<longrightarrow> (v, w) \<in> dep_edges deps \<longrightarrow> w \<in> visited) \<and>
     (\<forall>v. v \<in> visited \<longrightarrow> \<not> reaches_cycle deps v)"

lemma reaches_cycle_step: "(a, b) \<in> dep_edges deps \<Longrightarrow> reaches_cycle deps b \<Longrightarrow> reaches_cycle deps a"
  unfolding reaches_cycle_def by (meson converse_rtrancl_into_rtrancl)

lemma closed_reach:
  assumes "(a, b) \<in> (dep_edges deps)\<^sup>*" "a \<in> V"
    and "\<And>v w. v \<in> V \<Longrightarrow> (v, w) \<in> dep_edges deps \<Longrightarrow> w \<in> V"
  shows "b \<in> V"
  using assms(1,2) by (induction rule: rtrancl_induct) (auto intro: assms(3))

lemma dfs_inv_finish:
  assumes inv: "dfs_inv deps V (insert x S)" and succ: "set (js_getd [] deps x) \<subseteq> V"
  shows "dfs_inv deps (insert x V) (S - {x})"
proof -
  have closed: "\<And>v w. v \<in> V \<Longrightarrow> (v, w) \<in> dep_edges deps \<Longrightarrow> w \<in> V"
    and good: "\<And>v. v \<in> V \<Longrightarrow> \<not> reaches_cycle deps v" and notin: "x \<notin> V"
    using inv by (auto simp: dfs_inv_def)
  have edge: "(x, y) \<in> dep_edges deps \<Longrightarrow> y \<in> V" for y
    using succ by (auto simp: dep_edges_def)
  have no_self: "(x, x) \<notin> (dep_edges deps)\<^sup>+"
  proof
    assume "(x, x) \<in> (dep_edges deps)\<^sup>+"
    then obtain y where "(x, y) \<in> dep_edges deps" "(y, x) \<in> (dep_edges deps)\<^sup>*"
      by (meson tranclD)
    then have "x \<in> V" using closed_reach edge closed by blast
    then show False using notin by simp
  qed
  have "\<not> reaches_cycle deps x"
  proof
    assume "reaches_cycle deps x"
    then obtain z where z: "(x, z) \<in> (dep_edges deps)\<^sup>*" "(z, z) \<in> (dep_edges deps)\<^sup>+"
      by (auto simp: reaches_cycle_def)
    then have "z \<noteq> x" using no_self by auto
    then obtain y where "(x, y) \<in> dep_edges deps" "(y, z) \<in> (dep_edges deps)\<^sup>*"
      using z(1) by (auto elim: converse_rtranclE)
    then show False using z(2) edge good by (auto simp: reaches_cycle_def)
  qed
  then show ?thesis using inv edge by (auto simp: dfs_inv_def)
qed

lemma visit_correct:
  "visit n deps V S x = Some (b, V', S') \<Longrightarrow> dfs_inv deps V S \<Longrightarrow>
     \<forall>s \<in> S. (s, x) \<in> (dep_edges deps)\<^sup>+ \<Longrightarrow>
     (b \<longrightarrow> reaches_cycle deps x) \<and> (\<not> b \<longrightarrow> S' = S \<and> insert x V \<subseteq> V' \<and> dfs_inv deps V' S)"
  "visit_all n deps V S ps = Some (b, V', S') \<Longrightarrow> dfs_inv deps V S \<Longrightarrow>
     \<forall>s \<in> S. \<forall>p \<in> set ps. (s, p) \<in> (dep_edges deps)\<^sup>+ \<Longrightarrow>
     (b \<longrightarrow> (\<exists>p \<in> set ps. reaches_cycle deps p)) \<and>
     (\<not> b \<longrightarrow> S' = S \<and> set ps \<union> V \<subseteq> V' \<and> dfs_inv deps V' S)"
proof (induction n deps V S x and n deps V S ps arbitrary: b V' S' and b V' S'
    rule: visit_visit_all.induct)
  case (1 deps V S x)
  then show ?case by simp
next
  case (2 n deps V S x)
  consider "x \<in> S" | "x \<notin> S" "x \<in> V" | "x \<notin> S" "x \<notin> V" by blast
  then show ?case
  proof cases
    case 1
    then have "(x, x) \<in> (dep_edges deps)\<^sup>+" using "2.prems"(3) by blast
    then have "reaches_cycle deps x" by (auto simp: reaches_cycle_def)
    then show ?thesis using 1 "2.prems"(1) by auto
  next
    case 2
    then show ?thesis using "2.prems" by auto
  next
    case 3
    obtain b0 V0 S0 where run:
      "visit_all n deps V (insert x S) (js_getd [] deps x) = Some (b0, V0, S0)"
      using 3 "2.prems"(1) by (auto split: option.splits)
    have inv': "dfs_inv deps V (insert x S)" using "2.prems"(2) 3 by (simp add: dfs_inv_def)
    have path: "\<forall>s \<in> insert x S. \<forall>p \<in> set (js_getd [] deps x). (s, p) \<in> (dep_edges deps)\<^sup>+"
      using "2.prems"(3) by (auto simp: dep_edges_def intro: trancl_into_trancl)
    note IH = "2.IH" [OF 3(1) 3(2) run inv' path]
    show ?thesis
    proof (cases b0)
      case True
      then have "reaches_cycle deps x"
        using IH by (auto simp: dep_edges_def intro: reaches_cycle_step)
      then show ?thesis using True run 3 "2.prems"(1) by auto
    next
      case False
      then have "dfs_inv deps (insert x V0) (S - {x})"
        using IH dfs_inv_finish [of deps V0 x S] by auto
      then show ?thesis using False IH run 3 "2.prems"(1) by auto
    qed
  qed
next
  case (3 n deps V S)
  then show ?case by simp
next
  case (4 n deps V S p ps)
  obtain b0 V0 S0 where run: "visit n deps V S p = Some (b0, V0, S0)"
    using "4.prems"(1) by (auto split: option.splits)
  have first: "(b0 \<longrightarrow> reaches_cycle deps p) \<and>
      (\<not> b0 \<longrightarrow> S0 = S \<and> insert p V \<subseteq> V0 \<and> dfs_inv deps V0 S)"
    using "4.IH"(1) [OF run] "4.prems"(2,3) by simp
  show ?case
  proof (cases b0)
    case True
    then show ?thesis using first run "4.prems"(1) by auto
  next
    case False
    then have rest: "visit_all n deps V0 S0 ps = Some (b, V', S')"
      using run "4.prems"(1) by auto
    have "b0 = False" using False by simp
    from "4.IH"(2) [OF run refl this refl rest]
    show ?thesis using first False "4.prems"(3) by auto
  qed
qed

lemma visit_stack:
  "visit n deps V S x = Some (False, V', S') \<Longrightarrow> S' = S"
  "visit_all n deps V S ps = Some (False, V', S') \<Longrightarrow> S' = S"
proof (induction n deps V S x and n deps V S ps arbitrary: V' S' and V' S'
    rule: visit_visit_all.induct)
  case (1 deps V S x)
  then show ?case by simp
next
  case (2 n deps V S x)
  show ?case
  proof (cases "x \<in> S \<or> x \<in> V")
    case True
    then show ?thesis using "2.prems" by (auto split: if_splits)
  next
    case False
    then obtain V0 S0 where run:
      "visit_all n deps V (insert x S) (js_getd [] deps x) = Some (False, V0, S0)"
      and S': "S' = S0 - {x}"
      using "2.prems" by (auto split: option.splits bool.splits)
    then have "S0 = insert x S" using "2.IH" False by blast
    then show ?thesis using S' False by simp
  qed
next
  case (3 n deps V S)
  then show ?case by simp
next
  case (4 n deps V S p ps)
  obtain V0 S0 where run: "visit n deps V S p = Some (False, V0, S0)"
    and rest: "visit_all n deps V0 S0 ps = Some (False, V', S')"
    using "4.prems" by (auto split: option.splits bool.splits)
  then show ?case using "4.IH"(1) [OF run] "4.IH"(2) [OF run refl refl refl rest] by simp
qed

text \<open>Every frame of the recursion puts another key of the dependency map on the stack, so the
  depth is at most their number.\<close>

lemma visit_enough:
  "card (set (js_keys deps) - S) < n \<Longrightarrow> visit n deps V S x \<noteq> None"
  "card (set (js_keys deps) - S) < n \<Longrightarrow> visit_all n deps V S ps \<noteq> None"
proof (induction n deps V S x and n deps V S ps rule: visit_visit_all.induct)
  case (1 deps V S x)
  then show ?case by simp
next
  case (2 n deps V S x)
  show ?case
  proof (cases "x \<in> S \<or> x \<in> V")
    case False
    have "visit_all n deps V (insert x S) (js_getd [] deps x) \<noteq> None"
    proof (cases "x \<in> set (js_keys deps)")
      case True
      let ?K = "set (js_keys deps)"
      have "?K - S = insert x (?K - insert x S)" using True False by auto
      then have "card (?K - S) = card (insert x (?K - insert x S))" by (rule arg_cong)
      also have "\<dots> = Suc (card (?K - insert x S))" by (rule card_insert_disjoint) auto
      finally have "card (?K - insert x S) < n" using "2.prems" by linarith
      then show ?thesis using "2.IH" False by blast
    next
      case nokey: False
      then have "js_getd [] deps x = []"
        by (simp add: js_getd_def js_get_in_keys [symmetric])
      then show ?thesis by simp
    qed
    then obtain b0 V0 S0 where
      "visit_all n deps V (insert x S) (js_getd [] deps x) = Some (b0, V0, S0)"
      by auto
    then show ?thesis using False by (cases b0) simp_all
  qed auto
next
  case (3 n deps V S)
  then show ?case by simp
next
  case (4 n deps V S p ps)
  obtain b0 V0 S0 where run: "visit n deps V S p = Some (b0, V0, S0)"
    using "4.IH"(1) "4.prems" by auto
  show ?case
  proof (cases b0)
    case True
    then show ?thesis using run by simp
  next
    case False
    then have b0: "b0 = False" by simp
    have "S0 = S" using run unfolding b0 by (rule visit_stack(1))
    then have "visit_all n deps V0 S0 ps \<noteq> None"
      using "4.IH"(2) [OF run refl b0 refl] "4.prems" by simp
    then show ?thesis using run False by simp
  qed
qed

lemma hasCycle_decides: "hasCycle deps opIds = Some (\<exists>x \<in> set opIds. reaches_cycle deps x)"
proof -
  have "card (set (js_keys deps) - {}) < length deps + 1"
    using card_length [of "js_keys deps"] by (simp add: js_keys_def)
  then obtain b V S where run: "visit_all (length deps + 1) deps {} {} opIds = Some (b, V, S)"
    using visit_enough(2) [of deps "{}" "length deps + 1" "{}" opIds] by auto
  have "dfs_inv deps {} {}" by (simp add: dfs_inv_def)
  from visit_correct(2) [OF run this]
  have "(b \<longrightarrow> (\<exists>x \<in> set opIds. reaches_cycle deps x)) \<and>
      (\<not> b \<longrightarrow> set opIds \<subseteq> V \<and> dfs_inv deps V {})" by simp
  then have "b \<longleftrightarrow> (\<exists>x \<in> set opIds. reaches_cycle deps x)"
    by (cases b) (auto simp: dfs_inv_def)
  then show ?thesis using run by (simp add: hasCycle_def)
qed

subsection \<open>Properties\<close>

text \<open>C25: \<^verbatim>\<open>validate_dependency_dag\<close> always returns, never changes the state, and rejects exactly
  the requests from which the recorded dependencies lead to a cycle.\<close>

theorem validate_dependency_dag_decides:
  "validate_dependency_dag state opIds =
     Some (if \<exists>b \<in> set opIds. reaches_cycle (tl_dependencies state) (to_hex b)
           then throws (MockContractError 100) state else returns () state)"
  by (simp add: validate_dependency_dag_def hasCycle_decides)

text \<open>Executing an operation succeeds exactly when \<^verbatim>\<open>is_ready\<close> says so; it then marks that
  operation executed and touches no other, and a failed attempt changes nothing.\<close>

theorem executeOperation_iff_ready:
  "executeOperation state clock (to_hex opId) = (r, state') \<Longrightarrow>
     (r = Inr () \<longleftrightarrow> is_ready state clock opId) \<and>
     (r = Inr () \<longrightarrow>
        (\<exists>oper. js_get (tl_operations state) (to_hex opId) = Some oper \<and>
          js_get (tl_operations state') (to_hex opId) = Some (oper\<lparr>op_executed := True\<rparr>)) \<and>
        (\<forall>i. i \<noteq> to_hex opId \<longrightarrow> js_get (tl_operations state') i = js_get (tl_operations state) i) \<and>
        \<not> is_ready state' clock' opId) \<and>
     (r \<noteq> Inr () \<longrightarrow> state' = state)"
  by (auto simp: executeOperation_def is_ready_def split: option.splits if_splits)

text \<open>The identifier of an operation does not determine the operation: the delay is hashed as
  decimal digits right after the call data, so call data that ends in the digits of a longer
  delay with a shorter delay has the identifier of the original operation.\<close>

theorem computeOpId_collides:
  "computeOpId sha256 target (data @ str_bytes ''36'') fnName 0 [] [] =
   computeOpId sha256 target data fnName 360 [] []"
proof -
  have "dec_int 360 = ''36'' @ dec_int 0"
    by code_simp
  then show ?thesis by (simp add: computeOpId_def str_bytes_def)
qed

text \<open>The delay of a scheduled operation can be bypassed. \<^verbatim>\<open>schedule_with_deps\<close> checks neither the
  caller nor the minimal delay, and the delay is hashed as digits right after the call data: an
  operation scheduled with the minimal delay 50 is replaced, under its own identifier, by one
  whose call data ends in the digit 5 and whose delay is 0, which can be executed at once.\<close>

theorem timelock_delay_bypass:
  assumes "tl_minDelay state = 50" and "0 \<le> tl_executionWindow state"
    and "scheduleOperation sha256 state clock target data fnName 50 [] [] = (Inr opId, state1)"
    and "schedule_with_deps sha256 state1 clock target (data @ str_bytes ''5'') fnName 0 [] = (r, state2)"
  shows "r = Inr opId \<and> (\<exists>e. executeOperation state1 clock opId = (Inl e, state1)) \<and>
     fst (executeOperation state2 clock opId) = Inr ()"
proof -
  have digits: "dec_int 50 = ''5'' @ dec_int 0" by code_simp
  have opId: "opId = computeOpId sha256 target data fnName 50 [] []"
    using assms(1,3) by (simp add: scheduleOperation_def Let_def)
  then have same: "computeOpId sha256 target (data @ str_bytes ''5'') fnName 0 [] [] = opId"
    by (simp add: computeOpId_def digits str_bytes_def)
  have "r = Inr opId" using assms(4) same by (auto simp: schedule_with_deps_def Let_def)
  moreover have "\<exists>e. executeOperation state1 clock opId = (Inl e, state1)"
    using assms(1,3) by (auto simp: scheduleOperation_def executeOperation_def Let_def)
  moreover have "tl_executionWindow state1 = tl_executionWindow state"
    using assms(1,3) by (auto simp: scheduleOperation_def Let_def)
  then have "fst (executeOperation state2 clock opId) = Inr ()"
    using assms(2,4) same by (auto simp: schedule_with_deps_def executeOperation_def Let_def)
  ultimately show ?thesis by simp
qed

definition demo_timelock :: TimelockState where
  "demo_timelock = \<lparr>tl_minDelay = 50, tl_executionWindow = 1000, tl_operations = [], tl_dependencies = []\<rparr>"

definition demo_time :: "int \<Rightarrow> LedgerClock" where
  "demo_time n = \<lparr>ck_current = n, ck_genesisTimestamp = 1700000000\<rparr>"

theorem timelock_delay_bypass_witness:
  "fst (executeOperation
     (snd (schedule_with_deps (\<lambda>b. b)
        (snd (scheduleOperation (\<lambda>b. b) demo_timelock (demo_time 7) ''T'' [1] ''f'' 50 [] []))
        (demo_time 7) ''T'' ([1] @ str_bytes ''5'') ''f'' 0 []))
     (demo_time 7) (computeOpId (\<lambda>b. b) ''T'' [1] ''f'' 50 [] [])) = Inr ()"
proof -
  let ?s1 = "snd (scheduleOperation (\<lambda>b. b) demo_timelock (demo_time 7) ''T'' [1] ''f'' 50 [] [])"
  let ?r = "schedule_with_deps (\<lambda>b. b) ?s1 (demo_time 7) ''T'' ([1] @ str_bytes ''5'') ''f'' 0 []"
  have "tl_minDelay demo_timelock = 50" "0 \<le> tl_executionWindow demo_timelock"
    by (simp_all add: demo_timelock_def)
  moreover have "scheduleOperation (\<lambda>b. b) demo_timelock (demo_time 7) ''T'' [1] ''f'' 50 [] [] =
      (Inr (computeOpId (\<lambda>b. b) ''T'' [1] ''f'' 50 [] []), ?s1)"
    by (simp add: scheduleOperation_def demo_timelock_def Let_def)
  moreover have "?r = (fst ?r, snd ?r)" by simp
  ultimately show ?thesis using timelock_delay_bypass by blast
qed

theorem executeOperation_iff_ready_witness:
  "fst (executeOperation
     (snd (scheduleOperation (\<lambda>b. b) demo_timelock (demo_time 7) ''T'' [1] ''f'' 50 [] []))
     (demo_time 20) (to_hex (str_bytes ''T'' @ str_bytes ''f'' @ [1] @ str_bytes ''50''))) = Inr ()"
proof -
  let ?id = "str_bytes ''T'' @ str_bytes ''f'' @ [1] @ str_bytes ''50''"
  let ?s = "snd (scheduleOperation (\<lambda>b. b) demo_timelock (demo_time 7) ''T'' [1] ''f'' 50 [] [])"
  let ?r = "executeOperation ?s (demo_time 20) (to_hex ?id)"
  have "is_ready ?s (demo_time 20) ?id" by code_simp
  moreover have "?r = (fst ?r, snd ?r)" by simp
  ultimately show ?thesis using executeOperation_iff_ready by blast
qed

end
