(* ===== verification/SdkErrors.thy ===== *)
theory SdkErrors
  imports NebText
begin

section \<open>Typed errors of the SDK\<close>

text \<open>
  \<^verbatim>\<open>sdk/src/errors.ts\<close>: the error code enumerations, their message tables, the extraction of a
  contract error code from the text an RPC node reports, and the parsers that turn it into a
  typed error. An \<^verbatim>\<open>enum\<close> is the table of its names and values, and a message table maps values to
  texts. The twelve parsers have one shape, given once as \<open>parseContractError\<close>; the interface
  \<open>error_parser\<close> states what the clients rely on and is interpreted for each of them. Also
  here is \<^verbatim>\<open>MockContractError.toSorobanErrorString\<close> of the simulation, the producer of the text.
\<close>

subsection \<open>Enumerations\<close>

definition GovernorErrorCode :: "(string \<times> int) list" where
  "GovernorErrorCode = [
     (''UnauthorizedCancel'', 1),
     (''InvalidSupport'', 2),
     (''ProposalExpired'', 3),
     (''CalldataTooLarge'', 4),
     (''InvalidCalldata'', 5),
     (''ProposalRateLimited'', 6),
     (''ContractPaused'', 7),
     (''UnauthorizedPause'', 8),
     (''InvalidVectorLengths'', 9),
     (''NoTargets'', 10),
     (''ProposalThresholdNotMet'', 11),
     (''AlreadyVoted'', 12),
     (''ZeroVotingPower'', 13),
     (''ProposalNotSucceeded'', 14),
     (''ProposalNotQueued'', 15),
     (''ProposalAlreadyExecuted'', 16),
     (''MissingOpIds'', 17),
     (''UnauthorizedGuardian'', 18),
     (''VetoWindowClosed'', 19),
     (''ProposalNotFound'', 20),
     (''TimelockNotSet'', 21),
     (''GuardianNotSet'', 22),
     (''TooManyTokens'', 23),
     (''EmptyMetadataUri'', 24),
     (''VotesTokenNotSet'', 25),
     (''PauserNotSet'', 26),
     (''ArithmeticOverflow'', 27),
     (''VotePeriodTooShort'', 28),
     (''ExecutionWindowZero'', 29),
     (''TooManyCalldataEntries'', 30),
     (''ProposalNotActive'', 31),
     (''AlreadyInitialized'', 32),
     (''InvalidVotingDelay'', 33),
     (''InvalidVotingPeriod'', 34),
     (''InvalidQuorumNumerator'', 35),
     (''InvalidProposalThreshold'', 36),
     (''InvalidMaxCalldataSize'', 37),
     (''InvalidMaxProposalsPerPeriod'', 38),
     (''InvalidProposalPeriodDuration'', 39),
     (''EmptyBatch'', 40),
     (''BatchProposalNotQueued'', 41),
     (''ProposalAlreadyCancelled'', 42),
     (''InvalidVoteChoice'', 43),
     (''UnauthorizedRegistry'', 44),
     (''RpcNotFound'', 100),
     (''SimulationFailed'', 101),
     (''TransactionFailed'', 102),
     (''TransactionTimeout'', 103),
     (''InvalidArguments'', 104),
     (''UnknownState'', 105)]"

definition TimelockErrorCode :: "(string \<times> int) list" where
  "TimelockErrorCode = [
     (''PredecessorNotDone'', 1),
     (''PredecessorNotFound'', 2),
     (''OperationExpired'', 3),
     (''DependencyCycleDetected'', 10),
     (''PredecessorNotComplete'', 11),
     (''BatchInRecoveryMode'', 12),
     (''BatchRecoveryExpired'', 13),
     (''OperationAlreadyInBatch'', 14),
     (''InvalidPredecessorList'', 15),
     (''SimulationFailed'', 100),
     (''TransactionFailed'', 101),
     (''TransactionTimeout'', 102),
     (''MissingReturnValue'', 103)]"

definition VotesErrorCode :: "(string \<times> int) list" where
  "VotesErrorCode = [
     (''InvalidSignature'', 10),
     (''NonceAlreadyUsed'', 11),
     (''PermitExpired'', 12),
     (''InvalidDelegationPermit'', 13),
     (''RelayerNotWhitelisted'', 14),
     (''InvalidChainId'', 15),
     (''InvalidContractId'', 16),
     (''ChainDepthExceeded'', 17),
     (''SplitTooManyTargets'', 18),
     (''SplitDuplicateDelegatee'', 19),
     (''SplitZeroWeight'', 20),
     (''SplitWeightsMustSum10000'', 21),
     (''SimulationFailed'', 100),
     (''TransactionFailed'', 101),
     (''TransactionTimeout'', 102),
     (''DelegationFailed'', 103),
     (''EventScanFailed'', 104)]"

definition VoteEscrowErrorCode :: "(string \<times> int) list" where
  "VoteEscrowErrorCode = [
     (''NotInitialized'', 1),
     (''LockNotFound'', 2),
     (''LockNotMatured'', 3),
     (''LockAlreadyWithdrawn'', 4),
     (''InvalidDuration'', 5),
     (''InvalidAmount'', 6),
     (''InvalidEndLedger'', 7),
     (''ArithmeticOverflow'', 8),
     (''Unauthorized'', 9),
     (''LockAlreadyExists'', 10),
     (''SimulationFailed'', 100),
     (''TransactionFailed'', 101),
     (''TransactionTimeout'', 102)]"

definition TreasuryErrorCode :: "(string \<times> int) list" where
  "TreasuryErrorCode = [
     (''SingleTransferExceeded'', 1),
     (''DailyLimitExceeded'', 2),
     (''NotInitialized'', 3),
     (''NoPendingOwner'', 4),
     (''TxNotFound'', 5),
     (''NotAnOwner'', 6),
     (''ArithmeticOverflow'', 7),
     (''StreamNotFound'', 10),
     (''StreamNotActive'', 11),
     (''StreamExpired'', 12),
     (''StreamRevoked'', 13),
     (''StreamBudgetExhausted'', 14),
     (''StreamSpendExceedsMax'', 15),
     (''StreamCooldownNotElapsed'', 16),
     (''UnauthorizedStreamOwner'', 17),
     (''InsufficientTreasuryBalance'', 18),
     (''StreamAlreadyRevoked'', 19),
     (''StreamEndBeforeStart'', 20),
     (''StreamSpendNotFound'', 21),
     (''SimulationFailed'', 100),
     (''TransactionFailed'', 101),
     (''TransactionTimeout'', 102),
     (''MissingReturnValue'', 103),
     (''InvalidArguments'', 104)]"

definition CoSponsorshipErrorCode :: "(string \<times> int) list" where
  "CoSponsorshipErrorCode = [
     (''AlreadyInitialized'', 1),
     (''DraftNotFound'', 2),
     (''DraftExpired'', 3),
     (''DraftClosed'', 4),
     (''AlreadyCoSponsored'', 5),
     (''NotCoSponsored'', 6),
     (''CoSponsorLimitReached'', 7),
     (''DraftThresholdNotMet'', 8),
     (''UnauthorizedDraftCreator'', 9),
     (''ZeroVotingPower'', 10),
     (''InvalidVectorLengths'', 11),
     (''NoTargets'', 12),
     (''CalldataTooLarge'', 13),
     (''TooManyCalldataEntries'', 14),
     (''NotInitialized'', 15),
     (''SimulationFailed'', 100),
     (''TransactionFailed'', 101),
     (''TransactionTimeout'', 102),
     (''MissingReturnValue'', 103)]"

definition SignalingErrorCode :: "(string \<times> int) list" where
  "SignalingErrorCode = [
     (''AlreadyInitialized'', 1),
     (''AlreadyAnchored'', 2),
     (''Unauthorized'', 3),
     (''NotInitialized'', 4),
     (''SimulationFailed'', 100),
     (''TransactionFailed'', 101),
     (''TransactionTimeout'', 102),
     (''MissingReturnValue'', 103)]"

definition ProposalBondsErrorCode :: "(string \<times> int) list" where
  "ProposalBondsErrorCode = [
     (''AlreadyInitialized'', 1),
     (''NotInitialized'', 2),
     (''BondAlreadyLocked'', 3),
     (''BondNotFound'', 4),
     (''BondNotLocked'', 5),
     (''DescriptionHashMismatch'', 6),
     (''ProposalNotTerminal'', 7),
     (''RefundGraceNotElapsed'', 8),
     (''NotAuthorized'', 9),
     (''SimulationFailed'', 100),
     (''TransactionFailed'', 101),
     (''TransactionTimeout'', 102),
     (''MissingReturnValue'', 103)]"

definition TreasuryStrategiesErrorCode :: "(string \<times> int) list" where
  "TreasuryStrategiesErrorCode = [
     (''AlreadyInitialized'', 1),
     (''NotAdmin'', 2),
     (''NotTreasury'', 3),
     (''StrategyNotFound'', 4),
     (''NoActiveStrategy'', 5),
     (''AllocationCapExceeded'', 6),
     (''InsufficientAllocation'', 7),
     (''WithdrawalNotFound'', 8),
     (''WithdrawalAlreadyClaimed'', 9),
     (''WithdrawalNotYetClaimable'', 10),
     (''InvalidAmount'', 11),
     (''InvalidBps'', 12),
     (''SimulationFailed'', 100),
     (''TransactionFailed'', 101),
     (''TransactionTimeout'', 102),
     (''MissingReturnValue'', 103)]"

definition ConvictionVotingErrorCode :: "(string \<times> int) list" where
  "ConvictionVotingErrorCode = [
     (''AlreadyInitialized'', 1),
     (''NotInitialized'', 2),
     (''InvalidConfiguration'', 3),
     (''InvalidAmount'', 4),
     (''ProposalNotFound'', 5),
     (''ProposalClosed'', 6),
     (''InsufficientVotingPower'', 7),
     (''StakeNotFound'', 8),
     (''Unauthorized'', 9),
     (''ArithmeticOverflow'', 10),
     (''InvalidCalldata'', 11),
     (''SimulationFailed'', 100),
     (''TransactionFailed'', 101),
     (''TransactionTimeout'', 102)]"

definition OptimisticGovernorErrorCode :: "(string \<times> int) list" where
  "OptimisticGovernorErrorCode = [
     (''AlreadyInitialized'', 1),
     (''NotInitialized'', 2),
     (''InvalidConfiguration'', 3),
     (''InvalidCalldata'', 4),
     (''ProposalNotFound'', 5),
     (''NotInChallengeWindow'', 6),
     (''ChallengeWindowNotElapsed'', 7),
     (''ChallengeWindowElapsed'', 8),
     (''AlreadyObjected'', 9),
     (''NoVotingPower'', 10),
     (''ProposalObjected'', 11),
     (''ProposalNotPassed'', 12),
     (''ProposalAlreadyFinalized'', 13),
     (''Unauthorized'', 14),
     (''ArithmeticOverflow'', 15),
     (''ProposalNotCancellable'', 16),
     (''SimulationFailed'', 100),
     (''TransactionFailed'', 101),
     (''TransactionTimeout'', 102)]"

definition VotingRewardsErrorCode :: "(string \<times> int) list" where
  "VotingRewardsErrorCode = [
     (''AlreadyInitialized'', 1),
     (''NotInitialized'', 2),
     (''NotAuthorized'', 3),
     (''InvalidEpochDuration'', 4),
     (''EpochNotFound'', 5),
     (''EpochNotEnded'', 6),
     (''EpochAlreadyFinalized'', 7),
     (''EpochNotFinalized'', 8),
     (''InsufficientPool'', 9),
     (''InvalidAmount'', 10),
     (''AlreadyClaimed'', 11),
     (''InvalidProof'', 12),
     (''EpochOverclaimed'', 13),
     (''SimulationFailed'', 100),
     (''TransactionFailed'', 101),
     (''TransactionTimeout'', 102),
     (''MissingReturnValue'', 103)]"

subsection \<open>Messages\<close>

definition GOVERNOR_MESSAGES :: "(int, string) js_map" where
  "GOVERNOR_MESSAGES = [
     (1, ''Unauthorized: only the proposer or guardian can cancel this proposal''),
     (2, ''Invalid vote support: this governance type does not allow abstain votes''),
     (3, ''Proposal has expired and can no longer be acted upon''),
     (4, ''Calldata exceeds the maximum allowed size''),
     (5, ''Calldata is invalid or malformed''),
     (6, ''Proposal creation is rate-limited for this proposer''),
     (7, ''Contract is paused''),
     (8, ''Only the pauser may pause the contract''),
     (9, ''Targets, function names, and calldatas must have the same length''),
     (10, ''At least one target is required''),
     (11, ''Proposer does not meet the proposal threshold''),
     (12, ''Voter has already voted on this proposal''),
     (13, ''Account has zero voting power''),
     (14, ''Proposal is not in Succeeded state''),
     (15, ''Proposal is not queued''),
     (16, ''Proposal has already been executed''),
     (17, ''Missing timelock operation IDs; queue() must be called first''),
     (18, ''Only the guardian may perform this action''),
     (19, ''Veto window has closed''),
     (20, ''Proposal not found''),
     (21, ''Timelock address is not configured''),
     (22, ''Guardian address is not configured''),
     (23, ''Multi-token strategy supports at most 5 tokens''),
     (24, ''Metadata URI cannot be empty''),
     (25, ''Votes token address is not configured''),
     (26, ''Pauser address is not configured''),
     (27, ''Arithmetic overflow while computing governance state''),
     (28, ''Voting period is shorter than the minimum required''),
     (29, ''Execution window must be greater than zero''),
     (30, ''Proposal exceeds the maximum number of calldata entries (10)''),
     (31, ''Voting has ended for this proposal''),
     (32, ''Contract is already initialized''),
     (33, ''Voting delay must be greater than zero''),
     (34, ''Voting period must be greater than zero''),
     (35, ''Quorum numerator must be between 0 and 100''),
     (36, ''Proposal threshold must be non-negative''),
     (37, ''Max calldata size must be greater than zero''),
     (38, ''Max proposals per period must be greater than zero''),
     (39, ''Proposal period duration must be greater than zero''),
     (40, ''Batch proposal cannot be empty''),
     (41, ''Batch proposal is not queued''),
     (42, ''Proposal has already been cancelled''),
     (43, ''Invalid vote choice: must be 0 (Against), 1 (For), or 2 (Abstain)''),
     (44, ''Caller is not the configured co-sponsorship registry''),
     (100, ''Proposal not found''),
     (101, ''Simulation failed''),
     (102, ''Transaction failed''),
     (103, ''Transaction timed out''),
     (104, ''Invalid arguments''),
     (105, ''Unknown proposal state'')]"

definition TIMELOCK_MESSAGES :: "(int, string) js_map" where
  "TIMELOCK_MESSAGES = [
     (1, ''Cannot execute: predecessor operation has not been executed yet''),
     (2, ''Cannot schedule: the specified predecessor operation does not exist''),
     (3, ''Operation has expired and can no longer be executed''),
     (10, ''The dependency graph contains a cycle and cannot be scheduled''),
     (11, ''A predecessor operation in the batch has not completed yet''),
     (12, ''Batch is in recovery mode and cannot accept this operation''),
     (13, ''Batch recovery deadline has expired''),
     (14, ''Operation is already part of a batch''),
     (15, ''Invalid predecessor list provided''),
     (100, ''Simulation failed''),
     (101, ''Transaction failed''),
     (102, ''Transaction timed out''),
     (103, ''No return value from contract'')]"

definition VOTES_MESSAGES :: "(int, string) js_map" where
  "VOTES_MESSAGES = [
     (10, ''Invalid or missing delegation signature''),
     (11, ''Permit nonce has already been used or invalidated''),
     (12, ''Delegation permit has expired''),
     (13, ''Delegation permit is malformed or out of order''),
     (14, ''Relayer is not whitelisted to submit signed permits''),
     (15, ''Permit was signed for a different network''),
     (16, ''Permit was signed for a different contract''),
     (17, ''Delegation would exceed the maximum chain depth''),
     (18, ''Split delegation has more entries than the maximum allowed targets''),
     (19, ''Split delegation contains a duplicate delegatee''),
     (20, ''Split delegation entry must have a non-zero weight''),
     (21, ''Split delegation weights must sum to exactly 10000 (100%)''),
     (100, ''Simulation failed''),
     (101, ''Transaction failed''),
     (102, ''Transaction timed out''),
     (103, ''Delegation transaction failed''),
     (104, ''Failed to scan delegation events'')]"

definition VOTE_ESCROW_MESSAGES :: "(int, string) js_map" where
  "VOTE_ESCROW_MESSAGES = [
     (1, ''Vote escrow contract is not initialized''),
     (2, ''No active lock found for this account''),
     (3, ''Lock has not yet reached its end ledger''),
     (4, ''Lock has already been withdrawn''),
     (5, ''Lock duration is outside the allowed range''),
     (6, ''Lock amount must be positive''),
     (7, ''New end ledger must be after the current end ledger''),
     (9, ''Caller is not authorized to perform this action''),
     (8, ''Arithmetic overflow in voting power calculation''),
     (10, ''An active lock already exists for this account''),
     (100, ''Simulation failed''),
     (101, ''Transaction failed''),
     (102, ''Transaction timed out'')]"

definition TREASURY_MESSAGES :: "(int, string) js_map" where
  "TREASURY_MESSAGES = [
     (1, ''Transfer exceeds the maximum allowed single-transfer amount''),
     (2, ''Transfer exceeds the configured daily treasury limit''),
     (3, ''Treasury contract has not been initialized''),
     (4, ''No pending treasury owner has been proposed''),
     (5, ''Treasury transaction not found''),
     (6, ''Address is not a treasury owner''),
     (7, ''Treasury amount calculation overflowed''),
     (10, ''Budget stream not found''),
     (11, ''Budget stream is not active''),
     (12, ''Budget stream has expired''),
     (13, ''Budget stream has been revoked''),
     (14, ''Budget stream has no remaining funds''),
     (15, ''Spend exceeds the maximum single spend for a stream''),
     (16, ''Cooldown period between spends has not elapsed''),
     (17, ''Caller is not the authorized stream owner''),
     (18, ''Treasury has insufficient balance for the stream spend''),
     (19, ''Stream has already been revoked''),
     (20, ''Stream end ledger is before start ledger''),
     (21, ''Stream spend record not found''),
     (100, ''Simulation failed''),
     (101, ''Transaction failed''),
     (102, ''Transaction timed out''),
     (103, ''No return value from contract''),
     (104, ''Invalid arguments'')]"

definition CO_SPONSORSHIP_MESSAGES :: "(int, string) js_map" where
  "CO_SPONSORSHIP_MESSAGES = [
     (1, ''Contract is already initialized''),
     (2, ''Draft not found''),
     (3, ''Draft has expired''),
     (4, ''Draft has already been finalized or cancelled''),
     (5, ''Address has already co-sponsored this draft''),
     (6, ''Address has not co-sponsored this draft''),
     (7, ''Draft has reached its maximum co-sponsor count''),
     (8, ''Draft's accumulated co-sponsor power does not meet the proposal threshold''),
     (9, ''Only the draft's creator (or admin, for cancellation) may perform this action''),
     (10, ''Account has zero voting power''),
     (11, ''Targets, function names, and calldatas must have the same length''),
     (12, ''At least one target is required''),
     (13, ''Calldata exceeds the maximum allowed size''),
     (14, ''Too many calldata entries''),
     (15, ''Contract has not been initialized yet''),
     (100, ''Simulation failed''),
     (101, ''Transaction failed''),
     (102, ''Transaction timed out''),
     (103, ''No return value from contract'')]"

definition SIGNALING_MESSAGES :: "(int, string) js_map" where
  "SIGNALING_MESSAGES = [
     (1, ''Contract is already initialized''),
     (2, ''This poll's result has already been anchored''),
     (3, ''Only the configured admin may anchor a result''),
     (4, ''Contract has not been initialized yet''),
     (100, ''Simulation failed''),
     (101, ''Transaction failed''),
     (102, ''Transaction timed out''),
     (103, ''No return value from contract'')]"

definition PROPOSAL_BONDS_MESSAGES :: "(int, string) js_map" where
  "PROPOSAL_BONDS_MESSAGES = [
     (1, ''Contract is already initialized''),
     (2, ''Contract has not been initialized yet''),
     (3, ''A bond has already been locked for this description hash''),
     (4, ''Bond not found''),
     (5, ''Bond is not in the Locked state''),
     (6, ''The proposal's description hash does not match this bond''),
     (7, ''The correlated proposal has not reached a terminal state''),
     (8, ''The post-terminal refund grace window has not elapsed yet''),
     (9, ''Caller is not authorized to perform this action''),
     (100, ''Simulation failed''),
     (101, ''Transaction failed''),
     (102, ''Transaction timed out''),
     (103, ''No return value from contract'')]"

definition TREASURY_STRATEGIES_MESSAGES :: "(int, string) js_map" where
  "TREASURY_STRATEGIES_MESSAGES = [
     (1, ''Contract is already initialized''),
     (2, ''Only the configured admin may perform this action''),
     (3, ''Only the configured treasury may perform this action''),
     (4, ''Strategy not found''),
     (5, ''No active strategy is registered for this token''),
     (6, ''Deposit would exceed the strategy's max_allocation_bps cap''),
     (7, ''Withdrawal amount exceeds the strategy's current allocation''),
     (8, ''Withdrawal request not found''),
     (9, ''Withdrawal has already been claimed''),
     (10, ''Withdrawal cooldown has not elapsed yet''),
     (11, ''Amount must be greater than zero''),
     (12, ''max_allocation_bps must not exceed 10000''),
     (100, ''Simulation failed''),
     (101, ''Transaction failed''),
     (102, ''Transaction timed out''),
     (103, ''No return value from contract'')]"

definition CONVICTION_VOTING_MESSAGES :: "(int, string) js_map" where
  "CONVICTION_VOTING_MESSAGES = [
     (1, ''Contract is already initialized''),
     (2, ''Contract has not been initialized yet''),
     (3, ''Invalid configuration parameters''),
     (4, ''Amount must be positive''),
     (5, ''Proposal not found''),
     (6, ''Proposal is closed or already executed''),
     (7, ''Insufficient voting power for this action''),
     (8, ''No stake found for this account''),
     (9, ''Caller is not authorized to perform this action''),
     (10, ''Arithmetic overflow in conviction calculation''),
     (11, ''Calldata is invalid or malformed''),
     (100, ''Simulation failed''),
     (101, ''Transaction failed''),
     (102, ''Transaction timed out'')]"

definition OPTIMISTIC_GOVERNOR_MESSAGES :: "(int, string) js_map" where
  "OPTIMISTIC_GOVERNOR_MESSAGES = [
     (1, ''Contract is already initialized''),
     (2, ''Contract has not been initialized yet''),
     (3, ''Invalid configuration parameters''),
     (4, ''Calldata is invalid or malformed''),
     (5, ''Proposal not found''),
     (6, ''Proposal is not in the challenge window''),
     (7, ''Challenge window has not elapsed yet''),
     (8, ''Challenge window has already elapsed''),
     (9, ''Address has already objected to this proposal''),
     (10, ''Account has zero voting power''),
     (11, ''Proposal has been objected and is no longer passing''),
     (12, ''Proposal has not passed the challenge window''),
     (13, ''Proposal has already been finalized or objected''),
     (14, ''Caller is not authorized to perform this action''),
     (15, ''Arithmetic overflow in objection calculation''),
     (16, ''Proposal cannot be cancelled in its current state''),
     (100, ''Simulation failed''),
     (101, ''Transaction failed''),
     (102, ''Transaction timed out'')]"

definition VOTING_REWARDS_MESSAGES :: "(int, string) js_map" where
  "VOTING_REWARDS_MESSAGES = [
     (1, ''Contract is already initialized''),
     (2, ''Contract has not been initialized yet''),
     (3, ''Caller is not authorized to perform this action''),
     (4, ''Epoch duration must be greater than zero''),
     (5, ''Epoch not found''),
     (6, ''The epoch's end ledger has not been reached yet''),
     (7, ''This epoch's Merkle root has already been published''),
     (8, ''This epoch's Merkle root has not been published yet''),
     (9, ''The rewards pool does not hold enough unallocated balance for this amount''),
     (10, ''Amount must be greater than zero''),
     (11, ''This address has already claimed for this epoch''),
     (12, ''The Merkle proof does not verify against this epoch's published root''),
     (13, ''This claim would exceed the epoch's total allocated rewards''),
     (100, ''Simulation failed''),
     (101, ''Transaction failed''),
     (102, ''Transaction timed out''),
     (103, ''No return value from contract'')]"

subsection \<open>Reading an RPC error\<close>

text \<open>The argument of the parsers: an error text, an object with the optional fields
  \<^verbatim>\<open>status\<close> and \<^verbatim>\<open>error\<close>, or nothing.\<close>

datatype SorobanRpcError =
  RawString string
| RawObject (raw_status: "string option") (raw_error: "string option")
| RawNull

fun errorText :: "SorobanRpcError \<Rightarrow> string" where
  "errorText (RawString s) = s"
| "errorText (RawObject status err) = (case err of Some e \<Rightarrow> e | None \<Rightarrow> '''')"
| "errorText RawNull = ''''"

fun hasErrorStatus :: "SorobanRpcError \<Rightarrow> bool" where
  "hasErrorStatus (RawObject status err) = (status = Some ''ERROR'')"
| "hasErrorStatus _ = False"

text \<open>The three regular expressions, anchored at the position they are tried at. In each the
  repeated classes and the literals that follow them are disjoint, so greedy matching is exact.\<close>

definition match_hash :: "string \<Rightarrow> int option" where
  "match_hash s =
     (case strip_prefix ''Error(Contract,'' s of None \<Rightarrow> None
      | Some r \<Rightarrow> (case strip_prefix ''#'' (dropWhile is_space r) of None \<Rightarrow> None
          | Some r \<Rightarrow>
              let ds = takeWhile is_digit r in
              if ds \<noteq> [] \<and> strip_prefix '')'' (dropWhile is_digit r) \<noteq> None
              then Some (int (parse_nat ds)) else None))"

definition match_contractErr :: "string \<Rightarrow> int option" where
  "match_contractErr s =
     (case strip_prefix ''ContractError('' s of None \<Rightarrow> None
      | Some r \<Rightarrow>
          let ds = takeWhile is_digit r in
          if ds \<noteq> [] \<and> strip_prefix '')'' (dropWhile is_digit r) \<noteq> None
          then Some (int (parse_nat ds)) else None)"

definition match_generic :: "string \<Rightarrow> int option" where
  "match_generic s =
     (case strip_prefix ''contract error:'' (toLowerCase s) of None \<Rightarrow> None
      | Some r \<Rightarrow>
          let r1 = dropWhile is_space r;
              r2 = (case strip_prefix ''#'' r1 of Some r' \<Rightarrow> r' | None \<Rightarrow> r1);
              ds = takeWhile is_digit r2 in
          if ds \<noteq> [] then Some (int (parse_nat ds)) else None)"

definition extractContractErrorCode :: "SorobanRpcError \<Rightarrow> int option" where
  "extractContractErrorCode raw =
     (let str = errorText raw in
      if str = '''' then None
      else case first_match match_hash str of Some c \<Rightarrow> Some c
      | None \<Rightarrow> (case first_match match_contractErr str of Some c \<Rightarrow> Some c
      | None \<Rightarrow> first_match match_generic str))"

subsection \<open>The parsers\<close>

text \<open>A thrown \<^verbatim>\<open>GovernorError\<close>, \<^verbatim>\<open>TimelockError\<close> and so on: its code and message.\<close>

record sdk_error =
  se_code :: int
  se_message :: string

definition or_unknown :: "string \<Rightarrow> string" where
  "or_unknown s = (if s = '''' then ''unknown'' else s)"

definition parseContractError ::
  "(int, string) js_map \<Rightarrow> string \<Rightarrow> int \<Rightarrow> int \<Rightarrow> SorobanRpcError \<Rightarrow> sdk_error" where
  "parseContractError messages label transactionFailed simulationFailed raw =
     (case extractContractErrorCode raw of
        Some c \<Rightarrow> \<lparr>se_code = c,
                   se_message = (case js_get messages c of Some m \<Rightarrow> m | None \<Rightarrow> label @ dec_int c)\<rparr>
      | None \<Rightarrow>
          if hasErrorStatus raw
          then \<lparr>se_code = transactionFailed,
                se_message = js_getd '''' messages transactionFailed @ '': '' @
                             or_unknown (errorText raw)\<rparr>
          else \<lparr>se_code = simulationFailed,
                se_message = js_getd '''' messages simulationFailed @ '': '' @
                             or_unknown (errorText raw)\<rparr>)"

definition parseVoteEscrowError :: "SorobanRpcError \<Rightarrow> sdk_error" where
  "parseVoteEscrowError = parseContractError VOTE_ESCROW_MESSAGES ''Vote escrow contract error #'' 101 100"

definition parseGovernorError :: "SorobanRpcError \<Rightarrow> sdk_error" where
  "parseGovernorError = parseContractError GOVERNOR_MESSAGES ''Governor contract error #'' 102 101"

definition parseTimelockError :: "SorobanRpcError \<Rightarrow> sdk_error" where
  "parseTimelockError = parseContractError TIMELOCK_MESSAGES ''Timelock contract error #'' 101 100"

definition parseTreasuryError :: "SorobanRpcError \<Rightarrow> sdk_error" where
  "parseTreasuryError = parseContractError TREASURY_MESSAGES ''Treasury contract error #'' 101 100"

definition parseCoSponsorshipError :: "SorobanRpcError \<Rightarrow> string option \<Rightarrow> sdk_error" where
  "parseCoSponsorshipError raw operation =
     (case extractContractErrorCode raw of
        Some c \<Rightarrow>
          if operation = Some ''finalize_draft'' \<and> (c = 6 \<or> c = 7)
          then \<lparr>se_code = 101,
                se_message = ''Governor rejected the underlying proposal: '' @
                  (case js_get GOVERNOR_MESSAGES c of Some m \<Rightarrow> m
                   | None \<Rightarrow> ''Governor contract error #'' @ dec_int c)\<rparr>
          else parseContractError CO_SPONSORSHIP_MESSAGES ''Co-sponsorship contract error #'' 101 100 raw
      | None \<Rightarrow> parseContractError CO_SPONSORSHIP_MESSAGES ''Co-sponsorship contract error #'' 101 100 raw)"

definition parseSignalingError :: "SorobanRpcError \<Rightarrow> sdk_error" where
  "parseSignalingError = parseContractError SIGNALING_MESSAGES ''Signal-anchor contract error #'' 101 100"

definition parseProposalBondsError :: "SorobanRpcError \<Rightarrow> sdk_error" where
  "parseProposalBondsError = parseContractError PROPOSAL_BONDS_MESSAGES ''Proposal-bonds contract error #'' 101 100"

definition parseVotesError :: "SorobanRpcError \<Rightarrow> sdk_error" where
  "parseVotesError = parseContractError VOTES_MESSAGES ''Votes contract error #'' 101 100"

definition parseTreasuryStrategiesError :: "SorobanRpcError \<Rightarrow> sdk_error" where
  "parseTreasuryStrategiesError = parseContractError TREASURY_STRATEGIES_MESSAGES ''Treasury-strategies contract error #'' 101 100"

definition parseConvictionVotingError :: "SorobanRpcError \<Rightarrow> sdk_error" where
  "parseConvictionVotingError = parseContractError CONVICTION_VOTING_MESSAGES ''Conviction-voting contract error #'' 101 100"

definition parseOptimisticGovernorError :: "SorobanRpcError \<Rightarrow> sdk_error" where
  "parseOptimisticGovernorError = parseContractError OPTIMISTIC_GOVERNOR_MESSAGES ''Optimistic-governor contract error #'' 101 100"

definition parseVotingRewardsError :: "SorobanRpcError \<Rightarrow> sdk_error" where
  "parseVotingRewardsError = parseContractError VOTING_REWARDS_MESSAGES ''Voting-rewards contract error #'' 101 100"

text \<open>\<^verbatim>\<open>MockContractError.toSorobanErrorString\<close> (\<^verbatim>\<open>tools/simulation/src/mock/errors.ts\<close>).\<close>

definition toSorobanErrorString :: "int \<Rightarrow> string" where
  "toSorobanErrorString code = ''Error(Contract, #'' @ dec_int code @ '')''"

subsection \<open>Lemmas\<close>

lemma match_hash_wire:
  assumes "0 \<le> code"
  shows "match_hash (toSorobanErrorString code) = Some code"
proof -
  have "strip_prefix ''Error(Contract,'' (''Error(Contract, #'' @ dec_int code @ '')'') =
      Some ('' #'' @ dec_int code @ '')'')" by simp
  moreover have "dropWhile is_space ('' #'' @ dec_int code @ '')'') = ''#'' @ dec_int code @ '')''"
    by (simp add: is_space_def)
  moreover have "\<not> is_digit (CHR '')'')" by (simp add: is_digit_def)
  ultimately show ?thesis
    using assms
    by (simp add: match_hash_def toSorobanErrorString_def dec_int_def takeWhile_digits
        dropWhile_digits dec_nat_nonempty parse_dec_nat Let_def)
qed

lemma extract_wire:
  assumes "0 \<le> code" "errorText raw = toSorobanErrorString code"
  shows "extractContractErrorCode raw = Some code"
  using assms first_match_hit [of match_hash, OF match_hash_wire [OF assms(1)]]
  by (simp add: extractContractErrorCode_def Let_def) (simp add: toSorobanErrorString_def)

text \<open>
  What a client of the SDK relies on: a typed error carries the contract's code whenever the
  node reported one, and otherwise one of the two transport codes, and its message is the one
  of the table.
\<close>

locale error_parser =
  fixes parse :: "SorobanRpcError \<Rightarrow> sdk_error"
    and messages :: "(int, string) js_map"
    and transport :: "int set"
  assumes code_known: "extractContractErrorCode raw = Some c \<Longrightarrow> se_code (parse raw) = c"
    and message_known:
      "extractContractErrorCode raw = Some c \<Longrightarrow> js_get messages c = Some m \<Longrightarrow>
         se_message (parse raw) = m"
    and code_unknown: "extractContractErrorCode raw = None \<Longrightarrow> se_code (parse raw) \<in> transport"
begin

lemma recovers_code:
  "0 \<le> c \<Longrightarrow> errorText raw = toSorobanErrorString c \<Longrightarrow> se_code (parse raw) = c"
  by (rule code_known) (rule extract_wire)

lemma recovers_message:
  "0 \<le> c \<Longrightarrow> errorText raw = toSorobanErrorString c \<Longrightarrow> js_get messages c = Some m \<Longrightarrow>
     se_message (parse raw) = m"
  by (rule message_known) (rule extract_wire)

end

lemma parseContractError_parser:
  "error_parser (parseContractError messages label tf sf) messages {tf, sf}"
  by unfold_locales (auto simp: parseContractError_def)

interpretation voteEscrow_err: error_parser parseVoteEscrowError VOTE_ESCROW_MESSAGES "{101, 100}"
  unfolding parseVoteEscrowError_def by (rule parseContractError_parser)

interpretation governor_err: error_parser parseGovernorError GOVERNOR_MESSAGES "{102, 101}"
  unfolding parseGovernorError_def by (rule parseContractError_parser)

interpretation timelock_err: error_parser parseTimelockError TIMELOCK_MESSAGES "{101, 100}"
  unfolding parseTimelockError_def by (rule parseContractError_parser)

interpretation treasury_err: error_parser parseTreasuryError TREASURY_MESSAGES "{101, 100}"
  unfolding parseTreasuryError_def by (rule parseContractError_parser)

interpretation coSponsorship_err: error_parser "\<lambda>raw. parseCoSponsorshipError raw None" CO_SPONSORSHIP_MESSAGES "{101, 100}"
  by unfold_locales (auto simp: parseCoSponsorshipError_def parseContractError_def split: option.splits)

interpretation signaling_err: error_parser parseSignalingError SIGNALING_MESSAGES "{101, 100}"
  unfolding parseSignalingError_def by (rule parseContractError_parser)

interpretation proposalBonds_err: error_parser parseProposalBondsError PROPOSAL_BONDS_MESSAGES "{101, 100}"
  unfolding parseProposalBondsError_def by (rule parseContractError_parser)

interpretation votes_err: error_parser parseVotesError VOTES_MESSAGES "{101, 100}"
  unfolding parseVotesError_def by (rule parseContractError_parser)

interpretation treasuryStrategies_err: error_parser parseTreasuryStrategiesError TREASURY_STRATEGIES_MESSAGES "{101, 100}"
  unfolding parseTreasuryStrategiesError_def by (rule parseContractError_parser)

interpretation convictionVoting_err: error_parser parseConvictionVotingError CONVICTION_VOTING_MESSAGES "{101, 100}"
  unfolding parseConvictionVotingError_def by (rule parseContractError_parser)

interpretation optimisticGovernor_err: error_parser parseOptimisticGovernorError OPTIMISTIC_GOVERNOR_MESSAGES "{101, 100}"
  unfolding parseOptimisticGovernorError_def by (rule parseContractError_parser)

interpretation votingRewards_err: error_parser parseVotingRewardsError VOTING_REWARDS_MESSAGES "{101, 100}"
  unfolding parseVotingRewardsError_def by (rule parseContractError_parser)

subsection \<open>Properties\<close>

text \<open>The text a mock contract error is reported with is recovered by every parser of the SDK as
  the same numeric code, both as a bare text and as the error of a failed transaction.\<close>

theorem sdk_recovers_contract_code:
  "errorText raw = toSorobanErrorString (int n) \<Longrightarrow>
     se_code (parseGovernorError raw) = int n \<and> se_code (parseTimelockError raw) = int n \<and>
     se_code (parseVotesError raw) = int n \<and> se_code (parseVoteEscrowError raw) = int n \<and>
     se_code (parseTreasuryError raw) = int n \<and>
     se_code (parseCoSponsorshipError raw None) = int n \<and>
     se_code (parseSignalingError raw) = int n \<and> se_code (parseProposalBondsError raw) = int n \<and>
     se_code (parseTreasuryStrategiesError raw) = int n \<and>
     se_code (parseConvictionVotingError raw) = int n \<and>
     se_code (parseOptimisticGovernorError raw) = int n \<and>
     se_code (parseVotingRewardsError raw) = int n"
  by (simp add: governor_err.recovers_code timelock_err.recovers_code votes_err.recovers_code
      voteEscrow_err.recovers_code treasury_err.recovers_code coSponsorship_err.recovers_code
      signaling_err.recovers_code proposalBonds_err.recovers_code
      treasuryStrategies_err.recovers_code convictionVoting_err.recovers_code
      optimisticGovernor_err.recovers_code votingRewards_err.recovers_code)

theorem sdk_recovers_contract_code_witness:
  "se_code (parseGovernorError (RawObject (Some ''ERROR'') (Some (toSorobanErrorString 7)))) = 7"
  using sdk_recovers_contract_code
    [of "RawObject (Some ''ERROR'') (Some (toSorobanErrorString 7))" 7]
  by simp

end
