(* ===== verification/Harness.thy ===== *)
theory Harness
  imports TokenVotes
begin

section \<open>Booting the simulation\<close>

text \<open>
  The configuration of \<^verbatim>\<open>tools/simulation/src/harness.ts\<close> with its defaults, the store the
  harness builds from it, and its snapshots. Two values come from the Stellar SDK and are parameters:
  the address of the \<open>n\<close>-th contract (\<open>contractAddress\<close>) and the public key of the default guardian.
  The lemmas show that every booted store has consistent voting power.
\<close>

subsection \<open>Configuration\<close>

record GovernorSimulationSettings =
  ss_votingDelay :: int
  ss_votingPeriod :: int
  ss_quorumNumerator :: int
  ss_proposalThreshold :: int
  ss_timelockDelay :: int
  ss_executionWindow :: "int option"
  ss_voteType :: vote_type
  ss_guardian :: "address option"
  ss_proposalGracePeriod :: "int option"
  ss_useDynamicQuorum :: "bool option"
  ss_reflectorOracle :: "address option"
  ss_minQuorumUsd :: "int option"
  ss_proposalCooldown :: "int option"
  ss_maxProposalsPerPeriod :: "int option"
  ss_proposalPeriodDuration :: "int option"
  ss_maxCalldataSize :: "int option"
  ss_pauser :: "address option"
  ss_optimisticChallengeWindowLedgers :: "int option"
  ss_optimisticObjectionThresholdBps :: "int option"
  ss_optimisticProposerBondAmount :: "int option"
  ss_optimisticProposerBondToken :: "address option"
  ss_proposalBondAmount :: "int option"
  ss_proposalBondToken :: "address option"
  ss_proposalRefundGraceLedgers :: "int option"
  ss_proposalMaxLockLedgers :: "int option"

text \<open>The conviction settings are a \<^verbatim>\<open>Partial\<close>: each may be missing.\<close>

record ConvictionSimulationSettings =
  vs_decayBps :: "int option"
  vs_maxRatioBps :: "int option"
  vs_minThresholdConviction :: "int option"
  vs_weightBps :: "int option"

record SimulationConfig =
  sc_settings :: GovernorSimulationSettings
  sc_tokenBalances :: "(address \<times> int) list"
  sc_delegations :: "(address \<times> address) list"
  sc_initialLedger :: "int option"
  sc_treasuryGovernor :: "address option"
  sc_treasuryBalance :: "int option"
  sc_conviction :: "ConvictionSimulationSettings option"

text \<open>\<^verbatim>\<open>a ?? b\<close>\<close>

definition nullish :: "'a option \<Rightarrow> 'a \<Rightarrow> 'a" where
  "nullish a b = (case a of None \<Rightarrow> b | Some x \<Rightarrow> x)"

definition DEFAULT_EXECUTION_WINDOW :: int where "DEFAULT_EXECUTION_WINDOW = 1209600"
definition DEFAULT_GRACE_PERIOD :: int where "DEFAULT_GRACE_PERIOD = 120960"
definition DEFAULT_COOLDOWN :: int where "DEFAULT_COOLDOWN = 100"
definition DEFAULT_MAX_PER_PERIOD :: int where "DEFAULT_MAX_PER_PERIOD = 5"
definition DEFAULT_PERIOD_DURATION :: int where "DEFAULT_PERIOD_DURATION = 10000"
definition DEFAULT_MAX_CALLDATA_SIZE :: int where "DEFAULT_MAX_CALLDATA_SIZE = 10000"
definition DEFAULT_OPTIMISTIC_CHALLENGE_WINDOW :: int where "DEFAULT_OPTIMISTIC_CHALLENGE_WINDOW = 17280"
definition DEFAULT_OPTIMISTIC_OBJECTION_THRESHOLD_BPS :: int where
  "DEFAULT_OPTIMISTIC_OBJECTION_THRESHOLD_BPS = 1000"
definition DEFAULT_CONVICTION_DECAY_BPS :: int where "DEFAULT_CONVICTION_DECAY_BPS = 9000"
definition DEFAULT_CONVICTION_MAX_RATIO_BPS :: int where "DEFAULT_CONVICTION_MAX_RATIO_BPS = 2000"
definition DEFAULT_CONVICTION_MIN_THRESHOLD :: int where "DEFAULT_CONVICTION_MIN_THRESHOLD = 100"
definition DEFAULT_CONVICTION_WEIGHT_BPS :: int where "DEFAULT_CONVICTION_WEIGHT_BPS = 10000"
definition DEFAULT_PROPOSAL_BOND_AMOUNT :: int where "DEFAULT_PROPOSAL_BOND_AMOUNT = 10000"
definition DEFAULT_PROPOSAL_REFUND_GRACE_LEDGERS :: int where "DEFAULT_PROPOSAL_REFUND_GRACE_LEDGERS = 2000"
definition DEFAULT_PROPOSAL_MAX_LOCK_LEDGERS :: int where "DEFAULT_PROPOSAL_MAX_LOCK_LEDGERS = 1000000"

lemmas default_defs =
  DEFAULT_EXECUTION_WINDOW_def DEFAULT_GRACE_PERIOD_def DEFAULT_COOLDOWN_def DEFAULT_MAX_PER_PERIOD_def
  DEFAULT_PERIOD_DURATION_def DEFAULT_MAX_CALLDATA_SIZE_def DEFAULT_OPTIMISTIC_CHALLENGE_WINDOW_def
  DEFAULT_OPTIMISTIC_OBJECTION_THRESHOLD_BPS_def DEFAULT_CONVICTION_DECAY_BPS_def
  DEFAULT_CONVICTION_MAX_RATIO_BPS_def DEFAULT_CONVICTION_MIN_THRESHOLD_def
  DEFAULT_CONVICTION_WEIGHT_BPS_def DEFAULT_PROPOSAL_BOND_AMOUNT_def
  DEFAULT_PROPOSAL_REFUND_GRACE_LEDGERS_def DEFAULT_PROPOSAL_MAX_LOCK_LEDGERS_def

subsection \<open>Building the store\<close>

definition buildSettingsState :: "address \<Rightarrow> SimulationConfig \<Rightarrow> GovernorSettingsState" where
  "buildSettingsState defaultGuardian config =
     (let s = sc_settings config; guardian = nullish (ss_guardian s) defaultGuardian in
      \<lparr>gs_votingDelay = ss_votingDelay s,
       gs_votingPeriod = ss_votingPeriod s,
       gs_quorumNumerator = ss_quorumNumerator s,
       gs_proposalThreshold = ss_proposalThreshold s,
       gs_guardian = guardian,
       gs_voteType = ss_voteType s,
       gs_proposalGracePeriod = nullish (ss_proposalGracePeriod s) DEFAULT_GRACE_PERIOD,
       gs_useDynamicQuorum = nullish (ss_useDynamicQuorum s) False,
       gs_reflectorOracle = ss_reflectorOracle s,
       gs_minQuorumUsd = nullish (ss_minQuorumUsd s) 0,
       gs_proposalCooldown = nullish (ss_proposalCooldown s) DEFAULT_COOLDOWN,
       gs_maxProposalsPerPeriod = nullish (ss_maxProposalsPerPeriod s) DEFAULT_MAX_PER_PERIOD,
       gs_proposalPeriodDuration = nullish (ss_proposalPeriodDuration s) DEFAULT_PERIOD_DURATION,
       gs_maxCalldataSize = nullish (ss_maxCalldataSize s) DEFAULT_MAX_CALLDATA_SIZE,
       gs_isPaused = False,
       gs_pauser = nullish (ss_pauser s) guardian\<rparr>)"

definition boot_addresses :: "(int \<Rightarrow> address) \<Rightarrow> ContractAddresses" where
  "boot_addresses contractAddress =
     \<lparr>ad_governor = contractAddress 1, ad_timelock = contractAddress 2, ad_votes = contractAddress 3,
      ad_coSponsorship = contractAddress 4, ad_optimisticGovernor = contractAddress 5,
      ad_treasury = contractAddress 6, ad_convictionVoting = contractAddress 7,
      ad_proposalBonds = contractAddress 8\<rparr>"

definition harness_clock :: "int \<Rightarrow> SimulationConfig \<Rightarrow> LedgerClock" where
  "harness_clock genesis config =
     \<lparr>ck_current = nullish (sc_initialLedger config) 1000, ck_genesisTimestamp = genesis\<rparr>"

text \<open>The token state: seed the balances, fund the treasury, then apply the delegations of the
  configuration, without the checks of \<^verbatim>\<open>delegate\<close>.\<close>

definition build_votes :: "ContractAddresses \<Rightarrow> LedgerClock \<Rightarrow> SimulationConfig \<Rightarrow> TokenVotesState" where
  "build_votes addresses clock config =
     (let empty = \<lparr>tv_balances = [], tv_delegates = [], tv_checkpoints = [],
                   tv_totalSupplyCheckpoints = []\<rparr>;
          seeded = seedBalances empty (sc_tokenBalances config);
          funded = seeded\<lparr>tv_balances := js_set (tv_balances seeded) (ad_treasury addresses)
                            (nullish (sc_treasuryBalance config) 0)\<rparr>
      in fold (\<lambda>(delegator, delegatee) state. applyDelegation state clock delegator delegatee)
              (sc_delegations config) funded)"

definition conviction_setting ::
  "SimulationConfig \<Rightarrow> (ConvictionSimulationSettings \<Rightarrow> int option) \<Rightarrow> int \<Rightarrow> int" where
  "conviction_setting config f d =
     nullish (case sc_conviction config of None \<Rightarrow> None | Some c \<Rightarrow> f c) d"

definition buildStore ::
  "address \<Rightarrow> ContractAddresses \<Rightarrow> LedgerClock \<Rightarrow> SimulationConfig \<Rightarrow> MockLedgerStore" where
  "buildStore defaultGuardian addresses clock config =
     (let s = sc_settings config; admin = nullish (ss_guardian s) defaultGuardian in
      \<lparr>st_addresses = addresses,
       st_governor =
         \<lparr>gv_settings = buildSettingsState defaultGuardian config, gv_proposals = [],
          gv_proposalCount = 0, gv_queueTime = [], gv_lastProposalLedger = [],
          gv_proposalsInPeriod = []\<rparr>,
       st_timelock =
         \<lparr>tl_minDelay = ss_timelockDelay s,
          tl_executionWindow = nullish (ss_executionWindow s) DEFAULT_EXECUTION_WINDOW,
          tl_operations = [], tl_dependencies = []\<rparr>,
       st_votes = build_votes addresses clock config,
       st_coSponsorship = \<lparr>cs_drafts = [], cs_draftCount = 0\<rparr>,
       st_optimisticGovernor =
         \<lparr>og_admin = admin, og_votesToken = ad_votes addresses,
          og_challengeWindowLedgers =
            nullish (ss_optimisticChallengeWindowLedgers s) DEFAULT_OPTIMISTIC_CHALLENGE_WINDOW,
          og_objectionThresholdBps =
            nullish (ss_optimisticObjectionThresholdBps s) DEFAULT_OPTIMISTIC_OBJECTION_THRESHOLD_BPS,
          og_proposerBondAmount = nullish (ss_optimisticProposerBondAmount s) 0,
          og_proposerBondToken = nullish (ss_optimisticProposerBondToken s) (ad_votes addresses),
          og_proposals = [], og_proposalCount = 0, og_objectorVoted = []\<rparr>,
       st_treasury =
         \<lparr>tr_governor = nullish (sc_treasuryGovernor config) (ad_governor addresses),
          tr_streams = [], tr_streamCount = 0, tr_spends = [], tr_tokenList = [],
          tr_totalStreamedByToken = [], tr_totalSpentByToken = []\<rparr>,
       st_convictionVoting =
         \<lparr>cv_admin = admin, cv_votesToken = ad_votes addresses,
          cv_decayBps = conviction_setting config vs_decayBps DEFAULT_CONVICTION_DECAY_BPS,
          cv_maxRatioBps = conviction_setting config vs_maxRatioBps DEFAULT_CONVICTION_MAX_RATIO_BPS,
          cv_minThresholdConviction =
            conviction_setting config vs_minThresholdConviction DEFAULT_CONVICTION_MIN_THRESHOLD,
          cv_weightBps = conviction_setting config vs_weightBps DEFAULT_CONVICTION_WEIGHT_BPS,
          cv_nextProposalId = 1, cv_proposals = [], cv_stakes = [], cv_totalStaked = [],
          cv_stakeByStaker = [], cv_executions = []\<rparr>,
       st_proposalBonds =
         \<lparr>pb_admin = admin,
          pb_bondToken = nullish (ss_proposalBondToken s) (ad_votes addresses),
          pb_bondAmount = nullish (ss_proposalBondAmount s) DEFAULT_PROPOSAL_BOND_AMOUNT,
          pb_governor = ad_governor addresses,
          pb_refundGraceLedgers =
            nullish (ss_proposalRefundGraceLedgers s) DEFAULT_PROPOSAL_REFUND_GRACE_LEDGERS,
          pb_maxLockLedgers = nullish (ss_proposalMaxLockLedgers s) DEFAULT_PROPOSAL_MAX_LOCK_LEDGERS,
          pb_bonds = []\<rparr>\<rparr>)"

subsection \<open>Snapshots\<close>

definition harness_snapshot :: "MockLedgerStore \<Rightarrow> LedgerClock \<Rightarrow> MockLedgerStore \<times> (int \<times> int)" where
  "harness_snapshot store clock = (cloneStore store, clock_snapshot clock)"

definition harness_restore ::
  "LedgerClock \<Rightarrow> MockLedgerStore \<times> (int \<times> int) \<Rightarrow> MockLedgerStore \<times> LedgerClock" where
  "harness_restore clock snap = (cloneStore (fst snap), clock_restore clock (snd snap))"

subsection \<open>Properties\<close>

lemma power_consistent_empty: "tv_delegates s = [] \<Longrightarrow> tv_checkpoints s = [] \<Longrightarrow>
    tv_totalSupplyCheckpoints s = [] \<Longrightarrow> power_consistent s"
  by (simp add: power_consistent_def get_votes_def delegated_power_def delegated_supply_def
      lastCheckpointVotes_def)

lemma applyDelegation_consistent:
  "power_consistent s \<Longrightarrow> balances_nonneg s \<Longrightarrow>
     power_consistent (applyDelegation s clock d e) \<and> balances_nonneg (applyDelegation s clock d e)"
  using applyDelegation_supply [of s clock d e]
  by (simp add: power_consistent_def balances_nonneg_def applyDelegation_get_votes
      applyDelegation_delegated_power)

lemma fold_delegations_consistent:
  "power_consistent s \<Longrightarrow> balances_nonneg s \<Longrightarrow>
     power_consistent (fold (\<lambda>(d, e) s. applyDelegation s clock d e) ds s) \<and>
     balances_nonneg (fold (\<lambda>(d, e) s. applyDelegation s clock d e) ds s)"
  by (induction ds arbitrary: s) (auto simp: applyDelegation_consistent)

lemma seeded_nonneg:
  "\<forall>(a, n) \<in> set bs. 0 \<le> n \<Longrightarrow> (\<And>a. 0 \<le> js_getd 0 m a) \<Longrightarrow>
     0 \<le> js_getd 0 (fold (\<lambda>(a, n) m. js_set m a n) bs m) a"
  by (induction bs arbitrary: m) auto

text \<open>A booted store has consistent voting power whatever delegations the configuration lists:
  the latest checkpoint of every account is the sum of the balances delegated to it, and the
  supply is the sum of the delegated balances.\<close>

theorem boot_power_consistent:
  assumes "\<forall>(a, n) \<in> set (sc_tokenBalances config). 0 \<le> n"
    and "0 \<le> nullish (sc_treasuryBalance config) 0"
  shows "power_consistent (st_votes (buildStore g (boot_addresses contractAddress) clock config)) \<and>
     balances_nonneg (st_votes (buildStore g (boot_addresses contractAddress) clock config))"
proof -
  let ?bs = "fold (\<lambda>(a, n) m. js_set m a n) (sc_tokenBalances config) []"
  have "0 \<le> js_getd 0 ?bs a" for a
    using assms(1) by (intro seeded_nonneg) auto
  then show ?thesis
    using assms(2) unfolding buildStore_def build_votes_def Let_def seedBalances_def
    by (simp, intro fold_delegations_consistent power_consistent_empty)
      (simp_all add: balances_nonneg_def)
qed

text \<open>Restoring a snapshot brings back the store and the ledger sequence it was taken at,
  whatever happened since.\<close>

theorem restore_snapshot:
  "harness_restore clock' (harness_snapshot store clock) =
     (store, clock'\<lparr>ck_current := ck_current clock\<rparr>)"
  by (simp add: harness_restore_def harness_snapshot_def cloneStore_def clock_restore_snapshot)

subsection \<open>An example\<close>

text \<open>A small configuration that the examples of the other theories run on: two holders who
  delegate to \<open>bob\<close>, a one-ledger voting delay, and the defaults of the harness elsewhere.\<close>

definition demo_settings :: GovernorSimulationSettings where
  "demo_settings =
     \<lparr>ss_votingDelay = 1, ss_votingPeriod = 10, ss_quorumNumerator = 10, ss_proposalThreshold = 100,
      ss_timelockDelay = 50, ss_executionWindow = None, ss_voteType = Simple, ss_guardian = None,
      ss_proposalGracePeriod = None, ss_useDynamicQuorum = None, ss_reflectorOracle = None,
      ss_minQuorumUsd = None, ss_proposalCooldown = None, ss_maxProposalsPerPeriod = None,
      ss_proposalPeriodDuration = None, ss_maxCalldataSize = None, ss_pauser = None,
      ss_optimisticChallengeWindowLedgers = None, ss_optimisticObjectionThresholdBps = None,
      ss_optimisticProposerBondAmount = None, ss_optimisticProposerBondToken = None,
      ss_proposalBondAmount = Some 40, ss_proposalBondToken = None,
      ss_proposalRefundGraceLedgers = None, ss_proposalMaxLockLedgers = None\<rparr>"

definition demo_config :: SimulationConfig where
  "demo_config =
     \<lparr>sc_settings = demo_settings, sc_tokenBalances = [(''alice'', 300), (''bob'', 200)],
      sc_delegations = [(''alice'', ''bob''), (''bob'', ''bob'')],
      sc_initialLedger = None, sc_treasuryGovernor = Some ''alice'', sc_treasuryBalance = Some 1000,
      sc_conviction = None\<rparr>"

definition demo_contract :: "int \<Rightarrow> address" where
  "demo_contract n = ''C'' @ dec_int n"

definition demo_clock :: "int \<Rightarrow> LedgerClock" where
  "demo_clock ledger = \<lparr>ck_current = ledger, ck_genesisTimestamp = 1700000000\<rparr>"

definition demo_store :: MockLedgerStore where
  "demo_store = buildStore ''guardian'' (boot_addresses demo_contract) (demo_clock 1000) demo_config"

theorem boot_power_consistent_witness:
  "get_votes (st_votes demo_store) ''bob'' = 500 \<and> power_consistent (st_votes demo_store)"
proof
  show "get_votes (st_votes demo_store) ''bob'' = 500" by code_simp
  have "\<forall>(a, n) \<in> set (sc_tokenBalances demo_config). 0 \<le> n"
    and "0 \<le> nullish (sc_treasuryBalance demo_config) 0" by code_simp+
  then show "power_consistent (st_votes demo_store)"
    unfolding demo_store_def
    using boot_power_consistent [of demo_config "''guardian''" demo_contract "demo_clock 1000"] by simp
qed

end
