(* ===== verification/GovernorCore.thy ===== *)
theory GovernorCore
  imports Timelock SdkErrors Harness
begin

section \<open>Governor: quorum, proposal state, creation\<close>

text \<open>
  The internal functions of \<^verbatim>\<open>tools/simulation/src/mock/governor-executor.ts\<close>: the integer square
  root of quadratic voting, the quorum, the derived state of a proposal, and the creation of a
  proposal with its guards and rate limit. (The executor's entries are in theory
  \<open>Governor\<close>; they also call the proposal bonds, which call back into this theory.) The lemmas
  show that the Newton loop computes the floor of the square root and that every guard of the
  creation is enforced.
\<close>

subsection \<open>Error codes used by the executors\<close>

text \<open>The members of \<^verbatim>\<open>GovernorErrorCode\<close> the executors throw.\<close>

definition GovernorErrorCode_UnauthorizedCancel :: int where "GovernorErrorCode_UnauthorizedCancel = 1"
definition GovernorErrorCode_InvalidSupport :: int where "GovernorErrorCode_InvalidSupport = 2"
definition GovernorErrorCode_ProposalExpired :: int where "GovernorErrorCode_ProposalExpired = 3"
definition GovernorErrorCode_CalldataTooLarge :: int where "GovernorErrorCode_CalldataTooLarge = 4"
definition GovernorErrorCode_ProposalRateLimited :: int where "GovernorErrorCode_ProposalRateLimited = 6"
definition GovernorErrorCode_ContractPaused :: int where "GovernorErrorCode_ContractPaused = 7"
definition GovernorErrorCode_UnauthorizedPause :: int where "GovernorErrorCode_UnauthorizedPause = 8"
definition GovernorErrorCode_InvalidVectorLengths :: int where "GovernorErrorCode_InvalidVectorLengths = 9"
definition GovernorErrorCode_NoTargets :: int where "GovernorErrorCode_NoTargets = 10"
definition GovernorErrorCode_ProposalThresholdNotMet :: int where "GovernorErrorCode_ProposalThresholdNotMet = 11"
definition GovernorErrorCode_AlreadyVoted :: int where "GovernorErrorCode_AlreadyVoted = 12"
definition GovernorErrorCode_ProposalNotSucceeded :: int where "GovernorErrorCode_ProposalNotSucceeded = 14"
definition GovernorErrorCode_ProposalNotQueued :: int where "GovernorErrorCode_ProposalNotQueued = 15"
definition GovernorErrorCode_ProposalAlreadyExecuted :: int where "GovernorErrorCode_ProposalAlreadyExecuted = 16"
definition GovernorErrorCode_MissingOpIds :: int where "GovernorErrorCode_MissingOpIds = 17"
definition GovernorErrorCode_UnauthorizedGuardian :: int where "GovernorErrorCode_UnauthorizedGuardian = 18"
definition GovernorErrorCode_VetoWindowClosed :: int where "GovernorErrorCode_VetoWindowClosed = 19"
definition GovernorErrorCode_ProposalNotFound :: int where "GovernorErrorCode_ProposalNotFound = 20"
definition GovernorErrorCode_TooManyCalldataEntries :: int where "GovernorErrorCode_TooManyCalldataEntries = 30"
definition GovernorErrorCode_ProposalNotActive :: int where "GovernorErrorCode_ProposalNotActive = 31"

lemmas governor_error_defs =
  GovernorErrorCode_UnauthorizedCancel_def GovernorErrorCode_InvalidSupport_def
  GovernorErrorCode_ProposalExpired_def GovernorErrorCode_CalldataTooLarge_def
  GovernorErrorCode_ProposalRateLimited_def GovernorErrorCode_ContractPaused_def
  GovernorErrorCode_UnauthorizedPause_def GovernorErrorCode_InvalidVectorLengths_def
  GovernorErrorCode_NoTargets_def GovernorErrorCode_ProposalThresholdNotMet_def
  GovernorErrorCode_AlreadyVoted_def GovernorErrorCode_ProposalNotSucceeded_def
  GovernorErrorCode_ProposalNotQueued_def GovernorErrorCode_ProposalAlreadyExecuted_def
  GovernorErrorCode_MissingOpIds_def GovernorErrorCode_UnauthorizedGuardian_def
  GovernorErrorCode_VetoWindowClosed_def GovernorErrorCode_ProposalNotFound_def
  GovernorErrorCode_TooManyCalldataEntries_def GovernorErrorCode_ProposalNotActive_def

subsection \<open>Model\<close>

datatype ProposalStateName =
  Pending | Active | Defeated | Succeeded | Queued | Executed | Cancelled | Expired

text \<open>The loop of \<^verbatim>\<open>isqrt\<close>. It is entered with a positive \<open>n\<close> only, and then all its values are
  positive, so \<^verbatim>\<open>bigint\<close> division is division of natural numbers.\<close>

function isqrt_loop :: "nat \<Rightarrow> nat \<Rightarrow> nat \<Rightarrow> nat" where
  "isqrt_loop n x y = (if y < x then isqrt_loop n y ((y + n div y) div 2) else x)"
  by pat_completeness auto
termination
  by (relation "measure (\<lambda>(n, x, y). x)") auto

declare isqrt_loop.simps [simp del]

definition isqrt :: "int \<Rightarrow> int" where
  "isqrt n = (if n \<le> 0 then 0 else int (isqrt_loop (nat n) (nat n) ((nat n + 1) div 2)))"

definition applyVoteType :: "vote_type \<Rightarrow> int \<Rightarrow> int" where
  "applyVoteType voteType rawWeight = (if voteType = Quadratic then isqrt rawWeight else rawWeight)"

definition computeQuorum ::
  "MockLedgerStore \<Rightarrow> LedgerClock \<Rightarrow> ProposalRecord \<Rightarrow> js_error + int" where
  "computeQuorum store clock proposal =
     (let quorumNumerator = gs_quorumNumerator (gv_settings (st_governor store)) in
      if quorumNumerator = 0 then Inr 0
      else case get_past_total_supply (st_votes store) clock (pr_startLedger proposal) of
             Inl e \<Rightarrow> Inl e
           | Inr supply \<Rightarrow> Inr (bdiv (supply * quorumNumerator) 100))"

definition computeProposalState ::
  "MockLedgerStore \<Rightarrow> LedgerClock \<Rightarrow> ProposalRecord \<Rightarrow> js_error + ProposalStateName" where
  "computeProposalState store clock proposal =
     (if pr_cancelled proposal then Inr Cancelled
      else if pr_executed proposal then Inr Executed
      else if pr_queued proposal then Inr Queued
      else let current = clock_sequence clock in
        if current < pr_startLedger proposal then Inr Pending
        else if current \<le> pr_endLedger proposal then Inr Active
        else case computeQuorum store clock proposal of
               Inl e \<Rightarrow> Inl e
             | Inr quorumReq \<Rightarrow>
                 let quorumMet = pr_votesFor proposal + pr_votesAbstain proposal \<ge> quorumReq;
                     forWins = pr_votesFor proposal > pr_votesAgainst proposal in
                 if quorumMet \<and> forWins
                 then let graceEnd = pr_endLedger proposal +
                            gs_proposalGracePeriod (gv_settings (st_governor store)) in
                      if current > graceEnd then Inr Expired else Inr Succeeded
                 else Inr Defeated)"

definition createProposal ::
  "MockLedgerStore \<Rightarrow> LedgerClock \<Rightarrow> address \<Rightarrow> string \<Rightarrow> bytes \<Rightarrow> string \<Rightarrow> address list \<Rightarrow>
     string list \<Rightarrow> bytes list \<Rightarrow> bool \<Rightarrow> (int, MockLedgerStore) outcome" where
  "createProposal store clock proposer description descriptionHash metadataUri targets fnNames
     calldatas checkThreshold =
     (let gov = st_governor store; settings = gv_settings gov in
      if gs_isPaused settings then throws (MockContractError GovernorErrorCode_ContractPaused) store
      else if length targets \<noteq> length fnNames \<or> length targets \<noteq> length calldatas
        then throws (MockContractError GovernorErrorCode_InvalidVectorLengths) store
      else if length targets = 0 then throws (MockContractError GovernorErrorCode_NoTargets) store
      else if list_ex (\<lambda>calldata. int (length calldata) > gs_maxCalldataSize settings) calldatas
        then throws (MockContractError GovernorErrorCode_CalldataTooLarge) store
      else if length calldatas > 10
        then throws (MockContractError GovernorErrorCode_TooManyCalldataEntries) store
      else if checkThreshold \<and> get_votes (st_votes store) proposer < gs_proposalThreshold settings
        then throws (MockContractError GovernorErrorCode_ProposalThresholdNotMet) store
      else
        let current = clock_sequence clock in
        if (case js_get (gv_lastProposalLedger gov) proposer of
              None \<Rightarrow> False
            | Some lastProposalLedger \<Rightarrow> current < lastProposalLedger + gs_proposalCooldown settings)
        then throws (MockContractError GovernorErrorCode_ProposalRateLimited) store
        else
          let currentPeriod = floor_quotient current (gs_proposalPeriodDuration settings);
              periodKey = (proposer, currentPeriod);
              proposalsInPeriod = js_getd 0 (gv_proposalsInPeriod gov) periodKey in
          if proposalsInPeriod \<ge> gs_maxProposalsPerPeriod settings
          then throws (MockContractError GovernorErrorCode_ProposalRateLimited) store
          else
            let pid = gv_proposalCount gov + 1;
                proposal =
                  \<lparr>pr_id = pid, pr_proposer = proposer, pr_description = description,
                   pr_descriptionHash = to_hex descriptionHash, pr_metadataUri = metadataUri,
                   pr_targets = targets, pr_fnNames = fnNames, pr_calldatas = calldatas,
                   pr_startLedger = current + gs_votingDelay settings,
                   pr_endLedger = current + gs_votingDelay settings + gs_votingPeriod settings,
                   pr_votesFor = 0, pr_votesAgainst = 0, pr_votesAbstain = 0,
                   pr_executed = False, pr_cancelled = False, pr_queued = False,
                   pr_opIds = [], pr_hasVoted = []\<rparr>
            in returns pid
                 (store\<lparr>st_governor := gov
                    \<lparr>gv_proposals := js_set (gv_proposals gov) pid proposal,
                     gv_proposalCount := pid,
                     gv_lastProposalLedger := js_set (gv_lastProposalLedger gov) proposer current,
                     gv_proposalsInPeriod :=
                       js_set (gv_proposalsInPeriod gov) periodKey (proposalsInPeriod + 1)\<rparr>\<rparr>))"

definition mustGetProposal :: "MockLedgerStore \<Rightarrow> int \<Rightarrow> js_error + ProposalRecord" where
  "mustGetProposal store pid =
     (case js_get (gv_proposals (st_governor store)) pid of
        None \<Rightarrow> Inl (MockContractError GovernorErrorCode_ProposalNotFound)
      | Some proposal \<Rightarrow> Inr proposal)"

text \<open>A proposal record is mutated in place: the entry of its map is replaced.\<close>

definition put_proposal :: "MockLedgerStore \<Rightarrow> int \<Rightarrow> ProposalRecord \<Rightarrow> MockLedgerStore" where
  "put_proposal store pid p =
     store\<lparr>st_governor := (st_governor store)\<lparr>gv_proposals :=
        js_set (gv_proposals (st_governor store)) pid p\<rparr>\<rparr>"

subsection \<open>The integer square root\<close>

lemma newton_step_above:
  fixes n x :: nat
  assumes "0 < x"
  shows "n < ((x + n div x) div 2 + 1) * ((x + n div x) div 2 + 1)"
proof -
  let ?q = "n div x" and ?y = "(x + n div x) div 2"
  have n: "n < x * (?q + 1)"
    using assms by (metis Suc_eq_plus1 dividend_less_times_div mult_Suc_right add.commute)
  have half: "m + 1 \<le> 2 * (m div 2 + 1)" for m :: nat by presburger
  have "x + ?q + 1 \<le> 2 * (?y + 1)" using half [of "x + ?q"] by simp
  then have "(x + ?q + 1) * (x + ?q + 1) \<le> (2 * (?y + 1)) * (2 * (?y + 1))" by (intro mult_le_mono)
  moreover have "4 * (x * (?q + 1)) \<le> (x + (?q + 1)) * (x + (?q + 1))"
  proof -
    have "4 * (int x * int (?q + 1)) \<le> (int x + int (?q + 1)) * (int x + int (?q + 1))"
      using zero_le_square [of "int x - int (?q + 1)"] by (simp add: algebra_simps)
    then show ?thesis by (metis (no_types) of_nat_add of_nat_le_iff of_nat_mult of_nat_numeral)
  qed
  ultimately have "4 * (x * (?q + 1)) \<le> 4 * ((?y + 1) * (?y + 1))" by simp
  then show ?thesis using n by simp
qed

lemma isqrt_loop_floor:
  assumes "0 < x" "n < (x + 1) * (x + 1)" "y = (x + n div x) div 2" "0 < n"
  shows "isqrt_loop n x y * isqrt_loop n x y \<le> n \<and> n < (isqrt_loop n x y + 1) * (isqrt_loop n x y + 1)"
  using assms
proof (induction n x y rule: isqrt_loop.induct)
  case (1 n x y)
  show ?case
  proof (cases "y < x")
    case True
    have y: "0 < y"
    proof (rule ccontr)
      assume "\<not> 0 < y"
      then have small: "x + n div x \<le> 1" using "1.prems"(3) by simp
      then have "x = 1" "n div x = 0" using "1.prems"(1) by linarith+
      then show False using "1.prems"(4) by simp
    qed
    have above: "n < (y + 1) * (y + 1)" using newton_step_above [OF "1.prems"(1), of n] "1.prems"(3) by simp
    show ?thesis
      using "1.IH" [OF True y above refl "1.prems"(4)] True
      by (simp add: isqrt_loop.simps [of n x y])
  next
    case False
    then have "x \<le> n div x" using "1.prems"(3) by linarith
    then have "x * x \<le> x * (n div x)" by simp
    also have "\<dots> \<le> n" by (simp add: mult.commute)
    finally have "x * x \<le> n" .
    then show ?thesis using False "1.prems"(2) by (simp add: isqrt_loop.simps [of n x y])
  qed
qed

subsection \<open>Creation\<close>

lemmas createProposal_unfold = createProposal_def [unfolded Let_def]

lemma createProposal_fail_unchanged:
  "createProposal store clock pr d dh mu ts fs cs chk = (Inl e, store') \<Longrightarrow> store' = store"
  by (simp add: createProposal_unfold split: if_splits)

lemma createProposal_guards:
  assumes "createProposal store clock pr d dh mu ts fs cs chk = (Inr pid, store')"
  shows "\<not> gs_isPaused (gv_settings (st_governor store))"
    and "length ts = length fs" and "length ts = length cs" and "ts \<noteq> []" and "length cs \<le> 10"
    and "chk \<Longrightarrow> gs_proposalThreshold (gv_settings (st_governor store)) \<le> get_votes (st_votes store) pr"
    and "pid = gv_proposalCount (st_governor store) + 1"
  using assms by (auto simp: createProposal_unfold split: if_splits)

text \<open>\<^verbatim>\<open>isqrt\<close> terminates and returns the integer square root, the largest integer whose square does
  not exceed its argument (zero for a negative argument).\<close>

theorem isqrt_floor:
  "0 \<le> isqrt n \<and> isqrt n * isqrt n \<le> max 0 n \<and> max 0 n < (isqrt n + 1) * (isqrt n + 1)"
proof (cases "n \<le> 0")
  case True
  then show ?thesis by (simp add: isqrt_def)
next
  case False
  define k where "k = nat n"
  let ?r = "isqrt_loop k k ((k + 1) div 2)"
  have k: "0 < k" "int k = n" using False by (simp_all add: k_def)
  have "?r * ?r \<le> k \<and> k < (?r + 1) * (?r + 1)"
    using k by (intro isqrt_loop_floor) auto
  then have "int (?r * ?r) \<le> int k \<and> int k < int ((?r + 1) * (?r + 1))" by linarith
  moreover have "isqrt n = int ?r" using False by (simp add: isqrt_def k_def)
  ultimately show ?thesis using k False by (simp add: algebra_simps)
qed

text \<open>A proposal is created exactly when every guard passes: the contract is not paused, the three
  vectors are non-empty, of equal length and at most ten, no call data is too large, the
  proposer has the threshold where it applies, the cooldown since the last proposal has
  passed and the cap per period is not reached. The new proposal takes the next number, and
  nothing changes otherwise.\<close>

theorem createProposal_iff:
  "createProposal s clock proposer d dh mu ts fs cs chk = (r, s') \<Longrightarrow>
     ((\<exists>pid. r = Inr pid) \<longleftrightarrow>
        (let gov = st_governor s; settings = gv_settings gov; current = clock_sequence clock in
         \<not> gs_isPaused settings \<and> length ts = length fs \<and> length ts = length cs \<and> ts \<noteq> [] \<and>
         (\<forall>c \<in> set cs. int (length c) \<le> gs_maxCalldataSize settings) \<and> length cs \<le> 10 \<and>
         (chk \<longrightarrow> gs_proposalThreshold settings \<le> get_votes (st_votes s) proposer) \<and>
         (\<forall>l. js_get (gv_lastProposalLedger gov) proposer = Some l \<longrightarrow>
            l + gs_proposalCooldown settings \<le> current) \<and>
         js_getd 0 (gv_proposalsInPeriod gov)
             (proposer, floor_quotient current (gs_proposalPeriodDuration settings))
           < gs_maxProposalsPerPeriod settings)) \<and>
     (\<forall>pid. r = Inr pid \<longrightarrow> pid = gv_proposalCount (st_governor s) + 1 \<and>
        js_get (gv_lastProposalLedger (st_governor s')) proposer = Some (clock_sequence clock)) \<and>
     (\<forall>e. r = Inl e \<longrightarrow> s' = s)"
  by (auto simp: createProposal_unfold Let_def list_ex_iff not_le not_less split: if_splits option.splits)

theorem createProposal_iff_witness:
  "fst (createProposal demo_store (demo_clock 1000) ''bob'' ''d'' [171, 205] '''' [''T''] [''f''] [[7]] True) = Inr 1"
proof -
  let ?run = "createProposal demo_store (demo_clock 1000) ''bob'' ''d'' [171, 205] '''' [''T''] [''f''] [[7]] True"
  have "?run = (fst ?run, snd ?run)" by simp
  note iff = createProposal_iff [OF this]
  have "\<exists>pid. fst ?run = Inr pid"
  proof -
    have "get_votes (st_votes demo_store) ''bob'' = 500"
      "gs_proposalThreshold (gv_settings (st_governor demo_store)) = 100"
      "gs_maxCalldataSize (gv_settings (st_governor demo_store)) = 10000"
      "gs_isPaused (gv_settings (st_governor demo_store)) = False"
      "js_get (gv_lastProposalLedger (st_governor demo_store)) ''bob'' = None"
      "gv_proposalsInPeriod (st_governor demo_store) = []"
      "gs_maxProposalsPerPeriod (gv_settings (st_governor demo_store)) = 5" by code_simp+
    then show ?thesis using iff by (simp add: Let_def)
  qed
  moreover have "gv_proposalCount (st_governor demo_store) = 0" by code_simp
  ultimately show ?thesis using iff by auto
qed

end
