(* ===== verification/Interfaces.thy ===== *)
theory Interfaces
  imports NebPrelude
begin

section \<open>Contracts shared by several components\<close>

text \<open>
  Three interfaces that more than one component provides, with what follows from them.
  \<^item> \<open>token_transfer\<close>: a payment out of one account of a token ledger (the escrow of the
    proposal bonds, the treasury).
  \<^item> \<open>stepwise_invariant\<close>: a step relation and a property each step keeps; it then holds in
    every reachable state.
  \<^item> \<open>one_way_flag\<close>: a step relation and a property that, once true, stays true, which is how the
    program records decisions (a vote that was cast, an executed proposal, a closed bond).
\<close>

locale token_transfer =
  fixes balance :: "'s \<Rightarrow> address \<Rightarrow> int"
    and total :: "'s \<Rightarrow> int"
    and source :: "'s \<Rightarrow> address"
    and pay :: "'s \<Rightarrow> address \<Rightarrow> int \<Rightarrow> (unit, 's) outcome"
  assumes pay_succeeds: "n \<le> balance s (source s) \<Longrightarrow> fst (pay s to n) = Inr ()"
    and pay_fails: "balance s (source s) < n \<Longrightarrow> \<exists>e. pay s to n = (Inl e, s)"
    and pay_balance: "pay s to n = (Inr u, s') \<Longrightarrow>
      balance s' a = balance s a - (if a = source s then n else 0) + (if a = to then n else 0)"
    and pay_supply: "pay s to n = (Inr u, s') \<Longrightarrow> total s' = total s"
    and pay_source: "pay s to n = (Inr u, s') \<Longrightarrow> source s' = source s"
begin

lemma pay_covered: "pay s to n = (Inr u, s') \<Longrightarrow> n \<le> balance s (source s)"
  using pay_fails [of s n to] by fastforce

lemma pay_failed_unchanged: "pay s to n = (Inl e, s') \<Longrightarrow> s' = s \<and> balance s (source s) < n"
  using pay_succeeds [of n s to] pay_fails [of s n to] by fastforce

lemma pay_supply_any: "pay s to n = (r, s') \<Longrightarrow> total s' = total s"
  by (cases r) (auto dest: pay_failed_unchanged pay_supply)

lemma pay_nonneg:
  assumes "pay s to n = (r, s')" and "0 \<le> n" and "\<And>a. 0 \<le> balance s a"
  shows "0 \<le> balance s' a"
proof (cases r)
  case (Inl e)
  then show ?thesis using assms pay_failed_unchanged by fastforce
next
  case (Inr u)
  then have "n \<le> balance s (source s)" using assms(1) pay_covered by blast
  then show ?thesis using pay_balance [of s to n u s' a] assms Inr by auto
qed

lemma pay_bystander:
  "pay s to n = (Inr u, s') \<Longrightarrow> a \<noteq> source s \<Longrightarrow> a \<noteq> to \<Longrightarrow> balance s' a = balance s a"
  by (simp add: pay_balance)

text \<open>A sequence of payments, each attempted whatever became of the earlier ones.\<close>

fun pay_all :: "'s \<Rightarrow> (address \<times> int) list \<Rightarrow> 's" where
  "pay_all s [] = s"
| "pay_all s ((to, n) # ps) = pay_all (snd (pay s to n)) ps"

lemma pay_all_supply: "total (pay_all s ps) = total s"
proof (induction s ps rule: pay_all.induct)
  case (2 s to n ps)
  then show ?case using pay_supply_any [of s to n] by (cases "pay s to n") simp
qed simp

lemma pay_all_nonneg:
  "\<forall>(to, n) \<in> set ps. 0 \<le> n \<Longrightarrow> (\<And>a. 0 \<le> balance s a) \<Longrightarrow> 0 \<le> balance (pay_all s ps) a"
proof (induction s ps rule: pay_all.induct)
  case (2 s to n ps)
  have "0 \<le> balance (snd (pay s to n)) a" for a
    using "2.prems" pay_nonneg [of s to n "fst (pay s to n)" "snd (pay s to n)" a] by simp
  then show ?case using 2 by simp
qed simp

end

locale stepwise_invariant =
  fixes step :: "'s \<Rightarrow> 's \<Rightarrow> bool"
    and inv :: "'s \<Rightarrow> bool"
  assumes step_inv: "step s s' \<Longrightarrow> inv s \<Longrightarrow> inv s'"
begin

lemma reach_inv: "step\<^sup>*\<^sup>* s s' \<Longrightarrow> inv s \<Longrightarrow> inv s'"
  by (induction rule: rtranclp_induct) (auto intro: step_inv)

end

locale one_way_flag =
  fixes step :: "'s \<Rightarrow> 's \<Rightarrow> bool"
    and flag :: "'k \<Rightarrow> 's \<Rightarrow> bool"
  assumes step_flag: "step s s' \<Longrightarrow> flag k s \<Longrightarrow> flag k s'"

sublocale one_way_flag \<subseteq> flagged: stepwise_invariant step "flag k" for k
  by unfold_locales (rule step_flag)

context one_way_flag
begin

lemma never_undone: "step\<^sup>*\<^sup>* s s' \<Longrightarrow> \<not> flag k s' \<Longrightarrow> \<not> flag k s"
  using flagged.reach_inv by blast

lemma set_between:
  assumes "step\<^sup>*\<^sup>* s s'" "\<not> flag k s" "flag k s'"
  shows "\<exists>t t'. step\<^sup>*\<^sup>* s t \<and> \<not> flag k t \<and> step t t' \<and> flag k t' \<and> step\<^sup>*\<^sup>* t' s'"
  using assms
proof (induction rule: converse_rtranclp_induct)
  case base
  then show ?case by simp
next
  case (step a b)
  show ?case
  proof (cases "flag k b")
    case True
    then show ?thesis using step by blast
  next
    case False
    then show ?thesis using step by (meson converse_rtranclp_into_rtranclp)
  qed
qed

end

end
