(* ===== verification/ProposalBonds.thy ===== *)
theory ProposalBonds
  imports GovernorCore Interfaces
begin

section \<open>Proposal bonds\<close>

text \<open>
  \<^verbatim>\<open>tools/simulation/src/mock/proposal-bonds-executor.ts\<close>: a proposer locks a bond under the hash
  of a description; it is refunded once the correlated proposal is terminal and a grace window
  has passed (or unconditionally after a maximal lock time), or slashed by the governor. Bonds
  are kept in the account of the bonds contract on the one token ledger, the balances of the
  votes token. The lemmas show that transfers conserve the supply, that the escrow account
  always covers the locked bonds, and that a bond leaves the locked state exactly once.
\<close>

subsection \<open>Error codes\<close>

definition ProposalBondsErrorCode_NotInitialized :: int where "ProposalBondsErrorCode_NotInitialized = 2"
definition ProposalBondsErrorCode_BondAlreadyLocked :: int where "ProposalBondsErrorCode_BondAlreadyLocked = 3"
definition ProposalBondsErrorCode_BondNotFound :: int where "ProposalBondsErrorCode_BondNotFound = 4"
definition ProposalBondsErrorCode_BondNotLocked :: int where "ProposalBondsErrorCode_BondNotLocked = 5"
definition ProposalBondsErrorCode_DescriptionHashMismatch :: int where "ProposalBondsErrorCode_DescriptionHashMismatch = 6"
definition ProposalBondsErrorCode_ProposalNotTerminal :: int where "ProposalBondsErrorCode_ProposalNotTerminal = 7"
definition ProposalBondsErrorCode_RefundGraceNotElapsed :: int where "ProposalBondsErrorCode_RefundGraceNotElapsed = 8"
definition ProposalBondsErrorCode_NotAuthorized :: int where "ProposalBondsErrorCode_NotAuthorized = 9"

subsection \<open>Model\<close>

text \<open>A description hash arrives as bytes or as hexadecimal text.\<close>

datatype hash_arg = HashText string | HashBytes bytes

fun hashKey :: "hash_arg \<Rightarrow> string" where
  "hashKey (HashText s) = toLowerCase s"
| "hashKey (HashBytes bs) = to_hex bs"

definition requireSigner :: "address \<Rightarrow> address \<Rightarrow> js_error + unit" where
  "requireSigner caller signer =
     (if caller \<noteq> signer then Inl (JsError ''not authorized'') else Inr ())"

definition mustGetBond :: "MockLedgerStore \<Rightarrow> string \<Rightarrow> js_error + ProposalBondRecord" where
  "mustGetBond store key =
     (case js_get (pb_bonds (st_proposalBonds store)) key of
        None \<Rightarrow> Inl (MockContractError ProposalBondsErrorCode_BondNotFound)
      | Some bond \<Rightarrow> Inr bond)"

definition set_balances :: "MockLedgerStore \<Rightarrow> (address, int) js_map \<Rightarrow> MockLedgerStore" where
  "set_balances store m = store\<lparr>st_votes := (st_votes store)\<lparr>tv_balances := m\<rparr>\<rparr>"

definition transfer ::
  "MockLedgerStore \<Rightarrow> address \<Rightarrow> address \<Rightarrow> int \<Rightarrow> (unit, MockLedgerStore) outcome" where
  "transfer store from to amount =
     (let balances = tv_balances (st_votes store);
          fromBalance = js_getd 0 balances from in
      if fromBalance < amount then throws (JsError ''insufficient balance'') store
      else
        let balances1 = js_set balances from (fromBalance - amount);
            balances2 = js_set balances1 to (js_getd 0 balances1 to + amount)
        in returns () (set_balances store balances2))"

text \<open>A bond record is mutated in place: the entry of its map is replaced.\<close>

definition put_bond :: "MockLedgerStore \<Rightarrow> string \<Rightarrow> ProposalBondRecord \<Rightarrow> MockLedgerStore" where
  "put_bond store key bond =
     store\<lparr>st_proposalBonds := (st_proposalBonds store)\<lparr>pb_bonds :=
       js_set (pb_bonds (st_proposalBonds store)) key bond\<rparr>\<rparr>"

definition lock_bond ::
  "MockLedgerStore \<Rightarrow> LedgerClock \<Rightarrow> address \<Rightarrow> address \<Rightarrow> hash_arg \<Rightarrow> (unit, MockLedgerStore) outcome"
where
  "lock_bond store clock caller proposer descriptionHash =
     (case requireSigner caller proposer of Inl e \<Rightarrow> throws e store | Inr _ \<Rightarrow>
      let key = hashKey descriptionHash in
      if js_has (pb_bonds (st_proposalBonds store)) key
      then throws (MockContractError ProposalBondsErrorCode_BondAlreadyLocked) store
      else
        let bondAmount = pb_bondAmount (st_proposalBonds store) in
        if bondAmount \<le> 0 then throws (MockContractError ProposalBondsErrorCode_NotInitialized) store
        else case transfer store proposer (ad_proposalBonds (st_addresses store)) bondAmount of
               (Inl e, store1) \<Rightarrow> throws e store1
             | (Inr _, store1) \<Rightarrow>
                 returns () (put_bond store1 key
                   \<lparr>bd_proposer = proposer, bd_descriptionHash = key, bd_amount = bondAmount,
                    bd_lockedLedger = clock_sequence clock, bd_state = BondLocked\<rparr>))"

definition isTerminal :: "ProposalStateName \<Rightarrow> bool" where
  "isTerminal state \<longleftrightarrow>
     state = Executed \<or> state = Defeated \<or> state = Expired \<or> state = Cancelled"

text \<open>The conditions of \<^verbatim>\<open>refund_bond\<close> before \<^verbatim>\<open>MaxLockLedgers\<close>, in the order of the code.\<close>

definition refund_conditions ::
  "MockLedgerStore \<Rightarrow> LedgerClock \<Rightarrow> string \<Rightarrow> int \<Rightarrow> js_error + unit" where
  "refund_conditions store clock key proposalId =
     (case js_get (gv_proposals (st_governor store)) proposalId of
        None \<Rightarrow> Inl (MockContractError GovernorErrorCode_ProposalNotFound)
      | Some proposal \<Rightarrow>
          if pr_descriptionHash proposal \<noteq> key
          then Inl (MockContractError ProposalBondsErrorCode_DescriptionHashMismatch)
          else case computeProposalState store clock proposal of
                 Inl e \<Rightarrow> Inl e
               | Inr state \<Rightarrow>
                   if \<not> isTerminal state
                   then Inl (MockContractError ProposalBondsErrorCode_ProposalNotTerminal)
                   else if clock_sequence clock <
                       pr_endLedger proposal + pb_refundGraceLedgers (st_proposalBonds store)
                   then Inl (MockContractError ProposalBondsErrorCode_RefundGraceNotElapsed)
                   else Inr ())"

definition refund_bond ::
  "MockLedgerStore \<Rightarrow> LedgerClock \<Rightarrow> address \<Rightarrow> address \<Rightarrow> hash_arg \<Rightarrow> int \<Rightarrow>
     (unit, MockLedgerStore) outcome" where
  "refund_bond store clock caller refundCaller descriptionHash proposalId =
     (case requireSigner caller refundCaller of Inl e \<Rightarrow> throws e store | Inr _ \<Rightarrow>
      let key = hashKey descriptionHash in
      case mustGetBond store key of Inl e \<Rightarrow> throws e store | Inr bond \<Rightarrow>
      if bd_state bond \<noteq> BondLocked
      then throws (MockContractError ProposalBondsErrorCode_BondNotLocked) store
      else
        let pastMaxLock =
              clock_sequence clock \<ge> bd_lockedLedger bond + pb_maxLockLedgers (st_proposalBonds store) in
        case (if pastMaxLock then Inr () else refund_conditions store clock key proposalId) of
          Inl e \<Rightarrow> throws e store
        | Inr _ \<Rightarrow>
            (case transfer store (ad_proposalBonds (st_addresses store)) (bd_proposer bond) (bd_amount bond) of
               (Inl e, store1) \<Rightarrow> throws e store1
             | (Inr _, store1) \<Rightarrow>
                 returns () (put_bond store1 key (bond\<lparr>bd_state := BondRefunded\<rparr>))))"

definition slash ::
  "MockLedgerStore \<Rightarrow> LedgerClock \<Rightarrow> address \<Rightarrow> address \<Rightarrow> hash_arg \<Rightarrow> address \<Rightarrow>
     (unit, MockLedgerStore) outcome" where
  "slash store clock caller slashCaller descriptionHash recipient =
     (case requireSigner caller slashCaller of Inl e \<Rightarrow> throws e store | Inr _ \<Rightarrow>
      if slashCaller \<noteq> pb_governor (st_proposalBonds store)
      then throws (MockContractError ProposalBondsErrorCode_NotAuthorized) store
      else case mustGetBond store (hashKey descriptionHash) of Inl e \<Rightarrow> throws e store | Inr bond \<Rightarrow>
        if bd_state bond \<noteq> BondLocked
        then throws (MockContractError ProposalBondsErrorCode_BondNotLocked) store
        else case transfer store (ad_proposalBonds (st_addresses store)) recipient (bd_amount bond) of
               (Inl e, store1) \<Rightarrow> throws e store1
             | (Inr _, store1) \<Rightarrow>
                 returns () (put_bond store1 (hashKey descriptionHash) (bond\<lparr>bd_state := BondSlashed\<rparr>)))"

definition get_bond :: "MockLedgerStore \<Rightarrow> hash_arg \<Rightarrow> ProposalBondRecord option" where
  "get_bond store descriptionHash = js_get (pb_bonds (st_proposalBonds store)) (hashKey descriptionHash)"

definition pb_get_settings :: "MockLedgerStore \<Rightarrow> address \<times> int \<times> address \<times> int \<times> int" where
  "pb_get_settings store =
     (let s = st_proposalBonds store in
      (pb_bondToken s, pb_bondAmount s, pb_governor s, pb_refundGraceLedgers s, pb_maxLockLedgers s))"

lemmas bond_op_defs = lock_bond_def refund_bond_def slash_def

subsection \<open>The token ledger\<close>

definition balance_of :: "MockLedgerStore \<Rightarrow> address \<Rightarrow> int" where
  "balance_of store a = js_getd 0 (tv_balances (st_votes store)) a"

definition ledger_total :: "MockLedgerStore \<Rightarrow> int" where
  "ledger_total store = js_sum (tv_balances (st_votes store))"

lemma set_balances_simps [simp]:
  "balance_of (set_balances store m) a = js_getd 0 m a"
  "ledger_total (set_balances store m) = js_sum m"
  "tv_balances (st_votes (set_balances store m)) = m"
  "tv_delegates (st_votes (set_balances store m)) = tv_delegates (st_votes store)"
  "tv_checkpoints (st_votes (set_balances store m)) = tv_checkpoints (st_votes store)"
  "tv_totalSupplyCheckpoints (st_votes (set_balances store m)) = tv_totalSupplyCheckpoints (st_votes store)"
  "st_addresses (set_balances store m) = st_addresses store"
  "st_governor (set_balances store m) = st_governor store"
  "st_timelock (set_balances store m) = st_timelock store"
  "st_coSponsorship (set_balances store m) = st_coSponsorship store"
  "st_optimisticGovernor (set_balances store m) = st_optimisticGovernor store"
  "st_treasury (set_balances store m) = st_treasury store"
  "st_convictionVoting (set_balances store m) = st_convictionVoting store"
  "st_proposalBonds (set_balances store m) = st_proposalBonds store"
  by (simp_all add: set_balances_def balance_of_def ledger_total_def)

lemma transfer_cases:
  "transfer store from to n = (r, store') \<Longrightarrow>
     (balance_of store from < n \<and> r = Inl (JsError ''insufficient balance'') \<and> store' = store) \<or>
     (n \<le> balance_of store from \<and> r = Inr () \<and> (\<exists>m. store' = set_balances store m))"
  by (auto simp: transfer_def balance_of_def Let_def split: if_splits)

interpretation paying: token_transfer balance_of ledger_total "\<lambda>_. src" "\<lambda>s. transfer s src" for src
proof unfold_locales
  fix n s to u s' a
  show "n \<le> balance_of s src \<Longrightarrow> fst (transfer s src to n) = Inr ()"
    by (simp add: transfer_def balance_of_def Let_def)
  show "balance_of s src < n \<Longrightarrow> \<exists>e. transfer s src to n = (Inl e, s)"
    by (simp add: transfer_def balance_of_def Let_def)
  assume ok: "transfer s src to n = (Inr u, s')"
  then show "balance_of s' a = balance_of s a - (if a = src then n else 0) + (if a = to then n else 0)"
    by (auto simp: transfer_def balance_of_def [of s] Let_def split: if_splits)
  show "ledger_total s' = ledger_total s"
    using ok by (auto simp: transfer_def ledger_total_def [of s] js_sum_set Let_def split: if_splits)
qed simp

subsection \<open>Frames\<close>

lemma put_bond_simps [simp]:
  "balance_of (put_bond store k b) a = balance_of store a"
  "ledger_total (put_bond store k b) = ledger_total store"
  "pb_bonds (st_proposalBonds (put_bond store k b)) = js_set (pb_bonds (st_proposalBonds store)) k b"
  "pb_governor (st_proposalBonds (put_bond store k b)) = pb_governor (st_proposalBonds store)"
  "st_addresses (put_bond store k b) = st_addresses store"
  "st_governor (put_bond store k b) = st_governor store"
  "st_timelock (put_bond store k b) = st_timelock store"
  "st_votes (put_bond store k b) = st_votes store"
  "st_coSponsorship (put_bond store k b) = st_coSponsorship store"
  "st_optimisticGovernor (put_bond store k b) = st_optimisticGovernor store"
  "st_treasury (put_bond store k b) = st_treasury store"
  "st_convictionVoting (put_bond store k b) = st_convictionVoting store"
  by (simp_all add: put_bond_def balance_of_def ledger_total_def)

text \<open>The bonds touch balances and bonds only.\<close>

definition only_bonds :: "MockLedgerStore \<Rightarrow> MockLedgerStore \<Rightarrow> bool" where
  "only_bonds s s' \<longleftrightarrow>
     s' = s\<lparr>st_votes := (st_votes s)\<lparr>tv_balances := tv_balances (st_votes s')\<rparr>,
            st_proposalBonds := (st_proposalBonds s)\<lparr>pb_bonds := pb_bonds (st_proposalBonds s')\<rparr>\<rparr>"

lemma only_bonds_refl [simp]: "only_bonds s s"
  by (simp add: only_bonds_def)

lemma only_bonds_paid: "only_bonds s (put_bond (set_balances s m) k b)"
  by (simp add: only_bonds_def put_bond_def set_balances_def)

text \<open>Each entry either fails and changes nothing or pays one amount and replaces one bond.\<close>

lemma lock_bond_cases:
  assumes "lock_bond s clock caller p h = (r, s')"
  obtains e where "r = Inl e" "s' = s"
  | m where "r = Inr ()" "caller = p" "js_get (pb_bonds (st_proposalBonds s)) (hashKey h) = None"
      "0 < pb_bondAmount (st_proposalBonds s)"
      "transfer s p (ad_proposalBonds (st_addresses s)) (pb_bondAmount (st_proposalBonds s)) = (Inr (), set_balances s m)"
      "s' = put_bond (set_balances s m) (hashKey h)
         \<lparr>bd_proposer = p, bd_descriptionHash = hashKey h, bd_amount = pb_bondAmount (st_proposalBonds s),
          bd_lockedLedger = clock_sequence clock, bd_state = BondLocked\<rparr>"
  using assms transfer_cases [of s p "ad_proposalBonds (st_addresses s)" "pb_bondAmount (st_proposalBonds s)"]
  by (fastforce simp: lock_bond_def requireSigner_def js_has_iff Let_def not_le
      split: if_splits prod.splits sum.splits)

lemma refund_bond_cases:
  assumes "refund_bond s clock caller c h pid = (r, s')"
  obtains e where "r = Inl e" "s' = s"
  | b m where "r = Inr ()" "caller = c" "js_get (pb_bonds (st_proposalBonds s)) (hashKey h) = Some b"
      "bd_state b = BondLocked"
      "clock_sequence clock < bd_lockedLedger b + pb_maxLockLedgers (st_proposalBonds s) \<longrightarrow>
         refund_conditions s clock (hashKey h) pid = Inr ()"
      "transfer s (ad_proposalBonds (st_addresses s)) (bd_proposer b) (bd_amount b) = (Inr (), set_balances s m)"
      "s' = put_bond (set_balances s m) (hashKey h) (b\<lparr>bd_state := BondRefunded\<rparr>)"
proof (cases "js_get (pb_bonds (st_proposalBonds s)) (hashKey h)")
  case None
  then have "\<exists>e. r = Inl e \<and> s' = s"
    using assms by (auto simp: refund_bond_def requireSigner_def mustGetBond_def Let_def split: if_splits)
  then show ?thesis using that(1) by blast
next
  case (Some b)
  obtain q s1 where paid:
    "transfer s (ad_proposalBonds (st_addresses s)) (bd_proposer b) (bd_amount b) = (q, s1)"
    by (cases "transfer s (ad_proposalBonds (st_addresses s)) (bd_proposer b) (bd_amount b)")
  note out = assms [unfolded refund_bond_def requireSigner_def mustGetBond_def Let_def Some option.case sum.case paid prod.case]
  show ?thesis
  proof (cases "\<exists>e. r = Inl e \<and> s' = s")
    case True
    then show ?thesis using that(1) by blast
  next
    case False
    then have "q = Inr ()" "\<exists>m. s1 = set_balances s m" "caller = c" "bd_state b = BondLocked"
      using out transfer_cases [OF paid]
      by (cases "refund_conditions s clock (hashKey h) pid"; auto split: if_splits)+
    then show ?thesis
      using that(2) [of b] out Some paid False
      by (cases "refund_conditions s clock (hashKey h) pid"; auto split: if_splits; metis)
  qed
qed

lemma slash_cases:
  assumes "slash s clock caller c h rcpt = (r, s')"
  obtains e where "r = Inl e" "s' = s"
  | b m where "r = Inr ()" "caller = c" "c = pb_governor (st_proposalBonds s)"
      "js_get (pb_bonds (st_proposalBonds s)) (hashKey h) = Some b" "bd_state b = BondLocked"
      "transfer s (ad_proposalBonds (st_addresses s)) rcpt (bd_amount b) = (Inr (), set_balances s m)"
      "s' = put_bond (set_balances s m) (hashKey h) (b\<lparr>bd_state := BondSlashed\<rparr>)"
proof (cases "js_get (pb_bonds (st_proposalBonds s)) (hashKey h)")
  case None
  then have "\<exists>e. r = Inl e \<and> s' = s"
    using assms by (auto simp: slash_def requireSigner_def mustGetBond_def Let_def split: if_splits)
  then show ?thesis using that(1) by blast
next
  case (Some b)
  obtain q s1 where paid:
    "transfer s (ad_proposalBonds (st_addresses s)) rcpt (bd_amount b) = (q, s1)"
    by (cases "transfer s (ad_proposalBonds (st_addresses s)) rcpt (bd_amount b)")
  note out = assms [unfolded slash_def requireSigner_def mustGetBond_def Let_def Some option.case sum.case paid prod.case]
  show ?thesis
  proof (cases "\<exists>e. r = Inl e \<and> s' = s")
    case True
    then show ?thesis using that(1) by blast
  next
    case False
    then have "q = Inr ()" "\<exists>m. s1 = set_balances s m" "caller = c" "bd_state b = BondLocked"
      "c = pb_governor (st_proposalBonds s)"
      using out transfer_cases [OF paid] by (auto split: if_splits sum.splits)
    then show ?thesis
      using that(2) [of b] out Some paid False by (auto split: if_splits sum.splits)
  qed
qed

lemma bond_ops_only_bonds:
  "lock_bond s clock caller p h = (r, s') \<Longrightarrow> only_bonds s s'"
  "refund_bond s clock caller c h pid = (r, s') \<Longrightarrow> only_bonds s s'"
  "slash s clock caller c h rcpt = (r, s') \<Longrightarrow> only_bonds s s'"
  by (auto elim!: lock_bond_cases refund_bond_cases slash_cases simp: only_bonds_paid)

lemma bond_ops_total:
  "lock_bond s clock caller p h = (r, s') \<Longrightarrow> ledger_total s' = ledger_total s"
  "refund_bond s clock caller c h pid = (r, s') \<Longrightarrow> ledger_total s' = ledger_total s"
  "slash s clock caller c h rcpt = (r, s') \<Longrightarrow> ledger_total s' = ledger_total s"
  by (auto elim!: lock_bond_cases refund_bond_cases slash_cases dest!: paying.pay_supply_any)

subsection \<open>The escrow\<close>

definition bond_claim :: "ProposalBondRecord \<Rightarrow> int" where
  "bond_claim b = (if bd_state b = BondLocked then bd_amount b else 0)"

definition locked_total :: "MockLedgerStore \<Rightarrow> int" where
  "locked_total s = js_wsum (\<lambda>k b. bond_claim b) (pb_bonds (st_proposalBonds s))"

definition bonds_positive :: "MockLedgerStore \<Rightarrow> bool" where
  "bonds_positive s \<longleftrightarrow> (\<forall>(k, b) \<in> set (pb_bonds (st_proposalBonds s)). 0 < bd_amount b)"

text \<open>The account of the bonds contract holds at least the sum of the locked bonds.\<close>

definition escrow_solvent :: "MockLedgerStore \<Rightarrow> bool" where
  "escrow_solvent s \<longleftrightarrow>
     bonds_positive s \<and> locked_total s \<le> balance_of s (ad_proposalBonds (st_addresses s))"

lemma js_set_members: "set (js_set m k v) \<subseteq> insert (k, v) (set m)"
  by (induction m) (auto simp: js_set_def)

lemma bonds_positive_put:
  "bonds_positive s \<Longrightarrow> 0 < bd_amount b \<Longrightarrow> bonds_positive (put_bond (set_balances s m) k b)"
  using js_set_members [of "pb_bonds (st_proposalBonds s)" k b] by (fastforce simp: bonds_positive_def)

lemma locked_total_put:
  "locked_total (put_bond (set_balances s m) k b) =
     locked_total s - (case js_get (pb_bonds (st_proposalBonds s)) k of None \<Rightarrow> 0 | Some b \<Rightarrow> bond_claim b)
     + bond_claim b"
  by (simp add: locked_total_def js_wsum_set)

lemma locked_total_ge:
  assumes "bonds_positive s" "js_get (pb_bonds (st_proposalBonds s)) k = Some b"
  shows "bond_claim b \<le> locked_total s"
proof -
  have "0 \<le> bond_claim v" if "(j, v) \<in> set (pb_bonds (st_proposalBonds s))" for j v
    using that assms(1) by (auto simp: bonds_positive_def bond_claim_def less_imp_le)
  then show ?thesis
    using js_wsum_member_le [OF js_get_in_set [OF assms(2)], of "\<lambda>k b. bond_claim b"]
    by (simp add: locked_total_def)
qed

lemma bonds_positive_get:
  "bonds_positive s \<Longrightarrow> js_get (pb_bonds (st_proposalBonds s)) k = Some b \<Longrightarrow> 0 < bd_amount b"
  using js_get_in_set by (fastforce simp: bonds_positive_def)

lemma lock_bond_solvent:
  assumes "lock_bond s clock caller p h = (r, s')" "caller \<noteq> ad_proposalBonds (st_addresses s)"
    "escrow_solvent s"
  shows "escrow_solvent s'"
  using assms(1)
proof (cases rule: lock_bond_cases)
  case (2 m)
  show ?thesis
    using 2 assms(2,3) paying.pay_balance [OF 2(5)]
    by (simp add: escrow_solvent_def bonds_positive_put locked_total_put bond_claim_def)
qed (use assms in simp)

lemma pay_out_solvent:
  assumes "escrow_solvent s" and "js_get (pb_bonds (st_proposalBonds s)) k = Some b"
    and "bd_state b = BondLocked" and "st \<noteq> BondLocked"
    and "transfer s (ad_proposalBonds (st_addresses s)) rcpt (bd_amount b) = (Inr (), set_balances s m)"
  shows "escrow_solvent (put_bond (set_balances s m) k (b\<lparr>bd_state := st\<rparr>))"
  using assms(1-4) paying.pay_balance [OF assms(5)] bonds_positive_get [of s k b]
  by (auto simp: escrow_solvent_def bonds_positive_put locked_total_put bond_claim_def)

lemma refund_bond_solvent:
  assumes "refund_bond s clock caller c h pid = (r, s')" "escrow_solvent s"
  shows "escrow_solvent s'"
  using assms(1) by (cases rule: refund_bond_cases) (use assms(2) in \<open>auto intro: pay_out_solvent\<close>)

lemma slash_solvent:
  assumes "slash s clock caller c h rcpt = (r, s')" "escrow_solvent s"
  shows "escrow_solvent s'"
  using assms(1) by (cases rule: slash_cases) (use assms(2) in \<open>auto intro: pay_out_solvent\<close>)

subsection \<open>Runs of the bonds contract\<close>

text \<open>A step is a call by an account that is not the bonds contract itself.\<close>

inductive bonds_step :: "MockLedgerStore \<Rightarrow> MockLedgerStore \<Rightarrow> bool" where
  lock: "caller \<noteq> ad_proposalBonds (st_addresses s) \<Longrightarrow> lock_bond s clock caller p h = (r, s') \<Longrightarrow>
    bonds_step s s'"
| refund: "refund_bond s clock caller c h pid = (r, s') \<Longrightarrow> bonds_step s s'"
| slash: "ProposalBonds.slash s clock caller c h rcpt = (r, s') \<Longrightarrow> bonds_step s s'"

inductive_cases bonds_step_elim: "bonds_step s s'"

text \<open>A bond that is no longer locked.\<close>

definition bond_closed :: "string \<times> ProposalBondRecord \<Rightarrow> MockLedgerStore \<Rightarrow> bool" where
  "bond_closed kb s \<longleftrightarrow>
     js_get (pb_bonds (st_proposalBonds s)) (fst kb) = Some (snd kb) \<and> bd_state (snd kb) \<noteq> BondLocked"

lemma bonds_step_closed:
  assumes "bonds_step s s'" "bond_closed kb s"
  shows "bond_closed kb s'"
  using assms(1)
proof cases
  case (lock caller clock p h r)
  show ?thesis
    using lock(2) assms(2) by (cases rule: lock_bond_cases) (auto simp: bond_closed_def)
next
  case (refund clock caller c h pid r)
  then show ?thesis
    using assms(2) by (cases rule: refund_bond_cases) (auto simp: bond_closed_def)
next
  case (slash clock caller c h rcpt r)
  then show ?thesis
    using assms(2) by (cases rule: slash_cases) (auto simp: bond_closed_def)
qed

interpretation escrow: stepwise_invariant bonds_step escrow_solvent
  by unfold_locales (auto elim!: bonds_step_elim intro: lock_bond_solvent refund_bond_solvent slash_solvent)

interpretation conserved: stepwise_invariant bonds_step "\<lambda>s. ledger_total s = t" for t
  by unfold_locales (auto elim!: bonds_step_elim simp: bond_ops_total)

interpretation closing: one_way_flag bonds_step bond_closed
  by unfold_locales (rule bonds_step_closed)

subsection \<open>Properties\<close>

text \<open>C3: Whatever calls of \<^verbatim>\<open>lock_bond\<close>, \<^verbatim>\<open>refund_bond\<close> and \<^verbatim>\<open>slash\<close> are made and however they
  end, the account of the bonds contract covers all locked bonds, and no token is created or
  destroyed.\<close>

theorem escrow_always_solvent:
  assumes "bonds_step\<^sup>*\<^sup>* s s'" and "escrow_solvent s"
  shows "escrow_solvent s' \<and> ledger_total s' = ledger_total s"
  using escrow.reach_inv [OF assms] conserved.reach_inv [OF assms(1), of "ledger_total s"] by simp

definition demo_locked :: MockLedgerStore where
  "demo_locked = snd (lock_bond demo_store (demo_clock 1000) ''alice'' ''alice'' (HashBytes [171, 205]))"

theorem escrow_always_solvent_witness:
  "balance_of demo_locked ''C8'' = 40 \<and> locked_total demo_locked = 40 \<and> ledger_total demo_locked = 1500"
proof -
  have "bonds_step demo_store demo_locked"
  proof (rule bonds_step.lock)
    show "''alice'' \<noteq> ad_proposalBonds (st_addresses demo_store)" by code_simp
    show "lock_bond demo_store (demo_clock 1000) ''alice'' ''alice'' (HashBytes [171, 205]) =
      (fst (lock_bond demo_store (demo_clock 1000) ''alice'' ''alice'' (HashBytes [171, 205])), demo_locked)"
      by (simp add: demo_locked_def)
  qed
  then have run: "bonds_step\<^sup>*\<^sup>* demo_store demo_locked" by simp
  have "escrow_solvent demo_store" by code_simp
  then have "ledger_total demo_locked = ledger_total demo_store"
    using escrow_always_solvent [OF run] by simp
  moreover have "ledger_total demo_store = 1500" by code_simp
  moreover have "balance_of demo_locked ''C8'' = 40" "locked_total demo_locked = 40" by code_simp+
  ultimately show ?thesis by simp
qed

text \<open>The escape hatch always works: once the maximal lock time has passed, anybody can trigger
  the refund of a locked bond whatever became of its proposal; the call succeeds, the proposer is
  credited exactly the bond, and the bond is closed.\<close>

theorem refund_after_max_lock:
  assumes "escrow_solvent s" and "get_bond s h = Some b" and "bd_state b = BondLocked"
    and "bd_lockedLedger b + pb_maxLockLedgers (st_proposalBonds s) \<le> clock_sequence clock"
    and "bd_proposer b \<noteq> ad_proposalBonds (st_addresses s)"
  shows "\<exists>s'. refund_bond s clock caller caller h pid = (Inr (), s') \<and>
     balance_of s' (bd_proposer b) = balance_of s (bd_proposer b) + bd_amount b \<and>
     get_bond s' h = Some (b\<lparr>bd_state := BondRefunded\<rparr>)"
proof -
  let ?A = "ad_proposalBonds (st_addresses s)"
  have bond: "js_get (pb_bonds (st_proposalBonds s)) (hashKey h) = Some b"
    using assms(2) by (simp add: get_bond_def)
  then have "bd_amount b \<le> balance_of s ?A"
    using assms(1,3) locked_total_ge [of s "hashKey h" b] by (simp add: escrow_solvent_def bond_claim_def)
  then obtain s1 where paid: "transfer s ?A (bd_proposer b) (bd_amount b) = (Inr (), s1)"
    using paying.pay_succeeds [of "bd_amount b" s ?A "bd_proposer b"]
    by (cases "transfer s ?A (bd_proposer b) (bd_amount b)") auto
  show ?thesis
    using bond assms(3-5) paid paying.pay_balance [OF paid, of "bd_proposer b"]
    by (auto simp: refund_bond_def requireSigner_def mustGetBond_def get_bond_def)
qed

theorem refund_after_max_lock_witness:
  "\<exists>s'. refund_bond demo_locked (demo_clock 1001000) ''carol'' ''carol'' (HashBytes [171, 205]) 7 = (Inr (), s') \<and>
     balance_of s' ''alice'' = 300"
proof -
  let ?b = "\<lparr>bd_proposer = ''alice'', bd_descriptionHash = ''abcd'', bd_amount = 40,
             bd_lockedLedger = 1000, bd_state = BondLocked\<rparr>"
  have "escrow_solvent demo_locked" "get_bond demo_locked (HashBytes [171, 205]) = Some ?b"
    "balance_of demo_locked ''alice'' = 260"
    "bd_lockedLedger ?b + pb_maxLockLedgers (st_proposalBonds demo_locked) \<le> clock_sequence (demo_clock 1001000)"
    "bd_proposer ?b \<noteq> ad_proposalBonds (st_addresses demo_locked)"
    by code_simp+
  then show ?thesis
    using refund_after_max_lock [of demo_locked "HashBytes [171, 205]" ?b "demo_clock 1001000" "''carol''" 7]
    by auto
qed

text \<open>A bond is settled once: after it was refunded or slashed, no sequence of calls changes its
  record again, and every later attempt to refund or slash it fails and changes nothing.\<close>

theorem bond_settles_once:
  assumes "bonds_step\<^sup>*\<^sup>* s s'" and "js_get (pb_bonds (st_proposalBonds s)) k = Some b"
    and "bd_state b \<noteq> BondLocked"
  shows "js_get (pb_bonds (st_proposalBonds s')) k = Some b \<and>
     (\<forall>clock caller c h pid. hashKey h = k \<longrightarrow>
        (\<exists>e. refund_bond s' clock caller c h pid = (Inl e, s')) \<and>
        (\<exists>e. ProposalBonds.slash s' clock caller c h rcpt = (Inl e, s')))"
proof -
  have "bond_closed (k, b) s'"
    using closing.flagged.reach_inv [OF assms(1), of "(k, b)"] assms(2,3) by (simp add: bond_closed_def)
  then have closed: "js_get (pb_bonds (st_proposalBonds s')) k = Some b" "bd_state b \<noteq> BondLocked"
    by (simp_all add: bond_closed_def)
  then show ?thesis
    by (auto simp: refund_bond_def slash_def requireSigner_def mustGetBond_def)
qed

definition demo_refunded :: MockLedgerStore where
  "demo_refunded =
     snd (refund_bond demo_locked (demo_clock 1001000) ''carol'' ''carol'' (HashBytes [171, 205]) 7)"

theorem bond_settles_once_witness:
  "\<exists>e. ProposalBonds.slash demo_refunded (demo_clock 1001001) ''C1'' ''C1'' (HashText ''ABCD'') ''bob'' =
     (Inl e, demo_refunded)"
proof -
  let ?b = "\<lparr>bd_proposer = ''alice'', bd_descriptionHash = ''abcd'', bd_amount = 40,
             bd_lockedLedger = 1000, bd_state = BondRefunded\<rparr>"
  have "js_get (pb_bonds (st_proposalBonds demo_refunded)) ''abcd'' = Some ?b"
    "bd_state ?b \<noteq> BondLocked" "hashKey (HashText ''ABCD'') = ''abcd''" by code_simp+
  then show ?thesis
    using bond_settles_once [of demo_refunded demo_refunded "''abcd''" ?b "''bob''"] by blast
qed

text \<open>Before the maximal lock time a refund happens only for a proposal that carries the hash of
  the bond, is in a terminal state, and whose voting ended at least a grace window ago; the
  money goes to the proposer of the bond.\<close>

theorem refund_is_justified:
  assumes "refund_bond s clock caller c h pid = (Inr u, s')" and "get_bond s h = Some b"
    and "clock_sequence clock < bd_lockedLedger b + pb_maxLockLedgers (st_proposalBonds s)"
  shows "caller = c \<and>
     (\<exists>proposal state. js_get (gv_proposals (st_governor s)) pid = Some proposal \<and>
        pr_descriptionHash proposal = hashKey h \<and>
        computeProposalState s clock proposal = Inr state \<and>
        state \<in> {Executed, Defeated, Expired, Cancelled} \<and>
        pr_endLedger proposal + pb_refundGraceLedgers (st_proposalBonds s) \<le> clock_sequence clock) \<and>
     balance_of s' a = balance_of s a
       - (if a = ad_proposalBonds (st_addresses s) then bd_amount b else 0)
       + (if a = bd_proposer b then bd_amount b else 0)"
  using assms(1)
proof (cases rule: refund_bond_cases)
  case (2 b' m)
  have "b' = b" using 2(3) assms(2) by (simp add: get_bond_def)
  moreover have "refund_conditions s clock (hashKey h) pid = Inr ()"
    using 2(5) assms(3) \<open>b' = b\<close> by simp
  then have "\<exists>proposal state. js_get (gv_proposals (st_governor s)) pid = Some proposal \<and>
        pr_descriptionHash proposal = hashKey h \<and>
        computeProposalState s clock proposal = Inr state \<and>
        state \<in> {Executed, Defeated, Expired, Cancelled} \<and>
        pr_endLedger proposal + pb_refundGraceLedgers (st_proposalBonds s) \<le> clock_sequence clock"
    by (auto simp: refund_conditions_def isTerminal_def split: option.splits if_splits sum.splits)
  ultimately show ?thesis
    using 2 paying.pay_balance [OF 2(6), of a] by simp
qed simp

text \<open>The example goes on: a proposal with the hash of the bond that was cancelled.\<close>

definition demo_cancelled :: MockLedgerStore where
  "demo_cancelled =
     (let s = snd (createProposal demo_locked (demo_clock 1000) ''bob'' ''d'' [171, 205] '''' [''T'']
                     [''f''] [[]] True)
      in case js_get (gv_proposals (st_governor s)) 1 of
           None \<Rightarrow> s | Some p \<Rightarrow> put_proposal s 1 (p\<lparr>pr_cancelled := True\<rparr>))"

theorem refund_is_justified_witness:
  "balance_of (snd (refund_bond demo_cancelled (demo_clock 4000) ''bob'' ''bob'' (HashBytes [171, 205]) 1)) ''alice''
     = 300"
proof -
  let ?b = "\<lparr>bd_proposer = ''alice'', bd_descriptionHash = ''abcd'', bd_amount = 40,
             bd_lockedLedger = 1000, bd_state = BondLocked\<rparr>"
  let ?r = "refund_bond demo_cancelled (demo_clock 4000) ''bob'' ''bob'' (HashBytes [171, 205]) 1"
  have "fst ?r = Inr ()" by code_simp
  then have "?r = (Inr (), snd ?r)" by (metis prod.collapse)
  moreover have "get_bond demo_cancelled (HashBytes [171, 205]) = Some ?b"
    "clock_sequence (demo_clock 4000) < bd_lockedLedger ?b + pb_maxLockLedgers (st_proposalBonds demo_cancelled)"
    by code_simp+
  ultimately have "balance_of (snd ?r) ''alice'' = balance_of demo_cancelled ''alice''
       - (if ''alice'' = ad_proposalBonds (st_addresses demo_cancelled) then bd_amount ?b else 0)
       + (if ''alice'' = bd_proposer ?b then bd_amount ?b else 0)"
    using refund_is_justified by blast
  moreover have "balance_of demo_cancelled ''alice'' = 260"
    "ad_proposalBonds (st_addresses demo_cancelled) = ''C8''" by code_simp+
  ultimately show ?thesis by simp
qed

end
