(* ===== verification/Governor.thy ===== *)
theory Governor
  imports ProposalBonds
begin

section \<open>The governor's entries\<close>

text \<open>
  The entries of \<^verbatim>\<open>governorExecutor\<close> (\<^verbatim>\<open>tools/simulation/src/mock/governor-executor.ts\<close>) and the
  dispatch of an executed proposal to the proposal bonds. Parameters of the model: \<open>sha256\<close> of
  \<^verbatim>\<open>node:crypto\<close> and \<open>decode\<close>, the composition of \<^verbatim>\<open>xdr.ScVal.fromXDR\<close> and \<^verbatim>\<open>scValToNative\<close> of the
  Stellar SDK, which turns call data into argument values or throws. An entry that throws after
  it has written returns the store as it is at the throw.

  The lemmas say for each entry what it requires and what it changes; theory \<open>GovernorRuns\<close> builds
  the properties of whole runs on them.
\<close>

subsection \<open>Model\<close>

text \<open>What \<^verbatim>\<open>scValToNative\<close> yields for one argument, as far as the bonds entries distinguish it.\<close>

datatype native = NString string | NBytes bytes | NBigint int | NOther

text \<open>
  The call \<^verbatim>\<open>handler(store, clock, governor, args)\<close>. The handlers cast their arguments
  (\<^verbatim>\<open>args as [string, Uint8Array, bigint]\<close>); call data whose values have other types is outside
  what the casts promise, and the model ends such a call with an error.
\<close>

definition bonds_handler ::
  "string \<Rightarrow> MockLedgerStore \<Rightarrow> LedgerClock \<Rightarrow> address \<Rightarrow> native list \<Rightarrow> (unit, MockLedgerStore) outcome"
where
  "bonds_handler fnName store clock caller args =
     (if fnName = ''lock_bond'' then
        (case args of
           NString proposer # NBytes h # _ \<Rightarrow> lock_bond store clock caller proposer (HashBytes h)
         | NString proposer # NString h # _ \<Rightarrow> lock_bond store clock caller proposer (HashText h)
         | _ \<Rightarrow> throws (JsError ''TypeError'') store)
      else if fnName = ''refund_bond'' then
        (case args of
           NString c # NBytes h # NBigint pid # _ \<Rightarrow> refund_bond store clock caller c (HashBytes h) pid
         | NString c # NString h # NBigint pid # _ \<Rightarrow> refund_bond store clock caller c (HashText h) pid
         | _ \<Rightarrow> throws (JsError ''TypeError'') store)
      else if fnName = ''slash'' then
        (case args of
           NString c # NBytes h # NString recipient # _ \<Rightarrow> slash store clock caller c (HashBytes h) recipient
         | NString c # NString h # NString recipient # _ \<Rightarrow> slash store clock caller c (HashText h) recipient
         | _ \<Rightarrow> throws (JsError ''TypeError'') store)
      else if fnName = ''get_bond'' then
        (case args of
           NBytes h # _ \<Rightarrow> returns () store
         | NString h # _ \<Rightarrow> returns () store
         | _ \<Rightarrow> throws (JsError ''TypeError'') store)
      else returns () store)"

definition bonds_entries :: "string list" where
  "bonds_entries = [''lock_bond'', ''refund_bond'', ''slash'', ''get_bond'', ''get_settings'']"

definition dispatchProposalBondsAction ::
  "(bytes \<Rightarrow> js_error + native list) \<Rightarrow> MockLedgerStore \<Rightarrow> LedgerClock \<Rightarrow> ProposalRecord \<Rightarrow>
     (unit, MockLedgerStore) outcome" where
  "dispatchProposalBondsAction decode store clock proposal =
     (case pr_opIds proposal of [] \<Rightarrow> returns () store | opId # _ \<Rightarrow>
      if opId = '''' then returns () store
      else case js_get (tl_operations (st_timelock store)) opId of
        None \<Rightarrow> returns () store
      | Some oper \<Rightarrow>
          if op_target oper \<noteq> ad_proposalBonds (st_addresses store) then returns () store
          else if op_fnName oper \<notin> set bonds_entries
          then throws (JsError (''execute: unknown proposal-bonds action '' @ op_fnName oper)) store
          else case decode (op_data oper) of
                 Inl e \<Rightarrow> throws e store
               | Inr args \<Rightarrow>
                   bonds_handler (op_fnName oper) store clock (ad_governor (st_addresses store)) args)"

definition gov_propose ::
  "MockLedgerStore \<Rightarrow> LedgerClock \<Rightarrow> address \<Rightarrow> address \<Rightarrow> string \<Rightarrow> bytes \<Rightarrow> string \<Rightarrow> address list \<Rightarrow>
     string list \<Rightarrow> bytes list \<Rightarrow> (int, MockLedgerStore) outcome" where
  "gov_propose store clock caller proposer description descriptionHash metadataUri targets fnNames calldatas =
     (if caller \<noteq> proposer then throws (MockContractError 100) store
      else createProposal store clock proposer description descriptionHash metadataUri targets fnNames
             calldatas True)"

definition propose_via_registry ::
  "MockLedgerStore \<Rightarrow> LedgerClock \<Rightarrow> address \<Rightarrow> address \<Rightarrow> address \<Rightarrow> string \<Rightarrow> bytes \<Rightarrow> string \<Rightarrow>
     address list \<Rightarrow> string list \<Rightarrow> bytes list \<Rightarrow> (int, MockLedgerStore) outcome" where
  "propose_via_registry store clock caller registry proposer description descriptionHash metadataUri
     targets fnNames calldatas =
     (if caller \<noteq> ad_coSponsorship (st_addresses store) \<or> registry \<noteq> caller
      then throws (MockContractError 100) store
      else createProposal store clock proposer description descriptionHash metadataUri targets fnNames
             calldatas False)"

text \<open>The tally update of \<^verbatim>\<open>cast_vote\<close>.\<close>

definition count_vote :: "ProposalRecord \<Rightarrow> string option \<Rightarrow> int \<Rightarrow> ProposalRecord" where
  "count_vote proposal support weight =
     (if weight > 0 then
        if support = Some ''For'' then proposal\<lparr>pr_votesFor := pr_votesFor proposal + weight\<rparr>
        else if support = Some ''Against''
          then proposal\<lparr>pr_votesAgainst := pr_votesAgainst proposal + weight\<rparr>
        else if support = Some ''Abstain''
          then proposal\<lparr>pr_votesAbstain := pr_votesAbstain proposal + weight\<rparr>
        else proposal
      else proposal)"

definition cast_vote ::
  "MockLedgerStore \<Rightarrow> LedgerClock \<Rightarrow> address \<Rightarrow> address \<Rightarrow> int \<Rightarrow> string list \<Rightarrow>
     (unit, MockLedgerStore) outcome" where
  "cast_vote store clock caller voter proposalId supportVariant =
     (if caller \<noteq> voter then throws (MockContractError 100) store
      else let gov = st_governor store in
      if gs_isPaused (gv_settings gov) then throws (MockContractError GovernorErrorCode_ContractPaused) store
      else let support = (case supportVariant of [] \<Rightarrow> None | v # _ \<Rightarrow> Some v) in
      case mustGetProposal store proposalId of Inl e \<Rightarrow> throws e store | Inr proposal \<Rightarrow>
      if js_getd False (pr_hasVoted proposal) voter
      then throws (MockContractError GovernorErrorCode_AlreadyVoted) store
      else let voteType = gs_voteType (gv_settings gov) in
      if voteType = Simple \<and> support = Some ''Abstain''
      then throws (MockContractError GovernorErrorCode_InvalidSupport) store
      else let current = clock_sequence clock in
      if pr_cancelled proposal \<or> pr_executed proposal \<or> pr_queued proposal \<or>
         current < pr_startLedger proposal \<or> current > pr_endLedger proposal
      then throws (MockContractError GovernorErrorCode_ProposalNotActive) store
      else case get_past_votes (st_votes store) clock voter (pr_startLedger proposal) of
        Inl e \<Rightarrow> throws e store
      | Inr rawWeight \<Rightarrow>
          let weight = applyVoteType voteType rawWeight;
              counted = count_vote proposal support weight
          in returns () (put_proposal store proposalId
               (counted\<lparr>pr_hasVoted := js_set (pr_hasVoted counted) voter True\<rparr>)))"

definition put_timelock :: "MockLedgerStore \<Rightarrow> TimelockState \<Rightarrow> MockLedgerStore" where
  "put_timelock store tml = store\<lparr>st_timelock := tml\<rparr>"

definition set_queueTime :: "MockLedgerStore \<Rightarrow> int \<Rightarrow> int \<Rightarrow> MockLedgerStore" where
  "set_queueTime store pid ledger =
     store\<lparr>st_governor := (st_governor store)\<lparr>gv_queueTime :=
       js_set (gv_queueTime (st_governor store)) pid ledger\<rparr>\<rparr>"

definition gov_queue ::
  "(bytes \<Rightarrow> bytes) \<Rightarrow> MockLedgerStore \<Rightarrow> LedgerClock \<Rightarrow> int \<Rightarrow> (unit, MockLedgerStore) outcome" where
  "gov_queue sha256 store clock proposalId =
     (case mustGetProposal store proposalId of Inl e \<Rightarrow> throws e store | Inr proposal \<Rightarrow>
      case computeProposalState store clock proposal of Inl e \<Rightarrow> throws e store | Inr state \<Rightarrow>
      if state = Expired then throws (MockContractError GovernorErrorCode_ProposalExpired) store
      else if state \<noteq> Succeeded then throws (MockContractError GovernorErrorCode_ProposalNotSucceeded) store
      else case computeQuorum store clock proposal of Inl e \<Rightarrow> throws e store | Inr requiredQuorum \<Rightarrow>
      let quorumMet = pr_votesFor proposal + pr_votesAbstain proposal \<ge> requiredQuorum;
          forWins = pr_votesFor proposal > pr_votesAgainst proposal in
      if \<not> quorumMet \<or> \<not> forWins
      then throws (MockContractError GovernorErrorCode_ProposalNotSucceeded) store
      else case pr_targets proposal of [] \<Rightarrow> throws (MockContractError GovernorErrorCode_NoTargets) store
      | target # _ \<Rightarrow>
      (case pr_calldatas proposal of [] \<Rightarrow> throws (JsError ''TypeError'') store | calldata # _ \<Rightarrow>
       case pr_fnNames proposal of [] \<Rightarrow> throws (JsError ''TypeError'') store | fnName # _ \<Rightarrow>
       let delay = tl_minDelay (st_timelock store) in
       case scheduleOperation sha256 (st_timelock store) clock target calldata fnName delay [] [] of
         (Inl e, tml) \<Rightarrow> throws e (put_timelock store tml)
       | (Inr opId, tml) \<Rightarrow>
           returns () (set_queueTime
             (put_proposal (put_timelock store tml) proposalId
                (proposal\<lparr>pr_opIds := [opId], pr_queued := True\<rparr>))
             proposalId (clock_sequence clock))))"

definition gov_execute ::
  "(bytes \<Rightarrow> js_error + native list) \<Rightarrow> MockLedgerStore \<Rightarrow> LedgerClock \<Rightarrow> int \<Rightarrow>
     (unit, MockLedgerStore) outcome" where
  "gov_execute decode store clock proposalId =
     (case mustGetProposal store proposalId of Inl e \<Rightarrow> throws e store | Inr proposal \<Rightarrow>
      case computeProposalState store clock proposal of Inl e \<Rightarrow> throws e store | Inr state \<Rightarrow>
      if state \<noteq> Queued then throws (MockContractError GovernorErrorCode_ProposalNotQueued) store
      else if pr_executed proposal
      then throws (MockContractError GovernorErrorCode_ProposalAlreadyExecuted) store
      else case pr_opIds proposal of
        [] \<Rightarrow> throws (MockContractError GovernorErrorCode_MissingOpIds) store
      | opId # _ \<Rightarrow>
          (case executeOperation (st_timelock store) clock opId of
             (Inl e, tml) \<Rightarrow> throws e (put_timelock store tml)
           | (Inr _, tml) \<Rightarrow>
               (case dispatchProposalBondsAction decode (put_timelock store tml) clock proposal of
                  (Inl e, store2) \<Rightarrow> throws e store2
                | (Inr _, store2) \<Rightarrow>
                    returns () (put_proposal store2 proposalId (proposal\<lparr>pr_executed := True\<rparr>)))))"

definition gov_cancel ::
  "MockLedgerStore \<Rightarrow> LedgerClock \<Rightarrow> address \<Rightarrow> address \<Rightarrow> int \<Rightarrow> (unit, MockLedgerStore) outcome" where
  "gov_cancel store clock caller cancelCaller proposalId =
     (if caller \<noteq> cancelCaller then throws (MockContractError 100) store
      else case mustGetProposal store proposalId of Inl e \<Rightarrow> throws e store | Inr proposal \<Rightarrow>
      case computeProposalState store clock proposal of Inl e \<Rightarrow> throws e store | Inr state \<Rightarrow>
      let guardian = gs_guardian (gv_settings (st_governor store));
          canCancel = (cancelCaller = pr_proposer proposal \<and> state = Pending) \<or>
                      (cancelCaller = guardian \<and> state = Active) in
      if \<not> canCancel then throws (MockContractError GovernorErrorCode_UnauthorizedCancel) store
      else returns () (put_proposal store proposalId (proposal\<lparr>pr_cancelled := True\<rparr>)))"

text \<open>The loop over the operation identifiers stops at the first error.\<close>

fun cancel_operations :: "TimelockState \<Rightarrow> string list \<Rightarrow> (unit, TimelockState) outcome" where
  "cancel_operations tml [] = returns () tml"
| "cancel_operations tml (opId # opIds) =
     (case cancelOperation tml opId of
        (Inl e, tml') \<Rightarrow> throws e tml'
      | (Inr _, tml') \<Rightarrow> cancel_operations tml' opIds)"

definition gov_cancel_queued ::
  "MockLedgerStore \<Rightarrow> LedgerClock \<Rightarrow> address \<Rightarrow> address \<Rightarrow> int \<Rightarrow> (unit, MockLedgerStore) outcome" where
  "gov_cancel_queued store clock caller cancelCaller proposalId =
     (if caller \<noteq> cancelCaller then throws (MockContractError 100) store
      else case mustGetProposal store proposalId of Inl e \<Rightarrow> throws e store | Inr proposal \<Rightarrow>
      if \<not> pr_queued proposal \<or> pr_cancelled proposal
      then throws (MockContractError GovernorErrorCode_ProposalNotQueued) store
      else let guardian = gs_guardian (gv_settings (st_governor store)) in
      if cancelCaller \<noteq> guardian
      then throws (MockContractError GovernorErrorCode_UnauthorizedGuardian) store
      else case js_get (gv_queueTime (st_governor store)) proposalId of
        None \<Rightarrow> throws (MockContractError GovernorErrorCode_ProposalNotQueued) store
      | Some queueTime \<Rightarrow>
          let delayLedgers = tl_minDelay (st_timelock store) div SECONDS_PER_LEDGER;
              vetoWindowEndLedger = queueTime + delayLedgers in
          if clock_sequence clock \<ge> vetoWindowEndLedger
          then throws (MockContractError GovernorErrorCode_VetoWindowClosed) store
          else
            let store1 = put_proposal store proposalId (proposal\<lparr>pr_cancelled := True\<rparr>) in
            (case cancel_operations (st_timelock store1) (pr_opIds proposal) of
               (r, tml) \<Rightarrow> (r, put_timelock store1 tml)))"

definition gov_state :: "MockLedgerStore \<Rightarrow> LedgerClock \<Rightarrow> int \<Rightarrow> js_error + ProposalStateName" where
  "gov_state store clock proposalId =
     (case mustGetProposal store proposalId of Inl e \<Rightarrow> Inl e
      | Inr proposal \<Rightarrow> computeProposalState store clock proposal)"

definition gov_get_settings :: "MockLedgerStore \<Rightarrow> GovernorSettingsState" where
  "gov_get_settings store = gv_settings (st_governor store)"

definition gov_get_proposal :: "MockLedgerStore \<Rightarrow> int \<Rightarrow> js_error + ProposalRecord" where
  "gov_get_proposal store proposalId = mustGetProposal store proposalId"

definition get_quorum :: "MockLedgerStore \<Rightarrow> LedgerClock \<Rightarrow> int \<Rightarrow> js_error + int" where
  "get_quorum store clock proposalId =
     (case mustGetProposal store proposalId of Inl e \<Rightarrow> Inl e
      | Inr proposal \<Rightarrow> computeQuorum store clock proposal)"

definition is_quorum_reached :: "MockLedgerStore \<Rightarrow> LedgerClock \<Rightarrow> int \<Rightarrow> js_error + bool" where
  "is_quorum_reached store clock proposalId =
     (case mustGetProposal store proposalId of Inl e \<Rightarrow> Inl e
      | Inr proposal \<Rightarrow>
          (case computeQuorum store clock proposal of Inl e \<Rightarrow> Inl e
           | Inr requiredQuorum \<Rightarrow>
               Inr (pr_votesFor proposal + pr_votesAbstain proposal \<ge> requiredQuorum)))"

definition proposal_threshold :: "MockLedgerStore \<Rightarrow> int" where
  "proposal_threshold store = gs_proposalThreshold (gv_settings (st_governor store))"

definition proposal_votes :: "MockLedgerStore \<Rightarrow> int \<Rightarrow> js_error + (int \<times> int \<times> int)" where
  "proposal_votes store proposalId =
     (case mustGetProposal store proposalId of Inl e \<Rightarrow> Inl e
      | Inr proposal \<Rightarrow>
          Inr (pr_votesFor proposal, pr_votesAgainst proposal, pr_votesAbstain proposal))"

definition has_voted :: "MockLedgerStore \<Rightarrow> int \<Rightarrow> address \<Rightarrow> js_error + bool" where
  "has_voted store proposalId voter =
     (case mustGetProposal store proposalId of Inl e \<Rightarrow> Inl e
      | Inr proposal \<Rightarrow> Inr (js_getd False (pr_hasVoted proposal) voter))"

definition proposal_count :: "MockLedgerStore \<Rightarrow> int" where
  "proposal_count store = gv_proposalCount (st_governor store)"

definition set_paused :: "MockLedgerStore \<Rightarrow> bool \<Rightarrow> MockLedgerStore" where
  "set_paused store b =
     store\<lparr>st_governor := (st_governor store)\<lparr>gv_settings :=
       (gv_settings (st_governor store))\<lparr>gs_isPaused := b\<rparr>\<rparr>\<rparr>"

definition gov_pause :: "MockLedgerStore \<Rightarrow> address \<Rightarrow> (unit, MockLedgerStore) outcome" where
  "gov_pause store caller =
     (if caller \<noteq> gs_pauser (gv_settings (st_governor store))
      then throws (MockContractError GovernorErrorCode_UnauthorizedPause) store
      else returns () (set_paused store True))"

definition gov_unpause :: "MockLedgerStore \<Rightarrow> address \<Rightarrow> (unit, MockLedgerStore) outcome" where
  "gov_unpause store caller =
     (if caller \<noteq> gs_pauser (gv_settings (st_governor store))
      then throws (MockContractError GovernorErrorCode_UnauthorizedPause) store
      else returns () (set_paused store False))"

subsection \<open>What each entry does to the store\<close>

lemma put_proposal_simps [simp]:
  "gv_proposals (st_governor (put_proposal s pid p)) = js_set (gv_proposals (st_governor s)) pid p"
  "gv_proposalCount (st_governor (put_proposal s pid p)) = gv_proposalCount (st_governor s)"
  "gv_queueTime (st_governor (put_proposal s pid p)) = gv_queueTime (st_governor s)"
  "gv_settings (st_governor (put_proposal s pid p)) = gv_settings (st_governor s)"
  "st_timelock (put_proposal s pid p) = st_timelock s"
  "st_votes (put_proposal s pid p) = st_votes s"
  "st_addresses (put_proposal s pid p) = st_addresses s"
  "st_proposalBonds (put_proposal s pid p) = st_proposalBonds s"
  "st_treasury (put_proposal s pid p) = st_treasury s"
  "st_convictionVoting (put_proposal s pid p) = st_convictionVoting s"
  "st_optimisticGovernor (put_proposal s pid p) = st_optimisticGovernor s"
  "st_coSponsorship (put_proposal s pid p) = st_coSponsorship s"
  by (simp_all add: put_proposal_def)

lemma put_timelock_simps [simp]:
  "st_timelock (put_timelock s t) = t"
  "st_governor (put_timelock s t) = st_governor s"
  "st_votes (put_timelock s t) = st_votes s"
  "st_addresses (put_timelock s t) = st_addresses s"
  "st_proposalBonds (put_timelock s t) = st_proposalBonds s"
  "st_treasury (put_timelock s t) = st_treasury s"
  "st_convictionVoting (put_timelock s t) = st_convictionVoting s"
  "st_optimisticGovernor (put_timelock s t) = st_optimisticGovernor s"
  "st_coSponsorship (put_timelock s t) = st_coSponsorship s"
  by (simp_all add: put_timelock_def)

lemma set_queueTime_simps [simp]:
  "gv_proposals (st_governor (set_queueTime s pid l)) = gv_proposals (st_governor s)"
  "gv_proposalCount (st_governor (set_queueTime s pid l)) = gv_proposalCount (st_governor s)"
  "gv_queueTime (st_governor (set_queueTime s pid l)) = js_set (gv_queueTime (st_governor s)) pid l"
  "st_timelock (set_queueTime s pid l) = st_timelock s"
  "st_votes (set_queueTime s pid l) = st_votes s"
  "st_addresses (set_queueTime s pid l) = st_addresses s"
  "st_proposalBonds (set_queueTime s pid l) = st_proposalBonds s"
  by (simp_all add: set_queueTime_def)

lemma set_paused_simps [simp]:
  "gv_proposals (st_governor (set_paused s b)) = gv_proposals (st_governor s)"
  "gv_proposalCount (st_governor (set_paused s b)) = gv_proposalCount (st_governor s)"
  "gv_queueTime (st_governor (set_paused s b)) = gv_queueTime (st_governor s)"
  "st_timelock (set_paused s b) = st_timelock s"
  "st_votes (set_paused s b) = st_votes s"
  "st_addresses (set_paused s b) = st_addresses s"
  "st_proposalBonds (set_paused s b) = st_proposalBonds s"
  by (simp_all add: set_paused_def)

lemma mustGetProposal_Inr [simp]:
  "mustGetProposal s pid = Inr p \<longleftrightarrow> js_get (gv_proposals (st_governor s)) pid = Some p"
  by (auto simp: mustGetProposal_def split: option.splits)

lemma put_timelock_same [simp]: "put_timelock s (st_timelock s) = s"
  by (simp add: put_timelock_def)

lemma only_bonds_frame:
  assumes "only_bonds s s'"
  shows "st_governor s' = st_governor s" "st_timelock s' = st_timelock s" "st_addresses s' = st_addresses s"
    "st_treasury s' = st_treasury s" "st_convictionVoting s' = st_convictionVoting s"
    "st_optimisticGovernor s' = st_optimisticGovernor s" "st_coSponsorship s' = st_coSponsorship s"
  by (subst assms [unfolded only_bonds_def], simp)+

lemma bonds_handler_only_bonds:
  "bonds_handler f s clock caller args = (r, s') \<Longrightarrow> only_bonds s s'"
  by (auto simp: bonds_handler_def intro: bond_ops_only_bonds
      split: if_splits list.splits native.splits)

lemma dispatch_only_bonds:
  "dispatchProposalBondsAction decode s clock p = (r, s') \<Longrightarrow> only_bonds s s'"
  by (auto simp: dispatchProposalBondsAction_def intro: bonds_handler_only_bonds
      split: if_splits list.splits option.splits sum.splits)

lemma createProposal_effect:
  assumes "createProposal s clock pr d dh mu ts fs cs chk = (Inr pid, s')"
  shows "pid = gv_proposalCount (st_governor s) + 1"
    and "gv_proposalCount (st_governor s') = pid"
    and "gv_queueTime (st_governor s') = gv_queueTime (st_governor s)"
    and "s' = s\<lparr>st_governor := st_governor s'\<rparr>"
    and "\<exists>p. gv_proposals (st_governor s') = js_set (gv_proposals (st_governor s)) pid p \<and>
      pr_id p = pid \<and> pr_proposer p = pr \<and> \<not> pr_queued p \<and> \<not> pr_executed p \<and> \<not> pr_cancelled p \<and>
      pr_opIds p = [] \<and> pr_hasVoted p = [] \<and>
      pr_startLedger p = clock_sequence clock + gs_votingDelay (gv_settings (st_governor s))"
  using assms by (auto simp: createProposal_unfold split: if_splits)

lemma cast_vote_fail: "cast_vote s clock caller v pid supv = (Inl e, s') \<Longrightarrow> s' = s"
  by (simp add: cast_vote_def Let_def split: if_splits sum.splits)

lemma cast_vote_ok:
  assumes "cast_vote s clock caller v pid supv = (Inr u, s')"
  shows "caller = v \<and> \<not> gs_isPaused (gv_settings (st_governor s)) \<and>
    (\<exists>p w. js_get (gv_proposals (st_governor s)) pid = Some p \<and>
      \<not> js_getd False (pr_hasVoted p) v \<and> \<not> pr_cancelled p \<and> \<not> pr_executed p \<and> \<not> pr_queued p \<and>
      pr_startLedger p \<le> clock_sequence clock \<and> clock_sequence clock \<le> pr_endLedger p \<and>
      get_past_votes (st_votes s) clock v (pr_startLedger p) = Inr w \<and>
      s' = put_proposal s pid
        ((count_vote p (case supv of [] \<Rightarrow> None | x # _ \<Rightarrow> Some x)
           (applyVoteType (gs_voteType (gv_settings (st_governor s))) w))
         \<lparr>pr_hasVoted := js_set (pr_hasVoted p) v True\<rparr>))"
proof -
  have hv: "pr_hasVoted (count_vote p x w) = pr_hasVoted p" for p x w
    by (simp add: count_vote_def)
  show ?thesis
    using assms unfolding cast_vote_def Let_def hv
    by (cases "mustGetProposal s pid")
      (auto simp: not_less split: if_splits sum.splits)
qed

lemma scheduleOperation_ok:
  assumes "scheduleOperation sha256 t clock target data f delay [] [] = (r, t')"
  shows "(r = Inl (MockContractError 100) \<and> t' = t) \<or>
    (\<exists>opId oper. r = Inr opId \<and> t' = t\<lparr>tl_operations := js_set (tl_operations t) opId oper\<rparr> \<and>
      op_readyAt oper = clock_timestamp clock + delay \<and> tl_minDelay t \<le> delay)"
proof (cases "delay < tl_minDelay t")
  case True
  then show ?thesis using assms by (simp add: scheduleOperation_def)
next
  case False
  then have r: "r = Inr (computeOpId sha256 target data f delay [] [])"
    and t': "t' = t\<lparr>tl_operations := js_set (tl_operations t) (computeOpId sha256 target data f delay [] [])
      \<lparr>op_target = target, op_fnName = f, op_data = data, op_readyAt = clock_timestamp clock + delay,
       op_expiresAt = clock_timestamp clock + delay + tl_executionWindow t, op_executed = False,
       op_cancelled = False, op_predecessors = None\<rparr>\<rparr>"
    using assms by (simp_all add: scheduleOperation_def Let_def)
  show ?thesis
    by (rule disjI2, intro exI conjI, rule r, rule t') (use False in simp_all)
qed

lemma gov_queue_fail: "gov_queue sha256 s clock pid = (Inl e, s') \<Longrightarrow> s' = s"
  using scheduleOperation_ok [of sha256 "st_timelock s" clock]
  by (fastforce simp: gov_queue_def Let_def split: if_splits sum.splits list.splits prod.splits)

lemma gov_queue_ok:
  assumes "gov_queue sha256 s clock pid = (Inr u, s')"
  shows "\<exists>p opId oper q.
    js_get (gv_proposals (st_governor s)) pid = Some p \<and>
    computeProposalState s clock p = Inr Succeeded \<and>
    computeQuorum s clock p = Inr q \<and> q \<le> pr_votesFor p + pr_votesAbstain p \<and>
    pr_votesAgainst p < pr_votesFor p \<and>
    op_readyAt oper = clock_timestamp clock + tl_minDelay (st_timelock s) \<and>
    s' = set_queueTime (put_proposal
      (put_timelock s ((st_timelock s)\<lparr>tl_operations := js_set (tl_operations (st_timelock s)) opId oper\<rparr>))
      pid (p\<lparr>pr_opIds := [opId], pr_queued := True\<rparr>)) pid (clock_sequence clock)"
proof (cases "mustGetProposal s pid")
  case (Inl e)
  then show ?thesis using assms by (simp add: gov_queue_def)
next
  case (Inr p)
  show ?thesis
    using assms Inr scheduleOperation_ok [of sha256 "st_timelock s" clock]
    by (fastforce simp: gov_queue_def Let_def split: if_splits sum.splits list.splits prod.splits)
qed

lemma executeOperation_ok:
  assumes "executeOperation t clock opId = (r, t')"
  shows "(\<exists>e. r = Inl e \<and> t' = t) \<or>
    (\<exists>oper. r = Inr () \<and> js_get (tl_operations t) opId = Some oper \<and> \<not> op_executed oper \<and>
      \<not> op_cancelled oper \<and> op_readyAt oper \<le> clock_timestamp clock \<and>
      clock_timestamp clock \<le> op_expiresAt oper \<and>
      t' = t\<lparr>tl_operations := js_set (tl_operations t) opId (oper\<lparr>op_executed := True\<rparr>)\<rparr>)"
  using assms by (auto simp: executeOperation_def split: option.splits if_splits)

lemma computeProposalState_Queued:
  "computeProposalState s clock p = Inr Queued \<longleftrightarrow>
     pr_queued p \<and> \<not> pr_executed p \<and> \<not> pr_cancelled p"
  by (auto simp: computeProposalState_def Let_def split: sum.splits)

lemma gov_execute_cases:
  assumes "gov_execute decode s clock pid = (r, s')"
  shows "(\<exists>e. r = Inl e \<and> s' = s) \<or>
    (\<exists>p opId rest oper s2.
      js_get (gv_proposals (st_governor s)) pid = Some p \<and>
      pr_queued p \<and> \<not> pr_executed p \<and> \<not> pr_cancelled p \<and> pr_opIds p = opId # rest \<and>
      js_get (tl_operations (st_timelock s)) opId = Some oper \<and> \<not> op_executed oper \<and> \<not> op_cancelled oper \<and>
      op_readyAt oper \<le> clock_timestamp clock \<and> clock_timestamp clock \<le> op_expiresAt oper \<and>
      dispatchProposalBondsAction decode (put_timelock s ((st_timelock s)\<lparr>tl_operations :=
        js_set (tl_operations (st_timelock s)) opId (oper\<lparr>op_executed := True\<rparr>)\<rparr>)) clock p =
        (if \<exists>e. r = Inl e then r else Inr (), s2) \<and>
      (if \<exists>e. r = Inl e then s' = s2
       else r = Inr () \<and> s' = put_proposal s2 pid (p\<lparr>pr_executed := True\<rparr>)))"
proof (cases "mustGetProposal s pid")
  case (Inl e)
  then show ?thesis using assms by (auto simp: gov_execute_def)
next
  case (Inr p)
  then have get: "js_get (gv_proposals (st_governor s)) pid = Some p" by simp
  show ?thesis
  proof (cases "computeProposalState s clock p = Inr Queued \<and> pr_opIds p \<noteq> []")
    case False
    then show ?thesis
      using assms Inr by (auto simp: gov_execute_def split: sum.splits if_splits list.splits)
  next
    case True
    then obtain opId rest where st: "computeProposalState s clock p = Inr Queued"
      and ids: "pr_opIds p = opId # rest"
      by (cases "pr_opIds p") auto
    have flags: "pr_queued p" "\<not> pr_executed p" "\<not> pr_cancelled p"
      using st by (simp_all add: computeProposalState_Queued)
    obtain r1 t1 where ex: "executeOperation (st_timelock s) clock opId = (r1, t1)"
      by (cases "executeOperation (st_timelock s) clock opId")
    note out = assms [unfolded gov_execute_def Inr sum.case st ids list.case ex prod.case]
    show ?thesis
    proof (cases r1)
      case (Inl e)
      then have "t1 = st_timelock s" using executeOperation_ok [OF ex] by simp
      then show ?thesis using out Inl flags by auto
    next
      case (Inr u)
      then obtain oper where op: "js_get (tl_operations (st_timelock s)) opId = Some oper"
        "\<not> op_executed oper" "\<not> op_cancelled oper" "op_readyAt oper \<le> clock_timestamp clock"
        "clock_timestamp clock \<le> op_expiresAt oper"
        "t1 = (st_timelock s)\<lparr>tl_operations :=
          js_set (tl_operations (st_timelock s)) opId (oper\<lparr>op_executed := True\<rparr>)\<rparr>"
        using executeOperation_ok [OF ex] by auto
      obtain r2 s2 where d: "dispatchProposalBondsAction decode (put_timelock s t1) clock p = (r2, s2)"
        by (cases "dispatchProposalBondsAction decode (put_timelock s t1) clock p")
      have "(\<exists>e. r2 = Inl e \<and> r = Inl e \<and> s' = s2) \<or>
          (r2 = Inr () \<and> r = Inr () \<and> s' = put_proposal s2 pid (p\<lparr>pr_executed := True\<rparr>))"
        using out Inr d flags by (cases r2) auto
      then show ?thesis using get flags ids op d by fastforce
    qed
  qed
qed

lemma gov_cancel_cases:
  assumes "gov_cancel s clock caller c pid = (r, s')"
  shows "(\<exists>e. r = Inl e \<and> s' = s) \<or>
    (\<exists>p st. r = Inr () \<and> js_get (gv_proposals (st_governor s)) pid = Some p \<and>
      computeProposalState s clock p = Inr st \<and>
      ((caller = pr_proposer p \<and> st = Pending) \<or>
       (caller = gs_guardian (gv_settings (st_governor s)) \<and> st = Active)) \<and>
      s' = put_proposal s pid (p\<lparr>pr_cancelled := True\<rparr>))"
  using assms by (auto simp: gov_cancel_def Let_def split: if_splits sum.splits)

lemma computeProposalState_voting:
  "computeProposalState s clock p = Inr st \<Longrightarrow> st = Pending \<or> st = Active \<Longrightarrow>
     \<not> pr_cancelled p \<and> \<not> pr_executed p \<and> \<not> pr_queued p"
  by (auto simp: computeProposalState_def Let_def split: if_splits sum.splits)

lemma gov_cancel_queued_cases:
  assumes "gov_cancel_queued s clock caller c pid = (r, s')"
  shows "(\<exists>e. r = Inl e \<and> s' = s) \<or>
    (\<exists>p qt t'. js_get (gv_proposals (st_governor s)) pid = Some p \<and> pr_queued p \<and> \<not> pr_cancelled p \<and>
      caller = c \<and> c = gs_guardian (gv_settings (st_governor s)) \<and>
      js_get (gv_queueTime (st_governor s)) pid = Some qt \<and>
      clock_sequence clock < qt + tl_minDelay (st_timelock s) div 5 \<and>
      cancel_operations (st_timelock s) (pr_opIds p) = (r, t') \<and>
      s' = put_timelock (put_proposal s pid (p\<lparr>pr_cancelled := True\<rparr>)) t')"
  using assms
  by (auto simp: gov_cancel_queued_def Let_def SECONDS_PER_LEDGER_def
      split: if_splits sum.splits option.splits prod.splits)

end
