(* ===== verification/GovernorRuns.thy ===== *)
theory GovernorRuns
  imports Governor
begin

section \<open>Runs of the governor and the timelock\<close>

text \<open>
  An invariant of all runs of the governor and the timelock, the unguarded \<^verbatim>\<open>schedule_with_deps\<close> of
  the timelock included, and the lifecycle theorems it gives: a proposal is executed only after
  its timelock delay and only if it was never vetoed, and an executed proposal can no longer be
  vetoed although \<^verbatim>\<open>cancel_queued\<close> does not test for it, because the veto window closes before the
  execution window opens, both unless its own operation was replaced through \<^verbatim>\<open>schedule_with_deps\<close>
  with a delay below the minimum; that such a replacement does defeat the delay and the veto;
  decisions are never undone; and every account votes at most once.
\<close>

subsection \<open>The invariant of proposals and their operations\<close>

text \<open>How an operation of the timelock may change during a governor call: it stays, and its time of
  readiness never falls below what scheduling it now would give.\<close>

definition timelock_grows :: "LedgerClock \<Rightarrow> TimelockState \<Rightarrow> TimelockState \<Rightarrow> bool" where
  "timelock_grows clock t t' \<longleftrightarrow>
     tl_minDelay t' = tl_minDelay t \<and> tl_dependencies t' = tl_dependencies t \<and>
     (\<forall>o1 oper. js_get (tl_operations t) o1 = Some oper \<longrightarrow>
        (\<exists>oper'. js_get (tl_operations t') o1 = Some oper' \<and>
          min (op_readyAt oper) (clock_timestamp clock + tl_minDelay t) \<le> op_readyAt oper'))"

lemma timelock_grows_refl [simp]: "timelock_grows clock t t"
  by (simp add: timelock_grows_def)

lemma timelock_grows_trans:
  assumes "timelock_grows clock t t'" "timelock_grows clock t' t''"
  shows "timelock_grows clock t t''"
  unfolding timelock_grows_def
proof (intro conjI allI impI)
  show "tl_minDelay t'' = tl_minDelay t" "tl_dependencies t'' = tl_dependencies t"
    using assms by (simp_all add: timelock_grows_def)
  fix o1 oper
  assume "js_get (tl_operations t) o1 = Some oper"
  then obtain oper' where 1: "js_get (tl_operations t') o1 = Some oper'"
    "min (op_readyAt oper) (clock_timestamp clock + tl_minDelay t) \<le> op_readyAt oper'"
    using assms(1) unfolding timelock_grows_def by blast
  then obtain oper'' where 2: "js_get (tl_operations t'') o1 = Some oper''"
    "min (op_readyAt oper') (clock_timestamp clock + tl_minDelay t') \<le> op_readyAt oper''"
    using assms(2) unfolding timelock_grows_def by blast
  have "tl_minDelay t' = tl_minDelay t" using assms(1) by (simp add: timelock_grows_def)
  then show "\<exists>oper''. js_get (tl_operations t'') o1 = Some oper'' \<and>
      min (op_readyAt oper) (clock_timestamp clock + tl_minDelay t) \<le> op_readyAt oper''"
    using 1 2 by (intro exI [of _ oper'']) linarith
qed

lemma timelock_grows_set:
  assumes "\<And>old. js_get (tl_operations t) opId = Some old \<Longrightarrow>
      min (op_readyAt old) (clock_timestamp clock + tl_minDelay t) \<le> op_readyAt oper"
  shows "timelock_grows clock t (t\<lparr>tl_operations := js_set (tl_operations t) opId oper\<rparr>)"
  using assms by (auto simp: timelock_grows_def)

lemma cancelOperation_grows: "cancelOperation t opId = (r, t') \<Longrightarrow> timelock_grows clock t t'"
  by (auto simp: cancelOperation_def intro!: timelock_grows_set split: option.splits if_splits)

lemma cancel_operations_grows: "cancel_operations t ids = (r, t') \<Longrightarrow> timelock_grows clock t t'"
proof (induction t ids arbitrary: r t' rule: cancel_operations.induct)
  case (1 t)
  then show ?case by simp
next
  case (2 t i ids)
  obtain r1 t1 where c: "cancelOperation t i = (r1, t1)" by (cases "cancelOperation t i")
  then have first: "timelock_grows clock t t1" by (rule cancelOperation_grows)
  show ?case
  proof (cases r1)
    case (Inl e)
    then show ?thesis using 2 c first by simp
  next
    case (Inr u)
    then have "cancel_operations t1 ids = (r, t')" using "2.prems" c by simp
    then have "timelock_grows clock t1 t'" using "2.IH" [OF c [symmetric]] Inr by blast
    then show ?thesis using first by (rule timelock_grows_trans [rotated])
  qed
qed

text \<open>
  What holds of every proposal. A queued one has a queue time in the past and exactly one
  operation, and it won its vote. Unless it is one of the exceptions \<open>X\<close>, its operation is ready no
  earlier than the minimal delay after the queue time, and if it was executed, that delay has
  passed and it was not cancelled.
\<close>

definition proposal_ok :: "int set \<Rightarrow> MockLedgerStore \<Rightarrow> LedgerClock \<Rightarrow> int \<Rightarrow> ProposalRecord \<Rightarrow> bool" where
  "proposal_ok X s clock pid p \<longleftrightarrow>
     pid \<le> gv_proposalCount (st_governor s) \<and>
     (if pr_queued p then
        \<exists>qt opId oper. js_get (gv_queueTime (st_governor s)) pid = Some qt \<and>
          qt \<le> clock_sequence clock \<and> pr_opIds p = [opId] \<and>
          js_get (tl_operations (st_timelock s)) opId = Some oper \<and>
          pr_endLedger p < qt \<and> pr_votesAgainst p < pr_votesFor p \<and>
          (pid \<notin> X \<longrightarrow> ck_genesisTimestamp clock + 5 * qt + tl_minDelay (st_timelock s) \<le> op_readyAt oper) \<and>
          (pid \<notin> X \<longrightarrow> pr_executed p \<longrightarrow>
             \<not> pr_cancelled p \<and> 5 * qt + tl_minDelay (st_timelock s) \<le> 5 * clock_sequence clock)
      else \<not> pr_executed p \<and> pr_opIds p = [])"

definition gov_inv :: "int set \<Rightarrow> MockLedgerStore \<times> LedgerClock \<Rightarrow> bool" where
  "gov_inv X w \<longleftrightarrow>
     (\<forall>pid p. js_get (gv_proposals (st_governor (fst w))) pid = Some p \<longrightarrow>
        proposal_ok X (fst w) (snd w) pid p)"

lemma gov_invD: "gov_inv X (s, clock) \<Longrightarrow> js_get (gv_proposals (st_governor s)) pid = Some p \<Longrightarrow>
    proposal_ok X s clock pid p"
  by (simp add: gov_inv_def)

lemma proposal_ok_mono: "proposal_ok X s clock pid p \<Longrightarrow> X \<subseteq> Y \<Longrightarrow> proposal_ok Y s clock pid p"
  by (cases "pr_queued p") (auto simp: proposal_ok_def)

lemma gov_inv_mono: "gov_inv X w \<Longrightarrow> X \<subseteq> Y \<Longrightarrow> gov_inv Y w"
  unfolding gov_inv_def using proposal_ok_mono by blast

lemma proposal_ok_transfer:
  assumes ok: "proposal_ok X s clock pid p"
    and grow: "timelock_grows clock (st_timelock s) (st_timelock s')"
    and count: "gv_proposalCount (st_governor s) \<le> gv_proposalCount (st_governor s')"
    and qt: "js_get (gv_queueTime (st_governor s')) pid = js_get (gv_queueTime (st_governor s)) pid"
  shows "proposal_ok X s' clock pid p"
proof (cases "pr_queued p")
  case False
  then show ?thesis using ok count by (simp add: proposal_ok_def)
next
  case True
  then obtain qt opId oper where q: "js_get (gv_queueTime (st_governor s)) pid = Some qt"
      "qt \<le> clock_sequence clock" "pr_opIds p = [opId]"
      "js_get (tl_operations (st_timelock s)) opId = Some oper"
      "pid \<notin> X \<longrightarrow> ck_genesisTimestamp clock + 5 * qt + tl_minDelay (st_timelock s) \<le> op_readyAt oper"
      "pr_endLedger p < qt" "pr_votesAgainst p < pr_votesFor p"
      "pid \<notin> X \<longrightarrow> pr_executed p \<longrightarrow>
         \<not> pr_cancelled p \<and> 5 * qt + tl_minDelay (st_timelock s) \<le> 5 * clock_sequence clock"
    using ok by (auto simp: proposal_ok_def)
  have min: "tl_minDelay (st_timelock s') = tl_minDelay (st_timelock s)"
    using grow by (simp add: timelock_grows_def)
  obtain oper' where o': "js_get (tl_operations (st_timelock s')) opId = Some oper'"
    "min (op_readyAt oper) (clock_timestamp clock + tl_minDelay (st_timelock s)) \<le> op_readyAt oper'"
    using grow q(4) unfolding timelock_grows_def by blast
  then have "pid \<notin> X \<longrightarrow> ck_genesisTimestamp clock + 5 * qt + tl_minDelay (st_timelock s') \<le> op_readyAt oper'"
    using q(2,5) min by (auto simp: clock_timestamp_eq clock_sequence_def)
  moreover have "pid \<le> gv_proposalCount (st_governor s')" using ok count by (simp add: proposal_ok_def)
  ultimately show ?thesis
    unfolding proposal_ok_def using True q o'(1) min assms(4) by (intro conjI) simp_all
qed

text \<open>The shape of every governor call: the timelock grows, and a proposal that is not as before
  satisfies the invariant anew.\<close>

lemma gov_inv_update:
  assumes "gov_inv X (s, clock)"
    and "timelock_grows clock (st_timelock s) (st_timelock s')"
    and "gv_proposalCount (st_governor s) \<le> gv_proposalCount (st_governor s')"
    and "\<And>pid p. js_get (gv_proposals (st_governor s')) pid = Some p \<Longrightarrow>
       js_get (gv_proposals (st_governor s)) pid = Some p \<and>
         js_get (gv_queueTime (st_governor s')) pid = js_get (gv_queueTime (st_governor s)) pid \<or>
       proposal_ok X s' clock pid p"
  shows "gov_inv X (s', clock)"
  unfolding gov_inv_def
proof (intro allI impI)
  fix pid p
  assume "js_get (gv_proposals (st_governor (fst (s', clock)))) pid = Some p"
  from assms(4) [OF this [simplified]] show "proposal_ok X (fst (s', clock)) (snd (s', clock)) pid p"
    using proposal_ok_transfer [OF gov_invD [OF assms(1)] assms(2,3)] by auto
qed

lemma gov_inv_tick:
  assumes "gov_inv X (s, c)" and "clock_sequence c \<le> clock_sequence c'"
    and "ck_genesisTimestamp c' = ck_genesisTimestamp c"
  shows "gov_inv X (s, c')"
  using assms unfolding gov_inv_def proposal_ok_def by (fastforce split: if_splits)

lemma createProposal_inv:
  assumes "createProposal s clock pr d dh mu ts fs cs chk = (r, s')" and "gov_inv X (s, clock)"
  shows "gov_inv X (s', clock)"
proof (cases r)
  case (Inl e)
  then show ?thesis using createProposal_fail_unchanged assms by blast
next
  case (Inr pid)
  note eff = createProposal_effect [OF assms(1) [unfolded Inr]]
  have "st_timelock s' = st_timelock s" by (subst eff(4)) simp
  then show ?thesis
    using eff(1-3) eff(5)
    by (intro gov_inv_update [OF assms(2)]) (auto simp: proposal_ok_def split: if_splits)
qed

lemma count_vote_frame [simp]:
  "pr_queued (count_vote p x w) = pr_queued p" "pr_executed (count_vote p x w) = pr_executed p"
  "pr_cancelled (count_vote p x w) = pr_cancelled p" "pr_opIds (count_vote p x w) = pr_opIds p"
  "pr_hasVoted (count_vote p x w) = pr_hasVoted p" "pr_id (count_vote p x w) = pr_id p"
  "pr_proposer (count_vote p x w) = pr_proposer p" "pr_targets (count_vote p x w) = pr_targets p"
  "pr_fnNames (count_vote p x w) = pr_fnNames p" "pr_calldatas (count_vote p x w) = pr_calldatas p"
  "pr_startLedger (count_vote p x w) = pr_startLedger p" "pr_endLedger (count_vote p x w) = pr_endLedger p"
  by (simp_all add: count_vote_def)

lemma cast_vote_inv:
  assumes "cast_vote s clock caller v pid supv = (r, s')" and "gov_inv X (s, clock)"
  shows "gov_inv X (s', clock)"
proof (cases r)
  case (Inl e)
  then show ?thesis using cast_vote_fail assms by blast
next
  case (Inr u)
  obtain p q where p: "js_get (gv_proposals (st_governor s)) pid = Some p" "\<not> pr_queued p"
    and s': "s' = put_proposal s pid q" and q: "\<not> pr_queued q" "pr_executed q = pr_executed p" "pr_opIds q = pr_opIds p"
    using cast_vote_ok [OF assms(1) [unfolded Inr]] by auto
  have "proposal_ok X s clock pid p" using assms(2) p(1) by (rule gov_invD)
  then show ?thesis
    using p q s' by (intro gov_inv_update [OF assms(2)]) (auto simp: proposal_ok_def split: if_splits)
qed

lemma gov_queue_inv:
  assumes "gov_queue sha256 s clock pid = (r, s')" and "gov_inv X (s, clock)"
  shows "gov_inv X (s', clock)"
proof (cases r)
  case (Inl e)
  then show ?thesis using gov_queue_fail assms by blast
next
  case (Inr u)
  obtain p opId oper where p: "js_get (gv_proposals (st_governor s)) pid = Some p"
      "computeProposalState s clock p = Inr Succeeded" "pr_votesAgainst p < pr_votesFor p"
    and ready: "op_readyAt oper = clock_timestamp clock + tl_minDelay (st_timelock s)"
    and s': "s' = set_queueTime (put_proposal
      (put_timelock s ((st_timelock s)\<lparr>tl_operations := js_set (tl_operations (st_timelock s)) opId oper\<rparr>))
      pid (p\<lparr>pr_opIds := [opId], pr_queued := True\<rparr>)) pid (clock_sequence clock)"
    using gov_queue_ok [OF assms(1) [unfolded Inr]] by blast
  have fresh: "\<not> pr_executed p" "pr_endLedger p < clock_sequence clock"
    using p(2) by (auto simp: computeProposalState_def Let_def split: if_splits sum.splits)
  have "proposal_ok X s clock pid p" using assms(2) p(1) by (rule gov_invD)
  then have new: "proposal_ok X s' clock pid (p\<lparr>pr_opIds := [opId], pr_queued := True\<rparr>)"
    using ready fresh p(3) s' by (simp add: proposal_ok_def clock_timestamp_eq clock_sequence_def)
  show ?thesis
  proof (rule gov_inv_update [OF assms(2)])
    show "timelock_grows clock (st_timelock s) (st_timelock s')"
      using s' ready by (auto intro!: timelock_grows_set)
  qed (use s' new in \<open>auto split: if_splits\<close>)
qed

lemma gov_execute_inv:
  assumes "gov_execute decode s clock pid = (r, s')" and "gov_inv X (s, clock)"
  shows "gov_inv X (s', clock)"
  using gov_execute_cases [OF assms(1)]
proof
  assume "\<exists>e. r = Inl e \<and> s' = s"
  then show ?thesis using assms(2) by auto
next
  assume "\<exists>p opId rest oper s2.
      js_get (gv_proposals (st_governor s)) pid = Some p \<and>
      pr_queued p \<and> \<not> pr_executed p \<and> \<not> pr_cancelled p \<and> pr_opIds p = opId # rest \<and>
      js_get (tl_operations (st_timelock s)) opId = Some oper \<and> \<not> op_executed oper \<and> \<not> op_cancelled oper \<and>
      op_readyAt oper \<le> clock_timestamp clock \<and> clock_timestamp clock \<le> op_expiresAt oper \<and>
      dispatchProposalBondsAction decode (put_timelock s ((st_timelock s)\<lparr>tl_operations :=
        js_set (tl_operations (st_timelock s)) opId (oper\<lparr>op_executed := True\<rparr>)\<rparr>)) clock p =
        (if \<exists>e. r = Inl e then r else Inr (), s2) \<and>
      (if \<exists>e. r = Inl e then s' = s2
       else r = Inr () \<and> s' = put_proposal s2 pid (p\<lparr>pr_executed := True\<rparr>))"
  then obtain p opId rest oper s2 where p: "js_get (gv_proposals (st_governor s)) pid = Some p"
      "pr_queued p" "\<not> pr_cancelled p" "pr_opIds p = opId # rest"
      "js_get (tl_operations (st_timelock s)) opId = Some oper" "op_readyAt oper \<le> clock_timestamp clock"
    and d: "only_bonds (put_timelock s ((st_timelock s)\<lparr>tl_operations :=
        js_set (tl_operations (st_timelock s)) opId (oper\<lparr>op_executed := True\<rparr>)\<rparr>)) s2"
    and s': "s' = s2 \<or> s' = put_proposal s2 pid (p\<lparr>pr_executed := True\<rparr>)"
    using dispatch_only_bonds by (metis (no_types, lifting))
  note frame = only_bonds_frame [OF d, simplified]
  have grow: "timelock_grows clock (st_timelock s) (st_timelock s2)"
    using p(5) by (auto simp: frame intro!: timelock_grows_set)
  have "proposal_ok X s clock pid p" using assms(2) p(1) by (rule gov_invD)
  then have ok2: "proposal_ok X s2 clock pid p"
    by (rule proposal_ok_transfer [OF _ grow]) (simp_all add: frame)
  then have new: "proposal_ok X s2 clock pid (p\<lparr>pr_executed := True\<rparr>)"
    using p by (auto simp: proposal_ok_def frame clock_timestamp_eq clock_sequence_def)
  have inv2: "gov_inv X (s2, clock)"
    by (rule gov_inv_update [OF assms(2) grow]) (simp_all add: frame)
  have "gov_inv X (put_proposal s2 pid (p\<lparr>pr_executed := True\<rparr>), clock)"
    using new by (intro gov_inv_update [OF inv2]) (auto simp: proposal_ok_def split: if_splits)
  then show ?thesis using s' inv2 by auto
qed

lemma gov_cancel_inv:
  assumes "gov_cancel s clock caller c pid = (r, s')" and "gov_inv X (s, clock)"
  shows "gov_inv X (s', clock)"
proof (cases "s' = s")
  case True
  then show ?thesis using assms(2) by simp
next
  case False
  then obtain p st where p: "js_get (gv_proposals (st_governor s)) pid = Some p"
    "computeProposalState s clock p = Inr st" and st: "st = Pending \<or> st = Active"
    and s': "s' = put_proposal s pid (p\<lparr>pr_cancelled := True\<rparr>)"
    using gov_cancel_cases [OF assms(1)] by blast
  have "\<not> pr_queued p" using computeProposalState_voting [OF p(2) st] by simp
  moreover have "proposal_ok X s clock pid p" using assms(2) p(1) by (rule gov_invD)
  ultimately show ?thesis
    using s' by (intro gov_inv_update [OF assms(2)]) (auto simp: proposal_ok_def split: if_splits)
qed

text \<open>The veto: within its window a proposal cannot have been executed.\<close>

lemma veto_window_open:
  assumes "proposal_ok X s clock pid p" "pid \<notin> X" "pr_queued p" "js_get (gv_queueTime (st_governor s)) pid = Some qt"
    and "clock_sequence clock < qt + tl_minDelay (st_timelock s) div 5"
  shows "\<not> pr_executed p"
proof
  assume "pr_executed p"
  then have "5 * qt + tl_minDelay (st_timelock s) \<le> 5 * clock_sequence clock"
    using assms(1-4) by (auto simp: proposal_ok_def)
  then show False using assms(5) by linarith
qed

lemma gov_cancel_queued_inv:
  assumes "gov_cancel_queued s clock caller c pid = (r, s')" and "gov_inv X (s, clock)"
  shows "gov_inv X (s', clock)"
proof (cases "s' = s")
  case True
  then show ?thesis using assms(2) by simp
next
  case False
  then obtain p qt t' where p: "js_get (gv_proposals (st_governor s)) pid = Some p" "pr_queued p"
      "js_get (gv_queueTime (st_governor s)) pid = Some qt"
      "clock_sequence clock < qt + tl_minDelay (st_timelock s) div 5"
    and ops: "cancel_operations (st_timelock s) (pr_opIds p) = (r, t')"
    and s': "s' = put_timelock (put_proposal s pid (p\<lparr>pr_cancelled := True\<rparr>)) t'"
    using gov_cancel_queued_cases [OF assms(1)] by blast
  have grow: "timelock_grows clock (st_timelock s) t'" using ops by (rule cancel_operations_grows)
  have ok: "proposal_ok X s clock pid p" using assms(2) p(1) by (rule gov_invD)
  then have "pid \<notin> X \<longrightarrow> \<not> pr_executed p" using p veto_window_open by blast
  moreover have "proposal_ok X s' clock pid p"
    by (rule proposal_ok_transfer [OF ok]) (simp_all add: s' grow)
  ultimately have "proposal_ok X s' clock pid (p\<lparr>pr_cancelled := True\<rparr>)"
    using p(2) by (auto simp: proposal_ok_def)
  then show ?thesis
    using s' grow by (intro gov_inv_update [OF assms(2)]) (auto split: if_splits)
qed

subsection \<open>Runs\<close>

text \<open>
  A step of the simulation as seen by the governor and the timelock: one of the governor's
  entries, whatever its outcome; the one entry of the timelock that writes and that a signed
  transaction reaches, \<^verbatim>\<open>schedule_with_deps\<close>; the clock advances; or another component acts, which
  leaves the governor and the timelock alone (that these are all the steps of the server is shown
  in theory \<open>MockServer\<close>).
\<close>

inductive gov_step ::
  "(bytes \<Rightarrow> bytes) \<Rightarrow> (bytes \<Rightarrow> js_error + native list) \<Rightarrow>
     MockLedgerStore \<times> LedgerClock \<Rightarrow> MockLedgerStore \<times> LedgerClock \<Rightarrow> bool"
  for sha256 decode where
  create: "createProposal s c pr d dh mu ts fs cs chk = (r, s') \<Longrightarrow> gov_step sha256 decode (s, c) (s', c)"
| vote: "cast_vote s c caller v pid supv = (ro, s') \<Longrightarrow> gov_step sha256 decode (s, c) (s', c)"
| queue: "gov_queue sha256 s c pid = (ro, s') \<Longrightarrow> gov_step sha256 decode (s, c) (s', c)"
| execute: "gov_execute decode s c pid = (ro, s') \<Longrightarrow> gov_step sha256 decode (s, c) (s', c)"
| cancel: "gov_cancel s c caller cc pid = (ro, s') \<Longrightarrow> gov_step sha256 decode (s, c) (s', c)"
| veto: "gov_cancel_queued s c caller cc pid = (ro, s') \<Longrightarrow> gov_step sha256 decode (s, c) (s', c)"
| pause: "gov_pause s caller = (ro, s') \<Longrightarrow> gov_step sha256 decode (s, c) (s', c)"
| unpause: "gov_unpause s caller = (ro, s') \<Longrightarrow> gov_step sha256 decode (s, c) (s', c)"
| reschedule: "schedule_with_deps sha256 (st_timelock s) c tg d f dl ps = (rs, t') \<Longrightarrow>
    gov_step sha256 decode (s, c) (put_timelock s t', c)"
| tick: "clock_advance c n = (ro, c') \<Longrightarrow> gov_step sha256 decode (s, c) (s, c')"
| other: "st_governor s' = st_governor s \<Longrightarrow> st_timelock s' = st_timelock s \<Longrightarrow>
    gov_step sha256 decode (s, c) (s', c)"

inductive_cases gov_step_elim: "gov_step sha256 decode w w'"

text \<open>The dangerous case of \<^verbatim>\<open>schedule_with_deps\<close>: an operation that is already scheduled is replaced
  under its own identifier, with a delay below the minimal one.\<close>

definition replaces ::
  "(bytes \<Rightarrow> bytes) \<Rightarrow> string \<Rightarrow> MockLedgerStore \<times> LedgerClock \<Rightarrow> MockLedgerStore \<times> LedgerClock \<Rightarrow> bool" where
  "replaces sha256 opId w w' \<longleftrightarrow>
     (\<exists>tg d f dl ps t'. dl < tl_minDelay (st_timelock (fst w)) \<and>
        schedule_with_deps sha256 (st_timelock (fst w)) (snd w) tg d f dl ps = (Inr opId, t') \<and>
        js_get (tl_operations (st_timelock (fst w))) opId \<noteq> None \<and> w' = (put_timelock (fst w) t', snd w))"

lemma schedule_with_deps_cases:
  assumes "schedule_with_deps sha256 t c tg d f dl ps = (r, t')"
  shows "(\<exists>e. r = Inl e) \<and> t' = t \<or>
    (\<exists>opId oper preds. r = Inr opId \<and> op_readyAt oper = clock_timestamp c + dl \<and>
       t' = t\<lparr>tl_operations := js_set (tl_operations t) opId oper,
              tl_dependencies := js_set (tl_dependencies t) opId preds\<rparr>)"
proof (cases "list_all (predecessor_done t) (map to_hex ps)")
  case True
  let ?oper = "\<lparr>op_target = tg, op_fnName = f, op_data = d, op_readyAt = clock_timestamp c + dl,
    op_expiresAt = clock_timestamp c + dl + tl_executionWindow t, op_executed = False, op_cancelled = False,
    op_predecessors = Some (map to_hex ps)\<rparr>"
  show ?thesis
    using assms True
    by (intro disjI2 exI [of _ "computeOpId sha256 tg d f dl [] []"] exI [of _ ?oper] exI [of _ "map to_hex ps"])
      (auto simp: schedule_with_deps_def Let_def)
qed (use assms in \<open>auto simp: schedule_with_deps_def Let_def\<close>)

lemma replaces_step: "replaces sha256 opId w w' \<Longrightarrow> gov_step sha256 decode w w'"
  by (cases w) (auto simp: replaces_def intro: gov_step.reschedule)

lemma replaces_recorded: "replaces sha256 opId w w' \<Longrightarrow> tl_dependencies (st_timelock (fst w')) \<noteq> []"
  by (auto simp: replaces_def js_set_def dest!: schedule_with_deps_cases split: if_splits)

lemma gov_inv_same_parts:
  assumes "gov_inv X (s, c)" "gv_proposals (st_governor s') = gv_proposals (st_governor s)"
    "gv_queueTime (st_governor s') = gv_queueTime (st_governor s)"
    "gv_proposalCount (st_governor s') = gv_proposalCount (st_governor s)" "st_timelock s' = st_timelock s"
  shows "gov_inv X (s', c)"
  by (rule gov_inv_update [OF assms(1)]) (simp_all add: assms(2-5))

lemma pause_inv:
  "gov_pause s caller = (r, s') \<Longrightarrow> gov_inv X (s, c) \<Longrightarrow> gov_inv X (s', c)"
  "gov_unpause s caller = (r, s') \<Longrightarrow> gov_inv X (s, c) \<Longrightarrow> gov_inv X (s', c)"
  by (auto simp: gov_pause_def gov_unpause_def intro: gov_inv_same_parts split: if_splits)

lemma clock_advance_any:
  "clock_advance c n = (r, c') \<Longrightarrow>
     clock_sequence c \<le> clock_sequence c' \<and> ck_genesisTimestamp c' = ck_genesisTimestamp c"
  by (auto simp: clock_advance_def clock_sequence_def split: if_splits)

text \<open>The proposals that wait for an operation.\<close>

definition waiting :: "string \<Rightarrow> MockLedgerStore \<Rightarrow> int set" where
  "waiting opId s =
     {pid. \<exists>p. js_get (gv_proposals (st_governor s)) pid = Some p \<and> pr_queued p \<and> pr_opIds p = [opId]}"

lemma reschedule_inv:
  assumes "schedule_with_deps sha256 (st_timelock s) c tg d f dl ps = (r, t')" "gov_inv X (s, c)"
    and "\<And>opId. r = Inr opId \<Longrightarrow> dl < tl_minDelay (st_timelock s) \<Longrightarrow>
      js_get (tl_operations (st_timelock s)) opId \<noteq> None \<Longrightarrow> waiting opId s \<subseteq> X"
  shows "gov_inv X (put_timelock s t', c)"
  unfolding gov_inv_def
proof (intro allI impI)
  fix pid p
  let ?w = "(put_timelock s t', c)"
  assume "js_get (gv_proposals (st_governor (fst ?w))) pid = Some p"
  then have p: "js_get (gv_proposals (st_governor s)) pid = Some p" by simp
  note ok = gov_invD [OF assms(2) p]
  have hit: "pid \<in> X" if "pr_queued p" "pr_opIds p = [opId]" "r = Inr opId" "dl < tl_minDelay (st_timelock s)"
      "js_get (tl_operations (st_timelock s)) opId \<noteq> None" for opId
    using assms(3) [of opId] that p by (auto simp: waiting_def)
  from schedule_with_deps_cases [OF assms(1)] show "proposal_ok X (fst ?w) (snd ?w) pid p"
  proof (elim disjE exE conjE)
    assume "t' = st_timelock s"
    then show ?thesis using ok by simp
  next
    fix opId oper preds
    assume r: "r = Inr opId" and oper: "op_readyAt oper = clock_timestamp c + dl"
      and t': "t' = (st_timelock s)\<lparr>tl_operations := js_set (tl_operations (st_timelock s)) opId oper,
        tl_dependencies := js_set (tl_dependencies (st_timelock s)) opId preds\<rparr>"
    show ?thesis
    proof (cases "pr_queued p")
      case True
      then obtain qt o1 old where q: "js_get (gv_queueTime (st_governor s)) pid = Some qt" "qt \<le> clock_sequence c"
          "pr_opIds p = [o1]" "js_get (tl_operations (st_timelock s)) o1 = Some old" "pr_endLedger p < qt"
          "pr_votesAgainst p < pr_votesFor p" "pid \<le> gv_proposalCount (st_governor s)"
          "pid \<notin> X \<longrightarrow> ck_genesisTimestamp c + 5 * qt + tl_minDelay (st_timelock s) \<le> op_readyAt old"
          "pid \<notin> X \<longrightarrow> pr_executed p \<longrightarrow>
             \<not> pr_cancelled p \<and> 5 * qt + tl_minDelay (st_timelock s) \<le> 5 * clock_sequence c"
        using ok by (auto simp: proposal_ok_def)
      have "pid \<notin> X \<longrightarrow> o1 = opId \<longrightarrow> clock_timestamp c + tl_minDelay (st_timelock s) \<le> op_readyAt oper"
        using hit [OF True, of opId] q(3,4) r oper by (cases "dl < tl_minDelay (st_timelock s)") auto
      then have late: "pid \<notin> X \<longrightarrow> o1 = opId \<longrightarrow>
          ck_genesisTimestamp c + 5 * qt + tl_minDelay (st_timelock s) \<le> op_readyAt oper"
        using q(2) by (auto simp: clock_timestamp_eq clock_sequence_def)
      show ?thesis
        unfolding proposal_ok_def using True q late
        by (intro conjI if_P [THEN iffD2] exI [of _ qt] exI [of _ o1] exI [of _ "if o1 = opId then oper else old"])
          (simp_all add: t')
    qed (use ok in \<open>simp add: proposal_ok_def\<close>)
  qed
qed

lemma gov_step_inv:
  assumes "gov_step sha256 decode w w'" "gov_inv X w" "\<And>opId. replaces sha256 opId w w' \<Longrightarrow> waiting opId (fst w) \<subseteq> X"
  shows "gov_inv X w'"
  using assms
proof (induction rule: gov_step.induct)
  case (tick c n ro c' s)
  then show ?case using clock_advance_any gov_inv_tick by blast
next
  case (reschedule s c tg d f dl ps rs t')
  have "waiting opId s \<subseteq> X" if "rs = Inr opId" "dl < tl_minDelay (st_timelock s)"
      "js_get (tl_operations (st_timelock s)) opId \<noteq> None" for opId
  proof -
    have "replaces sha256 opId (s, c) (put_timelock s t', c)"
      unfolding replaces_def fst_conv snd_conv using that reschedule(1) by blast
    from reschedule(3) [OF this] show ?thesis by simp
  qed
  with reschedule(1,2) show ?case by (rule reschedule_inv)
next
  case (other s' s c)
  then show ?case by (auto intro: gov_inv_same_parts)
qed (erule (1) createProposal_inv cast_vote_inv gov_queue_inv gov_execute_inv gov_cancel_inv
    gov_cancel_queued_inv pause_inv)+

lemma replaced_inv:
  assumes "replaces sha256 opId w w'" "gov_inv X w" "waiting opId (fst w) \<subseteq> X"
  shows "gov_inv X w'"
proof -
  obtain tg d f dl ps t' where c: "schedule_with_deps sha256 (st_timelock (fst w)) (snd w) tg d f dl ps = (Inr opId, t')"
    and w': "w' = (put_timelock (fst w) t', snd w)"
    using assms(1) unfolding replaces_def by blast
  have "gov_inv X (put_timelock (fst w) t', snd w)"
    by (rule reschedule_inv [OF c]) (use assms(2,3) in simp_all)
  then show ?thesis by (simp add: w')
qed

text \<open>What holds of every proposal without exception.\<close>

abbreviation gov_wf :: "MockLedgerStore \<times> LedgerClock \<Rightarrow> bool" where
  "gov_wf \<equiv> gov_inv UNIV"

interpretation governed: stepwise_invariant "gov_step sha256 decode" gov_wf for sha256 decode
  by unfold_locales (erule (1) gov_step_inv, simp)

subsection \<open>How a proposal evolves\<close>

definition evolves :: "LedgerClock \<Rightarrow> ProposalRecord \<Rightarrow> ProposalRecord \<Rightarrow> bool" where
  "evolves c p p' \<longleftrightarrow>
     pr_proposer p' = pr_proposer p \<and> pr_targets p' = pr_targets p \<and> pr_fnNames p' = pr_fnNames p \<and>
     pr_calldatas p' = pr_calldatas p \<and>
     pr_startLedger p' = pr_startLedger p \<and> pr_endLedger p' = pr_endLedger p \<and>
     (pr_queued p \<longrightarrow> pr_queued p' \<and> pr_opIds p' = pr_opIds p) \<and> (pr_executed p \<longrightarrow> pr_executed p') \<and>
     (pr_cancelled p \<longrightarrow> pr_cancelled p') \<and>
     (\<forall>v. js_getd False (pr_hasVoted p) v \<longrightarrow> js_getd False (pr_hasVoted p') v) \<and>
     pr_votesFor p \<le> pr_votesFor p' \<and> pr_votesAgainst p \<le> pr_votesAgainst p' \<and>
     pr_votesAbstain p \<le> pr_votesAbstain p' \<and>
     (pr_cancelled p \<or> pr_queued p \<or> pr_endLedger p < clock_sequence c \<longrightarrow>
        pr_votesFor p' = pr_votesFor p \<and> pr_votesAgainst p' = pr_votesAgainst p \<and>
        pr_votesAbstain p' = pr_votesAbstain p \<and> pr_hasVoted p' = pr_hasVoted p)"

lemma evolves_refl [simp]: "evolves c p p"
  by (simp add: evolves_def)

lemma evolves_flags [simp]:
  "evolves c p (p\<lparr>pr_executed := True\<rparr>)" "evolves c p (p\<lparr>pr_cancelled := True\<rparr>)"
  "\<not> pr_queued p \<Longrightarrow> evolves c p (p\<lparr>pr_opIds := ids, pr_queued := True\<rparr>)"
  by (simp_all add: evolves_def)

lemma evolves_vote:
  assumes "\<not> pr_cancelled p" "\<not> pr_queued p" "clock_sequence c \<le> pr_endLedger p"
  shows "evolves c p ((count_vote p x w)\<lparr>pr_hasVoted := js_set (pr_hasVoted p) v True\<rparr>)"
  using assms by (auto simp: evolves_def count_vote_def)

definition kept :: "MockLedgerStore \<Rightarrow> LedgerClock \<Rightarrow> MockLedgerStore \<Rightarrow> bool" where
  "kept s c s' \<longleftrightarrow>
     (\<forall>pid p. js_get (gv_proposals (st_governor s)) pid = Some p \<longrightarrow>
        (\<exists>p'. js_get (gv_proposals (st_governor s')) pid = Some p' \<and> evolves c p p') \<and>
        (pr_queued p \<longrightarrow> js_get (gv_queueTime (st_governor s')) pid = js_get (gv_queueTime (st_governor s)) pid))"

lemma kept_same:
  "gv_proposals (st_governor s') = gv_proposals (st_governor s) \<Longrightarrow>
   gv_queueTime (st_governor s') = gv_queueTime (st_governor s) \<Longrightarrow> kept s c s'"
  by (auto simp: kept_def)

lemma kept_put:
  "js_get (gv_proposals (st_governor s)) pid = Some p \<Longrightarrow> evolves c p p' \<Longrightarrow>
   gv_proposals (st_governor s') = js_set (gv_proposals (st_governor s)) pid p' \<Longrightarrow>
   gv_queueTime (st_governor s') = gv_queueTime (st_governor s) \<or>
     \<not> pr_queued p \<and> (\<exists>l. gv_queueTime (st_governor s') = js_set (gv_queueTime (st_governor s)) pid l) \<Longrightarrow>
   kept s c s'"
  by (auto simp: kept_def)

lemma gov_execute_kept:
  assumes "gov_execute decode s c pid = (r, s')"
  shows "kept s c s'"
proof (cases "s' = s")
  case False
  then obtain p opId oper s2 where p: "js_get (gv_proposals (st_governor s)) pid = Some p"
    and d: "only_bonds (put_timelock s ((st_timelock s)\<lparr>tl_operations :=
        js_set (tl_operations (st_timelock s)) opId (oper\<lparr>op_executed := True\<rparr>)\<rparr>)) s2"
    and s': "s' = s2 \<or> s' = put_proposal s2 pid (p\<lparr>pr_executed := True\<rparr>)"
    using gov_execute_cases [OF assms] dispatch_only_bonds by (metis (no_types, lifting))
  have "st_governor s2 = st_governor s" using only_bonds_frame(1) [OF d] by simp
  then show ?thesis using s' p by (auto simp: kept_def)
qed (simp add: kept_same)

lemma createProposal_kept:
  assumes "createProposal s c pr d dh mu ts fs cs chk = (r, s')" "gov_wf (s, c)"
  shows "kept s c s'"
proof (cases r)
  case (Inl e)
  then show ?thesis using createProposal_fail_unchanged assms(1) kept_same by blast
next
  case (Inr pid)
  note eff = createProposal_effect [OF assms(1) [unfolded Inr]]
  have "js_get (gv_proposals (st_governor s)) pid = None"
    using gov_invD [OF assms(2), of pid] eff(1) by (fastforce simp: proposal_ok_def)
  then show ?thesis using eff(3,5) by (auto simp: kept_def)
qed

lemma cast_vote_kept:
  assumes "cast_vote s c caller v pid supv = (r, s')"
  shows "kept s c s'"
proof (cases r)
  case (Inl e)
  then show ?thesis using cast_vote_fail assms kept_same by blast
next
  case (Inr u)
  then show ?thesis
    using cast_vote_ok [OF assms [unfolded Inr]] by (auto intro!: kept_put evolves_vote)
qed

lemma gov_queue_kept:
  assumes "gov_queue sha256 s c pid = (r, s')"
  shows "kept s c s'"
proof (cases r)
  case (Inl e)
  then show ?thesis using gov_queue_fail assms kept_same by blast
next
  case (Inr u)
  obtain p opId oper where p: "js_get (gv_proposals (st_governor s)) pid = Some p" "computeProposalState s c p = Inr Succeeded"
    and s': "s' = set_queueTime (put_proposal
      (put_timelock s ((st_timelock s)\<lparr>tl_operations := js_set (tl_operations (st_timelock s)) opId oper\<rparr>))
      pid (p\<lparr>pr_opIds := [opId], pr_queued := True\<rparr>)) pid (clock_sequence c)"
    using gov_queue_ok [OF assms [unfolded Inr]] by blast
  have "\<not> pr_queued p" using p(2) by (auto simp: computeProposalState_def Let_def split: if_splits sum.splits)
  then show ?thesis using p(1) s' by (intro kept_put [OF p(1)]) auto
qed

lemma gov_cancel_kept:
  "gov_cancel s c caller cc pid = (r, s') \<Longrightarrow> kept s c s'"
  "gov_cancel_queued s c caller cc pid = (r, s') \<Longrightarrow> kept s c s'"
  by (auto dest!: gov_cancel_cases gov_cancel_queued_cases simp: kept_def)

lemma gov_step_kept: "gov_step sha256 decode w w' \<Longrightarrow> gov_wf w \<Longrightarrow> kept (fst w) (snd w) (fst w')"
proof (induction rule: gov_step.induct)
  case (pause s caller ro s' c)
  then show ?case by (auto simp: gov_pause_def intro: kept_same split: if_splits)
next
  case (unpause s caller ro s' c)
  then show ?case by (auto simp: gov_unpause_def intro: kept_same split: if_splits)
qed (auto intro: createProposal_kept cast_vote_kept gov_queue_kept gov_execute_kept gov_cancel_kept kept_same)

text \<open>Facts about proposals that stay true along a run.\<close>

definition good_step ::
  "(bytes \<Rightarrow> bytes) \<Rightarrow> (bytes \<Rightarrow> js_error + native list) \<Rightarrow>
     MockLedgerStore \<times> LedgerClock \<Rightarrow> MockLedgerStore \<times> LedgerClock \<Rightarrow> bool" where
  "good_step sha256 decode w w' \<longleftrightarrow> gov_step sha256 decode w w' \<and> gov_wf w"

lemma good_run:
  assumes "(gov_step sha256 decode)\<^sup>*\<^sup>* w w'" "gov_wf w"
  shows "(good_step sha256 decode)\<^sup>*\<^sup>* w w'"
  using assms
proof (induction rule: converse_rtranclp_induct)
  case (step w w1)
  then have "good_step sha256 decode w w1" "gov_wf w1"
    using governed.step_inv by (auto simp: good_step_def)
  then show ?case using step.IH by (meson converse_rtranclp_into_rtranclp)
qed simp

datatype decision = WasQueued int | WasExecuted int | WasCancelled int | HasVoted int address

fun decided :: "decision \<Rightarrow> MockLedgerStore \<times> LedgerClock \<Rightarrow> bool" where
  "decided (WasQueued pid) w = (\<exists>p. js_get (gv_proposals (st_governor (fst w))) pid = Some p \<and> pr_queued p)"
| "decided (WasExecuted pid) w = (\<exists>p. js_get (gv_proposals (st_governor (fst w))) pid = Some p \<and> pr_executed p)"
| "decided (WasCancelled pid) w = (\<exists>p. js_get (gv_proposals (st_governor (fst w))) pid = Some p \<and> pr_cancelled p)"
| "decided (HasVoted pid v) w = (\<exists>p. js_get (gv_proposals (st_governor (fst w))) pid = Some p \<and>
     js_getd False (pr_hasVoted p) v)"

interpretation deciding: one_way_flag "good_step sha256 decode" decided for sha256 decode
proof unfold_locales
  fix w w' k
  assume "good_step sha256 decode w w'" "decided k w"
  then show "decided k w'"
    using gov_step_kept [of sha256 decode w w']
    by (cases k) (fastforce simp: good_step_def kept_def evolves_def)+
qed

lemma decided_run:
  "(gov_step sha256 decode)\<^sup>*\<^sup>* w w' \<Longrightarrow> gov_wf w \<Longrightarrow> decided k w \<Longrightarrow> decided k w'"
  using good_run deciding.flagged.reach_inv by blast

subsection \<open>Runs from a booted simulation\<close>

definition booted_run ::
  "(bytes \<Rightarrow> bytes) \<Rightarrow> (bytes \<Rightarrow> js_error + native list) \<Rightarrow> MockLedgerStore \<times> LedgerClock \<Rightarrow> bool" where
  "booted_run sha256 decode w \<longleftrightarrow>
     (\<exists>guardian contractAddress clock config.
        (gov_step sha256 decode)\<^sup>*\<^sup>*
          (buildStore guardian (boot_addresses contractAddress) clock config, clock) w)"

lemma booted_inv: "booted_run sha256 decode w \<Longrightarrow> gov_wf w"
  unfolding booted_run_def
  using governed.reach_inv by (fastforce simp: gov_inv_def buildStore_def Let_def)

lemma booted_extend: "booted_run sha256 decode w \<Longrightarrow> (gov_step sha256 decode)\<^sup>*\<^sup>* w w' \<Longrightarrow> booted_run sha256 decode w'"
  unfolding booted_run_def by (meson rtranclp_trans)

text \<open>
  The same runs with their history: \<open>R\<close> holds the operations that were replaced with a delay below
  the minimal one, each with the ledger in which it happened. A proposal has been overtaken when
  this happened to its operation after it was queued.
\<close>

inductive gov_run ::
  "(bytes \<Rightarrow> bytes) \<Rightarrow> (bytes \<Rightarrow> js_error + native list) \<Rightarrow> (string \<times> int) set \<Rightarrow>
     MockLedgerStore \<times> LedgerClock \<Rightarrow> bool" for sha256 decode where
  booted: "gov_run sha256 decode {} (buildStore guardian (boot_addresses contractAddress) clock config, clock)"
| step: "gov_run sha256 decode R w \<Longrightarrow> gov_step sha256 decode w w' \<Longrightarrow>
    \<not> (\<exists>opId. replaces sha256 opId w w') \<Longrightarrow> gov_run sha256 decode R w'"
| replacing: "gov_run sha256 decode R w \<Longrightarrow> replaces sha256 opId w w' \<Longrightarrow>
    gov_run sha256 decode (insert (opId, clock_sequence (snd w)) R) w'"

definition overtaken :: "(string \<times> int) set \<Rightarrow> MockLedgerStore \<Rightarrow> int \<Rightarrow> bool" where
  "overtaken R s pid \<longleftrightarrow>
     (\<exists>p qt opId l. js_get (gv_proposals (st_governor s)) pid = Some p \<and>
        js_get (gv_queueTime (st_governor s)) pid = Some qt \<and> pr_queued p \<and> pr_opIds p = [opId] \<and>
        (opId, l) \<in> R \<and> qt \<le> l)"

lemma gov_run_booted: "gov_run sha256 decode R w \<Longrightarrow> booted_run sha256 decode w"
proof (induction rule: gov_run.induct)
  case (booted guardian contractAddress clock config)
  then show ?case unfolding booted_run_def by blast
next
  case (step R w w')
  then show ?case by (blast intro: booted_extend)
next
  case (replacing R w opId w')
  then show ?case by (blast intro: booted_extend replaces_step)
qed

lemma booted_gov_run:
  assumes "booted_run sha256 decode w"
  shows "\<exists>R. gov_run sha256 decode R w"
proof -
  have "\<exists>R. gov_run sha256 decode R w"
    if "(gov_step sha256 decode)\<^sup>*\<^sup>* (buildStore g (boot_addresses a) c config, c) w" for g a c config
    using that
  proof (induction rule: rtranclp_induct)
    case base
    show ?case by (rule exI, rule gov_run.booted)
  next
    case (step w w')
    then show ?case by (metis gov_run.step gov_run.replacing)
  qed
  then show ?thesis using assms by (auto simp: booted_run_def)
qed

lemma overtaken_step:
  assumes "overtaken R (fst w) pid" "kept (fst w) (snd w) (fst w')" "R \<subseteq> R'"
  shows "overtaken R' (fst w') pid"
proof -
  obtain p qt opId l where p: "js_get (gv_proposals (st_governor (fst w))) pid = Some p"
    "js_get (gv_queueTime (st_governor (fst w))) pid = Some qt" "pr_queued p" "pr_opIds p = [opId]"
    "(opId, l) \<in> R" "qt \<le> l"
    using assms(1) by (auto simp: overtaken_def)
  then obtain p' where "js_get (gv_proposals (st_governor (fst w'))) pid = Some p'" "evolves (snd w) p p'"
    "js_get (gv_queueTime (st_governor (fst w'))) pid = Some qt"
    using assms(2) unfolding kept_def by metis
  then show ?thesis using p assms(3) by (auto simp: overtaken_def evolves_def)
qed

lemma waiting_overtaken:
  assumes "pid \<in> waiting opId (fst w)" "gov_wf w"
  shows "overtaken (insert (opId, clock_sequence (snd w)) R) (fst w) pid"
proof -
  obtain p where p: "js_get (gv_proposals (st_governor (fst w))) pid = Some p" "pr_queued p" "pr_opIds p = [opId]"
    using assms(1) by (auto simp: waiting_def)
  obtain qt where "js_get (gv_queueTime (st_governor (fst w))) pid = Some qt" "qt \<le> clock_sequence (snd w)"
    using gov_invD [of UNIV "fst w" "snd w" pid p] assms(2) p(1,2) by (auto simp: proposal_ok_def)
  then show ?thesis using p by (auto simp: overtaken_def)
qed

text \<open>Only overtaken proposals are exceptions.\<close>

lemma gov_run_inv: "gov_run sha256 decode R w \<Longrightarrow> gov_inv {pid. overtaken R (fst w) pid} w"
proof (induction rule: gov_run.induct)
  case (booted guardian contractAddress clock config)
  show ?case by (simp add: gov_inv_def buildStore_def Let_def)
next
  case (step R w w')
  have wf: "gov_wf w" using booted_inv gov_run_booted step(1) by blast
  have "gov_inv {pid. overtaken R (fst w) pid} w'" using gov_step_inv [OF step(2,4)] step(3) by blast
  then show ?case
    by (rule gov_inv_mono) (use overtaken_step [OF _ gov_step_kept [OF step(2) wf] subset_refl] in blast)
next
  case (replacing R w opId w')
  let ?R = "insert (opId, clock_sequence (snd w)) R"
  have wf: "gov_wf w" using booted_inv gov_run_booted replacing(1) by blast
  have "overtaken ?R (fst w) pid" if "overtaken R (fst w) pid" for pid
    using that by (auto simp: overtaken_def)
  then have "gov_inv {pid. overtaken ?R (fst w) pid} w" by (intro gov_inv_mono [OF replacing(3)]) blast
  then have "gov_inv {pid. overtaken ?R (fst w) pid} w'"
    by (rule replaced_inv [OF replacing(2)]) (use waiting_overtaken [OF _ wf] in blast)
  then show ?case
    by (rule gov_inv_mono)
      (use overtaken_step [OF _ gov_step_kept [OF replaces_step [OF replacing(2), of decode] wf] subset_refl] in blast)
qed

text \<open>The example continues: \<open>bob\<close> proposes, votes, and the proposal is queued and executed.\<close>

definition demo_hash :: "bytes \<Rightarrow> bytes" where "demo_hash bs = bs"

definition demo_decode :: "bytes \<Rightarrow> js_error + native list" where "demo_decode bs = Inr [NBytes bs]"

definition demo_proposed :: MockLedgerStore where
  "demo_proposed =
     snd (createProposal demo_store (demo_clock 1000) ''bob'' ''d'' [171, 205] '''' [''T''] [''f''] [[7]] True)"

definition demo_voted :: MockLedgerStore where
  "demo_voted = snd (cast_vote demo_proposed (demo_clock 1002) ''bob'' ''bob'' 1 [''For''])"

definition demo_queued :: MockLedgerStore where
  "demo_queued = snd (gov_queue demo_hash demo_voted (demo_clock 1012) 1)"

definition demo_executed :: MockLedgerStore where
  "demo_executed = snd (gov_execute demo_decode demo_queued (demo_clock 1022) 1)"

definition demo_vetoed :: MockLedgerStore where
  "demo_vetoed = snd (gov_cancel_queued demo_queued (demo_clock 1015) ''guardian'' ''guardian'' 1)"

lemmas demo_defs = demo_proposed_def demo_voted_def demo_queued_def demo_executed_def demo_vetoed_def

lemma demo_tick: "a \<le> b \<Longrightarrow> gov_step sha256 decode (s, demo_clock a) (s, demo_clock b)"
  by (rule gov_step.tick [of _ "b - a" "Inr ()"]) (simp add: clock_advance_def demo_clock_def)

lemma demo_steps:
  "gov_step demo_hash demo_decode (demo_store, demo_clock 1000) (demo_proposed, demo_clock 1000)"
  "gov_step demo_hash demo_decode (demo_proposed, demo_clock 1002) (demo_voted, demo_clock 1002)"
  "gov_step demo_hash demo_decode (demo_voted, demo_clock 1012) (demo_queued, demo_clock 1012)"
  "gov_step demo_hash demo_decode (demo_queued, demo_clock 1022) (demo_executed, demo_clock 1022)"
  "gov_step demo_hash demo_decode (demo_queued, demo_clock 1015) (demo_vetoed, demo_clock 1015)"
  unfolding demo_defs
  by (rule gov_step.intros(1) gov_step.intros(2) gov_step.intros(3) gov_step.intros(4) gov_step.intros(6),
      rule prod.collapse [symmetric])+

lemma two_steps:
  "gov_step sha256 decode a b \<Longrightarrow> gov_step sha256 decode b c \<Longrightarrow> (gov_step sha256 decode)\<^sup>*\<^sup>* a c"
  by (meson r_into_rtranclp rtranclp.rtrancl_into_rtrancl)

text \<open>No step of the example replaces an operation: the timelock records no dependencies.\<close>

lemma plain_step:
  "gov_run sha256 decode R w \<Longrightarrow> gov_step sha256 decode w w' \<Longrightarrow> tl_dependencies (st_timelock (fst w')) = [] \<Longrightarrow>
   gov_run sha256 decode R w'"
  using replaces_recorded by (blast intro: gov_run.step)

lemma demo_no_deps:
  "tl_dependencies (st_timelock demo_proposed) = []" "tl_dependencies (st_timelock demo_voted) = []"
  "tl_dependencies (st_timelock demo_queued) = []" "tl_dependencies (st_timelock demo_executed) = []"
  "tl_dependencies (st_timelock demo_vetoed) = []"
  by code_simp+

lemma demo_history:
  "gov_run demo_hash demo_decode {} (demo_queued, demo_clock 1012)"
  "gov_run demo_hash demo_decode {} (demo_executed, demo_clock 1022)"
  "gov_run demo_hash demo_decode {} (demo_queued, demo_clock 1015)"
proof -
  have 0: "gov_run demo_hash demo_decode {} (demo_store, demo_clock 1000)"
    unfolding demo_store_def by (rule gov_run.booted)
  have 1: "gov_run demo_hash demo_decode {} (demo_proposed, demo_clock 1002)"
    by (rule plain_step [OF plain_step [OF 0 demo_steps(1)] demo_tick]) (simp_all add: demo_no_deps)
  have 2: "gov_run demo_hash demo_decode {} (demo_voted, demo_clock 1012)"
    by (rule plain_step [OF plain_step [OF 1 demo_steps(2)] demo_tick]) (simp_all add: demo_no_deps)
  show 3: "gov_run demo_hash demo_decode {} (demo_queued, demo_clock 1012)"
    by (rule plain_step [OF 2 demo_steps(3)]) (simp add: demo_no_deps)
  show "gov_run demo_hash demo_decode {} (demo_queued, demo_clock 1015)"
    by (rule plain_step [OF 3 demo_tick]) (simp_all add: demo_no_deps)
  show "gov_run demo_hash demo_decode {} (demo_executed, demo_clock 1022)"
    by (rule plain_step [OF plain_step [OF 3 demo_tick] demo_steps(4)]) (simp_all add: demo_no_deps)
qed

lemma not_overtaken [simp]: "\<not> overtaken {} s pid"
  by (simp add: overtaken_def)

subsection \<open>Properties\<close>

text \<open>C2: A proposal that is executed in any reachable state was queued after its voting had ended and
  with more votes for than against it; and the timelock's minimal delay has passed since then and
  it was not cancelled, unless its own operation was replaced after the queueing by
  \<^verbatim>\<open>schedule_with_deps\<close> with a delay below the minimal one. The runs consist of all calls, this one
  included.\<close>

theorem executed_only_after_delay:
  assumes "gov_run sha256 decode R (s, clock)"
    and "js_get (gv_proposals (st_governor s)) pid = Some p" and "pr_executed p"
  shows "\<exists>qt. js_get (gv_queueTime (st_governor s)) pid = Some qt \<and> pr_endLedger p < qt \<and>
     pr_votesAgainst p < pr_votesFor p \<and>
     (ck_genesisTimestamp clock + 5 * qt + tl_minDelay (st_timelock s) \<le> clock_timestamp clock \<and> \<not> pr_cancelled p \<or>
      overtaken R s pid)"
  using gov_invD [OF gov_run_inv [OF assms(1)] assms(2)] assms(3)
  by (auto simp: proposal_ok_def clock_timestamp_eq clock_sequence_def split: if_splits)

theorem executed_only_after_delay_witness:
  "\<exists>qt. js_get (gv_queueTime (st_governor demo_executed)) 1 = Some qt \<and>
     5 * qt + 50 \<le> 5 * 1022"
proof -
  have "map_option pr_executed (js_get (gv_proposals (st_governor demo_executed)) 1) = Some True"
    by code_simp
  then obtain p where p: "js_get (gv_proposals (st_governor demo_executed)) 1 = Some p" "pr_executed p"
    by auto
  have "tl_minDelay (st_timelock demo_executed) = 50" by code_simp
  then show ?thesis
    using executed_only_after_delay [OF demo_history(2) p]
    by (auto simp: clock_timestamp_eq demo_clock_def)
qed

text \<open>C1: The guardian's veto and the execution exclude each other in time. In every reachable state a
  veto of an executed proposal fails and changes nothing, although \<^verbatim>\<open>cancel_queued\<close> never looks at the
  executed flag, unless the operation of the proposal was replaced after its queueing by
  \<^verbatim>\<open>schedule_with_deps\<close> with a delay below the minimal one; and an execution of a cancelled proposal
  fails and changes nothing, without exception. The runs consist of all calls,
  \<^verbatim>\<open>schedule_with_deps\<close> included.\<close>

theorem veto_and_execution_exclude:
  assumes "gov_run sha256 decode R (s, clock)"
    and "js_get (gv_proposals (st_governor s)) pid = Some p"
  shows "(pr_executed p \<longrightarrow> (\<exists>e. gov_cancel_queued s clock caller c pid = (Inl e, s)) \<or> overtaken R s pid) \<and>
     (pr_cancelled p \<longrightarrow> (\<exists>e. gov_execute decode s clock pid = (Inl e, s)))"
proof (intro conjI impI)
  note ok = gov_invD [OF gov_run_inv [OF assms(1)] assms(2)]
  assume ex: "pr_executed p"
  have q: "pr_queued p" using ok ex by (auto simp: proposal_ok_def split: if_splits)
  have "\<exists>e. gov_cancel_queued s clock caller c pid = (Inl e, s)" if "\<not> overtaken R s pid"
    using gov_cancel_queued_cases [of s clock caller c pid] assms(2) ex that veto_window_open [OF ok _ q]
    by (metis mem_Collect_eq fst_conv option.inject surj_pair)
  then show "(\<exists>e. gov_cancel_queued s clock caller c pid = (Inl e, s)) \<or> overtaken R s pid" by blast
next
  assume "pr_cancelled p"
  then show "\<exists>e. gov_execute decode s clock pid = (Inl e, s)"
    using gov_execute_cases [of decode s clock pid] assms(2) by (metis option.inject surj_pair)
qed

theorem veto_and_execution_exclude_witness:
  "\<exists>e. gov_cancel_queued demo_executed (demo_clock 1022) ''guardian'' ''guardian'' 1 = (Inl e, demo_executed)"
proof -
  have "map_option pr_executed (js_get (gv_proposals (st_governor demo_executed)) 1) = Some True"
    by code_simp
  then obtain p where "js_get (gv_proposals (st_governor demo_executed)) 1 = Some p" "pr_executed p"
    by auto
  then show ?thesis
    using veto_and_execution_exclude [OF demo_history(2)] by (metis not_overtaken)
qed



text \<open>The last digit of a multiple of ten is a zero.\<close>

lemma dec_int_ten: "0 < n \<Longrightarrow> dec_int (10 * n) = dec_int n @ dec_int 0"
proof -
  assume n: "0 < n"
  then have "nat (10 * n) = 10 * nat n" by simp
  moreover have "dec_nat (10 * nat n) = dec_nat (nat n) @ [digit_char 0]"
    using n by (subst dec_nat.simps) simp
  moreover have "dec_nat 0 = [digit_char 0]" by (subst dec_nat.simps) simp
  ultimately show ?thesis using n by (simp add: dec_int_def)
qed

lemma gov_queue_schedules:
  assumes "gov_queue sha256 s clock pid = (Inr u, s1)" "js_get (gv_proposals (st_governor s)) pid = Some p"
    and "pr_targets p = tg # ts" "pr_calldatas p = d # ds" "pr_fnNames p = f # fs"
  shows "\<exists>tml. scheduleOperation sha256 (st_timelock s) clock tg d f (tl_minDelay (st_timelock s)) [] [] =
      (Inr (computeOpId sha256 tg d f (tl_minDelay (st_timelock s)) [] []), tml) \<and>
    tl_minDelay tml = tl_minDelay (st_timelock s) \<and> tl_executionWindow tml = tl_executionWindow (st_timelock s) \<and>
    s1 = set_queueTime (put_proposal (put_timelock s tml) pid
      (p\<lparr>pr_opIds := [computeOpId sha256 tg d f (tl_minDelay (st_timelock s)) [] []], pr_queued := True\<rparr>))
      pid (clock_sequence clock) \<and> \<not> pr_executed p \<and> \<not> pr_cancelled p"
proof -
  have st: "computeProposalState s clock p = Inr Succeeded" using gov_queue_ok [OF assms(1)] assms(2) by auto
  then have "\<not> pr_executed p \<and> \<not> pr_cancelled p"
    by (auto simp: computeProposalState_def Let_def split: if_splits sum.splits)
  then show ?thesis
    using assms st
    by (auto simp: gov_queue_def mustGetProposal_def scheduleOperation_def Let_def split: if_splits sum.splits)
qed



text \<open>C4: One account, one ballot: after a vote has been accepted, every further vote of the same
  account on the same proposal fails and changes nothing, whatever happened in between.\<close>

theorem no_second_ballot:
  assumes "booted_run sha256 decode (s, clock)"
    and "cast_vote s clock voter voter pid support = (Inr (), s1)"
    and "(gov_step sha256 decode)\<^sup>*\<^sup>* (s1, clock) (s', clock')"
  shows "\<exists>e. cast_vote s' clock' caller voter pid support' = (Inl e, s')"
proof -
  have "gov_step sha256 decode (s, clock) (s1, clock)" using assms(2) by (rule gov_step.vote)
  then have inv1: "gov_wf (s1, clock)" using governed.step_inv booted_inv [OF assms(1)] by blast
  have "decided (HasVoted pid voter) (s1, clock)"
    using cast_vote_ok [OF assms(2)] by auto
  then have "decided (HasVoted pid voter) (s', clock')"
    using decided_run [OF assms(3) inv1] by blast
  then obtain p where p: "js_get (gv_proposals (st_governor s')) pid = Some p"
    "js_getd False (pr_hasVoted p) voter" by auto
  obtain r t where out: "cast_vote s' clock' caller voter pid support' = (r, t)"
    by (cases "cast_vote s' clock' caller voter pid support'")
  show ?thesis
  proof (cases r)
    case (Inl e)
    then show ?thesis using out cast_vote_fail by blast
  next
    case (Inr u)
    then show ?thesis using cast_vote_ok [OF out [unfolded Inr]] p by auto
  qed
qed

theorem no_second_ballot_witness:
  "\<exists>e. cast_vote demo_voted (demo_clock 1003) ''bob'' ''bob'' 1 [''Against''] = (Inl e, demo_voted)"
proof -
  have "(gov_step demo_hash demo_decode)\<^sup>*\<^sup>* (demo_store, demo_clock 1000) (demo_proposed, demo_clock 1002)"
    by (rule two_steps [OF demo_steps(1) demo_tick]) simp
  then have run: "booted_run demo_hash demo_decode (demo_proposed, demo_clock 1002)"
    unfolding booted_run_def demo_store_def by blast
  have "fst (cast_vote demo_proposed (demo_clock 1002) ''bob'' ''bob'' 1 [''For'']) = Inr ()" by code_simp
  then have "cast_vote demo_proposed (demo_clock 1002) ''bob'' ''bob'' 1 [''For''] = (Inr (), demo_voted)"
    unfolding demo_voted_def by (metis prod.collapse)
  then show ?thesis
    by (rule no_second_ballot [OF run]) (rule r_into_rtranclp, rule demo_tick, simp)
qed

text \<open>What an accepted vote does: the caller is the voter, the proposal is open, the weight is the
  voter's power at the start ledger (its integer square root under quadratic voting), exactly
  the tally of the chosen side grows by that weight, the voter is recorded, and no other
  proposal changes.\<close>

theorem cast_vote_counts:
  assumes "cast_vote s clock caller voter pid (side # rest) = (Inr (), s')"
  shows "\<exists>p w p'. js_get (gv_proposals (st_governor s)) pid = Some p \<and>
     js_get (gv_proposals (st_governor s')) pid = Some p' \<and> caller = voter \<and>
     get_past_votes (st_votes s) clock voter (pr_startLedger p) = Inr w \<and>
     pr_startLedger p \<le> clock_sequence clock \<and> clock_sequence clock \<le> pr_endLedger p \<and>
     (let weight = max 0 (applyVoteType (gs_voteType (gv_settings (st_governor s))) w) in
      pr_votesFor p' = pr_votesFor p + (if side = ''For'' then weight else 0) \<and>
      pr_votesAgainst p' = pr_votesAgainst p + (if side = ''Against'' then weight else 0) \<and>
      pr_votesAbstain p' = pr_votesAbstain p + (if side = ''Abstain'' then weight else 0)) \<and>
     \<not> js_getd False (pr_hasVoted p) voter \<and> js_getd False (pr_hasVoted p') voter \<and>
     (\<forall>other. other \<noteq> pid \<longrightarrow> js_get (gv_proposals (st_governor s')) other =
        js_get (gv_proposals (st_governor s)) other)"
proof -
  obtain p w where p: "js_get (gv_proposals (st_governor s)) pid = Some p" "caller = voter"
      "get_past_votes (st_votes s) clock voter (pr_startLedger p) = Inr w"
      "pr_startLedger p \<le> clock_sequence clock" "clock_sequence clock \<le> pr_endLedger p"
      "\<not> js_getd False (pr_hasVoted p) voter"
    and s': "s' = put_proposal s pid
        ((count_vote p (Some side) (applyVoteType (gs_voteType (gv_settings (st_governor s))) w))
         \<lparr>pr_hasVoted := js_set (pr_hasVoted p) voter True\<rparr>)"
    using cast_vote_ok [OF assms] by auto
  let ?weight = "applyVoteType (gs_voteType (gv_settings (st_governor s))) w"
  let ?p' = "(count_vote p (Some side) ?weight)\<lparr>pr_hasVoted := js_set (pr_hasVoted p) voter True\<rparr>"
  have "pr_votesFor ?p' = pr_votesFor p + (if side = ''For'' then max 0 ?weight else 0)"
    "pr_votesAgainst ?p' = pr_votesAgainst p + (if side = ''Against'' then max 0 ?weight else 0)"
    "pr_votesAbstain ?p' = pr_votesAbstain p + (if side = ''Abstain'' then max 0 ?weight else 0)"
    by (simp_all add: count_vote_def)
  then show ?thesis
    using p s' by (intro exI [of _ p] exI [of _ w] exI [of _ ?p']) (simp add: Let_def)
qed

theorem cast_vote_counts_witness:
  "map_option pr_votesFor (js_get (gv_proposals (st_governor demo_voted)) 1) = Some 500"
proof -
  have "fst (cast_vote demo_proposed (demo_clock 1002) ''bob'' ''bob'' 1 [''For'']) = Inr ()" by code_simp
  then have "cast_vote demo_proposed (demo_clock 1002) ''bob'' ''bob'' 1 [''For''] = (Inr (), demo_voted)"
    unfolding demo_voted_def by (metis prod.collapse)
  from cast_vote_counts [OF this]
  obtain p w p' where p: "js_get (gv_proposals (st_governor demo_proposed)) 1 = Some p"
      "js_get (gv_proposals (st_governor demo_voted)) 1 = Some p'"
      "get_past_votes (st_votes demo_proposed) (demo_clock 1002) ''bob'' (pr_startLedger p) = Inr w"
      "pr_votesFor p' = pr_votesFor p +
        max 0 (applyVoteType (gs_voteType (gv_settings (st_governor demo_proposed))) w)"
    by (auto simp: Let_def)
  have "map_option (\<lambda>p. (pr_startLedger p, pr_votesFor p)) (js_get (gv_proposals (st_governor demo_proposed)) 1)
      = Some (1001, 0)" by code_simp
  then have "pr_startLedger p = 1001" "pr_votesFor p = 0" using p(1) by simp_all
  moreover have "get_past_votes (st_votes demo_proposed) (demo_clock 1002) ''bob'' 1001 = Inr 500"
    "gs_voteType (gv_settings (st_governor demo_proposed)) = Simple" by code_simp+
  ultimately show ?thesis using p by (simp add: applyVoteType_def)
qed

text \<open>Queueing requires that the proposal has succeeded: it is not cancelled, executed or queued
  already, its voting is over, the quorum is met, it has a majority, and the grace period has
  not expired; it then is queued at the current ledger with one operation that becomes ready
  after the minimal delay. A failed attempt changes nothing.\<close>

theorem queue_requires_success:
  assumes "gov_queue sha256 s clock pid = (r, s')"
  shows "(r \<noteq> Inr () \<longrightarrow> s' = s) \<and>
     (r = Inr () \<longrightarrow>
        (\<exists>p q p' opId oper. js_get (gv_proposals (st_governor s)) pid = Some p \<and>
           \<not> pr_cancelled p \<and> \<not> pr_executed p \<and> \<not> pr_queued p \<and>
           pr_endLedger p < clock_sequence clock \<and>
           clock_sequence clock \<le> pr_endLedger p + gs_proposalGracePeriod (gv_settings (st_governor s)) \<and>
           computeQuorum s clock p = Inr q \<and> q \<le> pr_votesFor p + pr_votesAbstain p \<and>
           pr_votesAgainst p < pr_votesFor p \<and>
           js_get (gv_proposals (st_governor s')) pid = Some p' \<and> pr_queued p' \<and> pr_opIds p' = [opId] \<and>
           js_get (gv_queueTime (st_governor s')) pid = Some (clock_sequence clock) \<and>
           js_get (tl_operations (st_timelock s')) opId = Some oper \<and>
           op_readyAt oper = clock_timestamp clock + tl_minDelay (st_timelock s)))"
proof (intro conjI impI)
  assume "r \<noteq> Inr ()"
  then show "s' = s" using gov_queue_fail assms by (cases r) auto
next
  assume "r = Inr ()"
  then obtain p opId oper q where p: "js_get (gv_proposals (st_governor s)) pid = Some p"
      "computeProposalState s clock p = Inr Succeeded" "computeQuorum s clock p = Inr q"
      "q \<le> pr_votesFor p + pr_votesAbstain p" "pr_votesAgainst p < pr_votesFor p"
      "op_readyAt oper = clock_timestamp clock + tl_minDelay (st_timelock s)"
    and s': "s' = set_queueTime (put_proposal
      (put_timelock s ((st_timelock s)\<lparr>tl_operations := js_set (tl_operations (st_timelock s)) opId oper\<rparr>))
      pid (p\<lparr>pr_opIds := [opId], pr_queued := True\<rparr>)) pid (clock_sequence clock)"
    using gov_queue_ok assms by blast
  have "\<not> pr_cancelled p \<and> \<not> pr_executed p \<and> \<not> pr_queued p \<and> pr_endLedger p < clock_sequence clock \<and>
      clock_sequence clock \<le> pr_endLedger p + gs_proposalGracePeriod (gv_settings (st_governor s))"
    using p(2) by (auto simp: computeProposalState_def Let_def split: if_splits sum.splits)
  then show "\<exists>p q p' opId oper. js_get (gv_proposals (st_governor s)) pid = Some p \<and>
           \<not> pr_cancelled p \<and> \<not> pr_executed p \<and> \<not> pr_queued p \<and>
           pr_endLedger p < clock_sequence clock \<and>
           clock_sequence clock \<le> pr_endLedger p + gs_proposalGracePeriod (gv_settings (st_governor s)) \<and>
           computeQuorum s clock p = Inr q \<and> q \<le> pr_votesFor p + pr_votesAbstain p \<and>
           pr_votesAgainst p < pr_votesFor p \<and>
           js_get (gv_proposals (st_governor s')) pid = Some p' \<and> pr_queued p' \<and> pr_opIds p' = [opId] \<and>
           js_get (gv_queueTime (st_governor s')) pid = Some (clock_sequence clock) \<and>
           js_get (tl_operations (st_timelock s')) opId = Some oper \<and>
           op_readyAt oper = clock_timestamp clock + tl_minDelay (st_timelock s)"
    using p s'
    by (intro exI [of _ p] exI [of _ q] exI [of _ "p\<lparr>pr_opIds := [opId], pr_queued := True\<rparr>"]
        exI [of _ opId] exI [of _ oper]) simp
qed

theorem queue_requires_success_witness:
  "js_get (gv_queueTime (st_governor demo_queued)) 1 = Some 1012"
proof -
  have "fst (gov_queue demo_hash demo_voted (demo_clock 1012) 1) = Inr ()" by code_simp
  then have "gov_queue demo_hash demo_voted (demo_clock 1012) 1 = (Inr (), demo_queued)"
    unfolding demo_queued_def by (metis prod.collapse)
  from queue_requires_success [OF this] show ?thesis
    by (auto simp: clock_sequence_def demo_clock_def)
qed

lemma past_votes_now:
  assumes "tv_delegate state clock v v e = (Inr (), state')" "js_get (tv_delegates state) v = Some old" "old \<noteq> e"
  shows "get_past_votes state' clock e (clock_sequence clock) =
     Inr (get_votes state e + js_getd 0 (tv_balances state) v)"
  using tv_delegate_cases [OF assms(1)] assms(2,3)
  by (auto simp: get_past_votes_def applyDelegation_def Let_def js_has_iff js_getd_def checkpointAt_def
      get_votes_def js_get_pushCheckpoint)

text \<open>The snapshot does not protect the start ledger itself. A holder who has delegated to himself
  can vote in the very ledger in which voting starts, then delegate his balance to another
  account in that same ledger, which votes with it again: both votes read the power at the start
  ledger, and the second reading already contains the moved balance.\<close>

theorem same_ledger_double_count:
  assumes "js_get (gv_proposals (st_governor s)) pid = Some p" and "pr_startLedger p = clock_sequence clock"
    and "gs_voteType (gv_settings (st_governor s)) \<noteq> Quadratic"
    and "cast_vote s clock v v pid [''For''] = (Inr (), s1)"
    and "js_get (tv_delegates (st_votes s)) v = Some v" and "v \<noteq> e"
    and "tv_delegate (st_votes s1) clock v v e = (Inr (), votes2)"
    and "cast_vote (s1\<lparr>st_votes := votes2\<rparr>) clock e e pid [''For''] = (Inr (), s3)"
  shows "\<exists>p3 w. js_get (gv_proposals (st_governor s3)) pid = Some p3 \<and>
     get_past_votes (st_votes s) clock v (pr_startLedger p) = Inr w \<and>
     pr_votesFor p3 = pr_votesFor p + max 0 w +
       max 0 (get_votes (st_votes s) e + js_getd 0 (tv_balances (st_votes s)) v)"
proof -
  obtain w where w: "get_past_votes (st_votes s) clock v (pr_startLedger p) = Inr w"
    and s1: "s1 = put_proposal s pid
        ((count_vote p (Some ''For'') w)\<lparr>pr_hasVoted := js_set (pr_hasVoted p) v True\<rparr>)"
    using cast_vote_ok [OF assms(4)] assms(1,3) by (auto simp: applyVoteType_def)
  have s1_parts: "st_votes s1 = st_votes s" "gv_settings (st_governor s1) = gv_settings (st_governor s)"
    using s1 by simp_all
  let ?p1 = "(count_vote p (Some ''For'') w)\<lparr>pr_hasVoted := js_set (pr_hasVoted p) v True\<rparr>"
  obtain w2 where w2: "get_past_votes votes2 clock e (pr_startLedger p) = Inr w2"
    and s3: "s3 = put_proposal (s1\<lparr>st_votes := votes2\<rparr>) pid
        ((count_vote ?p1 (Some ''For'') w2)\<lparr>pr_hasVoted := js_set (pr_hasVoted ?p1) e True\<rparr>)"
    using cast_vote_ok [OF assms(8)] assms(3) s1 by (auto simp: applyVoteType_def)
  have "w2 = get_votes (st_votes s) e + js_getd 0 (tv_balances (st_votes s)) v"
    using past_votes_now [OF assms(7), of v] w2 assms(2,5,6) s1_parts by simp
  moreover have "pr_votesFor ((count_vote ?p1 (Some ''For'') w2)\<lparr>pr_hasVoted := js_set (pr_hasVoted ?p1) e True\<rparr>) =
      pr_votesFor p + max 0 w + max 0 w2"
    by (simp add: count_vote_def)
  ultimately show ?thesis using s3 w by simp
qed

definition demo_first :: MockLedgerStore where
  "demo_first = snd (cast_vote demo_proposed (demo_clock 1001) ''bob'' ''bob'' 1 [''For''])"

definition demo_moved :: TokenVotesState where
  "demo_moved = snd (tv_delegate (st_votes demo_first) (demo_clock 1001) ''bob'' ''bob'' ''carol'')"

definition demo_twice :: MockLedgerStore where
  "demo_twice =
     snd (cast_vote (demo_first\<lparr>st_votes := demo_moved\<rparr>) (demo_clock 1001) ''carol'' ''carol'' 1 [''For''])"

theorem same_ledger_double_count_witness:
  "(\<exists>p3. js_get (gv_proposals (st_governor demo_twice)) 1 = Some p3 \<and> pr_votesFor p3 = 700) \<and>
   get_past_total_supply (st_votes demo_twice) (demo_clock 1001) 1001 = Inr 500"
proof
  have "map_option pr_startLedger (js_get (gv_proposals (st_governor demo_proposed)) 1) = Some 1001"
    "map_option pr_votesFor (js_get (gv_proposals (st_governor demo_proposed)) 1) = Some 0" by code_simp+
  then obtain p where p: "js_get (gv_proposals (st_governor demo_proposed)) 1 = Some p"
    "pr_startLedger p = 1001" "pr_votesFor p = 0" by auto
  have now: "pr_startLedger p = clock_sequence (demo_clock 1001)"
    using p(2) by (simp add: demo_clock_def clock_sequence_def)
  have simple: "gs_voteType (gv_settings (st_governor demo_proposed)) \<noteq> Quadratic" by code_simp
  have 1: "cast_vote demo_proposed (demo_clock 1001) ''bob'' ''bob'' 1 [''For''] = (Inr (), demo_first)"
    unfolding demo_first_def by (rule outcome_eqI) code_simp
  have 2: "tv_delegate (st_votes demo_first) (demo_clock 1001) ''bob'' ''bob'' ''carol'' = (Inr (), demo_moved)"
    unfolding demo_moved_def by (rule outcome_eqI) code_simp
  have 3: "cast_vote (demo_first\<lparr>st_votes := demo_moved\<rparr>) (demo_clock 1001) ''carol'' ''carol'' 1 [''For''] =
      (Inr (), demo_twice)"
    unfolding demo_twice_def by (rule outcome_eqI) code_simp
  have self: "js_get (tv_delegates (st_votes demo_proposed)) ''bob'' = Some ''bob''" "''bob'' \<noteq> ''carol''"
    by code_simp+
  have vals: "get_past_votes (st_votes demo_proposed) (demo_clock 1001) ''bob'' 1001 = Inr 500"
    "get_votes (st_votes demo_proposed) ''carol'' = 0"
    "js_getd 0 (tv_balances (st_votes demo_proposed)) ''bob'' = 200" by code_simp+
  show "\<exists>p3. js_get (gv_proposals (st_governor demo_twice)) 1 = Some p3 \<and> pr_votesFor p3 = 700"
    using same_ledger_double_count [OF p(1) now simple 1 self 2 3] p vals by auto
  show "get_past_total_supply (st_votes demo_twice) (demo_clock 1001) 1001 = Inr 500" by code_simp
qed

end
