(* ===== verification/CoSponsorship.thy ===== *)
theory CoSponsorship
  imports Governor
begin

section \<open>Co-sponsored drafts\<close>

text \<open>
  \<^verbatim>\<open>tools/simulation/src/mock/co-sponsorship-executor.ts\<close>: an account below the proposal threshold
  opens a draft, others pledge their voting power, and once the pledged power meets the
  threshold the creator turns the draft into a proposal of the governor. The lemmas show that
  a draft always lists each sponsor once with the power it sums up, that a draft is finalised
  at most once and only with enough power at that time, and that the error codes thrown are not
  the ones the SDK decodes.
\<close>

subsection \<open>Model\<close>

definition getDraft :: "MockLedgerStore \<Rightarrow> int \<Rightarrow> js_error + CoSponsorshipDraftRecord" where
  "getDraft store draftId =
     (case js_get (cs_drafts (st_coSponsorship store)) draftId of
        None \<Rightarrow> Inl (MockContractError 1)
      | Some draft \<Rightarrow> Inr draft)"

definition put_draft :: "MockLedgerStore \<Rightarrow> int \<Rightarrow> CoSponsorshipDraftRecord \<Rightarrow> MockLedgerStore" where
  "put_draft store draftId draft =
     store\<lparr>st_coSponsorship := (st_coSponsorship store)\<lparr>cs_drafts :=
       js_set (cs_drafts (st_coSponsorship store)) draftId draft\<rparr>\<rparr>"

text \<open>The record that \<^verbatim>\<open>create_draft\<close> stores.\<close>

definition new_draft ::
  "int \<Rightarrow> LedgerClock \<Rightarrow> address \<Rightarrow> string \<Rightarrow> bytes \<Rightarrow> string \<Rightarrow> address list \<Rightarrow> string list \<Rightarrow>
     bytes list \<Rightarrow> CoSponsorshipDraftRecord" where
  "new_draft draftId clock creator description descriptionHash metadataUri targets fnNames calldatas =
     \<lparr>dr_id = draftId, dr_creator = creator, dr_description = description,
      dr_descriptionHash = descriptionHash, dr_metadataUri = metadataUri, dr_targets = targets,
      dr_fnNames = fnNames, dr_calldatas = calldatas, dr_createdLedger = clock_sequence clock,
      dr_expiryLedger = clock_sequence clock + 7200, dr_coSponsors = [], dr_coSponsorPower = [],
      dr_totalPower = 0, dr_finalized = False, dr_cancelled = False\<rparr>"

definition create_draft ::
  "MockLedgerStore \<Rightarrow> LedgerClock \<Rightarrow> address \<Rightarrow> address \<Rightarrow> string \<Rightarrow> bytes \<Rightarrow> string \<Rightarrow> address list \<Rightarrow>
     string list \<Rightarrow> bytes list \<Rightarrow> (int, MockLedgerStore) outcome" where
  "create_draft store clock caller creator description descriptionHash metadataUri targets fnNames calldatas =
     (if caller \<noteq> creator then throws (MockContractError 100) store
      else if length targets = 0 \<or> length targets \<noteq> length fnNames \<or> length targets \<noteq> length calldatas
      then throws (MockContractError 2) store
      else
        let draftId = cs_draftCount (st_coSponsorship store) + 1;
            draft = new_draft draftId clock creator description descriptionHash metadataUri targets
                      fnNames calldatas;
            store1 = put_draft store draftId draft
        in returns draftId
             (store1\<lparr>st_coSponsorship := (st_coSponsorship store1)\<lparr>cs_draftCount := draftId\<rparr>\<rparr>))"

definition draft_closed :: "LedgerClock \<Rightarrow> CoSponsorshipDraftRecord \<Rightarrow> bool" where
  "draft_closed clock draft \<longleftrightarrow>
     dr_finalized draft \<or> dr_cancelled draft \<or> clock_sequence clock > dr_expiryLedger draft"

definition co_sponsor ::
  "MockLedgerStore \<Rightarrow> LedgerClock \<Rightarrow> address \<Rightarrow> address \<Rightarrow> int \<Rightarrow> (unit, MockLedgerStore) outcome" where
  "co_sponsor store clock caller sponsor draftId =
     (if caller \<noteq> sponsor then throws (MockContractError 100) store
      else case getDraft store draftId of Inl e \<Rightarrow> throws e store | Inr draft \<Rightarrow>
      if draft_closed clock draft then throws (MockContractError 3) store
      else if sponsor \<in> set (dr_coSponsors draft) then throws (MockContractError 4) store
      else
        let power = get_votes (st_votes store) sponsor in
        if power \<le> 0 then throws (MockContractError 5) store
        else returns () (put_draft store draftId
               (draft\<lparr>dr_coSponsors := dr_coSponsors draft @ [sponsor],
                      dr_coSponsorPower := dr_coSponsorPower draft @ [power],
                      dr_totalPower := dr_totalPower draft + power\<rparr>)))"

definition finalize_draft ::
  "MockLedgerStore \<Rightarrow> LedgerClock \<Rightarrow> address \<Rightarrow> address \<Rightarrow> int \<Rightarrow> (int, MockLedgerStore) outcome" where
  "finalize_draft store clock caller creator draftId =
     (if caller \<noteq> creator then throws (MockContractError 100) store
      else case getDraft store draftId of Inl e \<Rightarrow> throws e store | Inr draft \<Rightarrow>
      if dr_creator draft \<noteq> creator then throws (MockContractError 6) store
      else if draft_closed clock draft then throws (MockContractError 3) store
      else
        let powers = map (get_votes (st_votes store)) (dr_coSponsors draft);
            currentPower = fold (\<lambda>power total. total + power) powers 0 in
        if currentPower < gs_proposalThreshold (gv_settings (st_governor store))
        then throws (MockContractError 7) store
        else case propose_via_registry store clock (ad_coSponsorship (st_addresses store))
                    (ad_coSponsorship (st_addresses store)) (dr_creator draft) (dr_description draft)
                    (dr_descriptionHash draft) (dr_metadataUri draft) (dr_targets draft)
                    (dr_fnNames draft) (dr_calldatas draft) of
               (Inl e, store1) \<Rightarrow> throws e store1
             | (Inr proposalId, store1) \<Rightarrow>
                 returns proposalId (put_draft store1 draftId
                   (draft\<lparr>dr_coSponsorPower := powers, dr_totalPower := currentPower,
                          dr_finalized := True\<rparr>)))"

definition get_draft :: "MockLedgerStore \<Rightarrow> int \<Rightarrow> js_error + CoSponsorshipDraftRecord" where
  "get_draft store draftId = getDraft store draftId"

lemmas draft_op_defs = create_draft_def co_sponsor_def finalize_draft_def

subsection \<open>The invariant of drafts\<close>

definition draft_ok :: "CoSponsorshipDraftRecord \<Rightarrow> bool" where
  "draft_ok d \<longleftrightarrow>
     distinct (dr_coSponsors d) \<and> length (dr_coSponsorPower d) = length (dr_coSponsors d) \<and>
     dr_totalPower d = sum_list (dr_coSponsorPower d) \<and>
     length (dr_targets d) = length (dr_fnNames d) \<and> length (dr_targets d) = length (dr_calldatas d) \<and>
     dr_targets d \<noteq> []"

definition drafts_ok :: "MockLedgerStore \<Rightarrow> bool" where
  "drafts_ok s \<longleftrightarrow>
     (\<forall>i d. js_get (cs_drafts (st_coSponsorship s)) i = Some d \<longrightarrow>
        draft_ok d \<and> i \<le> cs_draftCount (st_coSponsorship s))"

lemma fold_add_sum_list: "fold (\<lambda>x (t :: int). t + x) xs a = a + sum_list xs"
  by (induction xs arbitrary: a) simp_all

lemma put_draft_simps [simp]:
  "cs_drafts (st_coSponsorship (put_draft s i d)) = js_set (cs_drafts (st_coSponsorship s)) i d"
  "cs_draftCount (st_coSponsorship (put_draft s i d)) = cs_draftCount (st_coSponsorship s)"
  "st_governor (put_draft s i d) = st_governor s" "st_votes (put_draft s i d) = st_votes s"
  "st_timelock (put_draft s i d) = st_timelock s" "st_addresses (put_draft s i d) = st_addresses s"
  "st_proposalBonds (put_draft s i d) = st_proposalBonds s" "st_treasury (put_draft s i d) = st_treasury s"
  "st_convictionVoting (put_draft s i d) = st_convictionVoting s"
  "st_optimisticGovernor (put_draft s i d) = st_optimisticGovernor s"
  by (simp_all add: put_draft_def)

lemma getDraft_Inr [simp]:
  "getDraft s i = Inr d \<longleftrightarrow> js_get (cs_drafts (st_coSponsorship s)) i = Some d"
  by (auto simp: getDraft_def split: option.splits)

lemma create_draft_cases:
  "create_draft s c caller cr de dh mu ts fs cds = (r, s') \<Longrightarrow>
     (\<exists>e. r = Inl e \<and> s' = s) \<or>
     (r = Inr (cs_draftCount (st_coSponsorship s) + 1) \<and> caller = cr \<and>
      ts \<noteq> [] \<and> length ts = length fs \<and> length ts = length cds \<and>
      s' = s\<lparr>st_coSponsorship := \<lparr>
        cs_drafts = js_set (cs_drafts (st_coSponsorship s)) (cs_draftCount (st_coSponsorship s) + 1)
          (new_draft (cs_draftCount (st_coSponsorship s) + 1) c cr de dh mu ts fs cds),
        cs_draftCount = cs_draftCount (st_coSponsorship s) + 1\<rparr>\<rparr>)"
  by (auto simp: create_draft_def Let_def put_draft_def split: if_splits)

lemma co_sponsor_cases:
  "co_sponsor s c caller sp i = (r, s') \<Longrightarrow>
     (\<exists>e. r = Inl e \<and> s' = s) \<or>
     (\<exists>d. r = Inr () \<and> caller = sp \<and> js_get (cs_drafts (st_coSponsorship s)) i = Some d \<and>
        \<not> draft_closed c d \<and> sp \<notin> set (dr_coSponsors d) \<and> 0 < get_votes (st_votes s) sp \<and>
        s' = put_draft s i
          (d\<lparr>dr_coSponsors := dr_coSponsors d @ [sp],
             dr_coSponsorPower := dr_coSponsorPower d @ [get_votes (st_votes s) sp],
             dr_totalPower := dr_totalPower d + get_votes (st_votes s) sp\<rparr>))"
  by (auto simp: co_sponsor_def Let_def split: if_splits sum.splits)

lemma finalize_draft_cases:
  assumes "finalize_draft s c caller cr i = (r, s')"
  shows "(\<exists>e. r = Inl e \<and> s' = s) \<or>
     (\<exists>d pid s1. r = Inr pid \<and> caller = cr \<and> js_get (cs_drafts (st_coSponsorship s)) i = Some d \<and>
        dr_creator d = cr \<and> \<not> draft_closed c d \<and>
        gs_proposalThreshold (gv_settings (st_governor s)) \<le>
          sum_list (map (get_votes (st_votes s)) (dr_coSponsors d)) \<and>
        createProposal s c cr (dr_description d) (dr_descriptionHash d) (dr_metadataUri d)
          (dr_targets d) (dr_fnNames d) (dr_calldatas d) False = (Inr pid, s1) \<and>
        s' = put_draft s1 i
          (d\<lparr>dr_coSponsorPower := map (get_votes (st_votes s)) (dr_coSponsors d),
             dr_totalPower := sum_list (map (get_votes (st_votes s)) (dr_coSponsors d)),
             dr_finalized := True\<rparr>))"
proof (cases "getDraft s i")
  case (Inl e)
  then show ?thesis using assms by (auto simp: finalize_draft_def split: if_splits)
next
  case (Inr d)
  obtain r1 s1 where cp: "createProposal s c (dr_creator d) (dr_description d) (dr_descriptionHash d)
      (dr_metadataUri d) (dr_targets d) (dr_fnNames d) (dr_calldatas d) False = (r1, s1)"
    by (metis surj_pair)
  note out = assms [unfolded finalize_draft_def Inr sum.case Let_def fold_add_sum_list
      propose_via_registry_def cp]
  show ?thesis
  proof (cases r1)
    case (Inl e)
    then have "s1 = s" using createProposal_fail_unchanged cp by blast
    then show ?thesis using out Inl by (auto split: if_splits)
  next
    case (Inr pid)
    then show ?thesis using out cp \<open>getDraft s i = Inr d\<close> by (auto simp: not_less split: if_splits)
  qed
qed

text \<open>The creation of a proposal leaves the drafts alone.\<close>

lemma createProposal_frame:
  assumes "createProposal s clock pr d dh mu ts fs cs chk = (r, s')"
  shows "s' = s\<lparr>st_governor := st_governor s'\<rparr>"
  using assms createProposal_fail_unchanged createProposal_effect(4) by (cases r) fastforce+

lemma createProposal_frame_parts:
  assumes "createProposal s clock pr d dh mu ts fs cs chk = (r, s')"
  shows "st_coSponsorship s' = st_coSponsorship s" "st_timelock s' = st_timelock s"
    "st_votes s' = st_votes s" "st_addresses s' = st_addresses s" "st_proposalBonds s' = st_proposalBonds s"
    "st_treasury s' = st_treasury s" "st_convictionVoting s' = st_convictionVoting s"
    "st_optimisticGovernor s' = st_optimisticGovernor s"
  by (subst createProposal_frame [OF assms], simp)+

lemma create_draft_ok:
  assumes "create_draft s c caller cr de dh mu ts fs cds = (r, s')" "drafts_ok s"
  shows "drafts_ok s'"
  using create_draft_cases [OF assms(1)] assms(2)
  by (fastforce simp: drafts_ok_def new_draft_def draft_ok_def split: if_splits)

lemma co_sponsor_ok:
  assumes "co_sponsor s c caller sp i = (r, s')" "drafts_ok s"
  shows "drafts_ok s'"
  using co_sponsor_cases [OF assms(1)] assms(2)
  by (fastforce simp: drafts_ok_def draft_ok_def split: if_splits)

lemma finalize_draft_ok:
  assumes "finalize_draft s c caller cr i = (r, s')" "drafts_ok s"
  shows "drafts_ok s'"
proof (cases "s' = s")
  case True
  then show ?thesis using assms(2) by simp
next
  case False
  then obtain d pid s1 where d: "js_get (cs_drafts (st_coSponsorship s)) i = Some d"
    and cp: "createProposal s c cr (dr_description d) (dr_descriptionHash d) (dr_metadataUri d)
          (dr_targets d) (dr_fnNames d) (dr_calldatas d) False = (Inr pid, s1)"
    and s': "s' = put_draft s1 i
          (d\<lparr>dr_coSponsorPower := map (get_votes (st_votes s)) (dr_coSponsors d),
             dr_totalPower := sum_list (map (get_votes (st_votes s)) (dr_coSponsors d)),
             dr_finalized := True\<rparr>)"
    using finalize_draft_cases [OF assms(1)] by blast
  have "st_coSponsorship s1 = st_coSponsorship s" using cp by (rule createProposal_frame_parts)
  moreover have "draft_ok d" "i \<le> cs_draftCount (st_coSponsorship s)"
    using assms(2) d by (simp_all add: drafts_ok_def)
  then have "draft_ok (d\<lparr>dr_coSponsorPower := map (get_votes (st_votes s)) (dr_coSponsors d),
             dr_totalPower := sum_list (map (get_votes (st_votes s)) (dr_coSponsors d)),
             dr_finalized := True\<rparr>)" by (simp add: draft_ok_def)
  ultimately show ?thesis
    using assms(2) s' \<open>i \<le> cs_draftCount (st_coSponsorship s)\<close> by (simp add: drafts_ok_def)
qed

subsection \<open>Runs\<close>

inductive draft_step :: "MockLedgerStore \<Rightarrow> MockLedgerStore \<Rightarrow> bool" where
  create: "create_draft s c caller cr de dh mu ts fs cds = (r, s') \<Longrightarrow> draft_step s s'"
| sponsor: "co_sponsor s c caller sp i = (ru, s') \<Longrightarrow> draft_step s s'"
| finalize: "finalize_draft s c caller cr i = (r, s') \<Longrightarrow> draft_step s s'"
| other: "st_coSponsorship s' = st_coSponsorship s \<Longrightarrow> draft_step s s'"

lemma draft_step_ok: "draft_step s s' \<Longrightarrow> drafts_ok s \<Longrightarrow> drafts_ok s'"
proof (induction rule: draft_step.induct)
  case (other s' s)
  then show ?case by (simp add: drafts_ok_def)
qed (blast intro: create_draft_ok co_sponsor_ok finalize_draft_ok)+

interpretation drafting: stepwise_invariant draft_step drafts_ok
  by unfold_locales (rule draft_step_ok)

definition draft_finalized :: "int \<Rightarrow> MockLedgerStore \<Rightarrow> bool" where
  "draft_finalized i s \<longleftrightarrow>
     drafts_ok s \<and> (\<exists>d. js_get (cs_drafts (st_coSponsorship s)) i = Some d \<and> dr_finalized d)"

lemma finalize_keeps_finalized:
  assumes "finalize_draft s c caller cr j = (r, s')"
    and "js_get (cs_drafts (st_coSponsorship s)) i = Some d" "dr_finalized d"
  shows "\<exists>d. js_get (cs_drafts (st_coSponsorship s')) i = Some d \<and> dr_finalized d"
  using finalize_draft_cases [OF assms(1)] assms(2,3) createProposal_frame_parts(1) by fastforce

lemma draft_step_finalized: "draft_step s s' \<Longrightarrow> draft_finalized i s \<Longrightarrow> draft_finalized i s'"
  unfolding draft_finalized_def
proof (elim conjE exE, intro conjI)
  fix d
  assume step: "draft_step s s'" and ok: "drafts_ok s"
    and d: "js_get (cs_drafts (st_coSponsorship s)) i = Some d" "dr_finalized d"
  show "drafts_ok s'" using step ok by (rule draft_step_ok)
  have low: "i \<le> cs_draftCount (st_coSponsorship s)" using ok d by (auto simp: drafts_ok_def)
  from step show "\<exists>d. js_get (cs_drafts (st_coSponsorship s')) i = Some d \<and> dr_finalized d"
  proof cases
    case (create c caller cr de dh mu ts fs cds r)
    show ?thesis using create_draft_cases [OF create] d low by auto
  next
    case (sponsor c caller sp j ru)
    show ?thesis using co_sponsor_cases [OF sponsor] d by (auto simp: draft_closed_def)
  next
    case (finalize c caller cr j r)
    show ?thesis using finalize_keeps_finalized [OF finalize d] .
  next
    case other
    then show ?thesis using d by auto
  qed
qed

interpretation finalizing: one_way_flag draft_step draft_finalized
  by unfold_locales (rule draft_step_finalized)

lemma drafts_ok_boot: "drafts_ok (buildStore g a c config)"
  by (simp add: drafts_ok_def buildStore_def Let_def)

subsection \<open>Properties\<close>

text \<open>In every run from a booted store each draft lists every sponsor once, its total is the sum of
  the pledged powers, and its action vectors agree in length.\<close>

theorem drafts_well_formed:
  assumes "draft_step\<^sup>*\<^sup>* (buildStore g addresses clock config) s"
    and "get_draft s i = Inr d"
  shows "distinct (dr_coSponsors d) \<and> length (dr_coSponsorPower d) = length (dr_coSponsors d) \<and>
     dr_totalPower d = sum_list (dr_coSponsorPower d) \<and>
     length (dr_targets d) = length (dr_fnNames d) \<and> length (dr_targets d) = length (dr_calldatas d)"
proof -
  have "draft_ok d"
    using drafting.reach_inv [OF assms(1) drafts_ok_boot] assms(2) by (simp add: drafts_ok_def get_draft_def)
  then show ?thesis by (simp add: draft_ok_def)
qed

definition demo_draft :: MockLedgerStore where
  "demo_draft =
     snd (create_draft demo_store (demo_clock 1000) ''carol'' ''carol'' ''d'' [1] '''' [''T''] [''f''] [[]])"

definition demo_sponsored :: MockLedgerStore where
  "demo_sponsored = snd (co_sponsor demo_draft (demo_clock 1001) ''bob'' ''bob'' 1)"

lemma demo_draft_run: "draft_step\<^sup>*\<^sup>* demo_store demo_sponsored"
proof -
  have "draft_step demo_store demo_draft"
    unfolding demo_draft_def by (rule draft_step.create, rule prod.collapse [symmetric])
  moreover have "draft_step demo_draft demo_sponsored"
    unfolding demo_sponsored_def by (rule draft_step.sponsor, rule prod.collapse [symmetric])
  ultimately show ?thesis by (simp add: converse_rtranclp_into_rtranclp)
qed

theorem drafts_well_formed_witness:
  "\<exists>d. get_draft demo_sponsored 1 = Inr d \<and> dr_totalPower d = sum_list (dr_coSponsorPower d) \<and>
     dr_coSponsors d = [''bob'']"
proof -
  have "map_option dr_coSponsors (js_get (cs_drafts (st_coSponsorship demo_sponsored)) 1) = Some [''bob'']"
    by code_simp
  then obtain d where "get_draft demo_sponsored 1 = Inr d" "dr_coSponsors d = [''bob'']"
    by (auto simp: get_draft_def)
  then show ?thesis
    using drafts_well_formed [OF demo_draft_run [unfolded demo_store_def]] by blast
qed

text \<open>A draft becomes a proposal at most once, by its creator, while it is open, and only when the
  current voting power of its distinct sponsors meets the proposal threshold, which the governor
  does not check again on this path; afterwards every attempt to finalise it fails.\<close>

theorem finalize_once_with_power:
  assumes "drafts_ok s" and "finalize_draft s clock caller creator i = (Inr pid, s1)"
    and "draft_step\<^sup>*\<^sup>* s1 s'"
  shows "\<exists>d. get_draft s i = Inr d \<and> caller = creator \<and> dr_creator d = creator \<and>
     clock_sequence clock \<le> dr_expiryLedger d \<and> distinct (dr_coSponsors d) \<and>
     gs_proposalThreshold (gv_settings (st_governor s)) \<le>
       sum_list (map (get_votes (st_votes s)) (dr_coSponsors d)) \<and>
     pid = gv_proposalCount (st_governor s) + 1 \<and>
     (\<forall>clock' caller' creator'. \<exists>e. finalize_draft s' clock' caller' creator' i = (Inl e, s'))"
proof -
  obtain d sp where d: "js_get (cs_drafts (st_coSponsorship s)) i = Some d" "caller = creator"
      "dr_creator d = creator" "\<not> draft_closed clock d"
      "gs_proposalThreshold (gv_settings (st_governor s)) \<le>
          sum_list (map (get_votes (st_votes s)) (dr_coSponsors d))"
    and cp: "createProposal s clock creator (dr_description d) (dr_descriptionHash d) (dr_metadataUri d)
          (dr_targets d) (dr_fnNames d) (dr_calldatas d) False = (Inr pid, sp)"
    and s1: "\<exists>d'. s1 = put_draft sp i d' \<and> dr_finalized d'"
    using finalize_draft_cases [OF assms(2)] by fastforce
  have "drafts_ok s1" using assms(1,2) finalize_draft_ok by blast
  then have "draft_finalized i s1" using s1 by (auto simp: draft_finalized_def)
  then have "draft_finalized i s'" using finalizing.flagged.reach_inv [OF assms(3)] by blast
  then have "\<exists>e. finalize_draft s' clock' caller' creator' i = (Inl e, s')" for clock' caller' creator'
    using finalize_draft_cases [of s' clock' caller' creator' i]
    by (metis draft_closed_def draft_finalized_def option.inject surj_pair)
  moreover have "draft_ok d" using assms(1) d(1) by (simp add: drafts_ok_def)
  ultimately show ?thesis
    using d createProposal_effect(1) [OF cp] by (auto simp: draft_closed_def draft_ok_def get_draft_def)
qed

definition demo_finalized :: MockLedgerStore where
  "demo_finalized = snd (finalize_draft demo_sponsored (demo_clock 1002) ''carol'' ''carol'' 1)"

theorem finalize_once_with_power_witness:
  "\<exists>e. finalize_draft demo_finalized (demo_clock 1003) ''carol'' ''carol'' 1 = (Inl e, demo_finalized)"
proof -
  have "drafts_ok demo_sponsored"
    using drafting.reach_inv [OF demo_draft_run] drafts_ok_boot by (simp add: demo_store_def)
  moreover have "finalize_draft demo_sponsored (demo_clock 1002) ''carol'' ''carol'' 1 = (Inr 1, demo_finalized)"
    unfolding demo_finalized_def by (rule outcome_eqI) code_simp
  ultimately show ?thesis using finalize_once_with_power by blast
qed

text \<open>The error codes thrown for drafts are not those of the SDK: pledging twice is reported with
  code 4, which the SDK's \<^verbatim>\<open>parseCoSponsorshipError\<close> decodes as a closed draft, and an unknown draft
  with code 1, which it decodes as an initialised registry.\<close>

theorem draft_errors_misreported:
  "getDraft s i = Inl e \<Longrightarrow> getDraft s j = Inr d \<Longrightarrow> \<not> draft_closed clock d \<Longrightarrow>
   sponsor \<in> set (dr_coSponsors d) \<Longrightarrow>
     co_sponsor s clock sponsor sponsor i = (Inl (MockContractError 1), s) \<and>
     co_sponsor s clock sponsor sponsor j = (Inl (MockContractError 4), s) \<and>
     map_of CoSponsorshipErrorCode ''DraftNotFound'' = Some 2 \<and>
     map_of CoSponsorshipErrorCode ''AlreadyCoSponsored'' = Some 5 \<and>
     map_of CoSponsorshipErrorCode ''AlreadyInitialized'' = Some 1 \<and>
     map_of CoSponsorshipErrorCode ''DraftClosed'' = Some 4"
  by (auto simp: co_sponsor_def getDraft_def CoSponsorshipErrorCode_def split: option.splits)

theorem draft_errors_misreported_witness:
  "co_sponsor demo_sponsored (demo_clock 1001) ''bob'' ''bob'' 1 = (Inl (MockContractError 4), demo_sponsored)"
proof -
  have "getDraft demo_sponsored 9 = Inl (MockContractError 1)" by code_simp
  moreover have "map_option (\<lambda>d. (dr_coSponsors d, draft_closed (demo_clock 1001) d))
      (js_get (cs_drafts (st_coSponsorship demo_sponsored)) 1) = Some ([''bob''], False)" by code_simp
  then obtain d where "getDraft demo_sponsored 1 = Inr d" "\<not> draft_closed (demo_clock 1001) d"
    "dr_coSponsors d = [''bob'']" by auto
  ultimately show ?thesis
    using draft_errors_misreported [of demo_sponsored 9 "MockContractError 1" 1 d "demo_clock 1001" "''bob''"]
    by simp
qed

end
