(* ===== verification/OptimisticGovernor.thy ===== *)
theory OptimisticGovernor
  imports ProposalBonds
begin

section \<open>Optimistic governance\<close>

text \<open>
  \<^verbatim>\<open>tools/simulation/src/mock/optimistic-governor-executor.ts\<close>: a proposal passes unless holders with
  enough power object before its challenge window ends. The lemmas describe the state machine of
  a proposal and its timing: every call moves a proposal along one edge of the lifecycle or not
  at all, objections are accepted only inside the window and finalisation only after it, every
  account objects at most once, and a proposal that was objected to is never executed.
\<close>

subsection \<open>Model\<close>

definition OG_BPS :: int where "OG_BPS = 10000"

definition OG_InvalidConfiguration :: int where "OG_InvalidConfiguration = 3"
definition OG_ProposalNotFound :: int where "OG_ProposalNotFound = 5"
definition OG_NotInChallengeWindow :: int where "OG_NotInChallengeWindow = 6"
definition OG_ChallengeWindowNotElapsed :: int where "OG_ChallengeWindowNotElapsed = 7"
definition OG_ChallengeWindowElapsed :: int where "OG_ChallengeWindowElapsed = 8"
definition OG_AlreadyObjected :: int where "OG_AlreadyObjected = 9"
definition OG_NoVotingPower :: int where "OG_NoVotingPower = 10"
definition OG_ProposalNotPassed :: int where "OG_ProposalNotPassed = 12"
definition OG_ProposalAlreadyFinalized :: int where "OG_ProposalAlreadyFinalized = 13"
definition OG_Unauthorized :: int where "OG_Unauthorized = 14"
definition OG_ProposalNotCancellable :: int where "OG_ProposalNotCancellable = 16"

lemmas og_error_defs =
  OG_InvalidConfiguration_def OG_ProposalNotFound_def OG_NotInChallengeWindow_def
  OG_ChallengeWindowNotElapsed_def OG_ChallengeWindowElapsed_def OG_AlreadyObjected_def
  OG_NoVotingPower_def OG_ProposalNotPassed_def OG_ProposalAlreadyFinalized_def
  OG_Unauthorized_def OG_ProposalNotCancellable_def

definition og_mustGetProposal :: "MockLedgerStore \<Rightarrow> int \<Rightarrow> js_error + OptimisticProposalRecord" where
  "og_mustGetProposal store pid =
     (case js_get (og_proposals (st_optimisticGovernor store)) pid of
        None \<Rightarrow> Inl (MockContractError OG_ProposalNotFound)
      | Some proposal \<Rightarrow> Inr proposal)"

definition put_opt :: "MockLedgerStore \<Rightarrow> int \<Rightarrow> OptimisticProposalRecord \<Rightarrow> MockLedgerStore" where
  "put_opt store pid p =
     store\<lparr>st_optimisticGovernor := (st_optimisticGovernor store)\<lparr>og_proposals :=
       js_set (og_proposals (st_optimisticGovernor store)) pid p\<rparr>\<rparr>"

definition og_propose ::
  "MockLedgerStore \<Rightarrow> LedgerClock \<Rightarrow> address \<Rightarrow> address \<Rightarrow> string \<Rightarrow> bytes \<Rightarrow> bytes \<Rightarrow>
     (int, MockLedgerStore) outcome" where
  "og_propose store clock proposer target fnName calldata descriptionHash =
     (let config = st_optimisticGovernor store in
      if og_proposerBondAmount config \<noteq> 0 then throws (MockContractError OG_InvalidConfiguration) store
      else
        let pid = og_proposalCount config + 1;
            createdLedger = clock_sequence clock;
            proposal =
              \<lparr>oq_id = pid, oq_proposer = proposer, oq_target = target, oq_fnName = fnName,
               oq_calldata = calldata, oq_descriptionHash = descriptionHash,
               oq_createdLedger = createdLedger,
               oq_challengeEndLedger = createdLedger + og_challengeWindowLedgers config,
               oq_objectionVotes = 0, oq_state = OptChallengeWindow\<rparr>
        in returns pid (store\<lparr>st_optimisticGovernor :=
             config\<lparr>og_proposalCount := pid,
                    og_proposals := js_set (og_proposals config) pid proposal\<rparr>\<rparr>))"

text \<open>\<^verbatim>\<open>objectorVoted\<close> is a set of keys; a new key is added at the end.\<close>

definition mark_objector :: "MockLedgerStore \<Rightarrow> int \<Rightarrow> address \<Rightarrow> MockLedgerStore" where
  "mark_objector store pid objector =
     store\<lparr>st_optimisticGovernor := (st_optimisticGovernor store)\<lparr>og_objectorVoted :=
       og_objectorVoted (st_optimisticGovernor store) @ [(pid, objector)]\<rparr>\<rparr>"

definition og_object ::
  "MockLedgerStore \<Rightarrow> LedgerClock \<Rightarrow> address \<Rightarrow> int \<Rightarrow> (unit, MockLedgerStore) outcome" where
  "og_object store clock objector pid =
     (case og_mustGetProposal store pid of Inl e \<Rightarrow> throws e store | Inr proposal \<Rightarrow>
      if oq_state proposal \<noteq> OptChallengeWindow
      then throws (MockContractError OG_NotInChallengeWindow) store
      else if clock_sequence clock \<ge> oq_challengeEndLedger proposal
      then throws (MockContractError OG_ChallengeWindowElapsed) store
      else if (pid, objector) \<in> set (og_objectorVoted (st_optimisticGovernor store))
      then throws (MockContractError OG_AlreadyObjected) store
      else case get_past_votes (st_votes store) clock objector (oq_createdLedger proposal) of
        Inl e \<Rightarrow> throws e store
      | Inr weight \<Rightarrow>
          if weight \<le> 0 then throws (MockContractError OG_NoVotingPower) store
          else
            let store1 = mark_objector store pid objector;
                proposal1 = proposal\<lparr>oq_objectionVotes := oq_objectionVotes proposal + weight\<rparr>;
                store2 = put_opt store1 pid proposal1 in
            case get_past_total_supply (st_votes store) clock (oq_createdLedger proposal) of
              Inl e \<Rightarrow> throws e store2
            | Inr totalSupply \<Rightarrow>
                let crossed = totalSupply > 0 \<and>
                      bdiv (oq_objectionVotes proposal1 * OG_BPS) totalSupply \<ge>
                        og_objectionThresholdBps (st_optimisticGovernor store) in
                if crossed then returns () (put_opt store2 pid (proposal1\<lparr>oq_state := OptObjected\<rparr>))
                else returns () store2)"

definition og_finalize ::
  "MockLedgerStore \<Rightarrow> LedgerClock \<Rightarrow> int \<Rightarrow> (unit, MockLedgerStore) outcome" where
  "og_finalize store clock pid =
     (case og_mustGetProposal store pid of Inl e \<Rightarrow> throws e store | Inr proposal \<Rightarrow>
      if oq_state proposal \<noteq> OptChallengeWindow
      then throws (MockContractError OG_ProposalAlreadyFinalized) store
      else if clock_sequence clock < oq_challengeEndLedger proposal
      then throws (MockContractError OG_ChallengeWindowNotElapsed) store
      else returns () (put_opt store pid (proposal\<lparr>oq_state := OptPassed\<rparr>)))"

definition og_execute :: "MockLedgerStore \<Rightarrow> int \<Rightarrow> (unit, MockLedgerStore) outcome" where
  "og_execute store pid =
     (case og_mustGetProposal store pid of Inl e \<Rightarrow> throws e store | Inr proposal \<Rightarrow>
      if oq_state proposal \<noteq> OptPassed then throws (MockContractError OG_ProposalNotPassed) store
      else returns () (put_opt store pid (proposal\<lparr>oq_state := OptExecuted\<rparr>)))"

definition og_cancel :: "MockLedgerStore \<Rightarrow> address \<Rightarrow> int \<Rightarrow> (unit, MockLedgerStore) outcome" where
  "og_cancel store caller pid =
     (case og_mustGetProposal store pid of Inl e \<Rightarrow> throws e store | Inr proposal \<Rightarrow>
      if caller \<noteq> oq_proposer proposal then throws (MockContractError OG_Unauthorized) store
      else if oq_state proposal \<noteq> OptChallengeWindow \<and> oq_state proposal \<noteq> OptObjected
      then throws (MockContractError OG_ProposalNotCancellable) store
      else returns () (put_opt store pid (proposal\<lparr>oq_state := OptCancelled\<rparr>)))"

definition og_get_proposal :: "MockLedgerStore \<Rightarrow> int \<Rightarrow> js_error + OptimisticProposalRecord" where
  "og_get_proposal store pid = og_mustGetProposal store pid"

definition og_get_config :: "MockLedgerStore \<Rightarrow> address \<times> int \<times> int \<times> int \<times> address" where
  "og_get_config store =
     (let config = st_optimisticGovernor store in
      (og_votesToken config, og_challengeWindowLedgers config, og_objectionThresholdBps config,
       og_proposerBondAmount config, og_proposerBondToken config))"

definition og_update_config ::
  "MockLedgerStore \<Rightarrow> address \<Rightarrow> int \<Rightarrow> int \<Rightarrow> (unit, MockLedgerStore) outcome" where
  "og_update_config store admin challengeWindowLedgers objectionThresholdBps =
     (let config = st_optimisticGovernor store in
      if admin \<noteq> og_admin config then throws (MockContractError OG_Unauthorized) store
      else if challengeWindowLedgers = 0 \<or> objectionThresholdBps = 0 \<or> objectionThresholdBps > OG_BPS
      then throws (MockContractError OG_InvalidConfiguration) store
      else returns () (store\<lparr>st_optimisticGovernor :=
             config\<lparr>og_challengeWindowLedgers := challengeWindowLedgers,
                    og_objectionThresholdBps := objectionThresholdBps\<rparr>\<rparr>))"

subsection \<open>Effects\<close>

lemma put_opt_simps [simp]:
  "og_proposals (st_optimisticGovernor (put_opt s pid p)) = js_set (og_proposals (st_optimisticGovernor s)) pid p"
  "og_proposalCount (st_optimisticGovernor (put_opt s pid p)) = og_proposalCount (st_optimisticGovernor s)"
  "og_objectorVoted (st_optimisticGovernor (put_opt s pid p)) = og_objectorVoted (st_optimisticGovernor s)"
  "st_votes (put_opt s pid p) = st_votes s"
  by (simp_all add: put_opt_def)

lemma mark_objector_simps [simp]:
  "og_proposals (st_optimisticGovernor (mark_objector s pid a)) = og_proposals (st_optimisticGovernor s)"
  "og_proposalCount (st_optimisticGovernor (mark_objector s pid a)) = og_proposalCount (st_optimisticGovernor s)"
  "og_objectorVoted (st_optimisticGovernor (mark_objector s pid a)) =
     og_objectorVoted (st_optimisticGovernor s) @ [(pid, a)]"
  "st_votes (mark_objector s pid a) = st_votes s"
  by (simp_all add: mark_objector_def)

lemma og_mustGet_Inr [simp]:
  "og_mustGetProposal s pid = Inr p \<longleftrightarrow> js_get (og_proposals (st_optimisticGovernor s)) pid = Some p"
  by (auto simp: og_mustGetProposal_def split: option.splits)

text \<open>Both snapshot reads are at the same ledger, so the second succeeds when the first does.\<close>

lemma supply_read_ok:
  "get_past_votes vs clock a l = Inr w \<Longrightarrow>
     get_past_total_supply vs clock l = Inr (checkpointAt (Some (tv_totalSupplyCheckpoints vs)) l)"
  by (simp add: get_past_votes_def get_past_total_supply_def split: if_splits)

definition crosses :: "MockLedgerStore \<Rightarrow> int \<Rightarrow> int \<Rightarrow> bool" where
  "crosses s votes ledger \<longleftrightarrow>
     (let supp = checkpointAt (Some (tv_totalSupplyCheckpoints (st_votes s))) ledger in
      0 < supp \<and> og_objectionThresholdBps (st_optimisticGovernor s) \<le> bdiv (votes * OG_BPS) supp)"

lemma og_object_cases:
  assumes "og_object s clock a pid = (r, s')"
  shows "(\<exists>e. r = Inl e \<and> s' = s) \<or>
    (\<exists>p w p'. r = Inr () \<and> js_get (og_proposals (st_optimisticGovernor s)) pid = Some p \<and>
       oq_state p = OptChallengeWindow \<and> clock_sequence clock < oq_challengeEndLedger p \<and>
       (pid, a) \<notin> set (og_objectorVoted (st_optimisticGovernor s)) \<and>
       get_past_votes (st_votes s) clock a (oq_createdLedger p) = Inr w \<and> 0 < w \<and>
       p' = (if crosses s (oq_objectionVotes p + w) (oq_createdLedger p)
             then p\<lparr>oq_objectionVotes := oq_objectionVotes p + w, oq_state := OptObjected\<rparr>
             else p\<lparr>oq_objectionVotes := oq_objectionVotes p + w\<rparr>) \<and>
       og_proposals (st_optimisticGovernor s') = js_set (og_proposals (st_optimisticGovernor s)) pid p' \<and>
       og_proposalCount (st_optimisticGovernor s') = og_proposalCount (st_optimisticGovernor s) \<and>
       og_objectorVoted (st_optimisticGovernor s') = og_objectorVoted (st_optimisticGovernor s) @ [(pid, a)])"
proof (cases "og_mustGetProposal s pid")
  case (Inl e)
  then show ?thesis using assms by (auto simp: og_object_def)
next
  case (Inr p)
  have upd: "js_set (js_set m pid x) pid y = js_set m pid y" for m :: "(int, OptimisticProposalRecord) js_map" and x y
    by (induction m) (auto simp: js_set_def)
  show ?thesis
  proof (cases "get_past_votes (st_votes s) clock a (oq_createdLedger p)")
    case (Inl e)
    then show ?thesis using assms Inr by (auto simp: og_object_def split: if_splits)
  next
    case w: (Inr w)
    show ?thesis
      using assms Inr w supply_read_ok [OF w]
      by (auto simp: og_object_def Let_def crosses_def upd not_le split: if_splits)
  qed
qed

lemma og_propose_cases:
  assumes "og_propose s clock pr t f cd dh = (r, s')"
  shows "(\<exists>e. r = Inl e \<and> s' = s) \<or>
    (\<exists>p. r = Inr (og_proposalCount (st_optimisticGovernor s) + 1) \<and>
       oq_state p = OptChallengeWindow \<and> oq_objectionVotes p = 0 \<and>
       oq_createdLedger p = clock_sequence clock \<and>
       og_proposals (st_optimisticGovernor s') =
         js_set (og_proposals (st_optimisticGovernor s)) (og_proposalCount (st_optimisticGovernor s) + 1) p \<and>
       og_proposalCount (st_optimisticGovernor s') = og_proposalCount (st_optimisticGovernor s) + 1 \<and>
       og_objectorVoted (st_optimisticGovernor s') = og_objectorVoted (st_optimisticGovernor s))"
proof (cases "og_proposerBondAmount (st_optimisticGovernor s) = 0")
  case True
  have r: "r = Inr (og_proposalCount (st_optimisticGovernor s) + 1)"
    using assms True by (auto simp: og_propose_def Let_def)
  show ?thesis
    using assms True
    by (intro disjI2 exI [of _ "\<lparr>oq_id = og_proposalCount (st_optimisticGovernor s) + 1, oq_proposer = pr,
        oq_target = t, oq_fnName = f, oq_calldata = cd, oq_descriptionHash = dh,
        oq_createdLedger = clock_sequence clock,
        oq_challengeEndLedger = clock_sequence clock + og_challengeWindowLedgers (st_optimisticGovernor s),
        oq_objectionVotes = 0, oq_state = OptChallengeWindow\<rparr>"]) (auto simp: og_propose_def Let_def)
qed (use assms in \<open>auto simp: og_propose_def Let_def\<close>)

lemma og_move_cases:
  "og_finalize s clock pid = (r, s') \<Longrightarrow> (\<exists>e. r = Inl e \<and> s' = s) \<or>
    (\<exists>p. r = Inr () \<and> js_get (og_proposals (st_optimisticGovernor s)) pid = Some p \<and>
       oq_state p = OptChallengeWindow \<and> oq_challengeEndLedger p \<le> clock_sequence clock \<and>
       s' = put_opt s pid (p\<lparr>oq_state := OptPassed\<rparr>))"
  "og_execute s pid = (r, s') \<Longrightarrow> (\<exists>e. r = Inl e \<and> s' = s) \<or>
    (\<exists>p. r = Inr () \<and> js_get (og_proposals (st_optimisticGovernor s)) pid = Some p \<and>
       oq_state p = OptPassed \<and> s' = put_opt s pid (p\<lparr>oq_state := OptExecuted\<rparr>))"
  "og_cancel s caller pid = (r, s') \<Longrightarrow> (\<exists>e. r = Inl e \<and> s' = s) \<or>
    (\<exists>p. r = Inr () \<and> js_get (og_proposals (st_optimisticGovernor s)) pid = Some p \<and>
       oq_proposer p = caller \<and> oq_state p \<in> {OptChallengeWindow, OptObjected} \<and>
       s' = put_opt s pid (p\<lparr>oq_state := OptCancelled\<rparr>))"
  by (auto simp: og_finalize_def og_execute_def og_cancel_def not_less split: if_splits sum.splits)

subsection \<open>The lifecycle\<close>

fun opt_edge :: "OptimisticProposalLifecycle \<Rightarrow> OptimisticProposalLifecycle \<Rightarrow> bool" where
  "opt_edge OptChallengeWindow st = (st \<noteq> OptExecuted)"
| "opt_edge OptObjected st = (st = OptObjected \<or> st = OptCancelled)"
| "opt_edge OptPassed st = (st = OptPassed \<or> st = OptExecuted)"
| "opt_edge OptExecuted st = (st = OptExecuted)"
| "opt_edge OptCancelled st = (st = OptCancelled)"

text \<open>A step: one of the calls, the clock advances, or something else that leaves the component alone.\<close>

inductive opt_step ::
  "MockLedgerStore \<times> LedgerClock \<Rightarrow> MockLedgerStore \<times> LedgerClock \<Rightarrow> bool" where
  propose: "og_propose s c pr t f cd dh = (ri, s') \<Longrightarrow> opt_step (s, c) (s', c)"
| object: "og_object s c a pid = (r, s') \<Longrightarrow> opt_step (s, c) (s', c)"
| finalize: "og_finalize s c pid = (r, s') \<Longrightarrow> opt_step (s, c) (s', c)"
| execute: "og_execute s pid = (r, s') \<Longrightarrow> opt_step (s, c) (s', c)"
| cancel: "og_cancel s caller pid = (r, s') \<Longrightarrow> opt_step (s, c) (s', c)"
| config: "og_update_config s admin w t = (r, s') \<Longrightarrow> opt_step (s, c) (s', c)"
| tick: "clock_advance c n = (r, c') \<Longrightarrow> opt_step (s, c) (s, c')"
| other: "st_optimisticGovernor s' = st_optimisticGovernor s \<Longrightarrow> opt_step (s, c) (s', c)"

definition opt_inv :: "MockLedgerStore \<times> LedgerClock \<Rightarrow> bool" where
  "opt_inv w \<longleftrightarrow>
     (\<forall>pid p. js_get (og_proposals (st_optimisticGovernor (fst w))) pid = Some p \<longrightarrow>
        pid \<le> og_proposalCount (st_optimisticGovernor (fst w)) \<and>
        (oq_state p = OptPassed \<or> oq_state p = OptExecuted \<longrightarrow>
           oq_challengeEndLedger p \<le> clock_sequence (snd w))) \<and>
     distinct (og_objectorVoted (st_optimisticGovernor (fst w)))"

text \<open>What a step may do to a proposal.\<close>

definition opt_evolves :: "LedgerClock \<Rightarrow> OptimisticProposalRecord \<Rightarrow> OptimisticProposalRecord \<Rightarrow> bool" where
  "opt_evolves c p p' \<longleftrightarrow>
     opt_edge (oq_state p) (oq_state p') \<and> oq_proposer p' = oq_proposer p \<and>
     oq_createdLedger p' = oq_createdLedger p \<and> oq_challengeEndLedger p' = oq_challengeEndLedger p \<and>
     oq_objectionVotes p \<le> oq_objectionVotes p' \<and>
     (oq_objectionVotes p' \<noteq> oq_objectionVotes p \<or> oq_state p \<noteq> OptObjected \<and> oq_state p' = OptObjected \<longrightarrow>
        oq_state p = OptChallengeWindow \<and> clock_sequence c < oq_challengeEndLedger p) \<and>
     (oq_state p \<noteq> OptPassed \<and> oq_state p' = OptPassed \<longrightarrow> oq_challengeEndLedger p \<le> clock_sequence c)"

lemma opt_edge_refl [simp]: "opt_edge st st"
  by (cases st) simp_all

lemma opt_evolves_refl [simp]: "opt_evolves c p p"
  by (simp add: opt_evolves_def)

definition opt_kept :: "MockLedgerStore \<times> LedgerClock \<Rightarrow> MockLedgerStore \<times> LedgerClock \<Rightarrow> bool" where
  "opt_kept w w' \<longleftrightarrow>
     (\<forall>pid p. js_get (og_proposals (st_optimisticGovernor (fst w))) pid = Some p \<longrightarrow>
        (\<exists>p'. js_get (og_proposals (st_optimisticGovernor (fst w'))) pid = Some p' \<and>
              opt_evolves (snd w) p p')) \<and>
     set (og_objectorVoted (st_optimisticGovernor (fst w))) \<subseteq>
       set (og_objectorVoted (st_optimisticGovernor (fst w')))"

lemma og_propose_step:
  assumes "og_propose s c pr t f cd dh = (r, s')" "opt_inv (s, c)"
  shows "opt_inv (s', c) \<and> opt_kept (s, c) (s', c)"
  using og_propose_cases [OF assms(1)] assms(2)
  by (fastforce simp: opt_inv_def opt_kept_def split: if_splits)

lemma og_object_step:
  assumes "og_object s c a pid = (r, s')" "opt_inv (s, c)"
  shows "opt_inv (s', c) \<and> opt_kept (s, c) (s', c)"
  using og_object_cases [OF assms(1)] assms(2)
  by (auto simp: opt_inv_def opt_kept_def opt_evolves_def split: if_splits)

lemma og_move_step:
  "og_finalize s c pid = (r, s') \<Longrightarrow> opt_inv (s, c) \<Longrightarrow> opt_inv (s', c) \<and> opt_kept (s, c) (s', c)"
  "og_execute s pid = (r, s') \<Longrightarrow> opt_inv (s, c) \<Longrightarrow> opt_inv (s', c) \<and> opt_kept (s, c) (s', c)"
  "og_cancel s caller pid = (r, s') \<Longrightarrow> opt_inv (s, c) \<Longrightarrow> opt_inv (s', c) \<and> opt_kept (s, c) (s', c)"
  by (drule og_move_cases, auto simp: opt_inv_def opt_kept_def opt_evolves_def split: if_splits)+

lemma opt_same_step:
  assumes "og_proposals (st_optimisticGovernor s') = og_proposals (st_optimisticGovernor s)"
    "og_proposalCount (st_optimisticGovernor s') = og_proposalCount (st_optimisticGovernor s)"
    "og_objectorVoted (st_optimisticGovernor s') = og_objectorVoted (st_optimisticGovernor s)"
    "clock_sequence c \<le> clock_sequence c'" "opt_inv (s, c)"
  shows "opt_inv (s', c') \<and> opt_kept (s, c) (s', c')"
  using assms by (fastforce simp: opt_inv_def opt_kept_def)

lemma opt_step_inv: "opt_step w w' \<Longrightarrow> opt_inv w \<Longrightarrow> opt_inv w' \<and> opt_kept w w'"
proof (induction rule: opt_step.induct)
  case (config s admin w t r s' c)
  then show ?case
    by (intro opt_same_step) (auto simp: og_update_config_def Let_def split: if_splits)
next
  case (tick c n r c' s)
  then show ?case
    by (intro opt_same_step) (auto simp: clock_advance_def clock_sequence_def split: if_splits)
next
  case (other s' s c)
  then show ?case by (intro opt_same_step) simp_all
qed (erule (1) og_propose_step og_object_step og_move_step)+

interpretation optimistic: stepwise_invariant opt_step opt_inv
  by unfold_locales (blast dest: opt_step_inv)

definition opt_booted :: "MockLedgerStore \<times> LedgerClock \<Rightarrow> bool" where
  "opt_booted w \<longleftrightarrow>
     (\<exists>guardian addresses clock config.
        opt_step\<^sup>*\<^sup>* (buildStore guardian addresses clock config, clock) w)"

lemma opt_booted_inv: "opt_booted w \<Longrightarrow> opt_inv w"
  unfolding opt_booted_def
  using optimistic.reach_inv by (fastforce simp: opt_inv_def buildStore_def Let_def)

definition opt_good_step :: "MockLedgerStore \<times> LedgerClock \<Rightarrow> MockLedgerStore \<times> LedgerClock \<Rightarrow> bool" where
  "opt_good_step w w' \<longleftrightarrow> opt_step w w' \<and> opt_inv w"

lemma opt_good_run: "opt_step\<^sup>*\<^sup>* w w' \<Longrightarrow> opt_inv w \<Longrightarrow> opt_good_step\<^sup>*\<^sup>* w w'"
proof (induction rule: converse_rtranclp_induct)
  case (step w w1)
  then have "opt_good_step w w1" "opt_inv w1" using opt_step_inv by (auto simp: opt_good_step_def)
  then show ?case using step.IH by (meson converse_rtranclp_into_rtranclp)
qed simp

datatype opt_fact = NeverPasses int | IsCancelled int | IsExecuted int | ObjectedBy int address

fun opt_holds :: "opt_fact \<Rightarrow> MockLedgerStore \<times> LedgerClock \<Rightarrow> bool" where
  "opt_holds (NeverPasses pid) w = (\<exists>p. js_get (og_proposals (st_optimisticGovernor (fst w))) pid = Some p \<and>
     oq_state p \<in> {OptObjected, OptCancelled})"
| "opt_holds (IsCancelled pid) w = (\<exists>p. js_get (og_proposals (st_optimisticGovernor (fst w))) pid = Some p \<and>
     oq_state p = OptCancelled)"
| "opt_holds (IsExecuted pid) w = (\<exists>p. js_get (og_proposals (st_optimisticGovernor (fst w))) pid = Some p \<and>
     oq_state p = OptExecuted)"
| "opt_holds (ObjectedBy pid a) w = ((pid, a) \<in> set (og_objectorVoted (st_optimisticGovernor (fst w))))"

interpretation opt_facts: one_way_flag opt_good_step opt_holds
proof unfold_locales
  fix w w' k
  assume step: "opt_good_step w w'" and h: "opt_holds k w"
  have "opt_kept w w'" using step opt_step_inv by (auto simp: opt_good_step_def)
  then show "opt_holds k w'"
    using h by (cases k) (fastforce simp: opt_kept_def opt_evolves_def)+
qed

lemma opt_holds_run: "opt_step\<^sup>*\<^sup>* w w' \<Longrightarrow> opt_inv w \<Longrightarrow> opt_holds k w \<Longrightarrow> opt_holds k w'"
  using opt_good_run opt_facts.flagged.reach_inv by blast

subsection \<open>Properties\<close>

text \<open>C33: Every step of a run moves an optimistic proposal along one edge of its lifecycle or leaves
  its state; its terms are fixed, objection votes only grow and only inside the challenge
  window, it can become objected only inside the window and pass only after it, and a proposal
  that has passed or was executed is past its window.\<close>

theorem optimistic_lifecycle:
  assumes "opt_booted (s, c)" and "opt_step (s, c) (s', c')" and "og_get_proposal s pid = Inr p"
  shows "\<exists>p'. og_get_proposal s' pid = Inr p' \<and> opt_edge (oq_state p) (oq_state p') \<and>
     oq_proposer p' = oq_proposer p \<and> oq_challengeEndLedger p' = oq_challengeEndLedger p \<and>
     oq_objectionVotes p \<le> oq_objectionVotes p' \<and>
     (oq_objectionVotes p \<noteq> oq_objectionVotes p' \<longrightarrow>
        oq_state p = OptChallengeWindow \<and> clock_sequence c < oq_challengeEndLedger p) \<and>
     (oq_state p' = OptPassed \<or> oq_state p' = OptExecuted \<longrightarrow>
        oq_challengeEndLedger p \<le> clock_sequence c')"
proof -
  have inv: "opt_inv (s, c)" using assms(1) by (rule opt_booted_inv)
  then have inv': "opt_inv (s', c')" and kept: "opt_kept (s, c) (s', c')"
    using opt_step_inv [OF assms(2)] by simp_all
  obtain p' where p': "js_get (og_proposals (st_optimisticGovernor s')) pid = Some p'" "opt_evolves c p p'"
    using kept assms(3) unfolding opt_kept_def og_get_proposal_def by fastforce
  have "oq_state p' = OptPassed \<or> oq_state p' = OptExecuted \<longrightarrow> oq_challengeEndLedger p' \<le> clock_sequence c'"
    using inv' p'(1) by (simp add: opt_inv_def)
  then show ?thesis
    using p' by (intro exI [of _ p']) (auto simp: opt_evolves_def og_get_proposal_def)
qed

definition demo_optimistic :: MockLedgerStore where
  "demo_optimistic = snd (og_propose demo_store (demo_clock 1000) ''alice'' ''T'' ''f'' [] [])"

definition demo_objected :: MockLedgerStore where
  "demo_objected = snd (og_object demo_optimistic (demo_clock 1000) ''bob'' 1)"

lemma demo_opt_steps:
  "opt_step (demo_store, demo_clock 1000) (demo_optimistic, demo_clock 1000)"
  "opt_step (demo_optimistic, demo_clock 1000) (demo_objected, demo_clock 1000)"
  unfolding demo_optimistic_def demo_objected_def
  by (rule opt_step.propose opt_step.object, rule prod.collapse [symmetric])+

lemma demo_opt_booted: "opt_booted (demo_optimistic, demo_clock 1000)"
  unfolding opt_booted_def using demo_opt_steps(1) [unfolded demo_store_def] by blast

theorem optimistic_lifecycle_witness:
  "\<exists>p'. og_get_proposal demo_objected 1 = Inr p' \<and> oq_state p' = OptObjected \<and> 0 \<le> oq_objectionVotes p'"
proof -
  have "map_option oq_objectionVotes (js_get (og_proposals (st_optimisticGovernor demo_optimistic)) 1) = Some 0"
    "map_option oq_state (js_get (og_proposals (st_optimisticGovernor demo_objected)) 1) = Some OptObjected"
    by code_simp+
  then obtain p where p: "og_get_proposal demo_optimistic 1 = Inr p" "oq_objectionVotes p = 0"
    and st: "map_option oq_state (js_get (og_proposals (st_optimisticGovernor demo_objected)) 1) = Some OptObjected"
    by (auto simp: og_get_proposal_def)
  show ?thesis
    using optimistic_lifecycle [OF demo_opt_booted demo_opt_steps(2) p(1)] p(2) st
    by (auto simp: og_get_proposal_def)
qed

text \<open>A proposal that was objected to, or cancelled, is never executed: whatever happens later,
  finalising and executing it fail and change nothing.\<close>

theorem objected_never_executed:
  assumes "opt_booted (s, c)" and "opt_step\<^sup>*\<^sup>* (s, c) (s', c')"
    and "og_get_proposal s pid = Inr p" and "oq_state p = OptObjected \<or> oq_state p = OptCancelled"
  shows "(\<exists>e. og_finalize s' c' pid = (Inl e, s')) \<and> (\<exists>e. og_execute s' pid = (Inl e, s')) \<and>
     (\<exists>p'. og_get_proposal s' pid = Inr p' \<and> oq_state p' \<in> {OptObjected, OptCancelled})"
proof -
  have "opt_holds (NeverPasses pid) (s', c')"
    using opt_holds_run [OF assms(2) opt_booted_inv [OF assms(1)], of "NeverPasses pid"] assms(3,4)
    by (simp add: og_get_proposal_def)
  then obtain p' where "js_get (og_proposals (st_optimisticGovernor s')) pid = Some p'"
    "oq_state p' \<in> {OptObjected, OptCancelled}" by auto
  then show ?thesis by (auto simp: og_finalize_def og_execute_def og_mustGetProposal_def og_get_proposal_def)
qed

theorem objected_never_executed_witness:
  "\<exists>e. og_execute demo_objected 1 = (Inl e, demo_objected)"
proof -
  have "opt_step\<^sup>*\<^sup>* (demo_store, demo_clock 1000) (demo_objected, demo_clock 1000)"
    using demo_opt_steps by (meson r_into_rtranclp rtranclp.rtrancl_into_rtrancl)
  then have run: "opt_booted (demo_objected, demo_clock 1000)"
    unfolding opt_booted_def demo_store_def by blast
  have "map_option oq_state (js_get (og_proposals (st_optimisticGovernor demo_objected)) 1) = Some OptObjected"
    by code_simp
  then obtain p where "og_get_proposal demo_objected 1 = Inr p" "oq_state p = OptObjected"
    by (auto simp: og_get_proposal_def)
  then show ?thesis using objected_never_executed [OF run rtranclp.rtrancl_refl] by blast
qed

text \<open>An accepted objection counts the objector's power at the creation ledger exactly once: the
  objection votes grow by that positive weight, the proposal becomes objected exactly when the
  votes reach the threshold share of the supply, and the same account cannot object to the
  proposal again.\<close>

theorem objection_counts_once:
  assumes "opt_booted (s, c)" and "og_object s c a pid = (Inr (), s1)"
    and "opt_step\<^sup>*\<^sup>* (s1, c) (s', c')"
  shows "(\<exists>p w p1. og_get_proposal s pid = Inr p \<and> og_get_proposal s1 pid = Inr p1 \<and>
       get_past_votes (st_votes s) c a (oq_createdLedger p) = Inr w \<and> 0 < w \<and>
       oq_objectionVotes p1 = oq_objectionVotes p + w \<and>
       (oq_state p1 = OptObjected \<longleftrightarrow> crosses s (oq_objectionVotes p1) (oq_createdLedger p))) \<and>
     (\<exists>e. og_object s' c' a pid = (Inl e, s'))"
proof -
  obtain p w p1 where p: "js_get (og_proposals (st_optimisticGovernor s)) pid = Some p"
      "oq_state p = OptChallengeWindow"
      "get_past_votes (st_votes s) c a (oq_createdLedger p) = Inr w" "0 < w"
    and p1: "p1 = (if crosses s (oq_objectionVotes p + w) (oq_createdLedger p)
             then p\<lparr>oq_objectionVotes := oq_objectionVotes p + w, oq_state := OptObjected\<rparr>
             else p\<lparr>oq_objectionVotes := oq_objectionVotes p + w\<rparr>)"
    and s1: "og_proposals (st_optimisticGovernor s1) = js_set (og_proposals (st_optimisticGovernor s)) pid p1"
      "og_objectorVoted (st_optimisticGovernor s1) = og_objectorVoted (st_optimisticGovernor s) @ [(pid, a)]"
    using og_object_cases [OF assms(2)] by blast
  have inv1: "opt_inv (s1, c)"
    using opt_step_inv [OF opt_step.object [OF assms(2)] opt_booted_inv [OF assms(1)]] by simp
  have "opt_holds (ObjectedBy pid a) (s', c')"
    using opt_holds_run [OF assms(3) inv1, of "ObjectedBy pid a"] s1(2) by simp
  then have "\<exists>e. og_object s' c' a pid = (Inl e, s')"
    using og_object_cases [of s' c' a pid] by (metis fst_conv opt_holds.simps(4) surj_pair)
  moreover have "og_get_proposal s pid = Inr p" "og_get_proposal s1 pid = Inr p1"
    using p(1) s1(1) by (simp_all add: og_get_proposal_def)
  moreover have "oq_objectionVotes p1 = oq_objectionVotes p + w" using p1 by simp
  moreover have "oq_state p1 = OptObjected \<longleftrightarrow> crosses s (oq_objectionVotes p1) (oq_createdLedger p)"
    using p1 p(2) by simp
  ultimately show ?thesis using p by blast
qed

theorem objection_counts_once_witness:
  "\<exists>e. og_object demo_objected (demo_clock 1000) ''bob'' 1 = (Inl e, demo_objected)"
proof -
  have "og_object demo_optimistic (demo_clock 1000) ''bob'' 1 = (Inr (), demo_objected)"
    unfolding demo_objected_def by (rule outcome_eqI) code_simp
  then show ?thesis using objection_counts_once [OF demo_opt_booted] by blast
qed

end
