(* ===== verification/TreasuryStreams.thy ===== *)
theory TreasuryStreams
  imports ProposalBonds
begin

section \<open>Treasury budget streams\<close>

text \<open>
  \<^verbatim>\<open>tools/simulation/src/mock/treasury-executor.ts\<close>: budget streams created and topped up by the
  governor and spent by their owners out of the treasury account. The lemmas show that no stream
  is ever overspent, that its spend records add up to what was spent and respect the cooldown and
  the single spend cap, that the totals per token are the sums over the streams, and that a spend
  moves exactly its amount on the token ledger.
\<close>

subsection \<open>Model\<close>

definition tr_requireSigner :: "address \<Rightarrow> address \<Rightarrow> js_error + unit" where
  "tr_requireSigner caller signer =
     (if caller \<noteq> signer then Inl (JsError ''not authorized'') else Inr ())"

definition tr_requireGovernor :: "MockLedgerStore \<Rightarrow> address \<Rightarrow> js_error + unit" where
  "tr_requireGovernor store caller =
     (if caller \<noteq> tr_governor (st_treasury store) then Inl (JsError ''not authorized'') else Inr ())"

definition loadStream :: "MockLedgerStore \<Rightarrow> int \<Rightarrow> js_error + BudgetStreamRecord" where
  "loadStream store streamId =
     (case js_get (tr_streams (st_treasury store)) streamId of
        None \<Rightarrow> Inl (MockContractError 10)
      | Some stream \<Rightarrow> Inr stream)"

definition addToTotal :: "(address, int) js_map \<Rightarrow> address \<Rightarrow> int \<Rightarrow> (address, int) js_map" where
  "addToTotal m token amount = js_set m token (js_getd 0 m token + amount)"

definition validateSpend ::
  "LedgerClock \<Rightarrow> BudgetStreamRecord \<Rightarrow> address \<Rightarrow> int \<Rightarrow> js_error + unit" where
  "validateSpend clock stream owner amount =
     (if bs_isRevoked stream then Inl (MockContractError 13)
      else if \<not> bs_isActive stream then Inl (MockContractError 11)
      else if owner \<noteq> bs_owner stream then Inl (MockContractError 17)
      else let currentLedger = clock_sequence clock in
      if currentLedger < bs_startLedger stream \<or> currentLedger > bs_endLedger stream
      then Inl (MockContractError 12)
      else if amount \<le> 0 then Inl (JsError ''amount must be positive'')
      else if amount > bs_maxSingleSpend stream then Inl (MockContractError 15)
      else if amount > bs_totalAllocated stream - bs_totalSpent stream then Inl (MockContractError 14)
      else if bs_cooldownLedgers stream > 0 \<and> bs_spendCount stream > 0 \<and>
              currentLedger - bs_lastSpendLedger stream < bs_cooldownLedgers stream
      then Inl (MockContractError 16)
      else Inr ())"

definition transferFromTreasury ::
  "MockLedgerStore \<Rightarrow> address \<Rightarrow> int \<Rightarrow> (unit, MockLedgerStore) outcome" where
  "transferFromTreasury store recipient amount =
     (let treasuryAccount = ad_treasury (st_addresses store);
          balances = tv_balances (st_votes store);
          treasuryBalance = js_getd 0 balances treasuryAccount in
      if treasuryBalance < amount then throws (MockContractError 18) store
      else
        let balances1 = js_set balances treasuryAccount (treasuryBalance - amount);
            balances2 = js_set balances1 recipient (js_getd 0 balances1 recipient + amount)
        in returns () (set_balances store balances2))"

text \<open>The record that \<^verbatim>\<open>create_stream\<close> stores.\<close>

definition new_stream ::
  "int \<Rightarrow> string \<Rightarrow> address \<Rightarrow> address \<Rightarrow> int \<Rightarrow> int \<Rightarrow> int \<Rightarrow> int \<Rightarrow> int \<Rightarrow> int \<Rightarrow> BudgetStreamRecord" where
  "new_stream streamId name owner token totalAllocated startLedger endLedger maxSingleSpend
     cooldownLedgers proposalId =
     \<lparr>bs_id = streamId, bs_name = name, bs_owner = owner, bs_token = token,
      bs_totalAllocated = totalAllocated, bs_totalSpent = 0, bs_startLedger = startLedger,
      bs_endLedger = endLedger, bs_isActive = True, bs_isRevoked = False, bs_revokedAtLedger = None,
      bs_maxSingleSpend = maxSingleSpend, bs_cooldownLedgers = cooldownLedgers,
      bs_lastSpendLedger = 0, bs_spendCount = 0, bs_createdByProposalId = proposalId\<rparr>"

definition set_treasury :: "MockLedgerStore \<Rightarrow> TreasuryState \<Rightarrow> MockLedgerStore" where
  "set_treasury store t = store\<lparr>st_treasury := t\<rparr>"

definition create_stream ::
  "MockLedgerStore \<Rightarrow> LedgerClock \<Rightarrow> address \<Rightarrow> address \<Rightarrow> string \<Rightarrow> address \<Rightarrow> address \<Rightarrow> int \<Rightarrow> int \<Rightarrow>
     int \<Rightarrow> int \<Rightarrow> int \<Rightarrow> int \<Rightarrow> (int, MockLedgerStore) outcome" where
  "create_stream store clock caller signer name owner token totalAllocated startLedger endLedger
     maxSingleSpend cooldownLedgers proposalId =
     (case tr_requireSigner caller signer of Inl e \<Rightarrow> throws e store | Inr _ \<Rightarrow>
      case tr_requireGovernor store signer of Inl e \<Rightarrow> throws e store | Inr _ \<Rightarrow>
      if totalAllocated \<le> 0 then throws (JsError ''allocation must be positive'') store
      else if maxSingleSpend \<le> 0 then throws (JsError ''max single spend must be positive'') store
      else if endLedger \<le> startLedger then throws (MockContractError 20) store
      else if endLedger \<le> clock_sequence clock then throws (MockContractError 12) store
      else
        let t = st_treasury store;
            streamId = tr_streamCount t + 1;
            stream = new_stream streamId name owner token totalAllocated startLedger endLedger
                       maxSingleSpend cooldownLedgers proposalId
        in returns streamId (set_treasury store
             (t\<lparr>tr_streams := js_set (tr_streams t) streamId stream,
                tr_streamCount := streamId,
                tr_tokenList := (if token \<in> set (tr_tokenList t) then tr_tokenList t
                                 else tr_tokenList t @ [token]),
                tr_totalStreamedByToken := addToTotal (tr_totalStreamedByToken t) token totalAllocated\<rparr>)))"

text \<open>The changes of \<^verbatim>\<open>stream_spend\<close> to the stream after the transfer.\<close>

definition spent_stream :: "LedgerClock \<Rightarrow> BudgetStreamRecord \<Rightarrow> int \<Rightarrow> BudgetStreamRecord" where
  "spent_stream clock stream amount =
     stream\<lparr>bs_totalSpent := bs_totalSpent stream + amount,
            bs_lastSpendLedger := clock_sequence clock,
            bs_spendCount := bs_spendCount stream + 1,
            bs_isActive := (if bs_totalAllocated stream - (bs_totalSpent stream + amount) = 0 then False
                            else bs_isActive stream)\<rparr>"

definition stream_spend ::
  "MockLedgerStore \<Rightarrow> LedgerClock \<Rightarrow> address \<Rightarrow> address \<Rightarrow> int \<Rightarrow> address \<Rightarrow> int \<Rightarrow> string \<Rightarrow>
     (unit, MockLedgerStore) outcome" where
  "stream_spend store clock caller owner streamId recipient amount memo =
     (case tr_requireSigner caller owner of Inl e \<Rightarrow> throws e store | Inr _ \<Rightarrow>
      case loadStream store streamId of Inl e \<Rightarrow> throws e store | Inr stream \<Rightarrow>
      case validateSpend clock stream owner amount of Inl e \<Rightarrow> throws e store | Inr _ \<Rightarrow>
      case transferFromTreasury store recipient amount of
        (Inl e, store1) \<Rightarrow> throws e store1
      | (Inr _, store1) \<Rightarrow>
          let t = st_treasury store1;
              records = js_getd [] (tr_spends t) streamId;
              rec = \<lparr>sp_streamId = streamId, sp_spendIndex = int (length records),
                        sp_recipient = recipient, sp_amount = amount, sp_memo = memo,
                        sp_executedAtLedger = clock_sequence clock, sp_executedBy = owner\<rparr>
          in returns () (set_treasury store1
               (t\<lparr>tr_streams := js_set (tr_streams t) streamId (spent_stream clock stream amount),
                  tr_spends := js_set (tr_spends t) streamId (records @ [rec]),
                  tr_totalSpentByToken := addToTotal (tr_totalSpentByToken t) (bs_token stream) amount\<rparr>)))"

text \<open>The changes of \<^verbatim>\<open>top_up_stream\<close> to the stream.\<close>

definition topped_stream :: "LedgerClock \<Rightarrow> BudgetStreamRecord \<Rightarrow> int \<Rightarrow> BudgetStreamRecord" where
  "topped_stream clock stream additionalAmount =
     stream\<lparr>bs_totalAllocated := bs_totalAllocated stream + additionalAmount,
            bs_isActive := (if \<not> bs_isActive stream \<and> \<not> bs_isRevoked stream \<and>
                               clock_sequence clock \<le> bs_endLedger stream
                            then True else bs_isActive stream)\<rparr>"

definition top_up_stream ::
  "MockLedgerStore \<Rightarrow> LedgerClock \<Rightarrow> address \<Rightarrow> address \<Rightarrow> int \<Rightarrow> int \<Rightarrow> (unit, MockLedgerStore) outcome" where
  "top_up_stream store clock caller signer streamId additionalAmount =
     (case tr_requireSigner caller signer of Inl e \<Rightarrow> throws e store | Inr _ \<Rightarrow>
      case tr_requireGovernor store signer of Inl e \<Rightarrow> throws e store | Inr _ \<Rightarrow>
      if additionalAmount \<le> 0 then throws (JsError ''additional must be positive'') store
      else case loadStream store streamId of Inl e \<Rightarrow> throws e store | Inr stream \<Rightarrow>
      if bs_isRevoked stream then throws (MockContractError 13) store
      else
        let t = st_treasury store in
        returns () (set_treasury store
          (t\<lparr>tr_streams := js_set (tr_streams t) streamId (topped_stream clock stream additionalAmount),
             tr_totalStreamedByToken :=
               addToTotal (tr_totalStreamedByToken t) (bs_token stream) additionalAmount\<rparr>)))"

definition get_stream :: "MockLedgerStore \<Rightarrow> int \<Rightarrow> js_error + BudgetStreamRecord" where
  "get_stream store streamId = loadStream store streamId"

fun load_streams :: "MockLedgerStore \<Rightarrow> int list \<Rightarrow> js_error + BudgetStreamRecord list" where
  "load_streams store [] = Inr []"
| "load_streams store (i # is) =
     (case loadStream store i of Inl e \<Rightarrow> Inl e
      | Inr st \<Rightarrow> (case load_streams store is of Inl e \<Rightarrow> Inl e | Inr sts \<Rightarrow> Inr (st # sts)))"

definition get_streams :: "MockLedgerStore \<Rightarrow> int \<Rightarrow> int \<Rightarrow> js_error + BudgetStreamRecord list" where
  "get_streams store offset limit =
     (let count = tr_streamCount (st_treasury store);
          start = min offset count;
          stop = min (start + limit) count
      in load_streams store [start + 1..stop])"

definition get_stream_spends :: "MockLedgerStore \<Rightarrow> int \<Rightarrow> nat \<Rightarrow> nat \<Rightarrow> StreamSpendRecord list" where
  "get_stream_spends store streamId offset limit =
     take limit (drop offset (js_getd [] (tr_spends (st_treasury store)) streamId))"

definition get_stream_remaining :: "MockLedgerStore \<Rightarrow> int \<Rightarrow> js_error + int" where
  "get_stream_remaining store streamId =
     (case loadStream store streamId of Inl e \<Rightarrow> Inl e
      | Inr stream \<Rightarrow> Inr (bs_totalAllocated stream - bs_totalSpent stream))"

record StreamBudgetReportRecord =
  rp_streamId :: int
  rp_name :: string
  rp_totalAllocated :: int
  rp_totalSpent :: int
  rp_remaining :: int
  rp_utilizationBps :: int
  rp_isActive :: bool
  rp_daysRemaining :: int
  rp_spendCount :: int
  rp_avgSpend :: int

definition get_stream_report ::
  "MockLedgerStore \<Rightarrow> LedgerClock \<Rightarrow> int \<Rightarrow> js_error + StreamBudgetReportRecord" where
  "get_stream_report store clock streamId =
     (case loadStream store streamId of Inl e \<Rightarrow> Inl e
      | Inr stream \<Rightarrow>
          let remaining = bs_totalAllocated stream - bs_totalSpent stream;
              utilizationBps = (if bs_totalAllocated stream > 0
                then bdiv (bs_totalSpent stream * 10000) (bs_totalAllocated stream) else 0);
              naturallyExpired = clock_sequence clock > bs_endLedger stream;
              daysRemaining = (if bs_isRevoked stream \<or> naturallyExpired \<or>
                  clock_sequence clock < bs_startLedger stream then 0
                else (bs_endLedger stream - clock_sequence clock) div 17280)
          in Inr \<lparr>rp_streamId = streamId, rp_name = bs_name stream,
                  rp_totalAllocated = bs_totalAllocated stream, rp_totalSpent = bs_totalSpent stream,
                  rp_remaining = remaining, rp_utilizationBps = utilizationBps,
                  rp_isActive = (bs_isActive stream \<and> \<not> bs_isRevoked stream \<and> \<not> naturallyExpired),
                  rp_daysRemaining = daysRemaining, rp_spendCount = bs_spendCount stream,
                  rp_avgSpend = (if bs_spendCount stream > 0
                    then bdiv (bs_totalSpent stream) (bs_spendCount stream) else 0)\<rparr>)"

record TreasuryBudgetSummaryRecord =
  sm_totalStreams :: int
  sm_activeStreams :: int
  sm_totalAllocatedByToken :: "(address \<times> int) list"
  sm_totalSpentByToken :: "(address \<times> int) list"
  sm_totalRemainingByToken :: "(address \<times> int) list"

definition get_budget_summary ::
  "MockLedgerStore \<Rightarrow> LedgerClock \<Rightarrow> TreasuryBudgetSummaryRecord" where
  "get_budget_summary store clock =
     (let t = st_treasury store;
          streams = js_values (tr_streams t);
          activeStreams = length (filter (\<lambda>stream. bs_isActive stream \<and> \<not> bs_isRevoked stream \<and>
                            clock_sequence clock \<le> bs_endLedger stream) streams);
          pair = (\<lambda>m. map (\<lambda>token. (token, js_getd 0 m token)) (tr_tokenList t))
      in \<lparr>sm_totalStreams = int (length streams), sm_activeStreams = int activeStreams,
          sm_totalAllocatedByToken = pair (tr_totalStreamedByToken t),
          sm_totalSpentByToken = pair (tr_totalSpentByToken t),
          sm_totalRemainingByToken =
            map (\<lambda>token. (token, js_getd 0 (tr_totalStreamedByToken t) token -
                                 js_getd 0 (tr_totalSpentByToken t) token)) (tr_tokenList t)\<rparr>)"

lemmas treasury_op_defs = create_stream_def stream_spend_def top_up_stream_def

subsection \<open>Payments out of the treasury\<close>

interpretation treasury_pay: token_transfer balance_of ledger_total "\<lambda>s. ad_treasury (st_addresses s)"
  transferFromTreasury
proof unfold_locales
  fix n s to u s' a
  show "n \<le> balance_of s (ad_treasury (st_addresses s)) \<Longrightarrow> fst (transferFromTreasury s to n) = Inr ()"
    by (simp add: transferFromTreasury_def balance_of_def Let_def)
  show "balance_of s (ad_treasury (st_addresses s)) < n \<Longrightarrow> \<exists>e. transferFromTreasury s to n = (Inl e, s)"
    by (simp add: transferFromTreasury_def balance_of_def Let_def)
  assume ok: "transferFromTreasury s to n = (Inr u, s')"
  then show "balance_of s' a = balance_of s a - (if a = ad_treasury (st_addresses s) then n else 0) +
      (if a = to then n else 0)"
    by (auto simp: transferFromTreasury_def balance_of_def [of s] Let_def split: if_splits)
  show "ledger_total s' = ledger_total s"
    using ok by (auto simp: transferFromTreasury_def ledger_total_def [of s] js_sum_set Let_def split: if_splits)
  show "ad_treasury (st_addresses s') = ad_treasury (st_addresses s)"
    using ok by (auto simp: transferFromTreasury_def Let_def split: if_splits)
qed

subsection \<open>The invariant of the treasury\<close>

definition stream_ok :: "TreasuryState \<Rightarrow> int \<Rightarrow> BudgetStreamRecord \<Rightarrow> bool" where
  "stream_ok t i st \<longleftrightarrow>
     (let rs = js_getd [] (tr_spends t) i in
      i \<le> tr_streamCount t \<and> 0 \<le> bs_totalSpent st \<and> bs_totalSpent st \<le> bs_totalAllocated st \<and>
      (bs_isActive st \<longrightarrow> bs_totalSpent st < bs_totalAllocated st) \<and>
      bs_spendCount st = int (length rs) \<and> bs_totalSpent st = sum_list (map sp_amount rs) \<and>
      (\<forall>r \<in> set rs. 0 < sp_amount r \<and> sp_amount r \<le> bs_maxSingleSpend st) \<and>
      (rs \<noteq> [] \<longrightarrow> bs_lastSpendLedger st = sp_executedAtLedger (last rs)) \<and>
      (0 < bs_cooldownLedgers st \<longrightarrow>
         successively (\<lambda>a b. sp_executedAtLedger a + bs_cooldownLedgers st \<le> sp_executedAtLedger b) rs))"

definition token_total :: "(BudgetStreamRecord \<Rightarrow> int) \<Rightarrow> TreasuryState \<Rightarrow> address \<Rightarrow> int" where
  "token_total f t tok = js_wsum (\<lambda>i st. if bs_token st = tok then f st else 0) (tr_streams t)"

definition treasury_ok :: "TreasuryState \<Rightarrow> bool" where
  "treasury_ok t \<longleftrightarrow>
     (\<forall>i st. js_get (tr_streams t) i = Some st \<longrightarrow> stream_ok t i st \<and> bs_token st \<in> set (tr_tokenList t)) \<and>
     (\<forall>i. tr_streamCount t < i \<longrightarrow> js_getd [] (tr_spends t) i = []) \<and>
     (\<forall>tok. js_getd 0 (tr_totalStreamedByToken t) tok = token_total bs_totalAllocated t tok) \<and>
     (\<forall>tok. js_getd 0 (tr_totalSpentByToken t) tok = token_total bs_totalSpent t tok) \<and>
     distinct (tr_tokenList t)"

lemma loadStream_Inr [simp]:
  "loadStream s i = Inr st \<longleftrightarrow> js_get (tr_streams (st_treasury s)) i = Some st"
  by (auto simp: loadStream_def split: option.splits)

lemma set_treasury_simps [simp]:
  "st_treasury (set_treasury s t) = t" "st_votes (set_treasury s t) = st_votes s"
  "st_governor (set_treasury s t) = st_governor s" "st_timelock (set_treasury s t) = st_timelock s"
  "st_addresses (set_treasury s t) = st_addresses s" "st_proposalBonds (set_treasury s t) = st_proposalBonds s"
  "st_coSponsorship (set_treasury s t) = st_coSponsorship s"
  "st_convictionVoting (set_treasury s t) = st_convictionVoting s"
  "st_optimisticGovernor (set_treasury s t) = st_optimisticGovernor s"
  "balance_of (set_treasury s t) a = balance_of s a" "ledger_total (set_treasury s t) = ledger_total s"
  by (simp_all add: set_treasury_def balance_of_def ledger_total_def)

lemma js_getd_addToTotal:
  "js_getd 0 (addToTotal m tok n) k = js_getd 0 m k + (if k = tok then n else 0)"
  by (simp add: addToTotal_def)

lemma token_total_set:
  "token_total f (t\<lparr>tr_streams := js_set (tr_streams t) i st\<rparr>) tok =
     token_total f t tok
     - (case js_get (tr_streams t) i of None \<Rightarrow> 0 | Some old \<Rightarrow> if bs_token old = tok then f old else 0)
     + (if bs_token st = tok then f st else 0)"
  by (simp add: token_total_def js_wsum_set)

lemma token_total_cong:
  "tr_streams t' = tr_streams t \<Longrightarrow> token_total f t' tok = token_total f t tok"
  by (simp add: token_total_def)

lemma create_stream_cases:
  assumes "create_stream s clock caller sg nm ow tok al st en mx cd pid = (r, s')"
  shows "(\<exists>e. r = Inl e \<and> s' = s) \<or>
    (let t = st_treasury s; i = tr_streamCount t + 1 in
     r = Inr i \<and> caller = sg \<and> sg = tr_governor t \<and> 0 < al \<and> 0 < mx \<and> st < en \<and> clock_sequence clock < en \<and>
     s' = set_treasury s
       (t\<lparr>tr_streams := js_set (tr_streams t) i (new_stream i nm ow tok al st en mx cd pid),
          tr_streamCount := i,
          tr_tokenList := (if tok \<in> set (tr_tokenList t) then tr_tokenList t else tr_tokenList t @ [tok]),
          tr_totalStreamedByToken := addToTotal (tr_totalStreamedByToken t) tok al\<rparr>))"
  using assms
  by (auto simp: create_stream_def tr_requireSigner_def tr_requireGovernor_def Let_def split: if_splits)

lemma validateSpend_ok:
  "validateSpend clock st ow n = Inr u \<longleftrightarrow>
     \<not> bs_isRevoked st \<and> bs_isActive st \<and> ow = bs_owner st \<and>
     bs_startLedger st \<le> clock_sequence clock \<and> clock_sequence clock \<le> bs_endLedger st \<and>
     0 < n \<and> n \<le> bs_maxSingleSpend st \<and> n \<le> bs_totalAllocated st - bs_totalSpent st \<and>
     (0 < bs_cooldownLedgers st \<and> 0 < bs_spendCount st \<longrightarrow>
        bs_lastSpendLedger st + bs_cooldownLedgers st \<le> clock_sequence clock)"
  by (auto simp: validateSpend_def Let_def)

definition spend_record :: "LedgerClock \<Rightarrow> int \<Rightarrow> StreamSpendRecord list \<Rightarrow> address \<Rightarrow> int \<Rightarrow> string \<Rightarrow> address \<Rightarrow> StreamSpendRecord" where
  "spend_record clock i rs rcpt n memo ow =
     \<lparr>sp_streamId = i, sp_spendIndex = int (length rs), sp_recipient = rcpt, sp_amount = n, sp_memo = memo,
      sp_executedAtLedger = clock_sequence clock, sp_executedBy = ow\<rparr>"

lemma transferFromTreasury_cases:
  "transferFromTreasury s to n = (r, s') \<Longrightarrow>
     (\<exists>e. r = Inl e \<and> s' = s) \<or> (r = Inr () \<and> (\<exists>m. s' = set_balances s m))"
  by (auto simp: transferFromTreasury_def Let_def split: if_splits)

lemma stream_spend_cases:
  assumes "stream_spend s clock caller ow i rcpt n memo = (r, s')"
  shows "(\<exists>e. r = Inl e \<and> s' = s) \<or>
    (\<exists>st m. r = Inr () \<and> caller = ow \<and> js_get (tr_streams (st_treasury s)) i = Some st \<and>
       validateSpend clock st ow n = Inr () \<and>
       transferFromTreasury s rcpt n = (Inr (), set_balances s m) \<and>
       (let t = st_treasury s; rs = js_getd [] (tr_spends t) i in
        s' = set_treasury (set_balances s m)
          (t\<lparr>tr_streams := js_set (tr_streams t) i (spent_stream clock st n),
             tr_spends := js_set (tr_spends t) i (rs @ [spend_record clock i rs rcpt n memo ow]),
             tr_totalSpentByToken := addToTotal (tr_totalSpentByToken t) (bs_token st) n\<rparr>)))"
proof (cases "loadStream s i")
  case (Inl e)
  then show ?thesis using assms by (auto simp: stream_spend_def tr_requireSigner_def split: if_splits)
next
  case (Inr st)
  obtain q s1 where paid: "transferFromTreasury s rcpt n = (q, s1)" by (metis surj_pair)
  note out = assms [unfolded stream_spend_def Inr sum.case paid prod.case]
  show ?thesis
  proof (cases "validateSpend clock st ow n")
    case (Inl e)
    have "\<exists>e. r = Inl e \<and> s' = s"
      using out [unfolded Inl sum.case] by (auto simp: tr_requireSigner_def split: if_splits)
    then show ?thesis by simp
  next
    case v: (Inr v)
    show ?thesis
    proof (cases q)
      case (Inl e)
      then have "s1 = s" using transferFromTreasury_cases [OF paid] by auto
      then show ?thesis using out Inl v by (auto simp: tr_requireSigner_def split: if_splits)
    next
      case q: (Inr u)
      then obtain m where "s1 = set_balances s m" using transferFromTreasury_cases [OF paid] by auto
      then show ?thesis
        using out q v paid Inr
        by (auto simp: tr_requireSigner_def spend_record_def Let_def split: if_splits)
    qed
  qed
qed

lemma top_up_stream_cases:
  assumes "top_up_stream s clock caller sg i n = (r, s')"
  shows "(\<exists>e. r = Inl e \<and> s' = s) \<or>
    (\<exists>st. r = Inr () \<and> caller = sg \<and> sg = tr_governor (st_treasury s) \<and> 0 < n \<and>
       js_get (tr_streams (st_treasury s)) i = Some st \<and> \<not> bs_isRevoked st \<and>
       (let t = st_treasury s in
        s' = set_treasury s
          (t\<lparr>tr_streams := js_set (tr_streams t) i (topped_stream clock st n),
             tr_totalStreamedByToken := addToTotal (tr_totalStreamedByToken t) (bs_token st) n\<rparr>)))"
  using assms
  by (auto simp: top_up_stream_def tr_requireSigner_def tr_requireGovernor_def Let_def
      split: if_splits sum.splits)

lemma spent_stream_simps [simp]:
  "bs_token (spent_stream clock st n) = bs_token st"
  "bs_totalAllocated (spent_stream clock st n) = bs_totalAllocated st"
  "bs_totalSpent (spent_stream clock st n) = bs_totalSpent st + n"
  by (simp_all add: spent_stream_def)

lemma topped_stream_simps [simp]:
  "bs_token (topped_stream clock st n) = bs_token st"
  "bs_totalAllocated (topped_stream clock st n) = bs_totalAllocated st + n"
  "bs_totalSpent (topped_stream clock st n) = bs_totalSpent st"
  by (simp_all add: topped_stream_def)

text \<open>Preservation, one lemma per part of the invariant that a call touches.\<close>

lemma stream_ok_cong:
  "tr_spends t' = tr_spends t \<Longrightarrow> tr_streamCount t \<le> tr_streamCount t' \<Longrightarrow> stream_ok t i st \<Longrightarrow> stream_ok t' i st"
  by (auto simp: stream_ok_def Let_def)

lemma new_stream_ok:
  "js_getd [] (tr_spends t) i = [] \<Longrightarrow> i \<le> tr_streamCount t \<Longrightarrow> 0 < al \<Longrightarrow>
     stream_ok t i (new_stream i nm ow tok al st en mx cd pid)"
  by (simp add: stream_ok_def new_stream_def)

lemma topped_stream_ok: "0 < n \<Longrightarrow> stream_ok t i st \<Longrightarrow> stream_ok t i (topped_stream clock st n)"
  by (auto simp: stream_ok_def topped_stream_def Let_def)

lemma successively_snoc:
  "successively P (xs @ [x]) \<longleftrightarrow> successively P xs \<and> (xs \<noteq> [] \<longrightarrow> P (last xs) x)"
  by (auto simp: successively_append_iff)

lemma spent_stream_ok:
  assumes "stream_ok t i st" and "validateSpend clock st ow n = Inr ()"
    and "tr_spends t' = js_set (tr_spends t) i
      (js_getd [] (tr_spends t) i @ [spend_record clock i (js_getd [] (tr_spends t) i) rcpt n memo ow])"
    and "tr_streamCount t' = tr_streamCount t"
  shows "stream_ok t' i (spent_stream clock st n)"
  using assms
  by (auto simp: stream_ok_def spent_stream_def spend_record_def validateSpend_ok Let_def successively_snoc)

lemma treasury_ok_stream:
  "treasury_ok t \<Longrightarrow> js_get (tr_streams t) i = Some st \<Longrightarrow> stream_ok t i st \<and> bs_token st \<in> set (tr_tokenList t)"
  by (simp add: treasury_ok_def)

lemma create_stream_ok:
  assumes "create_stream s clock caller sg nm ow tok al st en mx cd pid = (r, s')" "treasury_ok (st_treasury s)"
  shows "treasury_ok (st_treasury s')"
proof (cases "s' = s")
  case True
  then show ?thesis using assms(2) by simp
next
  case False
  define t where "t = st_treasury s"
  define i where "i = tr_streamCount t + 1"
  define n where "n = new_stream i nm ow tok al st en mx cd pid"
  have al: "0 < al" and s': "st_treasury s' = t\<lparr>tr_streams := js_set (tr_streams t) i n,
      tr_streamCount := i,
      tr_tokenList := (if tok \<in> set (tr_tokenList t) then tr_tokenList t else tr_tokenList t @ [tok]),
      tr_totalStreamedByToken := addToTotal (tr_totalStreamedByToken t) tok al\<rparr>"
    using create_stream_cases [OF assms(1)] False by (auto simp: t_def i_def n_def Let_def)
  have ok: "treasury_ok t" using assms(2) by (simp add: t_def)
  have fresh: "js_get (tr_streams t) i = None"
    using treasury_ok_stream [OF ok, of i] by (cases "js_get (tr_streams t) i") (auto simp: stream_ok_def i_def Let_def)
  have empty: "js_getd [] (tr_spends t) i = []" using ok by (simp add: treasury_ok_def i_def)
  have tot: "token_total f (st_treasury s') k = token_total f t k + (if tok = k then f n else 0)" for f k
    using token_total_set [of f t i n k] fresh
    by (simp add: s' token_total_def n_def new_stream_def)
  have str: "stream_ok (st_treasury s') j x \<and> bs_token x \<in> set (tr_tokenList (st_treasury s'))"
    if "js_get (tr_streams (st_treasury s')) j = Some x" for j x
  proof (cases "j = i")
    case True
    then have "x = n" using that by (simp add: s')
    moreover have "stream_ok (st_treasury s') i n"
      unfolding n_def using al empty by (intro new_stream_ok) (simp_all add: s')
    ultimately show ?thesis using True by (simp add: s' n_def new_stream_def)
  next
    case False
    then have "js_get (tr_streams t) j = Some x" using that by (simp add: s')
    then show ?thesis
      using treasury_ok_stream [OF ok] by (auto simp: s' i_def intro: stream_ok_cong [of _ t])
  qed
  show ?thesis
    unfolding treasury_ok_def
  proof (intro conjI allI impI)
    fix j assume "tr_streamCount (st_treasury s') < j"
    then show "js_getd [] (tr_spends (st_treasury s')) j = []"
      using ok by (simp add: s' i_def treasury_ok_def)
  next
    fix k
    show "js_getd 0 (tr_totalStreamedByToken (st_treasury s')) k = token_total bs_totalAllocated (st_treasury s') k"
      unfolding tot using ok by (simp add: js_getd_addToTotal s' treasury_ok_def n_def new_stream_def)
    show "js_getd 0 (tr_totalSpentByToken (st_treasury s')) k = token_total bs_totalSpent (st_treasury s') k"
      unfolding tot using ok by (simp add: s' treasury_ok_def n_def new_stream_def)
  next
    show "distinct (tr_tokenList (st_treasury s'))" using ok by (simp add: s' treasury_ok_def)
  next
    fix j x assume "js_get (tr_streams (st_treasury s')) j = Some x"
    from str [OF this] show "stream_ok (st_treasury s') j x" "bs_token x \<in> set (tr_tokenList (st_treasury s'))"
      by simp_all
  qed
qed

text \<open>Both remaining calls replace one existing stream by one with the same token and the same count
  of streams.\<close>

lemma update_stream_ok:
  assumes ok: "treasury_ok t" and old: "js_get (tr_streams t) i = Some st"
    and tok: "bs_token st' = bs_token st" and new: "stream_ok t' i st'"
    and t': "tr_streams t' = js_set (tr_streams t) i st'" "tr_streamCount t' = tr_streamCount t"
      "tr_tokenList t' = tr_tokenList t" "tr_spends t' = js_set (tr_spends t) i rs \<or> tr_spends t' = tr_spends t"
    and str: "\<And>k. js_getd 0 (tr_totalStreamedByToken t') k = js_getd 0 (tr_totalStreamedByToken t) k +
      (if k = bs_token st then bs_totalAllocated st' - bs_totalAllocated st else 0)"
    and sp: "\<And>k. js_getd 0 (tr_totalSpentByToken t') k = js_getd 0 (tr_totalSpentByToken t) k +
      (if k = bs_token st then bs_totalSpent st' - bs_totalSpent st else 0)"
  shows "treasury_ok t'"
proof -
  have tot: "token_total f t' k = token_total f t k + (if k = bs_token st then f st' - f st else 0)" for f k
    using token_total_set [of f t i st' k] old tok by (simp add: token_total_def t')
  have i: "i \<le> tr_streamCount t" using treasury_ok_stream [OF ok old] by (simp add: stream_ok_def Let_def)
  have others: "stream_ok t' j x" if "js_get (tr_streams t) j = Some x" "j \<noteq> i" for j x
  proof -
    have "stream_ok t j x" using treasury_ok_stream [OF ok that(1)] by simp
    moreover have "js_getd [] (tr_spends t') j = js_getd [] (tr_spends t) j" using t'(4) that(2) by auto
    ultimately show ?thesis by (simp add: stream_ok_def t'(2))
  qed
  show ?thesis
    unfolding treasury_ok_def
  proof (intro conjI allI impI)
    fix j x
    assume "js_get (tr_streams t') j = Some x"
    then have cases: "j = i \<and> x = st' \<or> j \<noteq> i \<and> js_get (tr_streams t) j = Some x"
      by (simp add: t' split: if_splits)
    then show "stream_ok t' j x" using new others by auto
    show "bs_token x \<in> set (tr_tokenList t')"
      using cases treasury_ok_stream [OF ok] old tok by (auto simp: t')
  next
    fix j assume "tr_streamCount t' < j"
    then show "js_getd [] (tr_spends t') j = []" using ok i t'(2,4) by (auto simp: treasury_ok_def)
  next
    fix k
    show "js_getd 0 (tr_totalStreamedByToken t') k = token_total bs_totalAllocated t' k"
      using ok by (simp add: tot str treasury_ok_def)
    show "js_getd 0 (tr_totalSpentByToken t') k = token_total bs_totalSpent t' k"
      using ok by (simp add: tot sp treasury_ok_def)
  next
    show "distinct (tr_tokenList t')" using ok by (simp add: t' treasury_ok_def)
  qed
qed

lemma stream_spend_ok:
  assumes "stream_spend s clock caller ow i rcpt n memo = (r, s')" "treasury_ok (st_treasury s)"
  shows "treasury_ok (st_treasury s')"
proof (cases "s' = s")
  case True
  then show ?thesis using assms(2) by simp
next
  case False
  define t where "t = st_treasury s"
  define rs where "rs = js_getd [] (tr_spends t) i"
  obtain st where st: "js_get (tr_streams t) i = Some st" and v: "validateSpend clock st ow n = Inr ()"
    and s': "st_treasury s' = t\<lparr>tr_streams := js_set (tr_streams t) i (spent_stream clock st n),
       tr_spends := js_set (tr_spends t) i (rs @ [spend_record clock i rs rcpt n memo ow]),
       tr_totalSpentByToken := addToTotal (tr_totalSpentByToken t) (bs_token st) n\<rparr>"
    using stream_spend_cases [OF assms(1)] False by (auto simp: Let_def t_def rs_def)
  have ok: "treasury_ok t" using assms(2) by (simp add: t_def)
  have "stream_ok (st_treasury s') i (spent_stream clock st n)"
    using treasury_ok_stream [OF ok st] v
    by (intro spent_stream_ok [where t = t and ow = ow and rcpt = rcpt and memo = memo]) (simp_all add: s' rs_def)
  then show ?thesis
    by (intro update_stream_ok [OF ok st, where st' = "spent_stream clock st n" and rs = "rs @ [spend_record clock i rs rcpt n memo ow]"])
      (simp_all add: s' js_getd_addToTotal)
qed

lemma top_up_stream_ok:
  assumes "top_up_stream s clock caller sg i n = (r, s')" "treasury_ok (st_treasury s)"
  shows "treasury_ok (st_treasury s')"
proof (cases "s' = s")
  case True
  then show ?thesis using assms(2) by simp
next
  case False
  define t where "t = st_treasury s"
  obtain st where st: "js_get (tr_streams t) i = Some st" and n: "0 < n"
    and s': "st_treasury s' = t\<lparr>tr_streams := js_set (tr_streams t) i (topped_stream clock st n),
       tr_totalStreamedByToken := addToTotal (tr_totalStreamedByToken t) (bs_token st) n\<rparr>"
    using top_up_stream_cases [OF assms(1)] False by (auto simp: Let_def t_def)
  have ok: "treasury_ok t" using assms(2) by (simp add: t_def)
  have "stream_ok t i (topped_stream clock st n)"
    using treasury_ok_stream [OF ok st] n by (intro topped_stream_ok) simp_all
  then have "stream_ok (st_treasury s') i (topped_stream clock st n)"
    by (rule stream_ok_cong [rotated 2]) (simp_all add: s')
  then show ?thesis
    by (intro update_stream_ok [OF ok st, where st' = "topped_stream clock st n"])
      (simp_all add: s' js_getd_addToTotal)
qed

subsection \<open>Runs\<close>

inductive treasury_step :: "MockLedgerStore \<Rightarrow> MockLedgerStore \<Rightarrow> bool" where
  create: "create_stream s clock caller sg nm ow tok al st en mx cd pid = (ri, s') \<Longrightarrow> treasury_step s s'"
| spend: "stream_spend s clock caller ow i rcpt n memo = (r, s') \<Longrightarrow> treasury_step s s'"
| top_up: "top_up_stream s clock caller sg i n = (r, s') \<Longrightarrow> treasury_step s s'"
| other: "st_treasury s' = st_treasury s \<Longrightarrow> treasury_step s s'"

interpretation budgeting: stepwise_invariant treasury_step "\<lambda>s. treasury_ok (st_treasury s)"
proof unfold_locales
  fix s s'
  assume "treasury_step s s'" "treasury_ok (st_treasury s)"
  then show "treasury_ok (st_treasury s')"
    by cases (erule (1) create_stream_ok stream_spend_ok top_up_stream_ok | simp)+
qed

lemma treasury_ok_boot: "treasury_ok (st_treasury (buildStore g a c config))"
  by (simp add: treasury_ok_def buildStore_def Let_def token_total_def)

subsection \<open>Properties\<close>

text \<open>C31: In every run from a booted store no stream is overspent: what was spent is between zero and
  the allocation and is the sum of the recorded spends, whose number is the spend count; every
  single spend is positive and within the cap; and consecutive spends are at least the cooldown
  apart.\<close>

theorem streams_never_overspent:
  assumes "treasury_step\<^sup>*\<^sup>* (buildStore g addresses clock config) s" and "get_stream s i = Inr st"
  shows "0 \<le> bs_totalSpent st \<and> bs_totalSpent st \<le> bs_totalAllocated st \<and>
     (let rs = js_getd [] (tr_spends (st_treasury s)) i in
      bs_totalSpent st = sum_list (map sp_amount rs) \<and> bs_spendCount st = int (length rs) \<and>
      (\<forall>r \<in> set rs. 0 < sp_amount r \<and> sp_amount r \<le> bs_maxSingleSpend st) \<and>
      (0 < bs_cooldownLedgers st \<longrightarrow> (\<forall>k. Suc k < length rs \<longrightarrow>
         sp_executedAtLedger (rs ! k) + bs_cooldownLedgers st \<le> sp_executedAtLedger (rs ! Suc k))))"
proof -
  have "stream_ok (st_treasury s) i st"
    using budgeting.reach_inv [OF assms(1) treasury_ok_boot] assms(2)
    by (simp add: treasury_ok_def get_stream_def)
  then show ?thesis by (simp add: stream_ok_def Let_def successively_conv_nth)
qed

definition demo_stream :: MockLedgerStore where
  "demo_stream = snd (create_stream demo_store (demo_clock 1000) ''alice'' ''alice'' ''ops'' ''bob'' ''C3'' 100
     900 2000 60 10 1)"

definition demo_spent :: MockLedgerStore where
  "demo_spent = snd (stream_spend demo_stream (demo_clock 1005) ''bob'' ''bob'' 1 ''carol'' 60 ''m'')"

lemma demo_treasury_run: "treasury_step\<^sup>*\<^sup>* demo_store demo_spent"
proof -
  have "treasury_step demo_store demo_stream"
    unfolding demo_stream_def by (rule treasury_step.create, rule prod.collapse [symmetric])
  moreover have "treasury_step demo_stream demo_spent"
    unfolding demo_spent_def by (rule treasury_step.spend, rule prod.collapse [symmetric])
  ultimately show ?thesis by (simp add: converse_rtranclp_into_rtranclp)
qed

theorem streams_never_overspent_witness:
  "\<exists>st. get_stream demo_spent 1 = Inr st \<and> bs_totalSpent st = 60 \<and> bs_totalSpent st \<le> bs_totalAllocated st"
proof -
  have "map_option bs_totalSpent (js_get (tr_streams (st_treasury demo_spent)) 1) = Some 60" by code_simp
  then obtain st where "get_stream demo_spent 1 = Inr st" "bs_totalSpent st = 60"
    by (auto simp: get_stream_def)
  then show ?thesis
    using streams_never_overspent [OF demo_treasury_run [unfolded demo_store_def]] by blast
qed

text \<open>The budget summary is correct in every run from a booted store: for each token of the list the
  reported allocation, spending and remainder are the sums over the streams of that token, and
  the list names the token of every stream exactly once.\<close>

theorem budget_summary_correct:
  assumes "treasury_step\<^sup>*\<^sup>* (buildStore g addresses clock config) s"
  shows "(\<forall>(tok, n) \<in> set (sm_totalAllocatedByToken (get_budget_summary s c)).
        n = token_total bs_totalAllocated (st_treasury s) tok) \<and>
     (\<forall>(tok, n) \<in> set (sm_totalSpentByToken (get_budget_summary s c)).
        n = token_total bs_totalSpent (st_treasury s) tok) \<and>
     (\<forall>(tok, n) \<in> set (sm_totalRemainingByToken (get_budget_summary s c)).
        n = token_total (\<lambda>st. bs_totalAllocated st - bs_totalSpent st) (st_treasury s) tok) \<and>
     distinct (map fst (sm_totalAllocatedByToken (get_budget_summary s c))) \<and>
     (\<forall>i st. get_stream s i = Inr st \<longrightarrow>
        bs_token st \<in> set (map fst (sm_totalAllocatedByToken (get_budget_summary s c))))"
proof -
  have ok: "treasury_ok (st_treasury s)"
    using budgeting.reach_inv [OF assms treasury_ok_boot] .
  have diff: "token_total (\<lambda>st. bs_totalAllocated st - bs_totalSpent st) t tok =
      token_total bs_totalAllocated t tok - token_total bs_totalSpent t tok" for t tok
    unfolding token_total_def js_wsum_def by (induction "tr_streams t" arbitrary: t rule: list.induct)
      (auto simp: sum_list_subtractf [symmetric] intro!: arg_cong [where f = sum_list])
  show ?thesis
    using ok by (auto simp: get_budget_summary_def Let_def treasury_ok_def diff get_stream_def o_def)
qed

theorem budget_summary_correct_witness:
  "sm_totalRemainingByToken (get_budget_summary demo_spent (demo_clock 1006)) = [(''C3'', 40)] \<and>
   token_total (\<lambda>st. bs_totalAllocated st - bs_totalSpent st) (st_treasury demo_spent) ''C3'' = 40"
proof
  show list: "sm_totalRemainingByToken (get_budget_summary demo_spent (demo_clock 1006)) = [(''C3'', 40)]"
    by code_simp
  have "\<forall>(tok, n) \<in> set (sm_totalRemainingByToken (get_budget_summary demo_spent (demo_clock 1006))).
        n = token_total (\<lambda>st. bs_totalAllocated st - bs_totalSpent st) (st_treasury demo_spent) tok"
    using budget_summary_correct [OF demo_treasury_run [unfolded demo_store_def]] by blast
  then show "token_total (\<lambda>st. bs_totalAllocated st - bs_totalSpent st) (st_treasury demo_spent) ''C3'' = 40"
    using list by simp
qed

text \<open>A spend succeeds exactly when its owner calls it on a live, active stream inside its ledger
  range, with a positive amount within the cap and the remaining budget, after the cooldown, and
  the treasury holds the money. It moves exactly that amount from the treasury to the recipient
  and conserves the supply; a failed spend changes nothing.\<close>

theorem stream_spend_iff:
  assumes "stream_spend s clock caller owner i recipient amount memo = (r, s')"
  shows "(r = Inr () \<longleftrightarrow>
      (\<exists>st. get_stream s i = Inr st \<and> caller = owner \<and> owner = bs_owner st \<and>
         bs_isActive st \<and> \<not> bs_isRevoked st \<and>
         bs_startLedger st \<le> clock_sequence clock \<and> clock_sequence clock \<le> bs_endLedger st \<and>
         0 < amount \<and> amount \<le> bs_maxSingleSpend st \<and> amount \<le> bs_totalAllocated st - bs_totalSpent st \<and>
         (0 < bs_cooldownLedgers st \<and> 0 < bs_spendCount st \<longrightarrow>
            bs_lastSpendLedger st + bs_cooldownLedgers st \<le> clock_sequence clock) \<and>
         amount \<le> balance_of s (ad_treasury (st_addresses s)))) \<and>
     (r = Inr () \<longrightarrow> balance_of s' a = balance_of s a
        - (if a = ad_treasury (st_addresses s) then amount else 0) + (if a = recipient then amount else 0)) \<and>
     (r \<noteq> Inr () \<longrightarrow> s' = s) \<and> ledger_total s' = ledger_total s"
proof (cases "\<exists>e. r = Inl e \<and> s' = s")
  case True
  then obtain e where e: "r = Inl e" "s' = s" by blast
  have "\<not> (get_stream s i = Inr st \<and> caller = owner \<and> validateSpend clock st owner amount = Inr () \<and>
      amount \<le> balance_of s (ad_treasury (st_addresses s)))" for st
  proof
    assume h: "get_stream s i = Inr st \<and> caller = owner \<and> validateSpend clock st owner amount = Inr () \<and>
      amount \<le> balance_of s (ad_treasury (st_addresses s))"
    then obtain s1 where "transferFromTreasury s recipient amount = (Inr (), s1)"
      using treasury_pay.pay_succeeds [of amount s recipient] by (metis prod.collapse)
    then show False
      using assms e h by (simp add: stream_spend_def get_stream_def tr_requireSigner_def loadStream_def
          Let_def split: option.splits)
  qed
  then show ?thesis using e unfolding validateSpend_ok by auto
next
  case False
  then obtain st m where ok: "r = Inr ()" "caller = owner" "js_get (tr_streams (st_treasury s)) i = Some st"
      "validateSpend clock st owner amount = Inr ()"
    and paid: "transferFromTreasury s recipient amount = (Inr (), set_balances s m)"
    and s': "\<exists>t. s' = set_treasury (set_balances s m) t"
    using stream_spend_cases [OF assms] by (auto simp: Let_def)
  have "balance_of s' a = balance_of (set_balances s m) a" "ledger_total s' = ledger_total (set_balances s m)"
    using s' by auto
  then show ?thesis
    using ok treasury_pay.pay_balance [OF paid, of a] treasury_pay.pay_supply [OF paid]
      treasury_pay.pay_covered [OF paid]
    unfolding validateSpend_ok get_stream_def by auto
qed

theorem stream_spend_iff_witness:
  "balance_of demo_spent ''carol'' = 60 \<and> ledger_total demo_spent = 1500"
proof -
  have run: "stream_spend demo_stream (demo_clock 1005) ''bob'' ''bob'' 1 ''carol'' 60 ''m'' = (Inr (), demo_spent)"
    unfolding demo_spent_def by (rule outcome_eqI) code_simp
  have "balance_of demo_stream ''carol'' = 0" "ledger_total demo_stream = 1500"
    "ad_treasury (st_addresses demo_stream) = ''C6''" by code_simp+
  then show ?thesis using stream_spend_iff [OF run, of "''carol''"] by simp
qed

end
