(* ===== verification/ConvictionVoting.thy ===== *)
theory ConvictionVoting
  imports ProposalBonds
begin

section \<open>Conviction voting\<close>

text \<open>
  \<^verbatim>\<open>tools/simulation/src/mock/conviction-voting-executor.ts\<close>: holders stake voting power on one
  proposal at a time, the conviction of a proposal follows its stake with exponential decay in
  fixed-point arithmetic, and a checkpoint executes the proposal once its conviction reaches a
  threshold that grows with the requested amount. The lemmas bound the fixed-point power and the
  conviction, show that the bookkeeping of stakes is consistent, and that every proposal is
  executed at most once.
\<close>

subsection \<open>Fixed-point arithmetic\<close>

definition CV_BPS :: int where "CV_BPS = 10000"
definition I128_MAX :: int where "I128_MAX = 2 ^ 127 - 1"

text \<open>The conversion that \<^verbatim>\<open>>>\<close> and \<^verbatim>\<open>&\<close> apply to a \<^verbatim>\<open>number\<close>.\<close>

definition to_int32 :: "int \<Rightarrow> int" where
  "to_int32 e = (e + 2 ^ 31) mod 2 ^ 32 - 2 ^ 31"

lemma to_int32_half_less: "0 < e \<Longrightarrow> to_int32 e div 2 < e"
proof -
  assume e: "0 < e"
  show "to_int32 e div 2 < e"
  proof (cases "e < 2 ^ 31")
    case True
    then have "to_int32 e = e" using e by (simp add: to_int32_def)
    then show ?thesis using e by simp
  next
    case False
    have "(e + 2 ^ 31) mod 2 ^ 32 < 2 ^ 32" by simp
    then have "to_int32 e < 2 ^ 31" unfolding to_int32_def by simp
    then show ?thesis using False e by linarith
  qed
qed

function powBps_loop :: "int \<Rightarrow> int \<Rightarrow> int \<Rightarrow> int" where
  "powBps_loop result b e =
     (if e > 0 then
        let result' = (if to_int32 e mod 2 = 1 then bdiv (result * b) CV_BPS else result);
            e' = to_int32 e div 2;
            b' = (if e' > 0 then bdiv (b * b) CV_BPS else b)
        in powBps_loop result' b' e'
      else result)"
  by pat_completeness auto
termination
  by (relation "measure (\<lambda>(result, b, e). nat e)") (auto simp: to_int32_half_less)

declare powBps_loop.simps [simp del]

definition powBps :: "int \<Rightarrow> int \<Rightarrow> int" where
  "powBps base exponent = powBps_loop CV_BPS base exponent"

definition projectConviction :: "int \<Rightarrow> int \<Rightarrow> int \<Rightarrow> int \<Rightarrow> int \<Rightarrow> int" where
  "projectConviction conviction totalStaked elapsed decayBps weightBps =
     (let decay = powBps decayBps elapsed;
          decayGap = CV_BPS - decayBps;
          steady = bdiv (totalStaked * weightBps) (if decayGap > 0 then decayGap else 1);
          retained = bdiv (conviction * decay) CV_BPS;
          accrued = bdiv (steady * (CV_BPS - decay)) CV_BPS
      in retained + accrued)"

subsection \<open>Model of the executor\<close>

definition CV_InvalidAmount :: int where "CV_InvalidAmount = 4"
definition CV_ProposalNotFound :: int where "CV_ProposalNotFound = 5"
definition CV_ProposalClosed :: int where "CV_ProposalClosed = 6"
definition CV_InsufficientVotingPower :: int where "CV_InsufficientVotingPower = 7"
definition CV_StakeNotFound :: int where "CV_StakeNotFound = 8"

definition set_cv :: "MockLedgerStore \<Rightarrow> ConvictionVotingState \<Rightarrow> MockLedgerStore" where
  "set_cv store t = store\<lparr>st_convictionVoting := t\<rparr>"

definition cv_mustGetProposal :: "ConvictionVotingState \<Rightarrow> int \<Rightarrow> js_error + ConvictionProposalRecord" where
  "cv_mustGetProposal state pid =
     (case js_get (cv_proposals state) pid of
        None \<Rightarrow> Inl (MockContractError CV_ProposalNotFound)
      | Some proposal \<Rightarrow> Inr proposal)"

definition mustGetOpenProposal :: "ConvictionVotingState \<Rightarrow> int \<Rightarrow> js_error + ConvictionProposalRecord" where
  "mustGetOpenProposal state pid =
     (case cv_mustGetProposal state pid of Inl e \<Rightarrow> Inl e
      | Inr proposal \<Rightarrow>
          if cq_executed proposal \<or> cq_cancelled proposal
          then Inl (MockContractError CV_ProposalClosed) else Inr proposal)"

definition totalStaked :: "ConvictionVotingState \<Rightarrow> int \<Rightarrow> int" where
  "totalStaked state proposalId = js_getd 0 (cv_totalStaked state) proposalId"

text \<open>\<^verbatim>\<open>stakesFor\<close> creates a missing entry; the state with the entry and the entry are returned.\<close>

definition stakesFor ::
  "ConvictionVotingState \<Rightarrow> int \<Rightarrow> ConvictionVotingState \<times> (address, int) js_map" where
  "stakesFor state proposalId =
     (case js_get (cv_stakes state) proposalId of
        None \<Rightarrow> (state\<lparr>cv_stakes := js_set (cv_stakes state) proposalId []\<rparr>, [])
      | Some stakes \<Rightarrow> (state, stakes))"

text \<open>The proposal found under \<open>pid\<close> is changed in place and stored under its own number.\<close>

definition updateConviction ::
  "ConvictionVotingState \<Rightarrow> LedgerClock \<Rightarrow> int \<Rightarrow> ConvictionProposalRecord \<Rightarrow>
     ConvictionVotingState \<times> ConvictionProposalRecord" where
  "updateConviction state clock pid proposal =
     (let elapsed = clock_sequence clock - cq_lastUpdatedLedger proposal in
      if elapsed \<le> 0 \<or> cq_executed proposal \<or> cq_cancelled proposal then (state, proposal)
      else
        let proposal' = proposal\<lparr>
              cq_conviction := projectConviction (cq_conviction proposal)
                (totalStaked state (cq_id proposal)) elapsed (cv_decayBps state) (cv_weightBps state),
              cq_lastUpdatedLedger := clock_sequence clock\<rparr>
        in (state\<lparr>cv_proposals :=
              js_set (js_set (cv_proposals state) pid proposal') (cq_id proposal') proposal'\<rparr>,
            proposal'))"

definition removeStake :: "ConvictionVotingState \<Rightarrow> address \<Rightarrow> int \<Rightarrow> ConvictionVotingState" where
  "removeStake state staker proposalId =
     (case stakesFor state proposalId of (state1, stakes) \<Rightarrow>
      let state2 =
        (case js_get stakes staker of
           None \<Rightarrow> state1
         | Some amount \<Rightarrow>
             state1\<lparr>cv_stakes := js_set (cv_stakes state1) proposalId (js_delete stakes staker),
                    cv_totalStaked := js_set (cv_totalStaked state1) proposalId
                      (js_getd 0 (cv_totalStaked state1) proposalId - amount)\<rparr>)
      in state2\<lparr>cv_stakeByStaker := js_delete (cv_stakeByStaker state2) staker\<rparr>)"

definition requiredThreshold ::
  "MockLedgerStore \<Rightarrow> LedgerClock \<Rightarrow> int \<Rightarrow> js_error + int" where
  "requiredThreshold store clock requestedAmount =
     (let state = st_convictionVoting store in
      if requestedAmount < 0 then Inl (MockContractError CV_InvalidAmount)
      else if requestedAmount = 0 then Inr (cv_minThresholdConviction state)
      else case get_past_total_supply (st_votes store) clock (clock_sequence clock) of Inl e \<Rightarrow> Inl e
      | Inr supp \<Rightarrow>
          if supp \<le> 0 then Inr I128_MAX
          else
            let maxRatio = cv_maxRatioBps state;
                ratio = bdiv (requestedAmount * CV_BPS) supp in
            if ratio \<ge> maxRatio then Inr I128_MAX
            else
              let gap = maxRatio - ratio in
              Inr (bdiv (cv_minThresholdConviction state * maxRatio * maxRatio) (gap * gap)))"

definition cv_create_proposal ::
  "MockLedgerStore \<Rightarrow> LedgerClock \<Rightarrow> address \<Rightarrow> address \<Rightarrow> address \<Rightarrow> string \<Rightarrow> bytes \<Rightarrow> int \<Rightarrow>
     (int, MockLedgerStore) outcome" where
  "cv_create_proposal store clock caller proposer target fnName calldata requestedAmount =
     (if caller \<noteq> proposer then throws (MockContractError 100) store
      else if requestedAmount < 0 then throws (MockContractError CV_InvalidAmount) store
      else
        let state = st_convictionVoting store;
            pid = cv_nextProposalId state;
            ledger = clock_sequence clock
        in returns pid (set_cv store
             (state\<lparr>cv_nextProposalId := pid + 1,
                cv_proposals := js_set (cv_proposals state) pid
                  \<lparr>cq_id = pid, cq_proposer = proposer, cq_target = target, cq_fnName = fnName,
                   cq_calldata = calldata, cq_requestedAmount = requestedAmount,
                   cq_createdLedger = ledger, cq_conviction = 0, cq_lastUpdatedLedger = ledger,
                   cq_executed = False, cq_cancelled = False\<rparr>,
                cv_stakes := js_set (cv_stakes state) pid [],
                cv_totalStaked := js_set (cv_totalStaked state) pid 0\<rparr>)))"

text \<open>The last part of \<^verbatim>\<open>stake\<close>: record the stake on the chosen proposal.\<close>

definition put_stake :: "ConvictionVotingState \<Rightarrow> address \<Rightarrow> int \<Rightarrow> int \<Rightarrow> ConvictionVotingState" where
  "put_stake state staker proposalId amount =
     (case stakesFor state proposalId of (state1, stakes) \<Rightarrow>
      let delta = amount - js_getd 0 stakes staker in
      state1\<lparr>cv_stakes := js_set (cv_stakes state1) proposalId (js_set stakes staker amount),
             cv_totalStaked := js_set (cv_totalStaked state1) proposalId
               (totalStaked state1 proposalId + delta),
             cv_stakeByStaker := js_set (cv_stakeByStaker state1) staker proposalId\<rparr>)"

definition cv_stake ::
  "MockLedgerStore \<Rightarrow> LedgerClock \<Rightarrow> address \<Rightarrow> address \<Rightarrow> int \<Rightarrow> int \<Rightarrow> (unit, MockLedgerStore) outcome" where
  "cv_stake store clock caller staker proposalId amount =
     (if caller \<noteq> staker then throws (MockContractError 100) store
      else if amount \<le> 0 then throws (MockContractError CV_InvalidAmount) store
      else if get_votes (st_votes store) staker < amount
      then throws (MockContractError CV_InsufficientVotingPower) store
      else
        let state = st_convictionVoting store in
        case mustGetOpenProposal state proposalId of Inl e \<Rightarrow> throws e store | Inr target \<Rightarrow>
        (case updateConviction state clock proposalId target of (state1, _) \<Rightarrow>
         case js_get (cv_stakeByStaker state1) staker of
           None \<Rightarrow> returns () (set_cv store (put_stake state1 staker proposalId amount))
         | Some oldId \<Rightarrow>
             if oldId = proposalId
             then returns () (set_cv store (put_stake state1 staker proposalId amount))
             else case cv_mustGetProposal state1 oldId of
                    Inl e \<Rightarrow> throws e (set_cv store state1)
                  | Inr old \<Rightarrow>
                      (case updateConviction state1 clock oldId old of (state2, _) \<Rightarrow>
                       returns () (set_cv store
                         (put_stake (removeStake state2 staker oldId) staker proposalId amount)))))"

definition withdraw_stake ::
  "MockLedgerStore \<Rightarrow> LedgerClock \<Rightarrow> address \<Rightarrow> address \<Rightarrow> (unit, MockLedgerStore) outcome" where
  "withdraw_stake store clock caller staker =
     (if caller \<noteq> staker then throws (MockContractError 100) store
      else
        let state = st_convictionVoting store in
        case js_get (cv_stakeByStaker state) staker of
          None \<Rightarrow> throws (MockContractError CV_StakeNotFound) store
        | Some proposalId \<Rightarrow>
            (case cv_mustGetProposal state proposalId of Inl e \<Rightarrow> throws e store
             | Inr proposal \<Rightarrow>
                 (case updateConviction state clock proposalId proposal of (state1, _) \<Rightarrow>
                  returns () (set_cv store (removeStake state1 staker proposalId)))))"

text \<open>The execution branch of \<^verbatim>\<open>checkpoint_conviction\<close>.\<close>

definition record_execution ::
  "ConvictionVotingState \<Rightarrow> LedgerClock \<Rightarrow> int \<Rightarrow> ConvictionProposalRecord \<Rightarrow> ConvictionVotingState" where
  "record_execution state clock proposalId proposal =
     (let proposal' = proposal\<lparr>cq_executed := True\<rparr>;
          execution = \<lparr>ex_proposalId = cq_id proposal', ex_target = cq_target proposal',
            ex_fnName = cq_fnName proposal', ex_calldata = cq_calldata proposal',
            ex_ledger = clock_sequence clock\<rparr>
      in state\<lparr>cv_proposals :=
             js_set (js_set (cv_proposals state) proposalId proposal') (cq_id proposal') proposal',
           cv_executions := cv_executions state @ [execution]\<rparr>)"

definition checkpoint_conviction ::
  "MockLedgerStore \<Rightarrow> LedgerClock \<Rightarrow> int \<Rightarrow> (int, MockLedgerStore) outcome" where
  "checkpoint_conviction store clock proposalId =
     (case cv_mustGetProposal (st_convictionVoting store) proposalId of Inl e \<Rightarrow> throws e store
      | Inr proposal \<Rightarrow>
          if cq_executed proposal \<or> cq_cancelled proposal then returns (cq_conviction proposal) store
          else
            (case updateConviction (st_convictionVoting store) clock proposalId proposal of (state1, proposal1) \<Rightarrow>
             case requiredThreshold (set_cv store state1) clock (cq_requestedAmount proposal1) of
               Inl e \<Rightarrow> throws e (set_cv store state1)
             | Inr threshold \<Rightarrow>
                 if cq_conviction proposal1 \<ge> threshold
                 then returns (cq_conviction proposal1)
                        (set_cv store (record_execution state1 clock proposalId proposal1))
                 else returns (cq_conviction proposal1) (set_cv store state1)))"

definition cv_get_proposal :: "MockLedgerStore \<Rightarrow> int \<Rightarrow> js_error + ConvictionProposalRecord" where
  "cv_get_proposal store proposalId = cv_mustGetProposal (st_convictionVoting store) proposalId"

definition get_stakes ::
  "MockLedgerStore \<Rightarrow> int \<Rightarrow> nat \<Rightarrow> nat \<Rightarrow> (ConvictionStakeRecord list, MockLedgerStore) outcome" where
  "get_stakes store proposalId offset limit =
     (case cv_mustGetProposal (st_convictionVoting store) proposalId of Inl e \<Rightarrow> throws e store
      | Inr _ \<Rightarrow>
          if limit = 0 then returns [] store
          else
            (case stakesFor (st_convictionVoting store) proposalId of (state1, stakes) \<Rightarrow>
             returns (take limit (drop offset
                 (map (\<lambda>(staker, amount). \<lparr>sk_staker = staker, sk_proposalId = proposalId,
                                           sk_amount = amount\<rparr>) stakes)))
               (set_cv store state1)))"

definition get_required_threshold :: "MockLedgerStore \<Rightarrow> LedgerClock \<Rightarrow> int \<Rightarrow> js_error + int" where
  "get_required_threshold store clock requestedAmount = requiredThreshold store clock requestedAmount"

subsection \<open>Bounds of the arithmetic\<close>

lemma scaled_bounds:
  assumes "0 \<le> a" "0 \<le> b" "b \<le> CV_BPS"
  shows "0 \<le> bdiv (a * b) CV_BPS" "bdiv (a * b) CV_BPS \<le> a"
proof -
  have nn: "0 \<le> a * b" using assms by simp
  show "0 \<le> bdiv (a * b) CV_BPS" using nn by (simp add: bdiv_ge_0 CV_BPS_def)
  have "a * b \<le> a * CV_BPS" using assms by (simp add: mult_left_mono)
  then have "a * b < (a + 1) * CV_BPS" by (simp add: CV_BPS_def)
  then have "bdiv (a * b) CV_BPS < a + 1" using bdiv_less_iff [of "a * b" CV_BPS "a + 1"] nn by (simp add: CV_BPS_def)
  then show "bdiv (a * b) CV_BPS \<le> a" by simp
qed

lemma powBps_loop_bounds:
  "0 \<le> result \<Longrightarrow> 0 \<le> b \<Longrightarrow> b \<le> CV_BPS \<Longrightarrow>
     0 \<le> powBps_loop result b e \<and> powBps_loop result b e \<le> result"
proof (induction result b e rule: powBps_loop.induct)
  case (1 result b e)
  show ?case
  proof (cases "e > 0")
    case False
    then show ?thesis using 1 by (simp add: powBps_loop.simps [of result b e])
  next
    case True
    let ?r = "if to_int32 e mod 2 = 1 then bdiv (result * b) CV_BPS else result"
    let ?e = "to_int32 e div 2"
    let ?b = "if ?e > 0 then bdiv (b * b) CV_BPS else b"
    have r: "0 \<le> ?r" "?r \<le> result" using scaled_bounds [of result b] "1.prems" by auto
    have b: "0 \<le> ?b" "?b \<le> CV_BPS" using scaled_bounds [of b b] "1.prems" by auto
    have "powBps_loop result b e = powBps_loop ?r ?b ?e"
      using True by (subst powBps_loop.simps) (simp add: Let_def)
    then show ?thesis using "1.IH" [OF True refl refl refl r(1) b] r(2) by (auto split: if_splits)
  qed
qed

lemma powBps_bounds: "0 \<le> base \<Longrightarrow> base \<le> CV_BPS \<Longrightarrow> 0 \<le> powBps base e \<and> powBps base e \<le> CV_BPS"
  using powBps_loop_bounds [of CV_BPS base e] by (simp add: powBps_def CV_BPS_def)

definition steady_conviction :: "int \<Rightarrow> int \<Rightarrow> int \<Rightarrow> int" where
  "steady_conviction staked decayBps weightBps =
     bdiv (staked * weightBps) (if CV_BPS - decayBps > 0 then CV_BPS - decayBps else 1)"

lemma weighted_between:
  assumes "0 \<le> x" "0 \<le> y" "0 \<le> d" "d \<le> CV_BPS"
  shows "bdiv (x * d) CV_BPS + bdiv (y * (CV_BPS - d)) CV_BPS \<le> max x y"
    and "min x y - 1 \<le> bdiv (x * d) CV_BPS + bdiv (y * (CV_BPS - d)) CV_BPS"
proof -
  let ?p = "bdiv (x * d) CV_BPS" and ?q = "bdiv (y * (CV_BPS - d)) CV_BPS"
  have nn: "0 \<le> x * d" "0 \<le> y * (CV_BPS - d)" using assms by simp_all
  have pos: "0 < CV_BPS" by (simp add: CV_BPS_def)
  have up: "?p * CV_BPS \<le> x * d" "?q * CV_BPS \<le> y * (CV_BPS - d)"
    using bdiv_mult_le [OF nn(1) pos] bdiv_mult_le [OF nn(2) pos] .
  have lo: "x * d < (?p + 1) * CV_BPS" "y * (CV_BPS - d) < (?q + 1) * CV_BPS"
    using bdiv_less_iff [OF nn(1) pos, of "?p + 1"] bdiv_less_iff [OF nn(2) pos, of "?q + 1"] by simp_all
  have "x * d + y * (CV_BPS - d) \<le> max x y * d + max x y * (CV_BPS - d)"
    using assms by (intro add_mono mult_right_mono) simp_all
  also have "\<dots> = max x y * CV_BPS" by (simp add: algebra_simps)
  finally have "(?p + ?q) * CV_BPS \<le> max x y * CV_BPS" using up by (simp add: distrib_right)
  then show "?p + ?q \<le> max x y" using pos by simp
  have "min x y * CV_BPS = min x y * d + min x y * (CV_BPS - d)" by (simp add: algebra_simps)
  also have "\<dots> \<le> x * d + y * (CV_BPS - d)"
    using assms by (intro add_mono mult_right_mono) simp_all
  also have "\<dots> < (?p + ?q + 2) * CV_BPS" using lo by (simp add: distrib_right)
  finally have "min x y < ?p + ?q + 2" using pos by simp
  then show "min x y - 1 \<le> ?p + ?q" by simp
qed

lemma projectConviction_between:
  assumes "0 \<le> conv" "0 \<le> staked" "0 \<le> weight" "0 \<le> decay" "decay \<le> CV_BPS"
  shows "projectConviction conv staked elapsed decay weight \<le> max conv (steady_conviction staked decay weight)"
    and "min conv (steady_conviction staked decay weight) - 1 \<le> projectConviction conv staked elapsed decay weight"
    and "0 \<le> projectConviction conv staked elapsed decay weight"
proof -
  have d: "0 \<le> powBps decay elapsed" "powBps decay elapsed \<le> CV_BPS"
    using powBps_bounds [OF assms(4,5)] by simp_all
  have st: "0 \<le> steady_conviction staked decay weight"
    unfolding steady_conviction_def using assms by (intro bdiv_ge_0) auto
  have eq: "projectConviction conv staked elapsed decay weight =
      bdiv (conv * powBps decay elapsed) CV_BPS +
      bdiv (steady_conviction staked decay weight * (CV_BPS - powBps decay elapsed)) CV_BPS"
    by (simp add: projectConviction_def steady_conviction_def Let_def)
  show "projectConviction conv staked elapsed decay weight \<le> max conv (steady_conviction staked decay weight)"
    "min conv (steady_conviction staked decay weight) - 1 \<le> projectConviction conv staked elapsed decay weight"
    unfolding eq using weighted_between [OF assms(1) st d] by simp_all
  show "0 \<le> projectConviction conv staked elapsed decay weight"
    unfolding eq using assms(1) st d by (intro add_nonneg_nonneg bdiv_ge_0 mult_nonneg_nonneg) (simp_all add: CV_BPS_def)
qed

subsection \<open>Stakes\<close>

abbreviation stake_map :: "ConvictionVotingState \<Rightarrow> int \<Rightarrow> (address, int) js_map" where
  "stake_map t i \<equiv> js_getd [] (cv_stakes t) i"

text \<open>The total of a proposal is the sum of its stakes, all stakes are positive, and the pointer of a
  staker names exactly the one proposal that lists its stake.\<close>

definition stakes_ok :: "ConvictionVotingState \<Rightarrow> bool" where
  "stakes_ok t \<longleftrightarrow>
     (\<forall>i. totalStaked t i = js_sum (stake_map t i) \<and> js_map_wf (stake_map t i)) \<and>
     (\<forall>i a. js_get (stake_map t i) a \<noteq> None \<longleftrightarrow> js_get (cv_stakeByStaker t) a = Some i) \<and>
     (\<forall>i a n. js_get (stake_map t i) a = Some n \<longrightarrow> 0 < n)"

lemma stakesFor_spec:
  "stakesFor t i = (t1, m) \<Longrightarrow>
     m = stake_map t i \<and> cv_stakes t1 = (if js_has (cv_stakes t) i then cv_stakes t else js_set (cv_stakes t) i []) \<and>
     t1 = t\<lparr>cv_stakes := cv_stakes t1\<rparr>"
  by (auto simp: stakesFor_def js_getd_def js_has_iff split: option.splits)

lemma stakesFor_maps: "stakesFor t i = (t1, m) \<Longrightarrow> stake_map t1 j = stake_map t j"
  by (cases "j = i") (auto simp: stakesFor_def js_getd_def split: option.splits)

lemma removeStake_spec:
  "stake_map (removeStake t a i) j = (if j = i then js_delete (stake_map t i) a else stake_map t j)"
  "totalStaked (removeStake t a i) j = (if j = i then totalStaked t i - js_getd 0 (stake_map t i) a else totalStaked t j)"
  "cv_stakeByStaker (removeStake t a i) = js_delete (cv_stakeByStaker t) a"
  "cv_proposals (removeStake t a i) = cv_proposals t"
  "cv_executions (removeStake t a i) = cv_executions t"
  "cv_nextProposalId (removeStake t a i) = cv_nextProposalId t"
  "cv_decayBps (removeStake t a i) = cv_decayBps t" "cv_weightBps (removeStake t a i) = cv_weightBps t"
  by (auto simp: removeStake_def stakesFor_def totalStaked_def js_getd_def js_delete_absent Let_def
      split: option.splits prod.splits)

lemma put_stake_spec:
  "stake_map (put_stake t a i n) j = (if j = i then js_set (stake_map t i) a n else stake_map t j)"
  "totalStaked (put_stake t a i n) j =
     (if j = i then totalStaked t i - js_getd 0 (stake_map t i) a + n else totalStaked t j)"
  "cv_stakeByStaker (put_stake t a i n) = js_set (cv_stakeByStaker t) a i"
  "cv_proposals (put_stake t a i n) = cv_proposals t"
  "cv_executions (put_stake t a i n) = cv_executions t"
  "cv_nextProposalId (put_stake t a i n) = cv_nextProposalId t"
  "cv_decayBps (put_stake t a i n) = cv_decayBps t" "cv_weightBps (put_stake t a i n) = cv_weightBps t"
  by (auto simp: put_stake_def stakesFor_def totalStaked_def js_getd_def Let_def
      split: option.splits prod.splits)

lemma removeStake_ok:
  assumes "stakes_ok t" "js_get (cv_stakeByStaker t) a = Some i"
  shows "stakes_ok (removeStake t a i)"
proof -
  have "totalStaked t j = js_sum (stake_map t j)" "js_map_wf (stake_map t j)"
    "(js_get (stake_map t j) b \<noteq> None) = (js_get (cv_stakeByStaker t) b = Some j)"
    "js_get (stake_map t j) b = Some n \<Longrightarrow> 0 < n" for j b n
    using assms(1) unfolding stakes_ok_def by blast+
  then show ?thesis
    using assms(2) unfolding stakes_ok_def removeStake_spec by (auto simp: js_sum_delete split: if_splits)
qed

lemma put_stake_ok:
  assumes "stakes_ok t" "js_get (cv_stakeByStaker t) a = None \<or> js_get (cv_stakeByStaker t) a = Some i" "0 < n"
  shows "stakes_ok (put_stake t a i n)"
proof -
  have "totalStaked t j = js_sum (stake_map t j)" "js_map_wf (stake_map t j)"
    "(js_get (stake_map t j) b \<noteq> None) = (js_get (cv_stakeByStaker t) b = Some j)"
    "js_get (stake_map t j) b = Some m \<Longrightarrow> 0 < m" for j b m
    using assms(1) unfolding stakes_ok_def by blast+
  then show ?thesis
    using assms(2,3) unfolding stakes_ok_def put_stake_spec by (auto simp: js_sum_set split: if_splits)
qed

lemma stakes_ok_cong:
  "cv_stakes t' = cv_stakes t \<Longrightarrow> cv_totalStaked t' = cv_totalStaked t \<Longrightarrow>
   cv_stakeByStaker t' = cv_stakeByStaker t \<Longrightarrow> stakes_ok t' \<longleftrightarrow> stakes_ok t"
  by (simp add: stakes_ok_def totalStaked_def)

lemma totalStaked_nonneg:
  assumes "stakes_ok t"
  shows "0 \<le> totalStaked t i"
proof -
  have "0 \<le> js_wsum (\<lambda>_ v. v) (stake_map t i)"
  proof (rule js_wsum_nonneg)
    fix a n
    assume "(a, n) \<in> set (stake_map t i)"
    then have "js_get (stake_map t i) a = Some n"
      using assms by (simp add: stakes_ok_def js_get_wf)
    then have "0 < n" using assms unfolding stakes_ok_def by blast
    then show "0 \<le> n" by simp
  qed
  then show ?thesis using assms by (simp add: stakes_ok_def js_sum_def)
qed

subsection \<open>Proposals\<close>

definition proposals_ok :: "ConvictionVotingState \<Rightarrow> bool" where
  "proposals_ok t \<longleftrightarrow>
     (\<forall>i p. js_get (cv_proposals t) i = Some p \<longrightarrow>
        cq_id p = i \<and> i < cv_nextProposalId t \<and> 0 \<le> cq_conviction p \<and> 0 \<le> cq_requestedAmount p) \<and>
     (\<forall>a i. js_get (cv_stakeByStaker t) a = Some i \<longrightarrow> js_get (cv_proposals t) i \<noteq> None) \<and>
     (\<forall>i. cv_nextProposalId t \<le> i \<longrightarrow> stake_map t i = []) \<and>
     distinct (map ex_proposalId (cv_executions t)) \<and>
     (\<forall>i. i \<in> set (map ex_proposalId (cv_executions t)) \<longleftrightarrow>
        (\<exists>p. js_get (cv_proposals t) i = Some p \<and> cq_executed p))"

definition config_ok :: "ConvictionVotingState \<Rightarrow> bool" where
  "config_ok t \<longleftrightarrow> 0 \<le> cv_decayBps t \<and> cv_decayBps t \<le> CV_BPS \<and> 0 \<le> cv_weightBps t"

definition cv_ok :: "ConvictionVotingState \<Rightarrow> bool" where
  "cv_ok t \<longleftrightarrow> stakes_ok t \<and> proposals_ok t \<and> config_ok t"

lemma updateConviction_frame:
  assumes "updateConviction t c pid p = (t', p')"
  shows "cv_stakes t' = cv_stakes t" "cv_totalStaked t' = cv_totalStaked t"
    "cv_stakeByStaker t' = cv_stakeByStaker t" "cv_executions t' = cv_executions t"
    "cv_nextProposalId t' = cv_nextProposalId t" "cv_decayBps t' = cv_decayBps t"
    "cv_weightBps t' = cv_weightBps t"
    "cq_id p' = cq_id p" "cq_executed p' = cq_executed p" "cq_cancelled p' = cq_cancelled p"
    "cq_requestedAmount p' = cq_requestedAmount p"
  using assms by (auto simp: updateConviction_def Let_def split: if_splits)

lemma updateConviction_get:
  assumes "updateConviction t c pid p = (t', p')" "js_get (cv_proposals t) pid = Some p" "cq_id p = pid"
  shows "js_get (cv_proposals t') j = (if j = pid then Some p' else js_get (cv_proposals t) j)"
  using assms by (auto simp: updateConviction_def Let_def split: if_splits)

lemma updateConviction_conviction:
  assumes "updateConviction t c pid p = (t', p')" "stakes_ok t" "config_ok t" "0 \<le> cq_conviction p"
  shows "0 \<le> cq_conviction p'"
  using assms(1,4) projectConviction_between(3) [OF assms(4) totalStaked_nonneg [OF assms(2)]] assms(3)
  by (auto simp: updateConviction_def Let_def config_ok_def split: if_splits)

lemma updateConviction_ok:
  assumes "updateConviction t c pid p = (t', p')" "js_get (cv_proposals t) pid = Some p" "cv_ok t"
  shows "cv_ok t'"
proof -
  note fr = updateConviction_frame [OF assms(1)]
  have p: "cq_id p = pid" "pid < cv_nextProposalId t" "0 \<le> cq_conviction p" "0 \<le> cq_requestedAmount p"
    using assms(2,3) by (auto simp: cv_ok_def proposals_ok_def)
  note get = updateConviction_get [OF assms(1,2) p(1)]
  have conv: "0 \<le> cq_conviction p'"
    using updateConviction_conviction [OF assms(1)] assms(3) p(3) by (simp add: cv_ok_def)
  have "stakes_ok t'" using assms(3) fr by (simp add: cv_ok_def stakes_ok_cong [of t' t])
  moreover have "config_ok t'" using assms(3) fr by (simp add: cv_ok_def config_ok_def)
  moreover have "proposals_ok t'"
    using assms(2,3) p conv fr(8-11) unfolding cv_ok_def proposals_ok_def get fr(1-7)
    by (auto split: if_splits)
  ultimately show ?thesis by (simp add: cv_ok_def)
qed

lemma set_cv_simps [simp]:
  "st_convictionVoting (set_cv s t) = t" "st_votes (set_cv s t) = st_votes s"
  "st_governor (set_cv s t) = st_governor s" "st_timelock (set_cv s t) = st_timelock s"
  "st_addresses (set_cv s t) = st_addresses s" "st_proposalBonds (set_cv s t) = st_proposalBonds s"
  "st_coSponsorship (set_cv s t) = st_coSponsorship s" "st_treasury (set_cv s t) = st_treasury s"
  "st_optimisticGovernor (set_cv s t) = st_optimisticGovernor s"
  by (simp_all add: set_cv_def)

lemma cv_mustGet_Inr [simp]:
  "cv_mustGetProposal t i = Inr p \<longleftrightarrow> js_get (cv_proposals t) i = Some p"
  by (auto simp: cv_mustGetProposal_def split: option.splits)

lemma mustGetOpen_Inr:
  "mustGetOpenProposal t i = Inr p \<longleftrightarrow>
     js_get (cv_proposals t) i = Some p \<and> \<not> cq_executed p \<and> \<not> cq_cancelled p"
  by (cases "js_get (cv_proposals t) i") (auto simp: mustGetOpenProposal_def cv_mustGetProposal_def)

lemma removeStake_cv_ok:
  assumes "cv_ok t" "js_get (cv_stakeByStaker t) a = Some i"
  shows "cv_ok (removeStake t a i)"
proof -
  have "proposals_ok (removeStake t a i)"
    using assms unfolding cv_ok_def proposals_ok_def removeStake_spec
    by (auto simp: js_delete_absent split: if_splits)
  then show ?thesis
    using assms removeStake_ok [of t a i] by (auto simp: cv_ok_def config_ok_def removeStake_spec)
qed

lemma put_stake_cv_ok:
  assumes "cv_ok t" "js_get (cv_stakeByStaker t) a = None \<or> js_get (cv_stakeByStaker t) a = Some i" "0 < n"
    and "js_get (cv_proposals t) i \<noteq> None"
  shows "cv_ok (put_stake t a i n)"
proof -
  have "i < cv_nextProposalId t" using assms(1,4) by (auto simp: cv_ok_def proposals_ok_def)
  then have "proposals_ok (put_stake t a i n)"
    using assms unfolding cv_ok_def proposals_ok_def put_stake_spec by (auto split: if_splits)
  then show ?thesis
    using assms put_stake_ok [of t a i n] by (auto simp: cv_ok_def config_ok_def put_stake_spec)
qed

lemma cv_create_ok:
  assumes "cv_create_proposal s c caller pr tg f cd amt = (r, s')" "cv_ok (st_convictionVoting s)"
  shows "cv_ok (st_convictionVoting s')"
proof (cases "caller \<noteq> pr \<or> amt < 0")
  case True
  then show ?thesis using assms by (auto simp: cv_create_proposal_def split: if_splits)
next
  case False
  define t where "t = st_convictionVoting s"
  define i where "i = cv_nextProposalId t"
  have ok: "cv_ok t" using assms(2) by (simp add: t_def)
  have empty: "stake_map t i = []" using ok by (simp add: cv_ok_def proposals_ok_def i_def)
  have total: "totalStaked t i = 0" using ok empty by (simp add: cv_ok_def stakes_ok_def)
  have fresh: "js_get (cv_proposals t) i = None"
    using ok by (cases "js_get (cv_proposals t) i") (auto simp: cv_ok_def proposals_ok_def i_def)
  have nex: "i \<notin> set (map ex_proposalId (cv_executions t))"
    using ok fresh by (simp add: cv_ok_def proposals_ok_def)
  define p where "p = \<lparr>cq_id = i, cq_proposer = pr, cq_target = tg, cq_fnName = f, cq_calldata = cd,
    cq_requestedAmount = amt, cq_createdLedger = clock_sequence c, cq_conviction = 0,
    cq_lastUpdatedLedger = clock_sequence c, cq_executed = False, cq_cancelled = False\<rparr>"
  have p: "cq_id p = i" "cq_conviction p = 0" "cq_requestedAmount p = amt" "\<not> cq_executed p"
    by (simp_all add: p_def)
  have s': "st_convictionVoting s' = t\<lparr>cv_nextProposalId := i + 1,
        cv_proposals := js_set (cv_proposals t) i p, cv_stakes := js_set (cv_stakes t) i [],
        cv_totalStaked := js_set (cv_totalStaked t) i 0\<rparr>"
    using assms(1) False by (auto simp: cv_create_proposal_def Let_def t_def i_def p_def)
  have maps: "stake_map (st_convictionVoting s') j = stake_map t j" for j
    using empty by (simp add: s')
  have tots: "totalStaked (st_convictionVoting s') j = totalStaked t j" for j
    using total by (simp add: s' totalStaked_def)
  have "stakes_ok (st_convictionVoting s')"
    using ok unfolding cv_ok_def stakes_ok_def maps tots by (simp add: s')
  moreover have "proposals_ok (st_convictionVoting s')"
    using ok False p nex fresh unfolding cv_ok_def proposals_ok_def maps
    by (auto simp: s' i_def less_imp_le split: if_splits)
  ultimately show ?thesis using ok by (simp add: cv_ok_def config_ok_def s')
qed

lemma cv_stake_ok:
  assumes "cv_stake s c caller a i n = (r, s')" "cv_ok (st_convictionVoting s)"
  shows "cv_ok (st_convictionVoting s')"
proof (cases "s' = s")
  case True
  then show ?thesis using assms(2) by simp
next
  case False
  define t where "t = st_convictionVoting s"
  have guards: "caller = a" "0 < n" and "\<exists>p. mustGetOpenProposal t i = Inr p"
    using assms(1) False by (auto simp: cv_stake_def t_def Let_def split: if_splits sum.splits)
  then obtain p where open_p: "mustGetOpenProposal t i = Inr p" by blast
  then have p: "js_get (cv_proposals t) i = Some p" by (simp add: mustGetOpen_Inr)
  obtain t1 p1 where u: "updateConviction t c i p = (t1, p1)" by (cases "updateConviction t c i p")
  have ok: "cv_ok t" using assms(2) by (simp add: t_def)
  then have id: "cq_id p = i" using p by (simp add: cv_ok_def proposals_ok_def)
  have ok1: "cv_ok t1" using updateConviction_ok [OF u p ok] .
  have get1: "js_get (cv_proposals t1) i \<noteq> None" using updateConviction_get [OF u p id] by simp
  note out = assms(1) [unfolded cv_stake_def Let_def t_def [symmetric] open_p sum.case u prod.case]
  show ?thesis
  proof (cases "js_get (cv_stakeByStaker t1) a = None \<or> js_get (cv_stakeByStaker t1) a = Some i")
    case True
    then have "st_convictionVoting s' = put_stake t1 a i n"
      using out False guards by (auto split: if_splits)
    then show ?thesis using put_stake_cv_ok [OF ok1 True guards(2) get1] by simp
  next
    case other: False
    then obtain j where j: "js_get (cv_stakeByStaker t1) a = Some j" "j \<noteq> i" by auto
    then obtain q where q: "js_get (cv_proposals t1) j = Some q"
      using ok1 by (fastforce simp: cv_ok_def proposals_ok_def)
    obtain t2 q2 where u2: "updateConviction t1 c j q = (t2, q2)" by (cases "updateConviction t1 c j q")
    have ok2: "cv_ok t2" using updateConviction_ok [OF u2 q ok1] .
    have by2: "js_get (cv_stakeByStaker t2) a = Some j" using updateConviction_frame(3) [OF u2] j by simp
    have idq: "cq_id q = j" using ok1 q by (simp add: cv_ok_def proposals_ok_def)
    have get2: "js_get (cv_proposals (removeStake t2 a j)) i \<noteq> None"
      using updateConviction_get [OF u2 q idq, of i] j get1 by (simp add: removeStake_spec)
    have "st_convictionVoting s' = put_stake (removeStake t2 a j) a i n"
      using out False guards j q u2 by (auto split: if_splits sum.splits simp: cv_mustGetProposal_def)
    moreover have "cv_ok (put_stake (removeStake t2 a j) a i n)"
      using get2 guards(2)
      by (intro put_stake_cv_ok removeStake_cv_ok [OF ok2 by2]) (simp_all add: removeStake_spec)
    ultimately show ?thesis by simp
  qed
qed

lemma withdraw_stake_ok:
  assumes "withdraw_stake s c caller a = (r, s')" "cv_ok (st_convictionVoting s)"
  shows "cv_ok (st_convictionVoting s')"
proof (cases "s' = s")
  case True
  then show ?thesis using assms(2) by simp
next
  case False
  define t where "t = st_convictionVoting s"
  have ok: "cv_ok t" using assms(2) by (simp add: t_def)
  obtain i p where i: "js_get (cv_stakeByStaker t) a = Some i" and p: "js_get (cv_proposals t) i = Some p"
    using assms(1) False by (auto simp: withdraw_stake_def t_def Let_def split: if_splits sum.splits option.splits)
  obtain t1 p1 where u: "updateConviction t c i p = (t1, p1)" by (cases "updateConviction t c i p")
  have "js_get (cv_stakeByStaker t1) a = Some i" using updateConviction_frame(3) [OF u] i by simp
  then have "cv_ok (removeStake t1 a i)" using removeStake_cv_ok [OF updateConviction_ok [OF u p ok]] by simp
  moreover have "st_convictionVoting s' = removeStake t1 a i"
    using assms(1) False i p u
    by (auto simp: withdraw_stake_def t_def Let_def cv_mustGetProposal_def split: if_splits)
  ultimately show ?thesis by simp
qed

lemma checkpoint_cases:
  assumes "checkpoint_conviction s c i = (r, s')"
  shows "s' = s \<or>
    (\<exists>p t1 p1. js_get (cv_proposals (st_convictionVoting s)) i = Some p \<and> \<not> cq_executed p \<and> \<not> cq_cancelled p \<and>
       updateConviction (st_convictionVoting s) c i p = (t1, p1) \<and>
       (st_convictionVoting s' = t1 \<or>
        (\<exists>threshold. requiredThreshold (set_cv s t1) c (cq_requestedAmount p1) = Inr threshold \<and>
           threshold \<le> cq_conviction p1 \<and> r = Inr (cq_conviction p1) \<and>
           st_convictionVoting s' = record_execution t1 c i p1)))"
proof (cases "js_get (cv_proposals (st_convictionVoting s)) i")
  case None
  then show ?thesis using assms by (simp add: checkpoint_conviction_def cv_mustGetProposal_def)
next
  case (Some p)
  obtain t1 p1 where u: "updateConviction (st_convictionVoting s) c i p = (t1, p1)"
    by (cases "updateConviction (st_convictionVoting s) c i p")
  have get: "cv_mustGetProposal (st_convictionVoting s) i = Inr p" using Some by simp
  note out = assms [unfolded checkpoint_conviction_def get sum.case u prod.case Let_def]
  show ?thesis
    using out Some u
    by (cases "requiredThreshold (set_cv s t1) c (cq_requestedAmount p1)") (auto split: if_splits)
qed

lemma checkpoint_ok:
  assumes "checkpoint_conviction s c i = (r, s')" "cv_ok (st_convictionVoting s)"
  shows "cv_ok (st_convictionVoting s')"
proof (cases "s' = s")
  case True
  then show ?thesis using assms(2) by simp
next
  case False
  define t where "t = st_convictionVoting s"
  have ok: "cv_ok t" using assms(2) by (simp add: t_def)
  obtain p t1 p1 where p: "js_get (cv_proposals t) i = Some p" "\<not> cq_executed p"
    and u: "updateConviction t c i p = (t1, p1)"
    and alt: "st_convictionVoting s' = t1 \<or> st_convictionVoting s' = record_execution t1 c i p1"
    using checkpoint_cases [OF assms(1)] False by (auto simp: t_def)
  have ok1: "cv_ok t1" using updateConviction_ok [OF u p(1) ok] .
  have id: "cq_id p = i" using ok p(1) by (simp add: cv_ok_def proposals_ok_def)
  have p1: "js_get (cv_proposals t1) i = Some p1" "cq_id p1 = i" "\<not> cq_executed p1"
    using updateConviction_get [OF u p(1) id] updateConviction_frame [OF u] id p(2) by simp_all
  have nex: "i \<notin> set (map ex_proposalId (cv_executions t1))"
    using ok1 p1 by (simp add: cv_ok_def proposals_ok_def)
  show ?thesis
  proof (cases "st_convictionVoting s' = t1")
    case True
    then show ?thesis using ok1 by simp
  next
    case False
    define e where "e = \<lparr>ex_proposalId = i, ex_target = cq_target p1, ex_fnName = cq_fnName p1,
      ex_calldata = cq_calldata p1, ex_ledger = clock_sequence c\<rparr>"
    have s': "st_convictionVoting s' = t1\<lparr>cv_proposals := js_set (js_set (cv_proposals t1) i
           (p1\<lparr>cq_executed := True\<rparr>)) i (p1\<lparr>cq_executed := True\<rparr>),
         cv_executions := cv_executions t1 @ [e]\<rparr>" and e: "ex_proposalId e = i"
      using alt False p1(2) by (simp_all add: record_execution_def Let_def e_def)
    have "stakes_ok (st_convictionVoting s') \<longleftrightarrow> stakes_ok t1"
      by (rule stakes_ok_cong) (simp_all add: s')
    then have "stakes_ok (st_convictionVoting s')" using ok1 by (simp add: cv_ok_def)
    moreover have "proposals_ok (st_convictionVoting s')"
      using ok1 p1 nex e unfolding cv_ok_def proposals_ok_def s' by (auto split: if_splits)
    ultimately show ?thesis using ok1 by (simp add: cv_ok_def config_ok_def s')
  qed
qed

lemma get_stakes_ok:
  assumes "get_stakes s i off lim = (r, s')" "cv_ok (st_convictionVoting s)"
  shows "cv_ok (st_convictionVoting s')"
proof (cases "s' = s")
  case True
  then show ?thesis using assms(2) by simp
next
  case False
  define t where "t = st_convictionVoting s"
  obtain t1 m where f: "stakesFor t i = (t1, m)" by (cases "stakesFor t i")
  have s': "st_convictionVoting s' = t1"
    using assms(1) False f by (auto simp: get_stakes_def t_def split: if_splits sum.splits)
  have fr: "t1 = t\<lparr>cv_stakes := cv_stakes t1\<rparr>" using stakesFor_spec [OF f] by blast
  have maps: "stake_map t1 j = stake_map t j" for j using stakesFor_maps [OF f] .
  have parts: "cv_totalStaked t1 = cv_totalStaked t" "cv_stakeByStaker t1 = cv_stakeByStaker t"
    "cv_proposals t1 = cv_proposals t" "cv_executions t1 = cv_executions t"
    "cv_nextProposalId t1 = cv_nextProposalId t" "cv_decayBps t1 = cv_decayBps t"
    "cv_weightBps t1 = cv_weightBps t"
    by (subst fr, simp)+
  show ?thesis
    using assms(2)
    unfolding s' cv_ok_def stakes_ok_def proposals_ok_def config_ok_def totalStaked_def maps parts t_def [symmetric] .
qed

subsection \<open>Runs\<close>

inductive cv_step :: "MockLedgerStore \<Rightarrow> MockLedgerStore \<Rightarrow> bool" where
  create: "cv_create_proposal s c caller pr tg f cd amt = (ri, s') \<Longrightarrow> cv_step s s'"
| stake: "cv_stake s c caller a i n = (r, s') \<Longrightarrow> cv_step s s'"
| withdraw: "withdraw_stake s c caller a = (r, s') \<Longrightarrow> cv_step s s'"
| checkpoint: "checkpoint_conviction s c i = (ri, s') \<Longrightarrow> cv_step s s'"
| read_stakes: "get_stakes s i off lim = (rl, s') \<Longrightarrow> cv_step s s'"
| other: "st_convictionVoting s' = st_convictionVoting s \<Longrightarrow> cv_step s s'"

lemma cv_step_ok: "cv_step s s' \<Longrightarrow> cv_ok (st_convictionVoting s) \<Longrightarrow> cv_ok (st_convictionVoting s')"
  by (induction rule: cv_step.induct)
    (erule (1) cv_create_ok cv_stake_ok withdraw_stake_ok checkpoint_ok get_stakes_ok | simp)+

interpretation conviction: stepwise_invariant cv_step "\<lambda>s. cv_ok (st_convictionVoting s)"
  by unfold_locales (rule cv_step_ok)

lemma cv_ok_boot:
  assumes "config_ok (st_convictionVoting (buildStore g a c config))"
  shows "cv_ok (st_convictionVoting (buildStore g a c config))"
proof -
  have "stakes_ok (st_convictionVoting (buildStore g a c config))"
    "proposals_ok (st_convictionVoting (buildStore g a c config))"
    by (simp_all add: stakes_ok_def proposals_ok_def totalStaked_def buildStore_def Let_def)
  then show ?thesis using assms by (simp add: cv_ok_def)
qed

subsection \<open>Properties\<close>

text \<open>The conviction score stays between the old score and the steady state of the current stake,
  up to one unit of rounding below, whatever time has elapsed; it is never negative and never
  overshoots.\<close>

theorem conviction_bounded:
  assumes "0 \<le> conviction" "0 \<le> staked" "0 \<le> weightBps" "0 \<le> decayBps" "decayBps \<le> 10000"
  shows "min conviction (bdiv (staked * weightBps) (max 1 (10000 - decayBps))) - 1
       \<le> projectConviction conviction staked elapsed decayBps weightBps \<and>
     projectConviction conviction staked elapsed decayBps weightBps
       \<le> max conviction (bdiv (staked * weightBps) (max 1 (10000 - decayBps))) \<and>
     0 \<le> projectConviction conviction staked elapsed decayBps weightBps"
proof -
  have "max 1 (10000 - decayBps) = (if CV_BPS - decayBps > 0 then CV_BPS - decayBps else 1)"
    using assms(5) by (simp add: CV_BPS_def)
  then have "bdiv (staked * weightBps) (max 1 (10000 - decayBps)) = steady_conviction staked decayBps weightBps"
    by (simp add: steady_conviction_def)
  then show ?thesis
    using projectConviction_between [of conviction staked weightBps decayBps elapsed] assms
    by (simp add: CV_BPS_def)
qed

theorem conviction_bounded_witness:
  "projectConviction 100 50 3 9000 10000 = 207 \<and> projectConviction 100 50 3 9000 10000 \<le> 500"
proof
  show "projectConviction 100 50 3 9000 10000 = 207" by code_simp
  have "bdiv (50 * 10000) (max 1 (10000 - 9000)) = 500" by code_simp
  then show "projectConviction 100 50 3 9000 10000 \<le> 500"
    using conviction_bounded [of 100 50 10000 9000 3] by simp
qed

text \<open>In every run from a store booted with a decay of at most 100 per cent the stake bookkeeping
  is consistent: the total of each proposal is the sum of its positive stakes, and every account
  has a stake on at most one proposal, the one its pointer names.\<close>

theorem conviction_stakes_consistent:
  assumes "cv_step\<^sup>*\<^sup>* (buildStore g addresses clock config) s"
    and "config_ok (st_convictionVoting (buildStore g addresses clock config))"
  shows "totalStaked (st_convictionVoting s) i = js_sum (stake_map (st_convictionVoting s) i) \<and>
     (\<forall>a n. js_get (stake_map (st_convictionVoting s) i) a = Some n \<longrightarrow>
        0 < n \<and> js_get (cv_stakeByStaker (st_convictionVoting s)) a = Some i \<and>
        (\<forall>j. j \<noteq> i \<longrightarrow> js_get (stake_map (st_convictionVoting s) j) a = None))"
proof -
  have "stakes_ok (st_convictionVoting s)"
    using conviction.reach_inv [OF assms(1) cv_ok_boot [OF assms(2)]] by (simp add: cv_ok_def)
  then have total: "totalStaked (st_convictionVoting s) i = js_sum (stake_map (st_convictionVoting s) i)"
    and link: "\<And>j a. js_get (stake_map (st_convictionVoting s) j) a \<noteq> None \<longleftrightarrow>
      js_get (cv_stakeByStaker (st_convictionVoting s)) a = Some j"
    and pos: "\<And>j a n. js_get (stake_map (st_convictionVoting s) j) a = Some n \<Longrightarrow> 0 < n"
    unfolding stakes_ok_def by blast+
  show ?thesis
  proof (intro conjI allI impI)
    fix a n
    assume h: "js_get (stake_map (st_convictionVoting s) i) a = Some n"
    show "0 < n" using pos h .
    show ptr: "js_get (cv_stakeByStaker (st_convictionVoting s)) a = Some i"
      using link [of i a] h by simp
    fix j :: int
    assume "j \<noteq> i"
    then show "js_get (stake_map (st_convictionVoting s) j) a = None"
      using link [of j a] ptr by auto
  qed (rule total)
qed

definition demo_conviction :: MockLedgerStore where
  "demo_conviction = snd (cv_create_proposal demo_store (demo_clock 1000) ''alice'' ''alice'' ''T'' ''f'' [] 0)"

definition demo_staked :: MockLedgerStore where
  "demo_staked = snd (cv_stake demo_conviction (demo_clock 1001) ''bob'' ''bob'' 1 400)"

definition demo_convinced :: MockLedgerStore where
  "demo_convinced = snd (checkpoint_conviction demo_staked (demo_clock 1003) 1)"

lemma demo_cv_run: "cv_step\<^sup>*\<^sup>* demo_store demo_staked" "cv_step\<^sup>*\<^sup>* demo_store demo_convinced"
proof -
  have 1: "cv_step demo_store demo_conviction"
    unfolding demo_conviction_def by (rule cv_step.create, rule prod.collapse [symmetric])
  have 2: "cv_step demo_conviction demo_staked"
    unfolding demo_staked_def by (rule cv_step.stake, rule prod.collapse [symmetric])
  have 3: "cv_step demo_staked demo_convinced"
    unfolding demo_convinced_def by (rule cv_step.checkpoint, rule prod.collapse [symmetric])
  show run: "cv_step\<^sup>*\<^sup>* demo_store demo_staked"
    using 1 2 by (meson converse_rtranclp_into_rtranclp r_into_rtranclp)
  show "cv_step\<^sup>*\<^sup>* demo_store demo_convinced"
    using run 3 by (meson rtranclp.rtrancl_into_rtrancl)
qed

lemma demo_config_ok: "config_ok (st_convictionVoting demo_store)"
  by code_simp

theorem conviction_stakes_consistent_witness:
  "totalStaked (st_convictionVoting demo_staked) 1 = 400 \<and>
   js_get (cv_stakeByStaker (st_convictionVoting demo_staked)) ''bob'' = Some 1"
proof -
  have "js_sum (stake_map (st_convictionVoting demo_staked) 1) = 400"
    "js_get (stake_map (st_convictionVoting demo_staked) 1) ''bob'' = Some 400" by code_simp+
  then show ?thesis
    using conviction_stakes_consistent [OF demo_cv_run(1) [unfolded demo_store_def] demo_config_ok [unfolded demo_store_def], of 1]
    by auto
qed

text \<open>A conviction proposal executes at most once: in every run the recorded executions name
  different proposals, exactly those marked executed, and a further checkpoint of an executed
  proposal only reads its score and changes nothing.\<close>

theorem conviction_executes_once:
  assumes "cv_step\<^sup>*\<^sup>* (buildStore g addresses clock config) s"
    and "config_ok (st_convictionVoting (buildStore g addresses clock config))"
  shows "distinct (map ex_proposalId (cv_executions (st_convictionVoting s))) \<and>
     (\<forall>i. i \<in> ex_proposalId ` set (cv_executions (st_convictionVoting s)) \<longleftrightarrow>
        (\<exists>p. cv_get_proposal s i = Inr p \<and> cq_executed p)) \<and>
     (\<forall>i p. cv_get_proposal s i = Inr p \<and> cq_executed p \<longrightarrow>
        checkpoint_conviction s c i = (Inr (cq_conviction p), s))"
proof -
  have "proposals_ok (st_convictionVoting s)"
    using conviction.reach_inv [OF assms(1) cv_ok_boot [OF assms(2)]] by (simp add: cv_ok_def)
  then show ?thesis
    by (auto simp: proposals_ok_def cv_get_proposal_def checkpoint_conviction_def cv_mustGetProposal_def
        split: option.splits)
qed

theorem conviction_executes_once_witness:
  "map ex_proposalId (cv_executions (st_convictionVoting demo_convinced)) = [1] \<and>
   (\<exists>p. cv_get_proposal demo_convinced 1 = Inr p \<and> cq_executed p)"
proof -
  have list: "map ex_proposalId (cv_executions (st_convictionVoting demo_convinced)) = [1]" by code_simp
  then have "1 \<in> ex_proposalId ` set (cv_executions (st_convictionVoting demo_convinced))"
    by (metis list.set_intros(1) list.set_map)
  then show ?thesis
    using list conviction_executes_once [OF demo_cv_run(2) [unfolded demo_store_def] demo_config_ok [unfolded demo_store_def]]
    by blast
qed

lemma threshold_of_ratio:
  assumes "0 \<le> m" "0 \<le> r" "r \<le> r'" "r' < mx"
  shows "bdiv (m * mx * mx) ((mx - r) * (mx - r)) \<le> bdiv (m * mx * mx) ((mx - r') * (mx - r'))"
proof -
  let ?a = "m * mx * mx" and ?g = "(mx - r) * (mx - r)" and ?g' = "(mx - r') * (mx - r')"
  have a: "0 \<le> ?a" using assms by simp
  have g: "0 < ?g'" "?g' \<le> ?g" using assms by (simp_all add: mult_mono)
  then have gg: "0 < ?g" by linarith
  let ?q = "bdiv ?a ?g"
  have "0 \<le> ?q" using a gg by (simp add: bdiv_ge_0)
  then have "?q * ?g' \<le> ?q * ?g" using g by (simp add: mult_left_mono)
  also have "\<dots> \<le> ?a" using bdiv_mult_le [OF a gg] .
  finally show ?thesis using bdiv_le_iff [OF a g(1)] by simp
qed

text \<open>Asking for more never needs less conviction: as long as the configured minimum is scaled
  within 128 bits, the required threshold is monotone in the requested amount and never below the
  configured minimum.\<close>

theorem threshold_monotone:
  assumes "0 \<le> x" "x \<le> y" "0 \<le> cv_minThresholdConviction (st_convictionVoting s)"
    and "cv_minThresholdConviction (st_convictionVoting s) * cv_maxRatioBps (st_convictionVoting s) *
         cv_maxRatioBps (st_convictionVoting s) \<le> I128_MAX"
    and "0 < cv_maxRatioBps (st_convictionVoting s)"
    and "get_required_threshold s clock x = Inr tx" "get_required_threshold s clock y = Inr ty"
  shows "cv_minThresholdConviction (st_convictionVoting s) \<le> tx \<and> tx \<le> ty"
proof -
  define m where "m = cv_minThresholdConviction (st_convictionVoting s)"
  define mx where "mx = cv_maxRatioBps (st_convictionVoting s)"
  define supp where "supp = checkpointAt (Some (tv_totalSupplyCheckpoints (st_votes s))) (clock_sequence clock)"
  define f where "f r = (if mx \<le> r then I128_MAX else bdiv (m * mx * mx) ((mx - r) * (mx - r)))" for r
  have m: "0 \<le> m" "0 < mx" "m * mx * mx \<le> I128_MAX" using assms by (simp_all add: m_def mx_def)
  have le: "f r \<le> f r'" if "0 \<le> r" "r \<le> r'" for r r'
  proof (cases "mx \<le> r'")
    case True
    have "bdiv (m * mx * mx) ((mx - r) * (mx - r)) \<le> I128_MAX" if "r < mx"
    proof -
      have g: "1 \<le> (mx - r) * (mx - r)" using that by (simp add: int_one_le_iff_zero_less)
      then have "bdiv (m * mx * mx) ((mx - r) * (mx - r)) * 1 \<le>
          bdiv (m * mx * mx) ((mx - r) * (mx - r)) * ((mx - r) * (mx - r))"
        using m by (intro mult_left_mono) (simp_all add: bdiv_ge_0)
      also have "\<dots> \<le> m * mx * mx" using g m by (intro bdiv_mult_le) simp_all
      finally show ?thesis using m(3) by simp
    qed
    then show ?thesis using True by (simp add: f_def)
  next
    case False
    then show ?thesis using that m threshold_of_ratio [of m r r' mx] by (simp add: f_def)
  qed
  have f0: "f 0 = m"
  proof -
    have "m * mx * mx = m * (mx * mx)" by simp
    then have "bdiv (m * mx * mx) (mx * mx) = m" using m by (simp add: bdiv_nonneg)
    then show ?thesis using m by (simp add: f_def)
  qed
  have thr: "get_required_threshold s clock z =
      Inr (if z = 0 then m else if supp \<le> 0 then I128_MAX else f (bdiv (z * CV_BPS) supp))" if "0 \<le> z" for z
    using that by (simp add: get_required_threshold_def requiredThreshold_def get_past_total_supply_def
        m_def mx_def supp_def f_def Let_def)
  have ratio: "0 \<le> bdiv (z * CV_BPS) supp" if "0 \<le> z" "0 < supp" for z
    using that by (simp add: bdiv_ge_0 CV_BPS_def)
  have mono: "bdiv (x * CV_BPS) supp \<le> bdiv (y * CV_BPS) supp" if "0 < supp"
    using assms(1,2) that by (intro bdiv_mono) (simp_all add: CV_BPS_def)
  have big: "m \<le> I128_MAX"
  proof -
    have "1 \<le> mx * mx" using m(2) by (simp add: int_one_le_iff_zero_less)
    then have "m * 1 \<le> m * (mx * mx)" using m(1) by (intro mult_left_mono) simp_all
    then show ?thesis using m(3) by (simp add: mult.assoc)
  qed
  have ge: "m \<le> f r" if "0 \<le> r" for r using le [of 0 r] that f0 by simp
  show ?thesis
    using assms(1,2,6,7) thr [of x] thr [of y] ratio [of x] ratio [of y] mono le big ge
    by (auto simp: m_def [symmetric] split: if_splits)
qed

theorem threshold_monotone_witness:
  "get_required_threshold demo_store (demo_clock 1000) 10 = Inr 123 \<and>
   get_required_threshold demo_store (demo_clock 1000) 50 = Inr 400 \<and> (100 :: int) \<le> 123 \<and> (123 :: int) \<le> 400"
proof -
  have vals: "get_required_threshold demo_store (demo_clock 1000) 10 = Inr 123"
    "get_required_threshold demo_store (demo_clock 1000) 50 = Inr 400"
    "cv_minThresholdConviction (st_convictionVoting demo_store) = 100"
    "cv_maxRatioBps (st_convictionVoting demo_store) = 2000" by code_simp+
  then show ?thesis
    using threshold_monotone [OF _ _ _ _ _ vals(1,2)] by (simp add: I128_MAX_def)
qed

end
