(* ===== verification/MockCodec.thy ===== *)
theory MockCodec
  imports GovernorCore TreasuryStreams "HOL-Library.List_Lexorder" "HOL-Library.Char_ord"
begin

section \<open>The wire encoding of the mock server\<close>

text \<open>
  The encoders of \<^verbatim>\<open>tools/simulation/src/mock/codec.ts\<close> and the struct encoders of
  \<^verbatim>\<open>mock/server.ts\<close>. Leaf values are encoded by \<^verbatim>\<open>nativeToScVal\<close> of the Stellar SDK, which is
  the parameter \<open>nts\<close> of the definitions: it takes a value with its type hint and may refuse it.
  The lemmas show that a struct is put on the wire as a map with its fields in strictly
  ascending order, and that the encoding loses nothing: equal wire values come from records that
  agree on every encoded field, whenever the leaf encoding is injective.
\<close>

subsection \<open>Values and leaf encoders\<close>

datatype ScVal =
  ScvVoid
| ScvBool bool
| ScvU32 int
| ScvU64 int
| ScvI128 int
| ScvString string
| ScvBytes bytes
| ScvSymbol string
| ScvAddress string
| ScvVec "ScVal list"
| ScvMap "(ScVal \<times> ScVal) list"

text \<open>The native values with the type hint they are passed with.\<close>

datatype hinted =
  HAddress string | HU32 int | HU64 int | HI128 int | HBoolean bool | HString string | HBytes bytes

type_synonym scval_of = "hinted \<Rightarrow> js_error + ScVal"

definition encAddress :: "scval_of \<Rightarrow> string \<Rightarrow> js_error + ScVal" where "encAddress nts addr = nts (HAddress addr)"
definition encU32 :: "scval_of \<Rightarrow> int \<Rightarrow> js_error + ScVal" where "encU32 nts n = nts (HU32 n)"
definition encU64 :: "scval_of \<Rightarrow> int \<Rightarrow> js_error + ScVal" where "encU64 nts n = nts (HU64 n)"
definition encI128 :: "scval_of \<Rightarrow> int \<Rightarrow> js_error + ScVal" where "encI128 nts n = nts (HI128 n)"
definition encBool :: "scval_of \<Rightarrow> bool \<Rightarrow> js_error + ScVal" where "encBool nts b = nts (HBoolean b)"
definition encString :: "scval_of \<Rightarrow> string \<Rightarrow> js_error + ScVal" where "encString nts s = nts (HString s)"
definition encBytes :: "scval_of \<Rightarrow> bytes \<Rightarrow> js_error + ScVal" where "encBytes nts b = nts (HBytes b)"
definition encSymbol :: "string \<Rightarrow> ScVal" where "encSymbol s = ScvSymbol s"
definition encEnum :: "string \<Rightarrow> ScVal" where "encEnum variant = ScvVec [ScvSymbol variant]"
definition encVoid :: ScVal where "encVoid = ScvVoid"

text \<open>Arguments are evaluated in order and the first exception ends the call.\<close>

fun all_values :: "(js_error + 'a) list \<Rightarrow> js_error + 'a list" where
  "all_values [] = Inr []"
| "all_values (Inl e # rs) = Inl e"
| "all_values (Inr v # rs) = (case all_values rs of Inl e \<Rightarrow> Inl e | Inr vs \<Rightarrow> Inr (v # vs))"

definition encVec :: "(js_error + ScVal) list \<Rightarrow> js_error + ScVal" where
  "encVec items = (case all_values items of Inl e \<Rightarrow> Inl e | Inr vs \<Rightarrow> Inr (ScvVec vs))"

definition encMap :: "(string \<times> (js_error + ScVal)) list \<Rightarrow> js_error + ScVal" where
  "encMap flds =
     (case all_values (map snd flds) of Inl e \<Rightarrow> Inl e
      | Inr vs \<Rightarrow>
          let entries = zip (map fst flds) vs;
              keys = sort (map fst flds)
          in Inr (ScvMap (map (\<lambda>key. (ScvSymbol key, the (map_of entries key))) keys)))"

text \<open>\<^verbatim>\<open>decodeEnumVariant\<close> reads the native form of such a value: a non-empty array of strings.\<close>

datatype js_value = JArray "js_value list" | JStr string | JOther string

definition decodeEnumVariant :: "js_value \<Rightarrow> js_error + string" where
  "decodeEnumVariant native =
     (case native of
        JArray (JStr variant # _) \<Rightarrow> Inr variant
      | _ \<Rightarrow> Inl (JsError ''Expected an enum variant (Vec<Symbol>)''))"

subsection \<open>Struct encoders\<close>

text \<open>The enumerations are strings in the source.\<close>

fun vote_type_name :: "vote_type \<Rightarrow> string" where
  "vote_type_name Simple = ''Simple''"
| "vote_type_name Extended = ''Extended''"
| "vote_type_name Quadratic = ''Quadratic''"

fun lifecycle_name :: "OptimisticProposalLifecycle \<Rightarrow> string" where
  "lifecycle_name OptChallengeWindow = ''ChallengeWindow''"
| "lifecycle_name OptObjected = ''Objected''"
| "lifecycle_name OptPassed = ''Passed''"
| "lifecycle_name OptExecuted = ''Executed''"
| "lifecycle_name OptCancelled = ''Cancelled''"

fun bond_state_name :: "ProposalBondLifecycle \<Rightarrow> string" where
  "bond_state_name BondLocked = ''Locked''"
| "bond_state_name BondRefunded = ''Refunded''"
| "bond_state_name BondSlashed = ''Slashed''"

fun state_name :: "ProposalStateName \<Rightarrow> string" where
  "state_name Pending = ''Pending''"
| "state_name Active = ''Active''"
| "state_name Defeated = ''Defeated''"
| "state_name Succeeded = ''Succeeded''"
| "state_name Queued = ''Queued''"
| "state_name Executed = ''Executed''"
| "state_name Cancelled = ''Cancelled''"
| "state_name Expired = ''Expired''"

definition encodeGovernorSettings :: "scval_of \<Rightarrow> GovernorSettingsState \<Rightarrow> js_error + ScVal" where
  "encodeGovernorSettings nts settings = encMap
     [(''voting_delay'', encU32 nts (gs_votingDelay settings)),
      (''voting_period'', encU32 nts (gs_votingPeriod settings)),
      (''quorum_numerator'', encU32 nts (gs_quorumNumerator settings)),
      (''proposal_threshold'', encI128 nts (gs_proposalThreshold settings)),
      (''guardian'', encAddress nts (gs_guardian settings)),
      (''vote_type'', Inr (encEnum (vote_type_name (gs_voteType settings)))),
      (''proposal_grace_period'', encU32 nts (gs_proposalGracePeriod settings)),
      (''use_dynamic_quorum'', encBool nts (gs_useDynamicQuorum settings)),
      (''reflector_oracle'', (case gs_reflectorOracle settings of None \<Rightarrow> Inr encVoid
         | Some a \<Rightarrow> if a = [] then Inr encVoid else encAddress nts a)),
      (''min_quorum_usd'', encI128 nts (gs_minQuorumUsd settings)),
      (''max_calldata_size'', encU32 nts (gs_maxCalldataSize settings)),
      (''proposal_cooldown'', encU32 nts (gs_proposalCooldown settings)),
      (''max_proposals_per_period'', encU32 nts (gs_maxProposalsPerPeriod settings)),
      (''proposal_period_duration'', encU32 nts (gs_proposalPeriodDuration settings))]"

definition encodeProposal :: "scval_of \<Rightarrow> ProposalRecord \<Rightarrow> js_error + ScVal" where
  "encodeProposal nts proposal = encMap
     [(''id'', encU64 nts (pr_id proposal)),
      (''proposer'', encAddress nts (pr_proposer proposal)),
      (''description'', encString nts (pr_description proposal)),
      (''description_hash'', encBytes nts (from_hex (pr_descriptionHash proposal))),
      (''metadata_uri'', encString nts (pr_metadataUri proposal)),
      (''targets'', encVec (map (encAddress nts) (pr_targets proposal))),
      (''fn_names'', encVec (map (\<lambda>x. Inr (encSymbol x)) (pr_fnNames proposal))),
      (''calldatas'', encVec (map (encBytes nts) (pr_calldatas proposal))),
      (''start_ledger'', encU32 nts (pr_startLedger proposal)),
      (''end_ledger'', encU32 nts (pr_endLedger proposal)),
      (''votes_for'', encI128 nts (pr_votesFor proposal)),
      (''votes_against'', encI128 nts (pr_votesAgainst proposal)),
      (''votes_abstain'', encI128 nts (pr_votesAbstain proposal)),
      (''executed'', encBool nts (pr_executed proposal)),
      (''cancelled'', encBool nts (pr_cancelled proposal)),
      (''queued'', encBool nts (pr_queued proposal)),
      (''op_ids'', encVec (map (\<lambda>i. encBytes nts (from_hex i)) (pr_opIds proposal)))]"

definition encodeCoSponsorshipDraft :: "scval_of \<Rightarrow> CoSponsorshipDraftRecord \<Rightarrow> js_error + ScVal" where
  "encodeCoSponsorshipDraft nts draft = encMap
     [(''id'', encU64 nts (dr_id draft)),
      (''creator'', encAddress nts (dr_creator draft)),
      (''description'', encString nts (dr_description draft)),
      (''description_hash'', encBytes nts (dr_descriptionHash draft)),
      (''metadata_uri'', encString nts (dr_metadataUri draft)),
      (''targets'', encVec (map (encAddress nts) (dr_targets draft))),
      (''fn_names'', encVec (map (\<lambda>x. Inr (encSymbol x)) (dr_fnNames draft))),
      (''calldatas'', encVec (map (encBytes nts) (dr_calldatas draft))),
      (''created_ledger'', encU32 nts (dr_createdLedger draft)),
      (''expiry_ledger'', encU32 nts (dr_expiryLedger draft)),
      (''co_sponsors'', encVec (map (encAddress nts) (dr_coSponsors draft))),
      (''co_sponsor_power'', encVec (map (encI128 nts) (dr_coSponsorPower draft))),
      (''total_power'', encI128 nts (dr_totalPower draft)),
      (''finalized'', encBool nts (dr_finalized draft)),
      (''cancelled'', encBool nts (dr_cancelled draft))]"

definition encodeOptimisticProposal :: "scval_of \<Rightarrow> OptimisticProposalRecord \<Rightarrow> js_error + ScVal" where
  "encodeOptimisticProposal nts proposal = encMap
     [(''id'', encU64 nts (oq_id proposal)),
      (''proposer'', encAddress nts (oq_proposer proposal)),
      (''target'', encAddress nts (oq_target proposal)),
      (''fn_name'', Inr (encSymbol (oq_fnName proposal))),
      (''calldata'', encBytes nts (oq_calldata proposal)),
      (''description_hash'', encBytes nts (oq_descriptionHash proposal)),
      (''created_ledger'', encU32 nts (oq_createdLedger proposal)),
      (''challenge_end_ledger'', encU32 nts (oq_challengeEndLedger proposal)),
      (''objection_votes'', encI128 nts (oq_objectionVotes proposal)),
      (''state'', Inr (encEnum (lifecycle_name (oq_state proposal))))]"

definition encodeConvictionProposal :: "scval_of \<Rightarrow> ConvictionProposalRecord \<Rightarrow> js_error + ScVal" where
  "encodeConvictionProposal nts proposal = encMap
     [(''id'', encU64 nts (cq_id proposal)),
      (''proposer'', encAddress nts (cq_proposer proposal)),
      (''target'', encAddress nts (cq_target proposal)),
      (''fn_name'', Inr (encSymbol (cq_fnName proposal))),
      (''calldata'', encBytes nts (cq_calldata proposal)),
      (''requested_amount'', encI128 nts (cq_requestedAmount proposal)),
      (''created_ledger'', encU32 nts (cq_createdLedger proposal)),
      (''conviction'', encI128 nts (cq_conviction proposal)),
      (''last_updated_ledger'', encU32 nts (cq_lastUpdatedLedger proposal)),
      (''executed'', encBool nts (cq_executed proposal)),
      (''cancelled'', encBool nts (cq_cancelled proposal))]"

definition encodeConvictionStake :: "scval_of \<Rightarrow> ConvictionStakeRecord \<Rightarrow> js_error + ScVal" where
  "encodeConvictionStake nts stake = encMap
     [(''staker'', encAddress nts (sk_staker stake)),
      (''proposal_id'', encU64 nts (sk_proposalId stake)),
      (''amount'', encI128 nts (sk_amount stake))]"

definition encodeProposalBond :: "scval_of \<Rightarrow> ProposalBondRecord \<Rightarrow> js_error + ScVal" where
  "encodeProposalBond nts bond = encMap
     [(''proposer'', encAddress nts (bd_proposer bond)),
      (''description_hash'', encBytes nts (from_hex (bd_descriptionHash bond))),
      (''amount'', encI128 nts (bd_amount bond)),
      (''locked_ledger'', encU32 nts (bd_lockedLedger bond)),
      (''state'', Inr (encEnum (bond_state_name (bd_state bond))))]"

definition encodeBudgetStream :: "scval_of \<Rightarrow> BudgetStreamRecord \<Rightarrow> js_error + ScVal" where
  "encodeBudgetStream nts stream = encMap
     [(''id'', encU64 nts (bs_id stream)),
      (''name'', Inr (encSymbol (bs_name stream))),
      (''owner'', encAddress nts (bs_owner stream)),
      (''token'', encAddress nts (bs_token stream)),
      (''total_allocated'', encI128 nts (bs_totalAllocated stream)),
      (''total_spent'', encI128 nts (bs_totalSpent stream)),
      (''start_ledger'', encU32 nts (bs_startLedger stream)),
      (''end_ledger'', encU32 nts (bs_endLedger stream)),
      (''is_active'', encBool nts (bs_isActive stream)),
      (''is_revoked'', encBool nts (bs_isRevoked stream)),
      (''revoked_at_ledger'', (case bs_revokedAtLedger stream of None \<Rightarrow> Inr encVoid | Some l \<Rightarrow> encU32 nts l)),
      (''max_single_spend'', encI128 nts (bs_maxSingleSpend stream)),
      (''cooldown_ledgers'', encU32 nts (bs_cooldownLedgers stream)),
      (''last_spend_ledger'', encU32 nts (bs_lastSpendLedger stream)),
      (''spend_count'', encU32 nts (bs_spendCount stream)),
      (''created_by_proposal_id'', encU64 nts (bs_createdByProposalId stream))]"

definition encodeStreamSpend :: "scval_of \<Rightarrow> StreamSpendRecord \<Rightarrow> js_error + ScVal" where
  "encodeStreamSpend nts spend = encMap
     [(''stream_id'', encU64 nts (sp_streamId spend)),
      (''spend_index'', encU32 nts (sp_spendIndex spend)),
      (''recipient'', encAddress nts (sp_recipient spend)),
      (''amount'', encI128 nts (sp_amount spend)),
      (''memo'', encString nts (sp_memo spend)),
      (''executed_at_ledger'', encU32 nts (sp_executedAtLedger spend)),
      (''executed_by'', encAddress nts (sp_executedBy spend))]"

definition encodeStreamBudgetReport :: "scval_of \<Rightarrow> StreamBudgetReportRecord \<Rightarrow> js_error + ScVal" where
  "encodeStreamBudgetReport nts report = encMap
     [(''stream_id'', encU64 nts (rp_streamId report)),
      (''name'', Inr (encSymbol (rp_name report))),
      (''total_allocated'', encI128 nts (rp_totalAllocated report)),
      (''total_spent'', encI128 nts (rp_totalSpent report)),
      (''remaining'', encI128 nts (rp_remaining report)),
      (''utilization_bps'', encU32 nts (rp_utilizationBps report)),
      (''is_active'', encBool nts (rp_isActive report)),
      (''days_remaining'', encU32 nts (rp_daysRemaining report)),
      (''spend_count'', encU32 nts (rp_spendCount report)),
      (''avg_spend'', encI128 nts (rp_avgSpend report))]"

definition encodeTokenAmounts :: "scval_of \<Rightarrow> (address \<times> int) list \<Rightarrow> js_error + ScVal" where
  "encodeTokenAmounts nts pairs =
     encVec (map (\<lambda>(token, amount). encVec [encAddress nts token, encI128 nts amount]) pairs)"

definition encodeTreasuryBudgetSummary :: "scval_of \<Rightarrow> TreasuryBudgetSummaryRecord \<Rightarrow> js_error + ScVal" where
  "encodeTreasuryBudgetSummary nts summary = encMap
     [(''total_streams'', encU32 nts (sm_totalStreams summary)),
      (''active_streams'', encU32 nts (sm_activeStreams summary)),
      (''total_allocated_by_token'', encodeTokenAmounts nts (sm_totalAllocatedByToken summary)),
      (''total_spent_by_token'', encodeTokenAmounts nts (sm_totalSpentByToken summary)),
      (''total_remaining_by_token'', encodeTokenAmounts nts (sm_totalRemainingByToken summary))]"

text \<open>The two configuration structs that \<^verbatim>\<open>encodeReturn\<close> builds in place.\<close>

definition encodeBondSettings :: "scval_of \<Rightarrow> address \<times> int \<times> address \<times> int \<times> int \<Rightarrow> js_error + ScVal" where
  "encodeBondSettings nts settings =
     (case settings of (bondToken, bondAmount, governor, refundGraceLedgers, maxLockLedgers) \<Rightarrow> encMap
       [(''bond_token'', encAddress nts bondToken),
        (''bond_amount'', encI128 nts bondAmount),
        (''governor'', encAddress nts governor),
        (''refund_grace_ledgers'', encU32 nts refundGraceLedgers),
        (''max_lock_ledgers'', encU32 nts maxLockLedgers)])"

definition encodeOptimisticConfig :: "scval_of \<Rightarrow> address \<times> int \<times> int \<times> int \<times> address \<Rightarrow> js_error + ScVal" where
  "encodeOptimisticConfig nts config =
     (case config of (votesToken, challengeWindowLedgers, objectionThresholdBps, bondAmount, bondToken) \<Rightarrow> encMap
       [(''votes_token'', encAddress nts votesToken),
        (''challenge_window_ledgers'', encU32 nts challengeWindowLedgers),
        (''objection_threshold_bps'', encU32 nts objectionThresholdBps),
        (''proposer_bond_amount'', encI128 nts bondAmount),
        (''proposer_bond_token'', encAddress nts bondToken)])"

subsection \<open>Lossless encoding\<close>

definition faithful :: "scval_of \<Rightarrow> bool" where
  "faithful nts \<longleftrightarrow> (\<forall>x y v. nts x = Inr v \<longrightarrow> nts y = Inr v \<longrightarrow> x = y)"

lemma all_values_map_Inr [simp]: "all_values (map Inr vs) = Inr vs"
  by (induction vs) simp_all

lemma all_values_Inr: "all_values rs = Inr vs \<longleftrightarrow> rs = map Inr vs"
proof
  show "all_values rs = Inr vs \<Longrightarrow> rs = map Inr vs"
    by (induction rs arbitrary: vs rule: all_values.induct) (auto split: sum.splits)
qed simp

lemma encVec_Inr: "encVec rs = Inr v \<longleftrightarrow> (\<exists>vs. rs = map Inr vs \<and> v = ScvVec vs)"
  by (auto simp: encVec_def all_values_Inr split: sum.splits)

lemma encMap_Inr:
  "encMap fs = Inr v \<longleftrightarrow>
     (\<exists>vs. map snd fs = map Inr vs \<and>
        v = ScvMap (map (\<lambda>key. (ScvSymbol key, the (map_of (zip (map fst fs) vs) key))) (sort (map fst fs))))"
  by (auto simp: encMap_def all_values_Inr Let_def split: sum.splits)

definition same_value :: "js_error + 'a \<Rightarrow> js_error + 'a \<Rightarrow> bool" where
  "same_value r r' \<longleftrightarrow> (\<exists>w. r = Inr w \<and> r' = Inr w)"

lemma same_value_Inr [simp]: "same_value (Inr v) (Inr w) \<longleftrightarrow> v = w"
  by (auto simp: same_value_def)

lemma same_values_iff: "list_all2 same_value rs rs' \<longleftrightarrow> (\<exists>vs. rs = map Inr vs \<and> rs' = map Inr vs)"
proof
  show "list_all2 same_value rs rs' \<Longrightarrow> \<exists>vs. rs = map Inr vs \<and> rs' = map Inr vs"
  proof (induction rule: list_all2_induct)
    case (Cons r rs r' rs')
    then obtain v vs where "r = Inr v" "r' = Inr v" "rs = map Inr vs" "rs' = map Inr vs"
      by (auto simp: same_value_def)
    then show ?case by (intro exI [of _ "v # vs"]) simp
  qed simp
qed (auto simp: list_all2_conv_all_nth)

lemma encMap_inject:
  assumes "encMap fs = Inr v" and "encMap gs = Inr v"
    and "map fst fs = map fst gs" and "distinct (map fst fs)"
  shows "list_all2 same_value (map snd fs) (map snd gs)"
proof -
  obtain vs where vs: "map snd fs = map Inr vs"
      "v = ScvMap (map (\<lambda>key. (ScvSymbol key, the (map_of (zip (map fst fs) vs) key))) (sort (map fst fs)))"
    using assms(1) by (auto simp: encMap_Inr)
  obtain ws where ws: "map snd gs = map Inr ws"
      "v = ScvMap (map (\<lambda>key. (ScvSymbol key, the (map_of (zip (map fst gs) ws) key))) (sort (map fst gs)))"
    using assms(2) by (auto simp: encMap_Inr)
  have len: "length vs = length (map fst fs)" "length ws = length (map fst fs)"
    using vs(1) ws(1) assms(3) by (metis length_map)+
  have same: "the (map_of (zip (map fst fs) vs) k) = the (map_of (zip (map fst fs) ws) k)"
    if "k \<in> set (map fst fs)" for k
    using vs(2) ws(2) that unfolding assms(3) [symmetric] by (auto simp: map_eq_conv)
  have "vs = ws"
  proof (rule nth_equalityI)
    fix i assume "i < length vs"
    then show "vs ! i = ws ! i"
      using same [of "map fst fs ! i"] len assms(4) by (metis map_of_zip_nth nth_mem option.sel)
  qed (simp add: len)
  then show ?thesis using vs(1) ws(1) by (auto simp: same_values_iff simp del: list_all2_map1 list_all2_map2)
qed

lemma encMap_sorted:
  assumes "distinct (map fst fs)" and "encMap fs = Inr v"
  shows "\<exists>keys vs. v = ScvMap (zip (map ScvSymbol keys) vs) \<and> length vs = length keys \<and>
     sorted_wrt (<) keys \<and> set keys = set (map fst fs)"
proof -
  let ?k = "sort (map fst fs)"
  obtain vs where "v = ScvMap (map (\<lambda>key. (ScvSymbol key, the (map_of (zip (map fst fs) vs) key))) ?k)"
    using assms(2) by (auto simp: encMap_Inr)
  then have "v = ScvMap (zip (map ScvSymbol ?k) (map (\<lambda>key. the (map_of (zip (map fst fs) vs) key)) ?k))"
    by (simp add: zip_map_map zip_same_conv_map)
  moreover have "sorted_wrt (<) ?k" using assms(1) by (simp add: strict_sorted_iff)
  ultimately show ?thesis by (metis length_map set_sort)
qed

lemma leaf_inject:
  assumes "faithful nts"
  shows "same_value (encAddress nts a) (encAddress nts b) \<Longrightarrow> a = b"
    and "same_value (encU32 nts i) (encU32 nts j) \<Longrightarrow> i = j"
    and "same_value (encU64 nts i) (encU64 nts j) \<Longrightarrow> i = j"
    and "same_value (encI128 nts i) (encI128 nts j) \<Longrightarrow> i = j"
    and "same_value (encBool nts p) (encBool nts q) \<Longrightarrow> p = q"
    and "same_value (encString nts a) (encString nts b) \<Longrightarrow> a = b"
    and "same_value (encBytes nts c) (encBytes nts d) \<Longrightarrow> c = d"
  using assms by (fastforce simp: same_value_def faithful_def encAddress_def encU32_def encU64_def
      encI128_def encBool_def encString_def encBytes_def)+

lemma vec_inject:
  assumes "\<And>x y. same_value (f x) (f y) \<Longrightarrow> g x = g y"
    and "same_value (encVec (map f xs)) (encVec (map f ys))"
  shows "map g xs = map g ys"
proof -
  have "list_all2 same_value (map f xs) (map f ys)"
    using assms(2) unfolding same_values_iff by (auto simp: same_value_def encVec_Inr)
  then show ?thesis
    by (auto simp: list_all2_conv_all_nth intro!: nth_equalityI assms(1))
qed

lemma vec_leaf_inject:
  assumes "faithful nts"
  shows "same_value (encVec (map (encAddress nts) as)) (encVec (map (encAddress nts) bs)) \<Longrightarrow> as = bs"
    and "same_value (encVec (map (encBytes nts) cs)) (encVec (map (encBytes nts) ds)) \<Longrightarrow> cs = ds"
    and "same_value (encVec (map (encI128 nts) is)) (encVec (map (encI128 nts) js)) \<Longrightarrow> is = js"
    and "same_value (encVec (map (\<lambda>x. Inr (encSymbol x)) fs)) (encVec (map (\<lambda>x. Inr (encSymbol x)) gs)) \<Longrightarrow>
      fs = gs"
    and "same_value (encVec (map (\<lambda>i. encBytes nts (from_hex i)) hs)) (encVec (map (\<lambda>i. encBytes nts (from_hex i)) ks)) \<Longrightarrow>
      map from_hex hs = map from_hex ks"
  using vec_inject [of "encAddress nts" id as bs] vec_inject [of "encBytes nts" id cs ds]
    vec_inject [of "encI128 nts" id "is" js] vec_inject [of "\<lambda>x. Inr (encSymbol x)" id fs gs]
    vec_inject [of "\<lambda>i. encBytes nts (from_hex i)" from_hex hs ks]
  by (simp_all add: leaf_inject [OF assms] encSymbol_def)

lemma names_inject [simp]:
  "lifecycle_name x = lifecycle_name y \<longleftrightarrow> x = y"
  "bond_state_name u = bond_state_name v \<longleftrightarrow> u = v"
  subgoal by (cases x; cases y; simp)
  subgoal by (cases u; cases v; simp)
  done

lemma encodeProposal_inject:
  assumes "faithful nts" and "encodeProposal nts p = Inr w" and "encodeProposal nts q = Inr w"
  shows "p\<lparr>pr_descriptionHash := [], pr_opIds := [], pr_hasVoted := []\<rparr> =
      q\<lparr>pr_descriptionHash := [], pr_opIds := [], pr_hasVoted := []\<rparr> \<and>
    from_hex (pr_descriptionHash p) = from_hex (pr_descriptionHash q) \<and>
    map from_hex (pr_opIds p) = map from_hex (pr_opIds q)"
  using encMap_inject [OF assms(2,3) [unfolded encodeProposal_def]]
  by (auto dest!: leaf_inject [OF assms(1)] vec_leaf_inject [OF assms(1)])

lemma encodeDraft_inject:
  assumes "faithful nts" and "encodeCoSponsorshipDraft nts d = Inr w" and "encodeCoSponsorshipDraft nts d' = Inr w"
  shows "d = d'"
  using encMap_inject [OF assms(2,3) [unfolded encodeCoSponsorshipDraft_def]]
  by (auto dest!: leaf_inject [OF assms(1)] vec_leaf_inject [OF assms(1)])


lemma encodeOptimistic_inject:
  assumes "faithful nts" and "encodeOptimisticProposal nts p = Inr w" and "encodeOptimisticProposal nts q = Inr w"
  shows "p = q"
  using encMap_inject [OF assms(2,3) [unfolded encodeOptimisticProposal_def]]
  by (auto simp: encSymbol_def encEnum_def dest!: leaf_inject [OF assms(1)])

lemma encodeConviction_inject:
  assumes "faithful nts" and "encodeConvictionProposal nts p = Inr w" and "encodeConvictionProposal nts q = Inr w"
  shows "p = q"
  using encMap_inject [OF assms(2,3) [unfolded encodeConvictionProposal_def]]
  by (auto simp: encSymbol_def encEnum_def dest!: leaf_inject [OF assms(1)])

lemma encodeSpend_inject:
  assumes "faithful nts" and "encodeStreamSpend nts p = Inr w" and "encodeStreamSpend nts q = Inr w"
  shows "p = q"
  using encMap_inject [OF assms(2,3) [unfolded encodeStreamSpend_def]]
  by (auto dest!: leaf_inject [OF assms(1)])

subsection \<open>Properties\<close>

text \<open>Struct returns lose nothing on the wire: two governor proposals with the same wire value
  agree on every field but the voter set, which is not sent, with hashes and operation
  identifiers that denote the same bytes; for co-sponsorship drafts, optimistic proposals,
  conviction proposals and stream spends equal wire values mean equal records. The leaf encoding
  is assumed to map different values, or values with different type hints, to different wire
  values.\<close>

theorem struct_encoding_lossless:
  assumes "faithful nts"
  shows "(encodeProposal nts p = Inr w \<longrightarrow> encodeProposal nts p' = Inr w \<longrightarrow>
       p\<lparr>pr_descriptionHash := [], pr_opIds := [], pr_hasVoted := []\<rparr> =
         p'\<lparr>pr_descriptionHash := [], pr_opIds := [], pr_hasVoted := []\<rparr> \<and>
       from_hex (pr_descriptionHash p) = from_hex (pr_descriptionHash p') \<and>
       map from_hex (pr_opIds p) = map from_hex (pr_opIds p')) \<and>
     (encodeCoSponsorshipDraft nts d = Inr w \<longrightarrow> encodeCoSponsorshipDraft nts d' = Inr w \<longrightarrow> d = d') \<and>
     (encodeOptimisticProposal nts q = Inr w \<longrightarrow> encodeOptimisticProposal nts q' = Inr w \<longrightarrow> q = q') \<and>
     (encodeConvictionProposal nts c = Inr w \<longrightarrow> encodeConvictionProposal nts c' = Inr w \<longrightarrow> c = c') \<and>
     (encodeStreamSpend nts r = Inr w \<longrightarrow> encodeStreamSpend nts r' = Inr w \<longrightarrow> r = r')"
  using encodeProposal_inject [OF assms] encodeDraft_inject [OF assms] encodeOptimistic_inject [OF assms]
    encodeConviction_inject [OF assms] encodeSpend_inject [OF assms] by (intro conjI impI) blast+

fun demo_nts :: scval_of where
  "demo_nts (HAddress a) = Inr (ScvAddress a)"
| "demo_nts (HU32 n) = (if 0 \<le> n \<and> n < 2 ^ 32 then Inr (ScvU32 n) else Inl (JsError ''u32''))"
| "demo_nts (HU64 n) = (if 0 \<le> n \<and> n < 2 ^ 64 then Inr (ScvU64 n) else Inl (JsError ''u64''))"
| "demo_nts (HI128 n) = (if - (2 ^ 127) \<le> n \<and> n < 2 ^ 127 then Inr (ScvI128 n) else Inl (JsError ''i128''))"
| "demo_nts (HBoolean b) = Inr (ScvBool b)"
| "demo_nts (HString a) = Inr (ScvString a)"
| "demo_nts (HBytes b) = Inr (ScvBytes b)"

lemma demo_nts_faithful: "faithful demo_nts"
  unfolding faithful_def
proof (intro allI impI)
  fix x y v
  assume "demo_nts x = Inr v" "demo_nts y = Inr v"
  then show "x = y" by (cases x; cases y) (auto split: if_splits)
qed

definition demo_spend :: StreamSpendRecord where
  "demo_spend = \<lparr>sp_streamId = 1, sp_spendIndex = 0, sp_recipient = ''bob'', sp_amount = 60,
     sp_memo = ''audit'', sp_executedAtLedger = 1002, sp_executedBy = ''alice''\<rparr>"

theorem struct_encoding_lossless_witness:
  "\<exists>w. encodeStreamSpend demo_nts demo_spend = Inr w \<and>
     (\<forall>r. encodeStreamSpend demo_nts r = Inr w \<longrightarrow> r = demo_spend)"
proof -
  obtain w where w: "encodeStreamSpend demo_nts demo_spend = Inr w"
    by (simp add: encodeStreamSpend_def demo_spend_def encMap_def encU64_def encU32_def encAddress_def
        encI128_def encString_def Let_def)
  then show ?thesis using struct_encoding_lossless [OF demo_nts_faithful] by blast
qed

text \<open>The wire form of a proposal is canonical: whatever order the source lists the fields in, the
  map has each of the seventeen field names exactly once, as a symbol, in strictly ascending
  order, which is the form a contract struct has on the wire.\<close>

theorem proposal_keys_canonical:
  assumes "encodeProposal nts p = Inr v"
  shows "\<exists>keys vs. v = ScvMap (zip (map ScvSymbol keys) vs) \<and> length vs = length keys \<and> sorted_wrt (<) keys \<and>
     set keys = {''id'', ''proposer'', ''description'', ''description_hash'', ''metadata_uri'', ''targets'',
       ''fn_names'', ''calldatas'', ''start_ledger'', ''end_ledger'', ''votes_for'', ''votes_against'',
       ''votes_abstain'', ''executed'', ''cancelled'', ''queued'', ''op_ids''}"
  using encMap_sorted [OF _ assms [unfolded encodeProposal_def]] by simp

definition demo_proposal :: ProposalRecord where
  "demo_proposal = \<lparr>pr_id = 1, pr_proposer = ''alice'', pr_description = ''d'', pr_descriptionHash = ''ab'',
     pr_metadataUri = ''u'', pr_targets = [''C9''], pr_fnNames = [''f''], pr_calldatas = [[]],
     pr_startLedger = 5, pr_endLedger = 9, pr_votesFor = 3, pr_votesAgainst = 0, pr_votesAbstain = 0,
     pr_executed = False, pr_cancelled = False, pr_queued = False, pr_opIds = [], pr_hasVoted = []\<rparr>"

theorem proposal_keys_canonical_witness:
  "\<exists>keys vs. encodeProposal demo_nts demo_proposal = Inr (ScvMap (zip (map ScvSymbol keys) vs)) \<and>
     sorted_wrt (<) keys"
proof -
  have "\<not> isl (encodeProposal demo_nts demo_proposal)" by code_simp
  then obtain v where "encodeProposal demo_nts demo_proposal = Inr v"
    by (cases "encodeProposal demo_nts demo_proposal") auto
  then show ?thesis using proposal_keys_canonical by blast
qed

end
