(* ===== verification/MockServer.thy ===== *)
theory MockServer
  imports GovernorRuns CoSponsorship OptimisticGovernor TreasuryStreams ConvictionVoting MockCodec
begin

section \<open>The mock RPC server\<close>

text \<open>
  \<^verbatim>\<open>MockSorobanServer\<close> of \<^verbatim>\<open>tools/simulation/src/mock/server.ts\<close>: it resolves the contract of an
  invocation, dispatches to the executors, encodes the result, runs simulations on a clone of
  the store and transactions on the store itself, and keeps their results by hash. The function
  name and the decoded arguments (\<^verbatim>\<open>scValToNative\<close> is the Stellar SDK's) of an invocation are one
  value of a datatype per executor, with a constructor per entry of its table. The lemmas connect
  the components: every call is a step of each component's run relation, the token supply is
  conserved and the bond escrow stays solvent across all contracts, a simulation predicts the
  transaction, and a failed transaction may leave changes behind.
\<close>

subsection \<open>Contracts and calls\<close>

datatype contract_name =
  CGovernor | CTimelock | CVotes | CCoSponsorship | COptimisticGovernor | CTreasury | CConvictionVoting
| CProposalBonds

definition resolveContract :: "ContractAddresses \<Rightarrow> address \<Rightarrow> js_error + contract_name" where
  "resolveContract addresses address =
     (if address = ad_governor addresses then Inr CGovernor
      else if address = ad_timelock addresses then Inr CTimelock
      else if address = ad_votes addresses then Inr CVotes
      else if address = ad_coSponsorship addresses then Inr CCoSponsorship
      else if address = ad_optimisticGovernor addresses then Inr COptimisticGovernor
      else if address = ad_treasury addresses then Inr CTreasury
      else if address = ad_convictionVoting addresses then Inr CConvictionVoting
      else if address = ad_proposalBonds addresses then Inr CProposalBonds
      else Inl (JsError (''MockSorobanServer: unknown contract address '' @ address)))"

datatype governor_call =
  GovPropose address string bytes string "address list" "string list" "bytes list"
| GovProposeViaRegistry address address string bytes string "address list" "string list" "bytes list"
| GovCastVote address int "string list"
| GovQueue int
| GovExecute int
| GovCancel address int
| GovCancelQueued address int
| GovState int
| GovGetSettings
| GovGetProposal int
| GovGetQuorum int
| GovIsQuorumReached int
| GovProposalThreshold
| GovProposalVotes int
| GovHasVoted int address
| GovProposalCount
| GovPause
| GovUnpause

datatype timelock_call =
  TlIsReady bytes
| TlIsPending bytes
| TlMinDelay
| TlExecutionWindow
| TlScheduleWithDeps address bytes string int "bytes list"
| TlValidateDependencyDag "bytes list"
| TlExecuteBatchPartial
| TlRetryFailedOperation
| TlSkipFailedOperation

datatype votes_call =
  TvDelegate address address
| TvGetVotes address
| TvGetBaseVotes address
| TvGetPastVotes address int
| TvGetPastTotalSupply int
| TvDelegates address

datatype coSponsorship_call =
  CsCreateDraft address string bytes string "address list" "string list" "bytes list"
| CsCoSponsor address int
| CsFinalizeDraft address int
| CsGetDraft int

datatype optimistic_call =
  OgPropose address address string bytes bytes
| OgObject address int
| OgFinalize int
| OgExecute int
| OgCancel address int
| OgGetProposal int
| OgGetConfig
| OgUpdateConfig address int int

datatype treasury_call =
  TrCreateStream address string address address int int int int int int
| TrStreamSpend address int address int string
| TrTopUpStream address int int
| TrGetStream int
| TrGetStreams int int
| TrGetStreamSpends int nat nat
| TrGetStreamRemaining int
| TrGetStreamReport int
| TrGetBudgetSummary

datatype conviction_call =
  CvCreateProposal address address string bytes int
| CvStake address int int
| CvWithdrawStake address
| CvCheckpointConviction int
| CvGetProposal int
| CvGetStakes int nat nat
| CvGetRequiredThreshold int

datatype bonds_call =
  PbLockBond address bytes
| PbRefundBond address bytes int
| PbSlash address bytes address
| PbGetBond bytes
| PbGetSettings

datatype contract_call =
  ToGovernor governor_call
| ToTimelock timelock_call
| ToVotes votes_call
| ToCoSponsorship coSponsorship_call
| ToOptimisticGovernor optimistic_call
| ToTreasury treasury_call
| ToConvictionVoting conviction_call
| ToProposalBonds bonds_call

fun contract_of :: "contract_call \<Rightarrow> contract_name" where
  "contract_of (ToGovernor _) = CGovernor"
| "contract_of (ToTimelock _) = CTimelock"
| "contract_of (ToVotes _) = CVotes"
| "contract_of (ToCoSponsorship _) = CCoSponsorship"
| "contract_of (ToOptimisticGovernor _) = COptimisticGovernor"
| "contract_of (ToTreasury _) = CTreasury"
| "contract_of (ToConvictionVoting _) = CConvictionVoting"
| "contract_of (ToProposalBonds _) = CProposalBonds"

record DecodedInvocation =
  iv_contractAddress :: address
  iv_call :: contract_call
  iv_caller :: address

text \<open>The value of a handler, before it is encoded.\<close>

datatype ret_value =
  RNull
| RNumber int
| RBool bool
| RText string
| RState ProposalStateName
| RSettings GovernorSettingsState
| RProposal ProposalRecord
| RVotes int int int
| RDraft CoSponsorshipDraftRecord
| ROptimistic OptimisticProposalRecord
| ROptimisticConfig "address \<times> int \<times> int \<times> int \<times> address"
| RStream BudgetStreamRecord
| RStreams "BudgetStreamRecord list"
| RSpends "StreamSpendRecord list"
| RReport StreamBudgetReportRecord
| RSummary TreasuryBudgetSummaryRecord
| RConviction ConvictionProposalRecord
| RStakes "ConvictionStakeRecord list"
| RBond ProposalBondRecord
| RBondSettings "address \<times> int \<times> address \<times> int \<times> int"

text \<open>Handlers differ in their result types; \<open>wrap\<close> brings an outcome to \<open>ret_value\<close>, \<open>answer\<close> does so
  for a read, which leaves the store alone.\<close>

definition wrap :: "('a \<Rightarrow> ret_value) \<Rightarrow> ('a, 's) outcome \<Rightarrow> (ret_value, 's) outcome" where
  "wrap f r = (case r of (Inl e, s) \<Rightarrow> (Inl e, s) | (Inr v, s) \<Rightarrow> (Inr (f v), s))"

definition answer :: "('a \<Rightarrow> ret_value) \<Rightarrow> js_error + 'a \<Rightarrow> 's \<Rightarrow> (ret_value, 's) outcome" where
  "answer f r s = (case r of Inl e \<Rightarrow> (Inl e, s) | Inr v \<Rightarrow> (Inr (f v), s))"

abbreviation done_with :: "(unit, 's) outcome \<Rightarrow> (ret_value, 's) outcome" where
  "done_with \<equiv> wrap (\<lambda>_. RNull)"

subsection \<open>The executor tables\<close>

primrec governor_run ::
  "(bytes \<Rightarrow> bytes) \<Rightarrow> (bytes \<Rightarrow> js_error + native list) \<Rightarrow> MockLedgerStore \<Rightarrow> LedgerClock \<Rightarrow> address \<Rightarrow>
     governor_call \<Rightarrow> (ret_value, MockLedgerStore) outcome" where
  "governor_run h dec s c caller (GovPropose p d dh mu ts fs cs) = wrap RNumber (gov_propose s c caller p d dh mu ts fs cs)"
| "governor_run h dec s c caller (GovProposeViaRegistry rg p d dh mu ts fs cs) =
     wrap RNumber (propose_via_registry s c caller rg p d dh mu ts fs cs)"
| "governor_run h dec s c caller (GovCastVote v pid sv) = done_with (cast_vote s c caller v pid sv)"
| "governor_run h dec s c caller (GovQueue pid) = done_with (gov_queue h s c pid)"
| "governor_run h dec s c caller (GovExecute pid) = done_with (gov_execute dec s c pid)"
| "governor_run h dec s c caller (GovCancel a pid) = done_with (gov_cancel s c caller a pid)"
| "governor_run h dec s c caller (GovCancelQueued a pid) = done_with (gov_cancel_queued s c caller a pid)"
| "governor_run h dec s c caller (GovState pid) = answer RState (gov_state s c pid) s"
| "governor_run h dec s c caller GovGetSettings = (Inr (RSettings (gov_get_settings s)), s)"
| "governor_run h dec s c caller (GovGetProposal pid) = answer RProposal (gov_get_proposal s pid) s"
| "governor_run h dec s c caller (GovGetQuorum pid) = answer RNumber (get_quorum s c pid) s"
| "governor_run h dec s c caller (GovIsQuorumReached pid) = answer RBool (is_quorum_reached s c pid) s"
| "governor_run h dec s c caller GovProposalThreshold = (Inr (RNumber (proposal_threshold s)), s)"
| "governor_run h dec s c caller (GovProposalVotes pid) = answer (\<lambda>(f, a, b). RVotes f a b) (proposal_votes s pid) s"
| "governor_run h dec s c caller (GovHasVoted pid v) = answer RBool (has_voted s pid v) s"
| "governor_run h dec s c caller GovProposalCount = (Inr (RNumber (proposal_count s)), s)"
| "governor_run h dec s c caller GovPause = done_with (gov_pause s caller)"
| "governor_run h dec s c caller GovUnpause = done_with (gov_unpause s caller)"

text \<open>The dependency check always returns, so its \<open>None\<close> does not occur.\<close>

primrec timelock_run ::
  "(bytes \<Rightarrow> bytes) \<Rightarrow> TimelockState \<Rightarrow> LedgerClock \<Rightarrow> timelock_call \<Rightarrow> (ret_value, TimelockState) outcome" where
  "timelock_run h t c (TlIsReady i) = (Inr (RBool (is_ready t c i)), t)"
| "timelock_run h t c (TlIsPending i) = (Inr (RBool (is_pending t c i)), t)"
| "timelock_run h t c TlMinDelay = (Inr (RNumber (min_delay t)), t)"
| "timelock_run h t c TlExecutionWindow = (Inr (RNumber (execution_window t)), t)"
| "timelock_run h t c (TlScheduleWithDeps tg d f dl ps) = wrap RText (schedule_with_deps h t c tg d f dl ps)"
| "timelock_run h t c (TlValidateDependencyDag ids) =
     (case validate_dependency_dag t ids of
        None \<Rightarrow> (Inl (JsError ''no result''), t) | Some r \<Rightarrow> done_with r)"
| "timelock_run h t c TlExecuteBatchPartial = done_with (execute_batch_partial t)"
| "timelock_run h t c TlRetryFailedOperation = done_with (retry_failed_operation t)"
| "timelock_run h t c TlSkipFailedOperation = done_with (skip_failed_operation t)"

primrec votes_run ::
  "TokenVotesState \<Rightarrow> LedgerClock \<Rightarrow> address \<Rightarrow> votes_call \<Rightarrow> (ret_value, TokenVotesState) outcome" where
  "votes_run v c caller (TvDelegate a b) = done_with (tv_delegate v c caller a b)"
| "votes_run v c caller (TvGetVotes a) = (Inr (RNumber (get_votes v a)), v)"
| "votes_run v c caller (TvGetBaseVotes a) = (Inr (RNumber (get_base_votes v a)), v)"
| "votes_run v c caller (TvGetPastVotes a l) = answer RNumber (get_past_votes v c a l) v"
| "votes_run v c caller (TvGetPastTotalSupply l) = answer RNumber (get_past_total_supply v c l) v"
| "votes_run v c caller (TvDelegates a) =
     (Inr (case tv_delegates_of v a of None \<Rightarrow> RNull | Some b \<Rightarrow> RText b), v)"

primrec coSponsorship_run ::
  "MockLedgerStore \<Rightarrow> LedgerClock \<Rightarrow> address \<Rightarrow> coSponsorship_call \<Rightarrow> (ret_value, MockLedgerStore) outcome" where
  "coSponsorship_run s c caller (CsCreateDraft a d dh mu ts fs cs) = wrap RNumber (create_draft s c caller a d dh mu ts fs cs)"
| "coSponsorship_run s c caller (CsCoSponsor a i) = done_with (co_sponsor s c caller a i)"
| "coSponsorship_run s c caller (CsFinalizeDraft a i) = wrap RNumber (finalize_draft s c caller a i)"
| "coSponsorship_run s c caller (CsGetDraft i) = answer RDraft (get_draft s i) s"

primrec optimistic_run ::
  "MockLedgerStore \<Rightarrow> LedgerClock \<Rightarrow> optimistic_call \<Rightarrow> (ret_value, MockLedgerStore) outcome" where
  "optimistic_run s c (OgPropose p t f cd dh) = wrap RNumber (og_propose s c p t f cd dh)"
| "optimistic_run s c (OgObject a i) = done_with (og_object s c a i)"
| "optimistic_run s c (OgFinalize i) = done_with (og_finalize s c i)"
| "optimistic_run s c (OgExecute i) = done_with (og_execute s i)"
| "optimistic_run s c (OgCancel a i) = done_with (og_cancel s a i)"
| "optimistic_run s c (OgGetProposal i) = answer ROptimistic (og_get_proposal s i) s"
| "optimistic_run s c OgGetConfig = (Inr (ROptimisticConfig (og_get_config s)), s)"
| "optimistic_run s c (OgUpdateConfig a w t) = done_with (og_update_config s a w t)"

primrec treasury_run ::
  "MockLedgerStore \<Rightarrow> LedgerClock \<Rightarrow> address \<Rightarrow> treasury_call \<Rightarrow> (ret_value, MockLedgerStore) outcome" where
  "treasury_run s c caller (TrCreateStream sg n ow tok al st en mx cd pid) =
     wrap RNumber (create_stream s c caller sg n ow tok al st en mx cd pid)"
| "treasury_run s c caller (TrStreamSpend ow i r n m) = done_with (stream_spend s c caller ow i r n m)"
| "treasury_run s c caller (TrTopUpStream sg i n) = done_with (top_up_stream s c caller sg i n)"
| "treasury_run s c caller (TrGetStream i) = answer RStream (get_stream s i) s"
| "treasury_run s c caller (TrGetStreams off lim) = answer RStreams (get_streams s off lim) s"
| "treasury_run s c caller (TrGetStreamSpends i off lim) = (Inr (RSpends (get_stream_spends s i off lim)), s)"
| "treasury_run s c caller (TrGetStreamRemaining i) = answer RNumber (get_stream_remaining s i) s"
| "treasury_run s c caller (TrGetStreamReport i) = answer RReport (get_stream_report s c i) s"
| "treasury_run s c caller TrGetBudgetSummary = (Inr (RSummary (get_budget_summary s c)), s)"

primrec conviction_run ::
  "MockLedgerStore \<Rightarrow> LedgerClock \<Rightarrow> address \<Rightarrow> conviction_call \<Rightarrow> (ret_value, MockLedgerStore) outcome" where
  "conviction_run s c caller (CvCreateProposal p t f cd n) = wrap RNumber (cv_create_proposal s c caller p t f cd n)"
| "conviction_run s c caller (CvStake a i n) = done_with (cv_stake s c caller a i n)"
| "conviction_run s c caller (CvWithdrawStake a) = done_with (withdraw_stake s c caller a)"
| "conviction_run s c caller (CvCheckpointConviction i) = wrap RNumber (checkpoint_conviction s c i)"
| "conviction_run s c caller (CvGetProposal i) = answer RConviction (cv_get_proposal s i) s"
| "conviction_run s c caller (CvGetStakes i off lim) = wrap RStakes (get_stakes s i off lim)"
| "conviction_run s c caller (CvGetRequiredThreshold n) = answer RNumber (get_required_threshold s c n) s"

primrec bonds_run ::
  "MockLedgerStore \<Rightarrow> LedgerClock \<Rightarrow> address \<Rightarrow> bonds_call \<Rightarrow> (ret_value, MockLedgerStore) outcome" where
  "bonds_run s c caller (PbLockBond p dh) = done_with (lock_bond s c caller p (HashBytes dh))"
| "bonds_run s c caller (PbRefundBond a dh i) = done_with (refund_bond s c caller a (HashBytes dh) i)"
| "bonds_run s c caller (PbSlash a dh r) = done_with (slash s c caller a (HashBytes dh) r)"
| "bonds_run s c caller (PbGetBond dh) =
     (Inr (case get_bond s (HashBytes dh) of None \<Rightarrow> RNull | Some b \<Rightarrow> RBond b), s)"
| "bonds_run s c caller PbGetSettings = (Inr (RBondSettings (pb_get_settings s)), s)"

text \<open>The timelock and votes executors get their part of the store, which they update in place.\<close>

primrec run_call ::
  "(bytes \<Rightarrow> bytes) \<Rightarrow> (bytes \<Rightarrow> js_error + native list) \<Rightarrow> MockLedgerStore \<Rightarrow> LedgerClock \<Rightarrow> address \<Rightarrow>
     contract_call \<Rightarrow> (ret_value, MockLedgerStore) outcome" where
  "run_call h dec s c caller (ToGovernor call) = governor_run h dec s c caller call"
| "run_call h dec s c caller (ToTimelock call) =
     (case timelock_run h (st_timelock s) c call of (r, t) \<Rightarrow> (r, put_timelock s t))"
| "run_call h dec s c caller (ToVotes call) =
     (case votes_run (st_votes s) c caller call of (r, v) \<Rightarrow> (r, s\<lparr>st_votes := v\<rparr>))"
| "run_call h dec s c caller (ToCoSponsorship call) = coSponsorship_run s c caller call"
| "run_call h dec s c caller (ToOptimisticGovernor call) = optimistic_run s c call"
| "run_call h dec s c caller (ToTreasury call) = treasury_run s c caller call"
| "run_call h dec s c caller (ToConvictionVoting call) = conviction_run s c caller call"
| "run_call h dec s c caller (ToProposalBonds call) = bonds_run s c caller call"

text \<open>
  A call names the table it is in. For an invocation whose address resolves to another contract
  the source looks the name up in that contract's table; the model answers with the error for a
  name that is not there.
\<close>

definition dispatch ::
  "(bytes \<Rightarrow> bytes) \<Rightarrow> (bytes \<Rightarrow> js_error + native list) \<Rightarrow> LedgerClock \<Rightarrow> DecodedInvocation \<Rightarrow>
     MockLedgerStore \<Rightarrow> (ret_value, MockLedgerStore) outcome" where
  "dispatch h dec clock invoc store =
     (case resolveContract (st_addresses store) (iv_contractAddress invoc) of
        Inl e \<Rightarrow> throws e store
      | Inr contract \<Rightarrow>
          if contract \<noteq> contract_of (iv_call invoc)
          then throws (JsError ''MockSorobanServer: unknown function'') store
          else run_call h dec store clock (iv_caller invoc) (iv_call invoc))"

subsection \<open>The encoding of results\<close>

text \<open>\<^verbatim>\<open>encodeReturn\<close> chooses the encoder by contract and function name; \<open>None\<close> stands for its default
  branches, which throw.\<close>

datatype encoder =
  EVoid | EU64 | EI128 | EBool | EEnum | EAddressOrVoid | ESettings | EVotes | EProposal | EDraft
| EOptimistic | EOptimisticConfig | EStream | EStreams | ESpends | EReport | ESummary | EConviction
| EStakes | EBondOrVoid | EBondSettings

primrec governor_encoder :: "governor_call \<Rightarrow> encoder option" where
  "governor_encoder (GovPropose p d dh mu ts fs cs) = Some EU64"
| "governor_encoder (GovProposeViaRegistry rg p d dh mu ts fs cs) = None"
| "governor_encoder (GovCastVote v pid sv) = Some EVoid"
| "governor_encoder (GovQueue pid) = Some EVoid"
| "governor_encoder (GovExecute pid) = Some EVoid"
| "governor_encoder (GovCancel a pid) = Some EVoid"
| "governor_encoder (GovCancelQueued a pid) = Some EVoid"
| "governor_encoder (GovState pid) = Some EEnum"
| "governor_encoder GovGetSettings = Some ESettings"
| "governor_encoder (GovGetProposal pid) = Some EProposal"
| "governor_encoder (GovGetQuorum pid) = Some EI128"
| "governor_encoder (GovIsQuorumReached pid) = Some EBool"
| "governor_encoder GovProposalThreshold = Some EI128"
| "governor_encoder (GovProposalVotes pid) = Some EVotes"
| "governor_encoder (GovHasVoted pid v) = Some EBool"
| "governor_encoder GovProposalCount = Some EU64"
| "governor_encoder GovPause = Some EVoid"
| "governor_encoder GovUnpause = Some EVoid"

primrec timelock_encoder :: "timelock_call \<Rightarrow> encoder option" where
  "timelock_encoder (TlIsReady i) = Some EBool"
| "timelock_encoder (TlIsPending i) = Some EBool"
| "timelock_encoder TlMinDelay = Some EU64"
| "timelock_encoder TlExecutionWindow = Some EU64"
| "timelock_encoder (TlScheduleWithDeps tg d f dl ps) = Some EAddressOrVoid"
| "timelock_encoder (TlValidateDependencyDag ids) = Some EVoid"
| "timelock_encoder TlExecuteBatchPartial = Some EVoid"
| "timelock_encoder TlRetryFailedOperation = Some EVoid"
| "timelock_encoder TlSkipFailedOperation = Some EVoid"

primrec votes_encoder :: "votes_call \<Rightarrow> encoder option" where
  "votes_encoder (TvDelegate a b) = Some EVoid"
| "votes_encoder (TvGetVotes a) = Some EI128"
| "votes_encoder (TvGetBaseVotes a) = Some EI128"
| "votes_encoder (TvGetPastVotes a l) = Some EI128"
| "votes_encoder (TvGetPastTotalSupply l) = Some EI128"
| "votes_encoder (TvDelegates a) = Some EAddressOrVoid"

primrec coSponsorship_encoder :: "coSponsorship_call \<Rightarrow> encoder option" where
  "coSponsorship_encoder (CsCreateDraft a d dh mu ts fs cs) = Some EU64"
| "coSponsorship_encoder (CsCoSponsor a i) = Some EVoid"
| "coSponsorship_encoder (CsFinalizeDraft a i) = Some EU64"
| "coSponsorship_encoder (CsGetDraft i) = Some EDraft"

primrec optimistic_encoder :: "optimistic_call \<Rightarrow> encoder option" where
  "optimistic_encoder (OgPropose p t f cd dh) = Some EU64"
| "optimistic_encoder (OgObject a i) = Some EVoid"
| "optimistic_encoder (OgFinalize i) = Some EVoid"
| "optimistic_encoder (OgExecute i) = Some EVoid"
| "optimistic_encoder (OgCancel a i) = Some EVoid"
| "optimistic_encoder (OgGetProposal i) = Some EOptimistic"
| "optimistic_encoder OgGetConfig = Some EOptimisticConfig"
| "optimistic_encoder (OgUpdateConfig a w t) = Some EVoid"

primrec treasury_encoder :: "treasury_call \<Rightarrow> encoder option" where
  "treasury_encoder (TrCreateStream sg n ow tok al st en mx cd pid) = Some EU64"
| "treasury_encoder (TrStreamSpend ow i r n m) = Some EVoid"
| "treasury_encoder (TrTopUpStream sg i n) = Some EVoid"
| "treasury_encoder (TrGetStream i) = Some EStream"
| "treasury_encoder (TrGetStreams off lim) = Some EStreams"
| "treasury_encoder (TrGetStreamSpends i off lim) = Some ESpends"
| "treasury_encoder (TrGetStreamRemaining i) = Some EI128"
| "treasury_encoder (TrGetStreamReport i) = Some EReport"
| "treasury_encoder TrGetBudgetSummary = Some ESummary"

primrec conviction_encoder :: "conviction_call \<Rightarrow> encoder option" where
  "conviction_encoder (CvCreateProposal p t f cd n) = Some EU64"
| "conviction_encoder (CvStake a i n) = Some EVoid"
| "conviction_encoder (CvWithdrawStake a) = Some EVoid"
| "conviction_encoder (CvCheckpointConviction i) = Some EI128"
| "conviction_encoder (CvGetProposal i) = Some EConviction"
| "conviction_encoder (CvGetStakes i off lim) = Some EStakes"
| "conviction_encoder (CvGetRequiredThreshold n) = Some EI128"

primrec bonds_encoder :: "bonds_call \<Rightarrow> encoder option" where
  "bonds_encoder (PbLockBond p dh) = Some EVoid"
| "bonds_encoder (PbRefundBond a dh i) = Some EVoid"
| "bonds_encoder (PbSlash a dh r) = Some EVoid"
| "bonds_encoder (PbGetBond dh) = Some EBondOrVoid"
| "bonds_encoder PbGetSettings = Some EBondSettings"

primrec encoder_of :: "contract_call \<Rightarrow> encoder option" where
  "encoder_of (ToGovernor call) = governor_encoder call"
| "encoder_of (ToTimelock call) = timelock_encoder call"
| "encoder_of (ToVotes call) = votes_encoder call"
| "encoder_of (ToCoSponsorship call) = coSponsorship_encoder call"
| "encoder_of (ToOptimisticGovernor call) = optimistic_encoder call"
| "encoder_of (ToTreasury call) = treasury_encoder call"
| "encoder_of (ToConvictionVoting call) = conviction_encoder call"
| "encoder_of (ToProposalBonds call) = bonds_encoder call"

text \<open>The casts of the source (\<^verbatim>\<open>value as bigint\<close>): a value of another type does not reach an encoder.\<close>

abbreviation miscast :: "js_error + ScVal" where
  "miscast \<equiv> Inl (JsError ''TypeError'')"

definition encode_with :: "scval_of \<Rightarrow> encoder \<Rightarrow> ret_value \<Rightarrow> js_error + ScVal" where
  "encode_with nts k v =
     (case k of
        EVoid \<Rightarrow> Inr encVoid
      | EU64 \<Rightarrow> (case v of RNumber n \<Rightarrow> encU64 nts n | _ \<Rightarrow> miscast)
      | EI128 \<Rightarrow> (case v of RNumber n \<Rightarrow> encI128 nts n | _ \<Rightarrow> miscast)
      | EBool \<Rightarrow> (case v of RBool b \<Rightarrow> encBool nts b | _ \<Rightarrow> miscast)
      | EEnum \<Rightarrow> (case v of RState st \<Rightarrow> Inr (encEnum (state_name st)) | _ \<Rightarrow> miscast)
      | EAddressOrVoid \<Rightarrow>
          (case v of RNull \<Rightarrow> Inr encVoid
           | RText a \<Rightarrow> if a = '''' then Inr encVoid else encAddress nts a | _ \<Rightarrow> miscast)
      | ESettings \<Rightarrow> (case v of RSettings g \<Rightarrow> encodeGovernorSettings nts g | _ \<Rightarrow> miscast)
      | EVotes \<Rightarrow> (case v of RVotes f a b \<Rightarrow> encVec (map (encI128 nts) [f, a, b]) | _ \<Rightarrow> miscast)
      | EProposal \<Rightarrow> (case v of RProposal p \<Rightarrow> encodeProposal nts p | _ \<Rightarrow> miscast)
      | EDraft \<Rightarrow> (case v of RDraft d \<Rightarrow> encodeCoSponsorshipDraft nts d | _ \<Rightarrow> miscast)
      | EOptimistic \<Rightarrow> (case v of ROptimistic p \<Rightarrow> encodeOptimisticProposal nts p | _ \<Rightarrow> miscast)
      | EOptimisticConfig \<Rightarrow> (case v of ROptimisticConfig g \<Rightarrow> encodeOptimisticConfig nts g | _ \<Rightarrow> miscast)
      | EStream \<Rightarrow> (case v of RStream st \<Rightarrow> encodeBudgetStream nts st | _ \<Rightarrow> miscast)
      | EStreams \<Rightarrow> (case v of RStreams sts \<Rightarrow> encVec (map (encodeBudgetStream nts) sts) | _ \<Rightarrow> miscast)
      | ESpends \<Rightarrow> (case v of RSpends sps \<Rightarrow> encVec (map (encodeStreamSpend nts) sps) | _ \<Rightarrow> miscast)
      | EReport \<Rightarrow> (case v of RReport r \<Rightarrow> encodeStreamBudgetReport nts r | _ \<Rightarrow> miscast)
      | ESummary \<Rightarrow> (case v of RSummary sm \<Rightarrow> encodeTreasuryBudgetSummary nts sm | _ \<Rightarrow> miscast)
      | EConviction \<Rightarrow> (case v of RConviction p \<Rightarrow> encodeConvictionProposal nts p | _ \<Rightarrow> miscast)
      | EStakes \<Rightarrow> (case v of RStakes ks \<Rightarrow> encVec (map (encodeConvictionStake nts) ks) | _ \<Rightarrow> miscast)
      | EBondOrVoid \<Rightarrow>
          (case v of RNull \<Rightarrow> Inr encVoid | RBond b \<Rightarrow> encodeProposalBond nts b | _ \<Rightarrow> miscast)
      | EBondSettings \<Rightarrow> (case v of RBondSettings g \<Rightarrow> encodeBondSettings nts g | _ \<Rightarrow> miscast))"

definition encodeReturn :: "scval_of \<Rightarrow> contract_call \<Rightarrow> ret_value \<Rightarrow> js_error + ScVal" where
  "encodeReturn nts call v =
     (case encoder_of call of
        None \<Rightarrow> Inl (JsError ''MockSorobanServer: no encoder'')
      | Some k \<Rightarrow> encode_with nts k v)"

subsection \<open>Transactions\<close>

datatype StoredTxResult = TxSuccess ScVal | TxFailed string

record MockServerState =
  sv_store :: MockLedgerStore
  sv_results :: "(string, StoredTxResult) js_map"

definition setStore :: "MockServerState \<Rightarrow> MockLedgerStore \<Rightarrow> MockServerState" where
  "setStore sv store = sv\<lparr>sv_store := store, sv_results := []\<rparr>"

definition error_text :: "js_error \<Rightarrow> string" where
  "error_text e = (case e of MockContractError code \<Rightarrow> toSorobanErrorString code | JsError m \<Rightarrow> m)"

text \<open>The body of the two \<^verbatim>\<open>try\<close> blocks: dispatch, then encode. An encoding error is raised after the
  handler has updated the store.\<close>

definition perform ::
  "(bytes \<Rightarrow> bytes) \<Rightarrow> (bytes \<Rightarrow> js_error + native list) \<Rightarrow> scval_of \<Rightarrow> LedgerClock \<Rightarrow> DecodedInvocation \<Rightarrow>
     MockLedgerStore \<Rightarrow> (ScVal, MockLedgerStore) outcome" where
  "perform h dec nts clock invoc store =
     (case dispatch h dec clock invoc store of
        (Inl e, store') \<Rightarrow> throws e store'
      | (Inr v, store') \<Rightarrow> (encodeReturn nts (iv_call invoc) v, store'))"

text \<open>The contract is resolved before the \<^verbatim>\<open>try\<close> block, so an unknown address rejects the request itself:
  the outer error. A reply is either the error text or the returned value.\<close>

definition simulateTransaction ::
  "(bytes \<Rightarrow> bytes) \<Rightarrow> (bytes \<Rightarrow> js_error + native list) \<Rightarrow> scval_of \<Rightarrow> LedgerClock \<Rightarrow> DecodedInvocation \<Rightarrow>
     MockServerState \<Rightarrow> (string + ScVal, MockServerState) outcome" where
  "simulateTransaction h dec nts clock invoc sv =
     (case resolveContract (st_addresses (sv_store sv)) (iv_contractAddress invoc) of
        Inl e \<Rightarrow> throws e sv
      | Inr _ \<Rightarrow>
          let scratch = cloneStore (sv_store sv) in
          (case fst (perform h dec nts clock invoc scratch) of
             Inl e \<Rightarrow> returns (Inl (error_text e)) sv
           | Inr v \<Rightarrow> returns (Inr v) sv))"

datatype send_status = PENDING string | ERROR string string

definition sendTransaction ::
  "(bytes \<Rightarrow> bytes) \<Rightarrow> (bytes \<Rightarrow> js_error + native list) \<Rightarrow> scval_of \<Rightarrow> LedgerClock \<Rightarrow> DecodedInvocation \<Rightarrow>
     string \<Rightarrow> MockServerState \<Rightarrow> (send_status, MockServerState) outcome" where
  "sendTransaction h dec nts clock invoc hash sv =
     (case resolveContract (st_addresses (sv_store sv)) (iv_contractAddress invoc) of
        Inl e \<Rightarrow> throws e sv
      | Inr _ \<Rightarrow>
          (case perform h dec nts clock invoc (sv_store sv) of
             (Inl e, store) \<Rightarrow>
               returns (ERROR hash (error_text e))
                 (sv\<lparr>sv_store := store, sv_results := js_set (sv_results sv) hash (TxFailed (error_text e))\<rparr>)
           | (Inr v, store) \<Rightarrow>
               returns (PENDING hash)
                 (sv\<lparr>sv_store := store, sv_results := js_set (sv_results sv) hash (TxSuccess v)\<rparr>)))"

datatype tx_status = TX_NOT_FOUND | TX_FAILED | TX_SUCCESS ScVal int

definition getTransaction :: "LedgerClock \<Rightarrow> MockServerState \<Rightarrow> string \<Rightarrow> tx_status" where
  "getTransaction clock sv hash =
     (case js_get (sv_results sv) hash of
        None \<Rightarrow> TX_NOT_FOUND
      | Some (TxFailed _) \<Rightarrow> TX_FAILED
      | Some (TxSuccess v) \<Rightarrow> TX_SUCCESS v (clock_sequence clock))"


subsection \<open>What a call may touch\<close>

lemma snd_wrap [simp]: "snd (wrap f r) = snd r"
  by (simp add: wrap_def split: prod.splits sum.splits)

lemma snd_answer [simp]: "snd (answer f r s) = s"
  by (simp add: answer_def split: sum.splits)

definition only_governor :: "MockLedgerStore \<Rightarrow> MockLedgerStore \<Rightarrow> bool" where
  "only_governor s s' \<longleftrightarrow> s' = s\<lparr>st_governor := st_governor s', st_timelock := st_timelock s'\<rparr>"

lemma only_governor_refl [simp]: "only_governor s s"
  by (simp add: only_governor_def)

lemma only_governor_put [simp]:
  "only_governor s (put_proposal s pid p)"
  "only_governor s (put_timelock (put_proposal s pid p) t)"
  "only_governor s (set_queueTime (put_proposal (put_timelock s t) pid p) pid l)"
  "only_governor s (set_paused s b)"
  by (simp_all add: only_governor_def put_proposal_def put_timelock_def set_queueTime_def set_paused_def)

lemma only_governor_create: "only_governor s (snd (createProposal s c pr d dh mu ts fs cs chk))"
proof (cases "createProposal s c pr d dh mu ts fs cs chk")
  case (Pair r s')
  have "s\<lparr>st_governor := g\<rparr> = s\<lparr>st_governor := g, st_timelock := st_timelock s\<rparr>" for g by simp
  then show ?thesis
    using createProposal_frame [OF Pair] createProposal_frame_parts(2) [OF Pair] Pair
    by (simp add: only_governor_def)
qed

lemma only_governorD:
  assumes "only_governor s s'"
  shows "st_addresses s' = st_addresses s" "st_coSponsorship s' = st_coSponsorship s"
    "st_optimisticGovernor s' = st_optimisticGovernor s" "st_treasury s' = st_treasury s"
    "st_convictionVoting s' = st_convictionVoting s" "st_votes s' = st_votes s"
    "st_proposalBonds s' = st_proposalBonds s"
  by (subst assms [unfolded only_governor_def], simp)+

text \<open>Every governor entry but \<^verbatim>\<open>execute\<close> writes the governor and the timelock only; \<^verbatim>\<open>execute\<close> may also run
  a bonds action.\<close>

lemma governor_run_only:
  assumes "\<And>pid. call \<noteq> GovExecute pid"
  shows "only_governor s (snd (governor_run h dec s c caller call))"
proof (cases call)
  case (GovCastVote v pid sv)
  then show ?thesis by (auto simp: cast_vote_def Let_def split: sum.splits)
next
  case (GovQueue pid)
  obtain r s' where "gov_queue h s c pid = (r, s')" by (metis surj_pair)
  then show ?thesis using GovQueue gov_queue_fail gov_queue_ok by (cases r) fastforce+
next
  case (GovCancel a pid)
  then show ?thesis by (auto simp: gov_cancel_def Let_def split: sum.splits)
next
  case (GovCancelQueued a pid)
  obtain r s' where "gov_cancel_queued s c caller a pid = (r, s')" by (metis surj_pair)
  then show ?thesis using GovCancelQueued gov_cancel_queued_cases by fastforce
qed (auto simp: assms gov_propose_def propose_via_registry_def gov_pause_def gov_unpause_def
      only_governor_create)

definition governor_frame :: "MockLedgerStore \<Rightarrow> MockLedgerStore \<Rightarrow> bool" where
  "governor_frame s s' \<longleftrightarrow>
     st_addresses s' = st_addresses s \<and> st_coSponsorship s' = st_coSponsorship s \<and>
     st_optimisticGovernor s' = st_optimisticGovernor s \<and> st_treasury s' = st_treasury s \<and>
     st_convictionVoting s' = st_convictionVoting s"

lemma governor_frame_put [simp]:
  "governor_frame s s" "governor_frame s (put_proposal s2 pid p) = governor_frame s s2"
  by (simp_all add: governor_frame_def put_proposal_def)

lemma governor_frame_execute: "governor_frame s (snd (gov_execute dec s c pid))"
proof (cases "gov_execute dec s c pid")
  case (Pair r s')
  have bonds: "dispatchProposalBondsAction dec (put_timelock s t) c p = (q, s2) \<Longrightarrow> governor_frame s s2" for t p q s2
    using only_bonds_frame [OF dispatch_only_bonds, of dec "put_timelock s t" c p q s2]
    by (simp add: governor_frame_def)
  show ?thesis using gov_execute_cases [OF Pair] Pair by (auto split: if_splits dest!: bonds)
qed

lemma governor_run_frame: "governor_frame s (snd (governor_run h dec s c caller call))"
proof (cases "\<exists>pid. call = GovExecute pid")
  case True
  then show ?thesis using governor_frame_execute by auto
next
  case False
  then show ?thesis
    using only_governorD [OF governor_run_only, of call h dec s c caller] by (simp add: governor_frame_def)
qed

lemma governor_run_step: "gov_step h dec (s, c) (snd (governor_run h dec s c caller call), c)"
proof (cases call)
  case (GovPropose p d dh mu ts fs cs)
  then show ?thesis
    by (auto simp: gov_propose_def intro: gov_step.other gov_step.create [OF prod.collapse [symmetric]])
next
  case (GovProposeViaRegistry rg p d dh mu ts fs cs)
  then show ?thesis
    by (auto simp: propose_via_registry_def intro: gov_step.other gov_step.create [OF prod.collapse [symmetric]])
qed (auto intro: gov_step.other gov_step.vote [OF prod.collapse [symmetric]]
      gov_step.queue [OF prod.collapse [symmetric]] gov_step.execute [OF prod.collapse [symmetric]]
      gov_step.cancel [OF prod.collapse [symmetric]] gov_step.veto [OF prod.collapse [symmetric]]
      gov_step.pause [OF prod.collapse [symmetric]] gov_step.unpause [OF prod.collapse [symmetric]])


lemma timelock_run_reads:
  "\<forall>tg d f dl ps. call \<noteq> TlScheduleWithDeps tg d f dl ps \<Longrightarrow> snd (timelock_run h t c call) = t"
  by (cases call)
    (auto simp: execute_batch_partial_def retry_failed_operation_def skip_failed_operation_def
      validate_dependency_dag_def split: option.splits bool.splits)

lemma applyDelegation_balances [simp]: "tv_balances (applyDelegation v c a b) = tv_balances v"
  by (simp add: applyDelegation_def pushCheckpoint_def Let_def)

lemma votes_run_balances: "tv_balances (snd (votes_run v c caller call)) = tv_balances v"
  by (cases call) (simp_all add: tv_delegate_def)

text \<open>The optimistic, conviction and treasury executors write their own part only; the treasury also
  moves balances.\<close>

lemma optimistic_run_frame:
  "snd (optimistic_run s c call) = s\<lparr>st_optimisticGovernor := st_optimisticGovernor (snd (optimistic_run s c call))\<rparr>"
  by (cases call)
    (auto simp: og_propose_def og_object_def og_finalize_def og_execute_def og_cancel_def og_update_config_def
      put_opt_def mark_objector_def Let_def split: sum.splits)

lemma conviction_run_frame:
  "snd (conviction_run s c caller call) = s\<lparr>st_convictionVoting := st_convictionVoting (snd (conviction_run s c caller call))\<rparr>"
  by (cases call)
    (auto simp: cv_create_proposal_def cv_stake_def withdraw_stake_def checkpoint_conviction_def get_stakes_def
      set_cv_def Let_def split: sum.splits prod.splits option.splits)

lemma treasury_run_frame:
  "\<exists>t m. snd (treasury_run s c caller call) = set_treasury (set_balances s m) t"
proof -
  have same: "\<exists>t m. s = set_treasury (set_balances s m) t" and own: "\<exists>t' m. set_treasury s t = set_treasury (set_balances s m) t'" for t
    by (rule exI [of _ "st_treasury s"] exI [of _ t], rule exI [of _ "tv_balances (st_votes s)"],
        simp add: set_treasury_def set_balances_def)+
  show ?thesis
  proof (cases call)
    case (TrStreamSpend ow i r n m)
    obtain q s' where "stream_spend s c caller ow i r n m = (q, s')" by (metis surj_pair)
    then show ?thesis
      using TrStreamSpend stream_spend_cases [of s c caller ow i r n m q s'] same by (auto simp: Let_def)
  qed (use same own in \<open>auto simp: create_stream_def top_up_stream_def Let_def split: sum.splits\<close>)
qed


subsection \<open>Every call is a step of every component\<close>

text \<open>The run of the escrow, where an execution of the governor may be the caller, and the run of the
  votes token: a delegation, or a transfer, which writes the balances only.\<close>

inductive escrow_step :: "MockLedgerStore \<Rightarrow> MockLedgerStore \<Rightarrow> bool" where
  lock: "lock_bond s c caller p hh = (r, s') \<Longrightarrow> escrow_step s s'"
| refund: "refund_bond s c caller a hh pid = (r, s') \<Longrightarrow> escrow_step s s'"
| slash: "ProposalBonds.slash s c caller a hh rcpt = (r, s') \<Longrightarrow> escrow_step s s'"
| other: "st_proposalBonds s' = st_proposalBonds s \<Longrightarrow> escrow_step s s'"

inductive votes_step :: "MockLedgerStore \<times> LedgerClock \<Rightarrow> MockLedgerStore \<times> LedgerClock \<Rightarrow> bool" where
  delegate: "tv_delegate (st_votes s) c caller a b = (r, v) \<Longrightarrow> votes_step (s, c) (s\<lparr>st_votes := v\<rparr>, c)"
| transfer: "st_votes s' = (st_votes s)\<lparr>tv_balances := m\<rparr> \<Longrightarrow> votes_step (s, c) (s', c)"

lemma votes_step_same: "st_votes s' = st_votes s \<Longrightarrow> votes_step (s, c) (s', c)"
  by (rule votes_step.transfer [where m = "tv_balances (st_votes s)"]) simp

lemma escrow_other: "st_proposalBonds s' = st_proposalBonds s \<Longrightarrow> escrow_step\<^sup>*\<^sup>* s s'"
  by (rule r_into_rtranclp) (rule escrow_step.other)

lemma only_bonds_votes: "only_bonds s s' \<Longrightarrow> votes_step (s, c) (s', c)"
  unfolding only_bonds_def
  by (rule votes_step.transfer [where m = "tv_balances (st_votes s')"], erule ssubst) simp

lemma bonds_handler_escrow: "bonds_handler f s c caller args = (r, s') \<Longrightarrow> escrow_step s s'"
  by (auto simp: bonds_handler_def intro: escrow_step.intros split: if_splits list.splits native.splits)

lemma action_escrow: "dispatchProposalBondsAction dec s c p = (r, s') \<Longrightarrow> escrow_step s s'"
  by (auto simp: dispatchProposalBondsAction_def intro: escrow_step.other bonds_handler_escrow
      split: list.splits if_splits option.splits sum.splits)

lemma gov_execute_escrow:
  assumes "gov_execute dec s c pid = (r, s')"
  shows "escrow_step\<^sup>*\<^sup>* s s' \<and> votes_step (s, c) (s', c)"
  using gov_execute_cases [OF assms]
proof (elim disjE exE conjE)
  fix p opId rest oper s2 and e :: js_error
  let ?s1 = "put_timelock s ((st_timelock s)\<lparr>tl_operations :=
        js_set (tl_operations (st_timelock s)) opId (oper\<lparr>op_executed := True\<rparr>)\<rparr>)"
  assume act: "dispatchProposalBondsAction dec ?s1 c p = (if \<exists>e. r = Inl e then r else Inr (), s2)"
    and s': "if \<exists>e. r = Inl e then s' = s2 else r = Inr () \<and> s' = put_proposal s2 pid (p\<lparr>pr_executed := True\<rparr>)"
  have parts: "st_proposalBonds s' = st_proposalBonds s2" "st_votes s' = st_votes s2"
    using s' by (auto split: if_splits)
  have "escrow_step s ?s1" "escrow_step s2 s'" by (simp_all add: escrow_step.other parts)
  with action_escrow [OF act] have "escrow_step\<^sup>*\<^sup>* s s'"
    by (meson r_into_rtranclp rtranclp.rtrancl_into_rtrancl)
  moreover have "\<exists>m. st_votes s2 = (st_votes ?s1)\<lparr>tv_balances := m\<rparr>"
    using dispatch_only_bonds [OF act] unfolding only_bonds_def
    by (intro exI [of _ "tv_balances (st_votes s2)"]) (erule ssubst, simp)
  then have "votes_step (s, c) (s', c)" by (auto simp: parts intro: votes_step.transfer)
  ultimately show ?thesis by simp
qed (auto intro: votes_step_same)

definition lockstep ::
  "(bytes \<Rightarrow> bytes) \<Rightarrow> (bytes \<Rightarrow> js_error + native list) \<Rightarrow> LedgerClock \<Rightarrow> MockLedgerStore \<Rightarrow>
     MockLedgerStore \<Rightarrow> bool" where
  "lockstep h dec c s s' \<longleftrightarrow>
     (gov_step h dec)\<^sup>*\<^sup>* (s, c) (s', c) \<and> draft_step s s' \<and> opt_step (s, c) (s', c) \<and>
     treasury_step s s' \<and> cv_step s s' \<and> escrow_step\<^sup>*\<^sup>* s s' \<and> votes_step (s, c) (s', c) \<and>
     st_addresses s' = st_addresses s"

lemma governor_lockstep: "lockstep h dec c s (snd (governor_run h dec s c caller call))"
proof -
  have "escrow_step\<^sup>*\<^sup>* s (snd (governor_run h dec s c caller call)) \<and>
      votes_step (s, c) (snd (governor_run h dec s c caller call), c)"
  proof (cases "\<exists>pid. call = GovExecute pid")
    case True
    then show ?thesis using gov_execute_escrow [OF prod.collapse [symmetric]] by auto
  next
    case False
    then show ?thesis
      using only_governorD(6,7) [OF governor_run_only, of call h dec s c caller]
      by (auto intro!: votes_step_same r_into_rtranclp escrow_step.other)
  qed
  then show ?thesis
    using governor_run_frame [of s h dec c caller call] governor_run_step [of h dec s c caller call]
    by (auto simp: lockstep_def governor_frame_def
        intro: draft_step.other opt_step.other treasury_step.other cv_step.other)
qed

lemma untouched_lockstep:
  assumes "st_governor s' = st_governor s" "st_timelock s' = st_timelock s" "st_addresses s' = st_addresses s"
    and "draft_step s s'" "opt_step (s, c) (s', c)" "treasury_step s s'" "cv_step s s'"
    and "escrow_step s s'" "votes_step (s, c) (s', c)"
  shows "lockstep h dec c s s'"
  using assms by (auto simp: lockstep_def intro: gov_step.other)

lemma optimistic_lockstep: "lockstep h dec c s (snd (optimistic_run s c call))"
proof (rule untouched_lockstep)
  show "opt_step (s, c) (snd (optimistic_run s c call), c)"
    by (cases call)
      (auto intro: opt_step.other opt_step.propose [OF prod.collapse [symmetric]]
        opt_step.object [OF prod.collapse [symmetric]] opt_step.finalize [OF prod.collapse [symmetric]]
        opt_step.execute [OF prod.collapse [symmetric]] opt_step.cancel [OF prod.collapse [symmetric]]
        opt_step.config [OF prod.collapse [symmetric]])
qed (subst optimistic_run_frame, simp add: draft_step.other treasury_step.other cv_step.other escrow_step.other
      votes_step_same)+

lemma conviction_lockstep: "lockstep h dec c s (snd (conviction_run s c caller call))"
proof (rule untouched_lockstep)
  show "cv_step s (snd (conviction_run s c caller call))"
    by (cases call)
      (auto intro: cv_step.other cv_step.create [OF prod.collapse [symmetric]]
        cv_step.stake [OF prod.collapse [symmetric]] cv_step.withdraw [OF prod.collapse [symmetric]]
        cv_step.checkpoint [OF prod.collapse [symmetric]] cv_step.read_stakes [OF prod.collapse [symmetric]])
qed (subst conviction_run_frame, simp add: draft_step.other treasury_step.other opt_step.other escrow_step.other
      votes_step_same)+

lemma treasury_lockstep: "lockstep h dec c s (snd (treasury_run s c caller call))"
proof -
  obtain t m where eq: "snd (treasury_run s c caller call) = set_treasury (set_balances s m) t"
    using treasury_run_frame by blast
  have "treasury_step s (snd (treasury_run s c caller call))"
    by (cases call)
      (auto intro: treasury_step.other treasury_step.create [OF prod.collapse [symmetric]]
        treasury_step.spend [OF prod.collapse [symmetric]] treasury_step.top_up [OF prod.collapse [symmetric]])
  then show ?thesis
    unfolding eq by (auto intro!: untouched_lockstep draft_step.other opt_step.other cv_step.other
      escrow_step.other votes_step.transfer [where m = m] simp: set_balances_def)
qed

lemma bonds_lockstep: "lockstep h dec c s (snd (bonds_run s c caller call))"
proof -
  have "only_bonds s (snd (bonds_run s c caller call))"
    by (cases call) (auto intro: bond_ops_only_bonds [OF prod.collapse [symmetric]])
  moreover have "escrow_step s (snd (bonds_run s c caller call))"
    by (cases call) (auto intro: escrow_step.other escrow_step.lock [OF prod.collapse [symmetric]]
        escrow_step.refund [OF prod.collapse [symmetric]] escrow_step.slash [OF prod.collapse [symmetric]])
  ultimately show ?thesis using only_bonds_frame only_bonds_votes
    by (auto intro!: untouched_lockstep draft_step.other opt_step.other treasury_step.other cv_step.other)
qed

lemma coSponsorship_lockstep: "lockstep h dec c s (snd (coSponsorship_run s c caller call))"
proof (cases call)
  case (CsCreateDraft a d dh mu ts fs cs)
  obtain r s' where out: "create_draft s c caller a d dh mu ts fs cs = (r, s')" by (metis surj_pair)
  show ?thesis
    using CsCreateDraft create_draft_cases [OF out] draft_step.create [OF out] out
    by (auto intro!: untouched_lockstep opt_step.other treasury_step.other cv_step.other escrow_step.other votes_step_same)
next
  case (CsCoSponsor a i)
  obtain r s' where out: "co_sponsor s c caller a i = (r, s')" by (metis surj_pair)
  show ?thesis
    using CsCoSponsor co_sponsor_cases [OF out] draft_step.sponsor [OF out] out
    by (auto intro!: untouched_lockstep opt_step.other treasury_step.other cv_step.other escrow_step.other votes_step_same)
next
  case (CsFinalizeDraft a i)
  obtain r s' where out: "finalize_draft s c caller a i = (r, s')" by (metis surj_pair)
  from finalize_draft_cases [OF out] show ?thesis
  proof (elim disjE exE conjE)
    assume "s' = s"
    then show ?thesis
      using CsFinalizeDraft out by (auto intro!: untouched_lockstep draft_step.other opt_step.other treasury_step.other cv_step.other
      escrow_step.other votes_step_same)
  next
    fix d pid s1
    assume cp: "createProposal s c a (dr_description d) (dr_descriptionHash d) (dr_metadataUri d)
          (dr_targets d) (dr_fnNames d) (dr_calldatas d) False = (Inr pid, s1)"
      and s': "s' = put_draft s1 i
          (d\<lparr>dr_coSponsorPower := map (get_votes (st_votes s)) (dr_coSponsors d),
             dr_totalPower := sum_list (map (get_votes (st_votes s)) (dr_coSponsors d)),
             dr_finalized := True\<rparr>)"
    have "gov_step h dec (s, c) (s1, c)" "gov_step h dec (s1, c) (s', c)"
      using gov_step.create [OF cp] s' by (auto intro: gov_step.other)
    then have "(gov_step h dec)\<^sup>*\<^sup>* (s, c) (s', c)" by (meson r_into_rtranclp rtranclp.rtrancl_into_rtrancl)
    then show ?thesis
      using CsFinalizeDraft out draft_step.finalize [OF out] createProposal_frame_parts [OF cp] s'
      by (auto simp: lockstep_def intro: opt_step.other treasury_step.other cv_step.other
          votes_step_same escrow_other)
  qed
qed (auto intro!: untouched_lockstep draft_step.other opt_step.other treasury_step.other cv_step.other
      escrow_step.other votes_step_same)


lemma untouched_votes_lockstep:
  assumes "votes_step (s, c) (s\<lparr>st_votes := v\<rparr>, c)"
  shows "lockstep h dec c s (s\<lparr>st_votes := v\<rparr>)"
  using assms
  by (intro untouched_lockstep)
    (simp_all add: draft_step.other opt_step.other treasury_step.other cv_step.other escrow_step.other)

lemma votes_lockstep: "lockstep h dec c s (s\<lparr>st_votes := snd (votes_run (st_votes s) c caller call)\<rparr>)"
proof (rule untouched_votes_lockstep)
  show "votes_step (s, c) (s\<lparr>st_votes := snd (votes_run (st_votes s) c caller call)\<rparr>, c)"
    by (cases call) (auto intro: votes_step_same votes_step.delegate [OF prod.collapse [symmetric]])
qed

lemma lockstep_refl: "lockstep h dec c s s"
  by (rule untouched_lockstep)
    (simp_all add: draft_step.other opt_step.other treasury_step.other cv_step.other escrow_step.other votes_step_same)

lemma timelock_lockstep: "lockstep h dec c s (put_timelock s (snd (timelock_run h (st_timelock s) c call)))"
proof -
  have "gov_step h dec (s, c) (put_timelock s (snd (timelock_run h (st_timelock s) c call)), c)"
  proof (cases "\<exists>tg d f dl ps. call = TlScheduleWithDeps tg d f dl ps")
    case True
    then show ?thesis by (auto intro: gov_step.reschedule [OF prod.collapse [symmetric]])
  next
    case False
    then have "snd (timelock_run h (st_timelock s) c call) = st_timelock s" by (intro timelock_run_reads) simp
    then show ?thesis by (simp add: gov_step.other)
  qed
  then show ?thesis
    by (auto simp: lockstep_def intro: draft_step.other opt_step.other treasury_step.other cv_step.other
        votes_step_same escrow_other)
qed

lemma run_call_lockstep: "lockstep h dec c s (snd (run_call h dec s c caller call))"
proof (cases call)
  case (ToVotes vc)
  then show ?thesis using votes_lockstep [of h dec c s caller vc] by (auto split: prod.splits)
next
  case (ToTimelock tc)
  then show ?thesis using timelock_lockstep [of h dec c s tc] by (auto split: prod.splits)
qed (simp_all add: governor_lockstep coSponsorship_lockstep optimistic_lockstep treasury_lockstep
      conviction_lockstep bonds_lockstep)

subsection \<open>Money across the contracts\<close>

lemma escrow_solvent_cong:
  "st_proposalBonds s' = st_proposalBonds s \<Longrightarrow> tv_balances (st_votes s') = tv_balances (st_votes s) \<Longrightarrow>
     st_addresses s' = st_addresses s \<Longrightarrow> escrow_solvent s' = escrow_solvent s"
  "tv_balances (st_votes s') = tv_balances (st_votes s) \<Longrightarrow> ledger_total s' = ledger_total s"
  by (simp_all add: escrow_solvent_def bonds_positive_def locked_total_def balance_of_def ledger_total_def)

definition books_kept :: "MockLedgerStore \<Rightarrow> MockLedgerStore \<Rightarrow> bool" where
  "books_kept s s' \<longleftrightarrow> (escrow_solvent s \<longrightarrow> escrow_solvent s') \<and> ledger_total s' = ledger_total s"

lemma books_kept_same:
  "st_proposalBonds s' = st_proposalBonds s \<Longrightarrow> tv_balances (st_votes s') = tv_balances (st_votes s) \<Longrightarrow>
     st_addresses s' = st_addresses s \<Longrightarrow> books_kept s s'"
  unfolding books_kept_def using escrow_solvent_cong [of s' s] by blast

lemma books_kept_trans: "books_kept s s1 \<Longrightarrow> books_kept s1 s2 \<Longrightarrow> books_kept s s2"
  by (auto simp: books_kept_def)

lemma bonds_step_books: "bonds_step s s' \<Longrightarrow> books_kept s s'"
  using escrow.reach_inv [of s s'] conserved.reach_inv [of s s' "ledger_total s"] by (auto simp: books_kept_def)

lemma bonds_handler_books:
  assumes "caller \<noteq> ad_proposalBonds (st_addresses s)"
  shows "books_kept s (snd (bonds_handler f s c caller args))"
proof -
  have ops: "books_kept s (snd (lock_bond s c caller p hh))" "books_kept s (snd (refund_bond s c caller a hh i))"
    "books_kept s (snd (slash s c caller a hh rc))" for p a hh i rc
    using assms by (auto intro!: bonds_step_books intro: bonds_step.lock [OF _ prod.collapse [symmetric]]
        bonds_step.refund [OF prod.collapse [symmetric]] bonds_step.slash [OF prod.collapse [symmetric]])
  show ?thesis
    by (auto simp: bonds_handler_def ops books_kept_same split: list.splits native.splits)
qed

lemma gov_execute_books:
  assumes "ad_governor (st_addresses s) \<noteq> ad_proposalBonds (st_addresses s)"
  shows "books_kept s (snd (gov_execute dec s c pid))"
proof -
  have act: "books_kept s s2"
    if "dispatchProposalBondsAction dec (put_timelock s t) c p = (q, s2)" for t p q s2
  proof -
    have "books_kept (put_timelock s t) (snd (dispatchProposalBondsAction dec (put_timelock s t) c p))"
      using assms bonds_handler_books [of "ad_governor (st_addresses s)" "put_timelock s t"]
      by (auto simp: dispatchProposalBondsAction_def books_kept_same split: list.splits option.splits sum.splits)
    then show ?thesis using that books_kept_trans [OF books_kept_same [of "put_timelock s t" s]] by simp
  qed
  obtain r s' where out: "gov_execute dec s c pid = (r, s')" by (metis surj_pair)
  show ?thesis
    using gov_execute_cases [OF out] out
    by (auto split: if_splits dest!: act intro: books_kept_same books_kept_trans [OF _ books_kept_same])
qed


lemma treasury_run_books:
  assumes "ad_treasury (st_addresses s) \<noteq> ad_proposalBonds (st_addresses s)"
  shows "books_kept s (snd (treasury_run s c caller call))"
proof (cases "\<exists>ow i r n m. call = TrStreamSpend ow i r n m")
  case False
  then show ?thesis
    by (cases call) (auto simp: create_stream_def top_up_stream_def Let_def intro!: books_kept_same split: sum.splits)
next
  case True
  then obtain ow i r n m where call: "call = TrStreamSpend ow i r n m" by blast
  obtain q s' where out: "stream_spend s c caller ow i r n m = (q, s')" by (metis surj_pair)
  from stream_spend_cases [OF out] show ?thesis
  proof (elim disjE exE conjE)
    assume "s' = s"
    then show ?thesis using call out by (simp add: books_kept_same)
  next
    fix st m'
    assume v: "validateSpend c st ow n = Inr ()" and pay: "transferFromTreasury s r n = (Inr (), set_balances s m')"
      and s': "let t = st_treasury s; rs = js_getd [] (tr_spends t) i in
        s' = set_treasury (set_balances s m')
          (t\<lparr>tr_streams := js_set (tr_streams t) i (spent_stream c st n),
             tr_spends := js_set (tr_spends t) i (rs @ [spend_record c i rs r n m ow]),
             tr_totalSpentByToken := addToTotal (tr_totalSpentByToken t) (bs_token st) n\<rparr>)"
    have "0 < n" using v by (simp add: validateSpend_ok)
    then have "balance_of s (ad_proposalBonds (st_addresses s)) \<le>
        balance_of (set_balances s m') (ad_proposalBonds (st_addresses s))"
      using treasury_pay.pay_balance [OF pay] assms by simp
    moreover have "ledger_total (set_balances s m') = ledger_total s"
      using treasury_pay.pay_supply_any [OF pay] .
    moreover have "bonds_positive (set_balances s m') = bonds_positive s" "locked_total (set_balances s m') = locked_total s"
      by (simp_all add: bonds_positive_def locked_total_def)
    ultimately have "books_kept s (set_balances s m')" by (simp add: books_kept_def escrow_solvent_def)
    then show ?thesis
      using s' call out by (auto simp: Let_def intro: books_kept_trans [OF _ books_kept_same])
  qed
qed

lemma coSponsorship_run_money:
  "st_votes (snd (coSponsorship_run s c caller call)) = st_votes s \<and>
   st_proposalBonds (snd (coSponsorship_run s c caller call)) = st_proposalBonds s"
proof (cases call)
  case (CsCreateDraft a d dh mu ts fs cs)
  then show ?thesis by (auto simp: create_draft_def Let_def)
next
  case (CsCoSponsor a i)
  then show ?thesis by (auto simp: co_sponsor_def Let_def split: sum.splits)
next
  case (CsFinalizeDraft a i)
  obtain r s' where out: "finalize_draft s c caller a i = (r, s')" by (metis surj_pair)
  then show ?thesis using CsFinalizeDraft finalize_draft_cases [OF out] createProposal_frame_parts by fastforce
qed simp

definition separate :: "ContractAddresses \<Rightarrow> bool" where
  "separate a \<longleftrightarrow> ad_governor a \<noteq> ad_proposalBonds a \<and> ad_treasury a \<noteq> ad_proposalBonds a"

lemma run_call_books:
  assumes "separate (st_addresses s)" and "caller \<noteq> ad_proposalBonds (st_addresses s)"
  shows "books_kept s (snd (run_call h dec s c caller call))"
proof (cases call)
  case (ToGovernor gc)
  show ?thesis
  proof (cases "\<exists>pid. gc = GovExecute pid")
    case True
    then show ?thesis using ToGovernor assms gov_execute_books by (auto simp: separate_def)
  next
    case False
    then show ?thesis
      using ToGovernor only_governorD [OF governor_run_only, of gc h dec s c caller] by (auto intro!: books_kept_same)
  qed
next
  case (ToVotes vc)
  then show ?thesis
    using votes_run_balances [of "st_votes s" c caller vc] by (auto intro!: books_kept_same split: prod.splits)
next
  case (ToOptimisticGovernor oc)
  then show ?thesis
    by simp (subst optimistic_run_frame, rule books_kept_same, simp_all)
next
  case (ToConvictionVoting cc)
  then show ?thesis
    by simp (subst conviction_run_frame, rule books_kept_same, simp_all)
next
  case (ToProposalBonds bc)
  have "books_kept s (snd (bonds_run s c caller bc))"
  proof (cases bc)
    case (PbLockBond p dh)
    then show ?thesis using assms(2) bonds_step_books [OF bonds_step.lock [OF _ prod.collapse [symmetric]]] by simp
  qed (auto intro: bonds_step_books [OF bonds_step.refund [OF prod.collapse [symmetric]]]
        bonds_step_books [OF bonds_step.slash [OF prod.collapse [symmetric]]] books_kept_same)
  then show ?thesis using ToProposalBonds by simp
next
  case (ToCoSponsorship cc)
  then show ?thesis
    using coSponsorship_run_money [of s c caller cc] coSponsorship_lockstep [of h dec c s caller cc]
    by (auto intro!: books_kept_same simp: lockstep_def)
next
  case (ToTreasury tc)
  then show ?thesis using treasury_run_books assms by (simp add: separate_def)
qed (auto intro!: books_kept_same split: prod.splits)


lemma dispatch_cases:
  "snd (dispatch h dec c invoc s) = s \<or>
   dispatch h dec c invoc s = run_call h dec s c (iv_caller invoc) (iv_call invoc)"
  by (auto simp: dispatch_def split: sum.splits)

lemma dispatch_lockstep: "lockstep h dec c s (snd (dispatch h dec c invoc s))"
  using dispatch_cases [of h dec c invoc s] run_call_lockstep [of h dec c s "iv_caller invoc" "iv_call invoc"]
    lockstep_refl [of h dec c s] by metis

text \<open>A step of the whole simulated chain: any invocation by an account that is not the bonds
  contract itself, or the clock advances.\<close>

inductive world_step ::
  "(bytes \<Rightarrow> bytes) \<Rightarrow> (bytes \<Rightarrow> js_error + native list) \<Rightarrow>
     MockLedgerStore \<times> LedgerClock \<Rightarrow> MockLedgerStore \<times> LedgerClock \<Rightarrow> bool" for h dec where
  invoke: "dispatch h dec c invoc s = (r, s') \<Longrightarrow> iv_caller invoc \<noteq> ad_proposalBonds (st_addresses s) \<Longrightarrow>
    world_step h dec (s, c) (s', c)"
| tick: "clock_advance c n = (ru, c') \<Longrightarrow> world_step h dec (s, c) (s, c')"

definition world_safe :: "int \<Rightarrow> MockLedgerStore \<times> LedgerClock \<Rightarrow> bool" where
  "world_safe t w \<longleftrightarrow>
     separate (st_addresses (fst w)) \<and> escrow_solvent (fst w) \<and> ledger_total (fst w) = t"

lemma run_call_addresses: "st_addresses (snd (run_call h dec s c caller call)) = st_addresses s"
  using run_call_lockstep [of h dec c s caller call] by (simp add: lockstep_def)

lemma world_step_safe:
  assumes "world_step h dec w w'" "world_safe t w"
  shows "world_safe t w'"
  using assms
proof (induction rule: world_step.induct)
  case (invoke c invoc s r s')
  then have "s' = snd (dispatch h dec c invoc s)" by simp
  then show ?case
    using dispatch_cases [of h dec c invoc s] invoke(2,3)
      run_call_books [of s "iv_caller invoc" h dec c "iv_call invoc"]
      run_call_addresses [of h dec s c "iv_caller invoc" "iv_call invoc"]
    by (auto simp: world_safe_def books_kept_def)
qed (simp add: world_safe_def)

interpretation world: stepwise_invariant "world_step h dec" "world_safe t" for h dec t
  by unfold_locales (rule world_step_safe)

subsection \<open>Properties\<close>

text \<open>C8: The server composes the components without interference: whatever the server dispatches,
  \<^verbatim>\<open>schedule_with_deps\<close> included, and however the call ends, the resulting store is reached by steps
  of the governor and timelock runs, of the draft runs, of the optimistic lifecycle, of the
  treasury runs, of the conviction-voting runs, of the bond escrow and of the votes token. So every
  property proved of those runs holds of the whole chain.\<close>

theorem calls_are_component_steps:
  assumes "dispatch h dec c invoc s = (r, s')"
  shows "(gov_step h dec)\<^sup>*\<^sup>* (s, c) (s', c) \<and> draft_step s s' \<and> opt_step (s, c) (s', c) \<and>
     treasury_step s s' \<and> cv_step s s' \<and> escrow_step\<^sup>*\<^sup>* s s' \<and> votes_step (s, c) (s', c)"
  using dispatch_lockstep [of h dec c s invoc] assms by (simp add: lockstep_def)

definition demo_invocation :: "address \<Rightarrow> address \<Rightarrow> contract_call \<Rightarrow> DecodedInvocation" where
  "demo_invocation a caller call = \<lparr>iv_contractAddress = a, iv_call = call, iv_caller = caller\<rparr>"

definition demo_lock :: DecodedInvocation where
  "demo_lock = demo_invocation ''C8'' ''alice'' (ToProposalBonds (PbLockBond ''alice'' [171, 205]))"

definition demo_locked_store :: MockLedgerStore where
  "demo_locked_store = snd (dispatch demo_hash demo_decode (demo_clock 1000) demo_lock demo_store)"

theorem calls_are_component_steps_witness:
  "(gov_step demo_hash demo_decode)\<^sup>*\<^sup>* (demo_store, demo_clock 1000) (demo_locked_store, demo_clock 1000) \<and>
     escrow_step\<^sup>*\<^sup>* demo_store demo_locked_store \<and> locked_total demo_locked_store = 40"
proof -
  obtain r where "dispatch demo_hash demo_decode (demo_clock 1000) demo_lock demo_store = (r, demo_locked_store)"
    unfolding demo_locked_store_def by (metis prod.collapse)
  moreover have "locked_total demo_locked_store = 40" by code_simp
  ultimately show ?thesis
    using calls_are_component_steps by blast
qed

text \<open>C7: Across all contracts and all interleavings of calls the votes token is conserved and the bond
  escrow stays solvent: no sequence of invocations, failed ones included, by accounts other than
  the bonds contract creates or destroys tokens or leaves a locked bond uncovered, provided the
  governor and the treasury do not share the bonds contract's address.\<close>

theorem chain_conserves_money:
  assumes "(world_step h dec)\<^sup>*\<^sup>* (s, c) (s', c')" and "separate (st_addresses s)" and "escrow_solvent s"
  shows "ledger_total s' = ledger_total s \<and>
     locked_total s' \<le> balance_of s' (ad_proposalBonds (st_addresses s'))"
  using world.reach_inv [OF assms(1), of "ledger_total s"] assms(2,3)
  by (simp add: world_safe_def escrow_solvent_def)

theorem chain_conserves_money_witness:
  "ledger_total demo_locked_store = 1500 \<and> locked_total demo_locked_store \<le> balance_of demo_locked_store ''C8''"
proof -
  have "world_step demo_hash demo_decode (demo_store, demo_clock 1000) (demo_locked_store, demo_clock 1000)"
  proof (rule world_step.invoke)
    show "dispatch demo_hash demo_decode (demo_clock 1000) demo_lock demo_store =
      (fst (dispatch demo_hash demo_decode (demo_clock 1000) demo_lock demo_store), demo_locked_store)"
      by (simp add: demo_locked_store_def)
    show "iv_caller demo_lock \<noteq> ad_proposalBonds (st_addresses demo_store)" by code_simp
  qed
  moreover have "separate (st_addresses demo_store)" "escrow_solvent demo_store" "ledger_total demo_store = 1500"
    "ad_proposalBonds (st_addresses demo_locked_store) = ''C8''" by code_simp+
  ultimately show ?thesis using chain_conserves_money [OF r_into_rtranclp] by fastforce
qed


text \<open>A simulation tells the truth and leaves no trace: simulating an invocation does not change the
  server, and sending the same invocation at the same ledger then gives exactly the simulated
  outcome: a simulated value is the value that \<^verbatim>\<open>getTransaction\<close> later reports, a simulated error is
  the error of the failed transaction, and an unknown address is refused by both. Results of
  other transactions are kept.\<close>

theorem simulation_predicts_send:
  assumes "simulateTransaction h dec nts c invoc sv = (r, sv1)"
    and "sendTransaction h dec nts c invoc hash sv = (r', sv')"
  shows "sv1 = sv \<and>
     (case r of
        Inl e \<Rightarrow> r' = Inl e \<and> sv' = sv
      | Inr (Inl msg) \<Rightarrow> r' = Inr (ERROR hash msg) \<and> getTransaction c' sv' hash = TX_FAILED
      | Inr (Inr v) \<Rightarrow> r' = Inr (PENDING hash) \<and> getTransaction c' sv' hash = TX_SUCCESS v (clock_sequence c')) \<and>
     (\<forall>other. other \<noteq> hash \<longrightarrow> getTransaction c' sv' other = getTransaction c' sv other)"
  using assms
  by (auto simp: simulateTransaction_def sendTransaction_def getTransaction_def cloneStore_def Let_def
      split: sum.splits prod.splits)

definition demo_server :: MockServerState where
  "demo_server = \<lparr>sv_store = demo_store, sv_results = []\<rparr>"

theorem simulation_predicts_send_witness:
  "getTransaction (demo_clock 1001)
     (snd (sendTransaction demo_hash demo_decode demo_nts (demo_clock 1000) demo_lock ''h'' demo_server)) ''h'' =
     TX_SUCCESS ScvVoid 1001"
proof -
  have "fst (simulateTransaction demo_hash demo_decode demo_nts (demo_clock 1000) demo_lock demo_server) =
      Inr (Inr ScvVoid)" by code_simp
  then show ?thesis
    using simulation_predicts_send [OF prod.collapse [symmetric] prod.collapse [symmetric],
        where h = demo_hash and dec = demo_decode and nts = demo_nts and c = "demo_clock 1000"
          and invoc = demo_lock and sv = demo_server and hash = "''h''" and c' = "demo_clock 1001"]
    by (simp add: clock_sequence_def demo_clock_def)
qed

text \<open>A transaction that fails is not rolled back. When the bonds action of a queued proposal fails,
  \<^verbatim>\<open>execute\<close> reports an error, but the timelock operation stays marked as executed while the
  proposal stays unexecuted, and from that store on the proposal cannot be executed: every
  further attempt, at any ledger, is refused.\<close>

theorem failed_execution_wedges_proposal:
  assumes "gov_execute dec s c pid = (Inl e, s')" and "s' \<noteq> s"
  shows "\<exists>p opId oper. js_get (gv_proposals (st_governor s')) pid = Some p \<and> \<not> pr_executed p \<and>
     opId \<in> set (pr_opIds p) \<and> js_get (tl_operations (st_timelock s')) opId = Some oper \<and> op_executed oper \<and>
     (\<forall>c'. \<exists>e'. gov_execute dec s' c' pid = (Inl e', s'))"
proof -
  obtain p opId rest oper where p: "js_get (gv_proposals (st_governor s)) pid = Some p" "pr_queued p"
      "\<not> pr_executed p" "\<not> pr_cancelled p" "pr_opIds p = opId # rest"
    and act: "dispatchProposalBondsAction dec (put_timelock s ((st_timelock s)\<lparr>tl_operations :=
        js_set (tl_operations (st_timelock s)) opId (oper\<lparr>op_executed := True\<rparr>)\<rparr>)) c p = (Inl e, s')"
    using gov_execute_cases [OF assms(1)] assms(2) by (auto split: if_splits)
  note same = only_bonds_frame [OF dispatch_only_bonds [OF act]]
  have p': "js_get (gv_proposals (st_governor s')) pid = Some p"
    and o': "js_get (tl_operations (st_timelock s')) opId = Some (oper\<lparr>op_executed := True\<rparr>)"
    using p(1) same by simp_all
  have "\<exists>e'. gov_execute dec s' c' pid = (Inl e', s')" for c'
  proof -
    obtain r s2 where out: "gov_execute dec s' c' pid = (r, s2)" by (metis surj_pair)
    from gov_execute_cases [OF out] show ?thesis
    proof (elim disjE exE conjE)
      fix e' assume "r = Inl e'" "s2 = s'"
      then show ?thesis using out by auto
    qed (use p' o' p(5) in auto)
  qed
  then show ?thesis using p p' o' by auto
qed

definition demo_bogus :: MockLedgerStore where
  "demo_bogus = snd (gov_queue demo_hash
     (snd (cast_vote
        (snd (createProposal demo_store (demo_clock 1000) ''bob'' ''d'' [171, 205] ''u'' [''C8''] [''bogus''] [[7]] True))
        (demo_clock 1002) ''bob'' ''bob'' 1 [''For'']))
     (demo_clock 1012) 1)"

definition demo_wedged :: MockLedgerStore where
  "demo_wedged = snd (gov_execute demo_decode demo_bogus (demo_clock 1022) 1)"

theorem failed_execution_wedges_proposal_witness:
  "\<exists>e. gov_execute demo_decode demo_wedged (demo_clock 1023) 1 = (Inl e, demo_wedged)"
proof -
  have "isl (fst (gov_execute demo_decode demo_bogus (demo_clock 1022) 1))" by code_simp
  then obtain e where "gov_execute demo_decode demo_bogus (demo_clock 1022) 1 = (Inl e, demo_wedged)"
    unfolding demo_wedged_def by (metis prod.collapse isl_def)
  moreover have "map (op_executed \<circ> snd) (tl_operations (st_timelock demo_bogus)) = [False]"
    "map (op_executed \<circ> snd) (tl_operations (st_timelock demo_wedged)) = [True]" by code_simp+
  then have "demo_wedged \<noteq> demo_bogus" by auto
  ultimately show ?thesis using failed_execution_wedges_proposal by blast
qed

text \<open>The reply to a registry proposal is always an error: \<^verbatim>\<open>encodeReturn\<close> has no encoder for
  \<^verbatim>\<open>propose_via_registry\<close>, so the transaction is stored as failed even when the proposal was
  created, and then the proposal is there, under the next identifier.\<close>

theorem registry_proposal_reported_failed:
  assumes "iv_call invoc = ToGovernor (GovProposeViaRegistry rg pr d dh mu ts fs cs)"
    and "iv_contractAddress invoc = ad_governor (st_addresses (sv_store sv))"
    and "sendTransaction h dec nts c invoc hash sv = (r, sv')"
  shows "getTransaction c' sv' hash = TX_FAILED \<and> (\<exists>msg. r = Inr (ERROR hash msg)) \<and>
     (\<forall>pid s1. propose_via_registry (sv_store sv) c (iv_caller invoc) rg pr d dh mu ts fs cs = (Inr pid, s1) \<longrightarrow>
        sv_store sv' = s1 \<and> pid = proposal_count (sv_store sv) + 1 \<and> proposal_count (sv_store sv') = pid)"
proof -
  have created: "pid = proposal_count (sv_store sv) + 1 \<and> proposal_count s1 = pid"
    if "propose_via_registry (sv_store sv) c (iv_caller invoc) rg pr d dh mu ts fs cs = (Inr pid, s1)" for pid s1
    using that createProposal_effect(1,2) by (auto simp: propose_via_registry_def proposal_count_def split: if_splits)
  show ?thesis
    using assms(3) created
    by (auto simp: sendTransaction_def getTransaction_def perform_def dispatch_def resolveContract_def assms(1,2)
        wrap_def encodeReturn_def split: sum.splits prod.splits)
qed

definition demo_registry :: DecodedInvocation where
  "demo_registry = demo_invocation ''C1'' ''C4''
     (ToGovernor (GovProposeViaRegistry ''C4'' ''bob'' ''d'' [171, 205] ''u'' [''T''] [''f''] [[7]]))"

theorem registry_proposal_reported_failed_witness:
  "let sv' = snd (sendTransaction demo_hash demo_decode demo_nts (demo_clock 1000) demo_registry ''h'' demo_server)
   in getTransaction (demo_clock 1000) sv' ''h'' = TX_FAILED \<and> proposal_count (sv_store sv') = 1"
proof -
  have a: "iv_contractAddress demo_registry = ad_governor (st_addresses (sv_store demo_server))" by code_simp
  have "fst (propose_via_registry demo_store (demo_clock 1000) ''C4'' ''C4'' ''bob'' ''d'' [171, 205] ''u'' [''T''] [''f''] [[7]])
      = Inr 1" by code_simp
  then obtain s1 where "propose_via_registry (sv_store demo_server) (demo_clock 1000) (iv_caller demo_registry)
      ''C4'' ''bob'' ''d'' [171, 205] ''u'' [''T''] [''f''] [[7]] = (Inr 1, s1)"
    by (auto simp: demo_server_def demo_registry_def demo_invocation_def intro: outcome_eqI)
  then show ?thesis
    using registry_proposal_reported_failed [OF _ a prod.collapse [symmetric]]
    by (fastforce simp: demo_registry_def demo_invocation_def Let_def)
qed

end
