(* ===== verification/ConvictionDecay.thy ===== *)
theory ConvictionDecay
  imports ConvictionVoting Complex_Main
begin

section \<open>Conviction against exact exponential decay\<close>

text \<open>
  The fixed-point arithmetic of \<^verbatim>\<open>powBps\<close> and \<^verbatim>\<open>projectConviction\<close> against the exact power and the exact decay, with
  the error that rounding may cause, and from it what the operations of the executor do to the score of a proposal
  in every run: each settles the score, for the stake before the operation, up to the current ledger.
\<close>

subsection \<open>Arithmetic\<close>

text \<open>How far rounding down takes the power from the exact one: at most one unit per ledger.\<close>

lemma power_diff_le:
  fixes x y :: rat
  assumes "0 \<le> y" "y \<le> x" "x \<le> 1"
  shows "x ^ m - y ^ m \<le> of_nat m * (x - y)"
proof (induction m)
  case (Suc m)
  have "x ^ Suc m - y ^ Suc m = x * (x ^ m - y ^ m) + (x - y) * y ^ m" by (simp add: algebra_simps)
  also have "\<dots> \<le> 1 * (x ^ m - y ^ m) + (x - y) * 1"
    using assms power_mono [of y x m] by (intro add_mono mult_right_mono mult_left_mono power_le_one) auto
  finally show ?case using Suc by (simp add: algebra_simps)
qed simp

lemma bdiv_BPS_rat:
  assumes "0 \<le> a"
  shows "of_int (bdiv a CV_BPS) \<le> (of_int a / 10000 :: rat)" "(of_int a / 10000 :: rat) < of_int (bdiv a CV_BPS) + 1"
proof -
  have "bdiv a CV_BPS = a div 10000" using assms by (simp add: bdiv_nonneg CV_BPS_def)
  moreover have "a div 10000 * 10000 \<le> a" "a < (a div 10000 + 1) * 10000" by simp_all
  then have "of_int (a div 10000 * 10000) \<le> (of_int a :: rat)" "(of_int a :: rat) < of_int ((a div 10000 + 1) * 10000)"
    by (simp_all only: of_int_le_iff of_int_less_iff)
  ultimately show "of_int (bdiv a CV_BPS) \<le> (of_int a / 10000 :: rat)"
    "(of_int a / 10000 :: rat) < of_int (bdiv a CV_BPS) + 1" by simp_all
qed

lemma powBps_loop_step:
  assumes "0 < e" "e < 2 ^ 31"
  shows "powBps_loop r b e =
    powBps_loop (if odd e then bdiv (r * b) CV_BPS else r) (if 1 < e then bdiv (b * b) CV_BPS else b) (e div 2)"
proof -
  have "to_int32 e = e" using assms by (simp add: to_int32_def)
  moreover have "0 < e div 2 \<longleftrightarrow> 1 < e" by linarith
  ultimately show ?thesis using assms by (subst powBps_loop.simps) (simp add: Let_def odd_iff_mod_2_eq_one)
qed

lemma powBps_loop_exact:
  assumes "0 \<le> e" "e < 2 ^ 31" "0 \<le> r" "r \<le> CV_BPS" "0 \<le> b" "b \<le> CV_BPS"
  defines "exact \<equiv> of_int r * (of_int b / 10000 :: rat) ^ nat e"
  shows "of_int (powBps_loop r b e) \<le> exact \<and> exact \<le> of_int (powBps_loop r b e) + of_int e"
  using assms(1-6) unfolding exact_def
proof (induction "nat e" arbitrary: r b e rule: less_induct)
  case less
  show ?case
  proof (cases "e = 0")
    case True
    then show ?thesis by (simp add: powBps_loop.simps)
  next
    case False
    then have e: "0 < e" using less.prems by simp
    define m where "m = e div 2"
    define r' where "r' = (if odd e then bdiv (r * b) CV_BPS else r)"
    define b' where "b' = (if 1 < e then bdiv (b * b) CV_BPS else b)"
    define x :: rat where "x = of_int b / 10000"
    define y :: rat where "y = of_int b' / 10000"
    define z :: rat where "z = of_int r * (if odd e then x else 1)"
    have m: "0 \<le> m" "m < e" "m < 2 ^ 31" using e less.prems by (simp_all add: m_def)
    have loop: "powBps_loop r b e = powBps_loop r' b' m"
      using powBps_loop_step [OF e less.prems(2)] by (simp add: r'_def b'_def m_def)
    have r': "0 \<le> r'" "r' \<le> CV_BPS" using scaled_bounds [of r b] less.prems by (auto simp: r'_def)
    have b': "0 \<le> b'" "b' \<le> CV_BPS" using scaled_bounds [of b b] less.prems by (auto simp: b'_def)
    have x: "0 \<le> x" "x \<le> 1" using less.prems by (simp_all add: x_def CV_BPS_def)
    have y: "0 \<le> y" "y \<le> 1" using b' by (simp_all add: y_def CV_BPS_def)
    have z: "0 \<le> z" "z \<le> 10000"
      using less.prems x mult_mono [of "of_int r" "10000 :: rat" x 1] by (auto simp: z_def CV_BPS_def)
    have split: "of_int r * x ^ nat e = z * (x * x) ^ nat m"
    proof -
      have "nat e = (if odd e then 1 else 0) + 2 * nat m" unfolding m_def using e by (auto elim!: oddE evenE simp: nat_add_distrib nat_mult_distrib)
      then show ?thesis by (simp add: z_def power_add power_mult power2_eq_square)
    qed
    have zr: "of_int r' \<le> z" "z \<le> of_int r' + of_int (e mod 2)"
      using bdiv_BPS_rat [of "r * b"] less.prems by (auto simp: r'_def z_def x_def odd_iff_mod_2_eq_one)
    have sq: "y ^ nat m \<le> (x * x) ^ nat m \<and> (x * x) ^ nat m \<le> y ^ nat m + of_int m / 10000"
    proof (cases "1 < e")
      case True
      have yx: "y \<le> x * x" "x * x - y \<le> 1 / 10000"
        using True bdiv_BPS_rat [of "b * b"] less.prems by (auto simp: y_def b'_def x_def)
      have "(x * x) ^ nat m - y ^ nat m \<le> of_nat (nat m) * (x * x - y)"
        using y yx x mult_le_one [of x x] by (intro power_diff_le) auto
      also have "\<dots> \<le> of_nat (nat m) * (1 / 10000)" using yx by (intro mult_left_mono) simp_all
      finally show ?thesis using m(1) power_mono [OF yx(1) y(1), of "nat m"] by (simp add: of_nat_nat)
    next
      case False
      then have "m = 0" using e by (simp add: m_def)
      then show ?thesis by simp
    qed
    have "nat m < nat e" using m(1,2) by simp
    note IH = less.hyps [OF this m(1,3) r' b', folded y_def]
    have yp: "0 \<le> y ^ nat m" "y ^ nat m \<le> 1" using y by (simp_all add: power_le_one)
    have "of_int r' * y ^ nat m \<le> z * (x * x) ^ nat m" using zr sq yp z r' by (intro mult_mono) auto
    then have low: "of_int (powBps_loop r b e) \<le> of_int r * x ^ nat e" using IH loop split by simp
    have "z * (x * x) ^ nat m \<le> z * (y ^ nat m + of_int m / 10000)" using sq z by (intro mult_left_mono) auto
    also have "\<dots> = z * y ^ nat m + z * (of_int m / 10000)" by (simp add: algebra_simps)
    also have "\<dots> \<le> (of_int r' + of_int (e mod 2)) * y ^ nat m + 10000 * (of_int m / 10000)"
      using zr z yp m(1) by (intro add_mono mult_right_mono) auto
    also have "\<dots> \<le> of_int r' * y ^ nat m + of_int (e mod 2) + of_int m"
      using yp mult_left_mono [of "y ^ nat m" 1 "of_int (e mod 2) :: rat"] by (simp add: algebra_simps)
    also have "\<dots> \<le> of_int (powBps_loop r b e) + of_int m + of_int (e mod 2) + of_int m" using IH loop by simp
    also have "\<dots> = of_int (powBps_loop r b e) + of_int e"
    proof -
      have "m + e mod 2 + m = e" unfolding m_def by presburger
      then have "(of_int m + of_int (e mod 2) + of_int m :: rat) = of_int e" by (metis of_int_add)
      then show ?thesis by (simp add: algebra_simps)
    qed
    finally show ?thesis using low split unfolding x_def by simp
  qed
qed

text \<open>The score against the exact exponential decay towards the steady state.\<close>

definition exact_conviction :: "int \<Rightarrow> int \<Rightarrow> int \<Rightarrow> int \<Rightarrow> rat" where
  "exact_conviction conv steady elapsed decayBps =
     (let q = (of_int decayBps / 10000) ^ nat elapsed in of_int conv * q + of_int steady * (1 - q))"

lemma projectConviction_exact:
  assumes "0 \<le> conv" "0 \<le> staked" "0 \<le> weight" "0 \<le> decay" "decay \<le> CV_BPS" "0 \<le> elapsed" "elapsed < 2 ^ 31"
  defines "S \<equiv> steady_conviction staked decay weight"
  shows "\<bar>of_int (projectConviction conv staked elapsed decay weight) - exact_conviction conv S elapsed decay\<bar>
     \<le> of_int (max conv S * elapsed) / 10000 + 2"
proof -
  define p where "p = powBps decay elapsed"
  define q :: rat where "q = (of_int decay / 10000) ^ nat elapsed"
  define d where "d = q - of_int p / 10000"
  have p: "0 \<le> p" "p \<le> CV_BPS" using powBps_bounds [OF assms(4,5)] by (simp_all add: p_def)
  have S: "0 \<le> S" unfolding S_def steady_conviction_def using assms by (intro bdiv_ge_0) auto
  have "of_int p \<le> 10000 * q \<and> 10000 * q \<le> of_int p + of_int elapsed"
    using powBps_loop_exact [OF assms(6,7), of CV_BPS decay] assms(4,5) by (simp add: p_def q_def powBps_def CV_BPS_def)
  then have d: "0 \<le> d" "d \<le> of_int elapsed / 10000" by (simp_all add: d_def)
  have nn: "0 \<le> conv * p" "0 \<le> S * (CV_BPS - p)" using assms(1) S p by simp_all
  note fl = bdiv_BPS_rat [OF nn(1)] bdiv_BPS_rat [OF nn(2)]
  have proj: "projectConviction conv staked elapsed decay weight = bdiv (conv * p) CV_BPS + bdiv (S * (CV_BPS - p)) CV_BPS"
    by (simp add: projectConviction_def S_def steady_conviction_def p_def Let_def)
  have "exact_conviction conv S elapsed decay =
      of_int (conv * p) / 10000 + of_int (S * (CV_BPS - p)) / 10000 + (of_int conv - of_int S) * d"
    unfolding exact_conviction_def q_def [symmetric] d_def Let_def CV_BPS_def
    by (simp add: algebra_simps diff_divide_distrib)
  moreover have "\<bar>(of_int conv - of_int S) * d\<bar> \<le> of_int (max conv S * elapsed) / 10000"
  proof -
    have "\<bar>(of_int conv - of_int S :: rat)\<bar> \<le> of_int (max conv S)" using assms(1) S by (auto simp: max_def abs_le_iff)
    then have "\<bar>of_int conv - of_int S\<bar> * \<bar>d\<bar> \<le> of_int (max conv S) * (of_int elapsed / 10000)"
      using d assms(1) by (intro mult_mono) auto
    then show ?thesis by (simp add: abs_mult)
  qed
  moreover have "\<bar>u + v - (U + V + e)\<bar> \<le> m + 2" if "u \<le> U" "U < u + 1" "v \<le> V" "V < v + 1" "\<bar>e\<bar> \<le> m"
    for u v U V e m :: rat using that by linarith
  ultimately show ?thesis using fl unfolding proj of_int_add by metis
qed

subsection \<open>In every run\<close>

text \<open>What the operations owe a proposal: its score has moved, from the ledger of its last update to the current one,
  towards the steady state of the stake on it.\<close>

definition settled_score ::
  "ConvictionVotingState \<Rightarrow> LedgerClock \<Rightarrow> ConvictionProposalRecord \<Rightarrow> ConvictionProposalRecord \<Rightarrow> bool" where
  "settled_score t clock p p' \<longleftrightarrow>
     (let elapsed = clock_sequence clock - cq_lastUpdatedLedger p;
          steady = bdiv (js_sum (stake_map t (cq_id p)) * cv_weightBps t) (max 1 (10000 - cv_decayBps t));
          highest = max (cq_conviction p) steady
      in cq_lastUpdatedLedger p' = clock_sequence clock \<and> 0 \<le> cq_conviction p' \<and> cq_conviction p' \<le> highest \<and>
         \<bar>of_int (cq_conviction p') - exact_conviction (cq_conviction p) steady elapsed (cv_decayBps t)\<bar>
           \<le> of_int (highest * elapsed) / 10000 + 2)"

lemma updateConviction_settles:
  assumes "updateConviction t clock pid p = (t', p')" "cv_ok t" "js_get (cv_proposals t) pid = Some p"
    and "\<not> cq_executed p" "\<not> cq_cancelled p"
    and "cq_lastUpdatedLedger p < clock_sequence clock" "clock_sequence clock - cq_lastUpdatedLedger p < 2 ^ 31"
  shows "settled_score t clock p p'"
proof -
  let ?n = "clock_sequence clock - cq_lastUpdatedLedger p"
  have ok: "stakes_ok t" "config_ok t" "0 \<le> cq_conviction p"
    using assms(2,3) by (auto simp: cv_ok_def proposals_ok_def)
  then have staked: "totalStaked t (cq_id p) = js_sum (stake_map t (cq_id p))" by (simp add: stakes_ok_def)
  have config: "0 \<le> cv_decayBps t" "cv_decayBps t \<le> CV_BPS" "0 \<le> cv_weightBps t" using ok by (simp_all add: config_ok_def)
  then have steady: "bdiv (js_sum (stake_map t (cq_id p)) * cv_weightBps t) (max 1 (10000 - cv_decayBps t)) =
      steady_conviction (totalStaked t (cq_id p)) (cv_decayBps t) (cv_weightBps t)"
    by (auto simp: steady_conviction_def CV_BPS_def staked max_def)
  have p': "cq_conviction p' =
      projectConviction (cq_conviction p) (totalStaked t (cq_id p)) ?n (cv_decayBps t) (cv_weightBps t)"
    "cq_lastUpdatedLedger p' = clock_sequence clock"
    using assms by (auto simp: updateConviction_def Let_def)
  show ?thesis
    unfolding settled_score_def steady Let_def p'
    using projectConviction_between(1,3) [OF ok(3) totalStaked_nonneg [OF ok(1)] config(3,1,2), of "cq_id p" ?n]
      projectConviction_exact [OF ok(3) totalStaked_nonneg [OF ok(1)] config(3,1,2), of ?n "cq_id p"] assms(6,7)
    by simp
qed

text \<open>C34: In every run of the executor, from a store booted with a decay of at most 100 per cent, a checkpoint of an open
  proposal, a stake on it and the withdrawal of a stake from it each first bring its conviction up to date, with the stake that
  was on it until then: the score stays between zero and the larger of the old score and the steady state of the stake, it
  follows the exact exponential decay towards that steady state with an error of at most one basis point of the larger
  of the two per ledger elapsed, and two units, and it is dated with the current ledger, so that no ledger counts twice. The
  checkpoint answers with that score. Less than \<open>2\<^sup>3\<^sup>1\<close> ledgers may elapse between two updates.\<close>

theorem conviction_tracks_stake:
  assumes "cv_step\<^sup>*\<^sup>* (buildStore g addresses boot config) s"
    and "config_ok (st_convictionVoting (buildStore g addresses boot config))"
    and "cv_get_proposal s pid = Inr p" "\<not> cq_executed p" "\<not> cq_cancelled p"
    and "cq_lastUpdatedLedger p < clock_sequence clock" "clock_sequence clock - cq_lastUpdatedLedger p < 2 ^ 31"
  shows "(\<forall>score s'. checkpoint_conviction s clock pid = (Inr score, s') \<longrightarrow>
       (\<exists>p'. cv_get_proposal s' pid = Inr p' \<and> settled_score (st_convictionVoting s) clock p p' \<and> cq_conviction p' = score)) \<and>
     (\<forall>caller staker amount s'. cv_stake s clock caller staker pid amount = (Inr (), s') \<longrightarrow>
       (\<exists>p'. cv_get_proposal s' pid = Inr p' \<and> settled_score (st_convictionVoting s) clock p p')) \<and>
     (\<forall>caller staker s'. withdraw_stake s clock caller staker = (Inr (), s') \<longrightarrow>
       js_get (cv_stakeByStaker (st_convictionVoting s)) staker = Some pid \<longrightarrow>
       (\<exists>p'. cv_get_proposal s' pid = Inr p' \<and> settled_score (st_convictionVoting s) clock p p'))"
proof -
  let ?t = "st_convictionVoting s"
  have ok: "cv_ok ?t" using conviction.reach_inv [OF assms(1) cv_ok_boot [OF assms(2)]] .
  have p: "js_get (cv_proposals ?t) pid = Some p" using assms(3) by (simp add: cv_get_proposal_def)
  then have id: "cq_id p = pid" using ok by (simp add: cv_ok_def proposals_ok_def)
  obtain t1 p1 where u: "updateConviction ?t clock pid p = (t1, p1)" by (cases "updateConviction ?t clock pid p")
  have settled: "settled_score ?t clock p p1" using updateConviction_settles [OF u ok p assms(4-7)] .
  have get: "js_get (cv_proposals t1) pid = Some p1" using updateConviction_get [OF u p id] by simp
  have id1: "cq_id p1 = pid" using updateConviction_frame(8) [OF u] id by simp
  have kept: "settled_score ?t clock p (p1\<lparr>cq_executed := b\<rparr>)" for b using settled by (simp add: settled_score_def)
  have "\<exists>p'. cv_get_proposal s' pid = Inr p' \<and> settled_score ?t clock p p' \<and> cq_conviction p' = score"
    if "checkpoint_conviction s clock pid = (Inr score, s')" for score s'
    using that p u get id1 settled kept assms(4,5)
    by (auto simp: checkpoint_conviction_def cv_get_proposal_def record_execution_def Let_def split: sum.splits if_splits)
  moreover have "\<exists>p'. cv_get_proposal s' pid = Inr p' \<and> settled_score ?t clock p p'"
    if "cv_stake s clock caller staker pid amount = (Inr (), s')" for caller staker amount s'
  proof -
    have open_p: "mustGetOpenProposal ?t pid = Inr p" using p assms(4,5) by (simp add: mustGetOpen_Inr)
    note out = that [unfolded cv_stake_def Let_def open_p sum.case u prod.case]
    have "js_get (cv_proposals (st_convictionVoting s')) pid = Some p1"
    proof (cases "js_get (cv_stakeByStaker t1) staker = None \<or> js_get (cv_stakeByStaker t1) staker = Some pid")
      case True
      then show ?thesis using out get by (auto simp: put_stake_spec split: if_splits)
    next
      case False
      then obtain oldId old t2 old' where o: "js_get (cv_stakeByStaker t1) staker = Some oldId" "oldId \<noteq> pid"
          "js_get (cv_proposals t1) oldId = Some old" "updateConviction t1 clock oldId old = (t2, old')"
          "st_convictionVoting s' = put_stake (removeStake t2 staker oldId) staker pid amount"
        using out by (auto split: if_splits sum.splits prod.splits)
      have "cv_ok t1" using updateConviction_ok [OF u p ok] .
      then have "cq_id old = oldId" using o(3) by (simp add: cv_ok_def proposals_ok_def)
      from updateConviction_get [OF o(4,3) this, of pid] show ?thesis
        using o(2,5) get by (simp add: put_stake_spec removeStake_spec)
    qed
    then show ?thesis using settled by (simp add: cv_get_proposal_def)
  qed
  moreover have "\<exists>p'. cv_get_proposal s' pid = Inr p' \<and> settled_score ?t clock p p'"
    if "withdraw_stake s clock caller staker = (Inr (), s')" "js_get (cv_stakeByStaker ?t) staker = Some pid" for caller staker s'
    using that p u get settled
    by (auto simp: withdraw_stake_def cv_get_proposal_def removeStake_spec Let_def split: if_splits sum.splits)
  ultimately show ?thesis by blast
qed

text \<open>A stake of 400 is on the proposal from ledger 1001 on, when a checkpoint at ledger 1003 executes it.\<close>

theorem conviction_tracks_stake_witness:
  "\<exists>p p'. cv_get_proposal demo_staked 1 = Inr p \<and> cv_get_proposal demo_convinced 1 = Inr p' \<and>
     settled_score (st_convictionVoting demo_staked) (demo_clock 1003) p p' \<and> cq_lastUpdatedLedger p = 1001 \<and>
     cq_lastUpdatedLedger p' = 1003"
proof -
  obtain p where p: "cv_get_proposal demo_staked 1 = Inr p" "\<not> cq_executed p" "\<not> cq_cancelled p" "cq_lastUpdatedLedger p = 1001"
  proof -
    have "case cv_get_proposal demo_staked 1 of Inl e \<Rightarrow> False
        | Inr p \<Rightarrow> \<not> cq_executed p \<and> \<not> cq_cancelled p \<and> cq_lastUpdatedLedger p = 1001" by code_simp
    then show thesis using that by (auto split: sum.splits)
  qed
  have "\<not> isl (fst (checkpoint_conviction demo_staked (demo_clock 1003) 1))" by code_simp
  then obtain score where "checkpoint_conviction demo_staked (demo_clock 1003) 1 = (Inr score, demo_convinced)"
    unfolding demo_convinced_def by (metis isl_def prod.collapse sumE)
  moreover have "clock_sequence (demo_clock 1003) = 1003" by code_simp
  ultimately show ?thesis
    using conviction_tracks_stake [OF demo_cv_run(1) [unfolded demo_store_def] demo_config_ok [unfolded demo_store_def] p(1-3),
        of "demo_clock 1003"] p
    by (auto simp: settled_score_def Let_def)
qed

end
