(* ===== verification/JsValue.thy ===== *)
theory JsValue
  imports NebText Complex_Main
begin

section \<open>JavaScript values\<close>

text \<open>
  What the SDK and the indexer use of the language when they take decoded contract values apart:
  the dynamic values themselves, member and index access, \<^verbatim>\<open>??\<close>, and the conversions
  \<^verbatim>\<open>BigInt(v)\<close>, \<^verbatim>\<open>Number(v)\<close>, \<^verbatim>\<open>String(v)\<close> and \<^verbatim>\<open>Boolean(v)\<close>.
  \<^item> The values are those that \<^verbatim>\<open>scValToNative\<close> produces: a \<^verbatim>\<open>number\<close> is then a 32-bit integer, a
    64 or 128-bit one is a \<^verbatim>\<open>bigint\<close>, byte strings are \<^verbatim>\<open>Buffer\<close>s, structs are plain objects.
  \<^item> Strings are kept in UTF-8, one \<open>char\<close> per byte, so that the text of a \<^verbatim>\<open>Buffer\<close> is what the lossy
    UTF-8 decoder makes of it.
  \<^item> A \<^verbatim>\<open>number\<close> that \<^verbatim>\<open>Number(v)\<close> returns is a double: a rational, an infinity or not a number. The sign
    of zero is not kept. White space in numerals is that of ASCII.
\<close>

datatype js_value =
  JUndefined
| JNull
| JBoolean bool
| JNumber int
| JBigint int
| JString string
| JBuffer bytes
| JArray "js_value list"
| JObject "(string \<times> js_value) list"

subsection \<open>Access\<close>

definition isArray :: "js_value \<Rightarrow> bool" where
  "isArray v = (case v of JArray _ \<Rightarrow> True | _ \<Rightarrow> False)"

text \<open>\<^verbatim>\<open>typeof v === "object" && v !== null && !Array.isArray(v)\<close>\<close>

definition isRecord :: "js_value \<Rightarrow> bool" where
  "isRecord v = (case v of JObject _ \<Rightarrow> True | JBuffer _ \<Rightarrow> True | _ \<Rightarrow> False)"

definition array_length :: "js_value \<Rightarrow> nat" where
  "array_length v = (case v of JArray vs \<Rightarrow> length vs | _ \<Rightarrow> 0)"

definition elements :: "js_value \<Rightarrow> js_value list" where
  "elements v = (case v of JArray vs \<Rightarrow> vs | _ \<Rightarrow> [])"

definition field :: "js_value \<Rightarrow> string \<Rightarrow> js_value" where
  "field v name =
     (case v of JObject fs \<Rightarrow> (case map_of fs name of None \<Rightarrow> JUndefined | Some x \<Rightarrow> x) | _ \<Rightarrow> JUndefined)"

definition elem :: "js_value \<Rightarrow> nat \<Rightarrow> js_value" where
  "elem v i = (case v of JArray vs \<Rightarrow> if i < length vs then vs ! i else JUndefined | _ \<Rightarrow> JUndefined)"

text \<open>\<^verbatim>\<open>a ?? b\<close>\<close>

definition nullish_or :: "js_value \<Rightarrow> js_value \<Rightarrow> js_value" where
  "nullish_or a b = (if a = JUndefined \<or> a = JNull then b else a)"

subsection \<open>Numerals\<close>

definition trim :: "string \<Rightarrow> string" where
  "trim s = rev (dropWhile is_space (rev (dropWhile is_space s)))"

definition digit_value :: "nat \<Rightarrow> char \<Rightarrow> nat option" where
  "digit_value base c =
     (let n = of_char c :: nat;
          d = (if 48 \<le> n \<and> n \<le> 57 then n - 48
               else if 97 \<le> n \<and> n \<le> 122 then n - 87
               else if 65 \<le> n \<and> n \<le> 90 then n - 55 else base)
      in if d < base then Some d else None)"

fun digits_value :: "nat \<Rightarrow> nat \<Rightarrow> string \<Rightarrow> nat option" where
  "digits_value base acc [] = Some acc"
| "digits_value base acc (c # cs) =
     (case digit_value base c of None \<Rightarrow> None | Some d \<Rightarrow> digits_value base (base * acc + d) cs)"

definition unsigned_numeral :: "nat \<Rightarrow> string \<Rightarrow> nat option" where
  "unsigned_numeral base s = (if s = [] then None else digits_value base 0 s)"

text \<open>The prefixed forms \<^verbatim>\<open>0x\<close>, \<^verbatim>\<open>0o\<close> and \<^verbatim>\<open>0b\<close>, which take no sign.\<close>

definition prefixed_numeral :: "string \<Rightarrow> nat option" where
  "prefixed_numeral s =
     (case s of
        z # x # rest \<Rightarrow>
          if z \<noteq> CHR ''0'' then None
          else if x = CHR ''x'' \<or> x = CHR ''X'' then unsigned_numeral 16 rest
          else if x = CHR ''o'' \<or> x = CHR ''O'' then unsigned_numeral 8 rest
          else if x = CHR ''b'' \<or> x = CHR ''B'' then unsigned_numeral 2 rest
          else None
      | _ \<Rightarrow> None)"

definition signed_part :: "string \<Rightarrow> int \<times> string" where
  "signed_part s =
     (case s of c # rest \<Rightarrow> if c = CHR ''-'' then (-1, rest) else if c = CHR ''+'' then (1, rest) else (1, s)
      | [] \<Rightarrow> (1, s))"

text \<open>\<^verbatim>\<open>BigInt(s)\<close> on a string; \<open>None\<close> is its \<^verbatim>\<open>SyntaxError\<close>.\<close>

definition string_to_bigint :: "string \<Rightarrow> int option" where
  "string_to_bigint s =
     (let t = trim s in
      if t = [] then Some 0
      else case prefixed_numeral t of Some n \<Rightarrow> Some (int n)
      | None \<Rightarrow>
          (case signed_part t of (sign, rest) \<Rightarrow>
             map_option (\<lambda>n. sign * int n) (unsigned_numeral 10 rest)))"

subsection \<open>Doubles\<close>

datatype js_number = Finite rat | Infinite bool | NotANumber

fun bit_length :: "nat \<Rightarrow> nat" where
  "bit_length n = (if n = 0 then 0 else Suc (bit_length (n div 2)))"

declare bit_length.simps [simp del]

definition round_half_even :: "nat \<Rightarrow> nat \<Rightarrow> nat" where
  "round_half_even n d =
     (let q = n div d; r = n mod d in
      if 2 * r < d then q else if d < 2 * r then Suc q else if even q then q else Suc q)"

text \<open>The double nearest to \<open>n / d\<close>: the exponent leaves 53 bits of mantissa, or fewer below the normal
  range; ties go to the even mantissa; what rounds to \<open>2 ^ 1024\<close> or more is infinite.\<close>

definition nearest_double :: "bool \<Rightarrow> nat \<Rightarrow> nat \<Rightarrow> js_number" where
  "nearest_double neg n d =
     (if n = 0 then Finite 0
      else
        let l = int (bit_length n) - int (bit_length d) - 53;
            scaled = (\<lambda>e. (n * 2 ^ nat (- e), d * 2 ^ nat e));
            fits = (\<lambda>e. case scaled e of (a, b) \<Rightarrow> a < 2 ^ 53 * b);
            e = max (if fits l then l else l + 1) (- 1074);
            m = (case scaled e of (a, b) \<Rightarrow> round_half_even a b);
            v = (if 0 \<le> e then of_nat (m * 2 ^ nat e) else of_nat m / of_nat (2 ^ nat (- e)))
        in if 2 ^ 1024 \<le> v then Infinite neg else Finite (if neg then - v else v))"

definition number_of_int :: "int \<Rightarrow> js_number" where
  "number_of_int i = nearest_double (i < 0) (nat \<bar>i\<bar>) 1"

text \<open>A decimal numeral: digits, an optional fraction, an optional exponent; there is a digit before or
  after the point.\<close>

definition exponent_part :: "string \<Rightarrow> int option" where
  "exponent_part s =
     (case s of [] \<Rightarrow> Some 0
      | c # rest \<Rightarrow>
          if c = CHR ''e'' \<or> c = CHR ''E'' then
            (case signed_part rest of (sign, ds) \<Rightarrow> map_option (\<lambda>n. sign * int n) (unsigned_numeral 10 ds))
          else None)"

definition decimal_number :: "bool \<Rightarrow> string \<Rightarrow> js_number" where
  "decimal_number neg s =
     (let whole = takeWhile is_digit s;
          rest = dropWhile is_digit s;
          frac = (case rest of c # cs \<Rightarrow> if c = CHR ''.'' then takeWhile is_digit cs else [] | [] \<Rightarrow> []);
          tail = (case rest of c # cs \<Rightarrow> if c = CHR ''.'' then dropWhile is_digit cs else rest | [] \<Rightarrow> [])
      in if whole = [] \<and> frac = [] then NotANumber
         else case exponent_part tail of None \<Rightarrow> NotANumber
         | Some x \<Rightarrow>
             let digits = parse_nat (whole @ frac);
                 scale = x - int (length frac)
             in if 0 \<le> scale then nearest_double neg (digits * 10 ^ nat scale) 1
                else nearest_double neg digits (10 ^ nat (- scale)))"

text \<open>\<^verbatim>\<open>Number(s)\<close> on a string.\<close>

definition string_to_number :: "string \<Rightarrow> js_number" where
  "string_to_number s =
     (let t = trim s in
      if t = [] then Finite 0
      else case prefixed_numeral t of Some n \<Rightarrow> nearest_double False n 1
      | None \<Rightarrow>
          (case signed_part t of (sign, rest) \<Rightarrow>
             if rest = ''Infinity'' then Infinite (sign < 0) else decimal_number (sign < 0) rest))"

subsection \<open>Text\<close>

definition continuation :: "nat \<Rightarrow> nat \<Rightarrow> byte \<Rightarrow> bool" where
  "continuation lo hi b \<longleftrightarrow> lo \<le> unat b \<and> unat b \<le> hi"

text \<open>How many continuation bytes a lead byte asks for, and the range of the first of them; \<open>None\<close> for a
  byte that starts nothing.\<close>

definition utf8_lead :: "byte \<Rightarrow> (nat \<times> nat \<times> nat) option" where
  "utf8_lead b =
     (let n = unat b in
      if n < 128 then Some (0, 128, 191)
      else if 194 \<le> n \<and> n \<le> 223 then Some (1, 128, 191)
      else if n = 224 then Some (2, 160, 191)
      else if n = 237 then Some (2, 128, 159)
      else if 225 \<le> n \<and> n \<le> 239 then Some (2, 128, 191)
      else if n = 240 then Some (3, 144, 191)
      else if n = 244 then Some (3, 128, 143)
      else if 241 \<le> n \<and> n \<le> 243 then Some (3, 128, 191)
      else None)"

fun continuations :: "nat \<Rightarrow> nat \<Rightarrow> nat \<Rightarrow> bytes \<Rightarrow> nat" where
  "continuations 0 lo hi bs = 0"
| "continuations (Suc k) lo hi [] = 0"
| "continuations (Suc k) lo hi (b # bs) =
     (if continuation lo hi b then Suc (continuations k 128 191 bs) else 0)"

definition replacement :: string where
  "replacement = [char_of (239 :: nat), char_of (191 :: nat), char_of (189 :: nat)]"

definition bytes_str :: "bytes \<Rightarrow> string" where
  "bytes_str bs = map (\<lambda>b. char_of (unat b)) bs"

text \<open>\<^verbatim>\<open>buffer.toString()\<close>: each maximal ill-formed part becomes one replacement character.\<close>

function utf8_text :: "bytes \<Rightarrow> string" where
  "utf8_text [] = []"
| "utf8_text (b # bs) =
     (case utf8_lead b of
        None \<Rightarrow> replacement @ utf8_text bs
      | Some (k, lo, hi) \<Rightarrow>
          let got = continuations k lo hi bs in
          (if got = k then bytes_str (b # take k bs) else replacement) @ utf8_text (drop got bs))"
  by pat_completeness auto
termination
  by (relation "measure length") auto

fun join :: "string \<Rightarrow> string list \<Rightarrow> string" where
  "join sep [] = []"
| "join sep [s] = s"
| "join sep (s # ss) = s @ sep @ join sep ss"

text \<open>\<^verbatim>\<open>String(v)\<close>; inside an array, \<^verbatim>\<open>null\<close> and \<^verbatim>\<open>undefined\<close> are empty.\<close>

fun js_String :: "js_value \<Rightarrow> string" where
  "js_String JUndefined = ''undefined''"
| "js_String JNull = ''null''"
| "js_String (JBoolean b) = (if b then ''true'' else ''false'')"
| "js_String (JNumber n) = dec_int n"
| "js_String (JBigint n) = dec_int n"
| "js_String (JString s) = s"
| "js_String (JBuffer bs) = utf8_text bs"
| "js_String (JArray vs) =
     join '','' (map (\<lambda>v. if v = JUndefined \<or> v = JNull then [] else js_String v) vs)"
| "js_String (JObject fs) = ''[object Object]''"

definition js_Boolean :: "js_value \<Rightarrow> bool" where
  "js_Boolean v =
     (case v of
        JUndefined \<Rightarrow> False | JNull \<Rightarrow> False | JBoolean b \<Rightarrow> b | JNumber n \<Rightarrow> n \<noteq> 0 | JBigint n \<Rightarrow> n \<noteq> 0
      | JString s \<Rightarrow> s \<noteq> [] | _ \<Rightarrow> True)"

text \<open>\<^verbatim>\<open>BigInt(v)\<close> on a number, a string or a bigint; \<open>None\<close> stands for its exception.\<close>

definition js_BigInt :: "js_value \<Rightarrow> int option" where
  "js_BigInt v =
     (case v of JBigint n \<Rightarrow> Some n | JNumber n \<Rightarrow> Some n | JString s \<Rightarrow> string_to_bigint s
      | JBoolean b \<Rightarrow> Some (if b then 1 else 0) | JBuffer bs \<Rightarrow> string_to_bigint (utf8_text bs)
      | JArray vs \<Rightarrow> string_to_bigint (js_String v)
      | _ \<Rightarrow> None)"

subsection \<open>Facts\<close>

lemma access_simps [simp]:
  "isArray (JArray vs)" "\<not> isArray (JObject fs)" "isRecord (JObject fs)" "\<not> isRecord (JArray vs)"
  "array_length (JArray vs) = length vs" "elements (JArray vs) = vs"
  "elem (JArray vs) i = (if i < length vs then vs ! i else JUndefined)"
  "field (JObject fs) k = (case map_of fs k of None \<Rightarrow> JUndefined | Some x \<Rightarrow> x)"
  by (simp_all add: isArray_def isRecord_def array_length_def elements_def elem_def field_def)

lemma nullish_or_simps [simp]:
  "nullish_or JUndefined b = b" "nullish_or JNull b = b" "nullish_or (JString s) b = JString s"
  "nullish_or (JBuffer bs) b = JBuffer bs" "nullish_or (JBigint n) b = JBigint n"
  "nullish_or (JNumber n) b = JNumber n" "nullish_or (JBoolean t) b = JBoolean t"
  by (simp_all add: nullish_or_def)

lemma bit_length_bounds: "n < 2 ^ bit_length n \<and> (0 < n \<longrightarrow> 2 ^ (bit_length n - 1) \<le> n)"
proof (induction n rule: bit_length.induct)
  case (1 n)
  show ?case
  proof (cases "n = 0")
    case False
    note IH = 1 [OF False]
    have "bit_length n = Suc (bit_length (n div 2))" using False by (subst bit_length.simps) simp
    moreover have "2 ^ bit_length (n div 2) \<le> n"
    proof (cases "n div 2 = 0")
      case True
      then show ?thesis using False by (simp add: bit_length.simps)
    next
      case False
      then have "bit_length (n div 2) = Suc (bit_length (n div 2) - 1)"
        by (metis Suc_pred' bit_length.simps zero_less_Suc)
      then show ?thesis using IH False by (metis bot_nat_0.not_eq_extremum div_times_less_eq_dividend
            le_trans mult.commute mult_le_mono2 power_Suc)
    qed
    moreover have "n < 2 * 2 ^ bit_length (n div 2)" using IH by linarith
    ultimately show ?thesis by simp
  qed (simp add: bit_length.simps)
qed

text \<open>Integers that fit into 53 bits are exact.\<close>

lemma number_of_int_exact:
  assumes "\<bar>i\<bar> < 2 ^ 53"
  shows "number_of_int i = Finite (of_int i)"
proof (cases "i = 0")
  case False
  define n where "n = nat \<bar>i\<bar>"
  define L where "L = bit_length n"
  have n: "0 < n" "n < 2 ^ 53" using False assms by (simp_all add: n_def nat_less_iff)
  have low: "2 ^ (L - 1) \<le> n" using bit_length_bounds [of n] n(1) by (simp add: L_def)
  have L: "0 < L" "L \<le> 53"
  proof -
    show "0 < L" using n(1) by (simp add: L_def bit_length.simps)
    have "2 ^ (L - 1) < (2 :: nat) ^ 53" using low n(2) by (rule le_less_trans)
    then have "L - 1 < 53" by (rule power_less_imp_less_exp [rotated]) simp
    then show "L \<le> 53" by simp
  qed
  have one: "bit_length 1 = 1" by (simp add: bit_length.simps)
  have "2 ^ (L - 1) * 2 ^ (54 - L) = (2 :: nat) ^ 53" using L by (simp flip: power_add)
  then have nofit: "\<not> n * 2 ^ (54 - L) < 2 ^ 53" using low by (metis mult_le_mono1 not_less)
  have e: "nat (- (int L - 1 - 53)) = 54 - L" "nat (- (int L - 1 - 53 + 1)) = 53 - L" using L by auto
  have half: "round_half_even a 1 = a" for a by (simp add: round_half_even_def)
  have v: "(of_nat (n * 2 ^ (53 - L)) :: rat) / of_nat (2 ^ (53 - L)) = of_nat n" by simp
  have "of_nat n < (2 :: rat) ^ 1024"
  proof -
    have "(of_nat n :: rat) < of_nat (2 ^ 53)" using n(2) by (simp only: of_nat_less_iff)
    also have "(of_nat (2 ^ 53) :: rat) \<le> 2 ^ 1024" by (simp add: power_increasing)
    finally show ?thesis .
  qed
  then have "nearest_double (i < 0) n 1 = Finite (if i < 0 then - of_nat n else of_nat n)"
    using n(1) L nofit e v half one by (simp add: nearest_double_def Let_def L_def [symmetric] not_le)
  moreover have "(of_nat n :: rat) = of_int \<bar>i\<bar>" by (simp add: n_def)
  ultimately show ?thesis by (simp add: number_of_int_def n_def [symmetric])
qed (simp add: number_of_int_def nearest_double_def)

end
