(* ===== verification/SdkEvents.thy ===== *)
theory SdkEvents
  imports JsValue "HOL-Library.Monad_Syntax"
begin

section \<open>Contract events in the SDK: decoding and the governor's events\<close>

text \<open>
  The first half of \<^verbatim>\<open>sdk/src/events.ts\<close>: the topic tables, the conversions of decoded values
  (\<^verbatim>\<open>toBigInt\<close>, \<^verbatim>\<open>toNumber\<close>, \<^verbatim>\<open>toHex\<close>, \<^verbatim>\<open>toGovernorSettings\<close>), \<^verbatim>\<open>decodeEvent\<close>, and the parsers of the governor's
  events. A parser returns \<open>None\<close> where the code returns \<^verbatim>\<open>null\<close>; the checks of several converted fields
  against \<^verbatim>\<open>null\<close> are binds of the option monad. A \<^verbatim>\<open>number\<close> is a \<open>js_number\<close>, a \<^verbatim>\<open>bigint\<close> an \<open>int\<close>, and what the
  code leaves \<^verbatim>\<open>unknown\<close> stays a \<open>js_value\<close>. The parsers of the other contracts are in \<open>ContractEvents\<close>.
\<close>

subsection \<open>Topics\<close>

datatype governor_topic =
  proposalCreated | voteCast | voteCastWithReason | proposalQueued
| proposalExecuted | proposalCancelled | proposalExpired | governorUpgraded
| configUpdated | paused | unpaused | reputationUpdated
| effectiveThresholdChanged | legacyProposalCreated | legacyVoteCast | legacyProposalExecuted

primrec TOPICS :: "governor_topic \<Rightarrow> string" where
  "TOPICS proposalCreated = ''ProposalCreated''"
| "TOPICS voteCast = ''VoteCast''"
| "TOPICS voteCastWithReason = ''VoteCastWithReason''"
| "TOPICS proposalQueued = ''ProposalQueued''"
| "TOPICS proposalExecuted = ''ProposalExecuted''"
| "TOPICS proposalCancelled = ''ProposalCancelled''"
| "TOPICS proposalExpired = ''ProposalExpired''"
| "TOPICS governorUpgraded = ''GovernorUpgraded''"
| "TOPICS configUpdated = ''ConfigUpdated''"
| "TOPICS paused = ''Paused''"
| "TOPICS unpaused = ''Unpaused''"
| "TOPICS reputationUpdated = ''ReputationUpdated''"
| "TOPICS effectiveThresholdChanged = ''EffectiveThresholdChanged''"
| "TOPICS legacyProposalCreated = ''prop_crtd''"
| "TOPICS legacyVoteCast = ''vote''"
| "TOPICS legacyProposalExecuted = ''execute''"

datatype cosponsor_topic =
  draftCreated | coSponsored | coSponsorshipWithdrawn | draftFinalized
| draftCancelled | draftExpired

primrec COSPONSOR_TOPICS :: "cosponsor_topic \<Rightarrow> string" where
  "COSPONSOR_TOPICS draftCreated = ''DraftCreated''"
| "COSPONSOR_TOPICS coSponsored = ''CoSponsored''"
| "COSPONSOR_TOPICS coSponsorshipWithdrawn = ''CoSponsorshipWithdrawn''"
| "COSPONSOR_TOPICS draftFinalized = ''DraftFinalized''"
| "COSPONSOR_TOPICS draftCancelled = ''DraftCancelled''"
| "COSPONSOR_TOPICS draftExpired = ''DraftExpired''"

datatype delegation_sig_topic =
  delegatedBySig | permitsInvalidated | relayerWhitelistUpdated

primrec DELEGATION_SIG_TOPICS :: "delegation_sig_topic \<Rightarrow> string" where
  "DELEGATION_SIG_TOPICS delegatedBySig = ''DelegatedBySig''"
| "DELEGATION_SIG_TOPICS permitsInvalidated = ''PermitsInvalidated''"
| "DELEGATION_SIG_TOPICS relayerWhitelistUpdated = ''RelayerWhitelistUpdated''"

datatype stream_topic =
  streamCreated | streamSpend | streamBatchSpend | streamRevoked
| streamExtended | streamToppedUp | streamExhausted | streamExpired

primrec STREAM_TOPICS :: "stream_topic \<Rightarrow> string" where
  "STREAM_TOPICS streamCreated = ''stream_created''"
| "STREAM_TOPICS streamSpend = ''stream_spend''"
| "STREAM_TOPICS streamBatchSpend = ''stream_batch''"
| "STREAM_TOPICS streamRevoked = ''stream_revoked''"
| "STREAM_TOPICS streamExtended = ''stream_extended''"
| "STREAM_TOPICS streamToppedUp = ''stream_topped_up''"
| "STREAM_TOPICS streamExhausted = ''stream_exhausted''"
| "STREAM_TOPICS streamExpired = ''stream_expired''"

datatype timelock_topic =
  operationScheduled | operationExecuted | operationCancelled | batchOperationScheduled
| batchOperationExecuted | batchOperationCancelled | minDelayUpdated | dependencyDagValidated
| cycleDetected | partialBatchStarted | partialOpSucceeded | partialOpFailed
| batchRecoveryEntered | failedOpRetried | failedOpSkipped | batchFullyComplete

primrec TIMELOCK_TOPICS :: "timelock_topic \<Rightarrow> string" where
  "TIMELOCK_TOPICS operationScheduled = ''OperationScheduled''"
| "TIMELOCK_TOPICS operationExecuted = ''OperationExecuted''"
| "TIMELOCK_TOPICS operationCancelled = ''OperationCancelled''"
| "TIMELOCK_TOPICS batchOperationScheduled = ''BatchOperationScheduled''"
| "TIMELOCK_TOPICS batchOperationExecuted = ''BatchOperationExecuted''"
| "TIMELOCK_TOPICS batchOperationCancelled = ''BatchOperationCancelled''"
| "TIMELOCK_TOPICS minDelayUpdated = ''MinDelayUpdated''"
| "TIMELOCK_TOPICS dependencyDagValidated = ''DependencyDagValidated''"
| "TIMELOCK_TOPICS cycleDetected = ''CycleDetected''"
| "TIMELOCK_TOPICS partialBatchStarted = ''PartialBatchStarted''"
| "TIMELOCK_TOPICS partialOpSucceeded = ''PartialOpSucceeded''"
| "TIMELOCK_TOPICS partialOpFailed = ''PartialOpFailed''"
| "TIMELOCK_TOPICS batchRecoveryEntered = ''BatchRecoveryEntered''"
| "TIMELOCK_TOPICS failedOpRetried = ''FailedOpRetried''"
| "TIMELOCK_TOPICS failedOpSkipped = ''FailedOpSkipped''"
| "TIMELOCK_TOPICS batchFullyComplete = ''BatchFullyComplete''"

datatype signal_anchor_topic =
  resultAnchored

primrec SIGNAL_ANCHOR_TOPICS :: "signal_anchor_topic \<Rightarrow> string" where
  "SIGNAL_ANCHOR_TOPICS resultAnchored = ''ResultAnchored''"

datatype vote_escrow_topic =
  lockCreated | lockIncreased | lockExtended | lockWithdrawn

primrec VOTE_ESCROW_TOPICS :: "vote_escrow_topic \<Rightarrow> string" where
  "VOTE_ESCROW_TOPICS lockCreated = ''LockCreated''"
| "VOTE_ESCROW_TOPICS lockIncreased = ''LockIncreased''"
| "VOTE_ESCROW_TOPICS lockExtended = ''LockExtended''"
| "VOTE_ESCROW_TOPICS lockWithdrawn = ''LockWithdrawn''"

datatype voting_rewards_topic =
  epochStarted | epochRootPublished | rewardClaimed | poolFunded

primrec VOTING_REWARDS_TOPICS :: "voting_rewards_topic \<Rightarrow> string" where
  "VOTING_REWARDS_TOPICS epochStarted = ''EpochStarted''"
| "VOTING_REWARDS_TOPICS epochRootPublished = ''EpochRootPublished''"
| "VOTING_REWARDS_TOPICS rewardClaimed = ''RewardClaimed''"
| "VOTING_REWARDS_TOPICS poolFunded = ''PoolFunded''"

subsection \<open>Decoded events\<close>

record SorobanEvent =
  ev_ledger :: int
  ev_contractId :: string
  ev_topic :: "string list"
  ev_value :: js_value

text \<open>\<^verbatim>\<open>event.topic[i]\<close>\<close>

definition topic_at :: "SorobanEvent \<Rightarrow> nat \<Rightarrow> js_value" where
  "topic_at event i = (if i < length (ev_topic event) then JString (ev_topic event ! i) else JUndefined)"

text \<open>\<^verbatim>\<open>String(v ?? "")\<close> and \<^verbatim>\<open>Array.isArray(v) ? v : []\<close>\<close>

definition string_or_empty :: "js_value \<Rightarrow> string" where
  "string_or_empty v = js_String (nullish_or v (JString []))"

definition array_or_empty :: "js_value \<Rightarrow> js_value list" where
  "array_or_empty v = (if isArray v then elements v else [])"

definition toBigInt :: "js_value \<Rightarrow> int option" where
  "toBigInt v = (case v of JBigint n \<Rightarrow> Some n | JNumber _ \<Rightarrow> js_BigInt v | JString _ \<Rightarrow> js_BigInt v | _ \<Rightarrow> None)"

definition toNumber :: "js_value \<Rightarrow> js_number option" where
  "toNumber v =
     (case v of
        JNumber n \<Rightarrow> Some (Finite (of_int n))
      | JBigint n \<Rightarrow> Some (number_of_int n)
      | JString s \<Rightarrow>
          if 0 < length s then
            (let parsed = string_to_number s in if parsed = NotANumber then None else Some parsed)
          else None
      | _ \<Rightarrow> None)"

definition toHex :: "js_value \<Rightarrow> string" where
  "toHex v = (case v of JBuffer bs \<Rightarrow> to_hex bs | _ \<Rightarrow> string_or_empty v)"

text \<open>\<^verbatim>\<open>toNumber(v) ?? n\<close> and \<^verbatim>\<open>toBigInt(v) ?? n\<close>\<close>

definition or_default :: "js_number option \<Rightarrow> int \<Rightarrow> js_number" where
  "or_default r n = (case r of None \<Rightarrow> Finite (of_int n) | Some x \<Rightarrow> x)"

definition bigint_or :: "int option \<Rightarrow> int \<Rightarrow> int" where
  "bigint_or r n = (case r of None \<Rightarrow> n | Some x \<Rightarrow> x)"

subsection \<open>Settings\<close>

datatype VoteType = Simple | Extended | Quadratic

text \<open>The optional fields of the interface are \<open>None\<close> when the object does not have them.\<close>

record GovernorSettings =
  settings_votingDelay :: js_number
  settings_votingPeriod :: js_number
  settings_quorumNumerator :: js_number
  settings_proposalThreshold :: int
  settings_guardian :: string
  settings_voteType :: VoteType
  settings_proposalGracePeriod :: js_number
  settings_useDynamicQuorum :: "bool option"
  settings_reflectorOracle :: "string option option"
  settings_minQuorumUsd :: "int option"
  settings_maxCalldataSize :: "js_number option"
  settings_proposalCooldown :: "js_number option"
  settings_maxProposalsPerPeriod :: "js_number option"
  settings_proposalPeriodDuration :: "js_number option"
  settings_useCommitReveal :: "bool option"
  settings_commitPhaseFraction :: "js_number option"

definition toGovernorSettings :: "js_value \<Rightarrow> GovernorSettings option" where
  "toGovernorSettings v =
     (if \<not> isRecord v then None
      else do {
        votingDelay \<leftarrow> toNumber (field v ''voting_delay'');
        votingPeriod \<leftarrow> toNumber (field v ''voting_period'');
        quorumNumerator \<leftarrow> toNumber (field v ''quorum_numerator'');
        proposalThreshold \<leftarrow> toBigInt (field v ''proposal_threshold'');
        proposalGracePeriod \<leftarrow> toNumber (field v ''proposal_grace_period'');
        Some \<lparr>settings_votingDelay = votingDelay,
              settings_votingPeriod = votingPeriod,
              settings_quorumNumerator = quorumNumerator,
              settings_proposalThreshold = proposalThreshold,
              settings_guardian = string_or_empty (field v ''guardian''),
              settings_voteType = Extended,
              settings_proposalGracePeriod = proposalGracePeriod,
              settings_useDynamicQuorum = Some (js_Boolean (field v ''use_dynamic_quorum'')),
              settings_reflectorOracle =
                Some (if field v ''reflector_oracle'' = JUndefined \<or> field v ''reflector_oracle'' = JNull then None
                      else Some (js_String (field v ''reflector_oracle''))),
              settings_minQuorumUsd = Some (bigint_or (toBigInt (field v ''min_quorum_usd'')) 0),
              settings_maxCalldataSize = Some (or_default (toNumber (field v ''max_calldata_size'')) 10000),
              settings_proposalCooldown = Some (or_default (toNumber (field v ''proposal_cooldown'')) 100),
              settings_maxProposalsPerPeriod = Some (or_default (toNumber (field v ''max_proposals_per_period'')) 5),
              settings_proposalPeriodDuration =
                Some (or_default (toNumber (field v ''proposal_period_duration'')) 10000),
              settings_useCommitReveal = None,
              settings_commitPhaseFraction = None\<rparr>
      })"

subsection \<open>Raw events\<close>

text \<open>An event as the RPC server sends it. \<^verbatim>\<open>scValToNative\<close> is third-party code: a parameter of \<open>decodeEvent\<close>,
  \<open>None\<close> where it throws. \<open>raw_contractId\<close> is what \<^verbatim>\<open>raw.contractId?.contractId()\<close> gives.\<close>

record 'v EventResponse =
  raw_ledger :: int
  raw_contractId :: "string option"
  raw_topic :: "'v list"
  raw_value :: 'v

fun decode_topics :: "('v \<Rightarrow> js_value option) \<Rightarrow> 'v list \<Rightarrow> string list option" where
  "decode_topics scValToNative [] = Some []"
| "decode_topics scValToNative (segment # rest) =
     do { v \<leftarrow> scValToNative segment; vs \<leftarrow> decode_topics scValToNative rest; Some (js_String v # vs) }"

definition decodeEvent :: "('v \<Rightarrow> js_value option) \<Rightarrow> 'v EventResponse \<Rightarrow> SorobanEvent option" where
  "decodeEvent scValToNative raw =
     do {
       topic \<leftarrow> decode_topics scValToNative (raw_topic raw);
       v \<leftarrow> scValToNative (raw_value raw);
       Some \<lparr>ev_ledger = raw_ledger raw,
             ev_contractId = (case raw_contractId raw of None \<Rightarrow> [] | Some c \<Rightarrow> c),
             ev_topic = topic, ev_value = v\<rparr>
     }"

subsection \<open>Governor events\<close>

record ProposalCreatedEventData =
  proposalCreated_proposalId :: int
  proposalCreated_proposer :: string
  proposalCreated_description :: string
  proposalCreated_descriptionHash :: string
  proposalCreated_metadataUri :: string
  proposalCreated_targets :: "js_value list"
  proposalCreated_fnNames :: "js_value list"
  proposalCreated_calldatas :: "js_value list"
  proposalCreated_startLedger :: js_number
  proposalCreated_endLedger :: js_number

definition parseProposalCreatedEvent :: "SorobanEvent \<Rightarrow> ProposalCreatedEventData option" where
  "parseProposalCreatedEvent event =
     (if topic_at event 0 = JString (TOPICS legacyProposalCreated) then
      (if \<not> isArray (ev_value event) \<or>
         array_length (ev_value event) < 7 \<or>
         length (ev_topic event) < 2 then None
      else do {
        proposalId \<leftarrow> toBigInt (elem (ev_value event) 0);
        startLedger \<leftarrow> toNumber (elem (ev_value event) 5);
        endLedger \<leftarrow> toNumber (elem (ev_value event) 6);
        Some \<lparr>proposalCreated_proposalId = proposalId,
              proposalCreated_proposer = js_String (topic_at event 1),
              proposalCreated_description = string_or_empty (elem (ev_value event) 1),
              proposalCreated_descriptionHash = [],
              proposalCreated_metadataUri = [],
              proposalCreated_targets = array_or_empty (elem (ev_value event) 2),
              proposalCreated_fnNames = array_or_empty (elem (ev_value event) 3),
              proposalCreated_calldatas = array_or_empty (elem (ev_value event) 4),
              proposalCreated_startLedger = startLedger,
              proposalCreated_endLedger = endLedger\<rparr>
      })
      else
      (if topic_at event 0 \<noteq> JString (TOPICS proposalCreated) \<or>
         \<not> isRecord (ev_value event) then None
      else do {
        proposalId \<leftarrow> toBigInt (field (ev_value event) ''proposal_id'');
        startLedger \<leftarrow> toNumber (field (ev_value event) ''start_ledger'');
        endLedger \<leftarrow> toNumber (field (ev_value event) ''end_ledger'');
        Some \<lparr>proposalCreated_proposalId = proposalId,
              proposalCreated_proposer = string_or_empty (field (ev_value event) ''proposer''),
              proposalCreated_description = string_or_empty (field (ev_value event) ''description''),
              proposalCreated_descriptionHash = string_or_empty (field (ev_value event) ''description_hash''),
              proposalCreated_metadataUri = string_or_empty (field (ev_value event) ''metadata_uri''),
              proposalCreated_targets = array_or_empty (field (ev_value event) ''targets''),
              proposalCreated_fnNames = array_or_empty (field (ev_value event) ''fn_names''),
              proposalCreated_calldatas = array_or_empty (field (ev_value event) ''calldatas''),
              proposalCreated_startLedger = startLedger,
              proposalCreated_endLedger = endLedger\<rparr>
      }))"

record VoteCastEventData =
  voteCast_proposalId :: int
  voteCast_voter :: string
  voteCast_support :: js_number
  voteCast_weight :: int

definition parseVoteCastEvent :: "SorobanEvent \<Rightarrow> VoteCastEventData option" where
  "parseVoteCastEvent event =
     (if topic_at event 0 = JString (TOPICS legacyVoteCast) then
      (if \<not> isArray (ev_value event) \<or>
         array_length (ev_value event) < 3 \<or>
         length (ev_topic event) < 2 then None
      else do {
        proposalId \<leftarrow> toBigInt (elem (ev_value event) 0);
        weight \<leftarrow> toBigInt (elem (ev_value event) 2);
        Some \<lparr>voteCast_proposalId = proposalId,
              voteCast_voter = js_String (topic_at event 1),
              voteCast_support = or_default (toNumber (elem (ev_value event) 1)) (-1),
              voteCast_weight = weight\<rparr>
      })
      else
      (if topic_at event 0 \<noteq> JString (TOPICS voteCast) \<or>
         \<not> isRecord (ev_value event) then None
      else do {
        proposalId \<leftarrow> toBigInt (field (ev_value event) ''proposal_id'');
        support \<leftarrow> toNumber (field (ev_value event) ''support'');
        weight \<leftarrow> toBigInt (field (ev_value event) ''weight'');
        Some \<lparr>voteCast_proposalId = proposalId,
              voteCast_voter = string_or_empty (field (ev_value event) ''voter''),
              voteCast_support = support,
              voteCast_weight = weight\<rparr>
      }))"

record VoteCastWithReasonEventData =
  voteCastWithReason_proposalId :: int
  voteCastWithReason_voter :: string
  voteCastWithReason_support :: js_number
  voteCastWithReason_weight :: int
  voteCastWithReason_reason :: string

definition parseVoteCastWithReasonEvent :: "SorobanEvent \<Rightarrow> VoteCastWithReasonEventData option" where
  "parseVoteCastWithReasonEvent event =
     (if topic_at event 0 \<noteq> JString (TOPICS voteCastWithReason) \<or>
         \<not> isRecord (ev_value event) then None
      else do {
        proposalId \<leftarrow> toBigInt (field (ev_value event) ''proposal_id'');
        support \<leftarrow> toNumber (field (ev_value event) ''support'');
        weight \<leftarrow> toBigInt (field (ev_value event) ''weight'');
        Some \<lparr>voteCastWithReason_proposalId = proposalId,
              voteCastWithReason_voter = string_or_empty (field (ev_value event) ''voter''),
              voteCastWithReason_support = support,
              voteCastWithReason_weight = weight,
              voteCastWithReason_reason = string_or_empty (field (ev_value event) ''reason'')\<rparr>
      })"

record ProposalQueuedEventData =
  proposalQueued_proposalId :: int
  proposalQueued_opId :: js_value
  proposalQueued_eta :: int

definition parseProposalQueuedEvent :: "SorobanEvent \<Rightarrow> ProposalQueuedEventData option" where
  "parseProposalQueuedEvent event =
     (if topic_at event 0 \<noteq> JString (TOPICS proposalQueued) then None
      else if isArray (ev_value event) then
      do {
        proposalId \<leftarrow> toBigInt (elem (ev_value event) 0);
        eta \<leftarrow> toBigInt (elem (ev_value event) 1);
        Some \<lparr>proposalQueued_proposalId = proposalId,
              proposalQueued_opId = JNull,
              proposalQueued_eta = eta\<rparr>
      }
      else
      (if \<not> isRecord (ev_value event) then None
      else do {
        proposalId \<leftarrow> toBigInt (field (ev_value event) ''proposal_id'');
        eta \<leftarrow> toBigInt (field (ev_value event) ''eta'');
        Some \<lparr>proposalQueued_proposalId = proposalId,
              proposalQueued_opId = (nullish_or (field (ev_value event) ''op_id'') (JNull)),
              proposalQueued_eta = eta\<rparr>
      }))"

record ProposalExecutedEventData =
  proposalExecuted_proposalId :: int
  proposalExecuted_caller :: string

definition parseProposalExecutedEvent :: "SorobanEvent \<Rightarrow> ProposalExecutedEventData option" where
  "parseProposalExecutedEvent event =
     (if topic_at event 0 = JString (TOPICS legacyProposalExecuted) then
      do {
        proposalId \<leftarrow> toBigInt (ev_value event);
        Some \<lparr>proposalExecuted_proposalId = proposalId, proposalExecuted_caller = []\<rparr>
      }
      else
      (if topic_at event 0 \<noteq> JString (TOPICS proposalExecuted) \<or>
         \<not> isRecord (ev_value event) then None
      else do {
        proposalId \<leftarrow> toBigInt (field (ev_value event) ''proposal_id'');
        Some \<lparr>proposalExecuted_proposalId = proposalId,
              proposalExecuted_caller = string_or_empty (field (ev_value event) ''caller'')\<rparr>
      }))"

record ProposalCancelledEventData =
  proposalCancelled_proposalId :: int
  proposalCancelled_caller :: string

definition parseProposalCancelledEvent :: "SorobanEvent \<Rightarrow> ProposalCancelledEventData option" where
  "parseProposalCancelledEvent event =
     (if topic_at event 0 \<noteq> JString (TOPICS proposalCancelled) \<or>
         \<not> isRecord (ev_value event) then None
      else do {
        proposalId \<leftarrow> toBigInt (field (ev_value event) ''proposal_id'');
        Some \<lparr>proposalCancelled_proposalId = proposalId,
              proposalCancelled_caller = string_or_empty (field (ev_value event) ''caller'')\<rparr>
      })"

record ProposalExpiredEventData =
  proposalExpired_proposalId :: int
  proposalExpired_expiredAtLedger :: js_number

definition parseProposalExpiredEvent :: "SorobanEvent \<Rightarrow> ProposalExpiredEventData option" where
  "parseProposalExpiredEvent event =
     (if topic_at event 0 \<noteq> JString (TOPICS proposalExpired) \<or>
         \<not> isRecord (ev_value event) then None
      else do {
        proposalId \<leftarrow> toBigInt (field (ev_value event) ''proposal_id'');
        expiredAtLedger \<leftarrow> toNumber (field (ev_value event) ''expired_at_ledger'');
        Some \<lparr>proposalExpired_proposalId = proposalId,
              proposalExpired_expiredAtLedger = expiredAtLedger\<rparr>
      })"

record GovernorUpgradedEventData =
  governorUpgraded_oldHash :: js_value
  governorUpgraded_newHash :: js_value

definition parseGovernorUpgradedEvent :: "SorobanEvent \<Rightarrow> GovernorUpgradedEventData option" where
  "parseGovernorUpgradedEvent event =
     (if topic_at event 0 \<noteq> JString (TOPICS governorUpgraded) \<or>
         \<not> isRecord (ev_value event) then None
      else Some \<lparr>governorUpgraded_oldHash = (nullish_or (field (ev_value event) ''old_hash'') (JNull)),
            governorUpgraded_newHash = (nullish_or (field (ev_value event) ''new_hash'') (JNull))\<rparr>)"

record ConfigUpdatedEventData =
  configUpdated_oldSettings :: GovernorSettings
  configUpdated_newSettings :: GovernorSettings

definition parseConfigUpdatedEvent :: "SorobanEvent \<Rightarrow> ConfigUpdatedEventData option" where
  "parseConfigUpdatedEvent event =
     (if topic_at event 0 \<noteq> JString (TOPICS configUpdated) \<or>
         \<not> isRecord (ev_value event) then None
      else do {
        oldSettings \<leftarrow> toGovernorSettings (field (ev_value event) ''old_settings'');
        newSettings \<leftarrow> toGovernorSettings (field (ev_value event) ''new_settings'');
        Some \<lparr>configUpdated_oldSettings = oldSettings,
              configUpdated_newSettings = newSettings\<rparr>
      })"

record ReputationUpdatedEventData =
  reputationUpdated_proposer :: string
  reputationUpdated_oldScore :: js_number
  reputationUpdated_newScore :: js_number
  reputationUpdated_reason :: string

definition parseReputationUpdatedEvent :: "SorobanEvent \<Rightarrow> ReputationUpdatedEventData option" where
  "parseReputationUpdatedEvent event =
     (if topic_at event 0 \<noteq> JString (TOPICS reputationUpdated) \<or>
         \<not> isRecord (ev_value event) then None
      else do {
        oldScore \<leftarrow> toNumber (field (ev_value event) ''old_score'');
        newScore \<leftarrow> toNumber (field (ev_value event) ''new_score'');
        Some \<lparr>reputationUpdated_proposer = string_or_empty (nullish_or (field (ev_value event) ''proposer'') (topic_at event 1)),
              reputationUpdated_oldScore = oldScore,
              reputationUpdated_newScore = newScore,
              reputationUpdated_reason = string_or_empty (field (ev_value event) ''reason'')\<rparr>
      })"

record EffectiveThresholdChangedEventData =
  effectiveThresholdChanged_proposer :: string
  effectiveThresholdChanged_oldThreshold :: int
  effectiveThresholdChanged_newThreshold :: int

definition parseEffectiveThresholdChangedEvent :: "SorobanEvent \<Rightarrow> EffectiveThresholdChangedEventData option" where
  "parseEffectiveThresholdChangedEvent event =
     (if topic_at event 0 \<noteq> JString (TOPICS effectiveThresholdChanged) \<or>
         \<not> isRecord (ev_value event) then None
      else do {
        oldThreshold \<leftarrow> toBigInt (field (ev_value event) ''old_threshold'');
        newThreshold \<leftarrow> toBigInt (field (ev_value event) ''new_threshold'');
        Some \<lparr>effectiveThresholdChanged_proposer = string_or_empty (nullish_or (field (ev_value event) ''proposer'') (topic_at event 1)),
              effectiveThresholdChanged_oldThreshold = oldThreshold,
              effectiveThresholdChanged_newThreshold = newThreshold\<rparr>
      })"

record PauseEventData =
  pause_pauser :: string
  pause_ledger :: js_number

definition parsePauseEvent :: "SorobanEvent \<Rightarrow> PauseEventData option" where
  "parsePauseEvent event =
     (if topic_at event 0 \<noteq> JString (TOPICS paused) then None
      else if \<not> isRecord (ev_value event) then None
      else do {
        ledger \<leftarrow> toNumber (field (ev_value event) ''ledger'');
        let pauser = nullish_or (topic_at event 1)
                       (JString (string_or_empty (field (ev_value event) ''pauser'')));
        Some \<lparr>pause_pauser = js_String pauser, pause_ledger = ledger\<rparr>
      })"

record UnpauseEventData =
  unpause_ledger :: js_number

definition parseUnpauseEvent :: "SorobanEvent \<Rightarrow> UnpauseEventData option" where
  "parseUnpauseEvent event =
     (if topic_at event 0 \<noteq> JString (TOPICS unpaused) \<or>
         \<not> isRecord (ev_value event) then None
      else do {
        ledger \<leftarrow> toNumber (field (ev_value event) ''ledger'');
        Some \<lparr>unpause_ledger = ledger\<rparr>
      })"

record ProposalVetoedEventData =
  proposalVetoed_proposalId :: int
  proposalVetoed_queueTime :: int
  proposalVetoed_currentLedger :: int

definition parseProposalVetoedEvent :: "SorobanEvent \<Rightarrow> ProposalVetoedEventData option" where
  "parseProposalVetoedEvent event =
     (let raw = ev_value event in
      if topic_at event 0 \<noteq> JString ''veto'' then None
      else if \<not> isArray raw \<or> array_length raw < 3 then None
      else do {
        proposalId \<leftarrow> js_BigInt (elem raw 0);
        queueTime \<leftarrow> js_BigInt (elem raw 1);
        currentLedger \<leftarrow> js_BigInt (elem raw 2);
        Some \<lparr>proposalVetoed_proposalId = proposalId, proposalVetoed_queueTime = queueTime,
              proposalVetoed_currentLedger = currentLedger\<rparr>
      })"

end
