(* ===== verification/ContractEvents.thy ===== *)
theory ContractEvents
  imports SdkEvents
begin

section \<open>Contract events in the SDK: the other contracts\<close>

text \<open>
  The second half of \<^verbatim>\<open>sdk/src/events.ts\<close>: the event data and the parsers for co-sponsorship drafts, signed
  delegation, treasury budget streams, the timelock, the signal anchor, the vote escrow and the voting rewards.
\<close>

subsection \<open>Co-sponsorship drafts\<close>

record DraftCreatedEventData =
  draftCreated_draftId :: int
  draftCreated_creator :: string
  draftCreated_descriptionHash :: string
  draftCreated_metadataUri :: string
  draftCreated_createdLedger :: js_number
  draftCreated_expiryLedger :: js_number

definition parseDraftCreatedEvent :: "SorobanEvent \<Rightarrow> DraftCreatedEventData option" where
  "parseDraftCreatedEvent event =
     (if topic_at event 0 \<noteq> JString (COSPONSOR_TOPICS draftCreated) \<or>
         \<not> isRecord (ev_value event) then None
      else do {
        draftId \<leftarrow> toBigInt (field (ev_value event) ''draft_id'');
        createdLedger \<leftarrow> toNumber (field (ev_value event) ''created_ledger'');
        expiryLedger \<leftarrow> toNumber (field (ev_value event) ''expiry_ledger'');
        Some \<lparr>draftCreated_draftId = draftId,
              draftCreated_creator = string_or_empty (nullish_or (field (ev_value event) ''creator'') (topic_at event 1)),
              draftCreated_descriptionHash = toHex (field (ev_value event) ''description_hash''),
              draftCreated_metadataUri = string_or_empty (field (ev_value event) ''metadata_uri''),
              draftCreated_createdLedger = createdLedger,
              draftCreated_expiryLedger = expiryLedger\<rparr>
      })"

record CoSponsoredEventData =
  coSponsored_draftId :: int
  coSponsored_sponsor :: string
  coSponsored_power :: int
  coSponsored_totalPower :: int

definition parseCoSponsoredEvent :: "SorobanEvent \<Rightarrow> CoSponsoredEventData option" where
  "parseCoSponsoredEvent event =
     (if topic_at event 0 \<noteq> JString (COSPONSOR_TOPICS coSponsored) \<or>
         \<not> isArray (ev_value event) \<or>
         array_length (ev_value event) < 3 then None
      else do {
        draftId \<leftarrow> toBigInt (elem (ev_value event) 0);
        power \<leftarrow> toBigInt (elem (ev_value event) 1);
        totalPower \<leftarrow> toBigInt (elem (ev_value event) 2);
        Some \<lparr>coSponsored_draftId = draftId,
              coSponsored_sponsor = string_or_empty (topic_at event 1),
              coSponsored_power = power,
              coSponsored_totalPower = totalPower\<rparr>
      })"

record CoSponsorshipWithdrawnEventData =
  coSponsorshipWithdrawn_draftId :: int
  coSponsorshipWithdrawn_sponsor :: string
  coSponsorshipWithdrawn_power :: int
  coSponsorshipWithdrawn_totalPower :: int

definition parseCoSponsorshipWithdrawnEvent :: "SorobanEvent \<Rightarrow> CoSponsorshipWithdrawnEventData option" where
  "parseCoSponsorshipWithdrawnEvent event =
     (if topic_at event 0 \<noteq> JString (COSPONSOR_TOPICS coSponsorshipWithdrawn) \<or>
         \<not> isArray (ev_value event) \<or>
         array_length (ev_value event) < 3 then None
      else do {
        draftId \<leftarrow> toBigInt (elem (ev_value event) 0);
        power \<leftarrow> toBigInt (elem (ev_value event) 1);
        totalPower \<leftarrow> toBigInt (elem (ev_value event) 2);
        Some \<lparr>coSponsorshipWithdrawn_draftId = draftId,
              coSponsorshipWithdrawn_sponsor = string_or_empty (topic_at event 1),
              coSponsorshipWithdrawn_power = power,
              coSponsorshipWithdrawn_totalPower = totalPower\<rparr>
      })"

record DraftFinalizedEventData =
  draftFinalized_draftId :: int
  draftFinalized_proposalId :: int

definition parseDraftFinalizedEvent :: "SorobanEvent \<Rightarrow> DraftFinalizedEventData option" where
  "parseDraftFinalizedEvent event =
     (if topic_at event 0 \<noteq> JString (COSPONSOR_TOPICS draftFinalized) \<or>
         \<not> isArray (ev_value event) \<or>
         array_length (ev_value event) < 2 then None
      else do {
        draftId \<leftarrow> toBigInt (elem (ev_value event) 0);
        proposalId \<leftarrow> toBigInt (elem (ev_value event) 1);
        Some \<lparr>draftFinalized_draftId = draftId,
              draftFinalized_proposalId = proposalId\<rparr>
      })"

record DraftCancelledEventData =
  draftCancelled_draftId :: int
  draftCancelled_caller :: string

definition parseDraftCancelledEvent :: "SorobanEvent \<Rightarrow> DraftCancelledEventData option" where
  "parseDraftCancelledEvent event =
     (if topic_at event 0 \<noteq> JString (COSPONSOR_TOPICS draftCancelled) \<or>
         \<not> isArray (ev_value event) \<or>
         array_length (ev_value event) < 2 then None
      else do {
        draftId \<leftarrow> toBigInt (elem (ev_value event) 0);
        Some \<lparr>draftCancelled_draftId = draftId,
              draftCancelled_caller = string_or_empty (elem (ev_value event) 1)\<rparr>
      })"

record DraftExpiredEventData =
  draftExpired_draftId :: int
  draftExpired_expiredAtLedger :: js_number

definition parseDraftExpiredEvent :: "SorobanEvent \<Rightarrow> DraftExpiredEventData option" where
  "parseDraftExpiredEvent event =
     (if topic_at event 0 \<noteq> JString (COSPONSOR_TOPICS draftExpired) \<or>
         \<not> isArray (ev_value event) \<or>
         array_length (ev_value event) < 2 then None
      else do {
        draftId \<leftarrow> toBigInt (elem (ev_value event) 0);
        expiredAtLedger \<leftarrow> toNumber (elem (ev_value event) 1);
        Some \<lparr>draftExpired_draftId = draftId,
              draftExpired_expiredAtLedger = expiredAtLedger\<rparr>
      })"

subsection \<open>Signed delegation\<close>

record DelegatedBySigEventData =
  delegatedBySig_delegator :: string
  delegatedBySig_delegatee :: string
  delegatedBySig_relayer :: string
  delegatedBySig_nonce :: int

definition parseDelegatedBySigEvent :: "SorobanEvent \<Rightarrow> DelegatedBySigEventData option" where
  "parseDelegatedBySigEvent event =
     (if topic_at event 0 \<noteq> JString (DELEGATION_SIG_TOPICS delegatedBySig) \<or>
         \<not> isRecord (ev_value event) then None
      else do {
        nonce \<leftarrow> toBigInt (field (ev_value event) ''nonce'');
        Some \<lparr>delegatedBySig_delegator = string_or_empty (nullish_or (field (ev_value event) ''delegator'') (topic_at event 1)),
              delegatedBySig_delegatee = string_or_empty (field (ev_value event) ''delegatee''),
              delegatedBySig_relayer = string_or_empty (field (ev_value event) ''relayer''),
              delegatedBySig_nonce = nonce\<rparr>
      })"

record PermitsInvalidatedEventData =
  permitsInvalidated_delegator :: string
  permitsInvalidated_newNonce :: int

definition parsePermitsInvalidatedEvent :: "SorobanEvent \<Rightarrow> PermitsInvalidatedEventData option" where
  "parsePermitsInvalidatedEvent event =
     (if topic_at event 0 \<noteq> JString (DELEGATION_SIG_TOPICS permitsInvalidated) \<or>
         \<not> isRecord (ev_value event) then None
      else do {
        newNonce \<leftarrow> toBigInt (field (ev_value event) ''new_nonce'');
        Some \<lparr>permitsInvalidated_delegator = string_or_empty (nullish_or (field (ev_value event) ''delegator'') (topic_at event 1)),
              permitsInvalidated_newNonce = newNonce\<rparr>
      })"

record RelayerWhitelistUpdatedEventData =
  relayerWhitelistUpdated_relayer :: string
  relayerWhitelistUpdated_whitelisted :: bool

definition parseRelayerWhitelistUpdatedEvent :: "SorobanEvent \<Rightarrow> RelayerWhitelistUpdatedEventData option" where
  "parseRelayerWhitelistUpdatedEvent event =
     (if topic_at event 0 \<noteq> JString (DELEGATION_SIG_TOPICS relayerWhitelistUpdated) \<or>
         \<not> isRecord (ev_value event) then None
      else Some \<lparr>relayerWhitelistUpdated_relayer = string_or_empty (nullish_or (field (ev_value event) ''relayer'') (topic_at event 1)),
            relayerWhitelistUpdated_whitelisted = js_Boolean (field (ev_value event) ''whitelisted'')\<rparr>)"

subsection \<open>Treasury budget streams\<close>

record StreamCreatedEventData =
  streamCreated_streamId :: int
  streamCreated_name :: string
  streamCreated_owner :: string

definition parseStreamCreatedEvent :: "SorobanEvent \<Rightarrow> StreamCreatedEventData option" where
  "parseStreamCreatedEvent event =
     (if topic_at event 0 \<noteq> JString (STREAM_TOPICS streamCreated) \<or>
         \<not> isArray (ev_value event) \<or>
         array_length (ev_value event) < 3 then None
      else do {
        streamId \<leftarrow> toBigInt (elem (ev_value event) 0);
        Some \<lparr>streamCreated_streamId = streamId,
              streamCreated_name = string_or_empty (elem (ev_value event) 1),
              streamCreated_owner = string_or_empty (elem (ev_value event) 2)\<rparr>
      })"

record StreamSpendEventData =
  streamSpend_streamId :: int
  streamSpend_recipient :: string
  streamSpend_amount :: int

definition parseStreamSpendEvent :: "SorobanEvent \<Rightarrow> StreamSpendEventData option" where
  "parseStreamSpendEvent event =
     (if topic_at event 0 \<noteq> JString (STREAM_TOPICS streamSpend) \<or>
         \<not> isArray (ev_value event) \<or>
         array_length (ev_value event) < 3 then None
      else do {
        streamId \<leftarrow> toBigInt (elem (ev_value event) 0);
        amount \<leftarrow> toBigInt (elem (ev_value event) 2);
        Some \<lparr>streamSpend_streamId = streamId,
              streamSpend_recipient = string_or_empty (elem (ev_value event) 1),
              streamSpend_amount = amount\<rparr>
      })"

record StreamBatchSpendEventData =
  streamBatchSpend_streamId :: int
  streamBatchSpend_totalAmount :: int
  streamBatchSpend_recipientCount :: js_number

definition parseStreamBatchSpendEvent :: "SorobanEvent \<Rightarrow> StreamBatchSpendEventData option" where
  "parseStreamBatchSpendEvent event =
     (if topic_at event 0 \<noteq> JString (STREAM_TOPICS streamBatchSpend) \<or>
         \<not> isArray (ev_value event) \<or>
         array_length (ev_value event) < 3 then None
      else do {
        streamId \<leftarrow> toBigInt (elem (ev_value event) 0);
        totalAmount \<leftarrow> toBigInt (elem (ev_value event) 1);
        recipientCount \<leftarrow> toNumber (elem (ev_value event) 2);
        Some \<lparr>streamBatchSpend_streamId = streamId,
              streamBatchSpend_totalAmount = totalAmount,
              streamBatchSpend_recipientCount = recipientCount\<rparr>
      })"

record StreamRevokedEventData =
  streamRevoked_streamId :: int
  streamRevoked_caller :: string
  streamRevoked_unspentReturned :: int

definition parseStreamRevokedEvent :: "SorobanEvent \<Rightarrow> StreamRevokedEventData option" where
  "parseStreamRevokedEvent event =
     (if topic_at event 0 \<noteq> JString (STREAM_TOPICS streamRevoked) \<or>
         \<not> isArray (ev_value event) \<or>
         array_length (ev_value event) < 3 then None
      else do {
        streamId \<leftarrow> toBigInt (elem (ev_value event) 0);
        unspentReturned \<leftarrow> toBigInt (elem (ev_value event) 2);
        Some \<lparr>streamRevoked_streamId = streamId,
              streamRevoked_caller = string_or_empty (elem (ev_value event) 1),
              streamRevoked_unspentReturned = unspentReturned\<rparr>
      })"

record StreamExtendedEventData =
  streamExtended_streamId :: int
  streamExtended_oldEnd :: js_number
  streamExtended_newEnd :: js_number

definition parseStreamExtendedEvent :: "SorobanEvent \<Rightarrow> StreamExtendedEventData option" where
  "parseStreamExtendedEvent event =
     (if topic_at event 0 \<noteq> JString (STREAM_TOPICS streamExtended) \<or>
         \<not> isArray (ev_value event) \<or>
         array_length (ev_value event) < 3 then None
      else do {
        streamId \<leftarrow> toBigInt (elem (ev_value event) 0);
        oldEnd \<leftarrow> toNumber (elem (ev_value event) 1);
        newEnd \<leftarrow> toNumber (elem (ev_value event) 2);
        Some \<lparr>streamExtended_streamId = streamId,
              streamExtended_oldEnd = oldEnd,
              streamExtended_newEnd = newEnd\<rparr>
      })"

record StreamToppedUpEventData =
  streamToppedUp_streamId :: int
  streamToppedUp_additional :: int
  streamToppedUp_newTotal :: int

definition parseStreamToppedUpEvent :: "SorobanEvent \<Rightarrow> StreamToppedUpEventData option" where
  "parseStreamToppedUpEvent event =
     (if topic_at event 0 \<noteq> JString (STREAM_TOPICS streamToppedUp) \<or>
         \<not> isArray (ev_value event) \<or>
         array_length (ev_value event) < 3 then None
      else do {
        streamId \<leftarrow> toBigInt (elem (ev_value event) 0);
        additional \<leftarrow> toBigInt (elem (ev_value event) 1);
        newTotal \<leftarrow> toBigInt (elem (ev_value event) 2);
        Some \<lparr>streamToppedUp_streamId = streamId,
              streamToppedUp_additional = additional,
              streamToppedUp_newTotal = newTotal\<rparr>
      })"

record StreamExhaustedEventData =
  streamExhausted_streamId :: int

definition parseStreamExhaustedEvent :: "SorobanEvent \<Rightarrow> StreamExhaustedEventData option" where
  "parseStreamExhaustedEvent event =
     (if topic_at event 0 \<noteq> JString (STREAM_TOPICS streamExhausted) then None
      else do {
        streamId \<leftarrow> toBigInt (ev_value event);
        Some \<lparr>streamExhausted_streamId = streamId\<rparr>
      })"

record StreamExpiredEventData =
  streamExpired_streamId :: int
  streamExpired_unspent :: int

definition parseStreamExpiredEvent :: "SorobanEvent \<Rightarrow> StreamExpiredEventData option" where
  "parseStreamExpiredEvent event =
     (if topic_at event 0 \<noteq> JString (STREAM_TOPICS streamExpired) \<or>
         \<not> isArray (ev_value event) \<or>
         array_length (ev_value event) < 2 then None
      else do {
        streamId \<leftarrow> toBigInt (elem (ev_value event) 0);
        unspent \<leftarrow> toBigInt (elem (ev_value event) 1);
        Some \<lparr>streamExpired_streamId = streamId, streamExpired_unspent = unspent\<rparr>
      })"

subsection \<open>Timelock\<close>

record OperationScheduledEventData =
  operationScheduled_opId :: string
  operationScheduled_target :: string
  operationScheduled_fnName :: string
  operationScheduled_readyAt :: int
  operationScheduled_expiresAt :: int

definition parseOperationScheduledEvent :: "SorobanEvent \<Rightarrow> OperationScheduledEventData option" where
  "parseOperationScheduledEvent event =
     (if topic_at event 0 \<noteq> JString (TIMELOCK_TOPICS operationScheduled) \<or>
         \<not> isRecord (ev_value event) then None
      else do {
        readyAt \<leftarrow> toBigInt (field (ev_value event) ''ready_at'');
        expiresAt \<leftarrow> toBigInt (field (ev_value event) ''expires_at'');
        Some \<lparr>operationScheduled_opId = toHex (field (ev_value event) ''op_id''),
              operationScheduled_target = string_or_empty (field (ev_value event) ''target''),
              operationScheduled_fnName = string_or_empty (field (ev_value event) ''fn_name''),
              operationScheduled_readyAt = readyAt,
              operationScheduled_expiresAt = expiresAt\<rparr>
      })"

record OperationExecutedEventData =
  operationExecuted_opId :: string
  operationExecuted_caller :: string

definition parseOperationExecutedEvent :: "SorobanEvent \<Rightarrow> OperationExecutedEventData option" where
  "parseOperationExecutedEvent event =
     (if topic_at event 0 \<noteq> JString (TIMELOCK_TOPICS operationExecuted) \<or>
         \<not> isRecord (ev_value event) then None
      else Some \<lparr>operationExecuted_opId = toHex (field (ev_value event) ''op_id''),
            operationExecuted_caller = string_or_empty (field (ev_value event) ''caller'')\<rparr>)"

record OperationCancelledEventData =
  operationCancelled_opId :: string
  operationCancelled_caller :: string

definition parseOperationCancelledEvent :: "SorobanEvent \<Rightarrow> OperationCancelledEventData option" where
  "parseOperationCancelledEvent event =
     (if topic_at event 0 \<noteq> JString (TIMELOCK_TOPICS operationCancelled) \<or>
         \<not> isRecord (ev_value event) then None
      else Some \<lparr>operationCancelled_opId = toHex (field (ev_value event) ''op_id''),
            operationCancelled_caller = string_or_empty (field (ev_value event) ''caller'')\<rparr>)"

record BatchOperationScheduledEventData =
  batchOperationScheduled_batchOpId :: string
  batchOperationScheduled_targets :: "string list"
  batchOperationScheduled_fnNames :: "string list"
  batchOperationScheduled_readyAt :: int
  batchOperationScheduled_expiresAt :: int

definition parseBatchOperationScheduledEvent :: "SorobanEvent \<Rightarrow> BatchOperationScheduledEventData option" where
  "parseBatchOperationScheduledEvent event =
     (if topic_at event 0 \<noteq> JString (TIMELOCK_TOPICS batchOperationScheduled) \<or>
         \<not> isRecord (ev_value event) then None
      else do {
        readyAt \<leftarrow> toBigInt (field (ev_value event) ''ready_at'');
        expiresAt \<leftarrow> toBigInt (field (ev_value event) ''expires_at'');
        Some \<lparr>batchOperationScheduled_batchOpId = toHex (field (ev_value event) ''batch_op_id''),
              batchOperationScheduled_targets = map js_String (array_or_empty (field (ev_value event) ''targets'')),
              batchOperationScheduled_fnNames = map js_String (array_or_empty (field (ev_value event) ''fn_names'')),
              batchOperationScheduled_readyAt = readyAt,
              batchOperationScheduled_expiresAt = expiresAt\<rparr>
      })"

record BatchOperationExecutedEventData =
  batchOperationExecuted_batchOpId :: string
  batchOperationExecuted_caller :: string

definition parseBatchOperationExecutedEvent :: "SorobanEvent \<Rightarrow> BatchOperationExecutedEventData option" where
  "parseBatchOperationExecutedEvent event =
     (if topic_at event 0 \<noteq> JString (TIMELOCK_TOPICS batchOperationExecuted) \<or>
         \<not> isRecord (ev_value event) then None
      else Some \<lparr>batchOperationExecuted_batchOpId = toHex (field (ev_value event) ''batch_op_id''),
            batchOperationExecuted_caller = string_or_empty (field (ev_value event) ''caller'')\<rparr>)"

record BatchOperationCancelledEventData =
  batchOperationCancelled_batchOpId :: string
  batchOperationCancelled_caller :: string

definition parseBatchOperationCancelledEvent :: "SorobanEvent \<Rightarrow> BatchOperationCancelledEventData option" where
  "parseBatchOperationCancelledEvent event =
     (if topic_at event 0 \<noteq> JString (TIMELOCK_TOPICS batchOperationCancelled) \<or>
         \<not> isRecord (ev_value event) then None
      else Some \<lparr>batchOperationCancelled_batchOpId = toHex (field (ev_value event) ''batch_op_id''),
            batchOperationCancelled_caller = string_or_empty (field (ev_value event) ''caller'')\<rparr>)"

record MinDelayUpdatedEventData =
  minDelayUpdated_oldDelay :: int
  minDelayUpdated_newDelay :: int

definition parseMinDelayUpdatedEvent :: "SorobanEvent \<Rightarrow> MinDelayUpdatedEventData option" where
  "parseMinDelayUpdatedEvent event =
     (if topic_at event 0 \<noteq> JString (TIMELOCK_TOPICS minDelayUpdated) \<or>
         \<not> isRecord (ev_value event) then None
      else do {
        oldDelay \<leftarrow> toBigInt (field (ev_value event) ''old_delay'');
        newDelay \<leftarrow> toBigInt (field (ev_value event) ''new_delay'');
        Some \<lparr>minDelayUpdated_oldDelay = oldDelay,
              minDelayUpdated_newDelay = newDelay\<rparr>
      })"

record DependencyDagValidatedEventData =
  dependencyDagValidated_batchOpId :: string
  dependencyDagValidated_opCount :: js_number

definition parseDependencyDagValidatedEvent :: "SorobanEvent \<Rightarrow> DependencyDagValidatedEventData option" where
  "parseDependencyDagValidatedEvent event =
     (if topic_at event 0 \<noteq> JString (TIMELOCK_TOPICS dependencyDagValidated) \<or>
         \<not> isArray (ev_value event) \<or>
         array_length (ev_value event) < 2 then None
      else do {
        opCount \<leftarrow> toNumber (elem (ev_value event) 1);
        Some \<lparr>dependencyDagValidated_batchOpId = toHex (elem (ev_value event) 0),
              dependencyDagValidated_opCount = opCount\<rparr>
      })"

record CycleDetectedEventData =
  cycleDetected_cyclePath :: "string list"

definition parseCycleDetectedEvent :: "SorobanEvent \<Rightarrow> CycleDetectedEventData option" where
  "parseCycleDetectedEvent event =
     (if topic_at event 0 \<noteq> JString (TIMELOCK_TOPICS cycleDetected) \<or>
         \<not> isArray (ev_value event) then None
      else Some \<lparr>cycleDetected_cyclePath = map toHex (elements (ev_value event))\<rparr>)"

record PartialBatchStartedEventData =
  partialBatchStarted_batchOpId :: string
  partialBatchStarted_totalOps :: js_number

definition parsePartialBatchStartedEvent :: "SorobanEvent \<Rightarrow> PartialBatchStartedEventData option" where
  "parsePartialBatchStartedEvent event =
     (if topic_at event 0 \<noteq> JString (TIMELOCK_TOPICS partialBatchStarted) \<or>
         \<not> isArray (ev_value event) \<or>
         array_length (ev_value event) < 2 then None
      else do {
        totalOps \<leftarrow> toNumber (elem (ev_value event) 1);
        Some \<lparr>partialBatchStarted_batchOpId = toHex (elem (ev_value event) 0),
              partialBatchStarted_totalOps = totalOps\<rparr>
      })"

record PartialOpSucceededEventData =
  partialOpSucceeded_batchOpId :: string
  partialOpSucceeded_opId :: string
  partialOpSucceeded_completed :: js_number
  partialOpSucceeded_total :: js_number

definition parsePartialOpSucceededEvent :: "SorobanEvent \<Rightarrow> PartialOpSucceededEventData option" where
  "parsePartialOpSucceededEvent event =
     (if topic_at event 0 \<noteq> JString (TIMELOCK_TOPICS partialOpSucceeded) \<or>
         \<not> isArray (ev_value event) \<or>
         array_length (ev_value event) < 4 then None
      else do {
        completed \<leftarrow> toNumber (elem (ev_value event) 2);
        total \<leftarrow> toNumber (elem (ev_value event) 3);
        Some \<lparr>partialOpSucceeded_batchOpId = toHex (elem (ev_value event) 0),
              partialOpSucceeded_opId = toHex (elem (ev_value event) 1),
              partialOpSucceeded_completed = completed,
              partialOpSucceeded_total = total\<rparr>
      })"

record PartialOpFailedEventData =
  partialOpFailed_batchOpId :: string
  partialOpFailed_opId :: string

definition parsePartialOpFailedEvent :: "SorobanEvent \<Rightarrow> PartialOpFailedEventData option" where
  "parsePartialOpFailedEvent event =
     (if topic_at event 0 \<noteq> JString (TIMELOCK_TOPICS partialOpFailed) \<or>
         \<not> isArray (ev_value event) \<or>
         array_length (ev_value event) < 2 then None
      else Some \<lparr>partialOpFailed_batchOpId = toHex (elem (ev_value event) 0),
            partialOpFailed_opId = toHex (elem (ev_value event) 1)\<rparr>)"

record BatchRecoveryEnteredEventData =
  batchRecoveryEntered_batchOpId :: string
  batchRecoveryEntered_recoveryDeadline :: js_number

definition parseBatchRecoveryEnteredEvent :: "SorobanEvent \<Rightarrow> BatchRecoveryEnteredEventData option" where
  "parseBatchRecoveryEnteredEvent event =
     (if topic_at event 0 \<noteq> JString (TIMELOCK_TOPICS batchRecoveryEntered) \<or>
         \<not> isArray (ev_value event) \<or>
         array_length (ev_value event) < 2 then None
      else do {
        recoveryDeadline \<leftarrow> toNumber (elem (ev_value event) 1);
        Some \<lparr>batchRecoveryEntered_batchOpId = toHex (elem (ev_value event) 0),
              batchRecoveryEntered_recoveryDeadline = recoveryDeadline\<rparr>
      })"

record FailedOpRetriedEventData =
  failedOpRetried_batchOpId :: string
  failedOpRetried_opId :: string
  failedOpRetried_retryCount :: js_number
  failedOpRetried_succeeded :: bool

definition parseFailedOpRetriedEvent :: "SorobanEvent \<Rightarrow> FailedOpRetriedEventData option" where
  "parseFailedOpRetriedEvent event =
     (if topic_at event 0 \<noteq> JString (TIMELOCK_TOPICS failedOpRetried) \<or>
         \<not> isArray (ev_value event) \<or>
         array_length (ev_value event) < 4 then None
      else do {
        retryCount \<leftarrow> toNumber (elem (ev_value event) 2);
        Some \<lparr>failedOpRetried_batchOpId = toHex (elem (ev_value event) 0),
              failedOpRetried_opId = toHex (elem (ev_value event) 1),
              failedOpRetried_retryCount = retryCount,
              failedOpRetried_succeeded = js_Boolean (elem (ev_value event) 3)\<rparr>
      })"

record FailedOpSkippedEventData =
  failedOpSkipped_batchOpId :: string
  failedOpSkipped_opId :: string

definition parseFailedOpSkippedEvent :: "SorobanEvent \<Rightarrow> FailedOpSkippedEventData option" where
  "parseFailedOpSkippedEvent event =
     (if topic_at event 0 \<noteq> JString (TIMELOCK_TOPICS failedOpSkipped) \<or>
         \<not> isArray (ev_value event) \<or>
         array_length (ev_value event) < 2 then None
      else Some \<lparr>failedOpSkipped_batchOpId = toHex (elem (ev_value event) 0),
            failedOpSkipped_opId = toHex (elem (ev_value event) 1)\<rparr>)"

record BatchFullyCompleteEventData =
  batchFullyComplete_batchOpId :: string

definition parseBatchFullyCompleteEvent :: "SorobanEvent \<Rightarrow> BatchFullyCompleteEventData option" where
  "parseBatchFullyCompleteEvent event =
     (if topic_at event 0 \<noteq> JString (TIMELOCK_TOPICS batchFullyComplete) then None
      else Some \<lparr>batchFullyComplete_batchOpId = toHex (ev_value event)\<rparr>)"

subsection \<open>Signal anchor\<close>

record ResultAnchoredEventData =
  resultAnchored_pollId :: int
  resultAnchored_resultHash :: string
  resultAnchored_anchoredLedger :: js_number
  resultAnchored_anchorer :: string

definition parseResultAnchoredEvent :: "SorobanEvent \<Rightarrow> ResultAnchoredEventData option" where
  "parseResultAnchoredEvent event =
     (if topic_at event 0 \<noteq> JString (SIGNAL_ANCHOR_TOPICS resultAnchored) \<or>
         \<not> isArray (ev_value event) \<or> array_length (ev_value event) < 3 then None
      else do {
        pollId \<leftarrow> toBigInt (elem (ev_value event) 0);
        anchoredLedger \<leftarrow> toNumber (elem (ev_value event) 2);
        let resultHashRaw = elem (ev_value event) 1;
        let resultHash = (case resultHashRaw of JBuffer bs \<Rightarrow> to_hex bs | _ \<Rightarrow> string_or_empty resultHashRaw);
        Some \<lparr>resultAnchored_pollId = pollId, resultAnchored_resultHash = resultHash,
              resultAnchored_anchoredLedger = anchoredLedger,
              resultAnchored_anchorer = string_or_empty (topic_at event 1)\<rparr>
      })"

subsection \<open>Vote escrow\<close>

record LockCreatedEventData =
  lockCreated_owner :: string
  lockCreated_amount :: int
  lockCreated_endLedger :: js_number
  lockCreated_initialVotingPower :: int

definition parseLockCreatedEvent :: "SorobanEvent \<Rightarrow> LockCreatedEventData option" where
  "parseLockCreatedEvent event =
     (if topic_at event 0 \<noteq> JString (VOTE_ESCROW_TOPICS lockCreated) \<or>
         \<not> isRecord (ev_value event) then None
      else do {
        amount \<leftarrow> toBigInt (field (ev_value event) ''amount'');
        endLedger \<leftarrow> toNumber (field (ev_value event) ''end_ledger'');
        initialVotingPower \<leftarrow> toBigInt (field (ev_value event) ''initial_voting_power'');
        Some \<lparr>lockCreated_owner = string_or_empty (nullish_or (field (ev_value event) ''owner'') (topic_at event 1)),
              lockCreated_amount = amount,
              lockCreated_endLedger = endLedger,
              lockCreated_initialVotingPower = initialVotingPower\<rparr>
      })"

record LockIncreasedEventData =
  lockIncreased_owner :: string
  lockIncreased_addedAmount :: int
  lockIncreased_newVotingPower :: int

definition parseLockIncreasedEvent :: "SorobanEvent \<Rightarrow> LockIncreasedEventData option" where
  "parseLockIncreasedEvent event =
     (if topic_at event 0 \<noteq> JString (VOTE_ESCROW_TOPICS lockIncreased) \<or>
         \<not> isRecord (ev_value event) then None
      else do {
        addedAmount \<leftarrow> toBigInt (field (ev_value event) ''added_amount'');
        newVotingPower \<leftarrow> toBigInt (field (ev_value event) ''new_voting_power'');
        Some \<lparr>lockIncreased_owner = string_or_empty (nullish_or (field (ev_value event) ''owner'') (topic_at event 1)),
              lockIncreased_addedAmount = addedAmount,
              lockIncreased_newVotingPower = newVotingPower\<rparr>
      })"

record LockExtendedEventData =
  lockExtended_owner :: string
  lockExtended_oldEndLedger :: js_number
  lockExtended_newEndLedger :: js_number

definition parseLockExtendedEvent :: "SorobanEvent \<Rightarrow> LockExtendedEventData option" where
  "parseLockExtendedEvent event =
     (if topic_at event 0 \<noteq> JString (VOTE_ESCROW_TOPICS lockExtended) \<or>
         \<not> isRecord (ev_value event) then None
      else do {
        oldEndLedger \<leftarrow> toNumber (field (ev_value event) ''old_end_ledger'');
        newEndLedger \<leftarrow> toNumber (field (ev_value event) ''new_end_ledger'');
        Some \<lparr>lockExtended_owner = string_or_empty (nullish_or (field (ev_value event) ''owner'') (topic_at event 1)),
              lockExtended_oldEndLedger = oldEndLedger,
              lockExtended_newEndLedger = newEndLedger\<rparr>
      })"

record LockWithdrawnEventData =
  lockWithdrawn_owner :: string
  lockWithdrawn_amount :: int

definition parseLockWithdrawnEvent :: "SorobanEvent \<Rightarrow> LockWithdrawnEventData option" where
  "parseLockWithdrawnEvent event =
     (if topic_at event 0 \<noteq> JString (VOTE_ESCROW_TOPICS lockWithdrawn) \<or>
         \<not> isRecord (ev_value event) then None
      else do {
        amount \<leftarrow> toBigInt (field (ev_value event) ''amount'');
        Some \<lparr>lockWithdrawn_owner = string_or_empty (nullish_or (field (ev_value event) ''owner'') (topic_at event 1)),
              lockWithdrawn_amount = amount\<rparr>
      })"

subsection \<open>Voting rewards\<close>

record EpochStartedEventData =
  epochStarted_epochId :: int
  epochStarted_startLedger :: js_number
  epochStarted_endLedger :: js_number

definition parseEpochStartedEvent :: "SorobanEvent \<Rightarrow> EpochStartedEventData option" where
  "parseEpochStartedEvent event =
     (if topic_at event 0 \<noteq> JString (VOTING_REWARDS_TOPICS epochStarted) \<or>
         \<not> isArray (ev_value event) \<or>
         array_length (ev_value event) < 2 then None
      else do {
        epochId \<leftarrow> toBigInt (topic_at event 1);
        startLedger \<leftarrow> toNumber (elem (ev_value event) 0);
        endLedger \<leftarrow> toNumber (elem (ev_value event) 1);
        Some \<lparr>epochStarted_epochId = epochId,
              epochStarted_startLedger = startLedger,
              epochStarted_endLedger = endLedger\<rparr>
      })"

record EpochRootPublishedEventData =
  epochRootPublished_epochId :: int
  epochRootPublished_merkleRoot :: string
  epochRootPublished_totalRewardAmount :: int

definition parseEpochRootPublishedEvent :: "SorobanEvent \<Rightarrow> EpochRootPublishedEventData option" where
  "parseEpochRootPublishedEvent event =
     (if topic_at event 0 \<noteq> JString (VOTING_REWARDS_TOPICS epochRootPublished) \<or>
         \<not> isArray (ev_value event) \<or>
         array_length (ev_value event) < 2 then None
      else do {
        epochId \<leftarrow> toBigInt (topic_at event 1);
        totalRewardAmount \<leftarrow> toBigInt (elem (ev_value event) 1);
        Some \<lparr>epochRootPublished_epochId = epochId,
              epochRootPublished_merkleRoot = toHex (elem (ev_value event) 0),
              epochRootPublished_totalRewardAmount = totalRewardAmount\<rparr>
      })"

record RewardClaimedEventData =
  rewardClaimed_claimant :: string
  rewardClaimed_epochId :: int
  rewardClaimed_amount :: int

definition parseRewardClaimedEvent :: "SorobanEvent \<Rightarrow> RewardClaimedEventData option" where
  "parseRewardClaimedEvent event =
     (if topic_at event 0 \<noteq> JString (VOTING_REWARDS_TOPICS rewardClaimed) \<or>
         \<not> isArray (ev_value event) \<or>
         array_length (ev_value event) < 2 then None
      else do {
        epochId \<leftarrow> toBigInt (elem (ev_value event) 0);
        amount \<leftarrow> toBigInt (elem (ev_value event) 1);
        Some \<lparr>rewardClaimed_claimant = string_or_empty (topic_at event 1),
              rewardClaimed_epochId = epochId,
              rewardClaimed_amount = amount\<rparr>
      })"

record PoolFundedEventData =
  poolFunded_funder :: string
  poolFunded_amount :: int

definition parsePoolFundedEvent :: "SorobanEvent \<Rightarrow> PoolFundedEventData option" where
  "parsePoolFundedEvent event =
     (if topic_at event 0 \<noteq> JString (VOTING_REWARDS_TOPICS poolFunded) then None
      else do {
        amount \<leftarrow> toBigInt (ev_value event);
        Some \<lparr>poolFunded_funder = string_or_empty (topic_at event 1),
              poolFunded_amount = amount\<rparr>
      })"

end
