(* ===== verification/SdkUtils.thy ===== *)
theory SdkUtils
  imports JsValue GovernorCore
begin

section \<open>SDK utilities: networks, retries, hex and quadratic weights\<close>

text \<open>
  \<^verbatim>\<open>sdk/src/network.ts\<close> and \<^verbatim>\<open>sdk/src/utils.ts\<close>. Errors are the left values of sums, with the text of the message
  where the code builds one. An asynchronous call that \<^verbatim>\<open>withRetry\<close> repeats is a function of the number of the attempt;
  the run of \<^verbatim>\<open>withRetry\<close> is its outcome with the waits between the attempts, \<^verbatim>\<open>Math.random\<close> being a parameter.
  Delays are rationals: the rounding of doubles is not modelled there. It is modelled, bit by bit, in
  \<^verbatim>\<open>computeQuadraticWeight\<close>, where it decides the result. XDR and the passphrases of the Stellar SDK are parameters.
\<close>

subsection \<open>Networks\<close>

datatype Network = mainnet | testnet | futurenet

primrec network_name :: "Network \<Rightarrow> string" where
  "network_name mainnet = ''mainnet''"
| "network_name testnet = ''testnet''"
| "network_name futurenet = ''futurenet''"

primrec RPC_URLS :: "Network \<Rightarrow> string" where
  "RPC_URLS mainnet = ''https://soroban-rpc.mainnet.stellar.gateway.fm''"
| "RPC_URLS testnet = ''https://soroban-testnet.stellar.org''"
| "RPC_URLS futurenet = ''https://rpc-futurenet.stellar.org''"

definition validateNetwork :: "string \<Rightarrow> string + Network" where
  "validateNetwork network =
     (let validNetworks = [mainnet, testnet, futurenet] in
      case find (\<lambda>n. network_name n = network) validNetworks of
        None \<Rightarrow> Inl (''Unknown network: '' @ network @ ''. Supported networks: '' @
                     join '', '' (map network_name validNetworks))
      | Some n \<Rightarrow> Inr n)"

definition getRpcUrl :: "string \<Rightarrow> string option \<Rightarrow> string + string" where
  "getRpcUrl network rpcUrlOverride =
     (case validateNetwork network of
        Inl e \<Rightarrow> Inl e
      | Inr validatedNetwork \<Rightarrow>
          Inr (case rpcUrlOverride of None \<Rightarrow> RPC_URLS validatedNetwork | Some url \<Rightarrow> url))"

definition getNetworkPassphrase :: "(Network \<Rightarrow> string) \<Rightarrow> string \<Rightarrow> string + string" where
  "getNetworkPassphrase NETWORK_PASSPHRASES network =
     (case validateNetwork network of
        Inl e \<Rightarrow> Inl e
      | Inr validatedNetwork \<Rightarrow> Inr (NETWORK_PASSPHRASES validatedNetwork))"

subsection \<open>Retries\<close>

text \<open>An optional member of an object: not there, there with the value \<^verbatim>\<open>undefined\<close>, or given. The spread
  \<^verbatim>\<open>{...a, ...b}\<close> takes every member that \<open>b\<close> has, also an \<^verbatim>\<open>undefined\<close> one.\<close>

datatype 'a member = Missing | Undefined | Given 'a

definition spread :: "'a member \<Rightarrow> 'a member \<Rightarrow> 'a member" where
  "spread a b = (if b = Missing then a else b)"

primrec given :: "'a member \<Rightarrow> 'a option" where
  "given Missing = None"
| "given Undefined = None"
| "given (Given x) = Some x"

definition coalesce :: "'a option \<Rightarrow> 'a option \<Rightarrow> 'a member" where
  "coalesce a b = (case a of Some x \<Rightarrow> Given x | None \<Rightarrow> (case b of Some x \<Rightarrow> Given x | None \<Rightarrow> Undefined))"

record 'e RetryOptions =
  ro_maxAttempts :: "int member"
  ro_baseDelayMs :: "rat member"
  ro_maxDelayMs :: "rat member"
  ro_retryOn :: "('e \<Rightarrow> bool) member"

record 'e ClientRetryConfig =
  cc_retry :: "'e RetryOptions option"
  cc_maxAttempts :: "int option"
  cc_baseDelayMs :: "rat option"

definition no_options :: "'e RetryOptions" where
  "no_options = \<lparr>ro_maxAttempts = Missing, ro_baseDelayMs = Missing, ro_maxDelayMs = Missing, ro_retryOn = Missing\<rparr>"

text \<open>\<open>Rejected None\<close> is the rejection with \<^verbatim>\<open>undefined\<close> of a loop that is never entered.\<close>

datatype ('e, 'a) settled = Resolved 'a | Rejected "'e option"

text \<open>One wait: the attempt that failed, its error (both are what \<^verbatim>\<open>onRetry\<close> is called with), and the delay.\<close>

type_synonym 'e wait = "int \<times> 'e \<times> rat"

function retry_loop ::
  "int \<Rightarrow> rat \<Rightarrow> rat \<Rightarrow> ('e \<Rightarrow> bool) option \<Rightarrow> (int \<Rightarrow> 'e + 'a) \<Rightarrow> (int \<Rightarrow> rat) \<Rightarrow> int \<Rightarrow> 'e option \<Rightarrow>
   ('e, 'a) settled \<times> 'e wait list" where
  "retry_loop maxAttempts baseDelayMs maxDelayMs retryOn fn random attempt lastError =
     (if attempt \<le> maxAttempts then
        (case fn attempt of
           Inr v \<Rightarrow> (Resolved v, [])
         | Inl e \<Rightarrow>
             if retryOn \<noteq> None \<and> \<not> the retryOn e then (Rejected (Some e), [])
             else if attempt = maxAttempts then (Rejected (Some e), [])
             else
               let exponential = min (baseDelayMs * 2 ^ nat (attempt - 1)) maxDelayMs;
                   jitter = random attempt * exponential * (3 / 10);
                   delay = exponential + jitter;
                   rest = retry_loop maxAttempts baseDelayMs maxDelayMs retryOn fn random (attempt + 1) (Some e)
               in (fst rest, (attempt, e, delay) # snd rest))
      else (Rejected lastError, []))"
  by pat_completeness auto
termination
  by (relation "measure (\<lambda>(maxAttempts, _, _, _, _, _, attempt, _). nat (maxAttempts + 1 - attempt))") auto

declare retry_loop.simps [simp del]

definition or_else :: "'a option \<Rightarrow> 'a \<Rightarrow> 'a" where
  "or_else x d = (case x of None \<Rightarrow> d | Some v \<Rightarrow> v)"

definition withRetry ::
  "(int \<Rightarrow> rat) \<Rightarrow> (int \<Rightarrow> 'e + 'a) \<Rightarrow> 'e RetryOptions \<Rightarrow> ('e, 'a) settled \<times> 'e wait list" where
  "withRetry random fn opts =
     (let maxAttempts = or_else (given (ro_maxAttempts opts)) 3;
          baseDelayMs = or_else (given (ro_baseDelayMs opts)) 1000;
          maxDelayMs = or_else (given (ro_maxDelayMs opts)) 30000
      in retry_loop maxAttempts baseDelayMs maxDelayMs (given (ro_retryOn opts)) fn random 1 None)"

definition merged_options :: "'e ClientRetryConfig \<Rightarrow> 'e RetryOptions \<Rightarrow> 'e RetryOptions" where
  "merged_options config defaults =
     (let retry = (case cc_retry config of None \<Rightarrow> no_options | Some r \<Rightarrow> r) in
      \<lparr>ro_maxAttempts =
         spread (coalesce (cc_maxAttempts config) (given (ro_maxAttempts defaults))) (ro_maxAttempts retry),
       ro_baseDelayMs =
         spread (coalesce (cc_baseDelayMs config) (given (ro_baseDelayMs defaults))) (ro_baseDelayMs retry),
       ro_maxDelayMs = spread (ro_maxDelayMs defaults) (ro_maxDelayMs retry),
       ro_retryOn = spread (ro_retryOn defaults) (ro_retryOn retry)\<rparr>)"

definition createRetry ::
  "'e ClientRetryConfig \<Rightarrow> 'e RetryOptions \<Rightarrow> (int \<Rightarrow> rat) \<Rightarrow> (int \<Rightarrow> 'e + 'a) \<Rightarrow> ('e \<Rightarrow> bool) option \<Rightarrow>
   ('e, 'a) settled \<times> 'e wait list" where
  "createRetry config defaults random fn retryOn =
     (let options = merged_options config defaults in
      withRetry random fn (options\<lparr>ro_retryOn := coalesce retryOn (given (ro_retryOn options))\<rparr>))"

text \<open>What \<^verbatim>\<open>isNetworkError\<close> looks at: the message of an \<^verbatim>\<open>Error\<close>, and a numeric \<^verbatim>\<open>response.status\<close>.\<close>

record thrown =
  thrown_message :: "string option"
  thrown_status :: "int option"

fun is_prefix :: "string \<Rightarrow> string \<Rightarrow> bool" where
  "is_prefix [] s = True"
| "is_prefix (c # p) [] = False"
| "is_prefix (c # p) (d # s) = (c = d \<and> is_prefix p s)"

fun str_includes :: "string \<Rightarrow> string \<Rightarrow> bool" where
  "str_includes [] p = (p = [])"
| "str_includes (c # s) p = (is_prefix p (c # s) \<or> str_includes s p)"

definition isNetworkError :: "thrown \<Rightarrow> bool" where
  "isNetworkError e =
     ((case thrown_message e of None \<Rightarrow> False
       | Some message \<Rightarrow>
           let msg = toLowerCase message in
           str_includes msg ''fetch'' \<or> str_includes msg ''network'' \<or> str_includes msg ''timeout'' \<or>
           str_includes msg ''aborted'' \<or> str_includes msg ''connection refused'' \<or> str_includes msg ''econnrefused'' \<or>
           str_includes msg ''500'' \<or> str_includes msg ''502'' \<or> str_includes msg ''503'' \<or> str_includes msg ''504'') \<or>
      (case thrown_status e of None \<Rightarrow> False | Some status \<Rightarrow> 500 \<le> status \<and> status < 600))"

subsection \<open>Bytes\<close>

text \<open>\<^verbatim>\<open>parseInt(s, 16)\<close>: leading white space, a sign and \<^verbatim>\<open>0x\<close> are skipped, the longest run of digits counts, and
  without a digit the result is not a number.\<close>

definition parseInt16 :: "string \<Rightarrow> int option" where
  "parseInt16 s =
     (case signed_part (dropWhile is_space s) of (sign, t) \<Rightarrow>
        let u = (if is_prefix ''0x'' t \<or> is_prefix ''0X'' t then drop 2 t else t);
            ds = takeWhile (\<lambda>c. digit_value 16 c \<noteq> None) u
        in map_option (\<lambda>n. sign * int n) (unsigned_numeral 16 ds))"

text \<open>The loop over the 32 bytes; storing into the \<^verbatim>\<open>Uint8Array\<close> keeps the low eight bits.\<close>

fun hex_bytes :: "nat \<Rightarrow> nat \<Rightarrow> string \<Rightarrow> string + bytes" where
  "hex_bytes 0 i clean = Inr []"
| "hex_bytes (Suc n) i clean =
     (case parseInt16 (take 2 (drop (i * 2) clean)) of
        None \<Rightarrow> Inl (''Invalid hex character at position '' @ dec_nat (i * 2))
      | Some b \<Rightarrow> (case hex_bytes n (i + 1) clean of Inl e \<Rightarrow> Inl e | Inr bs \<Rightarrow> Inr (of_int b # bs)))"

definition hexToBytes32 :: "string \<Rightarrow> string + bytes" where
  "hexToBytes32 hex =
     (let clean = (if is_prefix ''0x'' hex then drop 2 hex else hex) in
      if length clean \<noteq> 64 then
        Inl (''Invalid hex length for BytesN<32>: expected 64 chars, got '' @ dec_nat (length clean))
      else hex_bytes 32 0 clean)"

definition encodeCalldata ::
  "(js_value \<Rightarrow> string option \<Rightarrow> 'v) \<Rightarrow> ('v list \<Rightarrow> 'v) \<Rightarrow> ('v \<Rightarrow> bytes) \<Rightarrow> js_value list \<Rightarrow> bytes" where
  "encodeCalldata nativeToScVal scvVec toXDR args =
     toXDR (scvVec (map (\<lambda>arg.
       case arg of
         JString s \<Rightarrow>
           if is_prefix ''0x'' s then nativeToScVal (JBuffer (from_hex (drop 2 s))) (Some ''bytes'')
           else nativeToScVal arg None
       | _ \<Rightarrow> nativeToScVal arg None) args))"

definition decodeCalldata ::
  "(bytes \<Rightarrow> string + 'v) \<Rightarrow> ('v \<Rightarrow> string + js_value) \<Rightarrow> bytes \<Rightarrow> string + js_value list" where
  "decodeCalldata fromXDR scValToNative data =
     (case fromXDR data of Inl e \<Rightarrow> Inl e
      | Inr scVal \<Rightarrow>
          (case scValToNative scVal of Inl e \<Rightarrow> Inl e
           | Inr decoded \<Rightarrow>
               if \<not> isArray decoded then Inl ''Expected calldata to decode to an array''
               else Inr (elements decoded)))"

subsection \<open>Quadratic weights\<close>

definition nat_sqrt :: "nat \<Rightarrow> nat" where
  "nat_sqrt n = nat (isqrt (int n))"

text \<open>\<^verbatim>\<open>Math.floor(Math.sqrt(x))\<close> for a natural number \<open>n\<close> that is a double: the square root is rounded to 53
  significant bits first. Below \<open>2 ^ 53\<close> the root keeps \<open>s\<close> bits after the point (no tie is possible); above, it
  loses \<open>t\<close> bits, ties going to the even mantissa.\<close>

definition floor_sqrt_double :: "nat \<Rightarrow> nat" where
  "floor_sqrt_double n =
     (let b = bit_length (nat_sqrt n) in
      if b \<le> 53 then
        let s = 53 - b;
            r = nat_sqrt (n * 4 ^ s);
            m = (if (2 * r + 1) ^ 2 < 4 * (n * 4 ^ s) then r + 1 else r)
        in m div 2 ^ s
      else
        let t = b - 53;
            r = nat_sqrt n div 2 ^ t;
            h = ((2 * r + 1) * 2 ^ (t - 1)) ^ 2;
            m = (if h < n \<or> h = n \<and> odd r then r + 1 else r)
        in m * 2 ^ t)"

definition computeQuadraticWeight :: "int \<Rightarrow> string + int" where
  "computeQuadraticWeight rawBalance =
     (if rawBalance < 0 then Inl ''rawBalance must be non-negative''
      else case number_of_int rawBalance of
        Finite x \<Rightarrow> Inr (int (floor_sqrt_double (nat \<lfloor>x\<rfloor>)))
      | _ \<Rightarrow> Inl ''The number Infinity cannot be converted to a BigInt because it is not an integer'')"

subsection \<open>Facts about retries\<close>

lemma retry_loop_result:
  assumes "1 \<le> attempt"
  shows "fst (retry_loop maxAttempts base cap retryOn fn random attempt lastError) = Resolved v \<longleftrightarrow>
    (\<exists>k. attempt \<le> k \<and> k \<le> maxAttempts \<and> fn k = Inr v \<and>
       (\<forall>j. attempt \<le> j \<and> j < k \<longrightarrow> (\<exists>e. fn j = Inl e \<and> (retryOn = None \<or> the retryOn e))))"
  (is "_ \<longleftrightarrow> (\<exists>k. ?hit attempt k)")
  using assms
proof (induction maxAttempts base cap retryOn fn random attempt lastError rule: retry_loop.induct)
  case (1 maxAttempts base cap retryOn fn random attempt lastError)
  let ?ok = "\<lambda>j. \<exists>e. fn j = Inl e \<and> (retryOn = None \<or> the retryOn e)"
  let ?hit = "\<lambda>a k. a \<le> k \<and> k \<le> maxAttempts \<and> fn k = Inr v \<and> (\<forall>j. a \<le> j \<and> j < k \<longrightarrow> ?ok j)"
  have first: "(\<exists>k. ?hit attempt k) \<longleftrightarrow>
      attempt \<le> maxAttempts \<and> (fn attempt = Inr v \<or> (?ok attempt \<and> (\<exists>k. ?hit (attempt + 1) k)))"
  proof
    assume "\<exists>k. ?hit attempt k"
    then obtain k where k: "?hit attempt k" by blast
    show "attempt \<le> maxAttempts \<and> (fn attempt = Inr v \<or> (?ok attempt \<and> (\<exists>k. ?hit (attempt + 1) k)))"
    proof (cases "k = attempt")
      case False
      then have "?hit (attempt + 1) k" "?ok attempt" using k by auto
      with k show ?thesis by auto
    qed (use k in auto)
  next
    assume right: "attempt \<le> maxAttempts \<and> (fn attempt = Inr v \<or> (?ok attempt \<and> (\<exists>k. ?hit (attempt + 1) k)))"
    show "\<exists>k. ?hit attempt k"
    proof (cases "fn attempt = Inr v")
      case True
      with right show ?thesis by (intro exI [of _ attempt]) auto
    next
      case False
      with right obtain k where k: "?ok attempt" "?hit (attempt + 1) k" by blast
      have "?ok j" if "attempt \<le> j" "j < k" for j
        using k that by (cases "j = attempt") auto
      with k show ?thesis by (intro exI [of _ k]) auto
    qed
  qed
  have step: "fst (retry_loop maxAttempts base cap retryOn fn random attempt lastError) =
      (if attempt \<le> maxAttempts then
         (case fn attempt of Inr v \<Rightarrow> Resolved v
          | Inl e \<Rightarrow>
              if retryOn \<noteq> None \<and> \<not> the retryOn e \<or> attempt = maxAttempts then Rejected (Some e)
              else fst (retry_loop maxAttempts base cap retryOn fn random (attempt + 1) (Some e)))
       else Rejected lastError)"
    by (subst retry_loop.simps) (auto simp: Let_def split: sum.split)
  show ?case
  proof (cases "fn attempt")
    case (Inl e)
    show ?thesis
    proof (cases "attempt \<le> maxAttempts \<and> (retryOn = None \<or> the retryOn e) \<and> attempt \<noteq> maxAttempts")
      case True
      have "fst (retry_loop maxAttempts base cap retryOn fn random (attempt + 1) (Some e)) = Resolved v \<longleftrightarrow>
          (\<exists>k. ?hit (attempt + 1) k)"
        using True Inl "1.prems" by (intro "1.IH" [OF _ _ _ _ refl refl refl]) auto
      with True Inl show ?thesis unfolding first step by auto
    next
      case False
      then show ?thesis unfolding first step using Inl by auto
    qed
  next
    case (Inr w)
    then show ?thesis unfolding first step by auto
  qed
qed

definition wait_ok :: "int \<Rightarrow> int \<Rightarrow> rat \<Rightarrow> rat \<Rightarrow> (int \<Rightarrow> 'e + 'a) \<Rightarrow> 'e wait \<Rightarrow> bool" where
  "wait_ok attempt maxAttempts base cap fn w =
     (case w of (k, e, d) \<Rightarrow>
        attempt \<le> k \<and> k < maxAttempts \<and> fn k = Inl e \<and>
        min (base * 2 ^ nat (k - 1)) cap \<le> d \<and> d \<le> min (base * 2 ^ nat (k - 1)) cap * (13 / 10))"

lemma jitter_bounds:
  assumes "0 \<le> (x :: rat)" "0 \<le> r" "r < 1"
  shows "x \<le> x + r * x * (3 / 10) \<and> x + r * x * (3 / 10) \<le> x * (13 / 10)"
proof -
  have "0 \<le> r * x" "r * x \<le> x" using assms by (simp_all add: mult_left_le_one_le)
  then show ?thesis by simp
qed

lemma retry_loop_waits:
  assumes "1 \<le> attempt" "0 \<le> base" "0 \<le> cap" "\<forall>k. 0 \<le> random k \<and> random k < 1"
  shows "int (length (snd (retry_loop maxAttempts base cap retryOn fn random attempt lastError))) \<le>
      max 0 (maxAttempts - attempt) \<and>
    (\<forall>w \<in> set (snd (retry_loop maxAttempts base cap retryOn fn random attempt lastError)).
      wait_ok attempt maxAttempts base cap fn w)"
  using assms
proof (induction maxAttempts base cap retryOn fn random attempt lastError rule: retry_loop.induct)
  case (1 maxAttempts base cap retryOn fn random attempt lastError)
  let ?x = "min (base * 2 ^ nat (attempt - 1)) cap"
  let ?rest = "\<lambda>e. snd (retry_loop maxAttempts base cap retryOn fn random (attempt + 1) (Some e))"
  have step: "snd (retry_loop maxAttempts base cap retryOn fn random attempt lastError) =
      (case fn attempt of Inr v \<Rightarrow> []
       | Inl e \<Rightarrow>
           if attempt < maxAttempts \<and> (retryOn = None \<or> the retryOn e) then
             (attempt, e, ?x + random attempt * ?x * (3 / 10)) # ?rest e
           else [])"
    by (subst retry_loop.simps) (auto simp: Let_def split: sum.split)
  have wait: "wait_ok attempt maxAttempts base cap fn (attempt, e, ?x + random attempt * ?x * (3 / 10))"
    if "fn attempt = Inl e" "attempt < maxAttempts" for e
    using jitter_bounds [of ?x "random attempt"] that "1.prems" by (simp add: wait_ok_def)
  have later: "int (length (?rest e)) \<le> max 0 (maxAttempts - (attempt + 1)) \<and>
      (\<forall>w \<in> set (?rest e). wait_ok attempt maxAttempts base cap fn w)"
    if "fn attempt = Inl e" "attempt < maxAttempts" "retryOn = None \<or> the retryOn e" for e
    using "1.IH" [OF _ _ _ _ refl refl refl, of e] that "1.prems" by (auto simp: wait_ok_def)
  show ?case unfolding step using later wait by (auto split: sum.split)
qed

text \<open>\<^verbatim>\<open>withRetry\<close> always settles, after at most \<open>maxAttempts\<close> calls: it resolves with a value exactly when some call
  within the limit returns that value and every call before it failed with an error that may be retried.\<close>

theorem withRetry_resolves_iff:
  "fst (withRetry random fn opts) = Resolved v \<longleftrightarrow>
     (\<exists>k. 1 \<le> k \<and> k \<le> or_else (given (ro_maxAttempts opts)) 3 \<and> fn k = Inr v \<and>
        (\<forall>j. 1 \<le> j \<and> j < k \<longrightarrow>
           (\<exists>e. fn j = Inl e \<and> (given (ro_retryOn opts) = None \<or> the (given (ro_retryOn opts)) e))))"
  by (simp add: withRetry_def retry_loop_result)

theorem withRetry_resolves_iff_witness:
  "fst (withRetry (\<lambda>_. 0) (\<lambda>k. if k < 3 then Inl ''down'' else Inr k) no_options) = Resolved 3"
  by (subst withRetry_resolves_iff) (auto simp: no_options_def or_else_def intro!: exI [of _ 3])

text \<open>The waits of \<^verbatim>\<open>withRetry\<close> back off: there are fewer than \<open>maxAttempts\<close> of them, each follows a failed call, and
  the wait after call \<open>k\<close> lies between \<open>baseDelayMs * 2 ^ (k - 1)\<close>, capped at \<open>maxDelayMs\<close>, and 1.3 times that.\<close>

theorem withRetry_backs_off:
  assumes "0 \<le> or_else (given (ro_baseDelayMs opts)) 1000" "0 \<le> or_else (given (ro_maxDelayMs opts)) 30000"
    and "\<forall>k. 0 \<le> random k \<and> random k < 1"
  shows "int (length (snd (withRetry random fn opts))) \<le> max 0 (or_else (given (ro_maxAttempts opts)) 3 - 1) \<and>
    (\<forall>w \<in> set (snd (withRetry random fn opts)).
       wait_ok 1 (or_else (given (ro_maxAttempts opts)) 3) (or_else (given (ro_baseDelayMs opts)) 1000)
         (or_else (given (ro_maxDelayMs opts)) 30000) fn w)"
  using retry_loop_waits [OF order.refl assms] by (simp add: withRetry_def)

theorem withRetry_backs_off_witness:
  "length (snd (withRetry (\<lambda>_. 1 / 2) (\<lambda>k. if k < 3 then Inl ''down'' else Inr k) no_options)) \<le> 2"
  using withRetry_backs_off [of "no_options :: string RetryOptions" "\<lambda>_. 1 / 2"
      "\<lambda>k. if k < 3 then Inl ''down'' else Inr k"]
  by (simp add: no_options_def or_else_def)

lemma createRetry_precedence:
  assumes "cc_retry config = Some r" "ro_maxAttempts r = Given n"
  shows "ro_maxAttempts (merged_options config defaults) = Given n"
  using assms by (simp add: merged_options_def spread_def Let_def)

subsection \<open>Facts about hex\<close>

lemma hex_digit_facts:
  assumes "n < 16"
  shows "digit_value 16 (hex_digit n) = Some n" "\<not> is_space (hex_digit n)"
    "hex_digit n \<noteq> CHR ''-''" "hex_digit n \<noteq> CHR ''+''" "hex_digit n \<noteq> CHR ''x''" "hex_digit n \<noteq> CHR ''X''"
  using hex_digit_code [OF assms] assms
  by (auto simp: digit_value_def is_space_def Let_def split: if_splits)

lemma parseInt16_pair:
  assumes "a < 16" "b < 16"
  shows "parseInt16 [hex_digit a, hex_digit b] = Some (int (16 * a + b))"
  using hex_digit_facts [OF assms(1)] hex_digit_facts [OF assms(2)]
  by (simp add: parseInt16_def signed_part_def unsigned_numeral_def Let_def)

lemma take2_to_hex: "i < length bs \<Longrightarrow>
  take 2 (drop (i * 2) (to_hex bs)) = [hex_digit (unat (bs ! i) div 16), hex_digit (unat (bs ! i) mod 16)]"
proof (induction bs arbitrary: i)
  case (Cons b bs)
  then show ?case by (cases i) simp_all
qed simp

lemma hex_bytes_to_hex:
  "n + i = length bs \<Longrightarrow> length p = k * 2 \<Longrightarrow> hex_bytes n (k + i) (p @ to_hex bs) = Inr (drop i bs)"
proof (induction n arbitrary: i)
  case (Suc n)
  then have i: "i < length bs" by simp
  have "drop ((k + i) * 2) (p @ to_hex bs) = drop (i * 2) (to_hex bs)" using Suc.prems by (simp add: add_mult_distrib)
  then have "parseInt16 (take 2 (drop ((k + i) * 2) (p @ to_hex bs))) = Some (int (unat (bs ! i)))"
    by (simp add: take2_to_hex [OF i] parseInt16_pair unat_byte_div)
  moreover have "hex_bytes n (k + i + 1) (p @ to_hex bs) = Inr (drop (i + 1) bs)"
    using Suc.IH [of "i + 1"] Suc.prems by simp
  ultimately show ?case using i by (simp add: Cons_nth_drop_Suc)
qed simp

lemma to_hex_no_prefix: "\<not> is_prefix ''0x'' (to_hex bs)"
proof (cases bs)
  case (Cons b t)
  have "hex_digit (unat b mod 16) \<noteq> CHR ''x''" by (rule hex_digit_facts) simp
  then show ?thesis using Cons by auto
qed simp

text \<open>The hexadecimal text of 32 bytes, with or without the prefix \<^verbatim>\<open>0x\<close>, is turned back into those bytes, and
  text of any other length is rejected.\<close>

theorem hexToBytes32_inverts_hex:
  "(length bs = 32 \<longrightarrow> hexToBytes32 (to_hex bs) = Inr bs \<and> hexToBytes32 (''0x'' @ to_hex bs) = Inr bs) \<and>
   (length bs \<noteq> 32 \<longrightarrow> (\<exists>e. hexToBytes32 (to_hex bs) = Inl e))"
  using hex_bytes_to_hex [of 32 0 bs "[]" 0] to_hex_no_prefix [of bs]
  by (auto simp: hexToBytes32_def Let_def)

theorem hexToBytes32_inverts_hex_witness:
  "hexToBytes32 (to_hex (replicate 32 (171 :: byte))) = Inr (replicate 32 171)"
  using hexToBytes32_inverts_hex [of "replicate 32 171"] by simp

text \<open>Contrary to its documentation, \<^verbatim>\<open>hexToBytes32\<close> accepts text that is not hexadecimal: a pair needs only to start
  with a digit, so that \<^verbatim>\<open>1g\<close>, \<^verbatim>\<open>1z\<close> and \<^verbatim>\<open>01\<close> are the same byte, and \<^verbatim>\<open>-1\<close> is the byte \<^verbatim>\<open>ff\<close>.\<close>

theorem hexToBytes32_accepts_non_hex:
  "hexToBytes32 (''1g'' @ to_hex (replicate 31 0)) = Inr (1 # replicate 31 0) \<and>
   hexToBytes32 (''-1'' @ to_hex (replicate 31 0)) = Inr (255 # replicate 31 0)"
proof -
  have one: "hex_bytes 31 1 (a # b # to_hex bs) = Inr bs" if "length bs = 31" for a b and bs :: bytes
    using hex_bytes_to_hex [of 31 0 bs "[a, b]" 1] that by simp
  have "parseInt16 ''1g'' = Some 1" "parseInt16 ''-1'' = Some (-1)"
    by (simp_all add: parseInt16_def signed_part_def is_space_def digit_value_def unsigned_numeral_def Let_def)
  moreover have "(of_int (- 1) :: byte) = 255" by simp
  moreover have "hex_bytes 32 0 s = (case parseInt16 (take 2 s) of
      None \<Rightarrow> Inl (''Invalid hex character at position '' @ dec_nat 0)
    | Some b \<Rightarrow> (case hex_bytes 31 1 s of Inl e \<Rightarrow> Inl e | Inr bs \<Rightarrow> Inr (of_int b # bs)))" for s
    using hex_bytes.simps(2) [of 31 0 s] by (simp split: option.split sum.split)
  ultimately show ?thesis
    using one [of "replicate 31 0"] by (simp add: hexToBytes32_def Let_def)
qed

subsection \<open>Facts about quadratic weights\<close>

lemma nat_sqrt_bounds: "nat_sqrt n * nat_sqrt n \<le> n" "n < (nat_sqrt n + 1) * (nat_sqrt n + 1)"
proof -
  have r: "0 \<le> isqrt (int n)" and "isqrt (int n) * isqrt (int n) \<le> int n"
    "int n < (isqrt (int n) + 1) * (isqrt (int n) + 1)"
    using isqrt_floor [of "int n"] by simp_all
  moreover have "int (nat_sqrt n) = isqrt (int n)" using r by (simp add: nat_sqrt_def)
  ultimately have "int (nat_sqrt n * nat_sqrt n) \<le> int n" "int n < int ((nat_sqrt n + 1) * (nat_sqrt n + 1))"
    by (simp_all add: algebra_simps)
  then show "nat_sqrt n * nat_sqrt n \<le> n" "n < (nat_sqrt n + 1) * (nat_sqrt n + 1)" by linarith+
qed

lemma nat_sqrt_unique:
  assumes "r * r \<le> n" "n < (r + 1) * (r + 1)"
  shows "nat_sqrt n = r"
proof -
  have "nat_sqrt n < r + 1" using nat_sqrt_bounds(1) [of n] assms(2)
    by (meson le_less_trans mult_le_mono not_less)
  moreover have "r < nat_sqrt n + 1" using nat_sqrt_bounds(2) [of n] assms(1)
    by (meson le_less_trans mult_le_mono not_less)
  ultimately show ?thesis by simp
qed

lemma isqrt_nat_sqrt: "0 \<le> n \<Longrightarrow> isqrt n = int (nat_sqrt (nat n))"
  using isqrt_floor [of n] by (simp add: nat_sqrt_def)

text \<open>The rounding of the root of \<open>n\<close> does not reach the next integer as long as the fraction keeps more bits than
  the root has.\<close>

lemma rounded_root:
  assumes "nat_sqrt n < 2 ^ s"
  defines "r \<equiv> nat_sqrt (n * 4 ^ s)"
  shows "(if (2 * r + 1) ^ 2 < 4 * (n * 4 ^ s) then r + 1 else r) div 2 ^ s = nat_sqrt n"
proof -
  let ?k = "nat_sqrt n" and ?p = "(2 :: nat) ^ s"
  have p: "(4 :: nat) ^ s = ?p * ?p" by (simp flip: power_mult_distrib)
  have "(?k * ?p) * (?k * ?p) \<le> n * 4 ^ s"
    using mult_le_mono1 [OF nat_sqrt_bounds(1), of n "?p * ?p"] by (simp add: p ac_simps)
  then have low: "?k * ?p < r + 1"
    using nat_sqrt_bounds(2) [of "n * 4 ^ s"] unfolding r_def by (meson le_less_trans mult_le_mono not_less)
  have above: "n + 1 \<le> (?k + 1) * (?k + 1)" using nat_sqrt_bounds(2) [of n] by simp
  have N: "n * 4 ^ s + ?p * ?p \<le> ((?k + 1) * ?p) * ((?k + 1) * ?p)"
    using mult_le_mono1 [OF above, of "?p * ?p"] by (simp add: p algebra_simps)
  have pos: "0 < ?p * ?p" by simp
  have high: "r < (?k + 1) * ?p"
  proof (rule ccontr)
    assume "\<not> r < (?k + 1) * ?p"
    then have "((?k + 1) * ?p) * ((?k + 1) * ?p) \<le> r * r" by (meson mult_le_mono not_less)
    also have "\<dots> \<le> n * 4 ^ s" unfolding r_def by (rule nat_sqrt_bounds)
    finally show False using N pos by linarith
  qed
  have no_carry: "\<not> (2 * r + 1) ^ 2 < 4 * (n * 4 ^ s)" if "r + 1 = (?k + 1) * ?p"
  proof
    let ?R = "(?k + 1) * ?p"
    assume up: "(2 * r + 1) ^ 2 < 4 * (n * 4 ^ s)"
    have "4 * (n * 4 ^ s) + 4 * (?p * ?p) \<le> 4 * (?R * ?R)" using N by linarith
    moreover have "4 * (?R * ?R) = (2 * r + 1) ^ 2 + 4 * r + 3"
      unfolding that [symmetric] by (simp add: power2_eq_square algebra_simps)
    ultimately have "4 * (?p * ?p) < 4 * r + 3" using up by linarith
    then have "?p * ?p < ?R" using that by linarith
    then have "?p < ?k + 1" by (simp only: mult_less_cancel2)
    then show False using assms(1) by linarith
  qed
  show ?thesis
  proof (cases "(2 * r + 1) ^ 2 < 4 * (n * 4 ^ s)")
    case True
    then have "r + 1 < (?k + 1) * ?p" using no_carry high by linarith
    then have "(r + 1) div ?p = ?k" using low by (intro div_nat_eqI) (simp_all add: mult.commute)
    with True show ?thesis by simp
  next
    case False
    have "r div ?p = ?k" using low high by (intro div_nat_eqI) (simp_all add: mult.commute)
    with False show ?thesis by simp
  qed
qed

lemma bit_length_le: "n < 2 ^ k \<Longrightarrow> bit_length n \<le> k"
proof (cases "n = 0")
  case False
  assume "n < 2 ^ k"
  then have "(2 :: nat) ^ (bit_length n - 1) < 2 ^ k" using bit_length_bounds [of n] False by linarith
  then have "bit_length n - 1 < k" by (rule power_less_imp_less_exp [rotated]) simp
  then show ?thesis by simp
qed (simp add: bit_length.simps)

text \<open>Below \<open>2 ^ 52\<close> the floating-point quadratic weight of the SDK is the integer square root the governor uses: the
  rounding of \<^verbatim>\<open>Math.sqrt\<close> never reaches the next integer. A negative balance is refused.\<close>

theorem quadratic_weight_is_isqrt:
  "(rawBalance < 0 \<longrightarrow> computeQuadraticWeight rawBalance = Inl ''rawBalance must be non-negative'') \<and>
   (0 \<le> rawBalance \<and> rawBalance < 2 ^ 52 \<longrightarrow> computeQuadraticWeight rawBalance = Inr (isqrt rawBalance))"
proof (intro conjI impI)
  assume raw: "0 \<le> rawBalance \<and> rawBalance < 2 ^ 52"
  define n where "n = nat rawBalance"
  have n: "n < 2 ^ 52" "int n = rawBalance" using raw by (simp_all add: n_def nat_less_iff)
  have k: "nat_sqrt n < 2 ^ 26"
  proof (rule ccontr)
    assume "\<not> nat_sqrt n < 2 ^ 26"
    then have "(2 :: nat) ^ 26 * 2 ^ 26 \<le> nat_sqrt n * nat_sqrt n" by (intro mult_le_mono) simp_all
    then show False using nat_sqrt_bounds(1) [of n] n(1) by simp
  qed
  then have b: "bit_length (nat_sqrt n) \<le> 26" by (rule bit_length_le)
  then have "(2 :: nat) ^ 26 \<le> 2 ^ (53 - bit_length (nat_sqrt n))" by (intro power_increasing) simp_all
  with k have "nat_sqrt n < 2 ^ (53 - bit_length (nat_sqrt n))" by linarith
  from rounded_root [OF this] b have "floor_sqrt_double n = nat_sqrt n" by (simp add: floor_sqrt_double_def Let_def)
  moreover have "number_of_int rawBalance = Finite (of_int rawBalance)" using raw by (intro number_of_int_exact) simp
  ultimately show "computeQuadraticWeight rawBalance = Inr (isqrt rawBalance)"
    using raw by (simp add: computeQuadraticWeight_def n_def isqrt_nat_sqrt)
qed (simp add: computeQuadraticWeight_def)

theorem quadratic_weight_is_isqrt_witness: "computeQuadraticWeight 10000 = Inr (isqrt 10000)"
  using quadratic_weight_is_isqrt [of 10000] by simp

text \<open>From there on the two disagree: for the balance \<open>2 ^ 52 + 2 ^ 27\<close>, which is \<open>(2 ^ 26 + 1) ^ 2 - 1\<close> and itself an
  exact double, the SDK reports the weight \<open>2 ^ 26 + 1\<close> and the governor counts \<open>2 ^ 26\<close>.\<close>

theorem quadratic_weight_off_by_one:
  "computeQuadraticWeight (2 ^ 52 + 2 ^ 27) = Inr (2 ^ 26 + 1) \<and> isqrt (2 ^ 52 + 2 ^ 27) = 2 ^ 26"
proof -
  let ?n = "4503599761588224 :: nat"
  have root: "nat_sqrt ?n = 67108864" by (rule nat_sqrt_unique) simp_all
  have scaled: "nat_sqrt 20282410208114580231261838639104 = 4503599694479359"
    by (rule nat_sqrt_unique) simp_all
  have "bit_length 67108864 = 27" by (simp add: bit_length.simps)
  then have "floor_sqrt_double ?n = 67108865" by (simp add: floor_sqrt_double_def root scaled Let_def)
  moreover have "number_of_int 4503599761588224 = Finite (of_int 4503599761588224)"
    by (rule number_of_int_exact) simp
  ultimately show ?thesis using root by (simp add: computeQuadraticWeight_def isqrt_nat_sqrt)
qed

end
