(* ===== verification/EventFeeds.thy ===== *)
theory EventFeeds
  imports ContractEvents SdkUtils
begin

section \<open>Event feeds of the SDK: subscriptions and the history of proposals\<close>

text \<open>
  The polling half of \<^verbatim>\<open>sdk/src/events.ts\<close>. A subscription is a state machine: its state has the variables of the
  closure (\<^verbatim>\<open>cursor\<close>, \<^verbatim>\<open>initialized\<close>, \<^verbatim>\<open>stopped\<close>), the polls in flight, each with the point it waits at, and the calls of
  the callback so far. A step is what the event loop can run next: the timer, the answer to one of the polls in flight
  (in any order) or its failure once the retries are used up, and the client's call of the function that
  stops the subscription. The callback is the client's code: a function that says whether it returns, throws, or
  stops the subscription for each event. \<^verbatim>\<open>fetchEvents\<close> and the loop of \<^verbatim>\<open>getProposalEvents\<close> take the
  RPC server as a parameter; the loop is a partial function, \<open>None\<close> when it does not return.
\<close>

subsection \<open>Fetching\<close>

record 'v GetEventsRequest =
  req_startLedger :: int
  req_contractId :: string
  req_topic :: "'v list"
  req_limit :: nat

text \<open>The answer of the server; the list of events and the latest ledger may be missing.\<close>

record 'v GetEventsResponse =
  res_events :: "'v EventResponse list option"
  res_latestLedger :: "int option"

text \<open>What one call of \<^verbatim>\<open>fetchEvents\<close> makes of the answer of one request. A latest ledger of zero counts as missing.\<close>

definition page_of_response ::
  "('v \<Rightarrow> js_value option) \<Rightarrow> int \<Rightarrow> 'v GetEventsResponse \<Rightarrow> SorobanEvent list \<times> int" where
  "page_of_response scValToNative startLedger response =
     (List.map_filter (decodeEvent scValToNative)
        (case res_events response of None \<Rightarrow> [] | Some events \<Rightarrow> events),
      case res_latestLedger response of None \<Rightarrow> startLedger | Some n \<Rightarrow> if n = 0 then startLedger else n)"

definition fetchEvents ::
  "('v \<Rightarrow> js_value option) \<Rightarrow> (int \<Rightarrow> rat) \<Rightarrow> (int \<Rightarrow> 'v GetEventsRequest \<Rightarrow> 'e + 'v GetEventsResponse) \<Rightarrow>
   string \<Rightarrow> 'v list \<Rightarrow> int \<Rightarrow> int option \<Rightarrow> rat option \<Rightarrow> ('e, SorobanEvent list \<times> int) settled" where
  "fetchEvents scValToNative random getEvents contractId topicFilter startLedger maxAttempts baseDelayMs =
     fst (withRetry random
       (\<lambda>attempt. map_sum id (page_of_response scValToNative startLedger)
          (getEvents attempt
             \<lparr>req_startLedger = startLedger, req_contractId = contractId, req_topic = topicFilter,
              req_limit = 100\<rparr>))
       (no_options\<lparr>ro_maxAttempts := Given (or_else maxAttempts 3),
                   ro_baseDelayMs := Given (or_else baseDelayMs 1000)\<rparr>))"

subsection \<open>Subscriptions\<close>

record SubscriptionOptions =
  opt_network :: string
  opt_rpcUrl :: "string option"
  opt_intervalMs :: "int option"
  opt_maxAttempts :: "int option"
  opt_baseDelayMs :: "rat option"

definition DEFAULT_POLL_INTERVAL_MS :: int where
  "DEFAULT_POLL_INTERVAL_MS = 10000"

text \<open>The server is known by its URL; making it fails when the network is unknown.\<close>

definition buildServer :: "SubscriptionOptions \<Rightarrow> string + string" where
  "buildServer opts = getRpcUrl (opt_network opts) (opt_rpcUrl opts)"

datatype reaction = Returns | Throws | Stops

text \<open>Where a poll waits: for the latest ledger, or for a page of events from the ledger it was asked with.\<close>

datatype poll_point = AwaitingLatest | AwaitingPage int

record Subscription =
  sub_server :: string
  sub_contract :: string
  sub_topicName :: string
  sub_callback :: "SorobanEvent \<Rightarrow> reaction"
  sub_filter :: "(SorobanEvent \<Rightarrow> bool) option"
  sub_intervalMs :: int
  sub_cursor :: int
  sub_initialized :: bool
  sub_stopped :: bool
  sub_polls :: "poll_point list"
  sub_delivered :: "SorobanEvent list"

text \<open>The start of \<^verbatim>\<open>poll\<close>, up to its first \<^verbatim>\<open>await\<close>.\<close>

definition start_poll :: "Subscription \<Rightarrow> Subscription" where
  "start_poll s =
     (if sub_stopped s then s
      else s\<lparr>sub_polls := sub_polls s @
               [if \<not> sub_initialized s then AwaitingLatest else AwaitingPage (sub_cursor s)]\<rparr>)"

definition drop_nth :: "nat \<Rightarrow> 'a list \<Rightarrow> 'a list" where
  "drop_nth i xs = take i xs @ drop (Suc i) xs"

text \<open>The continuation of a poll after the latest ledger is known.\<close>

definition on_latest :: "nat \<Rightarrow> int \<Rightarrow> Subscription \<Rightarrow> Subscription" where
  "on_latest i sequence s =
     s\<lparr>sub_cursor := sequence, sub_initialized := True, sub_polls := (sub_polls s)[i := AwaitingPage sequence]\<rparr>"

text \<open>The loop over a page. It ends early when the callback throws, which is the second component.\<close>

fun deliver :: "SorobanEvent list \<Rightarrow> Subscription \<Rightarrow> Subscription \<times> bool" where
  "deliver [] s = (s, False)"
| "deliver (event # events) s =
     (if \<not> sub_stopped s \<and> (case sub_filter s of None \<Rightarrow> True | Some accept \<Rightarrow> accept event) then
        let s' = s\<lparr>sub_delivered := sub_delivered s @ [event]\<rparr> in
        case sub_callback s event of
          Returns \<Rightarrow> deliver events s'
        | Throws \<Rightarrow> (s', True)
        | Stops \<Rightarrow> deliver events (s'\<lparr>sub_stopped := True\<rparr>)
      else deliver events s)"

text \<open>The continuation of a poll with its page: the cursor moves unless the callback threw.\<close>

definition on_page :: "nat \<Rightarrow> SorobanEvent list \<Rightarrow> int \<Rightarrow> Subscription \<Rightarrow> Subscription" where
  "on_page i events latestLedger s =
     (case deliver events (s\<lparr>sub_polls := drop_nth i (sub_polls s)\<rparr>) of
        (s', threw) \<Rightarrow> if threw then s' else s'\<lparr>sub_cursor := latestLedger + 1\<rparr>)"

definition on_failure :: "nat \<Rightarrow> Subscription \<Rightarrow> Subscription" where
  "on_failure i s = s\<lparr>sub_polls := drop_nth i (sub_polls s)\<rparr>"

definition stop :: "Subscription \<Rightarrow> Subscription" where
  "stop s = s\<lparr>sub_stopped := True\<rparr>"

definition createTopicSubscription ::
  "string \<Rightarrow> string \<Rightarrow> (SorobanEvent \<Rightarrow> reaction) \<Rightarrow> SubscriptionOptions \<Rightarrow> (SorobanEvent \<Rightarrow> bool) option \<Rightarrow>
   string + Subscription" where
  "createTopicSubscription governorAddress topicName callback opts accept =
     (case buildServer opts of Inl e \<Rightarrow> Inl e
      | Inr server \<Rightarrow>
          Inr (start_poll
            \<lparr>sub_server = server, sub_contract = governorAddress, sub_topicName = topicName,
             sub_callback = callback, sub_filter = accept,
             sub_intervalMs = or_else (opt_intervalMs opts) DEFAULT_POLL_INTERVAL_MS,
             sub_cursor = 0, sub_initialized = False, sub_stopped = False,
             sub_polls = [], sub_delivered = []\<rparr>))"

text \<open>What the event loop can run next. The timer is cleared by \<^verbatim>\<open>stop\<close>; a poll in flight goes on.\<close>

inductive feed_step :: "Subscription \<Rightarrow> Subscription \<Rightarrow> bool" where
  timer: "\<not> sub_stopped s \<Longrightarrow> feed_step s (start_poll s)"
| latest: "i < length (sub_polls s) \<Longrightarrow> sub_polls s ! i = AwaitingLatest \<Longrightarrow> feed_step s (on_latest i sequence s)"
| page: "i < length (sub_polls s) \<Longrightarrow> sub_polls s ! i = AwaitingPage from \<Longrightarrow>
    feed_step s (on_page i events latestLedger s)"
| failure: "i < length (sub_polls s) \<Longrightarrow> feed_step s (on_failure i s)"
| stopping: "feed_step s (stop s)"

subsection \<open>The history of proposals\<close>

text \<open>The loop of \<^verbatim>\<open>getProposalEvents\<close>; \<open>fetch\<close> is \<^verbatim>\<open>fetchEvents\<close> with all but the start fixed.\<close>

partial_function (option) history_loop ::
  "(int \<Rightarrow> ('e, SorobanEvent list \<times> int) settled) \<Rightarrow> int \<Rightarrow> int \<Rightarrow> SorobanEvent list \<Rightarrow>
   ('e, SorobanEvent list) settled option" where
  "history_loop fetch latest startLedger events =
     (if startLedger \<le> latest then
        (case fetch startLedger of
           Rejected e \<Rightarrow> Some (Rejected e)
         | Resolved (page, latestLedger) \<Rightarrow>
             if page = [] then history_loop fetch latest (latestLedger + 1) events
             else history_loop fetch latest (Max (set (map ev_ledger page)) + 1) (events @ page))
      else Some (Resolved events))"

definition getProposalEvents ::
  "(int \<Rightarrow> ('e, SorobanEvent list \<times> int) settled) \<Rightarrow> ('e, int) settled \<Rightarrow> int \<Rightarrow>
   ('e, SorobanEvent list) settled option" where
  "getProposalEvents fetch getLatestLedger fromLedger =
     (case getLatestLedger of
        Rejected e \<Rightarrow> Some (Rejected e)
      | Resolved latest \<Rightarrow> history_loop fetch latest (max 1 fromLedger) [])"

subsection \<open>One subscription per event\<close>

definition subscribeToProposals :: "string \<Rightarrow> (SorobanEvent \<Rightarrow> reaction) \<Rightarrow> SubscriptionOptions \<Rightarrow> string + Subscription" where
  "subscribeToProposals governorAddress callback opts =
     createTopicSubscription governorAddress (TOPICS proposalCreated) callback opts None"

definition subscribeToVotes :: "string \<Rightarrow> int \<Rightarrow> (SorobanEvent \<Rightarrow> reaction) \<Rightarrow> SubscriptionOptions \<Rightarrow> string + Subscription" where
  "subscribeToVotes governorAddress proposalId callback opts =
     createTopicSubscription governorAddress (TOPICS voteCast) callback opts 
       (Some (\<lambda>event. map_option voteCast_proposalId (parseVoteCastEvent event) = Some proposalId))"

definition subscribeToVoteCastWithReason :: "string \<Rightarrow> int \<Rightarrow> (SorobanEvent \<Rightarrow> reaction) \<Rightarrow> SubscriptionOptions \<Rightarrow> string + Subscription" where
  "subscribeToVoteCastWithReason governorAddress proposalId callback opts =
     createTopicSubscription governorAddress (TOPICS voteCastWithReason) callback opts 
       (Some (\<lambda>event. map_option voteCastWithReason_proposalId (parseVoteCastWithReasonEvent event) = Some proposalId))"

definition subscribeToProposalQueued :: "string \<Rightarrow> (SorobanEvent \<Rightarrow> reaction) \<Rightarrow> SubscriptionOptions \<Rightarrow> string + Subscription" where
  "subscribeToProposalQueued governorAddress callback opts =
     createTopicSubscription governorAddress (TOPICS proposalQueued) callback opts None"

definition subscribeToProposalExecuted :: "string \<Rightarrow> (SorobanEvent \<Rightarrow> reaction) \<Rightarrow> SubscriptionOptions \<Rightarrow> string + Subscription" where
  "subscribeToProposalExecuted governorAddress callback opts =
     createTopicSubscription governorAddress (TOPICS proposalExecuted) callback opts None"

definition subscribeToProposalCancelled :: "string \<Rightarrow> (SorobanEvent \<Rightarrow> reaction) \<Rightarrow> SubscriptionOptions \<Rightarrow> string + Subscription" where
  "subscribeToProposalCancelled governorAddress callback opts =
     createTopicSubscription governorAddress (TOPICS proposalCancelled) callback opts None"

definition subscribeToProposalExpired :: "string \<Rightarrow> (SorobanEvent \<Rightarrow> reaction) \<Rightarrow> SubscriptionOptions \<Rightarrow> string + Subscription" where
  "subscribeToProposalExpired governorAddress callback opts =
     createTopicSubscription governorAddress (TOPICS proposalExpired) callback opts None"

definition subscribeToGovernorUpgraded :: "string \<Rightarrow> (SorobanEvent \<Rightarrow> reaction) \<Rightarrow> SubscriptionOptions \<Rightarrow> string + Subscription" where
  "subscribeToGovernorUpgraded governorAddress callback opts =
     createTopicSubscription governorAddress (TOPICS governorUpgraded) callback opts None"

definition subscribeToConfigUpdated :: "string \<Rightarrow> (SorobanEvent \<Rightarrow> reaction) \<Rightarrow> SubscriptionOptions \<Rightarrow> string + Subscription" where
  "subscribeToConfigUpdated governorAddress callback opts =
     createTopicSubscription governorAddress (TOPICS configUpdated) callback opts None"

definition subscribeToReputationUpdated :: "string \<Rightarrow> (SorobanEvent \<Rightarrow> reaction) \<Rightarrow> SubscriptionOptions \<Rightarrow> string + Subscription" where
  "subscribeToReputationUpdated governorAddress callback opts =
     createTopicSubscription governorAddress (TOPICS reputationUpdated) callback opts None"

definition subscribeToEffectiveThresholdChanged :: "string \<Rightarrow> (SorobanEvent \<Rightarrow> reaction) \<Rightarrow> SubscriptionOptions \<Rightarrow> string + Subscription" where
  "subscribeToEffectiveThresholdChanged governorAddress callback opts =
     createTopicSubscription governorAddress (TOPICS effectiveThresholdChanged) callback opts None"

definition subscribeToPauseEvents :: "string \<Rightarrow> (SorobanEvent \<Rightarrow> reaction) \<Rightarrow> SubscriptionOptions \<Rightarrow> string + Subscription" where
  "subscribeToPauseEvents governorAddress callback opts =
     createTopicSubscription governorAddress (TOPICS paused) callback opts None"

definition subscribeToUnpauseEvents :: "string \<Rightarrow> (SorobanEvent \<Rightarrow> reaction) \<Rightarrow> SubscriptionOptions \<Rightarrow> string + Subscription" where
  "subscribeToUnpauseEvents governorAddress callback opts =
     createTopicSubscription governorAddress (TOPICS unpaused) callback opts None"

definition subscribeToDraftCreated :: "string \<Rightarrow> (SorobanEvent \<Rightarrow> reaction) \<Rightarrow> SubscriptionOptions \<Rightarrow> string + Subscription" where
  "subscribeToDraftCreated coSponsorshipAddress callback opts =
     createTopicSubscription coSponsorshipAddress (COSPONSOR_TOPICS draftCreated) callback opts None"

definition subscribeToCoSponsored :: "string \<Rightarrow> (SorobanEvent \<Rightarrow> reaction) \<Rightarrow> SubscriptionOptions \<Rightarrow> string + Subscription" where
  "subscribeToCoSponsored coSponsorshipAddress callback opts =
     createTopicSubscription coSponsorshipAddress (COSPONSOR_TOPICS coSponsored) callback opts None"

definition subscribeToCoSponsorshipWithdrawn :: "string \<Rightarrow> (SorobanEvent \<Rightarrow> reaction) \<Rightarrow> SubscriptionOptions \<Rightarrow> string + Subscription" where
  "subscribeToCoSponsorshipWithdrawn coSponsorshipAddress callback opts =
     createTopicSubscription coSponsorshipAddress (COSPONSOR_TOPICS coSponsorshipWithdrawn) callback opts None"

definition subscribeToDraftFinalized :: "string \<Rightarrow> (SorobanEvent \<Rightarrow> reaction) \<Rightarrow> SubscriptionOptions \<Rightarrow> string + Subscription" where
  "subscribeToDraftFinalized coSponsorshipAddress callback opts =
     createTopicSubscription coSponsorshipAddress (COSPONSOR_TOPICS draftFinalized) callback opts None"

definition subscribeToDraftCancelled :: "string \<Rightarrow> (SorobanEvent \<Rightarrow> reaction) \<Rightarrow> SubscriptionOptions \<Rightarrow> string + Subscription" where
  "subscribeToDraftCancelled coSponsorshipAddress callback opts =
     createTopicSubscription coSponsorshipAddress (COSPONSOR_TOPICS draftCancelled) callback opts None"

definition subscribeToDraftExpired :: "string \<Rightarrow> (SorobanEvent \<Rightarrow> reaction) \<Rightarrow> SubscriptionOptions \<Rightarrow> string + Subscription" where
  "subscribeToDraftExpired coSponsorshipAddress callback opts =
     createTopicSubscription coSponsorshipAddress (COSPONSOR_TOPICS draftExpired) callback opts None"

definition subscribeToDelegatedBySig :: "string \<Rightarrow> (SorobanEvent \<Rightarrow> reaction) \<Rightarrow> SubscriptionOptions \<Rightarrow> string + Subscription" where
  "subscribeToDelegatedBySig tokenVotesAddress callback opts =
     createTopicSubscription tokenVotesAddress (DELEGATION_SIG_TOPICS delegatedBySig) callback opts None"

definition subscribeToPermitsInvalidated :: "string \<Rightarrow> (SorobanEvent \<Rightarrow> reaction) \<Rightarrow> SubscriptionOptions \<Rightarrow> string + Subscription" where
  "subscribeToPermitsInvalidated tokenVotesAddress callback opts =
     createTopicSubscription tokenVotesAddress (DELEGATION_SIG_TOPICS permitsInvalidated) callback opts None"

definition subscribeToRelayerWhitelistUpdated :: "string \<Rightarrow> (SorobanEvent \<Rightarrow> reaction) \<Rightarrow> SubscriptionOptions \<Rightarrow> string + Subscription" where
  "subscribeToRelayerWhitelistUpdated tokenVotesAddress callback opts =
     createTopicSubscription tokenVotesAddress (DELEGATION_SIG_TOPICS relayerWhitelistUpdated) callback opts None"

definition subscribeToStreamCreated :: "string \<Rightarrow> (SorobanEvent \<Rightarrow> reaction) \<Rightarrow> SubscriptionOptions \<Rightarrow> string + Subscription" where
  "subscribeToStreamCreated treasuryAddress callback opts =
     createTopicSubscription treasuryAddress (STREAM_TOPICS streamCreated) callback opts None"

definition subscribeToStreamSpend :: "string \<Rightarrow> (SorobanEvent \<Rightarrow> reaction) \<Rightarrow> SubscriptionOptions \<Rightarrow> string + Subscription" where
  "subscribeToStreamSpend treasuryAddress callback opts =
     createTopicSubscription treasuryAddress (STREAM_TOPICS streamSpend) callback opts None"

definition subscribeToStreamBatchSpend :: "string \<Rightarrow> (SorobanEvent \<Rightarrow> reaction) \<Rightarrow> SubscriptionOptions \<Rightarrow> string + Subscription" where
  "subscribeToStreamBatchSpend treasuryAddress callback opts =
     createTopicSubscription treasuryAddress (STREAM_TOPICS streamBatchSpend) callback opts None"

definition subscribeToStreamRevoked :: "string \<Rightarrow> (SorobanEvent \<Rightarrow> reaction) \<Rightarrow> SubscriptionOptions \<Rightarrow> string + Subscription" where
  "subscribeToStreamRevoked treasuryAddress callback opts =
     createTopicSubscription treasuryAddress (STREAM_TOPICS streamRevoked) callback opts None"

definition subscribeToStreamExtended :: "string \<Rightarrow> (SorobanEvent \<Rightarrow> reaction) \<Rightarrow> SubscriptionOptions \<Rightarrow> string + Subscription" where
  "subscribeToStreamExtended treasuryAddress callback opts =
     createTopicSubscription treasuryAddress (STREAM_TOPICS streamExtended) callback opts None"

definition subscribeToStreamToppedUp :: "string \<Rightarrow> (SorobanEvent \<Rightarrow> reaction) \<Rightarrow> SubscriptionOptions \<Rightarrow> string + Subscription" where
  "subscribeToStreamToppedUp treasuryAddress callback opts =
     createTopicSubscription treasuryAddress (STREAM_TOPICS streamToppedUp) callback opts None"

definition subscribeToStreamExhausted :: "string \<Rightarrow> (SorobanEvent \<Rightarrow> reaction) \<Rightarrow> SubscriptionOptions \<Rightarrow> string + Subscription" where
  "subscribeToStreamExhausted treasuryAddress callback opts =
     createTopicSubscription treasuryAddress (STREAM_TOPICS streamExhausted) callback opts None"

definition subscribeToStreamExpired :: "string \<Rightarrow> (SorobanEvent \<Rightarrow> reaction) \<Rightarrow> SubscriptionOptions \<Rightarrow> string + Subscription" where
  "subscribeToStreamExpired treasuryAddress callback opts =
     createTopicSubscription treasuryAddress (STREAM_TOPICS streamExpired) callback opts None"

definition subscribeToOperationScheduled :: "string \<Rightarrow> (SorobanEvent \<Rightarrow> reaction) \<Rightarrow> SubscriptionOptions \<Rightarrow> string + Subscription" where
  "subscribeToOperationScheduled timelockAddress callback opts =
     createTopicSubscription timelockAddress (TIMELOCK_TOPICS operationScheduled) callback opts None"

definition subscribeToOperationExecuted :: "string \<Rightarrow> (SorobanEvent \<Rightarrow> reaction) \<Rightarrow> SubscriptionOptions \<Rightarrow> string + Subscription" where
  "subscribeToOperationExecuted timelockAddress callback opts =
     createTopicSubscription timelockAddress (TIMELOCK_TOPICS operationExecuted) callback opts None"

definition subscribeToOperationCancelled :: "string \<Rightarrow> (SorobanEvent \<Rightarrow> reaction) \<Rightarrow> SubscriptionOptions \<Rightarrow> string + Subscription" where
  "subscribeToOperationCancelled timelockAddress callback opts =
     createTopicSubscription timelockAddress (TIMELOCK_TOPICS operationCancelled) callback opts None"

definition subscribeToBatchOperationScheduled :: "string \<Rightarrow> (SorobanEvent \<Rightarrow> reaction) \<Rightarrow> SubscriptionOptions \<Rightarrow> string + Subscription" where
  "subscribeToBatchOperationScheduled timelockAddress callback opts =
     createTopicSubscription timelockAddress (TIMELOCK_TOPICS batchOperationScheduled) callback opts None"

definition subscribeToBatchOperationExecuted :: "string \<Rightarrow> (SorobanEvent \<Rightarrow> reaction) \<Rightarrow> SubscriptionOptions \<Rightarrow> string + Subscription" where
  "subscribeToBatchOperationExecuted timelockAddress callback opts =
     createTopicSubscription timelockAddress (TIMELOCK_TOPICS batchOperationExecuted) callback opts None"

definition subscribeToBatchOperationCancelled :: "string \<Rightarrow> (SorobanEvent \<Rightarrow> reaction) \<Rightarrow> SubscriptionOptions \<Rightarrow> string + Subscription" where
  "subscribeToBatchOperationCancelled timelockAddress callback opts =
     createTopicSubscription timelockAddress (TIMELOCK_TOPICS batchOperationCancelled) callback opts None"

definition subscribeToMinDelayUpdated :: "string \<Rightarrow> (SorobanEvent \<Rightarrow> reaction) \<Rightarrow> SubscriptionOptions \<Rightarrow> string + Subscription" where
  "subscribeToMinDelayUpdated timelockAddress callback opts =
     createTopicSubscription timelockAddress (TIMELOCK_TOPICS minDelayUpdated) callback opts None"

definition subscribeToDependencyDagValidated :: "string \<Rightarrow> (SorobanEvent \<Rightarrow> reaction) \<Rightarrow> SubscriptionOptions \<Rightarrow> string + Subscription" where
  "subscribeToDependencyDagValidated timelockAddress callback opts =
     createTopicSubscription timelockAddress (TIMELOCK_TOPICS dependencyDagValidated) callback opts None"

definition subscribeToCycleDetected :: "string \<Rightarrow> (SorobanEvent \<Rightarrow> reaction) \<Rightarrow> SubscriptionOptions \<Rightarrow> string + Subscription" where
  "subscribeToCycleDetected timelockAddress callback opts =
     createTopicSubscription timelockAddress (TIMELOCK_TOPICS cycleDetected) callback opts None"

definition subscribeToPartialBatchStarted :: "string \<Rightarrow> (SorobanEvent \<Rightarrow> reaction) \<Rightarrow> SubscriptionOptions \<Rightarrow> string + Subscription" where
  "subscribeToPartialBatchStarted timelockAddress callback opts =
     createTopicSubscription timelockAddress (TIMELOCK_TOPICS partialBatchStarted) callback opts None"

definition subscribeToPartialOpSucceeded :: "string \<Rightarrow> (SorobanEvent \<Rightarrow> reaction) \<Rightarrow> SubscriptionOptions \<Rightarrow> string + Subscription" where
  "subscribeToPartialOpSucceeded timelockAddress callback opts =
     createTopicSubscription timelockAddress (TIMELOCK_TOPICS partialOpSucceeded) callback opts None"

definition subscribeToPartialOpFailed :: "string \<Rightarrow> (SorobanEvent \<Rightarrow> reaction) \<Rightarrow> SubscriptionOptions \<Rightarrow> string + Subscription" where
  "subscribeToPartialOpFailed timelockAddress callback opts =
     createTopicSubscription timelockAddress (TIMELOCK_TOPICS partialOpFailed) callback opts None"

definition subscribeToBatchRecoveryEntered :: "string \<Rightarrow> (SorobanEvent \<Rightarrow> reaction) \<Rightarrow> SubscriptionOptions \<Rightarrow> string + Subscription" where
  "subscribeToBatchRecoveryEntered timelockAddress callback opts =
     createTopicSubscription timelockAddress (TIMELOCK_TOPICS batchRecoveryEntered) callback opts None"

definition subscribeToFailedOpRetried :: "string \<Rightarrow> (SorobanEvent \<Rightarrow> reaction) \<Rightarrow> SubscriptionOptions \<Rightarrow> string + Subscription" where
  "subscribeToFailedOpRetried timelockAddress callback opts =
     createTopicSubscription timelockAddress (TIMELOCK_TOPICS failedOpRetried) callback opts None"

definition subscribeToFailedOpSkipped :: "string \<Rightarrow> (SorobanEvent \<Rightarrow> reaction) \<Rightarrow> SubscriptionOptions \<Rightarrow> string + Subscription" where
  "subscribeToFailedOpSkipped timelockAddress callback opts =
     createTopicSubscription timelockAddress (TIMELOCK_TOPICS failedOpSkipped) callback opts None"

definition subscribeToBatchFullyComplete :: "string \<Rightarrow> (SorobanEvent \<Rightarrow> reaction) \<Rightarrow> SubscriptionOptions \<Rightarrow> string + Subscription" where
  "subscribeToBatchFullyComplete timelockAddress callback opts =
     createTopicSubscription timelockAddress (TIMELOCK_TOPICS batchFullyComplete) callback opts None"

definition subscribeToResultAnchored :: "string \<Rightarrow> (SorobanEvent \<Rightarrow> reaction) \<Rightarrow> SubscriptionOptions \<Rightarrow> string + Subscription" where
  "subscribeToResultAnchored signalAnchorAddress callback opts =
     createTopicSubscription signalAnchorAddress (SIGNAL_ANCHOR_TOPICS resultAnchored) callback opts None"

definition subscribeToLockCreated :: "string \<Rightarrow> (SorobanEvent \<Rightarrow> reaction) \<Rightarrow> SubscriptionOptions \<Rightarrow> string + Subscription" where
  "subscribeToLockCreated address callback opts =
     createTopicSubscription address (VOTE_ESCROW_TOPICS lockCreated) callback opts None"

definition subscribeToLockIncreased :: "string \<Rightarrow> (SorobanEvent \<Rightarrow> reaction) \<Rightarrow> SubscriptionOptions \<Rightarrow> string + Subscription" where
  "subscribeToLockIncreased address callback opts =
     createTopicSubscription address (VOTE_ESCROW_TOPICS lockIncreased) callback opts None"

definition subscribeToLockExtended :: "string \<Rightarrow> (SorobanEvent \<Rightarrow> reaction) \<Rightarrow> SubscriptionOptions \<Rightarrow> string + Subscription" where
  "subscribeToLockExtended address callback opts =
     createTopicSubscription address (VOTE_ESCROW_TOPICS lockExtended) callback opts None"

definition subscribeToLockWithdrawn :: "string \<Rightarrow> (SorobanEvent \<Rightarrow> reaction) \<Rightarrow> SubscriptionOptions \<Rightarrow> string + Subscription" where
  "subscribeToLockWithdrawn address callback opts =
     createTopicSubscription address (VOTE_ESCROW_TOPICS lockWithdrawn) callback opts None"

definition subscribeToEpochStarted :: "string \<Rightarrow> (SorobanEvent \<Rightarrow> reaction) \<Rightarrow> SubscriptionOptions \<Rightarrow> string + Subscription" where
  "subscribeToEpochStarted address callback opts =
     createTopicSubscription address (VOTING_REWARDS_TOPICS epochStarted) callback opts None"

definition subscribeToEpochRootPublished :: "string \<Rightarrow> (SorobanEvent \<Rightarrow> reaction) \<Rightarrow> SubscriptionOptions \<Rightarrow> string + Subscription" where
  "subscribeToEpochRootPublished address callback opts =
     createTopicSubscription address (VOTING_REWARDS_TOPICS epochRootPublished) callback opts None"

definition subscribeToRewardClaimed :: "string \<Rightarrow> (SorobanEvent \<Rightarrow> reaction) \<Rightarrow> SubscriptionOptions \<Rightarrow> string + Subscription" where
  "subscribeToRewardClaimed address callback opts =
     createTopicSubscription address (VOTING_REWARDS_TOPICS rewardClaimed) callback opts None"

definition subscribeToPoolFunded :: "string \<Rightarrow> (SorobanEvent \<Rightarrow> reaction) \<Rightarrow> SubscriptionOptions \<Rightarrow> string + Subscription" where
  "subscribeToPoolFunded address callback opts =
     createTopicSubscription address (VOTING_REWARDS_TOPICS poolFunded) callback opts None"

end
