(* ===== verification/EventFeedRuns.thy ===== *)
theory EventFeedRuns
  imports EventFeeds Interfaces "HOL-Library.Sublist"
begin

section \<open>Runs of the event feeds\<close>

text \<open>
  What a client of a subscription sees: nothing after it has stopped the subscription, only events that pass the filter,
  and, as long as no two polls overlap, each event at most once and in the order of the chain, the windows between
  the cursors cut after a hundred events; so every event exactly once when no window is larger. Overlapping polls,
  larger windows and a server that lags behind lose or repeat events; each case is a theorem too. The
  history of proposals is read to its end when the server makes progress.
\<close>

subsection \<open>Steps\<close>

lemma drop_nth_length: "i < length xs \<Longrightarrow> length (drop_nth i xs) = length xs - 1"
  by (simp add: drop_nth_def)

lemma set_drop_nth: "set (drop_nth i xs) \<subseteq> set xs"
  using set_take_subset [of i xs] set_drop_subset [of "Suc i" xs] by (auto simp: drop_nth_def)

lemma start_poll_simps [simp]:
  "sub_delivered (start_poll s) = sub_delivered s" "sub_cursor (start_poll s) = sub_cursor s"
  "sub_initialized (start_poll s) = sub_initialized s" "sub_stopped (start_poll s) = sub_stopped s"
  "sub_filter (start_poll s) = sub_filter s" "sub_callback (start_poll s) = sub_callback s"
  by (simp_all add: start_poll_def)

lemma on_latest_simps [simp]:
  "sub_delivered (on_latest i n s) = sub_delivered s" "sub_cursor (on_latest i n s) = n"
  "sub_initialized (on_latest i n s)" "sub_stopped (on_latest i n s) = sub_stopped s"
  "sub_filter (on_latest i n s) = sub_filter s" "sub_callback (on_latest i n s) = sub_callback s"
  "sub_polls (on_latest i n s) = (sub_polls s)[i := AwaitingPage n]"
  by (simp_all add: on_latest_def)

lemma on_failure_simps [simp]:
  "sub_delivered (on_failure i s) = sub_delivered s" "sub_cursor (on_failure i s) = sub_cursor s"
  "sub_initialized (on_failure i s) = sub_initialized s" "sub_stopped (on_failure i s) = sub_stopped s"
  "sub_filter (on_failure i s) = sub_filter s" "sub_callback (on_failure i s) = sub_callback s"
  "sub_polls (on_failure i s) = drop_nth i (sub_polls s)"
  by (simp_all add: on_failure_def)

lemma stop_simps [simp]:
  "sub_delivered (stop s) = sub_delivered s" "sub_stopped (stop s)" "sub_filter (stop s) = sub_filter s"
  "sub_callback (stop s) = sub_callback s" "sub_polls (stop s) = sub_polls s"
  by (simp_all add: stop_def)

definition passes :: "Subscription \<Rightarrow> SorobanEvent \<Rightarrow> bool" where
  "passes s event = (case sub_filter s of None \<Rightarrow> True | Some accept \<Rightarrow> accept event)"

lemma passes_cong: "sub_filter t = sub_filter s \<Longrightarrow> passes t = passes s"
  by (auto simp: passes_def)

lemma deliver_stopped: "sub_stopped s \<Longrightarrow> deliver events s = (s, False)"
  by (induction events) simp_all

text \<open>What the loop over a page may change.\<close>

definition grown :: "SorobanEvent list \<Rightarrow> Subscription \<Rightarrow> Subscription \<Rightarrow> bool" where
  "grown events s t \<longleftrightarrow>
     sub_filter t = sub_filter s \<and> sub_callback t = sub_callback s \<and> sub_polls t = sub_polls s \<and>
     sub_initialized t = sub_initialized s \<and> sub_cursor t = sub_cursor s \<and> (sub_stopped s \<longrightarrow> sub_stopped t) \<and>
     (\<exists>new. sub_delivered t = sub_delivered s @ new \<and> (\<forall>e \<in> set new. passes s e \<and> e \<in> set events))"

lemma grown_refl: "grown events s s"
  by (simp add: grown_def)

lemma grown_skip: "grown events s t \<Longrightarrow> grown (event # events) s t"
  by (auto simp: grown_def)

lemma grown_call:
  assumes "passes s event"
    and "grown events (s\<lparr>sub_delivered := sub_delivered s @ [event], sub_stopped := b\<rparr>) t"
    and "sub_stopped s \<longrightarrow> b"
  shows "grown (event # events) s t"
proof -
  have same: "passes (s\<lparr>sub_delivered := d, sub_stopped := b\<rparr>) = passes s" for d by (auto simp: passes_def)
  obtain new where "sub_delivered t = sub_delivered s @ event # new"
      "\<forall>e \<in> set new. passes s e \<and> e \<in> set events"
    using assms(2) by (auto simp: grown_def same)
  then show ?thesis using assms by (auto simp: grown_def intro!: exI [of _ "event # new"])
qed

lemma deliver_grown: "grown events s (fst (deliver events s))"
proof (induction events arbitrary: s)
  case (Cons event events)
  have stopped: "s\<lparr>sub_delivered := d, sub_stopped := sub_stopped s\<rparr> = s\<lparr>sub_delivered := d\<rparr>" for d by simp
  show ?case
  proof (cases "\<not> sub_stopped s \<and> passes s event")
    case True
    then show ?thesis
      using grown_call [of s event events "sub_stopped s", unfolded stopped] grown_call [of s event events True]
        Cons.IH [of "s\<lparr>sub_delivered := sub_delivered s @ [event]\<rparr>"]
        Cons.IH [of "s\<lparr>sub_delivered := sub_delivered s @ [event], sub_stopped := True\<rparr>"]
        grown_refl [of events "s\<lparr>sub_delivered := sub_delivered s @ [event]\<rparr>"]
      by (simp add: passes_def Let_def split: reaction.split)
  next
    case False
    then show ?thesis using grown_skip [OF Cons.IH [of s]] by (auto simp: passes_def)
  qed
qed (simp add: grown_refl)

lemma deliver_calm:
  assumes "\<And>e. sub_callback s e \<noteq> Throws" "\<not> sub_stopped (fst (deliver events s))"
  shows "deliver events s = (s\<lparr>sub_delivered := sub_delivered s @ filter (passes s) events\<rparr>, False)"
  using assms
proof (induction events arbitrary: s)
  case (Cons event events)
  let ?s = "s\<lparr>sub_delivered := sub_delivered s @ [event]\<rparr>"
  have running: "\<not> sub_stopped s" using Cons.prems(2) by (auto simp: deliver_stopped)
  have pass: "passes (s\<lparr>sub_delivered := d\<rparr>) = passes s" for d by (auto simp: passes_def)
  show ?case
  proof (cases "passes s event")
    case True
    have "sub_callback s event = Returns"
      using Cons.prems True running
      by (cases "sub_callback s event") (auto simp: passes_def deliver_stopped Let_def)
    then show ?thesis
      using Cons.IH [of ?s] Cons.prems True running pass by (simp add: passes_def Let_def)
  next
    case False
    then show ?thesis using Cons.IH [of s] Cons.prems by (auto simp: passes_def split: if_splits)
  qed
qed simp

lemma on_page_frame:
  "sub_filter (on_page i events l s) = sub_filter s \<and> sub_callback (on_page i events l s) = sub_callback s \<and>
   sub_polls (on_page i events l s) = drop_nth i (sub_polls s) \<and>
   sub_initialized (on_page i events l s) = sub_initialized s \<and>
   (sub_stopped s \<longrightarrow> sub_stopped (on_page i events l s) \<and>
      sub_delivered (on_page i events l s) = sub_delivered s) \<and>
   (\<exists>new. sub_delivered (on_page i events l s) = sub_delivered s @ new \<and>
      (\<forall>e \<in> set new. passes s e \<and> e \<in> set events))"
proof -
  let ?s = "s\<lparr>sub_polls := drop_nth i (sub_polls s)\<rparr>"
  obtain t threw where d: "deliver events ?s = (t, threw)" by (cases "deliver events ?s")
  have "passes ?s = passes s" by (auto simp: passes_def)
  moreover have "sub_delivered t = sub_delivered s \<and> sub_stopped t" if "sub_stopped s"
    using deliver_stopped [of ?s events] d that by auto
  ultimately show ?thesis using deliver_grown [of events ?s] d by (auto simp: on_page_def grown_def)
qed

lemma on_page_calm:
  assumes "\<And>e. sub_callback s e \<noteq> Throws" "\<not> sub_stopped (on_page i events l s)"
  shows "on_page i events l s = s\<lparr>sub_polls := drop_nth i (sub_polls s), sub_cursor := l + 1,
    sub_delivered := sub_delivered s @ filter (passes s) events\<rparr>"
proof -
  let ?s = "s\<lparr>sub_polls := drop_nth i (sub_polls s)\<rparr>"
  have "passes ?s = passes s" by (auto simp: passes_def)
  moreover have "\<not> sub_stopped (fst (deliver events ?s))"
    using assms(2) by (auto simp: on_page_def split: prod.splits if_splits)
  ultimately show ?thesis using deliver_calm [of ?s events] assms(1) by (simp add: on_page_def)
qed

lemma deliver_running:
  assumes "\<And>e. sub_callback s e = Returns" "\<not> sub_stopped s"
  shows "\<not> sub_stopped (fst (deliver events s))"
  using assms by (induction events arbitrary: s) (simp_all add: Let_def)

lemma on_page_returning:
  assumes "\<And>e. sub_callback s e = Returns" "\<not> sub_stopped s"
  shows "on_page i events l s = s\<lparr>sub_polls := drop_nth i (sub_polls s), sub_cursor := l + 1,
    sub_delivered := sub_delivered s @ filter (passes s) events\<rparr>"
proof (rule on_page_calm)
  show "\<not> sub_stopped (on_page i events l s)"
    using deliver_running [of "s\<lparr>sub_polls := drop_nth i (sub_polls s)\<rparr>" events] assms
    by (auto simp: on_page_def split: prod.split)
qed (simp add: assms(1))

subsection \<open>Every run\<close>

lemma feed_step_frame:
  assumes "feed_step s t"
  shows "sub_filter t = sub_filter s \<and> sub_callback t = sub_callback s \<and>
    (sub_stopped s \<longrightarrow> sub_stopped t \<and> sub_delivered t = sub_delivered s) \<and>
    (\<exists>new. sub_delivered t = sub_delivered s @ new \<and> (\<forall>e \<in> set new. passes s e))"
  using assms
proof cases
  case (page i "from" events latestLedger)
  with on_page_frame [of i events latestLedger s] show ?thesis by auto
qed simp_all

definition ended :: "SorobanEvent list \<Rightarrow> Subscription \<Rightarrow> bool" where
  "ended delivered s \<longleftrightarrow> sub_stopped s \<and> sub_delivered s = delivered"

interpretation ended: one_way_flag feed_step ended
  by unfold_locales (use feed_step_frame in \<open>auto simp: ended_def\<close>)

text \<open>C19: Once a subscription has been stopped, its callback is never called again, whatever answers are still on their
  way and whatever the timer does.\<close>

theorem nothing_after_stop:
  "feed_step\<^sup>*\<^sup>* (stop s) t \<Longrightarrow> sub_delivered t = sub_delivered s \<and> sub_stopped t"
  using ended.flagged.reach_inv [of "stop s" t "sub_delivered s"] by (simp add: ended_def)

definition all_pass :: "(SorobanEvent \<Rightarrow> bool) option \<Rightarrow> Subscription \<Rightarrow> bool" where
  "all_pass accept s \<longleftrightarrow> sub_filter s = accept \<and> (\<forall>e \<in> set (sub_delivered s). passes s e)"

lemma all_pass_step: "feed_step s t \<Longrightarrow> all_pass accept s \<Longrightarrow> all_pass accept t"
  using feed_step_frame [of s t] passes_cong [of t s] by (auto simp: all_pass_def)

interpretation filtering: stepwise_invariant feed_step "all_pass accept" for accept
  by unfold_locales (rule all_pass_step)

lemma createTopicSubscription_start:
  "createTopicSubscription a n cb opts accept = Inr s \<Longrightarrow>
   sub_filter s = accept \<and> sub_callback s = cb \<and> sub_delivered s = [] \<and> sub_polls s = [AwaitingLatest] \<and>
   \<not> sub_stopped s \<and> \<not> sub_initialized s \<and> sub_contract s = a \<and> sub_topicName s = n"
  by (auto simp: createTopicSubscription_def start_poll_def split: sum.splits)

text \<open>C32: A subscription to the votes of one proposal only ever delivers well-formed vote events of that proposal.\<close>

theorem votes_of_one_proposal:
  assumes "subscribeToVotes governorAddress proposalId callback opts = Inr s" "feed_step\<^sup>*\<^sup>* s t"
  shows "\<forall>e \<in> set (sub_delivered t). \<exists>d. parseVoteCastEvent e = Some d \<and> voteCast_proposalId d = proposalId"
proof -
  note start = createTopicSubscription_start [OF assms(1) [unfolded subscribeToVotes_def]]
  have "all_pass (sub_filter s) t"
    using filtering.reach_inv [OF assms(2)] start by (simp add: all_pass_def)
  then show ?thesis using start by (auto simp: all_pass_def passes_def)
qed

subsection \<open>A server that tells the truth\<close>

text \<open>The events of the chain in the ledgers from \<open>a\<close> to \<open>b\<close>, and the steps in which every page is such a window, up to
  the latest ledger it reports, cut after the hundred events that \<^verbatim>\<open>fetchEvents\<close> asks for. The chain consists of the
  events of the subscribed contract and topic that \<^verbatim>\<open>decodeEvent\<close> accepts, later ones included.\<close>

definition window :: "SorobanEvent list \<Rightarrow> int \<Rightarrow> int \<Rightarrow> SorobanEvent list" where
  "window chain a b = filter (\<lambda>e. a \<le> ev_ledger e \<and> ev_ledger e \<le> b) chain"

inductive served_step :: "SorobanEvent list \<Rightarrow> Subscription \<Rightarrow> Subscription \<Rightarrow> bool" for chain where
  timer: "\<not> sub_stopped s \<Longrightarrow> served_step chain s (start_poll s)"
| latest: "i < length (sub_polls s) \<Longrightarrow> sub_polls s ! i = AwaitingLatest \<Longrightarrow>
    served_step chain s (on_latest i sequence s)"
| page: "i < length (sub_polls s) \<Longrightarrow> sub_polls s ! i = AwaitingPage from \<Longrightarrow> from \<le> latestLedger + 1 \<Longrightarrow>
    served_step chain s (on_page i (take 100 (window chain from latestLedger)) latestLedger s)"
| failure: "i < length (sub_polls s) \<Longrightarrow> served_step chain s (on_failure i s)"
| stopping: "served_step chain s (stop s)"

definition calm_step :: "SorobanEvent list \<Rightarrow> Subscription \<Rightarrow> Subscription \<Rightarrow> bool" where
  "calm_step chain s t \<longleftrightarrow> served_step chain s t \<and> length (sub_polls t) \<le> 1"

lemma served_is_feed: "served_step chain s t \<Longrightarrow> feed_step s t"
  by (induction rule: served_step.induct) (auto intro: feed_step.intros)

lemma window_append:
  assumes "sorted (map ev_ledger chain)" "a \<le> b + 1" "b \<le> c"
  shows "window chain a b @ window chain (b + 1) c = window chain a c"
  using assms(1)
proof (induction chain)
  case (Cons e chain)
  have later: "window chain a b = []" if "b < ev_ledger e"
    using Cons.prems that by (auto simp: window_def filter_empty_conv)
  from Cons assms(2,3) later show ?case by (auto simp: window_def)
qed (simp add: window_def)

lemma window_empty: "b < a \<Longrightarrow> window chain a b = []"
  by (auto simp: window_def filter_empty_conv)

text \<open>The pages of consecutive polls whose cursors are the given ones, and the condition that none of them is cut.\<close>

fun served_pages :: "SorobanEvent list \<Rightarrow> int list \<Rightarrow> SorobanEvent list" where
  "served_pages chain (a # b # cursors) = take 100 (window chain a (b - 1)) @ served_pages chain (b # cursors)"
| "served_pages chain _ = []"

fun pages_fit :: "SorobanEvent list \<Rightarrow> int list \<Rightarrow> bool" where
  "pages_fit chain (a # b # cursors) \<longleftrightarrow> length (window chain a (b - 1)) \<le> 100 \<and> pages_fit chain (b # cursors)"
| "pages_fit chain _ \<longleftrightarrow> True"

lemma served_pages_snoc:
  "cursors \<noteq> [] \<Longrightarrow> served_pages chain (cursors @ [b]) =
     served_pages chain cursors @ take 100 (window chain (last cursors) (b - 1))"
  by (induction chain cursors rule: served_pages.induct) simp_all

lemma sorted_le_last: "sorted xs \<Longrightarrow> x \<in> set xs \<Longrightarrow> x \<le> last xs"
  for x :: int
  by (induction xs) auto

lemma served_pages_window:
  assumes "sorted (map ev_ledger chain)" "sorted cursors" "cursors \<noteq> []"
  shows "subseq (served_pages chain cursors) (window chain (hd cursors) (last cursors - 1)) \<and>
     (pages_fit chain cursors \<longrightarrow> served_pages chain cursors = window chain (hd cursors) (last cursors - 1))"
  using assms
proof (induction chain cursors rule: served_pages.induct)
  case (1 chain a b cursors)
  let ?last = "last (b # cursors) - 1"
  have "a \<le> b" "b \<le> last (b # cursors)" using 1(3) sorted_le_last [of "b # cursors" b] by simp_all
  then have join: "window chain a (b - 1) @ window chain b ?last = window chain a ?last"
    using window_append [OF 1(2), of a "b - 1" ?last] by simp
  have "subseq (served_pages chain (b # cursors)) (window chain b ?last)"
      "pages_fit chain (b # cursors) \<longrightarrow> served_pages chain (b # cursors) = window chain b ?last"
    using 1 by simp_all
  moreover from this(1) have "subseq (take 100 (window chain a (b - 1)) @ served_pages chain (b # cursors))
      (window chain a (b - 1) @ window chain b ?last)"
    by (intro list_emb_append_mono) (auto intro: take_is_prefix)
  ultimately show ?case using join by auto
qed (simp_all add: window_empty)

text \<open>The invariant of the calm runs, from the moment the first cursor is known: a poll in flight waits from the cursor
  on, and the deliveries are the pages between the cursors so far.\<close>

definition in_step :: "SorobanEvent list \<Rightarrow> int \<Rightarrow> Subscription \<Rightarrow> bool" where
  "in_step chain first s \<longleftrightarrow>
     sub_initialized s \<and> length (sub_polls s) \<le> 1 \<and>
     (sub_stopped s \<or>
      sub_polls s \<in> {[], [AwaitingPage (sub_cursor s)]} \<and>
      (\<exists>cursors. sorted (first # cursors) \<and> last (first # cursors) = sub_cursor s \<and>
         sub_delivered s = filter (passes s) (served_pages chain (first # cursors))))"

lemma one_poll: "i < length xs \<Longrightarrow> length xs \<le> 1 \<Longrightarrow> xs ! i = x \<Longrightarrow> i = 0 \<and> xs = [x]"
  by (cases xs) auto

lemma in_step_page:
  assumes "in_step chain first s" "\<not> sub_stopped s"
    and "i < length (sub_polls s)" "sub_polls s ! i = AwaitingPage from" "from \<le> latestLedger + 1"
    and "\<And>e. sub_callback s e \<noteq> Throws"
    and "\<not> sub_stopped (on_page i (take 100 (window chain from latestLedger)) latestLedger s)"
  shows "in_step chain first (on_page i (take 100 (window chain from latestLedger)) latestLedger s)"
proof -
  let ?t = "on_page i (take 100 (window chain from latestLedger)) latestLedger s"
  have i: "i = 0" "sub_polls s = [AwaitingPage from]"
    using one_poll [OF assms(3) _ assms(4)] assms(1) by (auto simp: in_step_def)
  then obtain cursors where start: "from = sub_cursor s" "sorted (first # cursors)" "last (first # cursors) = sub_cursor s"
      "sub_delivered s = filter (passes s) (served_pages chain (first # cursors))"
    using assms(1,2) by (auto simp: in_step_def)
  note t = on_page_calm [OF assms(6,7)]
  have "sorted (first # cursors @ [latestLedger + 1])"
    using start(1-3) assms(5) sorted_le_last [of "first # cursors"] by (fastforce simp: sorted_append)
  moreover have "sub_delivered ?t = filter (passes s) (served_pages chain (first # cursors @ [latestLedger + 1]))"
    using start t served_pages_snoc [of "first # cursors" chain "latestLedger + 1"] by simp
  moreover have "passes ?t = passes s" using t by (auto simp: passes_def)
  ultimately show ?thesis
    using assms(1) i t by (auto simp: in_step_def drop_nth_def intro!: exI [of _ "cursors @ [latestLedger + 1]"])
qed

lemma in_step_step:
  assumes "in_step chain first s" "calm_step chain s t" "\<And>e. sub_callback s e \<noteq> Throws"
  shows "in_step chain first t"
proof -
  have few: "length (sub_polls t) \<le> 1" and step: "served_step chain s t"
    using assms(2) by (simp_all add: calm_step_def)
  have init: "sub_initialized t" using assms(1) step on_page_frame by (auto simp: in_step_def stop_def elim: served_step.cases)
  show ?thesis
  proof (cases "sub_stopped t")
    case True
    with few init show ?thesis by (simp add: in_step_def)
  next
    case False
    then have running: "\<not> sub_stopped s" using feed_step_frame [OF served_is_feed [OF step]] by blast
    from step show ?thesis
    proof cases
      case timer
      have "passes (start_poll s) = passes s" by (auto simp: passes_def)
      moreover have "sub_polls s = []" using few running timer by (simp add: start_poll_def)
      ultimately show ?thesis using assms(1) running timer by (simp add: in_step_def start_poll_def)
    next
      case (latest i sequence)
      then show ?thesis using one_poll [of i "sub_polls s" AwaitingLatest] assms(1) running
        by (auto simp: in_step_def)
    next
      case (page i "from" latestLedger)
      then show ?thesis using in_step_page [OF assms(1) running] assms(3) False by blast
    next
      case (failure i)
      have "passes t = passes s" using failure by (auto simp: passes_def)
      moreover have "sub_polls t = []"
        using one_poll [of i "sub_polls s", OF _ _ refl] failure assms(1)
        by (auto simp: in_step_def drop_nth_def)
      ultimately show ?thesis using failure assms(1) running by (simp add: in_step_def)
    next
      case stopping
      with False show ?thesis by simp
    qed
  qed
qed

definition calm_inv ::
  "SorobanEvent list \<Rightarrow> int \<Rightarrow> (SorobanEvent \<Rightarrow> reaction) \<Rightarrow> (SorobanEvent \<Rightarrow> bool) option \<Rightarrow> Subscription \<Rightarrow> bool" where
  "calm_inv chain first callback accept s \<longleftrightarrow>
     in_step chain first s \<and> sub_callback s = callback \<and> (\<forall>e. callback e \<noteq> Throws) \<and> sub_filter s = accept"

lemma calm_inv_step:
  "calm_step chain s t \<Longrightarrow> calm_inv chain first callback accept s \<Longrightarrow> calm_inv chain first callback accept t"
  using in_step_step [of chain first s t] feed_step_frame [of s t] served_is_feed [of chain s t]
  by (auto simp: calm_inv_def calm_step_def)

interpretation calm: stepwise_invariant "calm_step chain" "calm_inv chain first callback accept"
  for chain first callback accept
  by unfold_locales (rule calm_inv_step)

text \<open>C11: With a server that answers truthfully, in pages of at most a hundred events, a callback that does not throw
  and polls that do not overlap, take a subscription that started at the ledger \<open>first\<close>, at any moment before it is
  stopped, however often polls failed. There are increasing cursors from \<open>first\<close> to its current one such that it has
  delivered exactly those events of the chain that pass its filter among the first hundred between each two
  successive cursors. So the deliveries are in the order of the chain, none is repeated, and when none of these
  windows has more than a hundred events, none is left out.\<close>

theorem sequential_polls_deliver_exactly_once:
  assumes "createTopicSubscription a n callback opts accept = Inr s" "\<And>e. callback e \<noteq> Throws"
    and "(calm_step chain)\<^sup>*\<^sup>* (on_latest 0 first s) t"
    and "sorted (map ev_ledger chain)" "\<not> sub_stopped t"
  shows "\<exists>cursors. sorted (first # cursors) \<and> last (first # cursors) = sub_cursor t \<and>
     sub_delivered t = filter (passes s) (served_pages chain (first # cursors)) \<and>
     subseq (sub_delivered t) (filter (passes s) (window chain first (sub_cursor t - 1))) \<and>
     (pages_fit chain (first # cursors) \<longrightarrow>
        sub_delivered t = filter (passes s) (window chain first (sub_cursor t - 1)))"
proof -
  note start = createTopicSubscription_start [OF assms(1)]
  have "calm_inv chain first callback accept (on_latest 0 first s)"
    using start assms(2) by (auto simp: calm_inv_def in_step_def intro!: exI [of _ "[]"])
  then have t: "calm_inv chain first callback accept t" using calm.reach_inv [OF assms(3)] by blast
  then have "passes t = passes s" using start by (intro passes_cong) (simp add: calm_inv_def)
  then obtain cursors where "sorted (first # cursors)" "last (first # cursors) = sub_cursor t"
      "sub_delivered t = filter (passes s) (served_pages chain (first # cursors))"
    using t assms(5) by (auto simp: calm_inv_def in_step_def)
  then show ?thesis
    using served_pages_window [OF assms(4), of "first # cursors"] subseq_filter
    by (intro exI [of _ cursors]) auto
qed

subsection \<open>A concrete run\<close>

definition demo_opts :: SubscriptionOptions where
  "demo_opts = \<lparr>opt_network = ''testnet'', opt_rpcUrl = None, opt_intervalMs = None, opt_maxAttempts = None,
     opt_baseDelayMs = None\<rparr>"

definition demo_vote :: "int \<Rightarrow> int \<Rightarrow> SorobanEvent" where
  "demo_vote ledger proposal = \<lparr>ev_ledger = ledger, ev_contractId = ''C'', ev_topic = [''VoteCast'', ''G''],
     ev_value = JObject [(''proposal_id'', JBigint proposal), (''voter'', JString ''G''),
       (''support'', JNumber 1), (''weight'', JBigint 10)]\<rparr>"

definition demo_start :: "(SorobanEvent \<Rightarrow> reaction) \<Rightarrow> Subscription" where
  "demo_start callback = start_poll
     \<lparr>sub_server = ''https://soroban-testnet.stellar.org'', sub_contract = ''C'', sub_topicName = ''VoteCast'',
      sub_callback = callback,
      sub_filter = Some (\<lambda>event. map_option voteCast_proposalId (parseVoteCastEvent event) = Some 7),
      sub_intervalMs = 10000, sub_cursor = 0, sub_initialized = False, sub_stopped = False, sub_polls = [],
      sub_delivered = []\<rparr>"

lemma demo_start: "subscribeToVotes ''C'' 7 callback demo_opts = Inr (demo_start callback)"
  by (simp add: subscribeToVotes_def createTopicSubscription_def demo_start_def buildServer_def demo_opts_def
      getRpcUrl_def validateNetwork_def or_else_def DEFAULT_POLL_INTERVAL_MS_def Let_def)

lemma demo_parse: "map_option voteCast_proposalId (parseVoteCastEvent (demo_vote l p)) = Some p"
  by (simp add: parseVoteCastEvent_def demo_vote_def topic_at_def toBigInt_def toNumber_def)

lemma demo_passes: "passes (demo_start cb) (demo_vote l p) \<longleftrightarrow> p = 7"
  using demo_parse [of l p] by (auto simp: passes_def demo_start_def start_poll_def)

definition demo_chain :: "SorobanEvent list" where
  "demo_chain = [demo_vote 5 7, demo_vote 6 8, demo_vote 6 7]"

abbreviation demo_ready :: Subscription where
  "demo_ready \<equiv> on_latest 0 5 (demo_start (\<lambda>_. Returns))"

abbreviation demo_done :: Subscription where
  "demo_done \<equiv> on_page 0 (take 100 (window demo_chain 5 6)) 6 demo_ready"

lemma demo_polls: "sub_polls (demo_start cb) = [AwaitingLatest]" "\<not> sub_stopped (demo_start cb)"
  by (simp_all add: demo_start_def start_poll_def)

lemma demo_calm: "calm_step demo_chain demo_ready demo_done" "\<not> sub_stopped demo_done" "sub_cursor demo_done = 7"
proof -
  have page: "sub_callback demo_ready e = Returns" "\<not> sub_stopped demo_ready" for e
    by (simp_all add: demo_start_def start_poll_def)
  have "served_step demo_chain demo_ready demo_done"
    by (rule served_step.page) (simp_all add: demo_polls)
  then show "calm_step demo_chain demo_ready demo_done"
    by (simp add: calm_step_def on_page_returning [OF page] drop_nth_def demo_polls)
  show "\<not> sub_stopped demo_done" "sub_cursor demo_done = 7"
    by (simp_all add: on_page_returning [OF page] demo_polls)
qed

theorem sequential_polls_deliver_exactly_once_witness:
  "sub_delivered demo_done = [demo_vote 5 7, demo_vote 6 7]"
proof -
  have fit: "pages_fit demo_chain cursors" for cursors
    by (induction demo_chain cursors rule: pages_fit.induct)
      (auto simp: window_def demo_chain_def intro!: order.trans [OF length_filter_le])
  have "sub_delivered demo_done = filter (passes (demo_start (\<lambda>_. Returns))) (window demo_chain 5 6)"
    using sequential_polls_deliver_exactly_once [OF demo_start [unfolded subscribeToVotes_def],
        of "\<lambda>_. Returns" demo_chain 5 demo_done] demo_calm fit
    by (auto simp: demo_chain_def demo_vote_def)
  moreover have "window demo_chain 5 6 = demo_chain" by (simp add: window_def demo_chain_def demo_vote_def)
  ultimately show ?thesis by (simp add: demo_passes) (simp add: demo_chain_def demo_passes)
qed

theorem nothing_after_stop_witness:
  "sub_delivered (on_page 0 [demo_vote 5 7] 6 (stop demo_ready)) = []"
proof -
  have "feed_step\<^sup>*\<^sup>* (stop demo_ready) (on_page 0 [demo_vote 5 7] 6 (stop demo_ready))"
    by (intro r_into_rtranclp feed_step.page [of 0 _ 5]) (simp_all add: demo_polls)
  from nothing_after_stop [OF this] show ?thesis by (simp add: demo_start_def start_poll_def)
qed

theorem votes_of_one_proposal_witness:
  "sub_delivered demo_done = [demo_vote 5 7, demo_vote 6 7] \<and>
   map (\<lambda>e. map_option voteCast_proposalId (parseVoteCastEvent e)) (sub_delivered demo_done) = [Some 7, Some 7]"
proof -
  have "feed_step\<^sup>*\<^sup>* (demo_start (\<lambda>_. Returns)) demo_ready"
    by (intro r_into_rtranclp feed_step.latest) (simp_all add: demo_polls)
  then have run: "feed_step\<^sup>*\<^sup>* (demo_start (\<lambda>_. Returns)) demo_done"
    using demo_calm(1) served_is_feed by (auto simp: calm_step_def intro: rtranclp.rtrancl_into_rtrancl)
  have page: "sub_callback demo_ready e = Returns" "\<not> sub_stopped demo_ready" for e
    by (simp_all add: demo_start_def start_poll_def)
  have "passes demo_ready = passes (demo_start (\<lambda>_. Returns))" by (auto simp: passes_def)
  then have "sub_delivered demo_done = [demo_vote 5 7, demo_vote 6 7]"
    by (simp add: on_page_returning [OF page] window_def demo_chain_def demo_passes)
      (simp add: demo_vote_def demo_start_def start_poll_def)
  with votes_of_one_proposal [OF demo_start run] show ?thesis by auto
qed

subsection \<open>Where events are lost or repeated\<close>

text \<open>Nothing keeps two polls apart: when the timer fires while a poll is still waiting, both poll the same ledgers of
  a truthful server, and the client is called twice for the same event.\<close>

theorem overlapping_polls_deliver_twice:
  "\<exists>t. (served_step [demo_vote 5 7])\<^sup>*\<^sup>* (demo_start (\<lambda>_. Returns)) t \<and>
     sub_delivered t = [demo_vote 5 7, demo_vote 5 7]"
proof -
  let ?chain = "[demo_vote 5 7]"
  define s0 where "s0 = demo_start (\<lambda>_. Returns)"
  define s1 where "s1 = start_poll s0"
  define s2 where "s2 = on_latest 0 5 s1"
  define s3 where "s3 = on_latest 1 5 s2"
  define s4 where "s4 = on_page 0 (take 100 (window ?chain 5 5)) 5 s3"
  define s5 where "s5 = on_page 0 (take 100 (window ?chain 5 5)) 5 s4"
  have w: "take 100 (window ?chain 5 5) = ?chain" by (simp add: window_def demo_vote_def)
  have p1: "sub_polls s1 = [AwaitingLatest, AwaitingLatest]" "\<not> sub_stopped s0"
    by (simp_all add: s1_def s0_def demo_start_def start_poll_def)
  then have p3: "sub_polls s3 = [AwaitingPage 5, AwaitingPage 5]" "\<not> sub_stopped s3"
    by (simp_all add: s3_def s2_def s1_def)
  have cb: "sub_callback s3 e = Returns" for e by (simp add: s3_def s2_def s1_def s0_def demo_start_def)
  have pass: "passes s3 = passes s0" by (auto simp: passes_def s3_def s2_def s1_def)
  have new: "passes s0 (demo_vote 5 7)" "sub_delivered s3 = []"
    by (simp_all add: s0_def demo_passes s3_def s2_def s1_def) (simp add: demo_start_def)
  note s4 = on_page_returning [OF cb p3(2), of 0 ?chain 5]
  have p4: "sub_polls s4 = [AwaitingPage 5]" "\<not> sub_stopped s4" "sub_callback s4 e = Returns" for e
    using p3 cb by (simp_all add: s4_def w s4 drop_nth_def)
  have "passes s4 = passes s0" using pass passes_cong [of s4 s3] by (simp add: s4_def w s4)
  then have "sub_delivered s5 = [demo_vote 5 7, demo_vote 5 7]"
    using on_page_returning [OF p4(3,2), of 0 ?chain 5] new pass by (simp add: s5_def w) (simp add: s4_def w s4)
  moreover have "served_step ?chain s0 s1" unfolding s1_def by (rule served_step.timer) (rule p1)
  moreover have "served_step ?chain s1 s2" unfolding s2_def by (rule served_step.latest) (simp_all add: p1)
  moreover have "served_step ?chain s2 s3" unfolding s3_def by (rule served_step.latest) (simp_all add: s2_def p1)
  moreover have "served_step ?chain s3 s4" unfolding s4_def by (rule served_step.page) (simp_all add: p3)
  moreover have "served_step ?chain s4 s5" unfolding s5_def by (rule served_step.page) (simp_all add: p4)
  ultimately show ?thesis unfolding s0_def [symmetric] by (meson converse_rtranclp_into_rtranclp rtranclp.rtrancl_refl)
qed

text \<open>A page holds at most a hundred events, and the cursor moves past the latest ledger all the same: of a window
  with more events the rest is never delivered, since every later poll starts behind them.\<close>

theorem cut_page_loses_events:
  assumes "\<not> sub_stopped s" "\<And>e. sub_callback s e = Returns" "sub_filter s = None"
    and "100 < length (window chain start latestLedger)"
  shows "let t = on_page i (take 100 (window chain start latestLedger)) latestLedger s;
             missed = drop 100 (window chain start latestLedger)
         in sub_delivered t = sub_delivered s @ take 100 (window chain start latestLedger) \<and> missed \<noteq> [] \<and>
            (\<forall>e \<in> set missed. ev_ledger e < sub_cursor t)"
proof -
  have "ev_ledger e \<le> latestLedger" if "e \<in> set (drop 100 (window chain start latestLedger))" for e
    using in_set_dropD [OF that] by (simp add: window_def)
  moreover have "passes s = (\<lambda>_. True)" using assms(3) by (auto simp: passes_def)
  ultimately show ?thesis using assms(4) by (auto simp: on_page_returning [OF assms(2,1)] Let_def)
qed

theorem cut_page_loses_events_witness:
  "sub_delivered (on_page 0 (take 100 (window (replicate 101 (demo_vote 5 7)) 5 5)) 5
     (demo_ready\<lparr>sub_filter := None\<rparr>)) = replicate 100 (demo_vote 5 7)"
proof -
  have w: "window (replicate n (demo_vote 5 7)) 5 5 = replicate n (demo_vote 5 7)" for n
    by (simp add: window_def demo_vote_def)
  have "take 100 (replicate 101 (demo_vote 5 7)) = replicate 100 (demo_vote 5 7)" by (simp add: min_def)
  then show ?thesis
    using cut_page_loses_events [of "demo_ready\<lparr>sub_filter := None\<rparr>" "replicate 101 (demo_vote 5 7)" 5 5 0]
    unfolding w by (simp add: demo_start_def start_poll_def Let_def del: replicate_Suc)
qed

subsection \<open>The history of proposals\<close>

text \<open>Every answer makes progress: an empty page reaches the start at least, and no event lies before it.\<close>

definition progressing :: "(int \<Rightarrow> ('e, SorobanEvent list \<times> int) settled) \<Rightarrow> int \<Rightarrow> bool" where
  "progressing fetch latest \<longleftrightarrow>
     (\<forall>start \<le> latest. \<forall>page l. fetch start = Resolved (page, l) \<longrightarrow>
        (page = [] \<longrightarrow> start \<le> l) \<and> (\<forall>e \<in> set page. start \<le> ev_ledger e))"

lemma Max_page:
  assumes "page \<noteq> []" "\<forall>e \<in> set page. start \<le> ev_ledger e"
  shows "start \<le> Max (set (map ev_ledger page))"
proof -
  obtain e where "e \<in> set page" using assms(1) by (cases page) auto
  then have "ev_ledger e \<le> Max (set (map ev_ledger page))" by (intro Max_ge) simp_all
  moreover have "start \<le> ev_ledger e" using assms(2) \<open>e \<in> set page\<close> by blast
  ultimately show ?thesis by linarith
qed

lemma history_loop_returns:
  assumes "progressing fetch latest"
  shows "\<exists>r. history_loop fetch latest start events = Some r"
proof (induction "nat (latest + 1 - start)" arbitrary: start events rule: less_induct)
  case less
  show ?case
  proof (cases "start \<le> latest")
    case True
    show ?thesis
    proof (cases "fetch start")
      case (Resolved answer)
      obtain page l where answer: "answer = (page, l)" by (cases answer)
      let ?next = "if page = [] then l + 1 else Max (set (map ev_ledger page)) + 1"
      have "start < ?next"
        using assms True Resolved answer Max_page [of page start] by (auto simp: progressing_def)
      then have "nat (latest + 1 - ?next) < nat (latest + 1 - start)" using True by linarith
      from less [OF this, of "if page = [] then events else events @ page"] show ?thesis
        using True Resolved answer by (subst history_loop.simps) (auto split: if_splits)
    qed (use True in \<open>subst history_loop.simps, simp\<close>)
  qed (subst history_loop.simps, simp)
qed

text \<open>Reading the history of proposals ends, with the events or with an error, whenever the server makes progress: it
  never reports a latest ledger before the ledger it was asked from, and no event before it.\<close>

theorem history_terminates:
  "(\<And>latest. progressing fetch latest) \<Longrightarrow> \<exists>r. getProposalEvents fetch getLatestLedger fromLedger = Some r"
  by (cases getLatestLedger) (simp_all add: getProposalEvents_def history_loop_returns)

text \<open>The pages end at the end of a ledger, and an empty one tells how far it looked.\<close>

definition whole_pages :: "SorobanEvent list \<Rightarrow> (int \<Rightarrow> ('e, SorobanEvent list \<times> int) settled) \<Rightarrow> bool" where
  "whole_pages chain fetch \<longleftrightarrow>
     (\<forall>start. \<exists>c l. start \<le> c \<and> fetch start = Resolved (window chain start c, l) \<and>
        (window chain start c = [] \<longrightarrow> l = c))"

lemma window_trim:
  assumes "window chain start c \<noteq> []"
  shows "window chain start (Max (set (map ev_ledger (window chain start c)))) = window chain start c"
proof -
  let ?m = "Max (set (map ev_ledger (window chain start c)))"
  have "?m \<in> ev_ledger ` set (window chain start c)" using Max_in [of "set (map ev_ledger (window chain start c))"] assms by simp
  then have "?m \<le> c" by (auto simp: window_def)
  moreover have "ev_ledger e \<le> ?m" if "e \<in> set chain" "start \<le> ev_ledger e" "ev_ledger e \<le> c" for e
    using that by (intro Max_ge) (auto simp: window_def)
  ultimately show ?thesis unfolding window_def by (intro filter_cong) auto
qed

lemma history_loop_complete:
  assumes "whole_pages chain fetch" "sorted (map ev_ledger chain)"
    and "first \<le> start" "events = window chain first (start - 1)"
  shows "\<exists>m. latest \<le> m \<and> history_loop fetch latest start events = Some (Resolved (window chain first m))"
  using assms(3,4)
proof (induction "nat (latest + 1 - start)" arbitrary: start events rule: less_induct)
  case less
  show ?case
  proof (cases "start \<le> latest")
    case True
    obtain c l where c: "start \<le> c" "fetch start = Resolved (window chain start c, l)"
        "window chain start c = [] \<longrightarrow> l = c"
      using assms(1) unfolding whole_pages_def by blast
    let ?page = "window chain start c"
    define m where "m = (if ?page = [] then l else Max (set (map ev_ledger ?page)))"
    have page: "window chain start m = ?page"
    proof (cases "?page = []")
      case True
      then have "m = c" using c(3) by (simp add: m_def)
      then show ?thesis by simp
    next
      case False
      then have "m = Max (set (map ev_ledger ?page))" by (simp add: m_def)
      then show ?thesis using window_trim [OF False] by (simp only:)
    qed
    have "\<forall>e \<in> set ?page. start \<le> ev_ledger e" by (simp add: window_def)
    then have m: "start \<le> m" using c(1,3) Max_page [of ?page start] unfolding m_def by presburger
    have "events @ ?page = window chain first m"
      using window_append [OF assms(2), of first "start - 1" m] less.prems m page by simp
    moreover have "nat (latest + 1 - (m + 1)) < nat (latest + 1 - start)" using True m by linarith
    ultimately obtain r where "latest \<le> r"
        "history_loop fetch latest (m + 1) (events @ ?page) = Some (Resolved (window chain first r))"
      using less.hyps [of "m + 1" "events @ ?page"] less.prems m by auto
    then show ?thesis using True c
      by (subst history_loop.simps) (auto simp: m_def split: if_splits)
  next
    case False
    then show ?thesis using less.prems by (subst history_loop.simps) (auto intro!: exI [of _ "start - 1"])
  qed
qed

text \<open>C35: When pages end at ledger boundaries, the history of proposals is complete: it is exactly the events of the chain
  from the requested ledger up to the latest one or later, each once and in order.\<close>

theorem history_complete:
  assumes "whole_pages chain fetch" "sorted (map ev_ledger chain)"
  shows "\<exists>m. latest \<le> m \<and>
    getProposalEvents fetch (Resolved latest) fromLedger = Some (Resolved (window chain (max 1 fromLedger) m))"
  using history_loop_complete [OF assms order.refl, of "[]" "max 1 fromLedger" latest]
  by (simp add: getProposalEvents_def window_empty)

text \<open>A page that is cut inside a ledger loses the rest of that ledger: of 101 proposals created in ledger 5 the
  history has a hundred.\<close>

theorem history_loses_cut_ledger:
  "getProposalEvents (\<lambda>start. Resolved (take 100 (window (replicate 101 e) start 9), 9)) (Resolved 9) 1 =
     Some (Resolved (if 1 \<le> ev_ledger e \<and> ev_ledger e \<le> 9 then replicate 100 e else []))"
proof -
  define fetch where
    "fetch = (\<lambda>start. Resolved (take 100 (window (replicate 101 e) start 9), 9) :: ('a, SorobanEvent list \<times> int) settled)"
  have "take 100 (replicate 101 e) = replicate 100 e" by (simp add: min_def)
  then have fetch: "fetch start =
      Resolved (if start \<le> ev_ledger e \<and> ev_ledger e \<le> 9 then replicate 100 e else [], 9)" for start
    by (simp add: fetch_def window_def)
  have "set (map ev_ledger (replicate 100 e)) = {ev_ledger e}" by (simp add: set_replicate_conv_if)
  then have max: "Max (set (map ev_ledger (replicate 100 e))) = ev_ledger e" by (metis Max_singleton)
  have fin: "history_loop fetch 9 start events = Some (Resolved events)" if "9 < start" for start events
    using that by (subst history_loop.simps) simp
  have empty: "history_loop fetch 9 start events = Some (Resolved events)"
    if "ev_ledger e < start \<or> 9 < ev_ledger e" for start events
    using that fin by (subst history_loop.simps) (auto simp: fetch)
  have "history_loop fetch 9 1 [] = Some (Resolved (replicate 100 e))" if "1 \<le> ev_ledger e" "ev_ledger e \<le> 9"
    using that by (subst history_loop.simps) (simp add: fetch max empty del: map_replicate)
  then show ?thesis unfolding fetch_def [symmetric] using empty [of 1 "[]"] by (auto simp: getProposalEvents_def)
qed

theorem history_terminates_witness:
  "\<exists>r. getProposalEvents (\<lambda>start. Resolved ([], start) :: (string, _) settled) (Resolved 3) 1 = Some r"
  by (rule history_terminates) (simp add: progressing_def)

theorem history_complete_witness:
  "\<exists>m \<ge> 9. getProposalEvents
     (\<lambda>start. Resolved (window demo_chain start (max start 9), max start 9) :: (string, _) settled) (Resolved 9) 1 =
     Some (Resolved (window demo_chain 1 m))"
proof -
  have "whole_pages demo_chain
      (\<lambda>start. Resolved (window demo_chain start (max start 9), max start 9) :: (string, _) settled)"
    unfolding whole_pages_def
  proof
    fix start :: int
    show "\<exists>c l. start \<le> c \<and>
        (Resolved (window demo_chain start (max start 9), max start 9) :: (string, _) settled) =
        Resolved (window demo_chain start c, l) \<and> (window demo_chain start c = [] \<longrightarrow> l = c)"
      by (intro exI [of _ "max start 9"]) simp
  qed
  from history_complete [OF this, of 9 1] show ?thesis by (simp add: demo_chain_def demo_vote_def)
qed

lemma lagging_loop:
  assumes "history_loop fetch latest start events = Some r"
  shows "\<not> (fetch = (\<lambda>_. Resolved ([], lag)) \<and> lag < latest \<and> start \<le> latest)"
proof (rule history_loop.raw_induct [OF _ assms])
  fix loop :: "(int \<Rightarrow> ('a, SorobanEvent list \<times> int) settled) \<Rightarrow> int \<Rightarrow> int \<Rightarrow> SorobanEvent list \<Rightarrow>
      ('a, SorobanEvent list) settled option"
    and fetch latest start events r
  assume IH: "\<And>fetch latest start events r. loop fetch latest start events = Some r \<Longrightarrow>
      \<not> (fetch = (\<lambda>_. Resolved ([], lag)) \<and> lag < latest \<and> start \<le> latest)"
    and body: "(if start \<le> latest then
        (case fetch start of
           Resolved (page, latestLedger) \<Rightarrow>
             if page = [] then loop fetch latest (latestLedger + 1) events
             else loop fetch latest (Max (set (map ev_ledger page)) + 1) (events @ page)
         | Rejected e \<Rightarrow> Some (Rejected e))
      else Some (Resolved events)) = Some r"
  show "\<not> (fetch = (\<lambda>_. Resolved ([], lag)) \<and> lag < latest \<and> start \<le> latest)"
  proof
    assume lag: "fetch = (\<lambda>_. Resolved ([], lag)) \<and> lag < latest \<and> start \<le> latest"
    then have "loop fetch latest (lag + 1) events = Some r" using body by simp
    from IH [OF this] lag show False by simp
  qed
qed

text \<open>A server that lags behind the one that reported the latest ledger makes the history hang: asked from a ledger
  it has not seen, it answers with no events and its own latest ledger, the loop goes back to the ledger after that one, and the
  call never returns.\<close>

theorem history_hangs_on_lagging_server:
  assumes "lag < latest" "max 1 fromLedger \<le> latest"
  shows "getProposalEvents (\<lambda>_. Resolved ([], lag) :: ('e, SorobanEvent list \<times> int) settled) (Resolved latest) fromLedger = None"
proof (rule ccontr)
  assume "getProposalEvents (\<lambda>_. Resolved ([], lag) :: ('e, SorobanEvent list \<times> int) settled) (Resolved latest) fromLedger \<noteq> None"
  then obtain r where "history_loop (\<lambda>_. Resolved ([], lag) :: ('e, SorobanEvent list \<times> int) settled) latest (max 1 fromLedger) [] = Some r"
    by (auto simp: getProposalEvents_def)
  from lagging_loop [OF this, of lag] assms show False by simp
qed

theorem history_hangs_on_lagging_server_witness:
  "getProposalEvents (\<lambda>_. Resolved ([], 8) :: (string, _) settled) (Resolved 9) 1 = None"
  by (rule history_hangs_on_lagging_server) simp_all

end
