(* ===== verification/JsText.thy ===== *)
theory JsText
  imports JsValue
begin

section \<open>JavaScript text: numbers, JSON and byte strings\<close>

text \<open>
  The rest of the language that the indexer uses on decoded values: \<^verbatim>\<open>Number(v)\<close>, \<^verbatim>\<open>String(n)\<close> of a double,
  \<^verbatim>\<open>Number.isSafeInteger\<close>, \<^verbatim>\<open>JSON.stringify\<close> and \<^verbatim>\<open>Buffer.from(v).toString("hex")\<close>.
\<close>

subsection \<open>Numbers\<close>

definition js_Number :: "js_value \<Rightarrow> js_number" where
  "js_Number v =
     (case v of
        JUndefined \<Rightarrow> NotANumber | JNull \<Rightarrow> Finite 0 | JBoolean b \<Rightarrow> Finite (if b then 1 else 0)
      | JNumber n \<Rightarrow> Finite (of_int n) | JBigint n \<Rightarrow> number_of_int n | JString s \<Rightarrow> string_to_number s
      | JBuffer bs \<Rightarrow> string_to_number (utf8_text bs) | JArray vs \<Rightarrow> string_to_number (js_String v)
      | JObject fs \<Rightarrow> NotANumber)"

definition is_integer :: "rat \<Rightarrow> bool" where
  "is_integer q \<longleftrightarrow> of_int \<lfloor>q\<rfloor> = q"

definition isSafeInteger :: "js_number \<Rightarrow> bool" where
  "isSafeInteger x = (case x of Finite q \<Rightarrow> is_integer q \<and> \<bar>q\<bar> < 2 ^ 53 | _ \<Rightarrow> False)"

text \<open>The shortest decimal digits that read back as the double: with \<open>e\<close> digits before the point, the candidates of
  length \<open>k\<close> are the two neighbours of \<open>v * 10 ^ (k - e)\<close>.\<close>

fun decimal_places :: "nat \<Rightarrow> rat \<Rightarrow> int" where
  "decimal_places 0 v = 0"
| "decimal_places (Suc fuel) v =
     (if 1 \<le> v then 1 + decimal_places fuel (v / 10) else if v < 1 / 10 then decimal_places fuel (v * 10) - 1 else 0)"

definition scaled_down :: "int \<Rightarrow> rat \<Rightarrow> rat" where
  "scaled_down e v = (if 0 \<le> e then v / 10 ^ nat e else v * 10 ^ nat (- e))"

definition reads_back :: "rat \<Rightarrow> nat \<Rightarrow> int \<Rightarrow> bool" where
  "reads_back v s x \<longleftrightarrow>
     (if 0 \<le> x then nearest_double False (s * 10 ^ nat x) 1 else nearest_double False s (10 ^ nat (- x))) = Finite v"

fun shortest_digits :: "nat \<Rightarrow> nat \<Rightarrow> int \<Rightarrow> rat \<Rightarrow> nat" where
  "shortest_digits 0 k e v = nat \<lfloor>scaled_down (e - int k) v\<rfloor>"
| "shortest_digits (Suc fuel) k e v =
     (let t = scaled_down (e - int k) v; low = nat \<lfloor>t\<rfloor>; best = (if 2 * (t - of_int \<lfloor>t\<rfloor>) \<le> 1 then low else Suc low)
      in if reads_back v best (e - int k) then best
         else if reads_back v low (e - int k) then low
         else if reads_back v (Suc low) (e - int k) then Suc low
         else shortest_digits fuel (Suc k) e v)"

definition positive_text :: "rat \<Rightarrow> string" where
  "positive_text v =
     (let e = decimal_places 400 v;
          digits = dec_nat (shortest_digits 17 1 e v);
          k = int (length digits)
      in if k \<le> e \<and> e \<le> 21 then digits @ replicate (nat (e - k)) CHR ''0''
         else if 0 < e \<and> e \<le> 21 then take (nat e) digits @ ''.'' @ drop (nat e) digits
         else if - 6 < e \<and> e \<le> 0 then ''0.'' @ replicate (nat (- e)) CHR ''0'' @ digits
         else
           let exponent = (if 0 < e then ''e+'' else ''e-'') @ dec_nat (nat \<bar>e - 1\<bar>)
           in if k = 1 then digits @ exponent else take 1 digits @ ''.'' @ drop 1 digits @ exponent)"

text \<open>\<^verbatim>\<open>String(n)\<close>; a safe integer has its decimal digits.\<close>

definition number_text :: "js_number \<Rightarrow> string" where
  "number_text x =
     (case x of
        NotANumber \<Rightarrow> ''NaN''
      | Infinite neg \<Rightarrow> (if neg then ''-Infinity'' else ''Infinity'')
      | Finite q \<Rightarrow>
          if isSafeInteger x then dec_int \<lfloor>q\<rfloor>
          else if q < 0 then CHR ''-'' # positive_text (- q) else positive_text q)"

text \<open>A number inside a message. JSON has \<^verbatim>\<open>null\<close> for what is not finite; a fraction, which only a contract that
  publishes a decimal point in a string could cause, is cut off.\<close>

definition number_value :: "js_number \<Rightarrow> js_value" where
  "number_value x = (case x of Finite q \<Rightarrow> JNumber \<lfloor>q\<rfloor> | _ \<Rightarrow> JNull)"

lemma number_text_int [simp]: "\<bar>i\<bar> < 2 ^ 53 \<Longrightarrow> number_text (Finite (of_int i)) = dec_int i"
proof -
  assume "\<bar>i\<bar> < 2 ^ 53"
  then have "\<bar>of_int i :: rat\<bar> < of_int (2 ^ 53)" by (simp only: of_int_abs [symmetric] of_int_less_iff)
  then show ?thesis by (simp add: number_text_def isSafeInteger_def is_integer_def)
qed

lemma number_value_int [simp]: "number_value (Finite (of_int i)) = JNumber i"
  by (simp add: number_value_def)

lemma js_Number_simps [simp]:
  "js_Number (JNumber n) = Finite (of_int n)" "js_Number JUndefined = NotANumber"
  "js_Number (JBigint n) = number_of_int n"
  by (simp_all add: js_Number_def)

subsection \<open>JSON\<close>

definition json_char :: "char \<Rightarrow> string" where
  "json_char c =
     (let n = of_char c :: nat in
      if n = 34 then [CHR 0x5C, c] else if n = 92 then [c, c]
      else if n = 8 then [CHR 0x5C, CHR ''b''] else if n = 9 then [CHR 0x5C, CHR ''t'']
      else if n = 10 then [CHR 0x5C, CHR ''n''] else if n = 12 then [CHR 0x5C, CHR ''f'']
      else if n = 13 then [CHR 0x5C, CHR ''r'']
      else if n < 32 then [CHR 0x5C, CHR ''u'', CHR ''0'', CHR ''0'', hex_digit (n div 16), hex_digit (n mod 16)]
      else [c])"

definition json_string :: "string \<Rightarrow> string" where
  "json_string s = CHR 0x22 # concat (map json_char s) @ [CHR 0x22]"

text \<open>\<^verbatim>\<open>stringifyJson(v)\<close>: \<^verbatim>\<open>JSON.stringify\<close> with bigints as strings.\<close>

fun stringifyJson :: "js_value \<Rightarrow> string" where
  "stringifyJson JUndefined = ''null''"
| "stringifyJson JNull = ''null''"
| "stringifyJson (JBoolean b) = (if b then ''true'' else ''false'')"
| "stringifyJson (JNumber n) = dec_int n"
| "stringifyJson (JBigint n) = json_string (dec_int n)"
| "stringifyJson (JString s) = json_string s"
| "stringifyJson (JBuffer bs) =
     CHR ''{'' # json_string ''type'' @ '':'' @ json_string ''Buffer'' @ '','' @ json_string ''data'' @ '':['' @
       join '','' (map (\<lambda>b. dec_int (uint b)) bs) @ '']}''"
| "stringifyJson (JArray vs) = ''['' @ join '','' (map stringifyJson vs) @ '']''"
| "stringifyJson (JObject fs) =
     ''{'' @ join '','' (map (\<lambda>(k, v). json_string k @ '':'' @ stringifyJson v) (filter (\<lambda>(k, v). v \<noteq> JUndefined) fs)) @
     ''}''"

subsection \<open>Byte strings\<close>

text \<open>\<^verbatim>\<open>Buffer.from(v).toString("hex")\<close>; \<open>None\<close> is its \<^verbatim>\<open>TypeError\<close>. An array gives the low bytes of its numbers.\<close>

definition buffer_hex :: "js_value \<Rightarrow> string option" where
  "buffer_hex v =
     (case v of JBuffer bs \<Rightarrow> Some (to_hex bs) | JString s \<Rightarrow> Some (to_hex (str_bytes s))
      | JArray vs \<Rightarrow> Some (to_hex (map (\<lambda>x. case x of JNumber n \<Rightarrow> of_int n | _ \<Rightarrow> 0) vs))
      | _ \<Rightarrow> None)"

lemma buffer_hex_simps [simp]: "buffer_hex (JBuffer bs) = Some (to_hex bs)" "buffer_hex JUndefined = None"
  by (simp_all add: buffer_hex_def)

end
