(* ===== verification/EventWire.thy ===== *)
theory EventWire
  imports ContractEvents
begin

section \<open>Contract events from the contract to the SDK\<close>

text \<open>
  What the contracts publish and what the SDK's parsers make of it. The definitions model the \<^verbatim>\<open>emit_*\<close> functions of
  \<^verbatim>\<open>contracts/*/src/events.rs\<close> (and of \<^verbatim>\<open>contracts/treasury/src/streams.rs\<close>) at the widths of the contract, composed
  with the documented native form of a contract value: 32-bit integers are numbers, 64 and 128-bit ones bigints,
  addresses, symbols and strings are strings, byte strings are buffers, structs are objects, tuples and vectors are
  arrays. The theorems state that the parsers recover what the contract published, event by event; that no event is
  taken by two parsers; and the three places where information is lost.
\<close>

type_synonym u32 = "32 word"
type_synonym i32 = "32 word"
type_synonym u64 = "64 word"
type_synonym i128 = "128 word"

definition native_u32 :: "u32 \<Rightarrow> js_value" where
  "native_u32 n = JNumber (uint n)"

definition native_i32 :: "i32 \<Rightarrow> js_value" where
  "native_i32 n = JNumber (sint n)"

definition native_u64 :: "u64 \<Rightarrow> js_value" where
  "native_u64 n = JBigint (uint n)"

definition native_i128 :: "i128 \<Rightarrow> js_value" where
  "native_i128 n = JBigint (sint n)"

definition native_vec :: "('a \<Rightarrow> js_value) \<Rightarrow> 'a list \<Rightarrow> js_value" where
  "native_vec f xs = JArray (map f xs)"

definition native_option :: "('a \<Rightarrow> js_value) \<Rightarrow> 'a option \<Rightarrow> js_value" where
  "native_option f x = (case x of None \<Rightarrow> JNull | Some a \<Rightarrow> f a)"

text \<open>The ledger the contract runs in, and \<^verbatim>\<open>env.events().publish(topics, data)\<close> as the SDK sees it decoded.\<close>

record env =
  env_contract :: string
  env_sequence :: u32

definition publish :: "env \<Rightarrow> js_value list \<Rightarrow> js_value \<Rightarrow> SorobanEvent" where
  "publish env topics data =
     \<lparr>ev_ledger = uint (env_sequence env), ev_contractId = env_contract env,
      ev_topic = map js_String topics, ev_value = data\<rparr>"

subsection \<open>The governor\<close>

record Proposal_created =
  created_id :: u64
  created_proposer :: string
  created_description :: string
  created_description_hash :: bytes
  created_metadata_uri :: string
  created_targets :: "string list"
  created_fn_names :: "string list"
  created_calldatas :: "bytes list"
  created_start_ledger :: u32
  created_end_ledger :: u32

definition emit_proposal_created :: "env \<Rightarrow> Proposal_created \<Rightarrow> SorobanEvent" where
  "emit_proposal_created env proposal =
     publish env [JString ''ProposalCreated'', JString (created_proposer proposal)]
       (JObject [(''proposal_id'', native_u64 (created_id proposal)),
          (''proposer'', JString (created_proposer proposal)),
          (''description'', JString (created_description proposal)),
          (''description_hash'', JBuffer (created_description_hash proposal)),
          (''metadata_uri'', JString (created_metadata_uri proposal)),
          (''targets'', native_vec JString (created_targets proposal)),
          (''fn_names'', native_vec JString (created_fn_names proposal)),
          (''calldatas'', native_vec JBuffer (created_calldatas proposal)),
          (''start_ledger'', native_u32 (created_start_ledger proposal)),
          (''end_ledger'', native_u32 (created_end_ledger proposal))])"

definition emit_vote_cast :: "env \<Rightarrow> u64 \<Rightarrow> string \<Rightarrow> u32 \<Rightarrow> i128 \<Rightarrow> SorobanEvent" where
  "emit_vote_cast env proposal_id voter support weight =
     publish env [JString ''VoteCast'', JString voter]
       (JObject [(''proposal_id'', native_u64 proposal_id),
          (''voter'', JString voter),
          (''support'', native_u32 support),
          (''weight'', native_i128 weight)])"

definition emit_vote_cast_with_reason :: "env \<Rightarrow> u64 \<Rightarrow> string \<Rightarrow> u32 \<Rightarrow> i128 \<Rightarrow> string \<Rightarrow> SorobanEvent" where
  "emit_vote_cast_with_reason env proposal_id voter support weight reason =
     publish env [JString ''VoteCastWithReason'']
       (JObject [(''proposal_id'', native_u64 proposal_id),
          (''voter'', JString voter),
          (''support'', native_u32 support),
          (''weight'', native_i128 weight),
          (''reason'', JString reason)])"

definition emit_proposal_queued :: "env \<Rightarrow> u64 \<Rightarrow> bytes \<Rightarrow> u64 \<Rightarrow> SorobanEvent" where
  "emit_proposal_queued env proposal_id op_id eta =
     publish env [JString ''ProposalQueued'']
       (JObject [(''proposal_id'', native_u64 proposal_id),
          (''op_id'', JBuffer op_id),
          (''eta'', native_u64 eta)])"

definition emit_proposal_executed :: "env \<Rightarrow> u64 \<Rightarrow> string \<Rightarrow> SorobanEvent" where
  "emit_proposal_executed env proposal_id caller =
     publish env [JString ''ProposalExecuted'']
       (JObject [(''proposal_id'', native_u64 proposal_id),
          (''caller'', JString caller)])"

definition emit_proposal_cancelled :: "env \<Rightarrow> u64 \<Rightarrow> string \<Rightarrow> SorobanEvent" where
  "emit_proposal_cancelled env proposal_id caller =
     publish env [JString ''ProposalCancelled'']
       (JObject [(''proposal_id'', native_u64 proposal_id),
          (''caller'', JString caller)])"

definition emit_proposal_expired :: "env \<Rightarrow> u64 \<Rightarrow> u32 \<Rightarrow> SorobanEvent" where
  "emit_proposal_expired env proposal_id expired_at_ledger =
     publish env [JString ''ProposalExpired'']
       (JObject [(''proposal_id'', native_u64 proposal_id),
          (''expired_at_ledger'', native_u32 expired_at_ledger)])"

definition emit_governor_upgraded :: "env \<Rightarrow> bytes \<Rightarrow> bytes \<Rightarrow> SorobanEvent" where
  "emit_governor_upgraded env old_hash new_hash =
     publish env [JString ''GovernorUpgraded'']
       (JObject [(''old_hash'', JBuffer old_hash),
          (''new_hash'', JBuffer new_hash)])"

definition emit_reputation_updated :: "env \<Rightarrow> string \<Rightarrow> i32 \<Rightarrow> i32 \<Rightarrow> string \<Rightarrow> SorobanEvent" where
  "emit_reputation_updated env proposer old_score new_score reason =
     publish env [JString ''ReputationUpdated'', JString proposer]
       (JObject [(''proposer'', JString proposer),
          (''old_score'', native_i32 old_score),
          (''new_score'', native_i32 new_score),
          (''reason'', JString reason)])"

definition emit_effective_threshold_changed :: "env \<Rightarrow> string \<Rightarrow> i128 \<Rightarrow> i128 \<Rightarrow> SorobanEvent" where
  "emit_effective_threshold_changed env proposer old_threshold new_threshold =
     publish env [JString ''EffectiveThresholdChanged'', JString proposer]
       (JObject [(''proposer'', JString proposer),
          (''old_threshold'', native_i128 old_threshold),
          (''new_threshold'', native_i128 new_threshold)])"

definition emit_paused :: "env \<Rightarrow> string \<Rightarrow> SorobanEvent" where
  "emit_paused env pauser =
     publish env [JString ''Paused'', JString pauser]
       (JObject [(''pauser'', JString pauser), (''ledger'', native_u32 (env_sequence env))])"

definition emit_unpaused :: "env \<Rightarrow> SorobanEvent" where
  "emit_unpaused env =
     publish env [JString ''Unpaused''] (JObject [(''ledger'', native_u32 (env_sequence env))])"

text \<open>The governor's settings on the contract; a unit variant of a contract enum is a vector of one symbol.\<close>

record ContractSettings =
  cs_voting_delay :: u32
  cs_voting_period :: u32
  cs_quorum_numerator :: u32
  cs_proposal_threshold :: i128
  cs_guardian :: string
  cs_vote_type :: VoteType
  cs_proposal_grace_period :: u32
  cs_use_dynamic_quorum :: bool
  cs_reflector_oracle :: "string option"
  cs_min_quorum_usd :: i128
  cs_max_calldata_size :: u32
  cs_proposal_cooldown :: u32
  cs_max_proposals_per_period :: u32
  cs_proposal_period_duration :: u32
  cs_co_sponsorship_registry :: "string option"
  cs_use_commit_reveal :: bool
  cs_commit_phase_fraction :: u32

primrec vote_type_name :: "VoteType \<Rightarrow> string" where
  "vote_type_name Simple = ''Simple''"
| "vote_type_name Extended = ''Extended''"
| "vote_type_name Quadratic = ''Quadratic''"

definition native_settings :: "ContractSettings \<Rightarrow> js_value" where
  "native_settings s =
     JObject [(''voting_delay'', native_u32 (cs_voting_delay s)),
       (''voting_period'', native_u32 (cs_voting_period s)),
       (''quorum_numerator'', native_u32 (cs_quorum_numerator s)),
       (''proposal_threshold'', native_i128 (cs_proposal_threshold s)),
       (''guardian'', JString (cs_guardian s)),
       (''vote_type'', JArray [JString (vote_type_name (cs_vote_type s))]),
       (''proposal_grace_period'', native_u32 (cs_proposal_grace_period s)),
       (''use_dynamic_quorum'', JBoolean (cs_use_dynamic_quorum s)),
       (''reflector_oracle'', native_option JString (cs_reflector_oracle s)),
       (''min_quorum_usd'', native_i128 (cs_min_quorum_usd s)),
       (''max_calldata_size'', native_u32 (cs_max_calldata_size s)),
       (''proposal_cooldown'', native_u32 (cs_proposal_cooldown s)),
       (''max_proposals_per_period'', native_u32 (cs_max_proposals_per_period s)),
       (''proposal_period_duration'', native_u32 (cs_proposal_period_duration s)),
       (''co_sponsorship_registry'', native_option JString (cs_co_sponsorship_registry s)),
       (''use_commit_reveal'', JBoolean (cs_use_commit_reveal s)),
       (''commit_phase_fraction'', native_u32 (cs_commit_phase_fraction s))]"

definition emit_config_updated :: "env \<Rightarrow> ContractSettings \<Rightarrow> ContractSettings \<Rightarrow> SorobanEvent" where
  "emit_config_updated env old_settings new_settings =
     publish env [JString ''ConfigUpdated'']
       (JObject [(''old_settings'', native_settings old_settings), (''new_settings'', native_settings new_settings)])"

text \<open>The second event of \<^verbatim>\<open>cancel_queued\<close>.\<close>

definition emit_cancelled_from_queue :: "env \<Rightarrow> u64 \<Rightarrow> string \<Rightarrow> SorobanEvent" where
  "emit_cancelled_from_queue env proposal_id caller =
     publish env [JString ''ProposalCancelledFromQueue''] (JArray [native_u64 proposal_id, JString caller])"

text \<open>The event of \<^verbatim>\<open>execute_batch\<close>, and those that publish plain tuples.\<close>

definition emit_exbatch :: "env \<Rightarrow> u64 list \<Rightarrow> SorobanEvent" where
  "emit_exbatch env proposal_ids = publish env [JString ''exbatch''] (native_vec native_u64 proposal_ids)"

definition emit_guardian_changed :: "env \<Rightarrow> string \<Rightarrow> string \<Rightarrow> SorobanEvent" where
  "emit_guardian_changed env old_guardian new_guardian =
     publish env [JString ''GuardianChanged'']
       (JObject [(''old_guardian'', JString old_guardian), (''new_guardian'', JString new_guardian)])"

definition emit_pauser_changed :: "env \<Rightarrow> string \<Rightarrow> string \<Rightarrow> SorobanEvent" where
  "emit_pauser_changed env old_pauser new_pauser =
     publish env [JString ''PauserChanged''] (JArray [JString old_pauser, JString new_pauser])"

definition emit_vote_committed :: "env \<Rightarrow> u64 \<Rightarrow> string \<Rightarrow> bytes \<Rightarrow> SorobanEvent" where
  "emit_vote_committed env proposal_id voter commitment =
     publish env [JString ''VoteCommitted'', JString voter] (JArray [native_u64 proposal_id, JBuffer commitment])"

definition emit_vote_revealed :: "env \<Rightarrow> u64 \<Rightarrow> string \<Rightarrow> u32 \<Rightarrow> i128 \<Rightarrow> SorobanEvent" where
  "emit_vote_revealed env proposal_id voter support weight =
     publish env [JString ''VoteRevealed'', JString voter]
       (JArray [native_u64 proposal_id, native_u32 support, native_i128 weight])"

definition emit_commit_phase_started :: "env \<Rightarrow> u64 \<Rightarrow> u32 \<Rightarrow> u32 \<Rightarrow> SorobanEvent" where
  "emit_commit_phase_started env proposal_id commit_deadline reveal_deadline =
     publish env [JString ''CommitPhaseStarted'', native_u64 proposal_id]
       (JArray [native_u32 commit_deadline, native_u32 reveal_deadline])"

subsection \<open>The timelock\<close>

definition emit_operation_scheduled :: "env \<Rightarrow> bytes \<Rightarrow> string \<Rightarrow> string \<Rightarrow> u64 \<Rightarrow> u64 \<Rightarrow> SorobanEvent" where
  "emit_operation_scheduled env op_id target fn_name ready_at expires_at =
     publish env [JString ''OperationScheduled'']
       (JObject [(''op_id'', JBuffer op_id),
          (''target'', JString target),
          (''fn_name'', JString fn_name),
          (''ready_at'', native_u64 ready_at),
          (''expires_at'', native_u64 expires_at)])"

definition emit_operation_executed :: "env \<Rightarrow> bytes \<Rightarrow> string \<Rightarrow> SorobanEvent" where
  "emit_operation_executed env op_id caller =
     publish env [JString ''OperationExecuted'']
       (JObject [(''op_id'', JBuffer op_id), (''caller'', JString caller)])"

definition emit_operation_cancelled :: "env \<Rightarrow> bytes \<Rightarrow> string \<Rightarrow> SorobanEvent" where
  "emit_operation_cancelled env op_id caller =
     publish env [JString ''OperationCancelled'']
       (JObject [(''op_id'', JBuffer op_id), (''caller'', JString caller)])"

definition emit_batch_operation_scheduled :: "env \<Rightarrow> bytes \<Rightarrow> string list \<Rightarrow> string list \<Rightarrow> u64 \<Rightarrow> u64 \<Rightarrow> SorobanEvent" where
  "emit_batch_operation_scheduled env batch_op_id targets fn_names ready_at expires_at =
     publish env [JString ''BatchOperationScheduled'']
       (JObject [(''batch_op_id'', JBuffer batch_op_id),
          (''targets'', native_vec JString targets),
          (''fn_names'', native_vec JString fn_names),
          (''ready_at'', native_u64 ready_at),
          (''expires_at'', native_u64 expires_at)])"

definition emit_batch_operation_executed :: "env \<Rightarrow> bytes \<Rightarrow> string \<Rightarrow> SorobanEvent" where
  "emit_batch_operation_executed env batch_op_id caller =
     publish env [JString ''BatchOperationExecuted'']
       (JObject [(''batch_op_id'', JBuffer batch_op_id),
          (''caller'', JString caller)])"

definition emit_batch_operation_cancelled :: "env \<Rightarrow> bytes \<Rightarrow> string \<Rightarrow> SorobanEvent" where
  "emit_batch_operation_cancelled env batch_op_id caller =
     publish env [JString ''BatchOperationCancelled'']
       (JObject [(''batch_op_id'', JBuffer batch_op_id),
          (''caller'', JString caller)])"

definition emit_min_delay_updated :: "env \<Rightarrow> u64 \<Rightarrow> u64 \<Rightarrow> SorobanEvent" where
  "emit_min_delay_updated env old_delay new_delay =
     publish env [JString ''MinDelayUpdated'']
       (JObject [(''old_delay'', native_u64 old_delay),
          (''new_delay'', native_u64 new_delay)])"

definition emit_dependency_dag_validated :: "env \<Rightarrow> bytes \<Rightarrow> u32 \<Rightarrow> SorobanEvent" where
  "emit_dependency_dag_validated env batch_op_id op_count =
     publish env [JString ''DependencyDagValidated'']
       (JArray [JBuffer batch_op_id, native_u32 op_count])"

definition emit_cycle_detected :: "env \<Rightarrow> bytes list \<Rightarrow> SorobanEvent" where
  "emit_cycle_detected env cycle_path =
     publish env [JString ''CycleDetected'']
       (native_vec JBuffer cycle_path)"

definition emit_partial_batch_started :: "env \<Rightarrow> bytes \<Rightarrow> u32 \<Rightarrow> SorobanEvent" where
  "emit_partial_batch_started env batch_op_id total_ops =
     publish env [JString ''PartialBatchStarted'']
       (JArray [JBuffer batch_op_id, native_u32 total_ops])"

definition emit_partial_op_succeeded :: "env \<Rightarrow> bytes \<Rightarrow> bytes \<Rightarrow> u32 \<Rightarrow> u32 \<Rightarrow> SorobanEvent" where
  "emit_partial_op_succeeded env batch_op_id op_id completed total' =
     publish env [JString ''PartialOpSucceeded'']
       (JArray [JBuffer batch_op_id, JBuffer op_id, native_u32 completed, native_u32 total'])"

definition emit_partial_op_failed :: "env \<Rightarrow> bytes \<Rightarrow> bytes \<Rightarrow> SorobanEvent" where
  "emit_partial_op_failed env batch_op_id op_id =
     publish env [JString ''PartialOpFailed'']
       (JArray [JBuffer batch_op_id, JBuffer op_id])"

definition emit_batch_recovery_entered :: "env \<Rightarrow> bytes \<Rightarrow> u32 \<Rightarrow> SorobanEvent" where
  "emit_batch_recovery_entered env batch_op_id recovery_deadline =
     publish env [JString ''BatchRecoveryEntered'']
       (JArray [JBuffer batch_op_id, native_u32 recovery_deadline])"

definition emit_failed_op_retried :: "env \<Rightarrow> bytes \<Rightarrow> bytes \<Rightarrow> u32 \<Rightarrow> bool \<Rightarrow> SorobanEvent" where
  "emit_failed_op_retried env batch_op_id op_id retry_count succeeded =
     publish env [JString ''FailedOpRetried'']
       (JArray [JBuffer batch_op_id, JBuffer op_id, native_u32 retry_count, JBoolean succeeded])"

definition emit_failed_op_skipped :: "env \<Rightarrow> bytes \<Rightarrow> bytes \<Rightarrow> SorobanEvent" where
  "emit_failed_op_skipped env batch_op_id op_id =
     publish env [JString ''FailedOpSkipped'']
       (JArray [JBuffer batch_op_id, JBuffer op_id])"

definition emit_batch_fully_complete :: "env \<Rightarrow> bytes \<Rightarrow> SorobanEvent" where
  "emit_batch_fully_complete env batch_op_id =
     publish env [JString ''BatchFullyComplete'']
       (JBuffer batch_op_id)"

subsection \<open>Drafts, signed delegation, anchors\<close>

definition emit_draft_created :: "env \<Rightarrow> u64 \<Rightarrow> string \<Rightarrow> bytes \<Rightarrow> string \<Rightarrow> u32 \<Rightarrow> u32 \<Rightarrow> SorobanEvent" where
  "emit_draft_created env draft_id creator description_hash metadata_uri created_ledger expiry_ledger =
     publish env [JString ''DraftCreated'', JString creator]
       (JObject [(''draft_id'', native_u64 draft_id),
          (''creator'', JString creator),
          (''description_hash'', JBuffer description_hash),
          (''metadata_uri'', JString metadata_uri),
          (''created_ledger'', native_u32 created_ledger),
          (''expiry_ledger'', native_u32 expiry_ledger)])"

definition emit_co_sponsored :: "env \<Rightarrow> u64 \<Rightarrow> string \<Rightarrow> i128 \<Rightarrow> i128 \<Rightarrow> SorobanEvent" where
  "emit_co_sponsored env draft_id sponsor power' total_power =
     publish env [JString ''CoSponsored'', JString sponsor]
       (JArray [native_u64 draft_id, native_i128 power', native_i128 total_power])"

definition emit_co_sponsorship_withdrawn :: "env \<Rightarrow> u64 \<Rightarrow> string \<Rightarrow> i128 \<Rightarrow> i128 \<Rightarrow> SorobanEvent" where
  "emit_co_sponsorship_withdrawn env draft_id sponsor power' total_power =
     publish env [JString ''CoSponsorshipWithdrawn'', JString sponsor]
       (JArray [native_u64 draft_id, native_i128 power', native_i128 total_power])"

definition emit_draft_finalized :: "env \<Rightarrow> u64 \<Rightarrow> u64 \<Rightarrow> SorobanEvent" where
  "emit_draft_finalized env draft_id proposal_id =
     publish env [JString ''DraftFinalized'']
       (JArray [native_u64 draft_id, native_u64 proposal_id])"

definition emit_draft_cancelled :: "env \<Rightarrow> u64 \<Rightarrow> string \<Rightarrow> SorobanEvent" where
  "emit_draft_cancelled env draft_id caller =
     publish env [JString ''DraftCancelled'']
       (JArray [native_u64 draft_id, JString caller])"

definition emit_draft_expired :: "env \<Rightarrow> u64 \<Rightarrow> u32 \<Rightarrow> SorobanEvent" where
  "emit_draft_expired env draft_id expired_at_ledger =
     publish env [JString ''DraftExpired'']
       (JArray [native_u64 draft_id, native_u32 expired_at_ledger])"

definition emit_delegated_by_sig :: "env \<Rightarrow> string \<Rightarrow> string \<Rightarrow> string \<Rightarrow> u64 \<Rightarrow> SorobanEvent" where
  "emit_delegated_by_sig env delegator delegatee relayer nonce =
     publish env [JString ''DelegatedBySig'', JString delegator]
       (JObject [(''delegator'', JString delegator),
          (''delegatee'', JString delegatee),
          (''relayer'', JString relayer),
          (''nonce'', native_u64 nonce)])"

definition emit_permits_invalidated :: "env \<Rightarrow> string \<Rightarrow> u64 \<Rightarrow> SorobanEvent" where
  "emit_permits_invalidated env delegator new_nonce =
     publish env [JString ''PermitsInvalidated'', JString delegator]
       (JObject [(''delegator'', JString delegator),
          (''new_nonce'', native_u64 new_nonce)])"

definition emit_relayer_whitelist_updated :: "env \<Rightarrow> string \<Rightarrow> bool \<Rightarrow> SorobanEvent" where
  "emit_relayer_whitelist_updated env relayer whitelisted =
     publish env [JString ''RelayerWhitelistUpdated'', JString relayer]
       (JObject [(''relayer'', JString relayer),
          (''whitelisted'', JBoolean whitelisted)])"

definition emit_result_anchored :: "env \<Rightarrow> u64 \<Rightarrow> bytes \<Rightarrow> u32 \<Rightarrow> string \<Rightarrow> SorobanEvent" where
  "emit_result_anchored env poll_id result_hash anchored_ledger anchorer =
     publish env [JString ''ResultAnchored'', JString anchorer]
       (JArray [native_u64 poll_id, JBuffer result_hash, native_u32 anchored_ledger])"

subsection \<open>Budget streams, escrow, rewards\<close>

definition emit_stream_created :: "env \<Rightarrow> u64 \<Rightarrow> string \<Rightarrow> string \<Rightarrow> SorobanEvent" where
  "emit_stream_created env stream_id name owner =
     publish env [JString ''stream_created'']
       (JArray [native_u64 stream_id, JString name, JString owner])"

definition emit_stream_spend :: "env \<Rightarrow> u64 \<Rightarrow> string \<Rightarrow> i128 \<Rightarrow> SorobanEvent" where
  "emit_stream_spend env stream_id recipient amount =
     publish env [JString ''stream_spend'']
       (JArray [native_u64 stream_id, JString recipient, native_i128 amount])"

definition emit_stream_batch_spend :: "env \<Rightarrow> u64 \<Rightarrow> i128 \<Rightarrow> u32 \<Rightarrow> SorobanEvent" where
  "emit_stream_batch_spend env stream_id total_amount recipient_count =
     publish env [JString ''stream_batch'']
       (JArray [native_u64 stream_id, native_i128 total_amount, native_u32 recipient_count])"

definition emit_stream_revoked :: "env \<Rightarrow> u64 \<Rightarrow> string \<Rightarrow> i128 \<Rightarrow> SorobanEvent" where
  "emit_stream_revoked env stream_id caller unspent_returned =
     publish env [JString ''stream_revoked'']
       (JArray [native_u64 stream_id, JString caller, native_i128 unspent_returned])"

definition emit_stream_extended :: "env \<Rightarrow> u64 \<Rightarrow> u32 \<Rightarrow> u32 \<Rightarrow> SorobanEvent" where
  "emit_stream_extended env stream_id old_end new_end =
     publish env [JString ''stream_extended'']
       (JArray [native_u64 stream_id, native_u32 old_end, native_u32 new_end])"

definition emit_stream_topped_up :: "env \<Rightarrow> u64 \<Rightarrow> i128 \<Rightarrow> i128 \<Rightarrow> SorobanEvent" where
  "emit_stream_topped_up env stream_id additional new_total =
     publish env [JString ''stream_topped_up'']
       (JArray [native_u64 stream_id, native_i128 additional, native_i128 new_total])"

definition emit_stream_exhausted :: "env \<Rightarrow> u64 \<Rightarrow> SorobanEvent" where
  "emit_stream_exhausted env stream_id =
     publish env [JString ''stream_exhausted'']
       (native_u64 stream_id)"

definition emit_lock_created :: "env \<Rightarrow> string \<Rightarrow> i128 \<Rightarrow> u32 \<Rightarrow> i128 \<Rightarrow> SorobanEvent" where
  "emit_lock_created env owner amount end_ledger initial_voting_power =
     publish env [JString ''LockCreated'', JString owner]
       (JObject [(''owner'', JString owner),
          (''amount'', native_i128 amount),
          (''end_ledger'', native_u32 end_ledger),
          (''initial_voting_power'', native_i128 initial_voting_power)])"

definition emit_lock_increased :: "env \<Rightarrow> string \<Rightarrow> i128 \<Rightarrow> i128 \<Rightarrow> SorobanEvent" where
  "emit_lock_increased env owner added_amount new_voting_power =
     publish env [JString ''LockIncreased'', JString owner]
       (JObject [(''owner'', JString owner),
          (''added_amount'', native_i128 added_amount),
          (''new_voting_power'', native_i128 new_voting_power)])"

definition emit_lock_extended :: "env \<Rightarrow> string \<Rightarrow> u32 \<Rightarrow> u32 \<Rightarrow> SorobanEvent" where
  "emit_lock_extended env owner old_end_ledger new_end_ledger =
     publish env [JString ''LockExtended'', JString owner]
       (JObject [(''owner'', JString owner),
          (''old_end_ledger'', native_u32 old_end_ledger),
          (''new_end_ledger'', native_u32 new_end_ledger)])"

definition emit_lock_withdrawn :: "env \<Rightarrow> string \<Rightarrow> i128 \<Rightarrow> SorobanEvent" where
  "emit_lock_withdrawn env owner amount =
     publish env [JString ''LockWithdrawn'', JString owner]
       (JObject [(''owner'', JString owner), (''amount'', native_i128 amount)])"

definition emit_epoch_started :: "env \<Rightarrow> u64 \<Rightarrow> u32 \<Rightarrow> u32 \<Rightarrow> SorobanEvent" where
  "emit_epoch_started env epoch_id start_ledger end_ledger =
     publish env [JString ''EpochStarted'', native_u64 epoch_id]
       (JArray [native_u32 start_ledger, native_u32 end_ledger])"

definition emit_epoch_root_published :: "env \<Rightarrow> u64 \<Rightarrow> bytes \<Rightarrow> i128 \<Rightarrow> SorobanEvent" where
  "emit_epoch_root_published env epoch_id merkle_root total_reward_amount =
     publish env [JString ''EpochRootPublished'', native_u64 epoch_id]
       (JArray [JBuffer merkle_root, native_i128 total_reward_amount])"

definition emit_reward_claimed :: "env \<Rightarrow> u64 \<Rightarrow> string \<Rightarrow> i128 \<Rightarrow> SorobanEvent" where
  "emit_reward_claimed env epoch_id claimant amount =
     publish env [JString ''RewardClaimed'', JString claimant]
       (JArray [native_u64 epoch_id, native_i128 amount])"

definition emit_pool_funded :: "env \<Rightarrow> string \<Rightarrow> i128 \<Rightarrow> SorobanEvent" where
  "emit_pool_funded env funder amount =
     publish env [JString ''PoolFunded'', JString funder]
       (native_i128 amount)"

subsection \<open>Reading back\<close>

lemma string_or_empty_simps [simp]:
  "string_or_empty (JString s) = s" "string_or_empty JUndefined = []" "string_or_empty JNull = []"
  "string_or_empty (JBuffer bs) = utf8_text bs"
  by (simp_all add: string_or_empty_def)

lemma conversion_simps [simp]:
  "toBigInt (JBigint n) = Some n" "toNumber (JNumber n) = Some (Finite (of_int n))"
  "toHex (JBuffer bs) = to_hex bs" "js_Boolean (JBoolean b) = b"
  "array_or_empty (JArray vs) = vs"
  by (simp_all add: toBigInt_def toNumber_def toHex_def js_Boolean_def array_or_empty_def)

lemma toHex_vector: "map (toHex \<circ> JBuffer) bss = map to_hex bss"
  by simp

lemma text_vector: "map (js_String \<circ> JString) ss = ss"
  by (simp add: comp_def)

lemma topic_at_publish [simp]:
  "topic_at (publish env topics data) i =
     (if i < length topics then JString (js_String (topics ! i)) else JUndefined)"
  by (simp add: topic_at_def publish_def)

lemma publish_simps [simp]:
  "ev_value (publish env topics data) = data" "ev_ledger (publish env topics data) = uint (env_sequence env)"
  "ev_contractId (publish env topics data) = env_contract env"
  by (simp_all add: publish_def)

lemmas native_defs = native_u32_def native_i32_def native_u64_def native_i128_def native_vec_def native_option_def

lemmas emit_defs =
  emit_proposal_created_def emit_config_updated_def emit_cancelled_from_queue_def emit_vote_cast_def
  emit_exbatch_def emit_guardian_changed_def emit_pauser_changed_def emit_vote_committed_def
  emit_vote_revealed_def emit_commit_phase_started_def
  emit_vote_cast_with_reason_def emit_proposal_queued_def emit_proposal_executed_def
  emit_proposal_cancelled_def emit_proposal_expired_def emit_governor_upgraded_def emit_paused_def
  emit_unpaused_def emit_reputation_updated_def emit_effective_threshold_changed_def
  emit_operation_scheduled_def emit_operation_executed_def emit_operation_cancelled_def
  emit_batch_operation_scheduled_def emit_batch_operation_executed_def emit_batch_operation_cancelled_def
  emit_min_delay_updated_def emit_dependency_dag_validated_def emit_cycle_detected_def
  emit_partial_batch_started_def emit_partial_op_succeeded_def emit_partial_op_failed_def
  emit_batch_recovery_entered_def emit_failed_op_retried_def emit_failed_op_skipped_def
  emit_batch_fully_complete_def emit_draft_created_def emit_co_sponsored_def emit_co_sponsorship_withdrawn_def
  emit_draft_finalized_def emit_draft_cancelled_def emit_draft_expired_def emit_delegated_by_sig_def
  emit_permits_invalidated_def emit_relayer_whitelist_updated_def emit_result_anchored_def
  emit_stream_created_def emit_stream_spend_def emit_stream_batch_spend_def emit_stream_revoked_def
  emit_stream_extended_def emit_stream_topped_up_def emit_stream_exhausted_def emit_lock_created_def
  emit_lock_increased_def emit_lock_extended_def emit_lock_withdrawn_def emit_epoch_started_def
  emit_epoch_root_published_def emit_reward_claimed_def emit_pool_funded_def

lemmas parse_defs =
  parseProposalCreatedEvent_def parseVoteCastEvent_def parseVoteCastWithReasonEvent_def
  parseProposalQueuedEvent_def parseProposalExecutedEvent_def parseProposalCancelledEvent_def
  parseProposalExpiredEvent_def parseGovernorUpgradedEvent_def parseConfigUpdatedEvent_def
  parseReputationUpdatedEvent_def parseEffectiveThresholdChangedEvent_def parsePauseEvent_def
  parseUnpauseEvent_def parseProposalVetoedEvent_def parseDraftCreatedEvent_def parseCoSponsoredEvent_def
  parseCoSponsorshipWithdrawnEvent_def parseDraftFinalizedEvent_def parseDraftCancelledEvent_def
  parseDraftExpiredEvent_def parseDelegatedBySigEvent_def parsePermitsInvalidatedEvent_def
  parseRelayerWhitelistUpdatedEvent_def parseStreamCreatedEvent_def parseStreamSpendEvent_def
  parseStreamBatchSpendEvent_def parseStreamRevokedEvent_def parseStreamExtendedEvent_def
  parseStreamToppedUpEvent_def parseStreamExhaustedEvent_def parseStreamExpiredEvent_def
  parseOperationScheduledEvent_def parseOperationExecutedEvent_def parseOperationCancelledEvent_def
  parseBatchOperationScheduledEvent_def parseBatchOperationExecutedEvent_def
  parseBatchOperationCancelledEvent_def parseMinDelayUpdatedEvent_def parseDependencyDagValidatedEvent_def
  parseCycleDetectedEvent_def parsePartialBatchStartedEvent_def parsePartialOpSucceededEvent_def
  parsePartialOpFailedEvent_def parseBatchRecoveryEnteredEvent_def parseFailedOpRetriedEvent_def
  parseFailedOpSkippedEvent_def parseBatchFullyCompleteEvent_def parseResultAnchoredEvent_def
  parseLockCreatedEvent_def parseLockIncreasedEvent_def parseLockExtendedEvent_def parseLockWithdrawnEvent_def
  parseEpochStartedEvent_def parseEpochRootPublishedEvent_def parseRewardClaimedEvent_def
  parsePoolFundedEvent_def

text \<open>A decimal numeral is read as the number it shows.\<close>

lemma digits_value_10:
  assumes "\<And>c. c \<in> set s \<Longrightarrow> is_digit c"
  shows "digits_value 10 acc s = Some (foldl (\<lambda>n c. 10 * n + (of_char c - 48)) acc s)"
  using assms
proof (induction s arbitrary: acc)
  case (Cons c s)
  then have "is_digit c" by simp
  then have "digit_value 10 c = Some (of_char c - 48)" by (auto simp: digit_value_def is_digit_def Let_def)
  with Cons show ?case by simp
qed simp

lemma trim_id:
  assumes "s \<noteq> []" "\<not> is_space (hd s)" "\<not> is_space (last s)"
  shows "trim s = s"
proof -
  have "dropWhile is_space s = s" using assms(1,2) by (cases s) auto
  moreover have "dropWhile is_space (rev s) = rev s"
    using assms(1,3) by (cases s rule: rev_cases) auto
  ultimately show ?thesis by (simp add: trim_def)
qed

lemma digit_not_special:
  assumes "is_digit c"
  shows "\<not> is_space c" "c \<noteq> CHR ''-''" "c \<noteq> CHR ''+''" "c \<noteq> CHR ''x''" "c \<noteq> CHR ''X''"
    "c \<noteq> CHR ''o''" "c \<noteq> CHR ''O''" "c \<noteq> CHR ''b''" "c \<noteq> CHR ''B''"
  using assms by (auto simp: is_digit_def is_space_def Let_def)

lemma prefixed_numeral_digits:
  assumes "\<And>c. c \<in> set (tl s) \<Longrightarrow> is_digit c"
  shows "prefixed_numeral s = None"
proof (cases s)
  case (Cons z t)
  show ?thesis
  proof (cases t)
    case (Cons x rest)
    then have "is_digit x" using assms \<open>s = z # t\<close> by simp
    from digit_not_special [OF this] show ?thesis using Cons \<open>s = z # t\<close> by (simp add: prefixed_numeral_def)
  qed (simp add: Cons prefixed_numeral_def)
qed (simp add: prefixed_numeral_def)

lemma unsigned_numeral_dec_nat: "unsigned_numeral 10 (dec_nat n) = Some n"
  using digits_value_10 [of "dec_nat n" 0] parse_dec_nat [of n]
  by (simp add: unsigned_numeral_def dec_nat_nonempty parse_nat_def dec_nat_digits)

lemma string_to_bigint_dec_int: "string_to_bigint (dec_int i) = Some i"
proof (cases "i < 0")
  case True
  let ?s = "dec_nat (nat (- i))"
  have "last ?s \<in> set ?s" using dec_nat_nonempty by simp
  then have "\<not> is_space (last ?s)" by (rule digit_not_special(1) [OF dec_nat_digits])
  then have "trim (CHR ''-'' # ?s) = CHR ''-'' # ?s"
    using dec_nat_nonempty [of "nat (- i)"] by (intro trim_id) (simp_all add: is_space_def)
  moreover have "prefixed_numeral (CHR ''-'' # ?s) = None"
    by (rule prefixed_numeral_digits) (simp add: dec_nat_digits)
  ultimately show ?thesis
    using True by (simp add: string_to_bigint_def dec_int_def Let_def signed_part_def unsigned_numeral_dec_nat)
next
  case False
  let ?s = "dec_nat (nat i)"
  obtain c t where s: "?s = c # t" using dec_nat_nonempty [of "nat i"] by (cases ?s) auto
  have digits: "is_digit x" if "x \<in> set ?s" for x using that dec_nat_digits by auto
  have "hd ?s \<in> set ?s" "last ?s \<in> set ?s" using dec_nat_nonempty by simp_all
  then have "trim ?s = ?s" using dec_nat_nonempty digit_not_special(1) [OF digits] by (intro trim_id) auto
  moreover have "prefixed_numeral ?s = None"
    using digits s by (intro prefixed_numeral_digits) simp
  moreover have "signed_part ?s = (1, ?s)"
    using digit_not_special [OF digits, of c] s by (simp add: signed_part_def)
  ultimately show ?thesis
    using False dec_nat_nonempty unsigned_numeral_dec_nat [of "nat i"]
    by (simp add: string_to_bigint_def dec_int_def Let_def)
qed

lemma toBigInt_dec_int [simp]: "toBigInt (JString (dec_int i)) = Some i"
  by (simp add: toBigInt_def js_BigInt_def string_to_bigint_dec_int)

text \<open>Every event of the timelock, partial execution of dependent batches included, is read back by its parser with the values of the contract; operation ids come out as the hexadecimal text of their bytes.\<close>

theorem timelock_events_read_back:
  "parseOperationScheduledEvent (emit_operation_scheduled env op_id target fn_name ready_at expires_at) =
      Some \<lparr>operationScheduled_opId = to_hex op_id,
          operationScheduled_target = target,
          operationScheduled_fnName = fn_name,
          operationScheduled_readyAt = uint ready_at,
          operationScheduled_expiresAt = uint expires_at\<rparr> \<and>
   parseOperationExecutedEvent (emit_operation_executed env op_id caller) =
      Some \<lparr>operationExecuted_opId = to_hex op_id, operationExecuted_caller = caller\<rparr> \<and>
   parseOperationCancelledEvent (emit_operation_cancelled env op_id caller) =
      Some \<lparr>operationCancelled_opId = to_hex op_id, operationCancelled_caller = caller\<rparr> \<and>
   parseBatchOperationScheduledEvent (emit_batch_operation_scheduled env batch_op_id targets fn_names ready_at expires_at) =
      Some \<lparr>batchOperationScheduled_batchOpId = to_hex batch_op_id,
          batchOperationScheduled_targets = targets,
          batchOperationScheduled_fnNames = fn_names,
          batchOperationScheduled_readyAt = uint ready_at,
          batchOperationScheduled_expiresAt = uint expires_at\<rparr> \<and>
   parseBatchOperationExecutedEvent (emit_batch_operation_executed env batch_op_id caller) =
      Some \<lparr>batchOperationExecuted_batchOpId = to_hex batch_op_id,
          batchOperationExecuted_caller = caller\<rparr> \<and>
   parseBatchOperationCancelledEvent (emit_batch_operation_cancelled env batch_op_id caller) =
      Some \<lparr>batchOperationCancelled_batchOpId = to_hex batch_op_id,
          batchOperationCancelled_caller = caller\<rparr> \<and>
   parseMinDelayUpdatedEvent (emit_min_delay_updated env old_delay new_delay) =
      Some \<lparr>minDelayUpdated_oldDelay = uint old_delay, minDelayUpdated_newDelay = uint new_delay\<rparr> \<and>
   parseDependencyDagValidatedEvent (emit_dependency_dag_validated env batch_op_id op_count) =
      Some \<lparr>dependencyDagValidated_batchOpId = to_hex batch_op_id,
          dependencyDagValidated_opCount = Finite (of_int (uint op_count))\<rparr> \<and>
   parseCycleDetectedEvent (emit_cycle_detected env cycle_path) =
      Some \<lparr>cycleDetected_cyclePath = map to_hex cycle_path\<rparr> \<and>
   parsePartialBatchStartedEvent (emit_partial_batch_started env batch_op_id total_ops) =
      Some \<lparr>partialBatchStarted_batchOpId = to_hex batch_op_id,
          partialBatchStarted_totalOps = Finite (of_int (uint total_ops))\<rparr> \<and>
   parsePartialOpSucceededEvent (emit_partial_op_succeeded env batch_op_id op_id completed total') =
      Some \<lparr>partialOpSucceeded_batchOpId = to_hex batch_op_id,
          partialOpSucceeded_opId = to_hex op_id,
          partialOpSucceeded_completed = Finite (of_int (uint completed)),
          partialOpSucceeded_total = Finite (of_int (uint total'))\<rparr> \<and>
   parsePartialOpFailedEvent (emit_partial_op_failed env batch_op_id op_id) =
      Some \<lparr>partialOpFailed_batchOpId = to_hex batch_op_id, partialOpFailed_opId = to_hex op_id\<rparr> \<and>
   parseBatchRecoveryEnteredEvent (emit_batch_recovery_entered env batch_op_id recovery_deadline) =
      Some \<lparr>batchRecoveryEntered_batchOpId = to_hex batch_op_id,
          batchRecoveryEntered_recoveryDeadline = Finite (of_int (uint recovery_deadline))\<rparr> \<and>
   parseFailedOpRetriedEvent (emit_failed_op_retried env batch_op_id op_id retry_count succeeded) =
      Some \<lparr>failedOpRetried_batchOpId = to_hex batch_op_id,
          failedOpRetried_opId = to_hex op_id,
          failedOpRetried_retryCount = Finite (of_int (uint retry_count)),
          failedOpRetried_succeeded = succeeded\<rparr> \<and>
   parseFailedOpSkippedEvent (emit_failed_op_skipped env batch_op_id op_id) =
      Some \<lparr>failedOpSkipped_batchOpId = to_hex batch_op_id, failedOpSkipped_opId = to_hex op_id\<rparr> \<and>
   parseBatchFullyCompleteEvent (emit_batch_fully_complete env batch_op_id) =
      Some \<lparr>batchFullyComplete_batchOpId = to_hex batch_op_id\<rparr>"
  by (simp add: emit_defs parse_defs native_defs text_vector comp_def)

text \<open>The events of co-sponsorship drafts, signed delegation and the signal anchor are read back with the values of the contract; sponsor, delegator and anchorer come from the topics or the body.\<close>

theorem draft_and_delegation_events_read_back:
  "parseDraftCreatedEvent (emit_draft_created env draft_id creator description_hash metadata_uri created_ledger expiry_ledger) =
      Some \<lparr>draftCreated_draftId = uint draft_id,
          draftCreated_creator = creator,
          draftCreated_descriptionHash = to_hex description_hash,
          draftCreated_metadataUri = metadata_uri,
          draftCreated_createdLedger = Finite (of_int (uint created_ledger)),
          draftCreated_expiryLedger = Finite (of_int (uint expiry_ledger))\<rparr> \<and>
   parseCoSponsoredEvent (emit_co_sponsored env draft_id sponsor power' total_power) =
      Some \<lparr>coSponsored_draftId = uint draft_id,
          coSponsored_sponsor = sponsor,
          coSponsored_power = sint power',
          coSponsored_totalPower = sint total_power\<rparr> \<and>
   parseCoSponsorshipWithdrawnEvent (emit_co_sponsorship_withdrawn env draft_id sponsor power' total_power) =
      Some \<lparr>coSponsorshipWithdrawn_draftId = uint draft_id,
          coSponsorshipWithdrawn_sponsor = sponsor,
          coSponsorshipWithdrawn_power = sint power',
          coSponsorshipWithdrawn_totalPower = sint total_power\<rparr> \<and>
   parseDraftFinalizedEvent (emit_draft_finalized env draft_id proposal_id) =
      Some \<lparr>draftFinalized_draftId = uint draft_id, draftFinalized_proposalId = uint proposal_id\<rparr> \<and>
   parseDraftCancelledEvent (emit_draft_cancelled env draft_id caller) =
      Some \<lparr>draftCancelled_draftId = uint draft_id, draftCancelled_caller = caller\<rparr> \<and>
   parseDraftExpiredEvent (emit_draft_expired env draft_id expired_at_ledger) =
      Some \<lparr>draftExpired_draftId = uint draft_id,
          draftExpired_expiredAtLedger = Finite (of_int (uint expired_at_ledger))\<rparr> \<and>
   parseDelegatedBySigEvent (emit_delegated_by_sig env delegator delegatee relayer nonce) =
      Some \<lparr>delegatedBySig_delegator = delegator,
          delegatedBySig_delegatee = delegatee,
          delegatedBySig_relayer = relayer,
          delegatedBySig_nonce = uint nonce\<rparr> \<and>
   parsePermitsInvalidatedEvent (emit_permits_invalidated env delegator new_nonce) =
      Some \<lparr>permitsInvalidated_delegator = delegator, permitsInvalidated_newNonce = uint new_nonce\<rparr> \<and>
   parseRelayerWhitelistUpdatedEvent (emit_relayer_whitelist_updated env relayer whitelisted) =
      Some \<lparr>relayerWhitelistUpdated_relayer = relayer,
          relayerWhitelistUpdated_whitelisted = whitelisted\<rparr> \<and>
   parseResultAnchoredEvent (emit_result_anchored env poll_id result_hash anchored_ledger anchorer) =
      Some \<lparr>resultAnchored_pollId = uint poll_id,
          resultAnchored_resultHash = to_hex result_hash,
          resultAnchored_anchoredLedger = Finite (of_int (uint anchored_ledger)),
          resultAnchored_anchorer = anchorer\<rparr>"
  by (simp add: emit_defs parse_defs native_defs)

text \<open>The events of budget streams, the vote escrow and the voting rewards are read back with the values of the contract; the id of an epoch survives the trip through the text of a topic.\<close>

theorem fund_events_read_back:
  "parseStreamCreatedEvent (emit_stream_created env stream_id name owner) =
      Some \<lparr>streamCreated_streamId = uint stream_id,
          streamCreated_name = name,
          streamCreated_owner = owner\<rparr> \<and>
   parseStreamSpendEvent (emit_stream_spend env stream_id recipient amount) =
      Some \<lparr>streamSpend_streamId = uint stream_id,
          streamSpend_recipient = recipient,
          streamSpend_amount = sint amount\<rparr> \<and>
   parseStreamBatchSpendEvent (emit_stream_batch_spend env stream_id total_amount recipient_count) =
      Some \<lparr>streamBatchSpend_streamId = uint stream_id,
          streamBatchSpend_totalAmount = sint total_amount,
          streamBatchSpend_recipientCount = Finite (of_int (uint recipient_count))\<rparr> \<and>
   parseStreamRevokedEvent (emit_stream_revoked env stream_id caller unspent_returned) =
      Some \<lparr>streamRevoked_streamId = uint stream_id,
          streamRevoked_caller = caller,
          streamRevoked_unspentReturned = sint unspent_returned\<rparr> \<and>
   parseStreamExtendedEvent (emit_stream_extended env stream_id old_end new_end) =
      Some \<lparr>streamExtended_streamId = uint stream_id,
          streamExtended_oldEnd = Finite (of_int (uint old_end)),
          streamExtended_newEnd = Finite (of_int (uint new_end))\<rparr> \<and>
   parseStreamToppedUpEvent (emit_stream_topped_up env stream_id additional new_total) =
      Some \<lparr>streamToppedUp_streamId = uint stream_id,
          streamToppedUp_additional = sint additional,
          streamToppedUp_newTotal = sint new_total\<rparr> \<and>
   parseStreamExhaustedEvent (emit_stream_exhausted env stream_id) =
      Some \<lparr>streamExhausted_streamId = uint stream_id\<rparr> \<and>
   parseLockCreatedEvent (emit_lock_created env owner amount end_ledger initial_voting_power) =
      Some \<lparr>lockCreated_owner = owner,
          lockCreated_amount = sint amount,
          lockCreated_endLedger = Finite (of_int (uint end_ledger)),
          lockCreated_initialVotingPower = sint initial_voting_power\<rparr> \<and>
   parseLockIncreasedEvent (emit_lock_increased env owner added_amount new_voting_power) =
      Some \<lparr>lockIncreased_owner = owner,
          lockIncreased_addedAmount = sint added_amount,
          lockIncreased_newVotingPower = sint new_voting_power\<rparr> \<and>
   parseLockExtendedEvent (emit_lock_extended env owner old_end_ledger new_end_ledger) =
      Some \<lparr>lockExtended_owner = owner,
          lockExtended_oldEndLedger = Finite (of_int (uint old_end_ledger)),
          lockExtended_newEndLedger = Finite (of_int (uint new_end_ledger))\<rparr> \<and>
   parseLockWithdrawnEvent (emit_lock_withdrawn env owner amount) =
      Some \<lparr>lockWithdrawn_owner = owner, lockWithdrawn_amount = sint amount\<rparr> \<and>
   parseEpochStartedEvent (emit_epoch_started env epoch_id start_ledger end_ledger) =
      Some \<lparr>epochStarted_epochId = uint epoch_id,
          epochStarted_startLedger = Finite (of_int (uint start_ledger)),
          epochStarted_endLedger = Finite (of_int (uint end_ledger))\<rparr> \<and>
   parseEpochRootPublishedEvent (emit_epoch_root_published env epoch_id merkle_root total_reward_amount) =
      Some \<lparr>epochRootPublished_epochId = uint epoch_id,
          epochRootPublished_merkleRoot = to_hex merkle_root,
          epochRootPublished_totalRewardAmount = sint total_reward_amount\<rparr> \<and>
   parseRewardClaimedEvent (emit_reward_claimed env epoch_id claimant amount) =
      Some \<lparr>rewardClaimed_claimant = claimant,
          rewardClaimed_epochId = uint epoch_id,
          rewardClaimed_amount = sint amount\<rparr> \<and>
   parsePoolFundedEvent (emit_pool_funded env funder amount) =
      Some \<lparr>poolFunded_funder = funder, poolFunded_amount = sint amount\<rparr>"
  by (simp add: emit_defs parse_defs native_defs toBigInt_dec_int)

subsection \<open>One parser per event\<close>

text \<open>All the parsers of the file, each with the topics of its events.\<close>

definition parsers :: "(string \<times> string list \<times> (SorobanEvent \<Rightarrow> bool)) list" where
  "parsers =
     [(''ProposalCreated'', [''prop_crtd'', ''ProposalCreated''], \<lambda>event. parseProposalCreatedEvent event \<noteq> None),
      (''VoteCast'', [''vote'', ''VoteCast''], \<lambda>event. parseVoteCastEvent event \<noteq> None),
      (''VoteCastWithReason'', [''VoteCastWithReason''], \<lambda>event. parseVoteCastWithReasonEvent event \<noteq> None),
      (''ProposalQueued'', [''ProposalQueued''], \<lambda>event. parseProposalQueuedEvent event \<noteq> None),
      (''ProposalExecuted'', [''execute'', ''ProposalExecuted''], \<lambda>event. parseProposalExecutedEvent event \<noteq> None),
      (''ProposalCancelled'', [''ProposalCancelled''], \<lambda>event. parseProposalCancelledEvent event \<noteq> None),
      (''ProposalExpired'', [''ProposalExpired''], \<lambda>event. parseProposalExpiredEvent event \<noteq> None),
      (''GovernorUpgraded'', [''GovernorUpgraded''], \<lambda>event. parseGovernorUpgradedEvent event \<noteq> None),
      (''ConfigUpdated'', [''ConfigUpdated''], \<lambda>event. parseConfigUpdatedEvent event \<noteq> None),
      (''ReputationUpdated'', [''ReputationUpdated''], \<lambda>event. parseReputationUpdatedEvent event \<noteq> None),
      (''EffectiveThresholdChanged'', [''EffectiveThresholdChanged''], \<lambda>event. parseEffectiveThresholdChangedEvent event \<noteq> None),
      (''Pause'', [''Paused''], \<lambda>event. parsePauseEvent event \<noteq> None),
      (''Unpause'', [''Unpaused''], \<lambda>event. parseUnpauseEvent event \<noteq> None),
      (''ProposalVetoed'', [''veto''], \<lambda>event. parseProposalVetoedEvent event \<noteq> None),
      (''DraftCreated'', [''DraftCreated''], \<lambda>event. parseDraftCreatedEvent event \<noteq> None),
      (''CoSponsored'', [''CoSponsored''], \<lambda>event. parseCoSponsoredEvent event \<noteq> None),
      (''CoSponsorshipWithdrawn'', [''CoSponsorshipWithdrawn''], \<lambda>event. parseCoSponsorshipWithdrawnEvent event \<noteq> None),
      (''DraftFinalized'', [''DraftFinalized''], \<lambda>event. parseDraftFinalizedEvent event \<noteq> None),
      (''DraftCancelled'', [''DraftCancelled''], \<lambda>event. parseDraftCancelledEvent event \<noteq> None),
      (''DraftExpired'', [''DraftExpired''], \<lambda>event. parseDraftExpiredEvent event \<noteq> None),
      (''DelegatedBySig'', [''DelegatedBySig''], \<lambda>event. parseDelegatedBySigEvent event \<noteq> None),
      (''PermitsInvalidated'', [''PermitsInvalidated''], \<lambda>event. parsePermitsInvalidatedEvent event \<noteq> None),
      (''RelayerWhitelistUpdated'', [''RelayerWhitelistUpdated''], \<lambda>event. parseRelayerWhitelistUpdatedEvent event \<noteq> None),
      (''StreamCreated'', [''stream_created''], \<lambda>event. parseStreamCreatedEvent event \<noteq> None),
      (''StreamSpend'', [''stream_spend''], \<lambda>event. parseStreamSpendEvent event \<noteq> None),
      (''StreamBatchSpend'', [''stream_batch''], \<lambda>event. parseStreamBatchSpendEvent event \<noteq> None),
      (''StreamRevoked'', [''stream_revoked''], \<lambda>event. parseStreamRevokedEvent event \<noteq> None),
      (''StreamExtended'', [''stream_extended''], \<lambda>event. parseStreamExtendedEvent event \<noteq> None),
      (''StreamToppedUp'', [''stream_topped_up''], \<lambda>event. parseStreamToppedUpEvent event \<noteq> None),
      (''StreamExhausted'', [''stream_exhausted''], \<lambda>event. parseStreamExhaustedEvent event \<noteq> None),
      (''StreamExpired'', [''stream_expired''], \<lambda>event. parseStreamExpiredEvent event \<noteq> None),
      (''OperationScheduled'', [''OperationScheduled''], \<lambda>event. parseOperationScheduledEvent event \<noteq> None),
      (''OperationExecuted'', [''OperationExecuted''], \<lambda>event. parseOperationExecutedEvent event \<noteq> None),
      (''OperationCancelled'', [''OperationCancelled''], \<lambda>event. parseOperationCancelledEvent event \<noteq> None),
      (''BatchOperationScheduled'', [''BatchOperationScheduled''], \<lambda>event. parseBatchOperationScheduledEvent event \<noteq> None),
      (''BatchOperationExecuted'', [''BatchOperationExecuted''], \<lambda>event. parseBatchOperationExecutedEvent event \<noteq> None),
      (''BatchOperationCancelled'', [''BatchOperationCancelled''], \<lambda>event. parseBatchOperationCancelledEvent event \<noteq> None),
      (''MinDelayUpdated'', [''MinDelayUpdated''], \<lambda>event. parseMinDelayUpdatedEvent event \<noteq> None),
      (''DependencyDagValidated'', [''DependencyDagValidated''], \<lambda>event. parseDependencyDagValidatedEvent event \<noteq> None),
      (''CycleDetected'', [''CycleDetected''], \<lambda>event. parseCycleDetectedEvent event \<noteq> None),
      (''PartialBatchStarted'', [''PartialBatchStarted''], \<lambda>event. parsePartialBatchStartedEvent event \<noteq> None),
      (''PartialOpSucceeded'', [''PartialOpSucceeded''], \<lambda>event. parsePartialOpSucceededEvent event \<noteq> None),
      (''PartialOpFailed'', [''PartialOpFailed''], \<lambda>event. parsePartialOpFailedEvent event \<noteq> None),
      (''BatchRecoveryEntered'', [''BatchRecoveryEntered''], \<lambda>event. parseBatchRecoveryEnteredEvent event \<noteq> None),
      (''FailedOpRetried'', [''FailedOpRetried''], \<lambda>event. parseFailedOpRetriedEvent event \<noteq> None),
      (''FailedOpSkipped'', [''FailedOpSkipped''], \<lambda>event. parseFailedOpSkippedEvent event \<noteq> None),
      (''BatchFullyComplete'', [''BatchFullyComplete''], \<lambda>event. parseBatchFullyCompleteEvent event \<noteq> None),
      (''ResultAnchored'', [''ResultAnchored''], \<lambda>event. parseResultAnchoredEvent event \<noteq> None),
      (''LockCreated'', [''LockCreated''], \<lambda>event. parseLockCreatedEvent event \<noteq> None),
      (''LockIncreased'', [''LockIncreased''], \<lambda>event. parseLockIncreasedEvent event \<noteq> None),
      (''LockExtended'', [''LockExtended''], \<lambda>event. parseLockExtendedEvent event \<noteq> None),
      (''LockWithdrawn'', [''LockWithdrawn''], \<lambda>event. parseLockWithdrawnEvent event \<noteq> None),
      (''EpochStarted'', [''EpochStarted''], \<lambda>event. parseEpochStartedEvent event \<noteq> None),
      (''EpochRootPublished'', [''EpochRootPublished''], \<lambda>event. parseEpochRootPublishedEvent event \<noteq> None),
      (''RewardClaimed'', [''RewardClaimed''], \<lambda>event. parseRewardClaimedEvent event \<noteq> None),
      (''PoolFunded'', [''PoolFunded''], \<lambda>event. parsePoolFundedEvent event \<noteq> None)]"

definition accepted_by :: "SorobanEvent \<Rightarrow> string list" where
  "accepted_by event = map fst (filter (\<lambda>(name, topics, accepts). accepts event) parsers)"

lemma parser_topics:
  "list_all (\<lambda>(name, topics, accepts). accepts event \<longrightarrow> (\<exists>t\<in>set topics. topic_at event 0 = JString t)) parsers"
  unfolding parsers_def list.pred_inject prod.case
  by (intro conjI impI TrueI; rule ccontr; simp add: parse_defs Let_def)

lemma parser_topics_distinct: "distinct (concat (map (fst \<circ> snd) parsers))"
  by (simp add: parsers_def)

lemma unique_by_key:
  assumes "list_all (\<lambda>(name, keys, holds). holds \<longrightarrow> key \<in> set keys) rows"
    and "distinct (concat (map (fst \<circ> snd) rows))"
  shows "length (filter (\<lambda>(name, keys, holds). holds) rows) \<le> 1"
  using assms
proof (induction rows)
  case (Cons row rows)
  obtain name keys holds where row: "row = (name, keys, holds)" by (cases row)
  have none: "filter (\<lambda>(name, keys, holds). holds) rows = []" if "holds"
  proof -
    have "key \<in> set keys" using Cons.prems(1) that row by simp
    then have "\<not> h" if "(n, ks, h) \<in> set rows" for n ks h
      using Cons.prems that row by (fastforce simp: list_all_iff)
    then show ?thesis by (auto simp: filter_empty_conv)
  qed
  show ?case using Cons none row by (cases holds) auto
qed simp

text \<open>No event is taken by two parsers: whatever the topics and the value of an event are, at most one of the
  parsers of the SDK returns data for it, so that the meaning of an event does not depend on which parser is tried
  first.\<close>

theorem at_most_one_parser: "length (accepted_by event) \<le> 1"
proof -
  let ?rows = "map (\<lambda>(name, topics, accepts). (name, map JString topics, accepts event)) parsers"
  have "list_all (\<lambda>(name, keys, holds). holds \<longrightarrow> topic_at event 0 \<in> set keys) ?rows"
    using parser_topics [of event] by (fastforce simp: list_all_iff)
  moreover have "map (fst \<circ> snd) ?rows = map (map JString) (map (fst \<circ> snd) parsers)"
    by (auto simp: comp_def split: prod.splits)
  then have "distinct (concat (map (fst \<circ> snd) ?rows))"
    using parser_topics_distinct by (simp add: map_concat [symmetric] distinct_map inj_on_def del: map_map)
  ultimately have "length (filter (\<lambda>(name, keys, holds). holds) ?rows) \<le> 1" by (rule unique_by_key)
  then show ?thesis by (simp add: accepted_by_def filter_map comp_def split_def)
qed

subsection \<open>What is lost on the way\<close>

text \<open>The event of a new proposal is read back with the values of the contract, but for the hash of the description:
  its parser takes the 32 bytes as text where every other parser of a byte string writes hexadecimal, so the field is
  the lossy UTF-8 reading of the hash.\<close>

theorem proposal_created_read_back:
  "parseProposalCreatedEvent (emit_proposal_created env p) =
     Some \<lparr>proposalCreated_proposalId = uint (created_id p),
           proposalCreated_proposer = created_proposer p,
           proposalCreated_description = created_description p,
           proposalCreated_descriptionHash = utf8_text (created_description_hash p),
           proposalCreated_metadataUri = created_metadata_uri p,
           proposalCreated_targets = map JString (created_targets p),
           proposalCreated_fnNames = map JString (created_fn_names p),
           proposalCreated_calldatas = map JBuffer (created_calldatas p),
           proposalCreated_startLedger = Finite (of_int (uint (created_start_ledger p))),
           proposalCreated_endLedger = Finite (of_int (uint (created_end_ledger p)))\<rparr>"
  by (simp add: emit_defs parse_defs native_defs)

text \<open>Two proposals that differ in the hash of their description can be one and the same event to a client of the
  SDK: with the hashes \<open>80 .. 80\<close> and \<open>81 .. 81\<close> (32 bytes each) every field of the parsed event is equal.\<close>

theorem description_hashes_collide:
  "\<exists>p q. length (created_description_hash p) = 32 \<and> length (created_description_hash q) = 32 \<and>
     created_description_hash p \<noteq> created_description_hash q \<and>
     parseProposalCreatedEvent (emit_proposal_created env p) =
     parseProposalCreatedEvent (emit_proposal_created env q)"
proof -
  define p where "p h = \<lparr>created_id = 1, created_proposer = ''G'', created_description = [],
    created_description_hash = h, created_metadata_uri = [], created_targets = [], created_fn_names = [],
    created_calldatas = [], created_start_ledger = 1, created_end_ledger = 2\<rparr>" for h
  have "utf8_text (replicate n b) = concat (replicate n replacement)" if "utf8_lead b = None" for n b
    using that by (induction n) simp_all
  then have "utf8_text (replicate 32 (128 :: byte)) = utf8_text (replicate 32 129)"
    by (simp add: utf8_lead_def)
  moreover have "replicate 32 (128 :: byte) \<noteq> replicate 32 129" by simp
  ultimately show ?thesis
    by (intro exI [of _ "p (replicate 32 128)"] exI [of _ "p (replicate 32 129)"])
      (simp add: emit_defs parse_defs native_defs p_def)
qed

text \<open>The settings a client sees after a change of the configuration.\<close>

definition visible_settings :: "ContractSettings \<Rightarrow> GovernorSettings" where
  "visible_settings s =
     \<lparr>settings_votingDelay = Finite (of_int (uint (cs_voting_delay s))),
      settings_votingPeriod = Finite (of_int (uint (cs_voting_period s))),
      settings_quorumNumerator = Finite (of_int (uint (cs_quorum_numerator s))),
      settings_proposalThreshold = sint (cs_proposal_threshold s),
      settings_guardian = cs_guardian s,
      settings_voteType = Extended,
      settings_proposalGracePeriod = Finite (of_int (uint (cs_proposal_grace_period s))),
      settings_useDynamicQuorum = Some (cs_use_dynamic_quorum s),
      settings_reflectorOracle = Some (cs_reflector_oracle s),
      settings_minQuorumUsd = Some (sint (cs_min_quorum_usd s)),
      settings_maxCalldataSize = Some (Finite (of_int (uint (cs_max_calldata_size s)))),
      settings_proposalCooldown = Some (Finite (of_int (uint (cs_proposal_cooldown s)))),
      settings_maxProposalsPerPeriod = Some (Finite (of_int (uint (cs_max_proposals_per_period s)))),
      settings_proposalPeriodDuration = Some (Finite (of_int (uint (cs_proposal_period_duration s)))),
      settings_useCommitReveal = None,
      settings_commitPhaseFraction = None\<rparr>"

lemma toGovernorSettings_native: "toGovernorSettings (native_settings s) = Some (visible_settings s)"
  by (cases "cs_reflector_oracle s")
    (simp_all add: toGovernorSettings_def native_settings_def visible_settings_def native_defs or_default_def
      bigint_or_def)

text \<open>A change of the governor's configuration is read back with every number, the guardian and the oracle of the
  contract, in the old and in the new settings; the vote type is reported as \<^verbatim>\<open>Extended\<close> whatever it is on the
  contract, and the commit-reveal settings are not reported.\<close>

theorem config_updated_read_back:
  "parseConfigUpdatedEvent (emit_config_updated env old new) =
     Some \<lparr>configUpdated_oldSettings = visible_settings old, configUpdated_newSettings = visible_settings new\<rparr>"
  by (simp add: emit_defs parse_defs toGovernorSettings_native)

text \<open>A change of the voting mechanism cannot be seen in the event that announces it: when the old and the new
  settings differ in the vote type only, the parsed event has two equal settings.\<close>

theorem vote_type_change_invisible:
  "parseConfigUpdatedEvent (emit_config_updated env s (s\<lparr>cs_vote_type := t\<rparr>)) =
     Some \<lparr>configUpdated_oldSettings = visible_settings s, configUpdated_newSettings = visible_settings s\<rparr>"
  by (simp add: emit_defs parse_defs toGovernorSettings_native) (simp add: visible_settings_def)

text \<open>What becomes of each of the governor's events in the SDK. Votes, the life of a proposal, upgrades,
  pausing, reputation and thresholds are read back by their parser with exactly the values the contract put in.\<close>

lemma exact_governor_events:
  "parseVoteCastEvent (emit_vote_cast env proposal_id voter support weight) =
      Some \<lparr>voteCast_proposalId = uint proposal_id,
          voteCast_voter = voter,
          voteCast_support = Finite (of_int (uint support)),
          voteCast_weight = sint weight\<rparr> \<and>
   parseVoteCastWithReasonEvent (emit_vote_cast_with_reason env proposal_id voter support weight reason) =
      Some \<lparr>voteCastWithReason_proposalId = uint proposal_id,
          voteCastWithReason_voter = voter,
          voteCastWithReason_support = Finite (of_int (uint support)),
          voteCastWithReason_weight = sint weight,
          voteCastWithReason_reason = reason\<rparr> \<and>
   parseProposalQueuedEvent (emit_proposal_queued env proposal_id op_id eta) =
      Some \<lparr>proposalQueued_proposalId = uint proposal_id,
          proposalQueued_opId = JBuffer op_id,
          proposalQueued_eta = uint eta\<rparr> \<and>
   parseProposalExecutedEvent (emit_proposal_executed env proposal_id caller) =
      Some \<lparr>proposalExecuted_proposalId = uint proposal_id, proposalExecuted_caller = caller\<rparr> \<and>
   parseProposalCancelledEvent (emit_proposal_cancelled env proposal_id caller) =
      Some \<lparr>proposalCancelled_proposalId = uint proposal_id, proposalCancelled_caller = caller\<rparr> \<and>
   parseProposalExpiredEvent (emit_proposal_expired env proposal_id expired_at_ledger) =
      Some \<lparr>proposalExpired_proposalId = uint proposal_id,
          proposalExpired_expiredAtLedger = Finite (of_int (uint expired_at_ledger))\<rparr> \<and>
   parseGovernorUpgradedEvent (emit_governor_upgraded env old_hash new_hash) =
      Some \<lparr>governorUpgraded_oldHash = JBuffer old_hash, governorUpgraded_newHash = JBuffer new_hash\<rparr> \<and>
   parseReputationUpdatedEvent (emit_reputation_updated env proposer old_score new_score reason) =
      Some \<lparr>reputationUpdated_proposer = proposer,
          reputationUpdated_oldScore = Finite (of_int (sint old_score)),
          reputationUpdated_newScore = Finite (of_int (sint new_score)),
          reputationUpdated_reason = reason\<rparr> \<and>
   parseEffectiveThresholdChangedEvent (emit_effective_threshold_changed env proposer old_threshold new_threshold) =
      Some \<lparr>effectiveThresholdChanged_proposer = proposer,
          effectiveThresholdChanged_oldThreshold = sint old_threshold,
          effectiveThresholdChanged_newThreshold = sint new_threshold\<rparr> \<and>
   parsePauseEvent (emit_paused env pauser) =
      Some \<lparr>pause_pauser = pauser, pause_ledger = Finite (of_int (uint (env_sequence env)))\<rparr> \<and>
   parseUnpauseEvent (emit_unpaused env) =
      Some \<lparr>unpause_ledger = Finite (of_int (uint (env_sequence env)))\<rparr>"
  by (simp add: emit_defs parse_defs native_defs)

lemma unrecognised_governor_events:
  "accepted_by (emit_cancelled_from_queue env proposal_id caller) = []"
  "accepted_by (emit_guardian_changed env old_guardian new_guardian) = []"
  "accepted_by (emit_pauser_changed env old_pauser new_pauser) = []"
  "accepted_by (emit_vote_committed env proposal_id voter commitment) = []"
  "accepted_by (emit_vote_revealed env proposal_id voter support weight) = []"
  "accepted_by (emit_commit_phase_started env proposal_id commit_deadline reveal_deadline) = []"
  "accepted_by (emit_exbatch env proposal_ids) = []"
  by (simp_all add: accepted_by_def parsers_def emit_defs parse_defs Let_def)

text \<open>C27: What the SDK makes of each of the twenty events the governor publishes. Eleven (votes, the life of a
  proposal, upgrades, pausing, reputation and thresholds) are read back by their parser with exactly the values the
  contract put in: 64 and 128-bit integers as bigints, signed where the contract has them signed, 32-bit ones as
  exact numbers. A new proposal is too, but for the hash of its description, whose bytes are read as text, and a change of
  the configuration, but for the vote type and the commit-reveal settings, which are not reported. The other seven
  (a veto, a change of the guardian or of the pauser, the three events of commit and reveal, and
  \<^verbatim>\<open>exbatch\<close>) are recognised by no parser of the SDK.\<close>

theorem governor_events_read_back:
  "parseVoteCastEvent (emit_vote_cast env proposal_id voter support weight) =
      Some \<lparr>voteCast_proposalId = uint proposal_id,
          voteCast_voter = voter,
          voteCast_support = Finite (of_int (uint support)),
          voteCast_weight = sint weight\<rparr> \<and>
   parseVoteCastWithReasonEvent (emit_vote_cast_with_reason env proposal_id voter support weight reason) =
      Some \<lparr>voteCastWithReason_proposalId = uint proposal_id,
          voteCastWithReason_voter = voter,
          voteCastWithReason_support = Finite (of_int (uint support)),
          voteCastWithReason_weight = sint weight,
          voteCastWithReason_reason = reason\<rparr> \<and>
   parseProposalQueuedEvent (emit_proposal_queued env proposal_id op_id eta) =
      Some \<lparr>proposalQueued_proposalId = uint proposal_id,
          proposalQueued_opId = JBuffer op_id,
          proposalQueued_eta = uint eta\<rparr> \<and>
   parseProposalExecutedEvent (emit_proposal_executed env proposal_id caller) =
      Some \<lparr>proposalExecuted_proposalId = uint proposal_id, proposalExecuted_caller = caller\<rparr> \<and>
   parseProposalCancelledEvent (emit_proposal_cancelled env proposal_id caller) =
      Some \<lparr>proposalCancelled_proposalId = uint proposal_id, proposalCancelled_caller = caller\<rparr> \<and>
   parseProposalExpiredEvent (emit_proposal_expired env proposal_id expired_at_ledger) =
      Some \<lparr>proposalExpired_proposalId = uint proposal_id,
          proposalExpired_expiredAtLedger = Finite (of_int (uint expired_at_ledger))\<rparr> \<and>
   parseGovernorUpgradedEvent (emit_governor_upgraded env old_hash new_hash) =
      Some \<lparr>governorUpgraded_oldHash = JBuffer old_hash, governorUpgraded_newHash = JBuffer new_hash\<rparr> \<and>
   parseReputationUpdatedEvent (emit_reputation_updated env proposer old_score new_score reason) =
      Some \<lparr>reputationUpdated_proposer = proposer,
          reputationUpdated_oldScore = Finite (of_int (sint old_score)),
          reputationUpdated_newScore = Finite (of_int (sint new_score)),
          reputationUpdated_reason = reason\<rparr> \<and>
   parseEffectiveThresholdChangedEvent (emit_effective_threshold_changed env proposer old_threshold new_threshold) =
      Some \<lparr>effectiveThresholdChanged_proposer = proposer,
          effectiveThresholdChanged_oldThreshold = sint old_threshold,
          effectiveThresholdChanged_newThreshold = sint new_threshold\<rparr> \<and>
   parsePauseEvent (emit_paused env pauser) =
      Some \<lparr>pause_pauser = pauser, pause_ledger = Finite (of_int (uint (env_sequence env)))\<rparr> \<and>
   parseUnpauseEvent (emit_unpaused env) =
      Some \<lparr>unpause_ledger = Finite (of_int (uint (env_sequence env)))\<rparr> \<and>
   parseProposalCreatedEvent (emit_proposal_created env p) =
      Some \<lparr>proposalCreated_proposalId = uint (created_id p),
           proposalCreated_proposer = created_proposer p,
           proposalCreated_description = created_description p,
           proposalCreated_descriptionHash = utf8_text (created_description_hash p),
           proposalCreated_metadataUri = created_metadata_uri p,
           proposalCreated_targets = map JString (created_targets p),
           proposalCreated_fnNames = map JString (created_fn_names p),
           proposalCreated_calldatas = map JBuffer (created_calldatas p),
           proposalCreated_startLedger = Finite (of_int (uint (created_start_ledger p))),
           proposalCreated_endLedger = Finite (of_int (uint (created_end_ledger p)))\<rparr> \<and>
   parseConfigUpdatedEvent (emit_config_updated env old_settings new_settings) =
      Some \<lparr>configUpdated_oldSettings = visible_settings old_settings,
           configUpdated_newSettings = visible_settings new_settings\<rparr> \<and>
   accepted_by (emit_cancelled_from_queue env proposal_id caller) = [] \<and>
   accepted_by (emit_guardian_changed env old_guardian new_guardian) = [] \<and>
   accepted_by (emit_pauser_changed env old_pauser new_pauser) = [] \<and>
   accepted_by (emit_vote_committed env proposal_id voter commitment) = [] \<and>
   accepted_by (emit_vote_revealed env proposal_id voter support weight) = [] \<and>
   accepted_by (emit_commit_phase_started env proposal_id commit_deadline reveal_deadline) = [] \<and>
   accepted_by (emit_exbatch env proposal_ids) = []"
  by (intro conjI unrecognised_governor_events proposal_created_read_back config_updated_read_back)
    (simp_all add: exact_governor_events)

end
