(* ===== verification/SqlStore.thy ===== *)
theory SqlStore
  imports JsText EventWire Interfaces
begin

section \<open>The indexer's database\<close>

text \<open>
  The part of PostgreSQL that the statements of the indexer use, as documented: typed columns with the conversion of
  textual parameters, defaults, \<^verbatim>\<open>NOT NULL\<close>, unique and foreign keys, \<^verbatim>\<open>INSERT ... ON CONFLICT\<close>, \<^verbatim>\<open>UPDATE\<close> and
  \<^verbatim>\<open>DELETE\<close> with equality conditions. A statement of the program is a value of type \<open>statement\<close>; running one gives the
  number of affected rows and the new tables, or an error and no change.
  \<^item> Rows stand in the order of their \<^verbatim>\<open>SERIAL\<close> ids, which are not columns of the model. Columns that only hold the wall
    clock (\<^verbatim>\<open>created_at\<close>, \<^verbatim>\<open>updated_at\<close>, \<^verbatim>\<open>revoked_at\<close>, \<^verbatim>\<open>indexed_at\<close>) are left out.
  \<^item> A JSON document is kept as its text; numerals for numeric columns are integers, with an optional sign.
  \<^item> No statement of the program changes a column of a key, and none deletes a row that others refer to.
\<close>

subsection \<open>Values and columns\<close>

datatype sql_value = SqlNull | SqlInt int | SqlText string | SqlBool bool

text \<open>\<open>NUMERIC 0\<close> is the unconstrained \<^verbatim>\<open>NUMERIC\<close>, \<open>NUMERIC p\<close> is \<^verbatim>\<open>NUMERIC(p, 0)\<close>.\<close>

datatype sql_type =
  SMALLINT | INTEGER | BIGINT | NUMERIC nat | TEXT | VARCHAR nat | BOOLEAN | JSONB | TIMESTAMPTZ

datatype sql_error =
  InvalidText | OutOfRange | TooLong | NotNullViolation | UniqueViolation | ForeignKeyViolation | UndefinedTable

record column =
  col_name :: string
  col_type :: sql_type
  col_notNull :: bool
  col_default :: sql_value

record table_schema =
  ts_columns :: "column list"
  ts_keys :: "string list list"
  ts_refs :: "(string \<times> string \<times> string) list"

type_synonym schema = "(string \<times> table_schema) list"
type_synonym row = "(string \<times> sql_value) list"
type_synonym database = "string \<Rightarrow> row list"

definition in_range :: "sql_type \<Rightarrow> int \<Rightarrow> bool" where
  "in_range ty i =
     (case ty of
        SMALLINT \<Rightarrow> - (2 ^ 15) \<le> i \<and> i < 2 ^ 15
      | INTEGER \<Rightarrow> - (2 ^ 31) \<le> i \<and> i < 2 ^ 31
      | BIGINT \<Rightarrow> - (2 ^ 63) \<le> i \<and> i < 2 ^ 63
      | NUMERIC p \<Rightarrow> p = 0 \<or> \<bar>i\<bar> < 10 ^ p
      | _ \<Rightarrow> True)"

definition fit :: "sql_type \<Rightarrow> int \<Rightarrow> sql_error + sql_value" where
  "fit ty i = (if in_range ty i then Inr (SqlInt i) else Inl OutOfRange)"

definition pg_integer :: "string \<Rightarrow> int option" where
  "pg_integer s =
     (case signed_part (trim s) of (sign, ds) \<Rightarrow> map_option (\<lambda>n. sign * int n) (unsigned_numeral 10 ds))"

text \<open>A JSON document must not contain the escaped zero character, a text the zero character itself.\<close>

fun nul_escape :: "string \<Rightarrow> bool" where
  "nul_escape [] = False"
| "nul_escape [c] = False"
| "nul_escape (c # d # rest) =
     (if c = CHR 0x5C then d = CHR ''u'' \<and> take 4 rest = ''0000'' \<or> nul_escape rest else nul_escape (d # rest))"

definition char_count :: "string \<Rightarrow> nat" where
  "char_count s = length (filter (\<lambda>c. let n = of_char c :: nat in n < 128 \<or> 192 \<le> n) s)"

text \<open>How a textual parameter becomes a value of a column.\<close>

definition coerce :: "sql_type \<Rightarrow> string option \<Rightarrow> sql_error + sql_value" where
  "coerce ty p =
     (case p of
        None \<Rightarrow> Inr SqlNull
      | Some s \<Rightarrow>
          (case ty of
             TEXT \<Rightarrow> if CHR 0x00 \<in> set s then Inl InvalidText else Inr (SqlText s)
           | VARCHAR n \<Rightarrow>
               if CHR 0x00 \<in> set s then Inl InvalidText
               else if n < char_count s then Inl TooLong else Inr (SqlText s)
           | BOOLEAN \<Rightarrow>
               if s = ''true'' then Inr (SqlBool True) else if s = ''false'' then Inr (SqlBool False)
               else Inl InvalidText
           | JSONB \<Rightarrow> if nul_escape s then Inl InvalidText else Inr (SqlText s)
           | TIMESTAMPTZ \<Rightarrow> Inr (SqlText s)
           | _ \<Rightarrow> (case pg_integer s of None \<Rightarrow> Inl InvalidText | Some i \<Rightarrow> fit ty i)))"

text \<open>How the client library passes a JavaScript value as a parameter.\<close>

definition quoted :: "string \<Rightarrow> string" where
  "quoted s =
     CHR 0x22 # concat (map (\<lambda>c. if c = CHR 0x22 \<or> c = CHR 0x5C then [CHR 0x5C, c] else [c]) s) @ [CHR 0x22]"

fun array_element :: "js_value \<Rightarrow> string" where
  "array_element JUndefined = ''NULL''"
| "array_element JNull = ''NULL''"
| "array_element (JArray vs) = ''{'' @ join '','' (map array_element vs) @ ''}''"
| "array_element (JBuffer bs) = CHR 0x5C # CHR 0x5C # ''x'' @ to_hex bs"
| "array_element (JObject fs) = quoted (stringifyJson (JObject fs))"
| "array_element v = quoted (js_String v)"

definition js_param :: "js_value \<Rightarrow> string option" where
  "js_param v =
     (case v of
        JUndefined \<Rightarrow> None | JNull \<Rightarrow> None
      | JBuffer bs \<Rightarrow> Some (bytes_str bs) | JArray vs \<Rightarrow> Some (array_element v)
      | JObject fs \<Rightarrow> Some (stringifyJson v) | _ \<Rightarrow> Some (js_String v))"

definition number_param :: "js_number \<Rightarrow> string option" where
  "number_param x = Some (number_text x)"

subsection \<open>Expressions\<close>

text \<open>\<open>Param n\<close> is \<^verbatim>\<open>$n\<close>, \<open>Col c\<close> a column of the row at hand, \<open>Excluded c\<close> one of the row that was to be inserted.\<close>

datatype sql_expr =
  Param nat | Lit sql_value | Col string | Excluded string
| Coalesce sql_expr sql_expr | Plus sql_expr sql_expr | Minus sql_expr sql_expr | Greatest sql_expr sql_expr

definition cell :: "row \<Rightarrow> string \<Rightarrow> sql_value" where
  "cell r c = (case map_of r c of None \<Rightarrow> SqlNull | Some v \<Rightarrow> v)"

definition parameter :: "string option list \<Rightarrow> nat \<Rightarrow> string option" where
  "parameter ps n = (if 0 < n \<and> n \<le> length ps then ps ! (n - 1) else None)"

definition arith :: "sql_type \<Rightarrow> (int \<Rightarrow> int \<Rightarrow> int) \<Rightarrow> sql_error + sql_value \<Rightarrow> sql_error + sql_value \<Rightarrow>
    sql_error + sql_value" where
  "arith ty f a b =
     (case a of Inl e \<Rightarrow> Inl e
      | Inr x \<Rightarrow>
          (case b of Inl e \<Rightarrow> Inl e
           | Inr y \<Rightarrow>
               (case (x, y) of (SqlInt i, SqlInt j) \<Rightarrow> fit ty (f i j) | _ \<Rightarrow> Inr SqlNull)))"

definition greatest :: "sql_value \<Rightarrow> sql_value \<Rightarrow> sql_value" where
  "greatest x y =
     (case (x, y) of (SqlInt i, SqlInt j) \<Rightarrow> SqlInt (max i j) | (SqlNull, _) \<Rightarrow> y | _ \<Rightarrow> x)"

fun eval :: "sql_type \<Rightarrow> string option list \<Rightarrow> row \<Rightarrow> row \<Rightarrow> sql_expr \<Rightarrow> sql_error + sql_value" where
  "eval ty ps old new (Param n) = coerce ty (parameter ps n)"
| "eval ty ps old new (Lit v) = Inr v"
| "eval ty ps old new (Col c) = Inr (cell old c)"
| "eval ty ps old new (Excluded c) = Inr (cell new c)"
| "eval ty ps old new (Coalesce a b) =
     (case eval ty ps old new a of Inl e \<Rightarrow> Inl e
      | Inr x \<Rightarrow> (case eval ty ps old new b of Inl e \<Rightarrow> Inl e | Inr y \<Rightarrow> Inr (if x = SqlNull then y else x)))"
| "eval ty ps old new (Plus a b) = arith ty (+) (eval ty ps old new a) (eval ty ps old new b)"
| "eval ty ps old new (Minus a b) = arith ty (-) (eval ty ps old new a) (eval ty ps old new b)"
| "eval ty ps old new (Greatest a b) =
     (case eval ty ps old new a of Inl e \<Rightarrow> Inl e
      | Inr x \<Rightarrow> (case eval ty ps old new b of Inl e \<Rightarrow> Inl e | Inr y \<Rightarrow> Inr (greatest x y)))"

subsection \<open>Statements\<close>

datatype on_conflict =
  NoClause
| DoNothing "string list option"
| DoUpdate "string list" "(string \<times> sql_expr) list"

datatype statement =
  InsertInto string "(string \<times> sql_expr) list" on_conflict
| UpdateSet string "(string \<times> sql_expr) list" "(string \<times> sql_expr) list"
| DeleteFrom string "(string \<times> sql_expr) list"

primrec stmt_table :: "statement \<Rightarrow> string" where
  "stmt_table (InsertInto t vs oc) = t"
| "stmt_table (UpdateSet t sets conds) = t"
| "stmt_table (DeleteFrom t conds) = t"

definition column_type :: "table_schema \<Rightarrow> string \<Rightarrow> sql_type" where
  "column_type ts c =
     (case find (\<lambda>k. col_name k = c) (ts_columns ts) of None \<Rightarrow> TEXT | Some k \<Rightarrow> col_type k)"

text \<open>The row of an \<^verbatim>\<open>INSERT\<close>: given columns, and defaults.\<close>

fun new_row :: "string option list \<Rightarrow> (string \<times> sql_expr) list \<Rightarrow> column list \<Rightarrow> sql_error + row" where
  "new_row ps vs [] = Inr []"
| "new_row ps vs (k # ks) =
     (case (case map_of vs (col_name k) of None \<Rightarrow> Inr (col_default k) | Some e \<Rightarrow> eval (col_type k) ps [] [] e) of
        Inl err \<Rightarrow> Inl err
      | Inr v \<Rightarrow> (case new_row ps vs ks of Inl err \<Rightarrow> Inl err | Inr r \<Rightarrow> Inr ((col_name k, v) # r)))"

text \<open>The row after the assignments of an \<^verbatim>\<open>UPDATE\<close>; every right-hand side sees the old row.\<close>

fun assign :: "table_schema \<Rightarrow> string option list \<Rightarrow> row \<Rightarrow> row \<Rightarrow> (string \<times> sql_expr) list \<Rightarrow> sql_error + row" where
  "assign ts ps old new [] = Inr old"
| "assign ts ps old new ((c, e) # sets) =
     (case eval (column_type ts c) ps old new e of
        Inl err \<Rightarrow> Inl err
      | Inr v \<Rightarrow> (case assign ts ps old new sets of Inl err \<Rightarrow> Inl err | Inr r \<Rightarrow> Inr (AList.update c v r)))"

definition nulls_ok :: "table_schema \<Rightarrow> row \<Rightarrow> bool" where
  "nulls_ok ts r = list_all (\<lambda>k. col_notNull k \<longrightarrow> cell r (col_name k) \<noteq> SqlNull) (ts_columns ts)"

definition same_key :: "string list \<Rightarrow> row \<Rightarrow> row \<Rightarrow> bool" where
  "same_key cs r r' = list_all (\<lambda>c. cell r c \<noteq> SqlNull \<and> cell r c = cell r' c) cs"

definition refs_ok :: "(string \<times> string \<times> string) list \<Rightarrow> database \<Rightarrow> row \<Rightarrow> bool" where
  "refs_ok refs db r =
     list_all (\<lambda>(c, t, k). cell r c = SqlNull \<or> list_ex (\<lambda>r'. cell r' k = cell r c) (db t)) refs"

definition set_refs :: "table_schema \<Rightarrow> (string \<times> sql_expr) list \<Rightarrow> (string \<times> string \<times> string) list" where
  "set_refs ts sets = filter (\<lambda>(c, _). c \<in> set (map fst sets)) (ts_refs ts)"

definition checked :: "table_schema \<Rightarrow> (string \<times> string \<times> string) list \<Rightarrow> database \<Rightarrow> row \<Rightarrow> sql_error + row" where
  "checked ts refs db r =
     (if \<not> nulls_ok ts r then Inl NotNullViolation
      else if \<not> refs_ok refs db r then Inl ForeignKeyViolation else Inr r)"

text \<open>Parameters are converted to the types of their columns, without the limits of \<^verbatim>\<open>NUMERIC(p)\<close> and \<^verbatim>\<open>VARCHAR(n)\<close>, before any
  row is visited. (An \<^verbatim>\<open>INSERT\<close> evaluates all its parameters anyway.)\<close>

definition bound_type :: "sql_type \<Rightarrow> sql_type" where
  "bound_type ty = (case ty of NUMERIC p \<Rightarrow> NUMERIC 0 | VARCHAR n \<Rightarrow> TEXT | _ \<Rightarrow> ty)"

fun bind :: "sql_type \<Rightarrow> string option list \<Rightarrow> sql_expr \<Rightarrow> sql_error option" where
  "bind ty ps (Param n) = (case coerce (bound_type ty) (parameter ps n) of Inl e \<Rightarrow> Some e | Inr v \<Rightarrow> None)"
| "bind ty ps (Lit v) = None"
| "bind ty ps (Col c) = None"
| "bind ty ps (Excluded c) = None"
| "bind ty ps (Coalesce a b) = (case bind ty ps a of Some e \<Rightarrow> Some e | None \<Rightarrow> bind ty ps b)"
| "bind ty ps (Plus a b) = (case bind ty ps a of Some e \<Rightarrow> Some e | None \<Rightarrow> bind ty ps b)"
| "bind ty ps (Minus a b) = (case bind ty ps a of Some e \<Rightarrow> Some e | None \<Rightarrow> bind ty ps b)"
| "bind ty ps (Greatest a b) = (case bind ty ps a of Some e \<Rightarrow> Some e | None \<Rightarrow> bind ty ps b)"

fun bind_all :: "table_schema \<Rightarrow> string option list \<Rightarrow> (string \<times> sql_expr) list \<Rightarrow> sql_error option" where
  "bind_all ts ps [] = None"
| "bind_all ts ps ((c, e) # es) =
     (case bind (column_type ts c) ps e of Some err \<Rightarrow> Some err | None \<Rightarrow> bind_all ts ps es)"

fun matches :: "table_schema \<Rightarrow> string option list \<Rightarrow> (string \<times> sql_expr) list \<Rightarrow> row \<Rightarrow> sql_error + bool" where
  "matches ts ps [] r = Inr True"
| "matches ts ps ((c, e) # conds) r =
     (case eval (bound_type (column_type ts c)) ps r [] e of
        Inl err \<Rightarrow> Inl err
      | Inr v \<Rightarrow>
          (case matches ts ps conds r of Inl err \<Rightarrow> Inl err
           | Inr b \<Rightarrow> Inr (v \<noteq> SqlNull \<and> cell r c = v \<and> b)))"

text \<open>Rows are visited in order; the first error ends the statement.\<close>

fun update_rows :: "(row \<Rightarrow> sql_error + bool) \<Rightarrow> (row \<Rightarrow> sql_error + row) \<Rightarrow> row list \<Rightarrow>
    sql_error + nat \<times> row list" where
  "update_rows cond upd [] = Inr (0, [])"
| "update_rows cond upd (r # rs) =
     (case cond r of Inl e \<Rightarrow> Inl e
      | Inr b \<Rightarrow>
          (case (if b then upd r else Inr r) of Inl e \<Rightarrow> Inl e
           | Inr r' \<Rightarrow>
               (case update_rows cond upd rs of Inl e \<Rightarrow> Inl e
                | Inr (n, rs') \<Rightarrow> Inr (if b then Suc n else n, r' # rs'))))"

fun delete_rows :: "(row \<Rightarrow> sql_error + bool) \<Rightarrow> row list \<Rightarrow> sql_error + nat \<times> row list" where
  "delete_rows cond [] = Inr (0, [])"
| "delete_rows cond (r # rs) =
     (case cond r of Inl e \<Rightarrow> Inl e
      | Inr b \<Rightarrow>
          (case delete_rows cond rs of Inl e \<Rightarrow> Inl e
           | Inr (n, rs') \<Rightarrow> Inr (if b then (Suc n, rs') else (n, r # rs'))))"

definition with_rows :: "database \<Rightarrow> string \<Rightarrow> sql_error + nat \<times> row list \<Rightarrow> sql_error + nat \<times> database" where
  "with_rows db t res = (case res of Inl e \<Rightarrow> Inl e | Inr (n, rs) \<Rightarrow> Inr (n, db(t := rs)))"

definition insert_row :: "table_schema \<Rightarrow> database \<Rightarrow> string \<Rightarrow> row \<Rightarrow> sql_error + nat \<times> database" where
  "insert_row ts db t r =
     (if list_ex (\<lambda>cs. list_ex (same_key cs r) (db t)) (ts_keys ts) then Inl UniqueViolation
      else if \<not> refs_ok (ts_refs ts) db r then Inl ForeignKeyViolation
      else Inr (1, db(t := db t @ [r])))"

primrec exec_on :: "table_schema \<Rightarrow> database \<Rightarrow> string option list \<Rightarrow> statement \<Rightarrow> sql_error + nat \<times> database" where
  "exec_on ts db ps (InsertInto t vs oc) =
     (case new_row ps vs (ts_columns ts) of
        Inl e \<Rightarrow> Inl e
      | Inr r \<Rightarrow>
          if \<not> nulls_ok ts r then Inl NotNullViolation
          else (case oc of
             NoClause \<Rightarrow> insert_row ts db t r
           | DoNothing target \<Rightarrow>
               if list_ex (\<lambda>cs. list_ex (same_key cs r) (db t))
                    (case target of None \<Rightarrow> ts_keys ts | Some cs \<Rightarrow> [cs]) then Inr (0, db)
               else insert_row ts db t r
           | DoUpdate cs sets \<Rightarrow>
               if list_ex (same_key cs r) (db t) then
                 with_rows db t
                   (update_rows (\<lambda>r'. Inr (same_key cs r r'))
                     (\<lambda>r'. case assign ts ps r' r sets of Inl e \<Rightarrow> Inl e
                            | Inr r'' \<Rightarrow> checked ts (set_refs ts sets) db r'') (db t))
               else insert_row ts db t r))"
| "exec_on ts db ps (UpdateSet t sets conds) =
     (case bind_all ts ps (sets @ conds) of
        Some e \<Rightarrow> Inl e
      | None \<Rightarrow>
          with_rows db t
            (update_rows (matches ts ps conds)
              (\<lambda>r. case assign ts ps r [] sets of Inl e \<Rightarrow> Inl e | Inr r' \<Rightarrow> checked ts (set_refs ts sets) db r') (db t)))"
| "exec_on ts db ps (DeleteFrom t conds) =
     (case bind_all ts ps conds of
        Some e \<Rightarrow> Inl e
      | None \<Rightarrow> with_rows db t (delete_rows (matches ts ps conds) (db t)))"

definition exec :: "schema \<Rightarrow> database \<Rightarrow> string option list \<Rightarrow> statement \<Rightarrow> sql_error + nat \<times> database" where
  "exec sch db ps st =
     (case map_of sch (stmt_table st) of None \<Rightarrow> Inl UndefinedTable | Some ts \<Rightarrow> exec_on ts db ps st)"

subsection \<open>What every statement keeps\<close>

lemma with_rows_Inr:
  "with_rows db t res = Inr (n, db') \<longleftrightarrow> (\<exists>rs. res = Inr (n, rs) \<and> db' = db(t := rs))"
  by (auto simp: with_rows_def split: sum.splits)

lemma insert_row_Inr:
  "insert_row ts db t r = Inr (n, db') \<Longrightarrow>
     n = 1 \<and> db' = db(t := db t @ [r]) \<and> \<not> list_ex (\<lambda>cs. list_ex (same_key cs r) (db t)) (ts_keys ts)"
  by (auto simp: insert_row_def split: if_splits)

text \<open>A statement writes the table it names and no other.\<close>

lemma exec_on_frame: "exec_on ts db ps st = Inr (n, db') \<Longrightarrow> t \<noteq> stmt_table st \<Longrightarrow> db' t = db t"
  by (cases st)
    (auto simp: with_rows_Inr dest: insert_row_Inr split: sum.splits if_splits on_conflict.splits option.splits)

lemma exec_frame: "exec sch db ps st = Inr (n, db') \<Longrightarrow> t \<noteq> stmt_table st \<Longrightarrow> db' t = db t"
  by (auto simp: exec_def dest: exec_on_frame split: option.splits)

text \<open>Rows that two lists share position by position on the given columns.\<close>

definition same_cells :: "string list \<Rightarrow> row \<Rightarrow> row \<Rightarrow> bool" where
  "same_cells cs r r' = (\<forall>c \<in> set cs. cell r c = cell r' c)"

lemma cell_update: "cell (AList.update c v r) c' = (if c' = c then v else cell r c')"
  by (simp add: cell_def update_conv')

lemma assign_other: "assign ts ps old new sets = Inr r \<Longrightarrow> c \<notin> set (map fst sets) \<Longrightarrow> cell r c = cell old c"
proof (induction sets arbitrary: r)
  case (Cons s sets)
  then show ?case by (cases s) (auto simp: cell_update split: sum.splits)
qed simp

lemma checked_Inr: "checked ts refs db r = Inr r' \<longleftrightarrow> r' = r \<and> nulls_ok ts r \<and> refs_ok refs db r"
  by (auto simp: checked_def)

lemma update_rows_all2:
  assumes "update_rows cond upd rs = Inr (n, rs')" and "\<And>r. P r r" and "\<And>r r'. upd r = Inr r' \<Longrightarrow> P r r'"
  shows "list_all2 P rs rs'"
  using assms(1)
proof (induction rs arbitrary: n rs')
  case (Cons r rs)
  then show ?case using assms(2,3) by (auto split: sum.splits if_splits prod.splits)
qed simp

lemma delete_rows_filter:
  "delete_rows cond rs = Inr (n, rs') \<Longrightarrow> rs' = filter (\<lambda>r. cond r = Inr False) rs"
  by (induction rs arbitrary: n rs') (auto split: sum.splits if_splits prod.splits)

subsection \<open>Keys\<close>

lemma same_key_sym: "same_key cs r r' \<longleftrightarrow> same_key cs r' r"
  by (auto simp: same_key_def list_all_iff)

lemma same_key_cong: "same_cells cs r r' \<Longrightarrow> same_cells cs q q' \<Longrightarrow> same_key cs r q \<longleftrightarrow> same_key cs r' q'"
  by (auto simp: same_key_def same_cells_def list_all_iff)

definition unique_rows :: "string list \<Rightarrow> row list \<Rightarrow> bool" where
  "unique_rows cs rs = sorted_wrt (\<lambda>r r'. \<not> same_key cs r r') rs"

definition keys_unique :: "schema \<Rightarrow> database \<Rightarrow> bool" where
  "keys_unique sch db \<longleftrightarrow> (\<forall>(t, ts) \<in> set sch. \<forall>cs \<in> set (ts_keys ts). unique_rows cs (db t))"

text \<open>A statement that assigns no column of a key.\<close>

definition sets_of :: "statement \<Rightarrow> (string \<times> sql_expr) list" where
  "sets_of st =
     (case st of InsertInto t vs oc \<Rightarrow> (case oc of DoUpdate cs sets \<Rightarrow> sets | _ \<Rightarrow> [])
      | UpdateSet t sets conds \<Rightarrow> sets | DeleteFrom t conds \<Rightarrow> [])"

definition leaves_keys :: "schema \<Rightarrow> statement \<Rightarrow> bool" where
  "leaves_keys sch st =
     (case map_of sch (stmt_table st) of None \<Rightarrow> True
      | Some ts \<Rightarrow> list_all (\<lambda>c. list_all (\<lambda>cs. c \<notin> set cs) (ts_keys ts)) (map fst (sets_of st)))"

lemma unique_rows_append: "unique_rows cs rs \<Longrightarrow> \<not> list_ex (same_key cs r) rs \<Longrightarrow> unique_rows cs (rs @ [r])"
  by (auto simp: unique_rows_def sorted_wrt_append list_ex_iff same_key_sym)

lemma unique_rows_all2:
  assumes "list_all2 (same_cells cs) rs rs'" "unique_rows cs rs"
  shows "unique_rows cs rs'"
  unfolding unique_rows_def sorted_wrt_iff_nth_less
proof (intro allI impI)
  fix i j
  assume ij: "i < j" "j < length rs'"
  then have "\<not> same_key cs (rs ! i) (rs ! j)"
    using assms by (simp add: unique_rows_def sorted_wrt_iff_nth_less list_all2_lengthD)
  moreover have "same_cells cs (rs ! i) (rs' ! i)" "same_cells cs (rs ! j) (rs' ! j)"
    using assms(1) ij by (simp_all add: list_all2_conv_all_nth)
  ultimately show "\<not> same_key cs (rs' ! i) (rs' ! j)" using same_key_cong by blast
qed

lemma unique_rows_filter: "unique_rows cs rs \<Longrightarrow> unique_rows cs (filter P rs)"
  unfolding unique_rows_def by (rule sorted_wrt_filter)

lemma same_cells_refl [simp]: "same_cells cs r r"
  by (simp add: same_cells_def)

lemma exec_on_unique:
  assumes "exec_on ts db ps st = Inr (n, db')" "cs \<in> set (ts_keys ts)" "unique_rows cs (db (stmt_table st))"
    and keys: "\<forall>c \<in> set (map fst (sets_of st)). c \<notin> set cs"
  shows "unique_rows cs (db' (stmt_table st))"
proof -
  have kept: "list_all2 (same_cells cs) rs rs'"
    if "update_rows cond (\<lambda>r. case assign ts ps r (new r) (sets_of st) of Inl e \<Rightarrow> Inl e | Inr r' \<Rightarrow> checked ts refs db r') rs =
          Inr (m, rs')" for cond new refs rs m rs'
    using that
  proof (rule update_rows_all2)
    show "same_cells cs r r'"
      if "(case assign ts ps r (new r) (sets_of st) of Inl e \<Rightarrow> Inl e | Inr r' \<Rightarrow> checked ts refs db r') = Inr r'" for r r'
    proof -
      from that have "assign ts ps r (new r) (sets_of st) = Inr r'" by (auto simp: checked_Inr split: sum.splits)
      from assign_other [OF this] have "cell r' c = cell r c" if "c \<in> set cs" for c using that keys by blast
      then show ?thesis by (simp add: same_cells_def)
    qed
  qed simp
  show ?thesis
  proof (cases st)
    case (InsertInto t vs oc)
    have ins: "unique_rows cs (db' t)" if "insert_row ts db t r = Inr (n, db')" for r
      using insert_row_Inr [OF that] assms(2,3) InsertInto
      by (auto intro!: unique_rows_append simp: list_ex_iff)
    show ?thesis
    proof (cases oc)
      case (DoUpdate cs' sets)
      then have "sets_of st = sets" by (simp add: InsertInto sets_of_def)
      with kept [where new = "\<lambda>_. new" for new] have "list_all2 (same_cells cs) rs rs'"
        if "update_rows cond (\<lambda>r. case assign ts ps r new sets of Inl e \<Rightarrow> Inl e | Inr r' \<Rightarrow> checked ts refs db r') rs =
          Inr (m, rs')" for cond new refs rs m rs' using that by simp
      then show ?thesis using assms(1,3) InsertInto DoUpdate
        by (auto simp: with_rows_Inr split: sum.splits if_splits intro: ins) (blast intro: unique_rows_all2)+
    qed (use assms(1,3) InsertInto in \<open>auto split: sum.splits if_splits intro: ins\<close>)
  next
    case (UpdateSet t sets conds)
    then have "sets_of st = sets" by (simp add: sets_of_def)
    with kept [where new = "\<lambda>_. []"] have "list_all2 (same_cells cs) rs rs'"
      if "update_rows cond (\<lambda>r. case assign ts ps r [] sets of Inl e \<Rightarrow> Inl e | Inr r' \<Rightarrow> checked ts refs db r') rs =
        Inr (m, rs')" for cond refs rs m rs' using that by simp
    then show ?thesis using assms(1,3) UpdateSet
      by (auto simp: with_rows_Inr split: option.splits) (blast intro: unique_rows_all2)
  next
    case (DeleteFrom t conds)
    then show ?thesis using assms(1,3)
      by (auto simp: with_rows_Inr dest!: delete_rows_filter intro: unique_rows_filter split: option.splits)
  qed
qed

lemma exec_keeps_keys:
  assumes "exec sch db ps st = Inr (n, db')" "keys_unique sch db" "leaves_keys sch st" "distinct (map fst sch)"
  shows "keys_unique sch db'"
  unfolding keys_unique_def
proof (clarify)
  fix t ts cs
  assume m: "(t, ts) \<in> set sch" and cs: "cs \<in> set (ts_keys ts)"
  have old: "unique_rows cs (db t)" using assms(2) m cs by (auto simp: keys_unique_def)
  show "unique_rows cs (db' t)"
  proof (cases "t = stmt_table st")
    case True
    then have ts: "map_of sch (stmt_table st) = Some ts" using m assms(4) by simp
    then have "\<forall>c \<in> set (map fst (sets_of st)). c \<notin> set cs"
      using assms(3) cs by (auto simp: leaves_keys_def list_all_iff)
    then show ?thesis using exec_on_unique [of ts db ps st n db' cs] assms(1) ts cs old True by (simp add: exec_def)
  qed (use exec_frame [OF assms(1)] old in simp)
qed

end
