(* ===== verification/IndexerSchema.thy ===== *)
theory IndexerSchema
  imports SqlStore
begin

section \<open>The tables of the indexer\<close>

text \<open>
  The tables that the event handlers write, as the migrations of \<^verbatim>\<open>packages/indexer/migrations\<close> (and, for the liquidity
  pools, \<^verbatim>\<open>backend/migrations\<close>) leave them. The migrations create \<^verbatim>\<open>vote_escrow_locks\<close> three times; the handlers are
  written for the table of the last two, which is the one modelled.
\<close>

definition col :: "string \<Rightarrow> sql_type \<Rightarrow> bool \<Rightarrow> sql_value \<Rightarrow> column" where
  "col c ty notNull d = \<lparr>col_name = c, col_type = ty, col_notNull = notNull, col_default = d\<rparr>"

definition proposals_table :: table_schema where
  "proposals_table =
     \<lparr>ts_columns =
      [col ''id'' BIGINT True SqlNull,
       col ''proposer'' TEXT True SqlNull,
       col ''description'' TEXT True SqlNull,
       col ''start_ledger'' INTEGER True SqlNull,
       col ''end_ledger'' INTEGER True SqlNull,
       col ''votes_for'' BIGINT True (SqlInt 0),
       col ''votes_against'' BIGINT True (SqlInt 0),
       col ''votes_abstain'' BIGINT True (SqlInt 0),
       col ''executed'' BOOLEAN True (SqlBool False),
       col ''cancelled'' BOOLEAN True (SqlBool False),
       col ''queued'' BOOLEAN True (SqlBool False),
       col ''description_hash'' TEXT False SqlNull,
       col ''current_amendment_version'' INTEGER False (SqlInt 0)],
      ts_keys = [[''id'']],
      ts_refs = []\<rparr>"

definition votes_table :: table_schema where
  "votes_table =
     \<lparr>ts_columns =
      [col ''proposal_id'' BIGINT True SqlNull,
       col ''voter'' TEXT True SqlNull,
       col ''support'' SMALLINT True SqlNull,
       col ''weight'' BIGINT True SqlNull,
       col ''reason'' TEXT False SqlNull,
       col ''ledger'' INTEGER True SqlNull],
      ts_keys = [[''proposal_id'', ''voter'']],
      ts_refs = [(''proposal_id'', ''proposals'', ''id'')]\<rparr>"

definition delegates_table :: table_schema where
  "delegates_table =
     \<lparr>ts_columns =
      [col ''delegator'' TEXT True SqlNull,
       col ''old_delegatee'' TEXT True SqlNull,
       col ''new_delegatee'' TEXT True SqlNull,
       col ''ledger'' INTEGER True SqlNull],
      ts_keys = [],
      ts_refs = []\<rparr>"

definition wrapper_deposits_table :: table_schema where
  "wrapper_deposits_table =
     \<lparr>ts_columns =
      [col ''account'' TEXT True SqlNull,
       col ''amount'' BIGINT True SqlNull,
       col ''ledger'' INTEGER True SqlNull],
      ts_keys = [],
      ts_refs = []\<rparr>"

definition wrapper_withdrawals_table :: table_schema where
  "wrapper_withdrawals_table =
     \<lparr>ts_columns =
      [col ''account'' TEXT True SqlNull,
       col ''amount'' BIGINT True SqlNull,
       col ''ledger'' INTEGER True SqlNull],
      ts_keys = [],
      ts_refs = []\<rparr>"

definition treasury_transfers_table :: table_schema where
  "treasury_transfers_table =
     \<lparr>ts_columns =
      [col ''op_hash'' TEXT True SqlNull,
       col ''token'' TEXT True SqlNull,
       col ''recipient_count'' INTEGER True SqlNull,
       col ''total_amount'' BIGINT True SqlNull,
       col ''ledger'' INTEGER True SqlNull],
      ts_keys = [],
      ts_refs = []\<rparr>"

definition indexer_state_table :: table_schema where
  "indexer_state_table =
     \<lparr>ts_columns =
      [col ''id'' INTEGER True (SqlInt 1),
       col ''last_ledger'' INTEGER True (SqlInt 0)],
      ts_keys = [[''id'']],
      ts_refs = []\<rparr>"

definition config_updates_table :: table_schema where
  "config_updates_table =
     \<lparr>ts_columns =
      [col ''ledger'' INTEGER True SqlNull,
       col ''new_settings'' JSONB True SqlNull,
       col ''old_settings'' JSONB False SqlNull,
       col ''ledger_closed_at'' TIMESTAMPTZ False SqlNull],
      ts_keys = [],
      ts_refs = []\<rparr>"

definition governor_upgrades_table :: table_schema where
  "governor_upgrades_table =
     \<lparr>ts_columns =
      [col ''ledger'' INTEGER True SqlNull,
       col ''new_wasm_hash'' TEXT True SqlNull],
      ts_keys = [],
      ts_refs = []\<rparr>"

definition drafts_table :: table_schema where
  "drafts_table =
     \<lparr>ts_columns =
      [col ''draft_id'' BIGINT True SqlNull,
       col ''creator_address'' (VARCHAR 56) True SqlNull,
       col ''description_hash'' TEXT False SqlNull,
       col ''metadata_uri'' TEXT False SqlNull,
       col ''created_ledger'' INTEGER True SqlNull,
       col ''expiry_ledger'' INTEGER True SqlNull,
       col ''total_power'' (NUMERIC 0) True (SqlInt 0),
       col ''finalized'' BOOLEAN True (SqlBool False),
       col ''cancelled'' BOOLEAN True (SqlBool False),
       col ''resulting_proposal_id'' BIGINT False SqlNull,
       col ''expired'' BOOLEAN True (SqlBool False)],
      ts_keys = [[''draft_id'']],
      ts_refs = []\<rparr>"

definition draft_co_sponsors_table :: table_schema where
  "draft_co_sponsors_table =
     \<lparr>ts_columns =
      [col ''draft_id'' BIGINT True SqlNull,
       col ''sponsor_address'' (VARCHAR 56) True SqlNull,
       col ''pledged_power'' (NUMERIC 0) True SqlNull,
       col ''pledged_at_ledger'' INTEGER True SqlNull,
       col ''withdrawn'' BOOLEAN True (SqlBool False)],
      ts_keys = [[''draft_id'', ''sponsor_address'']],
      ts_refs = [(''draft_id'', ''drafts'', ''draft_id'')]\<rparr>"

definition delegation_entries_table :: table_schema where
  "delegation_entries_table =
     \<lparr>ts_columns =
      [col ''delegator_address'' (VARCHAR 56) True SqlNull,
       col ''delegatee_address'' (VARCHAR 56) True SqlNull,
       col ''delegated_at_ledger'' INTEGER True SqlNull,
       col ''revoked_at_ledger'' INTEGER False SqlNull,
       col ''power_at_delegation'' (NUMERIC 0) True SqlNull,
       col ''chain_depth'' INTEGER True (SqlInt 1),
       col ''active'' BOOLEAN True (SqlBool True)],
      ts_keys = [],
      ts_refs = []\<rparr>"

definition proposer_reputation_table :: table_schema where
  "proposer_reputation_table =
     \<lparr>ts_columns =
      [col ''proposer_address'' (VARCHAR 56) True SqlNull,
       col ''reputation_score'' INTEGER True (SqlInt 0),
       col ''last_updated_ledger'' INTEGER False SqlNull],
      ts_keys = [[''proposer_address'']],
      ts_refs = []\<rparr>"

definition reputation_score_history_table :: table_schema where
  "reputation_score_history_table =
     \<lparr>ts_columns =
      [col ''proposer_address'' (VARCHAR 56) True SqlNull,
       col ''ledger'' INTEGER True SqlNull,
       col ''score'' INTEGER True SqlNull,
       col ''change'' INTEGER True SqlNull,
       col ''reason'' (VARCHAR 64) True SqlNull],
      ts_keys = [],
      ts_refs = []\<rparr>"

definition event_log_table :: table_schema where
  "event_log_table =
     \<lparr>ts_columns =
      [col ''event_type'' (VARCHAR 64) True SqlNull,
       col ''ledger'' INTEGER True SqlNull,
       col ''transaction_hash'' (VARCHAR 64) False SqlNull,
       col ''contract_address'' (VARCHAR 56) True SqlNull,
       col ''payload'' JSONB True SqlNull,
       col ''event_id'' TEXT True SqlNull],
      ts_keys = [[''event_id'']],
      ts_refs = []\<rparr>"

definition timelock_operations_table :: table_schema where
  "timelock_operations_table =
     \<lparr>ts_columns =
      [col ''op_id'' TEXT True SqlNull,
       col ''target'' TEXT True SqlNull,
       col ''fn_name'' TEXT True SqlNull,
       col ''ready_at'' BIGINT True SqlNull,
       col ''expires_at'' BIGINT True SqlNull,
       col ''status'' TEXT True (SqlText ''scheduled''),
       col ''executed_by'' TEXT False SqlNull,
       col ''executed_at_ledger'' INTEGER False SqlNull,
       col ''cancelled_by'' TEXT False SqlNull,
       col ''cancelled_at_ledger'' INTEGER False SqlNull,
       col ''ledger'' INTEGER True SqlNull],
      ts_keys = [[''op_id'']],
      ts_refs = []\<rparr>"

definition timelock_batch_operations_table :: table_schema where
  "timelock_batch_operations_table =
     \<lparr>ts_columns =
      [col ''batch_op_id'' TEXT True SqlNull,
       col ''targets'' JSONB True SqlNull,
       col ''fn_names'' JSONB True SqlNull,
       col ''ready_at'' BIGINT True SqlNull,
       col ''expires_at'' BIGINT True SqlNull,
       col ''status'' TEXT True (SqlText ''scheduled''),
       col ''executed_by'' TEXT False SqlNull,
       col ''executed_at_ledger'' INTEGER False SqlNull,
       col ''cancelled_by'' TEXT False SqlNull,
       col ''cancelled_at_ledger'' INTEGER False SqlNull,
       col ''ledger'' INTEGER True SqlNull],
      ts_keys = [[''batch_op_id'']],
      ts_refs = []\<rparr>"

definition timelock_dependency_graphs_table :: table_schema where
  "timelock_dependency_graphs_table =
     \<lparr>ts_columns =
      [col ''validation_id'' TEXT True SqlNull,
       col ''batch_op_id'' TEXT False SqlNull,
       col ''op_count'' INTEGER False SqlNull,
       col ''has_cycle'' BOOLEAN True (SqlBool False),
       col ''cycle_path'' JSONB False SqlNull,
       col ''ledger'' INTEGER True SqlNull],
      ts_keys = [[''validation_id'']],
      ts_refs = []\<rparr>"

definition timelock_partial_batch_state_table :: table_schema where
  "timelock_partial_batch_state_table =
     \<lparr>ts_columns =
      [col ''batch_op_id'' TEXT True SqlNull,
       col ''total_ops'' INTEGER True SqlNull,
       col ''completed_ops'' INTEGER True (SqlInt 0),
       col ''status'' TEXT True (SqlText ''in_progress''),
       col ''last_op_id'' TEXT False SqlNull,
       col ''last_status'' TEXT False SqlNull,
       col ''retry_count'' INTEGER True (SqlInt 0),
       col ''recovery_deadline'' INTEGER False SqlNull,
       col ''started_at_ledger'' INTEGER True SqlNull,
       col ''completed_at_ledger'' INTEGER False SqlNull,
       col ''updated_at_ledger'' INTEGER True SqlNull],
      ts_keys = [[''batch_op_id'']],
      ts_refs = []\<rparr>"

definition effective_threshold_history_table :: table_schema where
  "effective_threshold_history_table =
     \<lparr>ts_columns =
      [col ''proposer_address'' (VARCHAR 56) True SqlNull,
       col ''ledger'' INTEGER True SqlNull,
       col ''old_threshold'' (NUMERIC 0) True SqlNull,
       col ''new_threshold'' (NUMERIC 0) True SqlNull],
      ts_keys = [],
      ts_refs = []\<rparr>"

definition treasury_streams_table :: table_schema where
  "treasury_streams_table =
     \<lparr>ts_columns =
      [col ''stream_id'' (NUMERIC 20) True SqlNull,
       col ''name'' TEXT True SqlNull,
       col ''owner'' TEXT True SqlNull,
       col ''token'' TEXT True SqlNull,
       col ''total_allocated'' (NUMERIC 39) True SqlNull,
       col ''total_spent'' (NUMERIC 39) True SqlNull,
       col ''start_ledger'' BIGINT True SqlNull,
       col ''end_ledger'' BIGINT True SqlNull,
       col ''is_active'' BOOLEAN True SqlNull,
       col ''is_revoked'' BOOLEAN True SqlNull,
       col ''revoked_at_ledger'' BIGINT False SqlNull,
       col ''max_single_spend'' (NUMERIC 39) True SqlNull,
       col ''cooldown_ledgers'' BIGINT True SqlNull,
       col ''last_spend_ledger'' BIGINT True SqlNull,
       col ''spend_count'' BIGINT True SqlNull,
       col ''created_by_proposal_id'' (NUMERIC 20) True SqlNull,
       col ''updated_at_ledger'' BIGINT True SqlNull],
      ts_keys = [[''stream_id'']],
      ts_refs = []\<rparr>"

definition treasury_stream_spends_table :: table_schema where
  "treasury_stream_spends_table =
     \<lparr>ts_columns =
      [col ''stream_id'' (NUMERIC 20) True SqlNull,
       col ''spend_index'' BIGINT True SqlNull,
       col ''recipient'' TEXT True SqlNull,
       col ''amount'' (NUMERIC 39) True SqlNull,
       col ''memo'' TEXT True SqlNull,
       col ''executed_at_ledger'' BIGINT True SqlNull,
       col ''executed_by'' TEXT True SqlNull],
      ts_keys = [[''stream_id'', ''spend_index'']],
      ts_refs = [(''stream_id'', ''treasury_streams'', ''stream_id'')]\<rparr>"

definition treasury_stream_events_table :: table_schema where
  "treasury_stream_events_table =
     \<lparr>ts_columns =
      [col ''event_id'' TEXT True SqlNull,
       col ''event_type'' TEXT True SqlNull,
       col ''stream_id'' (NUMERIC 20) True SqlNull,
       col ''name'' TEXT False SqlNull,
       col ''owner'' TEXT False SqlNull,
       col ''recipient'' TEXT False SqlNull,
       col ''amount'' (NUMERIC 39) False SqlNull,
       col ''total_amount'' (NUMERIC 39) False SqlNull,
       col ''recipient_count'' BIGINT False SqlNull,
       col ''caller'' TEXT False SqlNull,
       col ''unspent_returned'' (NUMERIC 39) False SqlNull,
       col ''old_end_ledger'' BIGINT False SqlNull,
       col ''new_end_ledger'' BIGINT False SqlNull,
       col ''additional_amount'' (NUMERIC 39) False SqlNull,
       col ''new_total_amount'' (NUMERIC 39) False SqlNull,
       col ''unspent'' (NUMERIC 39) False SqlNull,
       col ''ledger'' BIGINT True SqlNull,
       col ''transaction_hash'' TEXT False SqlNull,
       col ''payload'' JSONB True SqlNull],
      ts_keys = [[''event_id'']],
      ts_refs = []\<rparr>"

definition delegated_by_sig_events_table :: table_schema where
  "delegated_by_sig_events_table =
     \<lparr>ts_columns =
      [col ''delegator_address'' (VARCHAR 56) True SqlNull,
       col ''delegatee_address'' (VARCHAR 56) True SqlNull,
       col ''relayer_address'' (VARCHAR 56) True SqlNull,
       col ''nonce'' (NUMERIC 0) True SqlNull,
       col ''ledger'' INTEGER True SqlNull],
      ts_keys = [],
      ts_refs = []\<rparr>"

definition relayer_whitelist_history_table :: table_schema where
  "relayer_whitelist_history_table =
     \<lparr>ts_columns =
      [col ''relayer_address'' (VARCHAR 56) True SqlNull,
       col ''whitelisted'' BOOLEAN True SqlNull,
       col ''ledger'' INTEGER True SqlNull],
      ts_keys = [],
      ts_refs = []\<rparr>"

definition proposal_bonds_table :: table_schema where
  "proposal_bonds_table =
     \<lparr>ts_columns =
      [col ''description_hash'' TEXT True SqlNull,
       col ''proposer_address'' (VARCHAR 56) True SqlNull,
       col ''amount'' (NUMERIC 0) True SqlNull,
       col ''state'' (VARCHAR 16) True (SqlText ''locked''),
       col ''locked_ledger'' INTEGER True SqlNull,
       col ''refunded_ledger'' INTEGER False SqlNull,
       col ''slashed_ledger'' INTEGER False SqlNull,
       col ''slash_recipient'' (VARCHAR 56) False SqlNull],
      ts_keys = [[''description_hash'']],
      ts_refs = []\<rparr>"

definition signal_anchors_table :: table_schema where
  "signal_anchors_table =
     \<lparr>ts_columns =
      [col ''poll_id'' BIGINT True SqlNull,
       col ''result_hash'' (VARCHAR 64) True SqlNull,
       col ''anchored_ledger'' INTEGER True SqlNull,
       col ''anchorer'' (VARCHAR 56) True SqlNull,
       col ''tx_hash'' (VARCHAR 64) False SqlNull],
      ts_keys = [[''poll_id'']],
      ts_refs = []\<rparr>"

definition conviction_proposals_table :: table_schema where
  "conviction_proposals_table =
     \<lparr>ts_columns =
      [col ''proposal_id'' (NUMERIC 20) True SqlNull,
       col ''proposer'' TEXT True SqlNull,
       col ''target'' TEXT True SqlNull,
       col ''fn_name'' TEXT False SqlNull,
       col ''calldata'' TEXT False SqlNull,
       col ''requested_amount'' (NUMERIC 39) True SqlNull,
       col ''created_ledger'' BIGINT True SqlNull,
       col ''conviction'' (NUMERIC 39) True (SqlInt 0),
       col ''last_updated_ledger'' BIGINT True SqlNull,
       col ''executed'' BOOLEAN True (SqlBool False),
       col ''cancelled'' BOOLEAN True (SqlBool False)],
      ts_keys = [[''proposal_id'']],
      ts_refs = []\<rparr>"

definition conviction_stakes_table :: table_schema where
  "conviction_stakes_table =
     \<lparr>ts_columns =
      [col ''staker'' TEXT True SqlNull,
       col ''proposal_id'' (NUMERIC 20) True SqlNull,
       col ''amount'' (NUMERIC 39) True SqlNull,
       col ''updated_at_ledger'' BIGINT True SqlNull],
      ts_keys = [[''staker'']],
      ts_refs = [(''proposal_id'', ''conviction_proposals'', ''proposal_id'')]\<rparr>"

definition conviction_snapshots_table :: table_schema where
  "conviction_snapshots_table =
     \<lparr>ts_columns =
      [col ''proposal_id'' (NUMERIC 20) True SqlNull,
       col ''ledger'' BIGINT True SqlNull,
       col ''conviction'' (NUMERIC 39) True SqlNull],
      ts_keys = [[''proposal_id'', ''ledger'']],
      ts_refs = [(''proposal_id'', ''conviction_proposals'', ''proposal_id'')]\<rparr>"

definition treasury_strategies_table :: table_schema where
  "treasury_strategies_table =
     \<lparr>ts_columns =
      [col ''strategy_id'' BIGINT True SqlNull,
       col ''adapter'' (VARCHAR 56) True SqlNull,
       col ''token'' (VARCHAR 56) True SqlNull,
       col ''active'' BOOLEAN True (SqlBool True),
       col ''current_allocation'' (NUMERIC 39) True (SqlInt 0),
       col ''registered_ledger'' INTEGER True SqlNull],
      ts_keys = [[''strategy_id'']],
      ts_refs = []\<rparr>"

definition strategy_allocations_table :: table_schema where
  "strategy_allocations_table =
     \<lparr>ts_columns =
      [col ''strategy_id'' BIGINT True SqlNull,
       col ''amount'' (NUMERIC 39) True SqlNull,
       col ''ledger'' INTEGER True SqlNull],
      ts_keys = [],
      ts_refs = [(''strategy_id'', ''treasury_strategies'', ''strategy_id'')]\<rparr>"

definition strategy_withdrawals_table :: table_schema where
  "strategy_withdrawals_table =
     \<lparr>ts_columns =
      [col ''withdrawal_id'' BIGINT True SqlNull,
       col ''strategy_id'' BIGINT True SqlNull,
       col ''amount'' (NUMERIC 39) True SqlNull,
       col ''actual_amount'' (NUMERIC 39) False SqlNull,
       col ''requested_ledger'' INTEGER True SqlNull,
       col ''claimable_ledger'' INTEGER True SqlNull,
       col ''claimed_ledger'' INTEGER False SqlNull],
      ts_keys = [[''withdrawal_id'']],
      ts_refs = [(''strategy_id'', ''treasury_strategies'', ''strategy_id'')]\<rparr>"

definition split_delegations_table :: table_schema where
  "split_delegations_table =
     \<lparr>ts_columns =
      [col ''delegator_address'' (VARCHAR 56) True SqlNull,
       col ''delegatee_address'' (VARCHAR 56) True SqlNull,
       col ''weight_bps'' INTEGER True SqlNull,
       col ''delegated_power'' (NUMERIC 38) True SqlNull,
       col ''active'' BOOLEAN True (SqlBool True)],
      ts_keys = [],
      ts_refs = []\<rparr>"

definition governance_snapshots_table :: table_schema where
  "governance_snapshots_table =
     \<lparr>ts_columns =
      [col ''ledger'' INTEGER True SqlNull,
       col ''total_votes_cast'' (NUMERIC 0) True SqlNull],
      ts_keys = [[''ledger'']],
      ts_refs = []\<rparr>"

definition optimistic_proposals_table :: table_schema where
  "optimistic_proposals_table =
     \<lparr>ts_columns =
      [col ''proposal_id'' (NUMERIC 20) True SqlNull,
       col ''proposer'' TEXT True SqlNull,
       col ''created_ledger'' BIGINT True SqlNull,
       col ''challenge_end_ledger'' BIGINT True SqlNull,
       col ''objection_votes'' (NUMERIC 39) True (SqlInt 0),
       col ''state'' TEXT True (SqlText ''challenge_window'')],
      ts_keys = [[''proposal_id'']],
      ts_refs = []\<rparr>"

definition optimistic_objections_table :: table_schema where
  "optimistic_objections_table =
     \<lparr>ts_columns =
      [col ''proposal_id'' (NUMERIC 20) True SqlNull,
       col ''objector'' TEXT True SqlNull,
       col ''weight'' (NUMERIC 39) True SqlNull,
       col ''running_total'' (NUMERIC 39) True SqlNull,
       col ''ledger'' BIGINT True SqlNull],
      ts_keys = [[''proposal_id'', ''objector'']],
      ts_refs = [(''proposal_id'', ''optimistic_proposals'', ''proposal_id'')]\<rparr>"

definition concentration_snapshots_table :: table_schema where
  "concentration_snapshots_table =
     \<lparr>ts_columns =
      [col ''ledger'' INTEGER True SqlNull,
       col ''total_voting_power'' (NUMERIC 38) True SqlNull,
       col ''top1_share_bps'' INTEGER True SqlNull,
       col ''top5_share_bps'' INTEGER True SqlNull,
       col ''top10_share_bps'' INTEGER True SqlNull,
       col ''top20_share_bps'' INTEGER True SqlNull,
       col ''gini_coefficient_bps'' INTEGER True SqlNull,
       col ''nakamoto_coefficient'' INTEGER True SqlNull,
       col ''delegate_top5_share_bps'' INTEGER True SqlNull,
       col ''delegate_gini_coefficient_bps'' INTEGER True SqlNull],
      ts_keys = [[''ledger'']],
      ts_refs = []\<rparr>"

definition vote_escrow_locks_table :: table_schema where
  "vote_escrow_locks_table =
     \<lparr>ts_columns =
      [col ''owner_address'' TEXT True SqlNull,
       col ''amount'' (NUMERIC 39) True SqlNull,
       col ''start_ledger'' BIGINT True SqlNull,
       col ''end_ledger'' BIGINT True SqlNull,
       col ''initial_voting_power'' (NUMERIC 39) True SqlNull,
       col ''withdrawn'' BOOLEAN True (SqlBool False),
       col ''updated_ledger'' BIGINT True SqlNull],
      ts_keys = [[''owner_address'']],
      ts_refs = []\<rparr>"

definition liquidity_events_table :: table_schema where
  "liquidity_events_table =
     \<lparr>ts_columns =
      [col ''event_type'' TEXT True SqlNull,
       col ''provider'' TEXT True SqlNull,
       col ''outcome_a'' INTEGER True SqlNull,
       col ''outcome_b'' INTEGER True SqlNull,
       col ''amount_a'' (NUMERIC 0) True SqlNull,
       col ''amount_b'' (NUMERIC 0) True SqlNull,
       col ''lp_tokens'' (NUMERIC 0) True SqlNull,
       col ''ledger'' INTEGER True SqlNull],
      ts_keys = [],
      ts_refs = []\<rparr>"

definition swap_events_table :: table_schema where
  "swap_events_table =
     \<lparr>ts_columns =
      [col ''trader'' TEXT True SqlNull,
       col ''outcome_in'' INTEGER True SqlNull,
       col ''outcome_out'' INTEGER True SqlNull,
       col ''amount_in'' (NUMERIC 0) True SqlNull,
       col ''amount_out'' (NUMERIC 0) True SqlNull,
       col ''fee'' (NUMERIC 0) True SqlNull,
       col ''ledger'' INTEGER True SqlNull],
      ts_keys = [],
      ts_refs = []\<rparr>"

definition pool_fee_updates_table :: table_schema where
  "pool_fee_updates_table =
     \<lparr>ts_columns =
      [col ''outcome_a'' INTEGER True SqlNull,
       col ''outcome_b'' INTEGER True SqlNull,
       col ''old_fee_bps'' INTEGER True SqlNull,
       col ''new_fee_bps'' INTEGER True SqlNull,
       col ''ledger'' INTEGER True SqlNull],
      ts_keys = [],
      ts_refs = []\<rparr>"

definition indexer_schema :: schema where
  "indexer_schema =
     [(''proposals'', proposals_table),
      (''votes'', votes_table),
      (''delegates'', delegates_table),
      (''wrapper_deposits'', wrapper_deposits_table),
      (''wrapper_withdrawals'', wrapper_withdrawals_table),
      (''treasury_transfers'', treasury_transfers_table),
      (''indexer_state'', indexer_state_table),
      (''config_updates'', config_updates_table),
      (''governor_upgrades'', governor_upgrades_table),
      (''drafts'', drafts_table),
      (''draft_co_sponsors'', draft_co_sponsors_table),
      (''delegation_entries'', delegation_entries_table),
      (''proposer_reputation'', proposer_reputation_table),
      (''reputation_score_history'', reputation_score_history_table),
      (''event_log'', event_log_table),
      (''timelock_operations'', timelock_operations_table),
      (''timelock_batch_operations'', timelock_batch_operations_table),
      (''timelock_dependency_graphs'', timelock_dependency_graphs_table),
      (''timelock_partial_batch_state'', timelock_partial_batch_state_table),
      (''effective_threshold_history'', effective_threshold_history_table),
      (''treasury_streams'', treasury_streams_table),
      (''treasury_stream_spends'', treasury_stream_spends_table),
      (''treasury_stream_events'', treasury_stream_events_table),
      (''delegated_by_sig_events'', delegated_by_sig_events_table),
      (''relayer_whitelist_history'', relayer_whitelist_history_table),
      (''proposal_bonds'', proposal_bonds_table),
      (''signal_anchors'', signal_anchors_table),
      (''conviction_proposals'', conviction_proposals_table),
      (''conviction_stakes'', conviction_stakes_table),
      (''conviction_snapshots'', conviction_snapshots_table),
      (''treasury_strategies'', treasury_strategies_table),
      (''strategy_allocations'', strategy_allocations_table),
      (''strategy_withdrawals'', strategy_withdrawals_table),
      (''split_delegations'', split_delegations_table),
      (''governance_snapshots'', governance_snapshots_table),
      (''optimistic_proposals'', optimistic_proposals_table),
      (''optimistic_objections'', optimistic_objections_table),
      (''concentration_snapshots'', concentration_snapshots_table),
      (''vote_escrow_locks'', vote_escrow_locks_table),
      (''liquidity_events'', liquidity_events_table),
      (''swap_events'', swap_events_table),
      (''pool_fee_updates'', pool_fee_updates_table)]"

end
