(* ===== verification/LiveStream.thy ===== *)
theory LiveStream
  imports JsValue Interfaces "HOL-Library.List_Lexorder" "HOL-Library.Char_ord"
begin

section \<open>The live event stream: the indexer's socket server and the SDK's client\<close>

text \<open>
  \<^verbatim>\<open>packages/indexer/src/ws.ts\<close> and \<^verbatim>\<open>sdk/src/streamEvents.ts\<close>. The server keeps its connected clients, each with the filter it
  asked for and the pings it has missed. The client is a state machine over the variables of its closure: the
  socket, the reconnect timer, the polling timer, and the polls in flight, with the calls of the handler so far. A polling
  session has its own \<^verbatim>\<open>lastSeenId\<close>; sessions are numbered. The types of events are their strings. Events travel as
  JSON: bigints become decimal strings, undefined members are dropped. The handler is the client's code and returns; the
  socket library is the environment.
\<close>

subsection \<open>JSON\<close>

text \<open>What \<^verbatim>\<open>JSON.parse\<close> reads back of what \<^verbatim>\<open>JSON.stringify\<close> wrote, with the replacer that turns bigints into strings.
  A \<^verbatim>\<open>Buffer\<close> is written as an object.\<close>

fun json_wire :: "js_value \<Rightarrow> js_value" where
  "json_wire JUndefined = JNull"
| "json_wire JNull = JNull"
| "json_wire (JBoolean b) = JBoolean b"
| "json_wire (JNumber n) = JNumber n"
| "json_wire (JBigint n) = JString (dec_int n)"
| "json_wire (JString s) = JString s"
| "json_wire (JBuffer bs) =
     JObject [(''type'', JString ''Buffer''), (''data'', JArray (map (\<lambda>b. JNumber (uint b)) bs))]"
| "json_wire (JArray vs) = JArray (map json_wire vs)"
| "json_wire (JObject fs) =
     JObject (map (\<lambda>(k, v). (k, json_wire v)) (filter (\<lambda>(k, v). v \<noteq> JUndefined) fs))"

text \<open>An optional member of an object literal.\<close>

definition opt_field :: "('a \<Rightarrow> js_value) \<Rightarrow> 'a option \<Rightarrow> js_value" where
  "opt_field f x = (case x of None \<Rightarrow> JUndefined | Some a \<Rightarrow> f a)"

subsection \<open>Filters\<close>

record WsEvent =
  we_type :: string
  we_data :: js_value

text \<open>The server's filter holds what a client sent, so its types need not be strings.\<close>

record SubscriptionFilter =
  sf_types :: "js_value list option"
  sf_proposalId :: "string option"
  sf_streamId :: "string option"
  sf_state :: "string option"

definition EVENT_STATE :: "string \<Rightarrow> string option" where
  "EVENT_STATE = map_of
     [(''proposal_created'', ''Pending''), (''vote_cast'', ''Active''), (''proposal_queued'', ''Queued''),
      (''proposal_executed'', ''Executed''), (''proposal_cancelled'', ''Cancelled'')]"

definition EVENT_STATE_HINT :: "string \<Rightarrow> string option" where
  "EVENT_STATE_HINT = map_of
     [(''proposal_created'', ''Pending''), (''vote_cast'', ''Active''), (''proposal_queued'', ''Queued''),
      (''proposal_executed'', ''Executed''), (''proposal_cancelled'', ''Cancelled'')]"

definition matchesFilter :: "WsEvent \<Rightarrow> SubscriptionFilter \<Rightarrow> bool" where
  "matchesFilter event f =
     (if (case sf_types f of None \<Rightarrow> False | Some ts \<Rightarrow> 0 < length ts \<and> JString (we_type event) \<notin> set ts) then False
      else if (case sf_proposalId f of None \<Rightarrow> False
               | Some p \<Rightarrow> js_String (nullish_or (field (we_data event) ''proposal_id'') (field (we_data event) ''id'')) \<noteq> p)
        then False
      else if (case sf_streamId f of None \<Rightarrow> False
               | Some i \<Rightarrow> js_String (field (we_data event) ''stream_id'') \<noteq> i) then False
      else if (case sf_state f of None \<Rightarrow> False | Some s \<Rightarrow> EVENT_STATE (we_type event) \<noteq> Some s) then False
      else True)"

record StreamEventsOptions =
  so_types :: "string list option"
  so_proposalId :: "string option"
  so_streamId :: "string option"
  so_state :: "string option"

definition client_matchesFilter :: "StreamEventsOptions \<Rightarrow> WsEvent \<Rightarrow> bool" where
  "client_matchesFilter opts event =
     (if (case so_types opts of None \<Rightarrow> False | Some ts \<Rightarrow> 0 < length ts \<and> we_type event \<notin> set ts) then False
      else if (case so_proposalId opts of None \<Rightarrow> False
               | Some p \<Rightarrow> js_String (nullish_or (field (we_data event) ''proposal_id'') (field (we_data event) ''id'')) \<noteq> p)
        then False
      else if (case so_streamId opts of None \<Rightarrow> False
               | Some i \<Rightarrow> js_String (field (we_data event) ''stream_id'') \<noteq> i) then False
      else if (case so_state opts of None \<Rightarrow> False | Some s \<Rightarrow> EVENT_STATE_HINT (we_type event) \<noteq> Some s) then False
      else True)"

subsection \<open>The server\<close>

record SubscribedClient =
  cl_socket :: nat
  cl_open :: bool
  cl_filter :: SubscriptionFilter
  cl_missedPings :: nat

definition MAX_MISSED_PINGS :: nat where
  "MAX_MISSED_PINGS = 3"

definition no_filter :: SubscriptionFilter where
  "no_filter = \<lparr>sf_types = None, sf_proposalId = None, sf_streamId = None, sf_state = None\<rparr>"

definition on_connection :: "nat \<Rightarrow> SubscribedClient list \<Rightarrow> SubscribedClient list" where
  "on_connection socket clients =
     clients @ [\<lparr>cl_socket = socket, cl_open = True, cl_filter = no_filter, cl_missedPings = 0\<rparr>]"

text \<open>The handler of a filter message; the argument is the parsed text, \<open>None\<close> when it is not JSON. Reading a member
  of \<^verbatim>\<open>null\<close> throws, which leaves the filter as it is.\<close>

definition read_filter :: "js_value option \<Rightarrow> SubscriptionFilter \<Rightarrow> SubscriptionFilter" where
  "read_filter raw f =
     (case raw of None \<Rightarrow> f
      | Some msg \<Rightarrow>
          if msg = JNull then f
          else
            let f = (case field msg ''types'' of JArray ts \<Rightarrow> f\<lparr>sf_types := Some ts\<rparr> | _ \<Rightarrow> f);
                f = (case field msg ''proposalId'' of JString p \<Rightarrow> f\<lparr>sf_proposalId := Some p\<rparr> | _ \<Rightarrow> f);
                f = (case field msg ''streamId'' of JString i \<Rightarrow> f\<lparr>sf_streamId := Some i\<rparr> | _ \<Rightarrow> f)
            in if field msg ''subscribe'' = JString ''proposal'' \<and> field msg ''proposal_id'' \<noteq> JUndefined then
                 f\<lparr>sf_proposalId := Some (js_String (field msg ''proposal_id''))\<rparr>
               else if field msg ''subscribe'' = JString ''stream'' \<and> field msg ''stream_id'' \<noteq> JUndefined then
                 f\<lparr>sf_streamId := Some (js_String (field msg ''stream_id''))\<rparr>
               else if field msg ''subscribe'' = JString ''state'' then
                 (case field msg ''state'' of JString s \<Rightarrow> f\<lparr>sf_state := Some s\<rparr> | _ \<Rightarrow> f)
               else f)"

definition update_client ::
  "nat \<Rightarrow> (SubscribedClient \<Rightarrow> SubscribedClient) \<Rightarrow> SubscribedClient list \<Rightarrow> SubscribedClient list" where
  "update_client socket g clients = map (\<lambda>c. if cl_socket c = socket then g c else c) clients"

definition on_message :: "nat \<Rightarrow> js_value option \<Rightarrow> SubscribedClient list \<Rightarrow> SubscribedClient list" where
  "on_message socket raw = update_client socket (\<lambda>c. c\<lparr>cl_filter := read_filter raw (cl_filter c)\<rparr>)"

definition on_pong :: "nat \<Rightarrow> SubscribedClient list \<Rightarrow> SubscribedClient list" where
  "on_pong socket = update_client socket (\<lambda>c. c\<lparr>cl_missedPings := 0\<rparr>)"

text \<open>\<^verbatim>\<open>close\<close> and \<^verbatim>\<open>error\<close> of a socket.\<close>

definition on_close :: "nat \<Rightarrow> SubscribedClient list \<Rightarrow> SubscribedClient list" where
  "on_close socket clients = filter (\<lambda>c. cl_socket c \<noteq> socket) clients"

text \<open>The sockets an event is sent to.\<close>

definition broadcast :: "WsEvent \<Rightarrow> SubscribedClient list \<Rightarrow> nat list" where
  "broadcast event clients =
     map cl_socket (filter (\<lambda>c. cl_open c \<and> matchesFilter event (cl_filter c)) clients)"

text \<open>One tick of the heartbeat: who has missed too many pings is terminated, the others are pinged.\<close>

fun heartbeat :: "SubscribedClient list \<Rightarrow> SubscribedClient list" where
  "heartbeat [] = []"
| "heartbeat (c # clients) =
     (if cl_missedPings c \<ge> MAX_MISSED_PINGS then heartbeat clients
      else if cl_open c then c\<lparr>cl_missedPings := cl_missedPings c + 1\<rparr> # heartbeat clients
      else c # heartbeat clients)"

definition getConnectedClientCount :: "SubscribedClient list \<Rightarrow> nat" where
  "getConnectedClientCount clients = length clients"

subsection \<open>The client\<close>

text \<open>\<^verbatim>\<open>indexerUrl.replace(/^http/, "ws").replace(/\/$/, "")\<close> with the path of the socket, and the URL of the
  polling fallback.\<close>

definition strip_slash :: "string \<Rightarrow> string" where
  "strip_slash url = (if url \<noteq> [] \<and> last url = CHR ''/'' then butlast url else url)"

definition buildWsUrl :: "string \<Rightarrow> string" where
  "buildWsUrl indexerUrl =
     strip_slash (if take 4 indexerUrl = ''http'' then ''ws'' @ drop 4 indexerUrl else indexerUrl) @ ''/events''"

definition buildPollUrl :: "string \<Rightarrow> string" where
  "buildPollUrl indexerUrl = strip_slash indexerUrl @ ''/proposals?limit=20''"

datatype socket_phase = Connecting | Open

record Stream =
  sm_opts :: StreamEventsOptions
  sm_hasSocket :: bool
  sm_hasFetch :: bool
  sm_stopped :: bool
  sm_ws :: "socket_phase option"
  sm_reconnect :: bool
  sm_pollTimer :: "nat option"
  sm_usingPolling :: bool
  sm_lastSeenId :: "string option list"
  sm_polls :: "nat list"
  sm_handled :: "WsEvent list"

text \<open>\<^verbatim>\<open>poll()\<close> of a session up to the answer of the fetch, and the start of a session.\<close>

definition begin_poll :: "nat \<Rightarrow> Stream \<Rightarrow> Stream" where
  "begin_poll k s = (if sm_stopped s then s else s\<lparr>sm_polls := sm_polls s @ [k]\<rparr>)"

definition stopPolling :: "Stream \<Rightarrow> Stream" where
  "stopPolling s = s\<lparr>sm_pollTimer := None\<rparr>"

definition startPolling :: "Stream \<Rightarrow> Stream" where
  "startPolling s =
     (if \<not> sm_hasFetch s \<or> sm_usingPolling s then s
      else
        let k = length (sm_lastSeenId s);
            s' = begin_poll k (s\<lparr>sm_usingPolling := True, sm_lastSeenId := sm_lastSeenId s @ [None]\<rparr>)
        in s'\<lparr>sm_pollTimer := Some k\<rparr>)"

text \<open>The loop over the proposals of an answer and the update of \<^verbatim>\<open>lastSeenId\<close>.\<close>

definition poll_events :: "StreamEventsOptions \<Rightarrow> string option \<Rightarrow> js_value list \<Rightarrow> WsEvent list" where
  "poll_events opts lastSeenId proposals =
     filter (client_matchesFilter opts)
       (map (\<lambda>p. \<lparr>we_type = ''proposal_created'', we_data = p\<rparr>)
         (filter (\<lambda>p. \<not> (case lastSeenId of None \<Rightarrow> False | Some seen \<Rightarrow> js_String (field p ''id'') \<le> seen)) proposals))"

definition drop_poll :: "nat \<Rightarrow> nat list \<Rightarrow> nat list" where
  "drop_poll i polls = take i polls @ drop (Suc i) polls"

definition on_poll_answer :: "nat \<Rightarrow> js_value list \<Rightarrow> Stream \<Rightarrow> Stream" where
  "on_poll_answer i proposals s =
     (let k = sm_polls s ! i in
      s\<lparr>sm_polls := drop_poll i (sm_polls s),
        sm_handled := sm_handled s @ poll_events (sm_opts s) (sm_lastSeenId s ! k) proposals,
        sm_lastSeenId := (if 0 < length proposals
          then (sm_lastSeenId s)[k := Some (js_String (field (hd proposals) ''id''))] else sm_lastSeenId s)\<rparr>)"

definition on_poll_failure :: "nat \<Rightarrow> Stream \<Rightarrow> Stream" where
  "on_poll_failure i s = s\<lparr>sm_polls := drop_poll i (sm_polls s)\<rparr>"

text \<open>\<^verbatim>\<open>connect()\<close>; \<open>failing\<close> tells whether making the socket throws.\<close>

definition connect :: "bool \<Rightarrow> Stream \<Rightarrow> Stream" where
  "connect failing s =
     (if sm_stopped s then s
      else if \<not> sm_hasSocket s \<or> failing then startPolling s
      else s\<lparr>sm_ws := Some Connecting\<rparr>)"

text \<open>The messages sent when the socket opens: the filter, when one of its parts is truthy, and the state.\<close>

definition open_messages :: "StreamEventsOptions \<Rightarrow> js_value list" where
  "open_messages opts =
     (let types = opt_field (\<lambda>ts. JArray (map JString ts)) (so_types opts);
          proposalId = opt_field JString (so_proposalId opts);
          streamId = opt_field JString (so_streamId opts)
      in (if js_Boolean types \<or> js_Boolean proposalId \<or> js_Boolean streamId then
            [json_wire (JObject [(''types'', types), (''proposalId'', proposalId), (''streamId'', streamId)])]
          else []) @
         (case so_state opts of None \<Rightarrow> []
          | Some state \<Rightarrow> [json_wire (JObject [(''subscribe'', JString ''state''), (''state'', JString state)])]))"

definition on_open :: "Stream \<Rightarrow> Stream" where
  "on_open s = (stopPolling s)\<lparr>sm_usingPolling := False, sm_ws := Some Open\<rparr>"

text \<open>A message: \<open>None\<close> when it does not parse.\<close>

definition on_event :: "WsEvent option \<Rightarrow> Stream \<Rightarrow> Stream" where
  "on_event ev s =
     (case ev of None \<Rightarrow> s
      | Some event \<Rightarrow>
          if client_matchesFilter (sm_opts s) event then s\<lparr>sm_handled := sm_handled s @ [event]\<rparr> else s)"

definition on_socket_close :: "Stream \<Rightarrow> Stream" where
  "on_socket_close s =
     (let s = s\<lparr>sm_ws := None\<rparr> in
      if sm_stopped s then s else (startPolling s)\<lparr>sm_reconnect := True\<rparr>)"

definition on_reconnect :: "bool \<Rightarrow> Stream \<Rightarrow> Stream" where
  "on_reconnect failing s =
     (let s = s\<lparr>sm_reconnect := False\<rparr> in
      if sm_stopped s then s else connect failing ((stopPolling s)\<lparr>sm_usingPolling := False\<rparr>))"

definition unsubscribe :: "Stream \<Rightarrow> Stream" where
  "unsubscribe s = (stopPolling s)\<lparr>sm_stopped := True, sm_reconnect := False, sm_ws := None\<rparr>"

definition streamEvents :: "StreamEventsOptions \<Rightarrow> bool \<Rightarrow> bool \<Rightarrow> bool \<Rightarrow> Stream" where
  "streamEvents opts hasSocket hasFetch failing =
     connect failing
       \<lparr>sm_opts = opts, sm_hasSocket = hasSocket, sm_hasFetch = hasFetch, sm_stopped = False, sm_ws = None,
        sm_reconnect = False, sm_pollTimer = None, sm_usingPolling = False, sm_lastSeenId = [], sm_polls = [],
        sm_handled = []\<rparr>"

inductive stream_step :: "Stream \<Rightarrow> Stream \<Rightarrow> bool" where
  opened: "sm_ws s = Some Connecting \<Longrightarrow> stream_step s (on_open s)"
| message: "sm_ws s = Some Open \<Longrightarrow> stream_step s (on_event ev s)"
| closed: "sm_ws s \<noteq> None \<Longrightarrow> stream_step s (on_socket_close s)"
| reconnect: "sm_reconnect s \<Longrightarrow> stream_step s (on_reconnect failing s)"
| poll_timer: "sm_pollTimer s = Some k \<Longrightarrow> stream_step s (begin_poll k s)"
| poll_answer: "i < length (sm_polls s) \<Longrightarrow> stream_step s (on_poll_answer i proposals s)"
| poll_failure: "i < length (sm_polls s) \<Longrightarrow> stream_step s (on_poll_failure i s)"
| unsubscribed: "stream_step s (unsubscribe s)"

subsection \<open>Filters on both sides\<close>

text \<open>Values without byte strings, which JSON shows as they are.\<close>

fun plain :: "js_value \<Rightarrow> bool" where
  "plain (JBuffer bs) = False"
| "plain (JArray vs) = list_all plain vs"
| "plain (JObject fs) = list_all (\<lambda>(k, v). plain v) fs"
| "plain v = True"

lemma json_wire_nullish:
  "json_wire v = JUndefined \<longleftrightarrow> False" "json_wire v = JNull \<longleftrightarrow> v = JUndefined \<or> v = JNull"
  by (cases v; simp)+

lemma js_String_json_wire: "plain v \<Longrightarrow> v \<noteq> JUndefined \<Longrightarrow> js_String (json_wire v) = js_String v"
proof (induction v rule: js_String.induct)
  case (8 vs)
  have "(if json_wire v = JUndefined \<or> json_wire v = JNull then [] else js_String (json_wire v)) =
      (if v = JUndefined \<or> v = JNull then [] else js_String v)" if "v \<in> set vs" for v
    using 8 that by (auto simp: json_wire_nullish list_all_iff)
  then show ?case by (simp cong: map_cong)
qed simp_all

lemma field_json_wire:
  assumes "distinct (map fst fs)"
  shows "field (json_wire (JObject fs)) k =
    (if field (JObject fs) k = JUndefined then JUndefined else json_wire (field (JObject fs) k))"
proof -
  have "map_of (map (\<lambda>(k, v). (k, json_wire v)) (filter (\<lambda>(k, v). v \<noteq> JUndefined) fs)) k =
      (case map_of fs k of None \<Rightarrow> None | Some v \<Rightarrow> if v = JUndefined then None else Some (json_wire v))"
    using assms
  proof (induction fs)
    case (Cons p fs)
    obtain a v where p: "p = (a, v)" by (cases p)
    have "map_of fs a = None" using Cons.prems p by (simp add: map_of_eq_None_iff)
    with Cons p show ?case by auto
  qed simp
  then show ?thesis by (auto simp: json_wire_nullish split: option.split)
qed

lemma plain_field: "plain (JObject fs) \<Longrightarrow> plain (field (JObject fs) k)"
  by (auto simp: list_all_iff split: option.split dest!: map_of_SomeD)

lemma wire_ids:
  assumes "distinct (map fst fs)" "plain (JObject fs)"
  shows "js_String (field (json_wire (JObject fs)) a) = js_String (field (JObject fs) a)"
    and "js_String (nullish_or (field (json_wire (JObject fs)) a) (field (json_wire (JObject fs)) b)) =
      js_String (nullish_or (field (JObject fs) a) (field (JObject fs) b))"
proof -
  have one: "js_String (field (json_wire (JObject fs)) a) = js_String (field (JObject fs) a)" for a
    unfolding field_json_wire [OF assms(1)]
    using js_String_json_wire [OF plain_field [OF assms(2)]] by simp
  show "js_String (field (json_wire (JObject fs)) a) = js_String (field (JObject fs) a)" by (rule one)
  have "field (json_wire (JObject fs)) a = JUndefined \<or> field (json_wire (JObject fs)) a = JNull \<longleftrightarrow>
      field (JObject fs) a = JUndefined \<or> field (JObject fs) a = JNull"
    unfolding field_json_wire [OF assms(1)] by (simp add: json_wire_nullish)
  then show "js_String (nullish_or (field (json_wire (JObject fs)) a) (field (json_wire (JObject fs)) b)) =
      js_String (nullish_or (field (JObject fs) a) (field (JObject fs) b))"
    by (simp only: nullish_or_def one if_distrib [of js_String])
qed

text \<open>The filter the server holds for a client after the messages the client sends on opening.\<close>

definition server_filter :: "StreamEventsOptions \<Rightarrow> SubscriptionFilter" where
  "server_filter opts = fold (\<lambda>msg. read_filter (Some msg)) (open_messages opts) no_filter"

definition sends_filter :: "StreamEventsOptions \<Rightarrow> bool" where
  "sends_filter opts \<longleftrightarrow>
     so_types opts \<noteq> None \<or> (so_proposalId opts \<noteq> None \<and> so_proposalId opts \<noteq> Some []) \<or>
     (so_streamId opts \<noteq> None \<and> so_streamId opts \<noteq> Some [])"

lemma server_filter_eq:
  "server_filter opts =
     \<lparr>sf_types = (if sends_filter opts then map_option (map JString) (so_types opts) else None),
      sf_proposalId = (if sends_filter opts then so_proposalId opts else None),
      sf_streamId = (if sends_filter opts then so_streamId opts else None),
      sf_state = so_state opts\<rparr>"
proof -
  have [simp]: "map json_wire (map JString ts) = map JString ts" "map (json_wire \<circ> JString) ts = map JString ts" for ts
    by (simp_all add: comp_def)
  show ?thesis
    by (cases "so_types opts"; cases "so_proposalId opts"; cases "so_streamId opts"; cases "so_state opts")
      (simp_all add: server_filter_def open_messages_def opt_field_def js_Boolean_def read_filter_def no_filter_def
        sends_filter_def Let_def)
qed

lemma state_tables_agree: "EVENT_STATE_HINT = EVENT_STATE"
  by (simp add: EVENT_STATE_HINT_def EVENT_STATE_def)

text \<open>C29: The two filters agree across the wire: an event that a client's own filter accepts when it arrives as JSON was
  accepted by the filter the server holds for that client, so that the server never withholds an event the client asked for;
  and when the client's filter was sent at all and names no empty id, the server forwards nothing else.\<close>

theorem server_and_client_filters_agree:
  assumes "distinct (map fst fs)" "plain (JObject fs)"
  shows "let sent = \<lparr>we_type = t, we_data = JObject fs\<rparr>;
             received = \<lparr>we_type = t, we_data = json_wire (JObject fs)\<rparr> in
    (client_matchesFilter opts received \<longrightarrow> matchesFilter sent (server_filter opts)) \<and>
    (sends_filter opts \<or> so_proposalId opts = None \<and> so_streamId opts = None \<longrightarrow>
     matchesFilter sent (server_filter opts) \<longrightarrow> client_matchesFilter opts received)"
proof -
  have types: "JString t \<in> set (map JString ts) \<longleftrightarrow> t \<in> set ts" for ts by auto
  show ?thesis
    unfolding server_filter_eq client_matchesFilter_def matchesFilter_def wire_ids [OF assms] Let_def
      WsEvent.select_convs SubscriptionFilter.select_convs state_tables_agree
    by (auto simp: types sends_filter_def simp del: set_map split: option.splits if_splits)
qed

definition demo_watch :: StreamEventsOptions where
  "demo_watch = \<lparr>so_types = Some [''vote_cast''], so_proposalId = Some ''7'', so_streamId = None, so_state = None\<rparr>"

theorem server_and_client_filters_agree_witness:
  "matchesFilter \<lparr>we_type = ''vote_cast'', we_data = JObject [(''proposal_id'', JBigint 7)]\<rparr> (server_filter demo_watch)"
proof -
  have "dec_int 7 = ''7''" by code_simp
  then have "client_matchesFilter demo_watch
      \<lparr>we_type = ''vote_cast'', we_data = json_wire (JObject [(''proposal_id'', JBigint 7)])\<rparr>"
    by (simp add: client_matchesFilter_def demo_watch_def)
  then show ?thesis
    using server_and_client_filters_agree [of "[(''proposal_id'', JBigint 7)]" "''vote_cast''" demo_watch] by (simp add: Let_def)
qed

subsection \<open>The heartbeat\<close>

lemma heartbeat_filter:
  "heartbeat clients =
     map (\<lambda>c. if cl_open c then c\<lparr>cl_missedPings := cl_missedPings c + 1\<rparr> else c)
       (filter (\<lambda>c. cl_missedPings c < MAX_MISSED_PINGS) clients)"
  by (induction clients) auto

definition connected :: "nat \<Rightarrow> SubscribedClient list \<Rightarrow> bool" where
  "connected socket clients \<longleftrightarrow> (\<exists>c \<in> set clients. cl_socket c = socket)"

lemma connected_simps [simp]:
  "\<not> connected socket []" "connected socket (c # clients) \<longleftrightarrow> cl_socket c = socket \<or> connected socket clients"
  by (auto simp: connected_def)

lemma connected_heartbeat:
  "connected socket (heartbeat clients) \<longleftrightarrow>
     (\<exists>c \<in> set clients. cl_socket c = socket \<and> cl_missedPings c < MAX_MISSED_PINGS)"
  by (induction clients) auto

lemma connected_pong: "connected socket (on_pong j clients) \<longleftrightarrow> connected socket clients"
  by (induction clients) (simp_all add: on_pong_def update_client_def)

lemma missed_pong: "\<forall>c \<in> set (on_pong socket clients). cl_socket c = socket \<longrightarrow> cl_missedPings c = 0"
proof -
  have "list_all (\<lambda>c. cl_socket c = socket \<longrightarrow> cl_missedPings c = 0) (on_pong socket clients)"
    by (induction clients) (simp_all add: on_pong_def update_client_def)
  then show ?thesis by (simp only: list_all_iff)
qed

lemma silent_client:
  assumes "\<forall>c \<in> set clients. cl_socket c = socket \<longrightarrow> cl_open c \<and> cl_missedPings c = m"
    and "connected socket clients"
  shows "connected socket ((heartbeat ^^ n) clients) \<longleftrightarrow> n = 0 \<or> m + n \<le> MAX_MISSED_PINGS"
  using assms
proof (induction n arbitrary: m clients)
  case (Suc n)
  have step: "connected socket (heartbeat clients) \<longleftrightarrow> m < MAX_MISSED_PINGS"
    unfolding connected_heartbeat using Suc.prems by (auto simp: connected_def)
  have missed: "\<forall>c \<in> set (heartbeat clients). cl_socket c = socket \<longrightarrow> cl_open c \<and> cl_missedPings c = m + 1"
    using Suc.prems(1) by (auto simp: heartbeat_filter split: if_splits)
  have gone: "\<not> connected socket ((heartbeat ^^ n) cs)" if "\<not> connected socket cs" for cs
    using that by (induction n) (auto simp: connected_heartbeat, auto simp: connected_def)
  show ?case
  proof (cases "m < MAX_MISSED_PINGS")
    case True
    then show ?thesis using Suc.IH [OF missed] step by (auto simp: funpow_Suc_right simp del: funpow.simps)
  next
    case False
    then show ?thesis using gone step by (auto simp: funpow_Suc_right simp del: funpow.simps)
  qed
qed simp

text \<open>A tick after which the client answers.\<close>

definition answered_tick :: "nat \<Rightarrow> SubscribedClient list \<Rightarrow> SubscribedClient list" where
  "answered_tick socket clients = on_pong socket (heartbeat clients)"

lemma answering_client:
  assumes "connected socket clients" "\<forall>c \<in> set clients. cl_socket c = socket \<longrightarrow> cl_missedPings c = 0"
  shows "connected socket ((answered_tick socket ^^ n) clients) \<and>
    (\<forall>c \<in> set ((answered_tick socket ^^ n) clients). cl_socket c = socket \<longrightarrow> cl_missedPings c = 0)"
proof (induction n)
  case (Suc n)
  let ?cs = "(answered_tick socket ^^ n) clients"
  have "connected socket (heartbeat ?cs)"
    unfolding connected_heartbeat using Suc unfolding connected_def MAX_MISSED_PINGS_def by (metis zero_less_numeral)
  then have "connected socket (on_pong socket (heartbeat ?cs))" by (simp only: connected_pong)
  then show ?case using missed_pong [of socket "heartbeat ?cs"] by (simp add: answered_tick_def [of socket ?cs])
qed (use assms in simp)

text \<open>The heartbeat drops the clients that went silent and no others: a new client that answers no ping is kept for
  three ticks and gone at the fourth, and one that answers every ping before the next tick is kept for ever.\<close>

theorem heartbeat_drops_silent_clients:
  assumes "\<not> connected socket clients"
  shows "(connected socket ((heartbeat ^^ n) (on_connection socket clients)) \<longleftrightarrow> n \<le> 3) \<and>
    connected socket ((answered_tick socket ^^ n) (on_connection socket clients))"
proof -
  have new: "\<forall>c \<in> set (on_connection socket clients). cl_socket c = socket \<longrightarrow> cl_open c \<and> cl_missedPings c = 0"
    using assms by (auto simp: on_connection_def connected_def)
  have "connected socket (on_connection socket clients)" by (simp add: on_connection_def connected_def)
  then show ?thesis
    using silent_client [OF new, of n] answering_client [of socket "on_connection socket clients" n] new
    by (auto simp: MAX_MISSED_PINGS_def)
qed

theorem heartbeat_drops_silent_clients_witness:
  "connected 1 ((heartbeat ^^ 3) (on_connection 1 [])) \<and> \<not> connected 1 ((heartbeat ^^ 4) (on_connection 1 []))"
  using heartbeat_drops_silent_clients [of 1 "[]"] by (simp add: connected_def del: funpow.simps)

subsection \<open>Runs of the client\<close>

definition stream_inv :: "Stream \<Rightarrow> bool" where
  "stream_inv s \<longleftrightarrow>
     (sm_stopped s \<longrightarrow> sm_ws s = None \<and> \<not> sm_reconnect s \<and> sm_pollTimer s = None) \<and>
     (\<not> sm_stopped s \<longrightarrow> (sm_usingPolling s \<longleftrightarrow> sm_pollTimer s \<noteq> None)) \<and>
     (sm_ws s \<noteq> None \<longrightarrow> sm_pollTimer s = None \<and> \<not> sm_reconnect s) \<and>
     (\<forall>k \<in> set (sm_polls s) \<union> set_option (sm_pollTimer s). k < length (sm_lastSeenId s)) \<and>
     (\<not> sm_stopped s \<and> sm_hasFetch s \<longrightarrow> sm_ws s \<noteq> None \<or> sm_reconnect s \<or> sm_pollTimer s \<noteq> None)"

lemma set_drop_poll: "set (drop_poll i polls) \<subseteq> set polls"
  using set_take_subset [of i polls] set_drop_subset [of "Suc i" polls] by (auto simp: drop_poll_def)

lemmas stream_defs = begin_poll_def stopPolling_def startPolling_def on_poll_answer_def on_poll_failure_def connect_def
  on_open_def on_event_def on_socket_close_def on_reconnect_def unsubscribe_def

lemma stream_inv_step: "stream_step s t \<Longrightarrow> stream_inv s \<Longrightarrow> stream_inv t"
proof (induction rule: stream_step.induct)
  case (message s ev)
  then show ?case by (auto simp: stream_inv_def on_event_def split: option.splits)
next
  case (poll_answer i s proposals)
  then show ?case using set_drop_poll [of i "sm_polls s"]
    by (fastforce simp: stream_inv_def on_poll_answer_def Let_def)
next
  case (poll_failure i s)
  then show ?case using set_drop_poll [of i "sm_polls s"] by (fastforce simp: stream_inv_def on_poll_failure_def)
qed (fastforce simp: stream_inv_def stream_defs Let_def less_Suc_eq)+

interpretation streaming: stepwise_invariant stream_step stream_inv
  by unfold_locales (rule stream_inv_step)

lemma stream_inv_start: "stream_inv (streamEvents opts hasSocket hasFetch failing)"
  by (auto simp: streamEvents_def stream_inv_def stream_defs Let_def)

text \<open>C30: The stream has one source of events at a time: in every reachable state a live socket excludes the polling timer
  and a pending reconnect, a stopped stream has neither socket nor timer, and a running stream that can fetch always has a
  socket, a polling timer or a reconnect ahead, so that it never falls silent for good.\<close>

theorem stream_has_one_source:
  assumes "stream_step\<^sup>*\<^sup>* (streamEvents opts hasSocket hasFetch failing) s"
  shows "(sm_ws s \<noteq> None \<longrightarrow> sm_pollTimer s = None \<and> \<not> sm_reconnect s) \<and>
    (sm_stopped s \<longrightarrow> sm_ws s = None \<and> \<not> sm_reconnect s \<and> sm_pollTimer s = None) \<and>
    (\<not> sm_stopped s \<and> sm_hasFetch s \<longrightarrow> sm_ws s \<noteq> None \<or> sm_reconnect s \<or> sm_pollTimer s \<noteq> None)"
proof -
  have "stream_inv s" using streaming.reach_inv [OF assms] stream_inv_start by blast
  then show ?thesis by (simp add: stream_inv_def)
qed

definition silenced :: "WsEvent list \<Rightarrow> Stream \<Rightarrow> bool" where
  "silenced handled s \<longleftrightarrow>
     sm_handled s = handled \<and> sm_stopped s \<and> sm_ws s = None \<and> \<not> sm_reconnect s \<and> sm_pollTimer s = None \<and>
     sm_polls s = []"

interpretation silence: stepwise_invariant stream_step "silenced handled" for handled
  by unfold_locales (auto simp: silenced_def unsubscribe_def stopPolling_def elim!: stream_step.cases)

text \<open>When no poll is waiting for its answer, unsubscribing silences the stream for good.\<close>

theorem unsubscribed_stream_is_silent:
  assumes "stream_step\<^sup>*\<^sup>* (unsubscribe s) t" "sm_polls s = []"
  shows "sm_handled t = sm_handled s"
proof -
  have "silenced (sm_handled s) (unsubscribe s)"
    using assms(2) by (simp add: silenced_def unsubscribe_def stopPolling_def)
  then show ?thesis using silence.reach_inv [OF assms(1)] by (simp add: silenced_def)
qed

subsection \<open>Concrete runs\<close>

definition watch_all :: StreamEventsOptions where
  "watch_all = \<lparr>so_types = None, so_proposalId = None, so_streamId = None, so_state = None\<rparr>"

definition demo_proposal :: "int \<Rightarrow> js_value" where
  "demo_proposal n = JObject [(''id'', JNumber n)]"

definition demo_created :: "int \<Rightarrow> WsEvent" where
  "demo_created n = \<lparr>we_type = ''proposal_created'', we_data = demo_proposal n\<rparr>"

text \<open>A client without sockets, polling; and one whose socket is being opened.\<close>

abbreviation demo_polling :: Stream where
  "demo_polling \<equiv> streamEvents watch_all False True False"

abbreviation demo_socket :: Stream where
  "demo_socket \<equiv> streamEvents watch_all True True False"

lemma poll_events_all:
  "poll_events watch_all seen ps =
     map (\<lambda>p. \<lparr>we_type = ''proposal_created'', we_data = p\<rparr>)
       (filter (\<lambda>p. \<not> (case seen of None \<Rightarrow> False | Some i \<Rightarrow> js_String (field p ''id'') \<le> i)) ps)"
  by (simp add: poll_events_def client_matchesFilter_def watch_all_def)

lemma demo_ids:
  "js_String (field (demo_proposal 9) ''id'') = ''9''" "js_String (field (demo_proposal 10) ''id'') = ''10''"
proof -
  have "dec_int 9 = ''9''" "dec_int 10 = ''10''" by code_simp+
  then show "js_String (field (demo_proposal 9) ''id'') = ''9''" "js_String (field (demo_proposal 10) ''id'') = ''10''"
    by (simp_all add: demo_proposal_def)
qed

theorem stream_has_one_source_witness:
  "sm_ws (on_open demo_socket) \<noteq> None \<and> sm_pollTimer (on_open demo_socket) = None"
proof -
  have "stream_step\<^sup>*\<^sup>* demo_socket (on_open demo_socket)"
    by (intro r_into_rtranclp stream_step.opened) (simp add: streamEvents_def connect_def)
  from stream_has_one_source [OF this] show ?thesis by (simp add: on_open_def)
qed

theorem unsubscribed_stream_is_silent_witness: "sm_handled (unsubscribe demo_socket) = []"
  using unsubscribed_stream_is_silent [of demo_socket "unsubscribe demo_socket"]
  by (simp add: streamEvents_def connect_def)

text \<open>A poll that is waiting when the client unsubscribes still calls the handler when its answer arrives.\<close>

theorem handler_called_after_unsubscribe:
  "\<exists>t. stream_step\<^sup>*\<^sup>* (unsubscribe demo_polling) t \<and> sm_handled t \<noteq> sm_handled (unsubscribe demo_polling)"
proof (intro exI conjI)
  let ?t = "on_poll_answer 0 [demo_proposal 9] (unsubscribe demo_polling)"
  have polls: "sm_polls (unsubscribe demo_polling) = [0]" "sm_lastSeenId (unsubscribe demo_polling) = [None]"
      "sm_opts (unsubscribe demo_polling) = watch_all"
    by (simp_all add: streamEvents_def stream_defs Let_def)
  show "stream_step\<^sup>*\<^sup>* (unsubscribe demo_polling) ?t"
    by (intro r_into_rtranclp stream_step.poll_answer) (simp add: polls)
  show "sm_handled ?t \<noteq> sm_handled (unsubscribe demo_polling)"
    by (simp add: on_poll_answer_def polls poll_events_all Let_def)
qed

text \<open>The polling fallback compares proposal ids as text: after proposal 9 has been seen, proposal 10 is older
  than it, and the client is never told about it.\<close>

theorem tenth_proposal_never_reported:
  "let s1 = on_poll_answer 0 [demo_proposal 9] demo_polling;
       s2 = on_poll_answer 0 [demo_proposal 10, demo_proposal 9] (begin_poll 0 s1)
   in stream_step\<^sup>*\<^sup>* demo_polling s2 \<and> sm_handled s2 = [demo_created 9]"
proof -
  define s1 where "s1 = on_poll_answer 0 [demo_proposal 9] demo_polling"
  define s2 where "s2 = begin_poll 0 s1"
  define s3 where "s3 = on_poll_answer 0 [demo_proposal 10, demo_proposal 9] s2"
  have s0: "sm_polls demo_polling = [0]" "sm_lastSeenId demo_polling = [None]" "sm_opts demo_polling = watch_all"
      "sm_handled demo_polling = []" "sm_pollTimer demo_polling = Some 0" "\<not> sm_stopped demo_polling"
    by (simp_all add: streamEvents_def stream_defs Let_def)
  have s1: "sm_polls s1 = []" "sm_lastSeenId s1 = [Some ''9'']" "sm_opts s1 = watch_all"
      "sm_handled s1 = [demo_created 9]" "sm_pollTimer s1 = Some 0" "\<not> sm_stopped s1"
    unfolding s1_def on_poll_answer_def Let_def
    by (simp_all add: s0 poll_events_all demo_ids drop_poll_def demo_created_def)
  have s2: "sm_polls s2 = [0]" "sm_lastSeenId s2 = [Some ''9'']" "sm_opts s2 = watch_all"
      "sm_handled s2 = [demo_created 9]"
    using s1 by (simp_all add: s2_def begin_poll_def)
  have "stream_step demo_polling s1" unfolding s1_def by (rule stream_step.poll_answer) (simp add: s0)
  moreover have "stream_step s1 s2" unfolding s2_def by (rule stream_step.poll_timer) (rule s1)
  moreover have "stream_step s2 s3" unfolding s3_def by (rule stream_step.poll_answer) (simp add: s2)
  ultimately have "stream_step\<^sup>*\<^sup>* demo_polling s3" by (meson converse_rtranclp_into_rtranclp rtranclp.rtrancl_refl)
  moreover have "sm_handled s3 = [demo_created 9]"
    unfolding s3_def on_poll_answer_def Let_def by (simp add: s2 poll_events_all demo_ids)
  ultimately show ?thesis unfolding s3_def s2_def s1_def Let_def by blast
qed

text \<open>Every failed attempt to reconnect starts a new polling session that has seen nothing: the same proposals are
  reported again.\<close>

theorem reconnecting_repeats_proposals:
  "\<exists>t. stream_step\<^sup>*\<^sup>* demo_socket t \<and> sm_handled t = [demo_created 9, demo_created 9]"
proof -
  define s1 where "s1 = on_socket_close demo_socket"
  define s2 where "s2 = on_poll_answer 0 [demo_proposal 9] s1"
  define s3 where "s3 = on_reconnect False s2"
  define s4 where "s4 = on_socket_close s3"
  define s5 where "s5 = on_poll_answer 0 [demo_proposal 9] s4"
  have s0: "sm_ws demo_socket = Some Connecting" by (simp add: streamEvents_def connect_def)
  have s1: "sm_polls s1 = [0]" "sm_lastSeenId s1 = [None]" "sm_opts s1 = watch_all" "sm_handled s1 = []"
      "sm_reconnect s1" "\<not> sm_stopped s1" "sm_hasSocket s1" "sm_hasFetch s1"
    by (simp_all add: s1_def streamEvents_def stream_defs Let_def)
  have s2: "sm_polls s2 = []" "sm_lastSeenId s2 = [Some ''9'']" "sm_opts s2 = watch_all"
      "sm_handled s2 = [demo_created 9]" "sm_reconnect s2" "\<not> sm_stopped s2" "sm_hasSocket s2" "sm_hasFetch s2"
    unfolding s2_def on_poll_answer_def Let_def
    by (simp_all add: s1 poll_events_all demo_ids drop_poll_def demo_created_def)
  have s4: "sm_polls s4 = [1]" "sm_lastSeenId s4 = [Some ''9'', None]" "sm_opts s4 = watch_all"
      "sm_handled s4 = [demo_created 9]" "sm_ws s3 = Some Connecting"
    using s2 by (simp_all add: s4_def s3_def stream_defs Let_def)
  have "sm_handled s5 = [demo_created 9, demo_created 9]"
    unfolding s5_def on_poll_answer_def Let_def by (simp add: s4 poll_events_all demo_created_def)
  moreover have "stream_step demo_socket s1" unfolding s1_def by (rule stream_step.closed) (simp add: s0)
  moreover have "stream_step s1 s2" unfolding s2_def by (rule stream_step.poll_answer) (simp add: s1)
  moreover have "stream_step s2 s3" unfolding s3_def by (rule stream_step.reconnect) (rule s2)
  moreover have "stream_step s3 s4" unfolding s4_def by (rule stream_step.closed) (simp add: s4)
  moreover have "stream_step s4 s5" unfolding s5_def by (rule stream_step.poll_answer) (simp add: s4)
  ultimately show ?thesis by (meson converse_rtranclp_into_rtranclp rtranclp.rtrancl_refl)
qed

end
