(* ===== verification/IndexerWorld.thy ===== *)
theory IndexerWorld
  imports IndexerSchema LiveStream
begin

section \<open>What the event handlers of the indexer act on\<close>

text \<open>
  The events as \<^verbatim>\<open>processEvents\<close> of \<^verbatim>\<open>packages/indexer/src/events.ts\<close> sees them, and the three things a handler acts on:
  the database, the cache of API answers (\<^verbatim>\<open>cache.ts\<close>) and the messages to the live stream. Most handlers first take the
  event apart, which may throw, and then issue a fixed sequence of calls; they are modelled as that sequence, a list of
  \<open>action\<close>s. Nothing is rolled back: when a call throws, the earlier ones have happened.
\<close>

subsection \<open>Events\<close>

text \<open>An event after \<^verbatim>\<open>scValToNative\<close>.\<close>

record RpcEvent =
  rpc_ledger :: int
  rpc_contractId :: "string option"
  rpc_txHash :: "string option"
  rpc_id :: "string option"
  rpc_ledgerClosedAt :: js_value
  rpc_topics :: "js_value list"
  rpc_value :: js_value

text \<open>\<^verbatim>\<open>topics[i]\<close>, and \<^verbatim>\<open>v[i]\<close> for an array, a byte string or an ASCII string.\<close>

definition topic :: "RpcEvent \<Rightarrow> nat \<Rightarrow> js_value" where
  "topic event i = (if i < length (rpc_topics event) then rpc_topics event ! i else JUndefined)"

definition items :: "js_value \<Rightarrow> js_value list option" where
  "items v =
     (case v of JArray vs \<Rightarrow> Some vs | JBuffer bs \<Rightarrow> Some (map (\<lambda>b. JNumber (uint b)) bs)
      | JString s \<Rightarrow> Some (map (\<lambda>c. JString [c]) s) | _ \<Rightarrow> None)"

definition item :: "js_value \<Rightarrow> nat \<Rightarrow> js_value" where
  "item v i = (case items v of None \<Rightarrow> JUndefined | Some vs \<Rightarrow> if i < length vs then vs ! i else JUndefined)"

lemma item_simps [simp]:
  "item (JArray vs) i = (if i < length vs then vs ! i else JUndefined)" "item (JObject fs) i = JUndefined"
  "items (JArray vs) = Some vs" "items (JObject fs) = None"
  by (simp_all add: item_def items_def)

subsection \<open>Failures\<close>

datatype failure = Thrown string | Database sql_error

definition type_error :: failure where
  "type_error = Thrown ''TypeError''"

text \<open>Reading a member of \<^verbatim>\<open>null\<close> or \<^verbatim>\<open>undefined\<close> throws; so does destructuring what is not iterable.\<close>

definition member_of :: "js_value \<Rightarrow> failure + 'a \<Rightarrow> failure + 'a" where
  "member_of v k = (if v = JUndefined \<or> v = JNull then Inl type_error else k)"

definition destructured :: "js_value \<Rightarrow> failure + 'a \<Rightarrow> failure + 'a" where
  "destructured v k = (if items v = None then Inl type_error else k)"

definition or_throw :: "'a option \<Rightarrow> ('a \<Rightarrow> failure + 'b) \<Rightarrow> failure + 'b" where
  "or_throw x k = (case x of None \<Rightarrow> Inl type_error | Some a \<Rightarrow> k a)"

lemma throwing_simps [simp]:
  "member_of (JObject fs) k = k" "member_of (JArray vs) k = k" "member_of JNull k = Inl type_error"
  "destructured (JArray vs) k = k" "or_throw (Some a) f = f a" "or_throw None f = Inl type_error"
  by (simp_all add: member_of_def destructured_def or_throw_def)

subsection \<open>The cache\<close>

record Cache =
  ca_entries :: "(string, js_value \<times> int) js_map"
  ca_hits :: nat
  ca_misses :: nat

definition startsWith :: "string \<Rightarrow> string \<Rightarrow> bool" where
  "startsWith s prefix \<longleftrightarrow> take (length prefix) s = prefix"

text \<open>\<^verbatim>\<open>cached\<close> up to the call of \<^verbatim>\<open>fn\<close> (\<open>None\<close>: it is called), and what happens when its promise resolves.\<close>

definition cached :: "string \<Rightarrow> int \<Rightarrow> Cache \<Rightarrow> js_value option \<times> Cache" where
  "cached key now c =
     (case js_get (ca_entries c) key of
        Some (data, expiresAt) \<Rightarrow>
          if now < expiresAt then (Some data, c\<lparr>ca_hits := ca_hits c + 1\<rparr>)
          else (None, c\<lparr>ca_misses := ca_misses c + 1\<rparr>)
      | None \<Rightarrow> (None, c\<lparr>ca_misses := ca_misses c + 1\<rparr>))"

definition cached_resolved :: "string \<Rightarrow> int \<Rightarrow> int \<Rightarrow> js_value \<Rightarrow> Cache \<Rightarrow> Cache" where
  "cached_resolved key ttlMs now data c = c\<lparr>ca_entries := js_set (ca_entries c) key (data, now + ttlMs)\<rparr>"

definition invalidate :: "string list \<Rightarrow> Cache \<Rightarrow> Cache" where
  "invalidate keys c = fold (\<lambda>key c. c\<lparr>ca_entries := js_delete (ca_entries c) key\<rparr>) keys c"

definition invalidatePattern :: "string \<Rightarrow> Cache \<Rightarrow> Cache" where
  "invalidatePattern prefix c = c\<lparr>ca_entries := filter (\<lambda>(key, _). \<not> startsWith key prefix) (ca_entries c)\<rparr>"

definition getMetrics :: "Cache \<Rightarrow> nat \<times> nat \<times> nat" where
  "getMetrics c = (ca_hits c, ca_misses c, length (ca_entries c))"

definition resetMetrics :: "Cache \<Rightarrow> Cache" where
  "resetMetrics c = c\<lparr>ca_hits := 0, ca_misses := 0\<rparr>"

subsection \<open>Actions\<close>

datatype action =
  Query statement "string option list"
| Invalidate "string list"
| InvalidatePattern string
| Broadcast WsEvent

record Indexer =
  ix_db :: database
  ix_cache :: Cache
  ix_sent :: "WsEvent list"

type_synonym 'a indexing = "(failure + 'a) \<times> Indexer"

definition query :: "statement \<Rightarrow> string option list \<Rightarrow> Indexer \<Rightarrow> unit indexing" where
  "query st ps w =
     (case exec indexer_schema (ix_db w) ps st of
        Inl e \<Rightarrow> (Inl (Database e), w) | Inr (n, db) \<Rightarrow> (Inr (), w\<lparr>ix_db := db\<rparr>))"

primrec run_action :: "action \<Rightarrow> Indexer \<Rightarrow> unit indexing" where
  "run_action (Query st ps) w = query st ps w"
| "run_action (Invalidate keys) w = (Inr (), w\<lparr>ix_cache := invalidate keys (ix_cache w)\<rparr>)"
| "run_action (InvalidatePattern prefix) w = (Inr (), w\<lparr>ix_cache := invalidatePattern prefix (ix_cache w)\<rparr>)"
| "run_action (Broadcast event) w = (Inr (), w\<lparr>ix_sent := ix_sent w @ [event]\<rparr>)"

fun run_actions :: "action list \<Rightarrow> Indexer \<Rightarrow> unit indexing" where
  "run_actions [] w = (Inr (), w)"
| "run_actions (a # as) w =
     (case run_action a w of (Inl e, w') \<Rightarrow> (Inl e, w') | (Inr _, w') \<Rightarrow> run_actions as w')"

definition run_handler :: "failure + action list \<Rightarrow> Indexer \<Rightarrow> unit indexing" where
  "run_handler r w = (case r of Inl e \<Rightarrow> (Inl e, w) | Inr as \<Rightarrow> run_actions as w)"

text \<open>A message to the live stream.\<close>

definition message :: "string \<Rightarrow> (string \<times> js_value) list \<Rightarrow> action" where
  "message ty fs = Broadcast \<lparr>we_type = ty, we_data = JObject fs\<rparr>"

text \<open>\<^verbatim>\<open>String(v)\<close> and \<^verbatim>\<open>Number(v)\<close> as parameters, and the ledger of the event.\<close>

definition text_param :: "js_value \<Rightarrow> string option" where
  "text_param v = Some (js_String v)"

definition ledger_param :: "RpcEvent \<Rightarrow> string option" where
  "ledger_param event = Some (dec_int (rpc_ledger event))"

definition ledger_value :: "RpcEvent \<Rightarrow> js_value" where
  "ledger_value event = JNumber (rpc_ledger event)"

subsection \<open>What runs of actions have in common\<close>

text \<open>The tables an action writes.\<close>

primrec action_tables :: "action \<Rightarrow> string set" where
  "action_tables (Query st ps) = {stmt_table st}"
| "action_tables (Invalidate keys) = {}"
| "action_tables (InvalidatePattern prefix) = {}"
| "action_tables (Broadcast event) = {}"

lemma query_frame: "query st ps w = (r, w') \<Longrightarrow> t \<noteq> stmt_table st \<Longrightarrow> ix_db w' t = ix_db w t"
  by (auto simp: query_def dest: exec_frame split: sum.splits)

lemma run_action_frame: "run_action a w = (r, w') \<Longrightarrow> t \<notin> action_tables a \<Longrightarrow> ix_db w' t = ix_db w t"
  by (cases a) (auto dest: query_frame)

lemma run_actions_frame:
  "run_actions as w = (r, w') \<Longrightarrow> t \<notin> \<Union> (set (map action_tables as)) \<Longrightarrow> ix_db w' t = ix_db w t"
proof (induction as w rule: run_actions.induct)
  case (2 a as w)
  then show ?case
    by (cases "run_action a w") (auto dest: run_action_frame split: sum.splits)
qed simp

text \<open>Keys stay unique as long as no statement assigns a key column.\<close>

definition action_ok :: "action \<Rightarrow> bool" where
  "action_ok a = (case a of Query st ps \<Rightarrow> leaves_keys indexer_schema st | _ \<Rightarrow> True)"

lemma distinct_tables: "distinct (map fst indexer_schema)"
  by (simp add: indexer_schema_def)

lemma run_action_keys:
  "run_action a w = (r, w') \<Longrightarrow> action_ok a \<Longrightarrow> keys_unique indexer_schema (ix_db w) \<Longrightarrow>
     keys_unique indexer_schema (ix_db w')"
  by (cases a)
    (auto simp: query_def action_ok_def split: sum.splits dest: exec_keeps_keys [OF _ _ _ distinct_tables])

lemma run_actions_keys:
  "run_actions as w = (r, w') \<Longrightarrow> list_all action_ok as \<Longrightarrow> keys_unique indexer_schema (ix_db w) \<Longrightarrow>
     keys_unique indexer_schema (ix_db w')"
proof (induction as w rule: run_actions.induct)
  case (2 a as w)
  then show ?case
    by (cases "run_action a w") (auto dest: run_action_keys split: sum.splits)
qed simp

end
