(* ===== verification/IndexerGovernance.thy ===== *)
theory IndexerGovernance
  imports IndexerWorld
begin

section \<open>Event handlers: the governor and the token votes\<close>

text \<open>
  The handlers of \<^verbatim>\<open>packages/indexer/src/events.ts\<close> for the events of the governor (proposals, votes, settings,
  reputation) and of the votes token (delegation, split and signed delegation), each in the order of its calls. A parameter
  \<^verbatim>\<open>topics[1] as string\<close> is passed on as it is.
\<close>

subsection \<open>Proposals and votes\<close>

definition handleProposalCreated :: "RpcEvent \<Rightarrow> failure + action list" where
  "handleProposalCreated event =
     (let raw = rpc_value event;
          store = (\<lambda>i proposer description descriptionHash startLedger startValue endLedger endValue.
            [InvalidatePattern ''proposals:'',
             Query (InsertInto ''proposals''
                 [(''id'', Param 1), (''proposer'', Param 2), (''description'', Param 3),
                  (''description_hash'', Param 4), (''start_ledger'', Param 5), (''end_ledger'', Param 6)]
                 (DoNothing (Some [''id''])))
               [text_param i, js_param proposer, Some description, descriptionHash, startLedger, endLedger],
             Invalidate [''profile:'' @ js_String proposer],
             message ''proposal_created''
               [(''id'', JString (js_String i)), (''proposer'', proposer), (''description'', JString description),
                (''start_ledger'', startValue), (''end_ledger'', endValue)]])
      in if isArray raw then
           Inr (store (item raw 0) (topic event 1) (js_String (nullish_or (item raw 1) (JString []))) None
             (js_param (item raw 5)) (item raw 5) (js_param (item raw 6)) (item raw 6))
         else member_of raw
           (let hash = field raw ''description_hash'';
                start = js_Number (field raw ''start_ledger'');
                finish = js_Number (field raw ''end_ledger'');
                rest = (\<lambda>h. store (field raw ''proposal_id'')
                  (JString (js_String (nullish_or (field raw ''proposer'') (JString []))))
                  (js_String (nullish_or (field raw ''description'') (JString []))) h
                  (number_param start) (number_value start) (number_param finish) (number_value finish))
            in if js_Boolean hash then or_throw (buffer_hex hash) (\<lambda>h. Inr (rest (Some h))) else Inr (rest None)))"

text \<open>The column of a tally.\<close>

definition tally_column :: "js_number \<Rightarrow> string" where
  "tally_column support =
     (if support = Finite 1 then ''votes_for'' else if support = Finite 0 then ''votes_against'' else ''votes_abstain'')"

definition handleVoteCast :: "bool \<Rightarrow> RpcEvent \<Rightarrow> failure + action list" where
  "handleVoteCast withReason event =
     (let voter = topic event 1; data = rpc_value event in
      member_of data
        (let proposalId = js_String (item data 0);
             support = js_Number (item data 1);
             weight = js_String (if withReason then item data 3 else item data 2);
             reason = (if withReason then Some (js_String (item data 2)) else None);
             tally = tally_column support
         in Inr
           [Query (InsertInto ''votes''
                [(''proposal_id'', Param 1), (''voter'', Param 2), (''support'', Param 3), (''weight'', Param 4),
                 (''reason'', Param 5), (''ledger'', Param 6)]
                (DoUpdate [''proposal_id'', ''voter'']
                  [(''support'', Excluded ''support''), (''weight'', Excluded ''weight''),
                   (''reason'', Coalesce (Excluded ''reason'') (Col ''reason''))]))
              [Some proposalId, js_param voter, number_param support, Some weight, reason, ledger_param event],
            Query (UpdateSet ''proposals'' [(tally, Plus (Col tally) (Param 1))] [(''id'', Param 2)])
              [Some weight, Some proposalId],
            Invalidate [''proposal_votes:'' @ proposalId, ''profile:'' @ js_String voter],
            InvalidatePattern ''proposals:'',
            message ''vote_cast''
              [(''proposal_id'', JString proposalId), (''voter'', voter), (''support'', number_value support),
               (''weight'', JString weight), (''reason'', opt_field JString reason)]]))"

definition proposal_flag :: "string \<Rightarrow> string \<Rightarrow> string \<Rightarrow> action list" where
  "proposal_flag column ty proposalId =
     [Query (UpdateSet ''proposals'' [(column, Lit (SqlBool True))] [(''id'', Param 1)]) [Some proposalId],
      Invalidate [''proposal_votes:'' @ proposalId],
      InvalidatePattern ''proposals:'',
      message ty [(''proposal_id'', JString proposalId)]]"

definition handleProposalQueued :: "RpcEvent \<Rightarrow> failure + action list" where
  "handleProposalQueued event = Inr (proposal_flag ''queued'' ''proposal_queued'' (js_String (topic event 1)))"

definition handleProposalExecuted :: "RpcEvent \<Rightarrow> failure + action list" where
  "handleProposalExecuted event = Inr (proposal_flag ''executed'' ''proposal_executed'' (js_String (topic event 1)))"

definition handleProposalCancelled :: "RpcEvent \<Rightarrow> failure + action list" where
  "handleProposalCancelled event =
     (let data = rpc_value event;
          proposalId = (if isArray data then item data 0 else field data ''proposal_id'')
      in if proposalId = JUndefined then Inl (Thrown ''ProposalCancelled event is missing proposal_id'')
         else Inr (proposal_flag ''cancelled'' ''proposal_cancelled'' (js_String proposalId)))"

subsection \<open>Delegation\<close>

definition handleDelegateChanged :: "RpcEvent \<Rightarrow> failure + action list" where
  "handleDelegateChanged event =
     (let delegator = topic event 1; data = rpc_value event in
      destructured data
        (let oldDelegatee = item data 0; newDelegatee = item data 1 in Inr
           [Query (InsertInto ''delegates''
                [(''delegator'', Param 1), (''old_delegatee'', Param 2), (''new_delegatee'', Param 3),
                 (''ledger'', Param 4)] NoClause)
              [js_param delegator, js_param oldDelegatee, js_param newDelegatee, ledger_param event],
            InvalidatePattern ''delegates:'',
            Invalidate [''profile:'' @ js_String delegator],
            message ''delegate_changed''
              [(''delegator'', delegator), (''old_delegatee'', oldDelegatee), (''new_delegatee'', newDelegatee),
               (''ledger'', ledger_value event)]]))"

definition handleDelegationRegistered :: "RpcEvent \<Rightarrow> failure + action list" where
  "handleDelegationRegistered event =
     (let delegator = topic event 1; data = rpc_value event in
      destructured data
        (let delegatee = item data 0; power = js_String (item data 1); chainDepth = item data 2 in Inr
           [Query (InsertInto ''delegation_entries''
                [(''delegator_address'', Param 1), (''delegatee_address'', Param 2),
                 (''delegated_at_ledger'', Param 3), (''power_at_delegation'', Param 4), (''chain_depth'', Param 5),
                 (''active'', Lit (SqlBool True))] NoClause)
              [js_param delegator, js_param delegatee, ledger_param event, Some power, js_param chainDepth],
            InvalidatePattern ''delegates:'',
            Invalidate [''profile:'' @ js_String delegator, ''profile:'' @ js_String delegatee],
            message ''delegation_registered''
              [(''delegator'', delegator), (''delegatee'', delegatee), (''power'', JString power),
               (''chain_depth'', chainDepth), (''ledger'', ledger_value event)]]))"

definition handleDelegationRevoked :: "RpcEvent \<Rightarrow> failure + action list" where
  "handleDelegationRevoked event =
     (let delegator = topic event 1; data = rpc_value event in
      destructured data
        (let previousDelegatee = item data 0; atLedger = item data 1 in Inr
           [Query (UpdateSet ''delegation_entries''
                [(''active'', Lit (SqlBool False)), (''revoked_at_ledger'', Param 3)]
                [(''delegator_address'', Param 1), (''delegatee_address'', Param 2), (''active'', Lit (SqlBool True))])
              [js_param delegator, js_param previousDelegatee, js_param atLedger],
            InvalidatePattern ''delegates:'',
            Invalidate [''profile:'' @ js_String delegator, ''profile:'' @ js_String previousDelegatee],
            message ''delegation_revoked''
              [(''delegator'', delegator), (''previous_delegatee'', previousDelegatee), (''ledger'', atLedger)]]))"

definition handleDelegationDepthLimitUpdated :: "RpcEvent \<Rightarrow> failure + action list" where
  "handleDelegationDepthLimitUpdated event =
     (let data = rpc_value event in
      destructured data
        (Inr [message ''delegation_depth_limit_updated''
          [(''old_limit'', item data 0), (''new_limit'', item data 1), (''ledger'', ledger_value event)]]))"

subsection \<open>Split delegation\<close>

text \<open>The active entry with the largest id, and its power as text.\<close>

definition latest_power :: "database \<Rightarrow> js_value \<Rightarrow> js_value \<Rightarrow> string option" where
  "latest_power db delegator delegatee =
     (case find (\<lambda>r. js_param delegator \<noteq> None \<and> cell r ''delegator_address'' = SqlText (js_String delegator) \<and>
            js_param delegatee \<noteq> None \<and> cell r ''delegatee_address'' = SqlText (js_String delegatee) \<and>
            cell r ''active'' = SqlBool True) (rev (db ''delegation_entries'')) of
        None \<Rightarrow> Some ''0''
      | Some r \<Rightarrow> (case cell r ''power_at_delegation'' of SqlInt n \<Rightarrow> Some (dec_int n) | _ \<Rightarrow> Some ''0''))"

definition revoke_splits :: "js_value \<Rightarrow> Indexer \<Rightarrow> unit indexing" where
  "revoke_splits delegator =
     query (UpdateSet ''split_delegations'' [(''active'', Lit (SqlBool False))]
        [(''delegator_address'', Param 1), (''active'', Lit (SqlBool True))]) [js_param delegator]"

fun insert_splits :: "js_value \<Rightarrow> js_value list \<Rightarrow> Indexer \<Rightarrow> unit indexing" where
  "insert_splits delegator [] w = (Inr (), w)"
| "insert_splits delegator (entry # rest) w =
     (if entry = JUndefined \<or> entry = JNull then (Inl type_error, w)
      else
        case query (InsertInto ''split_delegations''
               [(''delegator_address'', Param 1), (''delegatee_address'', Param 2), (''weight_bps'', Param 3),
                (''delegated_power'', Param 4), (''active'', Lit (SqlBool True))] NoClause)
             [js_param delegator, js_param (field entry ''delegatee''), js_param (field entry ''weight_bps''),
              latest_power (ix_db w) delegator (field entry ''delegatee'')] w of
          (Inl e, w') \<Rightarrow> (Inl e, w')
        | (Inr _, w') \<Rightarrow> insert_splits delegator rest w')"

definition handleSplitDelegated :: "RpcEvent \<Rightarrow> Indexer \<Rightarrow> unit indexing" where
  "handleSplitDelegated event w =
     (let delegator = topic event 1; splits = rpc_value event in
      case revoke_splits delegator w of
        (Inl e, w') \<Rightarrow> (Inl e, w')
      | (Inr _, w') \<Rightarrow>
          (case items splits of
             None \<Rightarrow> (Inl type_error, w')
           | Some entries \<Rightarrow>
               (case insert_splits delegator entries w' of
                  (Inl e, w'') \<Rightarrow> (Inl e, w'')
                | (Inr _, w'') \<Rightarrow>
                    run_actions
                      [InvalidatePattern ''delegates:'', InvalidatePattern ''split-delegations:'',
                       Invalidate [''profile:'' @ js_String delegator],
                       message ''split_delegated''
                         [(''delegator'', delegator), (''splits'', splits), (''ledger'', ledger_value event)]] w'')))"

definition handleSplitUndelegated :: "RpcEvent \<Rightarrow> Indexer \<Rightarrow> unit indexing" where
  "handleSplitUndelegated event w =
     (let delegator = topic event 1 in
      case revoke_splits delegator w of
        (Inl e, w') \<Rightarrow> (Inl e, w')
      | (Inr _, w') \<Rightarrow>
          run_actions
            [InvalidatePattern ''delegates:'', InvalidatePattern ''split-delegations:'',
             Invalidate [''profile:'' @ js_String delegator],
             message ''split_undelegated'' [(''delegator'', delegator), (''ledger'', ledger_value event)]] w')"

subsection \<open>Signed delegation\<close>

definition handleDelegatedBySig :: "RpcEvent \<Rightarrow> failure + action list" where
  "handleDelegatedBySig event =
     (let delegator = topic event 1; data = rpc_value event in
      member_of data
        (let nonce = js_String (field data ''nonce'') in Inr
           [Query (InsertInto ''delegated_by_sig_events''
                [(''delegator_address'', Param 1), (''delegatee_address'', Param 2), (''relayer_address'', Param 3),
                 (''nonce'', Param 4), (''ledger'', Param 5)] NoClause)
              [js_param delegator, js_param (field data ''delegatee''), js_param (field data ''relayer''), Some nonce,
               ledger_param event],
            InvalidatePattern ''delegations_by_sig:'',
            message ''delegated_by_sig''
              [(''delegator'', delegator), (''delegatee'', field data ''delegatee''),
               (''relayer'', field data ''relayer''), (''nonce'', JString nonce), (''ledger'', ledger_value event)]]))"

definition handlePermitsInvalidated :: "RpcEvent \<Rightarrow> failure + action list" where
  "handlePermitsInvalidated event =
     (let delegator = topic event 1; data = rpc_value event in
      member_of data
        (Inr [message ''permits_invalidated''
          [(''delegator'', delegator), (''new_nonce'', JString (js_String (field data ''new_nonce''))),
           (''ledger'', ledger_value event)]]))"

definition handleRelayerWhitelistUpdated :: "RpcEvent \<Rightarrow> failure + action list" where
  "handleRelayerWhitelistUpdated event =
     (let relayer = topic event 1; data = rpc_value event in
      member_of data
        (Inr
          [Query (InsertInto ''relayer_whitelist_history''
               [(''relayer_address'', Param 1), (''whitelisted'', Param 2), (''ledger'', Param 3)] NoClause)
             [js_param relayer, js_param (field data ''whitelisted''), ledger_param event],
           InvalidatePattern ''relayers:'',
           message ''relayer_whitelist_updated''
             [(''relayer'', relayer), (''whitelisted'', field data ''whitelisted''),
              (''ledger'', ledger_value event)]]))"

subsection \<open>Reputation\<close>

definition number_minus :: "js_number \<Rightarrow> js_number \<Rightarrow> js_number" where
  "number_minus a b =
     (case (a, b) of
        (Finite p, Finite q) \<Rightarrow>
          (let d = p - q in
           case quotient_of \<bar>d\<bar> of (n, m) \<Rightarrow> nearest_double (d < 0) (nat n) (nat m))
      | _ \<Rightarrow> NotANumber)"

definition handleReputationUpdated :: "RpcEvent \<Rightarrow> failure + action list" where
  "handleReputationUpdated event =
     (let data = rpc_value event in
      member_of data
        (let proposer = js_String (nullish_or (field data ''proposer'') (topic event 1));
             oldScore = js_Number (field data ''old_score'');
             newScore = js_Number (field data ''new_score'');
             reason = js_String (field data ''reason'')
         in Inr
           [Query (InsertInto ''proposer_reputation''
                [(''proposer_address'', Param 1), (''reputation_score'', Param 2), (''last_updated_ledger'', Param 3)]
                (DoUpdate [''proposer_address'']
                  [(''reputation_score'', Param 2), (''last_updated_ledger'', Param 3)]))
              [Some proposer, number_param newScore, ledger_param event],
            Query (InsertInto ''reputation_score_history''
                [(''proposer_address'', Param 1), (''ledger'', Param 2), (''score'', Param 3), (''change'', Param 4),
                 (''reason'', Param 5)] NoClause)
              [Some proposer, ledger_param event, number_param newScore,
               number_param (number_minus newScore oldScore), Some reason],
            Invalidate [''reputation:'' @ proposer],
            InvalidatePattern ''reputation:leaderboard'',
            message ''reputation_updated''
              [(''proposer'', JString proposer), (''old_score'', number_value oldScore),
               (''new_score'', number_value newScore), (''reason'', JString reason),
               (''ledger'', ledger_value event)]]))"

definition handleEffectiveThresholdChanged :: "RpcEvent \<Rightarrow> failure + action list" where
  "handleEffectiveThresholdChanged event =
     (let data = rpc_value event in
      member_of data
        (let proposer = js_String (nullish_or (field data ''proposer'') (topic event 1)) in
         or_throw (js_BigInt (field data ''old_threshold'')) (\<lambda>oldThreshold.
         or_throw (js_BigInt (field data ''new_threshold'')) (\<lambda>newThreshold. Inr
           [Query (InsertInto ''effective_threshold_history''
                [(''proposer_address'', Param 1), (''ledger'', Param 2), (''old_threshold'', Param 3),
                 (''new_threshold'', Param 4)] NoClause)
              [Some proposer, ledger_param event, Some (dec_int oldThreshold), Some (dec_int newThreshold)],
            message ''effective_threshold_changed''
              [(''proposer'', JString proposer), (''old_threshold'', JString (dec_int oldThreshold)),
               (''new_threshold'', JString (dec_int newThreshold)), (''ledger'', ledger_value event)]]))))"

end
