(* ===== verification/IndexerContracts.thy ===== *)
theory IndexerContracts
  imports IndexerWorld
begin

section \<open>Event handlers: the other contracts\<close>

text \<open>
  The handlers of \<^verbatim>\<open>packages/indexer/src/events.ts\<close> for conviction voting, the optimistic governor, the wrapper, batch
  transfers of the treasury, co-sponsored drafts, the signal anchor, treasury strategies, the vote escrow, proposal bonds,
  liquidity pools, and the settings and upgrades of the governor.
\<close>

text \<open>\<^verbatim>\<open>Array.isArray(raw) ? raw : [raw]\<close>\<close>

definition value_list :: "js_value \<Rightarrow> js_value" where
  "value_list raw = (if isArray raw then raw else JArray [raw])"

subsection \<open>Conviction voting\<close>

definition conviction_message :: "string \<Rightarrow> string \<Rightarrow> RpcEvent \<Rightarrow> action list" where
  "conviction_message ty proposalId event =
     [InvalidatePattern ''conviction:'',
      message ty [(''proposal_id'', JString proposalId), (''ledger'', ledger_value event)]]"

definition handleConvictionEvent :: "RpcEvent \<Rightarrow> js_value \<Rightarrow> failure + action list" where
  "handleConvictionEvent event eventType =
     (let proposalId = js_String (topic event 1);
          vals = value_list (rpc_value event)
      in if eventType = JString ''ProposalCreated'' then
           Inr (Query (InsertInto ''conviction_proposals''
               [(''proposal_id'', Param 1), (''proposer'', Param 2), (''target'', Param 3),
                (''requested_amount'', Param 4), (''created_ledger'', Param 5), (''last_updated_ledger'', Param 5)]
               (DoNothing (Some [''proposal_id''])))
             [Some proposalId, text_param (item vals 0), text_param (item vals 1), text_param (item vals 2),
              ledger_param event] # conviction_message ''conviction_proposal_created'' proposalId event)
         else if eventType = JString ''StakeUpdated'' then
           (let staker = js_String (item vals 0) in
            or_throw (string_to_bigint (js_String (item vals 1))) (\<lambda>amount. Inr
              ((if amount = 0 then
                  Query (DeleteFrom ''conviction_stakes'' [(''staker'', Param 1), (''proposal_id'', Param 2)])
                    [Some staker, Some proposalId]
                else
                  Query (InsertInto ''conviction_stakes''
                      [(''staker'', Param 1), (''proposal_id'', Param 2), (''amount'', Param 3),
                       (''updated_at_ledger'', Param 4)]
                      (DoUpdate [''staker'']
                        [(''proposal_id'', Excluded ''proposal_id''), (''amount'', Excluded ''amount''),
                         (''updated_at_ledger'', Excluded ''updated_at_ledger'')]))
                    [Some staker, Some proposalId, Some (dec_int amount), ledger_param event])
               # conviction_message ''conviction_stake_updated'' proposalId event)))
         else if eventType = JString ''ConvictionUpdated'' then
           Inr ([Query (UpdateSet ''conviction_proposals''
                    [(''conviction'', Param 2), (''last_updated_ledger'', Param 3)] [(''proposal_id'', Param 1)])
                  [Some proposalId, text_param (item vals 0), ledger_param event],
                Query (InsertInto ''conviction_snapshots''
                    [(''proposal_id'', Param 1), (''ledger'', Param 2), (''conviction'', Param 3)]
                    (DoUpdate [''proposal_id'', ''ledger''] [(''conviction'', Excluded ''conviction'')]))
                  [Some proposalId, ledger_param event, text_param (item vals 0)]]
               @ conviction_message ''conviction_conviction_updated'' proposalId event)
         else if eventType = JString ''ProposalExecuted'' then
           Inr (Query (UpdateSet ''conviction_proposals'' [(''executed'', Lit (SqlBool True))]
               [(''proposal_id'', Param 1)]) [Some proposalId]
             # conviction_message ''conviction_proposal_executed'' proposalId event)
         else if eventType = JString ''ProposalCancelled'' then
           Inr (Query (UpdateSet ''conviction_proposals'' [(''cancelled'', Lit (SqlBool True))]
               [(''proposal_id'', Param 1)]) [Some proposalId]
             # conviction_message ''conviction_proposal_cancelled'' proposalId event)
         else Inr [])"

subsection \<open>The optimistic governor\<close>

definition optimistic_message :: "string \<Rightarrow> string \<Rightarrow> RpcEvent \<Rightarrow> action list" where
  "optimistic_message ty proposalId event =
     [InvalidatePattern ''optimistic:'',
      message ty [(''proposal_id'', JString proposalId), (''ledger'', ledger_value event)]]"

definition optimistic_state :: "string \<Rightarrow> string \<Rightarrow> action" where
  "optimistic_state state proposalId =
     Query (UpdateSet ''optimistic_proposals'' [(''state'', Lit (SqlText state))] [(''proposal_id'', Param 1)])
       [Some proposalId]"

definition handleOptimisticGovernorEvent :: "RpcEvent \<Rightarrow> js_value \<Rightarrow> failure + action list" where
  "handleOptimisticGovernorEvent event eventType =
     (let proposalId = js_String (topic event 1);
          vals = value_list (rpc_value event)
      in if eventType = JString ''ProposalCreated'' then
           Inr (Query (InsertInto ''optimistic_proposals''
               [(''proposal_id'', Param 1), (''proposer'', Param 2), (''created_ledger'', Param 3),
                (''challenge_end_ledger'', Param 4)]
               (DoNothing (Some [''proposal_id''])))
             [Some proposalId, text_param (item vals 0), ledger_param event, text_param (item vals 1)]
             # optimistic_message ''optimistic_proposal_created'' proposalId event)
         else if eventType = JString ''ObjectionCast'' then
           (let objector = text_param (item vals 0); weight = text_param (item vals 1);
                runningTotal = text_param (item vals 2)
            in Inr ([Query (InsertInto ''optimistic_objections''
                    [(''proposal_id'', Param 1), (''objector'', Param 2), (''weight'', Param 3),
                     (''running_total'', Param 4), (''ledger'', Param 5)]
                    (DoNothing (Some [''proposal_id'', ''objector''])))
                  [Some proposalId, objector, weight, runningTotal, ledger_param event],
                Query (UpdateSet ''optimistic_proposals'' [(''objection_votes'', Param 2)]
                    [(''proposal_id'', Param 1)])
                  [Some proposalId, runningTotal]]
               @ optimistic_message ''optimistic_objection_cast'' proposalId event))
         else if eventType = JString ''ProposalObjected'' then
           Inr (optimistic_state ''objected'' proposalId
             # optimistic_message ''optimistic_proposal_objected'' proposalId event)
         else if eventType = JString ''ProposalPassed'' then
           Inr (optimistic_state ''passed'' proposalId
             # optimistic_message ''optimistic_proposal_passed'' proposalId event)
         else if eventType = JString ''ProposalExecuted'' then
           Inr (optimistic_state ''executed'' proposalId
             # optimistic_message ''optimistic_proposal_executed'' proposalId event)
         else if eventType = JString ''ProposalCancelled'' then
           Inr (optimistic_state ''cancelled'' proposalId
             # optimistic_message ''optimistic_proposal_cancelled'' proposalId event)
         else Inr [])"

subsection \<open>Wrapper and batch transfers\<close>

definition wrapper_move :: "string \<Rightarrow> string \<Rightarrow> RpcEvent \<Rightarrow> failure + action list" where
  "wrapper_move table ty event =
     (let account = topic event 1; data = rpc_value event in
      member_of data
        (let amount = js_String (item data 1) in Inr
           [Query (InsertInto table [(''account'', Param 1), (''amount'', Param 2), (''ledger'', Param 3)] NoClause)
              [js_param account, Some amount, ledger_param event],
            Invalidate [''profile:'' @ js_String account],
            message ty [(''account'', account), (''amount'', JString amount), (''ledger'', ledger_value event)]]))"

definition handleWrapperDeposit :: "RpcEvent \<Rightarrow> failure + action list" where
  "handleWrapperDeposit = wrapper_move ''wrapper_deposits'' ''wrapper_deposit''"

definition handleWrapperWithdraw :: "RpcEvent \<Rightarrow> failure + action list" where
  "handleWrapperWithdraw = wrapper_move ''wrapper_withdrawals'' ''wrapper_withdrawal''"

definition handleTreasuryBatchTransfer :: "RpcEvent \<Rightarrow> failure + action list" where
  "handleTreasuryBatchTransfer event =
     (let token = topic event 1; data = rpc_value event in
      member_of data (or_throw (buffer_hex (item data 0)) (\<lambda>opHash. Inr
        [Query (InsertInto ''treasury_transfers''
             [(''op_hash'', Param 1), (''token'', Param 2), (''recipient_count'', Param 3),
              (''total_amount'', Param 4), (''ledger'', Param 5)] (DoNothing None))
           [Some opHash, js_param token, number_param (js_Number (item data 1)), text_param (item data 2),
            ledger_param event]])))"

subsection \<open>Drafts\<close>

definition handleDraftCreated :: "RpcEvent \<Rightarrow> failure + action list" where
  "handleDraftCreated event =
     (let creator = topic event 1; data = rpc_value event in
      member_of data
        (let draftId = js_String (field data ''draft_id'');
             hash = field data ''description_hash'';
             metadataUri = nullish_or (field data ''metadata_uri'') JNull;
             rest = (\<lambda>descriptionHash.
               [Query (InsertInto ''drafts''
                    [(''draft_id'', Param 1), (''creator_address'', Param 2), (''description_hash'', Param 3),
                     (''metadata_uri'', Param 4), (''created_ledger'', Param 5), (''expiry_ledger'', Param 6)]
                    (DoNothing (Some [''draft_id''])))
                  [Some draftId, js_param creator, descriptionHash, js_param metadataUri,
                   number_param (js_Number (field data ''created_ledger'')),
                   number_param (js_Number (field data ''expiry_ledger''))],
                InvalidatePattern ''drafts:'',
                message ''draft_created''
                  [(''draft_id'', JString draftId), (''creator'', creator), (''metadata_uri'', metadataUri),
                   (''ledger'', ledger_value event)]])
         in if js_Boolean hash then or_throw (buffer_hex hash) (\<lambda>h. Inr (rest (Some h))) else Inr (rest None)))"

definition set_total_power :: "string \<Rightarrow> string \<Rightarrow> action" where
  "set_total_power totalPower draftId =
     Query (UpdateSet ''drafts'' [(''total_power'', Param 1)] [(''draft_id'', Param 2)]) [Some totalPower, Some draftId]"

definition handleCoSponsored :: "RpcEvent \<Rightarrow> failure + action list" where
  "handleCoSponsored event =
     (let sponsor = topic event 1; data = rpc_value event in
      member_of data
        (let draftId = js_String (item data 0); power = js_String (item data 1); totalPower = js_String (item data 2)
         in Inr
           [Query (InsertInto ''draft_co_sponsors''
                [(''draft_id'', Param 1), (''sponsor_address'', Param 2), (''pledged_power'', Param 3),
                 (''pledged_at_ledger'', Param 4)]
                (DoUpdate [''draft_id'', ''sponsor_address'']
                  [(''pledged_power'', Excluded ''pledged_power''), (''withdrawn'', Lit (SqlBool False))]))
              [Some draftId, js_param sponsor, Some power, ledger_param event],
            set_total_power totalPower draftId,
            InvalidatePattern ''drafts:'',
            message ''co_sponsored''
              [(''draft_id'', JString draftId), (''sponsor'', sponsor), (''power'', JString power),
               (''total_power'', JString totalPower), (''ledger'', ledger_value event)]]))"

definition handleCoSponsorshipWithdrawn :: "RpcEvent \<Rightarrow> failure + action list" where
  "handleCoSponsorshipWithdrawn event =
     (let sponsor = topic event 1; data = rpc_value event in
      member_of data
        (let draftId = js_String (item data 0); totalPower = js_String (item data 2)
         in Inr
           [Query (UpdateSet ''draft_co_sponsors'' [(''withdrawn'', Lit (SqlBool True))]
                [(''draft_id'', Param 1), (''sponsor_address'', Param 2)])
              [Some draftId, js_param sponsor],
            set_total_power totalPower draftId,
            InvalidatePattern ''drafts:'',
            message ''co_sponsorship_withdrawn''
              [(''draft_id'', JString draftId), (''sponsor'', sponsor), (''total_power'', JString totalPower),
               (''ledger'', ledger_value event)]]))"

definition handleDraftFinalized :: "RpcEvent \<Rightarrow> failure + action list" where
  "handleDraftFinalized event =
     (let data = rpc_value event in
      member_of data
        (let draftId = js_String (item data 0); proposalId = js_String (item data 1)
         in Inr
           [Query (UpdateSet ''drafts''
                [(''finalized'', Lit (SqlBool True)), (''resulting_proposal_id'', Param 1)] [(''draft_id'', Param 2)])
              [Some proposalId, Some draftId],
            InvalidatePattern ''drafts:'',
            message ''draft_finalized''
              [(''draft_id'', JString draftId), (''proposal_id'', JString proposalId),
               (''ledger'', ledger_value event)]]))"

definition draft_flag :: "string \<Rightarrow> string \<Rightarrow> RpcEvent \<Rightarrow> failure + action list" where
  "draft_flag column ty event =
     (let data = rpc_value event in
      member_of data
        (let draftId = js_String (item data 0)
         in Inr
           [Query (UpdateSet ''drafts'' [(column, Lit (SqlBool True))] [(''draft_id'', Param 1)]) [Some draftId],
            InvalidatePattern ''drafts:'',
            message ty [(''draft_id'', JString draftId), (''ledger'', ledger_value event)]]))"

definition handleDraftCancelled :: "RpcEvent \<Rightarrow> failure + action list" where
  "handleDraftCancelled = draft_flag ''cancelled'' ''draft_cancelled''"

definition handleDraftExpired :: "RpcEvent \<Rightarrow> failure + action list" where
  "handleDraftExpired = draft_flag ''expired'' ''draft_expired''"

subsection \<open>Signal anchor\<close>

definition handleResultAnchored :: "RpcEvent \<Rightarrow> failure + action list" where
  "handleResultAnchored event =
     (let anchorer = topic event 1; data = rpc_value event in
      member_of data (or_throw (buffer_hex (item data 1)) (\<lambda>resultHash.
        let pollId = js_String (item data 0); anchoredLedger = js_Number (item data 2) in Inr
          [Query (InsertInto ''signal_anchors''
               [(''poll_id'', Param 1), (''result_hash'', Param 2), (''anchored_ledger'', Param 3),
                (''anchorer'', Param 4), (''tx_hash'', Param 5)] (DoNothing (Some [''poll_id''])))
             [Some pollId, Some resultHash, number_param anchoredLedger, js_param anchorer, rpc_txHash event],
           InvalidatePattern ''signal-anchors:'',
           message ''result_anchored''
             [(''poll_id'', JString pollId), (''result_hash'', JString resultHash),
              (''anchored_ledger'', number_value anchoredLedger), (''anchorer'', anchorer)]])))"

subsection \<open>Treasury strategies\<close>

definition handleStrategyRegistered :: "RpcEvent \<Rightarrow> failure + action list" where
  "handleStrategyRegistered event =
     (let strategyId = js_String (topic event 1); data = rpc_value event in
      member_of data
        (let adapter = field data ''adapter''; token = field data ''token'' in Inr
           [Query (InsertInto ''treasury_strategies''
                [(''strategy_id'', Param 1), (''adapter'', Param 2), (''token'', Param 3),
                 (''active'', Lit (SqlBool True)), (''registered_ledger'', Param 4)] (DoNothing (Some [''strategy_id''])))
              [Some strategyId, js_param adapter, js_param token, ledger_param event],
            InvalidatePattern ''treasury-strategies:'',
            message ''strategy_registered''
              [(''strategy_id'', JString strategyId), (''adapter'', adapter), (''token'', token),
               (''ledger'', ledger_value event)]]))"

definition handleStrategyDeactivated :: "RpcEvent \<Rightarrow> failure + action list" where
  "handleStrategyDeactivated event =
     (let strategyId = js_String (topic event 1) in Inr
        [Query (UpdateSet ''treasury_strategies'' [(''active'', Lit (SqlBool False))] [(''strategy_id'', Param 1)])
           [Some strategyId],
         InvalidatePattern ''treasury-strategies:'',
         message ''strategy_deactivated'' [(''strategy_id'', JString strategyId), (''ledger'', ledger_value event)]])"

definition move_allocation :: "(sql_expr \<Rightarrow> sql_expr \<Rightarrow> sql_expr) \<Rightarrow> string \<Rightarrow> string \<Rightarrow> action" where
  "move_allocation f strategyId amount =
     Query (UpdateSet ''treasury_strategies''
         [(''current_allocation'', f (Col ''current_allocation'') (Param 2))] [(''strategy_id'', Param 1)])
       [Some strategyId, Some amount]"

definition handleStrategyDeposited :: "RpcEvent \<Rightarrow> failure + action list" where
  "handleStrategyDeposited event =
     (let strategyId = js_String (topic event 1); data = rpc_value event in
      member_of data
        (let amount = js_String (field data ''amount'') in Inr
           [Query (InsertInto ''strategy_allocations''
                [(''strategy_id'', Param 1), (''amount'', Param 2), (''ledger'', Param 3)] NoClause)
              [Some strategyId, Some amount, ledger_param event],
            move_allocation Plus strategyId amount,
            InvalidatePattern ''treasury-strategies:'',
            message ''strategy_deposited''
              [(''strategy_id'', JString strategyId), (''amount'', JString amount), (''ledger'', ledger_value event)]]))"

definition handleStrategyWithdrawalRequested :: "RpcEvent \<Rightarrow> failure + action list" where
  "handleStrategyWithdrawalRequested event =
     (let withdrawalId = js_String (topic event 1); data = rpc_value event in
      member_of data
        (let strategyId = js_String (field data ''strategy_id'');
             amount = js_String (field data ''amount'');
             claimableLedger = js_Number (field data ''claimable_ledger'')
         in Inr
           [Query (InsertInto ''strategy_withdrawals''
                [(''withdrawal_id'', Param 1), (''strategy_id'', Param 2), (''amount'', Param 3),
                 (''requested_ledger'', Param 4), (''claimable_ledger'', Param 5)]
                (DoNothing (Some [''withdrawal_id''])))
              [Some withdrawalId, Some strategyId, Some amount, ledger_param event, number_param claimableLedger],
            move_allocation Minus strategyId amount,
            InvalidatePattern ''treasury-strategies:'',
            message ''strategy_withdrawal_requested''
              [(''withdrawal_id'', JString withdrawalId), (''strategy_id'', JString strategyId),
               (''amount'', JString amount), (''claimable_ledger'', number_value claimableLedger)]]))"

definition handleStrategyWithdrawalClaimed :: "RpcEvent \<Rightarrow> failure + action list" where
  "handleStrategyWithdrawalClaimed event =
     (let withdrawalId = js_String (topic event 1); data = rpc_value event in
      member_of data
        (let actualAmount = js_String (field data ''actual_amount'') in Inr
           [Query (UpdateSet ''strategy_withdrawals'' [(''actual_amount'', Param 2), (''claimed_ledger'', Param 3)]
                [(''withdrawal_id'', Param 1)])
              [Some withdrawalId, Some actualAmount, ledger_param event],
            InvalidatePattern ''treasury-strategies:'',
            message ''strategy_withdrawal_claimed''
              [(''withdrawal_id'', JString withdrawalId), (''actual_amount'', JString actualAmount),
               (''ledger'', ledger_value event)]]))"

subsection \<open>Vote escrow\<close>

definition handleVoteEscrowEvent :: "RpcEvent \<Rightarrow> js_value \<Rightarrow> failure + action list" where
  "handleVoteEscrowEvent event eventType =
     (let raw = rpc_value event;
          data = (if isRecord raw then raw else JObject []);
          owner = js_String (nullish_or (nullish_or (field data ''owner'') (topic event 1)) (JString []))
      in if owner = [] then Inr []
         else if eventType = JString ''LockWithdrawn'' then Inr
           [Query (UpdateSet ''vote_escrow_locks'' [(''withdrawn'', Lit (SqlBool True)), (''updated_ledger'', Param 2)]
                [(''owner_address'', Param 1)])
              [Some owner, ledger_param event],
            InvalidatePattern ''vote-escrow:'']
         else
           (let amount = js_String (nullish_or (field data ''amount'') (JNumber 0));
                startLedger = js_Number (nullish_or (nullish_or (field data ''start_ledger'') (field data ''start''))
                  (ledger_value event));
                endLedger = js_Number (nullish_or (nullish_or (field data ''end_ledger'') (field data ''end''))
                  (JNumber 0));
                initialVotingPower = js_String (nullish_or
                  (nullish_or (field data ''initial_voting_power'') (field data ''voting_power'')) (JString amount))
            in Inr
              [Query (InsertInto ''vote_escrow_locks''
                   [(''owner_address'', Param 1), (''amount'', Param 2), (''start_ledger'', Param 3),
                    (''end_ledger'', Param 4), (''initial_voting_power'', Param 5), (''withdrawn'', Lit (SqlBool False)),
                    (''updated_ledger'', Param 6)]
                   (DoUpdate [''owner_address'']
                     [(''amount'', Param 2), (''end_ledger'', Param 4), (''initial_voting_power'', Param 5),
                      (''withdrawn'', Lit (SqlBool False)), (''updated_ledger'', Param 6)]))
                 [Some owner, Some amount, number_param startLedger, number_param endLedger, Some initialVotingPower,
                  ledger_param event],
               InvalidatePattern ''vote-escrow:'']))"

subsection \<open>Proposal bonds\<close>

definition with_bond_data :: "RpcEvent \<Rightarrow> (string \<Rightarrow> string \<Rightarrow> action list) \<Rightarrow> failure + action list" where
  "with_bond_data event k =
     (let data = rpc_value event in
      member_of data (or_throw (buffer_hex (item data 0)) (\<lambda>descriptionHash.
        Inr (k descriptionHash (js_String (item data 1))))))"

definition handleBondLocked :: "RpcEvent \<Rightarrow> failure + action list" where
  "handleBondLocked event =
     with_bond_data event (\<lambda>descriptionHash amount.
       [Query (InsertInto ''proposal_bonds''
            [(''description_hash'', Param 1), (''proposer_address'', Param 2), (''amount'', Param 3),
             (''state'', Lit (SqlText ''locked'')), (''locked_ledger'', Param 4)]
            (DoNothing (Some [''description_hash''])))
          [Some descriptionHash, js_param (topic event 1), Some amount, ledger_param event],
        InvalidatePattern ''proposal-bonds:'',
        message ''bond_locked''
          [(''description_hash'', JString descriptionHash), (''proposer'', topic event 1),
           (''amount'', JString amount), (''ledger'', ledger_value event)]])"

definition handleBondRefunded :: "RpcEvent \<Rightarrow> failure + action list" where
  "handleBondRefunded event =
     with_bond_data event (\<lambda>descriptionHash amount.
       [Query (UpdateSet ''proposal_bonds''
            [(''state'', Lit (SqlText ''refunded'')), (''refunded_ledger'', Param 1)] [(''description_hash'', Param 2)])
          [ledger_param event, Some descriptionHash],
        InvalidatePattern ''proposal-bonds:'',
        message ''bond_refunded''
          [(''description_hash'', JString descriptionHash), (''proposer'', topic event 1),
           (''amount'', JString amount), (''ledger'', ledger_value event)]])"

definition handleBondSlashed :: "RpcEvent \<Rightarrow> failure + action list" where
  "handleBondSlashed event =
     with_bond_data event (\<lambda>descriptionHash amount.
       let recipient = item (rpc_value event) 2 in
       [Query (UpdateSet ''proposal_bonds''
            [(''state'', Lit (SqlText ''slashed'')), (''slashed_ledger'', Param 1), (''slash_recipient'', Param 2)]
            [(''description_hash'', Param 3)])
          [ledger_param event, js_param recipient, Some descriptionHash],
        InvalidatePattern ''proposal-bonds:'',
        message ''bond_slashed''
          [(''description_hash'', JString descriptionHash), (''proposer'', topic event 1),
           (''amount'', JString amount), (''recipient'', recipient), (''ledger'', ledger_value event)]])"

end
