(* ===== verification/IndexerTimelock.thy ===== *)
theory IndexerTimelock
  imports IndexerWorld
begin

section \<open>Event handlers: the timelock\<close>

text \<open>
  The handlers of \<^verbatim>\<open>packages/indexer/src/events.ts\<close> for the sixteen events of the timelock. A value may be a tuple or a
  struct; both are read. (The functions of that file whose names start with \<^verbatim>\<open>legacy\<close> are called by nobody.)
\<close>

text \<open>\<^verbatim>\<open>data?.[i] ?? object?.name\<close>\<close>

definition part :: "RpcEvent \<Rightarrow> nat \<Rightarrow> string \<Rightarrow> js_value" where
  "part event i name =
     (let raw = rpc_value event in
      if isArray raw then nullish_or (item raw i) JUndefined else nullish_or JUndefined (field raw name))"

definition bytesToHex :: "js_value \<Rightarrow> failure + string" where
  "bytesToHex v =
     (if \<not> js_Boolean v then Inr []
      else case v of JString s \<Rightarrow> Inr s | JBuffer bs \<Rightarrow> Inr (to_hex bs)
        | JArray vs \<Rightarrow> or_throw (buffer_hex v) Inr
        | _ \<Rightarrow> Inr (js_String v))"

text \<open>\<^verbatim>\<open>bytesToHex\<close> on the values a contract publishes; on an array of numbers it gives their low bytes. It never throws.\<close>

definition hex_text :: "js_value \<Rightarrow> string" where
  "hex_text v = (case bytesToHex v of Inr s \<Rightarrow> s | Inl e \<Rightarrow> [])"

lemma bytesToHex_total: "bytesToHex v = Inr (hex_text v)"
  by (cases v) (auto simp: bytesToHex_def hex_text_def buffer_hex_def)

lemma hex_text_simps [simp]: "hex_text (JBuffer bs) = to_hex bs" "hex_text JUndefined = []" "hex_text JNull = []"
  "hex_text (JString s) = s"
  by (auto simp: hex_text_def bytesToHex_def js_Boolean_def)

text \<open>\<^verbatim>\<open>String(v ?? "")\<close>, \<^verbatim>\<open>String(v ?? 0)\<close>, \<^verbatim>\<open>Number(v ?? 0)\<close>\<close>

definition text_or :: "js_value \<Rightarrow> js_value \<Rightarrow> string" where
  "text_or v d = js_String (nullish_or v d)"

definition number_or_0 :: "js_value \<Rightarrow> js_number" where
  "number_or_0 v = js_Number (nullish_or v (JNumber 0))"

definition text_list :: "js_value \<Rightarrow> (string list \<Rightarrow> failure + 'a) \<Rightarrow> failure + 'a" where
  "text_list v k = (case v of JArray vs \<Rightarrow> k (map js_String vs) | _ \<Rightarrow> Inl type_error)"

definition json_texts :: "string list \<Rightarrow> string" where
  "json_texts ss = stringifyJson (JArray (map JString ss))"

definition timelockEventId :: "RpcEvent \<Rightarrow> string \<Rightarrow> string" where
  "timelockEventId event eventType =
     (case rpc_id event of Some i \<Rightarrow> i
      | None \<Rightarrow> (case rpc_txHash event of None \<Rightarrow> ''ledger'' | Some h \<Rightarrow> h) @ '':'' @ dec_int (rpc_ledger event) @ '':'' @
          eventType)"

subsection \<open>Operations\<close>

definition handleTimelockOperationScheduled :: "RpcEvent \<Rightarrow> failure + action list" where
  "handleTimelockOperationScheduled event =
     (let opId = hex_text (part event 0 ''op_id'');
          target = text_or (part event 1 ''target'') (JString []);
          fnName = text_or (part event 2 ''fn_name'') (JString []);
          readyAt = text_or (part event 3 ''ready_at'') (JNumber 0);
          expiresAt = text_or (part event 4 ''expires_at'') (JNumber 0)
      in Inr
        [Query (InsertInto ''timelock_operations''
             [(''op_id'', Param 1), (''target'', Param 2), (''fn_name'', Param 3), (''ready_at'', Param 4),
              (''expires_at'', Param 5), (''status'', Lit (SqlText ''scheduled'')), (''ledger'', Param 6)]
             (DoUpdate [''op_id'']
               [(''target'', Excluded ''target''), (''fn_name'', Excluded ''fn_name''),
                (''ready_at'', Excluded ''ready_at''), (''expires_at'', Excluded ''expires_at''),
                (''ledger'', Excluded ''ledger'')]))
           [Some opId, Some target, Some fnName, Some readyAt, Some expiresAt, ledger_param event],
         Invalidate [''timelock:op:'' @ opId],
         InvalidatePattern ''timelock:ops:'',
         message ''timelock_operation_scheduled''
           [(''op_id'', JString opId), (''target'', JString target), (''fn_name'', JString fnName),
            (''ready_at'', JString readyAt), (''expires_at'', JString expiresAt), (''ledger'', ledger_value event)]])"

definition operation_closed :: "string \<Rightarrow> string \<Rightarrow> string \<Rightarrow> string \<Rightarrow> RpcEvent \<Rightarrow> failure + action list" where
  "operation_closed status byColumn atColumn ty event =
     (let opId = hex_text (part event 0 ''op_id'');
          caller = text_or (part event 1 ''caller'') (JString [])
      in Inr
        [Query (UpdateSet ''timelock_operations''
             [(''status'', Lit (SqlText status)), (byColumn, Param 2), (atColumn, Param 3)] [(''op_id'', Param 1)])
           [Some opId, Some caller, ledger_param event],
         Invalidate [''timelock:op:'' @ opId],
         InvalidatePattern ''timelock:ops:'',
         message ty [(''op_id'', JString opId), (''caller'', JString caller), (''ledger'', ledger_value event)]])"

definition handleTimelockOperationExecuted :: "RpcEvent \<Rightarrow> failure + action list" where
  "handleTimelockOperationExecuted =
     operation_closed ''executed'' ''executed_by'' ''executed_at_ledger'' ''timelock_operation_executed''"

definition handleTimelockOperationCancelled :: "RpcEvent \<Rightarrow> failure + action list" where
  "handleTimelockOperationCancelled =
     operation_closed ''cancelled'' ''cancelled_by'' ''cancelled_at_ledger'' ''timelock_operation_cancelled''"

subsection \<open>Batches\<close>

definition handleTimelockBatchOperationScheduled :: "RpcEvent \<Rightarrow> failure + action list" where
  "handleTimelockBatchOperationScheduled event =
     (let batchOpId = hex_text (part event 0 ''batch_op_id'') in
      text_list (nullish_or (part event 1 ''targets'') (JArray [])) (\<lambda>targets.
      text_list (nullish_or (part event 2 ''fn_names'') (JArray [])) (\<lambda>fnNames.
        let readyAt = text_or (part event 3 ''ready_at'') (JNumber 0);
            expiresAt = text_or (part event 4 ''expires_at'') (JNumber 0)
        in Inr
          [Query (InsertInto ''timelock_batch_operations''
               [(''batch_op_id'', Param 1), (''targets'', Param 2), (''fn_names'', Param 3), (''ready_at'', Param 4),
                (''expires_at'', Param 5), (''status'', Lit (SqlText ''scheduled'')), (''ledger'', Param 6)]
               (DoUpdate [''batch_op_id'']
                 [(''targets'', Excluded ''targets''), (''fn_names'', Excluded ''fn_names''),
                  (''ready_at'', Excluded ''ready_at''), (''expires_at'', Excluded ''expires_at''),
                  (''ledger'', Excluded ''ledger'')]))
             [Some batchOpId, Some (json_texts targets), Some (json_texts fnNames), Some readyAt, Some expiresAt,
              ledger_param event],
           Invalidate [''timelock:batch:'' @ batchOpId],
           InvalidatePattern ''timelock:batches:'',
           message ''timelock_batch_operation_scheduled''
             [(''batch_op_id'', JString batchOpId), (''targets'', JArray (map JString targets)),
              (''fn_names'', JArray (map JString fnNames)), (''ready_at'', JString readyAt),
              (''expires_at'', JString expiresAt), (''ledger'', ledger_value event)]])))"

definition batch_closed :: "string \<Rightarrow> string \<Rightarrow> string \<Rightarrow> string \<Rightarrow> RpcEvent \<Rightarrow> failure + action list" where
  "batch_closed status byColumn atColumn ty event =
     (let batchOpId = hex_text (part event 0 ''batch_op_id'');
          caller = text_or (part event 1 ''caller'') (JString [])
      in Inr
        [Query (UpdateSet ''timelock_batch_operations''
             [(''status'', Lit (SqlText status)), (byColumn, Param 2), (atColumn, Param 3)]
             [(''batch_op_id'', Param 1)])
           [Some batchOpId, Some caller, ledger_param event],
         Invalidate [''timelock:batch:'' @ batchOpId],
         InvalidatePattern ''timelock:batches:'',
         message ty
           [(''batch_op_id'', JString batchOpId), (''caller'', JString caller), (''ledger'', ledger_value event)]])"

definition handleTimelockBatchOperationExecuted :: "RpcEvent \<Rightarrow> failure + action list" where
  "handleTimelockBatchOperationExecuted =
     batch_closed ''executed'' ''executed_by'' ''executed_at_ledger'' ''timelock_batch_operation_executed''"

definition handleTimelockBatchOperationCancelled :: "RpcEvent \<Rightarrow> failure + action list" where
  "handleTimelockBatchOperationCancelled =
     batch_closed ''cancelled'' ''cancelled_by'' ''cancelled_at_ledger'' ''timelock_batch_operation_cancelled''"

definition handleTimelockMinDelayUpdated :: "RpcEvent \<Rightarrow> failure + action list" where
  "handleTimelockMinDelayUpdated event =
     Inr [message ''timelock_min_delay_updated''
       [(''old_delay'', JString (text_or (part event 0 ''old_delay'') (JNumber 0))),
        (''new_delay'', JString (text_or (part event 1 ''new_delay'') (JNumber 0))),
        (''ledger'', ledger_value event)]]"

subsection \<open>Dependency graphs\<close>

definition handleTimelockDependencyDagValidated :: "RpcEvent \<Rightarrow> failure + action list" where
  "handleTimelockDependencyDagValidated event =
     (let batchOpId = hex_text (part event 0 ''batch_op_id'');
          opCount = number_or_0 (part event 1 ''op_count'')
      in Inr
        ([Query (InsertInto ''timelock_dependency_graphs''
              [(''validation_id'', Param 1), (''batch_op_id'', Param 2), (''op_count'', Param 3),
               (''has_cycle'', Lit (SqlBool False)), (''ledger'', Param 4)] (DoNothing (Some [''validation_id''])))
            [Some (timelockEventId event ''DependencyDagValidated''),
             (if batchOpId = [] then None else Some batchOpId), number_param opCount, ledger_param event]] @
         (if batchOpId = [] then [] else [Invalidate [''timelock:dag:'' @ batchOpId]]) @
         [message ''timelock_dependency_dag_validated''
            [(''batch_op_id'', JString batchOpId), (''op_count'', number_value opCount),
             (''ledger'', ledger_value event)]]))"

definition handleTimelockCycleDetected :: "RpcEvent \<Rightarrow> failure + action list" where
  "handleTimelockCycleDetected event =
     (let cyclePath = map hex_text (elements (rpc_value event)) in Inr
        [Query (InsertInto ''timelock_dependency_graphs''
             [(''validation_id'', Param 1), (''batch_op_id'', Lit SqlNull), (''op_count'', Param 2),
              (''has_cycle'', Lit (SqlBool True)), (''cycle_path'', Param 3), (''ledger'', Param 4)]
             (DoNothing (Some [''validation_id''])))
           [Some (timelockEventId event ''CycleDetected''), Some (dec_int (int (length cyclePath))),
            Some (json_texts cyclePath), ledger_param event],
         message ''timelock_cycle_detected''
           [(''cycle_path'', JArray (map JString cyclePath)), (''ledger'', ledger_value event)]])"

subsection \<open>Partial execution\<close>

definition partial_update :: "(string \<times> sql_expr) list \<Rightarrow> string option list \<Rightarrow> string \<Rightarrow> string \<Rightarrow>
    (string \<times> js_value) list \<Rightarrow> RpcEvent \<Rightarrow> action list" where
  "partial_update sets ps batchOpId ty fs event =
     [Query (UpdateSet ''timelock_partial_batch_state'' sets [(''batch_op_id'', Param 1)]) (Some batchOpId # ps),
      Invalidate [''timelock:partial_state:'' @ batchOpId],
      message ty ((''batch_op_id'', JString batchOpId) # fs @ [(''ledger'', ledger_value event)])]"

definition handleTimelockPartialBatchStarted :: "RpcEvent \<Rightarrow> failure + action list" where
  "handleTimelockPartialBatchStarted event =
     (let batchOpId = hex_text (part event 0 ''batch_op_id'');
          totalOps = number_or_0 (part event 1 ''total_ops'')
      in Inr
        [Query (InsertInto ''timelock_partial_batch_state''
             [(''batch_op_id'', Param 1), (''total_ops'', Param 2), (''completed_ops'', Lit (SqlInt 0)),
              (''status'', Lit (SqlText ''in_progress'')), (''started_at_ledger'', Param 3),
              (''updated_at_ledger'', Param 3)]
             (DoUpdate [''batch_op_id'']
               [(''total_ops'', Excluded ''total_ops''), (''status'', Lit (SqlText ''in_progress'')),
                (''updated_at_ledger'', Excluded ''updated_at_ledger'')]))
           [Some batchOpId, number_param totalOps, ledger_param event],
         Invalidate [''timelock:partial_state:'' @ batchOpId],
         message ''timelock_partial_batch_started''
           [(''batch_op_id'', JString batchOpId), (''total_ops'', number_value totalOps),
            (''ledger'', ledger_value event)]])"

definition handleTimelockPartialOpSucceeded :: "RpcEvent \<Rightarrow> failure + action list" where
  "handleTimelockPartialOpSucceeded event =
     (let batchOpId = hex_text (part event 0 ''batch_op_id'');
          opId = hex_text (part event 1 ''op_id'');
          completed = number_or_0 (part event 2 ''completed'');
          total = number_or_0 (part event 3 ''total'')
      in Inr (partial_update
           [(''completed_ops'', Param 2), (''total_ops'', Param 3), (''last_op_id'', Param 4),
            (''last_status'', Lit (SqlText ''succeeded'')), (''updated_at_ledger'', Param 5)]
           [number_param completed, number_param total, Some opId, ledger_param event] batchOpId
           ''timelock_partial_op_succeeded''
           [(''op_id'', JString opId), (''completed'', number_value completed), (''total'', number_value total)] event))"

definition handleTimelockPartialOpFailed :: "RpcEvent \<Rightarrow> failure + action list" where
  "handleTimelockPartialOpFailed event =
     (let batchOpId = hex_text (part event 0 ''batch_op_id''); opId = hex_text (part event 1 ''op_id'')
      in Inr (partial_update
           [(''last_op_id'', Param 2), (''last_status'', Lit (SqlText ''failed'')), (''updated_at_ledger'', Param 3)]
           [Some opId, ledger_param event] batchOpId
           ''timelock_partial_op_failed'' [(''op_id'', JString opId)] event))"

definition handleTimelockBatchRecoveryEntered :: "RpcEvent \<Rightarrow> failure + action list" where
  "handleTimelockBatchRecoveryEntered event =
     (let batchOpId = hex_text (part event 0 ''batch_op_id'');
          recoveryDeadline = number_or_0 (part event 1 ''recovery_deadline'')
      in Inr (partial_update
           [(''status'', Lit (SqlText ''recovery'')), (''recovery_deadline'', Param 2), (''updated_at_ledger'', Param 3)]
           [number_param recoveryDeadline, ledger_param event] batchOpId
           ''timelock_batch_recovery_entered'' [(''recovery_deadline'', number_value recoveryDeadline)] event))"

definition handleTimelockFailedOpRetried :: "RpcEvent \<Rightarrow> failure + action list" where
  "handleTimelockFailedOpRetried event =
     (let batchOpId = hex_text (part event 0 ''batch_op_id'');
          opId = hex_text (part event 1 ''op_id'');
          retryCount = number_or_0 (part event 2 ''retry_count'');
          succeeded = js_Boolean (nullish_or (part event 3 ''succeeded'') (JBoolean False))
      in Inr (partial_update
           [(''last_op_id'', Param 2), (''retry_count'', Param 3), (''last_status'', Param 4),
            (''updated_at_ledger'', Param 5)]
           [Some opId, number_param retryCount, Some (if succeeded then ''succeeded'' else ''failed''),
            ledger_param event] batchOpId
           ''timelock_failed_op_retried''
           [(''op_id'', JString opId), (''retry_count'', number_value retryCount), (''succeeded'', JBoolean succeeded)]
           event))"

definition handleTimelockFailedOpSkipped :: "RpcEvent \<Rightarrow> failure + action list" where
  "handleTimelockFailedOpSkipped event =
     (let batchOpId = hex_text (part event 0 ''batch_op_id''); opId = hex_text (part event 1 ''op_id'')
      in Inr (partial_update
           [(''last_op_id'', Param 2), (''last_status'', Lit (SqlText ''skipped'')), (''updated_at_ledger'', Param 3)]
           [Some opId, ledger_param event] batchOpId
           ''timelock_failed_op_skipped'' [(''op_id'', JString opId)] event))"

definition handleTimelockBatchFullyComplete :: "RpcEvent \<Rightarrow> failure + action list" where
  "handleTimelockBatchFullyComplete event =
     (let raw = rpc_value event;
          batchOpId = (case raw of
              JArray vs \<Rightarrow> hex_text (item raw 0)
            | JObject fs \<Rightarrow> if ''batch_op_id'' \<in> set (map fst fs) then hex_text (field raw ''batch_op_id'') else hex_text raw
            | _ \<Rightarrow> hex_text raw)
      in Inr
        [Query (UpdateSet ''timelock_partial_batch_state''
             [(''status'', Lit (SqlText ''completed'')), (''completed_at_ledger'', Param 2),
              (''updated_at_ledger'', Param 2)] [(''batch_op_id'', Param 1)])
           [Some batchOpId, ledger_param event],
         Query (UpdateSet ''timelock_batch_operations''
             [(''status'', Lit (SqlText ''executed'')),
              (''executed_at_ledger'', Coalesce (Col ''executed_at_ledger'') (Param 2))] [(''batch_op_id'', Param 1)])
           [Some batchOpId, ledger_param event],
         Invalidate [''timelock:partial_state:'' @ batchOpId, ''timelock:batch:'' @ batchOpId],
         InvalidatePattern ''timelock:batches:'',
         message ''timelock_batch_fully_complete''
           [(''batch_op_id'', JString batchOpId), (''ledger'', ledger_value event)]])"

end
