(* ===== verification/IndexerConfig.thy ===== *)
theory IndexerConfig
  imports IndexerWorld
begin

section \<open>Event handlers: settings, upgrades and liquidity pools\<close>

text \<open>
  The rest of the handlers of \<^verbatim>\<open>packages/indexer/src/events.ts\<close>: settings of the governor, which are stored as JSON documents,
  its upgrades, and the liquidity pools.
\<close>

subsection \<open>Settings\<close>

text \<open>\<^verbatim>\<open>new Date(s)\<close> is a parameter: the texts it accepts beyond the ISO format depend on the engine.\<close>

definition parseLedgerClosedAt :: "(string \<Rightarrow> string option) \<Rightarrow> js_value \<Rightarrow> string option" where
  "parseLedgerClosedAt parseDate v = (case v of JString s \<Rightarrow> if s = [] then None else parseDate s | _ \<Rightarrow> None)"

definition settings_number :: "js_value \<Rightarrow> js_number option" where
  "settings_number v =
     (case v of
        JNumber n \<Rightarrow> Some (Finite (of_int n))
      | JBigint n \<Rightarrow> Some (js_Number v)
      | JString s \<Rightarrow> if s \<noteq> [] then (let parsed = js_Number v in if parsed = NotANumber then None else Some parsed)
          else None
      | _ \<Rightarrow> None)"

text \<open>\<^verbatim>\<open>BigInt(n)\<close> of a number throws unless it is an integer.\<close>

definition bigint_of_number :: "js_number \<Rightarrow> int option" where
  "bigint_of_number x = (case x of Finite q \<Rightarrow> if is_integer q then Some \<lfloor>q\<rfloor> else None | _ \<Rightarrow> None)"

definition number_or_default :: "js_number option \<Rightarrow> int \<Rightarrow> js_value" where
  "number_or_default x n = (case x of None \<Rightarrow> JNumber n | Some y \<Rightarrow> number_value y)"

text \<open>\<open>Inr None\<close> is the \<^verbatim>\<open>null\<close> of the code; the object is written as it goes into the document.\<close>

definition settings_json :: "js_value \<Rightarrow> failure + js_value option" where
  "settings_json v =
     (if \<not> js_Boolean v \<or> \<not> (isRecord v \<or> isArray v) then Inr None
      else
        case (settings_number (field v ''voting_delay''), settings_number (field v ''voting_period''),
              settings_number (field v ''quorum_numerator''),
              (case field v ''proposal_threshold'' of JBigint n \<Rightarrow> Some (js_Number (JBigint n))
               | t \<Rightarrow> if js_Boolean t then Some (js_Number t) else None),
              settings_number (field v ''proposal_grace_period'')) of
          (Some votingDelay, Some votingPeriod, Some quorumNumerator, Some proposalThreshold, Some gracePeriod) \<Rightarrow>
            or_throw (bigint_of_number proposalThreshold) (\<lambda>threshold.
            or_throw (if js_Boolean (field v ''min_quorum_usd'')
                then bigint_of_number (js_Number (field v ''min_quorum_usd'')) else Some 0) (\<lambda>minQuorum.
              Inr (Some (JObject
                [(''voting_delay'', number_value votingDelay), (''voting_period'', number_value votingPeriod),
                 (''quorum_numerator'', number_value quorumNumerator), (''proposal_threshold'', JBigint threshold),
                 (''guardian'', JString (js_String (nullish_or (field v ''guardian'') (JString [])))),
                 (''voteType'', JNumber 0), (''proposal_grace_period'', number_value gracePeriod),
                 (''use_dynamic_quorum'', JBoolean (js_Boolean (field v ''use_dynamic_quorum''))),
                 (''reflector_oracle'', (if field v ''reflector_oracle'' = JUndefined \<or> field v ''reflector_oracle'' = JNull
                    then JNull else JString (js_String (field v ''reflector_oracle'')))),
                 (''min_quorum_usd'', JBigint minQuorum),
                 (''max_calldata_size'', number_or_default (settings_number (field v ''max_calldata_size'')) 10000),
                 (''proposal_cooldown'', number_or_default (settings_number (field v ''proposal_cooldown'')) 100),
                 (''max_proposals_per_period'',
                    number_or_default (settings_number (field v ''max_proposals_per_period'')) 5),
                 (''proposal_period_duration'',
                    number_or_default (settings_number (field v ''proposal_period_duration'')) 10000)]))))
        | _ \<Rightarrow> Inr None)"

definition handleConfigUpdated :: "(string \<Rightarrow> string option) \<Rightarrow> RpcEvent \<Rightarrow> failure + action list" where
  "handleConfigUpdated parseDate event =
     (let data = rpc_value event in
      member_of data
        (let old = field data ''old_settings''; present = (old \<noteq> JUndefined \<and> old \<noteq> JNull) in
         case (if present then settings_json old else Inr None) of
           Inl e \<Rightarrow> Inl e
         | Inr oldSettings \<Rightarrow>
             (case settings_json (field data ''new_settings'') of
                Inl e \<Rightarrow> Inl e
              | Inr newSettings \<Rightarrow>
                  if present \<and> oldSettings = None then Inr []
                  else case newSettings of
                    None \<Rightarrow> Inr []
                  | Some settings \<Rightarrow> Inr
                      [Query (InsertInto ''config_updates''
                           [(''ledger'', Param 1), (''old_settings'', Param 2), (''new_settings'', Param 3),
                            (''ledger_closed_at'', Param 4)] NoClause)
                         [ledger_param event, map_option stringifyJson oldSettings, Some (stringifyJson settings),
                          parseLedgerClosedAt parseDate (rpc_ledgerClosedAt event)]])))"

definition handleGovernorUpgraded :: "RpcEvent \<Rightarrow> failure + action list" where
  "handleGovernorUpgraded event =
     (let data = rpc_value event in
      member_of data
        (let newHash = field data ''new_hash'';
             hashStr = (case newHash of JBuffer bs \<Rightarrow> to_hex bs | _ \<Rightarrow> js_String (nullish_or newHash (JString [])))
         in Inr
           [Query (InsertInto ''governor_upgrades'' [(''ledger'', Param 1), (''new_wasm_hash'', Param 2)] NoClause)
              [ledger_param event, Some hashStr]]))"

subsection \<open>Liquidity pools\<close>

definition liquidity_change :: "string \<Rightarrow> string \<Rightarrow> string \<Rightarrow> RpcEvent \<Rightarrow> failure + action list" where
  "liquidity_change kind lpField ty event =
     (let provider = topic event 1; data = rpc_value event in
      member_of data
        (let outcomeA = js_Number (field data ''outcome_a''); outcomeB = js_Number (field data ''outcome_b'');
             amountA = js_String (field data ''amount_a''); amountB = js_String (field data ''amount_b'');
             lpTokens = js_String (field data lpField)
         in Inr
           [Query (InsertInto ''liquidity_events''
                [(''event_type'', Lit (SqlText kind)), (''provider'', Param 1), (''outcome_a'', Param 2),
                 (''outcome_b'', Param 3), (''amount_a'', Param 4), (''amount_b'', Param 5), (''lp_tokens'', Param 6),
                 (''ledger'', Param 7)] NoClause)
              [js_param provider, number_param outcomeA, number_param outcomeB, Some amountA, Some amountB,
               Some lpTokens, ledger_param event],
            message ty
              [(''provider'', provider), (''outcome_a'', number_value outcomeA), (''outcome_b'', number_value outcomeB),
               (''amount_a'', JString amountA), (''amount_b'', JString amountB), (''lp_tokens'', JString lpTokens),
               (''ledger'', ledger_value event)]]))"

definition handleLiquidityAdded :: "RpcEvent \<Rightarrow> failure + action list" where
  "handleLiquidityAdded = liquidity_change ''add'' ''lp_tokens_minted'' ''liquidity_added''"

definition handleLiquidityRemoved :: "RpcEvent \<Rightarrow> failure + action list" where
  "handleLiquidityRemoved = liquidity_change ''remove'' ''lp_tokens_burned'' ''liquidity_removed''"

definition handleSwap :: "RpcEvent \<Rightarrow> failure + action list" where
  "handleSwap event =
     (let trader = topic event 1; data = rpc_value event in
      member_of data
        (let outcomeIn = js_Number (field data ''outcome_in''); outcomeOut = js_Number (field data ''outcome_out'');
             amountIn = js_String (field data ''amount_in''); amountOut = js_String (field data ''amount_out'');
             fee = js_String (field data ''fee'')
         in Inr
           [Query (InsertInto ''swap_events''
                [(''trader'', Param 1), (''outcome_in'', Param 2), (''outcome_out'', Param 3), (''amount_in'', Param 4),
                 (''amount_out'', Param 5), (''fee'', Param 6), (''ledger'', Param 7)] NoClause)
              [js_param trader, number_param outcomeIn, number_param outcomeOut, Some amountIn, Some amountOut,
               Some fee, ledger_param event],
            message ''swap''
              [(''trader'', trader), (''outcome_in'', number_value outcomeIn), (''outcome_out'', number_value outcomeOut),
               (''amount_in'', JString amountIn), (''amount_out'', JString amountOut), (''fee'', JString fee),
               (''ledger'', ledger_value event)]]))"

definition handlePoolFeeUpdated :: "RpcEvent \<Rightarrow> failure + action list" where
  "handlePoolFeeUpdated event =
     (let data = rpc_value event in
      member_of data
        (let outcomeA = js_Number (field data ''outcome_a''); outcomeB = js_Number (field data ''outcome_b'');
             oldFeeBps = js_Number (field data ''old_fee_bps''); newFeeBps = js_Number (field data ''new_fee_bps'')
         in Inr
           [Query (InsertInto ''pool_fee_updates''
                [(''outcome_a'', Param 1), (''outcome_b'', Param 2), (''old_fee_bps'', Param 3),
                 (''new_fee_bps'', Param 4), (''ledger'', Param 5)] NoClause)
              [number_param outcomeA, number_param outcomeB, number_param oldFeeBps, number_param newFeeBps,
               ledger_param event],
            message ''pool_fee_updated''
              [(''outcome_a'', number_value outcomeA), (''outcome_b'', number_value outcomeB),
               (''old_fee_bps'', number_value oldFeeBps), (''new_fee_bps'', number_value newFeeBps),
               (''ledger'', ledger_value event)]]))"

end
