(* ===== verification/IndexerRules.thy ===== *)
theory IndexerRules
  imports IndexerGovernance IndexerContracts IndexerTimelock IndexerConfig
begin

section \<open>What the event handlers may touch\<close>

text \<open>
  Rules over the handlers of the indexer: lookups in the schema, the tables that the actions of a handler name, and that no
  action assigns a column of a key (\<open>confined\<close>). The collection \<open>confinement\<close> holds the rules that take a handler apart;
  the bundle \<open>handler_confined\<close> holds the result for each handler.
\<close>

named_theorems confinement

subsection \<open>Lookups in the schema\<close>

lemma schema_lookups [simp]:
  "map_of indexer_schema ''proposals'' = Some proposals_table"
  "map_of indexer_schema ''votes'' = Some votes_table"
  "map_of indexer_schema ''delegates'' = Some delegates_table"
  "map_of indexer_schema ''wrapper_deposits'' = Some wrapper_deposits_table"
  "map_of indexer_schema ''wrapper_withdrawals'' = Some wrapper_withdrawals_table"
  "map_of indexer_schema ''treasury_transfers'' = Some treasury_transfers_table"
  "map_of indexer_schema ''indexer_state'' = Some indexer_state_table"
  "map_of indexer_schema ''config_updates'' = Some config_updates_table"
  "map_of indexer_schema ''governor_upgrades'' = Some governor_upgrades_table"
  "map_of indexer_schema ''drafts'' = Some drafts_table"
  "map_of indexer_schema ''draft_co_sponsors'' = Some draft_co_sponsors_table"
  "map_of indexer_schema ''delegation_entries'' = Some delegation_entries_table"
  "map_of indexer_schema ''proposer_reputation'' = Some proposer_reputation_table"
  "map_of indexer_schema ''reputation_score_history'' = Some reputation_score_history_table"
  "map_of indexer_schema ''event_log'' = Some event_log_table"
  "map_of indexer_schema ''timelock_operations'' = Some timelock_operations_table"
  "map_of indexer_schema ''timelock_batch_operations'' = Some timelock_batch_operations_table"
  "map_of indexer_schema ''timelock_dependency_graphs'' = Some timelock_dependency_graphs_table"
  "map_of indexer_schema ''timelock_partial_batch_state'' = Some timelock_partial_batch_state_table"
  "map_of indexer_schema ''effective_threshold_history'' = Some effective_threshold_history_table"
  "map_of indexer_schema ''treasury_streams'' = Some treasury_streams_table"
  "map_of indexer_schema ''treasury_stream_spends'' = Some treasury_stream_spends_table"
  "map_of indexer_schema ''treasury_stream_events'' = Some treasury_stream_events_table"
  "map_of indexer_schema ''delegated_by_sig_events'' = Some delegated_by_sig_events_table"
  "map_of indexer_schema ''relayer_whitelist_history'' = Some relayer_whitelist_history_table"
  "map_of indexer_schema ''proposal_bonds'' = Some proposal_bonds_table"
  "map_of indexer_schema ''signal_anchors'' = Some signal_anchors_table"
  "map_of indexer_schema ''conviction_proposals'' = Some conviction_proposals_table"
  "map_of indexer_schema ''conviction_stakes'' = Some conviction_stakes_table"
  "map_of indexer_schema ''conviction_snapshots'' = Some conviction_snapshots_table"
  "map_of indexer_schema ''treasury_strategies'' = Some treasury_strategies_table"
  "map_of indexer_schema ''strategy_allocations'' = Some strategy_allocations_table"
  "map_of indexer_schema ''strategy_withdrawals'' = Some strategy_withdrawals_table"
  "map_of indexer_schema ''split_delegations'' = Some split_delegations_table"
  "map_of indexer_schema ''governance_snapshots'' = Some governance_snapshots_table"
  "map_of indexer_schema ''optimistic_proposals'' = Some optimistic_proposals_table"
  "map_of indexer_schema ''optimistic_objections'' = Some optimistic_objections_table"
  "map_of indexer_schema ''concentration_snapshots'' = Some concentration_snapshots_table"
  "map_of indexer_schema ''vote_escrow_locks'' = Some vote_escrow_locks_table"
  "map_of indexer_schema ''liquidity_events'' = Some liquidity_events_table"
  "map_of indexer_schema ''swap_events'' = Some swap_events_table"
  "map_of indexer_schema ''pool_fee_updates'' = Some pool_fee_updates_table"
  by (simp_all add: indexer_schema_def)

lemma table_keys [simp]:
  "ts_keys proposals_table = [[''id'']]"
  "ts_keys votes_table = [[''proposal_id'', ''voter'']]"
  "ts_keys delegates_table = []"
  "ts_keys wrapper_deposits_table = []"
  "ts_keys wrapper_withdrawals_table = []"
  "ts_keys treasury_transfers_table = []"
  "ts_keys indexer_state_table = [[''id'']]"
  "ts_keys config_updates_table = []"
  "ts_keys governor_upgrades_table = []"
  "ts_keys drafts_table = [[''draft_id'']]"
  "ts_keys draft_co_sponsors_table = [[''draft_id'', ''sponsor_address'']]"
  "ts_keys delegation_entries_table = []"
  "ts_keys proposer_reputation_table = [[''proposer_address'']]"
  "ts_keys reputation_score_history_table = []"
  "ts_keys event_log_table = [[''event_id'']]"
  "ts_keys timelock_operations_table = [[''op_id'']]"
  "ts_keys timelock_batch_operations_table = [[''batch_op_id'']]"
  "ts_keys timelock_dependency_graphs_table = [[''validation_id'']]"
  "ts_keys timelock_partial_batch_state_table = [[''batch_op_id'']]"
  "ts_keys effective_threshold_history_table = []"
  "ts_keys treasury_streams_table = [[''stream_id'']]"
  "ts_keys treasury_stream_spends_table = [[''stream_id'', ''spend_index'']]"
  "ts_keys treasury_stream_events_table = [[''event_id'']]"
  "ts_keys delegated_by_sig_events_table = []"
  "ts_keys relayer_whitelist_history_table = []"
  "ts_keys proposal_bonds_table = [[''description_hash'']]"
  "ts_keys signal_anchors_table = [[''poll_id'']]"
  "ts_keys conviction_proposals_table = [[''proposal_id'']]"
  "ts_keys conviction_stakes_table = [[''staker'']]"
  "ts_keys conviction_snapshots_table = [[''proposal_id'', ''ledger'']]"
  "ts_keys treasury_strategies_table = [[''strategy_id'']]"
  "ts_keys strategy_allocations_table = []"
  "ts_keys strategy_withdrawals_table = [[''withdrawal_id'']]"
  "ts_keys split_delegations_table = []"
  "ts_keys governance_snapshots_table = [[''ledger'']]"
  "ts_keys optimistic_proposals_table = [[''proposal_id'']]"
  "ts_keys optimistic_objections_table = [[''proposal_id'', ''objector'']]"
  "ts_keys concentration_snapshots_table = [[''ledger'']]"
  "ts_keys vote_escrow_locks_table = [[''owner_address'']]"
  "ts_keys liquidity_events_table = []"
  "ts_keys swap_events_table = []"
  "ts_keys pool_fee_updates_table = []"
  by (simp_all add: proposals_table_def votes_table_def delegates_table_def wrapper_deposits_table_def wrapper_withdrawals_table_def treasury_transfers_table_def indexer_state_table_def config_updates_table_def governor_upgrades_table_def drafts_table_def draft_co_sponsors_table_def delegation_entries_table_def proposer_reputation_table_def reputation_score_history_table_def event_log_table_def timelock_operations_table_def timelock_batch_operations_table_def timelock_dependency_graphs_table_def timelock_partial_batch_state_table_def effective_threshold_history_table_def treasury_streams_table_def treasury_stream_spends_table_def treasury_stream_events_table_def delegated_by_sig_events_table_def relayer_whitelist_history_table_def proposal_bonds_table_def signal_anchors_table_def conviction_proposals_table_def conviction_stakes_table_def conviction_snapshots_table_def treasury_strategies_table_def strategy_allocations_table_def strategy_withdrawals_table_def split_delegations_table_def governance_snapshots_table_def optimistic_proposals_table_def optimistic_objections_table_def concentration_snapshots_table_def vote_escrow_locks_table_def liquidity_events_table_def swap_events_table_def pool_fee_updates_table_def)

subsection \<open>Confined handlers\<close>

definition confined :: "string set \<Rightarrow> failure + action list \<Rightarrow> bool" where
  "confined T r \<longleftrightarrow>
     (case r of Inl e \<Rightarrow> True | Inr as \<Rightarrow> list_all (\<lambda>a. action_ok a \<and> action_tables a \<subseteq> T) as)"

lemma confined_simps [confinement]:
  "confined T (Inl e)"
  "confined T (Inr []) "
  "confined T (Inr (Query st ps # as)) \<longleftrightarrow>
     leaves_keys indexer_schema st \<and> stmt_table st \<in> T \<and> confined T (Inr as)"
  "confined T (Inr (Invalidate keys # as)) \<longleftrightarrow> confined T (Inr as)"
  "confined T (Inr (InvalidatePattern prefix # as)) \<longleftrightarrow> confined T (Inr as)"
  "confined T (Inr (Broadcast event # as)) \<longleftrightarrow> confined T (Inr as)"
  "confined T (Inr (as @ bs)) \<longleftrightarrow> confined T (Inr as) \<and> confined T (Inr bs)"
  by (auto simp: confined_def action_ok_def)

lemma confined_throwing [confinement]:
  "confined T r \<Longrightarrow> confined T (member_of v r)"
  "confined T r \<Longrightarrow> confined T (destructured v r)"
  "(\<And>a. confined T (f a)) \<Longrightarrow> confined T (or_throw x f)"
  "(\<And>ss. confined T (g ss)) \<Longrightarrow> confined T (text_list v g)"
  by (simp_all add: confined_def member_of_def destructured_def or_throw_def text_list_def
      split: option.splits js_value.splits)

lemma confined_case [confinement]:
  "(\<And>a. confined T (h a)) \<Longrightarrow> confined T (case y of Inl e \<Rightarrow> Inl e | Inr a \<Rightarrow> h a)"
  "confined T n \<Longrightarrow> (\<And>a. confined T (s a)) \<Longrightarrow> confined T (case z of None \<Rightarrow> n | Some a \<Rightarrow> s a)"
  by (simp_all add: confined_simps split: sum.split option.split)

lemmas [confinement] =
  message_def leaves_keys_def sets_of_def proposal_flag_def Let_def conviction_message_def optimistic_message_def
  optimistic_state_def set_total_power_def move_allocation_def with_bond_data_def partial_update_def

lemma governance_confined:
  "confined {''proposals''} (handleProposalCreated event)"
  "confined {''proposals'', ''votes''} (handleVoteCast withReason event)"
  "confined {''proposals''} (handleProposalQueued event)"
  "confined {''proposals''} (handleProposalExecuted event)"
  "confined {''proposals''} (handleProposalCancelled event)"
  "confined {''proposer_reputation'', ''reputation_score_history''} (handleReputationUpdated event)"
  "confined {''effective_threshold_history''} (handleEffectiveThresholdChanged event)"
  "confined {''config_updates''} (handleConfigUpdated parseDate event)"
  "confined {''governor_upgrades''} (handleGovernorUpgraded event)"
  by (simp_all only: handleProposalCreated_def handleVoteCast_def tally_column_def handleProposalQueued_def
      handleProposalExecuted_def handleProposalCancelled_def handleReputationUpdated_def
      handleEffectiveThresholdChanged_def handleConfigUpdated_def handleGovernorUpgraded_def confinement)
    (simp_all add: confinement)

lemma votes_token_confined:
  "confined {''delegates''} (handleDelegateChanged event)"
  "confined {''delegation_entries''} (handleDelegationRegistered event)"
  "confined {''delegation_entries''} (handleDelegationRevoked event)"
  "confined {} (handleDelegationDepthLimitUpdated event)"
  "confined {''delegated_by_sig_events''} (handleDelegatedBySig event)"
  "confined {} (handlePermitsInvalidated event)"
  "confined {''relayer_whitelist_history''} (handleRelayerWhitelistUpdated event)"
  by (simp_all add: confinement handleDelegateChanged_def handleDelegationRegistered_def handleDelegationRevoked_def
      handleDelegationDepthLimitUpdated_def handleDelegatedBySig_def handlePermitsInvalidated_def
      handleRelayerWhitelistUpdated_def)

lemma conviction_confined:
  "confined {''conviction_proposals'', ''conviction_stakes'', ''conviction_snapshots''} (handleConvictionEvent event ty)"
  by (simp add: confinement handleConvictionEvent_def)

lemma optimistic_confined:
  "confined {''optimistic_proposals'', ''optimistic_objections''} (handleOptimisticGovernorEvent event ty)"
  by (simp add: confinement handleOptimisticGovernorEvent_def)

lemma wrapper_confined:
  "confined {''wrapper_deposits''} (handleWrapperDeposit event)"
  "confined {''wrapper_withdrawals''} (handleWrapperWithdraw event)"
  "confined {''treasury_transfers''} (handleTreasuryBatchTransfer event)"
  by (simp_all add: confinement handleWrapperDeposit_def handleWrapperWithdraw_def wrapper_move_def
      handleTreasuryBatchTransfer_def)

lemma drafts_confined:
  "confined {''drafts''} (handleDraftCreated event)"
  "confined {''drafts'', ''draft_co_sponsors''} (handleCoSponsored event)"
  "confined {''drafts'', ''draft_co_sponsors''} (handleCoSponsorshipWithdrawn event)"
  "confined {''drafts''} (handleDraftFinalized event)"
  "confined {''drafts''} (handleDraftCancelled event)"
  "confined {''drafts''} (handleDraftExpired event)"
  by (simp_all add: confinement handleDraftCreated_def handleCoSponsored_def handleCoSponsorshipWithdrawn_def
      handleDraftFinalized_def handleDraftCancelled_def handleDraftExpired_def draft_flag_def)

lemma strategies_confined:
  "confined {''treasury_strategies''} (handleStrategyRegistered event)"
  "confined {''treasury_strategies''} (handleStrategyDeactivated event)"
  "confined {''strategy_allocations'', ''treasury_strategies''} (handleStrategyDeposited event)"
  "confined {''strategy_withdrawals'', ''treasury_strategies''} (handleStrategyWithdrawalRequested event)"
  "confined {''strategy_withdrawals''} (handleStrategyWithdrawalClaimed event)"
  by (simp_all add: confinement handleStrategyRegistered_def handleStrategyDeactivated_def
      handleStrategyDeposited_def handleStrategyWithdrawalRequested_def handleStrategyWithdrawalClaimed_def)

lemma other_contracts_confined:
  "confined {''vote_escrow_locks''} (handleVoteEscrowEvent event ty)"
  "confined {''signal_anchors''} (handleResultAnchored event)"
  "confined {''proposal_bonds''} (handleBondLocked event)"
  "confined {''proposal_bonds''} (handleBondRefunded event)"
  "confined {''proposal_bonds''} (handleBondSlashed event)"
  "confined {''liquidity_events''} (handleLiquidityAdded event)"
  "confined {''liquidity_events''} (handleLiquidityRemoved event)"
  "confined {''swap_events''} (handleSwap event)"
  "confined {''pool_fee_updates''} (handlePoolFeeUpdated event)"
  by (simp_all add: confinement handleVoteEscrowEvent_def handleResultAnchored_def handleBondLocked_def
      handleBondRefunded_def handleBondSlashed_def handleLiquidityAdded_def handleLiquidityRemoved_def
      liquidity_change_def handleSwap_def handlePoolFeeUpdated_def)

lemma timelock_operations_confined:
  "confined {''timelock_operations''} (handleTimelockOperationScheduled event)"
  "confined {''timelock_operations''} (handleTimelockOperationExecuted event)"
  "confined {''timelock_operations''} (handleTimelockOperationCancelled event)"
  "confined {''timelock_batch_operations''} (handleTimelockBatchOperationScheduled event)"
  "confined {''timelock_batch_operations''} (handleTimelockBatchOperationExecuted event)"
  "confined {''timelock_batch_operations''} (handleTimelockBatchOperationCancelled event)"
  "confined {} (handleTimelockMinDelayUpdated event)"
  "confined {''timelock_dependency_graphs''} (handleTimelockDependencyDagValidated event)"
  "confined {''timelock_dependency_graphs''} (handleTimelockCycleDetected event)"
  by (simp_all add: confinement handleTimelockOperationScheduled_def operation_closed_def batch_closed_def
      handleTimelockOperationExecuted_def handleTimelockOperationCancelled_def
      handleTimelockBatchOperationScheduled_def handleTimelockBatchOperationExecuted_def
      handleTimelockBatchOperationCancelled_def handleTimelockMinDelayUpdated_def
      handleTimelockDependencyDagValidated_def handleTimelockCycleDetected_def)

lemma timelock_partial_confined:
  "confined {''timelock_partial_batch_state''} (handleTimelockPartialBatchStarted event)"
  "confined {''timelock_partial_batch_state''} (handleTimelockPartialOpSucceeded event)"
  "confined {''timelock_partial_batch_state''} (handleTimelockPartialOpFailed event)"
  "confined {''timelock_partial_batch_state''} (handleTimelockBatchRecoveryEntered event)"
  "confined {''timelock_partial_batch_state''} (handleTimelockFailedOpRetried event)"
  "confined {''timelock_partial_batch_state''} (handleTimelockFailedOpSkipped event)"
  "confined {''timelock_partial_batch_state'', ''timelock_batch_operations''} (handleTimelockBatchFullyComplete event)"
  by (simp_all add: confinement handleTimelockPartialBatchStarted_def handleTimelockPartialOpSucceeded_def
      handleTimelockPartialOpFailed_def handleTimelockBatchRecoveryEntered_def handleTimelockFailedOpRetried_def
      handleTimelockFailedOpSkipped_def handleTimelockBatchFullyComplete_def)

subsection \<open>Operations that keep the other tables and the keys\<close>

definition keeps :: "string set \<Rightarrow> (Indexer \<Rightarrow> 'a indexing) \<Rightarrow> bool" where
  "keeps T f \<longleftrightarrow>
     (\<forall>w. (\<forall>t. t \<notin> T \<longrightarrow> ix_db (snd (f w)) t = ix_db w t) \<and>
        (keys_unique indexer_schema (ix_db w) \<longrightarrow> keys_unique indexer_schema (ix_db (snd (f w)))))"

lemma keeps_frame: "keeps T f \<Longrightarrow> f w = (r, w') \<Longrightarrow> t \<notin> T \<Longrightarrow> ix_db w' t = ix_db w t"
  unfolding keeps_def by (metis snd_conv)

lemma keeps_keys:
  "keeps T f \<Longrightarrow> f w = (r, w') \<Longrightarrow> keys_unique indexer_schema (ix_db w) \<Longrightarrow> keys_unique indexer_schema (ix_db w')"
  unfolding keeps_def by (metis snd_conv)

lemma keeps_mono: "keeps T f \<Longrightarrow> T \<subseteq> U \<Longrightarrow> keeps U f"
  unfolding keeps_def by blast

lemma keeps_pure: "keeps T (\<lambda>w. (r, w))"
  by (simp add: keeps_def)

text \<open>Each rule for a composition is used backwards: \<open>f\<close>, then the continuation.\<close>

lemma keeps_then:
  assumes "keeps T f" "\<And>a. keeps T (g a)"
  shows "keeps T (\<lambda>w. case f w of (Inl e, w') \<Rightarrow> (Inl e, w') | (Inr a, w') \<Rightarrow> g a w')"
  using assms unfolding keeps_def by (auto split: prod.splits sum.splits) (metis snd_conv)+

lemma keeps_run_actions:
  assumes "list_all (\<lambda>a. action_ok a \<and> action_tables a \<subseteq> T) as"
  shows "keeps T (run_actions as)"
proof -
  have "list_all action_ok as" "\<Union> (set (map action_tables as)) \<subseteq> T" using assms by (auto simp: list_all_iff)
  then show ?thesis
    unfolding keeps_def
    by (metis prod.exhaust_sel run_actions_frame run_actions_keys subsetD)
qed

lemma keeps_handler: "confined T (h event) \<Longrightarrow> keeps T (run_handler (h event))"
  unfolding run_handler_def confined_def by (auto split: sum.splits intro: keeps_pure keeps_run_actions)

lemma keeps_query: "leaves_keys indexer_schema st \<Longrightarrow> stmt_table st \<in> T \<Longrightarrow> keeps T (query st ps)"
  using keeps_run_actions [of T "[Query st ps]"]
  by (auto simp: action_ok_def keeps_def query_def split: sum.splits prod.splits)

end
