(* ===== verification/TreasuryProjection.thy ===== *)
theory TreasuryProjection
  imports IndexerWorld
begin

section \<open>The indexer's projection of the treasury streams\<close>

text \<open>
  \<^verbatim>\<open>packages/indexer/src/treasuryReader.ts\<close> and \<^verbatim>\<open>treasuryProjection.ts\<close>, and the stream events of \<^verbatim>\<open>events.ts\<close>. The events
  of the treasury only announce that a stream has changed; the state of the stream is read from the contract by simulated
  calls, page by page, and stored together with the event in one transaction.
  The simulated call is a parameter: method and native arguments to the native result, or its exception.
\<close>

subsection \<open>Reading the contract\<close>

record TreasuryStreamRecord =
  st_streamId :: string
  st_name :: string
  st_owner :: string
  st_token :: string
  st_totalAllocated :: string
  st_totalSpent :: string
  st_startLedger :: js_number
  st_endLedger :: js_number
  st_isActive :: bool
  st_isRevoked :: bool
  st_revokedAtLedger :: "js_number option"
  st_maxSingleSpend :: string
  st_cooldownLedgers :: js_number
  st_lastSpendLedger :: js_number
  st_spendCount :: js_number
  st_createdByProposalId :: string

record TreasuryStreamSpendRecord =
  sp_streamId :: string
  sp_spendIndex :: js_number
  sp_recipient :: string
  sp_amount :: string
  sp_memo :: string
  sp_executedAtLedger :: js_number
  sp_executedBy :: string

definition parseStream :: "js_value \<Rightarrow> failure + TreasuryStreamRecord" where
  "parseStream raw =
     member_of raw
       (let revokedAt = field raw ''revoked_at_ledger'' in Inr
          \<lparr>st_streamId = js_String (field raw ''id''),
           st_name = js_String (field raw ''name''),
           st_owner = js_String (field raw ''owner''),
           st_token = js_String (field raw ''token''),
           st_totalAllocated = js_String (field raw ''total_allocated''),
           st_totalSpent = js_String (field raw ''total_spent''),
           st_startLedger = js_Number (field raw ''start_ledger''),
           st_endLedger = js_Number (field raw ''end_ledger''),
           st_isActive = js_Boolean (field raw ''is_active''),
           st_isRevoked = js_Boolean (field raw ''is_revoked''),
           st_revokedAtLedger = (if revokedAt = JUndefined \<or> revokedAt = JNull then None else Some (js_Number revokedAt)),
           st_maxSingleSpend = js_String (field raw ''max_single_spend''),
           st_cooldownLedgers = js_Number (field raw ''cooldown_ledgers''),
           st_lastSpendLedger = js_Number (field raw ''last_spend_ledger''),
           st_spendCount = js_Number (field raw ''spend_count''),
           st_createdByProposalId = js_String (field raw ''created_by_proposal_id'')\<rparr>)"

definition parseSpend :: "js_value \<Rightarrow> failure + TreasuryStreamSpendRecord" where
  "parseSpend raw =
     member_of raw (Inr
       \<lparr>sp_streamId = js_String (field raw ''stream_id''),
        sp_spendIndex = js_Number (field raw ''spend_index''),
        sp_recipient = js_String (field raw ''recipient''),
        sp_amount = js_String (field raw ''amount''),
        sp_memo = js_String (field raw ''memo''),
        sp_executedAtLedger = js_Number (field raw ''executed_at_ledger''),
        sp_executedBy = js_String (field raw ''executed_by'')\<rparr>)"

text \<open>\<^verbatim>\<open>(v as ...[]).map(f)\<close>\<close>

fun map_throw :: "('a \<Rightarrow> failure + 'b) \<Rightarrow> 'a list \<Rightarrow> failure + 'b list" where
  "map_throw f [] = Inr []"
| "map_throw f (x # xs) =
     (case f x of Inl e \<Rightarrow> Inl e | Inr y \<Rightarrow> (case map_throw f xs of Inl e \<Rightarrow> Inl e | Inr ys \<Rightarrow> Inr (y # ys)))"

definition parse_page :: "(js_value \<Rightarrow> failure + 'b) \<Rightarrow> js_value \<Rightarrow> failure + 'b list" where
  "parse_page f v = (case v of JArray vs \<Rightarrow> map_throw f vs | _ \<Rightarrow> Inl type_error)"

type_synonym simulator = "string \<Rightarrow> js_value list \<Rightarrow> failure + js_value"

definition getStream :: "simulator \<Rightarrow> string \<Rightarrow> failure + TreasuryStreamRecord" where
  "getStream simulate streamId =
     or_throw (string_to_bigint streamId) (\<lambda>i.
       case simulate ''get_stream'' [JBigint i] of Inl e \<Rightarrow> Inl e | Inr retval \<Rightarrow> parseStream retval)"

definition getStreams :: "simulator \<Rightarrow> nat \<Rightarrow> nat \<Rightarrow> failure + TreasuryStreamRecord list" where
  "getStreams simulate offset limit =
     (case simulate ''get_streams'' [JBigint (int offset), JBigint (int limit)] of
        Inl e \<Rightarrow> Inl e | Inr retval \<Rightarrow> parse_page parseStream retval)"

definition getStreamSpends :: "simulator \<Rightarrow> string \<Rightarrow> nat \<Rightarrow> nat \<Rightarrow> failure + TreasuryStreamSpendRecord list" where
  "getStreamSpends simulate streamId offset limit =
     or_throw (string_to_bigint streamId) (\<lambda>i.
       case simulate ''get_stream_spends'' [JBigint i, JNumber (int offset), JNumber (int limit)] of
         Inl e \<Rightarrow> Inl e | Inr retval \<Rightarrow> parse_page parseSpend retval)"

text \<open>The loop over the pages of streams need not end: \<open>None\<close> when it does not.\<close>

definition pageSize :: nat where
  "pageSize = 100"

partial_function (option) stream_pages ::
  "(nat \<Rightarrow> failure + 'a list) \<Rightarrow> nat \<Rightarrow> 'a list \<Rightarrow> (failure + 'a list) option" where
  "stream_pages read offset streams =
     (case read offset of
        Inl e \<Rightarrow> Some (Inl e)
      | Inr page \<Rightarrow>
          if length page < pageSize then Some (Inr (streams @ page))
          else stream_pages read (offset + pageSize) (streams @ page))"

definition getAllTreasuryStreams :: "simulator \<Rightarrow> (failure + TreasuryStreamRecord list) option" where
  "getAllTreasuryStreams simulate = stream_pages (\<lambda>offset. getStreams simulate offset pageSize) 0 []"

text \<open>The count is a 32-bit number of the contract.\<close>

definition count_of :: "js_number \<Rightarrow> nat" where
  "count_of x = (case x of Finite q \<Rightarrow> nat \<lceil>q\<rceil> | _ \<Rightarrow> 0)"

function spend_pages :: "(nat \<Rightarrow> nat \<Rightarrow> failure + 'a list) \<Rightarrow> nat \<Rightarrow> nat \<Rightarrow> 'a list \<Rightarrow> failure + 'a list" where
  "spend_pages read spendCount offset spends =
     (if offset < spendCount then
        (case read offset (min pageSize (spendCount - offset)) of
           Inl e \<Rightarrow> Inl e
         | Inr page \<Rightarrow>
             if length page = 0 then Inr (spends @ page)
             else spend_pages read spendCount (offset + pageSize) (spends @ page))
      else Inr spends)"
  by pat_completeness auto
termination
  by (relation "measure (\<lambda>(read, spendCount, offset, spends). spendCount - offset)") (auto simp: pageSize_def)

declare spend_pages.simps [simp del]

definition getAllStreamSpends :: "simulator \<Rightarrow> TreasuryStreamRecord \<Rightarrow> failure + TreasuryStreamSpendRecord list" where
  "getAllStreamSpends simulate stream =
     spend_pages (getStreamSpends simulate (st_streamId stream)) (count_of (st_spendCount stream)) 0 []"

subsection \<open>Event records\<close>

record TreasuryStreamEventRecord =
  te_eventId :: string
  te_eventType :: string
  te_streamId :: string
  te_name :: "string option"
  te_owner :: "string option"
  te_recipient :: "string option"
  te_amount :: "string option"
  te_totalAmount :: "string option"
  te_recipientCount :: "js_number option"
  te_caller :: "string option"
  te_unspentReturned :: "string option"
  te_oldEndLedger :: "js_number option"
  te_newEndLedger :: "js_number option"
  te_additionalAmount :: "string option"
  te_newTotalAmount :: "string option"
  te_unspent :: "string option"
  te_ledger :: int
  te_transactionHash :: "string option"
  te_payload :: string

text \<open>\<^verbatim>\<open>indexerEventId\<close>: the id of the RPC server, or a hash of the event. The hash is a parameter.\<close>

definition or_empty :: "string option \<Rightarrow> string" where
  "or_empty s = (case s of None \<Rightarrow> [] | Some x \<Rightarrow> x)"

definition indexerEventId :: "(string \<Rightarrow> string) \<Rightarrow> RpcEvent \<Rightarrow> string \<Rightarrow> string option \<Rightarrow> string \<Rightarrow> string" where
  "indexerEventId sha256 event eventType contractAddress serializedPayload =
     (if or_empty (rpc_id event) \<noteq> [] then or_empty (rpc_id event)
      else ''synthetic:'' @ sha256 (join '':''
        [or_empty (rpc_txHash event), dec_int (rpc_ledger event), or_empty contractAddress, eventType,
         serializedPayload]))"

text \<open>The document that is stored with an event; an absent \<^verbatim>\<open>txHash\<close> is left out.\<close>

definition event_payload :: "RpcEvent \<Rightarrow> string" where
  "event_payload event =
     stringifyJson (JObject [(''topics'', JArray (rpc_topics event)), (''value'', rpc_value event),
       (''tx_hash'', opt_field JString (rpc_txHash event))])"

definition expectedFields :: "string \<Rightarrow> nat" where
  "expectedFields eventType =
     (if eventType = ''stream_exhausted'' then 1 else if eventType = ''stream_expired'' then 2 else 3)"

definition decodeTreasuryStreamEvent :: "(string \<Rightarrow> string) \<Rightarrow> RpcEvent \<Rightarrow> string \<Rightarrow> failure + TreasuryStreamEventRecord" where
  "decodeTreasuryStreamEvent sha256 event eventType =
     (let data = (if isArray (rpc_value event) then elements (rpc_value event) else [rpc_value event]);
          streamId = js_String (data ! 0);
          payload = event_payload event;
          record = \<lparr>te_eventId = indexerEventId sha256 event eventType (rpc_contractId event) payload,
            te_eventType = eventType, te_streamId = streamId, te_name = None, te_owner = None, te_recipient = None,
            te_amount = None, te_totalAmount = None, te_recipientCount = None, te_caller = None,
            te_unspentReturned = None, te_oldEndLedger = None, te_newEndLedger = None, te_additionalAmount = None,
            te_newTotalAmount = None, te_unspent = None, te_ledger = rpc_ledger event,
            te_transactionHash = rpc_txHash event, te_payload = payload\<rparr>
      in if length data \<noteq> expectedFields eventType then Inl (Thrown ''unexpected number of fields'')
         else if streamId = [] \<or> streamId = ''undefined'' then Inl (Thrown ''missing stream_id'')
         else if eventType = ''stream_created'' then
           Inr (record\<lparr>te_name := Some (js_String (data ! 1)), te_owner := Some (js_String (data ! 2))\<rparr>)
         else if eventType = ''stream_spend'' then
           Inr (record\<lparr>te_recipient := Some (js_String (data ! 1)), te_amount := Some (js_String (data ! 2))\<rparr>)
         else if eventType = ''stream_batch'' then
           (if isSafeInteger (js_Number (data ! 2)) then
              Inr (record\<lparr>te_totalAmount := Some (js_String (data ! 1)), te_recipientCount := Some (js_Number (data ! 2))\<rparr>)
            else Inl (Thrown ''invalid recipient_count''))
         else if eventType = ''stream_revoked'' then
           Inr (record\<lparr>te_caller := Some (js_String (data ! 1)), te_unspentReturned := Some (js_String (data ! 2))\<rparr>)
         else if eventType = ''stream_extended'' then
           (if isSafeInteger (js_Number (data ! 1)) \<and> isSafeInteger (js_Number (data ! 2)) then
              Inr (record\<lparr>te_oldEndLedger := Some (js_Number (data ! 1)), te_newEndLedger := Some (js_Number (data ! 2))\<rparr>)
            else Inl (Thrown ''invalid ledger value''))
         else if eventType = ''stream_topped_up'' then
           Inr (record\<lparr>te_additionalAmount := Some (js_String (data ! 1)),
             te_newTotalAmount := Some (js_String (data ! 2))\<rparr>)
         else if eventType = ''stream_expired'' then Inr (record\<lparr>te_unspent := Some (js_String (data ! 1))\<rparr>)
         else Inr record)"

definition treasuryBroadcastData :: "TreasuryStreamEventRecord \<Rightarrow> js_value" where
  "treasuryBroadcastData event =
     JObject ([(''stream_id'', JString (te_streamId event)), (''ledger'', JNumber (te_ledger event))] @
       filter (\<lambda>(_, v). v \<noteq> JUndefined)
         [(''name'', opt_field JString (te_name event)), (''owner'', opt_field JString (te_owner event)),
          (''recipient'', opt_field JString (te_recipient event)), (''amount'', opt_field JString (te_amount event)),
          (''total_amount'', opt_field JString (te_totalAmount event)),
          (''recipient_count'', opt_field number_value (te_recipientCount event)),
          (''caller'', opt_field JString (te_caller event)),
          (''unspent_returned'', opt_field JString (te_unspentReturned event)),
          (''old_end_ledger'', opt_field number_value (te_oldEndLedger event)),
          (''new_end_ledger'', opt_field number_value (te_newEndLedger event)),
          (''additional_amount'', opt_field JString (te_additionalAmount event)),
          (''new_total_amount'', opt_field JString (te_newTotalAmount event)),
          (''unspent'', opt_field JString (te_unspent event))])"

subsection \<open>Storing\<close>

text \<open>A statement of \<^verbatim>\<open>columns\<close> with the parameters in their order.\<close>

definition numbered :: "string list \<Rightarrow> (string \<times> sql_expr) list" where
  "numbered cs = zip cs (map Param [1..<Suc (length cs)])"

definition flag_param :: "bool \<Rightarrow> string option" where
  "flag_param b = Some (if b then ''true'' else ''false'')"

definition number_or_null :: "js_number option \<Rightarrow> string option" where
  "number_or_null x = (case x of None \<Rightarrow> None | Some n \<Rightarrow> number_param n)"

definition stream_columns :: "string list" where
  "stream_columns =
     [''stream_id'', ''name'', ''owner'', ''token'', ''total_allocated'', ''total_spent'', ''start_ledger'',
      ''end_ledger'', ''is_active'', ''is_revoked'', ''revoked_at_ledger'', ''max_single_spend'', ''cooldown_ledgers'',
      ''last_spend_ledger'', ''spend_count'', ''created_by_proposal_id'', ''updated_at_ledger'']"

definition upsertStream :: "TreasuryStreamRecord \<Rightarrow> int \<Rightarrow> database \<Rightarrow> sql_error + nat \<times> database" where
  "upsertStream stream ledger db =
     exec indexer_schema db
       [Some (st_streamId stream), Some (st_name stream), Some (st_owner stream), Some (st_token stream),
        Some (st_totalAllocated stream), Some (st_totalSpent stream), number_param (st_startLedger stream),
        number_param (st_endLedger stream), flag_param (st_isActive stream), flag_param (st_isRevoked stream),
        number_or_null (st_revokedAtLedger stream), Some (st_maxSingleSpend stream),
        number_param (st_cooldownLedgers stream), number_param (st_lastSpendLedger stream),
        number_param (st_spendCount stream), Some (st_createdByProposalId stream), Some (dec_int ledger)]
       (InsertInto ''treasury_streams'' (numbered stream_columns)
         (DoUpdate [''stream_id'']
           (map (\<lambda>c. (c, Excluded c)) (butlast (tl stream_columns)) @
            [(''updated_at_ledger'', Greatest (Col ''updated_at_ledger'') (Excluded ''updated_at_ledger''))])))"

definition spend_columns :: "string list" where
  "spend_columns =
     [''stream_id'', ''spend_index'', ''recipient'', ''amount'', ''memo'', ''executed_at_ledger'', ''executed_by'']"

definition upsertSpend :: "TreasuryStreamSpendRecord \<Rightarrow> database \<Rightarrow> sql_error + nat \<times> database" where
  "upsertSpend spend db =
     exec indexer_schema db
       [Some (sp_streamId spend), number_param (sp_spendIndex spend), Some (sp_recipient spend), Some (sp_amount spend),
        Some (sp_memo spend), number_param (sp_executedAtLedger spend), Some (sp_executedBy spend)]
       (InsertInto ''treasury_stream_spends'' (numbered spend_columns)
         (DoUpdate [''stream_id'', ''spend_index''] (map (\<lambda>c. (c, Excluded c)) (drop 2 spend_columns))))"

fun upsert_spends :: "TreasuryStreamSpendRecord list \<Rightarrow> database \<Rightarrow> (sql_error + unit) \<times> database" where
  "upsert_spends [] db = (Inr (), db)"
| "upsert_spends (spend # spends) db =
     (case upsertSpend spend db of Inl e \<Rightarrow> (Inl e, db) | Inr (_, db') \<Rightarrow> upsert_spends spends db')"

definition treasuryStreamEventExists :: "string \<Rightarrow> database \<Rightarrow> bool" where
  "treasuryStreamEventExists eventId db = list_ex (\<lambda>r. cell r ''event_id'' = SqlText eventId) (db ''treasury_stream_events'')"

definition event_columns :: "string list" where
  "event_columns =
     [''event_id'', ''event_type'', ''stream_id'', ''name'', ''owner'', ''recipient'', ''amount'', ''total_amount'',
      ''recipient_count'', ''caller'', ''unspent_returned'', ''old_end_ledger'', ''new_end_ledger'',
      ''additional_amount'', ''new_total_amount'', ''unspent'', ''ledger'', ''transaction_hash'', ''payload'']"

definition insert_event :: "TreasuryStreamEventRecord \<Rightarrow> database \<Rightarrow> sql_error + nat \<times> database" where
  "insert_event event db =
     exec indexer_schema db
       [Some (te_eventId event), Some (te_eventType event), Some (te_streamId event), te_name event, te_owner event,
        te_recipient event, te_amount event, te_totalAmount event, number_or_null (te_recipientCount event),
        te_caller event, te_unspentReturned event, number_or_null (te_oldEndLedger event),
        number_or_null (te_newEndLedger event), te_additionalAmount event, te_newTotalAmount event, te_unspent event,
        Some (dec_int (te_ledger event)), te_transactionHash event, Some (te_payload event)]
       (InsertInto ''treasury_stream_events'' (numbered event_columns) (DoNothing (Some [''event_id''])))"

text \<open>The transaction: an error rolls the database back.\<close>

definition persistTreasuryStreamEvent ::
  "TreasuryStreamEventRecord \<Rightarrow> TreasuryStreamRecord \<Rightarrow> TreasuryStreamSpendRecord list \<Rightarrow> database \<Rightarrow>
    sql_error + bool \<times> database" where
  "persistTreasuryStreamEvent event stream spends db =
     (case insert_event event db of
        Inl e \<Rightarrow> Inl e
      | Inr (inserted, db1) \<Rightarrow>
          if inserted = 0 then Inr (False, db1)
          else case upsertStream stream (te_ledger event) db1 of
            Inl e \<Rightarrow> Inl e
          | Inr (_, db2) \<Rightarrow>
              (case upsert_spends spends db2 of (Inl e, _) \<Rightarrow> Inl e | (Inr _, db3) \<Rightarrow> Inr (True, db3)))"

fun bootstrap_streams :: "simulator \<Rightarrow> int \<Rightarrow> TreasuryStreamRecord list \<Rightarrow> nat \<Rightarrow> database \<Rightarrow> (failure + nat) \<times> database" where
  "bootstrap_streams simulate ledger [] n db = (Inr n, db)"
| "bootstrap_streams simulate ledger (stream # streams) n db =
     (case upsertStream stream ledger db of
        Inl e \<Rightarrow> (Inl (Database e), db)
      | Inr (_, db1) \<Rightarrow>
          (case getAllStreamSpends simulate stream of
             Inl e \<Rightarrow> (Inl e, db1)
           | Inr spends \<Rightarrow>
               (case upsert_spends spends db1 of
                  (Inl e, db2) \<Rightarrow> (Inl (Database e), db2)
                | (Inr _, db2) \<Rightarrow> bootstrap_streams simulate ledger streams (n + length spends) db2)))"

definition bootstrapTreasuryProjection ::
  "simulator \<Rightarrow> int \<Rightarrow> database \<Rightarrow> ((failure + nat \<times> nat) \<times> database) option" where
  "bootstrapTreasuryProjection simulate ledger db =
     (case getAllTreasuryStreams simulate of
        None \<Rightarrow> None
      | Some (Inl e) \<Rightarrow> Some (Inl e, db)
      | Some (Inr streams) \<Rightarrow>
          (case bootstrap_streams simulate ledger streams 0 db of
             (Inl e, db') \<Rightarrow> Some (Inl e, db')
           | (Inr spends, db') \<Rightarrow> Some (Inr (length streams, spends), db')))"

subsection \<open>The handler\<close>

text \<open>What follows the transaction.\<close>

definition stream_persisted :: "string \<Rightarrow> TreasuryStreamEventRecord \<Rightarrow> bool \<Rightarrow> Indexer \<Rightarrow> unit indexing" where
  "stream_persisted eventType event inserted w =
     (if \<not> inserted then (Inr (), w)
      else run_actions
        [Invalidate [''treasury:stream:'' @ te_streamId event, ''treasury:budget-summary''],
         InvalidatePattern ''treasury:streams:'',
         InvalidatePattern (''treasury:stream:'' @ te_streamId event @ '':spends:''),
         InvalidatePattern (''treasury:stream:'' @ te_streamId event @ '':events:''),
         Broadcast \<lparr>we_type = eventType, we_data = treasuryBroadcastData event\<rparr>] w)"

definition handleTreasuryStreamEvent ::
  "(string \<Rightarrow> string) \<Rightarrow> simulator option \<Rightarrow> RpcEvent \<Rightarrow> string \<Rightarrow> Indexer \<Rightarrow> unit indexing" where
  "handleTreasuryStreamEvent sha256 reader rpcEvent eventType w =
     (case reader of
        None \<Rightarrow> (Inl (Thrown ''Treasury stream indexing requires TREASURY_SIMULATION_ACCOUNT''), w)
      | Some simulate \<Rightarrow>
          (case decodeTreasuryStreamEvent sha256 rpcEvent eventType of
             Inl e \<Rightarrow> (Inl e, w)
           | Inr event \<Rightarrow>
               if treasuryStreamEventExists (te_eventId event) (ix_db w) then (Inr (), w)
               else case getStream simulate (te_streamId event) of
                 Inl e \<Rightarrow> (Inl e, w)
               | Inr stream \<Rightarrow>
                   (case (if eventType = ''stream_spend'' \<or> eventType = ''stream_batch''
                          then getAllStreamSpends simulate stream else Inr []) of
                      Inl e \<Rightarrow> (Inl e, w)
                    | Inr spends \<Rightarrow>
                        (case persistTreasuryStreamEvent event stream spends (ix_db w) of
                           Inl e \<Rightarrow> (Inl (Database e), w)
                         | Inr (inserted, db) \<Rightarrow> stream_persisted eventType event inserted (w\<lparr>ix_db := db\<rparr>)))))"

end
