(* ===== verification/Concentration.thy ===== *)
theory Concentration
  imports NebPrelude "HOL-Library.Multiset"
begin

section \<open>Concentration of voting power\<close>

text \<open>
  The metrics of \<^verbatim>\<open>packages/indexer/src/concentration.ts\<close>: the Gini coefficient, the Nakamoto coefficient, the shares of the
  largest holders, and the power received per delegate. Powers are bigints; the results are at most 10000 or a
  number of holders, hence exact as JavaScript numbers. The rows of the database are parameters. The theorems
  compare the code with the definitions of the metrics: the Gini coefficient with the mean absolute difference over
  all pairs, the Nakamoto coefficient with the least size of a set of holders that has more than half of the power, and
  the share of the top \<open>n\<close> with the maximum over all sets of \<open>n\<close> holders.
\<close>

definition SNAPSHOT_INTERVAL_LEDGERS :: int where
  "SNAPSHOT_INTERVAL_LEDGERS = 100"

definition BPS :: int where
  "BPS = 10000"

definition clip :: "int \<Rightarrow> int" where
  "clip v = (if v > 0 then v else 0)"

text \<open>The loop over the sorted values; \<open>i\<close> counts from zero.\<close>

fun gini_weighted :: "int \<Rightarrow> int \<Rightarrow> int list \<Rightarrow> int" where
  "gini_weighted n i [] = 0"
| "gini_weighted n i (x # xs) = (2 * (i + 1) - n - 1) * x + gini_weighted n (i + 1) xs"

definition giniCoefficientBps :: "int list \<Rightarrow> int" where
  "giniCoefficientBps values =
     (let xs = sort (map clip values);
          n = length xs
      in if n < 2 then 0
         else
           let total = sum_list xs in
           if total \<le> 0 then 0
           else
             let weighted = gini_weighted (int n) 0 xs;
                 bps = bdiv (weighted * BPS) (int n * total);
                 bps = (if bps < 0 then 0 else bps);
                 bps = (if bps > 10000 then 10000 else bps)
             in bps)"

definition descending :: "int list \<Rightarrow> int list" where
  "descending values = rev (sort (map clip values))"

fun nakamoto_loop :: "int \<Rightarrow> int \<Rightarrow> nat \<Rightarrow> int list \<Rightarrow> nat" where
  "nakamoto_loop half cumulative cnt [] = cnt"
| "nakamoto_loop half cumulative cnt (v # vs) =
     (if cumulative + v > half then cnt + 1 else nakamoto_loop half (cumulative + v) (cnt + 1) vs)"

definition nakamotoCoefficient :: "int list \<Rightarrow> nat" where
  "nakamotoCoefficient values =
     (let xs = descending values;
          total = sum_list xs
      in if total \<le> 0 then 0 else nakamoto_loop (bdiv total 2) 0 0 xs)"

definition topNShareBps :: "int list \<Rightarrow> int \<Rightarrow> int" where
  "topNShareBps values n =
     (if n \<le> 0 then 0
      else
        let xs = descending values;
            total = sum_list xs
        in if total \<le> 0 then 0 else bdiv (sum_list (take (nat n) xs) * BPS) total)"

record ConcentrationMetrics =
  total_voting_power :: int
  top1_share_bps :: int
  top5_share_bps :: int
  top10_share_bps :: int
  top20_share_bps :: int
  gini_coefficient_bps :: int
  nakamoto_coefficient :: nat
  delegate_top5_share_bps :: int
  delegate_gini_coefficient_bps :: int

definition computeConcentrationMetrics :: "int list \<Rightarrow> int list \<Rightarrow> ConcentrationMetrics" where
  "computeConcentrationMetrics holderPowers delegatePowers =
     \<lparr>total_voting_power = foldl (\<lambda>acc v. acc + clip v) 0 holderPowers,
      top1_share_bps = topNShareBps holderPowers 1,
      top5_share_bps = topNShareBps holderPowers 5,
      top10_share_bps = topNShareBps holderPowers 10,
      top20_share_bps = topNShareBps holderPowers 20,
      gini_coefficient_bps = giniCoefficientBps holderPowers,
      nakamoto_coefficient = nakamotoCoefficient holderPowers,
      delegate_top5_share_bps = topNShareBps delegatePowers 5,
      delegate_gini_coefficient_bps = giniCoefficientBps delegatePowers\<rparr>"

text \<open>The rows the two queries return: one weight per voter, one delegatee per delegator (an empty one for none).\<close>

fun loadHolderPowers :: "(string \<times> int) list \<Rightarrow> (string, int) js_map" where
  "loadHolderPowers rows = foldl (\<lambda>powers (voter, weight). js_set powers voter weight) [] rows"

fun receive_power :: "(string, int) js_map \<Rightarrow> (string, int) js_map \<Rightarrow> string \<times> string \<Rightarrow> (string, int) js_map" where
  "receive_power holderPowers received (delegator, delegatee) =
     (if delegatee = [] then received
      else
        let power = js_getd 0 holderPowers delegator in
        if power \<le> 0 then received
        else js_set received delegatee (js_getd 0 received delegatee + power))"

definition loadDelegatePowers :: "(string, int) js_map \<Rightarrow> (string \<times> string) list \<Rightarrow> (string, int) js_map" where
  "loadDelegatePowers holderPowers rows = foldl (receive_power holderPowers) [] rows"

text \<open>The snapshot that \<^verbatim>\<open>maybeTakeConcentrationSnapshot\<close> stores for a ledger, if any.\<close>

definition maybeTakeConcentrationSnapshot ::
  "int option \<Rightarrow> (string \<times> int) list \<Rightarrow> (string \<times> string) list \<Rightarrow> int \<Rightarrow> (int \<times> ConcentrationMetrics) option" where
  "maybeTakeConcentrationSnapshot lastRow voteRows delegateRows currentLedger =
     (let lastLedger = (case lastRow of None \<Rightarrow> 0 | Some l \<Rightarrow> l) in
      if currentLedger - lastLedger < SNAPSHOT_INTERVAL_LEDGERS then None
      else
        let holderPowers = loadHolderPowers voteRows;
            delegatePowers = loadDelegatePowers holderPowers delegateRows
        in Some (currentLedger, computeConcentrationMetrics (js_values holderPowers) (js_values delegatePowers)))"

subsection \<open>Sums over sorted lists\<close>

lemma clip_nonneg [simp]: "0 \<le> clip v"
  by (simp add: clip_def)

lemma sum_list_sort: "sum_list (sort xs) = sum_list (xs :: int list)"
  by (metis mset_sort sum_mset_sum_list)

lemma descending_facts:
  "sum_list (descending values) = sum_list (map clip values)" "mset (descending values) = mset (map clip values)"
  "sorted (rev (descending values))" "\<forall>x \<in> set (descending values). 0 \<le> x"
  by (simp_all add: descending_def sum_list_sort del: mset_map)

text \<open>Of a descending list, no sublist has a larger sum than the first elements.\<close>

lemma take_shift_le:
  assumes "sorted (rev (y # ys))" "m \<le> length ys"
  shows "sum_list (take m ys) \<le> sum_list (take m (y # ys :: int list))"
proof (cases m)
  case (Suc k)
  then have k: "k < length ys" using assms(2) by simp
  then have "ys ! k \<le> y" using assms(1) by (auto simp: sorted_append)
  moreover have "take m ys = take k ys @ [ys ! k]" using Suc k by (simp add: take_Suc_conv_app_nth)
  ultimately show ?thesis using Suc by simp
qed simp

lemma top_sum:
  "sorted (rev ys) \<Longrightarrow> S \<subseteq># mset ys \<Longrightarrow> sum_mset S \<le> sum_list (take (size S) (ys :: int list))"
proof (induction ys arbitrary: S)
  case (Cons y ys)
  have sorted: "sorted (rev ys)" using Cons.prems(1) by (simp add: sorted_append)
  show ?case
  proof (cases "y \<in># S")
    case True
    then obtain S' where S: "S = add_mset y S'" by (metis insert_DiffM)
    then have "S' \<subseteq># mset ys" using Cons.prems(2) by simp
    with Cons.IH [OF sorted] S show ?thesis by simp
  next
    case False
    have "S \<subseteq># mset ys"
    proof (rule mset_subset_eqI)
      fix a show "count S a \<le> count (mset ys) a"
        using mset_subset_eq_count [OF Cons.prems(2), of a] False by (cases "a = y") (auto simp: not_in_iff)
    qed
    moreover from this have "size S \<le> length ys" by (metis size_mset size_mset_mono)
    ultimately show ?thesis
      using Cons.IH [OF sorted] take_shift_le [OF Cons.prems(1), of "size S"] by (meson order.trans)
  qed
qed simp

subsection \<open>The Gini coefficient\<close>

text \<open>The sum of the absolute differences over all ordered pairs.\<close>

definition abs_differences :: "int list \<Rightarrow> int" where
  "abs_differences xs = (\<Sum>x \<leftarrow> xs. \<Sum>y \<leftarrow> xs. \<bar>x - y\<bar>)"

lemma abs_differences_cong: "mset xs = mset ys \<Longrightarrow> abs_differences xs = abs_differences ys"
  by (simp add: abs_differences_def flip: sum_mset_sum_list)

lemma gini_weighted_shift: "gini_weighted (n + 1) (i + 1) xs = gini_weighted n i xs + sum_list xs"
proof (induction xs arbitrary: i)
  case (Cons x xs)
  then show ?case using Cons.IH [of "i + 1"] by (simp add: algebra_simps)
qed simp

lemma abs_differences_Cons:
  "abs_differences (x # xs) = 2 * (\<Sum>y \<leftarrow> xs. \<bar>x - y\<bar>) + abs_differences xs"
  by (simp add: abs_differences_def sum_list_addf abs_minus_commute [of _ x])

lemma sum_list_diff_least: "\<forall>y \<in> set ys. x \<le> y \<Longrightarrow> (\<Sum>y \<leftarrow> ys. \<bar>x - y\<bar>) = sum_list ys - int (length ys) * x"
  by (induction ys) (auto simp: algebra_simps)

lemma gini_weighted_sorted:
  "sorted xs \<Longrightarrow> 2 * gini_weighted (int (length xs)) 0 xs = abs_differences xs"
proof (induction xs)
  case (Cons x xs)
  have "gini_weighted (int (length (x # xs))) 0 (x # xs) =
      gini_weighted (int (length xs)) 0 xs + sum_list xs - int (length xs) * x"
    using gini_weighted_shift [of "int (length xs)" 0 xs] by (simp add: algebra_simps)
  moreover have "abs_differences (x # xs) = 2 * (sum_list xs - int (length xs) * x) + abs_differences xs"
    using sum_list_diff_least [of xs x] Cons.prems by (simp add: abs_differences_Cons)
  ultimately show ?case using Cons by simp
qed (simp add: abs_differences_def)

lemma gini_weighted_le:
  "\<forall>x \<in> set xs. 0 \<le> x \<Longrightarrow> i + int (length xs) \<le> n \<Longrightarrow> gini_weighted n i xs \<le> (n - 1) * sum_list xs"
proof (induction xs arbitrary: i)
  case (Cons x xs)
  have "(2 * (i + 1) - n - 1) * x \<le> (n - 1) * x" using Cons.prems by (intro mult_right_mono) simp_all
  moreover have "gini_weighted n (i + 1) xs \<le> (n - 1) * sum_list xs" using Cons.prems by (intro Cons.IH) simp_all
  ultimately show ?case by (simp add: algebra_simps)
qed simp

lemma abs_differences_nonneg: "0 \<le> abs_differences xs"
  by (auto simp: abs_differences_def intro!: sum_list_nonneg)

lemma gini_quotient:
  assumes "2 \<le> length values" "0 < sum_list (map clip values)"
  shows "giniCoefficientBps values =
      (abs_differences (map clip values) * 10000) div (2 * int (length values) * sum_list (map clip values)) \<and>
    0 \<le> giniCoefficientBps values \<and> giniCoefficientBps values < 10000"
proof -
  let ?xs = "sort (map clip values)" and ?n = "int (length values)" and ?t = "sum_list (map clip values)"
  let ?w = "gini_weighted ?n 0 ?xs"
  have w: "2 * ?w = abs_differences (map clip values)"
    using gini_weighted_sorted [of ?xs] abs_differences_cong [of ?xs "map clip values"] by simp
  then have pos: "0 \<le> ?w" using abs_differences_nonneg [of "map clip values"] by simp
  have "?w \<le> (?n - 1) * ?t"
    using gini_weighted_le [of ?xs 0 ?n] by (simp add: sum_list_sort)
  then have "?w * 10000 < 10000 * (?n * ?t)" using assms by (simp add: algebra_simps)
  moreover have den: "0 < ?n * ?t" using assms by (intro mult_pos_pos) auto
  ultimately have "(?w * 10000) div (?n * ?t) < 10000"
    using bdiv_less_iff [of "?w * 10000" "?n * ?t" 10000] pos by (simp add: bdiv_nonneg)
  moreover have "0 \<le> (?w * 10000) div (?n * ?t)" using pos den by (simp add: pos_imp_zdiv_nonneg_iff)
  moreover have "(?w * 10000) div (?n * ?t) = (abs_differences (map clip values) * 10000) div (2 * ?n * ?t)"
  proof -
    have "(2 * (?w * 10000)) div (2 * (?n * ?t)) = (?w * 10000) div (?n * ?t)" by (rule div_mult_mult1) simp
    then show ?thesis by (simp add: w [symmetric] algebra_simps)
  qed
  moreover have "bdiv (?w * 10000) (?n * ?t) = (?w * 10000) div (?n * ?t)" using pos den by (intro bdiv_nonneg) simp_all
  ultimately show ?thesis using assms by (simp add: giniCoefficientBps_def Let_def sum_list_sort BPS_def)
qed

text \<open>The Gini coefficient of the indexer is, in basis points and rounded down, the mean absolute difference of the
  powers divided by twice their mean: the formula on the sorted values agrees with the definition over all pairs, whatever
  the order of the holders. It is never negative and always below 10000, so the two clamps never act, and the 10000
  that the comment gives for one owner of everything is not reached (\<open>gini_of_one_owner\<close>).\<close>

theorem gini_is_mean_difference:
  "giniCoefficientBps values =
     (if length values < 2 \<or> sum_list (map clip values) \<le> 0 then 0
      else (abs_differences (map clip values) * 10000) div
             (2 * int (length values) * sum_list (map clip values))) \<and>
   0 \<le> giniCoefficientBps values \<and> giniCoefficientBps values < 10000"
proof (cases "length values < 2 \<or> sum_list (map clip values) \<le> 0")
  case True
  then show ?thesis by (auto simp: giniCoefficientBps_def Let_def sum_list_sort)
next
  case False
  then show ?thesis using gini_quotient [of "values"] by simp
qed

text \<open>One owner of everything among \<open>k + 1\<close> holders has the coefficient \<open>k / (k + 1)\<close>, which is 5000 basis points for
  two holders, and not the 10000 of the comment.\<close>

lemma abs_differences_one_owner:
  "0 < x \<Longrightarrow> abs_differences (x # replicate k 0) = 2 * (int k * x)"
  by (simp add: abs_differences_Cons) (simp add: abs_differences_def sum_list_replicate)

theorem gini_of_one_owner:
  assumes "0 < x"
  shows "giniCoefficientBps (x # replicate k 0) = (int k * 10000) div (int k + 1)"
proof (cases "k = 0")
  case False
  have clip: "map clip (x # replicate k 0) = x # replicate k 0" using assms by (simp add: clip_def)
  have "giniCoefficientBps (x # replicate k 0) =
      ((2 * x) * (int k * 10000)) div ((2 * x) * (int k + 1))"
    using gini_quotient [of "x # replicate k 0", unfolded clip] abs_differences_one_owner [OF assms] False assms
    by (simp add: sum_list_replicate algebra_simps)
  then show ?thesis using assms by (simp only: div_mult_mult1)
qed (simp add: giniCoefficientBps_def)

theorem gini_of_one_owner_witness: "giniCoefficientBps [7, 0] = 5000"
  using gini_of_one_owner [of 7 1] by simp

subsection \<open>The Nakamoto coefficient\<close>

lemma nakamoto_loop_spec:
  assumes "cumulative \<le> half" "half < cumulative + sum_list vs"
  shows "\<exists>k. 0 < k \<and> k \<le> length vs \<and> nakamoto_loop half cumulative cnt vs = cnt + k \<and>
    half < cumulative + sum_list (take k vs) \<and> cumulative + sum_list (take (k - 1) vs) \<le> half"
  using assms
proof (induction vs arbitrary: cumulative cnt)
  case (Cons v vs)
  show ?case
  proof (cases "cumulative + v > half")
    case False
    then obtain k where k: "0 < k" "k \<le> length vs"
        "nakamoto_loop half (cumulative + v) (cnt + 1) vs = cnt + 1 + k"
        "half < cumulative + v + sum_list (take k vs)" "cumulative + v + sum_list (take (k - 1) vs) \<le> half"
      using Cons.IH [of "cumulative + v" "cnt + 1"] Cons.prems by auto
    moreover have "take (Suc k - 1) (v # vs) = v # take (k - 1) vs" using k(1) by (cases k) simp_all
    ultimately show ?thesis using False by (intro exI [of _ "Suc k"]) simp
  qed (use Cons.prems in \<open>auto intro!: exI [of _ 1]\<close>)
qed simp

lemma over_half: "0 \<le> t \<Longrightarrow> bdiv t 2 < c \<longleftrightarrow> t < 2 * c"
  using bdiv_less_iff [of t 2 c] by (simp add: mult.commute)

lemma sum_take_mono:
  assumes "\<forall>x \<in> set (ys :: int list). 0 \<le> x" "i \<le> j"
  shows "sum_list (take i ys) \<le> sum_list (take j ys)"
proof -
  have "take j ys = take i ys @ take (j - i) (drop i ys)" using assms(2) by (metis le_add_diff_inverse take_add)
  moreover have "0 \<le> sum_list (take (j - i) (drop i ys))"
    using assms(1) by (intro sum_list_nonneg) (meson in_set_dropD in_set_takeD)
  ultimately show ?thesis by simp
qed

text \<open>C28: The Nakamoto coefficient is the least number of holders who together have more than half of the voting
  power: so many holders reach it, and no smaller group does. It is zero exactly when there is no power at all.\<close>

theorem nakamoto_is_least_majority:
  "let k = nakamotoCoefficient values; powers = map clip values in
   (sum_list powers \<le> 0 \<longleftrightarrow> k = 0) \<and>
   (0 < k \<longrightarrow>
     (\<exists>S. S \<subseteq># mset powers \<and> size S = k \<and> sum_list powers < 2 * sum_mset S) \<and>
     (\<forall>S. S \<subseteq># mset powers \<and> sum_list powers < 2 * sum_mset S \<longrightarrow> k \<le> size S))"
proof (cases "sum_list (map clip values) \<le> 0")
  case True
  then show ?thesis by (simp add: nakamotoCoefficient_def Let_def descending_facts)
next
  case False
  let ?ys = "descending values" and ?p = "map clip values"
  let ?half = "bdiv (sum_list ?p) 2"
  have t: "0 < sum_list ?p" using False by simp
  have "0 \<le> ?half" "?half < sum_list ?ys" using t over_half [of "sum_list ?p"] by (simp_all add: bdiv_ge_0 descending_facts)
  then obtain k where k: "0 < k" "k \<le> length ?ys" "nakamoto_loop ?half 0 0 ?ys = k"
      "?half < sum_list (take k ?ys)" "sum_list (take (k - 1) ?ys) \<le> ?half"
    using nakamoto_loop_spec [of 0 ?half ?ys 0] by auto
  have nak: "nakamotoCoefficient values = k"
    using k(3) t by (simp add: nakamotoCoefficient_def Let_def descending_facts)
  have "mset (take k ?ys) \<subseteq># mset ?p" by (metis append_take_drop_id descending_facts(2) mset_append mset_subset_eq_add_left)
  moreover have "sum_list ?p < 2 * sum_mset (mset (take k ?ys))"
    using k(4) over_half [of "sum_list ?p"] t by (simp add: sum_mset_sum_list)
  moreover have "size (mset (take k ?ys)) = k" using k(2) by simp
  ultimately have reach: "\<exists>S. S \<subseteq># mset ?p \<and> size S = k \<and> sum_list ?p < 2 * sum_mset S" by blast
  have "k \<le> size S" if S: "S \<subseteq># mset ?p" "sum_list ?p < 2 * sum_mset S" for S
  proof (rule ccontr)
    assume "\<not> k \<le> size S"
    then have "sum_list (take (size S) ?ys) \<le> sum_list (take (k - 1) ?ys)"
      by (intro sum_take_mono descending_facts) simp
    then have "sum_mset S \<le> ?half"
      using top_sum [of ?ys S] S(1) k(5) by (simp add: descending_facts del: mset_map)
    then show False using S(2) over_half [of "sum_list ?p" "sum_mset S"] t by simp
  qed
  with reach nak k(1) False show ?thesis by (simp add: Let_def)
qed

subsection \<open>Shares\<close>

lemma bdiv_pos: "0 \<le> a \<Longrightarrow> 0 < b \<Longrightarrow> bdiv a b = a div b"
  by (simp add: bdiv_nonneg)

text \<open>The share of the top \<open>n\<close> is the largest share any \<open>n\<close> holders have, rounded down, and lies between zero and
  10000 basis points.\<close>

theorem top_share_is_largest:
  assumes "0 < n" "0 < sum_list (map clip values)"
  shows "0 \<le> topNShareBps values n \<and> topNShareBps values n \<le> 10000 \<and>
    (\<forall>S. S \<subseteq># mset (map clip values) \<and> int (size S) \<le> n \<longrightarrow>
       (sum_mset S * 10000) div sum_list (map clip values) \<le> topNShareBps values n) \<and>
    (\<exists>S. S \<subseteq># mset (map clip values) \<and> int (size S) \<le> n \<and>
       topNShareBps values n = (sum_mset S * 10000) div sum_list (map clip values))"
proof -
  let ?ys = "descending values" and ?p = "map clip values"
  let ?top = "sum_list (take (nat n) ?ys)"
  have nonneg: "0 \<le> ?top" using descending_facts(4) by (intro sum_list_nonneg) (meson in_set_takeD)
  have "?top \<le> sum_list (take (max (nat n) (length ?ys)) ?ys)" by (intro sum_take_mono descending_facts) simp
  then have le: "?top \<le> sum_list ?p" by (simp add: descending_facts)
  have val: "topNShareBps values n = (?top * 10000) div sum_list ?p"
    using assms nonneg by (simp add: topNShareBps_def Let_def descending_facts BPS_def bdiv_pos)
  have bound: "sum_mset S \<le> ?top" if "S \<subseteq># mset ?p" "int (size S) \<le> n" for S
  proof -
    have "sum_mset S \<le> sum_list (take (size S) ?ys)"
      using top_sum [of ?ys S] that(1) by (simp add: descending_facts del: mset_map)
    also have "\<dots> \<le> ?top" using that(2) by (intro sum_take_mono descending_facts) simp
    finally show ?thesis .
  qed
  have "(?top * 10000) div sum_list ?p \<le> (sum_list ?p * 10000) div sum_list ?p"
    using le assms(2) by (intro zdiv_mono1) simp_all
  then have "topNShareBps values n \<le> 10000" using assms(2) val by simp
  moreover have "0 \<le> topNShareBps values n" using val nonneg assms(2) by (simp add: pos_imp_zdiv_nonneg_iff)
  moreover have "(sum_mset S * 10000) div sum_list ?p \<le> topNShareBps values n"
    if "S \<subseteq># mset ?p" "int (size S) \<le> n" for S
    unfolding val using bound [OF that] assms(2) by (intro zdiv_mono1) simp_all
  moreover have "\<exists>S. S \<subseteq># mset ?p \<and> int (size S) \<le> n \<and>
      topNShareBps values n = (sum_mset S * 10000) div sum_list ?p"
  proof (intro exI conjI)
    show "mset (take (nat n) ?ys) \<subseteq># mset ?p"
      by (metis append_take_drop_id descending_facts(2) mset_append mset_subset_eq_add_left)
  qed (use assms(1) val in \<open>simp_all add: sum_mset_sum_list\<close>)
  ultimately show ?thesis by blast
qed

theorem top_share_is_largest_witness: "topNShareBps [30, 50, 20] 1 \<le> 10000"
  using top_share_is_largest [of 1 "[30, 50, 20]"] by (simp add: clip_def)

theorem nakamoto_is_least_majority_witness:
  "nakamotoCoefficient [30, 40, 30] = 2 \<and>
   \<not> (\<exists>S. S \<subseteq># {#30, 40, 30 :: int#} \<and> 100 < 2 * sum_mset S \<and> size S < 2)"
proof -
  have "nakamotoCoefficient [30, 40, 30] = 2"
    by (simp add: nakamotoCoefficient_def descending_def clip_def bdiv_def Let_def)
  with nakamoto_is_least_majority [of "[30, 40, 30]"] show ?thesis by (auto simp: Let_def clip_def)
qed

subsection \<open>Delegates\<close>

text \<open>The power received by the delegates is exactly the power of the holders who delegated: over the rows of the
  database, each with a positive power and a delegatee, nothing is lost or counted twice.\<close>

theorem delegate_power_conserved:
  "js_sum (loadDelegatePowers holderPowers rows) =
     (\<Sum>(delegator, delegatee) \<leftarrow> rows. if delegatee = [] then 0 else clip (js_getd 0 holderPowers delegator))"
proof -
  have "js_sum (foldl (receive_power holderPowers) received rows) =
      js_sum received +
      (\<Sum>(delegator, delegatee) \<leftarrow> rows. if delegatee = [] then 0 else clip (js_getd 0 holderPowers delegator))"
    for received
    by (induction rows arbitrary: received) (auto simp: js_sum_set clip_def Let_def)
  from this [of "[]"] show ?thesis by (simp add: loadDelegatePowers_def)
qed

end
