(* ===== verification/IndexerLoop.thy ===== *)
theory IndexerLoop
  imports IndexerGovernance IndexerContracts IndexerTimelock IndexerConfig TreasuryProjection Concentration
begin

section \<open>The indexer's event loop\<close>

text \<open>
  \<^verbatim>\<open>processEvents\<close> of \<^verbatim>\<open>packages/indexer/src/events.ts\<close> with its dispatch by contract and event type, the log of all
  events, the two periodic snapshots, and the polling loop of \<^verbatim>\<open>index.ts\<close>.
  SHA-256, \<^verbatim>\<open>new Date\<close>, \<^verbatim>\<open>scValToNative\<close> and the RPC server are parameters; an address that is not configured is empty.
\<close>

record Environment =
  en_sha256 :: "string \<Rightarrow> string"
  en_parseDate :: "string \<Rightarrow> string option"

record IndexerConfig =
  cfg_governor :: string
  cfg_wrapper :: string
  cfg_treasury :: string
  cfg_liquidity :: string
  cfg_coSponsorship :: string
  cfg_proposalBonds :: string
  cfg_tokenVotes :: string
  cfg_timelock :: string
  cfg_convictionVoting :: string
  cfg_signalAnchor :: string
  cfg_treasuryStrategies :: string
  cfg_optimisticGovernor :: string
  cfg_voteEscrow :: string
  cfg_treasuryStateReader :: "simulator option"

subsection \<open>Event types\<close>

definition TOPIC_MAP :: "(string \<times> string) list" where
  "TOPIC_MAP =
     [(''prop_crtd'', ''ProposalCreated''), (''vote'', ''VoteCast''), (''vote_rsn'', ''VoteCastWithReason''),
      (''queued'', ''ProposalQueued''), (''executed'', ''ProposalExecuted''), (''cancelled'', ''ProposalCancelled''),
      (''delegate'', ''DelegateChanged''), (''del_chsh'', ''DelegateChanged''), (''config_updated'', ''ConfigUpdated''),
      (''upgraded'', ''GovernorUpgraded''), (''ProposalCreated'', ''ProposalCreated''), (''VoteCast'', ''VoteCast''),
      (''VoteCastWithReason'', ''VoteCastWithReason''), (''ProposalQueued'', ''ProposalQueued''),
      (''ProposalExecuted'', ''ProposalExecuted''), (''ProposalCancelled'', ''ProposalCancelled''),
      (''DelegateChanged'', ''DelegateChanged''), (''ConfigUpdated'', ''ConfigUpdated''),
      (''GovernorUpgraded'', ''GovernorUpgraded''), (''ReputationUpdated'', ''ReputationUpdated''),
      (''EffectiveThresholdChanged'', ''EffectiveThresholdChanged''), (''DelegatedBySig'', ''DelegatedBySig''),
      (''PermitsInvalidated'', ''PermitsInvalidated''), (''RelayerWhitelistUpdated'', ''RelayerWhitelistUpdated''),
      (''stream_created'', ''stream_created''), (''stream_spend'', ''stream_spend''), (''stream_batch'', ''stream_batch''),
      (''stream_revoked'', ''stream_revoked''), (''stream_extended'', ''stream_extended''),
      (''stream_topped_up'', ''stream_topped_up''), (''stream_exhausted'', ''stream_exhausted''),
      (''stream_expired'', ''stream_expired'')]"

text \<open>The table is an object, whose keys are texts: \<^verbatim>\<open>TOPIC_MAP[v]\<close> looks up \<^verbatim>\<open>String(v)\<close>. (The members that every object
  inherits, like \<^verbatim>\<open>constructor\<close>, are not topics of a contract and are not in the model.)\<close>

definition event_type :: "RpcEvent \<Rightarrow> js_value" where
  "event_type event =
     (case map_of TOPIC_MAP (js_String (topic event 0)) of None \<Rightarrow> topic event 0 | Some t \<Rightarrow> JString t)"

subsection \<open>The event log\<close>

definition type_text :: "js_value \<Rightarrow> string" where
  "type_text v = (if v = JUndefined \<or> v = JNull then [] else js_String v)"

definition logToEventLog :: "Environment \<Rightarrow> RpcEvent \<Rightarrow> Indexer \<Rightarrow> unit indexing" where
  "logToEventLog env event w =
     (let serializedPayload = event_payload event;
          eventId = indexerEventId (en_sha256 env) event (type_text (event_type event)) (rpc_contractId event)
            serializedPayload
      in query (InsertInto ''event_log''
            [(''event_id'', Param 1), (''event_type'', Param 2), (''ledger'', Param 3), (''transaction_hash'', Param 4),
             (''contract_address'', Param 5), (''payload'', Param 6)] (DoNothing (Some [''event_id''])))
          [Some eventId, js_param (event_type event), ledger_param event, rpc_txHash event,
           Some (or_empty (rpc_contractId event)), Some serializedPayload] w)"

subsection \<open>Dispatch\<close>

type_synonym handler = "RpcEvent \<Rightarrow> Indexer \<Rightarrow> unit indexing"

text \<open>A \<^verbatim>\<open>switch\<close> over the event type that ignores other types.\<close>

definition switch :: "(string \<times> handler) list \<Rightarrow> handler" where
  "switch cases event w =
     (case event_type event of
        JString s \<Rightarrow> (case map_of cases s of None \<Rightarrow> (Inr (), w) | Some h \<Rightarrow> h event w)
      | _ \<Rightarrow> (Inr (), w))"

definition doing :: "(RpcEvent \<Rightarrow> failure + action list) \<Rightarrow> handler" where
  "doing h event w = run_handler (h event) w"

definition stream_types :: "string list" where
  "stream_types =
     [''stream_created'', ''stream_spend'', ''stream_batch'', ''stream_revoked'', ''stream_extended'',
      ''stream_topped_up'', ''stream_exhausted'', ''stream_expired'']"

definition treasury_cases :: "Environment \<Rightarrow> IndexerConfig \<Rightarrow> (string \<times> handler) list" where
  "treasury_cases env config =
     (''bat_xfer'', doing handleTreasuryBatchTransfer) #
     map (\<lambda>t. (t, \<lambda>event. handleTreasuryStreamEvent (en_sha256 env) (cfg_treasuryStateReader config) event t))
       stream_types"

definition wrapper_cases :: "(string \<times> handler) list" where
  "wrapper_cases =
     [(''deposit'', doing handleWrapperDeposit), (''Deposit'', doing handleWrapperDeposit),
      (''withdraw'', doing handleWrapperWithdraw), (''Withdraw'', doing handleWrapperWithdraw),
      (''DelegateChanged'', doing handleDelegateChanged)]"

definition liquidity_cases :: "(string \<times> handler) list" where
  "liquidity_cases =
     [(''LiquidityAdded'', doing handleLiquidityAdded), (''LiquidityRemoved'', doing handleLiquidityRemoved),
      (''Swap'', doing handleSwap), (''PoolFeeUpdated'', doing handlePoolFeeUpdated)]"

definition coSponsorship_cases :: "(string \<times> handler) list" where
  "coSponsorship_cases =
     [(''DraftCreated'', doing handleDraftCreated), (''CoSponsored'', doing handleCoSponsored),
      (''CoSponsorshipWithdrawn'', doing handleCoSponsorshipWithdrawn),
      (''DraftFinalized'', doing handleDraftFinalized), (''DraftCancelled'', doing handleDraftCancelled),
      (''DraftExpired'', doing handleDraftExpired)]"

definition proposalBonds_cases :: "(string \<times> handler) list" where
  "proposalBonds_cases =
     [(''BondLocked'', doing handleBondLocked), (''BondRefunded'', doing handleBondRefunded),
      (''BondSlashed'', doing handleBondSlashed)]"

definition tokenVotes_cases :: "(string \<times> handler) list" where
  "tokenVotes_cases =
     [(''DelegateChanged'', doing handleDelegateChanged),
      (''DelegationRegistered'', doing handleDelegationRegistered),
      (''DelegationRevoked'', doing handleDelegationRevoked),
      (''DelegationDepthLimitUpdated'', doing handleDelegationDepthLimitUpdated),
      (''DelegatedBySig'', doing handleDelegatedBySig), (''PermitsInvalidated'', doing handlePermitsInvalidated),
      (''RelayerWhitelistUpdated'', doing handleRelayerWhitelistUpdated),
      (''SplitDelegated'', handleSplitDelegated), (''SplitUndelegated'', handleSplitUndelegated)]"

definition timelock_cases :: "(string \<times> handler) list" where
  "timelock_cases =
     [(''OperationScheduled'', doing handleTimelockOperationScheduled),
      (''OperationExecuted'', doing handleTimelockOperationExecuted),
      (''OperationCancelled'', doing handleTimelockOperationCancelled),
      (''BatchOperationScheduled'', doing handleTimelockBatchOperationScheduled),
      (''BatchOperationExecuted'', doing handleTimelockBatchOperationExecuted),
      (''BatchOperationCancelled'', doing handleTimelockBatchOperationCancelled),
      (''MinDelayUpdated'', doing handleTimelockMinDelayUpdated),
      (''DependencyDagValidated'', doing handleTimelockDependencyDagValidated),
      (''CycleDetected'', doing handleTimelockCycleDetected),
      (''PartialBatchStarted'', doing handleTimelockPartialBatchStarted),
      (''PartialOpSucceeded'', doing handleTimelockPartialOpSucceeded),
      (''PartialOpFailed'', doing handleTimelockPartialOpFailed),
      (''BatchRecoveryEntered'', doing handleTimelockBatchRecoveryEntered),
      (''FailedOpRetried'', doing handleTimelockFailedOpRetried),
      (''FailedOpSkipped'', doing handleTimelockFailedOpSkipped),
      (''BatchFullyComplete'', doing handleTimelockBatchFullyComplete)]"

definition treasuryStrategies_cases :: "(string \<times> handler) list" where
  "treasuryStrategies_cases =
     [(''StratReg'', doing handleStrategyRegistered), (''StratDeact'', doing handleStrategyDeactivated),
      (''Deposited'', doing handleStrategyDeposited), (''WdrawReq'', doing handleStrategyWithdrawalRequested),
      (''WdrawClaim'', doing handleStrategyWithdrawalClaimed)]"

definition governor_cases :: "Environment \<Rightarrow> (string \<times> handler) list" where
  "governor_cases env =
     [(''ProposalCreated'', doing handleProposalCreated), (''VoteCast'', doing (handleVoteCast False)),
      (''VoteCastWithReason'', doing (handleVoteCast True)), (''ProposalQueued'', doing handleProposalQueued),
      (''ProposalExecuted'', doing handleProposalExecuted), (''ProposalCancelled'', doing handleProposalCancelled),
      (''DelegateChanged'', doing handleDelegateChanged),
      (''ConfigUpdated'', doing (handleConfigUpdated (en_parseDate env))),
      (''GovernorUpgraded'', doing handleGovernorUpgraded), (''ReputationUpdated'', doing handleReputationUpdated),
      (''EffectiveThresholdChanged'', doing handleEffectiveThresholdChanged)]"

definition is_from :: "RpcEvent \<Rightarrow> string \<Rightarrow> bool" where
  "is_from event address =
     (case rpc_contractId event of None \<Rightarrow> False | Some c \<Rightarrow> c \<noteq> [] \<and> address \<noteq> [] \<and> c = address)"

definition dispatch_event :: "Environment \<Rightarrow> IndexerConfig \<Rightarrow> handler" where
  "dispatch_event env config event =
     (if is_from event (cfg_convictionVoting config) then doing (\<lambda>e. handleConvictionEvent e (event_type e)) event
      else if is_from event (cfg_treasury config) then switch (treasury_cases env config) event
      else if is_from event (cfg_wrapper config) then switch wrapper_cases event
      else if is_from event (cfg_liquidity config) then switch liquidity_cases event
      else if is_from event (cfg_coSponsorship config) then switch coSponsorship_cases event
      else if is_from event (cfg_proposalBonds config) then switch proposalBonds_cases event
      else if is_from event (cfg_tokenVotes config) then switch tokenVotes_cases event
      else if is_from event (cfg_timelock config) then switch timelock_cases event
      else if is_from event (cfg_signalAnchor config) then switch [(''ResultAnchored'', doing handleResultAnchored)] event
      else if is_from event (cfg_treasuryStrategies config) then switch treasuryStrategies_cases event
      else if is_from event (cfg_optimisticGovernor config) then
        doing (\<lambda>e. handleOptimisticGovernorEvent e (event_type e)) event
      else if is_from event (cfg_voteEscrow config) then doing (\<lambda>e. handleVoteEscrowEvent e (event_type e)) event
      else switch (governor_cases env) event)"

subsection \<open>A batch\<close>

text \<open>The body of the loop over the events.\<close>

definition process_event :: "Environment \<Rightarrow> IndexerConfig \<Rightarrow> handler" where
  "process_event env config event w =
     (case logToEventLog env event w of
        (Inl e, w') \<Rightarrow> (Inl e, w')
      | (Inr _, w') \<Rightarrow> dispatch_event env config event w')"

fun process_loop :: "Environment \<Rightarrow> IndexerConfig \<Rightarrow> ('v \<Rightarrow> RpcEvent option) \<Rightarrow> 'v list \<Rightarrow> int \<Rightarrow> Indexer \<Rightarrow> int indexing" where
  "process_loop env config decode [] latestLedger w = (Inr latestLedger, w)"
| "process_loop env config decode (raw # rest) latestLedger w =
     (case decode raw of
        None \<Rightarrow> (Inl type_error, w)
      | Some event \<Rightarrow>
          (case process_event env config event w of
             (Inl e, w') \<Rightarrow> (Inl e, w')
           | (Inr _, w') \<Rightarrow>
               process_loop env config decode rest
                 (if rpc_ledger event > latestLedger then rpc_ledger event else latestLedger) w'))"

definition contractIds :: "IndexerConfig \<Rightarrow> string list" where
  "contractIds config =
     filter (\<lambda>c. c \<noteq> [])
       [cfg_governor config, cfg_wrapper config, cfg_treasury config, cfg_liquidity config, cfg_coSponsorship config,
        cfg_proposalBonds config, cfg_tokenVotes config, cfg_timelock config, cfg_convictionVoting config,
        cfg_signalAnchor config, cfg_optimisticGovernor config, cfg_voteEscrow config]"

text \<open>\<^verbatim>\<open>server.getEvents\<close>: the first ledger, the contracts and the limit to the events of a page.\<close>

type_synonym 'v event_server = "int \<Rightarrow> string list \<Rightarrow> nat \<Rightarrow> failure + 'v list"

definition processEvents ::
  "Environment \<Rightarrow> ('v \<Rightarrow> RpcEvent option) \<Rightarrow> 'v event_server \<Rightarrow> IndexerConfig \<Rightarrow> int \<Rightarrow> Indexer \<Rightarrow> int indexing" where
  "processEvents env decode getEvents config startLedger w =
     (case getEvents startLedger (contractIds config) 200 of
        Inl e \<Rightarrow> (Inl e, w)
      | Inr events \<Rightarrow> process_loop env config decode events (startLedger - 1) w)"

subsection \<open>Snapshots\<close>

definition int_cell :: "row \<Rightarrow> string \<Rightarrow> int" where
  "int_cell r c = (case cell r c of SqlInt i \<Rightarrow> i | _ \<Rightarrow> 0)"

definition text_cell :: "row \<Rightarrow> string \<Rightarrow> string" where
  "text_cell r c = (case cell r c of SqlText s \<Rightarrow> s | _ \<Rightarrow> [])"

text \<open>\<^verbatim>\<open>SELECT ledger FROM t ORDER BY ledger DESC LIMIT 1\<close>\<close>

definition last_ledger_of :: "row list \<Rightarrow> int option" where
  "last_ledger_of rs = (if rs = [] then None else Some (Max (set (map (\<lambda>r. int_cell r ''ledger'') rs))))"

definition maybeTakeGovernanceSnapshot :: "int \<Rightarrow> Indexer \<Rightarrow> unit indexing" where
  "maybeTakeGovernanceSnapshot currentLedger w =
     (let lastLedger = (case last_ledger_of (ix_db w ''governance_snapshots'') of None \<Rightarrow> 0 | Some l \<Rightarrow> l) in
      if currentLedger - lastLedger < SNAPSHOT_INTERVAL_LEDGERS then (Inr (), w)
      else
        let totalVotesCast = dec_int (sum_list (map (\<lambda>r. int_cell r ''weight'') (ix_db w ''votes''))) in
        run_actions
          [Query (InsertInto ''governance_snapshots'' [(''ledger'', Param 1), (''total_votes_cast'', Param 2)]
               (DoNothing (Some [''ledger'']))) [Some (dec_int currentLedger), Some totalVotesCast],
           InvalidatePattern ''analytics:'',
           message ''analytics_snapshot_taken''
             [(''ledger'', JNumber currentLedger), (''total_votes_cast'', JString totalVotesCast)]] w)"

text \<open>\<^verbatim>\<open>SELECT DISTINCT ON (k) ... ORDER BY k, ledger DESC, id DESC\<close>: of each key the row of the latest ledger, and of those
  the one with the largest id. The order of the keys is that of their first rows; the metrics do not depend on it.\<close>

definition later_row :: "row \<Rightarrow> row \<Rightarrow> row" where
  "later_row r r' = (if int_cell r ''ledger'' \<le> int_cell r' ''ledger'' then r' else r)"

definition latest_by :: "string \<Rightarrow> row list \<Rightarrow> row list" where
  "latest_by c rs =
     map (\<lambda>k. let same = filter (\<lambda>r. text_cell r c = k) rs in foldl later_row (hd same) (tl same))
       (rev (remdups (rev (map (\<lambda>r. text_cell r c) rs))))"

definition takeConcentrationSnapshot :: "int \<Rightarrow> Indexer \<Rightarrow> unit indexing" where
  "takeConcentrationSnapshot currentLedger w =
     (let db = ix_db w in
      case maybeTakeConcentrationSnapshot (last_ledger_of (db ''concentration_snapshots''))
             (map (\<lambda>r. (text_cell r ''voter'', int_cell r ''weight'')) (latest_by ''voter'' (db ''votes'')))
             (map (\<lambda>r. (text_cell r ''delegator'', text_cell r ''new_delegatee''))
               (latest_by ''delegator'' (db ''delegates''))) currentLedger of
        None \<Rightarrow> (Inr (), w)
      | Some (ledger, m) \<Rightarrow>
          run_actions
            [Query (InsertInto ''concentration_snapshots''
                 (numbered [''ledger'', ''total_voting_power'', ''top1_share_bps'', ''top5_share_bps'',
                    ''top10_share_bps'', ''top20_share_bps'', ''gini_coefficient_bps'', ''nakamoto_coefficient'',
                    ''delegate_top5_share_bps'', ''delegate_gini_coefficient_bps'']) (DoNothing (Some [''ledger''])))
               (map (\<lambda>i. Some (dec_int i))
                 [ledger, total_voting_power m, top1_share_bps m, top5_share_bps m, top10_share_bps m,
                  top20_share_bps m, gini_coefficient_bps m, int (nakamoto_coefficient m),
                  delegate_top5_share_bps m, delegate_gini_coefficient_bps m]),
             InvalidatePattern ''analytics:concentration:'',
             message ''analytics_snapshot_taken''
               [(''ledger'', JNumber ledger), (''nakamoto_coefficient'', JNumber (int (nakamoto_coefficient m))),
                (''top5_share_bps'', JNumber (top5_share_bps m))]] w)"

subsection \<open>Polling\<close>

definition getLastIndexedLedger :: "database \<Rightarrow> int" where
  "getLastIndexedLedger db =
     (case find (\<lambda>r. cell r ''id'' = SqlInt 1) (db ''indexer_state'') of None \<Rightarrow> 0 | Some r \<Rightarrow> int_cell r ''last_ledger'')"

definition updateLastIndexedLedger :: "int \<Rightarrow> Indexer \<Rightarrow> unit indexing" where
  "updateLastIndexedLedger ledger =
     query (UpdateSet ''indexer_state'' [(''last_ledger'', Param 1)] [(''id'', Lit (SqlInt 1))]) [Some (dec_int ledger)]"

text \<open>One poll that runs by itself; the variable \<^verbatim>\<open>lastLedger\<close> of the closure is the second component.\<close>

definition poll_once ::
  "Environment \<Rightarrow> ('v \<Rightarrow> RpcEvent option) \<Rightarrow> 'v event_server \<Rightarrow> IndexerConfig \<Rightarrow> int \<times> Indexer \<Rightarrow>
    failure option \<times> int \<times> Indexer" where
  "poll_once env decode getEvents config s =
     (case s of (lastLedger, w) \<Rightarrow>
       (case processEvents env decode getEvents config (lastLedger + 1) w of
          (Inl e, w1) \<Rightarrow> (Some e, lastLedger, w1)
        | (Inr latestLedger, w1) \<Rightarrow>
            if latestLedger > lastLedger then
              (case updateLastIndexedLedger latestLedger w1 of
                 (Inl e, w2) \<Rightarrow> (Some e, lastLedger, w2)
               | (Inr _, w2) \<Rightarrow>
                   (case maybeTakeGovernanceSnapshot latestLedger w2 of
                      (Inl e, w3) \<Rightarrow> (Some e, latestLedger, w3)
                    | (Inr _, w3) \<Rightarrow>
                        (case takeConcentrationSnapshot latestLedger w3 of
                           (Inl e, w4) \<Rightarrow> (Some e, latestLedger, w4)
                         | (Inr _, w4) \<Rightarrow> (None, latestLedger, w4))))
            else (None, lastLedger, w1)))"

end
