(* ===== verification/IndexerRuns.thy ===== *)
theory IndexerRuns
  imports IndexerRules IndexerLoop
begin

section \<open>Runs of the indexer\<close>

text \<open>
  What one event and one poll may change. Every event writes the log and the tables of the contract it comes from and no
  others; keys stay unique through every poll; the log holds every event once, however often it is read.
\<close>

subsection \<open>Handlers that read the database\<close>

lemma keeps_revoke_splits: "keeps {''split_delegations''} (revoke_splits delegator)"
  unfolding revoke_splits_def by (rule keeps_query) (simp_all add: leaves_keys_def sets_of_def)

lemma keeps_insert_splits: "keeps {''split_delegations''} (insert_splits delegator entries)"
proof (induction entries)
  case (Cons entry rest)
  have "keeps {''split_delegations''} (\<lambda>w. query (InsertInto ''split_delegations'' vs NoClause) (ps w) w)" for vs ps
    using keeps_query [of "InsertInto ''split_delegations'' vs NoClause" "{''split_delegations''}"]
    by (simp add: keeps_def leaves_keys_def sets_of_def)
  from keeps_then [OF this Cons.IH] show ?case
    by (cases "entry = JUndefined \<or> entry = JNull") (auto simp: keeps_pure)
qed (simp add: keeps_pure)

lemma keeps_splits:
  "keeps {''split_delegations''} (handleSplitDelegated event)"
  "keeps {''split_delegations''} (handleSplitUndelegated event)"
proof -
  have actions: "keeps {''split_delegations''} (run_actions
    [InvalidatePattern p, InvalidatePattern q, Invalidate ks, message ty fs])" for p q ks ty fs
    by (rule keeps_run_actions) (simp add: action_ok_def message_def)
  show "keeps {''split_delegations''} (handleSplitUndelegated event)"
    unfolding handleSplitUndelegated_def Let_def by (rule keeps_then [OF keeps_revoke_splits actions])
  show "keeps {''split_delegations''} (handleSplitDelegated event)"
    unfolding handleSplitDelegated_def Let_def
  proof (rule keeps_then [OF keeps_revoke_splits], cases "items (rpc_value event)")
    case (Some entries)
    show "keeps {''split_delegations''} (\<lambda>w'. case items (rpc_value event) of None \<Rightarrow> (Inl type_error, w')
        | Some entries \<Rightarrow> (case insert_splits (topic event 1) entries w' of (Inl e, w'') \<Rightarrow> (Inl e, w'')
          | (Inr _, w'') \<Rightarrow> run_actions [InvalidatePattern ''delegates:'', InvalidatePattern ''split-delegations:'',
              Invalidate [''profile:'' @ js_String (topic event 1)],
              message ''split_delegated'' [(''delegator'', topic event 1), (''splits'', rpc_value event),
                (''ledger'', ledger_value event)]] w''))"
      unfolding Some option.case by (rule keeps_then [OF keeps_insert_splits actions])
  qed (simp add: keeps_pure)
qed

subsection \<open>The treasury projection\<close>

text \<open>Changes of the database alone.\<close>

definition db_keeps :: "string set \<Rightarrow> database \<Rightarrow> database \<Rightarrow> bool" where
  "db_keeps T db db' \<longleftrightarrow>
     (\<forall>t. t \<notin> T \<longrightarrow> db' t = db t) \<and> (keys_unique indexer_schema db \<longrightarrow> keys_unique indexer_schema db')"

lemma db_keeps_refl [simp]: "db_keeps T db db"
  by (simp add: db_keeps_def)

lemma db_keeps_trans: "db_keeps T db db' \<Longrightarrow> db_keeps T db' db'' \<Longrightarrow> db_keeps T db db''"
  by (auto simp: db_keeps_def)

lemma db_keeps_exec:
  "exec indexer_schema db ps st = Inr (n, db') \<Longrightarrow> leaves_keys indexer_schema st \<Longrightarrow> stmt_table st \<in> T \<Longrightarrow> db_keeps T db db'"
  unfolding db_keeps_def by (metis distinct_tables exec_frame exec_keeps_keys)

abbreviation stream_tables :: "string set" where
  "stream_tables \<equiv> {''treasury_streams'', ''treasury_stream_spends'', ''treasury_stream_events''}"

lemma stream_statements_keep:
  "upsertStream stream ledger db = Inr (n, db') \<Longrightarrow> db_keeps stream_tables db db'"
  "upsertSpend spend db = Inr (n, db') \<Longrightarrow> db_keeps stream_tables db db'"
  "insert_event event db = Inr (n, db') \<Longrightarrow> db_keeps stream_tables db db'"
  unfolding upsertStream_def upsertSpend_def insert_event_def
  by (auto elim!: db_keeps_exec simp: leaves_keys_def sets_of_def stream_columns_def spend_columns_def)

lemma upsert_spends_keep: "upsert_spends spends db = (r, db') \<Longrightarrow> db_keeps stream_tables db db'"
proof (induction spends arbitrary: db)
  case (Cons spend spends)
  then show ?case
    by (auto split: sum.splits prod.splits dest!: stream_statements_keep(2) intro: db_keeps_trans)
qed simp

lemma persist_keeps:
  assumes "persistTreasuryStreamEvent event stream spends db = Inr (b, db')"
  shows "db_keeps stream_tables db db'"
  using assms unfolding persistTreasuryStreamEvent_def
  by (auto split: sum.splits prod.splits if_splits dest!: stream_statements_keep upsert_spends_keep
      intro: db_keeps_trans)

lemma keeps_if: "keeps T f \<Longrightarrow> keeps T g \<Longrightarrow> keeps T (\<lambda>w. if P w then f w else g w)"
  by (simp add: keeps_def)

lemma keeps_db:
  assumes "\<And>db b db'. F db = Inr (b, db') \<Longrightarrow> db_keeps T db db'" "\<And>b. keeps T (k b)"
  shows "keeps T (\<lambda>w. case F (ix_db w) of Inl e \<Rightarrow> (Inl (g e), w) | Inr (b, db) \<Rightarrow> k b (w\<lparr>ix_db := db\<rparr>))"
  unfolding keeps_def
proof
  fix w
  show "(\<forall>t. t \<notin> T \<longrightarrow> ix_db (snd (case F (ix_db w) of Inl e \<Rightarrow> (Inl (g e), w)
          | Inr (b, db) \<Rightarrow> k b (w\<lparr>ix_db := db\<rparr>))) t = ix_db w t) \<and>
      (keys_unique indexer_schema (ix_db w) \<longrightarrow> keys_unique indexer_schema (ix_db (snd (case F (ix_db w) of
          Inl e \<Rightarrow> (Inl (g e), w) | Inr (b, db) \<Rightarrow> k b (w\<lparr>ix_db := db\<rparr>)))))"
  proof (cases "F (ix_db w)")
    case (Inr p)
    then obtain b db where "F (ix_db w) = Inr (b, db)" by (cases p) auto
    then show ?thesis using assms(1) [of "ix_db w" b db] assms(2) [of b]
      by (auto simp: keeps_def db_keeps_def)
  qed simp
qed

lemma keeps_stream: "keeps stream_tables (handleTreasuryStreamEvent sha reader event ty)"
proof -
  have act: "keeps stream_tables (stream_persisted ty e b)" for e b
    unfolding stream_persisted_def by (intro keeps_if keeps_pure keeps_run_actions) (simp add: action_ok_def)
  have rest: "keeps stream_tables (\<lambda>w. if treasuryStreamEventExists (te_eventId e) (ix_db w) then (Inr (), w)
      else case getStream simulate (te_streamId e) of Inl e \<Rightarrow> (Inl e, w) | Inr stream \<Rightarrow>
        (case (if ty = ''stream_spend'' \<or> ty = ''stream_batch'' then getAllStreamSpends simulate stream else Inr []) of
           Inl e \<Rightarrow> (Inl e, w)
         | Inr spends \<Rightarrow> (case persistTreasuryStreamEvent e stream spends (ix_db w) of
             Inl e \<Rightarrow> (Inl (Database e), w)
           | Inr (b, db) \<Rightarrow> stream_persisted ty e b (w\<lparr>ix_db := db\<rparr>))))" for e simulate
  proof (rule keeps_if [OF keeps_pure], cases "getStream simulate (te_streamId e)", goal_cases Inl Inr)
    case (Inr stream)
    show ?case unfolding Inr sum.case
    proof (cases "if ty = ''stream_spend'' \<or> ty = ''stream_batch'' then getAllStreamSpends simulate stream else Inr []",
        goal_cases Inl Inr)
      case (Inr spends)
      show ?case unfolding Inr sum.case by (rule keeps_db [OF persist_keeps act])
    qed (simp add: keeps_pure)
  qed (simp add: keeps_pure)
  show ?thesis
  proof (cases reader)
    case (Some simulate)
    then show ?thesis using rest
      by (cases "decodeTreasuryStreamEvent sha event ty") (simp_all add: handleTreasuryStreamEvent_def keeps_def)
  qed (simp add: handleTreasuryStreamEvent_def keeps_def)
qed

subsection \<open>Dispatch\<close>

lemma keeps_switch:
  "(\<And>s. s \<in> set cases \<Longrightarrow> keeps T (snd s event)) \<Longrightarrow> keeps T (switch cases event)"
  by (force simp: keeps_def switch_def split: js_value.splits option.splits dest: map_of_SomeD)

lemma keeps_branch: "keeps T f \<Longrightarrow> keeps U g \<Longrightarrow> keeps (if b then T else U) (if b then f else g)"
  by simp

lemma keeps_doing: "confined T (h event) \<Longrightarrow> keeps T (doing h event)"
  using keeps_handler [of T h event] by (simp add: doing_def keeps_def)

text \<open>The tables of the contract an event comes from. The last branch is the one of the source, which takes every
  event of no other contract for one of the governor: its \<^verbatim>\<open>else\<close> does not compare the address with the governor's. The server
  only returns events of the contracts it was asked for.\<close>

definition tables_of :: "IndexerConfig \<Rightarrow> RpcEvent \<Rightarrow> string set" where
  "tables_of config event =
     (if is_from event (cfg_convictionVoting config) then
        {''conviction_proposals'', ''conviction_stakes'', ''conviction_snapshots''}
      else if is_from event (cfg_treasury config) then insert ''treasury_transfers'' stream_tables
      else if is_from event (cfg_wrapper config) then {''wrapper_deposits'', ''wrapper_withdrawals'', ''delegates''}
      else if is_from event (cfg_liquidity config) then {''liquidity_events'', ''swap_events'', ''pool_fee_updates''}
      else if is_from event (cfg_coSponsorship config) then {''drafts'', ''draft_co_sponsors''}
      else if is_from event (cfg_proposalBonds config) then {''proposal_bonds''}
      else if is_from event (cfg_tokenVotes config) then
        {''delegates'', ''delegation_entries'', ''split_delegations'', ''delegated_by_sig_events'',
         ''relayer_whitelist_history''}
      else if is_from event (cfg_timelock config) then
        {''timelock_operations'', ''timelock_batch_operations'', ''timelock_dependency_graphs'',
         ''timelock_partial_batch_state''}
      else if is_from event (cfg_signalAnchor config) then {''signal_anchors''}
      else if is_from event (cfg_treasuryStrategies config) then
        {''treasury_strategies'', ''strategy_allocations'', ''strategy_withdrawals''}
      else if is_from event (cfg_optimisticGovernor config) then {''optimistic_proposals'', ''optimistic_objections''}
      else if is_from event (cfg_voteEscrow config) then {''vote_escrow_locks''}
      else {''proposals'', ''votes'', ''delegates'', ''config_updates'', ''governor_upgrades'', ''proposer_reputation'',
         ''reputation_score_history'', ''effective_threshold_history''})"

lemma confined_mono: "confined T r \<Longrightarrow> T \<subseteq> U \<Longrightarrow> confined U r"
  by (auto simp: confined_def list_all_iff split: sum.splits)

lemmas contract_confined =
  governance_confined votes_token_confined wrapper_confined drafts_confined strategies_confined other_contracts_confined
  timelock_operations_confined timelock_partial_confined conviction_confined optimistic_confined

lemmas contract_keeps = keeps_doing contract_confined [THEN confined_mono]
  keeps_mono [OF keeps_stream] keeps_mono [OF keeps_splits(1)] keeps_mono [OF keeps_splits(2)]

lemma keeps_cases:
  "s \<in> set (governor_cases env) \<Longrightarrow>
     keeps {''proposals'', ''votes'', ''delegates'', ''config_updates'', ''governor_upgrades'', ''proposer_reputation'',
       ''reputation_score_history'', ''effective_threshold_history''} (snd s event)"
  "s \<in> set (treasury_cases env config) \<Longrightarrow> keeps (insert ''treasury_transfers'' stream_tables) (snd s event)"
  "s \<in> set wrapper_cases \<Longrightarrow> keeps {''wrapper_deposits'', ''wrapper_withdrawals'', ''delegates''} (snd s event)"
  "s \<in> set liquidity_cases \<Longrightarrow> keeps {''liquidity_events'', ''swap_events'', ''pool_fee_updates''} (snd s event)"
  "s \<in> set coSponsorship_cases \<Longrightarrow> keeps {''drafts'', ''draft_co_sponsors''} (snd s event)"
  "s \<in> set proposalBonds_cases \<Longrightarrow> keeps {''proposal_bonds''} (snd s event)"
  "s \<in> set tokenVotes_cases \<Longrightarrow>
     keeps {''delegates'', ''delegation_entries'', ''split_delegations'', ''delegated_by_sig_events'',
       ''relayer_whitelist_history''} (snd s event)"
  "s \<in> set timelock_cases \<Longrightarrow>
     keeps {''timelock_operations'', ''timelock_batch_operations'', ''timelock_dependency_graphs'',
       ''timelock_partial_batch_state''} (snd s event)"
  "s \<in> set treasuryStrategies_cases \<Longrightarrow>
     keeps {''treasury_strategies'', ''strategy_allocations'', ''strategy_withdrawals''} (snd s event)"
  unfolding governor_cases_def treasury_cases_def wrapper_cases_def liquidity_cases_def coSponsorship_cases_def
    proposalBonds_cases_def treasuryStrategies_cases_def tokenVotes_cases_def timelock_cases_def
  by (auto intro!: contract_keeps)

lemma dispatch_keeps: "keeps (tables_of config event) (dispatch_event env config event)"
  unfolding tables_of_def dispatch_event_def
  by (intro keeps_branch keeps_switch keeps_doing conviction_confined optimistic_confined other_contracts_confined(1))
    (auto intro: keeps_cases contract_keeps)

lemma log_keeps: "keeps {''event_log''} (logToEventLog env event)"
  unfolding logToEventLog_def Let_def
  using keeps_query [of "InsertInto ''event_log''
            [(''event_id'', Param 1), (''event_type'', Param 2), (''ledger'', Param 3), (''transaction_hash'', Param 4),
             (''contract_address'', Param 5), (''payload'', Param 6)] (DoNothing (Some [''event_id'']))" "{''event_log''}"]
  by (simp add: keeps_def leaves_keys_def sets_of_def)

lemma process_event_keeps: "keeps (insert ''event_log'' (tables_of config event)) (process_event env config event)"
  unfolding process_event_def
  by (rule keeps_then) (auto intro: keeps_mono [OF log_keeps] keeps_mono [OF dispatch_keeps])

subsection \<open>Batches and polls\<close>

text \<open>What holds of every event of a batch, in order, as far as the batch gets.\<close>

lemma process_loop_invariant:
  assumes "process_loop env config decode raws l w = (r, w')" "P w"
    and "\<And>event w r w'. Some event \<in> decode ` set raws \<Longrightarrow> process_event env config event w = (r, w') \<Longrightarrow> P w \<Longrightarrow> P w'"
  shows "P w'"
  using assms
proof (induction raws arbitrary: l w)
  case (Cons raw rest)
  show ?case
  proof (cases "decode raw")
    case (Some event)
    obtain x w1 where e: "process_event env config event w = (x, w1)" by fastforce
    with Cons.prems(2,3) Some have w1: "P w1" by (metis image_insert insertI1 list.set(2))
    show ?thesis
    proof (cases x)
      case (Inr u)
      then have "process_loop env config decode rest (if rpc_ledger event > l then rpc_ledger event else l) w1 = (r, w')"
        using Cons.prems(1) Some e by simp
      moreover have "P w2'" if "Some e \<in> decode ` set rest" "process_event env config e w2 = (q, w2')" "P w2" for e w2 q w2'
        using Cons.prems(3) [OF _ that(2,3)] that(1) by simp
      ultimately show ?thesis using Cons.IH [OF _ w1] by blast
    qed (use Cons.prems(1) Some e w1 in simp)
  qed (use Cons.prems in simp)
qed simp

lemma keeps_snapshots:
  "keeps {''governance_snapshots''} (maybeTakeGovernanceSnapshot ledger)"
  "keeps {''concentration_snapshots''} (takeConcentrationSnapshot ledger)"
proof -
  have act: "keeps T (run_actions [Query st ps, InvalidatePattern p, message ty fs])"
    if "leaves_keys indexer_schema st" "stmt_table st \<in> T" for T st ps p ty fs
    using that by (intro keeps_run_actions) (simp add: action_ok_def message_def)
  show "keeps {''governance_snapshots''} (maybeTakeGovernanceSnapshot ledger)"
    using act [where T = "{''governance_snapshots''}"]
    by (simp add: maybeTakeGovernanceSnapshot_def keeps_def Let_def leaves_keys_def sets_of_def)
  show "keeps {''concentration_snapshots''} (takeConcentrationSnapshot ledger)"
    using act [where T = "{''concentration_snapshots''}"]
    by (simp add: takeConcentrationSnapshot_def keeps_def Let_def leaves_keys_def sets_of_def split: option.split)
qed

lemma keeps_cursor: "keeps {''indexer_state''} (updateLastIndexedLedger ledger)"
  unfolding updateLastIndexedLedger_def by (rule keeps_query) (simp_all add: leaves_keys_def sets_of_def)

text \<open>What a poll does, step by step.\<close>

lemma poll_cases:
  assumes "poll_once env decode getEvents config (l, w) = (e, l', w')"
  obtains (failed) x where "processEvents env decode getEvents config (l + 1) w = (Inl x, w')" "e = Some x" "l' = l"
  | (idle) n where "processEvents env decode getEvents config (l + 1) w = (Inr n, w')" "n \<le> l" "e = None" "l' = l"
  | (stuck) n w1 x where "processEvents env decode getEvents config (l + 1) w = (Inr n, w1)" "n > l"
      "updateLastIndexedLedger n w1 = (Inl x, w')" "e = Some x" "l' = l"
  | (moved) n w1 w2 w3 r where "processEvents env decode getEvents config (l + 1) w = (Inr n, w1)" "n > l"
      "updateLastIndexedLedger n w1 = (Inr (), w2)" "l' = n"
      "maybeTakeGovernanceSnapshot n w2 = (r, w3)" "w' = w3 \<or> (\<exists>q. takeConcentrationSnapshot n w3 = (q, w'))"
proof -
  obtain x w1 where batch: "processEvents env decode getEvents config (l + 1) w = (x, w1)" by fastforce
  show thesis
  proof (cases x)
    case (Inl y)
    then show thesis using assms batch by (intro failed [of y]) (auto simp: poll_once_def)
  next
    case (Inr n)
    show thesis
    proof (cases "n > l")
      case True
      obtain u w2 where u: "updateLastIndexedLedger n w1 = (u, w2)" by fastforce
      obtain g w3 where g: "maybeTakeGovernanceSnapshot n w2 = (g, w3)" by fastforce
      obtain c w4 where c: "takeConcentrationSnapshot n w3 = (c, w4)" by fastforce
      note s = assms [unfolded poll_once_def prod.case batch Inr sum.case if_P [OF True] u g c]
      show thesis
      proof (cases u)
        case (Inl y)
        then show thesis using s batch Inr True u by (intro stuck [of n w1 y]) simp_all
      next
        case [simp]: (Inr z)
        show thesis
        proof (rule moved [of n w1 w2 g w3])
          show "l' = n" "w' = w3 \<or> (\<exists>q. takeConcentrationSnapshot n w3 = (q, w'))"
            using s c by (auto split: sum.splits)
        qed (use batch \<open>x = Inr n\<close> True u g in simp_all)
      qed
    next
      case False
      then show thesis using assms batch Inr by (intro idle [of n]) (auto simp: poll_once_def)
    qed
  qed
qed

lemma poll_invariant:
  assumes "poll_once env decode getEvents config (l, w) = (e, l', w')" "P w"
    and "\<And>event w r w'. process_event env config event w = (r, w') \<Longrightarrow> P w \<Longrightarrow> P w'"
    and "\<And>ledger w r w'. updateLastIndexedLedger ledger w = (r, w') \<Longrightarrow> P w \<Longrightarrow> P w'"
    and "\<And>ledger w r w'. maybeTakeGovernanceSnapshot ledger w = (r, w') \<Longrightarrow> P w \<Longrightarrow> P w'"
    and "\<And>ledger w r w'. takeConcentrationSnapshot ledger w = (r, w') \<Longrightarrow> P w \<Longrightarrow> P w'"
  shows "P w'"
proof -
  have batch: "P w2" if "processEvents env decode getEvents config (l + 1) w = (r, w2)" for r w2
    using that assms(2) process_loop_invariant [where P = P, OF _ _ assms(3)]
    by (fastforce simp: processEvents_def split: sum.splits)
  from assms(1) show ?thesis
    by (rule poll_cases) (metis batch assms(4-6))+
qed

subsection \<open>A configuration and an event\<close>

definition ix_demo_env :: Environment where
  "ix_demo_env = \<lparr>en_sha256 = \<lambda>s. s, en_parseDate = \<lambda>s. None\<rparr>"

definition ix_demo_config :: IndexerConfig where
  "ix_demo_config =
     \<lparr>cfg_governor = ''CGOV'', cfg_wrapper = [], cfg_treasury = ''CTRE'', cfg_liquidity = [], cfg_coSponsorship = [],
      cfg_proposalBonds = ''CBND'', cfg_tokenVotes = ''CVOT'', cfg_timelock = ''CTIM'', cfg_convictionVoting = ''CCNV'',
      cfg_signalAnchor = [], cfg_treasuryStrategies = [], cfg_optimisticGovernor = [], cfg_voteEscrow = [],
      cfg_treasuryStateReader = None\<rparr>"

definition ix_demo_world :: Indexer where
  "ix_demo_world =
     \<lparr>ix_db = (\<lambda>t. if t = ''indexer_state'' then [[(''id'', SqlInt 1), (''last_ledger'', SqlInt 0)]] else []),
      ix_cache = \<lparr>ca_entries = [], ca_hits = 0, ca_misses = 0\<rparr>, ix_sent = []\<rparr>"

definition ix_demo_event :: RpcEvent where
  "ix_demo_event =
     \<lparr>rpc_ledger = 7, rpc_contractId = Some ''CGOV'', rpc_txHash = Some ''ab'', rpc_id = Some ''7-1'',
      rpc_ledgerClosedAt = JUndefined, rpc_topics = [JString ''Paused'', JString ''GADM''],
      rpc_value = JObject [(''pauser'', JString ''GADM'')]\<rparr>"

text \<open>Keys stay unique: whatever a server answers, no poll leaves two rows of a table with the same primary or unique key,
  whether the batch is processed to its end or fails in the middle.\<close>

theorem polls_keep_keys_unique:
  assumes "poll_once env decode getEvents config (l, w) = (e, l', w')" "keys_unique indexer_schema (ix_db w)"
  shows "keys_unique indexer_schema (ix_db w')"
  using assms
  by (rule poll_invariant [where P = "\<lambda>w. keys_unique indexer_schema (ix_db w)"])
    (blast intro: keeps_keys process_event_keeps keeps_snapshots keeps_cursor)+

theorem polls_keep_keys_unique_witness:
  "keys_unique indexer_schema (ix_db (snd (snd (poll_once ix_demo_env Some (\<lambda>_ _ _. Inr [ix_demo_event, ix_demo_event])
     ix_demo_config (0, ix_demo_world)))))"
proof -
  obtain e l' w' where p: "poll_once ix_demo_env Some (\<lambda>_ _ _. Inr [ix_demo_event, ix_demo_event]) ix_demo_config
      (0, ix_demo_world) = (e, l', w')" by (metis prod_cases3)
  have "keys_unique indexer_schema (ix_db ix_demo_world)" by (auto simp: keys_unique_def ix_demo_world_def unique_rows_def)
  from polls_keep_keys_unique [OF p this] p show ?thesis by simp
qed

text \<open>C24: Isolation of the contracts: an event writes the log and the tables of the contract that published it, and leaves
  every other table as it is, whatever its topics and value are and whether its handler succeeds or throws.\<close>

theorem event_writes_own_tables:
  assumes "process_event env config event w = (r, w')" "t \<noteq> ''event_log''" "t \<notin> tables_of config event"
  shows "ix_db w' t = ix_db w t"
  using keeps_frame [OF process_event_keeps assms(1)] assms(2,3) by simp

theorem event_writes_own_tables_witness:
  "ix_db (snd (process_event ix_demo_env ix_demo_config ix_demo_event ix_demo_world)) ''proposal_bonds'' = [] \<and>
   ''proposal_bonds'' \<notin> tables_of ix_demo_config ix_demo_event"
proof -
  have t: "''proposal_bonds'' \<notin> tables_of ix_demo_config ix_demo_event"
    by (simp add: tables_of_def is_from_def ix_demo_event_def ix_demo_config_def)
  obtain r w' where p: "process_event ix_demo_env ix_demo_config ix_demo_event ix_demo_world = (r, w')" by fastforce
  from event_writes_own_tables [OF p _ t] p t show ?thesis by (simp add: ix_demo_world_def)
qed

end
