(* ===== verification/SqlFacts.thy ===== *)
theory SqlFacts
  imports SqlStore
begin

section \<open>Facts about statements\<close>

text \<open>
  How the values a handler passes arrive in a column, and what the common forms of statement do to the rows of their table:
  an \<^verbatim>\<open>INSERT\<close> that may be skipped appends a row or changes nothing; an \<^verbatim>\<open>UPDATE\<close> by a key changes the rows with that key.
\<close>

subsection \<open>Numerals and texts as parameters\<close>

lemma trim_dec_int: "trim (dec_int i) = dec_int i"
proof (rule trim_id)
  have digits: "\<not> is_space c" if "c \<in> set (dec_nat n)" for c n
    using digit_not_special(1) [OF dec_nat_digits [OF that]] .
  show "dec_int i \<noteq> []" by (simp add: dec_int_def dec_nat_nonempty)
  show "\<not> is_space (hd (dec_int i))" "\<not> is_space (last (dec_int i))"
    using digits [OF hd_in_set [OF dec_nat_nonempty]] digits [OF last_in_set [OF dec_nat_nonempty]]
    by (simp_all add: dec_int_def is_space_def dec_nat_nonempty)
qed

lemma pg_integer_dec_int [simp]: "pg_integer (dec_int i) = Some i"
proof -
  have "prefixed_numeral (dec_int i) = None"
    by (rule prefixed_numeral_digits)
      (auto simp: dec_int_def dec_nat_digits split: if_splits dest: list.set_sel(2) [OF dec_nat_nonempty])
  moreover have "dec_int i \<noteq> []" by (simp add: dec_int_def dec_nat_nonempty)
  ultimately show ?thesis
    using string_to_bigint_dec_int [of i] by (simp add: string_to_bigint_def pg_integer_def trim_dec_int Let_def)
qed

definition clean :: "string \<Rightarrow> bool" where
  "clean s \<longleftrightarrow> CHR 0x00 \<notin> set s"

lemma coerce_simps [simp]:
  "coerce ty None = Inr SqlNull"
  "clean s \<Longrightarrow> coerce TEXT (Some s) = Inr (SqlText s)"
  "clean s \<Longrightarrow> char_count s \<le> n \<Longrightarrow> coerce (VARCHAR n) (Some s) = Inr (SqlText s)"
  "coerce SMALLINT (Some (dec_int i)) = fit SMALLINT i"
  "coerce INTEGER (Some (dec_int i)) = fit INTEGER i"
  "coerce BIGINT (Some (dec_int i)) = fit BIGINT i"
  "coerce (NUMERIC p) (Some (dec_int i)) = fit (NUMERIC p) i"
  "coerce (NUMERIC p) (Some (dec_int i)) = fit (NUMERIC p) i"
  "coerce TIMESTAMPTZ (Some s) = Inr (SqlText s)"
  "\<not> nul_escape s \<Longrightarrow> coerce JSONB (Some s) = Inr (SqlText s)"
  by (simp_all add: coerce_def clean_def)

lemma coerce_TEXT_Inr: "coerce TEXT p = Inr v \<longleftrightarrow>
    (case p of None \<Rightarrow> v = SqlNull | Some s \<Rightarrow> clean s \<and> v = SqlText s)"
  by (auto simp: coerce_def clean_def split: option.splits)

lemma fit_simps [simp]:
  "fit ty i = Inr v \<longleftrightarrow> in_range ty i \<and> v = SqlInt i"
  "fit ty i = Inl e \<longleftrightarrow> \<not> in_range ty i \<and> e = OutOfRange"
  by (auto simp: fit_def)

lemma bound_type_simps [simp]:
  "bound_type SMALLINT = SMALLINT" "bound_type INTEGER = INTEGER" "bound_type BIGINT = BIGINT"
  "bound_type (NUMERIC p) = NUMERIC 0" "bound_type TEXT = TEXT" "bound_type (VARCHAR n) = TEXT"
  "bound_type BOOLEAN = BOOLEAN" "bound_type JSONB = JSONB" "bound_type TIMESTAMPTZ = TIMESTAMPTZ"
  by (simp_all add: bound_type_def)

lemma parameter_simps [simp]:
  "parameter (p # ps) (Suc 0) = p"
  "parameter (p # ps) (numeral k) = (if numeral k = (1 :: nat) then p else parameter ps (pred_numeral k))"
  by (auto simp: parameter_def nth_Cons' numeral_eq_Suc)

lemma cell_simps [simp]:
  "cell ((c, v) # r) c' = (if c = c' then v else cell r c')" "cell [] c' = SqlNull"
  by (auto simp: cell_def)

subsection \<open>The row of an insert\<close>

lemma new_row_cell:
  assumes "new_row ps vs ks = Inr r" "k \<in> set ks" "distinct (map col_name ks)"
  shows "(case map_of vs (col_name k) of
      None \<Rightarrow> cell r (col_name k) = col_default k
    | Some e \<Rightarrow> eval (col_type k) ps [] [] e = Inr (cell r (col_name k)))"
  using assms
proof (induction ks arbitrary: r)
  case (Cons k' ks)
  then obtain v r' where v: "(case map_of vs (col_name k') of None \<Rightarrow> Inr (col_default k')
        | Some e \<Rightarrow> eval (col_type k') ps [] [] e) = Inr v"
    and r': "new_row ps vs ks = Inr r'" and r: "r = (col_name k', v) # r'"
    by (auto split: sum.splits)
  show ?case
  proof (cases "k = k'")
    case True
    then show ?thesis using v r by (auto split: option.splits)
  next
    case False
    then have "k \<in> set ks" "col_name k' \<noteq> col_name k" using Cons.prems by (auto simp: rev_image_eqI)
    then show ?thesis using Cons.IH [OF r'] Cons.prems(3) r by (simp cong: option.case_cong)
  qed
qed simp

text \<open>A value that cannot be converted, or a null where none may stand, fails the statement.\<close>

lemma bad_insert:
  assumes "map_of sch t = Some ts" "k \<in> set (ts_columns ts)" "distinct (map col_name (ts_columns ts))"
    and "map_of vs (col_name k) = Some e"
    and "(\<exists>x. eval (col_type k) ps [] [] e = Inl x) \<or> col_notNull k \<and> eval (col_type k) ps [] [] e = Inr SqlNull"
  shows "\<exists>x. exec sch db ps (InsertInto t vs oc) = Inl x"
proof (cases "new_row ps vs (ts_columns ts)")
  case (Inr r)
  from new_row_cell [OF Inr assms(2,3)] assms(4,5) have "col_notNull k" "cell r (col_name k) = SqlNull" by auto
  then have "\<not> nulls_ok ts r" using assms(2) by (auto simp: nulls_ok_def list_all_iff)
  then show ?thesis using Inr assms(1) by (simp add: exec_def)
qed (use assms(1) in \<open>simp add: exec_def\<close>)

text \<open>An \<^verbatim>\<open>INSERT ... ON CONFLICT (c) DO NOTHING\<close>.\<close>

lemma insert_skip:
  assumes "exec_on ts db ps (InsertInto t vs (DoNothing (Some [c]))) = Inr (n, db')"
  obtains (skipped) r where "new_row ps vs (ts_columns ts) = Inr r" "n = 0" "db' = db"
      "cell r c \<noteq> SqlNull" "cell r c \<in> set (map (\<lambda>q. cell q c) (db t))"
  | (appended) r where "new_row ps vs (ts_columns ts) = Inr r" "n = 1" "db' = db(t := db t @ [r])" "nulls_ok ts r"
      "cell r c = SqlNull \<or> cell r c \<notin> set (map (\<lambda>q. cell q c) (db t))"
  using assms
  by (auto split: sum.splits if_splits dest!: insert_row_Inr simp: same_key_def list_ex_iff image_iff)

subsection \<open>The rows of an update\<close>

lemma update_rows_ok:
  assumes "\<And>r. r \<in> set rs \<Longrightarrow> cond r = Inr (P r)" "\<And>r. r \<in> set rs \<Longrightarrow> P r \<Longrightarrow> upd r = Inr (f r)"
  shows "update_rows cond upd rs = Inr (length (filter P rs), map (\<lambda>r. if P r then f r else r) rs)"
  using assms by (induction rs) auto

lemma update_rows_done:
  assumes "update_rows cond upd rs = Inr (n, rs')" "\<And>r. r \<in> set rs \<Longrightarrow> cond r = Inr (P r)"
    and "\<And>r q. r \<in> set rs \<Longrightarrow> P r \<Longrightarrow> upd r = Inr q \<Longrightarrow> q = f r"
  shows "rs' = map (\<lambda>r. if P r then f r else r) rs"
  using assms
proof (induction rs arbitrary: n rs')
  case (Cons r rs)
  from Cons.prems(2) have "cond r = Inr (P r)" by simp
  with Cons.prems(1) obtain q m qs where q: "(if P r then upd r else Inr r) = Inr q"
    and qs: "update_rows cond upd rs = Inr (m, qs)" and rs': "rs' = q # qs"
    by (auto split: sum.splits prod.splits if_splits)
  have "qs = map (\<lambda>r. if P r then f r else r) rs" by (rule Cons.IH [OF qs]) (use Cons.prems in auto)
  moreover have "q = (if P r then f r else r)" using q Cons.prems(3) [of r] by (auto split: if_splits)
  ultimately show ?case using rs' by simp
qed simp

lemma exec_update_rows:
  assumes "exec sch db ps (UpdateSet t sets conds) = Inr (n, db')" "map_of sch t = Some ts"
    and "\<And>r. r \<in> set (db t) \<Longrightarrow> matches ts ps conds r = Inr (P r)"
    and "\<And>r q. r \<in> set (db t) \<Longrightarrow> P r \<Longrightarrow> assign ts ps r [] sets = Inr q \<Longrightarrow> q = f r"
  shows "db' = db(t := map (\<lambda>r. if P r then f r else r) (db t))"
proof -
  obtain rs where upd: "update_rows (matches ts ps conds) (\<lambda>r. case assign ts ps r [] sets of Inl e \<Rightarrow> Inl e
        | Inr r' \<Rightarrow> checked ts (set_refs ts sets) db r') (db t) = Inr (n, rs)" and db': "db' = db(t := rs)"
    using assms(1,2) by (auto simp: exec_def with_rows_Inr split: option.splits)
  have "rs = map (\<lambda>r. if P r then f r else r) (db t)"
    using upd by (rule update_rows_done) (use assms(3,4) in \<open>auto simp: checked_Inr split: sum.splits\<close>)
  then show ?thesis using db' by simp
qed

subsection \<open>Statements that succeed\<close>

lemma exec_insert_skip:
  assumes "map_of sch t = Some ts" "new_row ps vs (ts_columns ts) = Inr r" "nulls_ok ts r"
    and "ts_keys ts = [[c]]" "ts_refs ts = []" "cell r c \<noteq> SqlNull"
  shows "exec sch db ps (InsertInto t vs (DoNothing (Some [c]))) =
    (if cell r c \<in> (\<lambda>q. cell q c) ` set (db t) then Inr (0, db) else Inr (1, db(t := db t @ [r])))"
  using assms by (auto simp: exec_def insert_row_def same_key_def refs_ok_def list_ex_iff image_iff)

lemma exec_update_ok:
  assumes "map_of sch t = Some ts" "bind_all ts ps (sets @ conds) = None" "set_refs ts sets = []"
    and "\<And>r. r \<in> set (db t) \<Longrightarrow> matches ts ps conds r = Inr (P r)"
    and "\<And>r. r \<in> set (db t) \<Longrightarrow> P r \<Longrightarrow> assign ts ps r [] sets = Inr (f r)"
    and "\<And>r. r \<in> set (db t) \<Longrightarrow> P r \<Longrightarrow> nulls_ok ts (f r)"
  shows "exec sch db ps (UpdateSet t sets conds) =
    Inr (length (filter P (db t)), db(t := map (\<lambda>r. if P r then f r else r) (db t)))"
proof -
  have "update_rows (matches ts ps conds) (\<lambda>r. case assign ts ps r [] sets of Inl e \<Rightarrow> Inl e
        | Inr r' \<Rightarrow> checked ts (set_refs ts sets) db r') (db t) =
      Inr (length (filter P (db t)), map (\<lambda>r. if P r then f r else r) (db t))"
    using assms(3-6) by (intro update_rows_ok) (simp_all add: checked_def refs_ok_def)
  then show ?thesis using assms(1,2) by (simp add: exec_def with_rows_def)
qed

text \<open>Rows that stand for the entries of a map, under an \<^verbatim>\<open>UPDATE\<close> of one key.\<close>

lemma rows_update:
  assumes "list_all2 R rs m" "distinct (map fst m)" "map_of m k = Some v"
    and "\<And>r k' u. R r (k', u) \<Longrightarrow> K r \<longleftrightarrow> k' = k" "\<And>r. R r (k, v) \<Longrightarrow> R (f r) (k, v')"
  shows "list_all2 R (map (\<lambda>r. if K r then f r else r) rs) (AList.update k v' m)"
  using assms(1-3)
proof (induction rule: list_all2_induct)
  case (Cons r rs p m)
  obtain k' u where p: "p = (k', u)" by fastforce
  show ?case
  proof (cases "k' = k")
    case True
    have "map (\<lambda>r. if K r then f r else r) rs = rs"
    proof (rule map_idI)
      fix q
      assume "q \<in> set rs"
      with Cons.hyps(2) obtain k'' u' where "(k'', u') \<in> set m" "R q (k'', u')"
        by (auto simp: list_all2_conv_all_nth in_set_conv_nth) (metis nth_mem prod.exhaust_sel)
      moreover have "k'' \<noteq> k" using Cons.prems(1) calculation(1) True p by force
      ultimately show "(if K q then f q else q) = q" using assms(4) by auto
    qed
    then show ?thesis using Cons p True assms(4,5) by auto
  next
    case False
    then show ?thesis using Cons p assms(4) by auto
  qed
qed simp

subsection \<open>Upserts\<close>

lemma assign_excluded:
  assumes "assign ts ps old new sets = Inr r" "(c, Excluded c) \<in> set sets" "distinct (map fst sets)"
  shows "cell r c = cell new c"
  using assms
proof (induction sets arbitrary: r)
  case (Cons s sets)
  obtain c' e where s: "s = (c', e)" by fastforce
  then obtain v r' where "eval (column_type ts c') ps old new e = Inr v" "assign ts ps old new sets = Inr r'"
    "r = AList.update c' v r'"
    using Cons.prems(1) by (auto split: sum.splits)
  then show ?case using Cons.IH [of r'] Cons.prems(2,3) s by (auto simp: cell_update image_iff)
qed simp

lemma update_rows_cases:
  assumes "update_rows (\<lambda>r. Inr (P r)) upd rs = Inr (n, rs')"
  shows "r \<in> set rs \<Longrightarrow> P r \<Longrightarrow> \<exists>r'. upd r = Inr r' \<and> r' \<in> set rs'"
    and "r \<in> set rs \<Longrightarrow> \<not> P r \<Longrightarrow> r \<in> set rs'"
  using assms by (induction rs arbitrary: n rs') (auto split: sum.splits prod.splits if_splits)

text \<open>After an \<^verbatim>\<open>INSERT ... ON CONFLICT (cs) DO UPDATE\<close> there is a row with the key of the row given, and with the values of
  the columns that are set to \<^verbatim>\<open>EXCLUDED\<close>; the rows with another key are still there.\<close>

lemma upserted:
  assumes "exec sch db ps (InsertInto t vs (DoUpdate cs sets)) = Inr (n, db')" "map_of sch t = Some ts"
    and "distinct (map fst sets)" "set cs \<inter> set (map fst sets) = {}"
  obtains r q where "new_row ps vs (ts_columns ts) = Inr r" "q \<in> set (db' t)" "same_cells cs r q"
    "\<And>c. (c, Excluded c) \<in> set sets \<Longrightarrow> cell q c = cell r c"
    "\<And>p. p \<in> set (db t) \<Longrightarrow> \<not> same_key cs r p \<Longrightarrow> p \<in> set (db' t)"
proof -
  obtain r where r: "new_row ps vs (ts_columns ts) = Inr r" "nulls_ok ts r" using assms(1,2)
    by (auto simp: exec_def split: sum.splits if_splits)
  show thesis
  proof (cases "list_ex (same_key cs r) (db t)")
    case False
    then have "insert_row ts db t r = Inr (n, db')" using assms(1,2) r by (simp add: exec_def)
    from insert_row_Inr [OF this] show thesis by (intro that [OF r(1), of r]) (auto simp: same_cells_def)
  next
    case True
    then obtain p where p: "p \<in> set (db t)" "same_key cs r p" by (auto simp: list_ex_iff)
    define upd where "upd = (\<lambda>r'. case assign ts ps r' r sets of Inl e \<Rightarrow> Inl e
      | Inr r'' \<Rightarrow> checked ts (set_refs ts sets) db r'')"
    obtain rs where rs: "update_rows (\<lambda>r'. Inr (same_key cs r r')) upd (db t) = Inr (n, rs)" and db': "db' = db(t := rs)"
      using assms(1,2) r True by (auto simp: exec_def with_rows_Inr upd_def)
    from update_rows_cases(1) [OF rs p] obtain q where q: "upd p = Inr q" "q \<in> set rs" by blast
    then have a: "assign ts ps p r sets = Inr q" by (auto simp: upd_def checked_Inr split: sum.splits)
    have "same_cells cs r q"
      using p(2) assign_other [OF a] assms(4) by (fastforce simp: same_cells_def same_key_def list_all_iff)
    then show thesis using r(1) q(2) db' assign_excluded [OF a _ assms(3)] update_rows_cases(2) [OF rs]
      by (intro that [of r q]) auto
  qed
qed

end
