(* ===== verification/IndexerLog.thy ===== *)
theory IndexerLog
  imports IndexerRuns SqlFacts
begin

section \<open>The event log and the cursor\<close>

text \<open>
  The log of all events and the persistent cursor across polls, failures and restarts, against a server that answers with
  the events of the chain. Polls may overlap, so they are interleaved at their \<^verbatim>\<open>await\<close>s. No event is logged twice, and
  none up to the cursor is missing, but for those that were cut off a full page inside a ledger. A poll that is alone
  (\<open>poll_once\<close>) is a run of the interleaved steps.
\<close>

subsection \<open>One event\<close>

definition event_key :: "Environment \<Rightarrow> RpcEvent \<Rightarrow> sql_value" where
  "event_key env event =
     SqlText (indexerEventId (en_sha256 env) event (type_text (event_type event)) (rpc_contractId event)
       (event_payload event))"

definition logged :: "Indexer \<Rightarrow> sql_value list" where
  "logged w = map (\<lambda>r. cell r ''event_id'') (ix_db w ''event_log'')"

definition remember :: "'a \<Rightarrow> 'a list \<Rightarrow> 'a list" where
  "remember x xs = (if x \<in> set xs then xs else xs @ [x])"

lemma remember_simps [simp]:
  "set (remember x xs) = insert x (set xs)" "distinct xs \<Longrightarrow> distinct (remember x xs)"
  "x \<in> set xs \<Longrightarrow> remember x xs = xs"
  by (auto simp: remember_def)

lemma log_effect:
  assumes "logToEventLog env event w = (Inr u, w')"
  shows "logged w' = remember (event_key env event) (logged w)"
proof -
  let ?id = "indexerEventId (en_sha256 env) event (type_text (event_type event)) (rpc_contractId event) (event_payload event)"
  obtain n db ps where q: "exec_on event_log_table (ix_db w) (Some ?id # ps) (InsertInto ''event_log''
            [(''event_id'', Param 1), (''event_type'', Param 2), (''ledger'', Param 3), (''transaction_hash'', Param 4),
             (''contract_address'', Param 5), (''payload'', Param 6)] (DoNothing (Some [''event_id'']))) = Inr (n, db)"
    and w': "w' = w\<lparr>ix_db := db\<rparr>"
    using assms that by (auto simp: logToEventLog_def Let_def query_def exec_def simp del: exec_on.simps split: sum.splits)
  have id: "cell r ''event_id'' = SqlText ?id"
    if "new_row (Some ?id # ps) [(''event_id'', Param 1), (''event_type'', Param 2), (''ledger'', Param 3),
      (''transaction_hash'', Param 4), (''contract_address'', Param 5), (''payload'', Param 6)]
      (ts_columns event_log_table) = Inr r" for r
    using that new_row_cell [OF that, of "col ''event_id'' TEXT True SqlNull"]
    by (auto simp: event_log_table_def col_def coerce_TEXT_Inr split: sum.splits)
  from q show ?thesis
    by (cases rule: insert_skip)
      (use id w' in \<open>fastforce simp: logged_def event_key_def remember_def\<close>)+
qed

text \<open>An event that fits the columns of the log.\<close>

definition fits :: "nat \<Rightarrow> string \<Rightarrow> bool" where
  "fits n s \<longleftrightarrow> clean s \<and> char_count s \<le> n"

definition loggable :: "Environment \<Rightarrow> RpcEvent \<Rightarrow> bool" where
  "loggable env event \<longleftrightarrow>
     (case js_param (event_type event) of None \<Rightarrow> False | Some s \<Rightarrow> fits 64 s) \<and>
     in_range INTEGER (rpc_ledger event) \<and>
     (case rpc_txHash event of None \<Rightarrow> True | Some h \<Rightarrow> fits 64 h) \<and>
     fits 56 (or_empty (rpc_contractId event)) \<and> \<not> nul_escape (event_payload event) \<and>
     clean (indexerEventId (en_sha256 env) event (type_text (event_type event)) (rpc_contractId event)
       (event_payload event))"

lemma log_succeeds:
  assumes "loggable env event"
  shows "\<exists>w'. logToEventLog env event w = (Inr (), w')"
proof -
  let ?id = "indexerEventId (en_sha256 env) event (type_text (event_type event)) (rpc_contractId event) (event_payload event)"
  let ?ps = "[Some ?id, js_param (event_type event), ledger_param event, rpc_txHash event,
    Some (or_empty (rpc_contractId event)), Some (event_payload event)]"
  let ?vs = "[(''event_id'', Param (Suc 0)), (''event_type'', Param 2), (''ledger'', Param 3),
    (''transaction_hash'', Param 4), (''contract_address'', Param 5), (''payload'', Param 6)]"
  obtain ty where ty: "js_param (event_type event) = Some ty" "fits 64 ty"
    using assms by (auto simp: loggable_def split: option.splits)
  have "\<exists>r. new_row ?ps ?vs (ts_columns event_log_table) = Inr r \<and> nulls_ok event_log_table r \<and>
      cell r ''event_id'' \<noteq> SqlNull"
    using assms ty
    by (cases "rpc_txHash event")
      (auto simp: event_log_table_def col_def loggable_def fits_def ledger_param_def fit_def nulls_ok_def)
  then obtain r where r: "new_row ?ps ?vs (ts_columns event_log_table) = Inr r" "nulls_ok event_log_table r"
    "cell r ''event_id'' \<noteq> SqlNull" by blast
  have "ts_refs event_log_table = []" by (simp add: event_log_table_def)
  from exec_insert_skip [OF _ r(1,2) _ this r(3), of indexer_schema "''event_log''"] show ?thesis
    by (simp add: logToEventLog_def Let_def query_def)
qed

lemma event_log_not_owned: "''event_log'' \<notin> tables_of config event"
  by (simp add: tables_of_def)

lemma process_event_log:
  assumes "process_event env config event w = (r, w')"
  shows "(\<exists>e. r = Inl e) \<and> logged w' = logged w \<or> logged w' = remember (event_key env event) (logged w)"
proof -
  obtain x w1 where l: "logToEventLog env event w = (x, w1)" by fastforce
  show ?thesis
  proof (cases x)
    case (Inl e)
    then have "w1 = w" using l by (auto simp: logToEventLog_def Let_def query_def split: sum.splits)
    then show ?thesis using assms l Inl by (auto simp: process_event_def)
  next
    case (Inr u)
    then have "dispatch_event env config event w1 = (r, w')" using assms l by (simp add: process_event_def)
    from keeps_frame [OF dispatch_keeps this event_log_not_owned] log_effect l Inr show ?thesis
      by (auto simp: logged_def)
  qed
qed

subsection \<open>A batch\<close>

lemma batch_log:
  assumes "process_loop env config Some events l w = (r, w')"
  shows "set (logged w) \<subseteq> set (logged w')" "distinct (logged w) \<Longrightarrow> distinct (logged w')"
    "r = Inr n \<Longrightarrow> logged w' = fold (\<lambda>e. remember (event_key env e)) events (logged w)"
    "r = Inr n \<Longrightarrow> n = fold (\<lambda>e. max (rpc_ledger e)) events l"
proof -
  have mono: "set (logged w) \<subseteq> set (logged w1) \<and> (distinct (logged w) \<longrightarrow> distinct (logged w1))"
    if "process_event env config event w = (x, w1)" for event w x w1
    using process_event_log [OF that] by auto
  show "set (logged w) \<subseteq> set (logged w')"
    using assms by (rule process_loop_invariant) (use mono in blast)+
  show "distinct (logged w) \<Longrightarrow> distinct (logged w')"
    using assms by (rule process_loop_invariant) (use mono in blast)+
  show "logged w' = fold (\<lambda>e. remember (event_key env e)) events (logged w)" if "r = Inr n"
    using assms unfolding that
  proof (induction events arbitrary: l w)
    case (Cons e events)
    then obtain w1 where e: "process_event env config e w = (Inr (), w1)"
      and rest: "process_loop env config Some events (if rpc_ledger e > l then rpc_ledger e else l) w1 = (Inr n, w')"
      by (auto split: prod.splits sum.splits)
    from Cons.IH [OF rest] process_event_log [OF e] show ?case by simp
  qed simp
  show "n = fold (\<lambda>e. max (rpc_ledger e)) events l" if "r = Inr n"
    using assms unfolding that
  proof (induction events arbitrary: l w)
    case (Cons e events)
    then show ?case by (auto split: prod.splits sum.splits simp: max_def)
  qed simp
qed

lemma fold_remember:
  "set (fold (\<lambda>e. remember (k e)) es xs) = set xs \<union> k ` set es"
  "(\<And>e. e \<in> set es \<Longrightarrow> k e \<in> set xs) \<Longrightarrow> fold (\<lambda>e. remember (k e)) es xs = xs"
  by (induction es arbitrary: xs) auto

lemma fold_max: "fold (\<lambda>e. max (f e)) es (l :: int) = Max (insert l (f ` set es))"
proof (induction es arbitrary: l)
  case (Cons e es)
  have "Max (insert (max (f e) l) (f ` set es)) = Max (insert l (insert (f e) (f ` set es)))"
    by (cases "f ` set es = {}") (simp_all add: max.assoc max.left_commute)
  then show ?case using Cons by simp
qed simp

text \<open>Each event is logged once: after a batch the log is the old one followed by the new events in the order of their first
  delivery, and processing the same batch again leaves the log as it is.\<close>

theorem events_logged_once:
  assumes "process_loop env config Some events l w = (Inr n, w')"
    and "process_loop env config Some events l' w' = (r, w'')"
  shows "logged w' = fold (\<lambda>e. remember (event_key env e)) events (logged w) \<and> logged w'' = logged w'"
proof
  show log: "logged w' = fold (\<lambda>e. remember (event_key env e)) events (logged w)"
    using batch_log(3) [OF assms(1)] by simp
  show "logged w'' = logged w'"
    using assms(2)
  proof (rule process_loop_invariant [where P = "\<lambda>v. logged v = logged w'"])
    fix event v r v'
    assume e: "Some event \<in> Some ` set events" and p: "process_event env config event v = (r, v')"
      and v: "logged v = logged w'"
    from e have "event_key env event \<in> set (logged v)" unfolding v log by (auto simp: fold_remember(1))
    with process_event_log [OF p] v show "logged v' = logged w'" by auto
  qed simp
qed

subsection \<open>Following a chain\<close>

text \<open>The events of the chain that a request covers, and a server that answers with the first of them or with an error.\<close>

definition wanted :: "RpcEvent list \<Rightarrow> int \<Rightarrow> string list \<Rightarrow> RpcEvent list" where
  "wanted chain start ids = filter (\<lambda>e. start \<le> rpc_ledger e \<and> rpc_contractId e \<in> Some ` set ids) chain"

definition honest :: "RpcEvent list \<Rightarrow> RpcEvent event_server \<Rightarrow> bool" where
  "honest chain getEvents \<longleftrightarrow>
     (\<forall>start ids limit page. getEvents start ids limit = Inr page \<longrightarrow> page = take limit (wanted chain start ids))"

text \<open>
  Nothing keeps polls apart (\<^verbatim>\<open>setInterval\<close> starts the next one while others still wait), so a state has the polls
  in flight, each at one of its \<^verbatim>\<open>await\<close>s: waiting for the page from \<open>start\<close>, about to log the next event, waiting for the
  handler of an event, or waiting for the cursor to be stored. \<open>fo_asked\<close> records from where pages have been served.
\<close>

datatype poll_stage =
  Asking int
| Working int "RpcEvent list"
| Handling int RpcEvent "RpcEvent list"
| Storing int
| Ended

record Following =
  fo_chain :: "RpcEvent list"
  fo_asked :: "int list"
  fo_cursor :: int
  fo_world :: Indexer
  fo_polls :: "poll_stage list"

definition move :: "nat \<Rightarrow> poll_stage \<Rightarrow> Following \<Rightarrow> Following" where
  "move i p s = s\<lparr>fo_polls := (fo_polls s)[i := p]\<rparr>"

definition at_stage :: "Following \<Rightarrow> nat \<Rightarrow> poll_stage \<Rightarrow> bool" where
  "at_stage s i p \<longleftrightarrow> i < length (fo_polls s) \<and> fo_polls s ! i = p"

text \<open>What the handlers and the snapshots leave alone.\<close>

definition elsewhere :: "Indexer \<Rightarrow> Indexer \<Rightarrow> bool" where
  "elsewhere w w' \<longleftrightarrow> (\<forall>t \<in> {''event_log'', ''indexer_state''}. ix_db w' t = ix_db w t)"

text \<open>
  The chain grows, a poll takes its next step or fails at any point, handlers and snapshots write to their tables at any
  time, or the process is restarted: the polls are gone and the cursor is read from the database. A single statement is atomic;
  everything between two \<^verbatim>\<open>await\<close>s may be interleaved with the steps of other polls.
\<close>

inductive follow_step :: "Environment \<Rightarrow> IndexerConfig \<Rightarrow> Following \<Rightarrow> Following \<Rightarrow> bool" for env config where
  grow: "\<forall>e \<in> set new. 0 < rpc_ledger e \<and> (\<forall>f \<in> set (fo_chain s). rpc_ledger f < rpc_ledger e) \<Longrightarrow>
    sorted (map rpc_ledger new) \<Longrightarrow> follow_step env config s (s\<lparr>fo_chain := fo_chain s @ new\<rparr>)"
| ask: "follow_step env config s (s\<lparr>fo_polls := fo_polls s @ [Asking (fo_cursor s + 1)]\<rparr>)"
| page: "at_stage s i (Asking start) \<Longrightarrow>
    follow_step env config s
      (move i (Working (start - 1) (take 200 (wanted (fo_chain s) start (contractIds config))))
        (s\<lparr>fo_asked := start # fo_asked s\<rparr>))"
| log: "at_stage s i (Working m (e # es)) \<Longrightarrow> logToEventLog env e (fo_world s) = (Inr (), w') \<Longrightarrow>
    follow_step env config s (move i (Handling m e es) (s\<lparr>fo_world := w'\<rparr>))"
| handled: "at_stage s i (Handling m e es) \<Longrightarrow>
    follow_step env config s (move i (Working (if rpc_ledger e > m then rpc_ledger e else m) es) s)"
| finish: "at_stage s i (Working n []) \<Longrightarrow> n > fo_cursor s \<Longrightarrow>
    updateLastIndexedLedger n (fo_world s) = (Inr (), w') \<Longrightarrow>
    follow_step env config s (move i (Storing n) (s\<lparr>fo_world := w'\<rparr>))"
| store: "at_stage s i (Storing n) \<Longrightarrow> follow_step env config s (move i Ended (s\<lparr>fo_cursor := n\<rparr>))"
| fail: "follow_step env config s (move i Ended s)"
| wrote: "elsewhere (fo_world s) w' \<Longrightarrow> follow_step env config s (s\<lparr>fo_world := w'\<rparr>)"
| restart: "follow_step env config s
    (s\<lparr>fo_polls := [], fo_cursor := getLastIndexedLedger (ix_db (fo_world s))\<rparr>)"

text \<open>The row of the cursor.\<close>

definition cursor_row :: "int \<Rightarrow> database \<Rightarrow> bool" where
  "cursor_row l db \<longleftrightarrow>
     (\<exists>r. find (\<lambda>r. cell r ''id'' = SqlInt 1) (db ''indexer_state'') = Some r \<and> cell r ''last_ledger'' = SqlInt l)"

lemma cursor_row_read: "cursor_row l db \<Longrightarrow> getLastIndexedLedger db = l"
  by (auto simp: cursor_row_def getLastIndexedLedger_def int_cell_def)

lemma find_map_if:
  "find P rs = Some r \<Longrightarrow> (\<And>r. P (f r) = P r) \<Longrightarrow> find P (map (\<lambda>r. if P r then f r else r) rs) = Some (f r)"
  by (induction rs) (auto split: if_splits)

lemma cursor_update:
  assumes "updateLastIndexedLedger n w = (Inr u, w')" "cursor_row l (ix_db w)"
  shows "cursor_row n (ix_db w')"
proof -
  let ?rs = "ix_db w ''indexer_state''"
  obtain k db where upd: "exec indexer_schema (ix_db w) [Some (dec_int n)]
      (UpdateSet ''indexer_state'' [(''last_ledger'', Param 1)] [(''id'', Lit (SqlInt 1))]) = Inr (k, db)"
    and w': "ix_db w' = db"
    using assms(1) by (auto simp: updateLastIndexedLedger_def query_def split: sum.splits)
  have db: "db = (ix_db w)(''indexer_state'' :=
      map (\<lambda>r. if cell r ''id'' = SqlInt 1 then AList.update ''last_ledger'' (SqlInt n) r else r) ?rs)"
    using upd
    by (rule exec_update_rows [where ts = indexer_state_table])
      (auto simp: indexer_state_table_def col_def column_type_def split: sum.splits)
  from assms(2) obtain r where "find (\<lambda>r. cell r ''id'' = SqlInt 1) ?rs = Some r" by (auto simp: cursor_row_def)
  from find_map_if [OF this, of "AList.update ''last_ledger'' (SqlInt n)"] show ?thesis
    unfolding cursor_row_def w' db by (simp add: cell_update)
qed

text \<open>The only events that may be missing: one that was cut off a full page inside its own ledger.\<close>

definition cut_off :: "IndexerConfig \<Rightarrow> Following \<Rightarrow> RpcEvent \<Rightarrow> bool" where
  "cut_off config s e \<longleftrightarrow>
     (\<exists>start \<in> set (fo_asked s). let es = wanted (fo_chain s) start (contractIds config) in
        e \<in> set (drop 200 es) \<and> (\<exists>f \<in> set (take 200 es). rpc_ledger f = rpc_ledger e))"

definition accounted :: "Environment \<Rightarrow> IndexerConfig \<Rightarrow> Following \<Rightarrow> RpcEvent \<Rightarrow> bool" where
  "accounted env config s e \<longleftrightarrow> event_key env e \<in> set (logged (fo_world s)) \<or> cut_off config s e"

definition reached :: "int \<Rightarrow> RpcEvent list \<Rightarrow> int" where
  "reached m es = fold (\<lambda>e. max (rpc_ledger e)) es m"

lemma reached_Cons: "reached (if rpc_ledger e > m then rpc_ledger e else m) es = reached m (e # es)"
  by (simp add: reached_def max_def not_less)

text \<open>All events of the indexed contracts up to a ledger are accounted for, but for those still in hand. The ledger is one
  of the chain, so no event is added up to it later.\<close>

definition covered :: "Environment \<Rightarrow> IndexerConfig \<Rightarrow> Following \<Rightarrow> int \<Rightarrow> RpcEvent list \<Rightarrow> bool" where
  "covered env config s l es \<longleftrightarrow>
     (l = 0 \<or> l \<in> rpc_ledger ` set (fo_chain s)) \<and> set es \<subseteq> set (fo_chain s) \<and>
     (\<forall>e \<in> set (fo_chain s). rpc_contractId e \<in> Some ` set (contractIds config) \<longrightarrow> rpc_ledger e \<le> l \<longrightarrow>
        accounted env config s e \<or> e \<in> set es)"

fun stage_ok :: "Environment \<Rightarrow> IndexerConfig \<Rightarrow> Following \<Rightarrow> poll_stage \<Rightarrow> bool" where
  "stage_ok env config s (Asking start) = covered env config s (start - 1) []"
| "stage_ok env config s (Working m es) = covered env config s (reached m es) es"
| "stage_ok env config s (Handling m e es) = covered env config s (reached m (e # es)) es"
| "stage_ok env config s (Storing n) = covered env config s n []"
| "stage_ok env config s Ended = True"

definition follow_ok :: "Environment \<Rightarrow> IndexerConfig \<Rightarrow> Following \<Rightarrow> bool" where
  "follow_ok env config s \<longleftrightarrow>
     distinct (logged (fo_world s)) \<and> set (logged (fo_world s)) \<subseteq> event_key env ` set (fo_chain s) \<and>
     sorted (map rpc_ledger (fo_chain s)) \<and> (\<forall>e \<in> set (fo_chain s). 0 < rpc_ledger e) \<and>
     covered env config s (fo_cursor s) [] \<and>
     (\<exists>d. cursor_row d (ix_db (fo_world s)) \<and> covered env config s d []) \<and>
     (\<forall>p \<in> set (fo_polls s). stage_ok env config s p)"

text \<open>What is accounted for stays so when the log, the pages served and the chain grow.\<close>

definition extends :: "Following \<Rightarrow> Following \<Rightarrow> bool" where
  "extends s s' \<longleftrightarrow>
     set (logged (fo_world s)) \<subseteq> set (logged (fo_world s')) \<and> set (fo_asked s) \<subseteq> set (fo_asked s') \<and>
     (\<exists>new. fo_chain s' = fo_chain s @ new \<and>
        (\<forall>e \<in> set new. 0 < rpc_ledger e \<and> (\<forall>f \<in> set (fo_chain s). rpc_ledger f < rpc_ledger e)))"

lemma cut_off_extends:
  assumes "extends s s'" "cut_off config s e"
  shows "cut_off config s' e"
proof -
  obtain new where new: "fo_chain s' = fo_chain s @ new" using assms(1) by (auto simp: extends_def)
  obtain start where start: "start \<in> set (fo_asked s)"
      "e \<in> set (drop 200 (wanted (fo_chain s) start (contractIds config)))"
      "\<exists>f \<in> set (take 200 (wanted (fo_chain s) start (contractIds config))). rpc_ledger f = rpc_ledger e"
    using assms(2) by (auto simp: cut_off_def Let_def)
  have "wanted (fo_chain s') start (contractIds config) =
      wanted (fo_chain s) start (contractIds config) @ wanted new start (contractIds config)"
    by (simp add: new wanted_def)
  then show ?thesis
    using start assms(1) by (auto simp: cut_off_def Let_def extends_def intro!: bexI [of _ start])
qed

lemma covered_extends:
  assumes "extends s s'" "covered env config s l es"
  shows "covered env config s' l es"
proof -
  have acc: "accounted env config s' e" if "accounted env config s e" for e
    using that cut_off_extends [OF assms(1)] assms(1) by (auto simp: accounted_def extends_def)
  obtain new where new: "fo_chain s' = fo_chain s @ new"
      "\<forall>e \<in> set new. 0 < rpc_ledger e \<and> (\<forall>f \<in> set (fo_chain s). rpc_ledger f < rpc_ledger e)"
    using assms(1) by (auto simp: extends_def)
  then have "\<not> rpc_ledger e \<le> l" if "e \<in> set new" for e
    using that assms(2) by (fastforce simp: covered_def)
  then show ?thesis using assms(2) new(1) acc by (auto simp: covered_def)
qed

lemma stage_ok_extends: "extends s s' \<Longrightarrow> stage_ok env config s p \<Longrightarrow> stage_ok env config s' p"
  by (cases p) (auto intro: covered_extends)

lemma move_simps [simp]:
  "fo_chain (move i p s) = fo_chain s" "fo_asked (move i p s) = fo_asked s"
  "fo_cursor (move i p s) = fo_cursor s" "fo_world (move i p s) = fo_world s"
  "fo_polls (move i p s) = (fo_polls s)[i := p]"
  by (simp_all add: move_def)

text \<open>The preservation argument that all steps share: what is new is the stage of one poll, the cursor, and the row of the
  cursor.\<close>

lemma follow_ok_extends:
  assumes "follow_ok env config s" "extends s s'"
    and "distinct (logged (fo_world s'))" "set (logged (fo_world s')) \<subseteq> event_key env ` set (fo_chain s')"
    and "sorted (map rpc_ledger (fo_chain s'))"
    and "fo_cursor s' = fo_cursor s \<or> covered env config s' (fo_cursor s') []"
    and "(\<forall>d. cursor_row d (ix_db (fo_world s)) \<longrightarrow> cursor_row d (ix_db (fo_world s'))) \<or>
      (\<exists>d. cursor_row d (ix_db (fo_world s')) \<and> covered env config s' d [])"
    and "\<And>p. p \<in> set (fo_polls s') \<Longrightarrow> p \<in> set (fo_polls s) \<or> stage_ok env config s' p"
  shows "follow_ok env config s'"
proof -
  have "\<forall>e \<in> set (fo_chain s'). 0 < rpc_ledger e"
    using assms(1,2) by (auto simp: follow_ok_def extends_def)
  moreover have "covered env config s' (fo_cursor s') []"
    using assms(1,6) covered_extends [OF assms(2)] by (auto simp: follow_ok_def)
  moreover have "\<exists>d. cursor_row d (ix_db (fo_world s')) \<and> covered env config s' d []"
    using assms(1,7) covered_extends [OF assms(2)] unfolding follow_ok_def by blast
  moreover have "\<forall>p \<in> set (fo_polls s'). stage_ok env config s' p"
    using assms(1,8) stage_ok_extends [OF assms(2)] unfolding follow_ok_def by blast
  ultimately show ?thesis using assms(3,4,5) unfolding follow_ok_def by blast
qed

lemma extends_same:
  "set (logged (fo_world s)) \<subseteq> set (logged (fo_world s')) \<Longrightarrow> set (fo_asked s) \<subseteq> set (fo_asked s') \<Longrightarrow>
   fo_chain s' = fo_chain s \<Longrightarrow> extends s s'"
  by (simp add: extends_def)

lemma stage_at: "follow_ok env config s \<Longrightarrow> at_stage s i p \<Longrightarrow> stage_ok env config s p"
  by (auto simp: follow_ok_def at_stage_def)

lemma reached_Max: "reached m es = Max (insert m (rpc_ledger ` set es))"
  by (simp add: reached_def fold_max)

text \<open>A page covers the chain up to its last ledger, but for what is cut off.\<close>

lemma page_covers:
  assumes "covered env config s (start - 1) []" "start \<in> set (fo_asked s)" "sorted (map rpc_ledger (fo_chain s))"
  shows "let es = take 200 (wanted (fo_chain s) start (contractIds config)) in
    covered env config s (reached (start - 1) es) es"
proof -
  define es where "es = wanted (fo_chain s) start (contractIds config)"
  let ?n = "reached (start - 1) (take 200 es)"
  have n: "?n \<in> insert (start - 1) (rpc_ledger ` set (take 200 es))"
    unfolding reached_Max by (rule Max_in) auto
  have sub: "set (take 200 es) \<subseteq> set (fo_chain s)" by (auto simp: es_def wanted_def dest: in_set_takeD)
  have "sorted (map rpc_ledger es)" unfolding es_def wanted_def by (rule sorted_filter [OF assms(3)])
  then have "sorted (map rpc_ledger (take 200 es) @ map rpc_ledger (drop 200 es))"
    by (metis append_take_drop_id map_append)
  then have order: "rpc_ledger f \<le> rpc_ledger e" if "f \<in> set (take 200 es)" "e \<in> set (drop 200 es)" for e f
    using that by (auto simp: sorted_append)
  have "accounted env config s e \<or> e \<in> set (take 200 es)"
    if e: "e \<in> set (fo_chain s)" "rpc_contractId e \<in> Some ` set (contractIds config)" "rpc_ledger e \<le> ?n" for e
  proof (cases "rpc_ledger e \<le> start - 1")
    case True
    then show ?thesis using assms(1) e by (auto simp: covered_def)
  next
    case False
    then have "e \<in> set es" using e by (simp add: es_def wanted_def)
    then consider "e \<in> set (take 200 es)" | "e \<in> set (drop 200 es)" by (metis Un_iff append_take_drop_id set_append)
    then show ?thesis
    proof cases
      case 2
      obtain f where "f \<in> set (take 200 es)" "rpc_ledger f = ?n" using n e(3) False by auto
      moreover from this have "rpc_ledger f = rpc_ledger e" using order [OF _ 2] e(3) by force
      ultimately have "cut_off config s e" using 2 assms(2) unfolding cut_off_def es_def Let_def by blast
      then show ?thesis by (simp add: accounted_def)
    qed simp
  qed
  then show ?thesis using n sub assms(1) unfolding es_def [symmetric] Let_def covered_def by auto
qed

lemma logged_elsewhere: "elsewhere w w' \<Longrightarrow> logged w' = logged w"
  by (simp add: elsewhere_def logged_def)

lemma cursor_elsewhere: "elsewhere w w' \<Longrightarrow> cursor_row d (ix_db w') = cursor_row d (ix_db w)"
  by (simp add: elsewhere_def cursor_row_def)

lemma log_cursor: "logToEventLog env e w = (r, w') \<Longrightarrow> cursor_row d (ix_db w') = cursor_row d (ix_db w)"
  by (simp add: cursor_row_def keeps_frame [OF log_keeps])

lemma update_log: "updateLastIndexedLedger n w = (r, w') \<Longrightarrow> logged w' = logged w"
  by (simp add: logged_def keeps_frame [OF keeps_cursor])

lemma set_move: "p \<in> set ((ps)[i := q]) \<Longrightarrow> p \<in> set ps \<or> p = q"
  using set_update_subset_insert [of ps i q] by blast

lemma failed_update: "updateLastIndexedLedger n w = (Inl x, w') \<Longrightarrow> w' = w"
  by (auto simp: updateLastIndexedLedger_def query_def split: sum.splits)

lemma covered_log:
  assumes "covered env config s l (e # es)" "logged w' = remember (event_key env e) (logged (fo_world s))"
  shows "covered env config (s\<lparr>fo_world := w'\<rparr>) l es"
  using assms by (auto simp: covered_def accounted_def cut_off_def)

lemma covered_move: "covered env config (move i p s) = covered env config s"
  by (intro ext) (simp add: covered_def accounted_def cut_off_def)

lemma stage_move: "stage_ok env config (move i p s) q = stage_ok env config s q"
  by (cases q) (simp_all add: covered_move)

lemma step_follow_ok:
  assumes "follow_step env config s s'" "follow_ok env config s"
  shows "follow_ok env config s'"
  using assms
proof (induction rule: follow_step.induct)
  case (grow new s)
  have "extends s (s\<lparr>fo_chain := fo_chain s @ new\<rparr>)" using grow(1) by (auto simp: extends_def)
  moreover have "sorted (map rpc_ledger (fo_chain s @ new))"
    using grow by (auto simp: follow_ok_def sorted_append intro: less_imp_le)
  ultimately show ?case
    using grow(3) by (intro follow_ok_extends [OF grow(3)]) (auto simp: follow_ok_def)
next
  case (ask s)
  then show ?case
    by (intro follow_ok_extends [OF ask])
      (auto simp: follow_ok_def covered_def accounted_def cut_off_def intro!: extends_same)
next
  case (page s i start)
  let ?s = "s\<lparr>fo_asked := start # fo_asked s\<rparr>"
  have ext: "extends s ?s" by (rule extends_same) auto
  have "covered env config ?s (start - 1) []"
    using stage_at [OF page(2,1)] covered_extends [OF ext] by simp
  then have "stage_ok env config ?s
      (Working (start - 1) (take 200 (wanted (fo_chain s) start (contractIds config))))"
    using page_covers [of env config ?s start] page(2) by (simp add: follow_ok_def Let_def)
  then show ?case
    using page(2)
    by (intro follow_ok_extends [OF page(2)])
      (auto simp: stage_move follow_ok_def simp del: stage_ok.simps dest!: set_move intro!: extends_same)
next
  case (log s i m e es w')
  note l = log_effect [OF log(2)]
  have c: "covered env config s (reached m (e # es)) (e # es)" using stage_at [OF log(3,1)] by simp
  then have "e \<in> set (fo_chain s)" by (simp add: covered_def)
  moreover have "stage_ok env config (s\<lparr>fo_world := w'\<rparr>) (Handling m e es)" using covered_log [OF c l] by simp
  ultimately show ?case
    using log(3) l log_cursor [OF log(2)]
    by (intro follow_ok_extends [OF log(3)])
      (auto simp: stage_move follow_ok_def simp del: stage_ok.simps dest!: set_move intro!: extends_same)
next
  case (handled s i m e es)
  have "stage_ok env config s (Working (if rpc_ledger e > m then rpc_ledger e else m) es)"
    using stage_at [OF handled(2,1)] by (simp only: stage_ok.simps reached_Cons)
  then show ?case
    using handled(2)
    by (intro follow_ok_extends [OF handled(2)])
      (auto simp: stage_move follow_ok_def simp del: stage_ok.simps dest!: set_move intro!: extends_same)
next
  case (finish s i n w')
  have c: "covered env config s n []" using stage_at [OF finish(4,1)] by (simp add: reached_def)
  have log: "logged w' = logged (fo_world s)" using update_log [OF finish(3)] .
  have ext: "extends s (s\<lparr>fo_world := w'\<rparr>)" by (rule extends_same) (simp_all add: log)
  have "\<exists>d. cursor_row d (ix_db w')" using finish(4) cursor_update [OF finish(3)] by (auto simp: follow_ok_def)
  moreover have "cursor_row n (ix_db w')" using finish(4) cursor_update [OF finish(3)] by (auto simp: follow_ok_def)
  ultimately show ?case
    using finish(4) log covered_extends [OF ext c]
    by (intro follow_ok_extends [OF finish(4)])
      (auto simp: stage_move covered_move follow_ok_def dest!: set_move intro!: extends_same)
next
  case (store s i n)
  have "covered env config s n []" using stage_at [OF store(2,1)] by simp
  then have "covered env config (s\<lparr>fo_cursor := n\<rparr>) n []" by (simp add: covered_def accounted_def cut_off_def)
  then show ?case
    using store(2)
    by (intro follow_ok_extends [OF store(2)])
      (auto simp: covered_move follow_ok_def dest!: set_move intro!: extends_same)
next
  case (fail s i)
  then show ?case
    by (intro follow_ok_extends [OF fail]) (auto simp: follow_ok_def dest!: set_move intro!: extends_same)
next
  case (wrote s w')
  then show ?case
    using logged_elsewhere [OF wrote(1)] cursor_elsewhere [OF wrote(1)]
    by (intro follow_ok_extends [OF wrote(2)]) (auto simp: follow_ok_def intro!: extends_same)
next
  case (restart s)
  then obtain d where d: "cursor_row d (ix_db (fo_world s))" "covered env config s d []"
    by (auto simp: follow_ok_def)
  then show ?case
    using restart cursor_row_read [OF d(1)]
    by (intro follow_ok_extends [OF restart])
      (auto simp: follow_ok_def covered_def accounted_def cut_off_def intro!: extends_same)
qed

interpretation following: stepwise_invariant "follow_step env config" "follow_ok env config" for env config
  by unfold_locales (rule step_follow_ok)

definition follow_start :: "Indexer \<Rightarrow> Following" where
  "follow_start w = \<lparr>fo_chain = [], fo_asked = [], fo_cursor = 0, fo_world = w, fo_polls = []\<rparr>"


subsection \<open>A poll that is alone\<close>

text \<open>A poll that nothing interrupts, as \<^verbatim>\<open>pollOnce\<close> runs it against a truthful server, is a run of these steps.\<close>

lemma elsewhere_intros:
  "dispatch_event env config e w = (r, w') \<Longrightarrow> elsewhere w w'"
  "maybeTakeGovernanceSnapshot n w = (r, w') \<Longrightarrow> elsewhere w w'"
  "takeConcentrationSnapshot n w = (r, w') \<Longrightarrow> elsewhere w w'"
proof -
  have own: "''event_log'' \<notin> tables_of config e" "''indexer_state'' \<notin> tables_of config e" by (simp_all add: tables_of_def)
  assume d: "dispatch_event env config e w = (r, w')"
  show "elsewhere w w'" unfolding elsewhere_def using keeps_frame [OF dispatch_keeps d] own by blast
next
  assume "maybeTakeGovernanceSnapshot n w = (r, w')"
  from keeps_frame [OF keeps_snapshots(1) this] show "elsewhere w w'" by (simp add: elsewhere_def)
next
  assume "takeConcentrationSnapshot n w = (r, w')"
  from keeps_frame [OF keeps_snapshots(2) this] show "elsewhere w w'" by (simp add: elsewhere_def)
qed

lemma loop_follows:
  assumes "process_loop env config Some es m (fo_world s) = (r, w')" "fo_polls s = [Working m es]"
  shows "(follow_step env config)\<^sup>*\<^sup>* s
    (s\<lparr>fo_world := w', fo_polls := [case r of Inl x \<Rightarrow> Ended | Inr n \<Rightarrow> Working n []]\<rparr>)"
  using assms
proof (induction es arbitrary: m s)
  case Nil
  then have "s\<lparr>fo_world := w', fo_polls := [case r of Inl x \<Rightarrow> Ended | Inr n \<Rightarrow> Working n []]\<rparr> = s" by (cases s) auto
  then show ?case by simp
next
  case (Cons e es)
  have at: "at_stage s 0 (Working m (e # es))" using Cons.prems(2) by (simp add: at_stage_def)
  obtain x w1 where l: "logToEventLog env e (fo_world s) = (x, w1)" by fastforce
  show ?case
  proof (cases x)
    case (Inl y)
    then have "w1 = fo_world s" using l by (auto simp: logToEventLog_def Let_def query_def split: sum.splits)
    then have "s\<lparr>fo_world := w', fo_polls := [case r of Inl x \<Rightarrow> Ended | Inr n \<Rightarrow> Working n []]\<rparr> = move 0 Ended s"
      using Cons.prems Inl l by (auto simp: process_event_def move_def)
    then show ?thesis by (simp add: follow_step.fail r_into_rtranclp)
  next
    case (Inr u)
    obtain q w2 where d: "dispatch_event env config e w1 = (q, w2)" by fastforce
    define s1 where "s1 = move 0 (Handling m e es) (s\<lparr>fo_world := w1\<rparr>)"
    define s2 where "s2 = s1\<lparr>fo_world := w2\<rparr>"
    have "follow_step env config s s1" using follow_step.log [OF at] l Inr by (simp add: s1_def)
    moreover have "follow_step env config s1 s2"
      using follow_step.wrote elsewhere_intros(1) [OF d] by (simp add: s1_def s2_def)
    moreover have p2: "fo_polls s2 = [Handling m e es]" "fo_world s2 = w2" using Cons.prems(2) by (simp_all add: s1_def s2_def)
    moreover have "(follow_step env config)\<^sup>*\<^sup>* s2
        (s\<lparr>fo_world := w', fo_polls := [case r of Inl x \<Rightarrow> Ended | Inr n \<Rightarrow> Working n []]\<rparr>)"
    proof (cases q)
      case (Inl y)
      then have "s\<lparr>fo_world := w', fo_polls := [case r of Inl x \<Rightarrow> Ended | Inr n \<Rightarrow> Working n []]\<rparr> = move 0 Ended s2"
        using Cons.prems Inr l d by (auto simp: process_event_def move_def s1_def s2_def)
      then show ?thesis by (simp add: follow_step.fail r_into_rtranclp)
    next
      case q: (Inr v)
      define m' where "m' = (if rpc_ledger e > m then rpc_ledger e else m)"
      define s3 where "s3 = move 0 (Working m' es) s2"
      have "follow_step env config s2 s3"
        using follow_step.handled [of s2 0 m e es] p2(1) by (simp add: s3_def m'_def at_stage_def)
      moreover have "process_loop env config Some es m' (fo_world s3) = (r, w')"
        using Cons.prems(1) Inr l d q p2(2) by (simp add: process_event_def s3_def m'_def)
      from Cons.IH [OF this] have "(follow_step env config)\<^sup>*\<^sup>* s3
          (s3\<lparr>fo_world := w', fo_polls := [case r of Inl x \<Rightarrow> Ended | Inr n \<Rightarrow> Working n []]\<rparr>)"
        using p2(1) by (simp add: s3_def)
      moreover have "s3\<lparr>fo_world := w', fo_polls := ps\<rparr> = s\<lparr>fo_world := w', fo_polls := ps\<rparr>" for ps
        by (simp add: s3_def s2_def s1_def move_def)
      ultimately show ?thesis by (metis converse_rtranclp_into_rtranclp)
    qed
    ultimately show ?thesis by (metis converse_rtranclp_into_rtranclp)
  qed
qed

lemma poll_follows:
  assumes "honest (fo_chain s) getEvents" "fo_polls s = []"
    and "poll_once env Some getEvents config (fo_cursor s, fo_world s) = (e, l', w')"
  shows "\<exists>asked p. (follow_step env config)\<^sup>*\<^sup>* s
    (s\<lparr>fo_asked := asked, fo_cursor := l', fo_world := w', fo_polls := [p]\<rparr>)"
proof -
  let ?l = "fo_cursor s"
  let ?es = "take 200 (wanted (fo_chain s) (?l + 1) (contractIds config))"
  define s1 where "s1 = s\<lparr>fo_polls := [Asking (?l + 1)]\<rparr>"
  have s1: "follow_step env config s s1" using follow_step.ask [of env config s] assms(2) by (simp add: s1_def)
  show ?thesis
  proof (cases "getEvents (?l + 1) (contractIds config) 200")
    case (Inl x)
    then have "l' = ?l" "w' = fo_world s" using assms(3) by (auto simp: poll_once_def processEvents_def)
    then have "s1 = s\<lparr>fo_asked := fo_asked s, fo_cursor := l', fo_world := w', fo_polls := [Asking (?l + 1)]\<rparr>"
      by (simp add: s1_def)
    then show ?thesis using s1 by (metis r_into_rtranclp)
  next
    case (Inr page)
    then have page: "page = ?es" using assms(1) by (simp add: honest_def)
    define s2 where "s2 = s\<lparr>fo_asked := (?l + 1) # fo_asked s, fo_polls := [Working ?l ?es]\<rparr>"
    have s2: "follow_step env config s1 s2"
      using follow_step.page [of s1 0 "?l + 1" env config] by (simp add: s1_def s2_def at_stage_def move_def)
    obtain r w1 where loop: "process_loop env config Some ?es ?l (fo_world s2) = (r, w1)" by fastforce
    have batch: "processEvents env Some getEvents config (?l + 1) (fo_world s) = (r, w1)"
      using loop Inr page by (simp add: processEvents_def s2_def)
    define s3 where "s3 = s2\<lparr>fo_world := w1, fo_polls := [case r of Inl x \<Rightarrow> Ended | Inr n \<Rightarrow> Working n []]\<rparr>"
    have "(follow_step env config)\<^sup>*\<^sup>* s2 s3"
      using loop_follows [OF loop] by (simp add: s2_def s3_def)
    with s1 s2 have run: "(follow_step env config)\<^sup>*\<^sup>* s s3" by (meson converse_rtranclp_into_rtranclp)
    have plain: ?thesis if "l' = ?l" "w' = w1"
      using run that unfolding s3_def s2_def by auto
    from assms(3) show ?thesis
    proof (cases rule: poll_cases)
      case (failed x)
      then show ?thesis using batch plain by simp
    next
      case (idle n)
      then show ?thesis using batch plain by simp
    next
      case (stuck n w2 x)
      then show ?thesis using batch plain failed_update [OF stuck(3)] by simp
    next
      case (moved n w1' w2 w3 g)
      then have n: "r = Inr n" "w1' = w1" using batch by auto
      define s4 where "s4 = s3\<lparr>fo_world := w2, fo_polls := [Storing n]\<rparr>"
      define s5 where "s5 = s4\<lparr>fo_cursor := n, fo_polls := [Ended]\<rparr>"
      have "follow_step env config s3 s4"
        using follow_step.finish [of s3 0 n w2 env config] moved n
        by (simp add: s4_def s3_def s2_def at_stage_def move_def)
      moreover have "follow_step env config s4 s5"
        using follow_step.store [of s4 0 n env config] by (simp add: s5_def s4_def at_stage_def move_def)
      moreover have "elsewhere w2 w'"
        using moved(5,6) elsewhere_intros(2,3) by (auto simp: elsewhere_def)
      then have "follow_step env config s5 (s5\<lparr>fo_world := w'\<rparr>)"
        by (intro follow_step.wrote) (simp add: s5_def s4_def)
      ultimately have "(follow_step env config)\<^sup>*\<^sup>* s (s5\<lparr>fo_world := w'\<rparr>)"
        using run by (meson rtranclp.rtrancl_into_rtrancl)
      moreover have "s5\<lparr>fo_world := w'\<rparr> =
          s\<lparr>fo_asked := (?l + 1) # fo_asked s, fo_cursor := l', fo_world := w', fo_polls := [Ended]\<rparr>"
        using moved(4) by (simp add: s5_def s4_def s3_def s2_def)
      ultimately show ?thesis by metis
    qed
  qed
qed

subsection \<open>A run\<close>

definition ix_demo_server :: "RpcEvent list \<Rightarrow> RpcEvent event_server" where
  "ix_demo_server chain start ids limit = Inr (take limit (wanted chain start ids))"

definition ix_demo_polled :: "failure option \<times> int \<times> Indexer" where
  "ix_demo_polled = poll_once ix_demo_env Some (ix_demo_server [ix_demo_event]) ix_demo_config (0, ix_demo_world)"

lemma ix_demo_poll: "fst (snd ix_demo_polled) = 7"
  by code_simp

lemma ix_demo_run:
  "\<exists>asked p. (follow_step ix_demo_env ix_demo_config)\<^sup>*\<^sup>* (follow_start ix_demo_world)
     \<lparr>fo_chain = [ix_demo_event], fo_asked = asked, fo_cursor = 7, fo_world = snd (snd ix_demo_polled), fo_polls = [p]\<rparr>"
proof -
  let ?s = "(follow_start ix_demo_world)\<lparr>fo_chain := [ix_demo_event]\<rparr>"
  have "follow_step ix_demo_env ix_demo_config (follow_start ix_demo_world) ?s"
    using follow_step.grow [of "[ix_demo_event]" "follow_start ix_demo_world"]
    by (simp add: ix_demo_event_def follow_start_def)
  moreover have "honest [ix_demo_event] (ix_demo_server [ix_demo_event])" by (simp add: honest_def ix_demo_server_def)
  moreover have "ix_demo_polled = (fst ix_demo_polled, 7, snd (snd ix_demo_polled))" by (metis ix_demo_poll prod.collapse)
  ultimately have "\<exists>asked p. (follow_step ix_demo_env ix_demo_config)\<^sup>*\<^sup>* (follow_start ix_demo_world)
      (?s\<lparr>fo_asked := asked, fo_cursor := 7, fo_world := snd (snd ix_demo_polled), fo_polls := [p]\<rparr>)"
    using poll_follows [of ?s "ix_demo_server [ix_demo_event]" ix_demo_env ix_demo_config "fst ix_demo_polled" 7
        "snd (snd ix_demo_polled)"] converse_rtranclp_into_rtranclp [of "follow_step ix_demo_env ix_demo_config"]
    by (fastforce simp: follow_start_def simp flip: ix_demo_polled_def)
  then show ?thesis by (simp add: follow_start_def)
qed


text \<open>The loop over the same two deliveries of the event.\<close>

theorem events_logged_once_witness:
  "logged (snd (process_loop ix_demo_env ix_demo_config Some [ix_demo_event] 0 (snd (process_loop ix_demo_env ix_demo_config Some [ix_demo_event] 0 ix_demo_world)))) =
   [event_key ix_demo_env ix_demo_event]"
proof -
  obtain r w' where p: "process_loop ix_demo_env ix_demo_config Some [ix_demo_event] 0 ix_demo_world = (r, w')" by fastforce
  obtain q w'' where q: "process_loop ix_demo_env ix_demo_config Some [ix_demo_event] 0 w' = (q, w'')" by fastforce
  have "isl (fst (process_loop ix_demo_env ix_demo_config Some [ix_demo_event] 0 ix_demo_world)) = False" by code_simp
  then obtain n where r: "r = Inr n" using p by (cases r) auto
  from events_logged_once [OF p [unfolded r] q] p q show ?thesis
    by (simp add: logged_def ix_demo_world_def remember_def)
qed

end
