(* ===== verification/IndexerGaps.thy ===== *)
theory IndexerGaps
  imports IndexerLog
begin

section \<open>What the contracts publish and what the indexer reads\<close>

text \<open>
  The events of the contracts (\<open>EventWire\<close>) as the indexer receives them. The governor publishes structs; some handlers
  read tuples or topics that are not there, and a handler that throws stops the batch and with it the cursor.
\<close>

definition rpc_of :: "string \<Rightarrow> string \<Rightarrow> js_value \<Rightarrow> SorobanEvent \<Rightarrow> RpcEvent" where
  "rpc_of i tx closedAt ev =
     \<lparr>rpc_ledger = ev_ledger ev, rpc_contractId = Some (ev_contractId ev), rpc_txHash = Some tx, rpc_id = Some i,
      rpc_ledgerClosedAt = closedAt, rpc_topics = map JString (ev_topic ev), rpc_value = ev_value ev\<rparr>"

text \<open>The configured contracts are different ones.\<close>

definition addresses :: "IndexerConfig \<Rightarrow> string list" where
  "addresses config =
     [cfg_convictionVoting config, cfg_treasury config, cfg_wrapper config, cfg_liquidity config,
      cfg_coSponsorship config, cfg_proposalBonds config, cfg_tokenVotes config, cfg_timelock config,
      cfg_signalAnchor config, cfg_treasuryStrategies config, cfg_optimisticGovernor config, cfg_voteEscrow config,
      cfg_governor config]"

definition apart :: "IndexerConfig \<Rightarrow> bool" where
  "apart config = sorted_wrt (\<lambda>a b. a = [] \<or> a \<noteq> b) (addresses config)"

lemma dispatch_by_contract:
  assumes "apart config" "rpc_contractId event = Some c" "c \<noteq> []"
  shows "c = cfg_governor config \<Longrightarrow> dispatch_event env config event = switch (governor_cases env) event"
    and "c = cfg_treasury config \<Longrightarrow> dispatch_event env config event = switch (treasury_cases env config) event"
    and "c = cfg_tokenVotes config \<Longrightarrow> dispatch_event env config event = switch tokenVotes_cases event"
    and "c = cfg_proposalBonds config \<Longrightarrow> dispatch_event env config event = switch proposalBonds_cases event"
    and "c = cfg_timelock config \<Longrightarrow> dispatch_event env config event = switch timelock_cases event"
    and "c = cfg_convictionVoting config \<Longrightarrow>
      dispatch_event env config event = doing (\<lambda>e. handleConvictionEvent e (event_type e)) event"
    and "c = cfg_voteEscrow config \<Longrightarrow>
      dispatch_event env config event = doing (\<lambda>e. handleVoteEscrowEvent e (event_type e)) event"
proof -
  have from_: "is_from event a \<longleftrightarrow> c = a" for a
    using assms(2,3) by (auto simp: is_from_def)
  have before: "addresses config ! j \<notin> set (take j (addresses config))"
    if "j < length (addresses config)" "addresses config ! j \<noteq> []" for j
    using assms(1) that unfolding apart_def
    by (subst (asm) id_take_nth_drop [of j "addresses config"]) (auto simp: sorted_wrt_append)
  note here = dispatch_event_def from_ addresses_def
  show "c = cfg_governor config \<Longrightarrow> dispatch_event env config event = switch (governor_cases env) event"
    using before [of 12] assms(3) by (simp add: here)
  show "c = cfg_treasury config \<Longrightarrow> dispatch_event env config event = switch (treasury_cases env config) event"
    using before [of 1] assms(3) by (simp add: here)
  show "c = cfg_tokenVotes config \<Longrightarrow> dispatch_event env config event = switch tokenVotes_cases event"
    using before [of 6] assms(3) by (simp add: here)
  show "c = cfg_proposalBonds config \<Longrightarrow> dispatch_event env config event = switch proposalBonds_cases event"
    using before [of 5] assms(3) by (simp add: here)
  show "c = cfg_timelock config \<Longrightarrow> dispatch_event env config event = switch timelock_cases event"
    using before [of 7] assms(3) by (simp add: here)
  show "c = cfg_convictionVoting config \<Longrightarrow>
      dispatch_event env config event = doing (\<lambda>e. handleConvictionEvent e (event_type e)) event"
    by (simp add: here)
  show "c = cfg_voteEscrow config \<Longrightarrow>
      dispatch_event env config event = doing (\<lambda>e. handleVoteEscrowEvent e (event_type e)) event"
    using before [of 11] assms(3) by (simp add: here)
qed

lemma rpc_of_simps [simp]:
  "rpc_contractId (rpc_of i tx t ev) = Some (ev_contractId ev)" "rpc_value (rpc_of i tx t ev) = ev_value ev"
  "rpc_ledger (rpc_of i tx t ev) = ev_ledger ev" "rpc_topics (rpc_of i tx t ev) = map JString (ev_topic ev)"
  by (simp_all add: rpc_of_def)

lemma undefined_numeral [simp]:
  "coerce BIGINT (Some ''undefined'') = Inl InvalidText"
  by (simp add: coerce_def) code_simp

text \<open>Two publications of other contracts: a batch transfer of the treasury and a delegation of the votes token.\<close>

definition emit_batch_transfer :: "env \<Rightarrow> bytes \<Rightarrow> u32 \<Rightarrow> SorobanEvent" where
  "emit_batch_transfer env op_hash recipients =
     publish env [JString ''bat_xfer''] (JArray [JBuffer op_hash, native_u32 recipients])"

definition emit_delegate_changed :: "env \<Rightarrow> string \<Rightarrow> string option \<Rightarrow> string \<Rightarrow> SorobanEvent" where
  "emit_delegate_changed env delegator previous_delegate delegatee =
     publish env [JString ''DelegateChanged'', JString delegator]
       (JArray [native_option JString previous_delegate, JString delegatee])"

text \<open>Publications that the indexer cannot process: a vote, a queueing or an execution of the governor, a batch transfer of the
  treasury, the first delegation of an account.\<close>

inductive stops_indexer :: "IndexerConfig \<Rightarrow> env \<Rightarrow> SorobanEvent \<Rightarrow> bool" for config genv where
  vote: "env_contract genv = cfg_governor config \<Longrightarrow>
    stops_indexer config genv (emit_vote_cast genv proposal_id voter support weight)"
| vote_with_reason: "env_contract genv = cfg_governor config \<Longrightarrow>
    stops_indexer config genv (emit_vote_cast_with_reason genv proposal_id voter support weight reason)"
| queued: "env_contract genv = cfg_governor config \<Longrightarrow>
    stops_indexer config genv (emit_proposal_queued genv proposal_id op_id eta)"
| executed: "env_contract genv = cfg_governor config \<Longrightarrow>
    stops_indexer config genv (emit_proposal_executed genv proposal_id caller)"
| batch_transfer: "env_contract genv = cfg_treasury config \<Longrightarrow>
    stops_indexer config genv (emit_batch_transfer genv op_hash recipients)"
| first_delegation: "env_contract genv = cfg_tokenVotes config \<Longrightarrow>
    stops_indexer config genv (emit_delegate_changed genv delegator None delegatee)"

lemmas emitters = publish_def emit_vote_cast_def emit_vote_cast_with_reason_def emit_proposal_queued_def
  emit_proposal_executed_def emit_batch_transfer_def emit_delegate_changed_def

lemmas switching = switch_def event_type_def topic_def rpc_of_def TOPIC_MAP_def doing_def run_handler_def Let_def

lemma unreadable_governor:
  "\<exists>e w'. switch (governor_cases env) (rpc_of i tx t (emit_vote_cast genv pid voter support weight)) w = (Inl e, w')"
  "\<exists>e w'. switch (governor_cases env)
     (rpc_of i tx t (emit_vote_cast_with_reason genv pid voter support weight reason)) w = (Inl e, w')"
  "\<exists>e w'. switch (governor_cases env) (rpc_of i tx t (emit_proposal_queued genv pid op_id eta)) w = (Inl e, w')"
  "\<exists>e w'. switch (governor_cases env) (rpc_of i tx t (emit_proposal_executed genv pid caller)) w = (Inl e, w')"
  by (simp_all add: switching emitters governor_cases_def handleVoteCast_def handleProposalQueued_def
      handleProposalExecuted_def proposal_flag_def query_def exec_def votes_table_def proposals_table_def col_def
      column_type_def)

lemma null_columns:
  "exec indexer_schema db (p # js_param JUndefined # ps) (InsertInto ''treasury_transfers''
      [(''op_hash'', Param (Suc 0)), (''token'', Param 2), (''recipient_count'', Param 3), (''total_amount'', Param 4),
       (''ledger'', Param 5)] oc) \<noteq> Inr y"
  "exec indexer_schema db (p # js_param JNull # ps) (InsertInto ''delegates''
      [(''delegator'', Param (Suc 0)), (''old_delegatee'', Param 2), (''new_delegatee'', Param 3),
       (''ledger'', Param 4)] oc) \<noteq> Inr y"
proof -
  have "\<exists>x. exec indexer_schema db (p # js_param JUndefined # ps) (InsertInto ''treasury_transfers''
      [(''op_hash'', Param (Suc 0)), (''token'', Param 2), (''recipient_count'', Param 3), (''total_amount'', Param 4),
       (''ledger'', Param 5)] oc) = Inl x"
    by (rule bad_insert [where ts = treasury_transfers_table and k = "col ''token'' TEXT True SqlNull" and e = "Param 2"])
      (simp_all add: treasury_transfers_table_def col_def js_param_def)
  then show "exec indexer_schema db (p # js_param JUndefined # ps) (InsertInto ''treasury_transfers''
      [(''op_hash'', Param (Suc 0)), (''token'', Param 2), (''recipient_count'', Param 3), (''total_amount'', Param 4),
       (''ledger'', Param 5)] oc) \<noteq> Inr y" by auto
  have "\<exists>x. exec indexer_schema db (p # js_param JNull # ps) (InsertInto ''delegates''
      [(''delegator'', Param (Suc 0)), (''old_delegatee'', Param 2), (''new_delegatee'', Param 3),
       (''ledger'', Param 4)] oc) = Inl x"
    by (rule bad_insert [where ts = delegates_table and k = "col ''old_delegatee'' TEXT True SqlNull" and e = "Param 2"])
      (simp_all add: delegates_table_def col_def js_param_def)
  then show "exec indexer_schema db (p # js_param JNull # ps) (InsertInto ''delegates''
      [(''delegator'', Param (Suc 0)), (''old_delegatee'', Param 2), (''new_delegatee'', Param 3),
       (''ledger'', Param 4)] oc) \<noteq> Inr y" by auto
qed

lemma unreadable_others:
  "\<exists>e w'. switch (treasury_cases env config) (rpc_of i tx t (emit_batch_transfer genv op_hash recipients)) w = (Inl e, w')"
  "\<exists>e w'. switch tokenVotes_cases (rpc_of i tx t (emit_delegate_changed genv delegator None delegatee)) w = (Inl e, w')"
  by (auto simp: switching emitters treasury_cases_def tokenVotes_cases_def handleTreasuryBatchTransfer_def
      handleDelegateChanged_def query_def native_option_def null_columns split: sum.split prod.split)

lemma unreadable_event:
  assumes "stops_indexer config genv ev" "apart config" "env_contract genv \<noteq> []"
  shows "\<exists>e w'. process_event env config (rpc_of i tx t ev) w = (Inl e, w')"
proof -
  have c: "rpc_contractId (rpc_of i tx t ev) = Some (env_contract genv)"
    using assms(1) by cases (simp_all add: emitters)
  have "\<exists>e w'. dispatch_event env config (rpc_of i tx t ev) v = (Inl e, w')" for v
    using assms(1)
  proof cases
    case (batch_transfer op_hash recipients)
    then show ?thesis using dispatch_by_contract(2) [OF assms(2) c assms(3)] unreadable_others(1) by simp
  next
    case (first_delegation delegator delegatee)
    then show ?thesis using dispatch_by_contract(3) [OF assms(2) c assms(3)] unreadable_others(2) by simp
  qed (use dispatch_by_contract(1) [OF assms(2) c assms(3)] in \<open>simp_all add: unreadable_governor\<close>)
  then show ?thesis by (auto simp: process_event_def split: prod.split sum.split)
qed

lemma loop_stops:
  assumes "event \<in> set events" "\<And>w. \<exists>e w'. process_event env config event w = (Inl e, w')"
  shows "\<exists>e w'. process_loop env config Some events l w = (Inl e, w')"
  using assms(1)
proof (induction events arbitrary: l w)
  case (Cons x events)
  then show ?case using assms(2) [of w]
    by (cases "process_event env config x w"; cases "fst (process_event env config x w)") auto
qed simp

definition polls :: "Environment \<Rightarrow> IndexerConfig \<Rightarrow> RpcEvent event_server list \<Rightarrow> int \<times> Indexer \<Rightarrow> int \<times> Indexer" where
  "polls env config servers s = fold (\<lambda>getEvents s. snd (poll_once env Some getEvents config s)) servers s"

text \<open>A server whose page after the cursor has the event, if it answers.\<close>

definition delivers :: "IndexerConfig \<Rightarrow> int \<Rightarrow> RpcEvent \<Rightarrow> RpcEvent event_server \<Rightarrow> bool" where
  "delivers config l event getEvents \<longleftrightarrow>
     (case getEvents (l + 1) (contractIds config) 200 of Inl e \<Rightarrow> True | Inr page \<Rightarrow> event \<in> set page)"

text \<open>C21: The indexer stops at the first vote: once the governor has published a vote, a queueing or an execution (or the
  treasury a batch transfer, or the votes token the first delegation of an account) and the event is in the page after the
  cursor, no later poll ever moves the cursor again, however many polls there are and whatever else the server answers. The
  governor publishes these events as structs, with the proposal in the value; the handlers look for an array and for a second
  topic, find \<^verbatim>\<open>undefined\<close>, and the database refuses it as a number. In the other two cases a column that must not
  be null gets a null.\<close>

theorem unreadable_events_stop_indexer:
  assumes "stops_indexer config genv ev" "apart config" "env_contract genv \<noteq> []"
    and "list_all (delivers config l (rpc_of i tx t ev)) servers"
  shows "fst (polls env config servers (l, w)) = l"
  using assms(4)
proof (induction servers arbitrary: w)
  case (Cons getEvents servers)
  have "\<exists>x w'. processEvents env Some getEvents config (l + 1) w = (Inl x, w')"
  proof (cases "getEvents (l + 1) (contractIds config) 200")
    case (Inr page)
    with Cons.prems have "rpc_of i tx t ev \<in> set page" by (simp add: delivers_def)
    from loop_stops [OF this unreadable_event [OF assms(1-3)]] Inr show ?thesis by (simp add: processEvents_def)
  qed (simp add: processEvents_def)
  then obtain x w' where "poll_once env Some getEvents config (l, w) = (Some x, l, w')"
    by (auto simp: poll_once_def)
  moreover have "fst (polls env config servers (l, w')) = l"
    using Cons.prems by (intro Cons.IH) simp
  ultimately show ?case by (simp add: polls_def)
qed (simp add: polls_def)

definition ix_demo_genv :: env where
  "ix_demo_genv = \<lparr>env_contract = ''CGOV'', env_sequence = 9\<rparr>"

definition ix_demo_vote :: SorobanEvent where
  "ix_demo_vote = emit_vote_cast ix_demo_genv 1 ''GALI'' 1 500"

lemma ix_demo_apart: "apart ix_demo_config"
  by (simp add: apart_def addresses_def ix_demo_config_def)

theorem unreadable_events_stop_indexer_witness:
  "fst (polls ix_demo_env ix_demo_config (replicate 3 (ix_demo_server [ix_demo_event, rpc_of ''9-1'' ''cd'' JUndefined ix_demo_vote]))
     (0, ix_demo_world)) = 0"
proof (rule unreadable_events_stop_indexer [OF _ ix_demo_apart])
  show "stops_indexer ix_demo_config ix_demo_genv ix_demo_vote"
    unfolding ix_demo_vote_def by (rule stops_indexer.vote) (simp add: ix_demo_genv_def ix_demo_config_def)
  show "env_contract ix_demo_genv \<noteq> []" by (simp add: ix_demo_genv_def)
  show "list_all (delivers ix_demo_config 0 (rpc_of ''9-1'' ''cd'' JUndefined ix_demo_vote))
      (replicate 3 (ix_demo_server [ix_demo_event, rpc_of ''9-1'' ''cd'' JUndefined ix_demo_vote]))"
    by (simp add: delivers_def ix_demo_server_def wanted_def ix_demo_vote_def emit_vote_cast_def publish_def contractIds_def
      ix_demo_config_def ix_demo_event_def ix_demo_genv_def numeral_3_eq_3)
qed

end
