(* ===== verification/IndexerBonds.thy ===== *)
theory IndexerBonds
  imports IndexerGaps ProposalBonds
begin

section \<open>The indexer's mirror of the proposal bonds\<close>

text \<open>
  The table \<^verbatim>\<open>proposal_bonds\<close> against the bonds contract: the calls of the contract (\<open>ProposalBonds\<close>), the events it publishes
  for them, and the table after the indexer has processed these events. The table is the contract's map of bonds.
\<close>

subsection \<open>What the contract publishes\<close>

definition emit_bond_locked :: "env \<Rightarrow> string \<Rightarrow> bytes \<Rightarrow> i128 \<Rightarrow> SorobanEvent" where
  "emit_bond_locked env proposer description_hash amount =
     publish env [JString ''BondLocked'', JString proposer] (JArray [JBuffer description_hash, native_i128 amount])"

definition emit_bond_refunded :: "env \<Rightarrow> bytes \<Rightarrow> string \<Rightarrow> i128 \<Rightarrow> SorobanEvent" where
  "emit_bond_refunded env description_hash proposer amount =
     publish env [JString ''BondRefunded'', JString proposer] (JArray [JBuffer description_hash, native_i128 amount])"

definition emit_bond_slashed :: "env \<Rightarrow> bytes \<Rightarrow> string \<Rightarrow> i128 \<Rightarrow> string \<Rightarrow> SorobanEvent" where
  "emit_bond_slashed env description_hash proposer amount recipient =
     publish env [JString ''BondSlashed'', JString proposer]
       (JArray [JBuffer description_hash, native_i128 amount, JString recipient])"

lemmas bond_emitters = emit_bond_locked_def emit_bond_refunded_def emit_bond_slashed_def publish_def

definition genv_at :: "string \<Rightarrow> LedgerClock \<Rightarrow> env" where
  "genv_at c clock = \<lparr>env_contract = c, env_sequence = word_of_int (clock_sequence clock)\<rparr>"

definition clock_ok :: "LedgerClock \<Rightarrow> bool" where
  "clock_ok clock \<longleftrightarrow> 0 \<le> clock_sequence clock \<and> clock_sequence clock < 2 ^ 31"

text \<open>The calls that succeed, with their events, in order; calls of other contracts leave the bonds alone.\<close>

inductive published :: "string \<Rightarrow> MockLedgerStore \<Rightarrow> SorobanEvent list \<Rightarrow> bool" for c where
  deployed: "pb_bonds (st_proposalBonds s) = [] \<Longrightarrow> published c s []"
| locked: "published c s es \<Longrightarrow> lock_bond s clock caller proposer (HashBytes h) = (Inr (), s') \<Longrightarrow>
    sint amount = pb_bondAmount (st_proposalBonds s) \<Longrightarrow> clock_ok clock \<Longrightarrow> fits 56 proposer \<Longrightarrow>
    published c s' (es @ [emit_bond_locked (genv_at c clock) proposer h amount])"
| refunded: "published c s es \<Longrightarrow> js_get (pb_bonds (st_proposalBonds s)) (to_hex h) = Some bond \<Longrightarrow>
    refund_bond s clock caller caller' (HashBytes h) pid = (Inr (), s') \<Longrightarrow> sint amount = bd_amount bond \<Longrightarrow>
    clock_ok clock \<Longrightarrow> published c s' (es @ [emit_bond_refunded (genv_at c clock) h (bd_proposer bond) amount])"
| slashed: "published c s es \<Longrightarrow> js_get (pb_bonds (st_proposalBonds s)) (to_hex h) = Some bond \<Longrightarrow>
    slash s clock caller caller' (HashBytes h) recipient = (Inr (), s') \<Longrightarrow> sint amount = bd_amount bond \<Longrightarrow>
    clock_ok clock \<Longrightarrow> fits 56 recipient \<Longrightarrow>
    published c s' (es @ [emit_bond_slashed (genv_at c clock) h (bd_proposer bond) amount recipient])"
| elsewhere: "published c s es \<Longrightarrow> pb_bonds (st_proposalBonds s') = pb_bonds (st_proposalBonds s) \<Longrightarrow>
    published c s' es"

subsection \<open>The mirror\<close>

fun state_text :: "ProposalBondLifecycle \<Rightarrow> string" where
  "state_text BondLocked = ''locked''"
| "state_text BondRefunded = ''refunded''"
| "state_text BondSlashed = ''slashed''"

definition bond_row :: "row \<Rightarrow> string \<times> ProposalBondRecord \<Rightarrow> bool" where
  "bond_row r p \<longleftrightarrow>
     cell r ''description_hash'' = SqlText (fst p) \<and> cell r ''proposer_address'' = SqlText (bd_proposer (snd p)) \<and>
     cell r ''amount'' = SqlInt (bd_amount (snd p)) \<and> cell r ''state'' = SqlText (state_text (bd_state (snd p))) \<and>
     cell r ''locked_ledger'' = SqlInt (bd_lockedLedger (snd p))"

lemma bond_row_nulls: "bond_row r p \<Longrightarrow> nulls_ok proposal_bonds_table r"
  by (simp add: bond_row_def nulls_ok_def proposal_bonds_table_def col_def)

lemma clean_hex [simp]: "clean (to_hex bs)"
proof -
  have "hex_digit n \<noteq> CHR 0x00" if "n < 16" for n
  proof
    assume "hex_digit n = CHR 0x00"
    with hex_value_digit [OF that] show False by (simp add: hex_value_def)
  qed
  then have "CHR 0x00 \<notin> set (to_hex bs)"
    by (induction bs) (auto dest: sym simp: unat_byte_div)
  then show ?thesis by (simp add: clean_def)
qed

lemma list_all2_member: "list_all2 R xs ys \<Longrightarrow> x \<in> set xs \<Longrightarrow> \<exists>y \<in> set ys. R x y"
  by (induction rule: list_all2_induct) auto

lemma locked_row:
  assumes "js_get m (to_hex h) = None" "list_all2 bond_row (db ''proposal_bonds'') m" "fits 56 proposer" "clock_ok clock"
  shows "\<exists>r. exec indexer_schema db [Some (to_hex h), Some proposer, Some (dec_int a), Some (dec_int (clock_sequence clock))]
     (InsertInto ''proposal_bonds''
        [(''description_hash'', Param (Suc 0)), (''proposer_address'', Param 2), (''amount'', Param 3),
         (''state'', Lit (SqlText ''locked'')), (''locked_ledger'', Param 4)] (DoNothing (Some [''description_hash'']))) =
     Inr (1, db(''proposal_bonds'' := db ''proposal_bonds'' @ [r])) \<and>
     bond_row r (to_hex h, \<lparr>bd_proposer = proposer, bd_descriptionHash = to_hex h, bd_amount = a,
       bd_lockedLedger = clock_sequence clock, bd_state = BondLocked\<rparr>)"
proof -
  let ?ps = "[Some (to_hex h), Some proposer, Some (dec_int a), Some (dec_int (clock_sequence clock))]"
  let ?r = "[(''description_hash'', SqlText (to_hex h)), (''proposer_address'', SqlText proposer), (''amount'', SqlInt a),
    (''state'', SqlText ''locked''), (''locked_ledger'', SqlInt (clock_sequence clock)), (''refunded_ledger'', SqlNull),
    (''slashed_ledger'', SqlNull), (''slash_recipient'', SqlNull)]"
  have row: "new_row ?ps
     [(''description_hash'', Param (Suc 0)), (''proposer_address'', Param 2), (''amount'', Param 3),
      (''state'', Lit (SqlText ''locked'')), (''locked_ledger'', Param 4)] (ts_columns proposal_bonds_table) = Inr ?r"
    using assms(3,4)
    by (simp add: proposal_bonds_table_def col_def fits_def clock_ok_def fit_def in_range_def)
  have "SqlText (to_hex h) \<notin> (\<lambda>q. cell q ''description_hash'') ` set (db ''proposal_bonds'')"
  proof
    assume "SqlText (to_hex h) \<in> (\<lambda>q. cell q ''description_hash'') ` set (db ''proposal_bonds'')"
    then obtain q where "q \<in> set (db ''proposal_bonds'')" "cell q ''description_hash'' = SqlText (to_hex h)" by auto
    from list_all2_member [OF assms(2) this(1)] obtain p where "p \<in> set m" "bond_row q p" by blast
    with \<open>cell q _ = _\<close> have "fst p = to_hex h" by (simp add: bond_row_def)
    with \<open>p \<in> set m\<close> assms(1) show False by (force simp: js_get_def map_of_eq_None_iff)
  qed
  moreover have b: "bond_row ?r (to_hex h, \<lparr>bd_proposer = proposer, bd_descriptionHash = to_hex h, bd_amount = a,
       bd_lockedLedger = clock_sequence clock, bd_state = BondLocked\<rparr>)"
    by (simp add: bond_row_def)
  moreover have "ts_refs proposal_bonds_table = []" by (simp add: proposal_bonds_table_def)
  ultimately show ?thesis
    using exec_insert_skip [OF schema_lookups(26) row bond_row_nulls [OF b] table_keys(26), of db]
    by (intro exI [of _ ?r]) simp
qed

lemma closed_rows:
  assumes "list_all2 bond_row (db ''proposal_bonds'') m" "distinct (map fst m)" "map_of m (to_hex h) = Some bond"
    and "in_range INTEGER l" "fits 56 recipient"
  shows "\<exists>rs. exec indexer_schema db [Some (dec_int l), Some (to_hex h)] (UpdateSet ''proposal_bonds''
        [(''state'', Lit (SqlText ''refunded'')), (''refunded_ledger'', Param (Suc 0))] [(''description_hash'', Param 2)]) =
      Inr (length (filter (\<lambda>r. cell r ''description_hash'' = SqlText (to_hex h)) (db ''proposal_bonds'')),
        db(''proposal_bonds'' := rs)) \<and>
      list_all2 bond_row rs (AList.update (to_hex h) (bond\<lparr>bd_state := BondRefunded\<rparr>) m)"
    and "\<exists>rs. exec indexer_schema db [Some (dec_int l), Some recipient, Some (to_hex h)] (UpdateSet ''proposal_bonds''
        [(''state'', Lit (SqlText ''slashed'')), (''slashed_ledger'', Param (Suc 0)), (''slash_recipient'', Param 2)]
        [(''description_hash'', Param 3)]) =
      Inr (length (filter (\<lambda>r. cell r ''description_hash'' = SqlText (to_hex h)) (db ''proposal_bonds'')),
        db(''proposal_bonds'' := rs)) \<and>
      list_all2 bond_row rs (AList.update (to_hex h) (bond\<lparr>bd_state := BondSlashed\<rparr>) m)"
proof -
  let ?P = "\<lambda>r. cell r ''description_hash'' = SqlText (to_hex h)"
  let ?f = "\<lambda>r. AList.update ''state'' (SqlText ''refunded'') (AList.update ''refunded_ledger'' (SqlInt l) r)"
  let ?g = "\<lambda>r. AList.update ''state'' (SqlText ''slashed'') (AList.update ''slashed_ledger'' (SqlInt l)
    (AList.update ''slash_recipient'' (SqlText recipient) r))"
  have nulls: "nulls_ok proposal_bonds_table r" if "r \<in> set (db ''proposal_bonds'')" for r
    using list_all2_member [OF assms(1) that] bond_row_nulls by blast
  note t = proposal_bonds_table_def col_def column_type_def set_refs_def cell_update nulls_ok_def fits_def fit_def
  have "list_all2 bond_row (map (\<lambda>r. if ?P r then ?f r else r) (db ''proposal_bonds''))
      (AList.update (to_hex h) (bond\<lparr>bd_state := BondRefunded\<rparr>) m)"
    using assms(1-3) by (rule rows_update) (auto simp: bond_row_def cell_update)
  moreover have "exec indexer_schema db [Some (dec_int l), Some (to_hex h)] (UpdateSet ''proposal_bonds''
        [(''state'', Lit (SqlText ''refunded'')), (''refunded_ledger'', Param (Suc 0))] [(''description_hash'', Param 2)]) =
      Inr (length (filter ?P (db ''proposal_bonds'')),
        db(''proposal_bonds'' := map (\<lambda>r. if ?P r then ?f r else r) (db ''proposal_bonds'')))"
    using nulls assms(4) by (intro exec_update_ok [where ts = proposal_bonds_table]) (auto simp: t)
  ultimately show "\<exists>rs. exec indexer_schema db [Some (dec_int l), Some (to_hex h)] (UpdateSet ''proposal_bonds''
        [(''state'', Lit (SqlText ''refunded'')), (''refunded_ledger'', Param (Suc 0))] [(''description_hash'', Param 2)]) =
      Inr (length (filter ?P (db ''proposal_bonds'')), db(''proposal_bonds'' := rs)) \<and>
      list_all2 bond_row rs (AList.update (to_hex h) (bond\<lparr>bd_state := BondRefunded\<rparr>) m)" by blast
  have "list_all2 bond_row (map (\<lambda>r. if ?P r then ?g r else r) (db ''proposal_bonds''))
      (AList.update (to_hex h) (bond\<lparr>bd_state := BondSlashed\<rparr>) m)"
    using assms(1-3) by (rule rows_update) (auto simp: bond_row_def cell_update)
  moreover have "exec indexer_schema db [Some (dec_int l), Some recipient, Some (to_hex h)] (UpdateSet ''proposal_bonds''
        [(''state'', Lit (SqlText ''slashed'')), (''slashed_ledger'', Param (Suc 0)), (''slash_recipient'', Param 2)]
        [(''description_hash'', Param 3)]) =
      Inr (length (filter ?P (db ''proposal_bonds'')),
        db(''proposal_bonds'' := map (\<lambda>r. if ?P r then ?g r else r) (db ''proposal_bonds'')))"
    using nulls assms(4,5) by (intro exec_update_ok [where ts = proposal_bonds_table]) (auto simp: t)
  ultimately show "\<exists>rs. exec indexer_schema db [Some (dec_int l), Some recipient, Some (to_hex h)]
      (UpdateSet ''proposal_bonds''
        [(''state'', Lit (SqlText ''slashed'')), (''slashed_ledger'', Param (Suc 0)), (''slash_recipient'', Param 2)]
        [(''description_hash'', Param 3)]) =
      Inr (length (filter ?P (db ''proposal_bonds'')), db(''proposal_bonds'' := rs)) \<and>
      list_all2 bond_row rs (AList.update (to_hex h) (bond\<lparr>bd_state := BondSlashed\<rparr>) m)" by blast
qed

subsection \<open>One event\<close>

lemma update_absent: "map_of m k = None \<Longrightarrow> AList.update k v m = m @ [(k, v)]"
  by (induction m) (auto split: if_splits)

lemma uint_sequence: "clock_ok clock \<Longrightarrow> uint (word_of_int (clock_sequence clock) :: u32) = clock_sequence clock"
  by (simp add: clock_ok_def uint_word_of_int)

lemma bond_event:
  assumes "apart config" "c = cfg_proposalBonds config" "c \<noteq> []" "loggable env (rpc_of i tx t ev)" "ev_contractId ev = c"
    and h: "\<And>w1. ix_db w1 ''proposal_bonds'' = ix_db w ''proposal_bonds'' \<Longrightarrow>
      \<exists>w'. switch proposalBonds_cases (rpc_of i tx t ev) w1 = (Inr (), w') \<and> P (ix_db w' ''proposal_bonds'')"
  shows "\<exists>w'. process_event env config (rpc_of i tx t ev) w = (Inr (), w') \<and> P (ix_db w' ''proposal_bonds'')"
proof -
  obtain w1 where l: "logToEventLog env (rpc_of i tx t ev) w = (Inr (), w1)" using log_succeeds [OF assms(4)] by blast
  then have "ix_db w1 ''proposal_bonds'' = ix_db w ''proposal_bonds''" by (rule keeps_frame [OF log_keeps]) simp
  from h [OF this] show ?thesis
    using l dispatch_by_contract(4) [OF assms(1) _ assms(3,2), of "rpc_of i tx t ev"] assms(5)
    by (simp add: process_event_def)
qed

lemma bond_handlers:
  "switch proposalBonds_cases (rpc_of i tx t (emit_bond_locked (genv_at c clock) proposer h amount)) w =
     run_handler (handleBondLocked (rpc_of i tx t (emit_bond_locked (genv_at c clock) proposer h amount))) w"
  "switch proposalBonds_cases (rpc_of i tx t (emit_bond_refunded (genv_at c clock) h proposer amount)) w =
     run_handler (handleBondRefunded (rpc_of i tx t (emit_bond_refunded (genv_at c clock) h proposer amount))) w"
  "switch proposalBonds_cases (rpc_of i tx t (emit_bond_slashed (genv_at c clock) h proposer amount recipient)) w =
     run_handler (handleBondSlashed (rpc_of i tx t (emit_bond_slashed (genv_at c clock) h proposer amount recipient))) w"
  by (simp_all add: switch_def event_type_def topic_def rpc_of_def TOPIC_MAP_def doing_def bond_emitters
      proposalBonds_cases_def)

lemma lock_step:
  assumes "list_all2 bond_row (ix_db w ''proposal_bonds'') m" "js_get m (to_hex h) = None" "clock_ok clock" "fits 56 proposer"
  shows "\<exists>w'. switch proposalBonds_cases (rpc_of i tx t (emit_bond_locked (genv_at c clock) proposer h amount)) w =
      (Inr (), w') \<and>
    list_all2 bond_row (ix_db w' ''proposal_bonds'') (js_set m (to_hex h)
      \<lparr>bd_proposer = proposer, bd_descriptionHash = to_hex h, bd_amount = sint amount,
       bd_lockedLedger = clock_sequence clock, bd_state = BondLocked\<rparr>)"
proof -
  from locked_row [where db = "ix_db w", OF assms(2,1,4,3), of "sint amount"] obtain r where
    r: "exec indexer_schema (ix_db w) [Some (to_hex h), Some proposer, Some (dec_int (sint amount)),
        Some (dec_int (clock_sequence clock))] (InsertInto ''proposal_bonds''
        [(''description_hash'', Param (Suc 0)), (''proposer_address'', Param 2), (''amount'', Param 3),
         (''state'', Lit (SqlText ''locked'')), (''locked_ledger'', Param 4)] (DoNothing (Some [''description_hash'']))) =
      Inr (1, (ix_db w)(''proposal_bonds'' := ix_db w ''proposal_bonds'' @ [r]))"
    and b: "bond_row r (to_hex h, \<lparr>bd_proposer = proposer, bd_descriptionHash = to_hex h, bd_amount = sint amount,
       bd_lockedLedger = clock_sequence clock, bd_state = BondLocked\<rparr>)"
    by blast
  have "js_set m (to_hex h) v = m @ [(to_hex h, v)]" for v
    using assms(2) by (simp add: js_set_def js_get_def update_absent)
  moreover have "list_all2 bond_row (ix_db w ''proposal_bonds'' @ [r]) (m @ [(to_hex h, \<lparr>bd_proposer = proposer,
      bd_descriptionHash = to_hex h, bd_amount = sint amount, bd_lockedLedger = clock_sequence clock,
      bd_state = BondLocked\<rparr>)])"
    using assms(1) b by (intro list_all2_appendI) simp_all
  ultimately show ?thesis using r
    unfolding bond_handlers
    by (simp add: run_handler_def handleBondLocked_def with_bond_data_def
      bond_emitters topic_def native_i128_def ledger_param_def js_param_def query_def message_def Let_def genv_at_def
      uint_sequence [OF assms(3)])
qed

lemma close_step:
  assumes "list_all2 bond_row (ix_db w ''proposal_bonds'') m" "distinct (map fst m)" "js_get m (to_hex h) = Some bond"
    and "clock_ok clock" "fits 56 recipient"
  shows "\<exists>w'. switch proposalBonds_cases (rpc_of i tx t (emit_bond_refunded (genv_at c clock) h proposer amount)) w =
      (Inr (), w') \<and>
    list_all2 bond_row (ix_db w' ''proposal_bonds'') (js_set m (to_hex h) (bond\<lparr>bd_state := BondRefunded\<rparr>))"
    and "\<exists>w'. switch proposalBonds_cases (rpc_of i tx t (emit_bond_slashed (genv_at c clock) h proposer amount recipient)) w =
      (Inr (), w') \<and>
    list_all2 bond_row (ix_db w' ''proposal_bonds'') (js_set m (to_hex h) (bond\<lparr>bd_state := BondSlashed\<rparr>))"
proof -
  have range: "in_range INTEGER (clock_sequence clock)" using assms(4) by (simp add: clock_ok_def in_range_def)
  note run = run_handler_def handleBondRefunded_def handleBondSlashed_def with_bond_data_def
      bond_emitters topic_def native_i128_def ledger_param_def js_param_def query_def message_def Let_def genv_at_def
      uint_sequence [OF assms(4)] js_set_def
  note rows = closed_rows [where db = "ix_db w", OF assms(1,2) assms(3) [unfolded js_get_def] range assms(5)]
  show "\<exists>w'. switch proposalBonds_cases (rpc_of i tx t (emit_bond_refunded (genv_at c clock) h proposer amount)) w =
      (Inr (), w') \<and>
    list_all2 bond_row (ix_db w' ''proposal_bonds'') (js_set m (to_hex h) (bond\<lparr>bd_state := BondRefunded\<rparr>))"
    using rows(1) unfolding bond_handlers by (auto simp: run)
  show "\<exists>w'. switch proposalBonds_cases (rpc_of i tx t (emit_bond_slashed (genv_at c clock) h proposer amount recipient)) w =
      (Inr (), w') \<and>
    list_all2 bond_row (ix_db w' ''proposal_bonds'') (js_set m (to_hex h) (bond\<lparr>bd_state := BondSlashed\<rparr>))"
    using rows(2) unfolding bond_handlers by (auto simp: run)
qed

subsection \<open>The refinement\<close>

lemma loop_append:
  "process_loop env config Some xs l w = (Inr n, w1) \<Longrightarrow>
     process_loop env config Some (xs @ ys) l w = process_loop env config Some ys n w1"
  by (induction xs arbitrary: l w) (auto split: prod.splits sum.splits)

lemma published_keys: "published c s es \<Longrightarrow> distinct (map fst (pb_bonds (st_proposalBonds s)))"
proof (induction rule: published.induct)
  case (locked s es clock caller proposer h s' amount)
  from locked(2) show ?case
    by (rule lock_bond_cases) (use locked(6) in \<open>auto simp: js_set_def distinct_update\<close>)
next
  case (refunded s es h bond clock caller caller' pid s' amount)
  from refunded(3) show ?case
    by (rule refund_bond_cases) (use refunded(6) in \<open>auto simp: js_set_def distinct_update\<close>)
next
  case (slashed s es h bond clock caller caller' recipient s' amount)
  from slashed(3) show ?case
    by (rule slash_cases) (use slashed(7) in \<open>auto simp: js_set_def distinct_update\<close>)
qed simp_all

lemma sender:
  "ev_contractId (emit_bond_locked (genv_at c clock) proposer h amount) = c"
  "ev_contractId (emit_bond_refunded (genv_at c clock) h proposer amount) = c"
  "ev_contractId (emit_bond_slashed (genv_at c clock) h proposer amount recipient) = c"
  by (simp_all add: bond_emitters genv_at_def)

text \<open>One more event of the contract.\<close>

lemma one_more:
  assumes "\<exists>n w1. process_loop env config Some rs l w = (Inr n, w1) \<and> list_all2 bond_row (ix_db w1 ''proposal_bonds'') m"
    and "apart config" "c = cfg_proposalBonds config" "c \<noteq> []" "loggable env (rpc_of i tx t ev)" "ev_contractId ev = c"
    and step: "\<And>w2. list_all2 bond_row (ix_db w2 ''proposal_bonds'') m \<Longrightarrow>
      \<exists>w'. switch proposalBonds_cases (rpc_of i tx t ev) w2 = (Inr (), w') \<and>
        list_all2 bond_row (ix_db w' ''proposal_bonds'') m'"
  shows "\<exists>n w'. process_loop env config Some (rs @ [rpc_of i tx t ev]) l w = (Inr n, w') \<and>
    list_all2 bond_row (ix_db w' ''proposal_bonds'') m'"
proof -
  from assms(1) obtain n w1 where w1: "process_loop env config Some rs l w = (Inr n, w1)"
    and m: "list_all2 bond_row (ix_db w1 ''proposal_bonds'') m" by blast
  from bond_event [OF assms(2-6), where P = "\<lambda>rs. list_all2 bond_row rs m'" and w = w1] step m
  obtain w' where "process_event env config (rpc_of i tx t ev) w1 = (Inr (), w')"
    "list_all2 bond_row (ix_db w' ''proposal_bonds'') m'" by fastforce
  then show ?thesis using loop_append [OF w1] by auto
qed

text \<open>C22: The indexer's table of bonds is the contract's: after the indexer has processed the events that the bonds contract
  published along any sequence of successful locks, refunds and slashes (with calls of other contracts in between), each
  bond of the contract has its row, in the order in which the bonds were locked, with the proposer, the amount, the ledger
  of the lock and the present state, and there is no other row; the batch is processed to its end.\<close>

theorem bonds_table_mirrors_contract:
  assumes "published c s es" "list_all2 (\<lambda>ev rpc. \<exists>i tx t. rpc = rpc_of i tx t ev) es rpcs"
    and "list_all (loggable env) rpcs" "apart config" "c = cfg_proposalBonds config" "c \<noteq> []"
    and "ix_db w ''proposal_bonds'' = []"
  shows "\<exists>n w'. process_loop env config Some rpcs l w = (Inr n, w') \<and>
    list_all2 bond_row (ix_db w' ''proposal_bonds'') (pb_bonds (st_proposalBonds s))"
  using assms(1-3)
proof (induction arbitrary: rpcs rule: published.induct)
  case (deployed s)
  then show ?case using assms(7) by simp
next
  case (locked s es clock caller proposer h s' amount)
  then obtain rs i tx t where rpcs: "rpcs = rs @ [rpc_of i tx t (emit_bond_locked (genv_at c clock) proposer h amount)]"
    and rs: "list_all2 (\<lambda>ev rpc. \<exists>i tx t. rpc = rpc_of i tx t ev) es rs"
    by (auto simp: list_all2_append1 list_all2_Cons1)
  from locked.hyps(2) have "js_get (pb_bonds (st_proposalBonds s)) (to_hex h) = None"
    and bonds: "pb_bonds (st_proposalBonds s') = js_set (pb_bonds (st_proposalBonds s)) (to_hex h)
      \<lparr>bd_proposer = proposer, bd_descriptionHash = to_hex h, bd_amount = sint amount,
        bd_lockedLedger = clock_sequence clock, bd_state = BondLocked\<rparr>"
    using locked.hyps(3) by (auto elim!: lock_bond_cases)
  note step = lock_step [OF _ this(1) locked.hyps(4,5)]
  show ?case
    unfolding rpcs bonds
    by (rule one_more [OF locked.IH assms(4,5,6) _ _ step]) (use rs locked.prems(2) rpcs in \<open>auto simp: sender\<close>)
next
  case (refunded s es h bond clock caller caller' pid s' amount)
  then obtain rs i tx t where rpcs: "rpcs = rs @ [rpc_of i tx t
      (emit_bond_refunded (genv_at c clock) h (bd_proposer bond) amount)]"
    and rs: "list_all2 (\<lambda>ev rpc. \<exists>i tx t. rpc = rpc_of i tx t ev) es rs"
    by (auto simp: list_all2_append1 list_all2_Cons1)
  from refunded.hyps(3) have bonds: "pb_bonds (st_proposalBonds s') =
      js_set (pb_bonds (st_proposalBonds s)) (to_hex h) (bond\<lparr>bd_state := BondRefunded\<rparr>)"
    using refunded.hyps(2) by (auto elim!: refund_bond_cases)
  have "fits 56 []" by (simp add: fits_def clean_def char_count_def)
  note step = close_step(1) [OF _ published_keys [OF refunded.hyps(1)] refunded.hyps(2,5) this]
  show ?case
    unfolding rpcs bonds
    by (rule one_more [OF refunded.IH assms(4,5,6) _ _ step]) (use rs refunded.prems(2) rpcs in \<open>auto simp: sender\<close>)
next
  case (slashed s es h bond clock caller caller' recipient s' amount)
  then obtain rs i tx t where rpcs: "rpcs = rs @ [rpc_of i tx t
      (emit_bond_slashed (genv_at c clock) h (bd_proposer bond) amount recipient)]"
    and rs: "list_all2 (\<lambda>ev rpc. \<exists>i tx t. rpc = rpc_of i tx t ev) es rs"
    by (auto simp: list_all2_append1 list_all2_Cons1)
  from slashed.hyps(3) have bonds: "pb_bonds (st_proposalBonds s') =
      js_set (pb_bonds (st_proposalBonds s)) (to_hex h) (bond\<lparr>bd_state := BondSlashed\<rparr>)"
    using slashed.hyps(2) by (auto elim!: slash_cases)
  note step = close_step(2) [OF _ published_keys [OF slashed.hyps(1)] slashed.hyps(2,5,6)]
  show ?case
    unfolding rpcs bonds
    by (rule one_more [OF slashed.IH assms(4,5,6) _ _ step]) (use rs slashed.prems(2) rpcs in \<open>auto simp: sender\<close>)
next
  case (elsewhere s es s')
  then show ?case by simp
qed

subsection \<open>A run\<close>

definition ix_demo_bond_events :: "SorobanEvent list" where
  "ix_demo_bond_events =
     [emit_bond_locked (genv_at ''CBND'' (demo_clock 1000)) ''alice'' [171, 205] 40,
      emit_bond_refunded (genv_at ''CBND'' (demo_clock 1001000)) [171, 205] ''alice'' 40]"

lemma ix_demo_published: "published ''CBND'' demo_refunded ix_demo_bond_events"
proof -
  let ?bond = "\<lparr>bd_proposer = ''alice'', bd_descriptionHash = ''abcd'', bd_amount = 40, bd_lockedLedger = 1000,
    bd_state = BondLocked\<rparr>"
  have start: "published ''CBND'' demo_store []" by (rule published.deployed) code_simp
  have "fst (lock_bond demo_store (demo_clock 1000) ''alice'' ''alice'' (HashBytes [171, 205])) = Inr ()" by code_simp
  then have lock: "lock_bond demo_store (demo_clock 1000) ''alice'' ''alice'' (HashBytes [171, 205]) = (Inr (), demo_locked)"
    by (simp add: demo_locked_def prod_eq_iff)
  have "sint (40 :: i128) = pb_bondAmount (st_proposalBonds demo_store)" "clock_ok (demo_clock 1000)" "fits 56 ''alice''"
    by code_simp+
  from published.locked [OF start lock this] have locked: "published ''CBND'' demo_locked
      [emit_bond_locked (genv_at ''CBND'' (demo_clock 1000)) ''alice'' [171, 205] 40]" by simp
  have "fst (refund_bond demo_locked (demo_clock 1001000) ''carol'' ''carol'' (HashBytes [171, 205]) 7) = Inr ()"
    by code_simp
  then have refund: "refund_bond demo_locked (demo_clock 1001000) ''carol'' ''carol'' (HashBytes [171, 205]) 7 =
      (Inr (), demo_refunded)" by (simp add: demo_refunded_def prod_eq_iff)
  have get: "js_get (pb_bonds (st_proposalBonds demo_locked)) (to_hex [171, 205]) = Some ?bond" by code_simp
  have "sint (40 :: i128) = bd_amount ?bond" "clock_ok (demo_clock 1001000)" by code_simp+
  from published.refunded [OF locked get refund this] show ?thesis by (simp add: ix_demo_bond_events_def)
qed

definition ix_demo_bond_feed :: "RpcEvent list" where
  "ix_demo_bond_feed = map2 (\<lambda>i ev. rpc_of i ''ab'' JUndefined ev) [''1-1'', ''2-1''] ix_demo_bond_events"

theorem bonds_table_mirrors_contract_witness:
  "map (\<lambda>r. (cell r ''description_hash'', cell r ''state''))
     (ix_db (snd (process_loop ix_demo_env ix_demo_config Some ix_demo_bond_feed 0 ix_demo_world)) ''proposal_bonds'') =
   [(SqlText ''abcd'', SqlText ''refunded'')]"
proof -
  have feed: "list_all2 (\<lambda>ev rpc. \<exists>i tx t. rpc = rpc_of i tx t ev) ix_demo_bond_events ix_demo_bond_feed"
    by (auto simp: ix_demo_bond_feed_def ix_demo_bond_events_def)
  have loggable: "list_all (loggable ix_demo_env) ix_demo_bond_feed" by code_simp
  have "''CBND'' = cfg_proposalBonds ix_demo_config" "''CBND'' \<noteq> []" "ix_db ix_demo_world ''proposal_bonds'' = []"
    by (simp_all add: ix_demo_config_def ix_demo_world_def)
  from bonds_table_mirrors_contract [OF ix_demo_published feed loggable ix_demo_apart this, of 0]
  obtain n w' where run: "process_loop ix_demo_env ix_demo_config Some ix_demo_bond_feed 0 ix_demo_world = (Inr n, w')"
    and w': "list_all2 bond_row (ix_db w' ''proposal_bonds'') (pb_bonds (st_proposalBonds demo_refunded))"
    by blast
  have "pb_bonds (st_proposalBonds demo_refunded) =
      [(''abcd'', \<lparr>bd_proposer = ''alice'', bd_descriptionHash = ''abcd'', bd_amount = 40, bd_lockedLedger = 1000,
        bd_state = BondRefunded\<rparr>)]"
    by code_simp
  then show ?thesis using w' by (auto simp: run list_all2_Cons2 bond_row_def)
qed

end
