(* ===== verification/IndexerDrift.thy ===== *)
theory IndexerDrift
  imports IndexerGaps
begin

section \<open>Where the indexer's tables leave the contracts\<close>

text \<open>
  Runs in which every event is processed and the rows nevertheless say something else than the contract: events of the vote
  escrow that name their fields differently from what the handler looks for, and a batch of timelock operations that is scheduled
  again after it was cancelled.
\<close>

definition drift_event :: "nat \<Rightarrow> SorobanEvent \<Rightarrow> RpcEvent" where
  "drift_event i ev = rpc_of (dec_nat i) ''ab'' JUndefined ev"

definition drift_config :: IndexerConfig where
  "drift_config = ix_demo_config\<lparr>cfg_voteEscrow := ''CESC''\<rparr>"

definition drift_rows :: "SorobanEvent list \<Rightarrow> string \<Rightarrow> string list \<Rightarrow> int option \<times> sql_value list list" where
  "drift_rows evs t cs =
     (case process_loop ix_demo_env drift_config Some (map2 drift_event [0..<length evs] evs) 0 ix_demo_world of
        (r, w) \<Rightarrow> ((case r of Inl e \<Rightarrow> None | Inr n \<Rightarrow> Some n), map (\<lambda>row. map (cell row) cs) (ix_db w t)))"

text \<open>A lock of 500 that is increased by 100, and one that is extended: the rows then hold zeros.\<close>

lemma escrow_lock_zeroed:
  fixes genv
  defines "genv \<equiv> \<lparr>env_contract = ''CESC'', env_sequence = 9\<rparr>"
  shows "drift_rows [emit_lock_created genv ''GA'' 500 900 700] ''vote_escrow_locks''
      [''amount'', ''end_ledger'', ''initial_voting_power''] = (Some 9, [[SqlInt 500, SqlInt 900, SqlInt 700]])"
    and "drift_rows [emit_lock_created genv ''GA'' 500 900 700, emit_lock_increased genv ''GA'' 100 840]
      ''vote_escrow_locks'' [''amount'', ''end_ledger'', ''initial_voting_power''] = (Some 9, [[SqlInt 0, SqlInt 0, SqlInt 0]])"
    and "drift_rows [emit_lock_created genv ''GA'' 500 900 700, emit_lock_extended genv ''GA'' 900 1200]
      ''vote_escrow_locks'' [''amount'', ''end_ledger'', ''initial_voting_power''] = (Some 9, [[SqlInt 0, SqlInt 0, SqlInt 0]])"
  unfolding genv_def by code_simp+

text \<open>A batch that is cancelled and scheduled again (the contract accepts it) keeps the status of the first time.\<close>

lemma rescheduled_batch_stays_cancelled:
  fixes genv
  defines "genv \<equiv> \<lparr>env_contract = ''CTIM'', env_sequence = 9\<rparr>"
  shows "drift_rows [emit_batch_operation_scheduled genv [1, 2] [''CTRE''] [''spend''] 100 200,
       emit_batch_operation_cancelled genv [1, 2] ''GA'', emit_batch_operation_scheduled genv [1, 2] [''CTRE''] [''spend''] 300 400]
      ''timelock_batch_operations'' [''batch_op_id'', ''ready_at'', ''status''] =
    (Some 9, [[SqlText ''0102'', SqlInt 300, SqlText ''cancelled'']])"
  unfolding genv_def by code_simp

end
