(* ===== verification/TreasuryPages.thy ===== *)
theory TreasuryPages
  imports TreasuryProjection SqlFacts
begin

section \<open>The projection of the treasury is complete\<close>

text \<open>
  The loops of \<^verbatim>\<open>treasuryReader.ts\<close> against a contract that answers with slices, as \<^verbatim>\<open>get_streams\<close> and
  \<^verbatim>\<open>get_stream_spends\<close> of \<^verbatim>\<open>contracts/treasury/src/streams.rs\<close> do: they return, and with everything there is, whatever its
  number; a value that cannot be read is the error of the whole.
\<close>

subsection \<open>Pages\<close>

definition prepend :: "'a list \<Rightarrow> failure + 'a list \<Rightarrow> failure + 'a list" where
  "prepend us r = (case r of Inl e \<Rightarrow> Inl e | Inr vs \<Rightarrow> Inr (us @ vs))"

lemma prepend_simps [simp]:
  "prepend us (Inl e) = Inl e" "prepend us (Inr vs) = Inr (us @ vs)" "prepend [] r = r"
  "prepend us (prepend vs r) = prepend (us @ vs) r"
  by (auto simp: prepend_def split: sum.splits)

lemma map_throw_append:
  "map_throw f (xs @ ys) = (case map_throw f xs of Inl e \<Rightarrow> Inl e | Inr us \<Rightarrow> prepend us (map_throw f ys))"
  by (induction xs) (auto simp: prepend_def split: sum.splits)

lemma map_throw_length: "map_throw f xs = Inr ys \<Longrightarrow> length ys = length xs"
  by (induction xs arbitrary: ys) (auto split: sum.splits)

lemma map_throw_drop:
  shows "map_throw f (take n (drop i xs)) = Inl e \<Longrightarrow> map_throw f (drop i xs) = Inl e"
    and "map_throw f (take n (drop i xs)) = Inr us \<Longrightarrow>
      map_throw f (drop i xs) = prepend us (map_throw f (drop (i + n) xs))"
proof -
  have "map_throw f (drop i xs) = map_throw f (take n (drop i xs) @ drop n (drop i xs))" by (simp only: append_take_drop_id)
  then show "map_throw f (take n (drop i xs)) = Inl e \<Longrightarrow> map_throw f (drop i xs) = Inl e"
    and "map_throw f (take n (drop i xs)) = Inr us \<Longrightarrow>
      map_throw f (drop i xs) = prepend us (map_throw f (drop (i + n) xs))"
    by (simp_all only: map_throw_append drop_drop add.commute [of n i] sum.case)
qed

lemma stream_pages_slices:
  assumes "\<And>i. read i = map_throw f (take pageSize (drop i xs))"
  shows "stream_pages read offset us = Some (prepend us (map_throw f (drop offset xs)))"
proof (induction "length xs - offset" arbitrary: offset us rule: less_induct)
  case less
  show ?case
  proof (cases "map_throw f (take pageSize (drop offset xs))")
    case (Inl e)
    then show ?thesis by (simp add: stream_pages.simps assms map_throw_drop(1))
  next
    case (Inr page)
    note step = map_throw_drop(2) [OF Inr]
    have len: "length page = min pageSize (length xs - offset)" using map_throw_length [OF Inr] by simp
    show ?thesis
    proof (cases "length page < pageSize")
      case True
      then have "drop (offset + pageSize) xs = []" using len by simp
      then show ?thesis using Inr step True by (simp add: stream_pages.simps assms)
    next
      case False
      then have "length xs - (offset + pageSize) < length xs - offset" using len by (auto simp: pageSize_def)
      from less.hyps [OF this, of "us @ page"] show ?thesis using Inr step False
        by (subst stream_pages.simps) (simp add: assms)
    qed
  qed
qed

lemma spend_pages_slices:
  assumes "\<And>i n. read i n = map_throw f (take n (drop i xs))"
  shows "spend_pages read c offset us = prepend us (map_throw f (drop offset (take c xs)))"
proof (induction "c - offset" arbitrary: offset us rule: less_induct)
  case less
  note unfold = spend_pages.simps [of read c offset us]
  show ?case
  proof (cases "offset < c")
    case False
    then show ?thesis by (simp add: unfold)
  next
    case True
    have slice: "take (min pageSize (c - offset)) (drop offset xs) = take pageSize (drop offset (take c xs))"
      by (simp add: drop_take)
    show ?thesis
    proof (cases "map_throw f (take pageSize (drop offset (take c xs)))")
      case (Inl e)
      then show ?thesis using True by (simp only: unfold assms slice map_throw_drop(1) [OF Inl]) simp
    next
      case (Inr page)
      note step = map_throw_drop(2) [OF Inr]
      have len: "length page = min pageSize (length (take c xs) - offset)" using map_throw_length [OF Inr] by simp
      show ?thesis
      proof (cases "length page = 0")
        case False
        have "c - (offset + pageSize) < c - offset" using True by (simp add: pageSize_def)
        from less.hyps [OF this, of "us @ page"] show ?thesis using Inr False True
          by (simp only: unfold assms slice step) simp
      next
        case none: True
        then have "length (take c xs) \<le> offset" using len by (auto simp: pageSize_def)
        then have "drop offset (take c xs) = []" by simp
        then show ?thesis using Inr True by (simp only: unfold assms slice) simp
      qed
    qed
  qed
qed

subsection \<open>Rows\<close>

text \<open>The row of a stream or of a spend holds every value that was read.\<close>

definition stream_cells :: "TreasuryStreamRecord \<Rightarrow> (string \<times> string option) list" where
  "stream_cells s =
     [(''stream_id'', Some (st_streamId s)), (''name'', Some (st_name s)), (''owner'', Some (st_owner s)),
      (''token'', Some (st_token s)), (''total_allocated'', Some (st_totalAllocated s)),
      (''total_spent'', Some (st_totalSpent s)), (''start_ledger'', number_param (st_startLedger s)),
      (''end_ledger'', number_param (st_endLedger s)), (''is_active'', flag_param (st_isActive s)),
      (''is_revoked'', flag_param (st_isRevoked s)), (''revoked_at_ledger'', number_or_null (st_revokedAtLedger s)),
      (''max_single_spend'', Some (st_maxSingleSpend s)), (''cooldown_ledgers'', number_param (st_cooldownLedgers s)),
      (''last_spend_ledger'', number_param (st_lastSpendLedger s)), (''spend_count'', number_param (st_spendCount s)),
      (''created_by_proposal_id'', Some (st_createdByProposalId s))]"

definition spend_cells :: "TreasuryStreamSpendRecord \<Rightarrow> (string \<times> string option) list" where
  "spend_cells s =
     [(''stream_id'', Some (sp_streamId s)), (''spend_index'', number_param (sp_spendIndex s)),
      (''recipient'', Some (sp_recipient s)), (''amount'', Some (sp_amount s)), (''memo'', Some (sp_memo s)),
      (''executed_at_ledger'', number_param (sp_executedAtLedger s)), (''executed_by'', Some (sp_executedBy s))]"

definition shows_cells :: "table_schema \<Rightarrow> (string \<times> string option) list \<Rightarrow> row \<Rightarrow> bool" where
  "shows_cells ts cs r = list_all (\<lambda>(c, p). coerce (column_type ts c) p = Inr (cell r c)) cs"

definition shows_stream :: "database \<Rightarrow> TreasuryStreamRecord \<Rightarrow> bool" where
  "shows_stream db s = list_ex (shows_cells treasury_streams_table (stream_cells s)) (db ''treasury_streams'')"

definition shows_spend :: "database \<Rightarrow> TreasuryStreamSpendRecord \<Rightarrow> bool" where
  "shows_spend db s = list_ex (shows_cells treasury_stream_spends_table (spend_cells s)) (db ''treasury_stream_spends'')"

text \<open>A statement that passes the parameter of each of the cells to its column and sets the column on a conflict.\<close>

definition passes :: "table_schema \<Rightarrow> string option list \<Rightarrow> (string \<times> sql_expr) list \<Rightarrow> string list \<Rightarrow>
    (string \<times> sql_expr) list \<Rightarrow> (string \<times> string option) list \<Rightarrow> bool" where
  "passes ts ps vs ks sets cs =
     list_all (\<lambda>(c, p). find (\<lambda>k. col_name k = c) (ts_columns ts) \<noteq> None \<and>
       (case map_of vs c of Some (Param i) \<Rightarrow> parameter ps i = p | _ \<Rightarrow> False) \<and>
       (c \<in> set ks \<or> map_of sets c = Some (Excluded c))) cs"

lemma upsert_shows:
  assumes "exec indexer_schema db ps (InsertInto t vs (DoUpdate ks sets)) = Inr (n, db')"
    and "map_of indexer_schema t = Some ts" "distinct (map fst sets)" "set ks \<inter> set (map fst sets) = {}"
    and "distinct (map col_name (ts_columns ts))" "passes ts ps vs ks sets cs"
  shows "list_ex (shows_cells ts cs) (db' t)"
    and "list_ex (shows_cells ts ds) (db t) \<Longrightarrow>
      list_all (\<lambda>k. map_of cs k \<noteq> None \<and> map_of ds k \<noteq> None) ks \<Longrightarrow>
      list_ex (\<lambda>k. coerce (column_type ts k) (the (map_of cs k)) \<noteq> coerce (column_type ts k) (the (map_of ds k))) ks \<Longrightarrow>
      list_ex (shows_cells ts ds) (db' t)"
proof -
  from upserted [OF assms(1-4)] obtain r q where r: "new_row ps vs (ts_columns ts) = Inr r" and q: "q \<in> set (db' t)"
    "same_cells ks r q" "\<And>c. (c, Excluded c) \<in> set sets \<Longrightarrow> cell q c = cell r c"
    and kept: "\<And>p. p \<in> set (db t) \<Longrightarrow> \<not> same_key ks r p \<Longrightarrow> p \<in> set (db' t)" by metis
  have given: "coerce (column_type ts c) p = Inr (cell r c)" if "(c, p) \<in> set cs" for c p
  proof -
    from that assms(6) have c: "find (\<lambda>k. col_name k = c) (ts_columns ts) \<noteq> None"
      "case map_of vs c of Some (Param i) \<Rightarrow> parameter ps i = p | _ \<Rightarrow> False" by (auto simp: passes_def list_all_iff)
    from c(1) obtain k where k': "find (\<lambda>k. col_name k = c) (ts_columns ts) = Some k" by blast
    then have k: "k \<in> set (ts_columns ts)" "col_name k = c" "column_type ts c = col_type k"
      by (simp_all add: column_type_def) (auto simp: find_Some_iff)
    from c(2) obtain i where i: "map_of vs c = Some (Param i)" "parameter ps i = p"
      by (auto split: option.splits sql_expr.splits)
    show ?thesis using new_row_cell [OF r k(1) assms(5)] k(2,3) i by simp
  qed
  have on: "c \<in> set ks \<or> (c, Excluded c) \<in> set sets" if "(c, p) \<in> set cs" for c p
    using that assms(6) by (auto simp: passes_def list_all_iff dest: map_of_SomeD)
  have "cell q c = cell r c" if "(c, p) \<in> set cs" for c p using on [OF that] q(2,3) by (auto simp: same_cells_def)
  then have "shows_cells ts cs q" using given by (auto simp: shows_cells_def list_all_iff)
  then show "list_ex (shows_cells ts cs) (db' t)" using q(1) by (auto simp: list_ex_iff)
  assume ds: "list_ex (shows_cells ts ds) (db t)" "list_all (\<lambda>k. map_of cs k \<noteq> None \<and> map_of ds k \<noteq> None) ks"
    "list_ex (\<lambda>k. coerce (column_type ts k) (the (map_of cs k)) \<noteq> coerce (column_type ts k) (the (map_of ds k))) ks"
  then obtain p where p: "p \<in> set (db t)" "shows_cells ts ds p" by (auto simp: list_ex_iff)
  from ds(2,3) obtain k x y where k: "k \<in> set ks" "map_of cs k = Some x" "map_of ds k = Some y"
    "coerce (column_type ts k) x \<noteq> coerce (column_type ts k) y"
    by (force simp: list_ex_iff list_all_iff)
  have "coerce (column_type ts k) x = Inr (cell r k)" using given k(2) by (auto dest: map_of_SomeD)
  moreover have "coerce (column_type ts k) y = Inr (cell p k)"
    using p(2) k(3) by (auto simp: shows_cells_def list_all_iff dest: map_of_SomeD)
  ultimately have "\<not> same_key ks r p" using k(1,4) by (auto simp: same_key_def list_all_iff)
  from kept [OF p(1) this] p(2) show "list_ex (shows_cells ts ds) (db' t)" by (auto simp: list_ex_iff)
qed


definition stream_key :: "TreasuryStreamRecord \<Rightarrow> sql_error + sql_value" where
  "stream_key s = coerce (NUMERIC 20) (Some (st_streamId s))"

definition spend_key :: "TreasuryStreamSpendRecord \<Rightarrow> (sql_error + sql_value) \<times> (sql_error + sql_value)" where
  "spend_key s = (coerce (NUMERIC 20) (Some (sp_streamId s)), coerce BIGINT (number_param (sp_spendIndex s)))"

lemma treasury_tables [simp]:
  "map_of indexer_schema ''treasury_streams'' = Some treasury_streams_table"
  "map_of indexer_schema ''treasury_stream_spends'' = Some treasury_stream_spends_table"
  by (simp_all add: indexer_schema_def)

lemma stream_passes:
  "passes treasury_streams_table
    [Some (st_streamId s), Some (st_name s), Some (st_owner s), Some (st_token s),
     Some (st_totalAllocated s), Some (st_totalSpent s), number_param (st_startLedger s),
     number_param (st_endLedger s), flag_param (st_isActive s), flag_param (st_isRevoked s),
     number_or_null (st_revokedAtLedger s), Some (st_maxSingleSpend s),
     number_param (st_cooldownLedgers s), number_param (st_lastSpendLedger s),
     number_param (st_spendCount s), Some (st_createdByProposalId s), Some (dec_int ledger)]
    (numbered stream_columns) [''stream_id'']
    (map (\<lambda>c. (c, Excluded c)) (butlast (tl stream_columns)) @
      [(''updated_at_ledger'', Greatest (Col ''updated_at_ledger'') (Excluded ''updated_at_ledger''))]) (stream_cells s)"
  by (simp add: passes_def stream_columns_def treasury_streams_table_def col_def stream_cells_def numbered_def
      upt_rec parameter_def)

lemma spend_passes:
  "passes treasury_stream_spends_table
    [Some (sp_streamId s), number_param (sp_spendIndex s), Some (sp_recipient s), Some (sp_amount s),
     Some (sp_memo s), number_param (sp_executedAtLedger s), Some (sp_executedBy s)]
    (numbered spend_columns) [''stream_id'', ''spend_index''] (map (\<lambda>c. (c, Excluded c)) (drop 2 spend_columns))
    (spend_cells s)"
  by (simp add: passes_def spend_columns_def treasury_stream_spends_table_def col_def spend_cells_def numbered_def
      upt_rec parameter_def)

lemma upsertStream_shows:
  assumes "upsertStream s ledger db = Inr (n, db')"
  shows "shows_stream db' s"
    and "shows_stream db d \<Longrightarrow> stream_key s \<noteq> stream_key d \<Longrightarrow> shows_stream db' d"
    and "shows_spend db' x \<longleftrightarrow> shows_spend db x"
proof -
  note e = assms [unfolded upsertStream_def]
  note rule = upsert_shows [OF e treasury_tables(1) _ _ _ stream_passes]
  show "shows_stream db' s" unfolding shows_stream_def
    by (rule rule(1)) (simp_all add: stream_columns_def treasury_streams_table_def col_def)
  show "shows_stream db' d" if "shows_stream db d" "stream_key s \<noteq> stream_key d"
    using that unfolding shows_stream_def
    by (intro rule(2) [where ds = "stream_cells d"])
      (simp_all add: stream_columns_def treasury_streams_table_def col_def stream_key_def stream_cells_def column_type_def)
  show "shows_spend db' x \<longleftrightarrow> shows_spend db x" using exec_frame [OF e] by (simp add: shows_spend_def)
qed

lemma upsertSpend_shows:
  assumes "upsertSpend s db = Inr (n, db')"
  shows "shows_spend db' s"
    and "shows_spend db d \<Longrightarrow> spend_key s \<noteq> spend_key d \<Longrightarrow> shows_spend db' d"
    and "shows_stream db' x \<longleftrightarrow> shows_stream db x"
proof -
  note e = assms [unfolded upsertSpend_def]
  note rule = upsert_shows [OF e treasury_tables(2) _ _ _ spend_passes]
  show "shows_spend db' s" unfolding shows_spend_def
    by (rule rule(1)) (simp_all add: spend_columns_def treasury_stream_spends_table_def col_def)
  show "shows_spend db' d" if "shows_spend db d" "spend_key s \<noteq> spend_key d"
    using that unfolding shows_spend_def
    by (intro rule(2) [where ds = "spend_cells d"])
      (auto simp add: spend_columns_def treasury_stream_spends_table_def col_def spend_key_def spend_cells_def column_type_def)
  show "shows_stream db' x \<longleftrightarrow> shows_stream db x" using exec_frame [OF e] by (simp add: shows_stream_def)
qed


lemma upsert_spends_shows:
  assumes "upsert_spends ss db = (Inr (), db')" "distinct (map spend_key ss)"
  shows "(\<forall>s \<in> set ss. shows_spend db' s) \<and>
    (\<forall>d. shows_spend db d \<longrightarrow> spend_key d \<notin> spend_key ` set ss \<longrightarrow> shows_spend db' d) \<and>
    (\<forall>x. shows_stream db' x \<longleftrightarrow> shows_stream db x)"
  using assms
proof (induction ss arbitrary: db)
  case (Cons s ss)
  then obtain n db1 where one: "upsertSpend s db = Inr (n, db1)" and rest: "upsert_spends ss db1 = (Inr (), db')"
    by (auto split: sum.splits prod.splits)
  note IH = Cons.IH [OF rest]
  have "shows_spend db' d" if "shows_spend db d" "spend_key d \<notin> spend_key ` set (s # ss)" for d
    using upsertSpend_shows(2) [OF one that(1)] that(2) IH Cons.prems(2) by auto
  then show ?case using IH upsertSpend_shows(1,3) [OF one] Cons.prems(2) by auto
qed simp

lemma bootstrap_streams_shows:
  assumes "bootstrap_streams simulate ledger ss n db = (Inr m, db')"
    and "\<And>s. s \<in> set ss \<Longrightarrow> getAllStreamSpends simulate s = Inr (spent s)"
    and "distinct (map stream_key ss)" "distinct (map spend_key (concat (map spent ss)))"
  shows "m = n + length (concat (map spent ss)) \<and>
    (\<forall>s \<in> set ss. shows_stream db' s \<and> (\<forall>p \<in> set (spent s). shows_spend db' p)) \<and>
    (\<forall>d. shows_stream db d \<longrightarrow> stream_key d \<notin> stream_key ` set ss \<longrightarrow> shows_stream db' d) \<and>
    (\<forall>p. shows_spend db p \<longrightarrow> spend_key p \<notin> spend_key ` (\<Union>s \<in> set ss. set (spent s)) \<longrightarrow> shows_spend db' p)"
  using assms
proof (induction ss arbitrary: n db)
  case (Cons s ss)
  then obtain k db1 db2 where one: "upsertStream s ledger db = Inr (k, db1)"
    and spends: "upsert_spends (spent s) db1 = (Inr (), db2)"
    and rest: "bootstrap_streams simulate ledger ss (n + length (spent s)) db2 = (Inr m, db')"
    by (auto split: sum.splits prod.splits)
  have dist: "distinct (map stream_key ss)" "distinct (map spend_key (concat (map spent ss)))"
    "distinct (map spend_key (spent s))" "stream_key s \<notin> stream_key ` set ss"
    "spend_key ` set (spent s) \<inter> spend_key ` (\<Union>s \<in> set ss. set (spent s)) = {}"
    using Cons.prems(3,4) by auto
  note IH = Cons.IH [OF rest Cons.prems(2) dist(1,2)]
  note sp = upsert_spends_shows [OF spends dist(3)]
  have "shows_stream db2 s" using upsertStream_shows(1) [OF one] sp by simp
  moreover have "shows_spend db2 p" if "p \<in> set (spent s)" for p using sp that by blast
  moreover have "shows_stream db2 d" if "shows_stream db d" "stream_key d \<noteq> stream_key s" for d
    using upsertStream_shows(2) [OF one that(1)] that(2) sp by auto
  moreover have "shows_spend db2 p" if "shows_spend db p" "spend_key p \<notin> spend_key ` set (spent s)" for p
    using sp that upsertStream_shows(3) [OF one] by blast
  ultimately show ?case using IH dist(4,5) by (auto simp: image_Un) (metis (no_types, lifting) IntI UN_I empty_iff imageI)+
qed simp


subsection \<open>The bootstrap\<close>

text \<open>
  What \<^verbatim>\<open>streams.rs\<close> answers for a treasury, given as the native values of its streams in the order of their ids, each
  with its spends: slices; ids count from one, the index of a spend from zero, and a stream knows the number of its spends.
\<close>

definition has_spends :: "js_value \<times> js_value list \<Rightarrow> int \<Rightarrow> bool" where
  "has_spends x i \<longleftrightarrow> length (snd x) < 2 ^ 32 \<and> field (fst x) ''id'' = JBigint i \<and>
     field (fst x) ''spend_count'' = JNumber (int (length (snd x))) \<and>
     (\<forall>j < length (snd x). field (snd x ! j) ''stream_id'' = JBigint i \<and> field (snd x ! j) ''spend_index'' = JNumber (int j))"

definition serves :: "simulator \<Rightarrow> (js_value \<times> js_value list) list \<Rightarrow> bool" where
  "serves simulate treasury \<longleftrightarrow> length treasury < 2 ^ 64 \<and>
     (\<forall>offset n. simulate ''get_streams'' [JBigint (int offset), JBigint (int n)] =
        Inr (JArray (take n (drop offset (map fst treasury))))) \<and>
     (\<forall>k < length treasury. has_spends (treasury ! k) (int k + 1) \<and>
        (\<forall>offset n. simulate ''get_stream_spends'' [JBigint (int k + 1), JNumber (int offset), JNumber (int n)] =
           Inr (JArray (take n (drop offset (snd (treasury ! k)))))))"

definition stream_read :: "js_value \<Rightarrow> TreasuryStreamRecord" where
  "stream_read v = projr (parseStream v)"

definition spend_read :: "js_value \<Rightarrow> TreasuryStreamSpendRecord" where
  "spend_read v = projr (parseSpend v)"

lemma map_throw_total: "(\<And>x. x \<in> set xs \<Longrightarrow> f x = Inr (g x)) \<Longrightarrow> map_throw f xs = Inr (map g xs)"
  by (induction xs) auto

lemma read_stream:
  assumes "field v ''id'' = JBigint i"
  shows "parseStream v = Inr (stream_read v)" "st_streamId (stream_read v) = dec_int i"
    and "st_spendCount (stream_read v) = js_Number (field v ''spend_count'')"
proof -
  have "v \<noteq> JUndefined" "v \<noteq> JNull" using assms by (auto simp: field_def)
  then show "parseStream v = Inr (stream_read v)" "st_streamId (stream_read v) = dec_int i"
    "st_spendCount (stream_read v) = js_Number (field v ''spend_count'')"
    using assms by (simp_all add: stream_read_def parseStream_def member_of_def Let_def)
qed

lemma read_spend:
  assumes "field v ''stream_id'' = JBigint i"
  shows "parseSpend v = Inr (spend_read v)" "sp_streamId (spend_read v) = dec_int i"
    and "sp_spendIndex (spend_read v) = js_Number (field v ''spend_index'')"
proof -
  have "v \<noteq> JUndefined" "v \<noteq> JNull" using assms by (auto simp: field_def)
  then show "parseSpend v = Inr (spend_read v)" "sp_streamId (spend_read v) = dec_int i"
    "sp_spendIndex (spend_read v) = js_Number (field v ''spend_index'')"
    using assms by (simp_all add: spend_read_def parseSpend_def member_of_def Let_def)
qed

lemma serves_streams:
  assumes "serves simulate treasury"
  shows "getAllTreasuryStreams simulate = Some (Inr (map (stream_read \<circ> fst) treasury))"
    and "k < length treasury \<Longrightarrow>
      getAllStreamSpends simulate (stream_read (fst (treasury ! k))) = Inr (map spend_read (snd (treasury ! k)))"
proof -
  have ids: "has_spends (treasury ! k) (int k + 1)" if "k < length treasury" for k
    using assms that by (simp add: serves_def)
  have "parseStream (fst x) = Inr (stream_read (fst x))" if x: "x \<in> set treasury" for x
    using x ids read_stream(1) by (auto simp: in_set_conv_nth has_spends_def)
  then have "map_throw parseStream (map fst treasury) = Inr (map stream_read (map fst treasury))"
    by (intro map_throw_total) auto
  then show "getAllTreasuryStreams simulate = Some (Inr (map (stream_read \<circ> fst) treasury))"
    using assms stream_pages_slices [of "\<lambda>offset. getStreams simulate offset pageSize" parseStream "map fst treasury" 0 "[]"]
    by (simp add: getAllTreasuryStreams_def getStreams_def parse_page_def serves_def)
  assume k: "k < length treasury"
  have "map_throw parseSpend (snd (treasury ! k)) = Inr (map spend_read (snd (treasury ! k)))"
    using ids [OF k] read_spend(1) by (intro map_throw_total) (auto simp: in_set_conv_nth has_spends_def)
  moreover have "count_of (st_spendCount (stream_read (fst (treasury ! k)))) = length (snd (treasury ! k))"
    "st_streamId (stream_read (fst (treasury ! k))) = dec_int (int k + 1)"
    using ids [OF k] read_stream(2,3) by (auto simp: has_spends_def count_of_def)
  ultimately show "getAllStreamSpends simulate (stream_read (fst (treasury ! k))) = Inr (map spend_read (snd (treasury ! k)))"
    using assms k spend_pages_slices [of "getStreamSpends simulate (dec_int (int k + 1))" parseSpend "snd (treasury ! k)"
      "length (snd (treasury ! k))" 0 "[]"]
    by (simp add: getAllStreamSpends_def getStreamSpends_def parse_page_def serves_def string_to_bigint_dec_int)
qed

lemma number_text_nat: "n < 2 ^ 32 \<Longrightarrow> number_text (Finite (of_nat n)) = dec_int (int n)"
  using number_text_int [of "int n"] by simp

lemma distinct_pairs: "distinct (concat (map (\<lambda>k. map (Pair k) [0..<l k]) [0..<n]))"
  by (induction n) (auto simp: distinct_map inj_on_def)

lemma serves_keys:
  assumes "serves simulate treasury"
  shows "distinct (map stream_key (map (stream_read \<circ> fst) treasury))"
    and "distinct (map spend_key (concat (map (\<lambda>x. map spend_read (snd x)) treasury)))"
proof -
  have ids: "has_spends (treasury ! k) (int k + 1)" "int k + 1 < 10 ^ 20" if "k < length treasury" for k
    using assms that by (simp_all add: serves_def)
  have "stream_key (stream_read (fst (treasury ! k))) = Inr (SqlInt (int k + 1))" if "k < length treasury" for k
    using ids [OF that] read_stream(2) by (auto simp: has_spends_def stream_key_def in_range_def)
  then have "map stream_key (map (stream_read \<circ> fst) treasury) = map (\<lambda>k. Inr (SqlInt (int k + 1))) [0..<length treasury]"
    by (intro nth_equalityI) auto
  then show "distinct (map stream_key (map (stream_read \<circ> fst) treasury))" by (simp add: distinct_map inj_on_def)
  define key :: "nat \<times> nat \<Rightarrow> (sql_error + sql_value) \<times> (sql_error + sql_value)" where
    "key = (\<lambda>(k, j). (Inr (SqlInt (int k + 1)), Inr (SqlInt (int j))))"
  have "spend_key (spend_read (snd (treasury ! k) ! j)) = key (k, j)"
    if "k < length treasury" "j < length (snd (treasury ! k))" for k j
    using ids [OF that(1)] that(2) read_spend(2,3)
    by (auto simp: has_spends_def spend_key_def in_range_def key_def number_param_def number_text_nat)
  then have "map (map spend_key) (map (\<lambda>x. map spend_read (snd x)) treasury) =
      map (map key) (map (\<lambda>k. map (Pair k) [0..<length (snd (treasury ! k))]) [0..<length treasury])"
    by (intro nth_equalityI) auto
  then have "map spend_key (concat (map (\<lambda>x. map spend_read (snd x)) treasury)) =
      map key (concat (map (\<lambda>k. map (Pair k) [0..<length (snd (treasury ! k))]) [0..<length treasury]))"
    by (simp add: map_concat)
  moreover have "inj key" by (auto simp: inj_def key_def)
  ultimately show "distinct (map spend_key (concat (map (\<lambda>x. map spend_read (snd x)) treasury)))"
    using distinct_pairs by (simp add: distinct_map inj_on_subset [of key UNIV])
qed


text \<open>C23: The projection of the treasury is complete. For a treasury of any number of budget streams with any number of
  spends, \<^verbatim>\<open>bootstrapTreasuryProjection\<close> returns; and unless the database refuses a value, the counts it returns are the
  numbers of streams and of spends of the contract, and the tables \<^verbatim>\<open>treasury_streams\<close> and \<^verbatim>\<open>treasury_stream_spends\<close> have a row
  with the values of each of them, whatever the tables held before.\<close>

theorem bootstrap_mirrors_treasury:
  assumes "serves simulate treasury"
  shows "\<exists>r db'. bootstrapTreasuryProjection simulate ledger db = Some (r, db') \<and>
    (case r of Inl e \<Rightarrow> \<exists>x. e = Database x
     | Inr (n, m) \<Rightarrow> n = length treasury \<and> m = sum_list (map (length \<circ> snd) treasury) \<and>
         list_all (\<lambda>(v, spends). shows_stream db' (stream_read v) \<and>
           list_all (\<lambda>p. shows_spend db' (spend_read p)) spends) treasury)"
proof -
  let ?ss = "map (stream_read \<circ> fst) treasury"
  define spent where "spent s = projr (getAllStreamSpends simulate s)" for s
  have spent: "getAllStreamSpends simulate (stream_read (fst x)) = Inr (map spend_read (snd x))" if "x \<in> set treasury" for x
    using that serves_streams(2) [OF assms] by (auto simp: in_set_conv_nth)
  then have logs: "map spent ?ss = map (\<lambda>x. map spend_read (snd x)) treasury" by (simp add: spent_def)
  have all: "getAllStreamSpends simulate s = Inr (spent s)" if "s \<in> set ?ss" for s
    using that spent by (auto simp: spent_def)
  obtain r db' where run: "bootstrap_streams simulate ledger ?ss 0 db = (r, db')" by fastforce
  show ?thesis
  proof (cases r)
    case (Inl e)
    have "\<exists>x. e = Database x" if "bootstrap_streams simulate ledger ss n db = (Inl e, db')" "set ss \<subseteq> set ?ss" for ss n db
      using that
    proof (induction ss arbitrary: n db)
      case (Cons s ss)
      then show ?case using all [of s] by (auto split: sum.splits prod.splits)
    qed simp
    then show ?thesis using run Inl serves_streams(1) [OF assms] by (force simp: bootstrapTreasuryProjection_def)
  next
    case (Inr m)
    have "distinct (map spend_key (concat (map spent ?ss)))" by (simp only: logs serves_keys(2) [OF assms])
    from bootstrap_streams_shows [OF run [unfolded Inr] all serves_keys(1) [OF assms] this]
    have "m = length (concat (map spent ?ss))"
      "\<forall>x \<in> set treasury. shows_stream db' (stream_read (fst x)) \<and> (\<forall>p \<in> set (snd x). shows_spend db' (spend_read p))"
      using spent by (auto simp: spent_def)
    moreover have "length (concat (map spent ?ss)) = sum_list (map (length \<circ> snd) treasury)"
      by (simp only: logs) (simp add: length_concat comp_def)
    ultimately have "m = sum_list (map (length \<circ> snd) treasury)"
      "list_all (\<lambda>(v, spends). shows_stream db' (stream_read v) \<and> list_all (\<lambda>p. shows_spend db' (spend_read p)) spends) treasury"
      by (auto simp: list_all_iff)
    then show ?thesis using run Inr serves_streams(1) [OF assms] by (auto simp: bootstrapTreasuryProjection_def)
  qed
qed

text \<open>A treasury with one stream, from which one amount was spent.\<close>

definition tp_stream :: js_value where
  "tp_stream =
     JObject [(''id'', JBigint 1), (''name'', JString ''ops''), (''owner'', JString ''GA''), (''token'', JString ''CT''),
       (''total_allocated'', JBigint 500), (''total_spent'', JBigint 20), (''start_ledger'', JNumber 10),
       (''end_ledger'', JNumber 90), (''is_active'', JBoolean True), (''is_revoked'', JBoolean False),
       (''revoked_at_ledger'', JUndefined), (''max_single_spend'', JBigint 50), (''cooldown_ledgers'', JNumber 5),
       (''last_spend_ledger'', JNumber 12), (''spend_count'', JNumber 1), (''created_by_proposal_id'', JBigint 3)]"

definition tp_spend :: js_value where
  "tp_spend =
     JObject [(''stream_id'', JBigint 1), (''spend_index'', JNumber 0), (''recipient'', JString ''GB''),
       (''amount'', JBigint 20), (''memo'', JString ''fee''), (''executed_at_ledger'', JNumber 12),
       (''executed_by'', JString ''GA'')]"

definition tp_simulate :: simulator where
  "tp_simulate m args =
     (case args of
        [JBigint i] \<Rightarrow> Inr tp_stream
      | [JBigint offset, JBigint limit] \<Rightarrow> Inr (JArray (take (nat limit) (drop (nat offset) [tp_stream])))
      | [JBigint i, JNumber offset, JNumber limit] \<Rightarrow> Inr (JArray (take (nat limit) (drop (nat offset) [tp_spend])))
      | _ \<Rightarrow> Inl type_error)"

theorem bootstrap_mirrors_treasury_witness:
  "serves tp_simulate [(tp_stream, [tp_spend])] \<and>
   map_option fst (bootstrapTreasuryProjection tp_simulate 15 (\<lambda>_. [])) = Some (Inr (1, 1))"
proof -
  have s: "serves tp_simulate [(tp_stream, [tp_spend])]"
    by (simp add: serves_def has_spends_def tp_simulate_def tp_stream_def tp_spend_def field_def)
  have "isl (fst (bootstrap_streams tp_simulate 15 [stream_read tp_stream] 0 (\<lambda>_. []))) = False" by code_simp
  then have "map_option (isl \<circ> fst) (bootstrapTreasuryProjection tp_simulate 15 (\<lambda>_. [])) = Some False"
    using serves_streams(1) [OF s] by (auto simp: bootstrapTreasuryProjection_def split: sum.splits prod.splits)
  then show ?thesis using s bootstrap_mirrors_treasury [OF s, of 15 "\<lambda>_. []"]
    by (auto split: sum.splits) (metis isl_def prod.exhaust sum.exhaust)
qed


subsection \<open>Events\<close>

lemma events_table [simp]:
  "map_of indexer_schema ''treasury_stream_events'' = Some treasury_stream_events_table"
  by (simp add: indexer_schema_def)

lemma insert_event_stored:
  assumes "insert_event event db = Inr (n, db')"
  shows "treasuryStreamEventExists (te_eventId event) db'"
    and "n = 0 \<Longrightarrow> treasuryStreamEventExists (te_eventId event) db"
proof -
  note e = assms [unfolded insert_event_def exec_def]
  have key: "cell r ''event_id'' = SqlText (te_eventId event)"
    if "new_row ps (numbered event_columns) (ts_columns treasury_stream_events_table) = Inr r"
      "ps \<noteq> []" "hd ps = Some (te_eventId event)" for ps r
  proof -
    have k: "col ''event_id'' TEXT True SqlNull \<in> set (ts_columns treasury_stream_events_table)"
      "distinct (map col_name (ts_columns treasury_stream_events_table))"
      by (simp_all add: treasury_stream_events_table_def col_def)
    note row = new_row_cell [OF that(1) k] and ps = that(2,3)
    from ps obtain qs where "ps = Some (te_eventId event) # qs" by (cases ps) auto
    then show ?thesis using row
      by (auto simp: numbered_def event_columns_def col_def upt_rec coerce_TEXT_Inr)
  qed
  have "treasuryStreamEventExists (te_eventId event) db' \<and> (n = 0 \<longrightarrow> treasuryStreamEventExists (te_eventId event) db)"
    using e
    by (simp only: events_table stmt_table.simps option.case) (erule insert_skip; auto dest!: key
      simp: treasuryStreamEventExists_def list_ex_iff)
  then show "treasuryStreamEventExists (te_eventId event) db'"
    "n = 0 \<Longrightarrow> treasuryStreamEventExists (te_eventId event) db" by blast+
qed


lemma upsert_spends_frame:
  assumes "upsert_spends ss db = (r, db')" "t \<noteq> ''treasury_stream_spends''"
  shows "db' t = db t"
  using assms(1)
proof (induction ss arbitrary: db)
  case (Cons s ss)
  have "db1 t = db t" if "upsertSpend s db = Inr (n, db1)" for n db1
    using exec_frame [OF that [unfolded upsertSpend_def]] assms(2) by simp
  then show ?case using Cons by (auto split: sum.splits prod.splits)
qed simp

lemma persisted:
  assumes "persistTreasuryStreamEvent event stream spends db = Inr (inserted, db')"
  shows "treasuryStreamEventExists (te_eventId event) db'"
    and "\<not> treasuryStreamEventExists (te_eventId event) db \<Longrightarrow> shows_stream db' stream"
proof -
  obtain n db1 where one: "insert_event event db = Inr (n, db1)" using assms
    by (auto simp: persistTreasuryStreamEvent_def split: sum.splits)
  note ins = insert_event_stored [OF one]
  have "treasuryStreamEventExists (te_eventId event) db' \<and>
    (treasuryStreamEventExists (te_eventId event) db \<or> shows_stream db' stream)"
  proof (cases "n = 0")
    case False
    with assms one obtain m db2 where two: "upsertStream stream (te_ledger event) db1 = Inr (m, db2)"
      and three: "upsert_spends spends db2 = (Inr (), db')"
      by (auto simp: persistTreasuryStreamEvent_def split: sum.splits prod.splits)
    have "db' ''treasury_streams'' = db2 ''treasury_streams''" using upsert_spends_frame [OF three] by simp
    moreover have "db' ''treasury_stream_events'' = db1 ''treasury_stream_events''"
      using upsert_spends_frame [OF three] exec_frame [OF two [unfolded upsertStream_def]] by simp
    ultimately show ?thesis using ins upsertStream_shows(1) [OF two]
      by (simp add: treasuryStreamEventExists_def shows_stream_def)
  qed (use assms one ins in \<open>simp add: persistTreasuryStreamEvent_def\<close>)
  then show "treasuryStreamEventExists (te_eventId event) db'"
    "\<not> treasuryStreamEventExists (te_eventId event) db \<Longrightarrow> shows_stream db' stream" by blast+
qed

lemma stream_persisted_db [simp]:
  "stream_persisted eventType event inserted w = (r, w') \<Longrightarrow> r = Inr () \<and> ix_db w' = ix_db w"
  by (auto simp: stream_persisted_def split: if_splits)

text \<open>A stream event is handled once. When the handler of a stream event has succeeded, the stored stream is the one the
  contract reports now, unless the event had been stored before; and handling the event again, as the indexer does with a
  ledger whose batch failed, changes nothing: neither tables nor cache, and no second message is broadcast.\<close>

theorem stream_event_handled_once:
  assumes "handleTreasuryStreamEvent sha256 (Some simulate) rpcEvent eventType w = (Inr (), w')"
  shows "\<exists>event. decodeTreasuryStreamEvent sha256 rpcEvent eventType = Inr event \<and>
    (if treasuryStreamEventExists (te_eventId event) (ix_db w) then w' = w
     else \<exists>stream. getStream simulate (te_streamId event) = Inr stream \<and> shows_stream (ix_db w') stream) \<and>
    handleTreasuryStreamEvent sha256 (Some simulate') rpcEvent eventType w' = (Inr (), w')"
proof -
  obtain event where event: "decodeTreasuryStreamEvent sha256 rpcEvent eventType = Inr event"
    using assms by (auto simp: handleTreasuryStreamEvent_def split: sum.splits)
  note h = assms [unfolded handleTreasuryStreamEvent_def, simplified, unfolded event, simplified]
  show ?thesis
  proof (cases "treasuryStreamEventExists (te_eventId event) (ix_db w)")
    case True
    then show ?thesis using h event by (simp add: handleTreasuryStreamEvent_def)
  next
    case False
    with h obtain stream spends inserted db where s: "getStream simulate (te_streamId event) = Inr stream"
      and p: "persistTreasuryStreamEvent event stream spends (ix_db w) = Inr (inserted, db)"
      and w': "stream_persisted eventType event inserted (w\<lparr>ix_db := db\<rparr>) = (Inr (), w')"
      by (auto split: sum.splits if_splits)
    have db: "ix_db w' = db" using stream_persisted_db [OF w'] by simp
    have "handleTreasuryStreamEvent sha256 (Some simulate') rpcEvent eventType w' = (Inr (), w')"
      using event persisted(1) [OF p] db by (simp add: handleTreasuryStreamEvent_def)
    moreover have "shows_stream (ix_db w') stream" using persisted(2) [OF p False] db by simp
    ultimately show ?thesis using event s False by (intro exI [of _ event]) simp
  qed
qed

definition tp_world :: Indexer where
  "tp_world = \<lparr>ix_db = (\<lambda>_. []), ix_cache = \<lparr>ca_entries = [], ca_hits = 0, ca_misses = 0\<rparr>, ix_sent = []\<rparr>"

definition tp_event :: RpcEvent where
  "tp_event =
     \<lparr>rpc_ledger = 12, rpc_contractId = Some ''CTRE'', rpc_txHash = Some ''ab'', rpc_id = Some ''12-1'',
      rpc_ledgerClosedAt = JUndefined, rpc_topics = [JString ''stream_spend''],
      rpc_value = JArray [JBigint 1, JString ''GB'', JBigint 20]\<rparr>"

definition tp_handled :: "unit indexing" where
  "tp_handled = handleTreasuryStreamEvent (\<lambda>s. s) (Some tp_simulate) tp_event ''stream_spend'' tp_world"

theorem stream_event_handled_once_witness:
  "shows_stream (ix_db (snd tp_handled)) (stream_read tp_stream) \<and>
   handleTreasuryStreamEvent (\<lambda>s. s) (Some tp_simulate) tp_event ''stream_spend'' (snd tp_handled) =
     (Inr (), snd tp_handled)"
proof -
  have "isl (fst tp_handled) = False" by code_simp
  then obtain w' where w': "tp_handled = (Inr (), w')"
    by (metis isl_def old.unit.exhaust prod.collapse sum.exhaust)
  obtain event where event: "decodeTreasuryStreamEvent (\<lambda>s. s) tp_event ''stream_spend'' = Inr event"
      "if treasuryStreamEventExists (te_eventId event) (ix_db tp_world) then w' = tp_world
       else \<exists>stream. getStream tp_simulate (te_streamId event) = Inr stream \<and> shows_stream (ix_db w') stream"
      "handleTreasuryStreamEvent (\<lambda>s. s) (Some tp_simulate) tp_event ''stream_spend'' w' = (Inr (), w')"
    using stream_event_handled_once [OF w' [unfolded tp_handled_def], of tp_simulate] by blast
  moreover have "\<not> treasuryStreamEventExists (te_eventId event) (ix_db tp_world)"
    by (simp add: treasuryStreamEventExists_def tp_world_def)
  moreover have "stream = stream_read tp_stream" if "getStream tp_simulate i = Inr stream" for i stream
    using that by (auto simp: getStream_def tp_simulate_def stream_read_def or_throw_def split: option.splits)
  moreover have "snd tp_handled = w'" using arg_cong [OF w', of snd] by (simp only: snd_conv)
  ultimately show ?thesis by (auto split: if_splits)
qed

end
