(* ===== verification/SdkClient.thy ===== *)
theory SdkClient
  imports SdkUtils SdkErrors JsText
begin

section \<open>What the SDK clients share\<close>

text \<open>
  The contract clients of \<^verbatim>\<open>sdk/src\<close> (\<^verbatim>\<open>TreasuryClient\<close>, \<^verbatim>\<open>TimelockClient\<close>, \<^verbatim>\<open>GovernorClient\<close>, ...) talk to a Soroban RPC
  node through the same few calls, which they wrap into \<^verbatim>\<open>createRetry\<close> and a polling loop. This theory has those
  calls and wrappers.
  \<^item> The node, the wallet and \<^verbatim>\<open>fetch\<close> are not part of the repository: they are the record \<open>rpc\<close>, functions of an
    arbitrary state \<open>'w\<close> of the outside world that may change at every call. Every call may throw.
  \<^item> A client method is a function of a \<open>session\<close>: the state of the outside world and, in order, every
    \<^verbatim>\<open>sendTransaction\<close> the client has made with its outcome. It returns the value or the thrown error, and the session.
  \<^item> The arguments of a contract call are the native values with the type that \<^verbatim>\<open>nativeToScVal\<close> is given. Whether they
    can be encoded is decided by \<open>rp_encode\<close>. Return values are what \<^verbatim>\<open>scValToNative\<close> makes of them. The numbers in the
    JSON of the indexer are integers.
  \<^item> Time passes in the world only: the waits of the retries and of the polling loop are not observed.
\<close>

subsection \<open>Errors\<close>

text \<open>A thrown value: the class of the error, the code of a typed error, the message (none for a value that is not an
  \<^verbatim>\<open>Error\<close>), and the \<^verbatim>\<open>response.status\<close> that an HTTP library attaches.\<close>

record client_error =
  ce_class :: string
  ce_code :: "int option"
  ce_message :: "string option"
  ce_status :: "int option"

definition js_error_of :: "string \<Rightarrow> string \<Rightarrow> client_error" where
  "js_error_of class message =
     \<lparr>ce_class = class, ce_code = None, ce_message = Some message, ce_status = None\<rparr>"

definition typed :: "string \<Rightarrow> int \<Rightarrow> string \<Rightarrow> client_error" where
  "typed class code message =
     \<lparr>ce_class = class, ce_code = Some code, ce_message = Some message, ce_status = None\<rparr>"

definition parsed :: "string \<Rightarrow> sdk_error \<Rightarrow> client_error" where
  "parsed class e = typed class (se_code e) (se_message e)"

definition thrown_undefined :: client_error where
  "thrown_undefined = \<lparr>ce_class = ''undefined'', ce_code = None, ce_message = None, ce_status = None\<rparr>"

definition networkError :: "client_error \<Rightarrow> bool" where
  "networkError e = isNetworkError \<lparr>thrown_message = ce_message e, thrown_status = ce_status e\<rparr>"

subsection \<open>Taking values apart\<close>

text \<open>The accesses and conversions that can throw, in the order an object literal evaluates them: each passes its
  result on.\<close>

definition nullish :: "js_value \<Rightarrow> bool" where
  "nullish v = (v = JUndefined \<or> v = JNull)"

definition with_member :: "js_value \<Rightarrow> string \<Rightarrow> (js_value \<Rightarrow> client_error + 'a) \<Rightarrow> client_error + 'a" where
  "with_member v name k =
     (if nullish v
      then Inl (js_error_of ''TypeError''
                  (''Cannot read properties of '' @ js_String v @ '' (reading '' @ [CHR 39] @ name @ [CHR 39] @ '')''))
      else k (field v name))"

definition with_BigInt :: "js_value \<Rightarrow> (int \<Rightarrow> client_error + 'a) \<Rightarrow> client_error + 'a" where
  "with_BigInt v k =
     (case js_BigInt v of
        Some n \<Rightarrow> k n
      | None \<Rightarrow> Inl (js_error_of (case v of JString _ \<Rightarrow> ''SyntaxError'' | _ \<Rightarrow> ''TypeError'')
                       (''Cannot convert '' @ js_String v @ '' to a BigInt'')))"

definition with_array :: "js_value \<Rightarrow> string \<Rightarrow> (js_value list \<Rightarrow> client_error + 'a) \<Rightarrow> client_error + 'a" where
  "with_array v name k =
     (case v of
        JArray vs \<Rightarrow> k vs
      | _ \<Rightarrow>
          if nullish v then with_member v ''map'' (\<lambda>_. k [])
          else Inl (js_error_of ''TypeError'' (name @ ''.map is not a function'')))"

text \<open>\<^verbatim>\<open>xs.map(f)\<close> for a function that may throw.\<close>

fun map_throwing :: "('a \<Rightarrow> client_error + 'b) \<Rightarrow> 'a list \<Rightarrow> client_error + 'b list" where
  "map_throwing f [] = Inr []"
| "map_throwing f (x # xs) =
     (case f x of Inl e \<Rightarrow> Inl e
      | Inr y \<Rightarrow> (case map_throwing f xs of Inl e \<Rightarrow> Inl e | Inr ys \<Rightarrow> Inr (y # ys)))"

text \<open>\<^verbatim>\<open>Buffer.from(v).toString("hex")\<close>\<close>

definition with_hex :: "js_value \<Rightarrow> (string \<Rightarrow> client_error + 'a) \<Rightarrow> client_error + 'a" where
  "with_hex v k =
     (case buffer_hex v of
        Some h \<Rightarrow> k h
      | None \<Rightarrow> Inl (js_error_of ''TypeError''
                       ''The first argument must be of type string or an instance of Buffer, ArrayBuffer, or Array''))"

definition bind_sum :: "client_error + 'a \<Rightarrow> ('a \<Rightarrow> client_error + 'b) \<Rightarrow> client_error + 'b" where
  "bind_sum r k = (case r of Inl e \<Rightarrow> Inl e | Inr x \<Rightarrow> k x)"

subsection \<open>Arithmetic on numbers\<close>

text \<open>The exact result of an operation is rounded to the nearest double. The sign of zero is not kept, so that a division
  by zero has the sign of the dividend.\<close>

definition to_double :: "rat \<Rightarrow> js_number" where
  "to_double x = (case quotient_of x of (p, q) \<Rightarrow> nearest_double (p < 0) (nat \<bar>p\<bar>) (nat q))"

fun js_add :: "js_number \<Rightarrow> js_number \<Rightarrow> js_number" where
  "js_add (Finite x) (Finite y) = to_double (x + y)"
| "js_add NotANumber b = NotANumber"
| "js_add a NotANumber = NotANumber"
| "js_add (Infinite n) (Infinite m) = (if n = m then Infinite n else NotANumber)"
| "js_add (Infinite n) b = Infinite n"
| "js_add a (Infinite n) = Infinite n"

fun js_neg :: "js_number \<Rightarrow> js_number" where
  "js_neg (Finite x) = Finite (- x)"
| "js_neg (Infinite n) = Infinite (\<not> n)"
| "js_neg NotANumber = NotANumber"

fun js_mult :: "js_number \<Rightarrow> js_number \<Rightarrow> js_number" where
  "js_mult (Finite x) (Finite y) = to_double (x * y)"
| "js_mult NotANumber b = NotANumber"
| "js_mult a NotANumber = NotANumber"
| "js_mult (Infinite n) (Infinite m) = Infinite (n \<noteq> m)"
| "js_mult (Infinite n) (Finite y) = (if y = 0 then NotANumber else Infinite (n \<noteq> (y < 0)))"
| "js_mult (Finite x) (Infinite n) = (if x = 0 then NotANumber else Infinite (n \<noteq> (x < 0)))"

fun js_div :: "js_number \<Rightarrow> js_number \<Rightarrow> js_number" where
  "js_div (Finite x) (Finite y) =
     (if y = 0 then (if x = 0 then NotANumber else Infinite (x < 0)) else to_double (x / y))"
| "js_div NotANumber b = NotANumber"
| "js_div a NotANumber = NotANumber"
| "js_div (Infinite n) (Infinite m) = NotANumber"
| "js_div (Infinite n) (Finite y) = Infinite (n \<noteq> (y < 0))"
| "js_div (Finite x) (Infinite n) = Finite 0"

fun js_floor :: "js_number \<Rightarrow> js_number" where
  "js_floor (Finite x) = Finite (of_int \<lfloor>x\<rfloor>)"
| "js_floor a = a"

fun js_le :: "js_number \<Rightarrow> js_number \<Rightarrow> bool" where
  "js_le NotANumber b = False"
| "js_le a NotANumber = False"
| "js_le (Finite x) (Finite y) = (x \<le> y)"
| "js_le (Infinite n) (Infinite m) = (n \<or> \<not> m)"
| "js_le (Infinite n) (Finite y) = n"
| "js_le (Finite x) (Infinite n) = (\<not> n)"

abbreviation js_int :: "int \<Rightarrow> js_number" where
  "js_int n \<equiv> Finite (of_int n)"

subsection \<open>The outside world\<close>

datatype sc_arg =
  AAddress string
| AU32 int
| AU32Number js_number
| AU64 int
| AI128 int
| AU128 int
| ABool bool
| AString string
| ASymbol string
| ABytes bytes
| AVoid
| AVec "sc_arg list"
| AMap "(string \<times> sc_arg) list"

text \<open>A transaction with one contract call. Its sequence number follows that of the account it was built on.\<close>

record invocation =
  in_source :: string
  in_sequence :: int
  in_contract :: string
  in_method :: string
  in_args :: "sc_arg list"

text \<open>The answer of \<^verbatim>\<open>sendTransaction\<close>; \<open>sr_json\<close> is \<^verbatim>\<open>JSON.stringify\<close> of the whole of it.\<close>

record SendTransactionResponse =
  sr_status :: string
  sr_hash :: string
  sr_error :: "string option"
  sr_json :: string

text \<open>A successful simulation: the return value, and the members \<^verbatim>\<open>result.cost\<close>, \<^verbatim>\<open>cost\<close> and \<^verbatim>\<open>minResourceFee\<close> that the gas
  estimates look for.\<close>

record sim_success =
  sm_retval :: "js_value option"
  sm_resultCost :: js_value
  sm_cost :: js_value
  sm_minResourceFee :: js_value

datatype simulation = SimError string | SimSuccess sim_success

datatype confirmation = TxMissing | TxFailure | TxDone "js_value option"

text \<open>\<^verbatim>\<open>getEvents\<close>: a segment of a topic filter is an encoded value, or a plain string where the code passes one.\<close>

datatype topic_segment = Encoded sc_arg | PlainText string

record events_query =
  eq_startLedger :: "int option"
  eq_contractIds :: "string list"
  eq_topics :: "topic_segment list list"
  eq_limit :: int

record chain_event =
  che_ledger :: int
  che_topic :: "js_value list"
  che_value :: js_value

record http_request =
  hq_method :: string
  hq_url :: string
  hq_headers :: "(string \<times> string) list"
  hq_body :: "string option"

record http_response =
  hr_status :: int
  hr_statusText :: string
  hr_json :: "client_error + js_value"

type_synonym ('w, 'a) answer = "'w \<Rightarrow> (client_error + 'a) \<times> 'w"

record 'w rpc =
  rp_encode :: "sc_arg \<Rightarrow> client_error option"
  rp_getAccount :: "string \<Rightarrow> ('w, int) answer"
  rp_simulate :: "invocation \<Rightarrow> ('w, simulation) answer"
  rp_prepare :: "invocation \<Rightarrow> ('w, unit) answer"
  rp_sign :: "invocation \<Rightarrow> ('w, invocation) answer"
  rp_send :: "invocation \<Rightarrow> ('w, SendTransactionResponse) answer"
  rp_getTransaction :: "string \<Rightarrow> ('w, confirmation) answer"
  rp_getLatestLedger :: "('w, int) answer"
  rp_getEvents :: "events_query \<Rightarrow> ('w, chain_event list option) answer"
  rp_now :: "'w \<Rightarrow> int \<times> 'w"
  rp_sleep :: "int \<Rightarrow> 'w \<Rightarrow> 'w"
  rp_fetch :: "http_request \<Rightarrow> ('w, http_response) answer"

record 'w session =
  ss_world :: 'w
  ss_sent :: "(invocation \<times> (client_error + SendTransactionResponse)) list"

type_synonym ('w, 'a) io = "'w session \<Rightarrow> (client_error + 'a) \<times> 'w session"

definition returning :: "'a \<Rightarrow> ('w, 'a) io" where
  "returning x s = (Inr x, s)"

definition throwing :: "client_error \<Rightarrow> ('w, 'a) io" where
  "throwing e s = (Inl e, s)"

definition settle :: "client_error + 'a \<Rightarrow> ('w, 'a) io" where
  "settle r s = (r, s)"

definition and_then :: "('w, 'a) io \<Rightarrow> ('a \<Rightarrow> ('w, 'b) io) \<Rightarrow> ('w, 'b) io" where
  "and_then m k s = (case m s of (r, s') \<Rightarrow> (case r of Inl e \<Rightarrow> (Inl e, s') | Inr x \<Rightarrow> k x s'))"

text \<open>\<^verbatim>\<open>try { ... } catch (e) { ... }\<close>\<close>

definition catching :: "('w, 'a) io \<Rightarrow> (client_error \<Rightarrow> ('w, 'a) io) \<Rightarrow> ('w, 'a) io" where
  "catching m h s = (case m s of (r, s') \<Rightarrow> (case r of Inl e \<Rightarrow> h e s' | Inr x \<Rightarrow> (Inr x, s')))"

definition asking :: "('w, 'a) answer \<Rightarrow> ('w, 'a) io" where
  "asking f s = (case f (ss_world s) of (r, w) \<Rightarrow> (r, s\<lparr>ss_world := w\<rparr>))"

definition sendTransaction_io :: "'w rpc \<Rightarrow> invocation \<Rightarrow> ('w, SendTransactionResponse) io" where
  "sendTransaction_io rpc tx s =
     (case rp_send rpc tx (ss_world s) of
        (r, w) \<Rightarrow> (r, s\<lparr>ss_world := w, ss_sent := ss_sent s @ [(tx, r)]\<rparr>))"

text \<open>\<^verbatim>\<open>Promise.all(xs.map(f))\<close>, one after the other.\<close>

fun each :: "('a \<Rightarrow> ('w, 'b) io) \<Rightarrow> 'a list \<Rightarrow> ('w, 'b list) io" where
  "each f [] = returning []"
| "each f (x # xs) = and_then (f x) (\<lambda>y. and_then (each f xs) (\<lambda>ys. returning (y # ys)))"

subsection \<open>Clients\<close>

record config =
  cf_network :: string
  cf_rpcUrl :: "string option"
  cf_simulationAccount :: "string option"
  cf_indexerUrl :: "string option"
  cf_backendUrl :: "string option"
  cf_retry :: "client_error ClientRetryConfig"

text \<open>What the constructors use of the Stellar SDK: the passphrases, and the refusals of \<^verbatim>\<open>new SorobanRpc.Server\<close> and
  \<^verbatim>\<open>new Contract\<close>.\<close>

record stellar =
  st_passphrase :: "Network \<Rightarrow> string"
  st_openServer :: "string \<Rightarrow> client_error option"
  st_openContract :: "string \<Rightarrow> client_error option"

record client =
  cl_rpcUrl :: string
  cl_contract :: string
  cl_networkPassphrase :: string
  cl_simulationAccount :: "string option"
  cl_indexerUrl :: "string option"
  cl_backendUrl :: "string option"
  cl_retry :: "client_error ClientRetryConfig"
  cl_retryDefaults :: "client_error RetryOptions"

definition open_client :: "stellar \<Rightarrow> config \<Rightarrow> client_error RetryOptions \<Rightarrow> string \<Rightarrow> client_error + client" where
  "open_client stellar config defaults address =
     (case getRpcUrl (cf_network config) (cf_rpcUrl config) of
        Inl m \<Rightarrow> Inl (js_error_of ''Error'' m)
      | Inr rpcUrl \<Rightarrow>
          (case st_openServer stellar rpcUrl of Some e \<Rightarrow> Inl e
           | None \<Rightarrow>
               (case st_openContract stellar address of Some e \<Rightarrow> Inl e
                | None \<Rightarrow>
                    (case getNetworkPassphrase (st_passphrase stellar) (cf_network config) of
                       Inl m \<Rightarrow> Inl (js_error_of ''Error'' m)
                     | Inr passphrase \<Rightarrow>
                         Inr \<lparr>cl_rpcUrl = rpcUrl, cl_contract = address, cl_networkPassphrase = passphrase,
                              cl_simulationAccount = cf_simulationAccount config,
                              cl_indexerUrl = cf_indexerUrl config, cl_backendUrl = cf_backendUrl config, cl_retry = cf_retry config,
                              cl_retryDefaults = defaults\<rparr>))))"

text \<open>\<^verbatim>\<open>this.retry(fn, retryOn)\<close> with \<^verbatim>\<open>createRetry(config, defaults)\<close>, where most clients have \<^verbatim>\<open>{ retryOn: isNetworkError }\<close> as the
  defaults: attempt \<open>k\<close> starts in the session the
  attempt before it left. \<open>createRetry\<close> decides how many attempts there are. The delays do not show in the result, so that
  \<^verbatim>\<open>Math.random\<close> is fixed.\<close>

definition session_before :: "('w, 'a) io \<Rightarrow> 'w session \<Rightarrow> int \<Rightarrow> 'w session" where
  "session_before m s k = ((snd \<circ> m) ^^ nat (k - 1)) s"

definition network_defaults :: "client_error RetryOptions" where
  "network_defaults = no_options\<lparr>ro_retryOn := Given networkError\<rparr>"

definition retrying :: "client \<Rightarrow> (client_error \<Rightarrow> bool) option \<Rightarrow> ('w, 'a) io \<Rightarrow> ('w, 'a) io" where
  "retrying cl retryOn m s =
     (case createRetry (cl_retry cl) (cl_retryDefaults cl) (\<lambda>_. 0) (\<lambda>k. fst (m (session_before m s k))) retryOn of
        (outcome, waits) \<Rightarrow>
          (let done = session_before m s (int (length waits) + 2) in
           case outcome of
             Resolved v \<Rightarrow> (Inr v, done)
           | Rejected (Some e) \<Rightarrow> (Inl e, done)
           | Rejected None \<Rightarrow> (Inl thrown_undefined, s)))"

definition encode_args :: "'w rpc \<Rightarrow> sc_arg list \<Rightarrow> ('w, unit) io" where
  "encode_args rpc args s =
     (case List.map_filter (rp_encode rpc) args of [] \<Rightarrow> (Inr (), s) | e # _ \<Rightarrow> (Inl e, s))"

text \<open>\<^verbatim>\<open>new TransactionBuilder(await getAccount(source), ...).addOperation(contract.call(method, ...args)).build()\<close>\<close>

definition build_transaction :: "'w rpc \<Rightarrow> client \<Rightarrow> string \<Rightarrow> string \<Rightarrow> sc_arg list \<Rightarrow> ('w, invocation) io" where
  "build_transaction rpc cl source method args =
     and_then (asking (rp_getAccount rpc source)) (\<lambda>sequence.
     and_then (encode_args rpc args) (\<lambda>_.
     returning \<lparr>in_source = source, in_sequence = sequence + 1, in_contract = cl_contract cl,
                in_method = method, in_args = args\<rparr>))"

definition simulate_call :: "'w rpc \<Rightarrow> client \<Rightarrow> string \<Rightarrow> string \<Rightarrow> sc_arg list \<Rightarrow> ('w, simulation) io" where
  "simulate_call rpc cl source method args =
     and_then (build_transaction rpc cl source method args) (\<lambda>tx. asking (rp_simulate rpc tx))"

text \<open>A read: \<open>onError\<close> when the simulation fails, \<open>onNone\<close> when it has no return value.\<close>

definition read_call ::
  "'w rpc \<Rightarrow> client \<Rightarrow> string \<Rightarrow> string \<Rightarrow> sc_arg list \<Rightarrow> (string \<Rightarrow> client_error + 'a) \<Rightarrow> client_error + 'a \<Rightarrow>
   (js_value \<Rightarrow> client_error + 'a) \<Rightarrow> ('w, 'a) io" where
  "read_call rpc cl source method args onError onNone parse =
     and_then (simulate_call rpc cl source method args) (\<lambda>sim.
       settle (case sim of
           SimError message \<Rightarrow> onError message
         | SimSuccess sim \<Rightarrow> (case sm_retval sim of None \<Rightarrow> onNone | Some v \<Rightarrow> parse v)))"

text \<open>A write signed with a \<^verbatim>\<open>Keypair\<close>: \<^verbatim>\<open>getAccount\<close>, build, \<^verbatim>\<open>prepareTransaction\<close>, \<^verbatim>\<open>sign\<close>, \<^verbatim>\<open>sendTransaction\<close>; the status
  \<^verbatim>\<open>ERROR\<close> throws. Every other status counts as accepted.\<close>

definition sent_error :: "string \<Rightarrow> (SorobanRpcError \<Rightarrow> sdk_error) \<Rightarrow> SendTransactionResponse \<Rightarrow> client_error" where
  "sent_error class parse result = parsed class (parse (RawObject (Some (sr_status result)) (sr_error result)))"

definition check_sent :: "(SendTransactionResponse \<Rightarrow> client_error) \<Rightarrow> SendTransactionResponse \<Rightarrow> ('w, string) io" where
  "check_sent parse result =
     (if sr_status result = ''ERROR''
      then throwing (parse result)
      else returning (sr_hash result))"

definition send_prepared ::
  "'w rpc \<Rightarrow> client \<Rightarrow> (SendTransactionResponse \<Rightarrow> client_error) \<Rightarrow> string \<Rightarrow> string \<Rightarrow> sc_arg list \<Rightarrow> ('w, string) io" where
  "send_prepared rpc cl parse signer method args =
     and_then (build_transaction rpc cl signer method args) (\<lambda>tx.
     and_then (asking (rp_prepare rpc tx)) (\<lambda>_.
     and_then (sendTransaction_io rpc tx) (check_sent parse)))"

text \<open>The same with the wallet callback \<^verbatim>\<open>signUnsignedXdr\<close>: what is sent is the transaction the wallet returns.\<close>

definition send_signed ::
  "'w rpc \<Rightarrow> client \<Rightarrow> (SendTransactionResponse \<Rightarrow> client_error) \<Rightarrow> string \<Rightarrow> string \<Rightarrow> sc_arg list \<Rightarrow> ('w, string) io" where
  "send_signed rpc cl parse signerPublicKey method args =
     and_then (build_transaction rpc cl signerPublicKey method args) (\<lambda>tx.
     and_then (asking (rp_prepare rpc tx)) (\<lambda>_.
     and_then (asking (rp_sign rpc tx)) (\<lambda>signed.
     and_then (sendTransaction_io rpc signed) (check_sent parse))))"

text \<open>\<^verbatim>\<open>pollForConfirmation\<close>: at most \<^verbatim>\<open>retries\<close> rounds of asking for the transaction.\<close>

fun poll_rounds :: "('w, confirmation) io \<Rightarrow> client_error \<Rightarrow> client_error \<Rightarrow> nat \<Rightarrow> ('w, js_value option) io" where
  "poll_rounds ask failed timeout 0 = throwing timeout"
| "poll_rounds ask failed timeout (Suc n) =
     and_then ask (\<lambda>status.
       case status of
         TxDone v \<Rightarrow> returning v
       | TxFailure \<Rightarrow> throwing failed
       | TxMissing \<Rightarrow> poll_rounds ask failed timeout n)"

definition timeout_message :: "nat \<Rightarrow> string" where
  "timeout_message retries = ''Transaction not confirmed after '' @ dec_nat retries @ '' retries''"

definition poll_confirmation ::
  "string \<Rightarrow> int \<Rightarrow> int \<Rightarrow> nat \<Rightarrow> 'w rpc \<Rightarrow> client \<Rightarrow> string \<Rightarrow> ('w, js_value option) io" where
  "poll_confirmation class transactionFailed transactionTimeout retries rpc cl hash =
     poll_rounds (retrying cl None (asking (rp_getTransaction rpc hash)))
       (typed class transactionFailed (''Transaction failed: '' @ hash))
       (typed class transactionTimeout (timeout_message retries)) retries"

text \<open>A write that waits for its confirmation; \<open>finish\<close> gets the hash and the return value.\<close>

definition submit_and_confirm ::
  "'w rpc \<Rightarrow> client \<Rightarrow> (SendTransactionResponse \<Rightarrow> client_error) \<Rightarrow> (string \<Rightarrow> ('w, js_value option) io) \<Rightarrow>
   string \<Rightarrow> string \<Rightarrow> sc_arg list \<Rightarrow> (string \<Rightarrow> js_value option \<Rightarrow> client_error + 'a) \<Rightarrow> ('w, 'a) io" where
  "submit_and_confirm rpc cl parse poll signer method args finish =
     and_then (send_prepared rpc cl parse signer method args) (\<lambda>hash.
     and_then (poll hash) (\<lambda>v. settle (finish hash v)))"

definition submit_signed ::
  "'w rpc \<Rightarrow> client \<Rightarrow> (SendTransactionResponse \<Rightarrow> client_error) \<Rightarrow> (string \<Rightarrow> ('w, js_value option) io) \<Rightarrow>
   string \<Rightarrow> string \<Rightarrow> sc_arg list \<Rightarrow> (string \<Rightarrow> js_value option \<Rightarrow> client_error + 'a) \<Rightarrow> ('w, 'a) io" where
  "submit_signed rpc cl parse poll signerPublicKey method args finish =
     and_then (send_signed rpc cl parse signerPublicKey method args) (\<lambda>hash.
     and_then (poll hash) (\<lambda>v. settle (finish hash v)))"

definition value_or :: "client_error \<Rightarrow> (js_value \<Rightarrow> client_error + 'a) \<Rightarrow> js_value option \<Rightarrow> client_error + 'a" where
  "value_or missing parse v = (case v of None \<Rightarrow> Inl missing | Some x \<Rightarrow> parse x)"

subsection \<open>Requests to the indexer\<close>

definition hex_upper :: "nat \<Rightarrow> char" where
  "hex_upper n = (if n < 10 then char_of (48 + n) else char_of (55 + n))"

text \<open>The encoding of \<^verbatim>\<open>URLSearchParams\<close>.\<close>

definition form_char :: "char \<Rightarrow> string" where
  "form_char c =
     (let n = of_char c :: nat in
      if 48 \<le> n \<and> n \<le> 57 \<or> 65 \<le> n \<and> n \<le> 90 \<or> 97 \<le> n \<and> n \<le> 122 \<or> n \<in> {42, 45, 46, 95} then [c]
      else if n = 32 then ''+''
      else [CHR ''%'', hex_upper (n div 16), hex_upper (n mod 16)])"

definition URLSearchParams :: "(string \<times> string) list \<Rightarrow> string" where
  "URLSearchParams ps =
     join ''&'' (map (\<lambda>(k, v). concat (map form_char k) @ ''='' @ concat (map form_char v)) ps)"

text \<open>\<^verbatim>\<open>url.replace(/\/$/, "")\<close>\<close>

definition trim_slash :: "string \<Rightarrow> string" where
  "trim_slash s = (if s \<noteq> [] \<and> last s = CHR ''/'' then butlast s else s)"

definition response_ok :: "http_response \<Rightarrow> bool" where
  "response_ok response \<longleftrightarrow> 200 \<le> hr_status response \<and> hr_status response < 300"

definition fetch_request :: "'w rpc \<Rightarrow> (http_response \<Rightarrow> client_error) \<Rightarrow> http_request \<Rightarrow> ('w, js_value) io" where
  "fetch_request rpc failed request =
     and_then (asking (rp_fetch rpc request)) (\<lambda>response.
       settle (if response_ok response then hr_json response else Inl (failed response)))"

definition get_request :: "string \<Rightarrow> http_request" where
  "get_request url = \<lparr>hq_method = ''GET'', hq_url = url, hq_headers = [], hq_body = None\<rparr>"

definition fetch_json :: "'w rpc \<Rightarrow> (http_response \<Rightarrow> client_error) \<Rightarrow> string \<Rightarrow> ('w, js_value) io" where
  "fetch_json rpc failed url = fetch_request rpc failed (get_request url)"

subsection \<open>Retries as attempts in sequence\<close>

text \<open>The number of attempts and the condition for another one that \<^verbatim>\<open>createRetry\<close> settles on.\<close>

definition attempts_of :: "client \<Rightarrow> int" where
  "attempts_of cl = or_else (given (ro_maxAttempts (merged_options (cl_retry cl) (cl_retryDefaults cl)))) 3"

definition retry_on :: "client \<Rightarrow> (client_error \<Rightarrow> bool) option \<Rightarrow> client_error \<Rightarrow> bool" where
  "retry_on cl retryOn e =
     (case given (coalesce retryOn (given (ro_retryOn (merged_options (cl_retry cl) (cl_retryDefaults cl))))) of
        None \<Rightarrow> True | Some p \<Rightarrow> p e)"

fun run_attempts :: "nat \<Rightarrow> (client_error \<Rightarrow> bool) \<Rightarrow> ('w, 'a) io \<Rightarrow> ('w, 'a) io" where
  "run_attempts 0 again m s = (Inl thrown_undefined, s)"
| "run_attempts (Suc n) again m s =
     (case m s of (r, s') \<Rightarrow>
        (case r of
           Inr v \<Rightarrow> (Inr v, s')
         | Inl e \<Rightarrow> if again e \<and> n \<noteq> 0 then run_attempts n again m s' else (Inl e, s')))"

lemma session_before_next:
  "1 \<le> k \<Longrightarrow> session_before m s (k + 1) = snd (m (session_before m s k))"
proof -
  assume "1 \<le> k"
  then have "nat (k + 1 - 1) = Suc (nat (k - 1))" by simp
  then show ?thesis by (simp add: session_before_def)
qed

lemma session_before_first [simp]: "session_before m s 1 = s"
  by (simp add: session_before_def)

lemma retry_loop_attempts:
  assumes "1 \<le> a" "a \<le> M"
  shows "(case retry_loop M base cap on (\<lambda>k. fst (m (session_before m s k))) random a le of (outcome, waits) \<Rightarrow>
       (let done = session_before m s (a + int (length waits) + 1) in
        case outcome of Resolved v \<Rightarrow> (Inr v, done) | Rejected (Some e) \<Rightarrow> (Inl e, done)
        | Rejected None \<Rightarrow> (Inl thrown_undefined, s))) =
     run_attempts (nat (M + 1 - a)) (\<lambda>e. on = None \<or> the on e) m (session_before m s a)"
  using assms
proof (induction "nat (M - a)" arbitrary: a le)
  case 0
  then have a: "a = M" and one: "nat (M + 1 - a) = Suc 0" by auto
  obtain r s' where m: "m (session_before m s a) = (r, s')" by force
  show ?case unfolding one using 0 m session_before_next [of a m s]
    by (subst retry_loop.simps) (auto simp: a Let_def split: sum.split)
next
  case (Suc n)
  then have more: "nat (M + 1 - a) = Suc (nat (M + 1 - (a + 1)))" and less: "a < M" by auto
  obtain r s' where m: "m (session_before m s a) = (r, s')" by force
  then have s': "session_before m s (a + 1) = s'" using session_before_next [of a m s] Suc.prems by simp
  have IH: "(case retry_loop M base cap on (\<lambda>k. fst (m (session_before m s k))) random (a + 1) le of (outcome, waits) \<Rightarrow>
       (let done = session_before m s (a + 1 + int (length waits) + 1) in
        case outcome of Resolved v \<Rightarrow> (Inr v, done) | Rejected (Some e) \<Rightarrow> (Inl e, done)
        | Rejected None \<Rightarrow> (Inl thrown_undefined, s))) =
     run_attempts (nat (M + 1 - (a + 1))) (\<lambda>e. on = None \<or> the on e) m s'" for le
    using Suc.hyps(1) [of "a + 1" le] Suc.hyps(2) Suc.prems less by (simp add: s')
  show ?case
  proof (cases r)
    case (Inr v)
    then show ?thesis unfolding more using m s' less
      by (subst retry_loop.simps) (simp add: Let_def)
  next
    case (Inl e)
    show ?thesis
    proof (cases "on = None \<or> the on e")
      case True
      obtain o1 w1 where rest: "retry_loop M base cap on (\<lambda>k. fst (m (session_before m s k))) random (a + 1) (Some e) = (o1, w1)"
        by force
      have "retry_loop M base cap on (\<lambda>k. fst (m (session_before m s k))) random a le =
          (o1, (a, e, min (base * 2 ^ nat (a - 1)) cap + random a * min (base * 2 ^ nat (a - 1)) cap * (3 / 10)) # w1)"
        using True Inl m less rest by (subst retry_loop.simps) (auto simp: Let_def)
      moreover have "a + int (length (w # w1)) + 1 = a + 1 + int (length w1) + 1" for w :: "client_error wait" by simp
      moreover have "run_attempts (nat (M + 1 - a)) (\<lambda>e. on = None \<or> the on e) m (session_before m s a) =
          run_attempts (nat (M + 1 - (a + 1))) (\<lambda>e. on = None \<or> the on e) m s'"
        unfolding more using True Inl m less by simp
      ultimately show ?thesis using IH [of "Some e"] rest by (simp only: prod.case)
    next
      case False
      then show ?thesis unfolding more using Inl m s' less
        by (subst retry_loop.simps) (auto simp: Let_def)
    qed
  qed
qed

lemma retry_loop_none:
  "M < a \<Longrightarrow> retry_loop M base cap on fn random a le = (Rejected le, [])"
  by (subst retry_loop.simps) simp

lemma given_coalesce: "given (coalesce a b) = (case a of None \<Rightarrow> b | Some x \<Rightarrow> Some x)"
  by (auto simp: coalesce_def split: option.split)

lemma spread_code [code]: "spread a b = (case b of Missing \<Rightarrow> a | Undefined \<Rightarrow> b | Given _ \<Rightarrow> b)"
  by (simp add: spread_def split: member.split)

lemma retrying_attempts: "retrying cl retryOn m = run_attempts (nat (attempts_of cl)) (retry_on cl retryOn) m"
proof (rule ext)
  fix s
  define opts where "opts = merged_options (cl_retry cl) (cl_retryDefaults cl)"
  define on where "on = given (coalesce retryOn (given (ro_retryOn opts)))"
  have on: "(\<lambda>e. on = None \<or> the on e) = retry_on cl retryOn"
    by (rule ext) (auto simp: on_def opts_def retry_on_def split: option.split)
  show "retrying cl retryOn m s = run_attempts (nat (attempts_of cl)) (retry_on cl retryOn) m s"
  proof (cases "1 \<le> attempts_of cl")
    case True
    from retry_loop_attempts [OF order.refl this, where on = on and m = m and s = s and random = "\<lambda>_. 0" and le = None]
    show ?thesis
      by (simp add: retrying_def createRetry_def withRetry_def Let_def on [unfolded on_def] on_def opts_def [symmetric] attempts_of_def ac_simps)
  next
    case False
    then have zero: "nat (attempts_of cl) = 0" and "attempts_of cl < 1" by auto
    from this(2) show ?thesis unfolding zero
      by (simp add: retrying_def createRetry_def withRetry_def Let_def retry_loop_none attempts_of_def opts_def [symmetric])
  qed
qed

lemma retrying_code [code]: "retrying cl retryOn m s = run_attempts (nat (attempts_of cl)) (retry_on cl retryOn) m s"
  by (simp add: retrying_attempts)

subsection \<open>Methods that send nothing\<close>

definition quiet :: "('w, 'a) io \<Rightarrow> bool" where
  "quiet m \<longleftrightarrow> (\<forall>s. ss_sent (snd (m s)) = ss_sent s)"

named_theorems quiets

lemma quietI: "(\<And>s r s'. m s = (r, s') \<Longrightarrow> ss_sent s' = ss_sent s) \<Longrightarrow> quiet m"
  by (simp add: quiet_def prod_eq_iff)

lemma quietD: "quiet m \<Longrightarrow> m s = (r, s') \<Longrightarrow> ss_sent s' = ss_sent s"
  by (metis quiet_def snd_conv)

lemma quiet_basic [quiets]:
  "quiet (returning x)" "quiet (throwing e)" "quiet (settle r)" "quiet (asking f)" "quiet (encode_args rpc args)"
  by (auto simp: quiet_def returning_def throwing_def settle_def asking_def encode_args_def split: prod.split list.split)

lemma quiet_and_then [quiets]: "quiet m \<Longrightarrow> (\<And>x. quiet (k x)) \<Longrightarrow> quiet (and_then m k)"
  by (auto simp: quiet_def and_then_def split: prod.split sum.split) (metis snd_conv)+

lemma quiet_catching [quiets]: "quiet m \<Longrightarrow> (\<And>e. quiet (h e)) \<Longrightarrow> quiet (catching m h)"
  by (auto simp: quiet_def catching_def split: prod.split sum.split) (metis snd_conv)+

lemma quiet_run_attempts: "quiet m \<Longrightarrow> ss_sent (snd (run_attempts n again m s)) = ss_sent s"
  by (induction n arbitrary: s) (auto dest: quietD split: prod.split sum.split)

lemma quiet_retrying [quiets]: "quiet m \<Longrightarrow> quiet (retrying cl retryOn m)"
  by (simp add: quiet_def retrying_attempts quiet_run_attempts)

lemma quiet_calls [quiets]:
  "quiet (build_transaction rpc cl source method args)" "quiet (simulate_call rpc cl source method args)"
  "quiet (read_call rpc cl source method args onError onNone parse)" "quiet (fetch_request rpc failed request)"
  "quiet (fetch_json rpc failed url)"
  by (simp_all add: build_transaction_def simulate_call_def read_call_def fetch_request_def fetch_json_def quiets)

lemma quiet_poll_rounds [quiets]: "quiet ask \<Longrightarrow> quiet (poll_rounds ask failed timeout n)"
  by (induction n) (auto intro!: quiets split: confirmation.split)

lemma quiet_poll_confirmation [quiets]: "quiet (poll_confirmation class f t n rpc cl hash)"
  by (simp add: poll_confirmation_def quiets)

subsection \<open>What a resolved method has done\<close>

lemma and_then_resolved:
  "and_then m k s = (Inr v, s') \<longleftrightarrow> (\<exists>x s1. m s = (Inr x, s1) \<and> k x s1 = (Inr v, s'))"
  by (auto simp: and_then_def split: prod.split sum.split)

lemma settle_resolved [simp]: "settle r s = (Inr v, s') \<longleftrightarrow> r = Inr v \<and> s' = s"
  by (auto simp: settle_def)

lemma returning_resolved [simp]: "returning x s = (Inr v, s') \<longleftrightarrow> x = v \<and> s' = s"
  by (auto simp: returning_def)

lemma throwing_resolved [simp]: "throwing e s \<noteq> (Inr v, s')"
  by (simp add: throwing_def)

lemma catching_throwing_resolved: "catching m (\<lambda>e. throwing (h e)) s = (Inr v, s') \<longleftrightarrow> m s = (Inr v, s')"
  by (auto simp: catching_def throwing_def split: prod.split sum.split)

lemma each_resolved:
  assumes "\<And>x s y s'. f x s = (Inr y, s') \<Longrightarrow> g y = x"
  shows "each f xs s = (Inr ys, s') \<Longrightarrow> map g ys = xs"
  by (induction xs arbitrary: s ys s') (auto simp: and_then_resolved dest: assms)

lemma bind_sum_resolved: "bind_sum r k = Inr v \<longleftrightarrow> (\<exists>x. r = Inr x \<and> k x = Inr v)"
  by (simp add: bind_sum_def split: sum.split)

definition extends :: "('w, 'a) io \<Rightarrow> bool" where
  "extends m \<longleftrightarrow> (\<forall>s. \<exists>l. ss_sent (snd (m s)) = ss_sent s @ l)"

lemma quiet_extends: "quiet m \<Longrightarrow> extends m"
  by (simp add: quiet_def extends_def)

lemma extendsD: "extends m \<Longrightarrow> m s = (r, s') \<Longrightarrow> \<exists>l. ss_sent s' = ss_sent s @ l"
  by (metis extends_def snd_conv)

lemma extends_and_then: "extends m \<Longrightarrow> (\<And>x. extends (k x)) \<Longrightarrow> extends (and_then m k)"
  unfolding extends_def
proof
  fix s
  assume m: "\<forall>s. \<exists>l. ss_sent (snd (m s)) = ss_sent s @ l" and k: "\<And>x. \<forall>s. \<exists>l. ss_sent (snd (k x s)) = ss_sent s @ l"
  obtain r s1 where s1: "m s = (r, s1)" by force
  obtain l where l: "ss_sent s1 = ss_sent s @ l" using m s1 by (metis snd_conv)
  show "\<exists>l. ss_sent (snd (and_then m k s)) = ss_sent s @ l"
  proof (cases r)
    case (Inr x)
    obtain l' where "ss_sent (snd (k x s1)) = ss_sent s1 @ l'" using k by blast
    then show ?thesis using s1 l Inr by (simp add: and_then_def)
  qed (use s1 l in \<open>simp add: and_then_def\<close>)
qed

lemma extends_send: "extends (sendTransaction_io rpc tx)" "extends (check_sent parse result)"
  by (auto simp: extends_def sendTransaction_io_def check_sent_def throwing_def returning_def split: prod.split)

lemmas extends_intros = extends_and_then extends_send quiet_extends [OF quiet_basic(4)] quiet_extends [OF quiet_basic(3)]
  quiet_extends [OF quiet_calls(1)]

lemma extends_submissions:
  "extends (send_prepared rpc cl parse signer method args)" "extends (send_signed rpc cl parse signer method args)"
  by (simp_all add: send_prepared_def send_signed_def extends_intros)

lemma extends_submit:
  assumes "\<And>hash. quiet (poll hash)"
  shows "extends (submit_and_confirm rpc cl parse poll signer method args finish)"
    "extends (submit_signed rpc cl parse poll signer method args finish)"
  using assms by (simp_all add: submit_and_confirm_def submit_signed_def extends_submissions extends_intros quiet_extends)

text \<open>A retried method resolves because its last attempt did.\<close>

lemma run_attempts_resolved:
  assumes "extends m" "run_attempts n again m s = (Inr v, s')"
  shows "\<exists>s0 l. m s0 = (Inr v, s') \<and> ss_sent s0 = ss_sent s @ l"
  using assms(2)
proof (induction n arbitrary: s)
  case (Suc n)
  obtain r s1 where m: "m s = (r, s1)" by force
  obtain l where l: "ss_sent s1 = ss_sent s @ l" using extendsD [OF assms(1) m] by blast
  show ?case
  proof (cases r)
    case (Inl e)
    then have "run_attempts n again m s1 = (Inr v, s')" using Suc.prems m by (auto split: if_splits)
    from Suc.IH [OF this] l show ?thesis by auto
  next
    case (Inr x)
    then show ?thesis using Suc.prems m by (intro exI [of _ s] exI [of _ "[]"]) auto
  qed
qed simp

lemma retrying_resolved:
  "extends m \<Longrightarrow> retrying cl retryOn m s = (Inr v, s') \<Longrightarrow> \<exists>s0 l. m s0 = (Inr v, s') \<and> ss_sent s0 = ss_sent s @ l"
  unfolding retrying_attempts by (rule run_attempts_resolved)

text \<open>The entry of the log that a submission leaves, and what the node said of it.\<close>

definition call_of :: "client \<Rightarrow> string \<Rightarrow> string \<Rightarrow> sc_arg list \<Rightarrow> invocation \<Rightarrow> bool" where
  "call_of cl source method args tx \<longleftrightarrow>
     in_source tx = source \<and> in_contract tx = cl_contract cl \<and> in_method tx = method \<and> in_args tx = args"

definition accepted :: "SendTransactionResponse \<Rightarrow> bool" where
  "accepted result \<longleftrightarrow> sr_status result \<noteq> ''ERROR''"

definition reported :: "'w rpc \<Rightarrow> string \<Rightarrow> js_value option \<Rightarrow> bool" where
  "reported rpc hash v \<longleftrightarrow> (\<exists>w w'. rp_getTransaction rpc hash w = (Inr (TxDone v), w'))"

lemma build_transaction_resolved:
  assumes "build_transaction rpc cl source method args s = (Inr tx, s')"
  shows "call_of cl source method args tx \<and> ss_sent s' = ss_sent s"
  using assms quietD [OF quiet_calls(1) assms]
  by (auto simp: build_transaction_def and_then_resolved call_of_def)

lemma send_prepared_resolved:
  assumes "send_prepared rpc cl parse signer method args s = (Inr hash, s')"
  shows "\<exists>tx result. ss_sent s' = ss_sent s @ [(tx, Inr result)] \<and> call_of cl signer method args tx \<and>
    accepted result \<and> sr_hash result = hash"
proof -
  obtain tx s1 s2 result s3 where b: "build_transaction rpc cl signer method args s = (Inr tx, s1)"
    and p: "asking (rp_prepare rpc tx) s1 = (Inr (), s2)"
    and t: "sendTransaction_io rpc tx s2 = (Inr result, s3)" and c: "check_sent parse result s3 = (Inr hash, s')"
    using assms by (auto simp: send_prepared_def and_then_resolved)
  from build_transaction_resolved [OF b] have "ss_sent s1 = ss_sent s" "call_of cl signer method args tx" by simp_all
  moreover have "ss_sent s2 = ss_sent s1" using quietD [OF quiet_basic(4) p] .
  ultimately show ?thesis using t c
    by (auto simp: sendTransaction_io_def check_sent_def accepted_def split: prod.splits if_splits)
qed

lemma asking_resolved:
  "asking f s = (Inr v, s') \<longleftrightarrow> f (ss_world s) = (Inr v, ss_world s') \<and> s' = s\<lparr>ss_world := ss_world s'\<rparr>"
  by (auto simp: asking_def split: prod.splits)

lemma poll_rounds_resolved:
  "poll_rounds ask failed timeout n s = (Inr v, s') \<Longrightarrow> \<exists>s0 s1. ask s0 = (Inr (TxDone v), s1)"
proof (induction n arbitrary: s)
  case (Suc n)
  obtain c s1 where c: "ask s = (Inr c, s1)"
    and k: "(case c of TxDone v \<Rightarrow> returning v | TxFailure \<Rightarrow> throwing failed
              | TxMissing \<Rightarrow> poll_rounds ask failed timeout n) s1 = (Inr v, s')"
    using Suc.prems by (auto simp: and_then_resolved)
  then show ?case using Suc.IH by (cases c) auto
qed simp

lemma asked_reported:
  "asking (rp_getTransaction rpc hash) s = (Inr (TxDone v), s') \<Longrightarrow> reported rpc hash v"
  by (auto simp: asking_resolved reported_def)

lemma poll_confirmation_resolved:
  assumes "poll_confirmation class f t n rpc cl hash s = (Inr v, s')"
  shows "reported rpc hash v"
proof -
  obtain s0 s1 where "retrying cl None (asking (rp_getTransaction rpc hash)) s0 = (Inr (TxDone v), s1)"
    using poll_rounds_resolved [OF assms [unfolded poll_confirmation_def]] by blast
  from retrying_resolved [OF quiet_extends [OF quiet_basic(4)] this] show ?thesis using asked_reported by blast
qed

text \<open>What a client needs of its polling loop.\<close>

definition honest_poll :: "'w rpc \<Rightarrow> (string \<Rightarrow> ('w, js_value option) io) \<Rightarrow> bool" where
  "honest_poll rpc poll \<longleftrightarrow>
     (\<forall>hash. quiet (poll hash)) \<and> (\<forall>hash s v s'. poll hash s = (Inr v, s') \<longrightarrow> reported rpc hash v)"

lemma honest_poll_confirmation: "honest_poll rpc (poll_confirmation class f t n rpc cl)"
  using poll_confirmation_resolved by (auto simp: honest_poll_def quiets)

text \<open>A submission that resolves has sent its call as the last transaction, the node accepted it, and the result comes
  from the report that it succeeded.\<close>

lemma submit_resolved:
  assumes "honest_poll rpc poll"
    and "retrying cl retryOn (submit_and_confirm rpc cl parse poll signer method args finish) s = (Inr r, s')"
  shows "\<exists>l tx result v. ss_sent s' = ss_sent s @ l @ [(tx, Inr result)] \<and> call_of cl signer method args tx \<and>
    accepted result \<and> reported rpc (sr_hash result) v \<and> finish (sr_hash result) v = Inr r"
proof -
  have quiet: "quiet (poll hash)" for hash using assms(1) by (simp add: honest_poll_def)
  from retrying_resolved [OF extends_submit(1) [OF quiet] assms(2)]
  obtain s0 l hash v s1 s2 where l: "ss_sent s0 = ss_sent s @ l"
    and sent: "send_prepared rpc cl parse signer method args s0 = (Inr hash, s1)"
    and poll: "poll hash s1 = (Inr v, s2)" and "finish hash v = Inr r" "s' = s2"
    by (auto simp: submit_and_confirm_def and_then_resolved)
  moreover have "ss_sent s2 = ss_sent s1" using quietD [OF quiet poll] .
  moreover have "reported rpc hash v" using assms(1) poll unfolding honest_poll_def by blast
  ultimately show ?thesis using send_prepared_resolved [OF sent] by fastforce
qed

subsection \<open>Submissions that are repeated\<close>

text \<open>The node takes every transaction, with a hash in \<open>H\<close>; asked for one, it always says \<open>c\<close>.\<close>

definition takes_all :: "'w rpc \<Rightarrow> (string \<Rightarrow> bool) \<Rightarrow> bool" where
  "takes_all rpc H \<longleftrightarrow>
     (\<forall>a w. \<exists>q w'. rp_getAccount rpc a w = (Inr q, w')) \<and> (\<forall>a. rp_encode rpc a = None) \<and>
     (\<forall>tx w. \<exists>w'. rp_prepare rpc tx w = (Inr (), w')) \<and>
     (\<forall>tx w. \<exists>result w'. rp_send rpc tx w = (Inr result, w') \<and> accepted result \<and> H (sr_hash result))"

definition answers :: "'w rpc \<Rightarrow> confirmation \<Rightarrow> bool" where
  "answers rpc c \<longleftrightarrow> (\<forall>h w. \<exists>w'. rp_getTransaction rpc h w = (Inr c, w'))"

lemma run_attempts_constant:
  assumes "\<And>s. \<exists>s'. m s = (Inr v, s')" "0 < n"
  shows "\<exists>s'. run_attempts n again m s = (Inr v, s')"
proof -
  obtain s' where "m s = (Inr v, s')" using assms(1) by blast
  then show ?thesis using assms(2) by (cases n) auto
qed

lemma ask_confirmation:
  assumes "answers rpc c" "1 \<le> attempts_of cl"
  shows "\<exists>s'. retrying cl None (asking (rp_getTransaction rpc hash)) s = (Inr c, s') \<and> ss_sent s' = ss_sent s"
proof -
  have "\<exists>s'. asking (rp_getTransaction rpc hash) s = (Inr c, s')" for s
  proof -
    obtain w' where "rp_getTransaction rpc hash (ss_world s) = (Inr c, w')" using assms(1) by (auto simp: answers_def)
    then show ?thesis by (simp add: asking_def)
  qed
  from run_attempts_constant [OF this] assms(2)
  obtain s1 where s1: "retrying cl None (asking (rp_getTransaction rpc hash)) s = (Inr c, s1)"
    unfolding retrying_attempts by fastforce
  moreover have "ss_sent s1 = ss_sent s" using s1 quietD [OF quiet_retrying [OF quiet_basic(4)]] by blast
  ultimately show ?thesis by blast
qed

lemma poll_rounds_times_out:
  assumes "\<And>s. \<exists>s'. ask s = (Inr TxMissing, s') \<and> ss_sent s' = ss_sent s"
  shows "\<exists>s'. poll_rounds ask failed timeout n s = (Inl timeout, s') \<and> ss_sent s' = ss_sent s"
proof (induction n arbitrary: s)
  case (Suc n)
  obtain s1 where "ask s = (Inr TxMissing, s1)" "ss_sent s1 = ss_sent s" using assms by blast
  with Suc.IH [of s1] show ?case by (auto simp: and_then_def)
qed (simp add: throwing_def)

lemma poll_rounds_fails:
  assumes "\<exists>s'. ask s = (Inr TxFailure, s') \<and> ss_sent s' = ss_sent s" "0 < n"
  shows "\<exists>s'. poll_rounds ask failed timeout n s = (Inl failed, s') \<and> ss_sent s' = ss_sent s"
  using assms by (cases n) (auto simp: and_then_def throwing_def)

lemma poll_confirmation_times_out:
  assumes "answers rpc TxMissing" "1 \<le> attempts_of cl"
  shows "\<exists>s'. poll_confirmation name f t n rpc cl hash s = (Inl (typed name t (timeout_message n)), s') \<and> ss_sent s' = ss_sent s"
  unfolding poll_confirmation_def by (rule poll_rounds_times_out) (rule ask_confirmation [OF assms])

lemma poll_confirmation_fails:
  assumes "answers rpc TxFailure" "1 \<le> attempts_of cl" "0 < n"
  shows "\<exists>s'. poll_confirmation name f t n rpc cl hash s = (Inl (typed name f (''Transaction failed: '' @ hash)), s') \<and>
    ss_sent s' = ss_sent s"
  unfolding poll_confirmation_def by (rule poll_rounds_fails) (rule ask_confirmation [OF assms(1,2)], rule assms(3))

lemma send_prepared_accepted:
  assumes "takes_all rpc H"
  shows "\<exists>tx result s'. send_prepared rpc cl parse signer method args s = (Inr (sr_hash result), s') \<and>
    ss_sent s' = ss_sent s @ [(tx, Inr result)] \<and> call_of cl signer method args tx \<and> accepted result \<and> H (sr_hash result)"
proof -
  obtain q w1 where w1: "rp_getAccount rpc signer (ss_world s) = (Inr q, w1)" using assms by (metis takes_all_def)
  define tx where "tx = \<lparr>in_source = signer, in_sequence = q + 1, in_contract = cl_contract cl, in_method = method, in_args = args\<rparr>"
  obtain w2 where w2: "rp_prepare rpc tx w1 = (Inr (), w2)" using assms by (metis takes_all_def)
  obtain result w3 where w3: "rp_send rpc tx w2 = (Inr result, w3)" "accepted result" "H (sr_hash result)" using assms by (metis takes_all_def)
  have "List.map_filter (rp_encode rpc) args = []" using assms by (simp add: takes_all_def map_filter_def)
  with w1 w2 w3 have "send_prepared rpc cl parse signer method args s =
      (Inr (sr_hash result), s\<lparr>ss_world := w3, ss_sent := ss_sent s @ [(tx, Inr result)]\<rparr>)"
    by (simp add: send_prepared_def build_transaction_def and_then_def asking_def encode_args_def returning_def
        sendTransaction_io_def check_sent_def accepted_def tx_def)
  then show ?thesis using w3 by (auto simp: call_of_def tx_def)
qed

lemma run_attempts_all_fail:
  assumes "\<And>s. \<exists>e s' x. m s = (Inl e, s') \<and> again e \<and> ss_sent s' = ss_sent s @ [x] \<and> P x" "0 < n"
  shows "\<exists>e s' l. run_attempts n again m s = (Inl e, s') \<and> ss_sent s' = ss_sent s @ l \<and> length l = n \<and> list_all P l"
  using assms(2)
proof (induction n arbitrary: s)
  case (Suc n)
  obtain e s1 x where m: "m s = (Inl e, s1)" "again e" "ss_sent s1 = ss_sent s @ [x]" "P x" using assms(1) by blast
  show ?case
  proof (cases n)
    case 0
    then show ?thesis using m by (intro exI [of _ e] exI [of _ s1] exI [of _ "[x]"]) simp
  next
    case (Suc n')
    with Suc.IH [of s1] obtain e' s' l where "run_attempts n again m s1 = (Inl e', s')" "ss_sent s' = ss_sent s1 @ l"
      "length l = n" "list_all P l" by auto
    then show ?thesis using m Suc by (intro exI [of _ e'] exI [of _ s'] exI [of _ "x # l"]) simp
  qed
qed simp

text \<open>What a client sends: the same call, accepted each time.\<close>

definition same_call :: "client \<Rightarrow> string \<Rightarrow> string \<Rightarrow> sc_arg list \<Rightarrow> invocation \<times> (client_error + SendTransactionResponse) \<Rightarrow> bool" where
  "same_call cl signer method args x \<longleftrightarrow>
     call_of cl signer method args (fst x) \<and> (\<exists>result. snd x = Inr result \<and> accepted result)"

lemma submission_repeats:
  assumes "takes_all rpc H" "1 \<le> attempts_of cl"
    and "\<And>hash s. H hash \<Longrightarrow> \<exists>e s'. poll hash s = (Inl e, s') \<and> again e \<and> ss_sent s' = ss_sent s"
  shows "\<exists>e s' l. retrying cl (Some again) (submit_and_confirm rpc cl parse poll signer method args finish) s = (Inl e, s') \<and>
      ss_sent s' = ss_sent s @ l \<and> int (length l) = attempts_of cl \<and> list_all (same_call cl signer method args) l"
proof -
  let ?m = "submit_and_confirm rpc cl parse poll signer method args finish"
  have "\<exists>e s' x. ?m s = (Inl e, s') \<and> again e \<and> ss_sent s' = ss_sent s @ [x] \<and> same_call cl signer method args x" for s
  proof -
    obtain tx result s1 where s1: "send_prepared rpc cl parse signer method args s = (Inr (sr_hash result), s1)"
      "ss_sent s1 = ss_sent s @ [(tx, Inr result)]" "call_of cl signer method args tx" "accepted result" "H (sr_hash result)"
      using send_prepared_accepted [OF assms(1)] by metis
    obtain e s2 where "poll (sr_hash result) s1 = (Inl e, s2)" "again e" "ss_sent s2 = ss_sent s1"
      using assms(3) [OF s1(5)] by blast
    then show ?thesis using s1 by (auto simp: submit_and_confirm_def and_then_def same_call_def)
  qed
  from run_attempts_all_fail [of ?m again "same_call cl signer method args" "nat (attempts_of cl)" s, OF this] assms(2)
  show ?thesis unfolding retrying_attempts retry_on_def by (auto simp: given_coalesce)
qed

lemma submission_final:
  assumes "takes_all rpc H" "1 \<le> attempts_of cl"
    and "\<And>hash s. H hash \<Longrightarrow> \<exists>e s'. poll hash s = (Inl e, s') \<and> \<not> retry_on cl retryOn e \<and> ss_sent s' = ss_sent s"
  shows "\<exists>e s' x. retrying cl retryOn (submit_and_confirm rpc cl parse poll signer method args finish) s = (Inl e, s') \<and>
      ss_sent s' = ss_sent s @ [x] \<and> same_call cl signer method args x"
proof -
  let ?m = "submit_and_confirm rpc cl parse poll signer method args finish"
  obtain tx result s1 where s1: "send_prepared rpc cl parse signer method args s = (Inr (sr_hash result), s1)"
    "ss_sent s1 = ss_sent s @ [(tx, Inr result)]" "call_of cl signer method args tx" "accepted result" "H (sr_hash result)"
    using send_prepared_accepted [OF assms(1)] by metis
  obtain e s2 where s2: "poll (sr_hash result) s1 = (Inl e, s2)" "\<not> retry_on cl retryOn e" "ss_sent s2 = ss_sent s1"
    using assms(3) [OF s1(5)] by blast
  have "?m s = (Inl e, s2)" using s1 s2 by (simp add: submit_and_confirm_def and_then_def)
  then have "retrying cl retryOn ?m s = (Inl e, s2)"
    unfolding retrying_attempts using s2(2) assms(2) by (cases "nat (attempts_of cl)") auto
  then show ?thesis using s1 s2 by (fastforce simp: same_call_def)
qed

text \<open>The message of a failed transaction ends with its hash, and a hash may contain what \<^verbatim>\<open>isNetworkError\<close> looks for.\<close>

lemma is_prefix_append: "is_prefix p s \<Longrightarrow> is_prefix p (s @ t)"
  by (induction p s rule: is_prefix.induct) auto

lemma is_prefix_map: "is_prefix p s \<Longrightarrow> is_prefix (map f p) (map f s)"
  by (induction p s rule: is_prefix.induct) auto

lemma str_includes_map: "str_includes s p \<Longrightarrow> str_includes (map f s) (map f p)"
  by (induction s p rule: str_includes.induct) (auto dest: is_prefix_map [of _ "_ # _"])

lemma str_includes_append: "str_includes t p \<Longrightarrow> str_includes (s @ t) p"
  by (induction s) auto

definition looks_like_outage :: "string \<Rightarrow> bool" where
  "looks_like_outage hash \<longleftrightarrow>
     str_includes hash ''500'' \<or> str_includes hash ''502'' \<or> str_includes hash ''503'' \<or> str_includes hash ''504''"

lemma failed_hash_network_error:
  "looks_like_outage hash \<Longrightarrow> networkError (typed name code (''Transaction failed: '' @ hash))"
proof -
  have digits: "str_includes hash p \<Longrightarrow> toLowerCase p = p \<Longrightarrow> str_includes (toLowerCase (''Transaction failed: '' @ hash)) p" for p
    using str_includes_append [of "toLowerCase hash" p "toLowerCase ''Transaction failed: ''"] str_includes_map [of hash p lower_char]
    by (simp add: toLowerCase_def)
  have same: "toLowerCase ''500'' = ''500''" "toLowerCase ''502'' = ''502''" "toLowerCase ''503'' = ''503''"
    "toLowerCase ''504'' = ''504''" by code_simp+
  define t where "t = toLowerCase (''Transaction failed: '' @ hash)"
  assume "looks_like_outage hash"
  then have "str_includes t ''500'' \<or> str_includes t ''502'' \<or> str_includes t ''503'' \<or> str_includes t ''504''"
    unfolding looks_like_outage_def t_def using digits same by blast
  then show ?thesis
    unfolding networkError_def isNetworkError_def typed_def Let_def by (simp only: client_error.simps thrown.simps option.case t_def) blast
qed

text \<open>The clients whose submissions are retried on the typed errors of the SDK: the contract of
  \<^verbatim>\<open>isRetryableSubmissionError\<close> that matters here, and what follows from it.\<close>

locale repeating_client =
  fixes name :: string and transactionFailed transactionTimeout :: int and again :: "client_error \<Rightarrow> bool"
  assumes timeout_again: "again (typed name transactionTimeout message)"
    and network_again: "networkError e \<Longrightarrow> again e"
begin

lemma slow_submission_repeats:
  assumes "takes_all rpc H" "answers rpc TxMissing" "1 \<le> attempts_of cl"
  shows "\<exists>e s' l. retrying cl (Some again) (submit_and_confirm rpc cl parse
        (poll_confirmation name transactionFailed transactionTimeout n rpc cl) signer method args finish) s = (Inl e, s') \<and>
      ss_sent s' = ss_sent s @ l \<and> int (length l) = attempts_of cl \<and> list_all (same_call cl signer method args) l"
proof (rule submission_repeats [OF assms(1,3)])
  fix hash and s :: "'a session"
  show "\<exists>e s'. poll_confirmation name transactionFailed transactionTimeout n rpc cl hash s = (Inl e, s') \<and> again e \<and>
      ss_sent s' = ss_sent s"
    using poll_confirmation_times_out [OF assms(2,3)] timeout_again by blast
qed

lemma failed_submission_repeats:
  assumes "takes_all rpc looks_like_outage" "answers rpc TxFailure" "1 \<le> attempts_of cl" "0 < n"
  shows "\<exists>e s' l. retrying cl (Some again) (submit_and_confirm rpc cl parse
        (poll_confirmation name transactionFailed transactionTimeout n rpc cl) signer method args finish) s = (Inl e, s') \<and>
      ss_sent s' = ss_sent s @ l \<and> int (length l) = attempts_of cl \<and> list_all (same_call cl signer method args) l"
proof (rule submission_repeats [OF assms(1,3)])
  fix hash and s :: "'a session"
  assume "looks_like_outage hash"
  then have "again (typed name transactionFailed (''Transaction failed: '' @ hash))"
    by (intro network_again failed_hash_network_error)
  moreover obtain s' where "poll_confirmation name transactionFailed transactionTimeout n rpc cl hash s =
      (Inl (typed name transactionFailed (''Transaction failed: '' @ hash)), s')" "ss_sent s' = ss_sent s"
    using poll_confirmation_fails [OF assms(2-4)] by blast
  ultimately show "\<exists>e s'. poll_confirmation name transactionFailed transactionTimeout n rpc cl hash s = (Inl e, s') \<and> again e \<and>
      ss_sent s' = ss_sent s" by blast
qed

end

subsection \<open>A concrete node\<close>

text \<open>For the witnesses: a node that counts the transactions it takes, gives each the hash \<open>h\<close>, answers every simulation
  with \<open>sim\<close> and every question for a transaction with \<open>c\<close>; and a client with the default retries.\<close>

definition steady_node :: "string \<Rightarrow> simulation \<Rightarrow> confirmation \<Rightarrow> nat rpc" where
  "steady_node h sim c =
     \<lparr>rp_encode = (\<lambda>_. None), rp_getAccount = (\<lambda>_ n. (Inr (int n), n)), rp_simulate = (\<lambda>_ n. (Inr sim, n)),
      rp_prepare = (\<lambda>_ n. (Inr (), n)), rp_sign = (\<lambda>tx n. (Inr tx, n)),
      rp_send = (\<lambda>_ n. (Inr \<lparr>sr_status = ''PENDING'', sr_hash = h, sr_error = None, sr_json = ''{}''\<rparr>, Suc n)),
      rp_getTransaction = (\<lambda>_ n. (Inr c, n)), rp_getLatestLedger = (\<lambda>n. (Inr 100, n)),
      rp_getEvents = (\<lambda>_ n. (Inr (Some []), n)), rp_now = (\<lambda>n. (int n, n)), rp_sleep = (\<lambda>ms n. n + nat ms),
      rp_fetch = (\<lambda>_ n. (Inl (js_error_of ''Error'' ''offline''), n))\<rparr>"

definition plain_client :: client where
  "plain_client =
     \<lparr>cl_rpcUrl = ''https://rpc'', cl_contract = ''C1'', cl_networkPassphrase = ''test'', cl_simulationAccount = Some ''G0'',
      cl_indexerUrl = None, cl_backendUrl = None, cl_retry = \<lparr>cc_retry = None, cc_maxAttempts = None, cc_baseDelayMs = None\<rparr>,
      cl_retryDefaults = network_defaults\<rparr>"

definition returns :: "js_value option \<Rightarrow> simulation" where
  "returns v = SimSuccess \<lparr>sm_retval = v, sm_resultCost = JUndefined, sm_cost = JUndefined, sm_minResourceFee = JUndefined\<rparr>"

definition fresh_session :: "nat session" where
  "fresh_session = \<lparr>ss_world = 0, ss_sent = []\<rparr>"

lemma steady_node_takes_all: "H h \<Longrightarrow> takes_all (steady_node h sim c) H"
  by (simp add: takes_all_def steady_node_def accepted_def)

lemma steady_node_answers: "answers (steady_node h sim c) c"
  by (simp add: answers_def steady_node_def)

lemma plain_client_attempts: "attempts_of plain_client = 3"
  by (simp add: attempts_of_def plain_client_def merged_options_def network_defaults_def no_options_def spread_def
      coalesce_def or_else_def)

end
