(* ===== verification/SdkTreasury.thy ===== *)
theory SdkTreasury
  imports SdkClient
begin

section \<open>The treasury client of the SDK\<close>

text \<open>
  \<^verbatim>\<open>TreasuryClient\<close> of \<^verbatim>\<open>sdk/src/treasury.ts\<close>: batch transfers, spending caps, the multi-signature reads, budget streams, and
  the histories read from the indexer. Every method is written over the calls of \<open>SdkClient\<close>; its retries, checks,
  argument list, and the parsing of its result are those of the code. Amounts and identifiers are integers, what
  \<^verbatim>\<open>Number(...)\<close> returns is a double.
\<close>

subsection \<open>Data\<close>

record BatchTransferRecipient =
  br_address :: string
  br_amount :: int

record SpendingCap =
  sc_token :: js_value
  sc_maxAmount :: int
  sc_periodLedgers :: js_number

record TreasuryTx =
  tt_id :: int
  tt_proposer :: js_value
  tt_target :: js_value
  tt_approvals :: js_number
  tt_executed :: bool
  tt_cancelled :: bool

record BatchTransferEvent =
  be_opHash :: js_value
  be_token :: js_value
  be_recipientCount :: js_value
  be_totalAmount :: int
  be_ledger :: js_value

datatype StreamEvent =
  StreamCreated int js_value js_value js_value
| StreamSpent int js_value int js_value
| StreamBatch int int js_value js_value
| StreamRevoked int js_value int js_value
| StreamExtended int js_value js_value js_value
| StreamToppedUp int int int js_value
| StreamExhausted int js_value
| StreamExpired int int js_value

record CreateStreamParams =
  cs_name :: string
  cs_owner :: string
  cs_token :: string
  cs_totalAllocated :: int
  cs_startLedger :: int
  cs_endLedger :: int
  cs_maxSingleSpend :: int
  cs_cooldownLedgers :: int
  cs_proposalId :: int

record BudgetStream =
  bs_id :: int
  bs_name :: string
  bs_owner :: string
  bs_token :: string
  bs_totalAllocated :: int
  bs_totalSpent :: int
  bs_startLedger :: js_number
  bs_endLedger :: js_number
  bs_isActive :: bool
  bs_isRevoked :: bool
  bs_revokedAtLedger :: "js_number option"
  bs_maxSingleSpend :: int
  bs_cooldownLedgers :: js_number
  bs_lastSpendLedger :: js_number
  bs_spendCount :: js_number
  bs_createdByProposalId :: int

record StreamSpend =
  sp_streamId :: int
  sp_spendIndex :: js_number
  sp_recipient :: string
  sp_amount :: int
  sp_memo :: string
  sp_executedAtLedger :: js_number
  sp_executedBy :: string

record StreamBudgetReport =
  rp_streamId :: int
  rp_name :: string
  rp_totalAllocated :: int
  rp_totalSpent :: int
  rp_remaining :: int
  rp_utilizationBps :: js_number
  rp_isActive :: bool
  rp_daysRemaining :: js_number
  rp_spendCount :: js_number
  rp_avgSpend :: int

record TreasuryBudgetSummary =
  bu_totalStreams :: js_number
  bu_activeStreams :: js_number
  bu_totalAllocatedByToken :: "(string \<times> int) list"
  bu_totalSpentByToken :: "(string \<times> int) list"
  bu_totalRemainingByToken :: "(string \<times> int) list"

record PaginationOptions =
  po_offset :: "int option"
  po_limit :: "int option"

subsection \<open>Errors, accounts and confirmations\<close>

definition TreasuryErr :: "string \<Rightarrow> string \<Rightarrow> client_error" where
  "TreasuryErr code message = typed ''TreasuryError'' (the (map_of TreasuryErrorCode code)) message"

definition TreasuryClient :: "stellar \<Rightarrow> config \<Rightarrow> string \<Rightarrow> client_error + client" where
  "TreasuryClient stellar config treasuryAddress = open_client stellar config network_defaults treasuryAddress"

definition encodeBatchRecipient :: "BatchTransferRecipient \<Rightarrow> sc_arg" where
  "encodeBatchRecipient r = AMap [(''amount'', AI128 (br_amount r)), (''recipient'', AAddress (br_address r))]"

definition treasury_readAccount :: "client \<Rightarrow> ('w, string) io" where
  "treasury_readAccount cl =
     (case cl_simulationAccount cl of
        Some account \<Rightarrow> if account = '''' then throwing (TreasuryErr ''InvalidArguments''
            ''TreasuryClient read methods require simulationAccount in TreasuryConfig'') else returning account
      | None \<Rightarrow> throwing (TreasuryErr ''InvalidArguments''
          ''TreasuryClient read methods require simulationAccount in TreasuryConfig''))"

definition treasury_isRetryableSubmissionError :: "client_error \<Rightarrow> bool" where
  "treasury_isRetryableSubmissionError e =
     (if networkError e then True
      else if ce_class e = ''TreasuryError''
      then (case ce_code e of None \<Rightarrow> False
            | Some code \<Rightarrow> 100 \<le> code \<and> code \<noteq> the (map_of TreasuryErrorCode ''TransactionFailed'') \<and>
                code \<noteq> the (map_of TreasuryErrorCode ''MissingReturnValue''))
      else False)"

definition treasury_pollForConfirmation :: "'w rpc \<Rightarrow> client \<Rightarrow> string \<Rightarrow> ('w, js_value option) io" where
  "treasury_pollForConfirmation rpc cl hash =
     poll_confirmation ''TreasuryError'' (the (map_of TreasuryErrorCode ''TransactionFailed''))
       (the (map_of TreasuryErrorCode ''TransactionTimeout'')) 10 rpc cl hash"

text \<open>The steps from \<^verbatim>\<open>getAccount\<close> to \<^verbatim>\<open>pollForConfirmation\<close> that the submitting methods repeat, under their retry.\<close>

definition treasury_submit ::
  "'w rpc \<Rightarrow> client \<Rightarrow> string \<Rightarrow> string \<Rightarrow> sc_arg list \<Rightarrow> (string \<Rightarrow> js_value option \<Rightarrow> client_error + 'a) \<Rightarrow> ('w, 'a) io" where
  "treasury_submit rpc cl signer method args finish =
     submit_and_confirm rpc cl (sent_error ''TreasuryError'' parseTreasuryError) (treasury_pollForConfirmation rpc cl)
       signer method args finish"

text \<open>The steps of the reads: \<^verbatim>\<open>simulateTransaction\<close> on a transaction of \<^verbatim>\<open>readAccount()\<close>, retried on network errors.\<close>

definition treasury_read ::
  "'w rpc \<Rightarrow> client \<Rightarrow> string \<Rightarrow> sc_arg list \<Rightarrow> client_error + 'a \<Rightarrow> client_error + 'a \<Rightarrow> (js_value \<Rightarrow> client_error + 'a) \<Rightarrow>
   ('w, 'a) io" where
  "treasury_read rpc cl method args onError onNone parse =
     retrying cl None
       (and_then (treasury_readAccount cl) (\<lambda>account.
          read_call rpc cl account method args (\<lambda>_. onError) onNone parse))"

subsection \<open>Transfers and spending caps\<close>

fun invalid_amount :: "BatchTransferRecipient list \<Rightarrow> BatchTransferRecipient option" where
  "invalid_amount [] = None"
| "invalid_amount (r # rs) = (if br_amount r \<le> 0 then Some r else invalid_amount rs)"

definition batchTransfer ::
  "'w rpc \<Rightarrow> client \<Rightarrow> string \<Rightarrow> string \<Rightarrow> BatchTransferRecipient list \<Rightarrow> ('w, string) io" where
  "batchTransfer rpc cl signer token recipients =
     retrying cl (Some treasury_isRetryableSubmissionError)
       (if recipients = [] then throwing (TreasuryErr ''InvalidArguments'' ''recipients list must not be empty'')
        else case invalid_amount recipients of
          Some r \<Rightarrow> throwing (TreasuryErr ''InvalidArguments''
            (''amount must be positive, got '' @ dec_int (br_amount r) @ '' for '' @ br_address r))
        | None \<Rightarrow>
            treasury_submit rpc cl signer ''batch_transfer''
              [AAddress signer, AAddress token, AVec (map encodeBatchRecipient recipients)]
              (\<lambda>hash. value_or (TreasuryErr ''MissingReturnValue'' ''No return value from batch_transfer'')
                 (\<lambda>v. with_hex v Inr)))"

definition setSpendingCap :: "'w rpc \<Rightarrow> client \<Rightarrow> string \<Rightarrow> string \<Rightarrow> int \<Rightarrow> int \<Rightarrow> ('w, unit) io" where
  "setSpendingCap rpc cl signer token maxAmount periodLedgers =
     retrying cl (Some treasury_isRetryableSubmissionError)
       (and_then (send_prepared rpc cl (sent_error ''TreasuryError'' parseTreasuryError) signer ''set_spending_cap''
            [AAddress signer, AAddress token, AI128 maxAmount, AU32 periodLedgers])
          (\<lambda>_. returning ()))"

definition getSpendingCap :: "'w rpc \<Rightarrow> client \<Rightarrow> string \<Rightarrow> ('w, SpendingCap option) io" where
  "getSpendingCap rpc cl token =
     treasury_read rpc cl ''get_spending_cap'' [AAddress token] (Inr None) (Inr None)
       (\<lambda>cap.
          if \<not> js_Boolean cap then Inr None
          else with_BigInt (field cap ''max_amount'') (\<lambda>maxAmount.
            Inr (Some \<lparr>sc_token = field cap ''token'', sc_maxAmount = maxAmount,
                       sc_periodLedgers = js_Number (field cap ''period_ledgers'')\<rparr>)))"

definition getSpentThisPeriod :: "'w rpc \<Rightarrow> client \<Rightarrow> string \<Rightarrow> ('w, int) io" where
  "getSpentThisPeriod rpc cl token =
     treasury_read rpc cl ''get_spent_this_period'' [AAddress token] (Inr 0) (Inr 0) (\<lambda>v. with_BigInt v Inr)"

definition getSpendingRemaining :: "'w rpc \<Rightarrow> client \<Rightarrow> string \<Rightarrow> ('w, int option) io" where
  "getSpendingRemaining rpc cl token =
     treasury_read rpc cl ''get_spending_remaining'' [AAddress token] (Inr None) (Inr None)
       (\<lambda>v. with_BigInt v (\<lambda>remaining. Inr (if remaining = 2 ^ 127 - 1 then None else Some remaining)))"

subsection \<open>Owners and transactions\<close>

definition getOwners :: "'w rpc \<Rightarrow> client \<Rightarrow> ('w, string list) io" where
  "getOwners rpc cl =
     treasury_read rpc cl ''owners'' [] (Inr []) (Inr [])
       (\<lambda>owners. with_array owners ''owners'' (\<lambda>os. Inr (map js_String os)))"

definition getThreshold :: "'w rpc \<Rightarrow> client \<Rightarrow> ('w, js_number) io" where
  "getThreshold rpc cl =
     treasury_read rpc cl ''threshold'' [] (Inr (Finite 1)) (Inr (Finite 1)) (\<lambda>v. Inr (js_Number v))"

definition treasury_isOwner :: "'w rpc \<Rightarrow> client \<Rightarrow> string \<Rightarrow> ('w, bool) io" where
  "treasury_isOwner rpc cl address =
     treasury_read rpc cl ''is_treasury_owner'' [AAddress address] (Inr False) (Inr False) (\<lambda>v. Inr (js_Boolean v))"

definition getOwner :: "'w rpc \<Rightarrow> client \<Rightarrow> ('w, string) io" where
  "getOwner rpc cl = treasury_read rpc cl ''get_owner'' [] (Inr '''') (Inr '''') (\<lambda>v. Inr (js_String v))"

definition isGovernor :: "'w rpc \<Rightarrow> client \<Rightarrow> string \<Rightarrow> ('w, bool) io" where
  "isGovernor rpc cl address =
     and_then (getOwner rpc cl) (\<lambda>governor. returning (governor = address))"

definition getTxCount :: "'w rpc \<Rightarrow> client \<Rightarrow> ('w, int) io" where
  "getTxCount rpc cl = treasury_read rpc cl ''tx_count'' [] (Inr 0) (Inr 0) (\<lambda>v. with_BigInt v Inr)"

definition getTx :: "'w rpc \<Rightarrow> client \<Rightarrow> int \<Rightarrow> ('w, TreasuryTx) io" where
  "getTx rpc cl txId =
     treasury_read rpc cl ''get_tx'' [AU64 txId]
       (Inl (TreasuryErr ''InvalidArguments'' (''Treasury transaction '' @ dec_int txId @ '' not found'')))
       (Inl (TreasuryErr ''MissingReturnValue'' (''No return value from get_tx('' @ dec_int txId @ '')'')))
       (\<lambda>tx. with_member tx ''id'' (\<lambda>i. with_BigInt i (\<lambda>i.
          Inr \<lparr>tt_id = i, tt_proposer = field tx ''proposer'', tt_target = field tx ''target'',
               tt_approvals = js_Number (field tx ''approvals''), tt_executed = js_Boolean (field tx ''executed''),
               tt_cancelled = js_Boolean (field tx ''cancelled'')\<rparr>)))"

definition submitWithLimit :: "'w rpc \<Rightarrow> client \<Rightarrow> string \<Rightarrow> string \<Rightarrow> bytes \<Rightarrow> int \<Rightarrow> ('w, js_value) io" where
  "submitWithLimit rpc cl signer target calldata amount =
     retrying cl (Some treasury_isRetryableSubmissionError)
       (treasury_submit rpc cl signer ''submit_with_limit''
          [AAddress signer, AAddress target, ABytes calldata, AI128 amount]
          (\<lambda>hash. value_or (TreasuryErr ''MissingReturnValue'' ''No return value from submit_with_limit'') Inr))"

subsection \<open>Histories from the indexer\<close>

definition indexer_failed :: "http_response \<Rightarrow> client_error" where
  "indexer_failed response =
     TreasuryErr ''TransactionFailed''
       (''Indexer request failed: '' @ dec_int (hr_status response) @ '' '' @ hr_statusText response)"

definition transfer_row :: "js_value \<Rightarrow> client_error + BatchTransferEvent" where
  "transfer_row row =
     with_member row ''op_hash'' (\<lambda>opHash.
     with_BigInt (field row ''total_amount'') (\<lambda>totalAmount.
       Inr \<lparr>be_opHash = opHash, be_token = field row ''token'', be_recipientCount = field row ''recipient_count'',
            be_totalAmount = totalAmount, be_ledger = field row ''ledger''\<rparr>))"

text \<open>\<^verbatim>\<open>e.ledger >= fromLedger\<close>: a ledger that is not a number is not greater or equal.\<close>

definition ledger_at_least :: "js_value \<Rightarrow> int \<Rightarrow> bool" where
  "ledger_at_least v fromLedger = (case js_Number v of Finite x \<Rightarrow> of_int fromLedger \<le> x | Infinite neg \<Rightarrow> \<not> neg | NotANumber \<Rightarrow> False)"

definition getBatchTransferHistory ::
  "'w rpc \<Rightarrow> client \<Rightarrow> int option \<Rightarrow> int \<Rightarrow> int \<Rightarrow> ('w, BatchTransferEvent list) io" where
  "getBatchTransferHistory rpc cl fromLedger limit offset =
     (case cl_indexerUrl cl of
        Some url \<Rightarrow>
          if url = '''' then throwing (TreasuryErr ''InvalidArguments''
            ''indexerUrl must be set in TreasuryConfig to use getBatchTransferHistory'')
          else
            and_then (fetch_json rpc indexer_failed
                (trim_slash url @ ''/treasury/transfers?'' @
                 URLSearchParams [(''limit'', dec_int (min limit 100)), (''offset'', dec_int offset)])) (\<lambda>json.
              settle (with_member json ''data'' (\<lambda>rows. with_array rows ''json.data'' (\<lambda>rows.
                bind_sum (map_throwing transfer_row rows) (\<lambda>events.
                  Inr (filter (\<lambda>e. case fromLedger of None \<Rightarrow> True | Some l \<Rightarrow> ledger_at_least (be_ledger e) l) events))))))
      | None \<Rightarrow> throwing (TreasuryErr ''InvalidArguments''
          ''indexerUrl must be set in TreasuryConfig to use getBatchTransferHistory''))"

definition stream_row :: "js_value \<Rightarrow> client_error + StreamEvent" where
  "stream_row row =
     with_member row ''ledger'' (\<lambda>ledger.
     with_BigInt (field row ''stream_id'') (\<lambda>streamId.
       let event_type = field row ''event_type'';
           text = (\<lambda>name. nullish_or (field row name) (JString ''''));
           amount = (\<lambda>name. nullish_or (field row name) (JString ''0''));
           number = (\<lambda>name. nullish_or (field row name) (JNumber 0))
       in if event_type = JString ''stream_created'' then
            Inr (StreamCreated streamId (text ''name'') (text ''owner'') ledger)
          else if event_type = JString ''stream_spend'' then
            with_BigInt (amount ''amount'') (\<lambda>a. Inr (StreamSpent streamId (text ''recipient'') a ledger))
          else if event_type = JString ''stream_batch'' then
            with_BigInt (amount ''total_amount'') (\<lambda>a. Inr (StreamBatch streamId a (number ''recipient_count'') ledger))
          else if event_type = JString ''stream_revoked'' then
            with_BigInt (amount ''unspent_returned'') (\<lambda>a. Inr (StreamRevoked streamId (text ''caller'') a ledger))
          else if event_type = JString ''stream_extended'' then
            Inr (StreamExtended streamId (number ''old_end_ledger'') (number ''new_end_ledger'') ledger)
          else if event_type = JString ''stream_topped_up'' then
            with_BigInt (amount ''additional_amount'') (\<lambda>a. with_BigInt (amount ''new_total_amount'') (\<lambda>t.
              Inr (StreamToppedUp streamId a t ledger)))
          else if event_type = JString ''stream_exhausted'' then Inr (StreamExhausted streamId ledger)
          else if event_type = JString ''stream_expired'' then
            with_BigInt (amount ''unspent'') (\<lambda>a. Inr (StreamExpired streamId a ledger))
          else Inl (TreasuryErr ''InvalidArguments'' (''Unknown stream event type: '' @ js_String event_type))))"

definition getStreamHistory :: "'w rpc \<Rightarrow> client \<Rightarrow> int \<Rightarrow> int \<Rightarrow> int \<Rightarrow> ('w, StreamEvent list) io" where
  "getStreamHistory rpc cl streamId limit offset =
     (case cl_indexerUrl cl of
        Some url \<Rightarrow>
          if url = '''' then throwing (TreasuryErr ''InvalidArguments''
            ''indexerUrl must be set in TreasuryConfig to use getStreamHistory'')
          else
            and_then (fetch_json rpc indexer_failed
                (trim_slash url @ ''/treasury/stream-events?'' @
                 URLSearchParams [(''stream_id'', dec_int streamId), (''limit'', dec_int (min limit 100)),
                                  (''offset'', dec_int offset)])) (\<lambda>json.
              settle (with_member json ''data'' (\<lambda>rows. with_array rows ''json.data'' (map_throwing stream_row))))
      | None \<Rightarrow> throwing (TreasuryErr ''InvalidArguments''
          ''indexerUrl must be set in TreasuryConfig to use getStreamHistory''))"

subsection \<open>Budget streams: writes\<close>

definition createStream :: "'w rpc \<Rightarrow> client \<Rightarrow> string \<Rightarrow> CreateStreamParams \<Rightarrow> ('w, int \<times> string) io" where
  "createStream rpc cl signer params =
     retrying cl (Some treasury_isRetryableSubmissionError)
       (treasury_submit rpc cl signer ''create_stream''
          [AAddress signer, ASymbol (cs_name params), AAddress (cs_owner params), AAddress (cs_token params),
           AI128 (cs_totalAllocated params), AU32 (cs_startLedger params), AU32 (cs_endLedger params),
           AI128 (cs_maxSingleSpend params), AU32 (cs_cooldownLedgers params), AU64 (cs_proposalId params)]
          (\<lambda>hash. value_or (TreasuryErr ''MissingReturnValue'' ''No return value from create_stream'')
             (\<lambda>v. with_BigInt v (\<lambda>streamId. Inr (streamId, hash)))))"

definition client_streamSpend ::
  "'w rpc \<Rightarrow> client \<Rightarrow> string \<Rightarrow> int \<Rightarrow> string \<Rightarrow> int \<Rightarrow> string \<Rightarrow> ('w, string) io" where
  "client_streamSpend rpc cl signer streamId recipient amount memo =
     retrying cl (Some treasury_isRetryableSubmissionError)
       (treasury_submit rpc cl signer ''stream_spend''
          [AAddress signer, AU64 streamId, AAddress recipient, AI128 amount, AString memo] (\<lambda>hash _. Inr hash))"

definition client_streamBatchSpend ::
  "'w rpc \<Rightarrow> client \<Rightarrow> string \<Rightarrow> int \<Rightarrow> string list \<Rightarrow> int list \<Rightarrow> string \<Rightarrow> ('w, string) io" where
  "client_streamBatchSpend rpc cl signer streamId recipients amounts memo =
     retrying cl (Some treasury_isRetryableSubmissionError)
       (if length recipients \<noteq> length amounts
        then throwing (TreasuryErr ''InvalidArguments'' ''recipients and amounts must have the same length'')
        else treasury_submit rpc cl signer ''stream_batch_spend''
          [AAddress signer, AU64 streamId, AVec (map AAddress recipients), AVec (map AI128 amounts), AString memo]
          (\<lambda>hash _. Inr hash))"

definition client_revokeStream :: "'w rpc \<Rightarrow> client \<Rightarrow> string \<Rightarrow> int \<Rightarrow> ('w, string) io" where
  "client_revokeStream rpc cl signer streamId =
     retrying cl (Some treasury_isRetryableSubmissionError)
       (treasury_submit rpc cl signer ''revoke_stream'' [AAddress signer, AU64 streamId] (\<lambda>hash _. Inr hash))"

definition client_extendStream :: "'w rpc \<Rightarrow> client \<Rightarrow> string \<Rightarrow> int \<Rightarrow> int \<Rightarrow> ('w, string) io" where
  "client_extendStream rpc cl signer streamId newEndLedger =
     retrying cl (Some treasury_isRetryableSubmissionError)
       (treasury_submit rpc cl signer ''extend_stream'' [AAddress signer, AU64 streamId, AU32 newEndLedger]
          (\<lambda>hash _. Inr hash))"

definition client_topUpStream :: "'w rpc \<Rightarrow> client \<Rightarrow> string \<Rightarrow> int \<Rightarrow> int \<Rightarrow> ('w, string) io" where
  "client_topUpStream rpc cl signer streamId additionalAmount =
     retrying cl (Some treasury_isRetryableSubmissionError)
       (treasury_submit rpc cl signer ''top_up_stream'' [AAddress signer, AU64 streamId, AI128 additionalAmount]
          (\<lambda>hash _. Inr hash))"

subsection \<open>Budget streams: reads\<close>

definition parseBudgetStreamFromNative :: "js_value \<Rightarrow> client_error + BudgetStream" where
  "parseBudgetStreamFromNative s =
     with_member s ''id'' (\<lambda>v. with_BigInt v (\<lambda>i.
     with_BigInt (field s ''total_allocated'') (\<lambda>totalAllocated.
     with_BigInt (field s ''total_spent'') (\<lambda>totalSpent.
     with_BigInt (field s ''max_single_spend'') (\<lambda>maxSingleSpend.
     with_BigInt (field s ''created_by_proposal_id'') (\<lambda>createdBy.
       Inr \<lparr>bs_id = i,
            bs_name = js_String (field s ''name''),
            bs_owner = js_String (field s ''owner''),
            bs_token = js_String (field s ''token''),
            bs_totalAllocated = totalAllocated,
            bs_totalSpent = totalSpent,
            bs_startLedger = js_Number (field s ''start_ledger''),
            bs_endLedger = js_Number (field s ''end_ledger''),
            bs_isActive = js_Boolean (field s ''is_active''),
            bs_isRevoked = js_Boolean (field s ''is_revoked''),
            bs_revokedAtLedger = (if nullish (field s ''revoked_at_ledger'') then None
                                  else Some (js_Number (field s ''revoked_at_ledger''))),
            bs_maxSingleSpend = maxSingleSpend,
            bs_cooldownLedgers = js_Number (field s ''cooldown_ledgers''),
            bs_lastSpendLedger = js_Number (field s ''last_spend_ledger''),
            bs_spendCount = js_Number (field s ''spend_count''),
            bs_createdByProposalId = createdBy\<rparr>))))))"

definition client_getStream :: "'w rpc \<Rightarrow> client \<Rightarrow> int \<Rightarrow> ('w, BudgetStream) io" where
  "client_getStream rpc cl streamId =
     treasury_read rpc cl ''get_stream'' [AU64 streamId]
       (Inl (TreasuryErr ''StreamNotFound'' (''Stream '' @ dec_int streamId @ '' not found'')))
       (Inl (TreasuryErr ''MissingReturnValue'' (''No return value from get_stream('' @ dec_int streamId @ '')'')))
       parseBudgetStreamFromNative"

definition client_getStreams :: "'w rpc \<Rightarrow> client \<Rightarrow> PaginationOptions \<Rightarrow> ('w, BudgetStream list) io" where
  "client_getStreams rpc cl options =
     treasury_read rpc cl ''get_streams'' [AU64 (or_else (po_offset options) 0), AU64 (or_else (po_limit options) 20)]
       (Inr []) (Inr [])
       (\<lambda>streams. with_array streams ''streams'' (map_throwing parseBudgetStreamFromNative))"

definition client_getStreamsByOwner :: "'w rpc \<Rightarrow> client \<Rightarrow> string \<Rightarrow> PaginationOptions \<Rightarrow> ('w, BudgetStream list) io" where
  "client_getStreamsByOwner rpc cl owner options =
     treasury_read rpc cl ''get_streams_by_owner''
       [AAddress owner, AU64 (or_else (po_offset options) 0), AU64 (or_else (po_limit options) 20)]
       (Inr []) (Inr [])
       (\<lambda>streams. with_array streams ''streams'' (map_throwing parseBudgetStreamFromNative))"

definition spend_row :: "js_value \<Rightarrow> client_error + StreamSpend" where
  "spend_row s =
     with_member s ''stream_id'' (\<lambda>v. with_BigInt v (\<lambda>streamId.
     with_BigInt (field s ''amount'') (\<lambda>amount.
       Inr \<lparr>sp_streamId = streamId, sp_spendIndex = js_Number (field s ''spend_index''),
            sp_recipient = js_String (field s ''recipient''), sp_amount = amount,
            sp_memo = js_String (field s ''memo''), sp_executedAtLedger = js_Number (field s ''executed_at_ledger''),
            sp_executedBy = js_String (field s ''executed_by'')\<rparr>)))"

definition client_getStreamSpends :: "'w rpc \<Rightarrow> client \<Rightarrow> int \<Rightarrow> PaginationOptions \<Rightarrow> ('w, StreamSpend list) io" where
  "client_getStreamSpends rpc cl streamId options =
     treasury_read rpc cl ''get_stream_spends''
       [AU64 streamId, AU32 (or_else (po_offset options) 0), AU32 (or_else (po_limit options) 50)]
       (Inr []) (Inr [])
       (\<lambda>spends. with_array spends ''spends'' (map_throwing spend_row))"

definition client_getStreamReport :: "'w rpc \<Rightarrow> client \<Rightarrow> int \<Rightarrow> ('w, StreamBudgetReport) io" where
  "client_getStreamReport rpc cl streamId =
     treasury_read rpc cl ''get_stream_report'' [AU64 streamId]
       (Inl (TreasuryErr ''StreamNotFound'' (''Stream '' @ dec_int streamId @ '' not found'')))
       (Inl (TreasuryErr ''MissingReturnValue'' (''No return value from get_stream_report('' @ dec_int streamId @ '')'')))
       (\<lambda>r. with_member r ''stream_id'' (\<lambda>v. with_BigInt v (\<lambda>i.
          with_BigInt (field r ''total_allocated'') (\<lambda>totalAllocated.
          with_BigInt (field r ''total_spent'') (\<lambda>totalSpent.
          with_BigInt (field r ''remaining'') (\<lambda>remaining.
          with_BigInt (field r ''avg_spend'') (\<lambda>avgSpend.
            Inr \<lparr>rp_streamId = i, rp_name = js_String (field r ''name''), rp_totalAllocated = totalAllocated,
                 rp_totalSpent = totalSpent, rp_remaining = remaining,
                 rp_utilizationBps = js_Number (field r ''utilization_bps''),
                 rp_isActive = js_Boolean (field r ''is_active''),
                 rp_daysRemaining = js_Number (field r ''days_remaining''),
                 rp_spendCount = js_Number (field r ''spend_count''), rp_avgSpend = avgSpend\<rparr>)))))))"

definition no_budget :: TreasuryBudgetSummary where
  "no_budget = \<lparr>bu_totalStreams = Finite 0, bu_activeStreams = Finite 0, bu_totalAllocatedByToken = [],
     bu_totalSpentByToken = [], bu_totalRemainingByToken = []\<rparr>"

text \<open>\<^verbatim>\<open>p[0]\<close> and \<^verbatim>\<open>p[1]\<close> of a pair that is not an array are \<^verbatim>\<open>undefined\<close>.\<close>

definition parseTokenAmounts :: "js_value \<Rightarrow> client_error + (string \<times> int) list" where
  "parseTokenAmounts arr =
     (if \<not> isArray arr then Inr []
      else map_throwing (\<lambda>p. with_member p ''0'' (\<lambda>_. with_BigInt (elem p 1) (\<lambda>amount. Inr (js_String (elem p 0), amount))))
             (elements arr))"

definition getBudgetSummary :: "'w rpc \<Rightarrow> client \<Rightarrow> ('w, TreasuryBudgetSummary) io" where
  "getBudgetSummary rpc cl =
     treasury_read rpc cl ''get_budget_summary'' [] (Inr no_budget) (Inr no_budget)
       (\<lambda>s. with_member s ''total_streams'' (\<lambda>total.
          bind_sum (parseTokenAmounts (field s ''total_allocated_by_token'')) (\<lambda>allocated.
          bind_sum (parseTokenAmounts (field s ''total_spent_by_token'')) (\<lambda>spent.
          bind_sum (parseTokenAmounts (field s ''total_remaining_by_token'')) (\<lambda>remaining.
            Inr \<lparr>bu_totalStreams = js_Number total, bu_activeStreams = js_Number (field s ''active_streams''),
                 bu_totalAllocatedByToken = allocated, bu_totalSpentByToken = spent,
                 bu_totalRemainingByToken = remaining\<rparr>)))))"

definition client_getStreamRemaining :: "'w rpc \<Rightarrow> client \<Rightarrow> int \<Rightarrow> ('w, int) io" where
  "client_getStreamRemaining rpc cl streamId =
     treasury_read rpc cl ''get_stream_remaining'' [AU64 streamId] (Inr 0) (Inr 0) (\<lambda>v. with_BigInt v Inr)"

subsection \<open>Submissions\<close>

lemma treasury_codes [simp]:
  "map_of TreasuryErrorCode ''TransactionFailed'' = Some 101" "map_of TreasuryErrorCode ''TransactionTimeout'' = Some 102"
  "map_of TreasuryErrorCode ''MissingReturnValue'' = Some 103" "map_of TreasuryErrorCode ''InvalidArguments'' = Some 104"
  "map_of TreasuryErrorCode ''StreamNotFound'' = Some 10"
  by (simp_all add: TreasuryErrorCode_def)

interpretation treasury_client: repeating_client "''TreasuryError''" 101 102 treasury_isRetryableSubmissionError
  by unfold_locales (simp_all add: treasury_isRetryableSubmissionError_def typed_def)

lemma treasury_poll: "treasury_pollForConfirmation rpc cl = poll_confirmation ''TreasuryError'' 101 102 10 rpc cl"
  by (rule ext) (simp add: treasury_pollForConfirmation_def)

definition batch_args :: "string \<Rightarrow> string \<Rightarrow> BatchTransferRecipient list \<Rightarrow> sc_arg list" where
  "batch_args signer token recipients = [AAddress signer, AAddress token, AVec (map encodeBatchRecipient recipients)]"

lemma invalid_amount_None: "invalid_amount rs = None \<longleftrightarrow> (\<forall>r \<in> set rs. 0 < br_amount r)"
  by (induction rs) auto

lemma batchTransfer_valid:
  assumes "recipients \<noteq> []" "\<forall>r \<in> set recipients. 0 < br_amount r"
  shows "batchTransfer rpc cl signer token recipients =
    retrying cl (Some treasury_isRetryableSubmissionError)
      (submit_and_confirm rpc cl (sent_error ''TreasuryError'' parseTreasuryError)
         (poll_confirmation ''TreasuryError'' 101 102 10 rpc cl) signer ''batch_transfer'' (batch_args signer token recipients)
         (\<lambda>hash. value_or (TreasuryErr ''MissingReturnValue'' ''No return value from batch_transfer'') (\<lambda>v. with_hex v Inr)))"
proof -
  have "invalid_amount recipients = None" using assms(2) by (simp add: invalid_amount_None)
  then show ?thesis using assms(1) by (simp add: batchTransfer_def treasury_submit_def treasury_poll batch_args_def)
qed

text \<open>C13: \<^verbatim>\<open>batchTransfer\<close> pays more than once on a slow network: when the node takes every transaction but has confirmed none
  by the end of the polling loop, the timeout counts as retryable and the same transfer is sent again, accepted each
  time, until the attempts are used up; then the caller is told that the transfer failed.\<close>

theorem batchTransfer_slow_pays_again:
  assumes "takes_all rpc H" "answers rpc TxMissing" "1 \<le> attempts_of cl"
    and "recipients \<noteq> []" "\<forall>r \<in> set recipients. 0 < br_amount r"
  shows "\<exists>e s' l. batchTransfer rpc cl signer token recipients s = (Inl e, s') \<and> ss_sent s' = ss_sent s @ l \<and>
    int (length l) = attempts_of cl \<and> list_all (same_call cl signer ''batch_transfer'' (batch_args signer token recipients)) l"
  unfolding batchTransfer_valid [OF assms(4,5)]
  by (rule treasury_client.slow_submission_repeats [OF assms(1-3)])

theorem batchTransfer_slow_pays_again_witness:
  "\<exists>e s' l. batchTransfer (steady_node ''ab'' (returns None) TxMissing) plain_client ''G1'' ''T1''
      [\<lparr>br_address = ''G2'', br_amount = 5\<rparr>] fresh_session = (Inl e, s') \<and> ss_sent s' = ss_sent fresh_session @ l \<and>
    int (length l) = attempts_of plain_client \<and>
    list_all (same_call plain_client ''G1'' ''batch_transfer'' (batch_args ''G1'' ''T1'' [\<lparr>br_address = ''G2'', br_amount = 5\<rparr>])) l"
  by (rule batchTransfer_slow_pays_again [of _ "\<lambda>_. True"])
    (simp_all add: steady_node_takes_all steady_node_answers plain_client_attempts)

text \<open>A transaction that failed on chain is sent again when its hash contains \<^verbatim>\<open>500\<close>, \<^verbatim>\<open>502\<close>, \<^verbatim>\<open>503\<close> or \<^verbatim>\<open>504\<close>: the message of
  the error quotes the hash, and \<^verbatim>\<open>isNetworkError\<close> takes the digits for an HTTP status.\<close>

theorem streamSpend_failed_repeats:
  assumes "takes_all rpc looks_like_outage" "answers rpc TxFailure" "1 \<le> attempts_of cl"
  shows "\<exists>e s' l. client_streamSpend rpc cl signer streamId recipient amount memo s = (Inl e, s') \<and>
    ss_sent s' = ss_sent s @ l \<and> int (length l) = attempts_of cl \<and>
    list_all (same_call cl signer ''stream_spend''
      [AAddress signer, AU64 streamId, AAddress recipient, AI128 amount, AString memo]) l"
  unfolding client_streamSpend_def treasury_submit_def treasury_poll
  by (rule treasury_client.failed_submission_repeats [OF assms]) simp

theorem streamSpend_failed_repeats_witness:
  "\<exists>e s' l. client_streamSpend (steady_node ''9a502f'' (returns None) TxFailure) plain_client ''G1'' 7 ''G2'' 100 ''rent''
      fresh_session = (Inl e, s') \<and> ss_sent s' = ss_sent fresh_session @ l \<and> int (length l) = attempts_of plain_client \<and>
    list_all (same_call plain_client ''G1'' ''stream_spend''
      [AAddress ''G1'', AU64 7, AAddress ''G2'', AI128 100, AString ''rent'']) l"
  by (rule streamSpend_failed_repeats)
    (simp_all add: steady_node_takes_all steady_node_answers plain_client_attempts looks_like_outage_def)

text \<open>C14: When \<^verbatim>\<open>batchTransfer\<close> resolves with a hash, its last transaction is the requested transfer, the node accepted it and
  reported it as successful, and the hash is the hexadecimal text of the bytes that the contract returned.\<close>

theorem batchTransfer_resolves_confirmed:
  assumes "batchTransfer rpc cl signer token recipients s = (Inr opHash, s')"
  shows "recipients \<noteq> [] \<and> (\<forall>r \<in> set recipients. 0 < br_amount r) \<and>
    (\<exists>l tx result v. ss_sent s' = ss_sent s @ l @ [(tx, Inr result)] \<and>
       call_of cl signer ''batch_transfer'' (batch_args signer token recipients) tx \<and> accepted result \<and>
       reported rpc (sr_hash result) (Some v) \<and> buffer_hex v = Some opHash)"
proof -
  have not_thrown: "retrying cl on (throwing e) s \<noteq> (Inr opHash, s')" for on e
    using retrying_resolved [OF quiet_extends [OF quiet_basic(2)]] by fastforce
  from assms not_thrown have valid: "recipients \<noteq> []" "\<forall>r \<in> set recipients. 0 < br_amount r"
    by (auto simp: batchTransfer_def invalid_amount_None [symmetric] split: option.splits if_splits)
  obtain l tx result v where "ss_sent s' = ss_sent s @ l @ [(tx, Inr result)]" "accepted result" "reported rpc (sr_hash result) v"
    "call_of cl signer ''batch_transfer'' (batch_args signer token recipients) tx"
    "value_or (TreasuryErr ''MissingReturnValue'' ''No return value from batch_transfer'') (\<lambda>v. with_hex v Inr) v = Inr opHash"
    using submit_resolved [OF honest_poll_confirmation assms [unfolded batchTransfer_valid [OF valid]]] by blast
  then show ?thesis using valid by (fastforce simp: value_or_def with_hex_def split: option.splits)
qed

theorem batchTransfer_resolves_confirmed_witness:
  "\<exists>s'. batchTransfer (steady_node ''ab'' (returns None) (TxDone (Some (JBuffer [255])))) plain_client ''G1'' ''T1''
      [\<lparr>br_address = ''G2'', br_amount = 5\<rparr>] fresh_session = (Inr ''ff'', s') \<and>
    (\<exists>l tx result v. ss_sent s' = ss_sent fresh_session @ l @ [(tx, Inr result)] \<and>
       call_of plain_client ''G1'' ''batch_transfer'' (batch_args ''G1'' ''T1'' [\<lparr>br_address = ''G2'', br_amount = 5\<rparr>]) tx \<and>
       accepted result \<and> reported (steady_node ''ab'' (returns None) (TxDone (Some (JBuffer [255])))) (sr_hash result) (Some v) \<and>
       buffer_hex v = Some ''ff'')"
proof -
  let ?rpc = "steady_node ''ab'' (returns None) (TxDone (Some (JBuffer [255])))"
  let ?rs = "[\<lparr>br_address = ''G2'', br_amount = 5\<rparr>]"
  have "fst (batchTransfer ?rpc plain_client ''G1'' ''T1'' ?rs fresh_session) = Inr ''ff''" by code_simp
  then obtain s' where run: "batchTransfer ?rpc plain_client ''G1'' ''T1'' ?rs fresh_session = (Inr ''ff'', s')"
    by (metis prod.collapse)
  from batchTransfer_resolves_confirmed [OF this] run show ?thesis by auto
qed

text \<open>A batch with no recipient or with an amount that is not positive is never sent.\<close>

theorem batchTransfer_rejects_invalid:
  assumes "recipients = [] \<or> (\<exists>r \<in> set recipients. br_amount r \<le> 0)"
  shows "ss_sent (snd (batchTransfer rpc cl signer token recipients s)) = ss_sent s"
proof -
  have "quiet (batchTransfer rpc cl signer token recipients)"
  proof (cases "recipients = []")
    case False
    then obtain r where "invalid_amount recipients = Some r"
      using assms by (cases "invalid_amount recipients") (auto simp: invalid_amount_None)
    then show ?thesis by (simp add: batchTransfer_def quiets)
  qed (simp add: batchTransfer_def quiets)
  then show ?thesis by (simp add: quiet_def)
qed

theorem batchTransfer_rejects_invalid_witness:
  "ss_sent (snd (batchTransfer (steady_node ''ab'' (returns None) TxMissing) plain_client ''G1'' ''T1''
     [\<lparr>br_address = ''G2'', br_amount = 0\<rparr>] fresh_session)) = []"
  using batchTransfer_rejects_invalid [of "[\<lparr>br_address = ''G2'', br_amount = 0\<rparr>]"
      "steady_node ''ab'' (returns None) TxMissing" plain_client "''G1''" "''T1''" fresh_session]
  by (simp add: fresh_session_def)

end
