(* ===== verification/SdkTimelock.thy ===== *)
theory SdkTimelock
  imports SdkClient
begin

section \<open>The timelock client of the SDK\<close>

text \<open>
  \<^verbatim>\<open>TimelockClient\<close> of \<^verbatim>\<open>sdk/src/timelock.ts\<close>: scheduling, execution and cancellation of operations and batches, operations
  with dependencies, the recovery of partially executed batches, and the reads. The overloaded fourth parameter of
  \<^verbatim>\<open>schedule\<close> is a sum.
\<close>

subsection \<open>Data\<close>

record FailedOperation =
  fo_opId :: string
  fo_target :: string
  fo_fnName :: string
  fo_data :: string
  fo_failureReason :: string
  fo_failedAtLedger :: js_number
  fo_retryCount :: js_number

record PartialBatchExecutionState =
  pb_batchOpId :: string
  pb_totalOps :: js_number
  pb_completedOps :: "string list"
  pb_failedOps :: "FailedOperation list"
  pb_pendingOps :: "string list"
  pb_recoveryMode :: bool
  pb_recoveryDeadline :: js_number

record DependencyEdge =
  de_from :: string
  de_to :: string

record DependencyGraph =
  dg_nodes :: "string list"
  dg_edges :: "DependencyEdge list"

text \<open>\<^verbatim>\<open>(v ?? []).map(f)\<close>\<close>

definition map_or_empty :: "js_value \<Rightarrow> string \<Rightarrow> (js_value \<Rightarrow> client_error + 'a) \<Rightarrow> client_error + 'a list" where
  "map_or_empty v name f = with_array (nullish_or v (JArray [])) name (map_throwing f)"

definition mapFailedOp :: "js_value \<Rightarrow> client_error + FailedOperation" where
  "mapFailedOp raw =
     with_member raw ''op_id'' (\<lambda>v. with_hex v (\<lambda>opId.
     with_hex (field raw ''data'') (\<lambda>data.
       Inr \<lparr>fo_opId = opId, fo_target = js_String (field raw ''target''), fo_fnName = js_String (field raw ''fn_name''),
            fo_data = data, fo_failureReason = js_String (field raw ''failure_reason''),
            fo_failedAtLedger = js_Number (field raw ''failed_at_ledger''),
            fo_retryCount = js_Number (field raw ''retry_count'')\<rparr>)))"

definition mapPartialBatchState :: "js_value \<Rightarrow> client_error + PartialBatchExecutionState" where
  "mapPartialBatchState raw =
     with_member raw ''batch_op_id'' (\<lambda>v. with_hex v (\<lambda>batchOpId.
     bind_sum (map_or_empty (field raw ''completed_ops'') ''(raw.completed_ops ?? [])'' (\<lambda>b. with_hex b Inr)) (\<lambda>completedOps.
     bind_sum (map_or_empty (field raw ''failed_ops'') ''(raw.failed_ops ?? [])'' mapFailedOp) (\<lambda>failedOps.
     bind_sum (map_or_empty (field raw ''pending_ops'') ''(raw.pending_ops ?? [])'' (\<lambda>b. with_hex b Inr)) (\<lambda>pendingOps.
       Inr \<lparr>pb_batchOpId = batchOpId, pb_totalOps = js_Number (field raw ''total_ops''), pb_completedOps = completedOps,
            pb_failedOps = failedOps, pb_pendingOps = pendingOps,
            pb_recoveryMode = js_Boolean (field raw ''recovery_mode''),
            pb_recoveryDeadline = js_Number (field raw ''recovery_deadline'')\<rparr>)))))"

definition mapDependencyGraph :: "js_value \<Rightarrow> client_error + DependencyGraph" where
  "mapDependencyGraph raw =
     with_member raw ''nodes'' (\<lambda>nodes.
     bind_sum (map_or_empty nodes ''(raw.nodes ?? [])'' (\<lambda>b. with_hex b Inr)) (\<lambda>nodes.
     bind_sum (map_or_empty (field raw ''edges'') ''(raw.edges ?? [])'' (\<lambda>e.
         with_member e ''from'' (\<lambda>f. with_hex f (\<lambda>f. with_hex (field e ''to'') (\<lambda>t.
           Inr \<lparr>de_from = f, de_to = t\<rparr>))))) (\<lambda>edges.
       Inr \<lparr>dg_nodes = nodes, dg_edges = edges\<rparr>)))"

subsection \<open>Errors, accounts and confirmations\<close>

definition TimelockErr :: "string \<Rightarrow> string \<Rightarrow> client_error" where
  "TimelockErr code message = typed ''TimelockError'' (the (map_of TimelockErrorCode code)) message"

definition TimelockClient :: "stellar \<Rightarrow> config \<Rightarrow> string \<Rightarrow> client_error + client" where
  "TimelockClient stellar config timelockAddress = open_client stellar config network_defaults timelockAddress"

definition timelock_isRetryableSubmissionError :: "client_error \<Rightarrow> bool" where
  "timelock_isRetryableSubmissionError e =
     (if networkError e then True
      else if ce_class e = ''TimelockError''
      then (case ce_code e of None \<Rightarrow> False
            | Some code \<Rightarrow> 100 \<le> code \<and> code \<noteq> the (map_of TimelockErrorCode ''TransactionFailed'') \<and>
                code \<noteq> the (map_of TimelockErrorCode ''MissingReturnValue''))
      else False)"

definition contract_readAccount :: "client \<Rightarrow> string" where
  "contract_readAccount cl = or_else (cl_simulationAccount cl) (cl_contract cl)"

definition timelock_pollForConfirmation :: "'w rpc \<Rightarrow> client \<Rightarrow> string \<Rightarrow> ('w, js_value option) io" where
  "timelock_pollForConfirmation rpc cl hash =
     poll_confirmation ''TimelockError'' (the (map_of TimelockErrorCode ''TransactionFailed''))
       (the (map_of TimelockErrorCode ''TransactionTimeout'')) 10 rpc cl hash"

definition timelock_submit ::
  "'w rpc \<Rightarrow> client \<Rightarrow> string \<Rightarrow> string \<Rightarrow> sc_arg list \<Rightarrow> (string \<Rightarrow> js_value option \<Rightarrow> client_error + 'a) \<Rightarrow> ('w, 'a) io" where
  "timelock_submit rpc cl signer method args finish =
     retrying cl (Some timelock_isRetryableSubmissionError)
       (submit_and_confirm rpc cl (sent_error ''TimelockError'' parseTimelockError) (timelock_pollForConfirmation rpc cl)
          signer method args finish)"

definition timelock_read ::
  "'w rpc \<Rightarrow> client \<Rightarrow> string \<Rightarrow> sc_arg list \<Rightarrow> 'a \<Rightarrow> (js_value \<Rightarrow> client_error + 'a) \<Rightarrow> ('w, 'a) io" where
  "timelock_read rpc cl method args dflt parse =
     read_call rpc cl (contract_readAccount cl) method args (\<lambda>_. Inr dflt) (Inr dflt) parse"

subsection \<open>Scheduling and execution\<close>

definition timelock_schedule ::
  "'w rpc \<Rightarrow> client \<Rightarrow> string \<Rightarrow> string \<Rightarrow> bytes \<Rightarrow> string + int \<Rightarrow> int option \<Rightarrow> ('w, string) io" where
  "timelock_schedule rpc cl signer target data fnNameOrDelay delayArg =
     (let fnName = (case fnNameOrDelay of Inl name \<Rightarrow> name | Inr _ \<Rightarrow> ''execute'');
          delay = (case fnNameOrDelay of Inr d \<Rightarrow> Some d | Inl _ \<Rightarrow> delayArg)
      in case delay of
           None \<Rightarrow> throwing (TimelockErr ''MissingReturnValue'' ''schedule requires a delay'')
         | Some d \<Rightarrow>
             timelock_submit rpc cl signer ''schedule''
               [AAddress signer, AAddress target, ABytes data, ASymbol fnName, AU64 d]
               (\<lambda>hash. value_or (TimelockErr ''MissingReturnValue'' ''No return value from schedule'') (\<lambda>v. with_hex v Inr)))"

text \<open>\<^verbatim>\<open>scheduleBatch\<close> throws plain errors, and quotes the whole answer of the node.\<close>

definition timelock_scheduleBatch ::
  "'w rpc \<Rightarrow> client \<Rightarrow> string \<Rightarrow> string list \<Rightarrow> bytes list \<Rightarrow> string list \<Rightarrow> int \<Rightarrow> bytes \<Rightarrow> bytes \<Rightarrow> ('w, string) io" where
  "timelock_scheduleBatch rpc cl signer targets data fnNames delay predecessor salt =
     retrying cl (Some timelock_isRetryableSubmissionError)
       (if targets = [] then throwing (js_error_of ''Error'' ''scheduleBatch requires at least one operation'')
        else if length data \<noteq> length targets \<or> length fnNames \<noteq> length targets
        then throwing (js_error_of ''Error'' ''scheduleBatch: targets, data, and fnNames must have equal length'')
        else submit_and_confirm rpc cl (\<lambda>result. js_error_of ''Error'' (''scheduleBatch failed: '' @ sr_json result))
          (timelock_pollForConfirmation rpc cl) signer ''schedule_batch''
          [AAddress signer, AVec (map AAddress targets), AVec (map ABytes data), AVec (map ASymbol fnNames), AU64 delay,
           ABytes predecessor, ABytes salt]
          (\<lambda>hash. value_or (js_error_of ''Error'' ''scheduleBatch: missing return value'') (\<lambda>v. with_hex v Inr)))"

definition timelock_executeBatch :: "'w rpc \<Rightarrow> client \<Rightarrow> string \<Rightarrow> string \<Rightarrow> ('w, unit) io" where
  "timelock_executeBatch rpc cl signer batchOpId =
     timelock_submit rpc cl signer ''execute_batch'' [AAddress signer, ABytes (from_hex batchOpId)] (\<lambda>_ _. Inr ())"

definition timelock_execute :: "'w rpc \<Rightarrow> client \<Rightarrow> string \<Rightarrow> string \<Rightarrow> ('w, unit) io" where
  "timelock_execute rpc cl signer opId =
     timelock_submit rpc cl signer ''execute'' [AAddress signer, ABytes (from_hex opId)] (\<lambda>_ _. Inr ())"

definition timelock_cancel :: "'w rpc \<Rightarrow> client \<Rightarrow> string \<Rightarrow> string \<Rightarrow> ('w, unit) io" where
  "timelock_cancel rpc cl signer opId =
     timelock_submit rpc cl signer ''cancel'' [AAddress signer, ABytes (from_hex opId)] (\<lambda>_ _. Inr ())"

definition timelock_isReady :: "'w rpc \<Rightarrow> client \<Rightarrow> string \<Rightarrow> ('w, js_value) io" where
  "timelock_isReady rpc cl opId =
     retrying cl None (timelock_read rpc cl ''is_ready'' [ABytes (from_hex opId)] (JBoolean False) Inr)"

definition timelock_isPending :: "'w rpc \<Rightarrow> client \<Rightarrow> string \<Rightarrow> ('w, js_value) io" where
  "timelock_isPending rpc cl opId =
     retrying cl None (timelock_read rpc cl ''is_pending'' [ABytes (from_hex opId)] (JBoolean False) Inr)"

definition timelock_minDelay :: "'w rpc \<Rightarrow> client \<Rightarrow> ('w, int) io" where
  "timelock_minDelay rpc cl = retrying cl None (timelock_read rpc cl ''min_delay'' [] 0 (\<lambda>v. with_BigInt v Inr))"

text \<open>\<^verbatim>\<open>executionWindow\<close> is the one read without a retry.\<close>

definition timelock_executionWindow :: "'w rpc \<Rightarrow> client \<Rightarrow> ('w, int) io" where
  "timelock_executionWindow rpc cl = timelock_read rpc cl ''execution_window'' [] 0 (\<lambda>v. with_BigInt v Inr)"

subsection \<open>Dependencies\<close>

definition scheduleWithDeps ::
  "'w rpc \<Rightarrow> client \<Rightarrow> string \<Rightarrow> string \<Rightarrow> bytes \<Rightarrow> string \<Rightarrow> int \<Rightarrow> bytes list \<Rightarrow> bytes \<Rightarrow> ('w, string) io" where
  "scheduleWithDeps rpc cl signer target data fnName delay predecessors salt =
     timelock_submit rpc cl signer ''schedule_with_deps''
       [AAddress signer, AAddress target, ABytes data, ASymbol fnName, AU64 delay, AVec (map ABytes predecessors), ABytes salt]
       (\<lambda>hash. value_or (TimelockErr ''MissingReturnValue'' ''No return value from schedule_with_deps'') (\<lambda>v. with_hex v Inr))"

definition allPredecessorsDone :: "'w rpc \<Rightarrow> client \<Rightarrow> string \<Rightarrow> ('w, js_value) io" where
  "allPredecessorsDone rpc cl opId =
     retrying cl None (timelock_read rpc cl ''all_predecessors_done'' [ABytes (from_hex opId)] (JBoolean False) Inr)"

definition getBatchDependencyGraph :: "'w rpc \<Rightarrow> client \<Rightarrow> string \<Rightarrow> ('w, DependencyGraph option) io" where
  "getBatchDependencyGraph rpc cl batchOpId =
     retrying cl None
       (timelock_read rpc cl ''get_batch_dependency_graph'' [ABytes (from_hex batchOpId)] None
          (\<lambda>v. bind_sum (mapDependencyGraph v) (Inr \<circ> Some)))"

text \<open>The result of \<^verbatim>\<open>validateDependencyDag\<close>: the flag and the cycle, whose bytes are given in hexadecimal.\<close>

definition validateDependencyDag :: "'w rpc \<Rightarrow> client \<Rightarrow> bytes list \<Rightarrow> ('w, js_value \<times> string list option) io" where
  "validateDependencyDag rpc cl opIds =
     retrying cl None
       (timelock_read rpc cl ''validate_dependency_dag'' [AVec (map ABytes opIds)] (JBoolean False, None)
          (\<lambda>native. with_member native ''valid'' (\<lambda>valid.
             if nullish (field native ''cycle_path'') then Inr (valid, None)
             else with_array (field native ''cycle_path'') ''native.cycle_path'' (\<lambda>path.
               bind_sum (map_throwing (\<lambda>b. with_hex b Inr) path) (\<lambda>path. Inr (valid, Some path))))))"

subsection \<open>Partial batches\<close>

definition executePartialBatch :: "'w rpc \<Rightarrow> client \<Rightarrow> string \<Rightarrow> string \<Rightarrow> ('w, PartialBatchExecutionState) io" where
  "executePartialBatch rpc cl signer batchOpId =
     timelock_submit rpc cl signer ''execute_batch_partial'' [AAddress signer, ABytes (from_hex batchOpId)]
       (\<lambda>hash. value_or (TimelockErr ''MissingReturnValue'' ''No return value from execute_batch_partial'') mapPartialBatchState)"

definition retryFailedOperation :: "'w rpc \<Rightarrow> client \<Rightarrow> string \<Rightarrow> string \<Rightarrow> string \<Rightarrow> ('w, unit) io" where
  "retryFailedOperation rpc cl signer batchOpId opId =
     timelock_submit rpc cl signer ''retry_failed_operation''
       [AAddress signer, ABytes (from_hex batchOpId), ABytes (from_hex opId)] (\<lambda>_ _. Inr ())"

definition getPartialBatchState :: "'w rpc \<Rightarrow> client \<Rightarrow> string \<Rightarrow> ('w, PartialBatchExecutionState option) io" where
  "getPartialBatchState rpc cl batchOpId =
     retrying cl None
       (timelock_read rpc cl ''get_partial_batch_state'' [ABytes (from_hex batchOpId)] None
          (\<lambda>v. bind_sum (mapPartialBatchState v) (Inr \<circ> Some)))"

definition skipFailedOperation :: "'w rpc \<Rightarrow> client \<Rightarrow> string \<Rightarrow> string \<Rightarrow> string \<Rightarrow> ('w, unit) io" where
  "skipFailedOperation rpc cl signer batchOpId opId =
     timelock_submit rpc cl signer ''skip_failed_operation''
       [AAddress signer, ABytes (from_hex batchOpId), ABytes (from_hex opId)] (\<lambda>_ _. Inr ())"

subsection \<open>Submissions\<close>

lemma timelock_codes [simp]:
  "map_of TimelockErrorCode ''TransactionFailed'' = Some 101" "map_of TimelockErrorCode ''TransactionTimeout'' = Some 102"
  "map_of TimelockErrorCode ''MissingReturnValue'' = Some 103"
  by (simp_all add: TimelockErrorCode_def)

interpretation timelock_client: repeating_client "''TimelockError''" 101 102 timelock_isRetryableSubmissionError
  by unfold_locales (simp_all add: timelock_isRetryableSubmissionError_def typed_def)

lemma timelock_poll: "timelock_pollForConfirmation rpc cl = poll_confirmation ''TimelockError'' 101 102 10 rpc cl"
  by (rule ext) (simp add: timelock_pollForConfirmation_def)

text \<open>The client schedules an operation under the identifier that it then uses for it: when \<^verbatim>\<open>schedule\<close> resolves, the node
  confirmed the \<^verbatim>\<open>schedule\<close> call with some bytes, and \<^verbatim>\<open>execute\<close>, \<^verbatim>\<open>cancel\<close> and the reads that are given the resolved text send
  exactly those bytes.\<close>

theorem schedule_identifier_roundtrip:
  assumes "timelock_schedule rpc cl signer target data (Inl fnName) (Some delay) s = (Inr opId, s')"
    and "\<forall>h v. reported rpc h (Some v) \<longrightarrow> (\<exists>bs. v = JBuffer bs)"
  shows "\<exists>l tx result bs. ss_sent s' = ss_sent s @ l @ [(tx, Inr result)] \<and>
    call_of cl signer ''schedule'' [AAddress signer, AAddress target, ABytes data, ASymbol fnName, AU64 delay] tx \<and>
    accepted result \<and> reported rpc (sr_hash result) (Some (JBuffer bs)) \<and> from_hex opId = bs"
proof -
  have run: "retrying cl (Some timelock_isRetryableSubmissionError)
      (submit_and_confirm rpc cl (sent_error ''TimelockError'' parseTimelockError) (poll_confirmation ''TimelockError'' 101 102 10 rpc cl)
        signer ''schedule'' [AAddress signer, AAddress target, ABytes data, ASymbol fnName, AU64 delay]
        (\<lambda>hash. value_or (TimelockErr ''MissingReturnValue'' ''No return value from schedule'') (\<lambda>v. with_hex v Inr))) s = (Inr opId, s')"
    using assms(1) by (simp add: timelock_schedule_def timelock_submit_def timelock_poll)
  obtain l tx result v where "ss_sent s' = ss_sent s @ l @ [(tx, Inr result)]" "accepted result" and v: "reported rpc (sr_hash result) v"
    and "call_of cl signer ''schedule'' [AAddress signer, AAddress target, ABytes data, ASymbol fnName, AU64 delay] tx"
    and f: "value_or (TimelockErr ''MissingReturnValue'' ''No return value from schedule'') (\<lambda>v. with_hex v Inr) v = Inr opId"
    using submit_resolved [OF honest_poll_confirmation run] by blast
  moreover obtain x where x: "v = Some x" using f by (cases v) (auto simp: value_or_def)
  moreover obtain bs where "x = JBuffer bs" using assms(2) v x by blast
  moreover then have "opId = to_hex bs" using f x by (simp add: value_or_def with_hex_def)
  ultimately show ?thesis using from_to_hex by blast
qed

theorem schedule_identifier_roundtrip_witness:
  "\<exists>s'. timelock_schedule (steady_node ''ab'' (returns None) (TxDone (Some (JBuffer [1, 171])))) plain_client ''G1'' ''C2'' [7]
      (Inl ''set'') (Some 60) fresh_session = (Inr ''01ab'', s') \<and>
    (\<exists>l tx result bs. ss_sent s' = ss_sent fresh_session @ l @ [(tx, Inr result)] \<and>
      call_of plain_client ''G1'' ''schedule'' [AAddress ''G1'', AAddress ''C2'', ABytes [7], ASymbol ''set'', AU64 60] tx \<and>
      accepted result \<and>
      reported (steady_node ''ab'' (returns None) (TxDone (Some (JBuffer [1, 171])))) (sr_hash result) (Some (JBuffer bs)) \<and>
      from_hex ''01ab'' = bs)"
proof -
  let ?rpc = "steady_node ''ab'' (returns None) (TxDone (Some (JBuffer [1, 171])))"
  have "fst (timelock_schedule ?rpc plain_client ''G1'' ''C2'' [7] (Inl ''set'') (Some 60) fresh_session) = Inr ''01ab''" by code_simp
  then obtain s' where run: "timelock_schedule ?rpc plain_client ''G1'' ''C2'' [7] (Inl ''set'') (Some 60) fresh_session = (Inr ''01ab'', s')"
    by (metis prod.collapse)
  have "\<forall>h v. reported ?rpc h (Some v) \<longrightarrow> (\<exists>bs. v = JBuffer bs)" by (simp add: reported_def steady_node_def)
  from schedule_identifier_roundtrip [OF run this] run show ?thesis by blast
qed

text \<open>An operation is executed again while its first execution is still unconfirmed.\<close>

theorem execute_slow_repeats:
  assumes "takes_all rpc H" "answers rpc TxMissing" "1 \<le> attempts_of cl"
  shows "\<exists>e s' l. timelock_execute rpc cl signer opId s = (Inl e, s') \<and> ss_sent s' = ss_sent s @ l \<and>
    int (length l) = attempts_of cl \<and> list_all (same_call cl signer ''execute'' [AAddress signer, ABytes (from_hex opId)]) l"
  unfolding timelock_execute_def timelock_submit_def timelock_poll
  by (rule timelock_client.slow_submission_repeats [OF assms])

end
