(* ===== verification/SdkGovernor.thy ===== *)
theory SdkGovernor
  imports SdkTimelock SdkEvents
begin

section \<open>The governor client of the SDK: submissions and proposals\<close>

text \<open>
  \<^verbatim>\<open>GovernorClient\<close> of \<^verbatim>\<open>sdk/src/governor/governor-client.ts\<close>, and the functions on proposals and settings of
  \<^verbatim>\<open>governor/proposals.ts\<close>, \<^verbatim>\<open>governor/queries.ts\<close> and \<^verbatim>\<open>governor/execution.ts\<close>. This client differs from the others: its
  \<^verbatim>\<open>retry\<close> has no default condition, so that a read is repeated after every error; it asks once per polling
  round; and a typed error ends a submission. What runs under \<^verbatim>\<open>Promise.all\<close> and \<^verbatim>\<open>Promise.allSettled\<close> runs here in the order
  of the array.
\<close>

subsection \<open>Data\<close>

record Proposal =
  pp_id :: int
  pp_proposer :: string
  pp_description :: string
  pp_startLedger :: js_number
  pp_endLedger :: js_number
  pp_votesFor :: int
  pp_votesAgainst :: int
  pp_votesAbstain :: int
  pp_executed :: bool
  pp_cancelled :: bool

record ProposalVotes =
  pv_votesFor :: int
  pv_votesAgainst :: int
  pv_votesAbstain :: int

datatype VoteSupport = Against | For | Abstain

primrec VoteSupport_name :: "VoteSupport \<Rightarrow> string" where
  "VoteSupport_name Against = ''Against''"
| "VoteSupport_name For = ''For''"
| "VoteSupport_name Abstain = ''Abstain''"

text \<open>\<^verbatim>\<open>xdr.ScVal.scvVec([xdr.ScVal.scvSymbol(VoteSupport[support])])\<close>\<close>

definition supportScVal :: "VoteSupport \<Rightarrow> sc_arg" where
  "supportScVal support = AVec [ASymbol (VoteSupport_name support)]"

subsection \<open>Conversions\<close>

definition with_toBigInt :: "js_value \<Rightarrow> (int \<Rightarrow> client_error + 'a) \<Rightarrow> client_error + 'a" where
  "with_toBigInt value k =
     (case value of JBigint n \<Rightarrow> k n | JNumber n \<Rightarrow> k n | JString s \<Rightarrow> with_BigInt value k | _ \<Rightarrow> k 0)"

fun first_member :: "js_value \<Rightarrow> string list \<Rightarrow> js_value option" where
  "first_member v [] = None"
| "first_member v (key # keys) = (if nullish (field v key) then first_member v keys else Some (field v key))"

text \<open>\<^verbatim>\<open>undefined\<close> is \<open>None\<close>. Of the native values only objects and arrays have \<^verbatim>\<open>typeof\<close> object.\<close>

definition with_simulationCostValue :: "js_value \<Rightarrow> string list \<Rightarrow> (int option \<Rightarrow> client_error + 'a) \<Rightarrow> client_error + 'a" where
  "with_simulationCostValue cost keys k =
     (case cost of
        JObject _ \<Rightarrow>
          (case first_member cost keys of None \<Rightarrow> k None | Some v \<Rightarrow> with_toBigInt v (k \<circ> Some))
      | _ \<Rightarrow> k None)"

definition scVecAddress :: "string list \<Rightarrow> sc_arg" where
  "scVecAddress addrs = AVec (map AAddress addrs)"

definition scVecSymbol :: "string list \<Rightarrow> sc_arg" where
  "scVecSymbol syms = AVec (map (\<lambda>s. ASymbol (trim s)) syms)"

definition scVecBytes :: "bytes list \<Rightarrow> sc_arg" where
  "scVecBytes blobs = AVec (map ABytes blobs)"

subsection \<open>The client\<close>

definition GovernorErr :: "string \<Rightarrow> string \<Rightarrow> client_error" where
  "GovernorErr code message = typed ''GovernorError'' (the (map_of GovernorErrorCode code)) message"

definition GovernorClient :: "stellar \<Rightarrow> config \<Rightarrow> string \<Rightarrow> client_error + client" where
  "GovernorClient stellar config governorAddress = open_client stellar config no_options governorAddress"

definition governor_isNetworkError :: "client_error \<Rightarrow> bool" where
  "governor_isNetworkError e = isNetworkError \<lparr>thrown_message = ce_message e, thrown_status = None\<rparr>"

definition governor_isRetryableSubmissionError :: "client_error \<Rightarrow> bool" where
  "governor_isRetryableSubmissionError e =
     (if ce_class e = ''GovernorError'' then False else governor_isNetworkError e)"

definition governor_readAccount :: "client \<Rightarrow> string option \<Rightarrow> string" where
  "governor_readAccount cl sourceAccount =
     or_else sourceAccount (or_else (cl_simulationAccount cl) (cl_contract cl))"

definition governor_pollForConfirmation :: "'w rpc \<Rightarrow> string \<Rightarrow> ('w, js_value option) io" where
  "governor_pollForConfirmation rpc hash =
     poll_rounds (asking (rp_getTransaction rpc hash))
       (GovernorErr ''TransactionFailed'' (''Transaction failed: '' @ hash))
       (GovernorErr ''TransactionTimeout'' (timeout_message 10)) 10"

text \<open>\<^verbatim>\<open>simulateAndSubmit\<close>: the call is simulated and assembled by the client itself instead of \<^verbatim>\<open>prepareTransaction\<close>. Its
  arguments are encoded by the caller, before the first attempt.\<close>

definition simulateAndSubmit :: "'w rpc \<Rightarrow> client \<Rightarrow> string \<Rightarrow> string \<Rightarrow> sc_arg list \<Rightarrow> ('w, unit) io" where
  "simulateAndSubmit rpc cl signer fnName args =
     and_then (encode_args rpc args) (\<lambda>_.
     retrying cl (Some governor_isRetryableSubmissionError)
       (and_then (build_transaction rpc cl signer fnName args) (\<lambda>tx.
        and_then (asking (rp_simulate rpc tx)) (\<lambda>simResult.
          case simResult of
            SimError err \<Rightarrow> throwing (parsed ''GovernorError'' (parseGovernorError (RawString err)))
          | SimSuccess _ \<Rightarrow>
              and_then (sendTransaction_io rpc tx) (\<lambda>result.
              and_then (check_sent (\<lambda>r. parsed ''GovernorError'' (parseGovernorError (RawString (or_else (sr_error r) '''')))) result)
                (\<lambda>hash. and_then (governor_pollForConfirmation rpc hash) (\<lambda>_. returning ())))))))"

definition governor_execute :: "'w rpc \<Rightarrow> client \<Rightarrow> string \<Rightarrow> int \<Rightarrow> ('w, unit) io" where
  "governor_execute rpc cl signer proposalId = simulateAndSubmit rpc cl signer ''execute'' [AU64 proposalId]"

definition governor_queue :: "'w rpc \<Rightarrow> client \<Rightarrow> string \<Rightarrow> int \<Rightarrow> ('w, unit) io" where
  "governor_queue rpc cl signer proposalId = simulateAndSubmit rpc cl signer ''queue'' [AU64 proposalId]"

text \<open>\<^verbatim>\<open>listProposals\<close>: one account serves all the transactions, whose sequence numbers count up. The proposals are returned as
  they are decoded. \<^verbatim>\<open>Math.min(from + count, total)\<close> with a total that is not a number is not a number, and no loop
  follows.\<close>

definition list_call :: "'w rpc \<Rightarrow> client \<Rightarrow> string \<Rightarrow> int \<Rightarrow> string \<Rightarrow> sc_arg list \<Rightarrow> ('w, simulation) io" where
  "list_call rpc cl source sequence method args =
     and_then (encode_args rpc args) (\<lambda>_.
       asking (rp_simulate rpc
         \<lparr>in_source = source, in_sequence = sequence, in_contract = cl_contract cl, in_method = method, in_args = args\<rparr>))"

fun list_loop :: "'w rpc \<Rightarrow> client \<Rightarrow> string \<Rightarrow> int \<Rightarrow> int \<Rightarrow> nat \<Rightarrow> ('w, js_value list) io" where
  "list_loop rpc cl source sequence i 0 = returning []"
| "list_loop rpc cl source sequence i (Suc n) =
     and_then (list_call rpc cl source sequence ''get_proposal'' [AU64 i]) (\<lambda>sim.
     and_then (list_loop rpc cl source (sequence + 1) (i + 1) n) (\<lambda>rest.
       returning (case sim of
           SimError _ \<Rightarrow> rest
         | SimSuccess ok \<Rightarrow> (case sm_retval ok of None \<Rightarrow> rest | Some v \<Rightarrow> v # rest))))"

definition list_rounds :: "int \<Rightarrow> int \<Rightarrow> js_number \<Rightarrow> nat" where
  "list_rounds from count totalCount =
     (case totalCount of
        Finite x \<Rightarrow> nat (\<lfloor>min (of_int (from + count)) x\<rfloor> - from)
      | Infinite neg \<Rightarrow> if neg then 0 else nat count
      | NotANumber \<Rightarrow> 0)"

definition listProposals :: "'w rpc \<Rightarrow> client \<Rightarrow> int \<Rightarrow> int \<Rightarrow> ('w, js_value) io" where
  "listProposals rpc cl from count =
     (let source = governor_readAccount cl None in
      and_then (asking (rp_getAccount rpc source)) (\<lambda>sequence.
      and_then (list_call rpc cl source (sequence + 1) ''get_proposal_list'' [AU32 from, AU32 count]) (\<lambda>listResult.
        case listResult of
          SimSuccess ok \<Rightarrow> returning (case sm_retval ok of Some v \<Rightarrow> v | None \<Rightarrow> JArray [])
        | SimError _ \<Rightarrow>
            and_then (list_call rpc cl source (sequence + 2) ''proposal_count'' []) (\<lambda>countResult.
              case countResult of
                SimError _ \<Rightarrow> returning (JArray [])
              | SimSuccess ok \<Rightarrow>
                  (let totalCount = (case sm_retval ok of Some v \<Rightarrow> js_Number v | None \<Rightarrow> Finite 0) in
                   and_then (list_loop rpc cl source (sequence + 3) (from + 1) (list_rounds from count totalCount))
                     (\<lambda>proposals. returning (JArray proposals)))))))"

subsection \<open>Proposing\<close>

text \<open>The overloaded parameters of \<^verbatim>\<open>propose\<close>: the legacy call has the targets where the current one has the hash.\<close>

datatype propose_call =
  LegacyCall "string list" "string list" "bytes list"
| CurrentCall string string "string list" "string list option" "bytes list option"

definition propose_args :: "string \<Rightarrow> string \<Rightarrow> bytes \<Rightarrow> string \<Rightarrow> string list \<Rightarrow> string list \<Rightarrow> bytes list \<Rightarrow> sc_arg list" where
  "propose_args proposer description hashBytes metadataUri targets fnNames calldatas =
     [AAddress proposer, AString description, ABytes hashBytes, AString metadataUri,
      scVecAddress targets, scVecSymbol fnNames, scVecBytes calldatas]"

definition check_actions :: "string list \<Rightarrow> string list \<Rightarrow> bytes list \<Rightarrow> client_error option" where
  "check_actions targets fnNames calldatas =
     (if length targets \<noteq> length fnNames \<or> length targets \<noteq> length calldatas
      then Some (GovernorErr ''InvalidVectorLengths'' ''targets, fnNames, and calldatas must have the same length'')
      else if targets = [] then Some (GovernorErr ''NoTargets'' ''At least one on-chain action is required'')
      else None)"

definition with_hashBytes :: "string \<Rightarrow> (bytes \<Rightarrow> ('w, 'a) io) \<Rightarrow> ('w, 'a) io" where
  "with_hashBytes descriptionHash k =
     (case hexToBytes32 descriptionHash of Inl m \<Rightarrow> throwing (js_error_of ''Error'' m) | Inr bs \<Rightarrow> k bs)"

definition proposal_id :: "js_value option \<Rightarrow> client_error + int" where
  "proposal_id returnVal = (case returnVal of None \<Rightarrow> Inr 0 | Some v \<Rightarrow> with_BigInt v Inr)"

definition client_propose :: "'w rpc \<Rightarrow> client \<Rightarrow> string \<Rightarrow> string \<Rightarrow> propose_call \<Rightarrow> ('w, int) io" where
  "client_propose rpc cl signer description call =
     retrying cl (Some governor_isRetryableSubmissionError)
       (let descriptionHash = (case call of LegacyCall _ _ _ \<Rightarrow> replicate 64 (CHR ''0'') | CurrentCall h _ _ _ _ \<Rightarrow> h);
            metadataUri = (case call of LegacyCall _ _ _ \<Rightarrow> '''' | CurrentCall _ u _ _ _ \<Rightarrow> u);
            targets = (case call of LegacyCall ts _ _ \<Rightarrow> ts | CurrentCall _ _ ts _ _ \<Rightarrow> ts);
            fnNames = (case call of LegacyCall _ fs _ \<Rightarrow> Some fs | CurrentCall _ _ _ fs _ \<Rightarrow> fs);
            calldatas = (case call of LegacyCall _ _ cs \<Rightarrow> Some cs | CurrentCall _ _ _ _ cs \<Rightarrow> cs)
        in case (fnNames, calldatas) of
             (Some fnNames, Some calldatas) \<Rightarrow>
               (case check_actions targets fnNames calldatas of
                  Some e \<Rightarrow> throwing e
                | None \<Rightarrow>
                    with_hashBytes descriptionHash (\<lambda>hashBytes.
                      submit_and_confirm rpc cl (sent_error ''GovernorError'' parseGovernorError) (governor_pollForConfirmation rpc)
                        signer ''propose'' (propose_args signer description hashBytes metadataUri targets fnNames calldatas)
                        (\<lambda>hash. proposal_id)))
           | _ \<Rightarrow> throwing (GovernorErr ''InvalidArguments'' ''targets, fnNames, and calldatas are required''))"

definition proposeWithSign ::
  "'w rpc \<Rightarrow> client \<Rightarrow> string \<Rightarrow> string \<Rightarrow> string \<Rightarrow> string \<Rightarrow> string list \<Rightarrow> string list \<Rightarrow> bytes list \<Rightarrow> ('w, int \<times> string) io" where
  "proposeWithSign rpc cl signerPublicKey description descriptionHash metadataUri targets fnNames calldatas =
     (case check_actions targets fnNames calldatas of
        Some e \<Rightarrow> throwing e
      | None \<Rightarrow>
          with_hashBytes descriptionHash (\<lambda>hashBytes.
            submit_signed rpc cl (sent_error ''GovernorError'' parseGovernorError) (governor_pollForConfirmation rpc)
              signerPublicKey ''propose'' (propose_args signerPublicKey description hashBytes metadataUri targets fnNames calldatas)
              (\<lambda>hash v. bind_sum (proposal_id v) (\<lambda>proposalId. Inr (proposalId, hash)))))"

subsection \<open>Simulations\<close>

text \<open>The results of the estimates: the flag, the error, and the two costs.\<close>

record estimate =
  es_ok :: bool
  es_error :: "string option"
  es_cpuInsns :: js_value
  es_memBytes :: js_value

definition failed_estimate :: "string \<Rightarrow> estimate" where
  "failed_estimate message = \<lparr>es_ok = False, es_error = Some message, es_cpuInsns = JUndefined, es_memBytes = JUndefined\<rparr>"

definition cost_estimate :: "simulation \<Rightarrow> estimate" where
  "cost_estimate sim =
     (case sim of
        SimError err \<Rightarrow> failed_estimate err
      | SimSuccess ok \<Rightarrow>
          \<lparr>es_ok = True, es_error = None, es_cpuInsns = field (sm_cost ok) ''cpuInsns'', es_memBytes = field (sm_cost ok) ''memBytes''\<rparr>)"

text \<open>\<^verbatim>\<open>new Contract(contractId)\<close> may refuse the identifier.\<close>

definition simulateTargetInvocation ::
  "stellar \<Rightarrow> 'w rpc \<Rightarrow> client \<Rightarrow> string \<Rightarrow> string \<Rightarrow> string \<Rightarrow> sc_arg list \<Rightarrow> ('w, estimate) io" where
  "simulateTargetInvocation stellar rpc cl footprintSourceAccount contractId functionName args =
     retrying cl None
       (case st_openContract stellar contractId of
          Some e \<Rightarrow> throwing e
        | None \<Rightarrow>
            and_then (simulate_call rpc (cl\<lparr>cl_contract := contractId\<rparr>) footprintSourceAccount functionName args)
              (\<lambda>sim. returning (cost_estimate sim)))"

definition error_message :: "string \<Rightarrow> client_error \<Rightarrow> string" where
  "error_message otherwise e = or_else (ce_message e) otherwise"

definition estimateProposeResources ::
  "'w rpc \<Rightarrow> client \<Rightarrow> string \<Rightarrow> string \<Rightarrow> string \<Rightarrow> string \<Rightarrow> string list \<Rightarrow> string list \<Rightarrow> bytes list \<Rightarrow> ('w, estimate) io" where
  "estimateProposeResources rpc cl proposer description descriptionHash metadataUri targets fnNames calldatas =
     retrying cl None
       (catching
          (with_hashBytes descriptionHash (\<lambda>hashBytes.
             and_then (simulate_call rpc cl proposer ''propose''
                 (propose_args proposer description hashBytes metadataUri targets fnNames calldatas))
               (\<lambda>sim. returning (cost_estimate sim))))
          (\<lambda>e. returning (failed_estimate (error_message ''estimate failed'' e))))"

subsection \<open>Cancelling\<close>

definition quoted_failure :: "SendTransactionResponse \<Rightarrow> client_error" where
  "quoted_failure result = js_error_of ''Error'' (''Transaction failed: '' @ sr_json result)"

definition governor_cancel :: "'w rpc \<Rightarrow> client \<Rightarrow> string \<Rightarrow> int \<Rightarrow> ('w, unit) io" where
  "governor_cancel rpc cl signer proposalId =
     retrying cl (Some governor_isRetryableSubmissionError)
       (submit_and_confirm rpc cl quoted_failure (governor_pollForConfirmation rpc) signer ''cancel''
          [AAddress signer, AU64 proposalId] (\<lambda>_ _. Inr ()))"

definition cancelByGovernance :: "'w rpc \<Rightarrow> client \<Rightarrow> string \<Rightarrow> int \<Rightarrow> ('w, unit) io" where
  "cancelByGovernance rpc cl signer proposalId =
     retrying cl (Some governor_isRetryableSubmissionError)
       (submit_and_confirm rpc cl quoted_failure (governor_pollForConfirmation rpc) signer ''cancel_by_governance''
          [AU64 proposalId] (\<lambda>_ _. Inr ()))"

definition cancelByGovernanceWithSign :: "'w rpc \<Rightarrow> client \<Rightarrow> string \<Rightarrow> int \<Rightarrow> ('w, unit) io" where
  "cancelByGovernanceWithSign rpc cl signerPublicKey proposalId =
     submit_signed rpc cl quoted_failure (governor_pollForConfirmation rpc) signerPublicKey ''cancel_by_governance''
       [AU64 proposalId] (\<lambda>_ _. Inr ())"

subsection \<open>Submissions of the governor client\<close>

lemma governor_codes [simp]:
  "map_of GovernorErrorCode ''TransactionFailed'' = Some 102" "map_of GovernorErrorCode ''TransactionTimeout'' = Some 103"
  "map_of GovernorErrorCode ''InvalidArguments'' = Some 104" "map_of GovernorErrorCode ''NoTargets'' = Some 10"
  "map_of GovernorErrorCode ''InvalidVectorLengths'' = Some 9"
  by (simp_all add: GovernorErrorCode_def)

lemma governor_typed_final [simp]: "\<not> governor_isRetryableSubmissionError (GovernorErr code message)"
  by (simp add: governor_isRetryableSubmissionError_def GovernorErr_def typed_def)

lemma retry_on_Some [simp]: "retry_on cl (Some again) e = again e"
  by (simp add: retry_on_def given_coalesce)

lemma governor_honest_poll: "honest_poll rpc (governor_pollForConfirmation rpc)"
  unfolding honest_poll_def governor_pollForConfirmation_def
  using poll_rounds_resolved asked_reported by (fastforce intro: quiets)

lemma asking_answers:
  assumes "answers rpc c"
  shows "\<exists>s'. asking (rp_getTransaction rpc hash) s = (Inr c, s') \<and> ss_sent s' = ss_sent s"
proof -
  obtain w' where "rp_getTransaction rpc hash (ss_world s) = (Inr c, w')" using assms by (auto simp: answers_def)
  then show ?thesis by (simp add: asking_def)
qed

lemma governor_poll_times_out:
  "answers rpc TxMissing \<Longrightarrow> \<exists>s'. governor_pollForConfirmation rpc hash s =
     (Inl (GovernorErr ''TransactionTimeout'' (timeout_message 10)), s') \<and> ss_sent s' = ss_sent s"
  unfolding governor_pollForConfirmation_def by (rule poll_rounds_times_out) (rule asking_answers)

lemma governor_poll_fails:
  "answers rpc TxFailure \<Longrightarrow> \<exists>s'. governor_pollForConfirmation rpc hash s =
     (Inl (GovernorErr ''TransactionFailed'' (''Transaction failed: '' @ hash)), s') \<and> ss_sent s' = ss_sent s"
  unfolding governor_pollForConfirmation_def by (rule poll_rounds_fails) (erule asking_answers, simp)

text \<open>A polling round that throws ends the loop.\<close>

lemma poll_rounds_throws: "ask s = (Inl e, s') \<Longrightarrow> poll_rounds ask failed timeout (Suc n) s = (Inl e, s')"
  by (simp add: and_then_def)

lemma governor_poll_throws:
  assumes "rp_getTransaction rpc hash (ss_world s) = (Inl e, w')"
  shows "governor_pollForConfirmation rpc hash s = (Inl e, s\<lparr>ss_world := w'\<rparr>)"
proof -
  have "asking (rp_getTransaction rpc hash) s = (Inl e, s\<lparr>ss_world := w'\<rparr>)" using assms by (simp add: asking_def)
  then show ?thesis unfolding governor_pollForConfirmation_def numeral_eq_Suc by (rule poll_rounds_throws)
qed

lemma client_propose_valid:
  assumes "check_actions targets fnNames calldatas = None" "hexToBytes32 descriptionHash = Inr hashBytes"
  shows "client_propose rpc cl signer description (CurrentCall descriptionHash metadataUri targets (Some fnNames) (Some calldatas)) =
    retrying cl (Some governor_isRetryableSubmissionError)
      (submit_and_confirm rpc cl (sent_error ''GovernorError'' parseGovernorError) (governor_pollForConfirmation rpc)
         signer ''propose'' (propose_args signer description hashBytes metadataUri targets fnNames calldatas) (\<lambda>hash. proposal_id))"
  using assms by (simp add: client_propose_def with_hashBytes_def)

text \<open>C16: \<^verbatim>\<open>propose\<close> submits a proposal once when the network is slow or the transaction fails: whether the node never confirms
  the transaction or reports it as failed, exactly one transaction with the proposal has been sent when the call rejects.
  This is what the comment in \<^verbatim>\<open>isRetryableSubmissionError\<close> promises, and what the treasury and timelock clients
  do not do.\<close>

theorem propose_verdict_is_final:
  assumes "takes_all rpc H" "answers rpc TxMissing \<or> answers rpc TxFailure" "1 \<le> attempts_of cl"
    and "check_actions targets fnNames calldatas = None" "hexToBytes32 descriptionHash = Inr hashBytes"
  shows "\<exists>e s' x. client_propose rpc cl signer description
      (CurrentCall descriptionHash metadataUri targets (Some fnNames) (Some calldatas)) s = (Inl e, s') \<and>
    ss_sent s' = ss_sent s @ [x] \<and>
    same_call cl signer ''propose'' (propose_args signer description hashBytes metadataUri targets fnNames calldatas) x"
proof -
  have final: "\<exists>e s'. governor_pollForConfirmation rpc hash s = (Inl e, s') \<and>
      \<not> retry_on cl (Some governor_isRetryableSubmissionError) e \<and> ss_sent s' = ss_sent s" for hash and s :: "'a session"
    using assms(2) governor_poll_times_out [of rpc hash s] governor_poll_fails [of rpc hash s] governor_typed_final
    unfolding retry_on_Some by blast
  show ?thesis unfolding client_propose_valid [OF assms(4,5)] by (rule submission_final [OF assms(1,3) final])
qed

definition confirmation_down :: "'w rpc \<Rightarrow> client_error \<Rightarrow> bool" where
  "confirmation_down rpc e \<longleftrightarrow> (\<forall>h w. \<exists>w'. rp_getTransaction rpc h w = (Inl e, w'))"

text \<open>But \<^verbatim>\<open>propose\<close> creates duplicates when asking for the confirmation fails: the polling loop does not retry, a plain
  network error passes through it, counts as retryable, and the proposal is sent again, accepted each time.\<close>

theorem propose_outage_duplicates:
  assumes "takes_all rpc H" "confirmation_down rpc err" "1 \<le> attempts_of cl"
    and "ce_class err \<noteq> ''GovernorError''" "governor_isNetworkError err"
    and "check_actions targets fnNames calldatas = None" "hexToBytes32 descriptionHash = Inr hashBytes"
  shows "\<exists>e s' l. client_propose rpc cl signer description
      (CurrentCall descriptionHash metadataUri targets (Some fnNames) (Some calldatas)) s = (Inl e, s') \<and>
    ss_sent s' = ss_sent s @ l \<and> int (length l) = attempts_of cl \<and>
    list_all (same_call cl signer ''propose'' (propose_args signer description hashBytes metadataUri targets fnNames calldatas)) l"
  unfolding client_propose_valid [OF assms(6,7)]
proof (rule submission_repeats [OF assms(1,3)])
  fix hash and s :: "'a session"
  obtain w' where "rp_getTransaction rpc hash (ss_world s) = (Inl err, w')" using assms(2) by (auto simp: confirmation_down_def)
  from governor_poll_throws [OF this] show "\<exists>e s'. governor_pollForConfirmation rpc hash s = (Inl e, s') \<and>
      governor_isRetryableSubmissionError e \<and> ss_sent s' = ss_sent s"
    using assms(4,5) by (simp add: governor_isRetryableSubmissionError_def)
qed

text \<open>A concrete network: the steady node with an outage of \<^verbatim>\<open>getTransaction\<close>.\<close>

definition fetch_failed :: client_error where
  "fetch_failed = js_error_of ''TypeError'' ''fetch failed''"

definition outage_node :: "nat rpc" where
  "outage_node = (steady_node ''ab'' (returns None) TxMissing)\<lparr>rp_getTransaction := (\<lambda>_ n. (Inl fetch_failed, n))\<rparr>"

lemma zero_hash: "hexToBytes32 (replicate 64 (CHR ''0'')) = Inr (replicate 32 0)"
  by code_simp

lemma one_action: "check_actions [''C2''] [''set''] [[7]] = None"
  by (simp add: check_actions_def)

theorem propose_verdict_is_final_witness:
  "\<exists>e s' x. client_propose (steady_node ''ab'' (returns None) TxFailure) plain_client ''G1'' ''text''
      (CurrentCall (replicate 64 (CHR ''0'')) '''' [''C2''] (Some [''set'']) (Some [[7]])) fresh_session = (Inl e, s') \<and>
    ss_sent s' = ss_sent fresh_session @ [x] \<and>
    same_call plain_client ''G1'' ''propose''
      (propose_args ''G1'' ''text'' (replicate 32 0) '''' [''C2''] [''set''] [[7]]) x"
  by (rule propose_verdict_is_final [OF steady_node_takes_all [where H = "\<lambda>_. True"] _ _ one_action zero_hash])
    (simp_all add: steady_node_answers plain_client_attempts)

theorem propose_outage_duplicates_witness:
  "\<exists>e s' l. client_propose outage_node plain_client ''G1'' ''text''
      (CurrentCall (replicate 64 (CHR ''0'')) '''' [''C2''] (Some [''set'']) (Some [[7]])) fresh_session = (Inl e, s') \<and>
    ss_sent s' = ss_sent fresh_session @ l \<and> int (length l) = attempts_of plain_client \<and>
    list_all (same_call plain_client ''G1'' ''propose''
      (propose_args ''G1'' ''text'' (replicate 32 0) '''' [''C2''] [''set''] [[7]])) l"
proof (rule propose_outage_duplicates [where err = fetch_failed and H = "\<lambda>_. True", OF _ _ _ _ _ one_action zero_hash])
  show "takes_all outage_node (\<lambda>_. True)"
    using steady_node_takes_all [of "\<lambda>_. True" "''ab''" "returns None" TxMissing] by (simp add: outage_node_def takes_all_def)
  show "confirmation_down outage_node fetch_failed" by (simp add: confirmation_down_def outage_node_def)
  show "governor_isNetworkError fetch_failed" by code_simp
qed (simp_all add: plain_client_attempts fetch_failed_def js_error_of_def)

end
