(* ===== verification/SdkGovernorReads.thy ===== *)
theory SdkGovernorReads
  imports SdkGovernor
begin

section \<open>The governor client of the SDK: reads and settings\<close>

text \<open>
  The reading half of the governor client: \<^verbatim>\<open>governor/queries.ts\<close>, \<^verbatim>\<open>governor/execution.ts\<close>, and the reads of
  \<^verbatim>\<open>governor/proposals.ts\<close>, with the validation of settings and the proposal that updates them. The states of a proposal are
  those of \<open>GovernorCore\<close>, whose names are the values of the enumeration. A decoded variant that names a member of every
  object (\<^verbatim>\<open>"toString" in states\<close>) is not considered.
\<close>

subsection \<open>Reading one value\<close>

definition governor_read ::
  "'w rpc \<Rightarrow> client \<Rightarrow> string \<Rightarrow> string \<Rightarrow> sc_arg list \<Rightarrow> 'a \<Rightarrow> (js_value \<Rightarrow> client_error + 'a) \<Rightarrow> ('w, 'a) io" where
  "governor_read rpc cl source method args dflt parse =
     read_call rpc cl source method args (\<lambda>_. Inr dflt) (Inr dflt) parse"

text \<open>The reads that throw: \<^verbatim>\<open>Simulation error: ...\<close> or a message for a missing value.\<close>

definition governor_require ::
  "'w rpc \<Rightarrow> client \<Rightarrow> string \<Rightarrow> string \<Rightarrow> sc_arg list \<Rightarrow> string \<Rightarrow> (js_value \<Rightarrow> client_error + 'a) \<Rightarrow> ('w, 'a) io" where
  "governor_require rpc cl source method args missing parse =
     read_call rpc cl source method args
       (\<lambda>err. Inl (js_error_of ''Error'' (''Simulation error: '' @ err))) (Inl (js_error_of ''Error'' missing)) parse"

definition client_proposalThreshold :: "'w rpc \<Rightarrow> client \<Rightarrow> ('w, int) io" where
  "client_proposalThreshold rpc cl =
     retrying cl None (governor_read rpc cl (governor_readAccount cl None) ''proposal_threshold'' [] 0 (\<lambda>v. with_BigInt v Inr))"

definition client_proposalCount :: "'w rpc \<Rightarrow> client \<Rightarrow> ('w, int) io" where
  "client_proposalCount rpc cl =
     retrying cl None (governor_read rpc cl (governor_readAccount cl None) ''proposal_count'' [] 0 (\<lambda>v. with_BigInt v Inr))"

definition getQuorum :: "'w rpc \<Rightarrow> client \<Rightarrow> int \<Rightarrow> ('w, int) io" where
  "getQuorum rpc cl proposalId =
     governor_require rpc cl (cl_contract cl) ''get_quorum'' [AU64 proposalId] ''No return value'' (\<lambda>v. with_BigInt v Inr)"

definition isQuorumReached :: "'w rpc \<Rightarrow> client \<Rightarrow> int \<Rightarrow> ('w, js_value) io" where
  "isQuorumReached rpc cl proposalId =
     governor_require rpc cl (cl_contract cl) ''is_quorum_reached'' [AU64 proposalId] ''No return value'' Inr"

definition getLatestLedger :: "'w rpc \<Rightarrow> client \<Rightarrow> ('w, int) io" where
  "getLatestLedger rpc cl = retrying cl None (asking (rp_getLatestLedger rpc))"

definition getLastProposalLedger :: "'w rpc \<Rightarrow> client \<Rightarrow> string \<Rightarrow> ('w, js_number) io" where
  "getLastProposalLedger rpc cl address =
     retrying cl None (governor_read rpc cl (cl_contract cl) ''last_proposal_ledger'' [AAddress address] (Finite 0) (\<lambda>v. Inr (js_Number v)))"

definition getProposalsInPeriod :: "'w rpc \<Rightarrow> client \<Rightarrow> string \<Rightarrow> ('w, js_number) io" where
  "getProposalsInPeriod rpc cl address =
     retrying cl None (governor_read rpc cl (cl_contract cl) ''proposals_in_period'' [AAddress address] (Finite 0) (\<lambda>v. Inr (js_Number v)))"

subsection \<open>Settings\<close>

definition parse_voteType :: "js_value \<Rightarrow> VoteType" where
  "parse_voteType voteTypeRaw =
     (let voteTypeValue =
            (if isArray voteTypeRaw then js_String (nullish_or (elem voteTypeRaw 0) (JString ''''))
             else js_String (nullish_or voteTypeRaw (JString '''')))
      in if voteTypeValue = ''Simple'' then VoteType.Simple
         else if voteTypeValue = ''Quadratic'' then VoteType.Quadratic
         else VoteType.Extended)"

definition parse_settings :: "js_value \<Rightarrow> client_error + GovernorSettings" where
  "parse_settings native =
     with_member native ''vote_type'' (\<lambda>voteTypeRaw.
     with_toBigInt (field native ''proposal_threshold'') (\<lambda>proposalThreshold.
     with_toBigInt (field native ''min_quorum_usd'') (\<lambda>minQuorumUsd.
       let number = (\<lambda>name dflt. js_Number (nullish_or (field native name) (JNumber dflt)));
           flag = (\<lambda>name. js_Boolean (nullish_or (field native name) (JBoolean False)))
       in Inr \<lparr>settings_votingDelay = number ''voting_delay'' 0,
               settings_votingPeriod = number ''voting_period'' 0,
               settings_quorumNumerator = number ''quorum_numerator'' 0,
               settings_proposalThreshold = proposalThreshold,
               settings_guardian = js_String (nullish_or (field native ''guardian'') (JString '''')),
               settings_voteType = parse_voteType voteTypeRaw,
               settings_proposalGracePeriod = number ''proposal_grace_period'' 0,
               settings_useDynamicQuorum = Some (flag ''use_dynamic_quorum''),
               settings_reflectorOracle =
                 Some (if js_Boolean (field native ''reflector_oracle'')
                       then Some (js_String (field native ''reflector_oracle'')) else None),
               settings_minQuorumUsd = Some minQuorumUsd,
               settings_maxCalldataSize = Some (number ''max_calldata_size'' 10000),
               settings_proposalCooldown = Some (number ''proposal_cooldown'' 100),
               settings_maxProposalsPerPeriod = Some (number ''max_proposals_per_period'' 5),
               settings_proposalPeriodDuration = Some (number ''proposal_period_duration'' 10000),
               settings_useCommitReveal = Some (flag ''use_commit_reveal''),
               settings_commitPhaseFraction = Some (number ''commit_phase_fraction'' 5000)\<rparr>)))"

definition getSettings :: "'w rpc \<Rightarrow> client \<Rightarrow> string option \<Rightarrow> ('w, GovernorSettings) io" where
  "getSettings rpc cl sourceAccount =
     retrying cl None
       (governor_require rpc cl (governor_readAccount cl sourceAccount) ''get_settings'' [] ''No settings return value'' parse_settings)"

record GovernorSettingsValidationLimits =
  lim_maxVotingDelay :: "int option"
  lim_minVotingPeriod :: "int option"

definition is_Integer :: "js_number \<Rightarrow> bool" where
  "is_Integer x = (case x of Finite r \<Rightarrow> is_integer r | _ \<Rightarrow> False)"

definition validateGovernorSettings :: "GovernorSettings \<Rightarrow> GovernorSettingsValidationLimits \<Rightarrow> client_error option" where
  "validateGovernorSettings newSettings limits =
     (let maxVotingDelay = or_else (lim_maxVotingDelay limits) 1209600;
          minVotingPeriod = or_else (lim_minVotingPeriod limits) 1;
          commitPhaseFraction = or_else (settings_commitPhaseFraction newSettings) (Finite 5000);
          invalid = (\<lambda>message. Some (GovernorErr ''InvalidArguments'' message))
      in if \<not> is_Integer (settings_votingDelay newSettings) \<or> \<not> js_le (Finite 0) (settings_votingDelay newSettings) \<or>
            \<not> js_le (settings_votingDelay newSettings) (js_int maxVotingDelay)
         then invalid (''votingDelay must be between 0 and '' @ dec_int maxVotingDelay)
         else if \<not> is_Integer (settings_votingPeriod newSettings) \<or>
            \<not> js_le (js_int minVotingPeriod) (settings_votingPeriod newSettings)
         then invalid (''votingPeriod must be at least '' @ dec_int minVotingPeriod)
         else if \<not> is_Integer (settings_quorumNumerator newSettings) \<or> js_le (settings_quorumNumerator newSettings) (Finite 0) \<or>
            \<not> js_le (settings_quorumNumerator newSettings) (Finite 100)
         then invalid ''quorumNumerator must be greater than 0 and at most 100''
         else if settings_proposalThreshold newSettings < 0
         then invalid ''proposalThreshold must be greater than or equal to 0''
         else if \<not> is_Integer commitPhaseFraction \<or> js_le commitPhaseFraction (Finite 0) \<or> js_le (Finite 10000) commitPhaseFraction
         then invalid ''commitPhaseFraction must be a BPS value between 1 and 9999''
         else None)"

primrec VoteType_name :: "VoteType \<Rightarrow> string" where
  "VoteType_name VoteType.Simple = ''Simple''"
| "VoteType_name VoteType.Extended = ''Extended''"
| "VoteType_name VoteType.Quadratic = ''Quadratic''"

definition settingsScVal :: "GovernorSettings \<Rightarrow> sc_arg" where
  "settingsScVal newSettings =
     AMap [
       (''voting_delay'', AU32Number (settings_votingDelay newSettings)),
       (''voting_period'', AU32Number (settings_votingPeriod newSettings)),
       (''quorum_numerator'', AU32Number (settings_quorumNumerator newSettings)),
       (''proposal_threshold'', AI128 (settings_proposalThreshold newSettings)),
       (''guardian'', AAddress (settings_guardian newSettings)),
       (''vote_type'', AVec [ASymbol (VoteType_name (settings_voteType newSettings))]),
       (''proposal_grace_period'', AU32Number (settings_proposalGracePeriod newSettings)),
       (''use_dynamic_quorum'', ABool (or_else (settings_useDynamicQuorum newSettings) False)),
       (''reflector_oracle'',
          (case settings_reflectorOracle newSettings of
             Some (Some oracle) \<Rightarrow> if oracle = '''' then AVoid else AAddress oracle
           | _ \<Rightarrow> AVoid)),
       (''min_quorum_usd'', AI128 (or_else (settings_minQuorumUsd newSettings) 0)),
       (''max_calldata_size'', AU32Number (or_else (settings_maxCalldataSize newSettings) (Finite 10000))),
       (''proposal_cooldown'', AU32Number (or_else (settings_proposalCooldown newSettings) (Finite 100))),
       (''max_proposals_per_period'', AU32Number (or_else (settings_maxProposalsPerPeriod newSettings) (Finite 5))),
       (''proposal_period_duration'', AU32Number (or_else (settings_proposalPeriodDuration newSettings) (Finite 10000))),
       (''use_commit_reveal'', ABool (or_else (settings_useCommitReveal newSettings) False)),
       (''commit_phase_fraction'', AU32Number (or_else (settings_commitPhaseFraction newSettings) (Finite 5000)))]"

text \<open>The call data is the value that is then written out as XDR.\<close>

definition buildUpdateConfigProposal ::
  "client \<Rightarrow> GovernorSettings \<Rightarrow> GovernorSettingsValidationLimits \<Rightarrow> client_error + (string \<times> string \<times> sc_arg)" where
  "buildUpdateConfigProposal cl newSettings limits =
     (case validateGovernorSettings newSettings limits of
        Some e \<Rightarrow> Inl e
      | None \<Rightarrow> Inr (cl_contract cl, ''update_config'', AVec [settingsScVal newSettings]))"

subsection \<open>Proposals\<close>

definition pick :: "js_value \<Rightarrow> string \<Rightarrow> string \<Rightarrow> js_value \<Rightarrow> js_value" where
  "pick native camel snake fallback =
     (if field native camel \<noteq> JUndefined then field native camel
      else if field native snake \<noteq> JUndefined then field native snake
      else fallback)"

definition mapProposalNative :: "js_value \<Rightarrow> client_error + Proposal" where
  "mapProposalNative native =
     with_member native ''id'' (\<lambda>_.
     with_toBigInt (pick native ''id'' ''id'' (JNumber 0)) (\<lambda>i.
     with_toBigInt (pick native ''votesFor'' ''votes_for'' (JNumber 0)) (\<lambda>votesFor.
     with_toBigInt (pick native ''votesAgainst'' ''votes_against'' (JNumber 0)) (\<lambda>votesAgainst.
     with_toBigInt (pick native ''votesAbstain'' ''votes_abstain'' (JNumber 0)) (\<lambda>votesAbstain.
       Inr \<lparr>pp_id = i,
            pp_proposer = js_String (pick native ''proposer'' ''proposer'' (JString '''')),
            pp_description = js_String (pick native ''description'' ''description'' (JString '''')),
            pp_startLedger = js_Number (pick native ''startLedger'' ''start_ledger'' (JNumber 0)),
            pp_endLedger = js_Number (pick native ''endLedger'' ''end_ledger'' (JNumber 0)),
            pp_votesFor = votesFor, pp_votesAgainst = votesAgainst, pp_votesAbstain = votesAbstain,
            pp_executed = js_Boolean (pick native ''executed'' ''executed'' (JBoolean False)),
            pp_cancelled = js_Boolean (pick native ''cancelled'' ''cancelled'' (JBoolean False))\<rparr>)))))"

definition client_getProposal :: "'w rpc \<Rightarrow> client \<Rightarrow> int \<Rightarrow> ('w, Proposal) io" where
  "client_getProposal rpc cl proposalId =
     retrying cl None
       (governor_require rpc cl (governor_readAccount cl None) ''get_proposal'' [AU64 proposalId] ''No return value'' mapProposalNative)"

definition state_table :: "(string \<times> ProposalStateName) list" where
  "state_table = [(''Pending'', Pending), (''Active'', Active), (''Defeated'', Defeated), (''Succeeded'', Succeeded),
     (''Queued'', Queued), (''Executed'', Executed), (''Cancelled'', Cancelled), (''Expired'', Expired)]"

definition decodeProposalState :: "js_value \<Rightarrow> client_error + ProposalStateName" where
  "decodeProposalState native =
     (if \<not> isArray native \<or> elements native = []
      then Inl (js_error_of ''Error'' ''Invalid ScVal format for ProposalState enum'')
      else case map_of state_table (js_String (elem native 0)) of
        Some st \<Rightarrow> Inr st
      | None \<Rightarrow> Inl (js_error_of ''UnknownProposalStateError'' (''Unknown proposal state: '' @ js_String (elem native 0))))"

definition client_getProposalState :: "'w rpc \<Rightarrow> client \<Rightarrow> int \<Rightarrow> ('w, ProposalStateName) io" where
  "client_getProposalState rpc cl proposalId =
     retrying cl None
       (governor_require rpc cl (governor_readAccount cl None) ''state'' [AU64 proposalId] ''No return value'' decodeProposalState)"

text \<open>The loop of \<^verbatim>\<open>waitForProposalState\<close> ends when the state is reached, when reading it throws, or when the clock has passed
  the timeout; \<open>None\<close> is a loop that never ends.\<close>

definition proposal_state_text :: "ProposalStateName \<Rightarrow> string" where
  "proposal_state_text st = (case find (\<lambda>(n, t). t = st) state_table of Some (n, _) \<Rightarrow> n | None \<Rightarrow> '''')"

partial_function (option) wait_loop ::
  "'w rpc \<Rightarrow> client \<Rightarrow> int \<Rightarrow> ProposalStateName \<Rightarrow> int \<Rightarrow> int \<Rightarrow> int \<Rightarrow> 'w session \<Rightarrow> ((client_error + unit) \<times> 'w session) option" where
  "wait_loop rpc cl proposalId targetState startTime timeoutMs pollIntervalMs s =
     (case rp_now rpc (ss_world s) of (now, w) \<Rightarrow>
        if now - startTime < timeoutMs then
          (case client_getProposalState rpc cl proposalId (s\<lparr>ss_world := w\<rparr>) of (r, s1) \<Rightarrow>
             (case r of
                Inl e \<Rightarrow> Some (Inl e, s1)
              | Inr currentState \<Rightarrow>
                  if currentState = targetState then Some (Inr (), s1)
                  else wait_loop rpc cl proposalId targetState startTime timeoutMs pollIntervalMs
                         (s1\<lparr>ss_world := rp_sleep rpc pollIntervalMs (ss_world s1)\<rparr>)))
        else Some (Inl (js_error_of ''Error'' (''Timeout waiting for proposal '' @ dec_int proposalId @ '' to reach state '' @
                     proposal_state_text targetState)), s\<lparr>ss_world := w\<rparr>))"

definition waitForProposalState ::
  "'w rpc \<Rightarrow> client \<Rightarrow> int \<Rightarrow> ProposalStateName \<Rightarrow> int option \<Rightarrow> int option \<Rightarrow> 'w session \<Rightarrow> ((client_error + unit) \<times> 'w session) option" where
  "waitForProposalState rpc cl proposalId targetState timeoutMs pollIntervalMs s =
     (case rp_now rpc (ss_world s) of (startTime, w) \<Rightarrow>
        wait_loop rpc cl proposalId targetState startTime (or_else timeoutMs 300000) (or_else pollIntervalMs 5000)
          (s\<lparr>ss_world := w\<rparr>))"

definition getQueueTime :: "'w rpc \<Rightarrow> client \<Rightarrow> int \<Rightarrow> ('w, js_value) io" where
  "getQueueTime rpc cl proposalId =
     governor_read rpc cl (governor_readAccount cl None) ''get_queue_time'' [AU64 proposalId] (JNumber 0) Inr"

definition getQueuedOpIds :: "'w rpc \<Rightarrow> client \<Rightarrow> int \<Rightarrow> ('w, js_value list) io" where
  "getQueuedOpIds rpc cl proposalId =
     retrying cl None
       (governor_read rpc cl (governor_readAccount cl None) ''get_queued_op_ids'' [AU64 proposalId] []
          (\<lambda>opIds. with_array opIds ''opIds'' (\<lambda>ids.
             Inr (map (\<lambda>i. case i of JBuffer bs \<Rightarrow> JString (to_hex bs) | _ \<Rightarrow> i) ids))))"

record TimelockInfo =
  ti_queueLedger :: js_value
  ti_vetoWindowEndLedger :: js_number
  ti_executableAtLedger :: js_number
  ti_executionDeadlineLedger :: js_number

text \<open>Adding a number to the queue ledger throws when that is a \<^verbatim>\<open>bigint\<close>. The other values the node could return for it,
  which would be concatenated as text, are not considered: \<open>js_Number\<close> stands for the operand.\<close>

definition with_ledger_sum :: "js_value \<Rightarrow> js_number \<Rightarrow> (js_number \<Rightarrow> client_error + 'a) \<Rightarrow> client_error + 'a" where
  "with_ledger_sum ledger n k =
     (case ledger of
        JBigint _ \<Rightarrow> Inl (js_error_of ''TypeError'' ''Cannot mix BigInt and other types, use explicit conversions'')
      | _ \<Rightarrow> k (js_add (js_Number ledger) n))"

definition tenth :: "js_number \<Rightarrow> js_number" where
  "tenth n = js_floor (js_div n (Finite 10))"

definition getTimelockInfo :: "stellar \<Rightarrow> config \<Rightarrow> 'w rpc \<Rightarrow> client \<Rightarrow> string \<Rightarrow> int \<Rightarrow> ('w, TimelockInfo) io" where
  "getTimelockInfo stellar config rpc cl timelockAddress proposalId =
     and_then (getQueueTime rpc cl proposalId) (\<lambda>queueLedger.
       if queueLedger = JNumber 0
       then throwing (js_error_of ''Error'' (''Proposal '' @ dec_int proposalId @ '' not queued or not found''))
       else
         and_then (getSettings rpc cl None) (\<lambda>settings.
         and_then (settle (TimelockClient stellar config timelockAddress)) (\<lambda>timelockClient.
         and_then (timelock_minDelay rpc timelockClient) (\<lambda>minDelay.
         and_then (timelock_executionWindow rpc timelockClient) (\<lambda>executionWindow.
           settle
             (with_ledger_sum queueLedger (tenth (settings_votingDelay settings)) (\<lambda>veto.
              with_ledger_sum queueLedger (tenth (number_of_int minDelay)) (\<lambda>executableAt.
                Inr \<lparr>ti_queueLedger = queueLedger, ti_vetoWindowEndLedger = veto, ti_executableAtLedger = executableAt,
                     ti_executionDeadlineLedger = js_add executableAt (tenth (number_of_int executionWindow))\<rparr>))))))))"

definition getProposalExpiryLedger :: "'w rpc \<Rightarrow> client \<Rightarrow> int \<Rightarrow> ('w, js_number) io" where
  "getProposalExpiryLedger rpc cl proposalId =
     and_then (client_getProposal rpc cl proposalId) (\<lambda>proposal.
     and_then (getSettings rpc cl None) (\<lambda>settings.
       returning (js_add (pp_endLedger proposal) (settings_proposalGracePeriod settings))))"

definition getProposalFromIndexer :: "'w rpc \<Rightarrow> int \<Rightarrow> string option \<Rightarrow> string option \<Rightarrow> ('w, js_value) io" where
  "getProposalFromIndexer rpc proposalId indexerUrl INDEXER_API_URL =
     (let url = (case indexerUrl of Some u \<Rightarrow> if u = '''' then or_else INDEXER_API_URL '''' else u
                 | None \<Rightarrow> or_else INDEXER_API_URL '''')
      in if url = '''' then returning JNull
         else catching
           (and_then (asking (rp_fetch rpc (get_request (url @ ''/proposals/'' @ dec_int proposalId)))) (\<lambda>response.
              if hr_status response = 404 then returning JNull
              else if \<not> response_ok response
              then throwing (js_error_of ''Error'' (''HTTP '' @ dec_int (hr_status response) @ '': '' @ hr_statusText response))
              else settle (hr_json response)))
           (\<lambda>_. returning JNull))"

subsection \<open>Batches\<close>

text \<open>\<^verbatim>\<open>Promise.allSettled(xs.map(f))\<close> starts all reads at once: they take effect in any order, here \<open>order n\<close> of the indices
  below \<open>n\<close>, and their outcomes stand at the indices of their arguments. A read is one step of the session.\<close>

fun run_reads :: "('a \<Rightarrow> ('w, 'b) io) \<Rightarrow> (nat \<times> 'a) list \<Rightarrow> 'w session \<Rightarrow> (nat \<times> (client_error + 'b)) list \<times> 'w session" where
  "run_reads f [] s = ([], s)"
| "run_reads f ((j, x) # reads) s =
     (case f x s of (r, s1) \<Rightarrow> (case run_reads f reads s1 of (rs, s2) \<Rightarrow> ((j, r) # rs, s2)))"

definition settle_each ::
  "(nat \<Rightarrow> nat list) \<Rightarrow> ('a \<Rightarrow> ('w, 'b) io) \<Rightarrow> 'a list \<Rightarrow> 'w session \<Rightarrow> ('a \<times> (client_error + 'b)) list \<times> 'w session" where
  "settle_each order f xs s =
     (case run_reads f (map (\<lambda>j. (j, xs ! j)) (order (length xs))) s of
        (rs, s') \<Rightarrow> (map (\<lambda>j. (xs ! j, the (map_of rs j))) [0..<length xs], s'))"

text \<open>\<^verbatim>\<open>xs.slice(a, b)\<close>, and the loop over slices from index \<open>i\<close> on, which need not end.\<close>

definition js_slice :: "'a list \<Rightarrow> int \<Rightarrow> int \<Rightarrow> 'a list" where
  "js_slice xs a b =
     (let n = int (length xs); clamped = (\<lambda>k. if k < 0 then max (n + k) 0 else min k n)
      in drop (nat (clamped a)) (take (nat (clamped b)) xs))"

partial_function (option) batch_loop ::
  "(nat \<Rightarrow> nat list) \<Rightarrow> ('a \<Rightarrow> ('w, 'b) io) \<Rightarrow> int \<Rightarrow> 'a list \<Rightarrow> int \<Rightarrow> ('a \<times> (client_error + 'b)) list \<Rightarrow> 'w session \<Rightarrow>
     (('a \<times> (client_error + 'b)) list \<times> 'w session) option" where
  "batch_loop order f concurrency ids i results s =
     (if i < int (length ids) then
        (case settle_each order f (js_slice ids i (i + concurrency)) s of
           (settled, s') \<Rightarrow> batch_loop order f concurrency ids (i + concurrency) (results @ settled) s')
      else Some (results, s))"

definition getProposalsBatch ::
  "(nat \<Rightarrow> nat list) \<Rightarrow> 'w rpc \<Rightarrow> client \<Rightarrow> int list \<Rightarrow> int \<Rightarrow> 'w session \<Rightarrow>
     ((int \<times> (client_error + Proposal)) list \<times> 'w session) option" where
  "getProposalsBatch order rpc cl proposalIds concurrency =
     batch_loop order (client_getProposal rpc cl) concurrency proposalIds 0 []"

definition client_getProposalVotes :: "'w rpc \<Rightarrow> client \<Rightarrow> int \<Rightarrow> ('w, ProposalVotes) io" where
  "client_getProposalVotes rpc cl proposalId =
     retrying cl None
       (governor_require rpc cl (governor_readAccount cl None) ''get_proposal'' [AU64 proposalId] ''No return value''
          (\<lambda>proposal. with_member proposal ''votes_for'' (\<lambda>v. with_toBigInt v (\<lambda>votesFor.
             with_toBigInt (field proposal ''votes_against'') (\<lambda>votesAgainst.
             with_toBigInt (field proposal ''votes_abstain'') (\<lambda>votesAbstain.
               Inr \<lparr>pv_votesFor = votesFor, pv_votesAgainst = votesAgainst, pv_votesAbstain = votesAbstain\<rparr>))))))"

text \<open>\<^verbatim>\<open>Promise.all([a, b])\<close>, where either may finish first: both are run, and the first rejection is the outcome.\<close>

definition promise_both :: "bool \<Rightarrow> ('w, 'a) io \<Rightarrow> ('w, 'b) io \<Rightarrow> ('w, 'a \<times> 'b) io" where
  "promise_both a_first a b s =
     (if a_first then
        (case a s of (ra, s1) \<Rightarrow> (case b s1 of (rb, s2) \<Rightarrow>
           (case (ra, rb) of (Inl e, _) \<Rightarrow> Inl e | (Inr _, Inl e) \<Rightarrow> Inl e | (Inr x, Inr y) \<Rightarrow> Inr (x, y), s2)))
      else
        (case b s of (rb, s1) \<Rightarrow> (case a s1 of (ra, s2) \<Rightarrow>
           (case (rb, ra) of (Inl e, _) \<Rightarrow> Inl e | (Inr _, Inl e) \<Rightarrow> Inl e | (Inr y, Inr x) \<Rightarrow> Inr (x, y), s2))))"

definition getProposalsSummaryBatch ::
  "(nat \<Rightarrow> nat list) \<Rightarrow> (int \<Rightarrow> bool) \<Rightarrow> 'w rpc \<Rightarrow> client \<Rightarrow> int list \<Rightarrow> int \<Rightarrow> 'w session \<Rightarrow>
     ((int \<times> (client_error + ProposalStateName \<times> ProposalVotes)) list \<times> 'w session) option" where
  "getProposalsSummaryBatch order state_first rpc cl proposalIds concurrency =
     batch_loop order
       (\<lambda>i. promise_both (state_first i) (client_getProposalState rpc cl i) (client_getProposalVotes rpc cl i))
       concurrency proposalIds 0 []"

subsection \<open>Gas estimates\<close>

record ExecutionGasEstimate =
  eg_proposalId :: int
  eg_actionCount :: js_number
  eg_calldataBytes :: js_number
  eg_estimatedCpuInsns :: int
  eg_estimatedMemBytes :: int
  eg_estimatedFeeStroops :: int
  eg_rpcCpuInsns :: "int option"
  eg_rpcMemBytes :: "int option"

definition either_name :: "js_value \<Rightarrow> string \<Rightarrow> string \<Rightarrow> js_value" where
  "either_name native snake camel = nullish_or (field native snake) (field native camel)"

definition parse_gas :: "js_value \<Rightarrow> js_value \<Rightarrow> client_error + ExecutionGasEstimate" where
  "parse_gas native cost =
     with_member native ''proposal_id'' (\<lambda>_.
     with_toBigInt (either_name native ''proposal_id'' ''proposalId'') (\<lambda>proposalId.
     with_toBigInt (either_name native ''estimated_cpu_insns'' ''estimatedCpuInsns'') (\<lambda>cpu.
     with_toBigInt (either_name native ''estimated_mem_bytes'' ''estimatedMemBytes'') (\<lambda>mem.
     with_toBigInt (either_name native ''estimated_fee_stroops'' ''estimatedFeeStroops'') (\<lambda>fee.
     with_simulationCostValue cost [''cpuInsns'', ''cpuInstructions''] (\<lambda>rpcCpu.
     with_simulationCostValue cost [''memBytes'', ''memoryBytes''] (\<lambda>rpcMem.
       Inr \<lparr>eg_proposalId = proposalId,
            eg_actionCount = js_Number (nullish_or (either_name native ''action_count'' ''actionCount'') (JNumber 0)),
            eg_calldataBytes = js_Number (nullish_or (either_name native ''calldata_bytes'' ''calldataBytes'') (JNumber 0)),
            eg_estimatedCpuInsns = cpu, eg_estimatedMemBytes = mem, eg_estimatedFeeStroops = fee,
            eg_rpcCpuInsns = rpcCpu, eg_rpcMemBytes = rpcMem\<rparr>)))))))"

definition estimateExecutionGas :: "'w rpc \<Rightarrow> client \<Rightarrow> int \<Rightarrow> string option \<Rightarrow> ('w, ExecutionGasEstimate) io" where
  "estimateExecutionGas rpc cl proposalId sourceAccount =
     retrying cl None
       (and_then (simulate_call rpc cl (governor_readAccount cl sourceAccount) ''estimate_execution_gas'' [AU64 proposalId]) (\<lambda>result.
          settle (case result of
              SimError err \<Rightarrow> Inl (js_error_of ''Error'' (''Simulation error: '' @ err))
            | SimSuccess success \<Rightarrow>
                (case sm_retval success of
                   None \<Rightarrow> Inl (js_error_of ''Error'' ''No return value'')
                 | Some native \<Rightarrow> parse_gas native (sm_cost success)))))"

record ProposalAction =
  pa_target :: string
  pa_function :: string
  pa_args :: "sc_arg list"

text \<open>The result of \<^verbatim>\<open>simulateProposal\<close>: the compute units, or the error.\<close>

fun simulate_actions ::
  "stellar \<Rightarrow> 'w rpc \<Rightarrow> client \<Rightarrow> string \<Rightarrow> ProposalAction list \<Rightarrow> js_number \<Rightarrow> ('w, string + js_number) io" where
  "simulate_actions stellar rpc cl readAccount [] computeUnits = returning (Inr computeUnits)"
| "simulate_actions stellar rpc cl readAccount (action # actions) computeUnits =
     (case st_openContract stellar (pa_target action) of
        Some e \<Rightarrow> throwing e
      | None \<Rightarrow>
          and_then (encode_args rpc (pa_args action)) (\<lambda>_.
          and_then (simulate_call rpc (cl\<lparr>cl_contract := pa_target action\<rparr>) readAccount (pa_function action) (pa_args action)) (\<lambda>result.
            case result of
              SimError err \<Rightarrow> returning (Inl (''Simulation failed: '' @ err))
            | SimSuccess success \<Rightarrow>
                if sm_retval success = None then returning (Inl ''No simulation result returned'')
                else
                  simulate_actions stellar rpc cl readAccount actions
                    (js_add computeUnits
                       (js_Number (nullish_or (field (sm_resultCost success) ''cpuInstructions'')
                         (nullish_or (field (sm_cost success) ''cpuInstructions'')
                           (nullish_or (field (sm_cost success) ''cpuInsns'') (JNumber 0)))))))))"

definition simulateProposal ::
  "stellar \<Rightarrow> 'w rpc \<Rightarrow> client \<Rightarrow> ProposalAction list \<Rightarrow> string option \<Rightarrow> ('w, string + js_number) io" where
  "simulateProposal stellar rpc cl actions sourceAccount =
     retrying cl None
       (catching (simulate_actions stellar rpc cl (governor_readAccount cl sourceAccount) actions (Finite 0))
          (\<lambda>e. returning (Inl (error_message ''Simulation failed'' e))))"

subsection \<open>Watching a proposal\<close>

text \<open>\<^verbatim>\<open>onProposalStateChange\<close>: the closure has \<^verbatim>\<open>stopped\<close> and \<^verbatim>\<open>previous\<close>; a tick that has started waits for its answer, and the
  calls of the callback are recorded.\<close>

record watcher =
  wa_stopped :: bool
  wa_previous :: "ProposalStateName option"
  wa_waiting :: nat
  wa_calls :: "ProposalStateName list"

definition watch_start :: watcher where
  "watch_start = \<lparr>wa_stopped = False, wa_previous = None, wa_waiting = 1, wa_calls = []\<rparr>"

definition watch_tick :: "watcher \<Rightarrow> watcher" where
  "watch_tick w = (if wa_stopped w then w else w\<lparr>wa_waiting := wa_waiting w + 1\<rparr>)"

definition watch_answer :: "client_error + ProposalStateName \<Rightarrow> watcher \<Rightarrow> watcher" where
  "watch_answer r w =
     (case r of
        Inl _ \<Rightarrow> w\<lparr>wa_waiting := wa_waiting w - 1\<rparr>
      | Inr state \<Rightarrow>
          w\<lparr>wa_waiting := wa_waiting w - 1, wa_previous := Some state,
            wa_calls := (if wa_previous w \<noteq> None \<and> Some state \<noteq> wa_previous w then wa_calls w @ [state] else wa_calls w)\<rparr>)"

definition watch_stop :: "watcher \<Rightarrow> watcher" where
  "watch_stop w = w\<lparr>wa_stopped := True\<rparr>"

subsection \<open>Batches read everything, in order\<close>

definition orders :: "(nat \<Rightarrow> nat list) \<Rightarrow> bool" where
  "orders order \<longleftrightarrow> (\<forall>n. distinct (order n) \<and> set (order n) = {0..<n})"

lemma run_reads_outcome:
  assumes "run_reads f reads s = (rs, s')" "distinct (map fst reads)" "(j, x) \<in> set reads"
  shows "\<exists>r s1 s2. map_of rs j = Some r \<and> f x s1 = (r, s2)"
  using assms
proof (induction f reads s arbitrary: rs s' rule: run_reads.induct)
  case (2 f k y reads s)
  obtain r s1 where r: "f y s = (r, s1)" by force
  obtain rs1 s2 where rest: "run_reads f reads s1 = (rs1, s2)" by force
  have rs: "rs = (k, r) # rs1" using 2(2) r rest by simp
  show ?case
  proof (cases "j = k")
    case True
    then have "x = y" using 2(3,4) by force
    then show ?thesis using r rs True by auto
  next
    case False
    then show ?thesis using "2.IH" [OF r [symmetric] rest] 2(3,4) rs by auto
  qed
qed simp

text \<open>Each outcome is the one of a read of its own identifier.\<close>

definition own_outcomes :: "('a \<Rightarrow> ('w, 'b) io) \<Rightarrow> ('a \<times> (client_error + 'b)) list \<Rightarrow> bool" where
  "own_outcomes f rs \<longleftrightarrow> (\<forall>(x, r) \<in> set rs. \<exists>s1 s2. f x s1 = (r, s2))"

lemma settle_each_outcomes:
  assumes "orders order" "settle_each order f xs s = (rs, s')"
  shows "map fst rs = xs \<and> own_outcomes f rs"
proof -
  let ?reads = "map (\<lambda>j. (j, xs ! j)) (order (length xs))"
  obtain os s1 where os: "run_reads f ?reads s = (os, s1)" by force
  then have rs: "rs = map (\<lambda>j. (xs ! j, the (map_of os j))) [0..<length xs]" using assms(2) by (simp add: settle_each_def)
  have "\<exists>s1 s2. f (xs ! j) s1 = (the (map_of os j), s2)" if "j < length xs" for j
    using run_reads_outcome [OF os, of j "xs ! j"] assms(1) that by (force simp: orders_def comp_def)
  then have "own_outcomes f rs" unfolding own_outcomes_def rs by auto
  moreover have "map fst rs = xs" unfolding rs by (simp add: comp_def map_nth)
  ultimately show ?thesis by simp
qed

lemma js_slice_nonneg: "0 \<le> i \<Longrightarrow> 0 \<le> c \<Longrightarrow> js_slice xs i (i + c) = take (nat c) (drop (nat i) xs)"
  by (simp add: js_slice_def Let_def min_def drop_take nat_add_distrib split: if_splits)

lemma batch_loop_all:
  assumes "orders order" "1 \<le> c" "0 \<le> i" "map fst results = take (nat i) ids" "own_outcomes f results"
  shows "\<exists>rs s'. batch_loop order f c ids i results s = Some (rs, s') \<and> map fst rs = ids \<and> own_outcomes f rs"
  using assms(3-5)
proof (induction "nat (int (length ids) - i)" arbitrary: i results s rule: less_induct)
  case less
  show ?case
  proof (cases "i < int (length ids)")
    case True
    obtain settled s1 where st: "settle_each order f (js_slice ids i (i + c)) s = (settled, s1)" by force
    note own = settle_each_outcomes [OF assms(1) st]
    have "map fst (results @ settled) = take (nat (i + c)) ids"
      using own less.prems(1,2) assms(2) by (simp add: js_slice_nonneg nat_add_distrib take_add)
    moreover have "own_outcomes f (results @ settled)" using own less.prems(3) by (auto simp: own_outcomes_def)
    moreover have "nat (int (length ids) - (i + c)) < nat (int (length ids) - i)" using True assms(2) by linarith
    ultimately obtain rs s' where "batch_loop order f c ids (i + c) (results @ settled) s1 = Some (rs, s')"
        "map fst rs = ids" "own_outcomes f rs"
      using less.hyps [of "i + c" "results @ settled" s1] less.prems(1) assms(2) by auto
    then show ?thesis using True st by (subst batch_loop.simps) simp
  next
    case False
    then have "batch_loop order f c ids i results s = Some (results, s)" by (subst batch_loop.simps) simp
    then show ?thesis using False less.prems by auto
  qed
qed

lemma batch_loop_stuck:
  assumes "batch_loop order f c ids i results s = Some r"
  shows "\<not> (c < 1 \<and> i < int (length ids))"
proof (rule batch_loop.raw_induct [OF _ assms])
  fix loop order f c ids i results s r
  assume IH: "\<And>order f c ids i results s r. loop order f c ids i results s = Some r \<Longrightarrow> \<not> (c < 1 \<and> i < int (length ids))"
    and body: "(if i < int (length ids) then
        (case settle_each order f (js_slice ids i (i + c)) s of
           (settled, s') \<Rightarrow> loop order f c ids (i + c) (results @ settled) s')
      else Some (results, s)) = Some r"
  show "\<not> (c < 1 \<and> i < int (length ids))"
  proof
    assume c: "c < 1 \<and> i < int (length ids)"
    obtain settled s1 where "settle_each order f (js_slice ids i (i + c)) s = (settled, s1)" by force
    then have "loop order f c ids (i + c) (results @ settled) s1 = Some r" using body c by simp
    from IH [OF this] c show False by simp
  qed
qed

text \<open>In whatever order the reads of a batch finish and whatever the size of the batches, as long as it is positive, the batched
  reads return all identifiers in their order, each with the outcome of a read of its own. With a size below one and
  at least one identifier the loop never ends.\<close>

theorem batched_reads_all:
  assumes "orders order"
  shows "(1 \<le> c \<longrightarrow> (\<exists>rs s'. getProposalsBatch order rpc cl ids c s = Some (rs, s') \<and> map fst rs = ids \<and>
       own_outcomes (client_getProposal rpc cl) rs)) \<and>
     (c < 1 \<longrightarrow> ids \<noteq> [] \<longrightarrow> getProposalsBatch order rpc cl ids c s = None)"
proof -
  have "getProposalsBatch order rpc cl ids c s = None" if "c < 1" "ids \<noteq> []"
    using batch_loop_stuck [of order "client_getProposal rpc cl" c ids 0 "[]" s] that
    by (cases "getProposalsBatch order rpc cl ids c s") (auto simp: getProposalsBatch_def)
  then show ?thesis
    using batch_loop_all [OF assms, of c 0 "[]" ids "client_getProposal rpc cl" s]
    by (auto simp: getProposalsBatch_def own_outcomes_def)
qed

theorem batched_reads_all_witness:
  "getProposalsBatch (\<lambda>n. rev [0..<n]) (steady_node ''h'' (returns None) TxMissing) plain_client [1, 2] 0 fresh_session = None"
proof -
  have "orders (\<lambda>n. rev [0..<n])" by (auto simp: orders_def)
  from batched_reads_all [OF this, of 0] show ?thesis by auto
qed

subsection \<open>Waiting for a state\<close>

text \<open>A clock: reading it and the calls never turn it back, and a sleep takes its time.\<close>

definition clock_runs :: "'w rpc \<Rightarrow> ('w \<Rightarrow> int) \<Rightarrow> bool" where
  "clock_runs rpc time \<longleftrightarrow>
     (\<forall>w. \<exists>w'. rp_now rpc w = (time w, w') \<and> time w \<le> time w') \<and>
     (\<forall>a w. time w \<le> time (snd (rp_getAccount rpc a w))) \<and>
     (\<forall>tx w. time w \<le> time (snd (rp_simulate rpc tx w))) \<and>
     (\<forall>ms w. time w + ms \<le> time (rp_sleep rpc ms w))"

definition keeps_time :: "('w \<Rightarrow> int) \<Rightarrow> ('w, 'a) io \<Rightarrow> bool" where
  "keeps_time time m \<longleftrightarrow> (\<forall>s. time (ss_world s) \<le> time (ss_world (snd (m s))))"

lemma keeps_time_and_then:
  "keeps_time time m \<Longrightarrow> (\<And>x. keeps_time time (k x)) \<Longrightarrow> keeps_time time (and_then m k)"
  unfolding keeps_time_def
proof
  fix s
  assume m: "\<forall>s. time (ss_world s) \<le> time (ss_world (snd (m s)))"
    and k: "\<And>x. \<forall>s. time (ss_world s) \<le> time (ss_world (snd (k x s)))"
  obtain r s1 where s1: "m s = (r, s1)" by force
  then have "time (ss_world s) \<le> time (ss_world s1)" using m by (metis snd_conv)
  moreover have "time (ss_world s1) \<le> time (ss_world (snd (k x s1)))" for x using k by blast
  ultimately show "time (ss_world s) \<le> time (ss_world (snd (and_then m k s)))"
    using s1 order_trans by (fastforce simp: and_then_def split: sum.split)
qed

lemma keeps_time_basic:
  "keeps_time time (returning x)" "keeps_time time (throwing e)" "keeps_time time (settle r)"
  "keeps_time time (encode_args rpc args)"
  by (auto simp: keeps_time_def returning_def throwing_def settle_def encode_args_def split: list.split)

lemma keeps_time_asking: "(\<And>w. time w \<le> time (snd (f w))) \<Longrightarrow> keeps_time time (asking f)"
  by (simp add: keeps_time_def asking_def split: prod.split) (metis snd_conv)

lemma keeps_time_retrying: "keeps_time time m \<Longrightarrow> keeps_time time (retrying cl retryOn m)"
proof -
  assume m: "keeps_time time m"
  have "time (ss_world s) \<le> time (ss_world (snd (run_attempts n again m s)))" for n again s
  proof (induction n arbitrary: s)
    case (Suc n)
    obtain r s1 where s1: "m s = (r, s1)" by force
    then have "time (ss_world s) \<le> time (ss_world s1)" using m by (metis keeps_time_def snd_conv)
    with Suc [of s1] s1 show ?case by (auto split: sum.split)
  qed simp
  then show ?thesis by (simp add: keeps_time_def retrying_attempts)
qed

lemma keeps_time_state: "clock_runs rpc time \<Longrightarrow> keeps_time time (client_getProposalState rpc cl proposalId)"
  unfolding client_getProposalState_def governor_require_def read_call_def simulate_call_def build_transaction_def clock_runs_def
  by (intro keeps_time_retrying keeps_time_and_then keeps_time_basic keeps_time_asking) auto

lemma wait_loop_returns:
  assumes clock: "clock_runs rpc time" and poll: "0 < pollIntervalMs"
  shows "\<exists>r s'. wait_loop rpc cl proposalId targetState startTime timeoutMs pollIntervalMs s = Some (r, s')"
proof (induction "nat (startTime + timeoutMs - time (ss_world s))" arbitrary: s rule: less_induct)
  case less
  obtain w where now: "rp_now rpc (ss_world s) = (time (ss_world s), w)" "time (ss_world s) \<le> time w"
    using clock unfolding clock_runs_def by blast
  obtain r s1 where read: "client_getProposalState rpc cl proposalId (s\<lparr>ss_world := w\<rparr>) = (r, s1)" by force
  have "time w \<le> time (ss_world s1)" using keeps_time_state [OF clock, of cl proposalId] read
    by (metis keeps_time_def session.select_convs(1) session.surjective session.update_convs(1) snd_conv)
  then have later: "time (ss_world s) + pollIntervalMs \<le> time (rp_sleep rpc pollIntervalMs (ss_world s1))"
    using clock now(2) unfolding clock_runs_def by (metis add_right_mono order_trans)
  show ?case
  proof (cases "time (ss_world s) - startTime < timeoutMs")
    case True
    let ?s2 = "s1\<lparr>ss_world := rp_sleep rpc pollIntervalMs (ss_world s1)\<rparr>"
    have "nat (startTime + timeoutMs - time (ss_world ?s2)) < nat (startTime + timeoutMs - time (ss_world s))"
      using True later poll by simp
    from less [OF this] show ?thesis
      by (subst wait_loop.simps) (auto simp: now read True split: sum.split)
  qed (subst wait_loop.simps, simp add: now)
qed

text \<open>C40: \<^verbatim>\<open>waitForProposalState\<close> always settles when the clock runs: after the timeout at the latest.\<close>

theorem waitForProposalState_settles:
  assumes "clock_runs rpc time" "0 < or_else pollIntervalMs 5000"
  shows "\<exists>r s'. waitForProposalState rpc cl proposalId targetState timeoutMs pollIntervalMs s = Some (r, s')"
  using wait_loop_returns [OF assms] by (simp add: waitForProposalState_def split: prod.split)

theorem waitForProposalState_settles_witness:
  "\<exists>r s'. waitForProposalState (steady_node ''ab'' (returns (Some (JArray [JString ''Active'']))) TxMissing) plain_client 7
     Executed (Some 60000) None fresh_session = Some (r, s')"
  by (rule waitForProposalState_settles [where time = int]) (simp_all add: clock_runs_def steady_node_def or_else_def)

subsection \<open>Settings\<close>

lemma is_Integer_Finite: "is_Integer x \<Longrightarrow> \<exists>n. x = js_int n"
  by (cases x) (auto simp: is_Integer_def is_integer_def)

text \<open>Settings that pass the validation are in the ranges the messages state.\<close>

theorem validated_settings_bounds:
  assumes "validateGovernorSettings settings \<lparr>lim_maxVotingDelay = None, lim_minVotingPeriod = None\<rparr> = None"
  shows "\<exists>delay period quorum fraction :: int.
    settings_votingDelay settings = js_int delay \<and> 0 \<le> delay \<and> delay \<le> 1209600 \<and>
    settings_votingPeriod settings = js_int period \<and> 1 \<le> period \<and>
    settings_quorumNumerator settings = js_int quorum \<and> 1 \<le> quorum \<and> quorum \<le> 100 \<and>
    0 \<le> settings_proposalThreshold settings \<and>
    or_else (settings_commitPhaseFraction settings) (Finite 5000) = js_int fraction \<and> 1 \<le> fraction \<and> fraction \<le> 9999"
proof -
  let ?d = "settings_votingDelay settings" and ?p = "settings_votingPeriod settings" and ?q = "settings_quorumNumerator settings"
  let ?f = "or_else (settings_commitPhaseFraction settings) (Finite 5000)"
  have checks: "is_Integer ?d" "js_le (Finite 0) ?d" "js_le ?d (js_int 1209600)" "is_Integer ?p" "js_le (js_int 1) ?p"
    "is_Integer ?q" "\<not> js_le ?q (Finite 0)" "js_le ?q (Finite 100)" "0 \<le> settings_proposalThreshold settings"
    "is_Integer ?f" "\<not> js_le ?f (Finite 0)" "\<not> js_le (Finite 10000) ?f"
    using assms by (simp_all add: validateGovernorSettings_def Let_def or_else_def split: if_split_asm)
  obtain d p q f where "?d = js_int d" "?p = js_int p" "?q = js_int q" "?f = js_int f"
    using checks(1,4,6,10) [THEN is_Integer_Finite] by blast
  with checks show ?thesis
    by (intro exI [of _ d] exI [of _ p] exI [of _ q] exI [of _ f]) simp
qed

subsection \<open>Watching\<close>

text \<open>The callback is called after the watcher was stopped when an answer was still awaited.\<close>

theorem watch_calls_after_stop:
  "wa_calls (watch_answer (Inr Active) (watch_stop (watch_tick (watch_answer (Inr Pending) watch_start)))) = [Active]"
  by (simp add: watch_start_def watch_tick_def watch_answer_def watch_stop_def)

end
