(* ===== verification/VotingRewards.thy ===== *)
theory VotingRewards
  imports NebText "HOL-Library.List_Lexorder" "HOL-Library.Char_ord" "HOL-Library.Multiset"
begin

section \<open>Voting rewards\<close>

text \<open>
  The reward computation of the backend: \<^verbatim>\<open>backend/src/voting-rewards/eligibility.ts\<close> splits an
  epoch's budget among the voters, and \<^verbatim>\<open>voting-rewards/merkle.ts\<close> builds the Merkle tree that is
  published and the proofs that voters claim with. The hash and the XDR form of an address belong
  to libraries and are parameters: \<open>sha\<close>, and \<open>axdr\<close>, which refuses a malformed address. The
  database reads around the computation are not modelled. The lemmas show that the shares never
  exceed the budget and miss it by less than one unit per voter, that neither shares nor tree
  depend on the order of the rows, and that every voter with a share gets a proof that verifies.
\<close>

subsection \<open>Shares\<close>

record EpochVoteRow =
  vr_voter :: address
  vr_weight :: int

record RewardAllocation =
  ra_address :: address
  ra_weight :: int
  ra_amount :: int

record EpochEligibility =
  ee_allocations :: "RewardAllocation list"
  ee_totalRewardAmount :: int
  ee_totalWeight :: int
  ee_uniqueVoters :: nat

definition add_vote :: "EpochVoteRow \<Rightarrow> (address, int) js_map \<Rightarrow> (address, int) js_map" where
  "add_vote vote weights =
     (if vr_weight vote \<le> 0 then weights
      else js_set weights (vr_voter vote) (js_getd 0 weights (vr_voter vote) + vr_weight vote))"

definition weightByVoter :: "EpochVoteRow list \<Rightarrow> (address, int) js_map" where
  "weightByVoter votes = fold add_vote votes []"

definition allocate :: "int \<Rightarrow> int \<Rightarrow> address \<times> int \<Rightarrow> RewardAllocation list" where
  "allocate budget totalWeight entry =
     (case entry of (address, weight) \<Rightarrow>
        let amount = bdiv (budget * weight) totalWeight in
        if amount > 0 then [\<lparr>ra_address = address, ra_weight = weight, ra_amount = amount\<rparr>] else [])"

definition computeProportionalRewards :: "EpochVoteRow list \<Rightarrow> int \<Rightarrow> EpochEligibility" where
  "computeProportionalRewards votes budget =
     (let weights = weightByVoter votes;
          totalWeight = sum_list (js_values weights) in
      if totalWeight = 0 \<or> budget \<le> 0 then
        \<lparr>ee_allocations = [], ee_totalRewardAmount = 0, ee_totalWeight = totalWeight,
         ee_uniqueVoters = length weights\<rparr>
      else
        let allocations = sort_key ra_address (concat (map (allocate budget totalWeight) weights)) in
        \<lparr>ee_allocations = allocations, ee_totalRewardAmount = sum_list (map ra_amount allocations),
         ee_totalWeight = totalWeight, ee_uniqueVoters = length weights\<rparr>)"

subsection \<open>The tree\<close>

record RewardEntry =
  re_address :: address
  re_amount :: int

definition le_bytes :: "nat \<Rightarrow> int \<Rightarrow> bytes" where
  "le_bytes n v = map (\<lambda>i. word_of_int (v div 256 ^ i)) [0..<n]"

definition u64le :: "int \<Rightarrow> bytes" where
  "u64le value = le_bytes 8 (value mod 2 ^ 64)"

definition i128le :: "int \<Rightarrow> bytes" where
  "i128le value =
     (let unsigned = value mod 2 ^ 128 in le_bytes 8 (unsigned mod 2 ^ 64) @ le_bytes 8 (unsigned div 2 ^ 64))"

definition computeLeaf ::
  "(bytes \<Rightarrow> bytes) \<Rightarrow> (address \<Rightarrow> js_error + bytes) \<Rightarrow> address \<Rightarrow> int \<Rightarrow> int \<Rightarrow> js_error + bytes" where
  "computeLeaf sha axdr address epochId amount =
     (case axdr address of Inl e \<Rightarrow> Inl e
      | Inr claimant \<Rightarrow> Inr (sha (claimant @ u64le epochId @ i128le amount)))"

text \<open>\<^verbatim>\<open>Buffer.compare(a, b) <= 0\<close>: lexicographic on unsigned bytes.\<close>

fun buffer_le :: "bytes \<Rightarrow> bytes \<Rightarrow> bool" where
  "buffer_le [] bs = True"
| "buffer_le (a # as) [] = False"
| "buffer_le (a # as) (b # bs) = (a < b \<or> (a = b \<and> buffer_le as bs))"

definition hashPair :: "(bytes \<Rightarrow> bytes) \<Rightarrow> bytes \<Rightarrow> bytes \<Rightarrow> bytes" where
  "hashPair sha a b = (if buffer_le a b then sha (a @ b) else sha (b @ a))"

fun nextLevel :: "(bytes \<Rightarrow> bytes) \<Rightarrow> bytes list \<Rightarrow> bytes list" where
  "nextLevel sha [] = []"
| "nextLevel sha [a] = [a]"
| "nextLevel sha (a # b # rest) = hashPair sha a b # nextLevel sha rest"

lemma length_nextLevel [simp]: "length (nextLevel sha l) = (length l + 1) div 2"
  by (induction sha l rule: nextLevel.induct) simp_all

text \<open>The levels of a non-empty list of leaves, leaves first; each level is shorter than the one before.\<close>

function tree_levels :: "(bytes \<Rightarrow> bytes) \<Rightarrow> bytes list \<Rightarrow> bytes list list" where
  "tree_levels sha level =
     (if length level > 1 then level # tree_levels sha (nextLevel sha level) else [level])"
  by pat_completeness auto
termination
  by (relation "measure (\<lambda>(sha, l). length l)") auto

declare tree_levels.simps [simp del]

text \<open>The sibling path of a leaf: one step per level but the last.\<close>

fun sibling_path :: "bytes list list \<Rightarrow> nat \<Rightarrow> bytes list" where
  "sibling_path (level # rest) idx =
     (if rest = [] then []
      else
        let sibling = (if idx mod 2 = 0 then idx + 1 else idx - 1) in
        (if sibling < length level then [level ! sibling] else []) @ sibling_path rest (idx div 2))"
| "sibling_path [] idx = []"

record MerkleTree =
  mt_root :: "string option"
  mt_entries :: "RewardEntry list"
  mt_leaves :: "string list"
  mt_levels :: "bytes list list"

fun compute_leaves ::
  "(bytes \<Rightarrow> bytes) \<Rightarrow> (address \<Rightarrow> js_error + bytes) \<Rightarrow> int \<Rightarrow> RewardEntry list \<Rightarrow> js_error + bytes list" where
  "compute_leaves sha axdr epochId [] = Inr []"
| "compute_leaves sha axdr epochId (e # es) =
     (case computeLeaf sha axdr (re_address e) epochId (re_amount e) of Inl err \<Rightarrow> Inl err
      | Inr l \<Rightarrow> (case compute_leaves sha axdr epochId es of Inl err \<Rightarrow> Inl err | Inr ls \<Rightarrow> Inr (l # ls)))"

text \<open>The closures \<^verbatim>\<open>proofFor\<close> and \<^verbatim>\<open>proofForAddress\<close> capture \<^verbatim>\<open>levels\<close> and \<^verbatim>\<open>sorted\<close>; the record keeps them.\<close>

definition buildMerkleTree ::
  "(bytes \<Rightarrow> bytes) \<Rightarrow> (address \<Rightarrow> js_error + bytes) \<Rightarrow> RewardEntry list \<Rightarrow> int \<Rightarrow> js_error + MerkleTree" where
  "buildMerkleTree sha axdr entries epochId =
     (let sorted = sort_key re_address entries in
      case compute_leaves sha axdr epochId sorted of Inl e \<Rightarrow> Inl e
      | Inr leaves \<Rightarrow>
          let levels = (if leaves = [] then [] else tree_levels sha leaves) in
          Inr \<lparr>mt_root = (if leaves = [] then None else Some (to_hex (last levels ! 0))),
               mt_entries = sorted, mt_leaves = map to_hex leaves, mt_levels = levels\<rparr>)"

definition proofFor :: "MerkleTree \<Rightarrow> int \<Rightarrow> js_error + string list" where
  "proofFor tree index =
     (if index < 0 \<or> index \<ge> int (length (mt_entries tree)) then Inl (JsError ''RangeError'')
      else Inr (map to_hex (sibling_path (mt_levels tree) (nat index))))"

fun findIndex :: "('a \<Rightarrow> bool) \<Rightarrow> 'a list \<Rightarrow> nat option" where
  "findIndex P [] = None"
| "findIndex P (x # xs) = (if P x then Some 0 else map_option Suc (findIndex P xs))"

definition proofForAddress :: "MerkleTree \<Rightarrow> address \<Rightarrow> js_error + string list option" where
  "proofForAddress tree address =
     (case findIndex (\<lambda>e. re_address e = address) (mt_entries tree) of
        None \<Rightarrow> Inr None
      | Some index \<Rightarrow>
          (case proofFor tree (int index) of Inl e \<Rightarrow> Inl e | Inr proof \<Rightarrow> Inr (Some proof)))"

definition verifyProof :: "(bytes \<Rightarrow> bytes) \<Rightarrow> bytes \<Rightarrow> string list \<Rightarrow> string \<Rightarrow> bool" where
  "verifyProof sha leaf proof root =
     (to_hex (fold (\<lambda>sibling acc. hashPair sha acc (from_hex sibling)) proof leaf) = root)"


subsection \<open>Proofs verify\<close>

lemma buffer_le_antisym: "buffer_le a b \<Longrightarrow> buffer_le b a \<Longrightarrow> a = b"
  by (induction a b rule: buffer_le.induct) (auto elim: buffer_le.elims)

lemma buffer_le_total: "\<not> buffer_le a b \<Longrightarrow> buffer_le b a"
  by (induction a b rule: buffer_le.induct) (auto simp: not_less order_le_less)

lemma hashPair_commute: "hashPair sha a b = hashPair sha b a"
  using buffer_le_antisym [of a b] buffer_le_total [of a b] by (auto simp: hashPair_def)

definition sibling_of :: "nat \<Rightarrow> nat" where
  "sibling_of i = (if i mod 2 = 0 then i + 1 else i - 1)"

lemma nextLevel_nth:
  "i < length l \<Longrightarrow> nextLevel sha l ! (i div 2) =
     (if sibling_of i < length l then hashPair sha (l ! i) (l ! sibling_of i) else l ! i)"
proof (induction sha l arbitrary: i rule: nextLevel.induct)
  case (3 sha a b rest)
  show ?case
  proof (cases "i < 2")
    case True
    then have "i = 0 \<or> i = 1" by auto
    then show ?thesis using hashPair_commute [of sha b a] by (auto simp: sibling_of_def)
  next
    case False
    then obtain j where j: "i = Suc (Suc j)" by (metis add_2_eq_Suc le_Suc_ex not_less)
    have "sibling_of i = Suc (Suc (sibling_of j))" using j by (auto simp: sibling_of_def)
    then show ?thesis using 3 j by simp
  qed
qed (auto simp: sibling_of_def)

lemma tree_levels_not_Nil [simp]: "tree_levels sha l \<noteq> []"
  by (subst tree_levels.simps) simp

lemma sibling_path_root:
  "i < length l \<Longrightarrow>
     fold (\<lambda>s acc. hashPair sha acc s) (sibling_path (tree_levels sha l) i) (l ! i) = last (tree_levels sha l) ! 0"
proof (induction sha l arbitrary: i rule: tree_levels.induct)
  case (1 sha l)
  show ?case
  proof (cases "length l > 1")
    case True
    have "i div 2 < length (nextLevel sha l)" using 1(2) by simp
    from 1(1) [OF True this] show ?thesis
      using True nextLevel_nth [OF 1(2), of sha]
      by (subst tree_levels.simps, subst (2) tree_levels.simps) (auto simp: sibling_of_def Let_def)
  next
    case False
    moreover from this have "i = 0" using 1(2) by simp
    ultimately show ?thesis by (subst tree_levels.simps, subst (2) tree_levels.simps) auto
  qed
qed

lemma compute_leaves_Inr:
  "compute_leaves sha axdr epochId es = Inr ls \<Longrightarrow>
     list_all2 (\<lambda>e l. computeLeaf sha axdr (re_address e) epochId (re_amount e) = Inr l) es ls"
  by (induction es arbitrary: ls) (auto simp: list_all2_Cons1 split: sum.splits)

lemma findIndex_Some:
  "findIndex P xs = Some i \<Longrightarrow> i < length xs \<and> P (xs ! i) \<and> (\<forall>j < i. \<not> P (xs ! j))"
  by (induction xs arbitrary: i) (auto simp: less_Suc_eq_0_disj split: if_splits)

lemma findIndex_None: "findIndex P xs = None \<longleftrightarrow> (\<forall>x \<in> set xs. \<not> P x)"
  by (induction xs) auto

lemma verify_path:
  assumes "buildMerkleTree sha axdr entries epochId = Inr tree" and "i < length (mt_entries tree)"
    and "computeLeaf sha axdr (re_address (mt_entries tree ! i)) epochId (re_amount (mt_entries tree ! i)) = Inr leaf"
  shows "\<exists>root proof. mt_root tree = Some root \<and> proofFor tree (int i) = Inr proof \<and> verifyProof sha leaf proof root"
proof -
  obtain ls where ls: "compute_leaves sha axdr epochId (sort_key re_address entries) = Inr ls"
    and tree: "tree = \<lparr>mt_root = (if ls = [] then None else Some (to_hex (last (tree_levels sha ls) ! 0))),
       mt_entries = sort_key re_address entries, mt_leaves = map to_hex ls,
       mt_levels = (if ls = [] then [] else tree_levels sha ls)\<rparr>"
    using assms(1) by (auto simp: buildMerkleTree_def Let_def split: sum.splits)
  note all = compute_leaves_Inr [OF ls]
  have i: "i < length ls" using assms(2) list_all2_lengthD [OF all] tree by simp
  then have "ls ! i = leaf" using list_all2_nthD2 [OF all i] assms(3) tree by simp
  then have "fold (\<lambda>s acc. hashPair sha acc s) (sibling_path (tree_levels sha ls) i) leaf =
      last (tree_levels sha ls) ! 0" using sibling_path_root [OF i, of sha] by simp
  moreover have "fold (\<lambda>sibling acc. hashPair sha acc (from_hex sibling)) (map to_hex path) acc =
      fold (\<lambda>s acc. hashPair sha acc s) path acc" for path acc
    by (induction path arbitrary: acc) (simp_all add: from_to_hex)
  moreover have "ls \<noteq> []" using i by auto
  ultimately show ?thesis using assms(2) tree by (simp add: proofFor_def verifyProof_def)
qed


subsection \<open>Shares add up\<close>

definition cast_weight :: "EpochVoteRow list \<Rightarrow> address \<Rightarrow> int" where
  "cast_weight votes a = sum_list (map vr_weight (filter (\<lambda>v. vr_voter v = a \<and> 0 < vr_weight v) votes))"

lemma cast_weight_nonneg: "0 \<le> cast_weight votes a"
  unfolding cast_weight_def by (rule sum_list_nonneg) auto

lemma cast_weight_pos: "0 < cast_weight votes a \<longleftrightarrow> (\<exists>v \<in> set votes. vr_voter v = a \<and> 0 < vr_weight v)"
proof (induction votes)
  case (Cons v votes)
  then show ?case using cast_weight_nonneg [of votes a] by (auto simp: cast_weight_def intro: add_pos_nonneg)
qed (simp add: cast_weight_def)

lemma cast_weight_Cons [simp]:
  "cast_weight (v # votes) a =
     (if vr_voter v = a \<and> 0 < vr_weight v then vr_weight v else 0) + cast_weight votes a"
  "cast_weight [] a = 0"
  by (simp_all add: cast_weight_def)

lemma add_vote_simps [simp]:
  "js_map_wf m \<Longrightarrow> js_map_wf (add_vote v m)"
  "js_get (add_vote v m) a =
     (if vr_voter v = a \<and> 0 < vr_weight v then Some (js_getd 0 m a + vr_weight v) else js_get m a)"
  "js_getd 0 (add_vote v m) a =
     js_getd 0 m a + (if vr_voter v = a \<and> 0 < vr_weight v then vr_weight v else 0)"
  by (auto simp: add_vote_def)

lemma fold_add_vote:
  "js_map_wf m \<Longrightarrow> js_map_wf (fold add_vote votes m) \<and>
   (\<forall>a. js_get (fold add_vote votes m) a =
      (if 0 < cast_weight votes a then Some (js_getd 0 m a + cast_weight votes a) else js_get m a))"
proof (induction votes arbitrary: m)
  case (Cons v votes)
  have zero: "cast_weight votes a = 0" if "\<not> 0 < cast_weight votes a" for a
    using that cast_weight_nonneg [of votes a] by simp
  show ?case
    using Cons.IH [of "add_vote v m"] Cons.prems zero by (auto simp: add_pos_nonneg cast_weight_nonneg)
qed simp

lemma weightByVoter_get:
  "js_get (weightByVoter votes) a = (if 0 < cast_weight votes a then Some (cast_weight votes a) else None)"
  and weightByVoter_wf: "js_map_wf (weightByVoter votes)"
  using fold_add_vote [of "[]" votes] by (simp_all add: weightByVoter_def)

lemma weightByVoter_entry: "(a, w) \<in> set (weightByVoter votes) \<longleftrightarrow> 0 < w \<and> w = cast_weight votes a"
  using js_get_wf [OF weightByVoter_wf, of votes a w] weightByVoter_get [of votes a] by (auto split: if_splits)

lemma allocate_Some:
  "alloc \<in> set (concat (map (allocate budget t) ws)) \<longleftrightarrow>
     (ra_address alloc, ra_weight alloc) \<in> set ws \<and>
     ra_amount alloc = bdiv (budget * ra_weight alloc) t \<and> 0 < ra_amount alloc"
  by (cases alloc) (force simp: allocate_def Let_def split: if_splits)

lemma allocate_eq:
  "concat (map (allocate budget t) ws) =
     map (\<lambda>(a, w). \<lparr>ra_address = a, ra_weight = w, ra_amount = bdiv (budget * w) t\<rparr>)
       (filter (\<lambda>(a, w). 0 < bdiv (budget * w) t) ws)"
  by (induction ws) (auto simp: allocate_def Let_def)

lemma allocate_keys:
  "distinct (map fst ws) \<Longrightarrow> distinct (map ra_address (concat (map (allocate budget t) ws)))"
proof -
  have "map ra_address (concat (map (allocate budget t) ws)) =
      map fst (filter (\<lambda>(a, w). 0 < bdiv (budget * w) t) ws)"
    unfolding allocate_eq by (simp add: comp_def case_prod_beta)
  then show "distinct (map fst ws) \<Longrightarrow> ?thesis" by (simp add: distinct_map_filter)
qed

lemma allocate_sum:
  assumes "0 < budget" "0 < t"
  shows "(\<And>a w. (a, w) \<in> set ws \<Longrightarrow> 0 < w) \<Longrightarrow>
    sum_list (map ra_amount (concat (map (allocate budget t) ws))) = sum_list (map (\<lambda>p. (budget * snd p) div t) ws)"
proof (induction ws)
  case (Cons p ws)
  then have "0 < snd p" by (metis list.set_intros(1) prod.collapse)
  then have "bdiv (budget * snd p) t = (budget * snd p) div t" "0 \<le> (budget * snd p) div t"
    using assms by (simp_all add: bdiv_nonneg pos_imp_zdiv_nonneg_iff)
  then have "sum_list (map ra_amount (allocate budget t p)) = (budget * snd p) div t"
    by (auto simp: allocate_def Let_def split: prod.splits)
  moreover have "sum_list (map ra_amount (concat (map (allocate budget t) ws))) =
      sum_list (map (\<lambda>p. (budget * snd p) div t) ws)"
    using Cons.IH Cons.prems by (metis list.set_intros(2))
  ultimately show ?case by simp
qed simp

lemma floor_sum_le:
  fixes xs :: "int list"
  assumes "0 < t"
  shows "sum_list (map (\<lambda>x. x div t) xs) * t \<le> sum_list xs \<and>
    (xs \<noteq> [] \<longrightarrow> sum_list xs < (sum_list (map (\<lambda>x. x div t) xs) + int (length xs)) * t)"
proof (induction xs)
  case (Cons x xs)
  obtain r where r: "t * (x div t) + r = x" "0 \<le> r" "r < t"
    using assms by (metis mult_div_mod_eq pos_mod_bound pos_mod_sign)
  show ?case
  proof (cases "xs = []")
    case True
    then show ?thesis using r by (simp add: algebra_simps)
  next
    case False
    then show ?thesis using r Cons by (simp add: algebra_simps)
  qed
qed simp


lemma computed:
  fixes votes :: "EpochVoteRow list" and budget :: int
  defines "ws \<equiv> weightByVoter votes" and "t \<equiv> sum_list (js_values (weightByVoter votes))"
    and "r \<equiv> computeProportionalRewards votes budget"
  shows "ee_totalWeight r = t" "ee_uniqueVoters r = length ws" "0 \<le> t" "t = 0 \<longleftrightarrow> ws = []"
    "ee_totalRewardAmount r = sum_list (map ra_amount (ee_allocations r))"
    "mset (ee_allocations r) = (if t = 0 \<or> budget \<le> 0 then {#} else mset (concat (map (allocate budget t) ws)))"
    "sorted (map ra_address (ee_allocations r))" "distinct (map ra_address (ee_allocations r))"
proof -
  have pos: "0 < w" if "w \<in> set (js_values ws)" for w
    using that weightByVoter_entry by (fastforce simp: js_values_def ws_def)
  show t: "0 \<le> t" unfolding t_def by (rule sum_list_nonneg) (use pos in \<open>auto simp: ws_def less_imp_le\<close>)
  show "t = 0 \<longleftrightarrow> ws = []"
  proof
    assume "t = 0"
    show "ws = []"
    proof (cases ws)
      case (Cons p rest)
      have "0 \<le> sum_list (map snd rest)"
        by (rule sum_list_nonneg) (use pos Cons in \<open>auto simp: js_values_def less_imp_le\<close>)
      moreover have "0 < snd p" using pos [of "snd p"] Cons by (simp add: js_values_def)
      moreover have "t = snd p + sum_list (map snd rest)"
        using Cons by (simp add: t_def ws_def [symmetric] js_values_def)
      ultimately show ?thesis using \<open>t = 0\<close> by simp
    qed
  qed (simp add: t_def ws_def js_values_def)
  show "distinct (map ra_address (ee_allocations r))"
    using allocate_keys [of ws budget t] weightByVoter_wf [of votes]
    by (simp add: r_def computeProportionalRewards_def Let_def ws_def t_def js_map_wf_def distinct_map)
qed (auto simp: r_def computeProportionalRewards_def Let_def ws_def t_def)

lemma total_rewards:
  assumes "0 < budget" and "weightByVoter votes \<noteq> []"
  defines "t \<equiv> sum_list (js_values (weightByVoter votes))"
  shows "ee_totalRewardAmount (computeProportionalRewards votes budget) =
    sum_list (map (\<lambda>x. x div t) (map (\<lambda>p. budget * snd p) (weightByVoter votes)))" and "0 < t"
proof -
  show t: "0 < t" using computed(3,4) [of votes] assms(2) by (simp add: t_def order_less_le)
  have "sum_list (map ra_amount (ee_allocations (computeProportionalRewards votes budget))) =
      sum_list (map ra_amount (concat (map (allocate budget t) (weightByVoter votes))))"
    using computed(6) [of votes budget] t assms(1)
    by (metis mset_map sum_mset_sum_list t_def less_irrefl not_less)
  also have "\<dots> = sum_list (map (\<lambda>p. (budget * snd p) div t) (weightByVoter votes))"
    using weightByVoter_entry by (intro allocate_sum [OF assms(1) t]) blast
  finally show "ee_totalRewardAmount (computeProportionalRewards votes budget) =
    sum_list (map (\<lambda>x. x div t) (map (\<lambda>p. budget * snd p) (weightByVoter votes)))"
    by (simp add: computed(5) comp_def)
qed

lemma sort_key_unique:
  assumes "mset xs = mset ys" and "distinct (map f xs)"
  shows "sort_key f xs = sort_key f ys"
proof (rule map_sorted_distinct_set_unique [where f = f])
  have "set xs = set ys" using assms(1) by (rule mset_eq_setD)
  then show "set (sort_key f xs) = set (sort_key f ys)" by simp
  show "inj_on f (set (sort_key f xs) \<union> set (sort_key f ys))"
    using assms(2) \<open>set xs = set ys\<close> by (simp add: distinct_map)
  have "mset (map f ys) = mset (map f xs)" using assms(1) by simp
  then have "distinct (map f ys)" using assms(2) by (metis mset_eq_imp_distinct_iff)
  then show "distinct (map f (sort_key f ys))" "distinct (map f (sort_key f xs))"
    using assms(2) by (simp_all add: distinct_map)
qed simp_all

lemma weights_same:
  assumes "mset votes = mset votes'"
  shows "mset (weightByVoter votes) = mset (weightByVoter votes')"
proof -
  have "cast_weight vs a = (\<Sum>v\<in>#filter_mset (\<lambda>v. vr_voter v = a \<and> 0 < vr_weight v) (mset vs). vr_weight v)" for vs a
    by (induction vs) auto
  then have "cast_weight votes a = cast_weight votes' a" for a using assms by simp
  then have "set (weightByVoter votes) = set (weightByVoter votes')"
    by (auto simp: weightByVoter_entry)
  then show ?thesis
    using weightByVoter_wf [of votes] weightByVoter_wf [of votes']
    by (simp add: set_eq_iff_mset_eq_distinct [symmetric] js_map_wf_def distinct_map)
qed


subsection \<open>Properties\<close>

text \<open>The shares of an epoch never exceed its budget, and with a positive budget and at least one
  counted vote they miss it by less than one unit per voter: only rounding dust stays in the pool.
  The published total is the sum of the shares.\<close>

theorem rewards_within_budget:
  "let r = computeProportionalRewards votes budget in
   0 \<le> ee_totalRewardAmount r \<and> ee_totalRewardAmount r \<le> max 0 budget \<and>
   ee_totalRewardAmount r = sum_list (map ra_amount (ee_allocations r)) \<and>
   (0 < budget \<and> 0 < ee_uniqueVoters r \<longrightarrow> budget - ee_totalRewardAmount r < int (ee_uniqueVoters r))"
proof (cases "0 < budget \<and> weightByVoter votes \<noteq> []")
  case False
  then have "ee_allocations (computeProportionalRewards votes budget) = []"
    using computed(4) [of votes] computed(6) [of votes budget] by auto
  then show ?thesis using False computed(2,5) [of votes budget] by (auto simp: Let_def)
next
  case True
  define t where "t = sum_list (js_values (weightByVoter votes))"
  let ?xs = "map (\<lambda>p. budget * snd p) (weightByVoter votes)"
  have t: "0 < t" and total: "ee_totalRewardAmount (computeProportionalRewards votes budget) =
      sum_list (map (\<lambda>x. x div t) ?xs)"
    using total_rewards True by (auto simp: t_def)
  have sum: "sum_list ?xs = budget * t"
    by (simp add: t_def js_values_def sum_list_const_mult comp_def)
  have "0 \<le> sum_list (map (\<lambda>x. x div t) ?xs)"
    by (rule sum_list_nonneg)
      (use True t weightByVoter_entry in \<open>fastforce simp: pos_imp_zdiv_nonneg_iff\<close>)
  moreover have "sum_list (map (\<lambda>x. x div t) ?xs) \<le> budget"
    using floor_sum_le [OF t, of ?xs] sum t by simp
  moreover have "budget < sum_list (map (\<lambda>x. x div t) ?xs) + int (length (weightByVoter votes))"
    using floor_sum_le [OF t, of ?xs] sum t True by (auto simp: mult_less_cancel_right)
  ultimately show ?thesis
    using True total computed(2,5) [of votes budget] by (simp add: Let_def)
qed

definition demo_votes :: "EpochVoteRow list" where
  "demo_votes = [\<lparr>vr_voter = ''b'', vr_weight = 2\<rparr>, \<lparr>vr_voter = ''a'', vr_weight = 1\<rparr>,
     \<lparr>vr_voter = ''b'', vr_weight = 4\<rparr>, \<lparr>vr_voter = ''c'', vr_weight = -5\<rparr>]"

theorem rewards_within_budget_witness:
  "100 - ee_totalRewardAmount (computeProportionalRewards demo_votes 100) < 2"
proof -
  have "ee_uniqueVoters (computeProportionalRewards demo_votes 100) = 2" by code_simp
  then show ?thesis using rewards_within_budget [of demo_votes 100] by (simp add: Let_def)
qed

text \<open>Every share is the floor of the voter's proportion: with a positive budget an address has an
  allocation exactly when its share rounds to something positive, and then exactly one, for the
  sum of its positive votes of the epoch; the result does not depend on the order in which the
  votes were read.\<close>

theorem rewards_are_shares:
  assumes "0 < budget" and "mset votes = mset votes'"
  shows "let r = computeProportionalRewards votes budget in
     (\<forall>alloc. alloc \<in> set (ee_allocations r) \<longleftrightarrow>
        ra_weight alloc = cast_weight votes (ra_address alloc) \<and> 0 < ra_weight alloc \<and>
        ra_amount alloc = (budget * ra_weight alloc) div ee_totalWeight r \<and> 0 < ra_amount alloc) \<and>
     distinct (map ra_address (ee_allocations r)) \<and> computeProportionalRewards votes' budget = r"
proof -
  define t where "t = sum_list (js_values (weightByVoter votes))"
  note basics = computed(1,2) [of votes budget, folded t_def] computed(3,4) [of votes, folded t_def]
    computed(5-8) [of votes budget, folded t_def]
  have same: "mset (weightByVoter votes) = mset (weightByVoter votes')" using assms(2) by (rule weights_same)
  have t': "sum_list (js_values (weightByVoter votes')) = t"
    unfolding t_def js_values_def using same by (metis mset_map sum_mset_sum_list)
  have "mset (concat (map (allocate budget t) (weightByVoter votes))) =
      mset (concat (map (allocate budget t) (weightByVoter votes')))"
    unfolding allocate_eq using same by (simp add: mset_map)
  moreover have "distinct (map ra_address (concat (map (allocate budget t) (weightByVoter votes))))"
    using allocate_keys weightByVoter_wf by (simp add: js_map_wf_def)
  ultimately have "sort_key ra_address (concat (map (allocate budget t) (weightByVoter votes'))) =
      sort_key ra_address (concat (map (allocate budget t) (weightByVoter votes)))"
    by (metis sort_key_unique)
  then have "computeProportionalRewards votes' budget = computeProportionalRewards votes budget"
    using mset_eq_length [OF same] by (simp add: computeProportionalRewards_def Let_def t_def [symmetric] t')
  moreover have "alloc \<in> set (ee_allocations (computeProportionalRewards votes budget)) \<longleftrightarrow>
      ra_weight alloc = cast_weight votes (ra_address alloc) \<and> 0 < ra_weight alloc \<and>
      ra_amount alloc = (budget * ra_weight alloc) div t \<and> 0 < ra_amount alloc" for alloc
  proof (cases "t = 0")
    case True
    then have "weightByVoter votes = []" using basics(4) by simp
    then have "\<not> 0 < cast_weight votes (ra_address alloc)"
      using weightByVoter_entry [of _ _ votes] by (metis empty_iff list.set(1))
    then show ?thesis using basics(6) True by auto
  next
    case False
    then have "set (ee_allocations (computeProportionalRewards votes budget)) =
        set (concat (map (allocate budget t) (weightByVoter votes)))"
      using basics(6) assms(1) by (metis mset_eq_setD not_less)
    then have "alloc \<in> set (ee_allocations (computeProportionalRewards votes budget)) \<longleftrightarrow>
        (ra_address alloc, ra_weight alloc) \<in> set (weightByVoter votes) \<and>
        ra_amount alloc = bdiv (budget * ra_weight alloc) t \<and> 0 < ra_amount alloc"
      unfolding allocate_Some [symmetric] by simp
    then show ?thesis
      using assms(1) basics(3) by (auto simp: weightByVoter_entry bdiv_nonneg)
  qed
  ultimately show ?thesis using basics(1,8) by (simp add: Let_def)
qed

theorem rewards_are_shares_witness:
  "computeProportionalRewards (rev demo_votes) 100 = computeProportionalRewards demo_votes 100 \<and>
   \<lparr>ra_address = ''b'', ra_weight = 6, ra_amount = 85\<rparr> \<in>
     set (ee_allocations (computeProportionalRewards demo_votes 100))"
proof -
  have w: "cast_weight demo_votes ''b'' = 6" "ee_totalWeight (computeProportionalRewards demo_votes 100) = 7"
    by code_simp+
  show ?thesis
    using rewards_are_shares [of 100 demo_votes "rev demo_votes"] w by (simp add: Let_def)
qed


text \<open>The entries that the publisher builds the tree from.\<close>

definition reward_entries :: "EpochEligibility \<Rightarrow> RewardEntry list" where
  "reward_entries r = map (\<lambda>a. \<lparr>re_address = ra_address a, re_amount = ra_amount a\<rparr>) (ee_allocations r)"

lemma proof_by_address:
  assumes "buildMerkleTree sha axdr entries epochId = Inr tree" and "e \<in> set entries"
    and "distinct (map re_address entries)" and "axdr (re_address e) = Inr xdr"
  shows "\<exists>root proof leaf. mt_root tree = Some root \<and> proofForAddress tree (re_address e) = Inr (Some proof) \<and>
     computeLeaf sha axdr (re_address e) epochId (re_amount e) = Inr leaf \<and> verifyProof sha leaf proof root"
proof -
  have entries: "mt_entries tree = sort_key re_address entries"
    using assms(1) by (auto simp: buildMerkleTree_def Let_def split: sum.splits)
  obtain i where i: "findIndex (\<lambda>x. re_address x = re_address e) (mt_entries tree) = Some i"
    using findIndex_None [of "\<lambda>x. re_address x = re_address e" "mt_entries tree"] assms(2) entries by auto
  then have at: "i < length (mt_entries tree)" "re_address (mt_entries tree ! i) = re_address e"
    using findIndex_Some by fastforce+
  have "mt_entries tree ! i \<in> set entries" using at(1) entries by (metis nth_mem set_sort)
  then have e: "mt_entries tree ! i = e" using at(2) assms(2,3) by (metis distinct_map inj_onD)
  obtain leaf where leaf: "computeLeaf sha axdr (re_address e) epochId (re_amount e) = Inr leaf"
    using assms(4) by (simp add: computeLeaf_def)
  show ?thesis
    using verify_path [OF assms(1) at(1)] leaf i e by (auto simp: proofForAddress_def)
qed

text \<open>C10: Every reward can be claimed: for each voter with a share, the tree built from the shares yields a
  proof for the voter's address, and that proof verifies against the published root for exactly
  the leaf of this voter, epoch and amount. It holds for any hash function, and whenever the
  addresses have an XDR form the tree is built.\<close>

theorem every_reward_claimable:
  assumes "\<forall>a \<in> set (ee_allocations (computeProportionalRewards votes budget)). \<exists>x. axdr (ra_address a) = Inr x"
    and "alloc \<in> set (ee_allocations (computeProportionalRewards votes budget))"
  shows "\<exists>tree root proof leaf.
     buildMerkleTree sha axdr (reward_entries (computeProportionalRewards votes budget)) epochId = Inr tree \<and>
     mt_root tree = Some root \<and> proofForAddress tree (ra_address alloc) = Inr (Some proof) \<and>
     computeLeaf sha axdr (ra_address alloc) epochId (ra_amount alloc) = Inr leaf \<and>
     verifyProof sha leaf proof root"
proof -
  let ?es = "reward_entries (computeProportionalRewards votes budget)"
  have leaves: "\<exists>ls. compute_leaves sha axdr epochId es = Inr ls"
    if "\<forall>e \<in> set es. \<exists>x. axdr (re_address e) = Inr x" for es
    using that by (induction es) (auto simp: computeLeaf_def)
  have "\<exists>ls. compute_leaves sha axdr epochId (sort_key re_address ?es) = Inr ls"
    using assms(1) by (intro leaves) (auto simp: reward_entries_def)
  then obtain tree where tree: "buildMerkleTree sha axdr ?es epochId = Inr tree"
    by (auto simp: buildMerkleTree_def Let_def)
  have "distinct (map re_address ?es)"
    using computed(8) [of votes budget] by (simp add: reward_entries_def comp_def)
  moreover have "\<lparr>re_address = ra_address alloc, re_amount = ra_amount alloc\<rparr> \<in> set ?es"
    using assms(2) by (auto simp: reward_entries_def)
  ultimately show ?thesis
    using proof_by_address [OF tree] assms tree by fastforce
qed

definition demo_axdr :: "address \<Rightarrow> js_error + bytes" where
  "demo_axdr a = (if a = [] then Inl (JsError ''invalid'') else Inr (str_bytes a))"

theorem every_reward_claimable_witness:
  "\<exists>tree root proof leaf.
     buildMerkleTree rev demo_axdr (reward_entries (computeProportionalRewards demo_votes 100)) 3 = Inr tree \<and>
     mt_root tree = Some root \<and> proofForAddress tree ''b'' = Inr (Some proof) \<and>
     computeLeaf rev demo_axdr ''b'' 3 85 = Inr leaf \<and> verifyProof rev leaf proof root"
proof -
  have "ee_allocations (computeProportionalRewards demo_votes 100) =
     [\<lparr>ra_address = ''a'', ra_weight = 1, ra_amount = 14\<rparr>, \<lparr>ra_address = ''b'', ra_weight = 6, ra_amount = 85\<rparr>]"
    by code_simp
  then show ?thesis
    using every_reward_claimable [of demo_votes 100 demo_axdr "\<lparr>ra_address = ''b'', ra_weight = 6, ra_amount = 85\<rparr>" rev 3]
    by (simp add: demo_axdr_def)
qed

text \<open>The published root does not depend on the order of the entries: for distinct addresses any
  rearrangement of the entries gives the same tree, so the same root, leaves and proofs.\<close>

theorem tree_order_irrelevant:
  assumes "mset entries = mset entries'" and "distinct (map re_address entries)"
  shows "buildMerkleTree sha axdr entries' epochId = buildMerkleTree sha axdr entries epochId"
  using sort_key_unique [OF assms] by (simp add: buildMerkleTree_def)

theorem tree_order_irrelevant_witness:
  "buildMerkleTree rev demo_axdr
     [\<lparr>re_address = ''b'', re_amount = 2\<rparr>, \<lparr>re_address = ''a'', re_amount = 1\<rparr>] 0 =
   buildMerkleTree rev demo_axdr
     [\<lparr>re_address = ''a'', re_amount = 1\<rparr>, \<lparr>re_address = ''b'', re_amount = 2\<rparr>] 0"
  by (rule tree_order_irrelevant) simp_all

end
