(* ===== verification/SdkVoting.thy ===== *)
theory SdkVoting
  imports SdkGovernorReads VotingRewards
begin

section \<open>The governor client of the SDK: voting, commitments and event scans\<close>

text \<open>
  \<^verbatim>\<open>governor/voting.ts\<close>, \<^verbatim>\<open>governor/commitReveal.ts\<close> and \<^verbatim>\<open>governor/events.ts\<close>. \<^verbatim>\<open>sha256\<close> and the random bytes are parameters. The
  comparison functions of the sorts are consistent for ledgers that are numbers; a ledger that is not a number counts as
  zero here.
\<close>

subsection \<open>Casting votes\<close>

definition stringified :: "js_value \<Rightarrow> js_value" where
  "stringified v = (if nullish v then JUndefined else JString (js_String v))"

text \<open>The result of \<^verbatim>\<open>estimateVoteGas\<close> with the fee; \<open>sm_minResourceFee\<close> stands for both spellings of the member.\<close>

definition estimateVoteGas ::
  "'w rpc \<Rightarrow> client \<Rightarrow> string \<Rightarrow> int \<Rightarrow> VoteSupport \<Rightarrow> ('w, estimate \<times> string option) io" where
  "estimateVoteGas rpc cl voter proposalId support =
     retrying cl None
       (catching
          (and_then (simulate_call rpc cl voter ''cast_vote'' [AAddress voter, AU64 proposalId, supportScVal support]) (\<lambda>result.
             settle (case result of
                 SimError err \<Rightarrow> Inr (failed_estimate err, None)
               | SimSuccess success \<Rightarrow>
                   with_toBigInt (nullish_or (sm_minResourceFee success) (JString ''100'')) (\<lambda>fee.
                     Inr (\<lparr>es_ok = True, es_error = None,
                           es_cpuInsns = nullish_or (field (sm_cost success) ''cpuInsns'') (stringified (field (sm_cost success) ''cpuInstructions'')),
                           es_memBytes = nullish_or (field (sm_cost success) ''memBytes'') (stringified (field (sm_cost success) ''memoryBytes''))\<rparr>,
                          Some (dec_int fee))))))
          (\<lambda>e. returning (failed_estimate (error_message ''estimate failed'' e), None)))"

definition client_castVote :: "'w rpc \<Rightarrow> client \<Rightarrow> string \<Rightarrow> int \<Rightarrow> VoteSupport \<Rightarrow> ('w, string) io" where
  "client_castVote rpc cl signer proposalId support =
     retrying cl (Some governor_isRetryableSubmissionError)
       (submit_and_confirm rpc cl (sent_error ''GovernorError'' parseGovernorError) (governor_pollForConfirmation rpc)
          signer ''cast_vote'' [AAddress signer, AU64 proposalId, supportScVal support] (\<lambda>hash _. Inr hash))"

definition failed_with_json :: "string \<Rightarrow> SendTransactionResponse \<Rightarrow> client_error" where
  "failed_with_json method result = js_error_of ''Error'' (method @ '' failed: '' @ sr_json result)"

definition castVoteWithSign :: "'w rpc \<Rightarrow> client \<Rightarrow> string \<Rightarrow> int \<Rightarrow> VoteSupport \<Rightarrow> ('w, unit) io" where
  "castVoteWithSign rpc cl signerPublicKey proposalId support =
     submit_signed rpc cl (failed_with_json ''castVoteWithSign'') (governor_pollForConfirmation rpc)
       signerPublicKey ''cast_vote'' [AAddress signerPublicKey, AU64 proposalId, supportScVal support] (\<lambda>_ _. Inr ())"

definition castVoteWithReason :: "'w rpc \<Rightarrow> client \<Rightarrow> string \<Rightarrow> int \<Rightarrow> VoteSupport \<Rightarrow> string \<Rightarrow> ('w, unit) io" where
  "castVoteWithReason rpc cl signer proposalId support reason =
     submit_and_confirm rpc cl (failed_with_json ''castVoteWithReason'') (governor_pollForConfirmation rpc)
       signer ''cast_vote_with_reason'' [AAddress signer, AU64 proposalId, supportScVal support, AString reason] (\<lambda>_ _. Inr ())"

definition castVoteWithReasonAndSign :: "'w rpc \<Rightarrow> client \<Rightarrow> string \<Rightarrow> int \<Rightarrow> VoteSupport \<Rightarrow> string \<Rightarrow> ('w, unit) io" where
  "castVoteWithReasonAndSign rpc cl signerPublicKey proposalId support reason =
     submit_signed rpc cl (failed_with_json ''castVoteWithReasonAndSign'') (governor_pollForConfirmation rpc)
       signerPublicKey ''cast_vote_with_reason'' [AAddress signerPublicKey, AU64 proposalId, supportScVal support, AString reason]
       (\<lambda>_ _. Inr ())"

subsection \<open>Reads\<close>

definition client_hasVoted :: "'w rpc \<Rightarrow> client \<Rightarrow> int \<Rightarrow> string \<Rightarrow> ('w, bool) io" where
  "client_hasVoted rpc cl proposalId voter =
     retrying cl None
       (catching
          (governor_read rpc cl (governor_readAccount cl None) ''has_voted'' [AU64 proposalId, AAddress voter] False
             (\<lambda>v. Inr (js_Boolean v)))
          (\<lambda>_. returning False))"

record CanProposeResult =
  cp_allowed :: bool
  cp_reason :: string
  cp_cooldownEndsAt :: "js_number option"
  cp_proposalsThisPeriod :: js_number
  cp_maxPerPeriod :: js_number
  cp_votingPower :: int
  cp_threshold :: int

definition client_canPropose :: "'w rpc \<Rightarrow> client \<Rightarrow> string \<Rightarrow> ('w, CanProposeResult) io" where
  "client_canPropose rpc cl proposer =
     retrying cl None
       (governor_require rpc cl (cl_contract cl) ''can_propose'' [AAddress proposer] ''No return value''
          (\<lambda>native. with_member native ''allowed'' (\<lambda>allowed.
             with_toBigInt (nullish_or (field native ''voting_power'') (JNumber 0)) (\<lambda>votingPower.
             with_toBigInt (nullish_or (field native ''threshold'') (JNumber 0)) (\<lambda>threshold.
               Inr \<lparr>cp_allowed = js_Boolean allowed,
                    cp_reason = js_String (nullish_or (field native ''reason'') (JString ''unknown'')),
                    cp_cooldownEndsAt = (if js_Boolean (field native ''cooldown_ends_at'')
                                         then Some (js_Number (field native ''cooldown_ends_at'')) else None),
                    cp_proposalsThisPeriod = js_Number (nullish_or (field native ''proposals_this_period'') (JNumber 0)),
                    cp_maxPerPeriod = js_Number (nullish_or (field native ''max_per_period'') (JNumber 0)),
                    cp_votingPower = votingPower, cp_threshold = threshold\<rparr>)))))"

record Receipt =
  rc_hasVoted :: js_value
  rc_support :: VoteSupport
  rc_weight :: int
  rc_reason :: js_value

definition no_receipt :: Receipt where
  "no_receipt = \<lparr>rc_hasVoted = JBoolean False, rc_support = Against, rc_weight = 0, rc_reason = JString ''''\<rparr>"

definition supportMap :: "(string \<times> VoteSupport) list" where
  "supportMap = [(''Against'', Against), (''For'', For), (''Abstain'', Abstain)]"

definition getReceipt :: "'w rpc \<Rightarrow> client \<Rightarrow> int \<Rightarrow> string \<Rightarrow> ('w, Receipt) io" where
  "getReceipt rpc cl proposalId voter =
     retrying cl None
       (governor_read rpc cl (governor_readAccount cl None) ''get_receipt'' [AU64 proposalId, AAddress voter] no_receipt
          (\<lambda>receipt. with_member receipt ''support'' (\<lambda>support. with_member support ''0'' (\<lambda>_.
             with_BigInt (field receipt ''weight'') (\<lambda>weight.
               Inr \<lparr>rc_hasVoted = field receipt ''has_voted'',
                    rc_support = or_else (map_of supportMap (js_String (elem support 0))) Against,
                    rc_weight = weight, rc_reason = field receipt ''reason''\<rparr>)))))"

definition getVoteReason :: "'w rpc \<Rightarrow> client \<Rightarrow> int \<Rightarrow> string \<Rightarrow> ('w, js_value) io" where
  "getVoteReason rpc cl proposalId voter =
     and_then (getReceipt rpc cl proposalId voter) (\<lambda>receipt. returning (nullish_or (rc_reason receipt) (JString '''')))"

subsection \<open>Histories\<close>

record VotingHistoryEntry =
  vh_proposalId :: int
  vh_support :: js_value
  vh_weight :: int
  vh_reason :: js_value
  vh_ledger :: js_number

text \<open>\<^verbatim>\<open>xs.sort((a, b) => b.ledger - a.ledger)\<close>, a stable sort, and \<^verbatim>\<open>xs.slice(0, limit)\<close>.\<close>

definition number_key :: "js_number \<Rightarrow> rat" where
  "number_key n = (case n of Finite x \<Rightarrow> x | _ \<Rightarrow> 0)"

definition newest_first :: "('a \<Rightarrow> rat) \<Rightarrow> 'a list \<Rightarrow> 'a list" where
  "newest_first ledger xs = sort_key (\<lambda>x. - ledger x) xs"

definition slice_to :: "int \<Rightarrow> 'a list \<Rightarrow> 'a list" where
  "slice_to limit xs = take (nat (if limit < 0 then int (length xs) + limit else limit)) xs"

definition history_row :: "js_value \<Rightarrow> client_error + VotingHistoryEntry" where
  "history_row v =
     with_member v ''proposal_id'' (\<lambda>p. with_toBigInt p (\<lambda>proposalId.
     with_toBigInt (field v ''weight'') (\<lambda>weight.
       Inr \<lparr>vh_proposalId = proposalId, vh_support = field v ''support'', vh_weight = weight,
            vh_reason = field v ''reason'', vh_ledger = js_Number (field v ''ledger'')\<rparr>)))"

text \<open>One event of the fallback scan: \<open>Inr None\<close> where the loop continues with the next event.\<close>

definition history_event :: "string \<Rightarrow> chain_event \<Rightarrow> client_error + VotingHistoryEntry option" where
  "history_event voter event =
     (if length (che_topic event) < 2 then Inr None
      else if js_String (che_topic event ! 1) \<noteq> voter then Inr None
      else if che_value event = JUndefined then Inr None
      else
        let native = che_value event in
        with_member native ''proposal_id'' (\<lambda>_.
        with_toBigInt (nullish_or (field native ''proposal_id'') (field native ''proposalId'')) (\<lambda>proposalId.
        with_toBigInt (nullish_or (field native ''weight'') (JNumber 0)) (\<lambda>weight.
          Inr (Some \<lparr>vh_proposalId = proposalId, vh_support = number_value (js_Number (field native ''support'')),
                     vh_weight = weight, vh_reason = field native ''reason'', vh_ledger = js_int (che_ledger event)\<rparr>)))))"

definition history_scan :: "'w rpc \<Rightarrow> client \<Rightarrow> string \<Rightarrow> int \<Rightarrow> ('w, VotingHistoryEntry list) io" where
  "history_scan rpc cl voter limit =
     retrying cl None
       (and_then (asking (rp_getEvents rpc
            \<lparr>eq_startLedger = None, eq_contractIds = [cl_contract cl],
             eq_topics = [[PlainText ''VoteCast'', PlainText ''vote''], [PlainText voter]], eq_limit = limit * 2\<rparr>))
          (\<lambda>events.
             settle (bind_sum (map_throwing (history_event voter) (or_else events [])) (\<lambda>entries.
               Inr (slice_to limit (newest_first (number_key \<circ> vh_ledger) (List.map_filter id entries)))))))"

definition getVotingHistory :: "'w rpc \<Rightarrow> client \<Rightarrow> string \<Rightarrow> int option \<Rightarrow> ('w, VotingHistoryEntry list) io" where
  "getVotingHistory rpc cl voter limitOpt =
     (let limit = or_else limitOpt 50;
          indexerUrl = or_else (cl_indexerUrl cl) ''''
      in if indexerUrl = '''' then history_scan rpc cl voter limit
         else
           and_then
             (catching
                (and_then (asking (rp_fetch rpc (get_request (indexerUrl @ ''/profile/'' @ voter)))) (\<lambda>response.
                   if \<not> response_ok response then returning None
                   else settle
                     (bind_sum (hr_json response) (\<lambda>data.
                      with_member data ''votes'' (\<lambda>votes.
                      with_array (if js_Boolean votes then votes else JArray []) ''votes'' (\<lambda>votes.
                      bind_sum (map_throwing history_row votes) (\<lambda>entries.
                        Inr (Some (slice_to limit (newest_first (number_key \<circ> vh_ledger) entries))))))))))
                (\<lambda>_. returning None))
             (\<lambda>found. case found of Some entries \<Rightarrow> returning entries | None \<Rightarrow> history_scan rpc cl voter limit))"

lemma fold_max_ge: "(a :: int) \<le> fold max xs a"
proof (induction xs arbitrary: a)
  case (Cons x xs)
  have "a \<le> max x a" by simp
  also have "\<dots> \<le> fold max xs (max x a)" by (rule Cons)
  finally show ?case by simp
qed simp

lemma scan_advances: "- fold max (map che_ledger events) cursor < 1 - cursor"
  using fold_max_ge [of cursor "map che_ledger events"] by simp

text \<open>The loops that follow the events of a contract page by page: \<open>enough\<close> ends a scan early, an event that cannot be
  read gives nothing, and the next page starts after the largest ledger seen.\<close>

function scan_loop ::
  "(int \<Rightarrow> ('w, chain_event list option) io) \<Rightarrow> ('a list \<Rightarrow> bool) \<Rightarrow> (chain_event \<Rightarrow> 'a list) \<Rightarrow> int \<Rightarrow> int \<Rightarrow> 'a list \<Rightarrow>
   ('w, 'a list) io" where
  "scan_loop fetch enough extract latest cursor results =
     (if cursor \<le> latest then
        and_then (fetch cursor) (\<lambda>response.
          (let events = or_else response [] in
           if events = [] then returning results
           else
             let results' = results @ concat (map extract events) in
             if enough results' then returning results'
             else scan_loop fetch enough extract latest (fold max (map che_ledger events) cursor + 1) results'))
      else returning results)"
  by pat_completeness auto

termination
  by (relation "measure (\<lambda>(fetch, enough, extract, latest, cursor, results). nat (latest + 1 - cursor))")
    (simp_all add: scan_advances)

declare scan_loop.simps [simp del]

definition event_page :: "'w rpc \<Rightarrow> client \<Rightarrow> (client_error \<Rightarrow> bool) option \<Rightarrow> topic_segment list \<Rightarrow> int \<Rightarrow> ('w, chain_event list option) io" where
  "event_page rpc cl retryOn topic cursor =
     retrying cl retryOn
       (asking (rp_getEvents rpc \<lparr>eq_startLedger = Some cursor, eq_contractIds = [cl_contract cl], eq_topics = [topic], eq_limit = 100\<rparr>))"

definition clamp_limit :: "int option \<Rightarrow> int" where
  "clamp_limit limit = max 1 (min (or_else limit 50) 200)"

record CastVote =
  cv_proposalId :: int
  cv_support :: VoteSupport
  cv_weight :: int
  cv_ledger :: int

definition optional_field :: "js_value \<Rightarrow> string \<Rightarrow> js_value" where
  "optional_field v name = (if nullish v then JUndefined else field v name)"

definition cast_vote_event :: "chain_event \<Rightarrow> CastVote list" where
  "cast_vote_event event =
     (let value = che_value event;
          supportRaw = js_Number (optional_field value ''support'')
      in case (js_BigInt (optional_field value ''proposal_id''), js_BigInt (nullish_or (optional_field value ''weight'') (JNumber 0))) of
           (Some proposalId, Some weight) \<Rightarrow>
             [\<lparr>cv_proposalId = proposalId,
               cv_support = (if supportRaw = Finite 0 then Against else if supportRaw = Finite 1 then For else Abstain),
               cv_weight = weight, cv_ledger = che_ledger event\<rparr>]
         | _ \<Rightarrow> [])"

definition getVotesCastByAddress ::
  "'w rpc \<Rightarrow> client \<Rightarrow> string \<Rightarrow> int option \<Rightarrow> int option \<Rightarrow> ('w, CastVote list) io" where
  "getVotesCastByAddress rpc cl voter fromLedger limitOpt =
     (let limit = clamp_limit limitOpt in
      and_then (encode_args rpc [AAddress voter]) (\<lambda>_.
      and_then (getLatestLedger rpc cl) (\<lambda>latest.
      and_then (scan_loop (event_page rpc cl (Some governor_isNetworkError) [Encoded (ASymbol ''VoteCast''), Encoded (AAddress voter)])
          (\<lambda>results. limit \<le> int (length results)) cast_vote_event latest (max 1 (or_else fromLedger 1)) []) (\<lambda>results.
        returning (slice_to limit (newest_first (of_int \<circ> cv_ledger) results))))))"

record GuardianActivity =
  ga_proposalId :: int
  ga_canceller :: string
  ga_ledger :: int

definition guardian_event :: "string \<Rightarrow> chain_event \<Rightarrow> GuardianActivity list" where
  "guardian_event guardianAddress event =
     (let value = che_value event in
      if nullish value then []
      else
        let caller = js_String (nullish_or (field value ''caller'') (JString '''')) in
        case js_BigInt (field value ''proposal_id'') of
          Some proposalId \<Rightarrow>
            if caller = guardianAddress
            then [\<lparr>ga_proposalId = proposalId, ga_canceller = caller, ga_ledger = che_ledger event\<rparr>] else []
        | None \<Rightarrow> [])"

definition getGuardianActivity :: "'w rpc \<Rightarrow> client \<Rightarrow> int option \<Rightarrow> ('w, GuardianActivity list) io" where
  "getGuardianActivity rpc cl fromLedger =
     and_then (getSettings rpc cl None) (\<lambda>settings.
       if settings_guardian settings = '''' then returning []
       else
         and_then (getLatestLedger rpc cl) (\<lambda>latest.
           scan_loop (event_page rpc cl None [Encoded (ASymbol ''ProposalCancelled'')]) (\<lambda>_. False)
             (guardian_event (settings_guardian settings)) latest (or_else fromLedger 1) []))"

definition proposal_event :: "chain_event \<Rightarrow> (int \<times> int) list" where
  "proposal_event event =
     (case che_topic event of
        [] \<Rightarrow> []
      | symbol # _ \<Rightarrow>
          let value = che_value event;
              proposalIdRaw = (if symbol = JString ''ProposalCreated'' then optional_field value ''proposal_id''
                               else if isArray value then elem value 0 else JUndefined)
          in case js_BigInt proposalIdRaw of Some i \<Rightarrow> [(i, che_ledger event)] | None \<Rightarrow> [])"

text \<open>The map from identifiers to the entry with the largest ledger, in the order of the first entries.\<close>

definition keep_newest :: "(int \<times> int) list \<Rightarrow> (int, int) js_map" where
  "keep_newest entries =
     fold (\<lambda>(i, ledger) uniq.
       case js_get uniq i of
         None \<Rightarrow> js_set uniq i ledger
       | Some prev \<Rightarrow> if prev < ledger then js_set uniq i ledger else uniq) entries []"

fun hydrate :: "'w rpc \<Rightarrow> client \<Rightarrow> (int \<times> int) list \<Rightarrow> ('w, (int \<times> Proposal \<times> ProposalStateName) list) io" where
  "hydrate rpc cl [] = returning []"
| "hydrate rpc cl ((i, _) # rest) =
     and_then (client_getProposal rpc cl i) (\<lambda>proposal.
     and_then (client_getProposalState rpc cl i) (\<lambda>state.
     and_then (hydrate rpc cl rest) (\<lambda>others. returning ((i, proposal, state) # others))))"

definition getProposalsForAddress ::
  "'w rpc \<Rightarrow> client \<Rightarrow> string \<Rightarrow> int option \<Rightarrow> int option \<Rightarrow> ('w, (int \<times> Proposal \<times> ProposalStateName) list) io" where
  "getProposalsForAddress rpc cl proposer fromLedger limitOpt =
     (let limit = clamp_limit limitOpt;
          startLedger = max 1 (or_else fromLedger 1);
          scan = (\<lambda>name latest. scan_loop
            (event_page rpc cl (Some governor_isNetworkError) [Encoded (ASymbol name), Encoded (AAddress proposer)])
            (\<lambda>_. False) proposal_event latest startLedger)
      in and_then (encode_args rpc [AAddress proposer]) (\<lambda>_.
         and_then (getLatestLedger rpc cl) (\<lambda>latest.
         and_then (scan ''ProposalCreated'' latest []) (\<lambda>found.
         and_then (scan ''prop_crtd'' latest found) (\<lambda>proposalIds.
           hydrate rpc cl (slice_to limit (newest_first (of_int \<circ> snd) (keep_newest proposalIds))))))))"

subsection \<open>Commit and reveal\<close>

definition SUPPORT_TO_U8 :: "VoteSupport \<Rightarrow> int" where
  "SUPPORT_TO_U8 support = (case support of Against \<Rightarrow> 0 | For \<Rightarrow> 1 | Abstain \<Rightarrow> 2)"

definition u128LeBuffer :: "int \<Rightarrow> client_error + bytes" where
  "u128LeBuffer value =
     (if value < 0 \<or> value > 2 ^ 128 - 1
      then Inl (js_error_of ''RangeError'' ''weightSeed must fit in an unsigned 128-bit integer'')
      else Inr (le_bytes 8 (value mod 2 ^ 64) @ le_bytes 8 (value div 2 ^ 64)))"

record CommitVoteParams =
  cm_proposalId :: int
  cm_support :: VoteSupport
  cm_weightSeed :: "int option"
  cm_salt :: "bytes option"

record CommitmentResult =
  cr_commitment :: bytes
  cr_salt :: bytes
  cr_weightSeed :: int

text \<open>\<^verbatim>\<open>BigInt("0x" + bytes.toString("hex"))\<close> is the big-endian value; \<^verbatim>\<open>writeBigUInt64LE\<close> refuses what does not fit.\<close>

definition be_value :: "bytes \<Rightarrow> int" where
  "be_value bs = foldl (\<lambda>acc b. 256 * acc + uint b) 0 bs"

definition commit_preimage :: "int \<Rightarrow> VoteSupport \<Rightarrow> int \<Rightarrow> bytes \<Rightarrow> client_error + bytes" where
  "commit_preimage proposalId support weightSeed salt =
     (if length salt \<noteq> 32 then Inl (js_error_of ''RangeError'' ''salt must be exactly 32 bytes'')
      else if proposalId < 0 \<or> 2 ^ 64 \<le> proposalId
      then Inl (js_error_of ''RangeError'' ''The value of value is out of range'')
      else bind_sum (u128LeBuffer weightSeed) (\<lambda>seed.
        Inr (le_bytes 8 proposalId @ [of_int (SUPPORT_TO_U8 support)] @ seed @ salt)))"

definition generateCommitment ::
  "(bytes \<Rightarrow> bytes) \<Rightarrow> bytes \<Rightarrow> bytes \<Rightarrow> CommitVoteParams \<Rightarrow> client_error + CommitmentResult" where
  "generateCommitment sha256 random16 random32 params =
     (let weightSeed = or_else (cm_weightSeed params) (be_value random16);
          salt = or_else (cm_salt params) random32
      in bind_sum (commit_preimage (cm_proposalId params) (cm_support params) weightSeed salt) (\<lambda>preimage.
           Inr \<lparr>cr_commitment = sha256 preimage, cr_salt = salt, cr_weightSeed = weightSeed\<rparr>))"

definition client_commitVote :: "'w rpc \<Rightarrow> client \<Rightarrow> string \<Rightarrow> int \<Rightarrow> bytes \<Rightarrow> ('w, string) io" where
  "client_commitVote rpc cl signer proposalId commitment =
     retrying cl (Some governor_isRetryableSubmissionError)
       (submit_and_confirm rpc cl (failed_with_json ''commitVote'') (governor_pollForConfirmation rpc)
          signer ''commit_vote'' [AAddress signer, AU64 proposalId, ABytes commitment] (\<lambda>hash _. Inr hash))"

definition client_revealVote ::
  "'w rpc \<Rightarrow> client \<Rightarrow> string \<Rightarrow> int \<Rightarrow> VoteSupport \<Rightarrow> int \<Rightarrow> bytes \<Rightarrow> ('w, string) io" where
  "client_revealVote rpc cl signer proposalId support weightSeed salt =
     retrying cl (Some governor_isRetryableSubmissionError)
       (submit_and_confirm rpc cl (failed_with_json ''revealVote'') (governor_pollForConfirmation rpc)
          signer ''reveal_vote'' [AAddress signer, AU64 proposalId, supportScVal support, AU128 weightSeed, ABytes salt]
          (\<lambda>hash _. Inr hash))"

definition client_hasCommitted :: "'w rpc \<Rightarrow> client \<Rightarrow> int \<Rightarrow> string \<Rightarrow> ('w, bool) io" where
  "client_hasCommitted rpc cl proposalId voter =
     retrying cl None
       (catching
          (governor_read rpc cl (governor_readAccount cl None) ''has_committed'' [AU64 proposalId, AAddress voter] False
             (\<lambda>v. Inr (js_Boolean v)))
          (\<lambda>_. returning False))"

definition getCommitDeadline :: "'w rpc \<Rightarrow> client \<Rightarrow> int \<Rightarrow> ('w, js_number) io" where
  "getCommitDeadline rpc cl proposalId =
     retrying cl None
       (governor_require rpc cl (governor_readAccount cl None) ''get_commit_deadline'' [AU64 proposalId] ''No return value''
          (\<lambda>v. Inr (js_Number v)))"

definition getRevealDeadline :: "'w rpc \<Rightarrow> client \<Rightarrow> int \<Rightarrow> ('w, js_number) io" where
  "getRevealDeadline rpc cl proposalId =
     retrying cl None
       (governor_require rpc cl (governor_readAccount cl None) ''get_reveal_deadline'' [AU64 proposalId] ''No return value''
          (\<lambda>v. Inr (js_Number v)))"

datatype commit_phase = CommitPhase | RevealPhase | EndedPhase

record CommitRevealStatus =
  crs_phase :: commit_phase
  crs_commitDeadline :: js_number
  crs_revealDeadline :: js_number
  crs_commitCount :: js_number
  crs_revealCount :: js_number

definition phase_at :: "int \<Rightarrow> js_number \<Rightarrow> js_number \<Rightarrow> commit_phase" where
  "phase_at currentLedger commitDeadline revealDeadline =
     (if js_le (js_int currentLedger) commitDeadline then CommitPhase
      else if js_le (js_int currentLedger) revealDeadline then RevealPhase
      else EndedPhase)"

definition commit_counts :: "'w rpc \<Rightarrow> client \<Rightarrow> int \<Rightarrow> ('w, js_number \<times> js_number) io" where
  "commit_counts rpc cl proposalId =
     (let indexerUrl = or_else (cl_indexerUrl cl) '''' in
      if indexerUrl = '''' then returning (Finite 0, Finite 0)
      else catching
        (and_then (asking (rp_fetch rpc (get_request (indexerUrl @ ''/governor/commit-reveal/'' @ dec_int proposalId)))) (\<lambda>response.
           if \<not> response_ok response then returning (Finite 0, Finite 0)
           else settle (bind_sum (hr_json response) (\<lambda>data. with_member data ''commit_count'' (\<lambda>c.
             Inr (js_Number (nullish_or c (JNumber 0)), js_Number (nullish_or (field data ''reveal_count'') (JNumber 0))))))))
        (\<lambda>_. returning (Finite 0, Finite 0)))"

definition getCommitRevealStatus :: "'w rpc \<Rightarrow> client \<Rightarrow> int \<Rightarrow> ('w, CommitRevealStatus) io" where
  "getCommitRevealStatus rpc cl proposalId =
     and_then (getCommitDeadline rpc cl proposalId) (\<lambda>commitDeadline.
     and_then (getRevealDeadline rpc cl proposalId) (\<lambda>revealDeadline.
     and_then (getLatestLedger rpc cl) (\<lambda>currentLedger.
     and_then (commit_counts rpc cl proposalId) (\<lambda>(commitCount, revealCount).
       returning \<lparr>crs_phase = phase_at currentLedger commitDeadline revealDeadline,
                  crs_commitDeadline = commitDeadline, crs_revealDeadline = revealDeadline,
                  crs_commitCount = commitCount, crs_revealCount = revealCount\<rparr>))))"

subsection \<open>A commitment binds its vote\<close>

lemma le_bytes_Suc: "le_bytes (Suc n) v = word_of_int v # le_bytes n (v div 256)"
proof -
  have "map (\<lambda>i. word_of_int (v div 256 ^ i)) [Suc 0..<Suc n] = map (\<lambda>i. word_of_int (v div 256 div 256 ^ i) :: byte) [0..<n]"
    by (simp only: map_Suc_upt [symmetric] map_map o_def power_Suc zdiv_zmult2_eq) (simp add: zdiv_zmult2_eq)
  then show ?thesis by (simp add: le_bytes_def upt_conv_Cons del: upt_Suc)
qed

lemma le_bytes_length [simp]: "length (le_bytes n v) = n"
  by (simp add: le_bytes_def)

lemma le_bytes_inject:
  "le_bytes n v = le_bytes n w \<Longrightarrow> 0 \<le> v \<Longrightarrow> v < 256 ^ n \<Longrightarrow> 0 \<le> w \<Longrightarrow> w < 256 ^ n \<Longrightarrow> v = w"
proof (induction n arbitrary: v w)
  case (Suc n)
  then have low: "(word_of_int v :: byte) = word_of_int w" and high: "le_bytes n (v div 256) = le_bytes n (w div 256)"
    by (simp_all add: le_bytes_Suc)
  have "v mod 256 = w mod 256" using arg_cong [OF low, of uint] by (simp add: uint_word_of_int)
  moreover have "v div 256 = w div 256"
    using Suc.prems by (intro Suc.IH [OF high]) (simp_all add: div_int_pos_iff zdiv_mono1 int_div_less_self)
  ultimately show ?case by (metis div_mult_mod_eq)
qed simp

lemma SUPPORT_TO_U8_inject: "(of_int (SUPPORT_TO_U8 a) :: byte) = of_int (SUPPORT_TO_U8 b) \<longleftrightarrow> a = b"
  by (cases a; cases b) (simp_all add: SUPPORT_TO_U8_def)

lemma u128LeBuffer_inject: "u128LeBuffer v = Inr a \<Longrightarrow> u128LeBuffer w = Inr a \<Longrightarrow> v = w \<and> length a = 16"
proof -
  assume "u128LeBuffer v = Inr a" "u128LeBuffer w = Inr a"
  then have range: "0 \<le> v" "v < 2 ^ 128" "0 \<le> w" "w < 2 ^ 128"
    and parts: "le_bytes 8 (v mod 2 ^ 64) = le_bytes 8 (w mod 2 ^ 64)" "le_bytes 8 (v div 2 ^ 64) = le_bytes 8 (w div 2 ^ 64)"
    and "length a = 16"
    by (auto simp: u128LeBuffer_def split: if_splits)
  have "v mod 2 ^ 64 = w mod 2 ^ 64" by (rule le_bytes_inject [OF parts(1)]) simp_all
  moreover have "v div 2 ^ 64 = w div 2 ^ 64" using range by (intro le_bytes_inject [OF parts(2)]) simp_all
  ultimately show ?thesis using \<open>length a = 16\<close> by (metis div_mult_mod_eq)
qed

lemma commit_preimage_inject:
  assumes "commit_preimage p a v x = Inr m" "commit_preimage q b w y = Inr m"
  shows "p = q \<and> a = b \<and> v = w \<and> x = y"
proof -
  obtain sv sw where seeds: "u128LeBuffer v = Inr sv" "u128LeBuffer w = Inr sw"
    and m: "le_bytes 8 p @ [of_int (SUPPORT_TO_U8 a)] @ sv @ x = le_bytes 8 q @ [of_int (SUPPORT_TO_U8 b)] @ sw @ y"
    and range: "0 \<le> p" "p < 2 ^ 64" "0 \<le> q" "q < 2 ^ 64"
    using assms by (auto simp: commit_preimage_def bind_sum_def split: if_splits sum.splits)
  have len: "length sv = length sw"
    using seeds u128LeBuffer_inject [of v sv v] u128LeBuffer_inject [of w sw w] by simp
  from m len have "le_bytes 8 p = le_bytes 8 q" "a = b" "sv = sw" "x = y" by (simp_all add: SUPPORT_TO_U8_inject)
  moreover have "p = q" using range by (intro le_bytes_inject [OF calculation(1)]) simp_all
  moreover have "v = w" using seeds u128LeBuffer_inject \<open>sv = sw\<close> by blast
  ultimately show ?thesis by simp
qed

text \<open>A commitment binds the voter: two calls of \<^verbatim>\<open>generateCommitment\<close> that give the same commitment are for the same
  proposal, the same choice, the same weight seed and the same salt, or they exhibit a collision of the hash function.\<close>

theorem commitment_binds:
  assumes "generateCommitment sha256 r1 r2 params = Inr a" "generateCommitment sha256 q1 q2 params' = Inr b"
    and "cr_commitment a = cr_commitment b"
  shows "(cm_proposalId params = cm_proposalId params' \<and> cm_support params = cm_support params' \<and>
          cr_weightSeed a = cr_weightSeed b \<and> cr_salt a = cr_salt b) \<or>
    (\<exists>x y. x \<noteq> y \<and> sha256 x = sha256 y)"
proof -
  obtain x where x: "commit_preimage (cm_proposalId params) (cm_support params) (cr_weightSeed a) (cr_salt a) = Inr x"
    "cr_commitment a = sha256 x"
    using assms(1) by (auto simp: generateCommitment_def bind_sum_def Let_def split: sum.splits)
  obtain y where y: "commit_preimage (cm_proposalId params') (cm_support params') (cr_weightSeed b) (cr_salt b) = Inr y"
    "cr_commitment b = sha256 y"
    using assms(2) by (auto simp: generateCommitment_def bind_sum_def Let_def split: sum.splits)
  show ?thesis
  proof (cases "x = y")
    case True
    then show ?thesis using commit_preimage_inject [OF x(1)] y(1) by blast
  next
    case False
    moreover have "sha256 x = sha256 y" using x(2) y(2) assms(3) by simp
    ultimately show ?thesis by blast
  qed
qed

theorem commitment_binds_witness:
  "\<exists>a b. generateCommitment id [] [] \<lparr>cm_proposalId = 7, cm_support = For, cm_weightSeed = Some 5, cm_salt = Some (replicate 32 1)\<rparr> = Inr a \<and>
     generateCommitment id [5] (replicate 32 1) \<lparr>cm_proposalId = 7, cm_support = For, cm_weightSeed = None, cm_salt = None\<rparr> = Inr b \<and>
     cr_weightSeed a = cr_weightSeed b"
proof -
  let ?p = "\<lparr>cm_proposalId = 7, cm_support = For, cm_weightSeed = Some 5, cm_salt = Some (replicate 32 1)\<rparr>"
  let ?q = "\<lparr>cm_proposalId = 7, cm_support = For, cm_weightSeed = None, cm_salt = None\<rparr>"
  have same: "generateCommitment id [] [] ?p = generateCommitment id [5] (replicate 32 1) ?q"
    by (simp add: generateCommitment_def or_else_def be_value_def Let_def)
  obtain a where a: "generateCommitment id [] [] ?p = Inr a"
    by (simp add: generateCommitment_def or_else_def commit_preimage_def u128LeBuffer_def bind_sum_def Let_def)
  from commitment_binds [OF a a [unfolded same]] a same show ?thesis by auto
qed

subsection \<open>The proposals of an address\<close>

lemma keep_newest_distinct: "distinct (map fst (keep_newest entries))"
proof -
  have "distinct (map fst uniq) \<Longrightarrow> distinct (map fst (fold (\<lambda>(i, ledger) uniq. case js_get uniq i of
      None \<Rightarrow> js_set uniq i ledger | Some prev \<Rightarrow> if prev < ledger then js_set uniq i ledger else uniq) entries uniq))" for uniq
    by (induction entries arbitrary: uniq)
      (auto simp: js_set_def AList.distinct_update split: prod.split option.split)
  from this [of "[]"] show ?thesis by (simp add: keep_newest_def)
qed

lemma hydrate_ids:
  "hydrate rpc cl xs s = (Inr ys, s') \<Longrightarrow> map fst ys = map fst xs"
proof (induction xs arbitrary: s ys s')
  case (Cons x xs)
  then show ?case by (cases x) (fastforce simp: and_then_resolved)
qed simp

text \<open>\<^verbatim>\<open>getProposalsForAddress\<close> returns no proposal twice and never more than 200.\<close>

theorem getProposalsForAddress_distinct:
  assumes "getProposalsForAddress rpc cl proposer fromLedger limitOpt s = (Inr proposals, s')"
  shows "distinct (map fst proposals) \<and> length proposals \<le> 200"
proof -
  obtain found s0 where "hydrate rpc cl (slice_to (clamp_limit limitOpt) (newest_first (of_int \<circ> snd) (keep_newest found))) s0 =
      (Inr proposals, s')"
    using assms by (auto simp: getProposalsForAddress_def and_then_resolved Let_def)
  from hydrate_ids [OF this] have ids: "map fst proposals =
      map fst (slice_to (clamp_limit limitOpt) (newest_first (of_int \<circ> snd) (keep_newest found)))" .
  have "distinct (map fst (newest_first (rat_of_int \<circ> snd) (keep_newest found)))"
    using keep_newest_distinct [of found] by (simp add: newest_first_def distinct_map)
  then have "distinct (map fst proposals)" unfolding ids slice_to_def by (simp add: take_map [symmetric])
  moreover have "length proposals = length (map fst proposals)" by simp
  then have "length proposals \<le> 200" unfolding ids by (simp add: slice_to_def clamp_limit_def)
  ultimately show ?thesis by simp
qed

end
