(* ===== verification/SdkVotes.thy ===== *)
theory SdkVotes
  imports SdkVoting
begin

section \<open>The votes client of the SDK\<close>

text \<open>
  \<^verbatim>\<open>VotesClient\<close> of \<^verbatim>\<open>sdk/src/votes.ts\<close>: delegation and split delegation, the reads of voting power and of the delegation registry,
  and the analytics that follow the delegation events. A map from delegators to delegatees is an association list in
  insertion order. A scan that throws leaves the caller's map as it was: the entries it had added before are not modelled.
  The base64 text and the JSON of a cursor are parameters of its two functions.
\<close>

subsection \<open>Data\<close>

record TopDelegate =
  td_address :: string
  td_votingPower :: int
  td_baseVotes :: int
  td_delegatorCount :: nat

record VotingPowerDistribution =
  vd_totalDelegated :: int
  vd_totalSupply :: int
  vd_delegationRate :: js_number
  vd_giniCoefficient :: js_number

record DelegateInfo =
  di_address :: string
  di_votes :: int
  di_percentOfSupply :: js_number

record VotesSettings =
  vs_checkpointRetentionPeriod :: js_value
  vs_timeWeightEnabled :: js_value
  vs_timeWeightScale :: js_value

record DelegatorRecord =
  dr_balance :: int
  dr_startLedger :: js_value

record SplitDelegation =
  sd_delegatee :: string
  sd_weightBps :: js_number

record DelegationEntry =
  dn_delegator :: string
  dn_delegatee :: string
  dn_delegatedAtLedger :: js_number
  dn_votingPowerAtDelegation :: int
  dn_active :: bool
  dn_revokedAtLedger :: "js_number option"

record DelegationHistoryEntry =
  dh_delegatee :: string
  dh_delegatedAtLedger :: js_number
  dh_revokedAtLedger :: "js_number option"
  dh_powerAtDelegation :: int
  dh_sequence :: js_number

record RegistryDelegatorInfo =
  rd_address :: string
  rd_delegatedPower :: int
  rd_delegatedAtLedger :: js_number
  rd_chainDepth :: js_number

record DelegateProfile =
  df_address :: string
  df_currentVotingPower :: int
  df_baseVotingPower :: int
  df_totalDelegators :: js_number
  df_totalDelegatedPower :: int
  df_delegationDepthLimit :: js_number
  df_firstDelegatedAtLedger :: "js_number option"

type_synonym delegation_map = "(string, string) js_map"

subsection \<open>The client\<close>

definition VotesErr :: "string \<Rightarrow> string \<Rightarrow> client_error" where
  "VotesErr code message = typed ''VotesError'' (the (map_of VotesErrorCode code)) message"

definition VotesClient :: "stellar \<Rightarrow> config \<Rightarrow> string \<Rightarrow> client_error + client" where
  "VotesClient stellar config votesAddress = open_client stellar config network_defaults votesAddress"

definition votes_isRetryableSubmissionError :: "client_error \<Rightarrow> bool" where
  "votes_isRetryableSubmissionError e =
     (if networkError e then True
      else if ce_class e = ''VotesError''
      then (case ce_code e of None \<Rightarrow> False
            | Some code \<Rightarrow> 100 \<le> code \<and> code \<noteq> the (map_of VotesErrorCode ''TransactionFailed'') \<and>
                code \<noteq> the (map_of VotesErrorCode ''DelegationFailed''))
      else False)"

definition votes_readAccount :: "client \<Rightarrow> string option \<Rightarrow> string" where
  "votes_readAccount cl fallback = or_else (cl_simulationAccount cl) (or_else fallback (cl_contract cl))"

text \<open>The steps that the writes repeat under their retry; these methods do not wait for the confirmation.\<close>

definition votes_send :: "'w rpc \<Rightarrow> client \<Rightarrow> string \<Rightarrow> string \<Rightarrow> sc_arg list \<Rightarrow> ('w, string) io" where
  "votes_send rpc cl signer method args =
     retrying cl (Some votes_isRetryableSubmissionError)
       (send_prepared rpc cl (sent_error ''VotesError'' parseVotesError) signer method args)"

definition votes_sendSigned :: "'w rpc \<Rightarrow> client \<Rightarrow> string \<Rightarrow> string \<Rightarrow> sc_arg list \<Rightarrow> ('w, string) io" where
  "votes_sendSigned rpc cl signerPublicKey method args =
     retrying cl (Some votes_isRetryableSubmissionError)
       (send_signed rpc cl (sent_error ''VotesError'' parseVotesError) signerPublicKey method args)"

subsection \<open>Delegation\<close>

definition client_undelegate :: "'w rpc \<Rightarrow> client \<Rightarrow> string \<Rightarrow> ('w, string) io" where
  "client_undelegate rpc cl signer = votes_send rpc cl signer ''undelegate'' [AAddress signer]"

definition revokeDelegation :: "'w rpc \<Rightarrow> client \<Rightarrow> string \<Rightarrow> ('w, string) io" where
  "revokeDelegation rpc cl signer = client_undelegate rpc cl signer"

definition undelegateWithSign :: "'w rpc \<Rightarrow> client \<Rightarrow> string \<Rightarrow> ('w, string) io" where
  "undelegateWithSign rpc cl signerPublicKey = votes_sendSigned rpc cl signerPublicKey ''undelegate'' [AAddress signerPublicKey]"

definition client_delegate :: "'w rpc \<Rightarrow> client \<Rightarrow> string \<Rightarrow> string \<Rightarrow> ('w, string) io" where
  "client_delegate rpc cl signer delegatee = votes_send rpc cl signer ''delegate'' [AAddress signer, AAddress delegatee]"

definition delegateWithSign :: "'w rpc \<Rightarrow> client \<Rightarrow> string \<Rightarrow> string \<Rightarrow> ('w, string) io" where
  "delegateWithSign rpc cl signerPublicKey delegatee =
     votes_sendSigned rpc cl signerPublicKey ''delegate'' [AAddress signerPublicKey, AAddress delegatee]"

definition transferAndDelegate :: "'w rpc \<Rightarrow> client \<Rightarrow> string \<Rightarrow> string \<Rightarrow> int \<Rightarrow> string \<Rightarrow> ('w, unit) io" where
  "transferAndDelegate rpc cl signer to amount delegatee =
     and_then (votes_send rpc cl signer ''transfer_and_delegate''
       [AAddress signer, AAddress to, AI128 amount, AAddress delegatee]) (\<lambda>_. returning ())"

definition splitDelegationToScVal :: "SplitDelegation \<Rightarrow> sc_arg" where
  "splitDelegationToScVal split =
     AMap [(''delegatee'', AAddress (sd_delegatee split)), (''weight_bps'', AU32Number (sd_weightBps split))]"

definition parseSplitDelegation :: "js_value \<Rightarrow> client_error + SplitDelegation" where
  "parseSplitDelegation native =
     with_member native ''delegatee'' (\<lambda>delegatee.
       Inr \<lparr>sd_delegatee = js_String delegatee, sd_weightBps = js_Number (field native ''weight_bps'')\<rparr>)"

definition delegateSplit :: "'w rpc \<Rightarrow> client \<Rightarrow> string \<Rightarrow> SplitDelegation list \<Rightarrow> ('w, string) io" where
  "delegateSplit rpc cl signer splits =
     votes_send rpc cl signer ''delegate_split'' [AAddress signer, AVec (map splitDelegationToScVal splits)]"

definition delegateSplitWithSign :: "'w rpc \<Rightarrow> client \<Rightarrow> string \<Rightarrow> SplitDelegation list \<Rightarrow> ('w, string) io" where
  "delegateSplitWithSign rpc cl signerPublicKey splits =
     votes_sendSigned rpc cl signerPublicKey ''delegate_split'' [AAddress signerPublicKey, AVec (map splitDelegationToScVal splits)]"

definition undelegateSplit :: "'w rpc \<Rightarrow> client \<Rightarrow> string \<Rightarrow> ('w, string) io" where
  "undelegateSplit rpc cl signer = votes_send rpc cl signer ''undelegate_split'' [AAddress signer]"

definition undelegateSplitWithSign :: "'w rpc \<Rightarrow> client \<Rightarrow> string \<Rightarrow> ('w, string) io" where
  "undelegateSplitWithSign rpc cl signerPublicKey =
     votes_sendSigned rpc cl signerPublicKey ''undelegate_split'' [AAddress signerPublicKey]"

definition setDelegationDepthLimit :: "'w rpc \<Rightarrow> client \<Rightarrow> string \<Rightarrow> int \<Rightarrow> ('w, string) io" where
  "setDelegationDepthLimit rpc cl signer newLimit =
     votes_send rpc cl signer ''set_delegation_depth_limit'' [AAddress signer, AU32 newLimit]"

text \<open>The two settings of the time weight are sent once, without a retry.\<close>

definition setTimeWeightEnabled :: "'w rpc \<Rightarrow> client \<Rightarrow> string \<Rightarrow> bool \<Rightarrow> ('w, unit) io" where
  "setTimeWeightEnabled rpc cl signer enabled =
     and_then (send_prepared rpc cl (sent_error ''VotesError'' parseVotesError) signer ''set_time_weight_enabled'' [ABool enabled])
       (\<lambda>_. returning ())"

definition setTimeWeightScale :: "'w rpc \<Rightarrow> client \<Rightarrow> string \<Rightarrow> int \<Rightarrow> ('w, unit) io" where
  "setTimeWeightScale rpc cl signer scale =
     and_then (send_prepared rpc cl (sent_error ''VotesError'' parseVotesError) signer ''set_time_weight_scale'' [AU32 scale])
       (\<lambda>_. returning ())"

subsection \<open>Voting power\<close>

definition votes_read ::
  "'w rpc \<Rightarrow> client \<Rightarrow> string option \<Rightarrow> string \<Rightarrow> sc_arg list \<Rightarrow> 'a \<Rightarrow> (js_value \<Rightarrow> client_error + 'a) \<Rightarrow> ('w, 'a) io" where
  "votes_read rpc cl fallback method args dflt parse =
     read_call rpc cl (votes_readAccount cl fallback) method args (\<lambda>_. Inr dflt) (Inr dflt) parse"

definition client_getVotes :: "'w rpc \<Rightarrow> client \<Rightarrow> string \<Rightarrow> ('w, int) io" where
  "client_getVotes rpc cl account =
     retrying cl None (votes_read rpc cl (Some account) ''get_votes'' [AAddress account] 0 (\<lambda>v. with_BigInt v Inr))"

definition client_getPastVotes :: "'w rpc \<Rightarrow> client \<Rightarrow> string \<Rightarrow> int \<Rightarrow> ('w, int) io" where
  "client_getPastVotes rpc cl account ledger =
     retrying cl None (votes_read rpc cl (Some account) ''get_past_votes'' [AAddress account, AU32 ledger] 0 (\<lambda>v. with_BigInt v Inr))"

definition getBaseVotes :: "'w rpc \<Rightarrow> client \<Rightarrow> string \<Rightarrow> ('w, int) io" where
  "getBaseVotes rpc cl account =
     votes_read rpc cl (Some account) ''get_base_votes'' [AAddress account] 0 (\<lambda>v. with_BigInt v Inr)"

definition getPastBaseVotes :: "'w rpc \<Rightarrow> client \<Rightarrow> string \<Rightarrow> int \<Rightarrow> ('w, int) io" where
  "getPastBaseVotes rpc cl account ledger =
     votes_read rpc cl (Some account) ''get_past_base_votes'' [AAddress account, AU32 ledger] 0 (\<lambda>v. with_BigInt v Inr)"

definition getDelegatee :: "'w rpc \<Rightarrow> client \<Rightarrow> string \<Rightarrow> ('w, js_value) io" where
  "getDelegatee rpc cl account =
     retrying cl None (votes_read rpc cl (Some account) ''delegates'' [AAddress account] JNull Inr)"

definition getTotalSupply :: "'w rpc \<Rightarrow> client \<Rightarrow> ('w, int) io" where
  "getTotalSupply rpc cl =
     retrying cl None (votes_read rpc cl None ''total_supply'' [] 0 (\<lambda>v. with_BigInt v Inr))"

definition client_getPastTotalSupply :: "'w rpc \<Rightarrow> client \<Rightarrow> int \<Rightarrow> ('w, int) io" where
  "client_getPastTotalSupply rpc cl ledger =
     retrying cl None (votes_read rpc cl None ''get_past_total_supply'' [AU32 ledger] 0 (\<lambda>v. with_BigInt v Inr))"

text \<open>The three simulations run before the first result is checked; \<^verbatim>\<open>result!.retval\<close> of a missing result throws.\<close>

definition retval_of :: "string \<Rightarrow> simulation \<Rightarrow> client_error + sim_success" where
  "retval_of what sim =
     (case sim of SimError _ \<Rightarrow> Inl (VotesErr ''SimulationFailed'' (''Failed to get '' @ what)) | SimSuccess ok \<Rightarrow> Inr ok)"

definition with_retval :: "sim_success \<Rightarrow> (js_value \<Rightarrow> client_error + 'a) \<Rightarrow> client_error + 'a" where
  "with_retval ok k = (case sm_retval ok of None \<Rightarrow> with_member JUndefined ''retval'' k | Some v \<Rightarrow> k v)"

definition getVotesSettings :: "'w rpc \<Rightarrow> client \<Rightarrow> ('w, VotesSettings) io" where
  "getVotesSettings rpc cl =
     (let source = votes_readAccount cl None in
      and_then (simulate_call rpc cl source ''checkpoint_retention_period'' []) (\<lambda>retentionResult.
      and_then (simulate_call rpc cl source ''time_weight_enabled'' []) (\<lambda>enabledResult.
      and_then (simulate_call rpc cl source ''time_weight_scale'' []) (\<lambda>scaleResult.
        settle
          (bind_sum (retval_of ''checkpoint retention period'' retentionResult) (\<lambda>retention.
           bind_sum (retval_of ''time weight enabled'' enabledResult) (\<lambda>enabled.
           bind_sum (retval_of ''time weight scale'' scaleResult) (\<lambda>scale.
           with_retval retention (\<lambda>r. with_retval enabled (\<lambda>e. with_retval scale (\<lambda>s.
             Inr \<lparr>vs_checkpointRetentionPeriod = r, vs_timeWeightEnabled = e, vs_timeWeightScale = s\<rparr>)))))))))))"

definition getDelegatorRecord :: "'w rpc \<Rightarrow> client \<Rightarrow> string \<Rightarrow> ('w, DelegatorRecord option) io" where
  "getDelegatorRecord rpc cl account =
     votes_read rpc cl (Some account) ''get_delegator_record'' [AAddress account] None
       (\<lambda>native. with_member native ''balance'' (\<lambda>b. with_BigInt b (\<lambda>balance.
          Inr (Some \<lparr>dr_balance = balance, dr_startLedger = field native ''start_ledger''\<rparr>))))"

subsection \<open>The delegation registry\<close>

text \<open>\<^verbatim>\<open>simulateRead\<close>; the arguments are encoded by the caller.\<close>

definition simulateRead ::
  "'w rpc \<Rightarrow> client \<Rightarrow> string \<Rightarrow> sc_arg list \<Rightarrow> (js_value \<Rightarrow> client_error + 'a) \<Rightarrow> 'a \<Rightarrow> ('w, 'a) io" where
  "simulateRead rpc cl method args parse defaultValue =
     and_then (encode_args rpc args) (\<lambda>_. retrying cl None (votes_read rpc cl None method args defaultValue parse))"

definition null_or_number :: "js_value \<Rightarrow> js_number option" where
  "null_or_number v = (if nullish v then None else Some (js_Number v))"

definition parse_list :: "(js_value \<Rightarrow> client_error + 'a) \<Rightarrow> js_value \<Rightarrow> client_error + 'a list" where
  "parse_list parse v = with_array v ''(0 , stellar_sdk_1.scValToNative)(...)'' (map_throwing parse)"

definition parseDelegationEntry :: "js_value \<Rightarrow> client_error + DelegationEntry" where
  "parseDelegationEntry native =
     with_member native ''delegator'' (\<lambda>delegator.
     with_BigInt (field native ''voting_power_at_delegation'') (\<lambda>power.
       Inr \<lparr>dn_delegator = js_String delegator, dn_delegatee = js_String (field native ''delegatee''),
            dn_delegatedAtLedger = js_Number (field native ''delegated_at_ledger''), dn_votingPowerAtDelegation = power,
            dn_active = js_Boolean (field native ''active''),
            dn_revokedAtLedger = null_or_number (field native ''revoked_at_ledger'')\<rparr>))"

definition parseDelegationHistoryEntry :: "js_value \<Rightarrow> client_error + DelegationHistoryEntry" where
  "parseDelegationHistoryEntry native =
     with_member native ''delegatee'' (\<lambda>delegatee.
     with_BigInt (field native ''power_at_delegation'') (\<lambda>power.
       Inr \<lparr>dh_delegatee = js_String delegatee, dh_delegatedAtLedger = js_Number (field native ''delegated_at_ledger''),
            dh_revokedAtLedger = null_or_number (field native ''revoked_at_ledger''), dh_powerAtDelegation = power,
            dh_sequence = js_Number (field native ''sequence'')\<rparr>))"

definition parseRegistryDelegatorInfo :: "js_value \<Rightarrow> client_error + RegistryDelegatorInfo" where
  "parseRegistryDelegatorInfo native =
     with_member native ''address'' (\<lambda>address.
     with_BigInt (field native ''delegated_power'') (\<lambda>power.
       Inr \<lparr>rd_address = js_String address, rd_delegatedPower = power,
            rd_delegatedAtLedger = js_Number (field native ''delegated_at_ledger''),
            rd_chainDepth = js_Number (field native ''chain_depth'')\<rparr>))"

definition getSplitDelegations :: "'w rpc \<Rightarrow> client \<Rightarrow> string \<Rightarrow> ('w, SplitDelegation list) io" where
  "getSplitDelegations rpc cl delegator =
     simulateRead rpc cl ''get_split_delegations'' [AAddress delegator] (parse_list parseSplitDelegation) []"

definition getDelegationHistory :: "'w rpc \<Rightarrow> client \<Rightarrow> string \<Rightarrow> ('w, DelegationHistoryEntry list) io" where
  "getDelegationHistory rpc cl delegator =
     simulateRead rpc cl ''get_delegation_history'' [AAddress delegator] (parse_list parseDelegationHistoryEntry) []"

definition getRegistryDelegators :: "'w rpc \<Rightarrow> client \<Rightarrow> string \<Rightarrow> int \<Rightarrow> int \<Rightarrow> ('w, RegistryDelegatorInfo list) io" where
  "getRegistryDelegators rpc cl delegatee offset limit =
     simulateRead rpc cl ''get_delegators'' [AAddress delegatee, AU32 offset, AU32 limit] (parse_list parseRegistryDelegatorInfo) []"

definition getDelegatorCount :: "'w rpc \<Rightarrow> client \<Rightarrow> string \<Rightarrow> ('w, js_number) io" where
  "getDelegatorCount rpc cl delegatee =
     simulateRead rpc cl ''get_delegator_count'' [AAddress delegatee] (\<lambda>v. Inr (js_Number v)) (Finite 0)"

definition getDelegationChain :: "'w rpc \<Rightarrow> client \<Rightarrow> string \<Rightarrow> ('w, js_value) io" where
  "getDelegationChain rpc cl delegator =
     simulateRead rpc cl ''get_delegation_chain'' [AAddress delegator] Inr (JArray [])"

definition getChainDepth :: "'w rpc \<Rightarrow> client \<Rightarrow> string \<Rightarrow> ('w, js_number) io" where
  "getChainDepth rpc cl delegator =
     simulateRead rpc cl ''get_chain_depth'' [AAddress delegator] (\<lambda>v. Inr (js_Number v)) (Finite 0)"

definition getDelegateProfile :: "'w rpc \<Rightarrow> client \<Rightarrow> string \<Rightarrow> ('w, DelegateProfile) io" where
  "getDelegateProfile rpc cl address =
     simulateRead rpc cl ''get_delegate_profile'' [AAddress address]
       (\<lambda>native. with_member native ''address'' (\<lambda>a.
          with_BigInt (field native ''current_voting_power'') (\<lambda>current.
          with_BigInt (field native ''base_voting_power'') (\<lambda>base.
          with_BigInt (field native ''total_delegated_power'') (\<lambda>delegated.
            Inr \<lparr>df_address = js_String a, df_currentVotingPower = current, df_baseVotingPower = base,
                 df_totalDelegators = js_Number (field native ''total_delegators''), df_totalDelegatedPower = delegated,
                 df_delegationDepthLimit = js_Number (field native ''delegation_depth_limit''),
                 df_firstDelegatedAtLedger = null_or_number (field native ''first_delegated_at_ledger'')\<rparr>)))))
       \<lparr>df_address = address, df_currentVotingPower = 0, df_baseVotingPower = 0, df_totalDelegators = Finite 0,
        df_totalDelegatedPower = 0, df_delegationDepthLimit = Finite 1, df_firstDelegatedAtLedger = None\<rparr>"

definition getReceivedDelegations :: "'w rpc \<Rightarrow> client \<Rightarrow> string \<Rightarrow> int \<Rightarrow> int \<Rightarrow> ('w, DelegationEntry list) io" where
  "getReceivedDelegations rpc cl delegatee offset limit =
     simulateRead rpc cl ''get_received_delegations'' [AAddress delegatee, AU32 offset, AU32 limit] (parse_list parseDelegationEntry) []"

definition client_wouldCreateCycle :: "'w rpc \<Rightarrow> client \<Rightarrow> string \<Rightarrow> string \<Rightarrow> ('w, bool) io" where
  "client_wouldCreateCycle rpc cl delegator delegatee =
     simulateRead rpc cl ''would_create_cycle'' [AAddress delegator, AAddress delegatee] (\<lambda>v. Inr (js_Boolean v)) False"

definition getDelegationSnapshot :: "'w rpc \<Rightarrow> client \<Rightarrow> string \<Rightarrow> int \<Rightarrow> int \<Rightarrow> int \<Rightarrow> ('w, RegistryDelegatorInfo list) io" where
  "getDelegationSnapshot rpc cl delegatee atLedger offset limit =
     simulateRead rpc cl ''get_delegation_snapshot'' [AAddress delegatee, AU32 atLedger, AU32 offset, AU32 limit]
       (parse_list parseRegistryDelegatorInfo) []"

definition getDelegationDepthLimit :: "'w rpc \<Rightarrow> client \<Rightarrow> ('w, js_number) io" where
  "getDelegationDepthLimit rpc cl =
     simulateRead rpc cl ''get_delegation_depth_limit'' [] (\<lambda>v. Inr (js_Number v)) (Finite 1)"

subsection \<open>Scanning the delegation events\<close>

text \<open>A cursor is the base64 text of a JSON object. \<open>toBase64\<close> is that encoding and \<open>parseBase64\<close> is \<^verbatim>\<open>JSON.parse\<close> of the decoded
  text, \<open>None\<close> when it throws.\<close>

definition encodeDelegationCursor :: "(string \<Rightarrow> string) \<Rightarrow> int \<Rightarrow> string" where
  "encodeDelegationCursor toBase64 nextStartLedger = toBase64 (stringifyJson (JObject [(''nextStartLedger'', JNumber nextStartLedger)]))"

definition decodeDelegationCursor :: "(string \<Rightarrow> js_value option) \<Rightarrow> string \<Rightarrow> int option" where
  "decodeDelegationCursor parseBase64 cursor =
     (case parseBase64 cursor of
        None \<Rightarrow> None
      | Some value \<Rightarrow>
          if nullish value then None
          else case js_Number (field value ''nextStartLedger'') of
            Finite next \<Rightarrow> if 0 < next then Some \<lfloor>next\<rfloor> else None
          | _ \<Rightarrow> None)"

definition DEFAULT_SCAN_WINDOW :: int where
  "DEFAULT_SCAN_WINDOW = 17280"

text \<open>The body of the loop over a page: an event that cannot be read changes nothing.\<close>

definition delegation_event :: "chain_event \<Rightarrow> delegation_map \<Rightarrow> delegation_map" where
  "delegation_event event delegations =
     (case che_topic event of
        symbol # JString delegator # _ \<Rightarrow>
          if symbol = JString ''del_chsh'' then
            (case elem (che_value event) 1 of JString newDelegatee \<Rightarrow> js_set delegations delegator newDelegatee | _ \<Rightarrow> delegations)
          else if symbol = JString ''del_revk'' then js_delete delegations delegator
          else delegations
      | _ \<Rightarrow> delegations)"

definition delegation_topics :: "topic_segment list list" where
  "delegation_topics = [[Encoded (ASymbol ''del_chsh''), Encoded (ASymbol ''del_revk'')]]"

definition delegation_page :: "'w rpc \<Rightarrow> client \<Rightarrow> int \<Rightarrow> int \<Rightarrow> ('w, chain_event list option) io" where
  "delegation_page rpc cl cursorLedger limit =
     retrying cl None
       (asking (rp_getEvents rpc
          \<lparr>eq_startLedger = Some cursorLedger, eq_contractIds = [cl_contract cl], eq_topics = delegation_topics, eq_limit = limit\<rparr>))"

text \<open>The scan: \<open>scanCap\<close> is \<open>None\<close> for no limit; the result is the map and the ledger to continue at.\<close>

function delegation_loop ::
  "'w rpc \<Rightarrow> client \<Rightarrow> int \<Rightarrow> int option \<Rightarrow> int \<Rightarrow> int \<Rightarrow> delegation_map \<Rightarrow> ('w, delegation_map \<times> int option) io" where
  "delegation_loop rpc cl latest scanCap cursorLedger scanned delegations =
     (if cursorLedger \<le> latest \<and> (case scanCap of None \<Rightarrow> True | Some cap \<Rightarrow> scanned < cap) then
        and_then (delegation_page rpc cl cursorLedger
            (case scanCap of None \<Rightarrow> 100 | Some cap \<Rightarrow> max 1 (min 100 (cap - scanned)))) (\<lambda>response.
          (let events = or_else response [] in
           if events = [] then returning (delegations, None)
           else delegation_loop rpc cl latest scanCap (fold max (map che_ledger events) cursorLedger + 1)
                  (scanned + int (length events)) (fold delegation_event events delegations)))
      else returning (delegations, if cursorLedger > latest then None else Some cursorLedger))"
  by pat_completeness auto
termination
  by (relation "measure (\<lambda>(rpc, cl, latest, scanCap, cursorLedger, scanned, delegations). nat (latest + 1 - cursorLedger))")
    (simp_all add: scan_advances)

declare delegation_loop.simps [simp del]

record scan_options =
  so_fromLedger :: "int option"
  so_cursor :: "string option"
  so_maxEventsToScan :: "int option"

definition buildDelegationMapIncremental ::
  "(string \<Rightarrow> string) \<Rightarrow> (string \<Rightarrow> js_value option) \<Rightarrow> 'w rpc \<Rightarrow> client \<Rightarrow> scan_options \<Rightarrow> delegation_map \<Rightarrow>
   ('w, delegation_map \<times> string option) io" where
  "buildDelegationMapIncremental toBase64 parseBase64 rpc cl options delegations =
     (let decoded = (case so_cursor options of Some c \<Rightarrow> if c = '''' then None else decodeDelegationCursor parseBase64 c | None \<Rightarrow> None);
          requested = (case decoded of Some n \<Rightarrow> if n = 0 then so_fromLedger options else Some n | None \<Rightarrow> so_fromLedger options);
          scanCap = map_option (max 0) (so_maxEventsToScan options)
      in and_then
           (case requested of
              Some l \<Rightarrow> returning l
            | None \<Rightarrow> and_then (retrying cl None (asking (rp_getLatestLedger rpc))) (\<lambda>sequence.
                returning (max 1 (sequence - DEFAULT_SCAN_WINDOW))))
           (\<lambda>startLedger.
              catching
                (and_then (asking (rp_getLatestLedger rpc)) (\<lambda>latest.
                 and_then (delegation_loop rpc cl latest scanCap startLedger 0 delegations) (\<lambda>(found, next).
                   returning (found, map_option (encodeDelegationCursor toBase64) next))))
                (\<lambda>err. throwing (VotesErr ''EventScanFailed''
                   (''Failed to scan delegation events: '' @ or_else (ce_message err) (ce_class err))))))"

definition buildDelegationMap ::
  "(string \<Rightarrow> string) \<Rightarrow> (string \<Rightarrow> js_value option) \<Rightarrow> 'w rpc \<Rightarrow> client \<Rightarrow> int option \<Rightarrow> ('w, delegation_map) io" where
  "buildDelegationMap toBase64 parseBase64 rpc cl fromLedger =
     and_then (buildDelegationMapIncremental toBase64 parseBase64 rpc cl
         \<lparr>so_fromLedger = fromLedger, so_cursor = None, so_maxEventsToScan = None\<rparr> [])
       (\<lambda>(delegations, _). returning delegations)"

subsection \<open>Analytics\<close>

text \<open>The delegators of each delegatee, in the order in which the delegatees first occur. Delegators are the keys of the
  map, so that a set of them is a list without repetitions.\<close>

definition byDelegate :: "delegation_map \<Rightarrow> (string, string list) js_map" where
  "byDelegate delegations =
     fold (\<lambda>(delegator, delegatee) m. js_set m delegatee (js_getd [] m delegatee @ [delegator])) delegations []"

definition strongest_first :: "('a \<Rightarrow> int) \<Rightarrow> 'a list \<Rightarrow> 'a list" where
  "strongest_first weight xs = sort_key (\<lambda>x. - weight x) xs"

record TopDelegatesOptions =
  to_limit :: "int option"
  to_offset :: "int option"
  to_scan :: scan_options
  to_delegationMap :: delegation_map

definition top_delegate :: "'w rpc \<Rightarrow> client \<Rightarrow> string \<times> string list \<Rightarrow> ('w, TopDelegate) io" where
  "top_delegate rpc cl entry =
     and_then (client_getVotes rpc cl (fst entry)) (\<lambda>votingPower.
     and_then (getBaseVotes rpc cl (fst entry)) (\<lambda>baseVotes.
       returning \<lparr>td_address = fst entry, td_votingPower = votingPower, td_baseVotes = baseVotes,
                  td_delegatorCount = length (snd entry)\<rparr>))"

text \<open>The powers are read in batches of 20; one after the other that is the same as reading all of them.\<close>

definition getTopDelegates ::
  "(string \<Rightarrow> string) \<Rightarrow> (string \<Rightarrow> js_value option) \<Rightarrow> 'w rpc \<Rightarrow> client \<Rightarrow> TopDelegatesOptions \<Rightarrow>
   ('w, TopDelegate list \<times> string option \<times> delegation_map) io" where
  "getTopDelegates toBase64 parseBase64 rpc cl options =
     (let limit = max 1 (min (or_else (to_limit options) 50) 100);
          offset = max 0 (or_else (to_offset options) 0)
      in and_then (buildDelegationMapIncremental toBase64 parseBase64 rpc cl (to_scan options) (to_delegationMap options))
           (\<lambda>(delegationMap, nextCursor).
              if delegationMap = [] then returning ([], nextCursor, delegationMap)
              else
                and_then (each (top_delegate rpc cl) (byDelegate delegationMap)) (\<lambda>powerEntries.
                  returning
                    (take (nat limit) (drop (nat offset)
                       (strongest_first td_votingPower (filter (\<lambda>d. 0 < td_votingPower d) powerEntries))),
                     nextCursor, delegationMap))))"

definition computeGini :: "int list \<Rightarrow> js_number" where
  "computeGini powers =
     (if powers = [] then Finite 0
      else
        let sorted = sort powers;
            n = int (length sorted);
            supply = sum_list sorted
        in if supply = 0 then Finite 0
           else
             let weightedSum = sum_list (map (\<lambda>i. int (i + 1) * sorted ! i) [0..<length sorted])
             in js_add (js_div (js_mult (Finite 2) (number_of_int weightedSum)) (js_mult (js_int n) (number_of_int supply)))
                  (js_neg (js_div (js_int (n + 1)) (js_int n))))"

definition getVotingPowerDistribution ::
  "(string \<Rightarrow> string) \<Rightarrow> (string \<Rightarrow> js_value option) \<Rightarrow> 'w rpc \<Rightarrow> client \<Rightarrow> int option \<Rightarrow> ('w, VotingPowerDistribution) io" where
  "getVotingPowerDistribution toBase64 parseBase64 rpc cl fromLedger =
     and_then (buildDelegationMap toBase64 parseBase64 rpc cl fromLedger) (\<lambda>delegationMap.
     and_then (getTotalSupply rpc cl) (\<lambda>totalSupply.
       if delegationMap = []
       then returning \<lparr>vd_totalDelegated = 0, vd_totalSupply = totalSupply, vd_delegationRate = Finite 0, vd_giniCoefficient = Finite 0\<rparr>
       else
         and_then (each (client_getVotes rpc cl \<circ> fst) (byDelegate delegationMap)) (\<lambda>powers.
           let activePowers = filter (\<lambda>p. 0 < p) powers;
               totalDelegated = sum_list activePowers
           in returning
                \<lparr>vd_totalDelegated = totalDelegated, vd_totalSupply = totalSupply,
                 vd_delegationRate = (if 0 < totalSupply then js_div (number_of_int totalDelegated) (number_of_int totalSupply) else Finite 0),
                 vd_giniCoefficient = computeGini activePowers\<rparr>)))"

definition client_getDelegators ::
  "(string \<Rightarrow> string) \<Rightarrow> (string \<Rightarrow> js_value option) \<Rightarrow> 'w rpc \<Rightarrow> client \<Rightarrow> string \<Rightarrow> int option \<Rightarrow> ('w, (string \<times> int) list) io" where
  "client_getDelegators toBase64 parseBase64 rpc cl delegateAddress fromLedger =
     and_then (buildDelegationMap toBase64 parseBase64 rpc cl fromLedger) (\<lambda>delegationMap.
       let delegators = map fst (filter (\<lambda>(_, delegatee). delegatee = delegateAddress) delegationMap) in
       if delegators = [] then returning []
       else
         and_then (each (\<lambda>delegator. and_then (client_getVotes rpc cl delegator) (\<lambda>power. returning (delegator, power))) delegators)
           (\<lambda>results. returning (strongest_first snd (filter (\<lambda>d. 0 < snd d) results))))"

text \<open>\<^verbatim>\<open>(votes * 10000n) / totalSupply\<close> rounds toward zero.\<close>

definition percent_of_supply :: "int \<Rightarrow> int \<Rightarrow> js_number" where
  "percent_of_supply votes totalSupply =
     (if 0 < totalSupply
      then js_div (number_of_int (sgn votes * ((\<bar>votes\<bar> * 10000) div totalSupply))) (Finite 100)
      else Finite 0)"

definition getTopDelegatesByAddresses :: "'w rpc \<Rightarrow> client \<Rightarrow> string list \<Rightarrow> int \<Rightarrow> ('w, DelegateInfo list) io" where
  "getTopDelegatesByAddresses rpc cl addresses limit =
     and_then (getTotalSupply rpc cl) (\<lambda>totalSupply.
       if totalSupply = 0 then returning []
       else
         and_then (each (\<lambda>address. and_then (client_getVotes rpc cl address) (\<lambda>votes.
             returning \<lparr>di_address = address, di_votes = votes, di_percentOfSupply = percent_of_supply votes totalSupply\<rparr>)) addresses)
           (\<lambda>delegates. returning (slice_to limit (strongest_first di_votes (filter (\<lambda>d. 0 < di_votes d) delegates)))))"

subsection \<open>What the scan can learn\<close>

text \<open>The documented meaning of a topic filter: an event matches a list of segments that it matches position by position.
  Nothing is said about segments other than encoded symbols.\<close>

fun segment_matches :: "topic_segment \<Rightarrow> js_value \<Rightarrow> bool" where
  "segment_matches (Encoded (ASymbol name)) v = (v = JString name)"
| "segment_matches t v = True"

definition event_matches :: "events_query \<Rightarrow> chain_event \<Rightarrow> bool" where
  "event_matches q event = list_ex (\<lambda>segments. list_all2 segment_matches segments (che_topic event)) (eq_topics q)"

definition obeys_filter :: "'w rpc \<Rightarrow> bool" where
  "obeys_filter rpc \<longleftrightarrow>
     (\<forall>q w events w'. rp_getEvents rpc q w = (Inr (Some events), w') \<longrightarrow> list_all (event_matches q) events)"

definition only_key :: "string \<Rightarrow> delegation_map \<Rightarrow> bool" where
  "only_key k m = list_all (\<lambda>(delegator, _). delegator = k) m"

lemma only_key_set: "only_key k m \<Longrightarrow> only_key k (js_set m k v)"
  by (induction m) (auto simp: only_key_def js_set_def)

lemma only_key_delete: "only_key k m \<Longrightarrow> only_key k (js_delete m j)"
  by (auto simp: only_key_def js_delete_def AList.delete_eq list_all_iff)

lemma delegation_event_key:
  assumes "list_all2 segment_matches (hd delegation_topics) (che_topic event)" "only_key ''del_revk'' m"
  shows "only_key ''del_revk'' (delegation_event event m)"
  using assms
  by (auto simp: delegation_topics_def delegation_event_def list_all2_Cons1 only_key_set split: js_value.split)

lemma delegation_events_key:
  "list_all (\<lambda>e. list_all2 segment_matches (hd delegation_topics) (che_topic e)) events \<Longrightarrow> only_key ''del_revk'' m \<Longrightarrow>
   only_key ''del_revk'' (fold delegation_event events m)"
  by (induction events arbitrary: m) (auto intro: delegation_event_key)

lemma delegation_page_matches:
  assumes "obeys_filter rpc" "delegation_page rpc cl cursorLedger limit s = (Inr response, s')"
  shows "list_all (\<lambda>e. list_all2 segment_matches (hd delegation_topics) (che_topic e)) (or_else response [])"
proof -
  let ?q = "\<lparr>eq_startLedger = Some cursorLedger, eq_contractIds = [cl_contract cl], eq_topics = delegation_topics, eq_limit = limit\<rparr>"
  obtain s0 where "asking (rp_getEvents rpc ?q) s0 = (Inr response, s')"
    using retrying_resolved [OF quiet_extends [OF quiet_basic(4)] assms(2) [unfolded delegation_page_def]] by blast
  then have "rp_getEvents rpc ?q (ss_world s0) = (Inr response, ss_world s')" by (simp add: asking_resolved)
  then have "list_all (event_matches ?q) (or_else response [])"
    using assms(1) by (cases response) (auto simp: obeys_filter_def or_else_def)
  then show ?thesis by (simp add: event_matches_def [abs_def] delegation_topics_def)
qed

lemma delegation_loop_key:
  assumes "obeys_filter rpc"
  shows "delegation_loop rpc cl latest cap l n m s = (Inr (found, nxt), s') \<Longrightarrow> only_key ''del_revk'' m \<Longrightarrow> only_key ''del_revk'' found"
  using assms
proof (induction rpc cl latest cap l n m arbitrary: s rule: delegation_loop.induct)
  case (1 rpc cl latest cap l n m)
  show ?case
  proof (cases "l \<le> latest \<and> (case cap of None \<Rightarrow> True | Some c \<Rightarrow> n < c)")
    case True
    then obtain response s1 where page: "delegation_page rpc cl l
          (case cap of None \<Rightarrow> 100 | Some c \<Rightarrow> max 1 (min 100 (c - n))) s = (Inr response, s1)"
      and rest: "(let events = or_else response [] in
           if events = [] then returning (m, None)
           else delegation_loop rpc cl latest cap (fold max (map che_ledger events) l + 1)
                  (n + int (length events)) (fold delegation_event events m)) s1 = (Inr (found, nxt), s')"
      using "1.prems"(1) by (subst (asm) delegation_loop.simps) (auto simp: and_then_resolved)
    from delegation_events_key [OF delegation_page_matches [OF "1.prems"(3) page] "1.prems"(2)] rest "1.prems" "1.IH" [OF True refl]
    show ?thesis by (auto simp: Let_def split: if_splits)
  next
    case False
    then show ?thesis using "1.prems" by (subst (asm) (1) delegation_loop.simps) auto
  qed
qed

lemma buildDelegationMap_key:
  assumes "obeys_filter rpc" "buildDelegationMap toBase64 parseBase64 rpc cl fromLedger s = (Inr m, s')"
  shows "only_key ''del_revk'' m"
proof -
  obtain start nxt s1 s2 latest where "delegation_loop rpc cl latest None start 0 [] s1 = (Inr (m, nxt), s2)"
    using assms(2)
    by (auto simp: buildDelegationMap_def buildDelegationMapIncremental_def catching_throwing_resolved and_then_resolved Let_def)
  from delegation_loop_key [OF assms(1) this] show ?thesis by (simp add: only_key_def)
qed

text \<open>C38: On a node that applies topic filters as documented, \<^verbatim>\<open>getDelegators\<close> never reports an address: the filter of the scan
  asks for events whose first topic is \<^verbatim>\<open>del_chsh\<close> and whose second topic, where the delegator stands, is the symbol
  \<^verbatim>\<open>del_revk\<close>.\<close>

theorem getDelegators_reports_no_address:
  assumes "obeys_filter rpc"
    and "client_getDelegators toBase64 parseBase64 rpc cl delegateAddress fromLedger s = (Inr delegators, s')"
  shows "fst ` set delegators \<subseteq> {''del_revk''}"
proof -
  obtain m s1 where m: "buildDelegationMap toBase64 parseBase64 rpc cl fromLedger s = (Inr m, s1)"
    and rest: "(let delegators = map fst (filter (\<lambda>(_, delegatee). delegatee = delegateAddress) m) in
       if delegators = [] then returning []
       else
         and_then (each (\<lambda>delegator. and_then (client_getVotes rpc cl delegator) (\<lambda>power. returning (delegator, power))) delegators)
           (\<lambda>results. returning (strongest_first snd (filter (\<lambda>d. 0 < snd d) results)))) s1 = (Inr delegators, s')"
    using assms(2) by (auto simp: client_getDelegators_def and_then_resolved)
  let ?ds = "map fst (filter (\<lambda>(_, delegatee). delegatee = delegateAddress) m)"
  let ?f = "\<lambda>delegator. and_then (client_getVotes rpc cl delegator) (\<lambda>power. returning (delegator, power))"
  have ds: "set ?ds \<subseteq> {''del_revk''}"
    using buildDelegationMap_key [OF assms(1) m] by (auto simp: only_key_def list_all_iff)
  show ?thesis
  proof (cases "?ds = []")
    case False
    then obtain results s2 where "each ?f ?ds s1 = (Inr results, s2)"
      and out: "delegators = strongest_first snd (filter (\<lambda>d. 0 < snd d) results)"
      using rest by (auto simp: Let_def and_then_resolved split: if_splits)
    from each_resolved [OF _ this(1), of fst] have "map fst results = ?ds"
      by (auto simp: and_then_resolved)
    then have "fst ` set results = set ?ds" by (metis list.set_map)
    with ds show ?thesis unfolding out strongest_first_def by (simp only: set_sort set_filter) blast
  qed (use rest in \<open>simp add: Let_def\<close>)
qed

text \<open>A node with one delegation from \<^verbatim>\<open>G1\<close> to \<^verbatim>\<open>G2\<close> that answers \<^verbatim>\<open>getEvents\<close> by the filter.\<close>

definition one_delegation :: chain_event where
  "one_delegation =
     \<lparr>che_ledger = 50, che_topic = [JString ''del_chsh'', JString ''G1''], che_value = JArray [JNull, JString ''G2'']\<rparr>"

definition filtering_node :: "nat rpc" where
  "filtering_node =
     (steady_node ''h'' (returns (Some (JNumber 5))) TxMissing)
       \<lparr>rp_getEvents := (\<lambda>q n. (Inr (Some (filter (event_matches q) [one_delegation])), n))\<rparr>"

lemma filtering_node_obeys: "obeys_filter filtering_node"
  by (auto simp: obeys_filter_def filtering_node_def list_all_iff)

theorem getDelegators_reports_no_address_witness:
  "\<exists>delegators s'. client_getDelegators id (\<lambda>_. None) filtering_node plain_client ''G2'' (Some 1) fresh_session = (Inr delegators, s') \<and>
     ''G1'' \<notin> fst ` set delegators"
proof -
  have "isl (fst (client_getDelegators id (\<lambda>_. None) filtering_node plain_client ''G2'' (Some 1) fresh_session)) = False"
    by code_simp
  then obtain delegators s' where r: "client_getDelegators id (\<lambda>_. None) filtering_node plain_client ''G2'' (Some 1) fresh_session =
      (Inr delegators, s')"
    by (metis fst_conv isl_def prod.exhaust sum.exhaust)
  with getDelegators_reports_no_address [OF filtering_node_obeys r] show ?thesis by auto
qed

text \<open>A cursor that the client hands out leads back to the ledger it was made for.\<close>

lemma field_single: "field (JObject [(k, v)]) k = v"
  by (simp add: field_def)

theorem delegation_cursor_roundtrip:
  assumes "\<And>v. v = JObject [(''nextStartLedger'', JNumber ledger)] \<Longrightarrow> parseBase64 (toBase64 (stringifyJson v)) = Some v" "0 < ledger"
  shows "decodeDelegationCursor parseBase64 (encodeDelegationCursor toBase64 ledger) = Some ledger"
  using assms(1) [OF refl] assms(2)
  by (simp add: decodeDelegationCursor_def encodeDelegationCursor_def nullish_def field_single del: stringifyJson.simps)

text \<open>A page of delegates is at most 100 long, in falling order of voting power, and each has some.\<close>

theorem getTopDelegates_page:
  assumes "getTopDelegates toBase64 parseBase64 rpc cl options s = (Inr (page, cursor, m), s')"
  shows "length page \<le> 100 \<and> sorted (map (\<lambda>d. - td_votingPower d) page) \<and> list_all (\<lambda>d. 0 < td_votingPower d) page"
proof -
  let ?limit = "max 1 (min (or_else (to_limit options) 50) 100)" and ?offset = "max 0 (or_else (to_offset options) 0)"
  obtain entries where page: "page = [] \<or> page = take (nat ?limit) (drop (nat ?offset)
      (strongest_first td_votingPower (filter (\<lambda>d. 0 < td_votingPower d) entries)))"
    using assms by (fastforce simp: getTopDelegates_def and_then_resolved Let_def simp del: take_eq_Nil take_eq_Nil2 split: prod.splits if_splits)
  have "sorted (map (\<lambda>d. - td_votingPower d) (strongest_first td_votingPower xs))" for xs
    by (simp add: strongest_first_def)
  then have "sorted (map (\<lambda>d. - td_votingPower d) page)"
    using page by (auto simp: take_map [symmetric] drop_map [symmetric] intro!: sorted_wrt_take sorted_wrt_drop)
  moreover have "list_all (\<lambda>d. 0 < td_votingPower d) page"
    using page by (auto simp: list_all_iff strongest_first_def dest!: in_set_takeD in_set_dropD)
  ultimately show ?thesis using page by auto
qed

end
