(* ===== verification/SdkCoSponsorship.thy ===== *)
theory SdkCoSponsorship
  imports SdkClient
begin

section \<open>The co-sponsorship client of the SDK\<close>

text \<open>
  \<^verbatim>\<open>CoSponsorshipClient\<close> of \<^verbatim>\<open>sdk/src/coSponsorship.ts\<close>: the draft operations, signed with a key pair or through a wallet
  callback, the reads, and the listings of the indexer. Unlike the treasury and timelock clients, its submissions are
  retried on network errors only. The arguments of a call are encoded before the first attempt.
\<close>

subsection \<open>Data\<close>

record ProposalDraft =
  pd_id :: int
  pd_creator :: string
  pd_description :: string
  pd_descriptionHash :: string
  pd_metadataUri :: string
  pd_targets :: js_value
  pd_fnNames :: js_value
  pd_calldatas :: js_value
  pd_createdLedger :: js_number
  pd_expiryLedger :: js_number
  pd_coSponsors :: js_value
  pd_coSponsorPower :: "int list"
  pd_totalPower :: int
  pd_finalized :: bool
  pd_cancelled :: bool

definition text_or_empty :: "js_value \<Rightarrow> js_value" where
  "text_or_empty v = nullish_or v (JArray [])"

text \<open>\<^verbatim>\<open>typeof v === "string" ? v : Buffer.from(v).toString("hex")\<close>\<close>

definition with_text_or_hex :: "js_value \<Rightarrow> (string \<Rightarrow> client_error + 'a) \<Rightarrow> client_error + 'a" where
  "with_text_or_hex v k = (case v of JString s \<Rightarrow> k s | _ \<Rightarrow> with_hex v k)"

definition parseProposalDraft :: "js_value \<Rightarrow> client_error + ProposalDraft" where
  "parseProposalDraft native =
     with_member native ''description_hash'' (\<lambda>rawDescriptionHash.
     with_text_or_hex rawDescriptionHash (\<lambda>descriptionHash.
     with_BigInt (field native ''id'') (\<lambda>i.
     with_array (text_or_empty (field native ''co_sponsor_power'')) ''(intermediate value)'' (\<lambda>powers.
     bind_sum (map_throwing (\<lambda>p. with_BigInt p Inr) powers) (\<lambda>powers.
     with_BigInt (field native ''total_power'') (\<lambda>totalPower.
       Inr \<lparr>pd_id = i, pd_creator = js_String (field native ''creator''),
            pd_description = js_String (field native ''description''), pd_descriptionHash = descriptionHash,
            pd_metadataUri = js_String (field native ''metadata_uri''), pd_targets = text_or_empty (field native ''targets''),
            pd_fnNames = text_or_empty (field native ''fn_names''), pd_calldatas = text_or_empty (field native ''calldatas''),
            pd_createdLedger = js_Number (field native ''created_ledger''),
            pd_expiryLedger = js_Number (field native ''expiry_ledger''),
            pd_coSponsors = text_or_empty (field native ''co_sponsors''), pd_coSponsorPower = powers,
            pd_totalPower = totalPower, pd_finalized = js_Boolean (field native ''finalized''),
            pd_cancelled = js_Boolean (field native ''cancelled'')\<rparr>))))))"

definition mapDraftFromIndexer :: "js_value \<Rightarrow> client_error + ProposalDraft" where
  "mapDraftFromIndexer raw =
     with_member raw ''description_hash'' (\<lambda>rawDescriptionHash.
     (if js_Boolean rawDescriptionHash then with_text_or_hex rawDescriptionHash else (\<lambda>k. k '''')) (\<lambda>descriptionHash.
     with_BigInt (nullish_or (field raw ''id'') (nullish_or (field raw ''draft_id'') (JNumber 0))) (\<lambda>i.
     with_array (text_or_empty (field raw ''co_sponsor_power'')) ''(intermediate value)'' (\<lambda>powers.
     bind_sum (map_throwing (\<lambda>p. with_BigInt p Inr) powers) (\<lambda>powers.
     with_BigInt (nullish_or (field raw ''total_power'') (JNumber 0)) (\<lambda>totalPower.
       Inr \<lparr>pd_id = i, pd_creator = js_String (field raw ''creator''),
            pd_description = js_String (nullish_or (field raw ''description'') (JString '''')), pd_descriptionHash = descriptionHash,
            pd_metadataUri = js_String (nullish_or (field raw ''metadata_uri'') (JString '''')),
            pd_targets = text_or_empty (field raw ''targets''),
            pd_fnNames = text_or_empty (field raw ''fn_names''), pd_calldatas = text_or_empty (field raw ''calldatas''),
            pd_createdLedger = js_Number (nullish_or (field raw ''created_ledger'') (JNumber 0)),
            pd_expiryLedger = js_Number (nullish_or (field raw ''expiry_ledger'') (JNumber 0)),
            pd_coSponsors = text_or_empty (field raw ''co_sponsors''), pd_coSponsorPower = powers,
            pd_totalPower = totalPower, pd_finalized = js_Boolean (field raw ''finalized''),
            pd_cancelled = js_Boolean (field raw ''cancelled'')\<rparr>))))))"

subsection \<open>Submissions\<close>

definition CoSponsorshipErr :: "string \<Rightarrow> string \<Rightarrow> client_error" where
  "CoSponsorshipErr code message = typed ''CoSponsorshipError'' (the (map_of CoSponsorshipErrorCode code)) message"

definition CoSponsorshipClient :: "stellar \<Rightarrow> config \<Rightarrow> string option \<Rightarrow> client_error + client" where
  "CoSponsorshipClient stellar config coSponsorshipAddress =
     (case coSponsorshipAddress of
        Some address \<Rightarrow>
          if address = '''' then Inl (CoSponsorshipErr ''TransactionFailed''
            ''CoSponsorshipClient requires config.coSponsorshipAddress'')
          else open_client stellar config network_defaults address
      | None \<Rightarrow> Inl (CoSponsorshipErr ''TransactionFailed'' ''CoSponsorshipClient requires config.coSponsorshipAddress''))"

definition cosponsor_readAccount :: "client \<Rightarrow> string" where
  "cosponsor_readAccount cl = or_else (cl_simulationAccount cl) (cl_contract cl)"

definition cosponsor_pollForConfirmation :: "'w rpc \<Rightarrow> client \<Rightarrow> string \<Rightarrow> ('w, js_value option) io" where
  "cosponsor_pollForConfirmation rpc cl hash =
     poll_confirmation ''CoSponsorshipError'' (the (map_of CoSponsorshipErrorCode ''TransactionFailed''))
       (the (map_of CoSponsorshipErrorCode ''TransactionTimeout'')) 10 rpc cl hash"

definition cosponsor_submit ::
  "'w rpc \<Rightarrow> client \<Rightarrow> string \<Rightarrow> string \<Rightarrow> sc_arg list \<Rightarrow> ('w, string \<times> js_value option) io" where
  "cosponsor_submit rpc cl signer fnName args =
     and_then (encode_args rpc args) (\<lambda>_.
     retrying cl None
       (submit_and_confirm rpc cl (sent_error ''CoSponsorshipError'' (\<lambda>raw. parseCoSponsorshipError raw (Some fnName)))
          (cosponsor_pollForConfirmation rpc cl) signer fnName args (\<lambda>hash confirmed. Inr (hash, confirmed))))"

definition cosponsor_submitWithSign ::
  "'w rpc \<Rightarrow> client \<Rightarrow> string \<Rightarrow> string \<Rightarrow> sc_arg list \<Rightarrow> ('w, string \<times> js_value option) io" where
  "cosponsor_submitWithSign rpc cl signerPublicKey fnName args =
     and_then (encode_args rpc args) (\<lambda>_.
     retrying cl None
       (submit_signed rpc cl (sent_error ''CoSponsorshipError'' (\<lambda>raw. parseCoSponsorshipError raw (Some fnName)))
          (cosponsor_pollForConfirmation rpc cl) signerPublicKey fnName args (\<lambda>hash confirmed. Inr (hash, confirmed))))"

definition draft_args :: "string \<Rightarrow> string \<Rightarrow> bytes \<Rightarrow> string \<Rightarrow> string list \<Rightarrow> string list \<Rightarrow> bytes list \<Rightarrow> sc_arg list" where
  "draft_args creator description descriptionHash metadataUri targets fnNames calldatas =
     [AAddress creator, AString description, ABytes descriptionHash, AString metadataUri,
      AVec (map AAddress targets), AVec (map ASymbol fnNames), AVec (map ABytes calldatas)]"

definition id_of :: "string \<Rightarrow> string \<times> js_value option \<Rightarrow> ('w, int) io" where
  "id_of method result =
     settle (value_or (CoSponsorshipErr ''MissingReturnValue'' (''No return value from '' @ method))
       (\<lambda>v. with_BigInt v Inr) (snd result))"

definition client_createDraft ::
  "'w rpc \<Rightarrow> client \<Rightarrow> string \<Rightarrow> string \<Rightarrow> bytes \<Rightarrow> string \<Rightarrow> string list \<Rightarrow> string list \<Rightarrow> bytes list \<Rightarrow> ('w, int) io" where
  "client_createDraft rpc cl signer description descriptionHash metadataUri targets fnNames calldatas =
     and_then (cosponsor_submit rpc cl signer ''create_draft''
       (draft_args signer description descriptionHash metadataUri targets fnNames calldatas)) (id_of ''create_draft'')"

definition createDraftWithSign ::
  "'w rpc \<Rightarrow> client \<Rightarrow> string \<Rightarrow> string \<Rightarrow> bytes \<Rightarrow> string \<Rightarrow> string list \<Rightarrow> string list \<Rightarrow> bytes list \<Rightarrow> ('w, int) io" where
  "createDraftWithSign rpc cl signerPublicKey description descriptionHash metadataUri targets fnNames calldatas =
     and_then (cosponsor_submitWithSign rpc cl signerPublicKey ''create_draft''
       (draft_args signerPublicKey description descriptionHash metadataUri targets fnNames calldatas)) (id_of ''create_draft'')"

definition client_coSponsor :: "'w rpc \<Rightarrow> client \<Rightarrow> string \<Rightarrow> int \<Rightarrow> ('w, string) io" where
  "client_coSponsor rpc cl signer draftId =
     and_then (cosponsor_submit rpc cl signer ''co_sponsor'' [AAddress signer, AU64 draftId]) (\<lambda>(hash, _). returning hash)"

definition coSponsorWithSign :: "'w rpc \<Rightarrow> client \<Rightarrow> string \<Rightarrow> int \<Rightarrow> ('w, string) io" where
  "coSponsorWithSign rpc cl signerPublicKey draftId =
     and_then (cosponsor_submitWithSign rpc cl signerPublicKey ''co_sponsor'' [AAddress signerPublicKey, AU64 draftId])
       (\<lambda>(hash, _). returning hash)"

definition client_withdrawCoSponsorship :: "'w rpc \<Rightarrow> client \<Rightarrow> string \<Rightarrow> int \<Rightarrow> ('w, string) io" where
  "client_withdrawCoSponsorship rpc cl signer draftId =
     and_then (cosponsor_submit rpc cl signer ''withdraw_co_sponsorship'' [AAddress signer, AU64 draftId])
       (\<lambda>(hash, _). returning hash)"

definition withdrawCoSponsorshipWithSign :: "'w rpc \<Rightarrow> client \<Rightarrow> string \<Rightarrow> int \<Rightarrow> ('w, string) io" where
  "withdrawCoSponsorshipWithSign rpc cl signerPublicKey draftId =
     and_then (cosponsor_submitWithSign rpc cl signerPublicKey ''withdraw_co_sponsorship'' [AAddress signerPublicKey, AU64 draftId])
       (\<lambda>(hash, _). returning hash)"

definition client_finalizeDraft :: "'w rpc \<Rightarrow> client \<Rightarrow> string \<Rightarrow> int \<Rightarrow> ('w, int) io" where
  "client_finalizeDraft rpc cl signer draftId =
     and_then (cosponsor_submit rpc cl signer ''finalize_draft'' [AAddress signer, AU64 draftId]) (id_of ''finalize_draft'')"

definition finalizeDraftWithSign :: "'w rpc \<Rightarrow> client \<Rightarrow> string \<Rightarrow> int \<Rightarrow> ('w, int) io" where
  "finalizeDraftWithSign rpc cl signerPublicKey draftId =
     and_then (cosponsor_submitWithSign rpc cl signerPublicKey ''finalize_draft'' [AAddress signerPublicKey, AU64 draftId])
       (id_of ''finalize_draft'')"

definition client_cancelDraft :: "'w rpc \<Rightarrow> client \<Rightarrow> string \<Rightarrow> int \<Rightarrow> ('w, string) io" where
  "client_cancelDraft rpc cl signer draftId =
     and_then (cosponsor_submit rpc cl signer ''cancel_draft'' [AAddress signer, AU64 draftId]) (\<lambda>(hash, _). returning hash)"

definition cancelDraftWithSign :: "'w rpc \<Rightarrow> client \<Rightarrow> string \<Rightarrow> int \<Rightarrow> ('w, string) io" where
  "cancelDraftWithSign rpc cl signerPublicKey draftId =
     and_then (cosponsor_submitWithSign rpc cl signerPublicKey ''cancel_draft'' [AAddress signerPublicKey, AU64 draftId])
       (\<lambda>(hash, _). returning hash)"

subsection \<open>Reads\<close>

definition client_getDraft :: "'w rpc \<Rightarrow> client \<Rightarrow> int \<Rightarrow> ('w, ProposalDraft) io" where
  "client_getDraft rpc cl draftId =
     retrying cl None (read_call rpc cl (cosponsor_readAccount cl) ''get_draft'' [AU64 draftId]
       (\<lambda>err. Inl (parsed ''CoSponsorshipError'' (parseCoSponsorshipError (RawObject (Some ''ERROR'') (Some err)) None)))
       (Inl (js_error_of ''Error'' ''No return value'')) parseProposalDraft)"

definition client_getActiveDrafts :: "'w rpc \<Rightarrow> client \<Rightarrow> int \<Rightarrow> int \<Rightarrow> ('w, ProposalDraft list) io" where
  "client_getActiveDrafts rpc cl offset limit =
     retrying cl None (read_call rpc cl (cosponsor_readAccount cl) ''get_active_drafts'' [AU64 offset, AU64 limit]
       (\<lambda>_. Inr []) (Inr [])
       (\<lambda>v. with_array v ''(0 , stellar_sdk_1.scValToNative)(...)'' (map_throwing parseProposalDraft)))"

definition client_getCoSponsorPower :: "'w rpc \<Rightarrow> client \<Rightarrow> int \<Rightarrow> string \<Rightarrow> ('w, int) io" where
  "client_getCoSponsorPower rpc cl draftId sponsor =
     retrying cl None (read_call rpc cl (cosponsor_readAccount cl) ''get_co_sponsor_power'' [AU64 draftId, AAddress sponsor]
       (\<lambda>_. Inr 0) (Inr 0) (\<lambda>v. with_BigInt v Inr))"

definition client_draftThresholdMet :: "'w rpc \<Rightarrow> client \<Rightarrow> int \<Rightarrow> ('w, js_value) io" where
  "client_draftThresholdMet rpc cl draftId =
     retrying cl None (read_call rpc cl (cosponsor_readAccount cl) ''draft_threshold_met'' [AU64 draftId]
       (\<lambda>_. Inr (JBoolean False)) (Inr (JBoolean False)) Inr)"

subsection \<open>Listings of the indexer\<close>

definition indexerRequest :: "'w rpc \<Rightarrow> client \<Rightarrow> string \<Rightarrow> ('w, js_value) io" where
  "indexerRequest rpc cl path =
     (if or_else (cl_indexerUrl cl) '''' = ''''
      then throwing (CoSponsorshipErr ''SimulationFailed''
        (''CoSponsorshipClient.'' @ path @ '' requires config.indexerUrl to be set''))
      else retrying cl None
        (fetch_json rpc (\<lambda>resp. CoSponsorshipErr ''TransactionFailed''
             (''Indexer request failed: '' @ dec_int (hr_status resp) @ '' '' @ hr_statusText resp))
           (or_else (cl_indexerUrl cl) '''' @ path)))"

record ListDraftsOptions =
  ld_status :: "string option"
  ld_page :: "int option"
  ld_limit :: "int option"

definition listDrafts_query :: "ListDraftsOptions \<Rightarrow> string" where
  "listDrafts_query options =
     (let params = URLSearchParams (
            (case ld_status options of Some s \<Rightarrow> if s = '''' then [] else [(''status'', s)] | None \<Rightarrow> []) @
            (case ld_page options of Some n \<Rightarrow> if n = 0 then [] else [(''page'', dec_int n)] | None \<Rightarrow> []) @
            (case ld_limit options of Some n \<Rightarrow> if n = 0 then [] else [(''limit'', dec_int n)] | None \<Rightarrow> []))
      in if params = '''' then '''' else ''?'' @ params)"

text \<open>The result is the drafts with \<^verbatim>\<open>page\<close>, \<^verbatim>\<open>limit\<close> and \<^verbatim>\<open>hasMore\<close> of the pagination.\<close>

definition listDrafts :: "'w rpc \<Rightarrow> client \<Rightarrow> ListDraftsOptions \<Rightarrow> ('w, ProposalDraft list \<times> js_value \<times> js_value \<times> js_value) io" where
  "listDrafts rpc cl options =
     and_then (indexerRequest rpc cl (''/co-sponsorship/drafts'' @ listDrafts_query options)) (\<lambda>raw.
       settle (with_member raw ''data'' (\<lambda>rows. with_array rows ''raw.data'' (\<lambda>rows.
         bind_sum (map_throwing mapDraftFromIndexer rows) (\<lambda>drafts.
         with_member (field raw ''pagination'') ''page'' (\<lambda>page.
           Inr (drafts, page, field (field raw ''pagination'') ''limit'', field (field raw ''pagination'') ''has_more'')))))))"

definition getDraftsByCreator :: "'w rpc \<Rightarrow> client \<Rightarrow> string \<Rightarrow> ('w, ProposalDraft list) io" where
  "getDraftsByCreator rpc cl address =
     and_then (indexerRequest rpc cl (''/co-sponsorship/drafts?creator='' @ address)) (\<lambda>raw.
       settle (with_member raw ''data'' (\<lambda>rows. with_array rows ''raw.data'' (map_throwing mapDraftFromIndexer))))"

definition getDraftCoSponsorHistory :: "'w rpc \<Rightarrow> client \<Rightarrow> int \<Rightarrow> ('w, (js_value \<times> int \<times> js_number) list) io" where
  "getDraftCoSponsorHistory rpc cl draftId =
     and_then (indexerRequest rpc cl (''/co-sponsorship/drafts/'' @ dec_int draftId @ ''/co-sponsors'')) (\<lambda>raw.
       settle (with_member raw ''data'' (\<lambda>rows. with_array rows ''raw.data'' (map_throwing (\<lambda>entry.
         with_member entry ''sponsor_address'' (\<lambda>sponsor.
         with_BigInt (nullish_or (field entry ''pledged_power'') (JNumber 0)) (\<lambda>power.
           Inr (sponsor, power, js_Number (field entry ''pledged_at_ledger'')))))))))"

end
