(* ===== verification/SdkSubmit.thy ===== *)
theory SdkSubmit
  imports SdkCoSponsorship
begin

section \<open>Clients that retry on network errors only\<close>

text \<open>
  The younger clients of the SDK (co-sponsorship, reputation, proposal bonds, voting rewards, treasury strategies, ...)
  share one way to submit: \<^verbatim>\<open>submit(signer, fnName, ...args)\<close> with arguments that are already encoded, inside
  \<^verbatim>\<open>this.retry\<close> with \<^verbatim>\<open>{ retryOn: isNetworkError }\<close>, followed by ten rounds of polling. The locale \<open>cautious_client\<close> is that
  contract; each client interprets it. Also here: the pagination of the requests to the indexer.
\<close>

subsection \<open>The contract\<close>

text \<open>Another attempt is made on network errors and on nothing else.\<close>

definition network_retries :: "client \<Rightarrow> bool" where
  "network_retries cl \<longleftrightarrow> retry_on cl None = networkError"

lemma network_retries_connect:
  assumes "open_client stellar config network_defaults address = Inr cl" "cc_retry (cf_retry config) = None"
  shows "network_retries cl"
  using assms
  by (auto simp: network_retries_def retry_on_def open_client_def merged_options_def network_defaults_def no_options_def spread_def
      coalesce_def fun_eq_iff split: sum.splits option.splits)

lemma network_retries_plain: "network_retries plain_client"
  by (simp add: network_retries_def retry_on_def plain_client_def merged_options_def network_defaults_def no_options_def
      spread_def coalesce_def fun_eq_iff)

lemma timeout_not_network: "\<not> networkError (typed class code (timeout_message 10))"
proof -
  have "\<not> networkError \<lparr>ce_class = '''', ce_code = None, ce_message = Some (timeout_message 10), ce_status = None\<rparr>"
    by code_simp
  then show ?thesis by (simp add: networkError_def typed_def)
qed

lemma retrying_network: "network_retries cl \<Longrightarrow> retrying cl None m = retrying cl (Some networkError) m"
proof -
  have "retry_on cl (Some networkError) = networkError" by (simp add: retry_on_def given_coalesce fun_eq_iff)
  then show "network_retries cl \<Longrightarrow> ?thesis" by (simp add: retrying_attempts network_retries_def)
qed

lemma takes_all_encodes: "takes_all rpc H \<Longrightarrow> and_then (encode_args rpc args) k = k ()"
  by (rule ext) (simp add: and_then_def encode_args_def takes_all_def map_filter_def)

locale cautious_client =
  fixes name :: string and failed timeout :: int and parse :: "string \<Rightarrow> SendTransactionResponse \<Rightarrow> client_error"
    and submit :: "'w rpc \<Rightarrow> client \<Rightarrow> string \<Rightarrow> string \<Rightarrow> sc_arg list \<Rightarrow> ('w, string \<times> js_value option) io"
  assumes submit_eq: "submit rpc cl signer fnName args =
    and_then (encode_args rpc args) (\<lambda>_. retrying cl None (submit_and_confirm rpc cl (parse fnName)
      (poll_confirmation name failed timeout 10 rpc cl) signer fnName args (\<lambda>hash confirmed. Inr (hash, confirmed))))"
begin

text \<open>A submission that the node does not confirm in time is not repeated.\<close>

lemma slow_sent_once:
  assumes "takes_all rpc H" "answers rpc TxMissing" "1 \<le> attempts_of cl" "network_retries cl"
  shows "\<exists>e s' x. submit rpc cl signer fnName args s = (Inl e, s') \<and> ss_sent s' = ss_sent s @ [x] \<and> same_call cl signer fnName args x"
  unfolding submit_eq takes_all_encodes [OF assms(1)]
proof (rule submission_final [OF assms(1,3)])
  fix hash and s :: "'w session"
  show "\<exists>e s'. poll_confirmation name failed timeout 10 rpc cl hash s = (Inl e, s') \<and> \<not> retry_on cl None e \<and> ss_sent s' = ss_sent s"
    using poll_confirmation_times_out [OF assms(2,3)] timeout_not_network assms(4) by (metis network_retries_def)
qed

text \<open>One that failed on the ledger is repeated when its hash reads like a status of an outage.\<close>

lemma failed_hash_repeats:
  assumes "takes_all rpc looks_like_outage" "answers rpc TxFailure" "1 \<le> attempts_of cl" "network_retries cl"
  shows "\<exists>e s' l. submit rpc cl signer fnName args s = (Inl e, s') \<and> ss_sent s' = ss_sent s @ l \<and>
    int (length l) = attempts_of cl \<and> list_all (same_call cl signer fnName args) l"
  unfolding submit_eq takes_all_encodes [OF assms(1)] retrying_network [OF assms(4)]
proof (rule submission_repeats [OF assms(1,3)])
  fix hash and s :: "'w session"
  assume "looks_like_outage hash"
  then have "networkError (typed name failed (''Transaction failed: '' @ hash))" by (rule failed_hash_network_error)
  then show "\<exists>e s'. poll_confirmation name failed timeout 10 rpc cl hash s = (Inl e, s') \<and> networkError e \<and> ss_sent s' = ss_sent s"
    using poll_confirmation_fails [OF assms(2,3), of 10] by fastforce
qed

text \<open>One that resolves was accepted, and the node has reported its success with the value that is returned.\<close>

lemma resolved_confirmed:
  assumes "submit rpc cl signer fnName args s = (Inr (hash, confirmed), s')"
  shows "\<exists>l tx result. ss_sent s' = ss_sent s @ l @ [(tx, Inr result)] \<and> call_of cl signer fnName args tx \<and>
    accepted result \<and> sr_hash result = hash \<and> reported rpc hash confirmed"
proof -
  obtain s1 where e: "encode_args rpc args s = (Inr (), s1)"
    and r: "retrying cl None (submit_and_confirm rpc cl (parse fnName) (poll_confirmation name failed timeout 10 rpc cl)
        signer fnName args (\<lambda>hash confirmed. Inr (hash, confirmed))) s1 = (Inr (hash, confirmed), s')"
    using assms by (auto simp: submit_eq and_then_resolved)
  from submit_resolved [OF honest_poll_confirmation r] quietD [OF quiet_basic(5) e] show ?thesis by fastforce
qed

end

interpretation cosponsors: cautious_client "''CoSponsorshipError''" "the (map_of CoSponsorshipErrorCode ''TransactionFailed'')"
  "the (map_of CoSponsorshipErrorCode ''TransactionTimeout'')"
  "\<lambda>fnName. sent_error ''CoSponsorshipError'' (\<lambda>raw. parseCoSponsorshipError raw (Some fnName))" cosponsor_submit
  by unfold_locales (simp add: cosponsor_submit_def cosponsor_pollForConfirmation_def [abs_def])

text \<open>Finalizing a draft creates the proposal: the client does not do it twice because the network is slow.\<close>

theorem finalizeDraft_slow_sent_once:
  assumes "takes_all rpc H" "answers rpc TxMissing" "1 \<le> attempts_of cl" "network_retries cl"
  shows "\<exists>e s' x. client_finalizeDraft rpc cl signer draftId s = (Inl e, s') \<and> ss_sent s' = ss_sent s @ [x] \<and>
    same_call cl signer ''finalize_draft'' [AAddress signer, AU64 draftId] x"
  using cosponsors.slow_sent_once [OF assms, of signer "''finalize_draft''" "[AAddress signer, AU64 draftId]" s]
  by (auto simp: client_finalizeDraft_def and_then_def)

theorem finalizeDraft_slow_sent_once_witness:
  "\<exists>e s' x. client_finalizeDraft (steady_node ''h'' (returns None) TxMissing) plain_client ''G1'' 3 fresh_session = (Inl e, s') \<and>
    ss_sent s' = ss_sent fresh_session @ [x] \<and> same_call plain_client ''G1'' ''finalize_draft'' [AAddress ''G1'', AU64 3] x"
  by (rule finalizeDraft_slow_sent_once [OF steady_node_takes_all [where H = "\<lambda>_. True"] steady_node_answers _ network_retries_plain])
    (simp_all add: plain_client_attempts)

subsection \<open>Pages of the indexer\<close>

definition or_zero :: "js_value \<Rightarrow> js_value" where
  "or_zero v = nullish_or v (JNumber 0)"

definition number_or_none :: "js_value \<Rightarrow> js_number option" where
  "number_or_none v = (if nullish v then None else Some (js_Number v))"

record 'a indexer_page =
  pg_entries :: "'a list"
  pg_limit :: js_value
  pg_offset :: js_value
  pg_hasMore :: js_value

definition page_limit :: "int \<Rightarrow> int \<Rightarrow> int" where
  "page_limit cap limit = min (max limit 1) cap"

definition page_params :: "int \<Rightarrow> int \<Rightarrow> int \<Rightarrow> (string \<times> string) list" where
  "page_params cap limit offset = [(''limit'', dec_int (page_limit cap limit)), (''offset'', dec_int (max offset 0))]"

definition page_query :: "int \<Rightarrow> int \<Rightarrow> string" where
  "page_query limit offset = ''?'' @ URLSearchParams (page_params 200 limit offset)"

text \<open>\<^verbatim>\<open>raw.pagination?.member ?? dflt\<close>\<close>

definition page_member :: "js_value \<Rightarrow> string \<Rightarrow> js_value \<Rightarrow> js_value" where
  "page_member raw member dflt =
     (let pagination = field raw ''pagination'' in
      if nullish pagination then dflt else nullish_or (field pagination member) dflt)"

text \<open>\<^verbatim>\<open>(raw.member ?? []).map(f)\<close>\<close>

definition rows_of :: "js_value \<Rightarrow> string \<Rightarrow> (js_value list \<Rightarrow> client_error + 'a) \<Rightarrow> client_error + 'a" where
  "rows_of raw member k =
     with_member raw member (\<lambda>rows. with_array (nullish_or rows (JArray [])) ''(intermediate value)'' k)"

definition paged :: "js_value \<Rightarrow> int \<Rightarrow> int \<Rightarrow> 'a list \<Rightarrow> 'a indexer_page" where
  "paged raw limit offset entries =
     \<lparr>pg_entries = entries, pg_limit = page_member raw ''limit'' (JNumber (page_limit 200 limit)),
      pg_offset = page_member raw ''offset'' (JNumber (max offset 0)),
      pg_hasMore = page_member raw ''hasMore'' (JBoolean False)\<rparr>"

end
