(* ===== verification/SdkBonds.thy ===== *)
theory SdkBonds
  imports SdkSubmit
begin

section \<open>The proposal-bonds and guardian-council clients of the SDK\<close>

text \<open>
  \<^verbatim>\<open>ProposalBondsClient\<close> of \<^verbatim>\<open>sdk/src/proposalBonds.ts\<close> and \<^verbatim>\<open>GuardianCouncilClient\<close> of \<^verbatim>\<open>sdk/src/guardianCouncil.ts\<close> with the
  encoding of its actions. The guardian council client does not retry; its reads need a simulation account.
\<close>

subsection \<open>Proposal bonds\<close>

record ProposalBond =
  bn_proposer :: string
  bn_descriptionHash :: string
  bn_amount :: int
  bn_lockedLedger :: js_number
  bn_state :: js_value

record ProposalBondSettings =
  bs_bondToken :: string
  bs_bondAmount :: int
  bs_governor :: string
  bs_refundGraceLedgers :: js_number
  bs_maxLockLedgers :: js_number

definition ProposalBondsErr :: "string \<Rightarrow> string \<Rightarrow> client_error" where
  "ProposalBondsErr code message = typed ''ProposalBondsError'' (the (map_of ProposalBondsErrorCode code)) message"

definition ProposalBondsClient :: "stellar \<Rightarrow> config \<Rightarrow> string option \<Rightarrow> client_error + client" where
  "ProposalBondsClient stellar config proposalBondsAddress =
     (if or_else proposalBondsAddress '''' = ''''
      then Inl (ProposalBondsErr ''TransactionFailed'' ''ProposalBondsClient requires config.proposalBondsAddress'')
      else open_client stellar config network_defaults (or_else proposalBondsAddress ''''))"

definition bonds_readAccount :: "client \<Rightarrow> string" where
  "bonds_readAccount cl = or_else (cl_simulationAccount cl) (cl_contract cl)"

text \<open>\<^verbatim>\<open>Array.isArray(rawState) && typeof rawState[0] === "string" ? rawState[0] : rawState\<close>\<close>

definition bond_state :: "js_value \<Rightarrow> js_value" where
  "bond_state rawState = (case rawState of JArray (JString s # _) \<Rightarrow> JString s | _ \<Rightarrow> rawState)"

definition client_parseBond :: "js_value \<Rightarrow> client_error + ProposalBond" where
  "client_parseBond native =
     with_member native ''description_hash'' (\<lambda>rawDescriptionHash.
     with_text_or_hex rawDescriptionHash (\<lambda>descriptionHash.
     with_BigInt (field native ''amount'') (\<lambda>amount.
       Inr \<lparr>bn_proposer = js_String (field native ''proposer''), bn_descriptionHash = descriptionHash, bn_amount = amount,
            bn_lockedLedger = js_Number (field native ''locked_ledger''), bn_state = bond_state (field native ''state'')\<rparr>)))"

definition bonds_pollForConfirmation :: "'w rpc \<Rightarrow> client \<Rightarrow> string \<Rightarrow> ('w, js_value option) io" where
  "bonds_pollForConfirmation rpc cl hash =
     poll_confirmation ''ProposalBondsError'' (the (map_of ProposalBondsErrorCode ''TransactionFailed''))
       (the (map_of ProposalBondsErrorCode ''TransactionTimeout'')) 10 rpc cl hash"

definition bonds_submit :: "'w rpc \<Rightarrow> client \<Rightarrow> string \<Rightarrow> string \<Rightarrow> sc_arg list \<Rightarrow> ('w, string \<times> js_value option) io" where
  "bonds_submit rpc cl signer fnName args =
     and_then (encode_args rpc args) (\<lambda>_.
     retrying cl None (submit_and_confirm rpc cl (sent_error ''ProposalBondsError'' parseProposalBondsError)
       (bonds_pollForConfirmation rpc cl) signer fnName args (\<lambda>hash confirmed. Inr (hash, confirmed))))"

definition bonds_submitWithSign :: "'w rpc \<Rightarrow> client \<Rightarrow> string \<Rightarrow> string \<Rightarrow> sc_arg list \<Rightarrow> ('w, string \<times> js_value option) io" where
  "bonds_submitWithSign rpc cl signerPublicKey fnName args =
     and_then (encode_args rpc args) (\<lambda>_.
     retrying cl None (submit_signed rpc cl (sent_error ''ProposalBondsError'' parseProposalBondsError)
       (bonds_pollForConfirmation rpc cl) signerPublicKey fnName args (\<lambda>hash confirmed. Inr (hash, confirmed))))"

definition with_bytes32 :: "string \<Rightarrow> (bytes \<Rightarrow> ('w, 'a) io) \<Rightarrow> ('w, 'a) io" where
  "with_bytes32 hex k = (case hexToBytes32 hex of Inl m \<Rightarrow> throwing (js_error_of ''Error'' m) | Inr bs \<Rightarrow> k bs)"

definition hash_of :: "string \<times> js_value option \<Rightarrow> ('w, string) io" where
  "hash_of result = returning (fst result)"

definition client_lockBond :: "'w rpc \<Rightarrow> client \<Rightarrow> string \<Rightarrow> string \<Rightarrow> ('w, string) io" where
  "client_lockBond rpc cl signer descriptionHash =
     with_bytes32 descriptionHash (\<lambda>h. and_then (bonds_submit rpc cl signer ''lock_bond'' [AAddress signer, ABytes h]) hash_of)"

definition lockBondWithSign :: "'w rpc \<Rightarrow> client \<Rightarrow> string \<Rightarrow> string \<Rightarrow> ('w, string) io" where
  "lockBondWithSign rpc cl signerPublicKey descriptionHash =
     with_bytes32 descriptionHash (\<lambda>h.
       and_then (bonds_submitWithSign rpc cl signerPublicKey ''lock_bond'' [AAddress signerPublicKey, ABytes h]) hash_of)"

definition client_refundBond :: "'w rpc \<Rightarrow> client \<Rightarrow> string \<Rightarrow> string \<Rightarrow> int \<Rightarrow> ('w, string) io" where
  "client_refundBond rpc cl caller descriptionHash proposalId =
     with_bytes32 descriptionHash (\<lambda>h.
       and_then (bonds_submit rpc cl caller ''refund_bond'' [AAddress caller, ABytes h, AU64 proposalId]) hash_of)"

definition refundBondWithSign :: "'w rpc \<Rightarrow> client \<Rightarrow> string \<Rightarrow> string \<Rightarrow> int \<Rightarrow> ('w, string) io" where
  "refundBondWithSign rpc cl callerPublicKey descriptionHash proposalId =
     with_bytes32 descriptionHash (\<lambda>h.
       and_then (bonds_submitWithSign rpc cl callerPublicKey ''refund_bond'' [AAddress callerPublicKey, ABytes h, AU64 proposalId]) hash_of)"

definition encodeSlashCalldata :: "'w rpc \<Rightarrow> (sc_arg \<Rightarrow> bytes) \<Rightarrow> string \<Rightarrow> string \<Rightarrow> string \<Rightarrow> ('w, bytes) io" where
  "encodeSlashCalldata rpc toXDR governorAddress descriptionHash recipient =
     and_then (encode_args rpc [AAddress governorAddress]) (\<lambda>_.
     with_bytes32 descriptionHash (\<lambda>h.
     and_then (encode_args rpc [ABytes h, AAddress recipient]) (\<lambda>_.
       returning (toXDR (AVec [AAddress governorAddress, ABytes h, AAddress recipient])))))"

definition bonds_failed :: "string \<Rightarrow> client_error + 'a" where
  "bonds_failed err = Inl (parsed ''ProposalBondsError'' (parseProposalBondsError (RawObject (Some ''ERROR'') (Some err))))"

text \<open>The hash is converted when the call is built, after \<^verbatim>\<open>getAccount\<close>.\<close>

definition client_getBond :: "'w rpc \<Rightarrow> client \<Rightarrow> string \<Rightarrow> ('w, ProposalBond option) io" where
  "client_getBond rpc cl descriptionHash =
     retrying cl None
       (case hexToBytes32 descriptionHash of
          Inl m \<Rightarrow> and_then (asking (rp_getAccount rpc (bonds_readAccount cl))) (\<lambda>_. throwing (js_error_of ''Error'' m))
        | Inr h \<Rightarrow>
            read_call rpc cl (bonds_readAccount cl) ''get_bond'' [ABytes h] bonds_failed (Inr None)
              (\<lambda>native. if nullish native then Inr None else bind_sum (client_parseBond native) (\<lambda>b. Inr (Some b))))"

definition bonds_getSettings :: "'w rpc \<Rightarrow> client \<Rightarrow> ('w, ProposalBondSettings) io" where
  "bonds_getSettings rpc cl =
     retrying cl None
       (read_call rpc cl (bonds_readAccount cl) ''get_settings'' [] bonds_failed
          (Inl (ProposalBondsErr ''MissingReturnValue'' ''No return value from get_settings''))
          (\<lambda>native. with_member native ''bond_token'' (\<lambda>bondToken.
             with_BigInt (field native ''bond_amount'') (\<lambda>bondAmount.
               Inr \<lparr>bs_bondToken = js_String bondToken, bs_bondAmount = bondAmount,
                    bs_governor = js_String (field native ''governor''),
                    bs_refundGraceLedgers = js_Number (field native ''refund_grace_ledgers''),
                    bs_maxLockLedgers = js_Number (field native ''max_lock_ledgers'')\<rparr>))))"

definition bonds_request_failed :: "http_response \<Rightarrow> client_error" where
  "bonds_request_failed resp =
     ProposalBondsErr ''TransactionFailed'' (''Indexer request failed: '' @ dec_int (hr_status resp) @ '' '' @ hr_statusText resp)"

definition bonds_indexerRequest :: "'w rpc \<Rightarrow> client \<Rightarrow> string \<Rightarrow> ('w, js_value) io" where
  "bonds_indexerRequest rpc cl path =
     (if or_else (cl_indexerUrl cl) '''' = ''''
      then throwing (ProposalBondsErr ''SimulationFailed'' (''ProposalBondsClient.'' @ path @ '' requires config.indexerUrl to be set''))
      else retrying cl None (fetch_json rpc bonds_request_failed (or_else (cl_indexerUrl cl) '''' @ path)))"

definition mapBondFromIndexer :: "js_value \<Rightarrow> client_error + ProposalBond" where
  "mapBondFromIndexer raw =
     with_member raw ''proposer_address'' (\<lambda>proposer.
     with_BigInt (or_zero (field raw ''amount'')) (\<lambda>amount.
       Inr \<lparr>bn_proposer = js_String (nullish_or proposer (field raw ''proposer'')),
            bn_descriptionHash = js_String (nullish_or (field raw ''description_hash'') (JString '''')), bn_amount = amount,
            bn_lockedLedger = js_Number (or_zero (field raw ''locked_ledger'')),
            bn_state = (let s = toLowerCase (js_String (field raw ''state'')) in
              JString (if s = ''refunded'' then ''Refunded'' else if s = ''slashed'' then ''Slashed'' else ''Locked''))\<rparr>))"

record ListBondsOptions =
  lb_state :: "string option"
  lb_page :: "int option"
  lb_limit :: "int option"

definition optional_params :: "(string \<times> string option) list \<Rightarrow> (string \<times> string) list" where
  "optional_params ps = List.map_filter (\<lambda>(k, v). map_option (Pair k) v) ps"

text \<open>\<^verbatim>\<open>if (s) params.set(...)\<close>: the empty string and zero are left out.\<close>

definition truthy_text :: "string option \<Rightarrow> string option" where
  "truthy_text s = (if s = Some '''' then None else s)"

definition truthy_number :: "int option \<Rightarrow> string option" where
  "truthy_number n = (if n = Some 0 then None else map_option dec_int n)"

definition query_string :: "(string \<times> string) list \<Rightarrow> string" where
  "query_string ps = (if ps = [] then '''' else ''?'' @ URLSearchParams ps)"

definition listBonds :: "'w rpc \<Rightarrow> client \<Rightarrow> ListBondsOptions \<Rightarrow> ('w, ProposalBond list \<times> js_value \<times> js_value \<times> js_value) io" where
  "listBonds rpc cl options =
     and_then (bonds_indexerRequest rpc cl (''/proposal-bonds'' @ query_string (optional_params
         [(''state'', truthy_text (lb_state options)), (''page'', truthy_number (lb_page options)),
          (''limit'', truthy_number (lb_limit options))]))) (\<lambda>raw.
       settle (with_member raw ''data'' (\<lambda>rows. with_array rows ''raw.data'' (\<lambda>rows.
         bind_sum (map_throwing mapBondFromIndexer rows) (\<lambda>bonds.
         with_member (field raw ''pagination'') ''page'' (\<lambda>page.
           Inr (bonds, page, field (field raw ''pagination'') ''limit'', field (field raw ''pagination'') ''hasMore'')))))))"

definition getBondsByProposer :: "'w rpc \<Rightarrow> client \<Rightarrow> string \<Rightarrow> ('w, ProposalBond list) io" where
  "getBondsByProposer rpc cl address =
     and_then (bonds_indexerRequest rpc cl (''/proposal-bonds/by-proposer/'' @ address)) (\<lambda>raw.
       settle (with_member raw ''data'' (\<lambda>rows. with_array rows ''raw.data'' (map_throwing mapBondFromIndexer))))"

definition getProposalIdForDescriptionHash :: "'w rpc \<Rightarrow> client \<Rightarrow> string \<Rightarrow> ('w, int option) io" where
  "getProposalIdForDescriptionHash rpc cl descriptionHash =
     (if or_else (cl_indexerUrl cl) '''' = ''''
      then throwing (ProposalBondsErr ''SimulationFailed''
        ''ProposalBondsClient.getProposalIdForDescriptionHash requires config.indexerUrl to be set'')
      else retrying cl None
        (and_then (asking (rp_fetch rpc (get_request
             (or_else (cl_indexerUrl cl) '''' @ ''/proposals/by-description-hash/'' @ descriptionHash)))) (\<lambda>resp.
           settle (if hr_status resp = 404 then Inr None
                   else if \<not> response_ok resp then Inl (bonds_request_failed resp)
                   else bind_sum (hr_json resp) (\<lambda>proposal. with_member proposal ''id'' (\<lambda>i. with_BigInt i (\<lambda>n. Inr (Some n))))))))"

interpretation bonds: cautious_client "''ProposalBondsError''" "the (map_of ProposalBondsErrorCode ''TransactionFailed'')"
  "the (map_of ProposalBondsErrorCode ''TransactionTimeout'')" "\<lambda>_. sent_error ''ProposalBondsError'' parseProposalBondsError" bonds_submit
  by unfold_locales (simp add: bonds_submit_def bonds_pollForConfirmation_def [abs_def])

text \<open>A bond is locked at most once by a call whose confirmation is slow.\<close>

theorem lockBond_slow_sent_once:
  assumes "takes_all rpc H" "answers rpc TxMissing" "1 \<le> attempts_of cl" "network_retries cl" "hexToBytes32 descriptionHash = Inr h"
  shows "\<exists>e s' x. client_lockBond rpc cl signer descriptionHash s = (Inl e, s') \<and> ss_sent s' = ss_sent s @ [x] \<and>
    same_call cl signer ''lock_bond'' [AAddress signer, ABytes h] x"
  using bonds.slow_sent_once [OF assms(1-4), of signer "''lock_bond''" "[AAddress signer, ABytes h]" s] assms(5)
  by (auto simp: client_lockBond_def with_bytes32_def and_then_def)

subsection \<open>Guardian council: actions\<close>

datatype GuardianAction =
  Pause
| Unpause
| CancelActive int
| CancelQueued int
| RotateMember string string
| SetThreshold js_number
| SetActionTtl js_number

fun action_tag :: "GuardianAction \<Rightarrow> string" where
  "action_tag Pause = ''Pause''"
| "action_tag Unpause = ''Unpause''"
| "action_tag (CancelActive _) = ''CancelActive''"
| "action_tag (CancelQueued _) = ''CancelQueued''"
| "action_tag (RotateMember _ _) = ''RotateMember''"
| "action_tag (SetThreshold _) = ''SetThreshold''"
| "action_tag (SetActionTtl _) = ''SetActionTtl''"

text \<open>\<^verbatim>\<open>RotateMember old new\<close>; the keys of the map are in order.\<close>

definition encodeGuardianAction :: "GuardianAction \<Rightarrow> sc_arg" where
  "encodeGuardianAction action =
     AVec (ASymbol (action_tag action) #
       (case action of
          CancelActive proposalId \<Rightarrow> [AU64 proposalId]
        | CancelQueued proposalId \<Rightarrow> [AU64 proposalId]
        | SetThreshold threshold \<Rightarrow> [AU32Number threshold]
        | SetActionTtl ttlLedgers \<Rightarrow> [AU32Number ttlLedgers]
        | RotateMember old new \<Rightarrow> [AMap [(''new'', AAddress new), (''old'', AAddress old)]]
        | _ \<Rightarrow> []))"

definition decodeGuardianAction :: "js_value \<Rightarrow> client_error + GuardianAction" where
  "decodeGuardianAction raw =
     (case raw of
        JArray vs \<Rightarrow>
          let tag = elem raw 0; value = elem raw 1 in
          if tag = JString ''Pause'' then Inr Pause
          else if tag = JString ''Unpause'' then Inr Unpause
          else if tag = JString ''CancelActive'' then with_BigInt value (\<lambda>n. Inr (CancelActive n))
          else if tag = JString ''CancelQueued'' then with_BigInt value (\<lambda>n. Inr (CancelQueued n))
          else if tag = JString ''SetThreshold'' then Inr (SetThreshold (js_Number value))
          else if tag = JString ''SetActionTtl'' then Inr (SetActionTtl (js_Number value))
          else if tag = JString ''RotateMember''
          then with_member value ''old'' (\<lambda>old. Inr (RotateMember (js_String old) (js_String (field value ''new''))))
          else Inl (js_error_of ''Error'' (''Unknown GuardianAction: '' @ js_String tag))
      | _ \<Rightarrow> Inl (js_error_of ''Error'' ''Invalid GuardianAction''))"

text \<open>\<^verbatim>\<open>/Error\(Contract, #4\)/.test(err.message)\<close>\<close>

definition isActionNotFound :: "client_error \<Rightarrow> bool" where
  "isActionNotFound err = (case ce_message err of None \<Rightarrow> False | Some m \<Rightarrow> str_includes m ''Error(Contract, #4)'')"

subsection \<open>Guardian council: the client\<close>

record PendingAction =
  pa_id :: int
  pa_action :: GuardianAction
  pa_proposer :: string
  pa_createdLedger :: js_number
  pa_approvals :: js_value
  pa_executed :: bool

definition GuardianCouncilClient :: "stellar \<Rightarrow> config \<Rightarrow> string \<Rightarrow> client_error + client" where
  "GuardianCouncilClient stellar config guardianCouncilAddress = open_client stellar config no_options guardianCouncilAddress"

definition council_rejected :: "SendTransactionResponse \<Rightarrow> client_error" where
  "council_rejected sent = js_error_of ''Error'' (''Guardian council transaction rejected: '' @ sr_json sent)"

text \<open>The polling loop of \<^verbatim>\<open>send\<close>: twenty rounds, without retries.\<close>

definition council_poll :: "'w rpc \<Rightarrow> string \<Rightarrow> ('w, js_value option) io" where
  "council_poll rpc hash =
     poll_rounds (asking (rp_getTransaction rpc hash))
       (js_error_of ''Error'' (''Guardian council transaction failed: '' @ hash))
       (js_error_of ''Error'' (''Guardian council transaction confirmation timed out: '' @ hash)) 20"

definition council_submit :: "'w rpc \<Rightarrow> client \<Rightarrow> string \<Rightarrow> string \<Rightarrow> sc_arg list \<Rightarrow> ('w, string \<times> js_value option) io" where
  "council_submit rpc cl signer fn args =
     and_then (encode_args rpc args) (\<lambda>_.
       submit_and_confirm rpc cl council_rejected (council_poll rpc) signer fn args (\<lambda>hash returnValue. Inr (hash, returnValue)))"

definition council_submitWithSign :: "'w rpc \<Rightarrow> client \<Rightarrow> string \<Rightarrow> string \<Rightarrow> sc_arg list \<Rightarrow> ('w, string \<times> js_value option) io" where
  "council_submitWithSign rpc cl signerPublicKey fn args =
     and_then (encode_args rpc args) (\<lambda>_.
       submit_signed rpc cl council_rejected (council_poll rpc) signerPublicKey fn args (\<lambda>hash returnValue. Inr (hash, returnValue)))"

definition council_simulate :: "'w rpc \<Rightarrow> client \<Rightarrow> string \<Rightarrow> sc_arg list \<Rightarrow> ('w, js_value) io" where
  "council_simulate rpc cl fn args =
     and_then (encode_args rpc args) (\<lambda>_.
     if or_else (cl_simulationAccount cl) '''' = ''''
     then throwing (js_error_of ''Error'' ''simulationAccount is required for guardian council views'')
     else read_call rpc cl (or_else (cl_simulationAccount cl) '''') fn args
       (\<lambda>err. Inl (js_error_of ''Error'' (''Guardian council simulation failed: '' @ err)))
       (Inl (js_error_of ''Error'' ''Guardian council simulation returned no value'')) Inr)"

definition council_initialize :: "'w rpc \<Rightarrow> client \<Rightarrow> string \<Rightarrow> string list \<Rightarrow> int \<Rightarrow> string \<Rightarrow> int \<Rightarrow> ('w, string) io" where
  "council_initialize rpc cl signer members threshold governor actionTtlLedgers =
     and_then (council_submit rpc cl signer ''initialize''
       [AVec (map AAddress members), AU32 threshold, AAddress governor, AU32 actionTtlLedgers]) hash_of"

definition action_id_of :: "string \<times> js_value option \<Rightarrow> ('w, int) io" where
  "action_id_of result =
     settle (value_or (js_error_of ''Error'' ''Missing action ID in transaction result'') (\<lambda>v. with_BigInt v Inr) (snd result))"

definition proposeAction :: "'w rpc \<Rightarrow> client \<Rightarrow> string \<Rightarrow> GuardianAction \<Rightarrow> ('w, int) io" where
  "proposeAction rpc cl proposer action =
     and_then (council_submit rpc cl proposer ''propose_action'' [AAddress proposer, encodeGuardianAction action]) action_id_of"

definition approveAction :: "'w rpc \<Rightarrow> client \<Rightarrow> string \<Rightarrow> int \<Rightarrow> ('w, string) io" where
  "approveAction rpc cl member actionId =
     and_then (council_submit rpc cl member ''approve_action'' [AAddress member, AU64 actionId]) hash_of"

definition revokeApproval :: "'w rpc \<Rightarrow> client \<Rightarrow> string \<Rightarrow> int \<Rightarrow> ('w, string) io" where
  "revokeApproval rpc cl member actionId =
     and_then (council_submit rpc cl member ''revoke_approval'' [AAddress member, AU64 actionId]) hash_of"

definition executeAction :: "'w rpc \<Rightarrow> client \<Rightarrow> string \<Rightarrow> int \<Rightarrow> ('w, string) io" where
  "executeAction rpc cl caller actionId = and_then (council_submit rpc cl caller ''execute_action'' [AU64 actionId]) hash_of"

definition proposeActionWithSign :: "'w rpc \<Rightarrow> client \<Rightarrow> string \<Rightarrow> GuardianAction \<Rightarrow> ('w, int) io" where
  "proposeActionWithSign rpc cl proposerPublicKey action =
     and_then (council_submitWithSign rpc cl proposerPublicKey ''propose_action''
       [AAddress proposerPublicKey, encodeGuardianAction action]) action_id_of"

definition approveActionWithSign :: "'w rpc \<Rightarrow> client \<Rightarrow> string \<Rightarrow> int \<Rightarrow> ('w, string) io" where
  "approveActionWithSign rpc cl memberPublicKey actionId =
     and_then (council_submitWithSign rpc cl memberPublicKey ''approve_action'' [AAddress memberPublicKey, AU64 actionId]) hash_of"

definition revokeApprovalWithSign :: "'w rpc \<Rightarrow> client \<Rightarrow> string \<Rightarrow> int \<Rightarrow> ('w, string) io" where
  "revokeApprovalWithSign rpc cl memberPublicKey actionId =
     and_then (council_submitWithSign rpc cl memberPublicKey ''revoke_approval'' [AAddress memberPublicKey, AU64 actionId]) hash_of"

definition executeActionWithSign :: "'w rpc \<Rightarrow> client \<Rightarrow> string \<Rightarrow> int \<Rightarrow> ('w, string) io" where
  "executeActionWithSign rpc cl callerPublicKey actionId =
     and_then (council_submitWithSign rpc cl callerPublicKey ''execute_action'' [AU64 actionId]) hash_of"

definition parsePendingAction :: "js_value \<Rightarrow> client_error + PendingAction" where
  "parsePendingAction raw =
     with_member raw ''id'' (\<lambda>i. with_BigInt (JString (js_String i)) (\<lambda>i.
     bind_sum (decodeGuardianAction (field raw ''action'')) (\<lambda>action.
       Inr \<lparr>pa_id = i, pa_action = action, pa_proposer = js_String (field raw ''proposer''),
            pa_createdLedger = js_Number (field raw ''created_ledger''), pa_approvals = field raw ''approvals'',
            pa_executed = js_Boolean (field raw ''executed'')\<rparr>)))"

definition getAction :: "'w rpc \<Rightarrow> client \<Rightarrow> int \<Rightarrow> ('w, PendingAction) io" where
  "getAction rpc cl actionId = and_then (council_simulate rpc cl ''get_action'' [AU64 actionId]) (\<lambda>raw. settle (parsePendingAction raw))"

definition getMembers :: "'w rpc \<Rightarrow> client \<Rightarrow> ('w, js_value) io" where
  "getMembers rpc cl = council_simulate rpc cl ''get_members'' []"

definition council_getThreshold :: "'w rpc \<Rightarrow> client \<Rightarrow> ('w, js_number) io" where
  "council_getThreshold rpc cl = and_then (council_simulate rpc cl ''get_threshold'' []) (\<lambda>v. returning (js_Number v))"

definition getActionTtl :: "'w rpc \<Rightarrow> client \<Rightarrow> ('w, js_number) io" where
  "getActionTtl rpc cl = and_then (council_simulate rpc cl ''get_action_ttl'' []) (\<lambda>v. returning (js_Number v))"

definition council_getGovernor :: "'w rpc \<Rightarrow> client \<Rightarrow> ('w, string) io" where
  "council_getGovernor rpc cl = and_then (council_simulate rpc cl ''get_governor'' []) (\<lambda>v. returning (js_String v))"

text \<open>The loop of \<^verbatim>\<open>listActions\<close>: \<open>n\<close> is the room left in the result.\<close>

fun action_loop :: "'w rpc \<Rightarrow> client \<Rightarrow> int \<Rightarrow> nat \<Rightarrow> ('w, PendingAction list) io" where
  "action_loop rpc cl i 0 s = (Inr [], s)"
| "action_loop rpc cl i (Suc n) s =
     (case getAction rpc cl i s of (r, s') \<Rightarrow>
        (case r of
           Inl err \<Rightarrow> if isActionNotFound err then (Inr [], s') else (Inl err, s')
         | Inr action \<Rightarrow> and_then (action_loop rpc cl (i + 1) n) (\<lambda>rest. returning (action # rest)) s'))"

definition listActions :: "'w rpc \<Rightarrow> client \<Rightarrow> int \<Rightarrow> int \<Rightarrow> ('w, PendingAction list) io" where
  "listActions rpc cl startId limit = action_loop rpc cl startId (nat limit)"

subsection \<open>Guardian council: actions survive the contract\<close>

text \<open>What \<^verbatim>\<open>scValToNative\<close> makes of the values that an encoded action is built from, within the range of their types.\<close>

definition native_laws :: "(sc_arg \<Rightarrow> js_value) \<Rightarrow> bool" where
  "native_laws toNative \<longleftrightarrow>
     (\<forall>vs. toNative (AVec vs) = JArray (map toNative vs)) \<and>
     (\<forall>entries. toNative (AMap entries) = JObject (map (\<lambda>(k, v). (k, toNative v)) entries)) \<and>
     (\<forall>s. toNative (ASymbol s) = JString s) \<and> (\<forall>a. toNative (AAddress a) = JString a) \<and>
     (\<forall>n. 0 \<le> n \<and> n < 2 ^ 64 \<longrightarrow> toNative (AU64 n) = JBigint n) \<and>
     (\<forall>n. 0 \<le> n \<and> n < 2 ^ 32 \<longrightarrow> toNative (AU32Number (js_int n)) = JNumber n)"

definition u32_number :: "js_number \<Rightarrow> bool" where
  "u32_number x = (case x of Finite q \<Rightarrow> q = of_int \<lfloor>q\<rfloor> \<and> 0 \<le> q \<and> q < 2 ^ 32 | _ \<Rightarrow> False)"

fun action_wf :: "GuardianAction \<Rightarrow> bool" where
  "action_wf (SetThreshold threshold) = u32_number threshold"
| "action_wf (SetActionTtl ttlLedgers) = u32_number ttlLedgers"
| "action_wf (CancelActive proposalId) = (0 \<le> proposalId \<and> proposalId < 2 ^ 64)"
| "action_wf (CancelQueued proposalId) = (0 \<le> proposalId \<and> proposalId < 2 ^ 64)"
| "action_wf _ = True"

lemma u32_numberE: "u32_number x \<Longrightarrow> (\<And>n. x = js_int n \<Longrightarrow> 0 \<le> n \<Longrightarrow> n < 2 ^ 32 \<Longrightarrow> P) \<Longrightarrow> P"
proof -
  assume "u32_number x" and P: "\<And>n. x = js_int n \<Longrightarrow> 0 \<le> n \<Longrightarrow> n < 2 ^ 32 \<Longrightarrow> P"
  then obtain q where q: "x = Finite q" "q = of_int \<lfloor>q\<rfloor>" "0 \<le> q" "q < 2 ^ 32" by (auto simp: u32_number_def split: js_number.splits)
  have "\<lfloor>q\<rfloor> < 2 ^ 32" using q(4) by (simp add: floor_less_iff)
  with q show P by (intro P [of "\<lfloor>q\<rfloor>"]) simp_all
qed

text \<open>An action that the council stores and returns unchanged is decoded to the action that was proposed, for every kind
  of action whose numbers are in the range of their contract types.\<close>

theorem guardian_action_roundtrip:
  assumes "native_laws toNative" "action_wf action"
  shows "decodeGuardianAction (toNative (encodeGuardianAction action)) = Inr action"
  using assms
  by (cases action)
    (auto simp: native_laws_def encodeGuardianAction_def decodeGuardianAction_def with_BigInt_def with_member_def nullish_def
      elem_def field_def js_BigInt_def Let_def elim!: u32_numberE)

text \<open>A conversion with these laws.\<close>

fun plain_native :: "sc_arg \<Rightarrow> js_value" where
  "plain_native (AVec vs) = JArray (map plain_native vs)"
| "plain_native (AMap entries) = JObject (map (\<lambda>(k, v). (k, plain_native v)) entries)"
| "plain_native (ASymbol s) = JString s"
| "plain_native (AAddress a) = JString a"
| "plain_native (AU64 n) = JBigint n"
| "plain_native (AU32Number x) = (case x of Finite q \<Rightarrow> JNumber \<lfloor>q\<rfloor> | _ \<Rightarrow> JUndefined)"
| "plain_native _ = JUndefined"

theorem guardian_action_roundtrip_witness:
  "decodeGuardianAction (plain_native (encodeGuardianAction (RotateMember ''G1'' ''G2''))) = Inr (RotateMember ''G1'' ''G2'')"
  by (rule guardian_action_roundtrip) (simp_all add: native_laws_def cong: map_cong)

text \<open>\<^verbatim>\<open>listActions\<close> ends, and what it returns are the actions from \<open>startId\<close> on without a gap, never more than asked for.\<close>

lemma list_loop_consecutive:
  "action_loop rpc cl i n s = (Inr actions, s') \<Longrightarrow>
   length actions \<le> n \<and> (\<forall>k < length actions. \<exists>s0 s1. getAction rpc cl (i + int k) s0 = (Inr (actions ! k), s1))"
proof (induction rpc cl i n s arbitrary: actions s' rule: action_loop.induct)
  case (2 rpc cl i n s)
  obtain r s1 where g: "getAction rpc cl i s = (r, s1)" by force
  show ?case
  proof (cases r)
    case (Inl err)
    then show ?thesis using "2.prems" g by (auto split: if_splits)
  next
    case (Inr action)
    then obtain rest where rest: "action_loop rpc cl (i + 1) n s1 = (Inr rest, s')" "actions = action # rest"
      using "2.prems" g by (auto simp: and_then_resolved)
    from "2.IH" [OF g [symmetric] Inr rest(1)]
    have IH: "length rest \<le> n" "\<forall>k < length rest. \<exists>s0 s1. getAction rpc cl (i + 1 + int k) s0 = (Inr (rest ! k), s1)" by simp_all
    have "\<exists>s0 s1. getAction rpc cl (i + int k) s0 = (Inr (actions ! k), s1)" if "k < length actions" for k
      using that g Inr IH(2) rest(2) by (cases k) (auto simp: add.assoc)
    then show ?thesis using IH(1) rest(2) by simp
  qed
qed simp

theorem listActions_consecutive:
  assumes "listActions rpc cl startId limit s = (Inr actions, s')"
  shows "length actions \<le> nat limit \<and>
    (\<forall>k < length actions. \<exists>s0 s1. getAction rpc cl (startId + int k) s0 = (Inr (actions ! k), s1))"
  using list_loop_consecutive assms unfolding listActions_def by blast

end
