(* ===== verification/SdkStrategies.thy ===== *)
theory SdkStrategies
  imports SdkBonds
begin

section \<open>The treasury-strategies and voting-rewards clients of the SDK\<close>

text \<open>
  \<^verbatim>\<open>TreasuryStrategiesClient\<close> of \<^verbatim>\<open>sdk/src/treasuryStrategies.ts\<close> and \<^verbatim>\<open>VotingRewardsClient\<close> of \<^verbatim>\<open>sdk/src/votingRewards.ts\<close>.
\<close>

subsection \<open>Treasury strategies\<close>

record Strategy =
  st_adapter :: js_value
  st_token :: js_value
  st_maxAllocationBps :: js_number
  st_withdrawalCooldownLedgers :: js_number
  st_active :: bool

record Allocation =
  al_strategyId :: js_number
  al_amount :: int
  al_depositedLedger :: js_number

record StrategyPerformancePoint =
  pp_amount :: int
  pp_ledger :: js_number
  pp_createdAt :: string

record IndexedStrategy =
  is_strategyId :: js_number
  is_adapter :: js_value
  is_token :: js_value
  is_active :: bool
  is_currentAllocation :: int
  is_registeredLedger :: js_number

definition mapStrategy :: "js_value \<Rightarrow> client_error + Strategy" where
  "mapStrategy raw =
     with_member raw ''adapter'' (\<lambda>adapter.
       Inr \<lparr>st_adapter = adapter, st_token = field raw ''token'',
            st_maxAllocationBps = js_Number (field raw ''max_allocation_bps''),
            st_withdrawalCooldownLedgers = js_Number (field raw ''withdrawal_cooldown_ledgers''),
            st_active = js_Boolean (field raw ''active'')\<rparr>)"

definition mapAllocation :: "js_value \<Rightarrow> client_error + Allocation" where
  "mapAllocation raw =
     with_member raw ''strategy_id'' (\<lambda>strategyId.
     with_BigInt (or_zero (field raw ''amount'')) (\<lambda>amount.
       Inr \<lparr>al_strategyId = js_Number strategyId, al_amount = amount,
            al_depositedLedger = js_Number (field raw ''deposited_ledger'')\<rparr>))"

definition mapPerformancePoint :: "js_value \<Rightarrow> client_error + StrategyPerformancePoint" where
  "mapPerformancePoint raw =
     with_member raw ''amount'' (\<lambda>amount.
     with_BigInt (or_zero amount) (\<lambda>amount.
       Inr \<lparr>pp_amount = amount, pp_ledger = js_Number (field raw ''ledger''), pp_createdAt = js_String (field raw ''created_at'')\<rparr>))"

definition mapIndexedStrategy :: "js_value \<Rightarrow> client_error + IndexedStrategy" where
  "mapIndexedStrategy raw =
     with_member raw ''strategy_id'' (\<lambda>strategyId.
     with_BigInt (or_zero (field raw ''current_allocation'')) (\<lambda>currentAllocation.
       Inr \<lparr>is_strategyId = js_Number strategyId, is_adapter = field raw ''adapter'', is_token = field raw ''token'',
            is_active = js_Boolean (field raw ''active''), is_currentAllocation = currentAllocation,
            is_registeredLedger = js_Number (field raw ''registered_ledger'')\<rparr>))"

definition StrategiesErr :: "string \<Rightarrow> string \<Rightarrow> client_error" where
  "StrategiesErr code message = typed ''TreasuryStrategiesError'' (the (map_of TreasuryStrategiesErrorCode code)) message"

definition TreasuryStrategiesClient :: "stellar \<Rightarrow> config \<Rightarrow> string option \<Rightarrow> client_error + client" where
  "TreasuryStrategiesClient stellar config treasuryStrategiesAddress =
     (if or_else treasuryStrategiesAddress '''' = ''''
      then Inl (StrategiesErr ''SimulationFailed'' ''TreasuryStrategiesClient requires config.treasuryStrategiesAddress'')
      else open_client stellar config network_defaults (or_else treasuryStrategiesAddress ''''))"

definition strategies_readAccount :: "client \<Rightarrow> string" where
  "strategies_readAccount cl = or_else (cl_simulationAccount cl) (cl_contract cl)"

definition strategies_simulate :: "'w rpc \<Rightarrow> client \<Rightarrow> string \<Rightarrow> sc_arg list \<Rightarrow> ('w, js_value) io" where
  "strategies_simulate rpc cl fnName args =
     and_then (encode_args rpc args) (\<lambda>_.
     retrying cl None (read_call rpc cl (strategies_readAccount cl) fnName args
       (\<lambda>err. Inl (parsed ''TreasuryStrategiesError'' (parseTreasuryStrategiesError (RawObject (Some ''ERROR'') (Some err)))))
       (Inl (StrategiesErr ''MissingReturnValue'' (''No return value from '' @ fnName))) Inr))"

definition strategies_pollForConfirmation :: "'w rpc \<Rightarrow> client \<Rightarrow> string \<Rightarrow> ('w, js_value option) io" where
  "strategies_pollForConfirmation rpc cl hash =
     poll_confirmation ''TreasuryStrategiesError'' (the (map_of TreasuryStrategiesErrorCode ''TransactionFailed''))
       (the (map_of TreasuryStrategiesErrorCode ''TransactionTimeout'')) 10 rpc cl hash"

definition strategies_submit :: "'w rpc \<Rightarrow> client \<Rightarrow> string \<Rightarrow> string \<Rightarrow> sc_arg list \<Rightarrow> ('w, string \<times> js_value option) io" where
  "strategies_submit rpc cl signer fnName args =
     and_then (encode_args rpc args) (\<lambda>_.
     retrying cl None (submit_and_confirm rpc cl (sent_error ''TreasuryStrategiesError'' parseTreasuryStrategiesError)
       (strategies_pollForConfirmation rpc cl) signer fnName args (\<lambda>hash confirmed. Inr (hash, confirmed))))"

definition strategies_submitWithSign :: "'w rpc \<Rightarrow> client \<Rightarrow> string \<Rightarrow> string \<Rightarrow> sc_arg list \<Rightarrow> ('w, string \<times> js_value option) io" where
  "strategies_submitWithSign rpc cl signerPublicKey fnName args =
     and_then (encode_args rpc args) (\<lambda>_.
     retrying cl None (submit_signed rpc cl (sent_error ''TreasuryStrategiesError'' parseTreasuryStrategiesError)
       (strategies_pollForConfirmation rpc cl) signerPublicKey fnName args (\<lambda>hash confirmed. Inr (hash, confirmed))))"

definition strategies_indexerRequest :: "'w rpc \<Rightarrow> client \<Rightarrow> string \<Rightarrow> ('w, js_value) io" where
  "strategies_indexerRequest rpc cl path =
     (if or_else (cl_indexerUrl cl) '''' = ''''
      then throwing (StrategiesErr ''SimulationFailed''
        ''TreasuryStrategiesClient requires config.indexerUrl to be set for indexer-backed methods'')
      else retrying cl None
        (fetch_json rpc (\<lambda>resp. StrategiesErr ''SimulationFailed'' (''Indexer request failed: '' @ dec_int (hr_status resp)))
           (or_else (cl_indexerUrl cl) '''' @ path)))"

definition getStrategy :: "'w rpc \<Rightarrow> client \<Rightarrow> int \<Rightarrow> ('w, Strategy) io" where
  "getStrategy rpc cl strategyId =
     and_then (strategies_simulate rpc cl ''get_strategy'' [AU64 strategyId]) (\<lambda>raw. settle (mapStrategy raw))"

definition getAllocation :: "'w rpc \<Rightarrow> client \<Rightarrow> int \<Rightarrow> ('w, Allocation) io" where
  "getAllocation rpc cl strategyId =
     and_then (strategies_simulate rpc cl ''get_allocation'' [AU64 strategyId]) (\<lambda>raw. settle (mapAllocation raw))"

definition getTotalValue :: "'w rpc \<Rightarrow> client \<Rightarrow> string \<Rightarrow> ('w, int) io" where
  "getTotalValue rpc cl token =
     and_then (strategies_simulate rpc cl ''get_total_value'' [AAddress token]) (\<lambda>raw. settle (with_BigInt raw Inr))"

definition withdrawal_id :: "js_value option \<Rightarrow> client_error + js_value" where
  "withdrawal_id confirmed =
     value_or (StrategiesErr ''MissingReturnValue'' ''No return value from request_withdrawal'') Inr confirmed"

definition requestWithdrawal :: "'w rpc \<Rightarrow> client \<Rightarrow> string \<Rightarrow> int \<Rightarrow> int \<Rightarrow> ('w, js_number) io" where
  "requestWithdrawal rpc cl signer strategyId amount =
     and_then (retrying cl None
       (submit_and_confirm rpc cl (sent_error ''TreasuryStrategiesError'' parseTreasuryStrategiesError)
          (strategies_pollForConfirmation rpc cl) signer ''request_withdrawal''
          [AAddress signer, AU64 strategyId, AI128 amount] (\<lambda>hash. withdrawal_id)))
       (\<lambda>withdrawalId. returning (js_Number withdrawalId))"

definition requestWithdrawalWithSign :: "'w rpc \<Rightarrow> client \<Rightarrow> string \<Rightarrow> int \<Rightarrow> int \<Rightarrow> ('w, js_number) io" where
  "requestWithdrawalWithSign rpc cl signerPublicKey strategyId amount =
     and_then (retrying cl None
       (submit_signed rpc cl (sent_error ''TreasuryStrategiesError'' parseTreasuryStrategiesError)
          (strategies_pollForConfirmation rpc cl) signerPublicKey ''request_withdrawal''
          [AAddress signerPublicKey, AU64 strategyId, AI128 amount] (\<lambda>hash. withdrawal_id)))
       (\<lambda>withdrawalId. returning (js_Number withdrawalId))"

definition claimWithdrawal :: "'w rpc \<Rightarrow> client \<Rightarrow> string \<Rightarrow> int \<Rightarrow> ('w, string) io" where
  "claimWithdrawal rpc cl signer withdrawalId =
     and_then (strategies_submit rpc cl signer ''claim_withdrawal'' [AU64 withdrawalId]) hash_of"

definition claimWithdrawalWithSign :: "'w rpc \<Rightarrow> client \<Rightarrow> string \<Rightarrow> int \<Rightarrow> ('w, string) io" where
  "claimWithdrawalWithSign rpc cl signerPublicKey withdrawalId =
     and_then (strategies_submitWithSign rpc cl signerPublicKey ''claim_withdrawal'' [AU64 withdrawalId]) hash_of"

record ListStrategiesOptions =
  ls_token :: "string option"
  ls_active :: "bool option"
  ls_limit :: "int option"
  ls_offset :: "int option"

definition listStrategies :: "'w rpc \<Rightarrow> client \<Rightarrow> ListStrategiesOptions \<Rightarrow> ('w, IndexedStrategy list) io" where
  "listStrategies rpc cl options =
     and_then (strategies_indexerRequest rpc cl (''/treasury-strategies?'' @ URLSearchParams
         (page_params 100 (or_else (ls_limit options) 20) (or_else (ls_offset options) 0) @
          optional_params [(''token'', truthy_text (ls_token options)),
            (''active'', map_option (\<lambda>b. if b then ''true'' else ''false'') (ls_active options))]))) (\<lambda>raw.
       settle (rows_of raw ''strategies'' (map_throwing mapIndexedStrategy)))"

definition performance_path :: "int \<Rightarrow> int \<Rightarrow> int \<Rightarrow> string" where
  "performance_path strategyId limit offset =
     ''/treasury-strategies/'' @ dec_int strategyId @ ''/performance'' @ page_query limit offset"

definition getPerformanceHistory :: "'w rpc \<Rightarrow> client \<Rightarrow> int \<Rightarrow> int \<Rightarrow> int \<Rightarrow> ('w, StrategyPerformancePoint list) io" where
  "getPerformanceHistory rpc cl strategyId limit offset =
     and_then (strategies_indexerRequest rpc cl (performance_path strategyId limit offset)) (\<lambda>raw.
       settle (rows_of raw ''principal_history'' (map_throwing mapPerformancePoint)))"

definition getPerformanceHistoryPage ::
  "'w rpc \<Rightarrow> client \<Rightarrow> int \<Rightarrow> int \<Rightarrow> int \<Rightarrow> ('w, StrategyPerformancePoint indexer_page) io" where
  "getPerformanceHistoryPage rpc cl strategyId limit offset =
     and_then (strategies_indexerRequest rpc cl (performance_path strategyId limit offset)) (\<lambda>raw.
       settle (bind_sum (rows_of raw ''principal_history'' (map_throwing mapPerformancePoint)) (\<lambda>entries.
         Inr (paged raw limit offset entries))))"

interpretation strategies: cautious_client "''TreasuryStrategiesError''" "the (map_of TreasuryStrategiesErrorCode ''TransactionFailed'')"
  "the (map_of TreasuryStrategiesErrorCode ''TransactionTimeout'')"
  "\<lambda>_. sent_error ''TreasuryStrategiesError'' parseTreasuryStrategiesError" strategies_submit
  by unfold_locales (simp add: strategies_submit_def strategies_pollForConfirmation_def [abs_def])

subsection \<open>Voting rewards\<close>

record VotingRewardsEpoch =
  vr_id :: int
  vr_startLedger :: js_number
  vr_endLedger :: js_number
  vr_merkleRoot :: "string option"
  vr_totalRewardAmount :: int
  vr_claimedAmount :: int
  vr_finalized :: bool

record ClaimableReward =
  cw_epochId :: int
  cw_amount :: int
  cw_merkleProof :: js_value
  cw_claimed :: js_value

definition RewardsErr :: "string \<Rightarrow> string \<Rightarrow> client_error" where
  "RewardsErr code message = typed ''VotingRewardsError'' (the (map_of VotingRewardsErrorCode code)) message"

definition VotingRewardsClient :: "stellar \<Rightarrow> config \<Rightarrow> string option \<Rightarrow> client_error + client" where
  "VotingRewardsClient stellar config votingRewardsAddress =
     (if or_else votingRewardsAddress '''' = ''''
      then Inl (RewardsErr ''TransactionFailed'' ''VotingRewardsClient requires config.votingRewardsAddress'')
      else open_client stellar config network_defaults (or_else votingRewardsAddress ''''))"

definition rewards_readAccount :: "client \<Rightarrow> string" where
  "rewards_readAccount cl = or_else (cl_simulationAccount cl) (cl_contract cl)"

fun proof_bytes :: "string list \<Rightarrow> string + bytes list" where
  "proof_bytes [] = Inr []"
| "proof_bytes (node # nodes) =
     (case hexToBytes32 node of Inl m \<Rightarrow> Inl m
      | Inr b \<Rightarrow> (case proof_bytes nodes of Inl m \<Rightarrow> Inl m | Inr bs \<Rightarrow> Inr (b # bs)))"

definition proofToScVal :: "string list \<Rightarrow> client_error + sc_arg" where
  "proofToScVal proof =
     (case proof_bytes proof of Inl m \<Rightarrow> Inl (js_error_of ''Error'' m) | Inr bs \<Rightarrow> Inr (AVec (map ABytes bs)))"

definition rewards_simulate :: "'w rpc \<Rightarrow> client \<Rightarrow> string \<Rightarrow> sc_arg list \<Rightarrow> ('w, js_value option) io" where
  "rewards_simulate rpc cl fnName args =
     and_then (encode_args rpc args) (\<lambda>_.
     retrying cl None (read_call rpc cl (rewards_readAccount cl) fnName args
       (\<lambda>err. Inl (parsed ''VotingRewardsError'' (parseVotingRewardsError (RawObject (Some ''ERROR'') (Some err)))))
       (Inr None) (\<lambda>v. Inr (Some v))))"

definition rewards_require ::
  "'w rpc \<Rightarrow> client \<Rightarrow> string \<Rightarrow> sc_arg list \<Rightarrow> (js_value \<Rightarrow> client_error + 'a) \<Rightarrow> ('w, 'a) io" where
  "rewards_require rpc cl fnName args parse =
     and_then (rewards_simulate rpc cl fnName args) (\<lambda>raw.
       settle (value_or (RewardsErr ''MissingReturnValue'' (''No return value from '' @ fnName)) parse raw))"

definition rewards_pollForConfirmation :: "'w rpc \<Rightarrow> client \<Rightarrow> string \<Rightarrow> ('w, js_value option) io" where
  "rewards_pollForConfirmation rpc cl hash =
     poll_confirmation ''VotingRewardsError'' (the (map_of VotingRewardsErrorCode ''TransactionFailed''))
       (the (map_of VotingRewardsErrorCode ''TransactionTimeout'')) 10 rpc cl hash"

definition rewards_submit :: "'w rpc \<Rightarrow> client \<Rightarrow> string \<Rightarrow> string \<Rightarrow> sc_arg list \<Rightarrow> ('w, string \<times> js_value option) io" where
  "rewards_submit rpc cl signer fnName args =
     and_then (encode_args rpc args) (\<lambda>_.
     retrying cl None (submit_and_confirm rpc cl (sent_error ''VotingRewardsError'' parseVotingRewardsError)
       (rewards_pollForConfirmation rpc cl) signer fnName args (\<lambda>hash confirmed. Inr (hash, confirmed))))"

definition rewards_submitWithSign :: "'w rpc \<Rightarrow> client \<Rightarrow> string \<Rightarrow> string \<Rightarrow> sc_arg list \<Rightarrow> ('w, string \<times> js_value option) io" where
  "rewards_submitWithSign rpc cl signerPublicKey fnName args =
     and_then (encode_args rpc args) (\<lambda>_.
     retrying cl None (submit_signed rpc cl (sent_error ''VotingRewardsError'' parseVotingRewardsError)
       (rewards_pollForConfirmation rpc cl) signerPublicKey fnName args (\<lambda>hash confirmed. Inr (hash, confirmed))))"

definition parseEpoch :: "js_value \<Rightarrow> client_error + VotingRewardsEpoch" where
  "parseEpoch native =
     with_member native ''merkle_root'' (\<lambda>rawRoot.
     (if nullish rawRoot then (\<lambda>k. k None) else (\<lambda>k. with_text_or_hex rawRoot (\<lambda>h. k (Some h)))) (\<lambda>merkleRoot.
     with_BigInt (field native ''id'') (\<lambda>i.
     with_BigInt (field native ''total_reward_amount'') (\<lambda>total.
     with_BigInt (field native ''claimed_amount'') (\<lambda>claimed.
       Inr \<lparr>vr_id = i, vr_startLedger = js_Number (field native ''start_ledger''),
            vr_endLedger = js_Number (field native ''end_ledger''), vr_merkleRoot = merkleRoot,
            vr_totalRewardAmount = total, vr_claimedAmount = claimed, vr_finalized = js_Boolean (field native ''finalized'')\<rparr>)))))"

definition getEpoch :: "'w rpc \<Rightarrow> client \<Rightarrow> int \<Rightarrow> ('w, VotingRewardsEpoch option) io" where
  "getEpoch rpc cl epochId =
     rewards_require rpc cl ''get_epoch'' [AU64 epochId]
       (\<lambda>native. if nullish native then Inr None else bind_sum (parseEpoch native) (\<lambda>e. Inr (Some e)))"

definition getCurrentEpochId :: "'w rpc \<Rightarrow> client \<Rightarrow> ('w, int) io" where
  "getCurrentEpochId rpc cl = rewards_require rpc cl ''get_current_epoch_id'' [] (\<lambda>v. with_BigInt v Inr)"

definition getAvailablePool :: "'w rpc \<Rightarrow> client \<Rightarrow> ('w, int) io" where
  "getAvailablePool rpc cl = rewards_require rpc cl ''get_available_pool'' [] (\<lambda>v. with_BigInt v Inr)"

definition rewards_getAdmin :: "'w rpc \<Rightarrow> client \<Rightarrow> ('w, string) io" where
  "rewards_getAdmin rpc cl = rewards_require rpc cl ''get_admin'' [] (\<lambda>v. Inr (js_String v))"

definition hasClaimed :: "'w rpc \<Rightarrow> client \<Rightarrow> int \<Rightarrow> string \<Rightarrow> ('w, bool) io" where
  "hasClaimed rpc cl epochId address =
     rewards_require rpc cl ''has_claimed'' [AU64 epochId, AAddress address] (\<lambda>v. Inr (js_Boolean v))"

definition with_proof :: "'w rpc \<Rightarrow> sc_arg list \<Rightarrow> string list \<Rightarrow> (sc_arg list \<Rightarrow> ('w, 'a) io) \<Rightarrow> ('w, 'a) io" where
  "with_proof rpc args proof k =
     and_then (encode_args rpc args) (\<lambda>_. and_then (settle (proofToScVal proof)) (\<lambda>v. k (args @ [v])))"

definition rewards_claim :: "'w rpc \<Rightarrow> client \<Rightarrow> string \<Rightarrow> int \<Rightarrow> int \<Rightarrow> string list \<Rightarrow> ('w, string) io" where
  "rewards_claim rpc cl claimant epochId amount proof =
     with_proof rpc [AAddress claimant, AU64 epochId, AI128 amount] proof (\<lambda>args.
       and_then (rewards_submit rpc cl claimant ''claim'' args) hash_of)"

definition claimWithSign :: "'w rpc \<Rightarrow> client \<Rightarrow> string \<Rightarrow> int \<Rightarrow> int \<Rightarrow> string list \<Rightarrow> ('w, string) io" where
  "claimWithSign rpc cl claimantPublicKey epochId amount proof =
     with_proof rpc [AAddress claimantPublicKey, AU64 epochId, AI128 amount] proof (\<lambda>args.
       and_then (rewards_submitWithSign rpc cl claimantPublicKey ''claim'' args) hash_of)"

definition fundPool :: "'w rpc \<Rightarrow> client \<Rightarrow> string \<Rightarrow> int \<Rightarrow> ('w, string) io" where
  "fundPool rpc cl funder amount = and_then (rewards_submit rpc cl funder ''fund_pool'' [AAddress funder, AI128 amount]) hash_of"

definition fundPoolWithSign :: "'w rpc \<Rightarrow> client \<Rightarrow> string \<Rightarrow> int \<Rightarrow> ('w, string) io" where
  "fundPoolWithSign rpc cl funderPublicKey amount =
     and_then (rewards_submitWithSign rpc cl funderPublicKey ''fund_pool'' [AAddress funderPublicKey, AI128 amount]) hash_of"

definition startNextEpoch :: "'w rpc \<Rightarrow> client \<Rightarrow> string \<Rightarrow> ('w, string) io" where
  "startNextEpoch rpc cl caller = and_then (rewards_submit rpc cl caller ''start_next_epoch'' []) hash_of"

definition publishEpochRoot :: "'w rpc \<Rightarrow> client \<Rightarrow> string \<Rightarrow> int \<Rightarrow> string \<Rightarrow> int \<Rightarrow> ('w, string) io" where
  "publishEpochRoot rpc cl admin epochId merkleRoot totalRewardAmount =
     and_then (encode_args rpc [AAddress admin, AU64 epochId]) (\<lambda>_.
     with_bytes32 merkleRoot (\<lambda>root.
       and_then (rewards_submit rpc cl admin ''publish_epoch_root''
         [AAddress admin, AU64 epochId, ABytes root, AI128 totalRewardAmount]) hash_of))"

definition encodePublishEpochRootCalldata ::
  "'w rpc \<Rightarrow> (sc_arg \<Rightarrow> bytes) \<Rightarrow> client \<Rightarrow> string \<Rightarrow> int \<Rightarrow> string \<Rightarrow> int \<Rightarrow> ('w, string \<times> string \<times> bytes) io" where
  "encodePublishEpochRootCalldata rpc toXDR cl adminAddress epochId merkleRoot totalRewardAmount =
     and_then (encode_args rpc [AAddress adminAddress, AU64 epochId]) (\<lambda>_.
     with_bytes32 merkleRoot (\<lambda>root.
     and_then (encode_args rpc [ABytes root, AI128 totalRewardAmount]) (\<lambda>_.
       returning (cl_contract cl, ''publish_epoch_root'',
         toXDR (AVec [AAddress adminAddress, AU64 epochId, ABytes root, AI128 totalRewardAmount])))))"

definition backendRequest :: "'w rpc \<Rightarrow> client \<Rightarrow> string \<Rightarrow> ('w, js_value) io" where
  "backendRequest rpc cl path =
     (if or_else (cl_backendUrl cl) '''' = ''''
      then throwing (RewardsErr ''SimulationFailed'' (''VotingRewardsClient.'' @ path @ '' requires config.backendUrl to be set''))
      else retrying cl None
        (fetch_json rpc (\<lambda>resp. RewardsErr ''TransactionFailed''
             (''Backend request failed: '' @ dec_int (hr_status resp) @ '' '' @ hr_statusText resp))
           (or_else (cl_backendUrl cl) '''' @ path)))"

definition data_rows :: "js_value \<Rightarrow> (js_value \<Rightarrow> client_error + 'a) \<Rightarrow> client_error + 'a list" where
  "data_rows raw f = with_member raw ''data'' (\<lambda>rows. with_array rows ''raw.data'' (map_throwing f))"

definition getClaimableRewards :: "'w rpc \<Rightarrow> client \<Rightarrow> string \<Rightarrow> ('w, ClaimableReward list) io" where
  "getClaimableRewards rpc cl address =
     and_then (backendRequest rpc cl (''/voting-rewards/claims/'' @ address)) (\<lambda>raw.
       settle (data_rows raw (\<lambda>row.
         with_member row ''epoch_id'' (\<lambda>e. with_BigInt e (\<lambda>epochId.
         with_BigInt (field row ''amount'') (\<lambda>amount.
           Inr \<lparr>cw_epochId = epochId, cw_amount = amount, cw_merkleProof = field row ''merkle_proof'',
                cw_claimed = field row ''claimed''\<rparr>))))))"

definition getEpochLeaderboard :: "'w rpc \<Rightarrow> client \<Rightarrow> int \<Rightarrow> int \<Rightarrow> ('w, (js_value \<times> int \<times> js_value) list) io" where
  "getEpochLeaderboard rpc cl epochId limit =
     and_then (backendRequest rpc cl (''/voting-rewards/epochs/'' @ dec_int epochId @ ''/leaderboard?limit='' @ dec_int limit)) (\<lambda>raw.
       settle (data_rows raw (\<lambda>row.
         with_member row ''claimant_address'' (\<lambda>address. with_BigInt (field row ''amount'') (\<lambda>amount.
           Inr (address, amount, field row ''claimed''))))))"

interpretation rewards: cautious_client "''VotingRewardsError''" "the (map_of VotingRewardsErrorCode ''TransactionFailed'')"
  "the (map_of VotingRewardsErrorCode ''TransactionTimeout'')" "\<lambda>_. sent_error ''VotingRewardsError'' parseVotingRewardsError" rewards_submit
  by unfold_locales (simp add: rewards_submit_def rewards_pollForConfirmation_def [abs_def])

text \<open>A claim of a reward that resolves was paid: the last transaction the client sent is this claim, with the amount and the
  bytes of the given proof, the node accepted it, and it reported the success of the transaction whose hash the call returns.\<close>

theorem claim_resolves_confirmed:
  assumes "rewards_claim rpc cl claimant epochId amount proof s = (Inr hash, s')"
  shows "\<exists>l tx result nodes v. proof_bytes proof = Inr nodes \<and> ss_sent s' = ss_sent s @ l @ [(tx, Inr result)] \<and>
    call_of cl claimant ''claim'' [AAddress claimant, AU64 epochId, AI128 amount, AVec (map ABytes nodes)] tx \<and>
    accepted result \<and> sr_hash result = hash \<and> reported rpc hash v"
proof -
  obtain s1 v nodes where e: "encode_args rpc [AAddress claimant, AU64 epochId, AI128 amount] s = (Inr (), s1)"
    and nodes: "proof_bytes proof = Inr nodes"
    and submit: "rewards_submit rpc cl claimant ''claim''
        [AAddress claimant, AU64 epochId, AI128 amount, AVec (map ABytes nodes)] s1 = (Inr (hash, v), s')"
    using assms by (auto simp: rewards_claim_def with_proof_def proofToScVal_def and_then_resolved hash_of_def split: sum.splits)
  from rewards.resolved_confirmed [OF submit] nodes quietD [OF quiet_basic(5) e] show ?thesis by fastforce
qed

theorem claim_resolves_confirmed_witness:
  "\<exists>hash s' tx result. rewards_claim (steady_node ''ab'' (returns None) (TxDone None)) plain_client ''G1'' 2 500 [] fresh_session = (Inr hash, s') \<and>
     ss_sent s' = [(tx, Inr result)] \<and> in_args tx = [AAddress ''G1'', AU64 2, AI128 500, AVec []]"
proof -
  define out where "out = rewards_claim (steady_node ''ab'' (returns None) (TxDone None)) plain_client ''G1'' 2 500 [] fresh_session"
  have "\<not> isl (fst out) \<and> length (ss_sent (snd out)) = 1" unfolding out_def by code_simp
  then obtain hash s' where r: "out = (Inr hash, s')" "length (ss_sent s') = 1"
    by (metis fst_conv isl_def prod.exhaust snd_conv sum.exhaust)
  from claim_resolves_confirmed [OF r(1) [unfolded out_def]] r show ?thesis
    by (fastforce simp: fresh_session_def call_of_def out_def)
qed

end
