(* ===== verification/SdkStreams.thy ===== *)
theory SdkStreams
  imports SdkStrategies
begin

section \<open>The clients that submit without a retry\<close>

text \<open>
  \<^verbatim>\<open>TreasuryStreamsClient\<close> (\<^verbatim>\<open>sdk/src/treasuryStreams.ts\<close>), \<^verbatim>\<open>ConvictionVotingClient\<close> (\<^verbatim>\<open>convictionVoting.ts\<close>)
  and \<^verbatim>\<open>OptimisticGovernorClient\<close> (\<^verbatim>\<open>optimisticGovernor.ts\<close>). Their submissions are sent once. The text
  \<^verbatim>\<open>JSON.stringify(sent.errorResult ?? sent)\<close>, which contains XDR objects, is a parameter of the streams client.
\<close>

text \<open>A submission that is sent once and polled for \<open>n\<close> rounds.\<close>

definition submit_once ::
  "(SendTransactionResponse \<Rightarrow> client_error) \<Rightarrow> (string \<Rightarrow> client_error) \<Rightarrow> (string \<Rightarrow> client_error) \<Rightarrow> nat \<Rightarrow>
   'w rpc \<Rightarrow> client \<Rightarrow> string \<Rightarrow> string \<Rightarrow> sc_arg list \<Rightarrow> ('w, string \<times> js_value option) io" where
  "submit_once rejected failed timeout n rpc cl signer fn args =
     and_then (encode_args rpc args) (\<lambda>_.
       submit_and_confirm rpc cl rejected (\<lambda>hash. poll_rounds (asking (rp_getTransaction rpc hash)) (failed hash) (timeout hash) n)
         signer fn args (\<lambda>hash returnValue. Inr (hash, returnValue)))"

definition submit_once_signed ::
  "(SendTransactionResponse \<Rightarrow> client_error) \<Rightarrow> (string \<Rightarrow> client_error) \<Rightarrow> (string \<Rightarrow> client_error) \<Rightarrow> nat \<Rightarrow>
   'w rpc \<Rightarrow> client \<Rightarrow> string \<Rightarrow> string \<Rightarrow> sc_arg list \<Rightarrow> ('w, string \<times> js_value option) io" where
  "submit_once_signed rejected failed timeout n rpc cl signerPublicKey fn args =
     and_then (encode_args rpc args) (\<lambda>_.
       submit_signed rpc cl rejected (\<lambda>hash. poll_rounds (asking (rp_getTransaction rpc hash)) (failed hash) (timeout hash) n)
         signerPublicKey fn args (\<lambda>hash returnValue. Inr (hash, returnValue)))"

text \<open>\<^verbatim>\<open>scValToNative(result.returnValue!)\<close>: a missing value throws.\<close>

definition return_value :: "string \<times> js_value option \<Rightarrow> (js_value \<Rightarrow> client_error + 'a) \<Rightarrow> ('w, 'a) io" where
  "return_value result parse = settle (case snd result of None \<Rightarrow> with_member JUndefined ''switch'' parse | Some v \<Rightarrow> parse v)"

definition return_number :: "string \<times> js_value option \<Rightarrow> ('w, js_number) io" where
  "return_number result = return_value result (\<lambda>v. Inr (js_Number v))"

text \<open>\<^verbatim>\<open>BigInt(String(v))\<close>\<close>

definition with_BigInt_text :: "js_value \<Rightarrow> (int \<Rightarrow> client_error + 'a) \<Rightarrow> client_error + 'a" where
  "with_BigInt_text v k = with_BigInt (JString (js_String v)) k"

subsection \<open>Treasury streams\<close>

definition TreasuryStreamsErrorCode :: "(string \<times> int) list" where
  "TreasuryStreamsErrorCode = [
     (''AlreadyInitialized'', 1), (''NotInitialized'', 2), (''NotAuthorized'', 3), (''InvalidAmount'', 4),
     (''InvalidInterval'', 5), (''InvalidSchedule'', 6), (''StreamNotFound'', 7), (''StreamCancelled'', 8),
     (''StreamPaused'', 9), (''AlreadyPaused'', 10), (''NotPaused'', 11), (''StreamNotDue'', 12),
     (''InsufficientBalance'', 13), (''ArithmeticOverflow'', 14), (''SimulationFailed'', 100),
     (''TransactionFailed'', 101), (''TransactionTimeout'', 102)]"

definition TREASURY_STREAMS_MESSAGES :: "(int, string) js_map" where
  "TREASURY_STREAMS_MESSAGES = [
     (1, ''Treasury streams contract is already initialized''),
     (2, ''Treasury streams contract is not initialized''),
     (3, ''Caller is not authorized to manage this stream''),
     (4, ''Amount per interval must be positive''),
     (5, ''Interval must be at least one ledger''),
     (6, ''End ledger must be after the start ledger and in the future''),
     (7, ''No stream exists with this id''),
     (8, ''Stream has been cancelled''),
     (9, ''Stream is paused''),
     (10, ''Stream is already paused''),
     (11, ''Stream is not paused''),
     (12, ''No interval has come due on this stream yet''),
     (13, ''The streams contract does not hold enough of the asset''),
     (14, ''Arithmetic overflow in stream accounting'')]"

record TreasuryStream =
  tr_id :: js_number
  tr_recipient :: js_value
  tr_asset :: js_value
  tr_amountPerInterval :: int
  tr_intervalLedgers :: js_number
  tr_startLedger :: js_number
  tr_endLedger :: js_number
  tr_lastStreamedLedger :: js_number
  tr_totalStreamed :: int
  tr_paused :: bool
  tr_cancelled :: bool
  tr_createdBy :: js_value

definition mapTreasuryStream :: "js_value \<Rightarrow> client_error + TreasuryStream" where
  "mapTreasuryStream raw =
     with_member raw ''id'' (\<lambda>i.
     with_BigInt (or_zero (field raw ''amount_per_interval'')) (\<lambda>amount.
     with_BigInt (or_zero (field raw ''total_streamed'')) (\<lambda>total.
       Inr \<lparr>tr_id = js_Number i, tr_recipient = field raw ''recipient'', tr_asset = field raw ''asset'',
            tr_amountPerInterval = amount, tr_intervalLedgers = js_Number (field raw ''interval_ledgers''),
            tr_startLedger = js_Number (field raw ''start_ledger''), tr_endLedger = js_Number (field raw ''end_ledger''),
            tr_lastStreamedLedger = js_Number (field raw ''last_streamed_ledger''), tr_totalStreamed = total,
            tr_paused = js_Boolean (field raw ''paused''), tr_cancelled = js_Boolean (field raw ''cancelled''),
            tr_createdBy = field raw ''created_by''\<rparr>)))"

definition match_streams_code :: "string \<Rightarrow> int option" where
  "match_streams_code s =
     (case strip_prefix ''Error(Contract, #'' s of None \<Rightarrow> None
      | Some r \<Rightarrow>
          let ds = takeWhile is_digit r in
          if ds \<noteq> [] \<and> strip_prefix '')'' (dropWhile is_digit r) \<noteq> None
          then Some (int (parse_nat ds)) else None)"

definition parseTreasuryStreamsError :: "string \<Rightarrow> client_error" where
  "parseTreasuryStreamsError message =
     (case first_match match_streams_code message of
        Some code \<Rightarrow> typed ''TreasuryStreamsError'' code
          (case js_get TREASURY_STREAMS_MESSAGES code of Some m \<Rightarrow> m
           | None \<Rightarrow> ''Treasury streams contract error #'' @ dec_int code)
      | None \<Rightarrow> typed ''TreasuryStreamsError'' (the (map_of TreasuryStreamsErrorCode ''SimulationFailed''))
          (''Treasury streams call failed: '' @ message))"

definition TreasuryStreamsClient :: "stellar \<Rightarrow> config \<Rightarrow> string \<Rightarrow> client_error + client" where
  "TreasuryStreamsClient stellar config treasuryStreamsAddress = open_client stellar config no_options treasuryStreamsAddress"

definition StreamsErr :: "string \<Rightarrow> string \<Rightarrow> client_error" where
  "StreamsErr code message = typed ''TreasuryStreamsError'' (the (map_of TreasuryStreamsErrorCode code)) message"

definition streams_submit ::
  "(SendTransactionResponse \<Rightarrow> string) \<Rightarrow> 'w rpc \<Rightarrow> client \<Rightarrow> string \<Rightarrow> string \<Rightarrow> sc_arg list \<Rightarrow> ('w, string \<times> js_value option) io" where
  "streams_submit errorJson rpc cl signer fnName args =
     submit_once (\<lambda>sent. parseTreasuryStreamsError (errorJson sent))
       (\<lambda>hash. StreamsErr ''TransactionFailed'' (fnName @ '' transaction '' @ hash @ '' failed''))
       (\<lambda>hash. StreamsErr ''TransactionTimeout'' (fnName @ '' transaction '' @ hash @ '' was not confirmed in time''))
       30 rpc cl signer fnName args"

definition streams_readAccount :: "client \<Rightarrow> string" where
  "streams_readAccount cl = or_else (cl_simulationAccount cl) (cl_contract cl)"

definition streams_simulate :: "'w rpc \<Rightarrow> client \<Rightarrow> string \<Rightarrow> sc_arg list \<Rightarrow> ('w, js_value) io" where
  "streams_simulate rpc cl fnName args =
     and_then (encode_args rpc args) (\<lambda>_.
       read_call rpc cl (streams_readAccount cl) fnName args (\<lambda>err. Inl (parseTreasuryStreamsError err))
         (Inl (StreamsErr ''SimulationFailed'' (''No return value from '' @ fnName))) Inr)"

definition streams_createStream ::
  "(SendTransactionResponse \<Rightarrow> string) \<Rightarrow> 'w rpc \<Rightarrow> client \<Rightarrow> string \<Rightarrow> string \<Rightarrow> string \<Rightarrow> int \<Rightarrow> int \<Rightarrow> int \<Rightarrow> int \<Rightarrow> ('w, js_number) io" where
  "streams_createStream errorJson rpc cl requester recipient asset amountPerInterval intervalLedgers startLedger endLedger =
     and_then (streams_submit errorJson rpc cl requester ''create_stream''
       [AAddress requester, AAddress recipient, AAddress asset, AI128 amountPerInterval, AU32 intervalLedgers,
        AU32 startLedger, AU32 endLedger]) return_number"

definition executeStream :: "(SendTransactionResponse \<Rightarrow> string) \<Rightarrow> 'w rpc \<Rightarrow> client \<Rightarrow> string \<Rightarrow> int \<Rightarrow> ('w, string) io" where
  "executeStream errorJson rpc cl executor streamId =
     and_then (streams_submit errorJson rpc cl executor ''execute_stream'' [AU64 streamId]) hash_of"

definition streams_pauseStream :: "(SendTransactionResponse \<Rightarrow> string) \<Rightarrow> 'w rpc \<Rightarrow> client \<Rightarrow> string \<Rightarrow> int \<Rightarrow> ('w, string) io" where
  "streams_pauseStream errorJson rpc cl requester streamId =
     and_then (streams_submit errorJson rpc cl requester ''pause_stream'' [AAddress requester, AU64 streamId]) hash_of"

definition streams_resumeStream :: "(SendTransactionResponse \<Rightarrow> string) \<Rightarrow> 'w rpc \<Rightarrow> client \<Rightarrow> string \<Rightarrow> int \<Rightarrow> ('w, string) io" where
  "streams_resumeStream errorJson rpc cl requester streamId =
     and_then (streams_submit errorJson rpc cl requester ''resume_stream'' [AAddress requester, AU64 streamId]) hash_of"

definition streams_cancelStream :: "(SendTransactionResponse \<Rightarrow> string) \<Rightarrow> 'w rpc \<Rightarrow> client \<Rightarrow> string \<Rightarrow> int \<Rightarrow> ('w, string) io" where
  "streams_cancelStream errorJson rpc cl requester streamId =
     and_then (streams_submit errorJson rpc cl requester ''cancel_stream'' [AAddress requester, AU64 streamId]) hash_of"

definition streams_getStream :: "'w rpc \<Rightarrow> client \<Rightarrow> int \<Rightarrow> ('w, TreasuryStream) io" where
  "streams_getStream rpc cl streamId =
     and_then (streams_simulate rpc cl ''get_stream'' [AU64 streamId]) (\<lambda>raw. settle (mapTreasuryStream raw))"

definition getClaimableAmount :: "'w rpc \<Rightarrow> client \<Rightarrow> int \<Rightarrow> ('w, int) io" where
  "getClaimableAmount rpc cl streamId =
     and_then (streams_simulate rpc cl ''get_claimable_amount'' [AU64 streamId]) (\<lambda>raw. settle (with_BigInt raw Inr))"

definition streams_getActiveStreams :: "'w rpc \<Rightarrow> client \<Rightarrow> int \<Rightarrow> int \<Rightarrow> ('w, TreasuryStream list) io" where
  "streams_getActiveStreams rpc cl offset limit =
     and_then (streams_simulate rpc cl ''get_active_streams'' [AU32 offset, AU32 limit]) (\<lambda>raw.
       settle (with_array raw ''raw'' (map_throwing mapTreasuryStream)))"

definition getStreamsForRecipient :: "'w rpc \<Rightarrow> client \<Rightarrow> string \<Rightarrow> int \<Rightarrow> int \<Rightarrow> ('w, TreasuryStream list) io" where
  "getStreamsForRecipient rpc cl recipient offset limit =
     and_then (streams_simulate rpc cl ''get_streams_for_recipient'' [AAddress recipient, AU32 offset, AU32 limit]) (\<lambda>raw.
       settle (with_array raw ''raw'' (map_throwing mapTreasuryStream)))"

subsection \<open>Conviction voting\<close>

record ConvictionProposal =
  cp_id :: int
  cp_proposer :: string
  cp_target :: string
  cp_fnName :: string
  cp_calldata :: js_value
  cp_requestedAmount :: int
  cp_createdLedger :: js_number
  cp_conviction :: int
  cp_lastUpdatedLedger :: js_number
  cp_executed :: bool
  cp_cancelled :: bool

record ConvictionSnapshot =
  cv_proposalId :: int
  cv_ledger :: js_number
  cv_conviction :: int

definition ConvictionVotingClient :: "stellar \<Rightarrow> config \<Rightarrow> string \<Rightarrow> client_error + client" where
  "ConvictionVotingClient stellar config convictionVotingAddress = open_client stellar config no_options convictionVotingAddress"

text \<open>The answer for a failed transaction has the status \<^verbatim>\<open>FAILED\<close> and no \<^verbatim>\<open>error\<close>.\<close>

definition conviction_error :: "SorobanRpcError \<Rightarrow> client_error" where
  "conviction_error raw = parsed ''ConvictionVotingError'' (parseConvictionVotingError raw)"

definition conviction_submit :: "'w rpc \<Rightarrow> client \<Rightarrow> string \<Rightarrow> string \<Rightarrow> sc_arg list \<Rightarrow> ('w, string \<times> js_value option) io" where
  "conviction_submit rpc cl signer fn args =
     submit_once (sent_error ''ConvictionVotingError'' parseConvictionVotingError)
       (\<lambda>_. conviction_error (RawObject (Some ''FAILED'') None))
       (\<lambda>_. conviction_error (RawString ''Transaction confirmation timed out'')) 20 rpc cl signer fn args"

definition conviction_submitWithSign :: "'w rpc \<Rightarrow> client \<Rightarrow> string \<Rightarrow> string \<Rightarrow> sc_arg list \<Rightarrow> ('w, string \<times> js_value option) io" where
  "conviction_submitWithSign rpc cl signerPublicKey fn args =
     submit_once_signed (sent_error ''ConvictionVotingError'' parseConvictionVotingError)
       (\<lambda>_. conviction_error (RawObject (Some ''FAILED'') None))
       (\<lambda>_. conviction_error (RawString ''Transaction confirmation timed out'')) 20 rpc cl signerPublicKey fn args"

definition conviction_simulate :: "'w rpc \<Rightarrow> client \<Rightarrow> string \<Rightarrow> sc_arg list \<Rightarrow> ('w, js_value) io" where
  "conviction_simulate rpc cl fn args =
     and_then (encode_args rpc args) (\<lambda>_.
       read_call rpc cl (or_else (cl_simulationAccount cl) (cl_contract cl)) fn args
         (\<lambda>err. Inl (conviction_error (RawObject None (Some err)))) (Inl (conviction_error (RawObject None None))) Inr)"

definition client_createProposal :: "'w rpc \<Rightarrow> client \<Rightarrow> string \<Rightarrow> string \<Rightarrow> string \<Rightarrow> bytes \<Rightarrow> int \<Rightarrow> ('w, js_number) io" where
  "client_createProposal rpc cl proposer target fnName calldata requestedAmount =
     and_then (conviction_submit rpc cl proposer ''create_proposal''
       [AAddress proposer, AAddress target, ASymbol fnName, ABytes calldata, AI128 requestedAmount]) return_number"

definition client_stake :: "'w rpc \<Rightarrow> client \<Rightarrow> string \<Rightarrow> int \<Rightarrow> int \<Rightarrow> ('w, string) io" where
  "client_stake rpc cl staker proposalId amount =
     and_then (conviction_submit rpc cl staker ''stake'' [AAddress staker, AU64 proposalId, AI128 amount]) hash_of"

definition client_withdrawStake :: "'w rpc \<Rightarrow> client \<Rightarrow> string \<Rightarrow> ('w, string) io" where
  "client_withdrawStake rpc cl staker = and_then (conviction_submit rpc cl staker ''withdraw_stake'' [AAddress staker]) hash_of"

definition parseConvictionProposal :: "js_value \<Rightarrow> client_error + ConvictionProposal" where
  "parseConvictionProposal native =
     with_member native ''id'' (\<lambda>i. with_BigInt_text i (\<lambda>i.
     with_BigInt_text (field native ''requested_amount'') (\<lambda>requestedAmount.
     with_BigInt_text (field native ''conviction'') (\<lambda>conviction.
       Inr \<lparr>cp_id = i, cp_proposer = js_String (field native ''proposer''), cp_target = js_String (field native ''target''),
            cp_fnName = js_String (field native ''fn_name''), cp_calldata = field native ''calldata'',
            cp_requestedAmount = requestedAmount, cp_createdLedger = js_Number (field native ''created_ledger''),
            cp_conviction = conviction, cp_lastUpdatedLedger = js_Number (field native ''last_updated_ledger''),
            cp_executed = js_Boolean (field native ''executed''), cp_cancelled = js_Boolean (field native ''cancelled'')\<rparr>))))"

definition conviction_getProposal :: "'w rpc \<Rightarrow> client \<Rightarrow> int \<Rightarrow> ('w, ConvictionProposal) io" where
  "conviction_getProposal rpc cl proposalId =
     and_then (conviction_simulate rpc cl ''get_proposal'' [AU64 proposalId]) (\<lambda>native. settle (parseConvictionProposal native))"

definition checkpoint_result :: "'w rpc \<Rightarrow> client \<Rightarrow> int \<Rightarrow> string \<times> js_value option \<Rightarrow> ('w, int \<times> bool) io" where
  "checkpoint_result rpc cl proposalId result =
     and_then (return_value result (\<lambda>v. with_BigInt v Inr)) (\<lambda>conviction.
     and_then (conviction_getProposal rpc cl proposalId) (\<lambda>proposal.
       returning (conviction, cp_executed proposal)))"

definition client_checkpointConviction :: "'w rpc \<Rightarrow> client \<Rightarrow> string \<Rightarrow> int \<Rightarrow> ('w, int \<times> bool) io" where
  "client_checkpointConviction rpc cl caller proposalId =
     and_then (conviction_submit rpc cl caller ''checkpoint_conviction'' [AU64 proposalId]) (checkpoint_result rpc cl proposalId)"

definition stakeWithSign :: "'w rpc \<Rightarrow> client \<Rightarrow> string \<Rightarrow> int \<Rightarrow> int \<Rightarrow> ('w, string) io" where
  "stakeWithSign rpc cl signerPublicKey proposalId amount =
     and_then (conviction_submitWithSign rpc cl signerPublicKey ''stake'' [AAddress signerPublicKey, AU64 proposalId, AI128 amount]) hash_of"

definition withdrawStakeWithSign :: "'w rpc \<Rightarrow> client \<Rightarrow> string \<Rightarrow> ('w, string) io" where
  "withdrawStakeWithSign rpc cl signerPublicKey =
     and_then (conviction_submitWithSign rpc cl signerPublicKey ''withdraw_stake'' [AAddress signerPublicKey]) hash_of"

definition checkpointConvictionWithSign :: "'w rpc \<Rightarrow> client \<Rightarrow> string \<Rightarrow> int \<Rightarrow> ('w, int \<times> bool) io" where
  "checkpointConvictionWithSign rpc cl signerPublicKey proposalId =
     and_then (conviction_submitWithSign rpc cl signerPublicKey ''checkpoint_conviction'' [AU64 proposalId])
       (checkpoint_result rpc cl proposalId)"

definition client_getRequiredThreshold :: "'w rpc \<Rightarrow> client \<Rightarrow> int \<Rightarrow> ('w, int) io" where
  "client_getRequiredThreshold rpc cl requestedAmount =
     and_then (conviction_simulate rpc cl ''get_required_threshold'' [AI128 requestedAmount]) (\<lambda>v. settle (with_BigInt_text v Inr))"

text \<open>Requests without a retry: the indexer's rows under \<^verbatim>\<open>data\<close>.\<close>

definition plain_rows :: "'w rpc \<Rightarrow> client \<Rightarrow> string \<Rightarrow> (js_value \<Rightarrow> client_error + 'a) \<Rightarrow> ('w, 'a list) io" where
  "plain_rows rpc cl path f =
     (if or_else (cl_indexerUrl cl) '''' = '''' then throwing (js_error_of ''Error'' ''indexerUrl is required'')
      else and_then (fetch_json rpc (\<lambda>response. js_error_of ''Error'' (''Indexer request failed: '' @ dec_int (hr_status response)))
               (or_else (cl_indexerUrl cl) '''' @ path)) (\<lambda>json.
        settle (with_member json ''data'' (\<lambda>rows. with_array rows ''json.data'' (map_throwing f)))))"

definition getConvictionHistory :: "'w rpc \<Rightarrow> client \<Rightarrow> int \<Rightarrow> ('w, ConvictionSnapshot list) io" where
  "getConvictionHistory rpc cl proposalId =
     plain_rows rpc cl (''/conviction/proposals/'' @ dec_int proposalId @ ''/conviction-history'') (\<lambda>row.
       with_member row ''proposal_id'' (\<lambda>i. with_BigInt_text i (\<lambda>i.
       with_BigInt_text (field row ''conviction'') (\<lambda>conviction.
         Inr \<lparr>cv_proposalId = i, cv_ledger = js_Number (field row ''ledger''), cv_conviction = conviction\<rparr>))))"

subsection \<open>Optimistic governor\<close>

record OptimisticProposal =
  op_id :: int
  op_proposer :: string
  op_target :: string
  op_fnName :: string
  op_calldata :: js_value
  op_descriptionHash :: js_value
  op_createdLedger :: js_number
  op_challengeEndLedger :: js_number
  op_objectionVotes :: int
  op_state :: js_value

record OptimisticGovernorSettings =
  og_votesToken :: string
  og_challengeWindowLedgers :: js_number
  og_objectionThresholdBps :: js_number
  og_proposerBondAmount :: int
  og_proposerBondToken :: string

record OptimisticObjection =
  oj_proposalId :: int
  oj_objector :: string
  oj_weight :: int
  oj_runningTotal :: int
  oj_ledger :: js_number

definition OptimisticGovernorClient :: "stellar \<Rightarrow> config \<Rightarrow> string \<Rightarrow> client_error + client" where
  "OptimisticGovernorClient stellar config optimisticGovernorAddress = open_client stellar config no_options optimisticGovernorAddress"

definition optimistic_error :: "SorobanRpcError \<Rightarrow> client_error" where
  "optimistic_error raw = parsed ''OptimisticGovernorError'' (parseOptimisticGovernorError raw)"

definition optimistic_submit :: "'w rpc \<Rightarrow> client \<Rightarrow> string \<Rightarrow> string \<Rightarrow> sc_arg list \<Rightarrow> ('w, string \<times> js_value option) io" where
  "optimistic_submit rpc cl signer fn args =
     submit_once (sent_error ''OptimisticGovernorError'' parseOptimisticGovernorError)
       (\<lambda>_. optimistic_error (RawObject (Some ''FAILED'') None))
       (\<lambda>_. optimistic_error (RawString ''Transaction confirmation timed out'')) 20 rpc cl signer fn args"

definition optimistic_submitWithSign :: "'w rpc \<Rightarrow> client \<Rightarrow> string \<Rightarrow> string \<Rightarrow> sc_arg list \<Rightarrow> ('w, string \<times> js_value option) io" where
  "optimistic_submitWithSign rpc cl signerPublicKey fn args =
     submit_once_signed (sent_error ''OptimisticGovernorError'' parseOptimisticGovernorError)
       (\<lambda>_. optimistic_error (RawObject (Some ''FAILED'') None))
       (\<lambda>_. optimistic_error (RawString ''Transaction confirmation timed out'')) 20 rpc cl signerPublicKey fn args"

definition optimistic_simulate :: "'w rpc \<Rightarrow> client \<Rightarrow> string \<Rightarrow> sc_arg list \<Rightarrow> ('w, js_value) io" where
  "optimistic_simulate rpc cl fn args =
     and_then (encode_args rpc args) (\<lambda>_.
       read_call rpc cl (or_else (cl_simulationAccount cl) (cl_contract cl)) fn args
         (\<lambda>err. Inl (optimistic_error (RawObject None (Some err)))) (Inl (optimistic_error (RawObject None None))) Inr)"

text \<open>\<^verbatim>\<open>raw?.tag ?? String(raw)\<close>\<close>

definition mapState :: "js_value \<Rightarrow> js_value" where
  "mapState raw = nullish_or (field raw ''tag'') (JString (js_String raw))"

definition mapProposal :: "js_value \<Rightarrow> client_error + OptimisticProposal" where
  "mapProposal native =
     with_member native ''id'' (\<lambda>i. with_BigInt_text i (\<lambda>i.
     with_BigInt_text (field native ''objection_votes'') (\<lambda>objectionVotes.
       Inr \<lparr>op_id = i, op_proposer = js_String (field native ''proposer''), op_target = js_String (field native ''target''),
            op_fnName = js_String (field native ''fn_name''), op_calldata = field native ''calldata'',
            op_descriptionHash = field native ''description_hash'', op_createdLedger = js_Number (field native ''created_ledger''),
            op_challengeEndLedger = js_Number (field native ''challenge_end_ledger''), op_objectionVotes = objectionVotes,
            op_state = mapState (field native ''state'')\<rparr>)))"

definition indexer_states :: "(string \<times> string) list" where
  "indexer_states =
     [(''ChallengeWindow'', ''challenge_window''), (''Objected'', ''objected''), (''Passed'', ''passed''),
      (''Executed'', ''executed''), (''Cancelled'', ''cancelled'')]"

definition toIndexerState :: "string \<Rightarrow> string" where
  "toIndexerState state = (case map_of indexer_states state of Some s \<Rightarrow> s | None \<Rightarrow> ''undefined'')"

definition fromIndexerState :: "string \<Rightarrow> string" where
  "fromIndexerState state =
     (case map_of (map (\<lambda>(a, b). (b, a)) indexer_states) state of Some s \<Rightarrow> s | None \<Rightarrow> ''ChallengeWindow'')"

definition mapIndexedProposal :: "js_value \<Rightarrow> client_error + OptimisticProposal" where
  "mapIndexedProposal row =
     with_member row ''proposal_id'' (\<lambda>i. with_BigInt_text i (\<lambda>i.
     with_BigInt_text (or_zero (field row ''objection_votes'')) (\<lambda>objectionVotes.
       Inr \<lparr>op_id = i, op_proposer = js_String (field row ''proposer''), op_target = '''', op_fnName = '''',
            op_calldata = JBuffer [], op_descriptionHash = JBuffer [], op_createdLedger = js_Number (field row ''created_ledger''),
            op_challengeEndLedger = js_Number (field row ''challenge_end_ledger''), op_objectionVotes = objectionVotes,
            op_state = JString (fromIndexerState (js_String (field row ''state'')))\<rparr>)))"

definition optimistic_getProposal :: "'w rpc \<Rightarrow> client \<Rightarrow> int \<Rightarrow> ('w, OptimisticProposal) io" where
  "optimistic_getProposal rpc cl proposalId =
     and_then (optimistic_simulate rpc cl ''get_proposal'' [AU64 proposalId]) (\<lambda>native. settle (mapProposal native))"

definition optimistic_propose_with ::
  "(string \<Rightarrow> string \<Rightarrow> sc_arg list \<Rightarrow> ('w, string \<times> js_value option) io) \<Rightarrow> 'w rpc \<Rightarrow> string \<Rightarrow> string \<Rightarrow> string \<Rightarrow> bytes \<Rightarrow> string \<Rightarrow>
   ('w, js_number) io" where
  "optimistic_propose_with submit rpc proposer target fnName calldata descriptionHash =
     and_then (encode_args rpc [AAddress proposer, AAddress target, ASymbol fnName, ABytes calldata]) (\<lambda>_.
     with_bytes32 descriptionHash (\<lambda>h.
       and_then (submit proposer ''propose'' [AAddress proposer, AAddress target, ASymbol fnName, ABytes calldata, ABytes h]) return_number))"

definition optimistic_propose :: "'w rpc \<Rightarrow> client \<Rightarrow> string \<Rightarrow> string \<Rightarrow> string \<Rightarrow> bytes \<Rightarrow> string \<Rightarrow> ('w, js_number) io" where
  "optimistic_propose rpc cl proposer target fnName calldata descriptionHash =
     optimistic_propose_with (optimistic_submit rpc cl) rpc proposer target fnName calldata descriptionHash"

definition optimistic_proposeWithSign :: "'w rpc \<Rightarrow> client \<Rightarrow> string \<Rightarrow> string \<Rightarrow> string \<Rightarrow> bytes \<Rightarrow> string \<Rightarrow> ('w, js_number) io" where
  "optimistic_proposeWithSign rpc cl proposerPublicKey target fnName calldata descriptionHash =
     optimistic_propose_with (optimistic_submitWithSign rpc cl) rpc proposerPublicKey target fnName calldata descriptionHash"

definition client_object :: "'w rpc \<Rightarrow> client \<Rightarrow> string \<Rightarrow> int \<Rightarrow> ('w, string) io" where
  "client_object rpc cl objector proposalId =
     and_then (optimistic_submit rpc cl objector ''object'' [AAddress objector, AU64 proposalId]) hash_of"

definition objectWithSign :: "'w rpc \<Rightarrow> client \<Rightarrow> string \<Rightarrow> int \<Rightarrow> ('w, string) io" where
  "objectWithSign rpc cl objectorPublicKey proposalId =
     and_then (optimistic_submitWithSign rpc cl objectorPublicKey ''object'' [AAddress objectorPublicKey, AU64 proposalId]) hash_of"

definition state_after :: "'w rpc \<Rightarrow> client \<Rightarrow> int \<Rightarrow> string \<times> js_value option \<Rightarrow> ('w, js_value) io" where
  "state_after rpc cl proposalId result =
     and_then (optimistic_getProposal rpc cl proposalId) (\<lambda>proposal. returning (op_state proposal))"

definition client_finalize :: "'w rpc \<Rightarrow> client \<Rightarrow> string \<Rightarrow> int \<Rightarrow> ('w, js_value) io" where
  "client_finalize rpc cl caller proposalId =
     and_then (optimistic_submit rpc cl caller ''finalize'' [AU64 proposalId]) (state_after rpc cl proposalId)"

definition finalizeWithSign :: "'w rpc \<Rightarrow> client \<Rightarrow> string \<Rightarrow> int \<Rightarrow> ('w, js_value) io" where
  "finalizeWithSign rpc cl callerPublicKey proposalId =
     and_then (optimistic_submitWithSign rpc cl callerPublicKey ''finalize'' [AU64 proposalId]) (state_after rpc cl proposalId)"

definition optimistic_execute :: "'w rpc \<Rightarrow> client \<Rightarrow> string \<Rightarrow> int \<Rightarrow> ('w, string) io" where
  "optimistic_execute rpc cl caller proposalId = and_then (optimistic_submit rpc cl caller ''execute'' [AU64 proposalId]) hash_of"

definition optimistic_executeWithSign :: "'w rpc \<Rightarrow> client \<Rightarrow> string \<Rightarrow> int \<Rightarrow> ('w, string) io" where
  "optimistic_executeWithSign rpc cl callerPublicKey proposalId =
     and_then (optimistic_submitWithSign rpc cl callerPublicKey ''execute'' [AU64 proposalId]) hash_of"

definition optimistic_cancel :: "'w rpc \<Rightarrow> client \<Rightarrow> string \<Rightarrow> int \<Rightarrow> ('w, string) io" where
  "optimistic_cancel rpc cl caller proposalId =
     and_then (optimistic_submit rpc cl caller ''cancel'' [AAddress caller, AU64 proposalId]) hash_of"

definition optimistic_cancelWithSign :: "'w rpc \<Rightarrow> client \<Rightarrow> string \<Rightarrow> int \<Rightarrow> ('w, string) io" where
  "optimistic_cancelWithSign rpc cl callerPublicKey proposalId =
     and_then (optimistic_submitWithSign rpc cl callerPublicKey ''cancel'' [AAddress callerPublicKey, AU64 proposalId]) hash_of"

definition optimistic_getConfig :: "'w rpc \<Rightarrow> client \<Rightarrow> ('w, OptimisticGovernorSettings) io" where
  "optimistic_getConfig rpc cl =
     and_then (optimistic_simulate rpc cl ''get_config'' []) (\<lambda>native.
       settle (with_member native ''votes_token'' (\<lambda>votesToken.
       with_BigInt_text (field native ''proposer_bond_amount'') (\<lambda>bond.
         Inr \<lparr>og_votesToken = js_String votesToken, og_challengeWindowLedgers = js_Number (field native ''challenge_window_ledgers''),
              og_objectionThresholdBps = js_Number (field native ''objection_threshold_bps''), og_proposerBondAmount = bond,
              og_proposerBondToken = js_String (field native ''proposer_bond_token'')\<rparr>))))"

definition optimistic_updateConfig :: "'w rpc \<Rightarrow> client \<Rightarrow> string \<Rightarrow> int \<Rightarrow> int \<Rightarrow> ('w, string) io" where
  "optimistic_updateConfig rpc cl admin challengeWindowLedgers objectionThresholdBps =
     and_then (optimistic_submit rpc cl admin ''update_config''
       [AAddress admin, AU32 challengeWindowLedgers, AU32 objectionThresholdBps]) hash_of"

text \<open>The texts of \<open>toIndexerState\<close> need no encoding in a query.\<close>

definition optimistic_listProposals :: "'w rpc \<Rightarrow> client \<Rightarrow> string option \<Rightarrow> ('w, OptimisticProposal list) io" where
  "optimistic_listProposals rpc cl status =
     plain_rows rpc cl (''/optimistic/proposals'' @
       (case truthy_text status of None \<Rightarrow> '''' | Some s \<Rightarrow> ''?status='' @ toIndexerState s)) mapIndexedProposal"

definition getObjections :: "'w rpc \<Rightarrow> client \<Rightarrow> int \<Rightarrow> ('w, OptimisticObjection list) io" where
  "getObjections rpc cl proposalId =
     plain_rows rpc cl (''/optimistic/proposals/'' @ dec_int proposalId @ ''/objections'') (\<lambda>row.
       with_member row ''proposal_id'' (\<lambda>i. with_BigInt_text i (\<lambda>i.
       with_BigInt_text (field row ''weight'') (\<lambda>weight.
       with_BigInt_text (field row ''running_total'') (\<lambda>runningTotal.
         Inr \<lparr>oj_proposalId = i, oj_objector = js_String (field row ''objector''), oj_weight = weight,
              oj_runningTotal = runningTotal, oj_ledger = js_Number (field row ''ledger'')\<rparr>)))))"

subsection \<open>At most one transaction\<close>

text \<open>A method that sends nothing or one transaction.\<close>

definition sends_once :: "('w, 'a) io \<Rightarrow> bool" where
  "sends_once m \<longleftrightarrow> (\<forall>s. ss_sent (snd (m s)) = ss_sent s \<or> (\<exists>x. ss_sent (snd (m s)) = ss_sent s @ [x]))"

lemma quiet_sends_once: "quiet m \<Longrightarrow> sends_once m"
  by (simp add: quiet_def sends_once_def)

lemma sends_once_quiet_first: "quiet m \<Longrightarrow> (\<And>x. sends_once (k x)) \<Longrightarrow> sends_once (and_then m k)"
  unfolding sends_once_def
proof
  fix s
  assume m: "quiet m" and k: "\<And>x. \<forall>s. ss_sent (snd (k x s)) = ss_sent s \<or> (\<exists>y. ss_sent (snd (k x s)) = ss_sent s @ [y])"
  obtain r s1 where s1: "m s = (r, s1)" by force
  then have "ss_sent s1 = ss_sent s" using quietD [OF m] by blast
  with s1 k [rule_format, of _ s1] show "ss_sent (snd (and_then m k s)) = ss_sent s \<or> (\<exists>x. ss_sent (snd (and_then m k s)) = ss_sent s @ [x])"
    by (cases r) (auto simp: and_then_def)
qed

lemma sends_once_quiet_rest: "sends_once m \<Longrightarrow> (\<And>x. quiet (k x)) \<Longrightarrow> sends_once (and_then m k)"
  unfolding sends_once_def
proof
  fix s
  assume m: "\<forall>s. ss_sent (snd (m s)) = ss_sent s \<or> (\<exists>x. ss_sent (snd (m s)) = ss_sent s @ [x])" and k: "\<And>x. quiet (k x)"
  obtain r s1 where s1: "m s = (r, s1)" by force
  have "ss_sent (snd (k x s1)) = ss_sent s1" for x using k by (simp add: quiet_def)
  with s1 m [rule_format, of s] show "ss_sent (snd (and_then m k s)) = ss_sent s \<or> (\<exists>x. ss_sent (snd (and_then m k s)) = ss_sent s @ [x])"
    by (cases r) (auto simp: and_then_def)
qed

lemma sends_once_send: "sends_once (sendTransaction_io rpc tx)"
  by (auto simp: sends_once_def sendTransaction_io_def split: prod.split)

lemma quiet_check_sent [quiets]: "quiet (check_sent parse result)"
  by (simp add: check_sent_def quiets)

lemma sends_once_submit_once: "sends_once (submit_once rejected failed timeout n rpc cl signer fn args)"
  unfolding submit_once_def submit_and_confirm_def send_prepared_def
  by (intro sends_once_quiet_first sends_once_quiet_rest sends_once_send quiets)

lemma sends_once_submit_once_signed: "sends_once (submit_once_signed rejected failed timeout n rpc cl signer fn args)"
  unfolding submit_once_signed_def submit_signed_def send_signed_def
  by (intro sends_once_quiet_first sends_once_quiet_rest sends_once_send quiets)

lemma quiet_return_value [quiets]: "quiet (return_value result parse)" "quiet (return_number result)" "quiet (hash_of result)"
  by (simp_all add: return_value_def return_number_def hash_of_def quiets)

text \<open>Whatever the node answers, a call of \<^verbatim>\<open>executeStream\<close> or \<^verbatim>\<open>stake\<close> sends at most one transaction: the clients without a
  retry never pay a stream or stake twice on their own.\<close>

theorem unretried_clients_send_once:
  "sends_once (executeStream errorJson rpc cl executor streamId) \<and> sends_once (client_stake rpc' cl' staker proposalId amount)"
proof
  show "sends_once (executeStream errorJson rpc cl executor streamId)" unfolding executeStream_def streams_submit_def
    by (intro sends_once_quiet_rest sends_once_submit_once quiets)
  show "sends_once (client_stake rpc' cl' staker proposalId amount)" unfolding client_stake_def conviction_submit_def
    by (intro sends_once_quiet_rest sends_once_submit_once quiets)
qed

subsection \<open>How failures are reported\<close>

lemma poll_once_fails:
  assumes "answers rpc TxFailure" "0 < n"
  shows "\<exists>s'. poll_rounds (asking (rp_getTransaction rpc hash)) failed timeout n s = (Inl failed, s')"
proof -
  obtain w' where "rp_getTransaction rpc hash (ss_world s) = (Inr TxFailure, w')" using assms(1) by (auto simp: answers_def)
  then have "\<exists>s'. asking (rp_getTransaction rpc hash) s = (Inr TxFailure, s') \<and> ss_sent s' = ss_sent s" by (simp add: asking_def)
  from poll_rounds_fails [where ask = "asking (rp_getTransaction rpc hash)", OF this assms(2)] show ?thesis by blast
qed

lemma submit_once_fails:
  assumes "takes_all rpc H" "answers rpc TxFailure" "0 < n"
  shows "\<exists>hash s'. submit_once rejected failed timeout n rpc cl signer fn args s = (Inl (failed hash), s')"
proof -
  obtain result :: SendTransactionResponse and s1 where "send_prepared rpc cl rejected signer fn args s = (Inr (sr_hash result), s1)"
    using send_prepared_accepted [OF assms(1), of cl rejected signer fn args s] by blast
  moreover obtain s2 where "poll_rounds (asking (rp_getTransaction rpc (sr_hash result))) (failed (sr_hash result))
      (timeout (sr_hash result)) n s1 = (Inl (failed (sr_hash result)), s2)"
    using poll_once_fails [OF assms(2,3)] by blast
  ultimately show ?thesis
    by (auto simp: submit_once_def takes_all_encodes [OF assms(1)] submit_and_confirm_def and_then_def)
qed

text \<open>A stake whose transaction fails on the ledger is reported as a failed simulation: the code of the error is
  \<^verbatim>\<open>SimulationFailed\<close>, not \<^verbatim>\<open>TransactionFailed\<close>, because the status \<^verbatim>\<open>FAILED\<close> is not one that \<^verbatim>\<open>parseConvictionVotingError\<close> knows.\<close>

theorem stake_failure_misreported:
  assumes "takes_all rpc H" "answers rpc TxFailure"
  shows "\<exists>e s'. client_stake rpc cl staker proposalId amount s = (Inl e, s') \<and>
    ce_code e = map_of ConvictionVotingErrorCode ''SimulationFailed'' \<and> ce_code e \<noteq> map_of ConvictionVotingErrorCode ''TransactionFailed''"
proof -
  have code: "ce_code (conviction_error (RawObject (Some ''FAILED'') None)) = map_of ConvictionVotingErrorCode ''SimulationFailed''"
    "map_of ConvictionVotingErrorCode ''SimulationFailed'' \<noteq> map_of ConvictionVotingErrorCode ''TransactionFailed''" by code_simp+
  obtain s' where "conviction_submit rpc cl staker ''stake'' [AAddress staker, AU64 proposalId, AI128 amount] s =
      (Inl (conviction_error (RawObject (Some ''FAILED'') None)), s')"
    unfolding conviction_submit_def using submit_once_fails [OF assms, of 20] by fastforce
  with code show ?thesis by (auto simp: client_stake_def and_then_def)
qed

theorem stake_failure_misreported_witness:
  "\<exists>e s'. client_stake (steady_node ''h'' (returns None) TxFailure) plain_client ''G1'' 1 10 fresh_session = (Inl e, s') \<and>
    ce_code e = map_of ConvictionVotingErrorCode ''SimulationFailed'' \<and> ce_code e \<noteq> map_of ConvictionVotingErrorCode ''TransactionFailed''"
  by (rule stake_failure_misreported [OF steady_node_takes_all [where H = "\<lambda>_. True"] steady_node_answers]) simp

text \<open>The states of the optimistic governor survive the way to the indexer and back.\<close>

theorem indexer_state_roundtrip: "list_all (\<lambda>(state, _). fromIndexerState (toIndexerState state) = state) indexer_states"
  by code_simp

end
