(* ===== verification/SdkEscrow.thy ===== *)
theory SdkEscrow
  imports SdkSubmit
begin

section \<open>The vote-escrow and reputation clients of the SDK\<close>

text \<open>
  \<^verbatim>\<open>VoteEscrowClient\<close> of \<^verbatim>\<open>sdk/src/voteEscrow.ts\<close> and \<^verbatim>\<open>ReputationClient\<close> of \<^verbatim>\<open>sdk/src/reputation.ts\<close>. The first gives \<^verbatim>\<open>createRetry\<close>
  no \<^verbatim>\<open>retryOn\<close>, so that every error is retried, five attempts by default; the second retries on network errors only.
  Whether a contract identifier is valid is a parameter of the constructor.
\<close>

subsection \<open>Vote escrow: data and construction\<close>

record Lock =
  lk_owner :: js_value
  lk_amount :: int
  lk_start_ledger :: js_number
  lk_end_ledger :: js_number
  lk_initial_voting_power :: int
  lk_withdrawn :: bool

record VoteEscrowStats =
  ve_total_locked :: int

definition VoteEscrowClient :: "stellar \<Rightarrow> (string \<Rightarrow> bool) \<Rightarrow> config \<Rightarrow> string option \<Rightarrow> client_error + client" where
  "VoteEscrowClient stellar isValidContract config voteEscrowAddress =
     (case voteEscrowAddress of
        None \<Rightarrow> Inl (js_error_of ''Error'' ''VoteEscrowClient requires a valid voteEscrowAddress contract ID'')
      | Some address \<Rightarrow>
          if \<not> isValidContract address
          then Inl (js_error_of ''Error'' ''VoteEscrowClient requires a valid voteEscrowAddress contract ID'')
          else open_client stellar config (no_options\<lparr>ro_maxAttempts := Given 5, ro_baseDelayMs := Given 1000\<rparr>) address)"

definition escrow_readAccount :: "client \<Rightarrow> string option \<Rightarrow> string" where
  "escrow_readAccount cl fallback = or_else (cl_simulationAccount cl) (or_else fallback (cl_contract cl))"

definition escrow_send :: "'w rpc \<Rightarrow> client \<Rightarrow> string \<Rightarrow> string \<Rightarrow> sc_arg list \<Rightarrow> ('w, string) io" where
  "escrow_send rpc cl signer method args =
     retrying cl None (send_prepared rpc cl (sent_error ''VoteEscrowError'' parseVoteEscrowError) signer method args)"

definition escrow_sendSigned :: "'w rpc \<Rightarrow> client \<Rightarrow> string \<Rightarrow> string \<Rightarrow> sc_arg list \<Rightarrow> ('w, string) io" where
  "escrow_sendSigned rpc cl signerPublicKey method args =
     retrying cl None (send_signed rpc cl (sent_error ''VoteEscrowError'' parseVoteEscrowError) signerPublicKey method args)"

subsection \<open>Vote escrow: locks\<close>

definition createLock :: "'w rpc \<Rightarrow> client \<Rightarrow> string \<Rightarrow> int \<Rightarrow> int \<Rightarrow> ('w, string) io" where
  "createLock rpc cl signer amount durationLedgers =
     escrow_send rpc cl signer ''create_lock'' [AAddress signer, AI128 amount, AU32 durationLedgers]"

definition createLockWithSign :: "'w rpc \<Rightarrow> client \<Rightarrow> string \<Rightarrow> int \<Rightarrow> int \<Rightarrow> ('w, string) io" where
  "createLockWithSign rpc cl signerPublicKey amount durationLedgers =
     escrow_sendSigned rpc cl signerPublicKey ''create_lock'' [AAddress signerPublicKey, AI128 amount, AU32 durationLedgers]"

definition increaseLockAmountWithSign :: "'w rpc \<Rightarrow> client \<Rightarrow> string \<Rightarrow> int \<Rightarrow> ('w, string) io" where
  "increaseLockAmountWithSign rpc cl signerPublicKey additionalAmount =
     escrow_sendSigned rpc cl signerPublicKey ''increase_lock_amount'' [AAddress signerPublicKey, AI128 additionalAmount]"

definition extendLockWithSign :: "'w rpc \<Rightarrow> client \<Rightarrow> string \<Rightarrow> int \<Rightarrow> ('w, string) io" where
  "extendLockWithSign rpc cl signerPublicKey newEndLedger =
     escrow_sendSigned rpc cl signerPublicKey ''extend_lock'' [AAddress signerPublicKey, AU32 newEndLedger]"

definition withdrawWithSign :: "'w rpc \<Rightarrow> client \<Rightarrow> string \<Rightarrow> ('w, string) io" where
  "withdrawWithSign rpc cl signerPublicKey = escrow_sendSigned rpc cl signerPublicKey ''withdraw'' [AAddress signerPublicKey]"

definition updateEscrowConfig :: "'w rpc \<Rightarrow> client \<Rightarrow> string \<Rightarrow> int \<Rightarrow> int \<Rightarrow> int \<Rightarrow> ('w, string) io" where
  "updateEscrowConfig rpc cl signer minLockDuration maxLockDuration maxMultiplierBps =
     escrow_send rpc cl signer ''update_escrow_config''
       [AAddress signer, AU32 minLockDuration, AU32 maxLockDuration, AU32 maxMultiplierBps]"

text \<open>The calldata of a proposal that changes the configuration: target, function and the XDR of the argument vector.\<close>

definition encodeUpdateEscrowConfigCalldata ::
  "'w rpc \<Rightarrow> (sc_arg \<Rightarrow> bytes) \<Rightarrow> client \<Rightarrow> string \<Rightarrow> int \<Rightarrow> int \<Rightarrow> int \<Rightarrow> ('w, string \<times> string \<times> bytes) io" where
  "encodeUpdateEscrowConfigCalldata rpc toXDR cl adminAddress minLockDuration maxLockDuration maxMultiplierBps =
     (let args = [AAddress adminAddress, AU32 minLockDuration, AU32 maxLockDuration, AU32 maxMultiplierBps] in
      and_then (encode_args rpc args) (\<lambda>_.
        returning (cl_contract cl, ''update_escrow_config'', toXDR (AVec args))))"

definition increaseLockAmount :: "'w rpc \<Rightarrow> client \<Rightarrow> string \<Rightarrow> int \<Rightarrow> ('w, string) io" where
  "increaseLockAmount rpc cl signer additionalAmount =
     escrow_send rpc cl signer ''increase_lock_amount'' [AAddress signer, AI128 additionalAmount]"

definition extendLock :: "'w rpc \<Rightarrow> client \<Rightarrow> string \<Rightarrow> int \<Rightarrow> ('w, string) io" where
  "extendLock rpc cl signer newEndLedger = escrow_send rpc cl signer ''extend_lock'' [AAddress signer, AU32 newEndLedger]"

definition escrow_withdraw :: "'w rpc \<Rightarrow> client \<Rightarrow> string \<Rightarrow> ('w, string) io" where
  "escrow_withdraw rpc cl signer = escrow_send rpc cl signer ''withdraw'' [AAddress signer]"

subsection \<open>Vote escrow: reads\<close>

definition parseLock :: "js_value \<Rightarrow> client_error + Lock" where
  "parseLock native =
     with_member native ''owner'' (\<lambda>owner.
     with_BigInt (field native ''amount'') (\<lambda>amount.
     with_BigInt (field native ''initial_voting_power'') (\<lambda>power.
       Inr \<lparr>lk_owner = owner, lk_amount = amount, lk_start_ledger = js_Number (field native ''start_ledger''),
            lk_end_ledger = js_Number (field native ''end_ledger''), lk_initial_voting_power = power,
            lk_withdrawn = js_Boolean (field native ''withdrawn'')\<rparr>)))"

text \<open>A failed simulation that says \<^verbatim>\<open>LockNotFound\<close> is an answer; any other is thrown.\<close>

definition missing_lock :: "'a \<Rightarrow> string \<Rightarrow> client_error + 'a" where
  "missing_lock dflt message =
     (let e = parseVoteEscrowError (RawObject None (Some message)) in
      if se_code e = the (map_of VoteEscrowErrorCode ''LockNotFound'') then Inr dflt
      else Inl (parsed ''VoteEscrowError'' e))"

definition escrow_no_result :: "string \<Rightarrow> client_error" where
  "escrow_no_result what =
     parsed ''VoteEscrowError'' (parseVoteEscrowError (RawString (''Simulation returned no '' @ what @ '' result'')))"

definition getLock :: "'w rpc \<Rightarrow> client \<Rightarrow> string \<Rightarrow> ('w, Lock option) io" where
  "getLock rpc cl owner =
     retrying cl None (read_call rpc cl (escrow_readAccount cl (Some owner)) ''get_lock'' [AAddress owner]
       (missing_lock None) (Inl (escrow_no_result ''lock''))
       (\<lambda>native. if nullish native then Inr None else bind_sum (parseLock native) (\<lambda>l. Inr (Some l))))"

definition getVotingPower :: "'w rpc \<Rightarrow> client \<Rightarrow> string \<Rightarrow> ('w, int) io" where
  "getVotingPower rpc cl owner =
     retrying cl None (read_call rpc cl (escrow_readAccount cl (Some owner)) ''get_votes'' [AAddress owner]
       (missing_lock 0) (Inl (escrow_no_result ''voting power''))
       (\<lambda>native. if nullish native then Inl (escrow_no_result ''voting power'') else with_BigInt native Inr))"

definition getEscrowStats :: "'w rpc \<Rightarrow> client \<Rightarrow> ('w, VoteEscrowStats option) io" where
  "getEscrowStats rpc cl =
     retrying cl None
       (and_then (asking (rp_getLatestLedger rpc)) (\<lambda>ledgerSeq.
          read_call rpc cl (escrow_readAccount cl None) ''get_past_total_supply'' [AU32 ledgerSeq]
            (\<lambda>_. Inr None) (Inr None)
            (\<lambda>native.
               if nullish native then Inr None
               else case js_BigInt (JString (js_String native)) of
                 None \<Rightarrow> Inr None
               | Some totalLocked \<Rightarrow> if totalLocked = 0 then Inr None else Inr (Some \<lparr>ve_total_locked = totalLocked\<rparr>))))"

definition escrow_getPastVotes :: "'w rpc \<Rightarrow> client \<Rightarrow> string \<Rightarrow> int \<Rightarrow> ('w, int) io" where
  "escrow_getPastVotes rpc cl owner ledger =
     retrying cl None (read_call rpc cl (escrow_readAccount cl (Some owner)) ''get_past_votes'' [AAddress owner, AU32 ledger]
       (\<lambda>_. Inr 0) (Inr 0) (\<lambda>v. with_BigInt v Inr))"

definition escrow_getPastTotalSupply :: "'w rpc \<Rightarrow> client \<Rightarrow> int \<Rightarrow> ('w, int) io" where
  "escrow_getPastTotalSupply rpc cl ledger =
     retrying cl None (read_call rpc cl (escrow_readAccount cl None) ''get_past_total_supply'' [AU32 ledger]
       (\<lambda>_. Inr 0) (Inr 0) (\<lambda>v. with_BigInt v Inr))"

definition getLockHistory :: "'w rpc \<Rightarrow> client \<Rightarrow> string \<Rightarrow> int \<Rightarrow> int \<Rightarrow> ('w, Lock list) io" where
  "getLockHistory rpc cl owner offset limit =
     retrying cl None (read_call rpc cl (escrow_readAccount cl (Some owner)) ''get_lock_history''
       [AAddress owner, AU32 offset, AU32 limit] (\<lambda>_. Inr []) (Inr [])
       (\<lambda>native. case native of JArray locks \<Rightarrow> map_throwing parseLock locks | _ \<Rightarrow> Inr []))"

definition escrow_getToken :: "'w rpc \<Rightarrow> client \<Rightarrow> ('w, string) io" where
  "escrow_getToken rpc cl =
     retrying cl None (read_call rpc cl (escrow_readAccount cl None) ''token'' [] (\<lambda>_. Inr '''') (Inr '''') (\<lambda>v. Inr (js_String v)))"

subsection \<open>Reputation\<close>

record ProposerReputation =
  pr_proposer :: js_value
  pr_totalProposals :: js_number
  pr_totalParticipationBpsSum :: int
  pr_lastProposalLedger :: js_number
  pr_reputationScore :: js_number
  pr_thresholdMultiplierBps :: js_number
  pr_firstProposalLedger :: js_number
  pr_consecutiveSuccessful :: js_number
  pr_consecutiveFailed :: js_number

record ReputationScoreEntry =
  re_ledger :: js_number
  re_score :: js_number
  re_change :: js_number
  re_reason :: string

record ProposerLeaderboardEntry =
  le_rank :: js_number
  le_proposer :: js_value
  le_reputationScore :: js_number
  le_lastUpdatedLedger :: "js_number option"

record ReputationSummary =
  rs_address :: js_value
  rs_reputationScore :: js_number
  rs_lastUpdatedLedger :: "js_number option"

record ThresholdHistoryEntry =
  th_ledger :: js_number
  th_oldThreshold :: int
  th_newThreshold :: int

definition mapProposerReputation :: "js_value \<Rightarrow> client_error + ProposerReputation" where
  "mapProposerReputation raw =
     with_member raw ''proposer'' (\<lambda>proposer.
     with_BigInt (or_zero (field raw ''total_participation_bps_sum'')) (\<lambda>total.
       Inr \<lparr>pr_proposer = proposer, pr_totalProposals = js_Number (field raw ''total_proposals''),
            pr_totalParticipationBpsSum = total, pr_lastProposalLedger = js_Number (field raw ''last_proposal_ledger''),
            pr_reputationScore = js_Number (field raw ''reputation_score''),
            pr_thresholdMultiplierBps = js_Number (field raw ''threshold_multiplier_bps''),
            pr_firstProposalLedger = js_Number (field raw ''first_proposal_ledger''),
            pr_consecutiveSuccessful = js_Number (field raw ''consecutive_successful''),
            pr_consecutiveFailed = js_Number (field raw ''consecutive_failed'')\<rparr>))"

definition mapScoreEntry :: "js_value \<Rightarrow> client_error + ReputationScoreEntry" where
  "mapScoreEntry r =
     with_member r ''ledger'' (\<lambda>ledger.
       Inr \<lparr>re_ledger = js_Number ledger, re_score = js_Number (field r ''score''), re_change = js_Number (field r ''change''),
            re_reason = js_String (field r ''reason'')\<rparr>)"

definition mapLeaderboardEntry :: "js_value \<Rightarrow> int \<Rightarrow> client_error + ProposerLeaderboardEntry" where
  "mapLeaderboardEntry r fallbackRank =
     with_member r ''rank'' (\<lambda>rank.
       Inr \<lparr>le_rank = (if nullish rank then js_int fallbackRank else js_Number rank),
            le_proposer = nullish_or (field r ''proposer'') (field r ''address''),
            le_reputationScore = js_Number (field r ''reputation_score''),
            le_lastUpdatedLedger = number_or_none (field r ''last_updated_ledger'')\<rparr>)"

definition mapThresholdEntry :: "js_value \<Rightarrow> client_error + ThresholdHistoryEntry" where
  "mapThresholdEntry r =
     with_member r ''ledger'' (\<lambda>ledger.
     with_BigInt (or_zero (field r ''old_threshold'')) (\<lambda>old.
     with_BigInt (or_zero (field r ''new_threshold'')) (\<lambda>new.
       Inr \<lparr>th_ledger = js_Number ledger, th_oldThreshold = old, th_newThreshold = new\<rparr>)))"

definition ReputationClient :: "stellar \<Rightarrow> config \<Rightarrow> string \<Rightarrow> client_error + client" where
  "ReputationClient stellar config governorAddress = open_client stellar config network_defaults governorAddress"

definition ReputationErr :: "string \<Rightarrow> string \<Rightarrow> client_error" where
  "ReputationErr code message = typed ''GovernorError'' (the (map_of GovernorErrorCode code)) message"

definition reputation_readAccount :: "client \<Rightarrow> string" where
  "reputation_readAccount cl = or_else (cl_simulationAccount cl) (cl_contract cl)"

definition reputation_pollForConfirmation :: "'w rpc \<Rightarrow> client \<Rightarrow> string \<Rightarrow> ('w, js_value option) io" where
  "reputation_pollForConfirmation rpc cl hash =
     poll_confirmation ''GovernorError'' (the (map_of GovernorErrorCode ''TransactionFailed''))
       (the (map_of GovernorErrorCode ''TransactionTimeout'')) 10 rpc cl hash"

definition reputation_simulate :: "'w rpc \<Rightarrow> client \<Rightarrow> string \<Rightarrow> sc_arg list \<Rightarrow> ('w, js_value) io" where
  "reputation_simulate rpc cl fnName args =
     and_then (encode_args rpc args) (\<lambda>_.
     retrying cl None (read_call rpc cl (reputation_readAccount cl) fnName args
       (\<lambda>err. Inl (parsed ''GovernorError'' (parseGovernorError (RawObject (Some ''ERROR'') (Some err)))))
       (Inl (ReputationErr ''SimulationFailed'' (''No return value from '' @ fnName))) Inr))"

definition reputation_submit :: "'w rpc \<Rightarrow> client \<Rightarrow> string \<Rightarrow> string \<Rightarrow> sc_arg list \<Rightarrow> ('w, string \<times> js_value option) io" where
  "reputation_submit rpc cl signer fnName args =
     and_then (encode_args rpc args) (\<lambda>_.
     retrying cl None (submit_and_confirm rpc cl (sent_error ''GovernorError'' parseGovernorError)
       (reputation_pollForConfirmation rpc cl) signer fnName args (\<lambda>hash confirmed. Inr (hash, confirmed))))"

definition reputation_submitWithSign :: "'w rpc \<Rightarrow> client \<Rightarrow> string \<Rightarrow> string \<Rightarrow> sc_arg list \<Rightarrow> ('w, string \<times> js_value option) io" where
  "reputation_submitWithSign rpc cl signerPublicKey fnName args =
     and_then (encode_args rpc args) (\<lambda>_.
     retrying cl None (submit_signed rpc cl (sent_error ''GovernorError'' parseGovernorError)
       (reputation_pollForConfirmation rpc cl) signerPublicKey fnName args (\<lambda>hash confirmed. Inr (hash, confirmed))))"

definition reputation_indexerRequest :: "'w rpc \<Rightarrow> client \<Rightarrow> string \<Rightarrow> ('w, js_value) io" where
  "reputation_indexerRequest rpc cl path =
     (if or_else (cl_indexerUrl cl) '''' = ''''
      then throwing (ReputationErr ''SimulationFailed''
        ''ReputationClient requires config.indexerUrl to be set for indexer-backed methods'')
      else retrying cl None
        (fetch_json rpc (\<lambda>resp. ReputationErr ''SimulationFailed'' (''Indexer request failed: '' @ dec_int (hr_status resp)))
           (or_else (cl_indexerUrl cl) '''' @ path)))"

definition getProposerReputation :: "'w rpc \<Rightarrow> client \<Rightarrow> string \<Rightarrow> ('w, ProposerReputation) io" where
  "getProposerReputation rpc cl proposer =
     and_then (reputation_simulate rpc cl ''get_proposer_reputation'' [AAddress proposer]) (\<lambda>raw. settle (mapProposerReputation raw))"

definition client_getEffectiveThreshold :: "'w rpc \<Rightarrow> client \<Rightarrow> string \<Rightarrow> ('w, int) io" where
  "client_getEffectiveThreshold rpc cl proposer =
     and_then (reputation_simulate rpc cl ''get_effective_threshold'' [AAddress proposer]) (\<lambda>raw. settle (with_BigInt raw Inr))"

definition applyDecay :: "'w rpc \<Rightarrow> client \<Rightarrow> string \<Rightarrow> string \<Rightarrow> ('w, string) io" where
  "applyDecay rpc cl signer proposer =
     and_then (reputation_submit rpc cl signer ''apply_reputation_decay'' [AAddress proposer]) (\<lambda>(hash, _). returning hash)"

definition applyDecayWithSign :: "'w rpc \<Rightarrow> client \<Rightarrow> string \<Rightarrow> string \<Rightarrow> ('w, string) io" where
  "applyDecayWithSign rpc cl signerPublicKey proposer =
     and_then (reputation_submitWithSign rpc cl signerPublicKey ''apply_reputation_decay'' [AAddress proposer]) (\<lambda>(hash, _). returning hash)"

definition getScore :: "'w rpc \<Rightarrow> client \<Rightarrow> string \<Rightarrow> ('w, ReputationSummary) io" where
  "getScore rpc cl proposer =
     and_then (reputation_indexerRequest rpc cl (''/reputation/'' @ proposer)) (\<lambda>raw.
       settle (with_member raw ''address'' (\<lambda>address.
         Inr \<lparr>rs_address = nullish_or address (JString proposer),
              rs_reputationScore = js_Number (or_zero (field raw ''reputation_score'')),
              rs_lastUpdatedLedger = number_or_none (field raw ''last_updated_ledger'')\<rparr>)))"

definition getScoreHistory :: "'w rpc \<Rightarrow> client \<Rightarrow> string \<Rightarrow> int \<Rightarrow> int \<Rightarrow> ('w, ReputationScoreEntry list) io" where
  "getScoreHistory rpc cl proposer limit offset =
     and_then (reputation_indexerRequest rpc cl (''/reputation/'' @ proposer @ ''/history'' @ page_query limit offset)) (\<lambda>raw.
       settle (rows_of raw ''history'' (map_throwing mapScoreEntry)))"

definition getScoreHistoryPage :: "'w rpc \<Rightarrow> client \<Rightarrow> string \<Rightarrow> int \<Rightarrow> int \<Rightarrow> ('w, ReputationScoreEntry indexer_page) io" where
  "getScoreHistoryPage rpc cl proposer limit offset =
     and_then (reputation_indexerRequest rpc cl (''/reputation/'' @ proposer @ ''/history'' @ page_query limit offset)) (\<lambda>raw.
       settle (bind_sum (rows_of raw ''history'' (map_throwing mapScoreEntry)) (\<lambda>entries. Inr (paged raw limit offset entries))))"

text \<open>The entries with their ranks from \<open>first\<close> on.\<close>

fun ranked_entries :: "int \<Rightarrow> js_value list \<Rightarrow> client_error + ProposerLeaderboardEntry list" where
  "ranked_entries first [] = Inr []"
| "ranked_entries first (r # rs) =
     bind_sum (mapLeaderboardEntry r first) (\<lambda>e. bind_sum (ranked_entries (first + 1) rs) (\<lambda>es. Inr (e # es)))"

definition getLeaderboard :: "'w rpc \<Rightarrow> client \<Rightarrow> int \<Rightarrow> int \<Rightarrow> ('w, ProposerLeaderboardEntry list) io" where
  "getLeaderboard rpc cl limit offset =
     and_then (reputation_indexerRequest rpc cl (''/reputation/leaderboard'' @ page_query limit offset)) (\<lambda>raw.
       settle (rows_of raw ''leaderboard'' (ranked_entries (offset + 1))))"

definition getLeaderboardPage :: "'w rpc \<Rightarrow> client \<Rightarrow> int \<Rightarrow> int \<Rightarrow> ('w, ProposerLeaderboardEntry list \<times> int \<times> int) io" where
  "getLeaderboardPage rpc cl limit offset =
     and_then (reputation_indexerRequest rpc cl (''/reputation/leaderboard'' @ page_query limit offset)) (\<lambda>raw.
       settle (bind_sum (rows_of raw ''leaderboard'' (ranked_entries (max offset 0 + 1))) (\<lambda>entries.
         Inr (entries, page_limit 200 limit, max offset 0))))"

definition getThresholdHistory :: "'w rpc \<Rightarrow> client \<Rightarrow> string \<Rightarrow> int \<Rightarrow> int \<Rightarrow> ('w, ThresholdHistoryEntry list) io" where
  "getThresholdHistory rpc cl proposer limit offset =
     and_then (reputation_indexerRequest rpc cl (''/reputation/'' @ proposer @ ''/threshold-history'' @ page_query limit offset)) (\<lambda>raw.
       settle (rows_of raw ''history'' (map_throwing mapThresholdEntry)))"

definition getThresholdHistoryPage :: "'w rpc \<Rightarrow> client \<Rightarrow> string \<Rightarrow> int \<Rightarrow> int \<Rightarrow> ('w, ThresholdHistoryEntry indexer_page) io" where
  "getThresholdHistoryPage rpc cl proposer limit offset =
     and_then (reputation_indexerRequest rpc cl (''/reputation/'' @ proposer @ ''/threshold-history'' @ page_query limit offset)) (\<lambda>raw.
       settle (bind_sum (rows_of raw ''history'' (map_throwing mapThresholdEntry)) (\<lambda>entries. Inr (paged raw limit offset entries))))"

subsection \<open>Retries\<close>

text \<open>The node takes every transaction up to \<^verbatim>\<open>sendTransaction\<close>, which answers with the status \<^verbatim>\<open>ERROR\<close>.\<close>

definition rejects_all :: "'w rpc \<Rightarrow> bool" where
  "rejects_all rpc \<longleftrightarrow>
     (\<forall>a w. \<exists>q w'. rp_getAccount rpc a w = (Inr q, w')) \<and> (\<forall>a. rp_encode rpc a = None) \<and>
     (\<forall>tx w. \<exists>w'. rp_prepare rpc tx w = (Inr (), w')) \<and>
     (\<forall>tx w. \<exists>result w'. rp_send rpc tx w = (Inr result, w') \<and> \<not> accepted result)"

lemma send_prepared_rejected:
  assumes "rejects_all rpc"
  shows "\<exists>e s' tx result. send_prepared rpc cl parse signer method args s = (Inl e, s') \<and>
    ss_sent s' = ss_sent s @ [(tx, Inr result)] \<and> call_of cl signer method args tx \<and> \<not> accepted result"
proof -
  obtain q w1 where w1: "rp_getAccount rpc signer (ss_world s) = (Inr q, w1)" using assms by (metis rejects_all_def)
  define tx where "tx = \<lparr>in_source = signer, in_sequence = q + 1, in_contract = cl_contract cl, in_method = method, in_args = args\<rparr>"
  obtain w2 where w2: "rp_prepare rpc tx w1 = (Inr (), w2)" using assms by (metis rejects_all_def)
  obtain result w3 where w3: "rp_send rpc tx w2 = (Inr result, w3)" "\<not> accepted result" using assms by (metis rejects_all_def)
  have "List.map_filter (rp_encode rpc) args = []" using assms by (simp add: rejects_all_def map_filter_def)
  with w1 w2 w3 have "send_prepared rpc cl parse signer method args s =
      (Inl (parse result), s\<lparr>ss_world := w3, ss_sent := ss_sent s @ [(tx, Inr result)]\<rparr>)"
    by (simp add: send_prepared_def build_transaction_def and_then_def asking_def encode_args_def returning_def throwing_def
        sendTransaction_io_def check_sent_def accepted_def tx_def)
  then show ?thesis using w3(2) by (auto simp: call_of_def tx_def)
qed

text \<open>A lock that the node rejects is submitted again until the attempts are used up: the error decides nothing, as the
  client sets no \<^verbatim>\<open>retryOn\<close>.\<close>

theorem createLock_rejected_repeats:
  assumes "rejects_all rpc" "VoteEscrowClient stellar valid config address = Inr cl"
    and "cf_retry config = \<lparr>cc_retry = None, cc_maxAttempts = n, cc_baseDelayMs = d\<rparr>" "1 \<le> or_else n 5"
  shows "\<exists>e s' l. createLock rpc cl signer amount duration s = (Inl e, s') \<and> ss_sent s' = ss_sent s @ l \<and>
    int (length l) = or_else n 5 \<and>
    list_all (\<lambda>(tx, _). call_of cl signer ''create_lock'' [AAddress signer, AI128 amount, AU32 duration] tx) l"
proof -
  have cl: "cl_retry cl = cf_retry config"
    "cl_retryDefaults cl = no_options\<lparr>ro_maxAttempts := Given 5, ro_baseDelayMs := Given 1000\<rparr>"
    using assms(2) by (auto simp: VoteEscrowClient_def open_client_def split: option.splits if_splits sum.splits)
  have attempts: "attempts_of cl = or_else n 5" and again: "retry_on cl None e" for e
    by (cases n; simp add: attempts_of_def retry_on_def cl assms(3) merged_options_def no_options_def spread_def
        coalesce_def or_else_def)+
  let ?m = "send_prepared rpc cl (sent_error ''VoteEscrowError'' parseVoteEscrowError) signer ''create_lock''
      [AAddress signer, AI128 amount, AU32 duration]"
  let ?P = "\<lambda>(tx, _). call_of cl signer ''create_lock'' [AAddress signer, AI128 amount, AU32 duration] tx"
  have "\<exists>e s' x. ?m s = (Inl e, s') \<and> retry_on cl None e \<and> ss_sent s' = ss_sent s @ [x] \<and> ?P x" for s
    using send_prepared_rejected [OF assms(1)] again by fastforce
  from run_attempts_all_fail [of ?m "retry_on cl None" ?P "nat (or_else n 5)" s, OF this] assms(4)
  show ?thesis unfolding createLock_def escrow_send_def retrying_attempts attempts by auto
qed

interpretation reputations: cautious_client "''GovernorError''" "the (map_of GovernorErrorCode ''TransactionFailed'')"
  "the (map_of GovernorErrorCode ''TransactionTimeout'')" "\<lambda>_. sent_error ''GovernorError'' parseGovernorError" reputation_submit
  by unfold_locales (simp add: reputation_submit_def reputation_pollForConfirmation_def [abs_def])

text \<open>The two leaderboards agree whenever the offset is not negative.\<close>

lemma leaderboard_page_entries:
  assumes "0 \<le> offset" "getLeaderboardPage rpc cl limit offset s = (Inr (entries, l, o'), s')"
  shows "getLeaderboard rpc cl limit offset s = (Inr entries, s') \<and> l = page_limit 200 limit \<and> o' = offset"
  using assms by (auto simp: getLeaderboardPage_def getLeaderboard_def and_then_resolved bind_sum_resolved)

end
