(* ===== verification/SdkFactory.thy ===== *)
theory SdkFactory
  imports SdkStreams SdkEscrow
begin

section \<open>The factory, liquidity and wrapper clients of the SDK\<close>

text \<open>
  \<^verbatim>\<open>FactoryClient\<close> (\<^verbatim>\<open>sdk/src/factory.ts\<close>), \<^verbatim>\<open>LiquidityClient\<close> (\<^verbatim>\<open>liquidity.ts\<close>) and \<^verbatim>\<open>WrapperClient\<close> (\<^verbatim>\<open>wrapper.ts\<close>). The wrapper reads
  the property \<^verbatim>\<open>value\<close> of the returned XDR object itself, which is a parameter.
\<close>

subsection \<open>Factory\<close>

datatype DeployVoteType = SimpleVotes | ExtendedVotes | QuadraticVotes

record DeploySettings =
  ds_votingDelay :: int
  ds_votingPeriod :: int
  ds_quorumNumerator :: int
  ds_proposalThreshold :: int
  ds_timelockDelay :: int
  ds_guardian :: string
  ds_voteType :: DeployVoteType
  ds_proposalGracePeriod :: int

definition FactoryClient :: "stellar \<Rightarrow> config \<Rightarrow> string \<Rightarrow> client_error + client" where
  "FactoryClient stellar config factoryAddress = open_client stellar config no_options factoryAddress"

definition getGovernorCount :: "'w rpc \<Rightarrow> client \<Rightarrow> ('w, int) io" where
  "getGovernorCount rpc cl =
     read_call rpc cl (cl_contract cl) ''governor_count'' [] (\<lambda>_. Inr 0) (Inr 0) (\<lambda>v. with_BigInt v Inr)"

definition estimateDeployCost :: "'w rpc \<Rightarrow> client \<Rightarrow> ('w, int) io" where
  "estimateDeployCost rpc cl =
     read_call rpc cl (cl_contract cl) ''estimate_deploy_cost'' []
       (\<lambda>_. Inl (js_error_of ''Error'' ''Simulation error estimating deploy cost''))
       (Inl (js_error_of ''Error'' ''No return value when estimating deploy cost'')) (\<lambda>v. with_BigInt v Inr)"

definition factory_getGovernor :: "'w rpc \<Rightarrow> client \<Rightarrow> int \<Rightarrow> ('w, js_value) io" where
  "factory_getGovernor rpc cl i =
     read_call rpc cl (cl_contract cl) ''get_governor'' [AU64 i]
       (\<lambda>_. Inl (js_error_of ''Error'' (''Simulation error fetching governor '' @ dec_int i)))
       (Inl (js_error_of ''Error'' (''No return value when fetching governor '' @ dec_int i))) Inr"

text \<open>The loop over pages of 50 identifiers.\<close>

function governor_pages :: "'w rpc \<Rightarrow> client \<Rightarrow> int \<Rightarrow> int \<Rightarrow> ('w, js_value list) io" where
  "governor_pages rpc cl maxId start =
     (if start \<le> maxId then
        (let batchEnd = min (start + 50 - 1) maxId in
         and_then (each (factory_getGovernor rpc cl) [start..batchEnd]) (\<lambda>page.
         and_then (governor_pages rpc cl maxId (start + 50)) (\<lambda>rest. returning (page @ rest))))
      else returning [])"
  by pat_completeness auto
termination
  by (relation "measure (\<lambda>(rpc, cl, maxId, start). nat (maxId + 1 - start))") auto

declare governor_pages.simps [simp del]

definition page_of_governors :: "int \<Rightarrow> int option \<Rightarrow> int option \<Rightarrow> (int \<times> int) option" where
  "page_of_governors count limitOpt offsetOpt =
     (if count = 0 then None
      else
        let offset = (case offsetOpt of Some n \<Rightarrow> if 0 < n then n else 0 | None \<Rightarrow> 0) in
        if count \<le> offset then None
        else
          let limit = (case limitOpt of Some n \<Rightarrow> if 0 < n then n else count - offset | None \<Rightarrow> count - offset)
          in Some (offset + 1, min count (offset + limit)))"

definition getAllGovernors :: "'w rpc \<Rightarrow> client \<Rightarrow> int option \<Rightarrow> int option \<Rightarrow> ('w, js_value list) io" where
  "getAllGovernors rpc cl limitOpt offsetOpt =
     and_then (getGovernorCount rpc cl) (\<lambda>count.
       case page_of_governors count limitOpt offsetOpt of
         None \<Rightarrow> returning []
       | Some (start, maxId) \<Rightarrow> governor_pages rpc cl maxId start)"

fun voteTypeToUint :: "DeployVoteType \<Rightarrow> int" where
  "voteTypeToUint SimpleVotes = 0"
| "voteTypeToUint ExtendedVotes = 1"
| "voteTypeToUint QuadraticVotes = 2"

definition factory_pollForConfirmation :: "'w rpc \<Rightarrow> string \<Rightarrow> ('w, js_value option) io" where
  "factory_pollForConfirmation rpc hash =
     poll_rounds (asking (rp_getTransaction rpc hash)) (js_error_of ''Error'' (''Transaction failed: '' @ hash))
       (js_error_of ''Error'' (timeout_message 10)) 10"

definition deploy :: "'w rpc \<Rightarrow> client \<Rightarrow> string \<Rightarrow> string \<Rightarrow> DeploySettings \<Rightarrow> ('w, int) io" where
  "deploy rpc cl signer token settings =
     submit_and_confirm rpc cl (\<lambda>_. js_error_of ''Error'' ''Deploy transaction failed'') (factory_pollForConfirmation rpc) signer ''deploy''
       [AAddress signer, AAddress token, AU32 (ds_votingDelay settings), AU32 (ds_votingPeriod settings),
        AU32 (ds_quorumNumerator settings), AI128 (ds_proposalThreshold settings), AU64 (ds_timelockDelay settings),
        AAddress (ds_guardian settings), AU32 (voteTypeToUint (ds_voteType settings)), AU32 (ds_proposalGracePeriod settings)]
       (\<lambda>hash. value_or (js_error_of ''Error'' ''No return value from confirmed deploy transaction'') (\<lambda>v. with_BigInt v Inr))"

subsection \<open>Liquidity\<close>

record Pool =
  pl_reserveA :: int
  pl_reserveB :: int
  pl_totalLpSupply :: int
  pl_feeBps :: js_number

definition decodePool :: "js_value \<Rightarrow> client_error + Pool" where
  "decodePool p =
     with_member p ''reserve_a'' (\<lambda>a. with_BigInt a (\<lambda>reserveA.
     with_BigInt (field p ''reserve_b'') (\<lambda>reserveB.
     with_BigInt (field p ''total_lp_supply'') (\<lambda>totalLpSupply.
       Inr \<lparr>pl_reserveA = reserveA, pl_reserveB = reserveB, pl_totalLpSupply = totalLpSupply,
            pl_feeBps = js_Number (field p ''fee_bps'')\<rparr>))))"

definition LiquidityClient :: "stellar \<Rightarrow> config \<Rightarrow> string \<Rightarrow> client_error + client" where
  "LiquidityClient stellar config liquidityAddress = open_client stellar config network_defaults liquidityAddress"

definition LiquidityErr :: "string \<Rightarrow> client_error" where
  "LiquidityErr message = typed ''TreasuryError'' (the (map_of TreasuryErrorCode ''InvalidArguments'')) message"

definition liquidity_readAccount :: "client \<Rightarrow> client_error + string" where
  "liquidity_readAccount cl =
     (let account = or_else (cl_simulationAccount cl) '''' in
      if account = '''' then Inl (LiquidityErr ''LiquidityClient read methods require simulationAccount in LiquidityConfig'')
      else Inr account)"

definition getPoolSafe :: "'w rpc \<Rightarrow> client \<Rightarrow> int \<Rightarrow> int \<Rightarrow> ('w, Pool option) io" where
  "getPoolSafe rpc cl outcomeA outcomeB =
     retrying cl None
       (and_then (settle (liquidity_readAccount cl)) (\<lambda>account.
          read_call rpc cl account ''get_pool_safe'' [AU32 outcomeA, AU32 outcomeB] (\<lambda>_. Inr None) (Inr None)
            (\<lambda>decoded. if nullish decoded then Inr None else bind_sum (decodePool decoded) (\<lambda>p. Inr (Some p)))))"

definition getPool :: "'w rpc \<Rightarrow> client \<Rightarrow> int \<Rightarrow> int \<Rightarrow> ('w, Pool) io" where
  "getPool rpc cl outcomeA outcomeB =
     and_then (getPoolSafe rpc cl outcomeA outcomeB) (\<lambda>pool.
       case pool of
         None \<Rightarrow> throwing (LiquidityErr (''Pool not found for outcomes ('' @ dec_int outcomeA @ '', '' @ dec_int outcomeB @ '')''))
       | Some p \<Rightarrow> returning p)"

definition readNative :: "'w rpc \<Rightarrow> client \<Rightarrow> string \<Rightarrow> sc_arg list \<Rightarrow> ('w, js_value) io" where
  "readNative rpc cl method args =
     and_then (encode_args rpc args) (\<lambda>_.
     retrying cl None
       (and_then (settle (liquidity_readAccount cl)) (\<lambda>account.
          read_call rpc cl account method args (\<lambda>_. Inl (LiquidityErr (method @ '' simulation failed'')))
            (Inl (LiquidityErr (method @ '' returned no value''))) Inr)))"

definition getLpPosition :: "'w rpc \<Rightarrow> client \<Rightarrow> string \<Rightarrow> int \<Rightarrow> int \<Rightarrow> ('w, int) io" where
  "getLpPosition rpc cl provider outcomeA outcomeB =
     and_then (readNative rpc cl ''get_lp_position'' [AAddress provider, AU32 outcomeA, AU32 outcomeB]) (\<lambda>v. settle (with_BigInt v Inr))"

definition getPrice :: "'w rpc \<Rightarrow> client \<Rightarrow> int \<Rightarrow> int \<Rightarrow> ('w, int) io" where
  "getPrice rpc cl outcomeA outcomeB =
     and_then (readNative rpc cl ''get_price'' [AU32 outcomeA, AU32 outcomeB]) (\<lambda>v. settle (with_BigInt v Inr))"

definition liquidity_submitWithSign :: "'w rpc \<Rightarrow> client \<Rightarrow> string \<Rightarrow> string \<Rightarrow> sc_arg list \<Rightarrow> ('w, string) io" where
  "liquidity_submitWithSign rpc cl signerPublicKey method args =
     and_then (encode_args rpc args) (\<lambda>_.
       send_signed rpc cl (\<lambda>_. js_error_of ''Error'' (method @ '' transaction was rejected by the network'')) signerPublicKey method args)"

definition addLiquidityWithSign :: "'w rpc \<Rightarrow> client \<Rightarrow> string \<Rightarrow> int \<Rightarrow> int \<Rightarrow> int \<Rightarrow> int \<Rightarrow> int \<Rightarrow> ('w, string) io" where
  "addLiquidityWithSign rpc cl signerPublicKey outcomeA outcomeB amountA amountB minLpTokensOut =
     liquidity_submitWithSign rpc cl signerPublicKey ''add_liquidity''
       [AAddress signerPublicKey, AU32 outcomeA, AU32 outcomeB, AI128 amountA, AI128 amountB, AI128 minLpTokensOut]"

definition removeLiquidityWithSign :: "'w rpc \<Rightarrow> client \<Rightarrow> string \<Rightarrow> int \<Rightarrow> int \<Rightarrow> int \<Rightarrow> ('w, string) io" where
  "removeLiquidityWithSign rpc cl signerPublicKey outcomeA outcomeB lpTokens =
     liquidity_submitWithSign rpc cl signerPublicKey ''remove_liquidity''
       [AAddress signerPublicKey, AU32 outcomeA, AU32 outcomeB, AI128 lpTokens]"

definition swapWithSign :: "'w rpc \<Rightarrow> client \<Rightarrow> string \<Rightarrow> int \<Rightarrow> int \<Rightarrow> int \<Rightarrow> int \<Rightarrow> ('w, string) io" where
  "swapWithSign rpc cl signerPublicKey outcomeIn outcomeOut amountIn minAmountOut =
     liquidity_submitWithSign rpc cl signerPublicKey ''swap''
       [AAddress signerPublicKey, AU32 outcomeIn, AU32 outcomeOut, AI128 amountIn, AI128 minAmountOut]"

subsection \<open>Wrapper\<close>

definition WrapperClient :: "stellar \<Rightarrow> config \<Rightarrow> string \<Rightarrow> client_error + client" where
  "WrapperClient stellar config wrapperAddress = open_client stellar config no_options wrapperAddress"

text \<open>The steps of a write: the status of the answer is not looked at.\<close>

definition send_unchecked :: "'w rpc \<Rightarrow> client \<Rightarrow> string \<Rightarrow> string \<Rightarrow> sc_arg list \<Rightarrow> ('w, string) io" where
  "send_unchecked rpc cl signer method args =
     and_then (build_transaction rpc cl signer method args) (\<lambda>tx.
     and_then (asking (rp_prepare rpc tx)) (\<lambda>_.
     and_then (sendTransaction_io rpc tx) (\<lambda>result. returning (sr_hash result))))"

definition wrapper_deposit :: "'w rpc \<Rightarrow> client \<Rightarrow> string \<Rightarrow> int \<Rightarrow> ('w, string) io" where
  "wrapper_deposit rpc cl signer amount = send_unchecked rpc cl signer ''deposit'' [AAddress signer, AI128 amount]"

definition wrapper_withdraw :: "'w rpc \<Rightarrow> client \<Rightarrow> string \<Rightarrow> int \<Rightarrow> ('w, string) io" where
  "wrapper_withdraw rpc cl signer amount = send_unchecked rpc cl signer ''withdraw'' [AAddress signer, AI128 amount]"

definition wrapper_delegate :: "'w rpc \<Rightarrow> client \<Rightarrow> string \<Rightarrow> string \<Rightarrow> ('w, string) io" where
  "wrapper_delegate rpc cl signer delegatee = send_unchecked rpc cl signer ''delegate'' [AAddress signer, AAddress delegatee]"

definition wrapper_read :: "(js_value \<Rightarrow> js_value) \<Rightarrow> 'w rpc \<Rightarrow> client \<Rightarrow> string \<Rightarrow> string \<Rightarrow> ('w, int) io" where
  "wrapper_read value_of rpc cl method address =
     read_call rpc cl address method [AAddress address] (\<lambda>_. Inl (js_error_of ''Error'' ''Simulation failed'')) (Inr 0)
       (\<lambda>val. with_BigInt (or_zero (value_of val)) Inr)"

definition wrapper_getVotes :: "(js_value \<Rightarrow> js_value) \<Rightarrow> 'w rpc \<Rightarrow> client \<Rightarrow> string \<Rightarrow> ('w, int) io" where
  "wrapper_getVotes value_of rpc cl address = wrapper_read value_of rpc cl ''get_votes'' address"

definition getDepositorBalance :: "(js_value \<Rightarrow> js_value) \<Rightarrow> 'w rpc \<Rightarrow> client \<Rightarrow> string \<Rightarrow> ('w, int) io" where
  "getDepositorBalance value_of rpc cl address = wrapper_read value_of rpc cl ''get_depositor_balance'' address"

subsection \<open>All governors, each once\<close>

lemma each_append:
  "each f (xs @ ys) = and_then (each f xs) (\<lambda>as. and_then (each f ys) (\<lambda>bs. returning (as @ bs)))"
proof (induction xs)
  case Nil
  show ?case by (rule ext) (simp add: and_then_def returning_def split: prod.split sum.split)
next
  case (Cons x xs)
  then show ?case by (intro ext) (simp add: and_then_def returning_def split: prod.split sum.split)
qed

lemma governor_pages_all: "governor_pages rpc cl maxId start = each (factory_getGovernor rpc cl) [start..maxId]"
proof (induction rpc cl maxId start rule: governor_pages.induct)
  case (1 rpc cl maxId start)
  show ?case
  proof (cases "start \<le> maxId")
    case True
    have "[start..maxId] = [start..min (start + 50 - 1) maxId] @ [start + 50..maxId]"
    proof (cases "start + 50 - 1 \<le> maxId")
      case True
      with upto_split2 [of start "start + 50 - 1" maxId] show ?thesis by (simp add: min_def add.commute)
    qed (simp add: min_def)
    then show ?thesis using True "1.IH" [OF True refl] by (subst governor_pages.simps) (simp add: each_append)
  qed (subst governor_pages.simps, simp)
qed

text \<open>\<^verbatim>\<open>getAllGovernors\<close> in pages of 50 reads exactly the governors of the requested range, each once and in order: with
  \<open>count\<close> governors, an offset and a limit, the identifiers \<open>offset + 1\<close> to \<open>min count (offset + limit)\<close>. Its loop ends.\<close>

theorem getAllGovernors_range:
  assumes "getGovernorCount rpc cl s = (Inr count, s1)" "0 \<le> offset" "offset < count" "0 < limit"
  shows "getAllGovernors rpc cl (Some limit) (Some offset) s =
    each (factory_getGovernor rpc cl) [offset + 1..min count (offset + limit)] s1"
  using assms
  by (auto simp: getAllGovernors_def and_then_def page_of_governors_def governor_pages_all Let_def)

theorem getAllGovernors_range_witness:
  "\<exists>s1. getAllGovernors (steady_node ''h'' (returns (Some (JNumber 3))) TxMissing) plain_client (Some 5) (Some 1) fresh_session =
     each (factory_getGovernor (steady_node ''h'' (returns (Some (JNumber 3))) TxMissing) plain_client) [2, 3] s1"
proof -
  let ?node = "steady_node ''h'' (returns (Some (JNumber 3))) TxMissing"
  have "getGovernorCount ?node plain_client fresh_session = (Inr 3, snd (getGovernorCount ?node plain_client fresh_session))"
    by (simp add: getGovernorCount_def read_call_def simulate_call_def build_transaction_def and_then_def asking_def encode_args_def
        returning_def settle_def steady_node_def returns_def with_BigInt_def js_BigInt_def map_filter_def)
  moreover have "[2..3] = [2, 3::int]" by (simp add: upto_rec1)
  ultimately show ?thesis
    using getAllGovernors_range [of ?node plain_client fresh_session 3 _ 1 5] by fastforce
qed

subsection \<open>A rejected deposit\<close>

text \<open>The wrapper client takes a rejected transaction for a success: when the node answers \<^verbatim>\<open>sendTransaction\<close> with the status
  \<^verbatim>\<open>ERROR\<close>, \<^verbatim>\<open>deposit\<close> still resolves with a hash.\<close>

theorem deposit_rejected_resolves:
  assumes "rejects_all rpc"
  shows "\<exists>tx result s'. wrapper_deposit rpc cl signer amount s = (Inr (sr_hash result), s') \<and>
    ss_sent s' = ss_sent s @ [(tx, Inr result)] \<and> \<not> accepted result"
proof -
  let ?args = "[AAddress signer, AI128 amount]"
  obtain q w1 where w1: "rp_getAccount rpc signer (ss_world s) = (Inr q, w1)" using assms by (metis rejects_all_def)
  define tx where "tx = \<lparr>in_source = signer, in_sequence = q + 1, in_contract = cl_contract cl, in_method = ''deposit'', in_args = ?args\<rparr>"
  obtain w2 where w2: "rp_prepare rpc tx w1 = (Inr (), w2)" using assms by (metis rejects_all_def)
  obtain result w3 where w3: "rp_send rpc tx w2 = (Inr result, w3)" "\<not> accepted result" using assms by (metis rejects_all_def)
  have "List.map_filter (rp_encode rpc) ?args = []" using assms by (simp add: rejects_all_def map_filter_def)
  with w1 w2 w3 have "wrapper_deposit rpc cl signer amount s =
      (Inr (sr_hash result), s\<lparr>ss_world := w3, ss_sent := ss_sent s @ [(tx, Inr result)]\<rparr>)"
    by (simp add: wrapper_deposit_def send_unchecked_def build_transaction_def and_then_def asking_def encode_args_def returning_def
        sendTransaction_io_def tx_def)
  then show ?thesis using w3(2) by auto
qed

text \<open>A node that rejects everything.\<close>

definition rejecting_node :: "nat rpc" where
  "rejecting_node = (steady_node ''h'' (returns None) TxMissing)
     \<lparr>rp_send := (\<lambda>_ n. (Inr \<lparr>sr_status = ''ERROR'', sr_hash = ''h'', sr_error = None, sr_json = ''{}''\<rparr>, n))\<rparr>"

theorem deposit_rejected_resolves_witness:
  "\<exists>tx result s'. wrapper_deposit rejecting_node plain_client ''G1'' 10 fresh_session = (Inr (sr_hash result), s') \<and>
    ss_sent s' = ss_sent fresh_session @ [(tx, Inr result)] \<and> \<not> accepted result"
  by (rule deposit_rejected_resolves) (simp add: rejects_all_def rejecting_node_def steady_node_def accepted_def)

end
