(* ===== verification/SdkBackend.thy ===== *)
theory SdkBackend
  imports SdkStrategies
begin

section \<open>The SDK clients of the backend and of the indexer\<close>

text \<open>
  The clients that speak HTTP: \<^verbatim>\<open>SignalingClient\<close> (\<^verbatim>\<open>sdk/src/signaling.ts\<close>), \<^verbatim>\<open>GovernanceTuningClient\<close>
  (\<^verbatim>\<open>governanceTuning.ts\<close>), \<^verbatim>\<open>AnalyticsClient\<close> (\<^verbatim>\<open>analytics.ts\<close>), \<^verbatim>\<open>ProposalSimulationClient\<close> (\<^verbatim>\<open>proposalSimulation.ts\<close>),
  \<^verbatim>\<open>AmendmentsClient\<close> (\<^verbatim>\<open>amendments.ts\<close>), and the description hash and metadata upload of \<^verbatim>\<open>governor.ts\<close>.
  \<^item> SHA-256, base64 and the signatures are parameters. A missing Web Crypto is \<open>None\<close>.
  \<^item> A random value is an argument, a \<^verbatim>\<open>Date\<close> is its ISO text.
\<close>

subsection \<open>Requests\<close>

text \<open>A client that only needs the addresses of the services.\<close>

definition http_client :: "config \<Rightarrow> client" where
  "http_client config =
     \<lparr>cl_rpcUrl = '''', cl_contract = '''', cl_networkPassphrase = '''', cl_simulationAccount = cf_simulationAccount config,
      cl_indexerUrl = cf_indexerUrl config, cl_backendUrl = cf_backendUrl config, cl_retry = cf_retry config,
      cl_retryDefaults = network_defaults\<rparr>"

definition GovernanceErr :: "string \<Rightarrow> string \<Rightarrow> client_error" where
  "GovernanceErr code message = typed ''GovernorError'' (the (map_of GovernorErrorCode code)) message"

definition service_request ::
  "'w rpc \<Rightarrow> client \<Rightarrow> string option \<Rightarrow> client_error \<Rightarrow> (http_response \<Rightarrow> client_error) \<Rightarrow> (string \<Rightarrow> http_request) \<Rightarrow> ('w, js_value) io" where
  "service_request rpc cl base missing failed request =
     (if or_else base '''' = '''' then throwing missing
      else retrying cl None (fetch_request rpc failed (request (or_else base ''''))))"

definition get_path :: "string \<Rightarrow> string \<Rightarrow> http_request" where
  "get_path path base = get_request (base @ path)"

definition post_json :: "string \<Rightarrow> (string \<times> string) list \<Rightarrow> js_value \<Rightarrow> string \<Rightarrow> http_request" where
  "post_json path headers body base =
     \<lparr>hq_method = ''POST'', hq_url = base @ path, hq_headers = headers, hq_body = Some (stringifyJson body)\<rparr>"

definition json_header :: "string \<times> string" where
  "json_header = (''Content-Type'', ''application/json'')"

subsection \<open>Signaling: what is signed\<close>

definition DOMAIN_TAG :: string where
  "DOMAIN_TAG = ''nebgov-signal''"

definition signal_message :: "int \<Rightarrow> int \<Rightarrow> string \<Rightarrow> string \<Rightarrow> string" where
  "signal_message pollId choiceIndex voterAddress nonce =
     join ''|'' [DOMAIN_TAG, dec_int pollId, dec_int choiceIndex, voterAddress, nonce]"

definition SignalingErr :: "string \<Rightarrow> string \<Rightarrow> client_error" where
  "SignalingErr code message = typed ''SignalingError'' (the (map_of SignalingErrorCode code)) message"

definition no_crypto :: client_error where
  "no_crypto = SignalingErr ''SimulationFailed'' ''Web Crypto (crypto.subtle) is not available in this environment''"

definition sha256Hex :: "(bytes \<Rightarrow> bytes) option \<Rightarrow> bytes \<Rightarrow> client_error + string" where
  "sha256Hex subtle bs = (case subtle of None \<Rightarrow> Inl no_crypto | Some digest \<Rightarrow> Inr (to_hex (digest bs)))"

definition sdk_canonicalSignalPayload :: "(bytes \<Rightarrow> bytes) option \<Rightarrow> int \<Rightarrow> int \<Rightarrow> string \<Rightarrow> string \<Rightarrow> client_error + string" where
  "sdk_canonicalSignalPayload subtle pollId choiceIndex voterAddress nonce =
     sha256Hex subtle (str_bytes (signal_message pollId choiceIndex voterAddress nonce))"

definition SEP53_PREFIX :: string where
  "SEP53_PREFIX = ''Stellar Signed Message:'' @ [CHR 10]"

definition sdk_sep53Digest :: "(bytes \<Rightarrow> bytes) option \<Rightarrow> string \<Rightarrow> client_error + bytes" where
  "sdk_sep53Digest subtle message =
     (case subtle of None \<Rightarrow> Inl no_crypto | Some digest \<Rightarrow> Inr (digest (str_bytes SEP53_PREFIX @ str_bytes message)))"

definition generateNonce :: "bytes \<Rightarrow> string" where
  "generateNonce random16 = to_hex random16"

subsection \<open>Signaling: the client\<close>

record SignalingPoll =
  sp_id :: js_number
  sp_creatorAddress :: js_value
  sp_title :: js_value
  sp_description :: js_value
  sp_choices :: js_value
  sp_snapshotLedger :: js_number
  sp_startTime :: js_value
  sp_endTime :: js_value
  sp_finalized :: bool
  sp_resultHash :: js_value
  sp_anchoredTxHash :: js_value
  sp_createdAt :: js_value

record SignalingPollResults =
  sq_finalized :: bool
  sq_choices :: js_value
  sq_totals :: "int list"
  sq_totalVotes :: js_number
  sq_totalWeight :: int
  sq_resultHash :: js_value
  sq_anchoredTxHash :: js_value

record SignalAnchorRecord =
  sa_pollId :: int
  sa_resultHash :: string
  sa_anchoredLedger :: js_number
  sa_anchorer :: js_value

definition mapPoll :: "js_value \<Rightarrow> client_error + SignalingPoll" where
  "mapPoll raw =
     with_member raw ''id'' (\<lambda>i.
       Inr \<lparr>sp_id = js_Number i, sp_creatorAddress = field raw ''creatorAddress'', sp_title = field raw ''title'',
            sp_description = field raw ''description'', sp_choices = field raw ''choices'',
            sp_snapshotLedger = js_Number (field raw ''snapshotLedger''), sp_startTime = field raw ''startTime'',
            sp_endTime = field raw ''endTime'', sp_finalized = js_Boolean (field raw ''finalized''),
            sp_resultHash = nullish_or (field raw ''resultHash'') JNull,
            sp_anchoredTxHash = nullish_or (field raw ''anchoredTxHash'') JNull, sp_createdAt = field raw ''createdAt''\<rparr>)"

definition mapResults :: "js_value \<Rightarrow> client_error + SignalingPollResults" where
  "mapResults raw =
     with_member raw ''finalized'' (\<lambda>finalized.
     with_array (nullish_or (field raw ''totals'') (JArray [])) ''(intermediate value)'' (\<lambda>totals.
     bind_sum (map_throwing (\<lambda>t. with_BigInt t Inr) totals) (\<lambda>totals.
     with_BigInt (or_zero (field raw ''totalWeight'')) (\<lambda>totalWeight.
       Inr \<lparr>sq_finalized = js_Boolean finalized, sq_choices = field raw ''choices'', sq_totals = totals,
            sq_totalVotes = js_Number (or_zero (field raw ''totalVotes'')), sq_totalWeight = totalWeight,
            sq_resultHash = nullish_or (field raw ''resultHash'') JNull,
            sq_anchoredTxHash = nullish_or (field raw ''anchoredTxHash'') JNull\<rparr>))))"

definition SignalingClient :: "stellar \<Rightarrow> config \<Rightarrow> client_error + client" where
  "SignalingClient stellar config = open_client (stellar\<lparr>st_openContract := (\<lambda>_. None)\<rparr>) config network_defaults ''''"

text \<open>The error of a failed request: \<^verbatim>\<open>body?.error ?? ...\<close> of a body that may not be JSON.\<close>

definition signaling_failed :: "http_response \<Rightarrow> client_error" where
  "signaling_failed resp =
     (let dflt = JString (''Backend request failed: '' @ dec_int (hr_status resp)) in
      SignalingErr ''TransactionFailed''
        (js_String (case hr_json resp of Inl _ \<Rightarrow> dflt | Inr body \<Rightarrow> nullish_or (field body ''error'') dflt)))"

definition signaling_request :: "'w rpc \<Rightarrow> client \<Rightarrow> (string \<Rightarrow> http_request) \<Rightarrow> ('w, js_value) io" where
  "signaling_request rpc cl request =
     service_request rpc cl (cl_backendUrl cl)
       (SignalingErr ''SimulationFailed'' ''SignalingClient requires config.backendUrl to be set'') signaling_failed
       (\<lambda>base. (request base)\<lparr>hq_headers := json_header # hq_headers (request base)\<rparr>)"

definition createPoll ::
  "'w rpc \<Rightarrow> client \<Rightarrow> string \<Rightarrow> string \<Rightarrow> string \<Rightarrow> string list \<Rightarrow> int \<Rightarrow> string \<Rightarrow> string \<Rightarrow> ('w, js_number) io" where
  "createPoll rpc cl creatorAddress title description choices snapshotLedger startTime endTime =
     and_then (signaling_request rpc cl (post_json ''/signaling/polls'' []
       (JObject [(''creatorAddress'', JString creatorAddress), (''title'', JString title), (''description'', JString description),
                 (''choices'', JArray (map JString choices)), (''snapshotLedger'', JNumber snapshotLedger),
                 (''startTime'', JString startTime), (''endTime'', JString endTime)]))) (\<lambda>raw.
       settle (with_member raw ''id'' (\<lambda>i. Inr (js_Number i))))"

definition vote_request :: "int \<Rightarrow> int \<Rightarrow> string \<Rightarrow> string \<Rightarrow> string \<Rightarrow> string \<Rightarrow> http_request" where
  "vote_request pollId choiceIndex voterAddress nonce signature =
     post_json (''/signaling/polls/'' @ dec_int pollId @ ''/vote'') [(''X-Voter-Address'', voterAddress)]
       (JObject [(''choiceIndex'', JNumber choiceIndex), (''nonce'', JString nonce), (''signature'', JString signature)])"

text \<open>\<open>sign\<close> is the key pair's signature of a digest.\<close>

definition castVote ::
  "(bytes \<Rightarrow> bytes) option \<Rightarrow> (bytes \<Rightarrow> string) \<Rightarrow> 'w rpc \<Rightarrow> client \<Rightarrow> bytes \<Rightarrow> string \<Rightarrow> (bytes \<Rightarrow> bytes) \<Rightarrow> int \<Rightarrow> int \<Rightarrow> ('w, unit) io" where
  "castVote subtle toBase64 rpc cl random16 voter sign pollId choiceIndex =
     (let nonce = generateNonce random16 in
      and_then (settle (bind_sum (sdk_canonicalSignalPayload subtle pollId choiceIndex voter nonce) (sdk_sep53Digest subtle)))
        (\<lambda>signedDigest.
           and_then (signaling_request rpc cl (vote_request pollId choiceIndex voter nonce (toBase64 (sign signedDigest))))
             (\<lambda>_. returning ())))"

text \<open>\<open>signMessage\<close> is the wallet.\<close>

definition signal_castVoteWithSign ::
  "(bytes \<Rightarrow> bytes) option \<Rightarrow> 'w rpc \<Rightarrow> client \<Rightarrow> bytes \<Rightarrow> string \<Rightarrow> (string \<Rightarrow> ('w, string) answer) \<Rightarrow> int \<Rightarrow> int \<Rightarrow> ('w, unit) io" where
  "signal_castVoteWithSign subtle rpc cl random16 voterPublicKey signMessage pollId choiceIndex =
     (let nonce = generateNonce random16 in
      and_then (settle (sdk_canonicalSignalPayload subtle pollId choiceIndex voterPublicKey nonce)) (\<lambda>digestHex.
      and_then (asking (signMessage digestHex)) (\<lambda>signature.
      and_then (signaling_request rpc cl (vote_request pollId choiceIndex voterPublicKey nonce signature)) (\<lambda>_. returning ()))))"

definition sdk_getPoll :: "'w rpc \<Rightarrow> client \<Rightarrow> int \<Rightarrow> ('w, SignalingPoll) io" where
  "sdk_getPoll rpc cl pollId =
     and_then (signaling_request rpc cl (get_path (''/signaling/polls/'' @ dec_int pollId))) (\<lambda>raw. settle (mapPoll raw))"

definition sdk_listPolls :: "'w rpc \<Rightarrow> client \<Rightarrow> string option \<Rightarrow> ('w, SignalingPoll list) io" where
  "sdk_listPolls rpc cl status =
     and_then (signaling_request rpc cl (get_path (''/signaling/polls'' @
         (case truthy_text status of None \<Rightarrow> '''' | Some s \<Rightarrow> ''?status='' @ s)))) (\<lambda>raw.
       settle (with_array raw ''raw'' (map_throwing mapPoll)))"

definition sdk_getResults :: "'w rpc \<Rightarrow> client \<Rightarrow> int \<Rightarrow> ('w, SignalingPollResults) io" where
  "sdk_getResults rpc cl pollId =
     and_then (signaling_request rpc cl (get_path (''/signaling/polls/'' @ dec_int pollId @ ''/results''))) (\<lambda>raw. settle (mapResults raw))"

text \<open>\<open>openContract\<close> is what \<^verbatim>\<open>new Contract(address)\<close> throws.\<close>

definition getAnchor ::
  "(string \<Rightarrow> client_error option) \<Rightarrow> 'w rpc \<Rightarrow> client \<Rightarrow> string option \<Rightarrow> string \<Rightarrow> int \<Rightarrow> ('w, SignalAnchorRecord option) io" where
  "getAnchor openContract rpc cl signalAnchorAddress governorAddress pollId =
     (if or_else signalAnchorAddress '''' = ''''
      then throwing (SignalingErr ''SimulationFailed'' ''SignalingClient.getAnchor requires config.signalAnchorAddress to be set'')
      else case openContract (or_else signalAnchorAddress '''') of
        Some e \<Rightarrow> throwing e
      | None \<Rightarrow>
          retrying cl None (read_call rpc (cl\<lparr>cl_contract := or_else signalAnchorAddress ''''\<rparr>)
            (or_else (cl_simulationAccount cl) governorAddress) ''get_anchor'' [AU64 pollId]
            (\<lambda>err. Inl (parsed ''SignalingError'' (parseSignalingError (RawObject (Some ''ERROR'') (Some err)))))
            (Inl (SignalingErr ''MissingReturnValue'' ''No return value from get_anchor''))
            (\<lambda>native.
               if \<not> js_Boolean native then Inr None
               else with_BigInt (field native ''poll_id'') (\<lambda>i. with_hex (field native ''result_hash'') (\<lambda>h.
                 Inr (Some \<lparr>sa_pollId = i, sa_resultHash = h, sa_anchoredLedger = js_Number (field native ''anchored_ledger''),
                            sa_anchorer = field native ''anchorer''\<rparr>))))))"

subsection \<open>Governance tuning\<close>

record TuningRecommendation =
  tn_id :: js_number
  tn_computedAt :: js_value
  tn_currentQuorumNumerator :: js_number
  tn_recommendedQuorumNumerator :: js_number
  tn_currentProposalThreshold :: int
  tn_recommendedProposalThreshold :: int
  tn_rationale :: js_value
  tn_autoProposed :: bool
  tn_proposalId :: "int option"

record TuningConfig =
  tc_minQuorumNumerator :: js_number
  tc_maxQuorumNumerator :: js_number
  tc_maxQuorumDeltaBps :: js_number
  tc_minProposalThreshold :: int
  tc_maxProposalThreshold :: "int option"
  tc_maxThresholdDeltaBps :: js_number
  tc_trailingWindow :: js_number
  tc_intervalMs :: js_number
  tc_autoPropose :: bool
  tc_updatedAt :: js_value

definition with_optional_BigInt :: "bool \<Rightarrow> js_value \<Rightarrow> (int option \<Rightarrow> client_error + 'a) \<Rightarrow> client_error + 'a" where
  "with_optional_BigInt absent v k = (if absent then k None else with_BigInt v (\<lambda>n. k (Some n)))"

definition mapRecommendation :: "js_value \<Rightarrow> client_error + TuningRecommendation" where
  "mapRecommendation raw =
     with_member raw ''id'' (\<lambda>i.
     with_BigInt (field raw ''current_proposal_threshold'') (\<lambda>current.
     with_BigInt (field raw ''recommended_proposal_threshold'') (\<lambda>recommended.
     with_optional_BigInt (nullish (field raw ''proposal_id'')) (field raw ''proposal_id'') (\<lambda>proposalId.
       Inr \<lparr>tn_id = js_Number i, tn_computedAt = field raw ''computed_at'',
            tn_currentQuorumNumerator = js_Number (field raw ''current_quorum_numerator''),
            tn_recommendedQuorumNumerator = js_Number (field raw ''recommended_quorum_numerator''),
            tn_currentProposalThreshold = current, tn_recommendedProposalThreshold = recommended,
            tn_rationale = field raw ''rationale'', tn_autoProposed = js_Boolean (field raw ''auto_proposed''),
            tn_proposalId = proposalId\<rparr>))))"

definition mapConfig :: "js_value \<Rightarrow> client_error + TuningConfig" where
  "mapConfig raw =
     with_member raw ''min_quorum_numerator'' (\<lambda>minQuorum.
     with_BigInt (field raw ''min_proposal_threshold'') (\<lambda>minThreshold.
     with_optional_BigInt (field raw ''max_proposal_threshold'' = JNull) (field raw ''max_proposal_threshold'') (\<lambda>maxThreshold.
       Inr \<lparr>tc_minQuorumNumerator = js_Number minQuorum, tc_maxQuorumNumerator = js_Number (field raw ''max_quorum_numerator''),
            tc_maxQuorumDeltaBps = js_Number (field raw ''max_quorum_delta_bps''), tc_minProposalThreshold = minThreshold,
            tc_maxProposalThreshold = maxThreshold, tc_maxThresholdDeltaBps = js_Number (field raw ''max_threshold_delta_bps''),
            tc_trailingWindow = js_Number (field raw ''trailing_window''), tc_intervalMs = js_Number (field raw ''interval_ms''),
            tc_autoPropose = js_Boolean (field raw ''auto_propose''), tc_updatedAt = field raw ''updated_at''\<rparr>)))"

definition tuning_request :: "'w rpc \<Rightarrow> client \<Rightarrow> (string \<Rightarrow> http_request) \<Rightarrow> ('w, js_value) io" where
  "tuning_request rpc cl request =
     service_request rpc cl (cl_backendUrl cl)
       (GovernanceErr ''SimulationFailed'' ''GovernanceTuningClient requires config.backendUrl to be set'')
       (\<lambda>resp. GovernanceErr ''SimulationFailed'' (''Backend request failed: '' @ dec_int (hr_status resp))) request"

definition sdk_getLatestRecommendation :: "'w rpc \<Rightarrow> client \<Rightarrow> ('w, TuningRecommendation option) io" where
  "sdk_getLatestRecommendation rpc cl =
     and_then (tuning_request rpc cl (get_path ''/governance-tuning/recommendations/latest'')) (\<lambda>raw.
       settle (if raw = JNull then Inr None else bind_sum (mapRecommendation raw) (\<lambda>r. Inr (Some r))))"

definition getRecommendationHistoryPage :: "'w rpc \<Rightarrow> client \<Rightarrow> int \<Rightarrow> int \<Rightarrow> ('w, TuningRecommendation list \<times> js_value) io" where
  "getRecommendationHistoryPage rpc cl limit offset =
     and_then (tuning_request rpc cl (get_path (''/governance-tuning/recommendations?'' @
         URLSearchParams [(''limit'', dec_int limit), (''offset'', dec_int offset)]))) (\<lambda>raw.
       settle (bind_sum (data_rows raw mapRecommendation) (\<lambda>rs. Inr (rs, field raw ''pagination''))))"

definition getRecommendationHistory :: "'w rpc \<Rightarrow> client \<Rightarrow> int \<Rightarrow> int \<Rightarrow> ('w, TuningRecommendation list) io" where
  "getRecommendationHistory rpc cl limit offset =
     and_then (getRecommendationHistoryPage rpc cl limit offset) (\<lambda>(recommendations, _). returning recommendations)"

definition tuning_getConfig :: "'w rpc \<Rightarrow> client \<Rightarrow> ('w, TuningConfig) io" where
  "tuning_getConfig rpc cl = and_then (tuning_request rpc cl (get_path ''/governance-tuning/config'')) (\<lambda>raw. settle (mapConfig raw))"

text \<open>A patch: a missing member is \<open>None\<close>; the maximal threshold can be set to \<^verbatim>\<open>null\<close>.\<close>

record TuningPatch =
  tp_minQuorumNumerator :: "int option"
  tp_maxQuorumNumerator :: "int option"
  tp_maxQuorumDeltaBps :: "int option"
  tp_minProposalThreshold :: "int option"
  tp_maxProposalThreshold :: "int option option"
  tp_maxThresholdDeltaBps :: "int option"
  tp_trailingWindow :: "int option"
  tp_intervalMs :: "int option"
  tp_autoPropose :: "bool option"

definition patch_body :: "TuningPatch \<Rightarrow> (string \<times> js_value) list" where
  "patch_body patch =
     List.map_filter (\<lambda>(k, v). map_option (Pair k) v)
       [(''min_quorum_numerator'', map_option JNumber (tp_minQuorumNumerator patch)),
        (''max_quorum_numerator'', map_option JNumber (tp_maxQuorumNumerator patch)),
        (''max_quorum_delta_bps'', map_option JNumber (tp_maxQuorumDeltaBps patch)),
        (''min_proposal_threshold'', map_option (\<lambda>n. JString (dec_int n)) (tp_minProposalThreshold patch)),
        (''max_proposal_threshold'', map_option (\<lambda>m. case m of None \<Rightarrow> JNull | Some n \<Rightarrow> JString (dec_int n)) (tp_maxProposalThreshold patch)),
        (''max_threshold_delta_bps'', map_option JNumber (tp_maxThresholdDeltaBps patch)),
        (''trailing_window'', map_option JNumber (tp_trailingWindow patch)),
        (''interval_ms'', map_option JNumber (tp_intervalMs patch)),
        (''auto_propose'', map_option JBoolean (tp_autoPropose patch))]"

definition tuning_updateConfig :: "'w rpc \<Rightarrow> client \<Rightarrow> string option \<Rightarrow> TuningPatch \<Rightarrow> ('w, TuningConfig) io" where
  "tuning_updateConfig rpc cl adminSecret patch =
     (if or_else adminSecret '''' = ''''
      then throwing (GovernanceErr ''SimulationFailed'' ''GovernanceTuningClient.updateConfig requires config.adminSecret to be set'')
      else and_then (tuning_request rpc cl (\<lambda>base.
          \<lparr>hq_method = ''PUT'', hq_url = base @ ''/governance-tuning/config'',
           hq_headers = [json_header, (''X-ADMIN-SECRET'', or_else adminSecret '''')],
           hq_body = Some (stringifyJson (JObject (patch_body patch)))\<rparr>)) (\<lambda>raw. settle (mapConfig raw)))"

subsection \<open>Analytics\<close>

record GovernanceSnapshot =
  gn_ledger :: js_number
  gn_totalVotesCast :: int

record AllTimeStats =
  at_totalProposals :: int
  at_totalVotesCast :: int
  at_uniqueVoters :: int
  at_quorumHitCount :: int
  at_quorumMissCount :: int
  at_passRateBps :: js_number

record VoterHistory =
  vh_voter :: js_value
  vh_proposalsVoted :: js_number
  vh_proposalsEligible :: js_number
  vh_participationRateBps :: js_number
  vh_totalWeightCast :: int
  vh_forCount :: js_number
  vh_againstCount :: js_number
  vh_abstainCount :: js_number
  vh_lastVotedLedger :: js_number

definition mapGovernanceSnapshot :: "js_value \<Rightarrow> client_error + GovernanceSnapshot" where
  "mapGovernanceSnapshot raw =
     with_member raw ''ledger'' (\<lambda>ledger. with_BigInt (or_zero (field raw ''total_votes_cast'')) (\<lambda>total.
       Inr \<lparr>gn_ledger = js_Number ledger, gn_totalVotesCast = total\<rparr>))"

definition mapAllTimeStats :: "js_value \<Rightarrow> client_error + AllTimeStats" where
  "mapAllTimeStats raw =
     with_member raw ''total_proposals'' (\<lambda>p. with_BigInt (or_zero p) (\<lambda>proposals.
     with_BigInt (or_zero (field raw ''total_votes_cast'')) (\<lambda>votes.
     with_BigInt (or_zero (field raw ''unique_voters'')) (\<lambda>voters.
     with_BigInt (or_zero (field raw ''quorum_hit_count'')) (\<lambda>hits.
     with_BigInt (or_zero (field raw ''quorum_miss_count'')) (\<lambda>misses.
       Inr \<lparr>at_totalProposals = proposals, at_totalVotesCast = votes, at_uniqueVoters = voters, at_quorumHitCount = hits,
            at_quorumMissCount = misses, at_passRateBps = js_Number (or_zero (field raw ''pass_rate_bps''))\<rparr>))))))"

definition mapVoterHistory :: "js_value \<Rightarrow> client_error + VoterHistory" where
  "mapVoterHistory raw =
     with_member raw ''voter'' (\<lambda>voter.
     with_BigInt (or_zero (field raw ''total_weight_cast'')) (\<lambda>total.
       Inr \<lparr>vh_voter = voter, vh_proposalsVoted = js_Number (field raw ''proposals_voted''),
            vh_proposalsEligible = js_Number (field raw ''proposals_eligible''),
            vh_participationRateBps = js_Number (field raw ''participation_rate_bps''), vh_totalWeightCast = total,
            vh_forCount = js_Number (field raw ''for_count''), vh_againstCount = js_Number (field raw ''against_count''),
            vh_abstainCount = js_Number (field raw ''abstain_count''), vh_lastVotedLedger = js_Number (field raw ''last_voted_ledger'')\<rparr>))"

definition analytics_request :: "'w rpc \<Rightarrow> client \<Rightarrow> string \<Rightarrow> ('w, js_value) io" where
  "analytics_request rpc cl path =
     service_request rpc cl (cl_indexerUrl cl)
       (GovernanceErr ''SimulationFailed'' (''AnalyticsClient.'' @ path @ '' requires config.indexerUrl to be set''))
       (\<lambda>resp. GovernanceErr ''SimulationFailed'' (''Indexer request failed: '' @ dec_int (hr_status resp))) (get_path path)"

definition snapshot_if_any :: "js_value \<Rightarrow> client_error + GovernanceSnapshot option" where
  "snapshot_if_any v = (if js_Boolean v then bind_sum (mapGovernanceSnapshot v) (\<lambda>x. Inr (Some x)) else Inr None)"

definition getSnapshot :: "'w rpc \<Rightarrow> client \<Rightarrow> int \<Rightarrow> ('w, GovernanceSnapshot option) io" where
  "getSnapshot rpc cl ledger =
     and_then (analytics_request rpc cl (''/analytics/snapshots?ledger='' @ dec_int ledger)) (\<lambda>raw.
       settle (with_member raw ''data'' (\<lambda>data. with_member data ''0'' (\<lambda>_. snapshot_if_any (elem data 0)))))"

definition getLatestSnapshot :: "'w rpc \<Rightarrow> client \<Rightarrow> ('w, GovernanceSnapshot option) io" where
  "getLatestSnapshot rpc cl = and_then (analytics_request rpc cl ''/analytics/snapshots/latest'') (\<lambda>raw. settle (snapshot_if_any raw))"

definition getSnapshotList :: "'w rpc \<Rightarrow> client \<Rightarrow> int \<Rightarrow> ('w, js_number list) io" where
  "getSnapshotList rpc cl limit =
     and_then (analytics_request rpc cl (''/analytics/snapshots?limit='' @ dec_int limit)) (\<lambda>raw.
       settle (with_member raw ''data'' (\<lambda>rows. with_array rows ''data'' (map_throwing (\<lambda>row.
         with_member row ''ledger'' (\<lambda>l. Inr (js_Number l)))))))"

definition getAllTimeStats :: "'w rpc \<Rightarrow> client \<Rightarrow> ('w, AllTimeStats) io" where
  "getAllTimeStats rpc cl = and_then (analytics_request rpc cl ''/analytics/all-time-stats'') (\<lambda>raw. settle (mapAllTimeStats raw))"

definition getVoterHistory :: "'w rpc \<Rightarrow> client \<Rightarrow> string \<Rightarrow> ('w, VoterHistory) io" where
  "getVoterHistory rpc cl voter =
     and_then (analytics_request rpc cl (''/analytics/voters/'' @ voter @ ''/history'')) (\<lambda>raw. settle (mapVoterHistory raw))"

subsection \<open>Proposal simulation\<close>

record TreasuryImpact =
  ti_token :: js_value
  ti_capRemainingBefore :: "int option"
  ti_capRemainingAfter :: "int option"

record SimulationResult =
  sr_target :: js_value
  sr_fnName :: js_value
  sr_success :: bool
  sr_decodedSummary :: js_value
  sr_returnValue :: js_value
  sr_revertReason :: js_value
  sr_treasuryImpact :: "TreasuryImpact option"

record SimulationHistoryEntry =
  sh_simulatedAt :: js_value
  sh_simulatedAtLedger :: js_value
  sh_results :: "SimulationResult list"
  sh_anyActionWouldRevert :: bool

definition mapImpact :: "js_value \<Rightarrow> (TreasuryImpact option \<Rightarrow> client_error + 'a) \<Rightarrow> client_error + 'a" where
  "mapImpact impact k =
     (if \<not> js_Boolean impact then k None
      else
        with_optional_BigInt (field impact ''cap_remaining_before'' = JNull) (field impact ''cap_remaining_before'') (\<lambda>before.
        with_optional_BigInt (field impact ''cap_remaining_after'' = JNull) (field impact ''cap_remaining_after'') (\<lambda>after.
          k (Some \<lparr>ti_token = field impact ''token'', ti_capRemainingBefore = before, ti_capRemainingAfter = after\<rparr>))))"

definition mapResult :: "js_value \<Rightarrow> client_error + SimulationResult" where
  "mapResult raw =
     with_member raw ''target'' (\<lambda>target.
     mapImpact (field raw ''treasury_impact'') (\<lambda>impact.
       Inr \<lparr>sr_target = target, sr_fnName = field raw ''fn_name'', sr_success = js_Boolean (field raw ''success''),
            sr_decodedSummary = field raw ''decoded_summary'', sr_returnValue = field raw ''return_value'',
            sr_revertReason = field raw ''revert_reason'', sr_treasuryImpact = impact\<rparr>))"

definition simulation_request :: "'w rpc \<Rightarrow> client \<Rightarrow> (string \<Rightarrow> http_request) \<Rightarrow> ('w, js_value) io" where
  "simulation_request rpc cl request =
     service_request rpc cl (cl_backendUrl cl)
       (GovernanceErr ''SimulationFailed'' ''ProposalSimulationClient requires config.backendUrl to be set'')
       (\<lambda>resp. GovernanceErr ''SimulationFailed'' (''Backend request failed: '' @ dec_int (hr_status resp))) request"

definition simulation_results :: "js_value \<Rightarrow> client_error + SimulationResult list" where
  "simulation_results raw = with_member raw ''results'' (\<lambda>rows. with_array rows ''raw.results'' (map_throwing mapResult))"

definition previewDraft ::
  "(bytes \<Rightarrow> string) \<Rightarrow> 'w rpc \<Rightarrow> client \<Rightarrow> string list \<Rightarrow> string list \<Rightarrow> bytes list \<Rightarrow> string option \<Rightarrow> ('w, SimulationResult list) io" where
  "previewDraft toBase64 rpc cl targets fnNames calldatas descriptionHash =
     and_then (simulation_request rpc cl (post_json ''/proposal-simulation/preview'' [json_header]
       (JObject ([(''targets'', JArray (map JString targets)), (''fnNames'', JArray (map JString fnNames)),
                  (''calldatas'', JArray (map (\<lambda>c. JString (toBase64 c)) calldatas))] @
                 (case truthy_text descriptionHash of None \<Rightarrow> [] | Some h \<Rightarrow> [(''descriptionHash'', JString h)])))))
       (\<lambda>raw. settle (simulation_results raw))"

definition simulation_simulateProposal :: "'w rpc \<Rightarrow> client \<Rightarrow> int \<Rightarrow> ('w, SimulationResult list) io" where
  "simulation_simulateProposal rpc cl proposalId =
     and_then (simulation_request rpc cl (get_path (''/proposal-simulation/'' @ dec_int proposalId))) (\<lambda>raw. settle (simulation_results raw))"

definition getSimulationHistory :: "'w rpc \<Rightarrow> client \<Rightarrow> int \<Rightarrow> ('w, SimulationHistoryEntry list) io" where
  "getSimulationHistory rpc cl proposalId =
     and_then (simulation_request rpc cl (get_path (''/proposal-simulation/'' @ dec_int proposalId @ ''/history''))) (\<lambda>raw.
       settle (with_array raw ''raw'' (map_throwing (\<lambda>entry.
         with_member entry ''simulated_at'' (\<lambda>simulatedAt. bind_sum (simulation_results entry) (\<lambda>results.
           Inr \<lparr>sh_simulatedAt = simulatedAt, sh_simulatedAtLedger = field entry ''simulated_at_ledger'', sh_results = results,
                sh_anyActionWouldRevert = js_Boolean (field entry ''any_action_would_revert'')\<rparr>))))))"

subsection \<open>Amendments\<close>

text \<open>A request without a retry; \<open>what\<close> stands in the error.\<close>

definition amendments_fetch :: "'w rpc \<Rightarrow> string \<Rightarrow> http_request \<Rightarrow> ('w, js_value) io" where
  "amendments_fetch rpc what request =
     fetch_request rpc (\<lambda>response. js_error_of ''Error'' (''Failed to '' @ what @ '': '' @ hr_statusText response)) request"

definition amendment_path :: "string \<Rightarrow> int \<Rightarrow> string \<Rightarrow> string" where
  "amendment_path baseUrl proposalId rest = baseUrl @ ''/proposals/'' @ dec_int proposalId @ rest"

definition getAmendments :: "'w rpc \<Rightarrow> string \<Rightarrow> int \<Rightarrow> ('w, js_value) io" where
  "getAmendments rpc baseUrl proposalId =
     amendments_fetch rpc ''fetch amendments'' (get_request (amendment_path baseUrl proposalId ''/amendments''))"

definition getAmendmentVersion :: "'w rpc \<Rightarrow> string \<Rightarrow> int \<Rightarrow> int \<Rightarrow> ('w, js_value) io" where
  "getAmendmentVersion rpc baseUrl proposalId version =
     amendments_fetch rpc ''fetch amendment version'' (get_request (amendment_path baseUrl proposalId (''/amendments/'' @ dec_int version)))"

record AmendmentInput =
  ai_description :: "string option"
  ai_target_address :: "string option"
  ai_function_name :: "string option"
  ai_calldata_hex :: "string option"
  ai_reason :: "string option"

definition amendment_body :: "AmendmentInput \<Rightarrow> js_value" where
  "amendment_body a =
     JObject (List.map_filter (\<lambda>(k, v). map_option (\<lambda>s. (k, JString s)) v)
       [(''description'', ai_description a), (''target_address'', ai_target_address a), (''function_name'', ai_function_name a),
        (''calldata_hex'', ai_calldata_hex a), (''reason'', ai_reason a)])"

definition submitAmendment :: "'w rpc \<Rightarrow> string \<Rightarrow> string \<Rightarrow> int \<Rightarrow> AmendmentInput \<Rightarrow> ('w, js_value) io" where
  "submitAmendment rpc baseUrl proposerAddress proposalId amendment =
     and_then (amendments_fetch rpc ''submit amendment''
       (post_json '''' [json_header, (''X-Proposer-Address'', proposerAddress)] (amendment_body amendment)
          (amendment_path baseUrl proposalId ''/amend''))) (\<lambda>data.
       settle (with_member data ''amendment'' Inr))"

text \<open>The answer is not read, only its status.\<close>

definition publishAmendment :: "'w rpc \<Rightarrow> string \<Rightarrow> string \<Rightarrow> int \<Rightarrow> int \<Rightarrow> ('w, unit) io" where
  "publishAmendment rpc baseUrl proposerAddress proposalId version =
     and_then (asking (rp_fetch rpc
       \<lparr>hq_method = ''POST'', hq_url = amendment_path baseUrl proposalId (''/publish-amendment/'' @ dec_int version),
        hq_headers = [(''X-Proposer-Address'', proposerAddress)], hq_body = None\<rparr>)) (\<lambda>response.
       if response_ok response then returning ()
       else throwing (js_error_of ''Error'' (''Failed to publish amendment: '' @ hr_statusText response)))"

definition getAmendmentDiff :: "'w rpc \<Rightarrow> string \<Rightarrow> int \<Rightarrow> int \<Rightarrow> int \<Rightarrow> ('w, js_value) io" where
  "getAmendmentDiff rpc baseUrl proposalId fromVersion toVersion =
     amendments_fetch rpc ''fetch amendment diff''
       (get_request (amendment_path baseUrl proposalId (''/amendment-diff/'' @ dec_int fromVersion @ ''/'' @ dec_int toVersion)))"

subsection \<open>Description hash and metadata upload\<close>

text \<open>The hash functions of the environment: \<open>subtle\<close> of the Web Crypto interface, \<open>node\<close> of the \<^verbatim>\<open>crypto\<close> module, which is missing
  or may throw. Both return the digest.\<close>

definition hashDescriptionSync :: "(bytes \<Rightarrow> client_error + bytes) option \<Rightarrow> string \<Rightarrow> client_error + string" where
  "hashDescriptionSync node text =
     (let missing = Inl (js_error_of ''Error''
            ''Synchronous SHA-256 is only available in Node.js environments. Use async hashDescription instead.'') in
      case node of None \<Rightarrow> missing
      | Some digest \<Rightarrow> (case digest (str_bytes text) of Inl _ \<Rightarrow> missing | Inr h \<Rightarrow> Inr (to_hex h)))"

definition hashDescription :: "(bytes \<Rightarrow> bytes) option \<Rightarrow> (bytes \<Rightarrow> client_error + bytes) option \<Rightarrow> string \<Rightarrow> client_error + string" where
  "hashDescription subtle node text =
     (let missing = Inl (js_error_of ''Error'' ''No crypto API available in this environment'') in
      case subtle of Some digest \<Rightarrow> Inr (to_hex (digest (str_bytes text)))
      | None \<Rightarrow>
          (case node of None \<Rightarrow> missing
           | Some digest \<Rightarrow> (case digest (str_bytes text) of Inl _ \<Rightarrow> missing | Inr h \<Rightarrow> Inr (to_hex h))))"

record 'w MetadataUploadOptions =
  mu_pinataApiKey :: "string option"
  mu_pinataSecretKey :: "string option"
  mu_customUploader :: "(string \<Rightarrow> ('w, string) answer) option"

definition pinata_request :: "string \<Rightarrow> string option \<Rightarrow> string \<Rightarrow> string \<Rightarrow> http_request" where
  "pinata_request apiKey secretKey description hash =
     \<lparr>hq_method = ''POST'', hq_url = ''https://api.pinata.cloud/pinning/pinJSONToIPFS'',
      hq_headers = json_header #
        (if or_else secretKey '''' = '''' then [(''Authorization'', ''Bearer '' @ apiKey)]
         else [(''pinata_api_key'', apiKey), (''pinata_secret_api_key'', or_else secretKey '''')]),
      hq_body = Some (stringifyJson (JObject
        [(''pinataContent'', JObject [(''description'', JString description), (''version'', JString ''1.0'')]),
         (''pinataMetadata'', JObject [(''name'', JString (''nebgov-proposal-'' @ take 8 hash))])]))\<rparr>"

text \<open>\<open>errorText\<close> is the text of an answer, which may be unreadable.\<close>

definition uploadProposalMetadata ::
  "(bytes \<Rightarrow> bytes) option \<Rightarrow> (bytes \<Rightarrow> client_error + bytes) option \<Rightarrow> (http_response \<Rightarrow> client_error + string) \<Rightarrow> 'w rpc \<Rightarrow> string \<Rightarrow>
   'w MetadataUploadOptions \<Rightarrow> ('w, string \<times> string) io" where
  "uploadProposalMetadata subtle node bodyText rpc description options =
     and_then (settle (hashDescription subtle node description)) (\<lambda>hash.
       case mu_customUploader options of
         Some upload \<Rightarrow> and_then (asking (upload description)) (\<lambda>uri. returning (uri, hash))
       | None \<Rightarrow>
           if or_else (mu_pinataApiKey options) '''' = ''''
           then throwing (js_error_of ''Error'' ''No IPFS upload provider configured in options'')
           else
             and_then (asking (rp_fetch rpc (pinata_request (or_else (mu_pinataApiKey options) '''') (mu_pinataSecretKey options) description hash)))
               (\<lambda>response. settle
                  (if \<not> response_ok response
                   then bind_sum (bodyText response) (\<lambda>text.
                     Inl (js_error_of ''Error'' (''Pinata upload failed: '' @ dec_int (hr_status response) @ '' '' @ text)))
                   else bind_sum (hr_json response) (\<lambda>data. with_member data ''IpfsHash'' (\<lambda>h.
                     Inr (''ipfs://'' @ js_String h, hash))))))"

subsection \<open>What a signal signs\<close>

lemma dec_int_no_bar: "CHR ''|'' \<notin> set (dec_int n)"
  using dec_nat_digits [of "CHR ''|''"] by (auto simp: dec_int_def is_digit_def)

lemma separated_inject: "c \<notin> set a \<Longrightarrow> c \<notin> set b \<Longrightarrow> a @ c # x = b @ c # y \<longleftrightarrow> a = b \<and> x = y"
proof (induction a arbitrary: b)
  case Nil
  then show ?case by (cases b) auto
next
  case (Cons d a)
  then show ?case by (cases b) auto
qed

lemma dec_int_injective: "dec_int a = dec_int b \<Longrightarrow> a = b"
proof -
  have head: "hd (dec_nat n) \<noteq> CHR ''-''" for n
    using dec_nat_digits [of "hd (dec_nat n)" n] dec_nat_nonempty [of n] by (auto simp: is_digit_def)
  assume "dec_int a = dec_int b"
  with head [of "nat a"] head [of "nat b"] show ?thesis
    by (auto simp: dec_int_def dec_nat_inject split: if_splits) (metis list.sel(1))+
qed

lemma signal_message_inject:
  assumes "signal_message p c v n = signal_message q d w m" "CHR ''|'' \<notin> set v" "CHR ''|'' \<notin> set w"
  shows "p = q \<and> c = d \<and> v = w \<and> n = m"
  using assms by (auto simp: signal_message_def separated_inject dec_int_no_bar dest: dec_int_injective)

lemma str_bytes_inject: "str_bytes a = str_bytes b \<Longrightarrow> a = b"
proof (rule map_injective [of "\<lambda>c. of_nat (of_char c) :: byte"])
  show "inj (\<lambda>c. of_nat (of_char c) :: byte)"
  proof (rule injI)
    fix x y :: char
    have small: "of_char z < (256 :: nat)" for z :: char using nat_of_char_less_256 [of z] by simp
    assume "(of_nat (of_char x) :: byte) = of_nat (of_char y)"
    then have "unat (of_nat (of_char x) :: byte) = unat (of_nat (of_char y) :: byte)" by simp
    then have "(of_char x :: nat) = of_char y" using small [of x] small [of y] by (simp add: unat_of_nat)
    then show "x = y" by simp
  qed
qed (simp add: str_bytes_def)

text \<open>A signature for a signal is for one vote: if two canonical payloads agree, they are for the same poll, choice, voter
  and nonce, or they exhibit a collision of the hash function. The separators leave no other way to read the message.\<close>

theorem signal_payload_binds:
  assumes "sdk_canonicalSignalPayload (Some sha256) p c v n = Inr h" "sdk_canonicalSignalPayload (Some sha256) q d w m = Inr h"
    and "CHR ''|'' \<notin> set v" "CHR ''|'' \<notin> set w"
  shows "(p = q \<and> c = d \<and> v = w \<and> n = m) \<or> (\<exists>x y. x \<noteq> y \<and> sha256 x = sha256 y)"
proof (cases "str_bytes (signal_message p c v n) = str_bytes (signal_message q d w m)")
  case True
  then show ?thesis using signal_message_inject [OF str_bytes_inject assms(3,4)] by blast
next
  case False
  moreover have "sha256 (str_bytes (signal_message p c v n)) = sha256 (str_bytes (signal_message q d w m))"
    using assms(1,2) by (auto simp: sdk_canonicalSignalPayload_def sha256Hex_def simp flip: to_hex_inject)
  ultimately show ?thesis by blast
qed

theorem signal_payload_binds_witness:
  "\<exists>h. sdk_canonicalSignalPayload (Some id) 1 2 ''G1'' ''n'' = Inr h \<and>
     ((1 :: int) = 1 \<and> (2 :: int) = 2 \<and> ''G1'' = ''G1'' \<and> ''n'' = ''n'' \<or> (\<exists>x y :: bytes. x \<noteq> y \<and> id x = id y))"
proof -
  obtain h where h: "sdk_canonicalSignalPayload (Some id) 1 2 ''G1'' ''n'' = Inr h"
    by (simp add: sdk_canonicalSignalPayload_def sha256Hex_def)
  from signal_payload_binds [OF h h] h show ?thesis by simp
qed

end
