(* ===== verification/SignalPolls.thy ===== *)
theory SignalPolls
  imports SdkBackend
begin

section \<open>Signaling polls of the backend\<close>

text \<open>
  The gasless polls: signatures (\<^verbatim>\<open>backend/src/signaling/signature.ts\<close>), the weighted tally (\<^verbatim>\<open>tally.ts\<close>), the routes
  (\<^verbatim>\<open>routes/signaling.ts\<close>) with the cache they use (\<^verbatim>\<open>cache.ts\<close>), and the job that closes polls (\<^verbatim>\<open>jobs/signal-anchor.ts\<close>).
  \<^item> The tables \<^verbatim>\<open>signaling_polls\<close> and \<^verbatim>\<open>signaling_votes\<close> are lists of rows in the order of insertion, with the identifiers of their
    sequences; queries do not fail. Times are milliseconds. \<open>now\<close> is the time of the request, the same for \<^verbatim>\<open>new Date()\<close> and
    \<^verbatim>\<open>NOW()\<close>.
  \<^item> A request arrives with the types its schema coerces to; the checks of the schema are modelled. The rate limiter and the
    logger are left out.
  \<^item> Reads of voting power go to the node as in the SDK clients.
\<close>

subsection \<open>Signatures\<close>

definition canonicalSignalPayload :: "(bytes \<Rightarrow> bytes) \<Rightarrow> int \<Rightarrow> int \<Rightarrow> string \<Rightarrow> string \<Rightarrow> string" where
  "canonicalSignalPayload sha256 pollId choiceIndex voterAddress nonce =
     to_hex (sha256 (str_bytes (join ''|'' [''nebgov-signal'', dec_int pollId, dec_int choiceIndex, voterAddress, nonce])))"

definition sep53Digest :: "(bytes \<Rightarrow> bytes) \<Rightarrow> string \<Rightarrow> bytes" where
  "sep53Digest sha256 message = sha256 (str_bytes (''Stellar Signed Message:'' @ [CHR 10]) @ str_bytes message)"

text \<open>\<open>verify address digest signature\<close> is \<open>None\<close> when \<^verbatim>\<open>Keypair.fromPublicKey\<close> or \<^verbatim>\<open>verify\<close> throws.\<close>

record keys =
  ky_sha256 :: "bytes \<Rightarrow> bytes"
  ky_fromBase64 :: "string \<Rightarrow> bytes"
  ky_verify :: "string \<Rightarrow> bytes \<Rightarrow> bytes \<Rightarrow> bool option"

definition verifySignalVote :: "keys \<Rightarrow> int \<Rightarrow> int \<Rightarrow> string \<Rightarrow> string \<Rightarrow> string \<Rightarrow> bool" where
  "verifySignalVote ky pollId choiceIndex voterAddress nonce signatureBase64 =
     (let digestHex = canonicalSignalPayload (ky_sha256 ky) pollId choiceIndex voterAddress nonce in
      case ky_verify ky voterAddress (sep53Digest (ky_sha256 ky) digestHex) (ky_fromBase64 ky signatureBase64) of
        Some b \<Rightarrow> b | None \<Rightarrow> False)"

subsection \<open>Tables and environment\<close>

record signal_poll =
  pw_id :: int
  pw_creator_address :: string
  pw_title :: string
  pw_description :: string
  pw_choices :: "string list"
  pw_snapshot_ledger :: int
  pw_start_time :: int
  pw_end_time :: int
  pw_finalized :: bool
  pw_result_hash :: "string option"
  pw_anchored_tx_hash :: "string option"
  pw_created_at :: int
  pw_anchor_attempts :: int
  pw_next_anchor_at :: "int option"

record signal_vote =
  vw_id :: int
  vw_poll_id :: int
  vw_voter_address :: string
  vw_choice_index :: int
  vw_nonce :: string
  vw_signature :: string
  vw_voting_power :: "int option"
  vw_created_at :: int

record poll_results =
  pq_choices :: "string list"
  pq_totals :: "int list"
  pq_totalVotes :: nat
  pq_totalWeight :: int

text \<open>The body of the results route: the tally, and the two hashes of a finalized poll.\<close>

datatype results_body = LiveResults poll_results | FinalResults "string option" "string option" poll_results

record signal_db =
  sg_polls :: "signal_poll list"
  sg_votes :: "signal_vote list"
  sg_next_poll :: int
  sg_next_vote :: int
  sg_cache :: "(int, results_body option \<times> int) js_map"

record signal_env =
  ev_votes_contract :: "string option"
  ev_governor_contract :: "string option"
  ev_anchor_contract :: "string option"
  ev_relayer :: "client_error + string"
  ev_anchor_on_chain :: bool
  ev_results_ttl :: int

type_synonym ('w, 'a) route = "signal_db \<Rightarrow> 'w session \<Rightarrow> ('a \<times> signal_db) \<times> 'w session"

subsection \<open>Voting power\<close>

definition contract_client :: "string \<Rightarrow> client" where
  "contract_client address =
     \<lparr>cl_rpcUrl = '''', cl_contract = address, cl_networkPassphrase = '''', cl_simulationAccount = None, cl_indexerUrl = None,
      cl_backendUrl = None, cl_retry = \<lparr>cc_retry = None, cc_maxAttempts = None, cc_baseDelayMs = None\<rparr>, cl_retryDefaults = no_options\<rparr>"

definition configured :: "string \<Rightarrow> string option \<Rightarrow> client_error + client" where
  "configured name address =
     (if or_else address '''' = '''' then Inl (js_error_of ''Error'' (name @ '' is not configured''))
      else Inr (contract_client (or_else address '''')))"

definition tally_simulateRead ::
  "'w rpc \<Rightarrow> signal_env \<Rightarrow> client_error + client \<Rightarrow> string \<Rightarrow> sc_arg list \<Rightarrow> ('w, js_value option) io" where
  "tally_simulateRead rpc ev contract fnName args =
     and_then (settle contract) (\<lambda>cl.
     and_then (encode_args rpc args) (\<lambda>_.
     and_then (settle (ev_relayer ev)) (\<lambda>source.
       read_call rpc cl source fnName args
         (\<lambda>err. Inl (js_error_of ''Error'' (fnName @ '' simulation failed: '' @ err))) (Inr None) (\<lambda>v. Inr (Some v)))))"

definition bigint_or_zero :: "js_value option \<Rightarrow> client_error + int" where
  "bigint_or_zero raw =
     (case raw of None \<Rightarrow> Inr 0 | Some v \<Rightarrow> if js_Boolean v then with_BigInt v Inr else Inr 0)"

definition getVotingPowerAtLedger :: "'w rpc \<Rightarrow> signal_env \<Rightarrow> string \<Rightarrow> int \<Rightarrow> ('w, int) io" where
  "getVotingPowerAtLedger rpc ev account ledger =
     and_then (tally_simulateRead rpc ev (configured ''TOKEN_VOTES_CONTRACT_ID'' (ev_votes_contract ev)) ''get_past_votes''
       [AAddress account, AU32 ledger]) (\<lambda>raw. settle (bigint_or_zero raw))"

definition getCurrentVotingPower :: "'w rpc \<Rightarrow> signal_env \<Rightarrow> string \<Rightarrow> ('w, int) io" where
  "getCurrentVotingPower rpc ev account =
     and_then (tally_simulateRead rpc ev (configured ''TOKEN_VOTES_CONTRACT_ID'' (ev_votes_contract ev)) ''get_votes''
       [AAddress account]) (\<lambda>raw. settle (bigint_or_zero raw))"

definition getProposalThreshold :: "'w rpc \<Rightarrow> signal_env \<Rightarrow> ('w, int) io" where
  "getProposalThreshold rpc ev =
     and_then (tally_simulateRead rpc ev (configured ''GOVERNOR_CONTRACT_ID'' (ev_governor_contract ev)) ''proposal_threshold'' [])
       (\<lambda>raw. settle (bigint_or_zero raw))"

subsection \<open>The tally\<close>

text \<open>The first loop of \<^verbatim>\<open>computeWeightedTally\<close>: a voter whose power cannot be read is skipped.\<close>

fun resolve_powers :: "(string \<Rightarrow> ('w, int) io) \<Rightarrow> signal_vote list \<Rightarrow> (string, int) js_map \<Rightarrow> 'w session \<Rightarrow> (string, int) js_map \<times> 'w session" where
  "resolve_powers getPower [] powers s = (powers, s)"
| "resolve_powers getPower (vote # votes) powers s =
     (if js_has powers (vw_voter_address vote) then resolve_powers getPower votes powers s
      else case getPower (vw_voter_address vote) s of (r, s') \<Rightarrow>
        resolve_powers getPower votes
          (case r of Inr weight \<Rightarrow> js_set powers (vw_voter_address vote) weight | Inl _ \<Rightarrow> powers) s')"

definition add_total :: "int \<Rightarrow> int \<Rightarrow> int list \<Rightarrow> int list" where
  "add_total i weight totals =
     (if 0 \<le> i \<and> i < int (length totals) then totals[nat i := totals ! nat i + weight] else totals)"

text \<open>The second loop: the totals, and the powers to store by vote.\<close>

fun weigh :: "(string, int) js_map \<Rightarrow> signal_vote list \<Rightarrow> int list \<Rightarrow> int list" where
  "weigh powers [] totals = totals"
| "weigh powers (vote # votes) totals =
     weigh powers votes
       (case js_get powers (vw_voter_address vote) of None \<Rightarrow> totals | Some weight \<Rightarrow> add_total (vw_choice_index vote) weight totals)"

definition store_power :: "(string, int) js_map \<Rightarrow> int \<Rightarrow> signal_vote \<Rightarrow> signal_vote" where
  "store_power powers pollId vote =
     (if vw_poll_id vote = pollId
      then (case js_get powers (vw_voter_address vote) of None \<Rightarrow> vote | Some weight \<Rightarrow> vote\<lparr>vw_voting_power := Some weight\<rparr>)
      else vote)"

definition votes_of :: "signal_db \<Rightarrow> int \<Rightarrow> signal_vote list" where
  "votes_of db pollId = filter (\<lambda>v. vw_poll_id v = pollId) (sg_votes db)"

definition computeWeightedTally :: "'w rpc \<Rightarrow> signal_env \<Rightarrow> int \<Rightarrow> int \<Rightarrow> string list \<Rightarrow> ('w, poll_results) route" where
  "computeWeightedTally rpc ev pollId snapshotLedger choices db s =
     (case resolve_powers (\<lambda>voter. getVotingPowerAtLedger rpc ev voter snapshotLedger) (votes_of db pollId) [] s of
        (powers, s') \<Rightarrow>
          let votes = votes_of db pollId;
              totals = weigh powers votes (replicate (length choices) 0)
          in ((\<lparr>pq_choices = choices, pq_totals = totals, pq_totalVotes = length votes, pq_totalWeight = sum_list totals\<rparr>,
               db\<lparr>sg_votes := map (store_power powers pollId) (sg_votes db)\<rparr>), s'))"

subsection \<open>The routes\<close>

datatype 'a http_reply = Reply int 'a | Failure int string

text \<open>\<^verbatim>\<open>STELLAR_ACCOUNT_RE\<close>\<close>

definition base32_char :: "char \<Rightarrow> bool" where
  "base32_char c = (let n = of_char c :: nat in 65 \<le> n \<and> n \<le> 90 \<or> 50 \<le> n \<and> n \<le> 55)"

definition stellar_account :: "string \<Rightarrow> bool" where
  "stellar_account a = (length a = 56 \<and> hd a = CHR ''G'' \<and> list_all base32_char (tl a))"

definition js_trim :: "string \<Rightarrow> string" where
  "js_trim s = rev (dropWhile is_space (rev (dropWhile is_space s)))"

record create_poll_body =
  cb_creatorAddress :: string
  cb_title :: string
  cb_description :: string
  cb_choices :: "string list"
  cb_snapshotLedger :: int
  cb_startTime :: int
  cb_endTime :: int

text \<open>\<^verbatim>\<open>createPollSchema\<close>: the trimmed body, or \<open>None\<close>. Lengths are counted in bytes.\<close>

definition createPollSchema :: "create_poll_body \<Rightarrow> create_poll_body option" where
  "createPollSchema b =
     (let t = b\<lparr>cb_title := js_trim (cb_title b), cb_description := js_trim (cb_description b), cb_choices := map js_trim (cb_choices b)\<rparr> in
      if stellar_account (cb_creatorAddress t) \<and> 1 \<le> length (cb_title t) \<and> length (cb_title t) \<le> 200 \<and> 1 \<le> length (cb_description t) \<and>
         2 \<le> length (cb_choices t) \<and> length (cb_choices t) \<le> 10 \<and> list_all (\<lambda>c. 1 \<le> length c \<and> length c \<le> 100) (cb_choices t) \<and>
         0 < cb_snapshotLedger t \<and> cb_startTime t < cb_endTime t
      then Some t else None)"

definition new_poll :: "signal_db \<Rightarrow> int \<Rightarrow> create_poll_body \<Rightarrow> signal_poll" where
  "new_poll db now b =
     \<lparr>pw_id = sg_next_poll db, pw_creator_address = cb_creatorAddress b, pw_title = cb_title b, pw_description = cb_description b,
      pw_choices = cb_choices b, pw_snapshot_ledger = cb_snapshotLedger b, pw_start_time = cb_startTime b, pw_end_time = cb_endTime b,
      pw_finalized = False, pw_result_hash = None, pw_anchored_tx_hash = None, pw_created_at = now, pw_anchor_attempts = 0,
      pw_next_anchor_at = None\<rparr>"

definition post_polls :: "'w rpc \<Rightarrow> signal_env \<Rightarrow> int \<Rightarrow> create_poll_body \<Rightarrow> ('w, signal_poll http_reply) route" where
  "post_polls rpc ev now body db s =
     (case createPollSchema body of
        None \<Rightarrow> ((Failure 400 ''validation'', db), s)
      | Some b \<Rightarrow>
          (case and_then (getCurrentVotingPower rpc ev (cb_creatorAddress b)) (\<lambda>weight.
                and_then (getProposalThreshold rpc ev) (\<lambda>threshold.
                and_then (asking (rp_getLatestLedger rpc)) (\<lambda>currentLedger. returning (weight, threshold, currentLedger)))) s of
             (Inl _, s') \<Rightarrow> ((Failure 500 ''Failed to create signaling poll'', db), s')
           | (Inr (weight, threshold, currentLedger), s') \<Rightarrow>
               if weight < threshold then ((Failure 403 (''Creator voting power ('' @ dec_int weight @ '') is below the proposal threshold ('' @ dec_int threshold @ '')''), db), s')
               else if currentLedger < cb_snapshotLedger b then ((Failure 400 (''snapshotLedger ('' @ dec_int (cb_snapshotLedger b) @ '') cannot be in the future (current ledger: '' @
                 dec_int currentLedger @ '')''), db), s')
               else ((Reply 201 (new_poll db now b),
                      db\<lparr>sg_polls := sg_polls db @ [new_poll db now b], sg_next_poll := sg_next_poll db + 1\<rparr>), s')))"

definition newest_polls :: "signal_poll list \<Rightarrow> signal_poll list" where
  "newest_polls ps = sort_key (\<lambda>p. - pw_created_at p) ps"

datatype poll_status = AnyStatus | ActiveStatus | ClosedStatus

definition get_polls :: "int \<Rightarrow> poll_status \<Rightarrow> signal_db \<Rightarrow> signal_poll list" where
  "get_polls now status db =
     newest_polls (filter (\<lambda>p. case status of
         AnyStatus \<Rightarrow> True
       | ActiveStatus \<Rightarrow> \<not> pw_finalized p \<and> now < pw_end_time p
       | ClosedStatus \<Rightarrow> pw_finalized p \<or> pw_end_time p \<le> now) (sg_polls db))"

definition find_poll :: "signal_db \<Rightarrow> int \<Rightarrow> signal_poll option" where
  "find_poll db i = find (\<lambda>p. pw_id p = i) (sg_polls db)"

definition get_poll :: "int \<Rightarrow> signal_db \<Rightarrow> signal_poll http_reply" where
  "get_poll i db = (case find_poll db i of None \<Rightarrow> Failure 404 ''Poll not found'' | Some p \<Rightarrow> Reply 200 p)"

definition cache_invalidate :: "int \<Rightarrow> signal_db \<Rightarrow> signal_db" where
  "cache_invalidate i db = db\<lparr>sg_cache := js_delete (sg_cache db) i\<rparr>"

record cast_vote_body =
  vb_choiceIndex :: int
  vb_nonce :: string
  vb_signature :: string

definition castVoteSchema :: "cast_vote_body \<Rightarrow> cast_vote_body option" where
  "castVoteSchema b =
     (let t = b\<lparr>vb_signature := js_trim (vb_signature b)\<rparr> in
      if 0 \<le> vb_choiceIndex t \<and> 1 \<le> length (vb_nonce t) \<and> length (vb_nonce t) \<le> 64 \<and> 1 \<le> length (vb_signature t) then Some t else None)"

definition insert_vote :: "int \<Rightarrow> int \<Rightarrow> string \<Rightarrow> cast_vote_body \<Rightarrow> signal_db \<Rightarrow> signal_db" where
  "insert_vote now i voter b db =
     db\<lparr>sg_votes := sg_votes db @
          [\<lparr>vw_id = sg_next_vote db, vw_poll_id = i, vw_voter_address = voter, vw_choice_index = vb_choiceIndex b,
            vw_nonce = vb_nonce b, vw_signature = vb_signature b, vw_voting_power = None, vw_created_at = now\<rparr>],
        sg_next_vote := sg_next_vote db + 1\<rparr>"

text \<open>\<^verbatim>\<open>ON CONFLICT (poll_id, voter_address) DO NOTHING\<close>; the sequence is advanced in either case.\<close>

definition post_vote :: "keys \<Rightarrow> int \<Rightarrow> int \<Rightarrow> string option \<Rightarrow> cast_vote_body \<Rightarrow> signal_db \<Rightarrow> unit http_reply \<times> signal_db" where
  "post_vote ky now i voterHeader body db =
     (case castVoteSchema body of
        None \<Rightarrow> (Failure 400 ''validation'', db)
      | Some b \<Rightarrow>
          if i < 1 then (Failure 400 ''validation'', db)
          else let voter = or_else voterHeader '''' in
            if voter = '''' \<or> \<not> stellar_account voter then (Failure 400 ''Missing or invalid X-Voter-Address header'', db)
            else case find_poll db i of
              None \<Rightarrow> (Failure 404 ''Poll not found'', db)
            | Some poll \<Rightarrow>
                if now < pw_start_time poll \<or> pw_end_time poll < now then (Failure 400 ''Poll is not currently open for voting'', db)
                else if int (length (pw_choices poll)) \<le> vb_choiceIndex b
                then (Failure 400 (''choiceIndex is out of range for this poll'' @ [CHR 39] @ ''s choices''), db)
                else if \<not> verifySignalVote ky i (vb_choiceIndex b) voter (vb_nonce b) (vb_signature b)
                then (Failure 400 ''Invalid signature'', db)
                else if list_ex (\<lambda>v. vw_voter_address v = voter) (votes_of db i)
                then (Failure 409 ''This address has already voted in this poll'', db\<lparr>sg_next_vote := sg_next_vote db + 1\<rparr>)
                else (Reply 201 (), cache_invalidate i (insert_vote now i voter b db)))"

definition stored_totals :: "signal_vote list \<Rightarrow> nat \<Rightarrow> int list" where
  "stored_totals votes n =
     fold (\<lambda>v totals. add_total (vw_choice_index v) (or_else (vw_voting_power v) 0) totals) votes (replicate n 0)"

definition final_results :: "signal_db \<Rightarrow> signal_poll \<Rightarrow> poll_results" where
  "final_results db poll =
     (let votes = votes_of db (pw_id poll); totals = stored_totals votes (length (pw_choices poll)) in
      \<lparr>pq_choices = pw_choices poll, pq_totals = totals, pq_totalVotes = length votes, pq_totalWeight = sum_list totals\<rparr>)"

definition compute_results :: "'w rpc \<Rightarrow> signal_env \<Rightarrow> int \<Rightarrow> ('w, results_body option) route" where
  "compute_results rpc ev i db s =
     (case find_poll db i of
        None \<Rightarrow> ((None, db), s)
      | Some poll \<Rightarrow>
          if pw_finalized poll
          then ((Some (FinalResults (pw_result_hash poll) (pw_anchored_tx_hash poll) (final_results db poll)), db), s)
          else case computeWeightedTally rpc ev i (pw_snapshot_ledger poll) (pw_choices poll) db s of
            ((results, db'), s') \<Rightarrow> ((Some (LiveResults results), db'), s'))"

text \<open>The route with \<^verbatim>\<open>cached\<close>; an unknown poll is cached too.\<close>

definition get_results :: "'w rpc \<Rightarrow> signal_env \<Rightarrow> int \<Rightarrow> int \<Rightarrow> ('w, results_body http_reply) route" where
  "get_results rpc ev now i db s =
     (let reply = (\<lambda>body. case body of None \<Rightarrow> Failure 404 ''Poll not found'' | Some b \<Rightarrow> Reply 200 b) in
      case js_get (sg_cache db) i of
        Some (body, expiresAt) \<Rightarrow>
          if now < expiresAt then ((reply body, db), s)
          else (case compute_results rpc ev i db s of ((body, db'), s') \<Rightarrow>
            ((reply body, db'\<lparr>sg_cache := js_set (sg_cache db') i (body, now + ev_results_ttl ev)\<rparr>), s'))
      | None \<Rightarrow>
          (case compute_results rpc ev i db s of ((body, db'), s') \<Rightarrow>
            ((reply body, db'\<lparr>sg_cache := js_set (sg_cache db') i (body, now + ev_results_ttl ev)\<rparr>), s')))"

definition oldest_votes :: "signal_vote list \<Rightarrow> signal_vote list" where
  "oldest_votes vs = sort_key vw_created_at vs"

text \<open>The page of votes with \<^verbatim>\<open>hasMore\<close>.\<close>

definition get_poll_votes :: "int \<Rightarrow> int \<Rightarrow> int \<Rightarrow> signal_db \<Rightarrow> signal_vote list \<times> bool" where
  "get_poll_votes i limit offset db =
     (let page = take (nat limit) (drop (nat offset) (oldest_votes (votes_of db i))) in
      (page, offset + int (length page) < int (length (votes_of db i))))"

subsection \<open>Closing polls\<close>

definition computeResultHash :: "(bytes \<Rightarrow> bytes) \<Rightarrow> int \<Rightarrow> poll_results \<Rightarrow> string" where
  "computeResultHash sha256 pollId results =
     to_hex (sha256 (str_bytes (stringifyJson (JObject
       [(''pollId'', JNumber pollId), (''choices'', JArray (map JString (pq_choices results))),
        (''totals'', JArray (map (\<lambda>t. JString (dec_int t)) (pq_totals results)))]))))"

definition anchorOnChain :: "'w rpc \<Rightarrow> signal_env \<Rightarrow> int \<Rightarrow> string \<Rightarrow> ('w, string) io" where
  "anchorOnChain rpc ev pollId resultHashHex =
     and_then (settle (configured ''SIGNAL_ANCHOR_CONTRACT_ID'' (ev_anchor_contract ev))) (\<lambda>cl.
     and_then (settle (ev_relayer ev)) (\<lambda>relayer.
       send_prepared rpc cl (\<lambda>result. js_error_of ''Error'' (''anchor_result submission failed: '' @ sr_json result)) relayer
         ''anchor_result'' [AAddress relayer, AU64 pollId, ABytes (from_hex resultHashHex)]))"

definition update_poll :: "int \<Rightarrow> (signal_poll \<Rightarrow> signal_poll) \<Rightarrow> signal_db \<Rightarrow> signal_db" where
  "update_poll i f db = db\<lparr>sg_polls := map (\<lambda>p. if pw_id p = i then f p else p) (sg_polls db)\<rparr>"

definition finalize_poll :: "int \<Rightarrow> string \<Rightarrow> string option \<Rightarrow> signal_db \<Rightarrow> signal_db" where
  "finalize_poll i resultHash txHash db =
     cache_invalidate i (update_poll i (\<lambda>p. p\<lparr>pw_finalized := True, pw_result_hash := Some resultHash, pw_anchored_tx_hash := txHash\<rparr>) db)"

definition retry_poll :: "int \<Rightarrow> int \<Rightarrow> string \<Rightarrow> int \<Rightarrow> signal_db \<Rightarrow> signal_db" where
  "retry_poll now i resultHash attempts db =
     cache_invalidate i (update_poll i (\<lambda>p. p\<lparr>pw_result_hash := Some resultHash, pw_anchor_attempts := attempts,
       pw_next_anchor_at := Some (now + min (attempts * 30000) 300000)\<rparr>) db)"

definition MAX_ANCHOR_ATTEMPTS :: int where
  "MAX_ANCHOR_ATTEMPTS = 5"

text \<open>The body of the loop of \<^verbatim>\<open>finalizeEndedPolls\<close> for one row of its query.\<close>

definition close_poll ::
  "(bytes \<Rightarrow> bytes) \<Rightarrow> 'w rpc \<Rightarrow> signal_env \<Rightarrow> int \<Rightarrow> signal_poll \<Rightarrow> signal_db \<Rightarrow> 'w session \<Rightarrow> signal_db \<times> 'w session" where
  "close_poll sha256 rpc ev now poll db s =
     (case computeWeightedTally rpc ev (pw_id poll) (pw_snapshot_ledger poll) (pw_choices poll) db s of
        ((results, db1), s1) \<Rightarrow>
          let resultHash = computeResultHash sha256 (pw_id poll) results in
          if \<not> ev_anchor_on_chain ev then (finalize_poll (pw_id poll) resultHash None db1, s1)
          else case anchorOnChain rpc ev (pw_id poll) resultHash s1 of
            (Inr txHash, s2) \<Rightarrow> (finalize_poll (pw_id poll) resultHash (Some txHash) db1, s2)
          | (Inl _, s2) \<Rightarrow>
              let attempts = pw_anchor_attempts poll + 1 in
              if MAX_ANCHOR_ATTEMPTS \<le> attempts then (finalize_poll (pw_id poll) resultHash None db1, s2)
              else (retry_poll now (pw_id poll) resultHash attempts db1, s2))"

definition ended_polls :: "int \<Rightarrow> signal_db \<Rightarrow> signal_poll list" where
  "ended_polls now db =
     filter (\<lambda>p. \<not> pw_finalized p \<and> pw_end_time p \<le> now \<and> (case pw_next_anchor_at p of None \<Rightarrow> True | Some t \<Rightarrow> t \<le> now)) (sg_polls db)"

fun close_polls ::
  "(bytes \<Rightarrow> bytes) \<Rightarrow> 'w rpc \<Rightarrow> signal_env \<Rightarrow> int \<Rightarrow> signal_poll list \<Rightarrow> signal_db \<Rightarrow> 'w session \<Rightarrow> signal_db \<times> 'w session" where
  "close_polls sha256 rpc ev now [] db s = (db, s)"
| "close_polls sha256 rpc ev now (poll # polls) db s =
     (case close_poll sha256 rpc ev now poll db s of (db', s') \<Rightarrow> close_polls sha256 rpc ev now polls db' s')"

definition finalizeEndedPolls :: "(bytes \<Rightarrow> bytes) \<Rightarrow> 'w rpc \<Rightarrow> signal_env \<Rightarrow> int \<Rightarrow> signal_db \<Rightarrow> 'w session \<Rightarrow> signal_db \<times> 'w session" where
  "finalizeEndedPolls sha256 rpc ev now db s = close_polls sha256 rpc ev now (ended_polls now db) db s"

subsection \<open>The SDK and the backend agree on what is signed\<close>

lemma payload_agrees:
  "sdk_canonicalSignalPayload (Some sha256) p c v n = Inr (canonicalSignalPayload sha256 p c v n)"
  by (simp add: sdk_canonicalSignalPayload_def sha256Hex_def canonicalSignalPayload_def signal_message_def DOMAIN_TAG_def)

lemma digest_agrees: "sdk_sep53Digest (Some sha256) m = Inr (sep53Digest sha256 m)"
  by (simp add: sdk_sep53Digest_def sep53Digest_def SEP53_PREFIX_def)

text \<open>The key pair of a voter: what it signs, the backend can verify; and base64 that can be read back, without white space.\<close>

definition signs_for :: "keys \<Rightarrow> (bytes \<Rightarrow> string) \<Rightarrow> (bytes \<Rightarrow> bytes) \<Rightarrow> string \<Rightarrow> bool" where
  "signs_for ky toBase64 sign voter \<longleftrightarrow>
     (\<forall>d. ky_verify ky voter d (sign d) = Some True) \<and> (\<forall>x. ky_fromBase64 ky (toBase64 x) = x) \<and>
     (\<forall>d. toBase64 (sign d) \<noteq> [] \<and> list_all (\<lambda>c. \<not> is_space c) (toBase64 (sign d)))"

definition cast_signature :: "(bytes \<Rightarrow> bytes) \<Rightarrow> (bytes \<Rightarrow> string) \<Rightarrow> (bytes \<Rightarrow> bytes) \<Rightarrow> int \<Rightarrow> int \<Rightarrow> string \<Rightarrow> bytes \<Rightarrow> string" where
  "cast_signature sha256 toBase64 sign pollId choiceIndex voter random16 =
     toBase64 (sign (sep53Digest sha256 (canonicalSignalPayload sha256 pollId choiceIndex voter (generateNonce random16))))"

lemma castVote_request:
  "castVote (Some sha256) toBase64 rpc cl random16 voter sign pollId choiceIndex =
     and_then (signaling_request rpc cl (vote_request pollId choiceIndex voter (generateNonce random16)
       (cast_signature sha256 toBase64 sign pollId choiceIndex voter random16))) (\<lambda>_. returning ())"
  by (rule ext)
    (simp add: castVote_def payload_agrees digest_agrees bind_sum_def and_then_def settle_def cast_signature_def Let_def)

lemma js_trim_clean: "list_all (\<lambda>c. \<not> is_space c) s \<Longrightarrow> js_trim s = s"
proof -
  assume clean: "list_all (\<lambda>c. \<not> is_space c) s"
  have "dropWhile is_space t = t" if "list_all (\<lambda>c. \<not> is_space c) t" for t using that by (cases t) auto
  from this [OF clean] this [of "rev s"] clean show ?thesis by (simp add: js_trim_def list_all_iff)
qed

lemma nonce_length: "length random16 = 16 \<Longrightarrow> length (generateNonce random16) = 32"
proof -
  have "length (to_hex bs) = 2 * length bs" for bs by (induction bs) auto
  then show "length random16 = 16 \<Longrightarrow> ?thesis" by (simp add: generateNonce_def)
qed

text \<open>A vote that the voter signed for an open poll is taken.\<close>

lemma signed_vote_taken:
  assumes "signs_for ky toBase64 sign voter" "length random16 = 16" "stellar_account voter" "1 \<le> pollId"
    and "find_poll db pollId = Some poll" "pw_start_time poll \<le> now" "now \<le> pw_end_time poll"
    and "0 \<le> choiceIndex" "choiceIndex < int (length (pw_choices poll))"
    and "\<not> list_ex (\<lambda>v. vw_voter_address v = voter) (votes_of db pollId)"
    and "b = \<lparr>vb_choiceIndex = choiceIndex, vb_nonce = generateNonce random16,
              vb_signature = cast_signature (ky_sha256 ky) toBase64 sign pollId choiceIndex voter random16\<rparr>"
  shows "post_vote ky now pollId (Some voter) b db = (Reply 201 (), cache_invalidate pollId (insert_vote now pollId voter b db))"
proof -
  have "toBase64 (sign d) \<noteq> [] \<and> js_trim (toBase64 (sign d)) = toBase64 (sign d)" for d
    using assms(1) js_trim_clean by (simp add: signs_for_def)
  then have trim: "vb_signature b \<noteq> [] \<and> js_trim (vb_signature b) = vb_signature b" by (simp add: assms(11) cast_signature_def)
  then have "1 \<le> length (vb_signature b)" by (cases "vb_signature b") auto
  then have "castVoteSchema b = Some b"
    using trim assms(8) nonce_length [OF assms(2)] by (simp add: castVoteSchema_def assms(11) Let_def)
  moreover have "verifySignalVote ky pollId choiceIndex voter (vb_nonce b) (vb_signature b)"
    using assms(1) by (simp add: verifySignalVote_def signs_for_def assms(11) cast_signature_def Let_def)
  moreover have "voter \<noteq> []" using assms(3) by (auto simp: stellar_account_def)
  ultimately show ?thesis using assms
    by (simp add: post_vote_def or_else_def Let_def)
qed

text \<open>C17: What the SDK sends, the backend takes: the body that \<^verbatim>\<open>castVote\<close> posts for an open poll, a choice of the poll and a voter
  who has not voted there passes the schema and the signature check, and the vote is stored with status 201.\<close>

theorem castVote_is_accepted:
  assumes "signs_for ky toBase64 sign voter" "length random16 = 16" "stellar_account voter" "1 \<le> pollId"
    and "find_poll db pollId = Some poll" "pw_start_time poll \<le> now" "now \<le> pw_end_time poll"
    and "0 \<le> choiceIndex" "choiceIndex < int (length (pw_choices poll))"
    and "\<not> list_ex (\<lambda>v. vw_voter_address v = voter) (votes_of db pollId)"
    and "b = \<lparr>vb_choiceIndex = choiceIndex, vb_nonce = generateNonce random16,
              vb_signature = cast_signature (ky_sha256 ky) toBase64 sign pollId choiceIndex voter random16\<rparr>"
  shows "castVote (Some (ky_sha256 ky)) toBase64 rpc cl random16 voter sign pollId choiceIndex =
           and_then (signaling_request rpc cl (vote_request pollId choiceIndex voter (vb_nonce b) (vb_signature b))) (\<lambda>_. returning ()) \<and>
         post_vote ky now pollId (Some voter) b db = (Reply 201 (), cache_invalidate pollId (insert_vote now pollId voter b db))"
  using signed_vote_taken [OF assms] by (simp add: castVote_request assms(11))

subsection \<open>The votes on record\<close>

definition vote_key :: "signal_vote \<Rightarrow> int \<times> string" where
  "vote_key v = (vw_poll_id v, vw_voter_address v)"

text \<open>A vote that was rightly taken: for a poll on record, one of its choices, in its window, with the signature of the voter for
  exactly this poll and choice.\<close>

definition proper_vote :: "keys \<Rightarrow> signal_db \<Rightarrow> signal_vote \<Rightarrow> bool" where
  "proper_vote ky db v \<longleftrightarrow>
     (\<exists>p \<in> set (sg_polls db). pw_id p = vw_poll_id v \<and> 0 \<le> vw_choice_index v \<and> vw_choice_index v < int (length (pw_choices p)) \<and>
        pw_start_time p \<le> vw_created_at v \<and> vw_created_at v \<le> pw_end_time p) \<and>
     verifySignalVote ky (vw_poll_id v) (vw_choice_index v) (vw_voter_address v) (vw_nonce v) (vw_signature v)"

definition signal_inv :: "keys \<Rightarrow> signal_db \<Rightarrow> bool" where
  "signal_inv ky db \<longleftrightarrow> distinct (map vote_key (sg_votes db)) \<and> list_all (proper_vote ky db) (sg_votes db)"

text \<open>What the service does: the routes that write, the results route, which stores powers, and the job.\<close>

inductive signal_step :: "keys \<Rightarrow> 'w rpc \<Rightarrow> signal_env \<Rightarrow> signal_db \<times> 'w session \<Rightarrow> signal_db \<times> 'w session \<Rightarrow> bool"
  for ky :: keys and rpc :: "'w rpc" and ev :: signal_env where
  create: "post_polls rpc ev now body db s = ((reply, db'), s') \<Longrightarrow> signal_step ky rpc ev (db, s) (db', s')"
| vote: "post_vote ky now i voter body db = (reply, db') \<Longrightarrow> signal_step ky rpc ev (db, s) (db', s)"
| results: "get_results rpc ev now i db s = ((reply, db'), s') \<Longrightarrow> signal_step ky rpc ev (db, s) (db', s')"
| close: "finalizeEndedPolls (ky_sha256 ky) rpc ev now db s = (db', s') \<Longrightarrow> signal_step ky rpc ev (db, s) (db', s')"

inductive signal_reachable :: "keys \<Rightarrow> 'w rpc \<Rightarrow> signal_env \<Rightarrow> signal_db \<times> 'w session \<Rightarrow> bool"
  for ky :: keys and rpc :: "'w rpc" and ev :: signal_env where
  start: "sg_votes db = [] \<Longrightarrow> signal_reachable ky rpc ev (db, s)"
| step: "signal_reachable ky rpc ev c \<Longrightarrow> signal_step ky rpc ev c c' \<Longrightarrow> signal_reachable ky rpc ev c'"

text \<open>Two databases that show the same votes, up to their stored power, and where every poll is still on record with the members
  a vote depends on.\<close>

definition same_ballot :: "signal_vote \<Rightarrow> signal_vote \<Rightarrow> bool" where
  "same_ballot v w \<longleftrightarrow> w = v\<lparr>vw_voting_power := vw_voting_power w\<rparr>"

definition poll_frame :: "signal_poll \<Rightarrow> int \<times> string list \<times> int \<times> int" where
  "poll_frame p = (pw_id p, pw_choices p, pw_start_time p, pw_end_time p)"

definition keeps_votes :: "signal_db \<Rightarrow> signal_db \<Rightarrow> bool" where
  "keeps_votes db db' \<longleftrightarrow> list_all2 same_ballot (sg_votes db) (sg_votes db') \<and>
     (\<exists>added. map poll_frame (sg_polls db') = map poll_frame (sg_polls db) @ added)"

lemma same_ballot_refl [simp]: "same_ballot v v"
  by (simp add: same_ballot_def)

lemma keeps_votes_refl [simp]: "keeps_votes db db"
  by (simp add: keeps_votes_def list_all2_refl)

lemma same_ballot_trans: "same_ballot u v \<Longrightarrow> same_ballot v w \<Longrightarrow> same_ballot u w"
  by (cases u; cases v; cases w) (simp add: same_ballot_def)

lemma keeps_votes_trans: "keeps_votes a b \<Longrightarrow> keeps_votes b c \<Longrightarrow> keeps_votes a c"
proof -
  assume ab: "keeps_votes a b" and bc: "keeps_votes b c"
  have "list_all2 same_ballot (sg_votes a) (sg_votes c)"
    using ab bc same_ballot_trans by (fastforce simp: keeps_votes_def list_all2_conv_all_nth)
  moreover obtain l l' where "map poll_frame (sg_polls b) = map poll_frame (sg_polls a) @ l"
      "map poll_frame (sg_polls c) = map poll_frame (sg_polls b) @ l'"
    using ab bc by (auto simp: keeps_votes_def)
  then have "map poll_frame (sg_polls c) = map poll_frame (sg_polls a) @ (l @ l')" by simp
  ultimately show ?thesis unfolding keeps_votes_def by blast
qed

lemma same_ballot_members:
  "same_ballot v w \<Longrightarrow> vote_key w = vote_key v \<and> (proper_vote ky db w \<longleftrightarrow> proper_vote ky db v)"
  by (cases v; cases w) (simp add: same_ballot_def vote_key_def proper_vote_def)

lemma proper_vote_frame:
  assumes "proper_vote ky db v" "map poll_frame (sg_polls db') = map poll_frame (sg_polls db) @ added"
  shows "proper_vote ky db' v"
proof -
  have frames: "poll_frame ` set (sg_polls db) \<subseteq> poll_frame ` set (sg_polls db')"
    using arg_cong [OF assms(2), of set] by auto
  obtain p where p: "p \<in> set (sg_polls db)" "pw_id p = vw_poll_id v" "0 \<le> vw_choice_index v"
    "vw_choice_index v < int (length (pw_choices p))" "pw_start_time p \<le> vw_created_at v" "vw_created_at v \<le> pw_end_time p"
    using assms(1) by (auto simp: proper_vote_def)
  then obtain q where "q \<in> set (sg_polls db')" "poll_frame q = poll_frame p" using frames by fastforce
  then show ?thesis using assms(1) p by (auto simp: proper_vote_def poll_frame_def intro!: bexI [of _ q])
qed

lemma keeps_votes_inv: "keeps_votes db db' \<Longrightarrow> signal_inv ky db \<Longrightarrow> signal_inv ky db'"
proof -
  assume k: "keeps_votes db db'" and inv: "signal_inv ky db"
  have keys: "map vote_key (sg_votes db') = map vote_key (sg_votes db)"
    using k same_ballot_members by (auto simp: keeps_votes_def list_all2_conv_all_nth intro!: nth_equalityI)
  have "proper_vote ky db' (sg_votes db' ! i)" if "i < length (sg_votes db')" for i
  proof -
    have "same_ballot (sg_votes db ! i) (sg_votes db' ! i)" and i: "i < length (sg_votes db)"
      using k that by (auto simp: keeps_votes_def list_all2_conv_all_nth)
    moreover have "proper_vote ky db (sg_votes db ! i)" using inv i by (simp add: signal_inv_def list_all_length)
    ultimately show ?thesis using k same_ballot_members proper_vote_frame unfolding keeps_votes_def by blast
  qed
  then show ?thesis using keys inv by (simp add: signal_inv_def list_all_length)
qed

lemma keeps_votes_tally: "computeWeightedTally rpc ev i l choices db s = ((results, db'), s') \<Longrightarrow> keeps_votes db db'"
proof -
  have "same_ballot v (store_power powers i v)" for powers v
    by (simp add: same_ballot_def store_power_def split: option.split)
  then show "computeWeightedTally rpc ev i l choices db s = ((results, db'), s') \<Longrightarrow> ?thesis"
    by (auto simp: computeWeightedTally_def keeps_votes_def list.rel_map list.rel_refl Let_def split: prod.splits)
qed

lemma keeps_votes_frame:
  "(\<And>p. poll_frame (f p) = poll_frame p) \<Longrightarrow> keeps_votes db (cache_invalidate i (update_poll i f db))"
  by (auto simp: keeps_votes_def cache_invalidate_def update_poll_def list_all2_refl intro!: exI [of _ "[]"])

lemma keeps_votes_close: "close_poll sha256 rpc ev now poll db s = (db', s') \<Longrightarrow> keeps_votes db db'"
proof -
  assume c: "close_poll sha256 rpc ev now poll db s = (db', s')"
  obtain results db1 s1 where t: "computeWeightedTally rpc ev (pw_id poll) (pw_snapshot_ledger poll) (pw_choices poll) db s = ((results, db1), s1)"
    by (metis prod.exhaust)
  have "keeps_votes db1 (finalize_poll i h tx db1)" "keeps_votes db1 (retry_poll now i h n db1)" for i h tx n
    unfolding finalize_poll_def retry_poll_def by (rule keeps_votes_frame; simp add: poll_frame_def)+
  with c t have "keeps_votes db1 db'"
    by (auto simp: close_poll_def Let_def split: if_splits prod.splits sum.splits)
  with keeps_votes_tally [OF t] show ?thesis by (rule keeps_votes_trans)
qed

lemma keeps_votes_close_polls: "close_polls sha256 rpc ev now polls db s = (db', s') \<Longrightarrow> keeps_votes db db'"
proof (induction polls arbitrary: db s)
  case (Cons poll polls)
  then show ?case by (auto split: prod.splits intro: keeps_votes_trans dest: keeps_votes_close)
qed simp

lemma keeps_votes_results: "get_results rpc ev now i db s = ((reply, db'), s') \<Longrightarrow> keeps_votes db db'"
proof -
  have compute: "compute_results rpc ev i db s = ((body, db1), s1) \<Longrightarrow> keeps_votes db db1" for body db1 s1
    by (auto simp: compute_results_def split: option.splits if_splits prod.splits dest: keeps_votes_tally)
  have "keeps_votes db db1 \<Longrightarrow> keeps_votes db (db1\<lparr>sg_cache := c\<rparr>)" for db1 c by (simp add: keeps_votes_def)
  then show "get_results rpc ev now i db s = ((reply, db'), s') \<Longrightarrow> ?thesis"
    by (auto simp: get_results_def Let_def split: option.splits if_splits prod.splits dest!: compute)
qed

lemma keeps_votes_create: "post_polls rpc ev now body db s = ((reply, db'), s') \<Longrightarrow> keeps_votes db db'"
  by (auto simp: post_polls_def keeps_votes_def list_all2_refl split: option.splits prod.splits sum.splits if_splits)

lemma post_vote_inv:
  assumes "post_vote ky now i voter body db = (reply, db')" "signal_inv ky db"
  shows "signal_inv ky db'"
proof (cases reply)
  case (Failure code message)
  then have "sg_votes db' = sg_votes db \<and> sg_polls db' = sg_polls db"
    using assms(1) by (auto simp: post_vote_def Let_def split: option.splits if_splits)
  then show ?thesis using assms(2) by (simp add: signal_inv_def proper_vote_def [abs_def])
next
  case (Reply code u)
  then obtain b poll where ok: "find_poll db i = Some poll" "pw_start_time poll \<le> now" "now \<le> pw_end_time poll"
      "vb_choiceIndex b < int (length (pw_choices poll))" "0 \<le> vb_choiceIndex b"
      "verifySignalVote ky i (vb_choiceIndex b) (or_else voter '''') (vb_nonce b) (vb_signature b)"
      "\<not> list_ex (\<lambda>v. vw_voter_address v = or_else voter '''') (votes_of db i)"
    and db': "db' = cache_invalidate i (insert_vote now i (or_else voter '''') b db)"
    using assms(1)
    by (auto simp: post_vote_def castVoteSchema_def Let_def split: option.splits if_splits
      intro: that [of _ "body\<lparr>vb_signature := js_trim (vb_signature body)\<rparr>"])
  have poll: "poll \<in> set (sg_polls db)" "pw_id poll = i" using ok(1) by (auto simp: find_poll_def find_Some_iff)
  let ?v = "\<lparr>vw_id = sg_next_vote db, vw_poll_id = i, vw_voter_address = or_else voter '''', vw_choice_index = vb_choiceIndex b,
            vw_nonce = vb_nonce b, vw_signature = vb_signature b, vw_voting_power = None, vw_created_at = now\<rparr>"
  have votes: "sg_votes db' = sg_votes db @ [?v]" and polls: "sg_polls db' = sg_polls db"
    by (simp_all add: db' cache_invalidate_def insert_vote_def)
  have "vote_key ?v \<notin> vote_key ` set (sg_votes db)" using ok(7) by (auto simp: vote_key_def votes_of_def list_ex_iff)
  moreover have "proper_vote ky db' ?v" unfolding proper_vote_def polls using ok poll by (intro conjI bexI [of _ poll]) simp_all
  moreover have "proper_vote ky db' = proper_vote ky db" by (rule ext) (simp add: proper_vote_def polls)
  ultimately show ?thesis using assms(2) by (simp add: signal_inv_def votes)
qed

text \<open>C12: In every state that the signaling service can reach, no address has two votes in a poll, and every vote on record is for a
  poll on record and one of its choices, was cast while the poll was open, and carries a signature of its voter that verifies for
  exactly this poll, choice and nonce.\<close>

theorem signal_votes_proper:
  assumes "signal_reachable ky rpc ev c"
  shows "signal_inv ky (fst c)"
  using assms
proof (induction rule: signal_reachable.induct)
  case (start db s)
  then show ?case by (simp add: signal_inv_def)
next
  case (step c c')
  from step.hyps(2) step.IH show ?case
    by (cases rule: signal_step.cases)
      (auto simp: finalizeEndedPolls_def intro: post_vote_inv keeps_votes_inv
        dest: keeps_votes_create keeps_votes_results keeps_votes_close_polls)
qed

subsection \<open>A closed poll\<close>

lemma resolve_powers_known:
  "js_has powers a \<Longrightarrow> js_has (fst (resolve_powers getPower votes powers s)) a"
  by (induction getPower votes powers s rule: resolve_powers.induct) (auto split: prod.splits sum.splits)

lemma resolve_powers_all:
  assumes "\<And>voter s. \<exists>weight s'. getPower voter s = (Inr weight, s')" "v \<in> set votes"
  shows "js_has (fst (resolve_powers getPower votes powers s)) (vw_voter_address v)"
  using assms(2)
proof (induction votes arbitrary: powers s)
  case (Cons vote votes)
  obtain weight s' where "getPower (vw_voter_address vote) s = (Inr weight, s')" using assms(1) by blast
  then show ?case using Cons by (auto intro: resolve_powers_known)
qed simp

lemma resolve_powers_none:
  "(\<And>voter s. \<exists>e s'. getPower voter s = (Inl e, s')) \<Longrightarrow> fst (resolve_powers getPower votes powers s) = powers"
proof (induction votes arbitrary: s)
  case (Cons vote votes)
  moreover obtain e s' where "getPower (vw_voter_address vote) s = (Inl e, s')" using Cons.prems by blast
  ultimately show ?case by simp
qed simp

lemma weigh_stored:
  assumes "\<And>v. v \<in> set votes \<Longrightarrow> vw_poll_id v = i \<and> js_has powers (vw_voter_address v)"
  shows "weigh powers votes totals =
     fold (\<lambda>v totals. add_total (vw_choice_index v) (or_else (vw_voting_power v) 0) totals) (map (store_power powers i) votes) totals"
  using assms
proof (induction votes arbitrary: totals)
  case (Cons v votes)
  from Cons.prems [of v] obtain weight where "vw_poll_id v = i" "js_get powers (vw_voter_address v) = Some weight"
    by (auto simp: js_has_iff)
  then have "weigh powers (v # votes) totals = weigh powers votes (add_total (vw_choice_index v) weight totals)"
    and "store_power powers i v = v\<lparr>vw_voting_power := Some weight\<rparr>"
    by (simp_all add: store_power_def)
  then show ?case using Cons by (simp add: or_else_def del: weigh.simps)
qed simp

lemma weigh_nobody: "weigh [] votes totals = totals"
  by (induction votes) auto

lemma votes_of_stored:
  "votes_of (db\<lparr>sg_votes := map (store_power powers i) (sg_votes db)\<rparr>) i = map (store_power powers i) (votes_of db i)"
proof -
  have "vw_poll_id (store_power powers i v) = vw_poll_id v" for v by (simp add: store_power_def split: option.split)
  then show ?thesis by (simp add: votes_of_def filter_map comp_def)
qed

lemma store_nothing: "map (store_power [] i) votes = votes"
  by (rule map_idI) (simp add: store_power_def)

text \<open>What closing leaves of the row, whether the poll is finalized or has to wait for its anchor.\<close>

lemma close_poll_row:
  assumes "find_poll db (pw_id poll) = Some poll"
    and "computeWeightedTally rpc ev (pw_id poll) (pw_snapshot_ledger poll) (pw_choices poll) db s = ((results, db1), s1)"
    and "close_poll sha256 rpc ev now poll db s = (db', s')"
  shows "sg_votes db' = sg_votes db1 \<and> (\<exists>p. find_poll db' (pw_id poll) = Some p \<and> pw_id p = pw_id poll \<and> pw_choices p = pw_choices poll \<and>
     pw_result_hash p = Some (computeResultHash sha256 (pw_id poll) results) \<and> (\<not> ev_anchor_on_chain ev \<longrightarrow> pw_finalized p))"
proof -
  have updated: "find_poll (cache_invalidate i (update_poll i f d)) i = map_option f (find_poll d i)" if "\<And>p. pw_id (f p) = pw_id p" for i f d
  proof -
    have "find (\<lambda>p. pw_id p = i) (map (\<lambda>p. if pw_id p = i then f p else p) ps) = map_option f (find (\<lambda>p. pw_id p = i) ps)" for ps
      by (induction ps) (auto simp: that)
    then show ?thesis by (simp add: find_poll_def cache_invalidate_def update_poll_def)
  qed
  have "sg_polls db1 = sg_polls db" using assms(2) by (auto simp: computeWeightedTally_def Let_def split: prod.splits)
  then have row: "find_poll db1 (pw_id poll) = Some poll" using assms(1) by (simp add: find_poll_def)
  have kept: "sg_votes (cache_invalidate i (update_poll i f d)) = sg_votes d" for i f d
    by (simp add: cache_invalidate_def update_poll_def)
  show ?thesis using assms(3)
    by (auto simp: close_poll_def assms(2) finalize_poll_def retry_poll_def kept updated row Let_def split: if_splits prod.splits sum.splits)
qed

text \<open>C18: When every voting power can be read, closing a poll stores exactly what it hashes: the hash on the row, which is also the one
  sent to the chain, is that of the results the service derives from the stored votes from then on.\<close>

theorem closed_poll_auditable:
  assumes "find_poll db (pw_id poll) = Some poll"
    and "\<And>voter s. \<exists>weight s'. getVotingPowerAtLedger rpc ev voter (pw_snapshot_ledger poll) s = (Inr weight, s')"
    and "close_poll sha256 rpc ev now poll db s = (db', s')"
  shows "\<exists>p. find_poll db' (pw_id poll) = Some p \<and>
           pw_result_hash p = Some (computeResultHash sha256 (pw_id poll) (final_results db' p))"
proof -
  let ?i = "pw_id poll"
  let ?powers = "fst (resolve_powers (\<lambda>voter. getVotingPowerAtLedger rpc ev voter (pw_snapshot_ledger poll)) (votes_of db ?i) [] s)"
  let ?votes = "map (store_power ?powers ?i) (votes_of db ?i)"
  obtain results db1 s1 where t: "computeWeightedTally rpc ev ?i (pw_snapshot_ledger poll) (pw_choices poll) db s = ((results, db1), s1)"
    by (metis prod.exhaust)
  then have results: "results = \<lparr>pq_choices = pw_choices poll, pq_totals = weigh ?powers (votes_of db ?i) (replicate (length (pw_choices poll)) 0),
      pq_totalVotes = length (votes_of db ?i), pq_totalWeight = sum_list (weigh ?powers (votes_of db ?i) (replicate (length (pw_choices poll)) 0))\<rparr>"
    and db1: "db1 = db\<lparr>sg_votes := map (store_power ?powers ?i) (sg_votes db)\<rparr>"
    by (auto simp: computeWeightedTally_def Let_def split: prod.splits)
  have "vw_poll_id v = ?i \<and> js_has ?powers (vw_voter_address v)" if "v \<in> set (votes_of db ?i)" for v
    using that resolve_powers_all [OF assms(2), of v "votes_of db ?i"] by (auto simp: votes_of_def)
  from weigh_stored [OF this] have totals: "weigh ?powers (votes_of db ?i) (replicate n 0) = stored_totals ?votes n" for n
    by (simp add: stored_totals_def)
  obtain p where p: "find_poll db' ?i = Some p" "pw_id p = ?i" "pw_choices p = pw_choices poll"
      "pw_result_hash p = Some (computeResultHash sha256 ?i results)" and votes: "sg_votes db' = sg_votes db1"
    using close_poll_row [OF assms(1) t assms(3)] by blast
  have "votes_of db' ?i = ?votes" using votes votes_of_stored [where db = db and powers = ?powers and i = ?i] by (simp add: votes_of_def db1)
  then have "final_results db' p = results" by (simp add: final_results_def p results totals Let_def)
  then show ?thesis using p by blast
qed

text \<open>When no voting power can be read, for instance because the contract of the votes is not configured, the job finalizes the poll all
  the same: the hash on the row is that of zero for every choice, while the powers stored with the votes stay as they were.\<close>

theorem outage_closes_with_zeros:
  assumes "find_poll db (pw_id poll) = Some poll" "\<not> ev_anchor_on_chain ev"
    and "\<And>voter s. \<exists>e s'. getVotingPowerAtLedger rpc ev voter (pw_snapshot_ledger poll) s = (Inl e, s')"
    and "close_poll sha256 rpc ev now poll db s = (db', s')"
  shows "sg_votes db' = sg_votes db \<and> (\<exists>p. find_poll db' (pw_id poll) = Some p \<and> pw_finalized p \<and>
     pw_result_hash p = Some (computeResultHash sha256 (pw_id poll)
       \<lparr>pq_choices = pw_choices poll, pq_totals = replicate (length (pw_choices poll)) 0,
        pq_totalVotes = length (votes_of db (pw_id poll)), pq_totalWeight = 0\<rparr>))"
proof -
  obtain results db1 s1
    where t: "computeWeightedTally rpc ev (pw_id poll) (pw_snapshot_ledger poll) (pw_choices poll) db s = ((results, db1), s1)"
    by (metis prod.exhaust)
  let ?read = "\<lambda>voter. getVotingPowerAtLedger rpc ev voter (pw_snapshot_ledger poll)"
  have "fst (resolve_powers ?read (votes_of db (pw_id poll)) [] s) = []"
    by (rule resolve_powers_none) (rule assms(3))
  then obtain s2 where "resolve_powers ?read (votes_of db (pw_id poll)) [] s = ([], s2)"
    by (cases "resolve_powers ?read (votes_of db (pw_id poll)) [] s") simp
  with t have "db1 = db \<and> results = \<lparr>pq_choices = pw_choices poll, pq_totals = replicate (length (pw_choices poll)) 0,
        pq_totalVotes = length (votes_of db (pw_id poll)), pq_totalWeight = 0\<rparr>"
    by (auto simp: computeWeightedTally_def weigh_nobody store_nothing sum_list_replicate Let_def)
  then show ?thesis using close_poll_row [OF assms(1) t assms(4)] assms(2) by auto
qed

subsection \<open>A poll on a small service\<close>

text \<open>A key that signs by leaving the digest as it is, and a poll with one vote.\<close>

definition plain_base64 :: "bytes \<Rightarrow> string" where
  "plain_base64 bs = CHR ''x'' # to_hex bs"

definition plain_keys :: keys where
  "plain_keys = \<lparr>ky_sha256 = id, ky_fromBase64 = (\<lambda>s. from_hex (tl s)), ky_verify = (\<lambda>_ digest signature. Some (signature = digest))\<rparr>"

definition lone_voter :: string where
  "lone_voter = CHR ''G'' # replicate 55 (CHR ''A'')"

definition open_poll :: signal_poll where
  "open_poll =
     \<lparr>pw_id = 1, pw_creator_address = lone_voter, pw_title = ''t'', pw_description = ''d'', pw_choices = [''yes'', ''no''],
      pw_snapshot_ledger = 10, pw_start_time = 0, pw_end_time = 100, pw_finalized = False, pw_result_hash = None,
      pw_anchored_tx_hash = None, pw_created_at = 0, pw_anchor_attempts = 0, pw_next_anchor_at = None\<rparr>"

definition one_poll :: signal_db where
  "one_poll = \<lparr>sg_polls = [open_poll], sg_votes = [], sg_next_poll = 2, sg_next_vote = 1, sg_cache = []\<rparr>"

definition lone_ballot :: cast_vote_body where
  "lone_ballot = \<lparr>vb_choiceIndex = 1, vb_nonce = generateNonce (replicate 16 7),
     vb_signature = cast_signature id plain_base64 id 1 1 lone_voter (replicate 16 7)\<rparr>"

definition plain_env :: "string option \<Rightarrow> signal_env" where
  "plain_env votes =
     \<lparr>ev_votes_contract = votes, ev_governor_contract = None, ev_anchor_contract = None, ev_relayer = Inr ''GR'',
      ev_anchor_on_chain = False, ev_results_ttl = 30000\<rparr>"

definition one_vote :: signal_db where
  "one_vote = cache_invalidate 1 (insert_vote 50 1 lone_voter lone_ballot one_poll)"

lemma to_hex_clean: "list_all (\<lambda>c. \<not> is_space c) (to_hex bs)"
proof (induction bs)
  case (Cons b bs)
  have "n < 16 \<Longrightarrow> \<not> is_space (hex_digit n)" for n
    by (simp add: hex_digit_def is_space_def)
  moreover have "unat b div 16 < 16" "unat b mod 16 < 16" by (simp_all add: unat_byte_div)
  ultimately show ?case using Cons by simp
qed simp

lemma plain_keys_sign: "signs_for plain_keys plain_base64 id voter"
  by (simp add: signs_for_def plain_keys_def plain_base64_def from_to_hex to_hex_clean) (simp add: is_space_def)

lemma lone_voter_account: "stellar_account lone_voter"
  by (simp add: stellar_account_def lone_voter_def base32_char_def Let_def list_all_iff)

lemma one_poll_found: "find_poll one_poll 1 = Some open_poll"
  by (simp add: find_poll_def one_poll_def open_poll_def)

lemma lone_ballot_taken: "post_vote plain_keys 50 1 (Some lone_voter) lone_ballot one_poll = (Reply 201 (), one_vote)"
  unfolding one_vote_def
  by (rule signed_vote_taken [OF plain_keys_sign _ lone_voter_account _ one_poll_found])
    (simp_all add: open_poll_def one_poll_def votes_of_def lone_ballot_def plain_keys_def)

theorem castVote_is_accepted_witness:
  "castVote (Some id) plain_base64 (steady_node ''h'' (returns None) (TxDone None)) plain_client (replicate 16 7) lone_voter id 1 1 =
     and_then (signaling_request (steady_node ''h'' (returns None) (TxDone None)) plain_client
       (vote_request 1 1 lone_voter (vb_nonce lone_ballot) (vb_signature lone_ballot))) (\<lambda>_. returning ()) \<and>
   post_vote plain_keys 50 1 (Some lone_voter) lone_ballot one_poll = (Reply 201 (), one_vote)"
  unfolding one_vote_def
  by (rule castVote_is_accepted [where ky = plain_keys and poll = open_poll, simplified plain_keys_def keys.simps, folded plain_keys_def])
    (simp_all add: plain_keys_sign lone_voter_account one_poll_found, simp_all add: open_poll_def one_poll_def votes_of_def lone_ballot_def plain_keys_def)

theorem signal_votes_proper_witness: "signal_inv plain_keys one_vote \<and> length (sg_votes one_vote) = 1"
proof -
  from lone_ballot_taken have "signal_step plain_keys (steady_node ''h'' (returns None) (TxDone None)) (plain_env None) (one_poll, fresh_session) (one_vote, fresh_session)"
    by (rule signal_step.vote)
  moreover have "signal_reachable plain_keys (steady_node ''h'' (returns None) (TxDone None)) (plain_env None) (one_poll, fresh_session)"
    by (rule signal_reachable.start) (simp add: one_poll_def)
  ultimately have "signal_reachable plain_keys (steady_node ''h'' (returns None) (TxDone None)) (plain_env None) (one_vote, fresh_session)"
    by (rule signal_reachable.step [rotated])
  from signal_votes_proper [OF this] show ?thesis by (simp add: one_vote_def cache_invalidate_def insert_vote_def one_poll_def)
qed

lemma one_vote_found: "find_poll one_vote (pw_id open_poll) = Some open_poll"
  by (simp add: find_poll_def one_vote_def cache_invalidate_def insert_vote_def one_poll_def)

lemma powers_read:
  "\<exists>s'. getVotingPowerAtLedger (steady_node ''h'' (returns (Some (JNumber 5))) (TxDone None)) (plain_env (Some ''CV'')) voter ledger s = (Inr 5, s')"
  by (simp add: getVotingPowerAtLedger_def tally_simulateRead_def plain_env_def configured_def contract_client_def or_else_def settle_def
    and_then_def steady_node_def returns_def read_call_def simulate_call_def build_transaction_def asking_def returning_def encode_args_def bigint_or_zero_def with_BigInt_def js_Boolean_def js_BigInt_def)

lemma powers_unread: "getVotingPowerAtLedger rpc (plain_env None) voter ledger s = (Inl (js_error_of ''Error'' ''TOKEN_VOTES_CONTRACT_ID is not configured''), s)"
  by (simp add: getVotingPowerAtLedger_def tally_simulateRead_def plain_env_def configured_def or_else_def settle_def and_then_def)

theorem closed_poll_auditable_witness:
  "\<exists>db' s' p. close_poll id (steady_node ''h'' (returns (Some (JNumber 5))) (TxDone None)) (plain_env (Some ''CV'')) 200 open_poll one_vote fresh_session = (db', s') \<and>
     find_poll db' 1 = Some p \<and> pw_result_hash p = Some (computeResultHash id 1 (final_results db' p))"
proof -
  let ?rpc = "steady_node ''h'' (returns (Some (JNumber 5))) (TxDone None)"
  obtain db' s' where c: "close_poll id ?rpc (plain_env (Some ''CV'')) 200 open_poll one_vote fresh_session = (db', s')"
    by (metis prod.exhaust)
  have "\<exists>weight s'. getVotingPowerAtLedger ?rpc (plain_env (Some ''CV'')) voter (pw_snapshot_ledger open_poll) s = (Inr weight, s')" for voter s
    using powers_read by blast
  from closed_poll_auditable [OF one_vote_found this c] c show ?thesis by (auto simp: open_poll_def)
qed

theorem outage_closes_with_zeros_witness:
  "\<exists>db' s' p. close_poll id (steady_node ''h'' (returns None) (TxDone None)) (plain_env None) 200 open_poll one_vote fresh_session = (db', s') \<and>
     sg_votes db' = sg_votes one_vote \<and> find_poll db' 1 = Some p \<and> pw_finalized p \<and>
     pw_result_hash p = Some (computeResultHash id 1 \<lparr>pq_choices = [''yes'', ''no''], pq_totals = [0, 0], pq_totalVotes = 1, pq_totalWeight = 0\<rparr>)"
proof -
  let ?rpc = "steady_node ''h'' (returns None) (TxDone None)"
  obtain db' s' where c: "close_poll id ?rpc (plain_env None) 200 open_poll one_vote fresh_session = (db', s')"
    by (metis prod.exhaust)
  have "\<exists>e s'. getVotingPowerAtLedger ?rpc (plain_env None) voter (pw_snapshot_ledger open_poll) s = (Inl e, s')" for voter s
    using powers_unread by blast
  moreover have "\<not> ev_anchor_on_chain (plain_env None)" by (simp add: plain_env_def)
  moreover have "length (votes_of one_vote 1) = 1"
    by (simp add: votes_of_def one_vote_def cache_invalidate_def insert_vote_def one_poll_def)
  ultimately show ?thesis using outage_closes_with_zeros [OF one_vote_found _ _ c] c
    by (auto simp: open_poll_def)
qed

end
