(* ===== verification/GovernanceTuning.thy ===== *)
theory GovernanceTuning
  imports SignalPolls SdkGovernorReads
begin

section \<open>Governance tuning of the backend\<close>

text \<open>
  The recommender for the quorum and the proposal threshold: \<^verbatim>\<open>backend/src/governance-tuning\<close> with the formula (\<^verbatim>\<open>analyzer.ts\<close>), the
  configuration (\<^verbatim>\<open>config-store.ts\<close>), the recommendations on record (\<^verbatim>\<open>recommendation-store.ts\<close>) and the automatic proposals
  (\<^verbatim>\<open>auto-propose.ts\<close>), the route that changes the configuration (\<^verbatim>\<open>routes/governance-tuning.ts\<close>), and the cycle
  (\<^verbatim>\<open>jobs/governance-tuning-analyzer.ts\<close>).
  \<^item> Averages, relative changes and rates are exact rationals where the code has doubles; \<^verbatim>\<open>Math.round\<close> and \<^verbatim>\<open>toFixed(1)\<close> round
    them as the language does. Quorum numerators are whole numbers.
  \<^item> The two tables are the row of the configuration and the list of recommendations in the order of insertion. Queries do not
    fail. Times are milliseconds.
  \<^item> The proposals go through the governor client of the SDK, to the node; the indexer answers over \<^verbatim>\<open>fetch\<close>.
\<close>

subsection \<open>The formula\<close>

record GovernanceTuningConfig =
  gt_minQuorumNumerator :: int
  gt_maxQuorumNumerator :: int
  gt_maxQuorumDeltaBps :: int
  gt_minProposalThreshold :: int
  gt_maxProposalThreshold :: "int option"
  gt_maxThresholdDeltaBps :: int
  gt_trailingWindow :: int
  gt_intervalMs :: int
  gt_autoPropose :: bool
  gt_updatedAt :: int

record AnalyzerInputs =
  ai_currentQuorumNumerator :: int
  ai_currentProposalThreshold :: int
  ai_quorumHitCount :: int
  ai_quorumMissCount :: int
  ai_snapshotVotesCast :: "int list"

datatype direction = Up | Down | Unchanged

record TuningRationale =
  ra_quorumNumerator :: "direction \<times> string"
  ra_proposalThreshold :: "direction \<times> string"
  ra_votingPeriod :: "direction \<times> string"
  ra_inputs :: AnalyzerInputs

record RecommendationResult =
  re_recommendedQuorumNumerator :: int
  re_recommendedProposalThreshold :: int
  re_rationale :: TuningRationale

definition js_round :: "rat \<Rightarrow> int" where
  "js_round x = \<lfloor>x + 1 / 2\<rfloor>"

text \<open>\<^verbatim>\<open>x.toFixed(1)\<close> for numbers below \<open>10\<^sup>2\<^sup>1\<close>\<close>

definition toFixed1 :: "rat \<Rightarrow> string" where
  "toFixed1 x =
     (let n = js_round (\<bar>x\<bar> * 10) in
      (if x < 0 then ''-'' else '''') @ dec_int (n div 10) @ ''.'' @ dec_int (n mod 10))"

definition clamp :: "int \<Rightarrow> int \<Rightarrow> int \<Rightarrow> int" where
  "clamp value lo hi = min (max value lo) hi"

definition clampBigint :: "int \<Rightarrow> int \<Rightarrow> int option \<Rightarrow> int" where
  "clampBigint value lo hi =
     (if value < lo then lo else case hi of None \<Rightarrow> value | Some m \<Rightarrow> if m < value then m else value)"

definition TREND_EPSILON :: rat where
  "TREND_EPSILON = 5 / 100"

definition deltas_of :: "int list \<Rightarrow> int list" where
  "deltas_of votes = map2 (\<lambda>a b. b - a) votes (tl votes)"

definition average :: "int list \<Rightarrow> rat" where
  "average xs = of_int (sum_list xs) / of_nat (length xs)"

text \<open>The relative change of the later half of the differences; \<^verbatim>\<open>Math.ceil(n / 2)\<close> of them.\<close>

definition relative_change :: "int list \<Rightarrow> rat" where
  "relative_change deltas =
     (let recentCount = (length deltas + 1) div 2;
          recentAvg = average (drop (length deltas - recentCount) deltas);
          baselineAvg = average (take (length deltas - recentCount) deltas)
      in if baselineAvg = 0 then (if 0 < recentAvg then 1 else 0) else (recentAvg - baselineAvg) / baselineAvg)"

definition direction_name :: "direction \<Rightarrow> string" where
  "direction_name d = (case d of Up \<Rightarrow> ''up'' | Down \<Rightarrow> ''down'' | Unchanged \<Rightarrow> ''unchanged'')"

definition recommendQuorumNumerator :: "AnalyzerInputs \<Rightarrow> GovernanceTuningConfig \<Rightarrow> int \<times> direction \<times> string" where
  "recommendQuorumNumerator inputs config =
     (let deltas = deltas_of (ai_snapshotVotesCast inputs); current = ai_currentQuorumNumerator inputs in
      if length deltas < 2
      then (current, Unchanged, ''insufficient snapshot history for a trend comparison (need at least 3 snapshots)'')
      else let relativeChange = relative_change deltas in
        if \<bar>relativeChange\<bar> < TREND_EPSILON
        then (current, Unchanged, ''trailing participation trend ('' @ toFixed1 (relativeChange * 100) @ ''%) is within the 5% no-op band'')
        else let direction = (if 0 < relativeChange then Up else Down);
                 deltaBps = min (js_round (\<bar>relativeChange\<bar> * 10000)) (gt_maxQuorumDeltaBps config);
                 unclamped = current + (if direction = Up then deltaBps else - deltaBps);
                 value = clamp unclamped (gt_minQuorumNumerator config) (gt_maxQuorumNumerator config)
             in (value, direction,
                 ''trailing participation is '' @ direction_name direction @ '' '' @ toFixed1 (\<bar>relativeChange\<bar> * 100) @
                 ''% vs. the prior baseline window, nudging quorum '' @ direction_name direction @ '' by '' @ dec_int \<bar>value - current\<bar> @
                 '' bps (capped at '' @ dec_int (gt_maxQuorumDeltaBps config) @ '' bps/cycle)''))"

definition LOW_HIT_RATE_BPS :: int where
  "LOW_HIT_RATE_BPS = 3000"

definition HIGH_HIT_RATE_BPS :: int where
  "HIGH_HIT_RATE_BPS = 8000"

text \<open>The rate in basis points, and how far the threshold moves.\<close>

definition hit_rate :: "AnalyzerInputs \<Rightarrow> int" where
  "hit_rate inputs = bdiv (ai_quorumHitCount inputs * 10000) (ai_quorumHitCount inputs + ai_quorumMissCount inputs)"

definition threshold_delta :: "int \<Rightarrow> int \<Rightarrow> direction \<times> int" where
  "threshold_delta hitRateBps cap =
     (if HIGH_HIT_RATE_BPS \<le> hitRateBps
      then (Down, min cap (js_round (of_int ((hitRateBps - HIGH_HIT_RATE_BPS) * cap) / of_int (10000 - HIGH_HIT_RATE_BPS))))
      else if hitRateBps \<le> LOW_HIT_RATE_BPS
      then (Up, min cap (js_round (of_int ((LOW_HIT_RATE_BPS - hitRateBps) * cap) / of_int LOW_HIT_RATE_BPS)))
      else (Unchanged, 0))"

definition recommendProposalThreshold :: "AnalyzerInputs \<Rightarrow> GovernanceTuningConfig \<Rightarrow> int \<times> direction \<times> string" where
  "recommendProposalThreshold inputs config =
     (let current = ai_currentProposalThreshold inputs in
      if ai_quorumHitCount inputs + ai_quorumMissCount inputs = 0
      then (current, Unchanged,
        ''insufficient data: indexer'' @ [CHR 39] @ ''s quorum_hit_count/quorum_miss_count are not yet populated (documented scope boundary on /analytics/all-time-stats)'')
      else case threshold_delta (hit_rate inputs) (gt_maxThresholdDeltaBps config) of (direction, deltaBps) \<Rightarrow>
        if direction = Unchanged \<or> deltaBps = 0
        then (current, Unchanged,
          ''trailing quorum-hit rate ('' @ toFixed1 (of_int (hit_rate inputs) / 100) @ ''%) is within the healthy 30%'' @
          bytes_str [226, 128, 147] @ ''80% band'')
        else let unclamped = current + bdiv (current * (if direction = Up then deltaBps else - deltaBps)) 10000 in
          (clampBigint unclamped (gt_minProposalThreshold config) (gt_maxProposalThreshold config), direction,
           ''trailing quorum-hit rate is '' @ toFixed1 (of_int (hit_rate inputs) / 100) @ ''%, nudging proposal_threshold '' @
           direction_name direction @ '' by '' @ dec_int deltaBps @ '' bps (capped at '' @ dec_int (gt_maxThresholdDeltaBps config) @ '' bps/cycle)''))"

definition computeRecommendation :: "AnalyzerInputs \<Rightarrow> GovernanceTuningConfig \<Rightarrow> RecommendationResult" where
  "computeRecommendation inputs config =
     (case (recommendQuorumNumerator inputs config, recommendProposalThreshold inputs config) of
        ((quorum, quorumRationale), (threshold, thresholdRationale)) \<Rightarrow>
          \<lparr>re_recommendedQuorumNumerator = quorum, re_recommendedProposalThreshold = threshold,
           re_rationale = \<lparr>ra_quorumNumerator = quorumRationale, ra_proposalThreshold = thresholdRationale,
             ra_votingPeriod = (Unchanged, ''voting_period auto-tuning is out of scope by default (timing changes interact with active proposals) '' @
               bytes_str [226, 128, 148] @ '' hook reserved for a future opt-in config flag''),
             ra_inputs = inputs\<rparr>\<rparr>)"

subsection \<open>Inputs from the indexer\<close>

definition fetchJson :: "'w rpc \<Rightarrow> string \<Rightarrow> string \<Rightarrow> ('w, js_value) io" where
  "fetchJson rpc INDEXER_URL path =
     fetch_json rpc (\<lambda>resp. js_error_of ''Error'' (''Indexer request to '' @ path @ '' failed: '' @ dec_int (hr_status resp)))
       (INDEXER_URL @ path)"

text \<open>A quorum numerator that is not a whole number is not followed further: it ends the cycle here.\<close>

definition with_whole :: "js_value \<Rightarrow> (int \<Rightarrow> client_error + 'a) \<Rightarrow> client_error + 'a" where
  "with_whole v k =
     (case js_Number v of Finite q \<Rightarrow> if is_integer q then k \<lfloor>q\<rfloor> else Inl (js_error_of ''RangeError'' ''not a whole number'')
      | _ \<Rightarrow> Inl (js_error_of ''RangeError'' ''not a whole number''))"

definition analyzer_inputs :: "js_value \<Rightarrow> js_value \<Rightarrow> js_value \<Rightarrow> client_error + AnalyzerInputs option" where
  "analyzer_inputs allTimeStats snapshots latestConfig =
     with_member (field latestConfig ''new_settings'') ''quorum_numerator'' (\<lambda>quorum.
     with_whole quorum (\<lambda>quorum.
     with_BigInt (field (field latestConfig ''new_settings'') ''proposal_threshold'') (\<lambda>threshold.
     with_member allTimeStats ''quorum_hit_count'' (\<lambda>hit.
     with_BigInt hit (\<lambda>hit.
     with_BigInt (field allTimeStats ''quorum_miss_count'') (\<lambda>miss.
     with_member snapshots ''data'' (\<lambda>rows.
     with_array rows ''slice'' (\<lambda>rows.
     bind_sum (map_throwing (\<lambda>s. with_member s ''total_votes_cast'' (\<lambda>v. with_BigInt v Inr)) (rev rows)) (\<lambda>votes.
       Inr (Some \<lparr>ai_currentQuorumNumerator = quorum, ai_currentProposalThreshold = threshold, ai_quorumHitCount = hit,
                  ai_quorumMissCount = miss, ai_snapshotVotesCast = votes\<rparr>))))))))))"

definition gatherAnalyzerInputs :: "'w rpc \<Rightarrow> string \<Rightarrow> int \<Rightarrow> ('w, AnalyzerInputs option) io" where
  "gatherAnalyzerInputs rpc INDEXER_URL trailingWindow =
     and_then (fetchJson rpc INDEXER_URL ''/analytics/all-time-stats'') (\<lambda>allTimeStats.
     and_then (fetchJson rpc INDEXER_URL (''/analytics/snapshots?limit='' @ dec_int (trailingWindow * 2))) (\<lambda>snapshots.
     and_then (fetchJson rpc INDEXER_URL ''/config-history?limit=1'') (\<lambda>configHistory.
       settle (with_member configHistory ''data'' (\<lambda>rows.
         with_member rows ''0'' (\<lambda>_.
           if js_Boolean (elem rows 0) then analyzer_inputs allTimeStats snapshots (elem rows 0) else Inr None))))))"

subsection \<open>Tables\<close>

record tuning_row =
  tr_id :: int
  tr_computedAt :: int
  tr_currentQuorumNumerator :: int
  tr_recommendedQuorumNumerator :: int
  tr_currentProposalThreshold :: int
  tr_recommendedProposalThreshold :: int
  tr_rationale :: TuningRationale
  tr_autoProposed :: bool
  tr_proposalId :: "int option"

record tuning_db =
  td_config :: GovernanceTuningConfig
  td_recommendations :: "tuning_row list"
  td_next_id :: int

definition insertRecommendation :: "int \<Rightarrow> AnalyzerInputs \<Rightarrow> RecommendationResult \<Rightarrow> int option \<Rightarrow> tuning_db \<Rightarrow> tuning_db" where
  "insertRecommendation now inputs result proposalId db =
     db\<lparr>td_recommendations := td_recommendations db @
          [\<lparr>tr_id = td_next_id db, tr_computedAt = now, tr_currentQuorumNumerator = ai_currentQuorumNumerator inputs,
            tr_recommendedQuorumNumerator = re_recommendedQuorumNumerator result,
            tr_currentProposalThreshold = ai_currentProposalThreshold inputs,
            tr_recommendedProposalThreshold = re_recommendedProposalThreshold result, tr_rationale = re_rationale result,
            tr_autoProposed = (proposalId \<noteq> None), tr_proposalId = proposalId\<rparr>],
        td_next_id := td_next_id db + 1\<rparr>"

text \<open>\<^verbatim>\<open>ORDER BY computed_at DESC, id DESC\<close>\<close>

definition newest_recommendations :: "tuning_row list \<Rightarrow> tuning_row list" where
  "newest_recommendations rows = rev (sort_key tr_computedAt (sort_key tr_id rows))"

definition getLatestRecommendation :: "tuning_db \<Rightarrow> tuning_row option" where
  "getLatestRecommendation db = (case newest_recommendations (td_recommendations db) of [] \<Rightarrow> None | r # _ \<Rightarrow> Some r)"

definition touchLatestRecommendation :: "int \<Rightarrow> int \<Rightarrow> tuning_db \<Rightarrow> tuning_db" where
  "touchLatestRecommendation now i db =
     db\<lparr>td_recommendations := map (\<lambda>r. if tr_id r = i then r\<lparr>tr_computedAt := now\<rparr> else r) (td_recommendations db)\<rparr>"

definition stale_unchanged :: "int \<Rightarrow> int \<Rightarrow> tuning_row \<Rightarrow> bool" where
  "stale_unchanged now retentionDays r =
     (\<not> tr_autoProposed r \<and> tr_proposalId r = None \<and> tr_currentQuorumNumerator r = tr_recommendedQuorumNumerator r \<and>
      tr_currentProposalThreshold r = tr_recommendedProposalThreshold r \<and> tr_computedAt r < now - retentionDays * 86400000)"

definition pruneUnchangedRecommendations :: "int \<Rightarrow> int \<Rightarrow> tuning_db \<Rightarrow> tuning_db" where
  "pruneUnchangedRecommendations now retentionDays db =
     db\<lparr>td_recommendations := filter (\<lambda>r. \<not> stale_unchanged now retentionDays r) (td_recommendations db)\<rparr>"

definition listRecommendations :: "int \<Rightarrow> int \<Rightarrow> tuning_db \<Rightarrow> tuning_row list \<times> bool" where
  "listRecommendations limit offset db =
     (let page = take (nat limit) (drop (nat offset) (newest_recommendations (td_recommendations db))) in (page, int (length page) = limit))"

subsection \<open>The configuration\<close>

text \<open>Migration 009.\<close>

definition default_config :: GovernanceTuningConfig where
  "default_config =
     \<lparr>gt_minQuorumNumerator = 100, gt_maxQuorumNumerator = 5000, gt_maxQuorumDeltaBps = 200, gt_minProposalThreshold = 0,
      gt_maxProposalThreshold = None, gt_maxThresholdDeltaBps = 1000, gt_trailingWindow = 10, gt_intervalMs = 3600000,
      gt_autoPropose = False, gt_updatedAt = 0\<rparr>"

definition empty_patch :: "TuningPatch \<Rightarrow> bool" where
  "empty_patch patch \<longleftrightarrow>
     tp_minQuorumNumerator patch = None \<and> tp_maxQuorumNumerator patch = None \<and> tp_maxQuorumDeltaBps patch = None \<and>
     tp_minProposalThreshold patch = None \<and> tp_maxProposalThreshold patch = None \<and> tp_maxThresholdDeltaBps patch = None \<and>
     tp_trailingWindow patch = None \<and> tp_intervalMs patch = None \<and> tp_autoPropose patch = None"

definition patched :: "int \<Rightarrow> TuningPatch \<Rightarrow> GovernanceTuningConfig \<Rightarrow> GovernanceTuningConfig" where
  "patched now patch c =
     \<lparr>gt_minQuorumNumerator = or_else (tp_minQuorumNumerator patch) (gt_minQuorumNumerator c),
      gt_maxQuorumNumerator = or_else (tp_maxQuorumNumerator patch) (gt_maxQuorumNumerator c),
      gt_maxQuorumDeltaBps = or_else (tp_maxQuorumDeltaBps patch) (gt_maxQuorumDeltaBps c),
      gt_minProposalThreshold = or_else (tp_minProposalThreshold patch) (gt_minProposalThreshold c),
      gt_maxProposalThreshold = or_else (tp_maxProposalThreshold patch) (gt_maxProposalThreshold c),
      gt_maxThresholdDeltaBps = or_else (tp_maxThresholdDeltaBps patch) (gt_maxThresholdDeltaBps c),
      gt_trailingWindow = or_else (tp_trailingWindow patch) (gt_trailingWindow c),
      gt_intervalMs = or_else (tp_intervalMs patch) (gt_intervalMs c),
      gt_autoPropose = or_else (tp_autoPropose patch) (gt_autoPropose c), gt_updatedAt = now\<rparr>"

text \<open>The checks of \<^verbatim>\<open>updateGovernanceTuningConfig\<close> on the values after the patch: the message of the error, if any.\<close>

definition config_error :: "GovernanceTuningConfig \<Rightarrow> string option" where
  "config_error c =
     (if gt_maxQuorumNumerator c < gt_minQuorumNumerator c
      then Some (''min_quorum_numerator ('' @ dec_int (gt_minQuorumNumerator c) @ '') must be <= max_quorum_numerator ('' @
        dec_int (gt_maxQuorumNumerator c) @ '')'')
      else if (case gt_maxProposalThreshold c of None \<Rightarrow> False | Some m \<Rightarrow> m < gt_minProposalThreshold c)
      then Some (''min_proposal_threshold ('' @ dec_int (gt_minProposalThreshold c) @ '') must be <= max_proposal_threshold ('' @
        dec_int (or_else (gt_maxProposalThreshold c) 0) @ '')'')
      else map_option (\<lambda>(value, name). name @ '' ('' @ dec_int value @ '') must be a positive number'')
        (find (\<lambda>(value, name). value \<le> 0)
          [(gt_maxQuorumDeltaBps c, ''max_quorum_delta_bps''), (gt_maxThresholdDeltaBps c, ''max_threshold_delta_bps''),
           (gt_intervalMs c, ''interval_ms''), (gt_trailingWindow c, ''trailing_window'')]))"

definition updateGovernanceTuningConfig :: "int \<Rightarrow> TuningPatch \<Rightarrow> tuning_db \<Rightarrow> (string + GovernanceTuningConfig) \<times> tuning_db" where
  "updateGovernanceTuningConfig now patch db =
     (if empty_patch patch then (Inr (td_config db), db)
      else case config_error (patched now patch (td_config db)) of
        Some e \<Rightarrow> (Inl e, db)
      | None \<Rightarrow> (Inr (patched now patch (td_config db)), db\<lparr>td_config := patched now patch (td_config db)\<rparr>))"

text \<open>\<^verbatim>\<open>updateConfigSchema\<close>\<close>

definition value_between :: "int \<Rightarrow> int \<Rightarrow> int option \<Rightarrow> bool" where
  "value_between lo hi v = (case v of None \<Rightarrow> True | Some n \<Rightarrow> lo \<le> n \<and> n \<le> hi)"

definition at_least :: "int \<Rightarrow> int option \<Rightarrow> bool" where
  "at_least lo v = (case v of None \<Rightarrow> True | Some n \<Rightarrow> lo \<le> n)"

definition updateConfigSchema :: "TuningPatch \<Rightarrow> bool" where
  "updateConfigSchema body \<longleftrightarrow>
     value_between 0 10000 (tp_minQuorumNumerator body) \<and> value_between 0 10000 (tp_maxQuorumNumerator body) \<and>
     value_between 0 10000 (tp_maxQuorumDeltaBps body) \<and> at_least 0 (tp_minProposalThreshold body) \<and>
     at_least 0 (or_else (tp_maxProposalThreshold body) None) \<and> value_between 0 10000 (tp_maxThresholdDeltaBps body) \<and>
     value_between 2 1000 (tp_trailingWindow body) \<and> at_least 60000 (tp_intervalMs body) \<and> \<not> empty_patch body"

text \<open>\<^verbatim>\<open>a ?? b ?? c\<close>\<close>

fun first_given :: "'a option list \<Rightarrow> 'a option" where
  "first_given [] = None"
| "first_given (Some x # xs) = Some x"
| "first_given (None # xs) = first_given xs"

text \<open>The middleware \<^verbatim>\<open>isAdmin\<close>: the reply that refuses the request, if any; \<open>header\<close> reads a header of the request.\<close>

definition isAdmin :: "string option \<Rightarrow> (string \<Rightarrow> string option) \<Rightarrow> (int \<times> string) option" where
  "isAdmin ADMIN_SECRET header =
     (if or_else ADMIN_SECRET '''' = '''' then Some (503, ''ADMIN_SECRET is not configured'')
      else let provided = first_given [header ''ADMIN_SECRET'', header ''X-ADMIN-SECRET'', header ''admin_secret''] in
        if or_else provided '''' = '''' \<or> provided \<noteq> ADMIN_SECRET then Some (403, ''Admin authorization required'') else None)"

definition put_config ::
  "string option \<Rightarrow> (string \<Rightarrow> string option) \<Rightarrow> int \<Rightarrow> TuningPatch \<Rightarrow> tuning_db \<Rightarrow> GovernanceTuningConfig http_reply \<times> tuning_db" where
  "put_config ADMIN_SECRET header now body db =
     (case isAdmin ADMIN_SECRET header of
        Some (code, message) \<Rightarrow> (Failure code message, db)
      | None \<Rightarrow>
          if \<not> updateConfigSchema body then (Failure 400 ''validation'', db)
          else case updateGovernanceTuningConfig now body db of
            (Inl message, db') \<Rightarrow> (Failure 400 message, db')
          | (Inr config, db') \<Rightarrow> (Reply 200 config, db'))"

subsection \<open>Automatic proposals\<close>

record tuning_env =
  te_secret :: "string option"
  te_governor :: "string option"
  te_votes :: "string option"
  te_timelock :: "string option"
  te_network :: "string option"
  te_rpcUrl :: "string option"
  te_indexerUrl :: "string option"
  te_stellar :: stellar
  te_fromSecret :: "string \<Rightarrow> client_error + string"
  te_sha256 :: "bytes \<Rightarrow> bytes"
  te_xdr :: "sc_arg \<Rightarrow> bytes"

definition TERMINAL_PROPOSAL_STATES :: "ProposalStateName list" where
  "TERMINAL_PROPOSAL_STATES = [Executed, Defeated, Cancelled, Expired]"

definition buildGovernorClient :: "tuning_env \<Rightarrow> client_error + client option" where
  "buildGovernorClient ev =
     (if or_else (te_governor ev) '''' = '''' \<or> or_else (te_votes ev) '''' = '''' \<or> or_else (te_timelock ev) '''' = '''' then Inr None
      else bind_sum (GovernorClient (te_stellar ev)
          \<lparr>cf_network = or_else (te_network ev) ''testnet'',
           cf_rpcUrl = Some (or_else (te_rpcUrl ev) ''https://soroban-testnet.stellar.org''), cf_simulationAccount = None,
           cf_indexerUrl = Some (or_else (te_indexerUrl ev) ''http://localhost:3002''), cf_backendUrl = None,
           cf_retry = \<lparr>cc_retry = None, cc_maxAttempts = None, cc_baseDelayMs = None\<rparr>\<rparr> (or_else (te_governor ev) ''''))
        (\<lambda>cl. Inr (Some cl)))"

definition findUnresolvedAutoProposal :: "'w rpc \<Rightarrow> tuning_env \<Rightarrow> tuning_db \<Rightarrow> ('w, int option) io" where
  "findUnresolvedAutoProposal rpc ev db =
     (case getLatestRecommendation db of
        None \<Rightarrow> returning None
      | Some latest \<Rightarrow>
          (case tr_proposalId latest of
             None \<Rightarrow> returning None
           | Some proposalId \<Rightarrow>
               if \<not> tr_autoProposed latest then returning None
               else and_then (settle (buildGovernorClient ev)) (\<lambda>governor.
                 case governor of
                   None \<Rightarrow> returning (Some proposalId)
                 | Some governor \<Rightarrow>
                     catching
                       (and_then (client_getProposalState rpc governor proposalId) (\<lambda>st.
                          returning (if st \<in> set TERMINAL_PROPOSAL_STATES then None else Some proposalId)))
                       (\<lambda>_. returning (Some proposalId)))))"

definition auto_description :: "AnalyzerInputs \<Rightarrow> RecommendationResult \<Rightarrow> string" where
  "auto_description inputs result =
     join [CHR 10]
       [''Governance tuning recommendation (automated)'', '''',
        ''quorum_numerator: '' @ dec_int (ai_currentQuorumNumerator inputs) @ '' -> '' @ dec_int (re_recommendedQuorumNumerator result),
        ''proposal_threshold: '' @ dec_int (ai_currentProposalThreshold inputs) @ '' -> '' @ dec_int (re_recommendedProposalThreshold result),
        '''', snd (ra_quorumNumerator (re_rationale result)), snd (ra_proposalThreshold (re_rationale result))]"

definition maybeAutoPropose :: "'w rpc \<Rightarrow> tuning_env \<Rightarrow> AnalyzerInputs \<Rightarrow> RecommendationResult \<Rightarrow> ('w, int option) io" where
  "maybeAutoPropose rpc ev inputs result =
     and_then (settle (buildGovernorClient ev)) (\<lambda>governor.
       case governor of
         None \<Rightarrow> returning None
       | Some governor \<Rightarrow>
           if or_else (te_secret ev) '''' = '''' then returning None
           else
             and_then (getSettings rpc governor (Some (or_else (te_governor ev) ''''))) (\<lambda>currentSettings.
               let newSettings = currentSettings\<lparr>
                     settings_quorumNumerator := Finite (of_int (re_recommendedQuorumNumerator result)),
                     settings_proposalThreshold := re_recommendedProposalThreshold result\<rparr>;
                   description = auto_description inputs result
               in
             and_then (settle (buildUpdateConfigProposal governor newSettings \<lparr>lim_maxVotingDelay = None, lim_minVotingPeriod = None\<rparr>))
               (\<lambda>(target, fnName, calldata).
             and_then (settle (hashDescription (Some (te_sha256 ev)) None description)) (\<lambda>descriptionHash.
             and_then (settle (te_fromSecret ev (or_else (te_secret ev) ''''))) (\<lambda>signer.
             and_then (client_propose rpc governor signer description
                 (CurrentCall descriptionHash '''' [target] (Some [fnName]) (Some [te_xdr ev calldata]))) (\<lambda>proposalId.
               returning (Some proposalId)))))))"

subsection \<open>The cycle\<close>

definition unchanged_result :: "AnalyzerInputs \<Rightarrow> RecommendationResult \<Rightarrow> bool" where
  "unchanged_result inputs result \<longleftrightarrow>
     re_recommendedQuorumNumerator result = ai_currentQuorumNumerator inputs \<and>
     re_recommendedProposalThreshold result = ai_currentProposalThreshold inputs"

text \<open>The identifier of the new proposal, if one was made; \<^verbatim>\<open>.catch(... => null)\<close> covers the proposal, not the guard.\<close>

definition propose_if_due :: "'w rpc \<Rightarrow> tuning_env \<Rightarrow> tuning_db \<Rightarrow> AnalyzerInputs \<Rightarrow> RecommendationResult \<Rightarrow> ('w, int option) io" where
  "propose_if_due rpc ev db inputs result =
     (if unchanged_result inputs result \<or> \<not> gt_autoPropose (td_config db) then returning None
      else and_then (findUnresolvedAutoProposal rpc ev db) (\<lambda>pending.
        case pending of
          Some _ \<Rightarrow> returning None
        | None \<Rightarrow> catching (maybeAutoPropose rpc ev inputs result) (\<lambda>_. returning None)))"

definition consecutive_unchanged :: "tuning_db \<Rightarrow> AnalyzerInputs \<Rightarrow> RecommendationResult \<Rightarrow> tuning_row option" where
  "consecutive_unchanged db inputs result =
     (case getLatestRecommendation db of
        None \<Rightarrow> None
      | Some latest \<Rightarrow>
          if unchanged_result inputs result \<and> tr_recommendedQuorumNumerator latest = re_recommendedQuorumNumerator result \<and>
             tr_recommendedProposalThreshold latest = re_recommendedProposalThreshold result \<and> \<not> tr_autoProposed latest
          then Some latest else None)"

definition store_result :: "int \<Rightarrow> AnalyzerInputs \<Rightarrow> RecommendationResult \<Rightarrow> int option \<Rightarrow> tuning_db \<Rightarrow> tuning_db" where
  "store_result now inputs result proposalId db =
     pruneUnchangedRecommendations now 30
       (case consecutive_unchanged db inputs result of
          Some latest \<Rightarrow> touchLatestRecommendation now (tr_id latest) db
        | None \<Rightarrow> insertRecommendation now inputs result proposalId db)"

definition runCycle :: "'w rpc \<Rightarrow> tuning_env \<Rightarrow> int \<Rightarrow> tuning_db \<Rightarrow> 'w session \<Rightarrow> ((client_error + unit) \<times> tuning_db) \<times> 'w session" where
  "runCycle rpc ev now db s =
     (case gatherAnalyzerInputs rpc (or_else (te_indexerUrl ev) ''http://localhost:3002'') (gt_trailingWindow (td_config db)) s of
        (Inl e, s1) \<Rightarrow> ((Inl e, db), s1)
      | (Inr None, s1) \<Rightarrow> ((Inr (), db), s1)
      | (Inr (Some inputs), s1) \<Rightarrow>
          let result = computeRecommendation inputs (td_config db) in
          (case propose_if_due rpc ev db inputs result s1 of
             (Inl e, s2) \<Rightarrow> ((Inl e, db), s2)
           | (Inr proposalId, s2) \<Rightarrow> ((Inr (), store_result now inputs result proposalId db), s2)))"

text \<open>\<open>acquired\<close> is the answer of \<^verbatim>\<open>pg_try_advisory_lock\<close>.\<close>

definition runCycleWithLock ::
  "bool \<Rightarrow> 'w rpc \<Rightarrow> tuning_env \<Rightarrow> int \<Rightarrow> tuning_db \<Rightarrow> 'w session \<Rightarrow> ((client_error + unit) \<times> tuning_db) \<times> 'w session" where
  "runCycleWithLock acquired rpc ev now db s = (if acquired then runCycle rpc ev now db s else ((Inr (), db), s))"

subsection \<open>How far a recommendation goes\<close>

definition tuning_config_ok :: "GovernanceTuningConfig \<Rightarrow> bool" where
  "tuning_config_ok c \<longleftrightarrow> config_error c = None"

lemma config_ok_iff:
  "tuning_config_ok c \<longleftrightarrow> gt_minQuorumNumerator c \<le> gt_maxQuorumNumerator c \<and>
     (\<forall>m. gt_maxProposalThreshold c = Some m \<longrightarrow> gt_minProposalThreshold c \<le> m) \<and>
     0 < gt_maxQuorumDeltaBps c \<and> 0 < gt_maxThresholdDeltaBps c \<and> 0 < gt_intervalMs c \<and> 0 < gt_trailingWindow c"
  by (auto simp: tuning_config_ok_def config_error_def not_less split: option.splits)

lemma put_config_ok: "tuning_config_ok (td_config db) \<Longrightarrow> tuning_config_ok (td_config (snd (put_config secret header now body db)))"
  by (auto simp: put_config_def updateGovernanceTuningConfig_def tuning_config_ok_def split: option.splits prod.splits if_splits)

text \<open>The database after a sequence of requests to change the configuration.\<close>

definition after_requests :: "(string option \<times> (string \<Rightarrow> string option) \<times> int \<times> TuningPatch) list \<Rightarrow> tuning_db \<Rightarrow> tuning_db" where
  "after_requests = fold (\<lambda>(secret, header, now, body) db. snd (put_config secret header now body db))"

lemma after_requests_ok: "tuning_config_ok (td_config db) \<Longrightarrow> tuning_config_ok (td_config (after_requests requests db))"
  unfolding after_requests_def
  by (induction requests arbitrary: db) (auto simp: put_config_ok split: prod.splits)

lemma js_round_mono: "x \<le> y \<Longrightarrow> js_round x \<le> js_round y"
  by (simp add: js_round_def floor_mono)

lemma js_round_of_int [simp]: "js_round (of_int n) = n"
  by (simp add: js_round_def floor_add_int floor_unique)

lemma js_round_nonneg: "0 \<le> x \<Longrightarrow> 0 \<le> js_round x"
  by (simp add: js_round_def)

lemma quorum_in_band:
  assumes "gt_minQuorumNumerator c \<le> ai_currentQuorumNumerator i" "ai_currentQuorumNumerator i \<le> gt_maxQuorumNumerator c" "0 < gt_maxQuorumDeltaBps c"
    and "recommendQuorumNumerator i c = (value, rest)"
  shows "gt_minQuorumNumerator c \<le> value \<and> value \<le> gt_maxQuorumNumerator c \<and> \<bar>value - ai_currentQuorumNumerator i\<bar> \<le> gt_maxQuorumDeltaBps c"
proof -
  let ?d = "min (js_round (\<bar>relative_change (deltas_of (ai_snapshotVotesCast i))\<bar> * 10000)) (gt_maxQuorumDeltaBps c)"
  have "0 \<le> ?d" "?d \<le> gt_maxQuorumDeltaBps c" using assms(3) by (simp_all add: js_round_nonneg)
  then show ?thesis using assms
    by (auto simp: recommendQuorumNumerator_def clamp_def Let_def split: if_splits)
qed

lemma threshold_delta_bounds:
  assumes "0 \<le> rate" "rate \<le> 10000" "0 < cap" "threshold_delta rate cap = (d, delta)"
  shows "0 \<le> delta \<and> delta \<le> cap"
  using assms by (auto simp: threshold_delta_def HIGH_HIT_RATE_BPS_def LOW_HIT_RATE_BPS_def split: if_splits intro!: js_round_nonneg)

lemma hit_rate_bounds:
  assumes "0 \<le> ai_quorumHitCount i" "0 \<le> ai_quorumMissCount i"
  shows "0 \<le> hit_rate i \<and> hit_rate i \<le> 10000"
proof -
  let ?n = "ai_quorumHitCount i + ai_quorumMissCount i"
  have "ai_quorumHitCount i * 10000 div ?n \<le> 10000"
  proof (cases "?n = 0")
    case False
    then have "0 < ?n" using assms by simp
    moreover have "ai_quorumHitCount i * 10000 \<le> 10000 * ?n" using assms by simp
    ultimately show ?thesis by (metis nonzero_mult_div_cancel_right order_less_irrefl zdiv_mono1)
  qed simp
  then show ?thesis using assms by (simp add: hit_rate_def bdiv_nonneg div_int_pos_iff)
qed

lemma bdiv_neg: "bdiv (- a) b = - bdiv a b"
  by (simp add: bdiv_def)

lemma threshold_in_band:
  assumes "gt_minProposalThreshold c \<le> ai_currentProposalThreshold i" "\<And>m. gt_maxProposalThreshold c = Some m \<Longrightarrow> ai_currentProposalThreshold i \<le> m"
    and "0 \<le> ai_currentProposalThreshold i" "0 \<le> ai_quorumHitCount i" "0 \<le> ai_quorumMissCount i" "0 < gt_maxThresholdDeltaBps c"
    and "recommendProposalThreshold i c = (value, rest)"
  shows "gt_minProposalThreshold c \<le> value \<and> (\<forall>m. gt_maxProposalThreshold c = Some m \<longrightarrow> value \<le> m) \<and>
     \<bar>value - ai_currentProposalThreshold i\<bar> * 10000 \<le> ai_currentProposalThreshold i * gt_maxThresholdDeltaBps c"
proof -
  let ?cur = "ai_currentProposalThreshold i"
  obtain d delta where d: "threshold_delta (hit_rate i) (gt_maxThresholdDeltaBps c) = (d, delta)" by (metis prod.exhaust)
  have delta: "0 \<le> delta" "delta \<le> gt_maxThresholdDeltaBps c"
    using threshold_delta_bounds [OF _ _ assms(6) d] hit_rate_bounds [OF assms(4,5)] by auto
  define move where "move = ?cur * delta div 10000"
  have "move * 10000 \<le> ?cur * delta" by (simp add: move_def)
  also have "\<dots> \<le> ?cur * gt_maxThresholdDeltaBps c" using delta assms(3) by (simp add: mult_left_mono)
  finally have move: "0 \<le> move" "move * 10000 \<le> ?cur * gt_maxThresholdDeltaBps c"
    using assms(3) delta by (simp_all add: move_def div_int_pos_iff)
  have moved: "bdiv (?cur * delta) 10000 = move" "bdiv (- (?cur * delta)) 10000 = - move"
    using assms(3) delta by (simp_all add: bdiv_neg bdiv_nonneg move_def)
  have "value = ?cur \<or> value = clampBigint (?cur + move) (gt_minProposalThreshold c) (gt_maxProposalThreshold c) \<or>
      value = clampBigint (?cur - move) (gt_minProposalThreshold c) (gt_maxProposalThreshold c)"
    using assms(7) by (auto simp: recommendProposalThreshold_def d moved Let_def split: if_splits)
  then have "gt_minProposalThreshold c \<le> value \<and> (\<forall>m. gt_maxProposalThreshold c = Some m \<longrightarrow> value \<le> m) \<and> \<bar>value - ?cur\<bar> \<le> move"
    using assms(1,2) move(1) by (auto simp: clampBigint_def split: option.splits)
  moreover from this have "\<bar>value - ?cur\<bar> * 10000 \<le> move * 10000" by simp
  ultimately show ?thesis using move(2) by (blast intro: order_trans)
qed

text \<open>C36: Whatever an administrator sets through the route, starting from the migration's defaults: for settings inside the configured
  bands, a recommendation stays inside them, moves the quorum by at most the cap per cycle, and the threshold by at most its cap in
  basis points of its value.\<close>

theorem recommendation_respects_config:
  assumes "td_config db = default_config" "c = td_config (after_requests requests db)"
    and "gt_minQuorumNumerator c \<le> ai_currentQuorumNumerator i" "ai_currentQuorumNumerator i \<le> gt_maxQuorumNumerator c"
    and "gt_minProposalThreshold c \<le> ai_currentProposalThreshold i" "\<And>m. gt_maxProposalThreshold c = Some m \<Longrightarrow> ai_currentProposalThreshold i \<le> m"
    and "0 \<le> ai_currentProposalThreshold i" "0 \<le> ai_quorumHitCount i" "0 \<le> ai_quorumMissCount i"
    and "r = computeRecommendation i c"
  shows "gt_minQuorumNumerator c \<le> re_recommendedQuorumNumerator r \<and> re_recommendedQuorumNumerator r \<le> gt_maxQuorumNumerator c \<and>
     \<bar>re_recommendedQuorumNumerator r - ai_currentQuorumNumerator i\<bar> \<le> gt_maxQuorumDeltaBps c \<and>
     gt_minProposalThreshold c \<le> re_recommendedProposalThreshold r \<and>
     (\<forall>m. gt_maxProposalThreshold c = Some m \<longrightarrow> re_recommendedProposalThreshold r \<le> m) \<and>
     \<bar>re_recommendedProposalThreshold r - ai_currentProposalThreshold i\<bar> * 10000 \<le> ai_currentProposalThreshold i * gt_maxThresholdDeltaBps c"
proof -
  have "tuning_config_ok c" unfolding assms(2)
    by (rule after_requests_ok) (simp add: assms(1) config_ok_iff default_config_def)
  then have caps: "0 < gt_maxQuorumDeltaBps c" "0 < gt_maxThresholdDeltaBps c" by (simp_all add: config_ok_iff)
  obtain q qr t tr where qt: "recommendQuorumNumerator i c = (q, qr)" "recommendProposalThreshold i c = (t, tr)" by (metis prod.exhaust)
  then have "re_recommendedQuorumNumerator r = q" "re_recommendedProposalThreshold r = t"
    by (simp_all add: assms(10) computeRecommendation_def)
  then show ?thesis
    using quorum_in_band [OF assms(3,4) caps(1) qt(1)] threshold_in_band [OF assms(5,6,7,8,9) caps(2) qt(2)] by simp
qed

theorem recommendation_respects_config_witness:
  "\<exists>r. r = computeRecommendation
       \<lparr>ai_currentQuorumNumerator = 400, ai_currentProposalThreshold = 1000, ai_quorumHitCount = 1, ai_quorumMissCount = 9,
        ai_snapshotVotesCast = [0, 10, 40]\<rparr> default_config \<and>
     100 \<le> re_recommendedQuorumNumerator r \<and> re_recommendedQuorumNumerator r \<le> 5000 \<and> \<bar>re_recommendedQuorumNumerator r - 400\<bar> \<le> 200 \<and>
     \<bar>re_recommendedProposalThreshold r - 1000\<bar> * 10000 \<le> 1000 * 1000"
  using recommendation_respects_config [of "\<lparr>td_config = default_config, td_recommendations = [], td_next_id = 1\<rparr>" default_config "[]"
      "\<lparr>ai_currentQuorumNumerator = 400, ai_currentProposalThreshold = 1000, ai_quorumHitCount = 1, ai_quorumMissCount = 9,
        ai_snapshotVotesCast = [0, 10, 40]\<rparr>"]
  by (simp add: after_requests_def default_config_def)

text \<open>C37: The governor's quorum is a percentage, of which the client and the contract refuse more than 100. Under the defaults of the
  migration a governor whose quorum is between 1 and 100 percent is only ever advised nothing, a quorum that no proposal
  can be built for, or, when participation falls and the advice is to go down, a quorum of 100 percent.\<close>

theorem default_band_misses_percentages:
  assumes "1 \<le> ai_currentQuorumNumerator i" "ai_currentQuorumNumerator i \<le> 100" "r = computeRecommendation i default_config"
  shows "case fst (ra_quorumNumerator (re_rationale r)) of
       Unchanged \<Rightarrow> re_recommendedQuorumNumerator r = ai_currentQuorumNumerator i
     | Down \<Rightarrow> re_recommendedQuorumNumerator r = 100
     | Up \<Rightarrow> re_recommendedQuorumNumerator r = ai_currentQuorumNumerator i + 200 \<and>
         (\<forall>cl settings limits. \<exists>e. buildUpdateConfigProposal cl
            (settings\<lparr>settings_quorumNumerator := Finite (of_int (re_recommendedQuorumNumerator r))\<rparr>) limits = Inl e)"
proof -
  let ?change = "relative_change (deltas_of (ai_snapshotVotesCast i))"
  have cap: "min (js_round (\<bar>?change\<bar> * 10000)) 200 = 200" if "\<not> \<bar>?change\<bar> < TREND_EPSILON"
  proof -
    have "(of_int 200 :: rat) \<le> \<bar>?change\<bar> * 10000" using that by (simp add: TREND_EPSILON_def)
    from js_round_mono [OF this] show ?thesis by (simp only: js_round_of_int min.absorb2)
  qed
  have refused: "\<exists>e. buildUpdateConfigProposal cl (settings\<lparr>settings_quorumNumerator := Finite (of_int n)\<rparr>) limits = Inl e"
    if "100 < n" for n :: int and cl settings limits
  proof -
    have "\<not> js_le (Finite (of_int n)) (Finite 100)" using that by simp
    then show ?thesis by (auto simp: buildUpdateConfigProposal_def validateGovernorSettings_def Let_def)
  qed
  obtain q d why where q: "recommendQuorumNumerator i default_config = (q, d, why)" by (metis prod.exhaust)
  have r: "fst (ra_quorumNumerator (re_rationale r)) = d" "re_recommendedQuorumNumerator r = q"
    by (simp_all add: assms(3) computeRecommendation_def q split: prod.splits)
  have "case d of Unchanged \<Rightarrow> q = ai_currentQuorumNumerator i | Down \<Rightarrow> q = 100 | Up \<Rightarrow> q = ai_currentQuorumNumerator i + 200"
    using q cap assms(1,2)
    by (auto simp: recommendQuorumNumerator_def default_config_def clamp_def Let_def split: if_splits)
  then show ?thesis unfolding r using refused [of q] assms(1) by (cases d) auto
qed

definition rising_inputs :: AnalyzerInputs where
  "rising_inputs = \<lparr>ai_currentQuorumNumerator = 4, ai_currentProposalThreshold = 1000, ai_quorumHitCount = 0, ai_quorumMissCount = 0,
     ai_snapshotVotesCast = [0, 10, 40]\<rparr>"

lemma rising_recommendation:
  "fst (ra_quorumNumerator (re_rationale (computeRecommendation rising_inputs default_config))) = Up"
  "re_recommendedQuorumNumerator (computeRecommendation rising_inputs default_config) = 204"
  by code_simp+

theorem default_band_misses_percentages_witness:
  "re_recommendedQuorumNumerator (computeRecommendation rising_inputs default_config) = 204 \<and>
   (\<forall>cl settings limits. \<exists>e. buildUpdateConfigProposal cl (settings\<lparr>settings_quorumNumerator := Finite 204\<rparr>) limits = Inl e)"
  using default_band_misses_percentages [of rising_inputs, OF _ _ refl] rising_recommendation
  by (simp add: rising_inputs_def)

subsection \<open>The guard against duplicate proposals\<close>

lemma insort_key_last: "f a \<le> f x \<Longrightarrow> insort_key f a (ys @ [x]) = insort_key f a ys @ [x]"
  by (induction ys) auto

lemma sort_key_last: "(\<And>y. y \<in> set xs \<Longrightarrow> f y \<le> f x) \<Longrightarrow> sort_key f (xs @ [x]) = sort_key f xs @ [x]"
  by (induction xs) (auto simp: insort_key_last)

lemma newest_appended:
  assumes "\<And>r. r \<in> set rows \<Longrightarrow> tr_computedAt r \<le> tr_computedAt x \<and> tr_id r < tr_id x"
  shows "newest_recommendations (rows @ [x]) = x # newest_recommendations rows"
proof -
  have "sort_key tr_id (rows @ [x]) = sort_key tr_id rows @ [x]"
    by (rule sort_key_last) (use assms in fastforce)
  moreover have "sort_key tr_computedAt (sort_key tr_id rows @ [x]) = sort_key tr_computedAt (sort_key tr_id rows) @ [x]"
    by (rule sort_key_last) (use assms in simp)
  ultimately show ?thesis by (simp add: newest_recommendations_def)
qed

lemma pending_recorded:
  assumes "findUnresolvedAutoProposal rpc ev db s = (Inr (Some pending), s')"
  shows "\<exists>r \<in> set (td_recommendations db). tr_autoProposed r \<and> tr_proposalId r = Some pending"
proof (cases "newest_recommendations (td_recommendations db)")
  case Nil
  then show ?thesis using assms by (simp add: findUnresolvedAutoProposal_def getLatestRecommendation_def returning_def)
next
  case (Cons latest rest)
  then have "latest \<in> set (newest_recommendations (td_recommendations db))" by simp
  then have "latest \<in> set (td_recommendations db)" by (simp add: newest_recommendations_def)
  moreover have "tr_autoProposed latest \<and> tr_proposalId latest = Some pending"
    using assms Cons
    by (auto simp: findUnresolvedAutoProposal_def getLatestRecommendation_def returning_def and_then_def settle_def
        catching_def split: option.splits if_splits prod.splits sum.splits)
  ultimately show ?thesis by blast
qed

text \<open>A changed recommendation is stored as the newest row, and rows with a proposal are kept.\<close>

lemma changed_result_stored:
  assumes "\<not> unchanged_result inputs result"
    and "\<forall>r \<in> set (td_recommendations db). tr_computedAt r \<le> now \<and> tr_id r < td_next_id db"
    and db'_def: "db' = store_result now inputs result proposalId db"
  shows "\<exists>row. getLatestRecommendation db' = Some row \<and> row \<in> set (td_recommendations db') \<and>
      tr_proposalId row = proposalId \<and> tr_autoProposed row = (proposalId \<noteq> None)"
    and "r \<in> set (td_recommendations db) \<Longrightarrow> tr_autoProposed r \<Longrightarrow> r \<in> set (td_recommendations db')"
    and "\<forall>r \<in> set (td_recommendations db'). tr_computedAt r \<le> now \<and> tr_id r < td_next_id db'"
    and "td_config db' = td_config db"
proof -
  have none: "consecutive_unchanged db inputs result = None"
    using assms(1) by (simp add: consecutive_unchanged_def split: option.split)
  define old where "old = filter (\<lambda>r. \<not> stale_unchanged now 30 r) (td_recommendations db)"
  obtain row where row: "td_recommendations db' = old @ [row]" "tr_computedAt row = now" "tr_id row = td_next_id db"
      "tr_proposalId row = proposalId" "tr_autoProposed row = (proposalId \<noteq> None)"
    using assms(1) none
    by (auto simp: db'_def store_result_def pruneUnchangedRecommendations_def insertRecommendation_def stale_unchanged_def
        unchanged_result_def old_def)
  have next_id: "td_next_id db' = td_next_id db + 1" and "td_config db' = td_config db"
    by (simp_all add: db'_def store_result_def none pruneUnchangedRecommendations_def insertRecommendation_def)
  then show "td_config db' = td_config db" by simp
  have "newest_recommendations (td_recommendations db') = row # newest_recommendations old"
    unfolding row(1) by (rule newest_appended) (use assms(2) row in \<open>auto simp: old_def\<close>)
  then show "\<exists>row. getLatestRecommendation db' = Some row \<and> row \<in> set (td_recommendations db') \<and>
      tr_proposalId row = proposalId \<and> tr_autoProposed row = (proposalId \<noteq> None)"
    using row by (simp add: getLatestRecommendation_def)
  show "r \<in> set (td_recommendations db')" if "r \<in> set (td_recommendations db)" "tr_autoProposed r"
    using that row(1) by (simp add: old_def stale_unchanged_def)
  show "\<forall>r \<in> set (td_recommendations db'). tr_computedAt r \<le> now \<and> tr_id r < td_next_id db'"
    using row assms(2) next_id by (fastforce simp: old_def)
qed

text \<open>C15: The guard looks at the newest recommendation only. A cycle that holds its proposal back, because the one proposed before
  is still in flight, records its own recommendation, without a proposal; from then on the guard finds nothing in flight. The
  next cycle that has something to recommend and whose proposal the network takes makes a second proposal and records
  it beside the first, whatever has become of the first.\<close>

theorem guard_forgets_pending_proposal:
  assumes "\<And>r. r \<in> set (td_recommendations db) \<Longrightarrow> tr_computedAt r \<le> now \<and> tr_id r < td_next_id db" "now \<le> now'"
    and "gt_autoPropose (td_config db)"
    and "gatherAnalyzerInputs rpc (or_else (te_indexerUrl ev) ''http://localhost:3002'') (gt_trailingWindow (td_config db)) s = (Inr (Some inputs), s1)"
    and "\<not> unchanged_result inputs (computeRecommendation inputs (td_config db))"
    and "findUnresolvedAutoProposal rpc ev db s1 = (Inr (Some pending), s2)"
    and "gatherAnalyzerInputs rpc (or_else (te_indexerUrl ev) ''http://localhost:3002'') (gt_trailingWindow (td_config db)) s3 = (Inr (Some inputs'), s4)"
    and "\<not> unchanged_result inputs' (computeRecommendation inputs' (td_config db))"
    and "maybeAutoPropose rpc ev inputs' (computeRecommendation inputs' (td_config db)) s4 = (Inr (Some second), s5)"
  shows "\<exists>db' db''. runCycle rpc ev now db s = ((Inr (), db'), s2) \<and>
    (\<forall>s'. findUnresolvedAutoProposal rpc ev db' s' = (Inr None, s')) \<and>
    runCycle rpc ev now' db' s3 = ((Inr (), db''), s5) \<and>
    (\<exists>r \<in> set (td_recommendations db''). tr_autoProposed r \<and> tr_proposalId r = Some pending) \<and>
    (\<exists>r. getLatestRecommendation db'' = Some r \<and> tr_autoProposed r \<and> tr_proposalId r = Some second)"
proof -
  let ?result = "computeRecommendation inputs (td_config db)"
  let ?result' = "computeRecommendation inputs' (td_config db)"
  define db' where "db' = store_result now inputs ?result None db"
  define db'' where "db'' = store_result now' inputs' ?result' (Some second) db'"
  have dated: "\<forall>r \<in> set (td_recommendations db). tr_computedAt r \<le> now \<and> tr_id r < td_next_id db" using assms(1) by blast
  note stored = changed_result_stored [OF assms(5) dated db'_def]
  have "propose_if_due rpc ev db inputs ?result s1 = (Inr None, s2)"
    using assms(3,5,6) by (simp add: propose_if_due_def and_then_def returning_def)
  then have run: "runCycle rpc ev now db s = ((Inr (), db'), s2)" by (simp add: runCycle_def assms(4) Let_def db'_def)
  have blind: "findUnresolvedAutoProposal rpc ev db' s' = (Inr None, s')" for s'
    using stored(1) by (auto simp: findUnresolvedAutoProposal_def returning_def)
  then have "propose_if_due rpc ev db' inputs' ?result' s4 = (Inr (Some second), s5)"
    using assms(3,8,9) stored(4) by (simp add: propose_if_due_def and_then_def catching_def)
  then have again: "runCycle rpc ev now' db' s3 = ((Inr (), db''), s5)"
    by (simp add: runCycle_def assms(7) stored(4) Let_def db''_def)
  have dated': "\<forall>r \<in> set (td_recommendations db'). tr_computedAt r \<le> now' \<and> tr_id r < td_next_id db'"
    using stored(3) assms(2) by fastforce
  note stored' = changed_result_stored [OF assms(8) dated' db''_def]
  from pending_recorded [OF assms(6)] have "\<exists>r \<in> set (td_recommendations db''). tr_autoProposed r \<and> tr_proposalId r = Some pending"
    using stored(2) stored'(2) by blast
  with run blind again stored'(1) show ?thesis by auto
qed

text \<open>A node where proposal 7 is active and a new one gets the number 8, an indexer whose participation rises, and a configuration
  whose band are percentages.\<close>

definition tuned_node :: "nat rpc" where
  "tuned_node = (steady_node ''h'' (returns None) (TxDone (Some (JBigint 8))))\<lparr>
     rp_simulate := (\<lambda>tx n. (Inr (returns (Some (
        if in_method tx = ''get_settings''
        then JObject [(''vote_type'', JArray [JString ''Extended'']), (''voting_delay'', JNumber 10), (''voting_period'', JNumber 100),
          (''quorum_numerator'', JNumber 4), (''proposal_threshold'', JBigint 1000), (''min_quorum_usd'', JBigint 0),
          (''guardian'', JString ''G9'')]
        else JArray [JString ''Active'']))), n)),
     rp_fetch := (\<lambda>request n.
     (Inr \<lparr>hr_status = 200, hr_statusText = ''OK'', hr_json = Inr (
        if hq_url request = ''http://localhost:3002/analytics/all-time-stats''
        then JObject [(''quorum_hit_count'', JString ''0''), (''quorum_miss_count'', JString ''0'')]
        else if hq_url request = ''http://localhost:3002/config-history?limit=1''
        then JObject [(''data'', JArray [JObject [(''new_settings'', JObject [(''quorum_numerator'', JNumber 4), (''proposal_threshold'', JString ''1000'')])]])]
        else JObject [(''data'', JArray (map (\<lambda>v. JObject [(''total_votes_cast'', JString v)]) [''40'', ''10'', ''0'']))])\<rparr>, n))\<rparr>"

definition tuned_env :: tuning_env where
  "tuned_env =
     \<lparr>te_secret = Some ''S1'', te_governor = Some ''CG'', te_votes = Some ''CV'', te_timelock = Some ''CT'', te_network = None, te_rpcUrl = None,
      te_indexerUrl = None,
      te_stellar = \<lparr>st_passphrase = (\<lambda>_. ''test''), st_openServer = (\<lambda>_. None), st_openContract = (\<lambda>_. None)\<rparr>,
      te_fromSecret = (\<lambda>_. Inr ''G1''), te_sha256 = (\<lambda>_. replicate 32 0), te_xdr = (\<lambda>_. [7])\<rparr>"

definition percent_config :: GovernanceTuningConfig where
  "percent_config = default_config\<lparr>gt_minQuorumNumerator := 1, gt_maxQuorumNumerator := 100, gt_maxQuorumDeltaBps := 2, gt_autoPropose := True\<rparr>"

definition proposed_row :: tuning_row where
  "proposed_row =
     \<lparr>tr_id = 1, tr_computedAt = 0, tr_currentQuorumNumerator = 4, tr_recommendedQuorumNumerator = 6, tr_currentProposalThreshold = 1000,
      tr_recommendedProposalThreshold = 1000, tr_rationale = re_rationale (computeRecommendation rising_inputs percent_config),
      tr_autoProposed = True, tr_proposalId = Some 7\<rparr>"

definition proposed_db :: tuning_db where
  "proposed_db = \<lparr>td_config = percent_config, td_recommendations = [proposed_row], td_next_id = 2\<rparr>"

definition second_proposal :: "(client_error + int option) \<times> nat session" where
  "second_proposal = maybeAutoPropose tuned_node tuned_env rising_inputs (computeRecommendation rising_inputs percent_config) fresh_session"

lemma tuned_gather: "gatherAnalyzerInputs tuned_node ''http://localhost:3002'' 10 fresh_session = (Inr (Some rising_inputs), fresh_session)"
  by code_simp

lemma tuned_pending: "findUnresolvedAutoProposal tuned_node tuned_env proposed_db fresh_session = (Inr (Some 7), fresh_session)"
  by code_simp

lemma tuned_second: "fst second_proposal = Inr (Some 8)" "map (in_method \<circ> fst) (ss_sent (snd second_proposal)) = [''propose'']"
  by code_simp+

theorem guard_forgets_pending_proposal_witness:
  "\<exists>db' db''. runCycle tuned_node tuned_env 60000 proposed_db fresh_session = ((Inr (), db'), fresh_session) \<and>
    runCycle tuned_node tuned_env 120000 db' fresh_session = ((Inr (), db''), snd second_proposal) \<and>
    (\<exists>r \<in> set (td_recommendations db''). tr_proposalId r = Some 7) \<and>
    (\<exists>r. getLatestRecommendation db'' = Some r \<and> tr_proposalId r = Some 8) \<and>
    map (in_method \<circ> fst) (ss_sent (snd second_proposal)) = [''propose'']"
proof -
  have config: "td_config proposed_db = percent_config" "gt_trailingWindow percent_config = 10" "gt_autoPropose percent_config"
    by (simp_all add: proposed_db_def percent_config_def default_config_def)
  have changed: "\<not> unchanged_result rising_inputs (computeRecommendation rising_inputs (td_config proposed_db))" by code_simp
  have gather: "gatherAnalyzerInputs tuned_node (or_else (te_indexerUrl tuned_env) ''http://localhost:3002'')
      (gt_trailingWindow (td_config proposed_db)) fresh_session = (Inr (Some rising_inputs), fresh_session)"
    by (simp add: tuned_env_def or_else_def config tuned_gather)
  have second: "maybeAutoPropose tuned_node tuned_env rising_inputs (computeRecommendation rising_inputs (td_config proposed_db)) fresh_session =
      (Inr (Some 8), snd second_proposal)"
    unfolding config(1) second_proposal_def [symmetric] by (metis prod.collapse tuned_second(1))
  from guard_forgets_pending_proposal [OF _ _ _ gather changed tuned_pending gather changed second, of 60000 120000]
  show ?thesis using tuned_second(2) config by (fastforce simp: proposed_db_def proposed_row_def)
qed

end
